(* ===== verification/Prelude.thy ===== *)
theory Prelude
  imports Main "HOL-Library.Sublist" "HOL-Library.Code_Target_Numeral"
begin

text \<open>
  Shared vocabulary of the development: error values for the exceptions the
  program raises, the result type every fallible operation returns, insertion
  ordered dictionaries as association lists, and the generic contract of a
  state machine whose steps keep an invariant.
\<close>

section \<open>Errors as values\<close>

text \<open>
  Every \<open>raise\<close> of the modelled code is a constructor of this type with the
  message, activity or action the code puts into the exception; a \<open>HackerOneError\<close> also has its
  code. The message of an error that the
  Python library raises is shortened to its fixed part.
\<close>

datatype error =
    ValueError string
  | RestrictedActivityError string
  | SafetyLimitExceededError string
  | ApprovalRequiredError string
  | AuthorizationDeniedError string
  | HttpUnauthorized string
  | HttpForbidden string
  | InvalidDecisionError string
  | IllegalTransitionError string
  | TypeError string
  | AttributeError string
  | ZeroDivisionError string
  | RuntimeError string
  | BudgetExceededError string
  | HackerOneError string string

text \<open>\<open>str(exc)\<close>. A restricted activity is quoted as \<open>repr\<close> quotes a text without quotes.\<close>

fun error_text :: "error \<Rightarrow> string" where
  "error_text (ValueError m) = m"
| "error_text (RestrictedActivityError m) =
     ''Activity '' @ [CHR 0x27] @ m @ [CHR 0x27] @ '' is forbidden. BugForge does not perform it.''"
| "error_text (SafetyLimitExceededError m) = m"
| "error_text (ApprovalRequiredError m) = ''Human approval is required before '' @ m @ ''.''"
| "error_text (AuthorizationDeniedError m) = m"
| "error_text (HttpUnauthorized m) = m"
| "error_text (HttpForbidden m) = m"
| "error_text (InvalidDecisionError m) = m"
| "error_text (IllegalTransitionError m) = m"
| "error_text (TypeError m) = m"
| "error_text (AttributeError m) = m"
| "error_text (ZeroDivisionError m) = m"
| "error_text (RuntimeError m) = m"
| "error_text (BudgetExceededError m) = m"
| "error_text (HackerOneError m code) = m"

type_synonym 'a result = "error + 'a"

fun is_ok :: "'a result \<Rightarrow> bool" where
  "is_ok (Inl e) = False"
| "is_ok (Inr x) = True"

fun then_do :: "'a result \<Rightarrow> ('a \<Rightarrow> 'b result) \<Rightarrow> 'b result" where
  "then_do (Inl e) f = Inl e"
| "then_do (Inr x) f = f x"

lemma then_do_Inr [simp]: "then_do r f = Inr y \<longleftrightarrow> (\<exists>x. r = Inr x \<and> f x = Inr y)"
  by (cases r) auto

lemma is_ok_iff: "is_ok r \<longleftrightarrow> (\<exists>x. r = Inr x)"
  by (cases r) auto

section \<open>Dictionaries\<close>

text \<open>
  A Python dictionary keeps insertion order. It is an association list with
  distinct keys; assignment to a present key keeps the key's place.
\<close>

type_synonym ('k, 'v) dict = "('k \<times> 'v) list"

fun dict_set :: "'k \<Rightarrow> 'v \<Rightarrow> ('k, 'v) dict \<Rightarrow> ('k, 'v) dict" where
  "dict_set k v [] = [(k, v)]"
| "dict_set k v ((k', v') # d) = (if k' = k then (k, v) # d else (k', v') # dict_set k v d)"

definition dict_get :: "('k, 'v) dict \<Rightarrow> 'k \<Rightarrow> 'v \<Rightarrow> 'v" where
  "dict_get d k v = (case map_of d k of None \<Rightarrow> v | Some w \<Rightarrow> w)"

definition dict_keys :: "('k, 'v) dict \<Rightarrow> 'k list" where
  "dict_keys d = List.map fst d"

definition dict_drop :: "'k list \<Rightarrow> ('k, 'v) dict \<Rightarrow> ('k, 'v) dict" where
  "dict_drop ks d = filter (\<lambda>(k, v). k \<notin> set ks) d"

lemma map_of_dict_set [simp]: "map_of (dict_set k v d) = (map_of d)(k \<mapsto> v)"
  by (induction d) (auto simp: fun_eq_iff)

lemma keys_dict_set [simp]: "fst ` set (dict_set k v d) = insert k (fst ` set d)"
  by (induction k v d rule: dict_set.induct) (simp_all, blast)

lemma distinct_dict_set: "distinct (List.map fst d) \<Longrightarrow> distinct (List.map fst (dict_set k v d))"
  by (induction k v d rule: dict_set.induct) auto

lemma dict_set_same: "map_of d k = Some v \<Longrightarrow> dict_set k v d = d"
  by (induction d) auto

lemma dict_get_set [simp]: "dict_get (dict_set k v d) k' w = (if k' = k then v else dict_get d k' w)"
  by (simp add: dict_get_def)

lemma dict_get_Nil [simp]: "dict_get [] k v = v"
  by (simp add: dict_get_def)

lemma map_of_dict_drop [simp]:
  "map_of (dict_drop ks d) k = (if k \<in> set ks then None else map_of d k)"
  by (induction d) (auto simp: dict_drop_def)

section \<open>Lists\<close>

text \<open>Python's \<open>dict.fromkeys\<close> and set-building loops: first occurrences, in order.\<close>

fun first_occurrences :: "'a list \<Rightarrow> 'a list" where
  "first_occurrences [] = []"
| "first_occurrences (x # xs) = x # first_occurrences (removeAll x xs)"

text \<open>The first element with a property, as \<open>next((x for x in xs if p(x)), None)\<close>.\<close>

lemma find_Some_prop: "List.find p xs = Some x \<Longrightarrow> p x \<and> x \<in> set xs"
  by (induction xs) (auto split: if_splits)

lemma find_None_all: "List.find p xs = None \<longleftrightarrow> (\<forall>x\<in>set xs. \<not> p x)"
  by (auto simp: find_None_iff)

lemma find_cong_set: "(\<And>x. x \<in> set xs \<Longrightarrow> p x = q x) \<Longrightarrow> List.find p xs = List.find q xs"
  by (induction xs) auto

lemma find_Some_split:
  "List.find p xs = Some x \<longleftrightarrow> (\<exists>ys zs. xs = ys @ x # zs \<and> p x \<and> (\<forall>y\<in>set ys. \<not> p y))"
  (is "?l \<longleftrightarrow> ?r")
proof
  show "?l \<Longrightarrow> ?r"
  proof (induction xs)
    case (Cons a xs)
    show ?case
    proof (cases "p a")
      case False
      with Cons obtain ys zs where "xs = ys @ x # zs" "p x" "\<forall>y\<in>set ys. \<not> p y" by auto
      with False have "a # xs = (a # ys) @ x # zs \<and> p x \<and> (\<forall>y\<in>set (a # ys). \<not> p y)" by simp
      then show ?thesis by blast
    next
      case True
      with Cons.prems have "a # xs = [] @ x # xs \<and> p x \<and> (\<forall>y\<in>set []. \<not> p y)" by simp
      then show ?thesis by blast
    qed
  qed simp
  have "\<forall>y\<in>set ys. \<not> p y \<Longrightarrow> p x \<Longrightarrow> List.find p (ys @ x # zs) = Some x" for ys zs
    by (induction ys) auto
  then show "?r \<Longrightarrow> ?l" by blast
qed

section \<open>Collisions\<close>

text \<open>
  Every hash function to texts of one length has collisions. What a property about hashes says
  is that one of the texts the program hashed would have to be part of one, so it names them.
\<close>

definition collides :: "(string \<Rightarrow> string) \<Rightarrow> string \<Rightarrow> string \<Rightarrow> bool" where
  "collides h s t \<longleftrightarrow> s \<noteq> t \<and> h s = h t"

section \<open>Hierarchical matching\<close>

text \<open>
  Paths match a prefix and hosts match a wildcard in the same way: each side has a key,
  a list of components, and a candidate matches a pattern when the pattern's key is a
  prefix of its own.
\<close>

locale prefix_matcher =
  fixes key :: "'s \<Rightarrow> 'k list"
    and matches :: "'s \<Rightarrow> 's \<Rightarrow> bool"
  assumes matches_key: "matches a b \<longleftrightarrow> prefix (key b) (key a)"
begin

lemma matches_refl: "matches a a"
  by (simp add: matches_key)

lemma matches_trans: "matches a b \<Longrightarrow> matches b c \<Longrightarrow> matches a c"
  using prefix_order.trans by (auto simp: matches_key)

lemma matches_antisym: "matches a b \<Longrightarrow> matches b a \<Longrightarrow> key a = key b"
  by (simp add: matches_key prefix_order.antisym)

text \<open>Two patterns that match one candidate are nested.\<close>

lemma matches_nested: "matches a b \<Longrightarrow> matches a c \<Longrightarrow> matches b c \<or> matches c b"
  unfolding matches_key using prefix_same_cases by blast

end

section \<open>State machines with an invariant\<close>

text \<open>
  The contract shared by the stateful components: operations are labelled steps
  on a state, a start predicate, and an invariant that the start states have and
  every step keeps. A component interprets it with its own operations; its
  properties of whole runs then come from \<open>run_invariant\<close>.
\<close>

fun run_ops :: "('s \<Rightarrow> 'op \<Rightarrow> 's) \<Rightarrow> 's \<Rightarrow> 'op list \<Rightarrow> 's" where
  "run_ops f s [] = s"
| "run_ops f s (x # xs) = run_ops f (f s x) xs"

lemma run_ops_append: "run_ops f s (xs @ ys) = run_ops f (run_ops f s xs) ys"
  by (induction xs arbitrary: s) auto

locale guarded_machine =
  fixes init :: "'s \<Rightarrow> bool"
    and step :: "'s \<Rightarrow> 'op \<Rightarrow> 's"
    and guard :: "'s \<Rightarrow> 'op \<Rightarrow> bool"
    and inv :: "'s \<Rightarrow> bool"
  assumes init_inv: "init s \<Longrightarrow> inv s"
    and step_inv: "inv s \<Longrightarrow> guard s x \<Longrightarrow> inv (step s x)"
begin

fun guarded_run :: "'s \<Rightarrow> 'op list \<Rightarrow> bool" where
  "guarded_run s [] = True"
| "guarded_run s (x # xs) = (guard s x \<and> guarded_run (step s x) xs)"

lemma run_keeps: "inv s \<Longrightarrow> guarded_run s xs \<Longrightarrow> inv (run_ops step s xs)"
  by (induction xs arbitrary: s) (auto intro: step_inv)

lemma run_invariant: "init s \<Longrightarrow> guarded_run s xs \<Longrightarrow> inv (run_ops step s xs)"
  by (rule run_keeps [OF init_inv])

end

locale machine = guarded_machine init step "\<lambda>s x. True" inv
  for init :: "'s \<Rightarrow> bool" and step :: "'s \<Rightarrow> 'op \<Rightarrow> 's" and inv :: "'s \<Rightarrow> bool"
begin

lemma always_guarded: "guarded_run s xs"
  by (induction xs arbitrary: s) auto

lemma run_always: "init s \<Longrightarrow> inv (run_ops step s xs)"
  by (rule run_invariant [OF _ always_guarded])

end

end
