(* ===== verification/PyStr.thy ===== *)
theory PyStr
  imports Prelude
begin

text \<open>
  The string operations of the Python standard library that the program uses.
  A Python string is modelled by the bytes of its UTF-8 encoding, one \<open>char\<close> per
  byte. Case mapping, digits and white space are those of ASCII; the other bytes
  are carried unchanged.
\<close>

section \<open>Characters\<close>

definition ws_chars :: string where
  "ws_chars = [CHR 0x09, CHR 0x0A, CHR 0x0B, CHR 0x0C, CHR 0x0D,
               CHR 0x1C, CHR 0x1D, CHR 0x1E, CHR 0x1F, CHR 0x20]"

definition is_ws :: "char \<Rightarrow> bool" where
  "is_ws c \<longleftrightarrow> c \<in> set ws_chars"

definition upper_letters :: string where "upper_letters = ''ABCDEFGHIJKLMNOPQRSTUVWXYZ''"
definition lower_letters :: string where "lower_letters = ''abcdefghijklmnopqrstuvwxyz''"
definition digit_chars :: string where "digit_chars = ''0123456789''"
definition hex_chars :: string where "hex_chars = ''0123456789abcdef''"

definition lower_char :: "char \<Rightarrow> char" where
  "lower_char c = (case map_of (zip upper_letters lower_letters) c of None \<Rightarrow> c | Some d \<Rightarrow> d)"

definition upper_char :: "char \<Rightarrow> char" where
  "upper_char c = (case map_of (zip lower_letters upper_letters) c of None \<Rightarrow> c | Some d \<Rightarrow> d)"

definition is_digit :: "char \<Rightarrow> bool" where "is_digit c \<longleftrightarrow> c \<in> set digit_chars"
definition is_alpha :: "char \<Rightarrow> bool" where
  "is_alpha c \<longleftrightarrow> c \<in> set upper_letters \<or> c \<in> set lower_letters"
definition is_hex :: "char \<Rightarrow> bool" where "is_hex c \<longleftrightarrow> lower_char c \<in> set hex_chars"

definition digit_val :: "char \<Rightarrow> nat" where
  "digit_val c = (case map_of (zip digit_chars [0..<10]) c of None \<Rightarrow> 0 | Some n \<Rightarrow> n)"

definition hex_val :: "char \<Rightarrow> nat" where
  "hex_val c = (case map_of (zip hex_chars [0..<16]) (lower_char c) of None \<Rightarrow> 0 | Some n \<Rightarrow> n)"

section \<open>Strings\<close>

definition py_lower :: "string \<Rightarrow> string" where "py_lower s = map lower_char s"
definition py_upper :: "string \<Rightarrow> string" where "py_upper s = map upper_char s"

definition lstrip_by :: "(char \<Rightarrow> bool) \<Rightarrow> string \<Rightarrow> string" where
  "lstrip_by p s = dropWhile p s"

definition rstrip_by :: "(char \<Rightarrow> bool) \<Rightarrow> string \<Rightarrow> string" where
  "rstrip_by p s = rev (dropWhile p (rev s))"

definition py_strip :: "string \<Rightarrow> string" where
  "py_strip s = rstrip_by is_ws (lstrip_by is_ws s)"

definition py_rstrip_char :: "char \<Rightarrow> string \<Rightarrow> string" where
  "py_rstrip_char c s = rstrip_by (\<lambda>x. x = c) s"

definition startswith :: "string \<Rightarrow> string \<Rightarrow> bool" where
  "startswith s p \<longleftrightarrow> prefix p s"

definition endswith :: "string \<Rightarrow> string \<Rightarrow> bool" where
  "endswith s p \<longleftrightarrow> suffix p s"

lemma rstrip_by_id: "s = [] \<or> \<not> p (last s) \<Longrightarrow> rstrip_by p s = s"
  by (cases s rule: rev_cases) (auto simp: rstrip_by_def)

text \<open>\<open>p in s\<close> for strings.\<close>

fun py_contains :: "string \<Rightarrow> string \<Rightarrow> bool" where
  "py_contains s p = (prefix p s \<or> (case s of [] \<Rightarrow> False | _ # t \<Rightarrow> py_contains t p))"

declare py_contains.simps [simp del]

text \<open>\<open>s.split(c)\<close>: always at least one field.\<close>

fun py_split :: "char \<Rightarrow> string \<Rightarrow> string list" where
  "py_split c [] = [[]]"
| "py_split c (x # xs) =
     (if x = c then [] # py_split c xs
      else (case py_split c xs of [] \<Rightarrow> [[x]] | f # fs \<Rightarrow> (x # f) # fs))"

fun py_join :: "string \<Rightarrow> string list \<Rightarrow> string" where
  "py_join sep [] = []"
| "py_join sep [x] = x"
| "py_join sep (x # y # xs) = x @ sep @ py_join sep (y # xs)"

definition py_replace_char :: "char \<Rightarrow> char \<Rightarrow> string \<Rightarrow> string" where
  "py_replace_char a b s = map (\<lambda>x. if x = a then b else x) s"

text \<open>Fields and the text they come from determine each other.\<close>

lemma py_split_nonempty [simp]: "py_split c s \<noteq> []"
  by (induction s) (auto split: list.splits)

lemma py_split_Cons:
  "x \<noteq> c \<Longrightarrow> py_split c (x # xs) = (x # hd (py_split c xs)) # tl (py_split c xs)"
  by (cases "py_split c xs") auto

lemma py_split_append_sep: "py_split c (a @ c # b) = py_split c a @ py_split c b"
proof (induction a)
  case (Cons x a)
  then show ?case
  proof (cases "x = c")
    case False
    then show ?thesis using Cons py_split_nonempty [of c a]
      by (simp add: py_split_Cons del: py_split.simps(2) py_split_nonempty)
  qed simp
qed simp

lemma py_join_split: "py_join [c] (py_split c s) = s"
proof (induction s)
  case (Cons x s)
  obtain f fs where s: "py_split c s = f # fs" by (cases "py_split c s") auto
  with Cons show ?case by (cases fs) auto
qed simp

lemma py_split_inj: "py_split c a = py_split c b \<longleftrightarrow> a = b"
  by (metis py_join_split)

lemma py_split_no_sep: "f \<in> set (py_split c s) \<Longrightarrow> c \<notin> set f"
proof (induction s arbitrary: f)
  case (Cons x s)
  then show ?case by (cases "py_split c s") (auto split: if_splits)
qed simp

lemma py_split_join:
  "\<lbrakk>xs \<noteq> []; \<forall>f\<in>set xs. c \<notin> set f\<rbrakk> \<Longrightarrow> py_split c (py_join [c] xs) = xs"
proof (induction "[c]" xs rule: py_join.induct)
  case (2 x)
  then have "py_split c x = [x]" 
    by (induction x) (auto)
  then show ?case by simp
next
  case (3 x y xs)
  have "py_split c x = [x]" using 3(3) by (induction x) (auto)
  with 3 show ?case by (simp add: py_split_append_sep)
qed simp

lemma py_join_append:
  "xs \<noteq> [] \<Longrightarrow> ys \<noteq> [] \<Longrightarrow> py_join sep (xs @ ys) = py_join sep xs @ sep @ py_join sep ys"
proof (induction sep xs rule: py_join.induct)
  case (2 sep x) then show ?case by (cases ys) auto
qed auto

text \<open>A prefix that ends at a separator is a prefix of the fields.\<close>

lemma split_prefix_iff:
  "prefix (py_split c a) (py_split c b) \<longleftrightarrow> b = a \<or> prefix (a @ [c]) b"
proof
  assume "prefix (py_split c a) (py_split c b)"
  then obtain r where r: "py_split c b = py_split c a @ r" by (auto elim: prefixE)
  show "b = a \<or> prefix (a @ [c]) b"
  proof (cases "r = []")
    case True then show ?thesis using r by (simp add: py_split_inj)
  next
    case False
    then have "b = a @ [c] @ py_join [c] r"
      using py_join_append [of "py_split c a" r "[c]"] r py_join_split [of c b] py_join_split [of c a]
      by simp
    then show ?thesis by (auto simp: prefix_def)
  qed
next
  assume "b = a \<or> prefix (a @ [c]) b"
  then show "prefix (py_split c a) (py_split c b)"
    by (auto simp: prefix_def py_split_append_sep)
qed

lemma split_suffix_iff:
  "suffix (py_split c a) (py_split c b) \<longleftrightarrow> b = a \<or> suffix (c # a) b"
proof
  assume "suffix (py_split c a) (py_split c b)"
  then obtain r where r: "py_split c b = r @ py_split c a" by (auto elim: suffixE)
  show "b = a \<or> suffix (c # a) b"
  proof (cases "r = []")
    case True then show ?thesis using r by (simp add: py_split_inj)
  next
    case False
    then have "b = py_join [c] r @ [c] @ a"
      using py_join_append [of r "py_split c a" "[c]"] r py_join_split [of c b] py_join_split [of c a]
      by simp
    then show ?thesis by (auto simp: suffix_def)
  qed
next
  assume "b = a \<or> suffix (c # a) b"
  then show "suffix (py_split c a) (py_split c b)"
    by (auto simp: suffix_def py_split_append_sep)
qed

text \<open>\<open>s.partition(c)\<close> and \<open>s.rpartition(c)\<close>; the middle part says whether \<open>c\<close> was found.\<close>

definition py_partition :: "char \<Rightarrow> string \<Rightarrow> string \<times> bool \<times> string" where
  "py_partition c s =
     (let a = takeWhile (\<lambda>x. x \<noteq> c) s; r = dropWhile (\<lambda>x. x \<noteq> c) s
      in (case r of [] \<Rightarrow> (a, False, []) | _ # t \<Rightarrow> (a, True, t)))"

definition py_rpartition :: "char \<Rightarrow> string \<Rightarrow> string \<times> bool \<times> string" where
  "py_rpartition c s =
     (let t = rev (takeWhile (\<lambda>x. x \<noteq> c) (rev s)); r = dropWhile (\<lambda>x. x \<noteq> c) (rev s)
      in (case r of [] \<Rightarrow> ([], False, t) | _ # a \<Rightarrow> (rev a, True, t)))"

text \<open>\<open>s.split()\<close>: maximal runs of characters that are not white space.\<close>

fun ws_fields :: "string \<Rightarrow> string \<Rightarrow> string list" where
  "ws_fields acc [] = (if acc = [] then [] else [rev acc])"
| "ws_fields acc (x # xs) =
     (if is_ws x then (if acc = [] then ws_fields [] xs else rev acc # ws_fields [] xs)
      else ws_fields (x # acc) xs)"

definition py_split_ws :: "string \<Rightarrow> string list" where
  "py_split_ws s = ws_fields [] s"

text \<open>The idiom \<open>" ".join(s.split())\<close>.\<close>

definition squash_ws :: "string \<Rightarrow> string" where
  "squash_ws s = py_join '' '' (py_split_ws s)"

text \<open>\<open>len(s)\<close>: the number of characters, that is of bytes that start one.\<close>

definition py_len :: "string \<Rightarrow> nat" where
  "py_len s = length (filter (\<lambda>c. of_char c < (128 :: nat) \<or> (192 :: nat) \<le> of_char c) s)"

definition or_text :: "string \<Rightarrow> string \<Rightarrow> string" where
  "or_text a b = (if a = [] then b else a)"

section \<open>Numbers\<close>

fun digits_val :: "nat \<Rightarrow> string \<Rightarrow> nat" where
  "digits_val acc [] = acc"
| "digits_val acc (c # cs) = digits_val (10 * acc + digit_val c) cs"

definition nat_of_text :: "string \<Rightarrow> nat" where
  "nat_of_text s = digits_val 0 s"

definition all_digits :: "string \<Rightarrow> bool" where
  "all_digits s \<longleftrightarrow> s \<noteq> [] \<and> list_all is_digit s"

fun show_nat :: "nat \<Rightarrow> string" where
  "show_nat n = (if n < 10 then [digit_chars ! n]
                 else show_nat (n div 10) @ [digit_chars ! (n mod 10)])"

declare show_nat.simps [simp del]

definition show_int :: "int \<Rightarrow> string" where
  "show_int i = (if i < 0 then CHR ''-'' # show_nat (nat (- i)) else show_nat (nat i))"

text \<open>Base 16 without leading zeros (\<open>'%x' % n\<close>) and with a fixed number of digits.\<close>

fun hex_nat :: "nat \<Rightarrow> string" where
  "hex_nat n = (if n < 16 then [hex_chars ! n]
                else hex_nat (n div 16) @ [hex_chars ! (n mod 16)])"

declare hex_nat.simps [simp del]

fun hex_fixed :: "nat \<Rightarrow> nat \<Rightarrow> string" where
  "hex_fixed 0 n = []"
| "hex_fixed (Suc k) n = hex_fixed k (n div 16) @ [hex_chars ! (n mod 16)]"

fun hex_read :: "nat \<Rightarrow> string \<Rightarrow> nat" where
  "hex_read acc [] = acc"
| "hex_read acc (c # cs) = hex_read (16 * acc + hex_val c) cs"

end
