(* ===== verification/Clock.thy ===== *)
theory Clock
  imports PyStr Complex_Main
begin

text \<open>
  Instants and how the program writes them. A \<open>datetime\<close> is the number of microseconds since
  1970-01-01T00:00:00 UTC; a value without a time zone is read as UTC, as the code does. Every
  reading of a clock is an argument of the operation that reads it. A duration in seconds, a
  \<open>float\<close> in the code, is a rational.
\<close>

type_synonym instant = int

text \<open>\<open>timedelta(seconds=x)\<close>: microseconds, rounded half to even.\<close>

definition round_half_even :: "rat \<Rightarrow> int" where
  "round_half_even x =
     (let f = \<lfloor>x\<rfloor>; r = x - of_int f in
      if r < 1/2 then f else if 1/2 < r then f + 1 else if even f then f else f + 1)"

definition seconds :: "rat \<Rightarrow> int" where
  "seconds x = round_half_even (x * 1000000)"

text \<open>The civil date of a day number (days since 1970-01-01), by 400-year eras.\<close>

definition civil :: "int \<Rightarrow> int \<times> int \<times> int" where
  "civil d =
     (let z = d + 719468;
          era = z div 146097;
          doe = z mod 146097;
          yoe = (doe - doe div 1460 + doe div 36524 - doe div 146096) div 365;
          doy = doe - (365 * yoe + yoe div 4 - yoe div 100);
          mp = (5 * doy + 2) div 153;
          m = (if mp < 10 then mp + 3 else mp - 9)
      in (yoe + era * 400 + (if m \<le> 2 then 1 else 0), m, doy - (153 * mp + 2) div 5 + 1))"

fun pad_nat :: "nat \<Rightarrow> nat \<Rightarrow> string" where
  "pad_nat 0 n = []"
| "pad_nat (Suc k) n = pad_nat k (n div 10) @ [digit_chars ! (n mod 10)]"

text \<open>\<open>datetime.isoformat()\<close> in UTC; the fraction is written only when it is not zero.\<close>

definition isoformat :: "instant \<Rightarrow> string" where
  "isoformat t =
     (let us = t mod 1000000; s = t div 1000000; secs = s mod 86400;
          (y, mo, d) = civil (s div 86400)
      in pad_nat 4 (nat y) @ ''-'' @ pad_nat 2 (nat mo) @ ''-'' @ pad_nat 2 (nat d) @ ''T'' @
         pad_nat 2 (nat (secs div 3600)) @ '':'' @ pad_nat 2 (nat (secs mod 3600 div 60)) @ '':'' @
         pad_nat 2 (nat (secs mod 60)) @
         (if us = 0 then [] else ''.'' @ pad_nat 6 (nat us)) @ ''+00:00'')"

text \<open>
  \<open>str(x)\<close> of a \<open>float\<close> with a short decimal expansion: at least one digit after the point, and
  at most sixteen.
\<close>

fun fraction_digits :: "nat \<Rightarrow> rat \<Rightarrow> string" where
  "fraction_digits 0 r = []"
| "fraction_digits (Suc k) r =
     (if r = 0 then [] else digit_chars ! nat \<lfloor>r * 10\<rfloor> # fraction_digits k (r * 10 - of_int \<lfloor>r * 10\<rfloor>))"

definition show_float :: "rat \<Rightarrow> string" where
  "show_float x =
     (let a = \<bar>x\<bar>; w = \<lfloor>a\<rfloor> in
      (if x < 0 then ''-'' else []) @ show_nat (nat w) @ ''.'' @
      or_text (fraction_digits 16 (a - of_int w)) ''0'')"

text \<open>\<open>f"{x:.2f}"\<close>, for a value that is not negative.\<close>

definition show_fixed2 :: "rat \<Rightarrow> string" where
  "show_fixed2 x =
     (let c = nat (round_half_even (x * 100)) in show_nat (c div 100) @ ''.'' @ pad_nat 2 (c mod 100))"

end
