(* ===== verification/Approvals.thy ===== *)
theory Approvals
  imports Clock
begin

text \<open>
  \<open>security_testing/approvals.py\<close>, the ledger of human approvals, and
  \<open>security_testing/operator_auth.py\<close>, the authentication of the local operator.
\<close>

section \<open>Records\<close>

datatype approval_kind =
    ENABLE_ACTIVE_TESTING | START_LIVE_SCAN | ENABLE_FUZZING | HIGH_RISK_SCANNER
  | SEND_POC_REQUEST | SUBMIT_HACKERONE_REPORT

datatype approval_state = MISSING | GRANTED | DENIED

fun kind_value :: "approval_kind \<Rightarrow> string" where
  "kind_value ENABLE_ACTIVE_TESTING = ''enable_active_testing''"
| "kind_value START_LIVE_SCAN = ''start_live_scan''"
| "kind_value ENABLE_FUZZING = ''enable_fuzzing''"
| "kind_value HIGH_RISK_SCANNER = ''high_risk_scanner''"
| "kind_value SEND_POC_REQUEST = ''send_poc_request''"
| "kind_value SUBMIT_HACKERONE_REPORT = ''submit_hackerone_report''"

fun state_value :: "approval_state \<Rightarrow> string" where
  "state_value MISSING = ''missing''"
| "state_value GRANTED = ''granted''"
| "state_value DENIED = ''denied''"

text \<open>Iterating over the enumeration, in the order of its definition.\<close>

instantiation approval_kind :: enum
begin

definition enum_approval_kind :: "approval_kind list" where
  "enum_approval_kind = [ENABLE_ACTIVE_TESTING, START_LIVE_SCAN, ENABLE_FUZZING, HIGH_RISK_SCANNER,
     SEND_POC_REQUEST, SUBMIT_HACKERONE_REPORT]"

definition enum_all_approval_kind :: "(approval_kind \<Rightarrow> bool) \<Rightarrow> bool" where
  "enum_all_approval_kind p \<longleftrightarrow> list_all p Enum.enum"

definition enum_ex_approval_kind :: "(approval_kind \<Rightarrow> bool) \<Rightarrow> bool" where
  "enum_ex_approval_kind p \<longleftrightarrow> list_ex p Enum.enum"

instance
proof
  show univ: "UNIV = set (Enum.enum :: approval_kind list)"
  proof (rule set_eqI)
    fix k :: approval_kind show "k \<in> UNIV \<longleftrightarrow> k \<in> set Enum.enum"
      by (cases k) (simp_all add: enum_approval_kind_def)
  qed
  show "distinct (Enum.enum :: approval_kind list)" by (simp add: enum_approval_kind_def)
  fix p :: "approval_kind \<Rightarrow> bool"
  show "Enum.enum_all p \<longleftrightarrow> Ball UNIV p" "Enum.enum_ex p \<longleftrightarrow> Bex UNIV p"
    by (simp_all add: enum_all_approval_kind_def enum_ex_approval_kind_def list_all_iff list_ex_iff univ)
qed

end

record approval_record =
  a_kind :: approval_kind
  a_state :: approval_state
  a_operator :: string
  a_note :: string
  a_id :: string
  granted_at :: instant
  expires_at :: "instant option"

definition expired :: "instant \<Rightarrow> approval_record \<Rightarrow> bool" where
  "expired now r = (case expires_at r of None \<Rightarrow> False | Some e \<Rightarrow> e \<le> now)"

definition ai_operators :: "string list" where
  "ai_operators = [''ai'', ''model'', ''llm'', ''assistant'', ''bugforge-ai'', ''qwen'', ''system'']"

definition is_ai_operator :: "string \<Rightarrow> bool" where
  "is_ai_operator operator \<longleftrightarrow> py_lower (py_strip operator) \<in> set ai_operators"

section \<open>The ledger\<close>

type_synonym gate = "(approval_kind, approval_record) dict"

text \<open>
  The identifier (\<open>uuid4\<close>) and the time of a new record are arguments; a call that raises leaves
  the ledger as it is.
\<close>

definition grant ::
    "approval_kind \<Rightarrow> string \<Rightarrow> string \<Rightarrow> instant option \<Rightarrow> string \<Rightarrow> instant \<Rightarrow> gate
     \<Rightarrow> (approval_record \<times> gate) result" where
  "grant kind operator note expires uid now g =
     (if is_ai_operator operator then Inl (RestrictedActivityError ''The AI cannot grant approvals'')
      else let r = \<lparr>a_kind = kind, a_state = GRANTED, a_operator = operator, a_note = note,
                    a_id = uid, granted_at = now, expires_at = expires\<rparr>
           in Inr (r, dict_set kind r g))"

definition deny_approval ::
    "approval_kind \<Rightarrow> string \<Rightarrow> string \<Rightarrow> string \<Rightarrow> instant \<Rightarrow> gate \<Rightarrow> approval_record \<times> gate" where
  "deny_approval kind operator note uid now g =
     (let r = \<lparr>a_kind = kind, a_state = DENIED, a_operator = operator, a_note = note,
               a_id = uid, granted_at = now, expires_at = None\<rparr>
      in (r, dict_set kind r g))"

definition state_of :: "gate \<Rightarrow> instant \<Rightarrow> approval_kind \<Rightarrow> approval_state" where
  "state_of g now kind =
     (case map_of g kind of
        None \<Rightarrow> MISSING
      | Some r \<Rightarrow> if expired now r then MISSING else a_state r)"

definition require :: "gate \<Rightarrow> instant \<Rightarrow> approval_kind \<Rightarrow> approval_record result" where
  "require g now kind =
     (case map_of g kind of
        None \<Rightarrow> Inl (ApprovalRequiredError (kind_value kind))
      | Some r \<Rightarrow>
          if a_state r \<noteq> GRANTED \<or> expired now r then Inl (ApprovalRequiredError (kind_value kind))
          else Inr r)"

definition is_granted :: "gate \<Rightarrow> instant \<Rightarrow> approval_kind \<Rightarrow> bool" where
  "is_granted g now kind =
     (case map_of g kind of
        None \<Rightarrow> False
      | Some r \<Rightarrow> if a_state r \<noteq> GRANTED then False else if expired now r then False else True)"

definition get_record :: "gate \<Rightarrow> approval_kind \<Rightarrow> approval_record option" where
  "get_record g kind = map_of g kind"

definition load_record :: "approval_record \<Rightarrow> gate \<Rightarrow> gate" where
  "load_record r g = dict_set (a_kind r) r g"

definition clear_records :: "gate \<Rightarrow> gate" where
  "clear_records g = []"

text \<open>One reading of the clock for each kind.\<close>

definition snapshot :: "gate \<Rightarrow> (approval_kind \<Rightarrow> instant) \<Rightarrow> (string, string) dict" where
  "snapshot g clock = map (\<lambda>k. (kind_value k, state_value (state_of g (clock k) k))) Enum.enum"

definition approval_details ::
    "gate \<Rightarrow> instant \<Rightarrow> approval_kind \<Rightarrow> (string, string option) dict" where
  "approval_details g now k =
     (case map_of g k of
        None \<Rightarrow> [(''state'', Some (state_value MISSING))]
      | Some r \<Rightarrow>
          [(''state'', Some (state_value (if \<not> expired now r then a_state r else MISSING))),
           (''operator'', Some (a_operator r)),
           (''granted_at'', Some (isoformat (granted_at r))),
           (''expires_at'', map_option isoformat (expires_at r))])"

definition detailed_snapshot ::
    "gate \<Rightarrow> (approval_kind \<Rightarrow> instant) \<Rightarrow> (string, (string, string option) dict) dict" where
  "detailed_snapshot g clock = map (\<lambda>k. (kind_value k, approval_details g (clock k) k)) Enum.enum"

section \<open>Operator sessions\<close>

record operator_session =
  identity :: string
  authenticated_at :: instant
  o_source :: string

definition assert_human :: "operator_session \<Rightarrow> unit result" where
  "assert_human s =
     (if py_strip (identity s) = [] then Inl (RestrictedActivityError ''unauthenticated_operator'')
      else if is_ai_operator (identity s) then Inl (RestrictedActivityError ''hackerone_submission'')
      else if o_source s \<notin> set [''operator_token'', ''local_session'']
      then Inl (RestrictedActivityError ''invalid_operator_session'')
      else Inr ())"

record authenticator =
  au_token :: string
  au_identity :: string

definition operator_authenticator :: "string \<Rightarrow> string \<Rightarrow> authenticator" where
  "operator_authenticator token ident =
     \<lparr>au_token = token, au_identity = or_text (py_strip ident) ''local-operator''\<rparr>"

text \<open>The environment is an argument; an absent variable is the empty text.\<close>

definition environment_credential :: "(string, string) dict \<Rightarrow> string \<Rightarrow> bool \<Rightarrow> string result" where
  "environment_credential env name required =
     (let v = dict_get env name [] in
      if required \<and> v = [] then
        Inl (RuntimeError (''Missing required credential environment variable '' @ name))
      else Inr v)"

definition authenticator_from_env :: "(string, string) dict \<Rightarrow> authenticator" where
  "authenticator_from_env env =
     operator_authenticator (dict_get env ''BUGFORGE_OPERATOR_TOKEN'' [])
       (or_text (dict_get env ''BUGFORGE_OPERATOR_IDENTITY'' []) ''local-operator'')"

definition ascii_text :: "string \<Rightarrow> bool" where
  "ascii_text s \<longleftrightarrow> list_all (\<lambda>c. of_char c < (128 :: nat)) s"

text \<open>\<open>hmac.compare_digest\<close> on strings: only ASCII text can be compared.\<close>

definition compare_digest :: "string \<Rightarrow> string \<Rightarrow> bool result" where
  "compare_digest a b =
     (if ascii_text a \<and> ascii_text b then Inr (a = b)
      else Inl (TypeError ''comparing strings with non-ASCII characters is not supported''))"

definition authenticate :: "authenticator \<Rightarrow> string \<Rightarrow> instant \<Rightarrow> operator_session result" where
  "authenticate au presented now =
     (if au_token au = [] then
        Inl (HttpUnauthorized (''Local operator authorization is not configured. Set '' @
          ''BUGFORGE_OPERATOR_TOKEN and BUGFORGE_OPERATOR_IDENTITY.''))
      else then_do (if presented = [] then Inr False else compare_digest presented (au_token au))
        (\<lambda>same.
           if \<not> same then Inl (HttpUnauthorized ''Invalid or missing local operator token'')
           else let session = \<lparr>identity = au_identity au, authenticated_at = now,
                               o_source = ''operator_token''\<rparr>
                in case assert_human session of
                     Inl exc \<Rightarrow> Inl (HttpForbidden (error_text exc))
                   | Inr _ \<Rightarrow> Inr session))"

definition require_operator ::
    "(string, string) dict \<Rightarrow> string option \<Rightarrow> instant \<Rightarrow> operator_session result" where
  "require_operator env header now =
     authenticate (authenticator_from_env env) (case header of None \<Rightarrow> [] | Some h \<Rightarrow> h) now"

definition optional_operator ::
    "(string, string) dict \<Rightarrow> string option \<Rightarrow> instant \<Rightarrow> operator_session option result" where
  "optional_operator env header now =
     (let presented = (case header of None \<Rightarrow> [] | Some h \<Rightarrow> h) in
      if presented = [] then Inr None
      else then_do (authenticate (authenticator_from_env env) presented now) (\<lambda>s. Inr (Some s)))"

section \<open>Runs of the ledger\<close>

datatype gate_op =
    Grant approval_kind string string "instant option" string instant
  | Deny approval_kind string string string instant
  | Load approval_record
  | Clear

fun gate_step :: "gate \<Rightarrow> gate_op \<Rightarrow> gate" where
  "gate_step g (Grant k operator note expires uid now) =
     (case grant k operator note expires uid now g of Inl _ \<Rightarrow> g | Inr (r, g') \<Rightarrow> g')"
| "gate_step g (Deny k operator note uid now) = snd (deny_approval k operator note uid now g)"
| "gate_step g (Load r) = load_record r g"
| "gate_step g Clear = clear_records g"

definition human_record :: "approval_record \<Rightarrow> bool" where
  "human_record r \<longleftrightarrow> (a_state r = GRANTED \<longrightarrow> \<not> is_ai_operator (a_operator r))"

text \<open>
  \<open>load_record\<close> takes any record, so what is in the ledger is a record of this run: one that
  \<open>grant\<close> or \<open>deny\<close> made, or one that was loaded.
\<close>

definition gate_ok :: "gate_op list \<Rightarrow> gate \<Rightarrow> bool" where
  "gate_ok ops g \<longleftrightarrow> (\<forall>k r. map_of g k = Some r \<longrightarrow> a_kind r = k \<and> (human_record r \<or> Load r \<in> set ops))"

lemma gate_step_ok: "gate_ok ops g \<Longrightarrow> x \<in> set ops \<Longrightarrow> gate_ok ops (gate_step g x)"
  by (cases x) (auto simp: gate_ok_def human_record_def grant_def deny_approval_def load_record_def
      clear_records_def Let_def split: sum.splits if_splits)

interpretation ledger: guarded_machine "\<lambda>g. g = []" gate_step "\<lambda>g x. x \<in> set ops" "gate_ok ops" for ops
  by unfold_locales (simp add: gate_ok_def, rule gate_step_ok)

lemma history_run: "set xs \<subseteq> set ops \<Longrightarrow> ledger.guarded_run ops g xs"
  by (induction xs arbitrary: g) auto

lemma granted_iff: "is_granted g now k \<longleftrightarrow> state_of g now k = GRANTED"
  by (auto simp: is_granted_def state_of_def split: option.splits)

lemma require_ok_iff: "(\<exists>r. require g now k = Inr r) \<longleftrightarrow> is_granted g now k"
  by (auto simp: require_def is_granted_def split: option.splits)

lemma granted_record:
  "is_granted g now k \<longleftrightarrow> (\<exists>r. map_of g k = Some r \<and> a_state r = GRANTED \<and> \<not> expired now r)"
  by (auto simp: is_granted_def split: option.splits)

lemma expired_mono: "expired now r \<Longrightarrow> now \<le> later \<Longrightarrow> expired later r"
  by (auto simp: expired_def split: option.splits)

section \<open>Properties\<close>

text \<open>C35. However the ledger is used, what it reports as granted is a record of that kind that has not
  expired, and an operator who is not an AI granted it in this run or it is, unchanged, a record that
  was loaded with \<open>load_record\<close>, which takes any record.\<close>

theorem grants_are_human:
  assumes "is_granted (run_ops gate_step [] ops) now k"
  shows "\<exists>r. get_record (run_ops gate_step [] ops) k = Some r \<and> a_kind r = k \<and> a_state r = GRANTED \<and>
             \<not> expired now r \<and> (\<not> is_ai_operator (a_operator r) \<or> Load r \<in> set ops)"
  using ledger.run_invariant [of "[]" ops ops] history_run [of ops ops "[]"] assms
  by (auto simp: granted_record gate_ok_def human_record_def get_record_def)

definition sample_grant :: gate_op where
  "sample_grant = Grant START_LIVE_SCAN ''alice'' [] (Some 50) ''id'' 10"

theorem grants_are_human_witness:
  "\<exists>r. get_record (run_ops gate_step [] [sample_grant]) START_LIVE_SCAN = Some r \<and>
       a_kind r = START_LIVE_SCAN \<and> \<not> is_ai_operator (a_operator r) \<and> \<not> expired 20 r"
proof -
  have "is_granted (run_ops gate_step [] [sample_grant]) 20 START_LIVE_SCAN" by code_simp
  from grants_are_human [OF this] show ?thesis by (auto simp: sample_grant_def)
qed

text \<open>The three ways to ask the ledger agree, and time only takes approvals away: what is
  granted now was granted at every earlier moment, until the record changes.\<close>

theorem approval_queries_agree:
  "(is_ok (require g now k) \<longleftrightarrow> is_granted g now k) \<and>
   (state_of g now k = GRANTED \<longleftrightarrow> is_granted g now k) \<and>
   (is_granted g (now + int later) k \<longrightarrow> is_granted g now k)"
proof (intro conjI impI)
  assume "is_granted g (now + int later) k"
  then show "is_granted g now k"
    using expired_mono [of now _ "now + int later"] by (auto simp: granted_record)
qed (simp_all add: is_ok_iff require_ok_iff granted_iff)

theorem approval_queries_agree_witness:
  "is_granted (gate_step [] sample_grant) 20 START_LIVE_SCAN"
proof -
  have "is_granted (gate_step [] sample_grant) (20 + int 10) START_LIVE_SCAN" by code_simp
  then show ?thesis using approval_queries_agree by blast
qed

text \<open>An authenticated session exists only for the configured, non-empty token, and its
  identity is neither blank nor an AI.\<close>

theorem authenticated_sessions:
  assumes "authenticate au presented now = Inr s"
  shows "presented \<noteq> [] \<and> presented = au_token au \<and> identity s = au_identity au \<and>
         authenticated_at s = now \<and> py_strip (identity s) \<noteq> [] \<and> \<not> is_ai_operator (identity s)"
  using assms
  by (auto simp: authenticate_def assert_human_def compare_digest_def Let_def
      split: if_splits sum.splits)

theorem authenticated_sessions_witness:
  "''s3cret'' = au_token (operator_authenticator ''s3cret'' '' alice '') \<and>
   \<not> is_ai_operator ''alice''"
proof -
  let ?s = "\<lparr>identity = ''alice'', authenticated_at = 7, o_source = ''operator_token''\<rparr>"
  have "authenticate (operator_authenticator ''s3cret'' '' alice '') ''s3cret'' 7 = Inr ?s"
    by code_simp
  from authenticated_sessions [OF this] show ?thesis by auto
qed

end
