(* ===== verification/IpAddr.thy ===== *)
theory IpAddr
  imports PyStr "HOL-Library.Word"
begin

unbundle bit_operations_syntax

text \<open>
  The part of the Python 3.12 \<open>ipaddress\<close> module that target matching and the
  DNS policy use: parsing and printing of IPv4 and IPv6 addresses, networks with
  a prefix length or a netmask, membership, and the address classes
  (private, loopback, ...) with the tables of the standard library.
\<close>

section \<open>Addresses\<close>

text \<open>An IPv6 address may carry a scope identifier (the text after \<open>%\<close>).\<close>

datatype ip = V4 "32 word" | V6 "128 word" "string option"

definition parse_octet :: "string \<Rightarrow> nat option" where
  "parse_octet s =
     (if \<not> all_digits s \<or> 3 < length s \<or> (s \<noteq> ''0'' \<and> take 1 s = ''0'')
         \<or> 255 < nat_of_text s
      then None else Some (nat_of_text s))"

fun octets :: "string list \<Rightarrow> nat list option" where
  "octets [] = Some []"
| "octets (s # ss) =
     (case parse_octet s of None \<Rightarrow> None
      | Some n \<Rightarrow> map_option ((#) n) (octets ss))"

definition v4_parse :: "string \<Rightarrow> 32 word option" where
  "v4_parse s =
     (if CHR ''/'' \<in> set s then None
      else let parts = py_split CHR ''.'' s in
        if length parts \<noteq> 4 then None
        else map_option (\<lambda>ns. word_of_nat (foldl (\<lambda>a n. 256 * a + n) 0 ns)) (octets parts))"

definition parse_hextet :: "string \<Rightarrow> nat option" where
  "parse_hextet s =
     (if s = [] \<or> \<not> list_all is_hex s \<or> 4 < length s then None else Some (hex_read 0 s))"

fun hextets :: "string list \<Rightarrow> nat list option" where
  "hextets [] = Some []"
| "hextets (s # ss) =
     (case parse_hextet s of None \<Rightarrow> None
      | Some n \<Rightarrow> map_option ((#) n) (hextets ss))"

text \<open>A dotted IPv4 tail becomes two hextets.\<close>

definition v6_parts :: "string \<Rightarrow> string list option" where
  "v6_parts s =
     (let parts = py_split CHR '':'' s in
      if length parts < 3 then None
      else if CHR ''.'' \<in> set (last parts) then
        (case v4_parse (last parts) of None \<Rightarrow> None
         | Some w \<Rightarrow> Some (butlast parts @ [hex_nat (unat w div 65536), hex_nat (unat w mod 65536)]))
      else Some parts)"

text \<open>The positions strictly inside the list where a part is empty: the \<open>::\<close>.\<close>

definition v6_skips :: "string list \<Rightarrow> nat list" where
  "v6_skips parts = filter (\<lambda>i. parts ! i = []) [1 ..< length parts - 1]"

definition v6_number :: "string list \<Rightarrow> nat option" where
  "v6_number parts =
     (if 9 < length parts then None
      else case v6_skips parts of
        [] \<Rightarrow>
          (if length parts \<noteq> 8 \<or> hd parts = [] \<or> last parts = [] then None
           else map_option (foldl (\<lambda>a n. 65536 * a + n) 0) (hextets parts))
      | [k] \<Rightarrow>
          (let hi = (if hd parts = [] then k - 1 else k);
               lo = (if last parts = [] then length parts - k - 2 else length parts - k - 1)
           in if (hd parts = [] \<and> hi \<noteq> 0) \<or> (last parts = [] \<and> lo \<noteq> 0) \<or> 8 < hi + lo + 1
              then None
              else (case (hextets (take hi parts), hextets (drop (length parts - lo) parts)) of
                      (Some hs, Some ls) \<Rightarrow>
                        Some (foldl (\<lambda>a n. 65536 * a + n) 0 (hs @ replicate (8 - (hi + lo)) 0 @ ls))
                    | _ \<Rightarrow> None))
      | _ \<Rightarrow> None)"

definition v6_parse :: "string \<Rightarrow> (128 word \<times> string option) option" where
  "v6_parse s =
     (if CHR ''/'' \<in> set s then None
      else case py_partition CHR ''%'' s of (addr, sep, scope) \<Rightarrow>
        if sep \<and> (scope = [] \<or> CHR ''%'' \<in> set scope) then None
        else case v6_parts addr of None \<Rightarrow> None
        | Some parts \<Rightarrow>
            (case v6_number parts of None \<Rightarrow> None
             | Some n \<Rightarrow> Some (word_of_nat n, if sep then Some scope else None)))"

definition ip_address :: "string \<Rightarrow> ip option" where
  "ip_address s =
     (case v4_parse s of Some w \<Rightarrow> Some (V4 w)
      | None \<Rightarrow> (case v6_parse s of Some (w, sc) \<Rightarrow> Some (V6 w sc) | None \<Rightarrow> None))"

section \<open>Printing\<close>

definition v4_show :: "32 word \<Rightarrow> string" where
  "v4_show w =
     (let n = unat w in
      py_join ''.'' (map show_nat [n div 16777216, n div 65536 mod 256, n div 256 mod 256, n mod 256]))"

text \<open>
  The longest run of zero hextets, as (best start, best length, current start,
  current length); the first of equally long runs wins.
\<close>

fun zero_run :: "nat \<Rightarrow> (nat \<times> nat \<times> nat \<times> nat) \<Rightarrow> nat list \<Rightarrow> nat \<times> nat" where
  "zero_run i (bs, bl, cs, cl) [] = (bs, bl)"
| "zero_run i (bs, bl, cs, cl) (h # hs) =
     (if h = 0 then
        (let cs' = (if cl = 0 then i else cs); cl' = Suc cl in
         if bl < cl' then zero_run (Suc i) (cs', cl', cs', cl') hs
         else zero_run (Suc i) (bs, bl, cs', cl') hs)
      else zero_run (Suc i) (bs, bl, 0, 0) hs)"

definition v6_hextets :: "128 word \<Rightarrow> nat list" where
  "v6_hextets w = map (\<lambda>i. unat (drop_bit (16 * (7 - i)) w) mod 65536) [0..<8]"

definition v6_show_int :: "128 word \<Rightarrow> string" where
  "v6_show_int w =
     (let hs = v6_hextets w; (s, l) = zero_run 0 (0, 0, 0, 0) hs; ts = map hex_nat hs in
      if 1 < l then
        py_join '':'' ((if s = 0 then [[]] else []) @ take s ts @ [[]] @ drop (s + l) ts
                       @ (if s + l = 8 then [[]] else []))
      else py_join '':'' ts)"

fun ip_show :: "ip \<Rightarrow> string" where
  "ip_show (V4 w) = v4_show w"
| "ip_show (V6 w None) = v6_show_int w"
| "ip_show (V6 w (Some sc)) = v6_show_int w @ ''%'' @ sc"

section \<open>Networks\<close>

datatype net = N4 "32 word" nat | N6 "128 word" nat "string option"

definition v4_mask :: "nat \<Rightarrow> 32 word" where
  "v4_mask p = (- 1) XOR drop_bit p (- 1)"

definition v6_mask :: "nat \<Rightarrow> 128 word" where
  "v6_mask p = (- 1) XOR drop_bit p (- 1)"

definition prefix_text :: "nat \<Rightarrow> string \<Rightarrow> nat option" where
  "prefix_text maxlen s =
     (if all_digits s \<and> nat_of_text s \<le> maxlen then Some (nat_of_text s) else None)"

text \<open>An IPv4 netmask may also be written as a dotted netmask or hostmask.\<close>

definition v4_prefix :: "string \<Rightarrow> nat option" where
  "v4_prefix s =
     (case prefix_text 32 s of Some p \<Rightarrow> Some p
      | None \<Rightarrow>
        (if CHR ''/'' \<in> set s then None
         else case v4_parse s of None \<Rightarrow> None
         | Some w \<Rightarrow>
             (case List.find (\<lambda>p. v4_mask p = w) [0..<33] of Some p \<Rightarrow> Some p
              | None \<Rightarrow> List.find (\<lambda>p. v4_mask p = (w XOR (- 1))) [0..<33])))"

text \<open>\<open>ip_network(s, strict=False)\<close> of a text with a slash.\<close>

definition ip_network :: "string \<Rightarrow> net option" where
  "ip_network s =
     (case py_split CHR ''/'' s of
        [a, m] \<Rightarrow>
          (case (v4_parse a, v4_prefix m) of
             (Some w, Some p) \<Rightarrow> Some (N4 (w AND v4_mask p) p)
           | _ \<Rightarrow>
             (case (v6_parse a, prefix_text 128 m) of
                (Some (w, sc), Some p) \<Rightarrow>
                  Some (N6 (w AND v6_mask p) p (if w AND v6_mask p = w then sc else None))
              | _ \<Rightarrow> None))
      | _ \<Rightarrow> None)"

fun net_show :: "net \<Rightarrow> string" where
  "net_show (N4 w p) = v4_show w @ ''/'' @ show_nat p"
| "net_show (N6 w p sc) = ip_show (V6 w sc) @ ''/'' @ show_nat p"

fun ip_in :: "ip \<Rightarrow> net \<Rightarrow> bool" where
  "ip_in (V4 a) (N4 n p) = (a AND v4_mask p = n)"
| "ip_in (V6 a _) (N6 n p _) = (a AND v6_mask p = n)"
| "ip_in _ _ = False"

section \<open>Address classes\<close>

text \<open>A network written as four octets, or as eight hextets, with its prefix length.\<close>

definition n4 :: "nat \<Rightarrow> nat \<Rightarrow> nat \<Rightarrow> nat \<Rightarrow> nat \<Rightarrow> net" where
  "n4 a b c d p = N4 (word_of_nat (((a * 256 + b) * 256 + c) * 256 + d)) p"

definition n6 :: "nat list \<Rightarrow> nat \<Rightarrow> net" where
  "n6 hs p = N6 (word_of_nat (foldl (\<lambda>a n. 65536 * a + n) 0 (hs @ replicate (8 - length hs) 0))) p None"

definition v4_private_networks :: "net list" where
  "v4_private_networks =
     [n4 0 0 0 0 8, n4 10 0 0 0 8, n4 127 0 0 0 8, n4 169 254 0 0 16, n4 172 16 0 0 12,
      n4 192 0 0 0 24, n4 192 0 0 170 31, n4 192 0 2 0 24, n4 192 168 0 0 16, n4 198 18 0 0 15,
      n4 198 51 100 0 24, n4 203 0 113 0 24, n4 240 0 0 0 4, n4 255 255 255 255 32]"

definition v4_private_exceptions :: "net list" where
  "v4_private_exceptions = [n4 192 0 0 9 32, n4 192 0 0 10 32]"

definition v6_private_networks :: "net list" where
  "v6_private_networks =
     [n6 [0, 0, 0, 0, 0, 0, 0, 1] 128, n6 [] 128, n6 [0, 0, 0, 0, 0, 65535] 96,
      n6 [100, 65435, 1] 48, n6 [256] 64, n6 [8193] 23, n6 [8193, 3512] 32, n6 [8194] 16,
      n6 [64512] 7, n6 [65152] 10]"

definition v6_private_exceptions :: "net list" where
  "v6_private_exceptions =
     [n6 [8193, 1, 0, 0, 0, 0, 0, 1] 128, n6 [8193, 1, 0, 0, 0, 0, 0, 2] 128, n6 [8193, 3] 32,
      n6 [8193, 4, 274] 48, n6 [8193, 32] 28, n6 [8193, 48] 28]"

definition v6_reserved_networks :: "net list" where
  "v6_reserved_networks =
     [n6 [] 8, n6 [256] 8, n6 [512] 7, n6 [1024] 6, n6 [2048] 5, n6 [4096] 4, n6 [16384] 3,
      n6 [24576] 3, n6 [32768] 3, n6 [40960] 3, n6 [49152] 3, n6 [57344] 4, n6 [61440] 5,
      n6 [63488] 6, n6 [65024] 9]"

definition v4_is_private :: "32 word \<Rightarrow> bool" where
  "v4_is_private w \<longleftrightarrow> list_ex (ip_in (V4 w)) v4_private_networks
                   \<and> \<not> list_ex (ip_in (V4 w)) v4_private_exceptions"

text \<open>The IPv4 address inside an IPv4-mapped IPv6 address.\<close>

definition v4_mapped :: "128 word \<Rightarrow> 32 word option" where
  "v4_mapped w = (if drop_bit 32 w = 65535 then Some (ucast w) else None)"

fun is_private :: "ip \<Rightarrow> bool" where
  "is_private (V4 w) = v4_is_private w"
| "is_private (V6 w sc) =
     (case v4_mapped w of Some v \<Rightarrow> v4_is_private v
      | None \<Rightarrow> list_ex (ip_in (V6 w sc)) v6_private_networks
               \<and> \<not> list_ex (ip_in (V6 w sc)) v6_private_exceptions)"

fun is_loopback :: "ip \<Rightarrow> bool" where
  "is_loopback (V4 w) = ip_in (V4 w) (n4 127 0 0 0 8)"
| "is_loopback (V6 w sc) = (w = 1)"

fun is_link_local :: "ip \<Rightarrow> bool" where
  "is_link_local (V4 w) = ip_in (V4 w) (n4 169 254 0 0 16)"
| "is_link_local (V6 w sc) = ip_in (V6 w sc) (n6 [65152] 10)"

fun is_multicast :: "ip \<Rightarrow> bool" where
  "is_multicast (V4 w) = ip_in (V4 w) (n4 224 0 0 0 4)"
| "is_multicast (V6 w sc) = ip_in (V6 w sc) (n6 [65280] 8)"

fun is_unspecified :: "ip \<Rightarrow> bool" where
  "is_unspecified (V4 w) = (w = 0)"
| "is_unspecified (V6 w sc) = (w = 0)"

fun is_reserved :: "ip \<Rightarrow> bool" where
  "is_reserved (V4 w) = ip_in (V4 w) (n4 240 0 0 0 4)"
| "is_reserved (V6 w sc) = list_ex (ip_in (V6 w sc)) v6_reserved_networks"

declare ip_show.simps [simp del] ip_in.simps [simp del] is_private.simps [simp del]
  is_loopback.simps [simp del] is_link_local.simps [simp del] is_multicast.simps [simp del]
  is_unspecified.simps [simp del] is_reserved.simps [simp del]

end
