(* ===== verification/Url.thy ===== *)
theory Url
  imports IpAddr
begin

text \<open>
  \<open>urllib.parse\<close> and \<open>posixpath.normpath\<close> as the program uses them: splitting a URL,
  the host and port of its authority, percent decoding, joining a redirect
  location to a base, and path normalisation.
\<close>

section \<open>UTF-8 with replacement\<close>

text \<open>
  The number of continuation bytes that a lead byte asks for, with the range of the
  first continuation byte; \<open>None\<close> for a byte that cannot start a character.
\<close>

definition utf8_lead :: "nat \<Rightarrow> (nat \<times> nat \<times> nat) option" where
  "utf8_lead b =
     (if 194 \<le> b \<and> b \<le> 223 then Some (1, 128, 191)
      else if b = 224 then Some (2, 160, 191)
      else if b = 237 then Some (2, 128, 159)
      else if 225 \<le> b \<and> b \<le> 239 then Some (2, 128, 191)
      else if b = 240 then Some (3, 144, 191)
      else if 241 \<le> b \<and> b \<le> 243 then Some (3, 128, 191)
      else if b = 244 then Some (3, 128, 143)
      else None)"

text \<open>How many of the expected continuation bytes are there.\<close>

fun utf8_follow :: "nat \<Rightarrow> nat \<Rightarrow> nat \<Rightarrow> string \<Rightarrow> nat" where
  "utf8_follow k lo hi [] = 0"
| "utf8_follow k lo hi (c # cs) =
     (if k = 0 then 0
      else if lo \<le> of_char c \<and> of_char c \<le> hi then Suc (utf8_follow (k - 1) 128 191 cs) else 0)"

definition replacement_char :: string where
  "replacement_char = [CHR 0xEF, CHR 0xBF, CHR 0xBD]"

text \<open>
  \<open>bytes.decode("utf-8", "replace")\<close>, re-encoded: every maximal broken sequence
  becomes one replacement character.
\<close>

function utf8_replace :: "string \<Rightarrow> string" where
  "utf8_replace [] = []"
| "utf8_replace (c # cs) =
     (if of_char c < (128 :: nat) then c # utf8_replace cs
      else case utf8_lead (of_char c) of
        None \<Rightarrow> replacement_char @ utf8_replace cs
      | Some (k, lo, hi) \<Rightarrow>
          (let m = utf8_follow k lo hi cs in
           if m = k then c # take k cs @ utf8_replace (drop k cs)
           else replacement_char @ utf8_replace (drop m cs)))"
  by pat_completeness auto
termination
  by (relation "measure length") auto

section \<open>Percent decoding\<close>

fun percent_decode :: "string \<Rightarrow> string" where
  "percent_decode (CHR ''%'' # a # b # cs) =
     (if is_hex a \<and> is_hex b then char_of (16 * hex_val a + hex_val b) # percent_decode cs
      else CHR ''%'' # percent_decode (a # b # cs))"
| "percent_decode (c # cs) = c # percent_decode cs"
| "percent_decode [] = []"

definition unquote :: "string \<Rightarrow> string" where
  "unquote s = (if CHR ''%'' \<in> set s then utf8_replace (percent_decode s) else s)"

section \<open>Splitting a URL\<close>

record parsed_url =
  pu_scheme :: string
  pu_netloc :: string
  pu_path :: string
  pu_params :: string
  pu_query :: string
  pu_fragment :: string

definition is_scheme_char :: "char \<Rightarrow> bool" where
  "is_scheme_char c \<longleftrightarrow> is_alpha c \<or> is_digit c \<or> c \<in> set ''+-.''"

definition is_c0_or_space :: "char \<Rightarrow> bool" where
  "is_c0_or_space c \<longleftrightarrow> of_char c \<le> (32 :: nat)"

definition clean_url :: "string \<Rightarrow> string" where
  "clean_url s = filter (\<lambda>c. c \<notin> set [CHR 0x09, CHR 0x0D, CHR 0x0A]) (lstrip_by is_c0_or_space s)"

text \<open>The scheme, lowered, and the rest; the default scheme when there is none.\<close>

definition split_scheme :: "string \<Rightarrow> string \<Rightarrow> string \<times> string" where
  "split_scheme dflt s =
     (case py_partition CHR '':'' s of (a, found, b) \<Rightarrow>
        if found \<and> a \<noteq> [] \<and> is_alpha (hd a) \<and> list_all is_scheme_char a
        then (py_lower a, b) else (dflt, s))"

definition bracketed_host_ok :: "string \<Rightarrow> bool" where
  "bracketed_host_ok h =
     (if startswith h ''v'' then
        (case py_partition CHR ''.'' (drop 1 h) of (a, found, b) \<Rightarrow>
           found \<and> a \<noteq> [] \<and> list_all is_hex a \<and> b \<noteq> [] \<and> CHR 0x0A \<notin> set b)
      else (case ip_address h of Some (V6 w sc) \<Rightarrow> True | _ \<Rightarrow> False))"

definition netloc_ok :: "string \<Rightarrow> bool" where
  "netloc_ok n =
     (if (CHR ''['' \<in> set n) \<noteq> (CHR '']'' \<in> set n) then False
      else if CHR ''['' \<in> set n then
        (case py_partition CHR ''['' n of (_, _, r) \<Rightarrow>
           (case py_partition CHR '']'' r of (h, _, _) \<Rightarrow> bracketed_host_ok h))
      else True)"

definition uses_params :: "string list" where
  "uses_params = [[], ''ftp'', ''hdl'', ''prospero'', ''http'', ''imap'', ''https'', ''shttp'',
                  ''rtsp'', ''rtsps'', ''rtspu'', ''sip'', ''sips'', ''mms'', ''sftp'', ''tel'']"

definition uses_relative :: "string list" where
  "uses_relative = [[], ''ftp'', ''http'', ''gopher'', ''nntp'', ''imap'', ''wais'', ''file'',
                    ''https'', ''shttp'', ''mms'', ''prospero'', ''rtsp'', ''rtsps'', ''rtspu'',
                    ''sftp'', ''svn'', ''svn+ssh'', ''ws'', ''wss'']"

definition uses_netloc :: "string list" where
  "uses_netloc = [[], ''ftp'', ''http'', ''gopher'', ''nntp'', ''telnet'', ''imap'', ''wais'',
                  ''file'', ''mms'', ''https'', ''shttp'', ''snews'', ''prospero'', ''rtsp'',
                  ''rtsps'', ''rtspu'', ''rsync'', ''svn'', ''svn+ssh'', ''sftp'', ''nfs'',
                  ''git'', ''git+ssh'', ''ws'', ''wss'']"

text \<open>Parameters follow the first semicolon after the last slash.\<close>

definition split_params :: "string \<Rightarrow> string \<times> string" where
  "split_params u =
     (case py_rpartition CHR ''/'' u of (a, found, b) \<Rightarrow>
        (case py_partition CHR '';'' b of (p, semi, q) \<Rightarrow>
           if semi then ((if found then a @ ''/'' else []) @ p, q) else (u, [])))"

definition urlparse :: "string \<Rightarrow> string \<Rightarrow> parsed_url result" where
  "urlparse dflt s =
     (case split_scheme dflt (clean_url s) of (scheme, rest) \<Rightarrow>
      let (netloc, rest1) =
            (if startswith rest ''//'' then
               (takeWhile (\<lambda>c. c \<notin> set ''/?#'') (drop 2 rest),
                dropWhile (\<lambda>c. c \<notin> set ''/?#'') (drop 2 rest))
             else ([], rest))
      in if \<not> netloc_ok netloc then Inl (ValueError ''Invalid IPv6 URL'')
         else
           (case py_partition CHR ''#'' rest1 of (rest2, _, fragment) \<Rightarrow>
            case py_partition CHR ''?'' rest2 of (path0, _, query) \<Rightarrow>
              (let (path, params) =
                     (if scheme \<in> set uses_params then split_params path0 else (path0, []))
               in Inr \<lparr>pu_scheme = scheme, pu_netloc = netloc, pu_path = path,
                       pu_params = params, pu_query = query, pu_fragment = fragment\<rparr>)))"

definition hostinfo :: "string \<Rightarrow> string \<times> string" where
  "hostinfo netloc =
     (case py_rpartition CHR ''@'' netloc of (_, _, hi) \<Rightarrow>
      case py_partition CHR ''['' hi of (_, have_open, bracketed) \<Rightarrow>
        if have_open then
          (case py_partition CHR '']'' bracketed of (h, _, p) \<Rightarrow>
           case py_partition CHR '':'' p of (_, _, port) \<Rightarrow> (h, port))
        else (case py_partition CHR '':'' hi of (h, _, port) \<Rightarrow> (h, port)))"

text \<open>The host, lowered up to a zone identifier; empty when there is none.\<close>

definition url_hostname :: "parsed_url \<Rightarrow> string" where
  "url_hostname u =
     (case py_partition CHR ''%'' (fst (hostinfo (pu_netloc u))) of (h, pc, zone) \<Rightarrow>
        py_lower h @ (if pc then ''%'' @ zone else []))"

definition url_port :: "parsed_url \<Rightarrow> nat option result" where
  "url_port u =
     (let p = snd (hostinfo (pu_netloc u)) in
      if p = [] then Inr None
      else if \<not> all_digits p then Inl (ValueError ''Port could not be cast to integer value'')
      else if 65535 < nat_of_text p then Inl (ValueError ''Port out of range 0-65535'')
      else Inr (Some (nat_of_text p)))"

section \<open>Putting URLs together\<close>

definition urlunparse :: "parsed_url \<Rightarrow> string" where
  "urlunparse u =
     (let p0 = pu_path u @ (if pu_params u = [] then [] else '';'' @ pu_params u);
          p1 = (if pu_netloc u \<noteq> [] \<or> (pu_scheme u \<noteq> [] \<and> pu_scheme u \<in> set uses_netloc)
                   \<or> startswith p0 ''//''
                then ''//'' @ pu_netloc u @ (if p0 \<noteq> [] \<and> \<not> startswith p0 ''/'' then ''/'' else []) @ p0
                else p0);
          p2 = (if pu_scheme u = [] then p1 else pu_scheme u @ '':'' @ p1);
          p3 = (if pu_query u = [] then p2 else p2 @ ''?'' @ pu_query u)
      in if pu_fragment u = [] then p3 else p3 @ ''#'' @ pu_fragment u)"

fun resolve_dots :: "string list \<Rightarrow> string list \<Rightarrow> string list" where
  "resolve_dots acc [] = rev acc"
| "resolve_dots acc (s # ss) =
     (if s = ''..'' then resolve_dots (drop 1 acc) ss
      else if s = ''.'' then resolve_dots acc ss
      else resolve_dots (s # acc) ss)"

definition join_segments :: "string \<Rightarrow> string \<Rightarrow> string list" where
  "join_segments bpath path =
     (if startswith path ''/'' then py_split CHR ''/'' path
      else let base0 = py_split CHR ''/'' bpath;
               base = (if last base0 \<noteq> [] then butlast base0 else base0);
               segs = base @ py_split CHR ''/'' path
           in if length segs < 2 then segs
              else hd segs # filter (\<lambda>s. s \<noteq> []) (butlast (tl segs)) @ [last segs])"

definition urljoin :: "string \<Rightarrow> string \<Rightarrow> string result" where
  "urljoin base url =
     (if base = [] then Inr url else if url = [] then Inr base
      else then_do (urlparse [] base) (\<lambda>b.
           then_do (urlparse (pu_scheme b) url) (\<lambda>u.
      if pu_scheme u \<noteq> pu_scheme b \<or> pu_scheme u \<notin> set uses_relative then Inr url
      else if pu_scheme u \<in> set uses_netloc \<and> pu_netloc u \<noteq> [] then Inr (urlunparse u)
      else let netloc = (if pu_scheme u \<in> set uses_netloc then pu_netloc b else pu_netloc u) in
        if pu_path u = [] \<and> pu_params u = [] then
          Inr (urlunparse (u\<lparr>pu_netloc := netloc, pu_path := pu_path b, pu_params := pu_params b,
                             pu_query := (if pu_query u = [] then pu_query b else pu_query u)\<rparr>))
        else
          let segs = join_segments (pu_path b) (pu_path u);
              res = resolve_dots [] segs @ (if last segs \<in> {''.'', ''..''} then [[]] else [])
          in Inr (urlunparse (u\<lparr>pu_netloc := netloc,
                                pu_path := or_text (py_join ''/'' res) ''/''\<rparr>)))))"

section \<open>Normalised paths\<close>

text \<open>
  The components of \<open>posixpath.normpath\<close>: empty and \<open>.\<close> components go, \<open>..\<close> removes the
  component before it, and is kept only at the start of a relative path.
\<close>

fun norm_comps :: "bool \<Rightarrow> string list \<Rightarrow> string list \<Rightarrow> string list" where
  "norm_comps absolute acc [] = rev acc"
| "norm_comps absolute acc (c # cs) =
     (if c = [] \<or> c = ''.'' then norm_comps absolute acc cs
      else if c \<noteq> ''..'' \<or> (\<not> absolute \<and> acc = []) \<or> (acc \<noteq> [] \<and> hd acc = ''..'')
           then norm_comps absolute (c # acc) cs
      else norm_comps absolute (drop 1 acc) cs)"

text \<open>POSIX keeps exactly two leading slashes and folds three or more into one.\<close>

definition initial_slashes :: "string \<Rightarrow> nat" where
  "initial_slashes p =
     (if startswith p ''//'' \<and> \<not> startswith p ''///'' then 2
      else if startswith p ''/'' then 1 else 0)"

definition normpath :: "string \<Rightarrow> string" where
  "normpath p =
     or_text (replicate (initial_slashes p) CHR ''/''
              @ py_join ''/'' (norm_comps (initial_slashes p \<noteq> 0) [] (py_split CHR ''/'' p)))
             ''.''"

text \<open>The components that \<open>normpath\<close> keeps of an absolute path.\<close>

definition plain_comp :: "string \<Rightarrow> bool" where
  "plain_comp s \<longleftrightarrow> s \<noteq> [] \<and> s \<noteq> ''.'' \<and> s \<noteq> ''..'' \<and> CHR ''/'' \<notin> set s"

lemma norm_comps_plain:
  "\<lbrakk>list_all plain_comp acc; \<forall>c\<in>set cs. CHR ''/'' \<notin> set c\<rbrakk>
     \<Longrightarrow> list_all plain_comp (norm_comps True acc cs)"
proof (induction cs arbitrary: acc)
  case (Cons c cs)
  have d: "list_all plain_comp (drop 1 acc)" using Cons.prems by (cases acc) auto
  have n: "acc \<noteq> [] \<Longrightarrow> hd acc \<noteq> ''..''" using Cons.prems by (cases acc) (auto simp: plain_comp_def)
  have c: "c \<noteq> [] \<Longrightarrow> c \<noteq> ''.'' \<Longrightarrow> c \<noteq> ''..'' \<Longrightarrow> plain_comp c"
    using Cons.prems by (simp add: plain_comp_def)
  show ?case using Cons.prems Cons.IH d n c by auto
qed (simp add: list_all_rev)

end
