(* ===== verification/Target.thy ===== *)
theory Target
  imports Url
begin

text \<open>
  \<open>security_testing/target.py\<close> and \<open>security_testing/lab.py\<close>: operator supplied targets in a
  comparable form, and the matching of hosts and paths that scope decisions rest on.

  Host names are ASCII. On an ASCII name the \<open>idna\<close> codec returns the name or raises
  \<open>UnicodeError\<close> (an empty or over-long label), and \<open>_normalize_hostname\<close> keeps the name in
  both cases, so the codec does not show in \<open>normalize_hostname\<close>.
\<close>

section \<open>Addresses and networks in text\<close>

datatype asset_type =
    AT_URL | AT_WILDCARD | AT_DOMAIN | AT_IP | AT_CIDR | AT_OTHER | AT_SOURCE_CODE | AT_EXECUTABLE
  | AT_ANDROID_APP | AT_IOS_APP | AT_HARDWARE | AT_OTHER_ASSET | AT_AI_MODEL | AT_UNSUPPORTED

definition network_asset_types :: "asset_type list" where
  "network_asset_types = [AT_URL, AT_WILDCARD, AT_DOMAIN, AT_IP, AT_CIDR]"

definition default_ports :: "(string, nat) dict" where
  "default_ports = [(''http'', 80), (''https'', 443), (''ws'', 80), (''wss'', 443)]"

record normalized_target =
  original :: string
  t_scheme :: string
  hostname :: string
  port :: "nat option"
  t_path :: string
  t_url :: string
  t_query :: string
  t_ip :: "string option"
  t_cidr :: "string option"
  asset_type :: asset_type
  t_program_id :: "string option"
  t_project_id :: "string option"

definition host_port :: "normalized_target \<Rightarrow> string" where
  "host_port t = (case port t of None \<Rightarrow> hostname t | Some p \<Rightarrow> hostname t @ '':'' @ show_nat p)"

definition unbracket :: "string \<Rightarrow> string" where
  "unbracket s = (if startswith s ''['' \<and> endswith s '']'' then butlast (tl s) else s)"

definition try_ip :: "string \<Rightarrow> ip option" where
  "try_ip value = ip_address (unbracket (py_strip value))"

definition try_cidr :: "string \<Rightarrow> net option" where
  "try_cidr value =
     (let text = py_strip value in if CHR ''/'' \<in> set text then ip_network text else None)"

definition normalize_hostname :: "string \<Rightarrow> string" where
  "normalize_hostname host = unbracket (py_rstrip_char CHR ''.'' (py_lower (py_strip host)))"

section \<open>Canonical paths\<close>

text \<open>The decoding loop: at most \<open>rounds\<close> rounds, until nothing changes.\<close>

fun percent_decode_bounded :: "nat \<Rightarrow> string \<Rightarrow> string" where
  "percent_decode_bounded k current =
     (if k = 0 then current
      else let decoded = unquote current in
        if decoded = current then current else percent_decode_bounded (k - 1) decoded)"

declare percent_decode_bounded.simps [simp del]

definition with_slash :: "string \<Rightarrow> string" where
  "with_slash s = (if startswith s ''/'' then s else ''/'' @ s)"

definition trim_trailing :: "string \<Rightarrow> string" where
  "trim_trailing s =
     (if s \<noteq> ''/'' \<and> endswith s ''/'' then py_rstrip_char CHR ''/'' s else s)"

definition canonicalize_path :: "string \<Rightarrow> string" where
  "canonicalize_path path =
     (let raw0 = py_replace_char CHR 0x5C CHR ''/'' (or_text path ''/'');
          raw1 = with_slash (percent_decode_bounded 3 raw0);
          normalized = trim_trailing (with_slash (normpath raw1))
      in or_text normalized ''/'')"

definition path_matches :: "string \<Rightarrow> string \<Rightarrow> bool" where
  "path_matches candidate_path pre =
     (let left = canonicalize_path candidate_path; right = canonicalize_path pre in
      if right = [] \<or> right = ''/'' then True
      else if left = right then True
      else startswith left (py_rstrip_char CHR ''/'' right @ ''/''))"

section \<open>Host matching\<close>

definition single_host_match :: "string \<Rightarrow> string \<Rightarrow> bool" where
  "single_host_match host pattern =
     (let raw = py_strip pattern in
      if raw = [] then False
      else case (if CHR ''/'' \<in> set raw \<and> \<not> startswith raw ''*.'' then try_cidr raw else None) of
        Some cidr \<Rightarrow> (case try_ip host of None \<Rightarrow> False | Some addr \<Rightarrow> ip_in addr cidr)
      | None \<Rightarrow>
          if startswith raw ''*.'' then
            (let base = normalize_hostname (drop 2 raw) in
             if base = [] then False
             else if host = base then True
             else endswith host (''.'' @ base))
          else
            (let exact = normalize_hostname raw in
             if host = exact then True
             else case (try_ip host, try_ip exact) of
                 (Some a, Some b) \<Rightarrow> a = b
               | _ \<Rightarrow> False))"

definition hostname_matches :: "string \<Rightarrow> string list \<Rightarrow> bool" where
  "hostname_matches host patterns =
     (let candidate = normalize_hostname host in
      candidate \<noteq> [] \<and> list_ex (single_host_match candidate) patterns)"

section \<open>The normaliser\<close>

definition format_netloc :: "string \<Rightarrow> nat option \<Rightarrow> nat option \<Rightarrow> string" where
  "format_netloc host pt dflt =
     (let h = (if CHR '':'' \<in> set host \<and> \<not> startswith host ''['' then ''['' @ host @ '']'' else host) in
      case pt of None \<Rightarrow> h
      | Some p \<Rightarrow> if dflt = Some p then h else h @ '':'' @ show_nat p)"

definition bare_target ::
    "string \<Rightarrow> string option \<Rightarrow> string option \<Rightarrow> asset_type \<Rightarrow> normalized_target" where
  "bare_target raw program project ty =
     \<lparr>original = raw, t_scheme = [], hostname = [], port = None, t_path = [], t_url = [],
      t_query = [], t_ip = None, t_cidr = None, asset_type = ty,
      t_program_id = program, t_project_id = project\<rparr>"

text \<open>The URL case of \<open>TargetNormalizer.normalize\<close>.\<close>

definition normalize_url ::
    "string \<Rightarrow> string option \<Rightarrow> string option \<Rightarrow> string \<Rightarrow> string \<Rightarrow> normalized_target result" where
  "normalize_url raw program project default_scheme text =
     then_do (urlparse [] (if py_contains text ''://'' then text else default_scheme @ ''://'' @ text))
       (\<lambda>parsed.
          let scheme = py_lower (or_text (pu_scheme parsed) default_scheme);
              host = normalize_hostname (url_hostname parsed)
          in if host = [] then Inl (ValueError ''Cannot parse hostname from target'')
          else then_do (url_port parsed) (\<lambda>pt0.
            let default_port = map_of default_ports scheme;
                pt = (case pt0 of None \<Rightarrow> default_port | Some p \<Rightarrow> Some p);
                path = canonicalize_path (or_text (pu_path parsed) ''/'');
                query = pu_query parsed;
                ip = map_option ip_show (try_ip host);
                url = scheme @ ''://'' @ format_netloc host pt default_port @ path
            in Inr ((bare_target raw program project (if ip \<noteq> None then AT_IP else AT_URL))
                 \<lparr>t_scheme := scheme, hostname := host, port := pt, t_path := or_text path ''/'',
                  t_url := (if query = [] then url else url @ ''?'' @ query),
                  t_query := query, t_ip := ip\<rparr>)))"

definition normalize ::
    "string \<Rightarrow> string option \<Rightarrow> string option \<Rightarrow> string \<Rightarrow> normalized_target result" where
  "normalize raw program project default_scheme =
     (let text = py_strip raw in
      if text = [] then Inl (ValueError ''Target must be a non-empty string'')
      else case try_cidr text of
        Some cidr \<Rightarrow> Inr ((bare_target raw program project AT_CIDR)\<lparr>t_cidr := Some (net_show cidr)\<rparr>)
      | None \<Rightarrow> (case try_ip text of
          Some ip_only \<Rightarrow> Inr ((bare_target raw program project AT_IP)
            \<lparr>hostname := ip_show ip_only, t_ip := Some (ip_show ip_only)\<rparr>)
        | None \<Rightarrow>
            if \<not> py_contains text ''://'' \<and> startswith text ''*.'' then
              Inr ((bare_target raw program project AT_WILDCARD)
                 \<lparr>hostname := normalize_hostname (drop 2 text)\<rparr>)
            else normalize_url raw program project default_scheme text))"

section \<open>The local laboratory\<close>

definition lab_hosts :: "string list" where
  "lab_hosts = [''localhost'', ''127.0.0.1'', ''::1'', ''0:0:0:0:0:0:0:1'']"

definition lab_norm :: "string \<Rightarrow> string" where
  "lab_norm h = py_rstrip_char CHR ''.'' (py_lower (py_strip h))"

definition is_loopback_or_lab_host :: "string \<Rightarrow> string list \<Rightarrow> bool" where
  "is_loopback_or_lab_host name extra =
     (let host = lab_norm name in
      if host = [] then False
      else if host \<in> set lab_hosts \<or> endswith host ''.lab'' \<or> endswith host ''.localhost'' then True
      else if host \<in> lab_norm ` set (filter (\<lambda>item. py_strip item \<noteq> []) extra) then True
      else case ip_address host of None \<Rightarrow> False | Some addr \<Rightarrow> is_loopback addr)"

section \<open>Canonical forms\<close>

text \<open>What an absolute normalised path looks like.\<close>

definition plain_path :: "nat \<Rightarrow> string list \<Rightarrow> string" where
  "plain_path k cs = replicate k CHR ''/'' @ py_join ''/'' cs"

lemma join_plain_last:
  "cs \<noteq> [] \<Longrightarrow> list_all plain_comp cs \<Longrightarrow> py_join ''/'' cs \<noteq> [] \<and> last (py_join ''/'' cs) \<noteq> CHR ''/''"
proof (induction "''/''" cs rule: py_join.induct)
  case (2 x)
  then show ?case using last_in_set by (fastforce simp: plain_comp_def)
qed auto

lemma normpath_absolute:
  assumes "startswith p ''/''"
  shows "\<exists>k cs. (k = 1 \<or> k = 2) \<and> list_all plain_comp cs \<and> normpath p = plain_path k cs"
proof -
  let ?cs = "norm_comps True [] (py_split CHR ''/'' p)"
  let ?k = "initial_slashes p"
  have k: "?k = 1 \<or> ?k = 2" using assms by (simp add: initial_slashes_def)
  have "list_all plain_comp ?cs" by (rule norm_comps_plain) (auto dest: py_split_no_sep)
  moreover have "normpath p = plain_path ?k ?cs"
    using k by (auto simp: normpath_def or_text_def plain_path_def)
  ultimately show ?thesis using k by blast
qed

lemma canonical_form:
  "canonicalize_path p = ''/'' \<or>
   (\<exists>k cs. (k = 1 \<or> k = 2) \<and> cs \<noteq> [] \<and> list_all plain_comp cs \<and> canonicalize_path p = plain_path k cs)"
proof -
  define raw where "raw = with_slash (percent_decode_bounded 3 (py_replace_char CHR 0x5C CHR ''/'' (or_text p ''/'')))"
  have "startswith raw ''/''" by (simp add: raw_def with_slash_def startswith_def)
  from normpath_absolute [OF this] obtain k cs where
    k: "k = 1 \<or> k = 2" and cs: "list_all plain_comp cs" and n: "normpath raw = plain_path k cs" by blast
  have c: "canonicalize_path p = or_text (trim_trailing (with_slash (plain_path k cs))) ''/''"
    unfolding canonicalize_path_def Let_def raw_def [symmetric] n by (rule refl)
  have w: "with_slash (plain_path k cs) = plain_path k cs"
    using k by (auto simp: with_slash_def startswith_def plain_path_def numeral_2_eq_2)
  show ?thesis
  proof (cases "cs = []")
    case True
    have t: "trim_trailing ''/'' = ''/''" "trim_trailing ''//'' = []"
      by (simp_all add: trim_trailing_def endswith_def py_rstrip_char_def rstrip_by_def suffix_def)
    have "plain_path k cs = ''/'' \<or> plain_path k cs = ''//''"
      using k True by (auto simp: plain_path_def numeral_2_eq_2)
    then have "canonicalize_path p = ''/''"
      unfolding c w by (elim disjE) (simp_all only: t or_text_def, simp_all)
    then show ?thesis by blast
  next
    case False
    with join_plain_last [OF False cs] have "\<not> suffix ''/'' (plain_path k cs)"
      by (auto simp: plain_path_def suffix_def dest: arg_cong [where f = last])
    then have "canonicalize_path p = plain_path k cs"
      using False w c k by (auto simp: trim_trailing_def endswith_def or_text_def plain_path_def)
    then show ?thesis using False k cs by blast
  qed
qed

lemma canonical_rstrip:
  "canonicalize_path q = ''/'' \<or> canonicalize_path q \<noteq> [] \<and>
     py_rstrip_char CHR ''/'' (canonicalize_path q) = canonicalize_path q"
proof (cases "canonicalize_path q = ''/''")
  case False
  with canonical_form [of q] obtain k cs where
    "cs \<noteq> []" "list_all plain_comp cs" "canonicalize_path q = plain_path k cs" by blast
  with join_plain_last [of cs] show ?thesis
    by (simp add: plain_path_def py_rstrip_char_def rstrip_by_id)
qed simp

section \<open>Percent encoding\<close>

text \<open>
  \<open>encodes p q\<close>: the text \<open>q\<close> is \<open>p\<close> with some of its characters replaced by percent
  escapes, every percent sign among them.
\<close>

inductive encodes :: "string \<Rightarrow> string \<Rightarrow> bool" where
  encodes_Nil: "encodes [] []"
| encodes_plain: "encodes p q \<Longrightarrow> c \<noteq> CHR ''%'' \<Longrightarrow> encodes (c # p) (c # q)"
| encodes_escape: "encodes p q \<Longrightarrow> is_hex a \<Longrightarrow> is_hex b \<Longrightarrow> char_of (16 * hex_val a + hex_val b) = c
    \<Longrightarrow> encodes (c # p) (CHR ''%'' # a # b # q)"

inductive encoded_times :: "nat \<Rightarrow> string \<Rightarrow> string \<Rightarrow> bool" where
  encoded_0: "encoded_times 0 p p"
| encoded_Suc: "encoded_times n p q \<Longrightarrow> encodes q r \<Longrightarrow> encoded_times (Suc n) p r"

definition is_ascii :: "string \<Rightarrow> bool" where
  "is_ascii s \<longleftrightarrow> list_all (\<lambda>c. of_char c < (128 :: nat)) s"

lemma percent_decode_encodes: "encodes p q \<Longrightarrow> percent_decode q = p"
proof (induction rule: encodes.induct)
  case (encodes_plain p q c)
  then show ?case by (cases "c # q" rule: percent_decode.cases) auto
qed auto

lemma percent_decode_id: "CHR ''%'' \<notin> set s \<Longrightarrow> percent_decode s = s"
  by (induction s rule: percent_decode.induct) auto

lemma utf8_replace_ascii: "is_ascii s \<Longrightarrow> utf8_replace s = s"
  by (induction s) (auto simp: is_ascii_def)

lemma unquote_encodes: "encodes p q \<Longrightarrow> is_ascii p \<Longrightarrow> unquote q = p"
  using percent_decode_encodes [of p q] percent_decode_id [of q]
  by (auto simp: unquote_def utf8_replace_ascii)

lemma encodes_chars: "encodes p q \<Longrightarrow> set q \<subseteq> set p \<union> {CHR ''%''} \<union> Collect is_hex"
  by (induction rule: encodes.induct) auto

lemma encodes_Nil_iff: "encodes p q \<Longrightarrow> q = [] \<longleftrightarrow> p = []"
  by (induction rule: encodes.induct) auto
lemma is_hex_small: "is_hex c \<Longrightarrow> of_char c < (128 :: nat) \<and> c \<noteq> CHR 0x5C"
proof -
  assume "is_hex c"
  then have "c \<in> set hex_chars \<or> c \<in> set upper_letters"
    by (auto simp: is_hex_def lower_char_def split: option.splits dest: map_of_SomeD set_zip_leftD)
  then show ?thesis by (auto simp: hex_chars_def upper_letters_def)
qed

lemma encodes_ascii:
  assumes "encodes p q" "is_ascii p" "CHR 0x5C \<notin> set p"
  shows "is_ascii q \<and> CHR 0x5C \<notin> set q"
proof -
  have "\<forall>c\<in>set q. of_char c < (128 :: nat) \<and> c \<noteq> CHR 0x5C"
    using encodes_chars [OF assms(1)] assms(2,3) is_hex_small by (fastforce simp: is_ascii_def list_all_iff)
  then show ?thesis by (auto simp: is_ascii_def list_all_iff)
qed

lemma encoded_times_ascii:
  "encoded_times n p q \<Longrightarrow> is_ascii p \<Longrightarrow> CHR 0x5C \<notin> set p
     \<Longrightarrow> is_ascii q \<and> CHR 0x5C \<notin> set q \<and> (q = [] \<longleftrightarrow> p = [])"
  by (induction rule: encoded_times.induct) (simp_all add: encodes_ascii encodes_Nil_iff)

lemma encoded_times_fixed:
  assumes "encoded_times n p q" "is_ascii p" "CHR 0x5C \<notin> set p" "unquote q = q" "CHR ''%'' \<notin> set p"
  shows "q = p"
  using assms
proof (induction rule: encoded_times.induct)
  case (encoded_Suc n p q r)
  then have "unquote r = q" using encoded_times_ascii unquote_encodes by blast
  with encoded_Suc show ?case by simp
qed simp

lemma decode_bounded_encoded:
  assumes "encoded_times n p q" "is_ascii p" "CHR 0x5C \<notin> set p" "CHR ''%'' \<notin> set p" "n \<le> k"
  shows "percent_decode_bounded k q = p"
  using assms
proof (induction arbitrary: k rule: encoded_times.induct)
  case (encoded_0 p)
  then have "unquote p = p" by (simp add: unquote_def)
  then show ?case by (simp add: percent_decode_bounded.simps)
next
  case (encoded_Suc n p q r)
  then have u: "unquote r = q" using encoded_times_ascii unquote_encodes by blast
  have "percent_decode_bounded (k - 1) q = p" using encoded_Suc by simp
  moreover have "q = r \<Longrightarrow> q = p" using encoded_times_fixed encoded_Suc u by simp
  ultimately show ?case using u encoded_Suc.prems by (subst percent_decode_bounded.simps) (auto simp: Let_def)
qed

lemma replace_absent: "a \<notin> set s \<Longrightarrow> py_replace_char a b s = s"
  by (induction s) (auto simp: py_replace_char_def)

section \<open>What the matchers decide\<close>

text \<open>The key of a path: no components for the root, else its segments.\<close>

definition path_key :: "string \<Rightarrow> string list" where
  "path_key p = (if canonicalize_path p = ''/'' then [] else py_split CHR ''/'' (canonicalize_path p))"

lemma path_matches_key: "path_matches p q \<longleftrightarrow> prefix (path_key q) (path_key p)"
proof (cases "canonicalize_path q = ''/''")
  case True
  then show ?thesis by (simp add: path_matches_def path_key_def)
next
  case False
  then have "canonicalize_path q \<noteq> []" "canonicalize_path q \<noteq> ''/''"
    and r: "py_rstrip_char CHR ''/'' (canonicalize_path q) = canonicalize_path q"
    using canonical_rstrip [of q] by auto
  moreover have "canonicalize_path p = ''/'' \<Longrightarrow> \<not> prefix (canonicalize_path q @ ''/'') ''/''"
    using False canonical_rstrip [of q] by (cases "canonicalize_path q") (auto simp: prefix_def)
  ultimately show ?thesis
    using split_prefix_iff [of "CHR ''/''" "canonicalize_path q" "canonicalize_path p"]
    by (auto simp: path_matches_def path_key_def Let_def startswith_def)
qed

interpretation paths: prefix_matcher path_key path_matches
  by unfold_locales (rule path_matches_key)

text \<open>A host pattern, read: nothing, a network, a domain with its subdomains, one name.\<close>

datatype host_pattern = Matches_nothing | In_net net | Under string | Exactly string

definition read_pattern :: "string \<Rightarrow> host_pattern" where
  "read_pattern pattern =
     (let raw = py_strip pattern in
      if raw = [] then Matches_nothing
      else if startswith raw ''*.'' then
        (if normalize_hostname (drop 2 raw) = [] then Matches_nothing
         else Under (normalize_hostname (drop 2 raw)))
      else case try_cidr raw of
        Some n \<Rightarrow> In_net n
      | None \<Rightarrow> Exactly (normalize_hostname raw))"

definition host_labels :: "string \<Rightarrow> string list" where
  "host_labels h = py_split CHR ''.'' h"

definition same_address :: "string \<Rightarrow> string \<Rightarrow> bool" where
  "same_address a b \<longleftrightarrow> (case try_ip a of None \<Rightarrow> False | Some x \<Rightarrow> try_ip b = Some x)"

fun host_in :: "host_pattern \<Rightarrow> string \<Rightarrow> bool" where
  "host_in Matches_nothing h = False"
| "host_in (In_net n) h = (case try_ip h of None \<Rightarrow> False | Some a \<Rightarrow> ip_in a n)"
| "host_in (Under base) h = suffix (host_labels base) (host_labels h)"
| "host_in (Exactly name) h = (h = name \<or> same_address h name)"

lemma try_cidr_strip: "CHR ''/'' \<notin> set s \<Longrightarrow> try_cidr s = None"
proof -
  assume "CHR ''/'' \<notin> set s"
  moreover have "set (py_strip s) \<subseteq> set s"
    by (auto simp: py_strip_def rstrip_by_def lstrip_by_def dest!: set_dropWhileD)
  ultimately show ?thesis by (auto simp: try_cidr_def Let_def)
qed

lemma single_host_match_read: "single_host_match h p \<longleftrightarrow> host_in (read_pattern p) h"
  unfolding single_host_match_def read_pattern_def Let_def
  using try_cidr_strip [of "py_strip p"]
  by (auto simp: split_suffix_iff host_labels_def endswith_def same_address_def split: option.splits)

text \<open>Names under a wildcard are those whose labels end with the labels of its base.\<close>

definition under :: "string \<Rightarrow> string \<Rightarrow> bool" where
  "under h base \<longleftrightarrow> host_in (Under base) h"

interpretation domains: prefix_matcher "\<lambda>h. rev (host_labels h)" under
  by unfold_locales (simp add: under_def suffix_to_prefix)

section \<open>Properties\<close>

text \<open>The canonical form of any path is the root, or one or two slashes followed by
  segments none of which is empty, a dot or a double dot.\<close>

theorem canonical_path_shape:
  "canonicalize_path p = ''/'' \<or>
   (\<exists>lead cs. (lead = ''/'' \<or> lead = ''//'') \<and> cs \<noteq> [] \<and> list_all plain_comp cs \<and>
      canonicalize_path p = lead @ py_join ''/'' cs)"
  using canonical_form [of p]
proof (elim disjE exE conjE)
  fix k :: nat and cs
  assume "cs \<noteq> []" "list_all plain_comp cs" "canonicalize_path p = plain_path k cs" "k = 2"
  then show ?thesis
    by (intro disjI2 exI [of _ "''//''"] exI [of _ cs]) (simp add: plain_path_def numeral_2_eq_2)
next
  fix k :: nat and cs
  assume "cs \<noteq> []" "list_all plain_comp cs" "canonicalize_path p = plain_path k cs" "k = 1"
  then show ?thesis
    by (intro disjI2 exI [of _ "''/''"] exI [of _ cs]) (simp add: plain_path_def)
qed simp

text \<open>Percent encoding a path, any of its characters and up to three times over, does not
  change its canonical form.\<close>

theorem encoding_is_canonical:
  assumes "encoded_times n p q" "n \<le> 3" "is_ascii p" "CHR ''%'' \<notin> set p" "CHR 0x5C \<notin> set p"
  shows "canonicalize_path q = canonicalize_path p"
proof (cases "p = []")
  case False
  with assms encoded_times_ascii have q: "q \<noteq> []" "CHR 0x5C \<notin> set q" by blast+
  have "percent_decode_bounded 3 q = p" "percent_decode_bounded 3 p = p"
    using decode_bounded_encoded assms encoded_0 [of p] by blast+
  then show ?thesis using q False assms
    by (simp add: canonicalize_path_def or_text_def replace_absent)
next
  case True
  then show ?thesis using assms encoded_times_ascii by blast
qed


theorem encoding_is_canonical_witness:
  "canonicalize_path ''/%2561dmin'' = canonicalize_path ''/admin''"
proof (rule encoding_is_canonical [of 2])
  have "encodes ''/admin'' ''/%61dmin''"
    by (intro encodes.intros; code_simp)
  moreover have "encodes ''/%61dmin'' ''/%2561dmin''"
    by (intro encodes.intros; code_simp)
  ultimately show "encoded_times 2 ''/admin'' ''/%2561dmin''"
    unfolding numeral_2_eq_2 by (blast intro: encoded_times.intros)
qed (simp_all add: is_ascii_def)

text \<open>A path matches a prefix exactly when the segments of the prefix start its own.\<close>

theorem path_matches_segments: "path_matches p q \<longleftrightarrow> prefix (path_key q) (path_key p)"
  by (rule path_matches_key)

text \<open>A host matches a list of patterns exactly when its normal form is not empty and is
  in what one of the patterns denotes: an address in a network, a name whose labels end with
  those of a wildcard's base, an equal name, or the same address written otherwise.\<close>

theorem hostname_matches_meaning:
  "hostname_matches host patterns \<longleftrightarrow>
     normalize_hostname host \<noteq> [] \<and>
     list_ex (\<lambda>p. host_in (read_pattern p) (normalize_hostname host)) patterns"
  by (simp add: hostname_matches_def Let_def single_host_match_read [abs_def])

end
