(* ===== verification/Scope.thy ===== *)
theory Scope
  imports Target
begin

text \<open>
  The scope documents of \<open>security_testing/scope_model.py\<close>, the guard of
  \<open>security_testing/scope_guard.py\<close> that decides whether a target may be touched, and the
  host allow-list of \<open>domain/scope.py\<close> it can be built from.
\<close>

section \<open>Scope documents\<close>

datatype eligibility = ELIGIBLE | INELIGIBLE | ELIGIBILITY_UNKNOWN
datatype scope_mode = CLOSED | OPEN
datatype testing_restriction =
    NO_RESTRICTION | NO_AUTOMATED_SCANNING | NO_DESTRUCTIVE | PASSIVE_ONLY | RATE_LIMITED

record scope_rule =
  r_identifier :: string
  r_asset_type :: asset_type
  eligible :: eligibility
  r_instructions :: string
  exclusions :: "string list"
  r_allowed_methods :: "string list"
  r_allow_active :: bool
  path_prefix :: string
  restriction :: testing_restriction
  r_program_id :: "string option"
  is_exclusion :: bool
  max_severity :: "string option"
  eligible_for_submission :: bool
  eligible_for_bounty :: bool
  structured_scope_id :: "string option"
  r_reference :: "string option"

definition default_rule :: "string \<Rightarrow> scope_rule" where
  "default_rule ident =
     \<lparr>r_identifier = ident, r_asset_type = AT_DOMAIN, eligible = ELIGIBLE, r_instructions = [],
      exclusions = [], r_allowed_methods = [], r_allow_active = False, path_prefix = [],
      restriction = NO_RESTRICTION, r_program_id = None, is_exclusion = False,
      max_severity = None, eligible_for_submission = True, eligible_for_bounty = False,
      structured_scope_id = None, r_reference = None\<rparr>"

text \<open>\<open>ScopeRule.__post_init__\<close>.\<close>

definition scope_rule_check :: "scope_rule \<Rightarrow> scope_rule result" where
  "scope_rule_check r =
     (if py_strip (r_identifier r) = [] then Inl (ValueError ''Scope rule identifier must be non-empty'')
      else Inr r)"

record program_scope =
  s_program_id :: "string option"
  s_program_name :: "string option"
  s_includes :: "scope_rule list"
  s_excludes :: "scope_rule list"
  s_instructions :: string
  s_allow_active :: bool
  s_allowed_methods :: "string list"
  testing_restrictions :: "testing_restriction list"
  lab_mode :: bool
  s_lab_hosts :: "string list"
  s_mode :: scope_mode
  open_scope_acknowledged :: bool
  open_scope_policy :: string

definition closed_scope :: program_scope where
  "closed_scope =
     \<lparr>s_program_id = None, s_program_name = None, s_includes = [], s_excludes = [],
      s_instructions = [], s_allow_active = False, s_allowed_methods = [],
      testing_restrictions = [], lab_mode = False,
      s_lab_hosts = [''localhost'', ''127.0.0.1'', ''::1''], s_mode = CLOSED,
      open_scope_acknowledged = False, open_scope_policy = []\<rparr>"

definition from_hosts ::
    "string list \<Rightarrow> string list \<Rightarrow> string list \<Rightarrow> bool \<Rightarrow> string option \<Rightarrow> string \<Rightarrow> bool \<Rightarrow> program_scope"
  where
  "from_hosts hosts excluded methods allow_active name instr lab =
     closed_scope
       \<lparr>s_program_name := name,
        s_includes := map (\<lambda>h. (default_rule h)
            \<lparr>r_asset_type := (if startswith (py_strip h) ''*.'' then AT_WILDCARD else AT_DOMAIN),
             r_allow_active := allow_active, r_allowed_methods := methods\<rparr>)
          (filter (\<lambda>h. py_strip h \<noteq> []) hosts),
        s_excludes := map (\<lambda>h. (default_rule h)\<lparr>is_exclusion := True\<rparr>)
          (filter (\<lambda>h. py_strip h \<noteq> []) excluded),
        s_instructions := instr, s_allow_active := allow_active, s_allowed_methods := methods,
        lab_mode := lab\<rparr>"

record authorization_decision =
  allowed :: bool
  reason :: string
  target_original :: string
  d_method :: string
  d_tool :: string
  matched_rule :: "scope_rule option"
  d_program :: "string option"
  d_dry_run :: bool
  approval_required :: bool
  approval_state :: string
  d_rate_limit :: "string option"
  d_extra :: "(string \<times> string) list"

definition scope_decision ::
    "bool \<Rightarrow> string \<Rightarrow> string \<Rightarrow> string \<Rightarrow> string \<Rightarrow> scope_rule option \<Rightarrow> string option \<Rightarrow> bool
     \<Rightarrow> authorization_decision" where
  "scope_decision ok why orig meth tool rule program dry =
     \<lparr>allowed = ok, reason = why, target_original = orig, d_method = meth, d_tool = tool,
      matched_rule = rule, d_program = program, d_dry_run = dry, approval_required = False,
      approval_state = ''not_required'', d_rate_limit = None, d_extra = []\<rparr>"

section \<open>Matching one rule\<close>

definition looks_cidr :: "string \<Rightarrow> bool" where
  "looks_cidr v \<longleftrightarrow> count_list v CHR ''/'' = 1 \<and> list_ex is_digit v"

text \<open>\<open>target.hostname or target.ip or ""\<close>.\<close>

definition host_or_ip :: "normalized_target \<Rightarrow> string" where
  "host_or_ip t = or_text (hostname t) (case t_ip t of None \<Rightarrow> [] | Some i \<Rightarrow> i)"

definition guard_normalize :: "string \<Rightarrow> normalized_target result" where
  "guard_normalize raw = normalize raw None None ''https''"

definition rule_matches :: "scope_rule \<Rightarrow> normalized_target \<Rightarrow> bool" where
  "rule_matches rule target =
     (let ident = py_strip (r_identifier rule) in
      if r_asset_type rule = AT_CIDR \<or> (CHR ''/'' \<in> set ident \<and> looks_cidr ident)
      then hostname_matches (host_or_ip target) [ident]
      else if r_asset_type rule = AT_IP then hostname_matches (host_or_ip target) [ident]
      else if startswith ident ''http://'' \<or> startswith ident ''https://'' then
        (case guard_normalize ident of
           Inl _ \<Rightarrow> False
         | Inr wanted \<Rightarrow>
             if hostname target \<noteq> hostname wanted then False
             else if t_scheme wanted \<noteq> [] \<and> t_scheme target \<noteq> [] \<and> t_scheme wanted \<noteq> t_scheme target
             then False
             else (let pre = or_text (path_prefix rule) (t_path wanted) in
                   if pre \<noteq> [] \<and> \<not> path_matches (t_path target) pre then False else True))
      else if \<not> hostname_matches (hostname target) [ident] then False
      else if path_prefix rule \<noteq> [] \<and> \<not> path_matches (t_path target) (path_prefix rule) then False
      else True)"

definition exclusion_token_matches :: "string \<Rightarrow> normalized_target \<Rightarrow> bool" where
  "exclusion_token_matches extra target =
     (let token = py_strip extra in
      if token = [] then False
      else if startswith token ''/'' then path_matches (t_path target) token
      else case guard_normalize token of
        Inl _ \<Rightarrow> hostname_matches (hostname target) [token]
      | Inr wanted \<Rightarrow>
          if t_cidr wanted \<noteq> None then hostname_matches (host_or_ip target) [token]
          else if t_ip wanted \<noteq> None \<and> t_scheme wanted = []
          then hostname_matches (host_or_ip target) [the (t_ip wanted)]
          else if hostname wanted \<noteq> [] \<and> hostname wanted \<noteq> hostname target then False
          else (let pre = (if t_path wanted = [] \<or> t_path wanted = ''/'' then [] else t_path wanted) in
                if pre \<noteq> [] \<and> \<not> path_matches (t_path target) pre then False
                else if hostname wanted \<noteq> [] then hostname_matches (hostname target) [hostname wanted]
                else False))"

definition included :: "program_scope \<Rightarrow> normalized_target \<Rightarrow> scope_rule option" where
  "included s target =
     List.find (\<lambda>rule. \<not> is_exclusion rule \<and> rule_matches rule target) (s_includes s)"

text \<open>The exclusion found first; its rule is what the denial reports.\<close>

definition excluded :: "program_scope \<Rightarrow> normalized_target \<Rightarrow> scope_rule option" where
  "excluded s target =
     (case List.find (\<lambda>rule. rule_matches rule target) (s_excludes s) of
        Some rule \<Rightarrow> Some rule
      | None \<Rightarrow> List.find (\<lambda>rule. list_ex (\<lambda>x. exclusion_token_matches x target) (exclusions rule))
                  (s_includes s))"

definition method_allowed :: "program_scope \<Rightarrow> string \<Rightarrow> scope_rule option \<Rightarrow> bool" where
  "method_allowed s meth rule =
     (let allowed = (case rule of
            Some r \<Rightarrow> if r_allowed_methods r \<noteq> [] then r_allowed_methods r else s_allowed_methods s
          | None \<Rightarrow> s_allowed_methods s)
      in allowed = [] \<or> meth \<in> set (map (\<lambda>i. py_upper (py_strip i)) allowed))"

section \<open>The guard\<close>

definition name_or :: "string option \<Rightarrow> string option \<Rightarrow> string option" where
  "name_or a b = (case a of Some x \<Rightarrow> (if x = [] then b else a) | None \<Rightarrow> b)"

definition deny ::
    "program_scope \<Rightarrow> normalized_target \<Rightarrow> string \<Rightarrow> string \<Rightarrow> string \<Rightarrow> bool \<Rightarrow> scope_rule option
     \<Rightarrow> authorization_decision" where
  "deny s target meth tool why dry matched =
     scope_decision False why (original target) (py_upper meth) tool matched
       (name_or (s_program_name s) (s_program_id s)) dry"

definition authorize_lab ::
    "program_scope \<Rightarrow> normalized_target \<Rightarrow> string \<Rightarrow> string \<Rightarrow> bool \<Rightarrow> bool \<Rightarrow> authorization_decision"
  where
  "authorize_lab s target meth tool active dry =
     (if \<not> is_loopback_or_lab_host (hostname target) (s_lab_hosts s) then
        scope_decision False ''Local lab mode cannot target non-lab hosts'' (original target)
          (py_upper meth) tool None (s_program_name s) dry
      else if s_includes s \<noteq> [] \<and> included s target = None then
        deny s target meth tool ''Target is not in lab scope'' dry None
      else case excluded s target of
        Some rule \<Rightarrow> deny s target meth tool ''Target matches a lab exclusion'' dry (Some rule)
      | None \<Rightarrow>
          if active \<and> \<not> s_allow_active s then
            deny s target meth tool ''NO ACTIVE-TESTING PERMISSION = DENY'' dry None
          else if \<not> method_allowed s (py_upper meth) None then
            deny s target meth tool (''HTTP method '' @ py_upper meth @ '' is not permitted'') dry None
          else scope_decision True ''Lab target authorized'' (original target) (py_upper meth) tool
                 None (name_or (s_program_name s) (Some ''local-lab'')) dry)"

fun asset_value :: "asset_type \<Rightarrow> string" where
  "asset_value AT_URL = ''url''"
| "asset_value AT_WILDCARD = ''wildcard''"
| "asset_value AT_DOMAIN = ''domain''"
| "asset_value AT_IP = ''ip''"
| "asset_value AT_CIDR = ''cidr''"
| "asset_value AT_OTHER = ''other''"
| "asset_value AT_SOURCE_CODE = ''source_code''"
| "asset_value AT_EXECUTABLE = ''executable''"
| "asset_value AT_ANDROID_APP = ''android_app''"
| "asset_value AT_IOS_APP = ''ios_app''"
| "asset_value AT_HARDWARE = ''hardware''"
| "asset_value AT_OTHER_ASSET = ''other_asset''"
| "asset_value AT_AI_MODEL = ''ai_model''"
| "asset_value AT_UNSUPPORTED = ''unsupported''"

definition open_scope_deny :: string where
  "open_scope_deny =
     ''Open-scope program: unknown assets are not automatically authorized. '' @
     ''An operator must approve an explicit active-testing policy before BugForge '' @
     ''may test assets that are not in the structured scope list.''"

text \<open>The checks that only active testing meets, in the code's order.\<close>

definition active_denial :: "program_scope \<Rightarrow> scope_rule \<Rightarrow> string \<Rightarrow> string option" where
  "active_denial s rule tool =
     (if r_asset_type rule = AT_UNSUPPORTED then
        Some ''UNSUPPORTED ASSET TYPE = DENY (explicit implementation required)''
      else if r_asset_type rule \<notin> set network_asset_types then
        Some (''Asset type '' @ asset_value (r_asset_type rule) @ '' cannot be actively tested'')
      else if \<not> s_allow_active s \<and> \<not> r_allow_active rule then
        Some ''NO ACTIVE-TESTING PERMISSION = DENY''
      else if restriction rule = PASSIVE_ONLY then Some ''Asset is passive-only''
      else if restriction rule = NO_AUTOMATED_SCANNING
              \<and> tool \<notin> set [''manual'', ''browser_evidence''] then
        Some ''Automated scanning is restricted for this asset''
      else None)"

definition authorize_live ::
    "program_scope \<Rightarrow> normalized_target \<Rightarrow> string \<Rightarrow> string \<Rightarrow> bool \<Rightarrow> bool \<Rightarrow> authorization_decision"
  where
  "authorize_live s target meth tool active dry =
     (if s_includes s = [] then deny s target meth tool ''NO SCOPE = DENY'' dry None
      else case excluded s target of
        Some ex \<Rightarrow> deny s target meth tool ''Target is excluded from program scope'' dry (Some ex)
      | None \<Rightarrow> (case included s target of
          None \<Rightarrow>
            if s_mode s = OPEN then deny s target meth tool open_scope_deny dry None
            else deny s target meth tool ''UNKNOWN TARGET = DENY'' dry None
        | Some rule \<Rightarrow>
            if \<not> method_allowed s (py_upper meth) (Some rule) then
              deny s target meth tool (''HTTP method '' @ py_upper meth @ '' is not permitted'') dry
                (Some rule)
            else case (if active then active_denial s rule tool else None) of
              Some why \<Rightarrow> deny s target meth tool why dry (Some rule)
            | None \<Rightarrow> scope_decision True ''In-scope target authorized'' (original target)
                (py_upper meth) tool (Some rule)
                (name_or (s_program_name s) (s_program_id s)) dry))"

definition authorize ::
    "program_scope \<Rightarrow> string \<Rightarrow> string \<Rightarrow> string \<Rightarrow> bool \<Rightarrow> bool \<Rightarrow> authorization_decision" where
  "authorize s target meth tool active dry =
     (case guard_normalize target of
        Inl exc \<Rightarrow> scope_decision False (''UNKNOWN TARGET = DENY ('' @ error_text exc @ '')'')
          target (py_upper meth) tool None None dry
      | Inr normalized \<Rightarrow>
          if lab_mode s then authorize_lab s normalized meth tool active dry
          else authorize_live s normalized meth tool active dry)"

definition guard_is_allowed :: "program_scope \<Rightarrow> string \<Rightarrow> string \<Rightarrow> bool \<Rightarrow> bool" where
  "guard_is_allowed s target meth active = allowed (authorize s target meth ''unknown'' active False)"

section \<open>Host allow-lists\<close>

record scope_constraint =
  allowed_hosts :: "string list"
  excluded_hosts :: "string list"
  c_allowed_methods :: "string list"
  rate_limit_per_minute :: "int option"
  c_instructions :: string
  c_allow_active :: bool
  c_program_name :: "string option"

definition allows_host :: "scope_constraint \<Rightarrow> string \<Rightarrow> bool" where
  "allows_host c host =
     (let normalized = py_lower (py_strip host) in
      if normalized = [] then False
      else if hostname_matches normalized (excluded_hosts c) then False
      else if allowed_hosts c = [] then False
      else hostname_matches normalized (allowed_hosts c))"

definition allows_method :: "scope_constraint \<Rightarrow> string \<Rightarrow> bool" where
  "allows_method c meth =
     (if c_allowed_methods c = [] then True
      else py_upper (py_strip meth) \<in> set (map (\<lambda>m. py_upper (py_strip m)) (c_allowed_methods c)))"

definition permits_active_testing :: "scope_constraint \<Rightarrow> bool" where
  "permits_active_testing c = c_allow_active c"

definition guard_from_constraint :: "scope_constraint \<Rightarrow> program_scope" where
  "guard_from_constraint c =
     from_hosts (allowed_hosts c) (excluded_hosts c) (c_allowed_methods c) (c_allow_active c)
       (c_program_name c) (c_instructions c) False"

section \<open>What the guard decides\<close>

text \<open>Nothing the scope lists excludes the target.\<close>

definition no_exclusion :: "program_scope \<Rightarrow> normalized_target \<Rightarrow> bool" where
  "no_exclusion s t \<longleftrightarrow>
     (\<forall>r\<in>set (s_excludes s). \<not> rule_matches r t) \<and>
     (\<forall>r\<in>set (s_includes s). \<forall>x\<in>set (exclusions r). \<not> exclusion_token_matches x t)"

lemma excluded_None: "excluded s t = None \<longleftrightarrow> no_exclusion s t"
  by (auto simp: excluded_def no_exclusion_def find_None_all list_ex_iff
      dest: find_Some_prop split: option.splits)

text \<open>The rule that governs a target: the first include that matches it.\<close>

definition governs :: "program_scope \<Rightarrow> normalized_target \<Rightarrow> scope_rule \<Rightarrow> bool" where
  "governs s t r \<longleftrightarrow>
     (\<exists>before after. s_includes s = before @ r # after \<and> \<not> is_exclusion r \<and> rule_matches r t \<and>
        (\<forall>b\<in>set before. is_exclusion b \<or> \<not> rule_matches b t))"

lemma included_Some: "included s t = Some r \<longleftrightarrow> governs s t r"
  by (auto simp: included_def governs_def find_Some_split)

text \<open>What a rule permits to an actively testing tool.\<close>

definition permits_active :: "program_scope \<Rightarrow> scope_rule \<Rightarrow> string \<Rightarrow> bool" where
  "permits_active s r tool \<longleftrightarrow>
     r_asset_type r \<in> set network_asset_types \<and> (s_allow_active s \<or> r_allow_active r) \<and>
     restriction r \<noteq> PASSIVE_ONLY \<and>
     (restriction r = NO_AUTOMATED_SCANNING \<longrightarrow> tool = ''manual'' \<or> tool = ''browser_evidence'')"

lemma active_denial_None: "active_denial s r tool = None \<longleftrightarrow> permits_active s r tool"
  by (auto simp: active_denial_def permits_active_def network_asset_types_def)

definition live_permits ::
    "program_scope \<Rightarrow> normalized_target \<Rightarrow> string \<Rightarrow> string \<Rightarrow> bool \<Rightarrow> scope_rule \<Rightarrow> bool" where
  "live_permits s t meth tool active r \<longleftrightarrow>
     no_exclusion s t \<and> governs s t r \<and> method_allowed s (py_upper meth) (Some r) \<and>
     (active \<longrightarrow> permits_active s r tool)"

definition lab_permits :: "program_scope \<Rightarrow> normalized_target \<Rightarrow> string \<Rightarrow> bool \<Rightarrow> bool" where
  "lab_permits s t meth active \<longleftrightarrow>
     is_loopback_or_lab_host (hostname t) (s_lab_hosts s) \<and>
     (s_includes s = [] \<or> (\<exists>r. governs s t r)) \<and> no_exclusion s t \<and>
     (active \<longrightarrow> s_allow_active s) \<and> method_allowed s (py_upper meth) None"

lemma allowed_decision [simp]: "allowed (scope_decision ok why orig meth tool rule program dry) = ok"
  by (simp add: scope_decision_def)

lemma allowed_deny [simp]: "\<not> allowed (deny s t meth tool why dry r)"
  by (simp add: deny_def)

lemma matched_decision [simp]:
  "matched_rule (scope_decision ok why orig meth tool rule program dry) = rule"
  by (simp add: scope_decision_def)

lemma authorize_live_allowed:
  "allowed (authorize_live s t meth tool active dry) \<longleftrightarrow> (\<exists>r. live_permits s t meth tool active r)"
proof (cases "included s t")
  case None
  then have "\<not> governs s t r" for r by (simp add: included_Some [symmetric])
  with None show ?thesis by (simp add: authorize_live_def live_permits_def split: option.splits)
next
  case (Some r)
  then have "governs s t r' \<longleftrightarrow> r' = r" for r' by (auto simp: included_Some [symmetric])
  moreover have "s_includes s \<noteq> []" using Some by (auto simp: included_def)
  ultimately show ?thesis using Some
    by (auto simp: authorize_live_def live_permits_def excluded_None [symmetric]
        active_denial_None [symmetric] split: option.splits)
qed

lemma authorize_lab_allowed:
  "allowed (authorize_lab s t meth tool active dry) \<longleftrightarrow> lab_permits s t meth active"
proof -
  have "included s t = None \<longleftrightarrow> \<not> (\<exists>r. governs s t r)"
    using included_Some [of s t] by (metis not_None_eq option.distinct(1))
  then show ?thesis
    by (auto simp: authorize_lab_def lab_permits_def excluded_None [symmetric] split: option.splits)
qed

text \<open>The reported rule is the governing one.\<close>

lemma authorize_live_rule:
  "allowed (authorize_live s t meth tool active dry) \<Longrightarrow>
   \<exists>r. matched_rule (authorize_live s t meth tool active dry) = Some r \<and>
       live_permits s t meth tool active r"
  by (auto simp: authorize_live_def live_permits_def excluded_None [symmetric]
      included_Some [symmetric] active_denial_None [symmetric] split: option.splits if_splits)

section \<open>Properties\<close>

text \<open>C15. Outside lab mode a request is allowed exactly when its target can be read, no
  exclusion covers it, and the first include rule that matches it permits the method and, for
  active testing, the asset type, the activity and the tool.\<close>

theorem live_scope_decision:
  "\<not> lab_mode s \<Longrightarrow>
   allowed (authorize s raw meth tool active dry) \<longleftrightarrow>
     (\<exists>t r. guard_normalize raw = Inr t \<and> live_permits s t meth tool active r)"
  by (auto simp: authorize_def authorize_live_allowed split: sum.splits)

text \<open>In lab mode a request is allowed exactly for a loopback or lab host that the lab's
  includes (when there are any) match, that nothing excludes and whose method is permitted;
  active testing needs the scope's permission.\<close>

theorem lab_scope_decision:
  "lab_mode s \<Longrightarrow>
   allowed (authorize s raw meth tool active dry) \<longleftrightarrow>
     (\<exists>t. guard_normalize raw = Inr t \<and> lab_permits s t meth active)"
  by (auto simp: authorize_def authorize_lab_allowed split: sum.splits)

text \<open>An empty scope outside the lab allows nothing.\<close>

theorem default_deny:
  "\<not> lab_mode s \<Longrightarrow> s_includes s = [] \<Longrightarrow> \<not> allowed (authorize s raw meth tool active dry)"
  by (auto simp: authorize_def authorize_live_def split: sum.splits)

lemma no_exclusion_more:
  "no_exclusion (s\<lparr>s_excludes := extra @ s_excludes s\<rparr>) t \<Longrightarrow> no_exclusion s t"
  by (auto simp: no_exclusion_def)

lemma authorize_read:
  "guard_normalize raw = Inr t \<Longrightarrow>
   allowed (authorize s raw meth tool active dry) \<longleftrightarrow>
     (if lab_mode s then lab_permits s t meth active else (\<exists>r. live_permits s t meth tool active r))"
  by (simp add: authorize_def authorize_live_allowed authorize_lab_allowed)

lemma permits_with_fewer_exclusions:
  fixes s extra defines "s' \<equiv> s\<lparr>s_excludes := extra @ s_excludes s\<rparr>"
  shows "live_permits s' t meth tool active r \<Longrightarrow> live_permits s t meth tool active r"
    and "lab_permits s' t meth active \<Longrightarrow> lab_permits s t meth active"
  using no_exclusion_more [of extra s t]
  unfolding s'_def live_permits_def lab_permits_def governs_def permits_active_def method_allowed_def
  by (auto simp: Let_def split: if_splits)

text \<open>Adding exclusions to a scope, in either mode, never allows a request that was refused.\<close>

theorem exclusions_only_restrict:
  assumes "allowed (authorize (s\<lparr>s_excludes := extra @ s_excludes s\<rparr>) raw meth tool active dry)"
  shows "allowed (authorize s raw meth tool active dry)"
proof (cases "guard_normalize raw")
  case (Inr t)
  then show ?thesis using assms permits_with_fewer_exclusions [where s = s and extra = extra and t = t]
    by (simp add: authorize_read split: if_splits) blast+
qed (use assms in \<open>simp add: authorize_def\<close>)

definition sample_scope :: program_scope where
  "sample_scope = closed_scope
     \<lparr>s_includes := [(default_rule ''*.example.com'')
        \<lparr>r_allow_active := True, exclusions := [''*.internal.example.com'', ''/admin'']\<rparr>]\<rparr>"

theorem live_scope_decision_witness:
  "\<exists>t r. guard_normalize ''https://api.example.com/v1'' = Inr t \<and>
     live_permits sample_scope t ''get'' ''nuclei'' True r"
proof -
  have "\<not> lab_mode sample_scope" by code_simp
  moreover have "allowed (authorize sample_scope ''https://api.example.com/v1'' ''get'' ''nuclei'' True False)"
    by code_simp
  ultimately show ?thesis using live_scope_decision by blast
qed

theorem default_deny_witness: "\<not> allowed (authorize closed_scope ''https://a.org/'' ''GET'' ''curl'' False False)"
  by (rule default_deny) (simp_all add: closed_scope_def)

theorem lab_scope_decision_witness:
  "\<exists>t. guard_normalize ''http://localhost/x'' = Inr t \<and>
     lab_permits (closed_scope\<lparr>lab_mode := True, s_allow_active := True\<rparr>) t ''GET'' True"
proof -
  let ?s = "closed_scope\<lparr>lab_mode := True, s_allow_active := True\<rparr>"
  have "lab_mode ?s" by code_simp
  moreover have "allowed (authorize ?s ''http://localhost/x'' ''GET'' ''curl'' True False)"
    by code_simp
  ultimately show ?thesis using lab_scope_decision by blast
qed

theorem exclusions_only_restrict_witness:
  "allowed (authorize sample_scope ''https://api.example.com/v1'' ''GET'' ''nuclei'' True False)"
  by (rule exclusions_only_restrict [of "[default_rule ''old.example.com'']"]) code_simp

text \<open>A path exclusion that covers a target covers every target at or below its path.\<close>

theorem path_exclusion_covers_subtree:
  assumes "startswith (py_strip token) ''/''"
    and "exclusion_token_matches token t" and "path_matches (t_path t') (t_path t)"
  shows "exclusion_token_matches token t'"
  using assms paths.matches_trans [of "t_path t'" "t_path t" "py_strip token"]
  by (auto simp: exclusion_token_matches_def Let_def)

theorem path_exclusion_covers_subtree_witness:
  "exclusion_token_matches '' /admin'' (bare_target [] None None AT_URL\<lparr>t_path := ''/admin/users/7''\<rparr>)"
  by (rule path_exclusion_covers_subtree
        [of _ "bare_target [] None None AT_URL\<lparr>t_path := ''/admin/users''\<rparr>"]) code_simp+

text \<open>A wildcard exclusion token of an include rule excludes only its base host, since its normal
  form is compared with the target's host for equality: a host that the pattern denotes is still
  allowed.\<close>

theorem wildcard_token_gap:
  "host_in (read_pattern ''*.internal.example.com'') ''db.internal.example.com'' \<and>
   \<not> allowed (authorize sample_scope ''https://internal.example.com/'' ''GET'' ''nuclei'' True False) \<and>
   allowed (authorize sample_scope ''https://db.internal.example.com/'' ''GET'' ''nuclei'' True False)"
  by (intro conjI; code_simp)

text \<open>A path with two leading slashes keeps both, so that it is under no prefix with one, and
  escapes the path exclusion that covers the same path with one slash.\<close>

theorem double_slash_gap:
  "canonicalize_path ''//admin'' = ''//admin'' \<and>
   \<not> allowed (authorize sample_scope ''https://a.example.com/admin'' ''GET'' ''nuclei'' True False) \<and>
   allowed (authorize sample_scope ''https://a.example.com//admin'' ''GET'' ''nuclei'' True False)"
  by (intro conjI; code_simp)

end
