(* ===== verification/Safety.thy ===== *)
theory Safety
  imports Scope Clock
begin

text \<open>
  \<open>security_testing/safety.py\<close>, the controller every active request passes, and
  \<open>security_testing/rate_limit.py\<close>, the limiter in front of it.
\<close>

section \<open>Limits\<close>

datatype restricted_activity =
    DENIAL_OF_SERVICE | SOCIAL_ENGINEERING | NOTIFICATION_SPAM | PHYSICAL_SECURITY | OUT_OF_SCOPE
  | HACKERONE_SUBMISSION

fun activity_value :: "restricted_activity \<Rightarrow> string" where
  "activity_value DENIAL_OF_SERVICE = ''denial_of_service''"
| "activity_value SOCIAL_ENGINEERING = ''social_engineering''"
| "activity_value NOTIFICATION_SPAM = ''notification_spam''"
| "activity_value PHYSICAL_SECURITY = ''physical_security''"
| "activity_value OUT_OF_SCOPE = ''out_of_scope''"
| "activity_value HACKERONE_SUBMISSION = ''hackerone_submission''"

text \<open>Every activity, named by the enumeration or freely, is refused.\<close>

definition forbid :: "restricted_activity + string \<Rightarrow> unit result" where
  "forbid activity =
     Inl (RestrictedActivityError (case activity of Inl a \<Rightarrow> activity_value a | Inr name \<Rightarrow> name))"

definition check_activity :: "restricted_activity + string \<Rightarrow> unit result" where
  "check_activity activity = forbid activity"

record safety_limits =
  max_requests :: int
  requests_per_second :: rat
  max_concurrent :: int
  timeout_seconds :: rat
  max_scan_duration_seconds :: rat
  max_targets :: int
  allowed_http_methods :: "string list"
  max_response_bytes :: int
  max_payload_bytes :: int
  max_redirects :: int
  allow_destructive :: bool
  max_payload_count :: int

definition conservative_limits :: safety_limits where
  "conservative_limits =
     \<lparr>max_requests = 50, requests_per_second = 1, max_concurrent = 2, timeout_seconds = 10,
      max_scan_duration_seconds = 300, max_targets = 10,
      allowed_http_methods = [''GET'', ''HEAD'', ''OPTIONS''],
      max_response_bytes = 1000000, max_payload_bytes = 8192, max_redirects = 3,
      allow_destructive = False, max_payload_count = 20\<rparr>"

definition lab_limits :: safety_limits where
  "lab_limits = conservative_limits
     \<lparr>max_requests := 100, requests_per_second := 5, max_concurrent := 4, timeout_seconds := 5,
      max_scan_duration_seconds := 120, max_targets := 5,
      allowed_http_methods := [''GET'', ''HEAD'', ''OPTIONS'', ''POST'', ''PUT''],
      max_response_bytes := 500000, max_payload_bytes := 4096\<rparr>"

section \<open>The controller\<close>

record safety_decision =
  sd_allowed :: bool
  sd_reason :: string
  sd_dry_run :: bool
  would_execute :: string

record safety =
  limits :: safety_limits
  dry_run :: bool
  requests :: int
  in_flight :: int
  seen_targets :: "string set"
  started_at :: "instant option"
  safety_log :: "(instant \<times> string \<times> bool \<times> string) list"

definition new_safety :: "safety_limits option \<Rightarrow> bool \<Rightarrow> safety" where
  "new_safety l dry =
     \<lparr>limits = (case l of None \<Rightarrow> conservative_limits | Some x \<Rightarrow> x), dry_run = dry, requests = 0,
      in_flight = 0, seen_targets = {}, started_at = None, safety_log = []\<rparr>"

definition begin_scan :: "instant \<Rightarrow> safety \<Rightarrow> safety" where
  "begin_scan now s = (if started_at s = None then s\<lparr>started_at := Some now\<rparr> else s)"

definition record_decision :: "string \<Rightarrow> string \<Rightarrow> bool \<Rightarrow> string \<Rightarrow> instant \<Rightarrow> safety \<Rightarrow> safety" where
  "record_decision target tool ok why now s =
     s\<lparr>safety_log := safety_log s @ [(now, tool @ '':'' @ target, ok, why)]\<rparr>"

text \<open>
  The refusals of \<open>check_request\<close>, in its order; \<open>now\<close> is the second reading of the clock, which the
  duration check makes.
\<close>

definition safety_refusal ::
    "safety \<Rightarrow> string \<Rightarrow> string \<Rightarrow> int \<Rightarrow> bool \<Rightarrow> authorization_decision option \<Rightarrow> instant
     \<Rightarrow> string option" where
  "safety_refusal s target method_u payload destructive scope now =
     (let l = limits s in
      if (case scope of None \<Rightarrow> False | Some d \<Rightarrow> \<not> allowed d)
        then Some (''Scope denied: '' @ reason (the scope))
      else if method_u \<notin> set (map py_upper (allowed_http_methods l))
        then Some (''HTTP method '' @ method_u @ '' is outside safety-allowed methods'')
      else if destructive \<and> \<not> allow_destructive l
        then Some ''Destructive operations are disabled''
      else if max_payload_bytes l < payload
        then Some (''Payload '' @ show_int payload @ '' exceeds max_payload_bytes='' @
                   show_int (max_payload_bytes l))
      else if max_requests l \<le> requests s
        then Some (''Maximum request count '' @ show_int (max_requests l) @ '' exceeded'')
      else if (case started_at s of None \<Rightarrow> False
               | Some t0 \<Rightarrow> seconds (max_scan_duration_seconds l) < now - t0)
        then Some (''Scan duration limit '' @ show_float (max_scan_duration_seconds l) @ ''s exceeded'')
      else if max_concurrent l \<le> in_flight s
        then Some (''Concurrency limit '' @ show_int (max_concurrent l) @ '' exceeded'')
      else if max_targets l < int (card (insert target (seen_targets s)))
        then Some (''Target count limit '' @ show_int (max_targets l) @ '' exceeded'')
      else None)"

text \<open>Three readings of the clock: the start of the scan, the elapsed time, the log entry.\<close>

definition check_request ::
    "string \<Rightarrow> string \<Rightarrow> string \<Rightarrow> int \<Rightarrow> bool \<Rightarrow> authorization_decision option
     \<Rightarrow> instant \<Rightarrow> instant \<Rightarrow> instant \<Rightarrow> safety \<Rightarrow> safety_decision \<times> safety" where
  "check_request target meth tool payload destructive scope t_begin t_elapsed t_log s0 =
     (let s = begin_scan t_begin s0;
          method_u = py_upper meth;
          planned = method_u @ '' '' @ target @ '' via '' @ tool;
          d = (case safety_refusal s target method_u payload destructive scope t_elapsed of
                 Some why \<Rightarrow> \<lparr>sd_allowed = False, sd_reason = why, sd_dry_run = dry_run s,
                             would_execute = []\<rparr>
               | None \<Rightarrow>
                   if dry_run s then
                     \<lparr>sd_allowed = True,
                      sd_reason = ''Dry-run: request would be allowed but will not be sent'',
                      sd_dry_run = True, would_execute = planned\<rparr>
                   else
                     \<lparr>sd_allowed = True, sd_reason = ''Safety checks passed'', sd_dry_run = False,
                      would_execute = planned\<rparr>)
      in (d, record_decision target tool (sd_allowed d) (sd_reason d) t_log s))"

definition acquire :: "string \<Rightarrow> safety \<Rightarrow> safety" where
  "acquire target s =
     s\<lparr>requests := requests s + 1, in_flight := in_flight s + 1,
       seen_targets := insert target (seen_targets s)\<rparr>"

definition release :: "safety \<Rightarrow> safety" where
  "release s = (if in_flight s \<noteq> 0 then s\<lparr>in_flight := in_flight s - 1\<rparr> else s)"

definition remaining_requests :: "safety \<Rightarrow> int" where
  "remaining_requests s = max 0 (max_requests (limits s) - requests s)"

definition request_count :: "safety \<Rightarrow> int" where
  "request_count s = requests s"

definition with_dry_run :: "bool \<Rightarrow> safety \<Rightarrow> safety" where
  "with_dry_run enabled s =
     (new_safety (Some (limits s)) enabled)
       \<lparr>requests := requests s, in_flight := in_flight s, seen_targets := seen_targets s,
        started_at := started_at s, safety_log := safety_log s\<rparr>"

text \<open>\<open>dataclasses.replace\<close> with the given changes.\<close>

definition tighten :: "(safety_limits \<Rightarrow> safety_limits) \<Rightarrow> safety \<Rightarrow> safety" where
  "tighten changes s = s\<lparr>limits := changes (limits s)\<rparr>"

definition decisions :: "safety \<Rightarrow> (instant \<times> string \<times> bool \<times> string) list" where
  "decisions s = safety_log s"

definition raise_if_denied :: "safety_decision \<Rightarrow> unit result" where
  "raise_if_denied d =
     (if \<not> sd_allowed d then Inl (SafetyLimitExceededError (sd_reason d)) else Inr ())"

section \<open>The rate limiter\<close>

record rate_decision =
  rd_allowed :: bool
  rd_reason :: string
  retry_after_seconds :: rat

text \<open>The recorded stamps, oldest first; popping drops those that left the one-second window.\<close>

fun pop_old :: "rat \<Rightarrow> rat list \<Rightarrow> rat list" where
  "pop_old now [] = []"
| "pop_old now (t # ts) = (if now - t \<ge> 1 then pop_old now ts else t # ts)"

text \<open>\<open>int(x)\<close> truncates towards zero.\<close>

definition py_int :: "rat \<Rightarrow> int" where
  "py_int x = (if x < 0 then \<lceil>x\<rceil> else \<lfloor>x\<rfloor>)"

definition max_per_window :: "safety_limits \<Rightarrow> int" where
  "max_per_window l = max 1 (py_int (requests_per_second l))"

definition rate_ok :: rate_decision where
  "rate_ok = \<lparr>rd_allowed = True, rd_reason = ''Rate limit ok'', retry_after_seconds = 0\<rparr>"

definition rate_exceeded :: "rat \<Rightarrow> rate_decision" where
  "rate_exceeded wait =
     \<lparr>rd_allowed = False, rd_reason = ''Rate limit exceeded'', retry_after_seconds = max 0 wait\<rparr>"

definition rate_check :: "safety_limits \<Rightarrow> rat \<Rightarrow> rat list \<Rightarrow> rate_decision result \<times> rat list" where
  "rate_check l now stamps0 =
     (let stamps = pop_old now stamps0; rps = requests_per_second l in
      (if rps < 1 then
         (if stamps \<noteq> [] then
            (if rps = 0 then Inl (ZeroDivisionError ''float division by zero'')
             else if now - last stamps < 1 / rps then
               Inr (rate_exceeded (1 / rps - (now - last stamps)))
             else Inr rate_ok)
          else Inr rate_ok)
       else if max_per_window l \<le> int (length stamps) then Inr (rate_exceeded (1 - (now - hd stamps)))
       else Inr rate_ok, stamps))"

text \<open>A granted request is recorded at a second reading of the clock.\<close>

definition rate_acquire ::
    "safety_limits \<Rightarrow> rat \<Rightarrow> rat \<Rightarrow> rat list \<Rightarrow> rate_decision result \<times> rat list" where
  "rate_acquire l now later stamps0 =
     (case rate_check l now stamps0 of
        (Inr d, stamps) \<Rightarrow> (Inr d, if rd_allowed d then stamps @ [later] else stamps)
      | (Inl e, stamps) \<Rightarrow> (Inl e, stamps))"

definition rate_require ::
    "safety_limits \<Rightarrow> rat \<Rightarrow> rat \<Rightarrow> rat list \<Rightarrow> unit result \<times> rat list" where
  "rate_require l now later stamps0 =
     (case rate_acquire l now later stamps0 of
        (r, stamps) \<Rightarrow>
          (then_do r (\<lambda>d.
             if \<not> rd_allowed d then
               Inl (SafetyLimitExceededError (rd_reason d @ '' (retry after '' @
                      show_fixed2 (retry_after_seconds d) @ ''s)''))
             else Inr ()), stamps))"

section \<open>The controller keeps its limits\<close>

text \<open>
  How the clients use the controller: a request is checked, and counted when the check allows it
  to be sent; it is released when it has ended.
\<close>

datatype safety_op =
    Request string string string int bool "authorization_decision option" instant instant instant
  | Release

fun safety_step :: "safety \<Rightarrow> safety_op \<Rightarrow> safety" where
  "safety_step s (Request target meth tool payload destructive scope t1 t2 t3) =
     (case check_request target meth tool payload destructive scope t1 t2 t3 s of
        (d, s') \<Rightarrow> if sd_allowed d \<and> \<not> sd_dry_run d then acquire target s' else s')"
| "safety_step s Release = release s"

definition safety_ok :: "safety_limits \<Rightarrow> safety \<Rightarrow> bool" where
  "safety_ok l s \<longleftrightarrow>
     limits s = l \<and> 0 \<le> in_flight s \<and> in_flight s \<le> requests s \<and>
     requests s \<le> max 0 (max_requests l) \<and> in_flight s \<le> max 0 (max_concurrent l) \<and>
     int (card (seen_targets s)) \<le> max 0 (max_targets l)"

lemma record_decision_simps [simp]:
  "limits (record_decision a b c d e s) = limits s"
  "requests (record_decision a b c d e s) = requests s"
  "in_flight (record_decision a b c d e s) = in_flight s"
  "seen_targets (record_decision a b c d e s) = seen_targets s"
  "started_at (record_decision a b c d e s) = started_at s"
  "dry_run (record_decision a b c d e s) = dry_run s"
  by (simp_all add: record_decision_def)

lemma begin_scan_simps [simp]:
  "limits (begin_scan t s) = limits s"
  "requests (begin_scan t s) = requests s"
  "in_flight (begin_scan t s) = in_flight s"
  "seen_targets (begin_scan t s) = seen_targets s"
  "dry_run (begin_scan t s) = dry_run s"
  by (simp_all add: begin_scan_def)

text \<open>A check changes the log and the start of the scan, nothing else.\<close>

lemma check_request_frame:
  assumes "check_request target meth tool payload destructive scope t1 t2 t3 s = (d, s')"
  shows "limits s' = limits s" "requests s' = requests s" "in_flight s' = in_flight s"
    "seen_targets s' = seen_targets s" "dry_run s' = dry_run s"
    "sd_dry_run d = dry_run s"
  using assms by (auto simp: check_request_def Let_def split: option.splits if_splits)

lemma check_request_allowed:
  assumes "check_request target meth tool payload destructive scope t1 t2 t3 s = (d, s')"
  shows "sd_allowed d \<longleftrightarrow>
    safety_refusal (begin_scan t1 s) target (py_upper meth) payload destructive scope t2 = None"
  using assms by (auto simp: check_request_def Let_def split: option.splits if_splits)

definition safety_permits ::
    "safety \<Rightarrow> string \<Rightarrow> string \<Rightarrow> int \<Rightarrow> bool \<Rightarrow> authorization_decision option \<Rightarrow> instant \<Rightarrow> bool" where
  "safety_permits s target meth payload destructive scope now \<longleftrightarrow>
     (\<forall>d. scope = Some d \<longrightarrow> allowed d) \<and>
     meth \<in> py_upper ` set (allowed_http_methods (limits s)) \<and>
     (destructive \<longrightarrow> allow_destructive (limits s)) \<and>
     payload \<le> max_payload_bytes (limits s) \<and>
     requests s < max_requests (limits s) \<and>
     in_flight s < max_concurrent (limits s) \<and>
     (\<forall>t0. started_at s = Some t0 \<longrightarrow> now - t0 \<le> seconds (max_scan_duration_seconds (limits s))) \<and>
     int (card (insert target (seen_targets s))) \<le> max_targets (limits s)"

lemma safety_refusal_None:
  "safety_refusal s target meth payload destructive scope now = None \<longleftrightarrow>
   safety_permits s target meth payload destructive scope now"
  by (cases scope; cases "started_at s") (auto simp: safety_refusal_def safety_permits_def Let_def)

declare safety_refusal_None [symmetric, code]

lemma safety_step_ok:
  assumes ok: "safety_ok l s"
  shows "safety_ok l (safety_step s x)"
proof (cases x)
  case Release
  with ok show ?thesis by (auto simp: safety_ok_def release_def)
next
  case (Request target meth tool payload destructive scope t1 t2 t3)
  obtain d s' where c: "check_request target meth tool payload destructive scope t1 t2 t3 s = (d, s')"
    by fastforce
  note frame = check_request_frame [OF c]
  show ?thesis
  proof (cases "sd_allowed d \<and> \<not> sd_dry_run d")
    case True
    then have "safety_permits (begin_scan t1 s) target (py_upper meth) payload destructive scope t2"
      using check_request_allowed [OF c] by (simp add: safety_refusal_None)
    with ok frame True c Request show ?thesis
      by (simp add: safety_ok_def safety_permits_def acquire_def)
  next
    case False
    with ok frame c Request show ?thesis by (auto simp: safety_ok_def)
  qed
qed

lemma new_safety_ok: "safety_ok l (new_safety (Some l) dry)"
  by (simp add: safety_ok_def new_safety_def)

interpretation controller: machine "\<lambda>s. s = new_safety (Some l) dry" safety_step "safety_ok l"
  for l dry by unfold_locales (simp_all add: new_safety_ok safety_step_ok)

text \<open>C32. Whatever requests are checked, counted and released, in any order, the controller keeps
  its limits: requests, requests in flight and distinct targets stay within the maxima, and no
  more requests are in flight than were counted.\<close>

theorem safety_bounds:
  "let s = run_ops safety_step (new_safety (Some l) dry) ops in
     0 \<le> in_flight s \<and> in_flight s \<le> requests s \<and> requests s \<le> max 0 (max_requests l) \<and>
     in_flight s \<le> max 0 (max_concurrent l) \<and>
     int (card (seen_targets s)) \<le> max 0 (max_targets l)"
  using controller.run_always [of _ l dry ops] by (simp add: safety_ok_def Let_def)

text \<open>A dry run never counts a request.\<close>

lemma dry_step: "dry_run s \<Longrightarrow> requests s = 0 \<Longrightarrow>
  dry_run (safety_step s x) \<and> requests (safety_step s x) = 0"
proof (cases x)
  case (Request target meth tool payload destructive scope t1 t2 t3)
  obtain d s' where c: "check_request target meth tool payload destructive scope t1 t2 t3 s = (d, s')"
    by fastforce
  assume "dry_run s" "requests s = 0"
  with Request c check_request_frame [OF c] show ?thesis by simp
qed (simp add: release_def)

interpretation rehearsal: machine "\<lambda>s. s = new_safety (Some l) True" safety_step
  "\<lambda>s. dry_run s \<and> requests s = 0"
  for l by unfold_locales (auto simp: new_safety_def dry_step)

text \<open>A dry-run controller never counts a request.\<close>

theorem dry_run_sends_nothing:
  "requests (run_ops safety_step (new_safety (Some l) True) ops) = 0"
  using rehearsal.run_always [of _ l ops] by simp

text \<open>A request passes the controller exactly when its scope decision allows it, its method,
  payload and destructiveness are permitted, and every counter and the duration of the scan are
  within their limits.\<close>

theorem check_request_decides:
  "sd_allowed (fst (check_request target meth tool payload destructive scope t1 t2 t3 s)) \<longleftrightarrow>
     safety_permits (begin_scan t1 s) target (py_upper meth) payload destructive scope t2"
  using check_request_allowed [of target meth tool payload destructive scope t1 t2 t3 s]
  by (metis safety_refusal_None surj_pair fst_conv)


section \<open>The limiter keeps its rate\<close>

text \<open>
  A run of the limiter: the recorded times, all times granted so far, and the last reading of
  the clock. A call reads the clock twice.
\<close>

type_synonym rate_state = "rat list \<times> rat list \<times> rat"

fun rate_step :: "safety_limits \<Rightarrow> rate_state \<Rightarrow> rat \<times> rat \<Rightarrow> rate_state" where
  "rate_step l (stamps, grants, t) (now, later) =
     (case rate_acquire l now later stamps of
        (Inr d, stamps') \<Rightarrow> (stamps', if rd_allowed d then grants @ [later] else grants, later)
      | (Inl e, stamps') \<Rightarrow> (stamps', grants, later))"

fun clock_runs :: "rate_state \<Rightarrow> rat \<times> rat \<Rightarrow> bool" where
  "clock_runs (stamps, grants, t) (now, later) \<longleftrightarrow> t \<le> now \<and> now \<le> later"

definition in_window :: "rat \<Rightarrow> rat list \<Rightarrow> rat list" where
  "in_window x gs = filter (\<lambda>g. x - 1 < g \<and> g \<le> x) gs"

fun rate_ok_state :: "safety_limits \<Rightarrow> rate_state \<Rightarrow> bool" where
  "rate_ok_state l (stamps, grants, t) \<longleftrightarrow>
     sorted stamps \<and> (\<forall>g\<in>set grants. g \<le> t) \<and>
     (\<exists>old. grants = old @ stamps \<and> (\<forall>g\<in>set old. g \<le> t - 1)) \<and>
     (\<forall>x. int (length (in_window x grants)) \<le> max_per_window l)"

lemma pop_old_split:
  "\<exists>old. stamps = old @ pop_old now stamps \<and> (\<forall>g\<in>set old. g \<le> now - 1)"
proof (induction stamps)
  case (Cons t ts)
  then obtain old where old: "ts = old @ pop_old now ts" "\<forall>g\<in>set old. g \<le> now - 1" by blast
  show ?case
  proof (cases "now - t \<ge> 1")
    case True
    with old have "t # ts = (t # old) @ pop_old now (t # ts) \<and> (\<forall>g\<in>set (t # old). g \<le> now - 1)"
      by simp
    then show ?thesis by blast
  qed auto
qed simp

lemma pop_old_recent: "sorted stamps \<Longrightarrow> g \<in> set (pop_old now stamps) \<Longrightarrow> now - 1 < g"
  by (induction stamps) (auto split: if_splits)

lemma sorted_pop_old: "sorted stamps \<Longrightarrow> sorted (pop_old now stamps)"
  by (induction stamps) auto

lemma rate_acquire_whole:
  assumes "1 \<le> requests_per_second l"
  shows "rate_acquire l now later stamps =
    (let s = pop_old now stamps in
     if max_per_window l \<le> int (length s) then (Inr (rate_exceeded (1 - (now - hd s))), s)
     else (Inr rate_ok, s @ [later]))"
  using assms by (simp add: rate_acquire_def rate_check_def Let_def rate_exceeded_def rate_ok_def)

lemma rate_step_ok:
  assumes rps: "1 \<le> requests_per_second l"
    and ok: "rate_ok_state l s" and c: "clock_runs s x"
  shows "rate_ok_state l (rate_step l s x)"
proof -
  obtain stamps grants t where s: "s = (stamps, grants, t)" by (cases s)
  obtain now later where x: "x = (now, later)" by (cases x)
  define popped where "popped = pop_old now stamps"
  from ok s obtain old where old: "grants = old @ stamps" "\<forall>g\<in>set old. g \<le> t - 1"
    and srt: "sorted stamps" and le: "\<forall>g\<in>set grants. g \<le> t"
    and cnt: "\<And>y. int (length (in_window y grants)) \<le> max_per_window l" by auto
  from c s x have t: "t \<le> now" "now \<le> later" by auto
  obtain gone where gone: "stamps = gone @ popped" "\<forall>g\<in>set gone. g \<le> now - 1"
    using pop_old_split [of stamps now] by (auto simp: popped_def)
  have split: "grants = (old @ gone) @ popped" and out: "\<forall>g\<in>set (old @ gone). g \<le> now - 1"
    using old gone t by force+
  have sp: "sorted popped" using srt by (simp add: popped_def sorted_pop_old)
  show ?thesis
  proof (cases "max_per_window l \<le> int (length popped)")
    case True
    have "rate_step l s x = (popped, grants, later)"
      using True by (simp add: s x rate_acquire_whole [OF rps] popped_def [symmetric] Let_def rate_exceeded_def)
    then show ?thesis using sp split out le cnt t by force
  next
    case False
    have step: "rate_step l s x = (popped @ [later], grants @ [later], later)"
      using False by (simp add: s x rate_acquire_whole [OF rps] popped_def [symmetric] Let_def rate_ok_def)
    have "int (length (in_window y (grants @ [later]))) \<le> max_per_window l" for y
    proof (cases "y - 1 < later \<and> later \<le> y")
      case True
      then have "in_window y (old @ gone) = []"
        using out t by (force simp: in_window_def filter_empty_conv)
      then have "length (in_window y grants) \<le> length popped"
        unfolding split in_window_def by (simp add: in_window_def)
      with False True show ?thesis by (simp add: in_window_def)
    next
      case no: False
      then show ?thesis using cnt [of y] by (auto simp: in_window_def)
    qed
    moreover have "sorted (popped @ [later])"
      using sp le split t by (force simp: sorted_append)
    ultimately show ?thesis unfolding step using split out le t by force
  qed
qed



fun clock_monotone :: "rat \<Rightarrow> (rat \<times> rat) list \<Rightarrow> bool" where
  "clock_monotone t [] = True"
| "clock_monotone t ((now, later) # cs) \<longleftrightarrow> t \<le> now \<and> now \<le> later \<and> clock_monotone later cs"

definition grants_of :: "safety_limits \<Rightarrow> rat \<Rightarrow> (rat \<times> rat) list \<Rightarrow> rat list" where
  "grants_of l t calls = fst (snd (run_ops (rate_step l) ([], [], t) calls))"

interpretation limiter: guarded_machine "\<lambda>s. \<exists>t. s = ([], [], t)"
  "rate_step l" clock_runs "\<lambda>s. 1 \<le> requests_per_second l \<longrightarrow> rate_ok_state l s" for l
  by unfold_locales (auto simp: rate_step_ok in_window_def max_per_window_def)

lemma monotone_run: "clock_monotone t cs \<Longrightarrow> limiter.guarded_run l (stamps, grants, t) cs"
proof (induction cs arbitrary: stamps grants t)
  case (Cons c cs)
  obtain now later where c: "c = (now, later)" by (cases c)
  have "\<exists>stamps' grants'. rate_step l (stamps, grants, t) c = (stamps', grants', later)"
    by (auto simp: c split: prod.splits sum.splits)
  with Cons c show ?case by auto
qed simp

text \<open>With a rate of one request per second or more and a clock that does not run backwards,
  every one-second window holds at most the configured number of granted requests.\<close>

theorem rate_window_bound:
  assumes "1 \<le> requests_per_second l" and "clock_monotone t calls"
  shows "int (length (in_window x (grants_of l t calls))) \<le> max_per_window l"
  using limiter.run_invariant [of "([], [], t)" l calls] monotone_run [OF assms(2)] assms(1)
  by (cases "run_ops (rate_step l) ([], [], t) calls") (auto simp: grants_of_def)

theorem rate_window_bound_witness:
  "int (length (in_window (3/2) (grants_of lab_limits 0
     [(0, 0), (1/4, 1/4), (1/2, 1/2), (3/4, 3/4), (1, 1), (5/4, 5/4), (3/2, 3/2)]))) \<le> 5"
proof -
  have "1 \<le> requests_per_second lab_limits" "max_per_window lab_limits = 5"
    by (simp_all add: lab_limits_def max_per_window_def py_int_def)
  moreover have "clock_monotone 0
     [(0, 0), (1/4, 1/4), (1/2, 1/2), (3/4, 3/4), (1, 1), (5/4, 5/4), (3/2, 3/2)]" by simp
  ultimately show ?thesis using rate_window_bound by metis
qed

text \<open>With a rate below one request per second, two requests one second apart are both granted,
  however low the rate: the older time leaves the window before it is compared.\<close>

theorem fractional_rate_gap:
  assumes "requests_per_second l < 1"
  shows "grants_of l t [(t, t), (t + 1, t + 1)] = [t, t + 1]"
  using assms by (simp add: grants_of_def rate_acquire_def rate_check_def Let_def rate_ok_def)

theorem fractional_rate_gap_witness:
  "grants_of (conservative_limits\<lparr>requests_per_second := 1/2\<rparr>) 0 [(0, 0), (1, 1)] = [0, 1]"
  using fractional_rate_gap [of "conservative_limits\<lparr>requests_per_second := 1/2\<rparr>" 0] by simp

end
