(* ===== verification/Dns.thy ===== *)
theory Dns
  imports Target
begin

text \<open>
  \<open>security_testing/dns.py\<close>: the policy a host's addresses must satisfy before a live connection.
  The resolver is an argument: the addresses a look-up of a host name returns. Each look-up the
  code makes takes a resolver of its own, so that answers may change in between.
\<close>

section \<open>Resolving\<close>

text \<open>
  The system resolver, from the addresses that \<open>socket.getaddrinfo\<close> lists, or \<open>None\<close> when it
  raises \<open>OSError\<close>.
\<close>

definition system_resolver :: "(string \<Rightarrow> string list option) \<Rightarrow> string \<Rightarrow> string list" where
  "system_resolver getaddrinfo name =
     (case getaddrinfo name of None \<Rightarrow> [] | Some infos \<Rightarrow> first_occurrences infos)"

definition lower_host :: "string \<Rightarrow> string" where
  "lower_host h = py_rstrip_char CHR ''.'' (py_lower h)"

text \<open>The deterministic resolver: the last entry for a key counts.\<close>

definition mapping_resolver :: "(string, string list) dict \<Rightarrow> string \<Rightarrow> string list" where
  "mapping_resolver mapping name =
     dict_get (fold (\<lambda>(k, v) d. dict_set (lower_host k) v d) mapping []) (lower_host name) []"

section \<open>Policies\<close>

record dns_policy =
  allow_private :: bool
  allow_loopback :: bool
  allow_link_local :: bool
  allow_multicast :: bool
  allow_unspecified :: bool
  allow_reserved :: bool
  blocked_networks :: "string list"
  lab_exempt :: bool

definition live_policy :: dns_policy where
  "live_policy =
     \<lparr>allow_private = False, allow_loopback = False, allow_link_local = False,
      allow_multicast = False, allow_unspecified = False, allow_reserved = False,
      blocked_networks = [''169.254.169.254/32'', ''10.0.0.0/8'', ''172.16.0.0/12'',
        ''192.168.0.0/16'', ''127.0.0.0/8'', ''0.0.0.0/8'', ''fc00::/7'', ''::1/128''],
      lab_exempt = True\<rparr>"

definition lab_policy :: dns_policy where
  "lab_policy = live_policy
     \<lparr>allow_private := True, allow_loopback := True, blocked_networks := [''169.254.169.254/32'']\<rparr>"

record address_decision =
  ad_allowed :: bool
  ad_reason :: string
  ad_hostname :: string
  addresses :: "string list"
  blocked :: "string list"

section \<open>One address\<close>

definition metadata_ip :: string where
  "metadata_ip = ''169.254.169.254''"

text \<open>The loop over the blocked networks: the refusal it returns, if any.\<close>

fun blocked_by :: "dns_policy \<Rightarrow> ip \<Rightarrow> string list \<Rightarrow> string option" where
  "blocked_by p ip [] = None"
| "blocked_by p ip (network # rest) =
     (case ip_network network of
        None \<Rightarrow> blocked_by p ip rest
      | Some n \<Rightarrow>
          if ip_in ip n \<and> \<not> ((is_loopback ip \<and> allow_loopback p) \<or> (is_private ip \<and> allow_private p))
          then Some (''blocked-network '' @ network)
          else if ip_in ip n \<and> net_show n = metadata_ip @ ''/32'' then Some ''cloud-metadata''
          else blocked_by p ip rest)"

text \<open>The reason an address is refused, or \<open>None\<close>.\<close>

definition address_refusal :: "dns_policy \<Rightarrow> string \<Rightarrow> string option" where
  "address_refusal p address =
     (case ip_address address of
        None \<Rightarrow> Some ''not an IP address''
      | Some ip \<Rightarrow>
          if is_loopback ip \<and> \<not> allow_loopback p then Some ''loopback''
          else if is_private ip \<and> \<not> allow_private p then Some ''private''
          else if is_link_local ip \<and> \<not> allow_link_local p then Some ''link-local''
          else if is_multicast ip \<and> \<not> allow_multicast p then Some ''multicast''
          else if is_unspecified ip \<and> \<not> allow_unspecified p then Some ''unspecified''
          else if is_reserved ip \<and> \<not> allow_reserved p then Some ''reserved''
          else case blocked_by p ip (blocked_networks p) of
            Some why \<Rightarrow> Some why
          | None \<Rightarrow> if ip_show ip = metadata_ip then Some ''cloud-metadata'' else None)"

section \<open>A target\<close>

definition refused_addresses :: "dns_policy \<Rightarrow> string list \<Rightarrow> string list" where
  "refused_addresses p as =
     concat (map (\<lambda>a. case address_refusal p a of None \<Rightarrow> []
                      | Some why \<Rightarrow> [a @ '' ('' @ why @ '')'']) as)"

definition dns_decision ::
    "bool \<Rightarrow> string \<Rightarrow> string \<Rightarrow> string list \<Rightarrow> string list \<Rightarrow> address_decision" where
  "dns_decision ok why h as bad =
     \<lparr>ad_allowed = ok, ad_reason = why, ad_hostname = h, addresses = as, blocked = bad\<rparr>"

definition judge_addresses :: "dns_policy \<Rightarrow> string \<Rightarrow> string list \<Rightarrow> address_decision" where
  "judge_addresses p h as =
     (let bad = refused_addresses p as in
      if bad \<noteq> [] then
        dns_decision False (''Resolved address is prohibited: '' @ py_join ''; '' bad) h as bad
      else dns_decision True ''Resolved addresses permitted'' h as [])"

definition dns_authorize ::
    "dns_policy \<Rightarrow> (string \<Rightarrow> string list) \<Rightarrow> string \<Rightarrow> bool \<Rightarrow> string list \<Rightarrow> address_decision" where
  "dns_authorize p resolver target lab lab_names =
     (case normalize target None None ''https'' of
        Inl exc \<Rightarrow> dns_decision False (''Cannot parse target ('' @ error_text exc @ '')'') [] [] []
      | Inr t \<Rightarrow>
          (let h = or_text (hostname t) (case t_ip t of None \<Rightarrow> [] | Some i \<Rightarrow> i) in
           if h = [] then dns_decision False ''No hostname to resolve'' [] [] []
           else if lab \<and> lab_exempt p \<and> is_loopback_or_lab_host h lab_names then
             dns_decision True ''Lab target exempt from live DNS policy'' h [] []
           else case try_ip h of
             Some literal \<Rightarrow> judge_addresses p h [ip_show literal]
           | None \<Rightarrow>
               if resolver h = [] then
                 dns_decision False ''DNS resolution produced no addresses'' h [] []
               else judge_addresses p h (resolver h)))"

section \<open>What an allowed decision says\<close>

definition address_ok :: "dns_policy \<Rightarrow> string \<Rightarrow> bool" where
  "address_ok p a \<longleftrightarrow> address_refusal p a = None"

lemma refused_addresses_Nil: "refused_addresses p as = [] \<longleftrightarrow> list_all (address_ok p) as"
  by (induction as) (auto simp: refused_addresses_def address_ok_def split: option.splits)

lemma judge_allowed [simp]: "ad_allowed (judge_addresses p h as) \<longleftrightarrow> list_all (address_ok p) as"
  by (auto simp: judge_addresses_def Let_def dns_decision_def refused_addresses_Nil)

lemma judge_addresses_are [simp]: "addresses (judge_addresses p h as) = as"
  by (simp add: judge_addresses_def Let_def dns_decision_def)

lemma dns_decision_simps [simp]:
  "ad_allowed (dns_decision ok why h as bad) = ok" "addresses (dns_decision ok why h as bad) = as"
  by (simp_all add: dns_decision_def)

lemma dns_allowed_addresses:
  assumes "ad_allowed (dns_authorize p resolver target False hosts)"
  shows "addresses (dns_authorize p resolver target False hosts) \<noteq> [] \<and>
         list_all (address_ok p) (addresses (dns_authorize p resolver target False hosts))"
  using assms
  by (auto simp: dns_authorize_def Let_def split: sum.splits option.splits if_splits)

text \<open>A public address: one of none of the special kinds.\<close>

definition public_ip :: "ip \<Rightarrow> bool" where
  "public_ip ip \<longleftrightarrow>
     \<not> is_loopback ip \<and> \<not> is_private ip \<and> \<not> is_link_local ip \<and> \<not> is_multicast ip \<and>
     \<not> is_unspecified ip \<and> \<not> is_reserved ip"

definition public_address :: "string \<Rightarrow> bool" where
  "public_address a \<longleftrightarrow> (case ip_address a of None \<Rightarrow> False | Some ip \<Rightarrow> public_ip ip)"

lemma live_policy_flags [simp]:
  "\<not> allow_private live_policy" "\<not> allow_loopback live_policy" "\<not> allow_link_local live_policy"
  "\<not> allow_multicast live_policy" "\<not> allow_unspecified live_policy" "\<not> allow_reserved live_policy"
  by (simp_all add: live_policy_def)

lemma live_address_public: "address_ok live_policy a \<Longrightarrow> public_address a"
  by (auto simp: address_ok_def address_refusal_def public_address_def public_ip_def
      split: option.splits if_splits)

lemma list_all_imp: "list_all p xs \<Longrightarrow> (\<And>x. p x \<Longrightarrow> q x) \<Longrightarrow> list_all q xs"
  by (simp add: list_all_iff)

section \<open>Properties\<close>

text \<open>C36. Whatever the resolver answers, the live policy allows a target only when it has addresses
  and each of them is a public one: not loopback, private, link-local, multicast, unspecified
  or reserved.\<close>

theorem live_dns_public:
  assumes "ad_allowed (dns_authorize live_policy resolver target False hosts)"
  shows "addresses (dns_authorize live_policy resolver target False hosts) \<noteq> [] \<and>
         list_all public_address (addresses (dns_authorize live_policy resolver target False hosts))"
  using dns_allowed_addresses [OF assms] list_all_imp live_address_public by blast

theorem live_dns_public_witness:
  "addresses (dns_authorize live_policy (\<lambda>h. [''8.8.8.8'']) ''https://dns.example/'' False []) = [''8.8.8.8''] \<and>
   public_address ''8.8.8.8''"
proof -
  let ?d = "dns_authorize live_policy (\<lambda>h. [''8.8.8.8'']) ''https://dns.example/'' False []"
  have "ad_allowed ?d" by code_simp
  moreover have "addresses ?d = [''8.8.8.8'']" by code_simp
  ultimately show ?thesis using live_dns_public [of "\<lambda>h. [''8.8.8.8'']" "''https://dns.example/''" "[]"] by simp
qed

definition metadata_word :: "32 word" where "metadata_word = 0xA9FEA9FE"

lemma show_metadata: "ip_show (V4 metadata_word) = metadata_ip"
  by code_simp

text \<open>No policy, however permissive, lets a text through that reads as the address of the cloud
  metadata service, 169.254.169.254.\<close>

theorem metadata_always_refused:
  assumes "ip_address a = Some (V4 metadata_word)"
  shows "\<not> address_ok p a"
  using assms by (auto simp: address_ok_def address_refusal_def show_metadata split: option.splits)

theorem metadata_always_refused_witness:
  "\<not> address_ok (lab_policy\<lparr>allow_link_local := True, blocked_networks := []\<rparr>) ''169.254.169.254''"
  by (rule metadata_always_refused) code_simp

end
