(* ===== verification/Sha256.thy ===== *)
theory Sha256
  imports Clock "HOL-Library.Word"
begin

text \<open>
  \<open>hashlib.sha256\<close> and \<open>hmac\<close> with it, on byte strings, and the canonical JSON text
  (\<open>json.dumps\<close> with sorted keys, compact separators and ASCII output) that the program hashes. The
  functions are the standard ones (FIPS 180-4, RFC 2104); the proofs of the development use nothing
  about them but that they are functions.
\<close>

unbundle bit_operations_syntax

section \<open>SHA-256\<close>

definition sha_k :: "32 word list" where
  "sha_k =
     [0x428A2F98, 0x71374491, 0xB5C0FBCF, 0xE9B5DBA5, 0x3956C25B, 0x59F111F1, 0x923F82A4, 0xAB1C5ED5,
      0xD807AA98, 0x12835B01, 0x243185BE, 0x550C7DC3, 0x72BE5D74, 0x80DEB1FE, 0x9BDC06A7, 0xC19BF174,
      0xE49B69C1, 0xEFBE4786, 0x0FC19DC6, 0x240CA1CC, 0x2DE92C6F, 0x4A7484AA, 0x5CB0A9DC, 0x76F988DA,
      0x983E5152, 0xA831C66D, 0xB00327C8, 0xBF597FC7, 0xC6E00BF3, 0xD5A79147, 0x06CA6351, 0x14292967,
      0x27B70A85, 0x2E1B2138, 0x4D2C6DFC, 0x53380D13, 0x650A7354, 0x766A0ABB, 0x81C2C92E, 0x92722C85,
      0xA2BFE8A1, 0xA81A664B, 0xC24B8B70, 0xC76C51A3, 0xD192E819, 0xD6990624, 0xF40E3585, 0x106AA070,
      0x19A4C116, 0x1E376C08, 0x2748774C, 0x34B0BCB5, 0x391C0CB3, 0x4ED8AA4A, 0x5B9CCA4F, 0x682E6FF3,
      0x748F82EE, 0x78A5636F, 0x84C87814, 0x8CC70208, 0x90BEFFFA, 0xA4506CEB, 0xBEF9A3F7, 0xC67178F2]"

definition sha_init :: "32 word list" where
  "sha_init =
     [0x6A09E667, 0xBB67AE85, 0x3C6EF372, 0xA54FF53A, 0x510E527F, 0x9B05688C, 0x1F83D9AB, 0x5BE0CD19]"

definition ror32 :: "nat \<Rightarrow> 32 word \<Rightarrow> 32 word" where
  "ror32 n w = drop_bit n w OR push_bit (32 - n) w"

definition small_sigma0 :: "32 word \<Rightarrow> 32 word" where
  "small_sigma0 x = ror32 7 x XOR ror32 18 x XOR drop_bit 3 x"

definition small_sigma1 :: "32 word \<Rightarrow> 32 word" where
  "small_sigma1 x = ror32 17 x XOR ror32 19 x XOR drop_bit 10 x"

definition big_sigma0 :: "32 word \<Rightarrow> 32 word" where
  "big_sigma0 x = ror32 2 x XOR ror32 13 x XOR ror32 22 x"

definition big_sigma1 :: "32 word \<Rightarrow> 32 word" where
  "big_sigma1 x = ror32 6 x XOR ror32 11 x XOR ror32 25 x"

text \<open>The message schedule, kept newest first.\<close>

fun schedule :: "nat \<Rightarrow> 32 word list \<Rightarrow> 32 word list" where
  "schedule k ws =
     (if k = 0 then rev ws
      else schedule (k - 1)
        ((small_sigma1 (ws ! 1) + ws ! 6 + small_sigma0 (ws ! 14) + ws ! 15) # ws))"

declare schedule.simps [simp del]

type_synonym sha_state =
  "32 word \<times> 32 word \<times> 32 word \<times> 32 word \<times> 32 word \<times> 32 word \<times> 32 word \<times> 32 word"

fun sha_round :: "32 word \<times> 32 word \<Rightarrow> sha_state \<Rightarrow> sha_state" where
  "sha_round (k, w) (a, b, c, d, e, f, g, h) =
     (let t1 = h + big_sigma1 e + ((e AND f) XOR ((NOT e) AND g)) + k + w;
          t2 = big_sigma0 a + ((a AND b) XOR (a AND c) XOR (b AND c))
      in (t1 + t2, a, b, c, d + t1, e, f, g))"

fun to_state :: "32 word list \<Rightarrow> sha_state" where
  "to_state ws = (ws ! 0, ws ! 1, ws ! 2, ws ! 3, ws ! 4, ws ! 5, ws ! 6, ws ! 7)"

fun of_state :: "sha_state \<Rightarrow> 32 word list" where
  "of_state (a, b, c, d, e, f, g, h) = [a, b, c, d, e, f, g, h]"

definition sha_block :: "32 word list \<Rightarrow> 32 word list \<Rightarrow> 32 word list" where
  "sha_block ws hs =
     map2 (+) hs (of_state (fold sha_round (zip sha_k (schedule 48 (rev ws))) (to_state hs)))"

fun chunks :: "nat \<Rightarrow> 'a list \<Rightarrow> 'a list list" where
  "chunks n xs = (if xs = [] \<or> n = 0 then [] else take n xs # chunks n (drop n xs))"

declare chunks.simps [simp del]

definition word_of_bytes :: "string \<Rightarrow> 32 word" where
  "word_of_bytes s = of_nat (fold (\<lambda>c n. n * 256 + of_char c) s 0)"

definition byte :: "nat \<Rightarrow> char" where "byte n = char_of (n mod 256)"

definition bytes_of_word :: "32 word \<Rightarrow> string" where
  "bytes_of_word w =
     (let n = unat w in [byte (n div 16777216), byte (n div 65536), byte (n div 256), byte n])"

fun be_bytes :: "nat \<Rightarrow> nat \<Rightarrow> string" where
  "be_bytes 0 n = []"
| "be_bytes (Suc k) n = be_bytes k (n div 256) @ [byte n]"

definition sha_pad :: "string \<Rightarrow> string" where
  "sha_pad s =
     s @ [byte 128] @ replicate ((119 - length s mod 64) mod 64) (byte 0) @ be_bytes 8 (8 * length s)"

definition sha256 :: "string \<Rightarrow> string" where
  "sha256 s =
     concat (map bytes_of_word
       (fold (\<lambda>b. sha_block (map word_of_bytes (chunks 4 b))) (chunks 64 (sha_pad s)) sha_init))"

definition hex_byte :: "char \<Rightarrow> string" where
  "hex_byte c = [hex_chars ! (of_char c div 16), hex_chars ! (of_char c mod 16)]"

definition hexdigest :: "string \<Rightarrow> string" where
  "hexdigest s = concat (map hex_byte s)"

definition sha256_hex :: "string \<Rightarrow> string" where
  "sha256_hex s = hexdigest (sha256 s)"

definition xor_byte :: "nat \<Rightarrow> char \<Rightarrow> char" where
  "xor_byte n c = char_of (of_char c XOR n)"

definition hmac_sha256 :: "string \<Rightarrow> string \<Rightarrow> string" where
  "hmac_sha256 key msg =
     (let k0 = (if 64 < length key then sha256 key else key);
          k = k0 @ replicate (64 - length k0) (byte 0)
      in sha256 (map (xor_byte 92) k @ sha256 (map (xor_byte 54) k @ msg)))"

section \<open>JSON\<close>

text \<open>The code point that well-formed UTF-8 starts with, and the rest.\<close>

definition utf8_next :: "char \<Rightarrow> string \<Rightarrow> nat \<times> string" where
  "utf8_next c s =
     (let b = of_char c; k = (if b < 128 then 0 else if b < 224 then 1 else if b < 240 then 2 else 3);
          lead = (if k = 0 then b else if k = 1 then b mod 32 else if k = 2 then b mod 16 else b mod 8)
      in (fold (\<lambda>x n. n * 64 + of_char x mod 64) (take k s) lead, drop k s))"

definition json_u :: "nat \<Rightarrow> string" where
  "json_u n = [CHR 0x5C, CHR ''u''] @ hex_fixed 4 n"

definition json_char :: "nat \<Rightarrow> string" where
  "json_char n =
     (if n = 34 then [CHR 0x5C, CHR 0x22] else if n = 92 then [CHR 0x5C, CHR 0x5C]
      else if n = 10 then [CHR 0x5C, CHR ''n''] else if n = 13 then [CHR 0x5C, CHR ''r'']
      else if n = 9 then [CHR 0x5C, CHR ''t''] else if n = 12 then [CHR 0x5C, CHR ''f'']
      else if n = 8 then [CHR 0x5C, CHR ''b'']
      else if 32 \<le> n \<and> n \<le> 126 then [char_of n]
      else if n < 65536 then json_u n
      else json_u (55296 + (n - 65536) div 1024) @ json_u (56320 + (n - 65536) mod 1024))"

function json_escape :: "string \<Rightarrow> string" where
  "json_escape [] = []"
| "json_escape (c # s) = (case utf8_next c s of (n, t) \<Rightarrow> json_char n @ json_escape t)"
  by pat_completeness auto
termination
  by (relation "measure length") (auto simp: utf8_next_def Let_def split: if_splits)

text \<open>A number that is no integer is kept as its literal.\<close>

datatype json =
    JStr string | JInt int | JNum string | JBool bool | JNull | JList "json list" | JObj "(string \<times> json) list"

definition json_string :: "string \<Rightarrow> string" where
  "json_string s = [CHR 0x22] @ json_escape s @ [CHR 0x22]"

text \<open>Keys are sorted by their code points, which is the order of their UTF-8 bytes.\<close>

fun text_le :: "string \<Rightarrow> string \<Rightarrow> bool" where
  "text_le [] t = True"
| "text_le (c # s) [] = False"
| "text_le (c # s) (d # t) =
     (if c = d then text_le s t else (of_char c :: nat) < of_char d)"

fun insert_pair :: "string \<times> 'a \<Rightarrow> (string \<times> 'a) list \<Rightarrow> (string \<times> 'a) list" where
  "insert_pair p [] = [p]"
| "insert_pair p (q # qs) = (if text_le (fst p) (fst q) then p # q # qs else q # insert_pair p qs)"

definition sort_pairs :: "(string \<times> 'a) list \<Rightarrow> (string \<times> 'a) list" where
  "sort_pairs ps = foldr insert_pair ps []"

fun json_dumps :: "json \<Rightarrow> string" where
  "json_dumps (JStr s) = json_string s"
| "json_dumps (JInt i) = show_int i"
| "json_dumps (JNum n) = n"
| "json_dumps (JBool b) = (if b then ''true'' else ''false'')"
| "json_dumps JNull = ''null''"
| "json_dumps (JList xs) = ''['' @ py_join '','' (map json_dumps xs) @ '']''"
| "json_dumps (JObj ps) =
     ''{'' @ py_join '',''
       (map (\<lambda>(k, v). json_string k @ '':'' @ v) (sort_pairs (map (\<lambda>(k, v). (k, json_dumps v)) ps))) @ ''}''"

text \<open>An object whose values are strings.\<close>

definition json_object :: "(string, string) dict \<Rightarrow> string" where
  "json_object ps = json_dumps (JObj (map (\<lambda>(k, v). (k, JStr v)) ps))"

section \<open>JSON text determines its strings\<close>

lemma hex_val_chars: "d < 16 \<Longrightarrow> hex_val (hex_chars ! d) = d"
proof -
  have "list_all (\<lambda>d. hex_val (hex_chars ! d) = d) [0..<16]" by code_simp
  then show "d < 16 \<Longrightarrow> ?thesis" by (simp add: list_all_iff)
qed

lemma hex_read_snoc: "hex_read a (s @ [c]) = 16 * hex_read a s + hex_val c"
  by (induction s arbitrary: a) auto

lemma hex_read_fixed: "hex_read 0 (hex_fixed k n) = n mod 16 ^ k"
proof (induction k arbitrary: n)
  case (Suc k)
  have "n mod 16 ^ Suc k = 16 * (n div 16 mod 16 ^ k) + n mod 16"
    by (simp add: mod_mult2_eq)
  with Suc show ?case by (simp add: hex_read_snoc hex_val_chars)
qed simp

lemma length_hex_fixed [simp]: "length (hex_fixed k n) = k"
  by (induction k arbitrary: n) auto

text \<open>Reading one token of an escaped text back.\<close>

definition json_tok :: "string \<Rightarrow> nat \<times> string" where
  "json_tok s =
     (if hd s \<noteq> CHR 0x5C then (of_char (hd s), tl s)
      else if s ! 1 = CHR ''u'' then (hex_read 0 (take 4 (drop 2 s)), drop 6 s)
      else (if s ! 1 = CHR ''n'' then 10 else if s ! 1 = CHR ''r'' then 13 else if s ! 1 = CHR ''t'' then 9
            else if s ! 1 = CHR ''f'' then 12 else if s ! 1 = CHR ''b'' then 8 else of_char (s ! 1), drop 2 s))"

lemma of_char_of_small: "n < 128 \<Longrightarrow> of_char (char_of n :: char) = (n :: nat)"
  by simp

lemma json_tok_u: "n < 65536 \<Longrightarrow> json_tok (json_u n @ x) = (n, x)"
  using hex_read_fixed [of 4 n] by (simp add: json_tok_def json_u_def)

lemma json_tok_char:
  assumes "n < 128"
  shows "json_tok (json_char n @ x) = (n, x)"
proof (cases "n \<in> {34, 92, 10, 13, 9, 12, 8}")
  case True
  have "json_char 34 = [CHR 0x5C, CHR 0x22]" "json_char 92 = [CHR 0x5C, CHR 0x5C]"
    "json_char 10 = [CHR 0x5C, CHR ''n'']" "json_char 13 = [CHR 0x5C, CHR ''r'']"
    "json_char 9 = [CHR 0x5C, CHR ''t'']" "json_char 12 = [CHR 0x5C, CHR ''f'']"
    "json_char 8 = [CHR 0x5C, CHR ''b'']" by code_simp+
  then show ?thesis using True by (elim insertE emptyE) (simp_all add: json_tok_def)
next
  case False
  show ?thesis
  proof (cases "32 \<le> n \<and> n \<le> 126")
    case True
    with False have "json_char n = [char_of n]" by (simp add: json_char_def)
    moreover have "char_of n \<noteq> CHR 0x5C"
    proof
      assume "char_of n = CHR 0x5C"
      then have "of_char (char_of n :: char) = (92 :: nat)" by simp
      then show False using assms False by (simp add: of_char_of_small)
    qed
    ultimately show ?thesis using assms by (simp add: json_tok_def of_char_of_small)
  next
    case no: False
    with False assms have "json_char n = json_u n" by (auto simp: json_char_def)
    then show ?thesis using assms json_tok_u [of n x] by simp
  qed
qed

lemma json_char_hd: "n < 128 \<Longrightarrow> json_char n \<noteq> [] \<and> hd (json_char n) \<noteq> CHR 0x22"
proof -
  assume n: "n < 128"
  have "list_all (\<lambda>n. json_char n \<noteq> [] \<and> hd (json_char n) \<noteq> CHR 0x22) [0..<128]" by code_simp
  with n show ?thesis by (simp add: list_all_iff)
qed

definition ascii :: "string \<Rightarrow> bool" where
  "ascii s \<longleftrightarrow> list_all (\<lambda>c. of_char c < (128 :: nat)) s"

lemma json_escape_ascii:
  "of_char c < (128 :: nat) \<Longrightarrow> json_escape (c # s) = json_char (of_char c) @ json_escape s"
  by (simp add: utf8_next_def Let_def)

lemma json_escape_cancel:
  "\<lbrakk>json_escape a @ CHR 0x22 # x = json_escape b @ CHR 0x22 # y; ascii a; ascii b\<rbrakk> \<Longrightarrow> a = b \<and> x = y"
proof (induction a arbitrary: b)
  case Nil
  then show ?case
  proof (cases b)
    case (Cons d b')
    with Nil have "of_char d < (128 :: nat)" by (simp add: ascii_def)
    with Nil Cons json_char_hd [of "of_char d"] show ?thesis
      by (cases "json_char (of_char d)") (auto simp: json_escape_ascii simp del: json_escape.simps(2))
  qed simp
next
  case (Cons c a)
  then have c: "of_char c < (128 :: nat)" by (simp add: ascii_def)
  show ?case
  proof (cases b)
    case Nil
    with Cons.prems c json_char_hd [of "of_char c"] show ?thesis
      by (cases "json_char (of_char c)") (auto simp: json_escape_ascii simp del: json_escape.simps(2))
  next
    case (Cons d b')
    then have d: "of_char d < (128 :: nat)" using Cons.prems by (simp add: ascii_def)
    let ?x = "json_escape a @ CHR 0x22 # x" and ?y = "json_escape b' @ CHR 0x22 # y"
    have "json_char (of_char c) @ ?x = json_char (of_char d) @ ?y"
      using Cons.prems Cons c d by (simp add: json_escape_ascii del: json_escape.simps(2))
    then have "json_tok (json_char (of_char c) @ ?x) = json_tok (json_char (of_char d) @ ?y)" by simp
    then have "of_char c = (of_char d :: nat) \<and> ?x = ?y" using json_tok_char c d by simp
    with Cons.IH [of b'] Cons.prems Cons show ?thesis by (auto simp: ascii_def)
  qed
qed

lemma json_string_cancel:
  "ascii a \<Longrightarrow> ascii b \<Longrightarrow> json_string a @ x = json_string b @ y \<longleftrightarrow> a = b \<and> x = y"
  using json_escape_cancel [of a x b y] by (auto simp: json_string_def)

section \<open>Facts about digests and canonical objects\<close>

lemma length_of_state [simp]: "length (of_state s) = 8"
  by (cases s rule: of_state.cases) simp

lemma length_sha_block: "length hs = 8 \<Longrightarrow> length (sha_block ws hs) = 8"
  by (simp add: sha_block_def)

lemma length_sha256 [simp]: "length (sha256 s) = 32"
proof -
  define step where "step b = sha_block (map word_of_bytes (chunks 4 b))" for b
  have bytes: "length (concat (map bytes_of_word ws)) = 4 * length ws" for ws
    by (induction ws) (auto simp: bytes_of_word_def Let_def)
  have "length hs = 8 \<Longrightarrow> length (fold step bs hs) = 8" for bs hs
    by (induction bs arbitrary: hs) (auto simp: step_def length_sha_block)
  moreover have "length sha_init = 8" by (simp add: sha_init_def)
  ultimately have "length (fold step (chunks 64 (sha_pad s)) sha_init) = 8" by blast
  then show ?thesis by (simp add: sha256_def bytes step_def [abs_def])
qed

lemma length_hexdigest [simp]: "length (hexdigest s) = 2 * length s"
  by (induction s) (auto simp: hexdigest_def hex_byte_def)

lemma ascii_hexdigest [simp]: "ascii (hexdigest s)"
proof -
  have "list_all (\<lambda>n. of_char (hex_chars ! n) < (128 :: nat)) [0..<16]" by code_simp
  then have h: "n < 16 \<Longrightarrow> of_char (hex_chars ! n) < (128 :: nat)" for n by (simp add: list_all_iff)
  have "of_char c div 16 < (16 :: nat)" for c :: char
    by (cases c) (auto simp: of_char_def intro!: less_mult_imp_div_less horner_sum_of_bool_2_less [THEN less_le_trans])
  with h show ?thesis by (induction s) (auto simp: hexdigest_def hex_byte_def ascii_def)
qed

lemma length_hmac [simp]: "length (hmac_sha256 k m) = 32"
  by (simp add: hmac_sha256_def Let_def)

text \<open>A JSON object of ASCII strings is determined by its text and its keys.\<close>

lemma sort_pairs_map: "sort_pairs (map (apsnd f) ps) = map (apsnd f) (sort_pairs ps)"
proof -
  have ins: "insert_pair (apsnd f p) (map (apsnd f) qs) = map (apsnd f) (insert_pair p qs)" for p qs
    by (induction qs) auto
  show ?thesis by (induction ps) (auto simp: sort_pairs_def ins)
qed

lemma set_sort_pairs [simp]: "set (sort_pairs ps) = set ps"
proof -
  have ins: "set (insert_pair p ps) = insert p (set ps)" for p and ps :: "(string \<times> 'a) list"
    by (induction ps) auto
  show ?thesis by (induction ps) (auto simp: sort_pairs_def ins)
qed

lemma keys_insert_pair:
  "map fst ps = map fst qs \<Longrightarrow> fst p = fst q \<Longrightarrow> map fst (insert_pair p ps) = map fst (insert_pair q qs)"
proof (induction ps arbitrary: qs)
  case (Cons p' ps)
  then obtain q' qs' where "qs = q' # qs'" "fst p' = fst q'" "map fst ps = map fst qs'" by auto
  with Cons show ?case by auto
qed simp

lemma keys_sort_pairs: "map fst ps = map fst qs \<Longrightarrow> map fst (sort_pairs ps) = map fst (sort_pairs qs)"
proof (induction ps arbitrary: qs)
  case (Cons p ps)
  then obtain q qs' where q: "qs = q # qs'" "fst p = fst q" "map fst ps = map fst qs'" by auto
  have "map fst (sort_pairs ps) = map fst (sort_pairs qs')" by (rule Cons.IH [OF q(3)])
  from keys_insert_pair [OF this q(2)] q(1) show ?case by (simp add: sort_pairs_def)
qed (simp add: sort_pairs_def)

definition json_pair :: "string \<times> string \<Rightarrow> string" where
  "json_pair p = json_string (fst p) @ '':'' @ json_string (snd p)"

lemma json_object_text: "json_object ps = ''{'' @ py_join '','' (map json_pair (sort_pairs ps)) @ ''}''"
proof -
  have "map (\<lambda>(k, v). (k, json_dumps v)) (map (\<lambda>(k, v). (k, JStr v)) ps) = map (apsnd json_string) ps"
    by (auto simp: apsnd_def map_prod_def)
  then have "json_object ps = ''{'' @ py_join '',''
      (map (\<lambda>(k, v). json_string k @ '':'' @ v) (map (apsnd json_string) (sort_pairs ps))) @ ''}''"
    unfolding json_object_def json_dumps.simps by (simp only: sort_pairs_map)
  moreover have "map (\<lambda>(k, v). json_string k @ '':'' @ v) (map (apsnd json_string) xs) = map json_pair xs" for xs
    by (induction xs) (auto simp: json_pair_def)
  ultimately show ?thesis by (simp only:)
qed

lemma json_pairs_inj:
  assumes "map fst xs = map fst ys" "list_all ascii (map snd xs)" "list_all ascii (map snd ys)"
    and "py_join '','' (map json_pair xs) @ ''}'' = py_join '','' (map json_pair ys) @ ''}''"
  shows "xs = ys"
proof -
  from assms(1) have "length xs = length ys" by (metis length_map)
  then show ?thesis using assms
  proof (induction xs ys rule: list_induct2)
    case (Cons x xs y ys)
    have key: "fst x = fst y" and a: "ascii (snd x)" "ascii (snd y)" using Cons.prems by auto
    show ?case
    proof (cases xs)
      case Nil
      then have "ys = []" using Cons.hyps by simp
      with Nil Cons.prems key a show ?thesis
        using json_string_cancel [of "snd x" "snd y" "''}''" "''}''"]
        by (auto simp: json_pair_def prod_eq_iff)
    next
      case (Cons x' xs')
      then obtain y' ys' where ys: "ys = y' # ys'" using Cons.hyps by (cases ys) auto
      have "json_string (snd x) @ '','' @ py_join '','' (map json_pair xs) @ ''}''
          = json_string (snd y) @ '','' @ py_join '','' (map json_pair ys) @ ''}''"
        using Cons.prems key ys Cons by (simp add: json_pair_def [of x] json_pair_def [of y])
      with a have "snd x = snd y" "py_join '','' (map json_pair xs) @ ''}'' = py_join '','' (map json_pair ys) @ ''}''"
        by (simp_all add: json_string_cancel)
      with Cons.IH Cons.prems key show ?thesis by (auto simp: prod_eq_iff)
    qed
  qed simp
qed

lemma json_object_inj:
  assumes keys: "map fst ps = map fst qs" and d: "distinct (map fst ps)"
    and "list_all ascii (map snd ps)" "list_all ascii (map snd qs)"
    and "json_object ps = json_object qs"
  shows "ps = qs"
proof -
  have "sort_pairs ps = sort_pairs qs"
    by (rule json_pairs_inj [OF keys_sort_pairs [OF keys]])
      (use assms in \<open>auto simp: list_all_iff json_object_text\<close>)
  then have "set ps = set qs" using set_sort_pairs by metis
  then have m: "map_of ps = map_of qs" using d keys by (simp add: map_of_inject_set)
  have all: "distinct (map fst xs) \<Longrightarrow> map snd xs = map (\<lambda>k. the (map_of xs k)) (map fst xs)"
    for xs :: "(string \<times> string) list"
  proof (induction xs)
    case (Cons x xs)
    then have "map snd xs = map (\<lambda>k. the (map_of xs k)) (map fst xs)" by simp
    also have "\<dots> = map (\<lambda>k. the (map_of (x # xs) k)) (map fst xs)"
    proof (intro map_cong refl)
      fix k assume k: "k \<in> set (map fst xs)"
      from Cons.prems have "fst x \<notin> set (map fst xs)" by simp
      with k have "k \<noteq> fst x" by metis
      then show "the (map_of xs k) = the (map_of (x # xs) k)" by (cases x) simp
    qed
    finally show ?case by (cases x) simp
  qed simp
  have "map snd ps = map (\<lambda>k. the (map_of ps k)) (map fst ps)" by (rule all [OF d])
  also have "\<dots> = map (\<lambda>k. the (map_of qs k)) (map fst qs)" by (simp only: m keys)
  also have "\<dots> = map snd qs" by (rule all [OF d [unfolded keys], symmetric])
  finally have "map snd ps = map snd qs" .
  then have "zip (map fst ps) (map snd ps) = zip (map fst qs) (map snd qs)" using keys by simp
  then show ?thesis by (simp only: zip_map_fst_snd)
qed

end
