(* ===== verification/AuditLog.thy ===== *)
theory AuditLog
  imports Secrets Sha256
begin

text \<open>
  \<open>security_testing/audit.py\<close>: the hash-chained log of every decision, with its in-memory store.
  The contract of a hash chain is a locale; the log is its instance on the code's SHA-256 of the
  canonical JSON text.
\<close>

section \<open>Hash chains\<close>

text \<open>
  Entries carry the hash of the entry before them and their own. The text that is hashed
  determines the visible part of a well-formed entry.
\<close>

locale hash_chain =
  fixes hash :: "string \<Rightarrow> string"
    and content :: "'e \<Rightarrow> string \<Rightarrow> string"
    and prev :: "'e \<Rightarrow> string"
    and digest :: "'e \<Rightarrow> string"
    and view :: "'e \<Rightarrow> 'v"
    and formed :: "'e \<Rightarrow> bool"
  assumes content_view: "formed e \<Longrightarrow> formed e' \<Longrightarrow> content e (prev e) = content e' (prev e') \<Longrightarrow>
    view e = view e' \<and> prev e = prev e'"
begin

fun linked :: "string \<Rightarrow> 'e list \<Rightarrow> bool" where
  "linked p [] = True"
| "linked p (e # es) \<longleftrightarrow> prev e = p \<and> digest e = hash (content e p) \<and> linked (digest e) es"

fun head :: "string \<Rightarrow> 'e list \<Rightarrow> string" where
  "head p [] = p"
| "head p (e # es) = head (digest e) es"

lemma head_snoc [simp]: "head p (es @ [e]) = digest e"
  by (induction es arbitrary: p) auto

lemma linked_snoc:
  "linked p (es @ [e]) \<longleftrightarrow>
     linked p es \<and> prev e = head p es \<and> digest e = hash (content e (head p es))"
  by (induction es arbitrary: p) auto

text \<open>
  Two chains of the same length with the same head show the same entries, unless the hash
  function collides on the texts of two entries in the same place.
\<close>

lemma same_head_same_entries:
  assumes "linked p xs" "linked p' ys" "length xs = length ys" "head p xs = head p' ys"
    and "list_all formed xs" "list_all formed ys"
  shows "map view xs = map view ys \<or>
    (\<exists>(x, y)\<in>set (zip xs ys). collides hash (content x (prev x)) (content y (prev y)))"
  using assms
proof (induction xs arbitrary: ys rule: rev_induct)
  case (snoc x xs)
  then obtain ys' y where ys: "ys = ys' @ [y]" by (cases ys rule: rev_cases) auto
  have h: "hash (content x (prev x)) = hash (content y (prev y))"
    using snoc.prems by (simp add: ys linked_snoc)
  show ?case
  proof (cases "content x (prev x) = content y (prev y)")
    case True
    with snoc.prems have v: "view x = view y" "prev x = prev y"
      using content_view [of x y] by (auto simp: ys)
    then have "map view xs = map view ys' \<or>
        (\<exists>(x, y)\<in>set (zip xs ys'). collides hash (content x (prev x)) (content y (prev y)))"
      using snoc by (intro snoc.IH) (auto simp: ys linked_snoc)
    with v snoc.prems show ?thesis by (auto simp: ys)
  next
    case False
    with h snoc.prems show ?thesis by (auto simp: ys collides_def)
  qed
qed simp

end

section \<open>Events\<close>

record audit_event =
  e_timestamp :: instant
  e_project :: string
  e_target :: string
  e_scope_decision :: string
  e_tool :: string
  e_action :: string
  e_request_id :: string
  e_rate_limit :: string
  e_result :: string
  e_evidence_id :: string
  e_human_approval :: string
  prev_hash :: string
  entry_hash :: string
  e_id :: string

definition canonical :: "(string, string) dict \<Rightarrow> string" where
  "canonical payload = json_object payload"

definition event_body :: "audit_event \<Rightarrow> string \<Rightarrow> (string, string) dict" where
  "event_body e p =
     [(''timestamp'', isoformat (e_timestamp e)), (''project'', e_project e), (''target'', e_target e),
      (''scope_decision'', e_scope_decision e), (''tool'', e_tool e), (''action'', e_action e),
      (''request_id'', e_request_id e), (''rate_limit_decision'', e_rate_limit e),
      (''result'', e_result e), (''evidence_id'', e_evidence_id e),
      (''human_approval'', e_human_approval e), (''prev_hash'', p)]"

text \<open>\<open>AuditEvent.to_mapping\<close>, in the order of the fields.\<close>

definition to_mapping :: "audit_event \<Rightarrow> (string, string) dict" where
  "to_mapping e =
     [(''timestamp'', isoformat (e_timestamp e)), (''project'', e_project e), (''target'', e_target e),
      (''scope_decision'', e_scope_decision e), (''tool'', e_tool e), (''action'', e_action e),
      (''request_id'', e_request_id e), (''rate_limit_decision'', e_rate_limit e),
      (''result'', e_result e), (''evidence_id'', e_evidence_id e),
      (''human_approval'', e_human_approval e), (''prev_hash'', prev_hash e),
      (''entry_hash'', entry_hash e), (''id'', e_id e)]"

definition event_content :: "audit_event \<Rightarrow> string \<Rightarrow> string" where
  "event_content e p = canonical (event_body e p)"

section \<open>The log\<close>

text \<open>The log's entries and head, and the events its store holds.\<close>

record audit_log =
  entries :: "audit_event list"
  chain_head :: string
  store :: "audit_event list"

definition genesis :: string where "genesis = replicate 64 CHR ''0''"

definition store_append :: "audit_event \<Rightarrow> audit_event list \<Rightarrow> audit_event list" where
  "store_append e events = events @ [e]"

definition audit_open :: "audit_event list \<Rightarrow> audit_log" where
  "audit_open stored =
     \<lparr>entries = stored, chain_head = (if stored = [] then genesis else entry_hash (last stored)),
      store = stored\<rparr>"

text \<open>The fields of a call of \<open>record\<close>; those the caller may leave out are empty then.\<close>

record audit_call =
  c_project :: string
  c_target :: string
  c_scope_decision :: string
  c_tool :: string
  c_action :: string
  c_request_id :: string
  c_rate_limit :: string
  c_result :: string
  c_evidence_id :: string
  c_human_approval :: string

definition audit_record :: "audit_call \<Rightarrow> string \<Rightarrow> instant \<Rightarrow> audit_log \<Rightarrow> audit_log" where
  "audit_record c uid now lg =
     (let e0 = \<lparr>e_timestamp = now, e_project = c_project c, e_target = redact_text (c_target c),
                e_scope_decision = redact_text (c_scope_decision c), e_tool = c_tool c,
                e_action = redact_text (c_action c), e_request_id = c_request_id c,
                e_rate_limit = c_rate_limit c, e_result = redact_text (c_result c),
                e_evidence_id = c_evidence_id c, e_human_approval = c_human_approval c,
                prev_hash = chain_head lg, entry_hash = [], e_id = uid\<rparr>;
          digest = sha256_hex (event_content e0 (chain_head lg));
          e = e0\<lparr>entry_hash := digest\<rparr>
      in \<lparr>entries = entries lg @ [e], chain_head = digest, store = store_append e (store lg)\<rparr>)"

fun verify_from :: "string \<Rightarrow> audit_event list \<Rightarrow> bool" where
  "verify_from p [] = True"
| "verify_from p (e # es) =
     (if prev_hash e \<noteq> p \<or> entry_hash e \<noteq> sha256_hex (event_content e p) then False
      else verify_from (entry_hash e) es)"

definition verify_chain :: "audit_log \<Rightarrow> bool" where
  "verify_chain lg = verify_from genesis (entries lg)"

section \<open>The log is a hash chain\<close>

text \<open>What an event shows: everything that is hashed but the previous hash.\<close>

definition event_view :: "audit_event \<Rightarrow> string list" where
  "event_view e =
     [isoformat (e_timestamp e), e_project e, e_target e, e_scope_decision e, e_tool e, e_action e,
      e_request_id e, e_rate_limit e, e_result e, e_evidence_id e, e_human_approval e]"

definition event_ascii :: "audit_event \<Rightarrow> bool" where
  "event_ascii e \<longleftrightarrow> list_all ascii (event_view e) \<and> ascii (prev_hash e)"

lemma event_content_view:
  assumes "event_ascii a" "event_ascii b" "event_content a (prev_hash a) = event_content b (prev_hash b)"
  shows "event_view a = event_view b \<and> prev_hash a = prev_hash b"
proof -
  have "event_body a (prev_hash a) = event_body b (prev_hash b)"
    by (rule json_object_inj)
      (use assms in \<open>simp_all add: event_content_def canonical_def event_body_def event_ascii_def event_view_def\<close>)
  then show ?thesis by (simp add: event_body_def event_view_def)
qed

interpretation audit: hash_chain sha256_hex event_content prev_hash entry_hash event_view event_ascii
  by unfold_locales (rule event_content_view)

lemma verify_from_linked: "verify_from p es \<longleftrightarrow> audit.linked p es"
  by (induction es arbitrary: p) auto

lemma verify_chain_linked: "verify_chain lg \<longleftrightarrow> audit.linked genesis (entries lg)"
  by (simp add: verify_chain_def verify_from_linked)

section \<open>Runs of the log\<close>

text \<open>A call with its new identifier and its time.\<close>

type_synonym audit_op = "audit_call \<times> string \<times> instant"

fun audit_step :: "audit_log \<Rightarrow> audit_op \<Rightarrow> audit_log" where
  "audit_step lg (c, uid, now) = audit_record c uid now lg"

definition audit_ok :: "audit_log \<Rightarrow> bool" where
  "audit_ok lg \<longleftrightarrow> verify_chain lg \<and> chain_head lg = audit.head genesis (entries lg) \<and>
     store lg = entries lg"

lemma audit_step_ok: "audit_ok lg \<Longrightarrow> audit_ok (audit_step lg x)"
  by (cases x) (simp add: audit_ok_def audit_record_def Let_def store_append_def
      verify_chain_linked audit.linked_snoc event_content_def event_body_def)

interpretation audit_runs: machine "\<lambda>lg. lg = audit_open []" audit_step audit_ok
  by unfold_locales (simp add: audit_ok_def audit_open_def verify_chain_def, rule audit_step_ok)

section \<open>Properties\<close>

text \<open>A log that was opened empty and only recorded to verifies, its store holds exactly its
  entries, and no call removed one.\<close>

theorem recorded_log_verifies:
  "let lg = run_ops audit_step (audit_open []) ops in
   verify_chain lg \<and> store lg = entries lg \<and> length (entries lg) = length ops"
proof -
  have "length (entries (run_ops audit_step lg ops)) = length (entries lg) + length ops" for lg
    by (induction ops arbitrary: lg) (auto simp: audit_record_def Let_def)
  then show ?thesis using audit_runs.run_always [of "audit_open []" ops]
    by (simp add: audit_ok_def Let_def audit_open_def)
qed

definition event_collision :: "audit_event \<Rightarrow> audit_event \<Rightarrow> bool" where
  "event_collision a b \<longleftrightarrow>
     collides sha256_hex (event_content a (prev_hash a)) (event_content b (prev_hash b))"

text \<open>C34. Tampering shows: two verifying logs of the same length whose last hashes agree record the
  same events, field by field, unless SHA-256 collides on the texts of two of their entries, in
  the same place. (The fields are ASCII text.)\<close>

theorem audit_tamper_evident:
  assumes "verify_chain lg" "verify_chain lg'"
    and "length (entries lg) = length (entries lg')"
    and "entries lg \<noteq> []" and "entry_hash (last (entries lg)) = entry_hash (last (entries lg'))"
    and "list_all event_ascii (entries lg)" "list_all event_ascii (entries lg')"
  shows "map event_view (entries lg) = map event_view (entries lg') \<or>
         (\<exists>(a, b)\<in>set (zip (entries lg) (entries lg')). event_collision a b)"
proof -
  have h: "es \<noteq> [] \<Longrightarrow> audit.head genesis es = entry_hash (last es)" for es
    by (cases es rule: rev_cases) auto
  have "entries lg' \<noteq> []" using assms(3,4) by auto
  with assms h [of "entries lg"] h [of "entries lg'"] show ?thesis
    unfolding event_collision_def
    by (intro audit.same_head_same_entries [of genesis _ genesis]) (auto simp: verify_chain_linked)
qed

definition sample_call :: audit_call where
  "sample_call = \<lparr>c_project = ''p'', c_target = ''t'', c_scope_decision = ''s'', c_tool = ''k'',
     c_action = ''a'', c_request_id = [], c_rate_limit = [], c_result = ''ok'', c_evidence_id = [],
     c_human_approval = []\<rparr>"

theorem audit_tamper_evident_witness:
  "let a = run_ops audit_step (audit_open []) [(sample_call, ''id1'', 0)];
       b = run_ops audit_step (audit_open []) [(sample_call, ''id2'', 0)]
   in entries a \<noteq> entries b \<and>
      (map event_view (entries a) = map event_view (entries b) \<or>
       (\<exists>(x, y)\<in>set (zip (entries a) (entries b)). event_collision x y))"
proof -
  let ?a = "run_ops audit_step (audit_open []) [(sample_call, ''id1'', 0)]"
  let ?b = "run_ops audit_step (audit_open []) [(sample_call, ''id2'', 0)]"
  have ok: "audit_ok ?a" "audit_ok ?b"
    by (rule audit_runs.run_always, rule refl)+
  have ascii: "list_all ascii [isoformat 0, ''p'', redact_text ''t'', redact_text ''s'', ''k'',
      redact_text ''a'', [], [], redact_text ''ok'', [], [], genesis]"
    by code_simp
  have "map event_view (entries ?a) = map event_view (entries ?b) \<or>
       (\<exists>(x, y)\<in>set (zip (entries ?a) (entries ?b)). event_collision x y)"
  proof (rule audit_tamper_evident)
    show "verify_chain ?a" "verify_chain ?b" using ok by (simp_all add: audit_ok_def)
    show "list_all event_ascii (entries ?a)" "list_all event_ascii (entries ?b)" using ascii
      by (simp_all add: audit_record_def Let_def audit_open_def event_ascii_def event_view_def sample_call_def)
  qed (simp_all add: audit_record_def Let_def audit_open_def event_content_def event_body_def)
  then show ?thesis by (simp add: audit_record_def Let_def)
qed

end
