(* ===== verification/Evidence.thy ===== *)
theory Evidence
  imports Sha256
begin

text \<open>
  \<open>domain/evidence.py\<close>, \<open>domain/target_identity.py\<close> and \<open>domain/trusted_evidence.py\<close>: collected
  evidence, the semantic identity of what it is about, and the signed observations that alone can
  verify a finding. The server secret is an argument, as are new identifiers and the clock.
\<close>

section \<open>Kinds and provenance\<close>

datatype evidence_kind =
    K_AI_ANALYSIS | K_STATIC_ANALYSIS | K_SOURCE_CODE | K_GENERATED_TEST | K_BROWSER
  | K_PROXY | K_SCANNER | K_SCANNER_PLAN | K_TOOL_STATUS | K_FUZZING | K_API_TEST
  | K_REPRODUCTION | K_SCREENSHOT | K_LOG | K_HTTP_REQUEST | K_HTTP_RESPONSE
  | K_TEST_FAILURE | K_REPLAY | K_ECONOMIC_OBSERVATION | K_PROTOCOL_OBSERVATION
  | K_RUNTIME_OBSERVATION

fun evidence_kind_value :: "evidence_kind \<Rightarrow> string" where
  "evidence_kind_value K_AI_ANALYSIS = ''ai_analysis''"
| "evidence_kind_value K_STATIC_ANALYSIS = ''static_analysis''"
| "evidence_kind_value K_SOURCE_CODE = ''source_code''"
| "evidence_kind_value K_GENERATED_TEST = ''generated_test''"
| "evidence_kind_value K_BROWSER = ''browser''"
| "evidence_kind_value K_PROXY = ''proxy''"
| "evidence_kind_value K_SCANNER = ''scanner''"
| "evidence_kind_value K_SCANNER_PLAN = ''scanner_plan''"
| "evidence_kind_value K_TOOL_STATUS = ''tool_status''"
| "evidence_kind_value K_FUZZING = ''fuzzing''"
| "evidence_kind_value K_API_TEST = ''api_test''"
| "evidence_kind_value K_REPRODUCTION = ''reproduction''"
| "evidence_kind_value K_SCREENSHOT = ''screenshot''"
| "evidence_kind_value K_LOG = ''log''"
| "evidence_kind_value K_HTTP_REQUEST = ''http_request''"
| "evidence_kind_value K_HTTP_RESPONSE = ''http_response''"
| "evidence_kind_value K_TEST_FAILURE = ''test_failure''"
| "evidence_kind_value K_REPLAY = ''replay''"
| "evidence_kind_value K_ECONOMIC_OBSERVATION = ''economic_observation''"
| "evidence_kind_value K_PROTOCOL_OBSERVATION = ''protocol_observation''"
| "evidence_kind_value K_RUNTIME_OBSERVATION = ''runtime_observation''"

datatype provenance =
    P_AI_HYPOTHESIS | P_STATIC_ANALYSIS | P_SOURCE_OBSERVATION | P_EXECUTION
  | P_REPRODUCTION | P_BROWSER_OBSERVATION | P_HTTP_OBSERVATION | P_SCANNER_OBSERVATION
  | P_SCANNER_RESULT | P_SCANNER_PLAN | P_TOOL_STATUS | P_API_TEST | P_FUZZING_RESULT
  | P_SCREENSHOT | P_LOG | P_REPLAY | P_SANDBOX_EXECUTION | P_ECONOMIC_OBSERVATION
  | P_PROTOCOL_OBSERVATION | P_RUNTIME_OBSERVATION

fun provenance_value :: "provenance \<Rightarrow> string" where
  "provenance_value P_AI_HYPOTHESIS = ''ai_hypothesis''"
| "provenance_value P_STATIC_ANALYSIS = ''static_analysis''"
| "provenance_value P_SOURCE_OBSERVATION = ''source_observation''"
| "provenance_value P_EXECUTION = ''execution''"
| "provenance_value P_REPRODUCTION = ''reproduction''"
| "provenance_value P_BROWSER_OBSERVATION = ''browser_observation''"
| "provenance_value P_HTTP_OBSERVATION = ''http_observation''"
| "provenance_value P_SCANNER_OBSERVATION = ''scanner_observation''"
| "provenance_value P_SCANNER_RESULT = ''scanner_result''"
| "provenance_value P_SCANNER_PLAN = ''scanner_plan''"
| "provenance_value P_TOOL_STATUS = ''tool_status''"
| "provenance_value P_API_TEST = ''api_test''"
| "provenance_value P_FUZZING_RESULT = ''fuzzing_result''"
| "provenance_value P_SCREENSHOT = ''screenshot''"
| "provenance_value P_LOG = ''log''"
| "provenance_value P_REPLAY = ''replay''"
| "provenance_value P_SANDBOX_EXECUTION = ''sandbox_execution''"
| "provenance_value P_ECONOMIC_OBSERVATION = ''economic_observation''"
| "provenance_value P_PROTOCOL_OBSERVATION = ''protocol_observation''"
| "provenance_value P_RUNTIME_OBSERVATION = ''runtime_observation''"

definition verification_provenance :: "provenance list" where
  "verification_provenance =
     [P_EXECUTION, P_REPRODUCTION, P_BROWSER_OBSERVATION, P_HTTP_OBSERVATION, P_SCANNER_OBSERVATION, P_SCANNER_RESULT, P_API_TEST, P_FUZZING_RESULT, P_SCREENSHOT, P_LOG]"

fun kind_provenance :: "evidence_kind \<Rightarrow> provenance" where
  "kind_provenance K_AI_ANALYSIS = P_AI_HYPOTHESIS"
| "kind_provenance K_STATIC_ANALYSIS = P_STATIC_ANALYSIS"
| "kind_provenance K_SOURCE_CODE = P_SOURCE_OBSERVATION"
| "kind_provenance K_GENERATED_TEST = P_SOURCE_OBSERVATION"
| "kind_provenance K_TEST_FAILURE = P_EXECUTION"
| "kind_provenance K_REPRODUCTION = P_REPRODUCTION"
| "kind_provenance K_BROWSER = P_BROWSER_OBSERVATION"
| "kind_provenance K_PROXY = P_HTTP_OBSERVATION"
| "kind_provenance K_HTTP_REQUEST = P_HTTP_OBSERVATION"
| "kind_provenance K_HTTP_RESPONSE = P_HTTP_OBSERVATION"
| "kind_provenance K_SCANNER = P_SCANNER_RESULT"
| "kind_provenance K_SCANNER_PLAN = P_SCANNER_PLAN"
| "kind_provenance K_TOOL_STATUS = P_TOOL_STATUS"
| "kind_provenance K_FUZZING = P_FUZZING_RESULT"
| "kind_provenance K_API_TEST = P_API_TEST"
| "kind_provenance K_LOG = P_LOG"
| "kind_provenance K_SCREENSHOT = P_SCREENSHOT"
| "kind_provenance K_REPLAY = P_REPLAY"
| "kind_provenance K_ECONOMIC_OBSERVATION = P_ECONOMIC_OBSERVATION"
| "kind_provenance K_PROTOCOL_OBSERVATION = P_PROTOCOL_OBSERVATION"
| "kind_provenance K_RUNTIME_OBSERVATION = P_RUNTIME_OBSERVATION"

section \<open>Evidence\<close>

text \<open>A metadata value: what \<open>str\<close> makes of it and whether it counts as true.\<close>

datatype meta_value = MNone | MText string | MInt int | MBool bool | MOther string bool

fun meta_str :: "meta_value \<Rightarrow> string" where
  "meta_str MNone = ''None''"
| "meta_str (MText s) = s"
| "meta_str (MInt i) = show_int i"
| "meta_str (MBool b) = (if b then ''True'' else ''False'')"
| "meta_str (MOther s t) = s"

fun meta_true :: "meta_value \<Rightarrow> bool" where
  "meta_true MNone = False"
| "meta_true (MText s) = (s \<noteq> [])"
| "meta_true (MInt i) = (i \<noteq> 0)"
| "meta_true (MBool b) = b"
| "meta_true (MOther s t) = t"

text \<open>
  A record is a \<open>ServerObservation\<close> when it carries that class's two fields, the observation
  identifier and the signature.
\<close>

record evidence =
  ev_kind :: evidence_kind
  ev_source :: string
  ev_summary :: string
  ev_details :: string
  ev_artifact :: "string option"
  ev_metadata :: "(string, meta_value) dict"
  ev_provenance :: "provenance option"
  ev_collected_at :: instant
  ev_id :: string
  ev_server :: "(string \<times> string) option"

text \<open>\<open>Evidence.__post_init__\<close>; every kind has a provenance, so the lookup cannot fail.\<close>

definition evidence_init :: "evidence \<Rightarrow> evidence result" where
  "evidence_init e =
     (if py_strip (ev_summary e) = [] then Inl (ValueError ''Evidence summary must be non-empty'')
      else if py_strip (ev_source e) = [] then Inl (ValueError ''Evidence source must be non-empty'')
      else let derived = kind_provenance (ev_kind e) in
        if ev_provenance e \<noteq> None \<and> ev_provenance e \<noteq> Some derived then
          Inl (ValueError (''Provenance '' @ provenance_value (the (ev_provenance e)) @
            '' is incompatible with kind '' @ evidence_kind_value (ev_kind e)))
        else Inr (e\<lparr>ev_provenance := Some derived\<rparr>))"

definition contributes_to_verification :: "evidence \<Rightarrow> bool" where
  "contributes_to_verification e =
     (case ev_provenance e of None \<Rightarrow> False | Some p \<Rightarrow> p \<in> set verification_provenance)"

definition evidence_from_ai ::
    "string \<Rightarrow> string \<Rightarrow> string \<Rightarrow> instant \<Rightarrow> string \<Rightarrow> evidence result" where
  "evidence_from_ai summary details source now uid =
     evidence_init
       \<lparr>ev_kind = K_AI_ANALYSIS, ev_source = source, ev_summary = summary, ev_details = details,
        ev_artifact = None, ev_metadata = [], ev_provenance = Some P_AI_HYPOTHESIS,
        ev_collected_at = now, ev_id = uid, ev_server = None\<rparr>"

text \<open>A bundle is the tuple of its items.\<close>

type_synonym evidence_bundle = "evidence list"

definition of_kind :: "evidence_kind \<Rightarrow> evidence_bundle \<Rightarrow> evidence list" where
  "of_kind k items = filter (\<lambda>i. ev_kind i = k) items"

definition verifying_items :: "evidence_bundle \<Rightarrow> evidence list" where
  "verifying_items items = filter contributes_to_verification items"

definition bundle_extend :: "evidence_bundle \<Rightarrow> evidence list \<Rightarrow> evidence_bundle" where
  "bundle_extend items extra = items @ extra"

definition meta_text :: "evidence \<Rightarrow> string \<Rightarrow> string" where
  "meta_text e k =
     (case map_of (ev_metadata e) k of None \<Rightarrow> [] | Some MNone \<Rightarrow> [] | Some v \<Rightarrow> meta_str v)"

definition norm_meta :: "evidence \<Rightarrow> string \<Rightarrow> string" where
  "norm_meta e k = py_lower (squash_ws (meta_text e k))"

definition type_identity :: "evidence \<Rightarrow> string list" where
  "type_identity e =
     (let k = ev_kind e; n = norm_meta e in
      if k \<in> {K_HTTP_REQUEST, K_HTTP_RESPONSE, K_PROXY, K_API_TEST} then
        [n ''method'', or_text (n ''url'') (n ''route''), or_text (n ''status'') (n ''status_code'')]
      else if k = K_SCANNER then
        [or_text (n ''check_id'') (n ''rule_id''), n ''target'', n ''result_id'']
      else if k = K_BROWSER then
        [or_text (n ''route'') (n ''url''), n ''event'', n ''session_id'']
      else if k = K_FUZZING then [n ''target'', n ''result_id'']
      else if k = K_REPRODUCTION then [n ''result_id'', n ''reproduced'', n ''observed_target'']
      else if k \<in> {K_STATIC_ANALYSIS, K_SOURCE_CODE} then
        [or_text (n ''rule'') (n ''sink''), n ''field_path'', n ''sink_occurrence'', n ''scope_id'',
         n ''argument_index'']
      else [])"

definition slashes :: "string \<Rightarrow> string" where
  "slashes s = py_replace_char CHR 0x5C CHR ''/'' s"

definition observation_identity :: "evidence \<Rightarrow> string list" where
  "observation_identity e =
     [evidence_kind_value (ev_kind e), py_strip (ev_source e), squash_ws (ev_summary e),
      take 16 (sha256_hex (ev_details e)),
      slashes (case ev_artifact e of None \<Rightarrow> [] | Some a \<Rightarrow> a),
      meta_text e ''line'', or_text (meta_text e ''contradicts'') (meta_text e ''reached''),
      meta_text e ''execution_id'', meta_text e ''outcome'', meta_text e ''finding_id'',
      meta_text e ''finding_key'', meta_text e ''project_id''] @ type_identity e"

definition evidence_contradicts :: "evidence \<Rightarrow> bool" where
  "evidence_contradicts e \<longleftrightarrow>
     py_lower (meta_text e ''contradicts'') \<in> set [''1'', ''true'', ''yes''] \<or>
     py_lower (meta_text e ''reached'') \<in> set [''0'', ''false'', ''no'', ''not_reached'']"

section \<open>Signing\<close>

definition dropped_meta :: "string list" where
  "dropped_meta = [''attribution'', ''execution_id'', ''finding_id'', ''finding_key'',
     ''observation_signature'', ''observed_target'', ''project_id'', ''server_observation_id'']"

definition signed_meta :: "string list" where
  "signed_meta = [''argument_index'', ''check_id'', ''contradicts'', ''event'', ''execution_id'',
     ''field_path'', ''finding_id'', ''finding_key'', ''line'', ''method'', ''observed_target'',
     ''outcome'', ''project_id'', ''reached'', ''reproduced'', ''result_id'', ''route'', ''rule'',
     ''rule_id'', ''scope_id'', ''session_id'', ''sink'', ''sink_occurrence'', ''status'',
     ''status_code'', ''target'', ''url'']"

definition canon :: "meta_value option \<Rightarrow> string" where
  "canon v = (case v of None \<Rightarrow> [] | Some MNone \<Rightarrow> [] | Some x \<Rightarrow> squash_ws (meta_str x))"

definition sign_body :: "evidence \<Rightarrow> (string, meta_value) dict \<Rightarrow> string \<Rightarrow> (string, string) dict" where
  "sign_body e metadata uid =
     [(''artifact'', slashes (case ev_artifact e of None \<Rightarrow> [] | Some a \<Rightarrow> a)),
      (''details'', sha256_hex (ev_details e)), (''id'', uid),
      (''kind'', evidence_kind_value (ev_kind e)), (''source'', py_strip (ev_source e)),
      (''summary'', squash_ws (ev_summary e))]
     @ map (\<lambda>k. (k, canon (map_of metadata k))) signed_meta"

definition sign_text :: "evidence \<Rightarrow> (string, meta_value) dict \<Rightarrow> string \<Rightarrow> string" where
  "sign_text e metadata uid = json_object (sign_body e metadata uid)"

definition sign :: "string \<Rightarrow> evidence \<Rightarrow> (string, meta_value) dict \<Rightarrow> string \<Rightarrow> string" where
  "sign key e metadata uid = hexdigest (hmac_sha256 key (sign_text e metadata uid))"

text \<open>\<open>str(metadata.get(k) or "")\<close>.\<close>

definition meta_or_empty :: "(string, meta_value) dict \<Rightarrow> string \<Rightarrow> string" where
  "meta_or_empty metadata k =
     (case map_of metadata k of None \<Rightarrow> [] | Some v \<Rightarrow> if meta_true v then meta_str v else [])"

text \<open>\<open>hmac.compare_digest\<close> refuses text that is not ASCII.\<close>

definition same_digest :: "string \<Rightarrow> string \<Rightarrow> bool result" where
  "same_digest a b =
     (if ascii a \<and> ascii b then Inr (a = b)
      else Inl (TypeError ''comparing strings with non-ASCII characters is not supported''))"

text \<open>\<open>ServerObservation.__post_init__\<close>, for the given identifier and signature.\<close>

definition server_observation :: "string \<Rightarrow> evidence \<Rightarrow> string \<Rightarrow> string \<Rightarrow> evidence result" where
  "server_observation key e uid sig =
     then_do (evidence_init e) (\<lambda>e1.
       if uid = [] then Inl (ValueError ''server observation id is required'')
       else let expected = sign key e1 (ev_metadata e1) uid;
                actual = or_text sig (meta_or_empty (ev_metadata e1) ''observation_signature'')
            in then_do (if py_len actual \<noteq> py_len expected then Inr False else same_digest actual expected)
              (\<lambda>same. if \<not> same then Inl (ValueError ''observation signature was not issued by BugForge'')
                else Inr (e1
                  \<lparr>ev_metadata := dict_set ''server_observation_id'' (MText uid)
                     (dict_set ''observation_signature'' (MText expected) (ev_metadata e1)),
                   ev_server := Some (uid, expected)\<rparr>)))"

definition issue_metadata ::
    "(string, meta_value) dict \<Rightarrow> string \<Rightarrow> string \<Rightarrow> string \<Rightarrow> string \<Rightarrow> string \<Rightarrow> string
     \<Rightarrow> (string, meta_value) dict" where
  "issue_metadata metadata execution target finding fkey project uid =
     dict_set ''server_observation_id'' (MText uid)
     (dict_set ''project_id'' (MText project)
     (dict_set ''finding_key'' (MText fkey)
     (dict_set ''finding_id'' (MText finding)
     (dict_set ''observed_target'' (MText target)
     (dict_set ''execution_id'' (MText execution)
     (dict_set ''attribution'' (MText ''server'')
       (dict_drop dropped_meta metadata)))))))"

text \<open>The new object has an identifier of its own, \<open>obj\<close>, beside the observation's, \<open>uid\<close>.\<close>

definition issue_server_observation ::
    "string \<Rightarrow> evidence \<Rightarrow> string \<Rightarrow> string \<Rightarrow> string \<Rightarrow> string \<Rightarrow> string \<Rightarrow> string \<Rightarrow> string
     \<Rightarrow> evidence result" where
  "issue_server_observation key e execution target finding fkey project uid obj =
     (if py_strip execution = [] then
        Inl (ValueError ''A server observation requires a server-generated execution id'')
      else if py_strip target = [] then
        Inl (ValueError ''A server observation must be bound to a semantic target'')
      else if py_strip finding = [] then
        Inl (ValueError ''A server observation must be bound to a finding'')
      else
        let m = issue_metadata (ev_metadata e) execution target finding fkey project uid;
            sig = sign key e m uid
        in server_observation key
             (e\<lparr>ev_metadata := dict_set ''observation_signature'' (MText sig) m,
                ev_provenance := None, ev_id := obj, ev_server := None\<rparr>) uid sig)"

text \<open>
  A constructed observation holds an ASCII signature, so the comparisons here cannot raise.
\<close>

definition is_trusted_observation :: "string \<Rightarrow> evidence \<Rightarrow> bool" where
  "is_trusted_observation key e =
     (case ev_server e of
        None \<Rightarrow> False
      | Some (uid, expected) \<Rightarrow>
          if uid = [] then False
          else let actual = meta_or_empty (ev_metadata e) ''observation_signature'' in
            if actual = [] \<or> expected = [] \<or> py_len actual \<noteq> py_len expected then False
            else if actual \<noteq> expected then False
            else actual = sign key e (ev_metadata e) uid)"

text \<open>
  \<open>_without_trust_markers\<close>: \<open>replace\<close> builds a new object of the same class, whose constructor checks
  it again.
\<close>

definition without_trust_markers :: "string \<Rightarrow> evidence \<Rightarrow> evidence result" where
  "without_trust_markers key e =
     (let dropped = [''attribution'', ''observation_signature'', ''server_observation_id''] @
            (if ev_kind e \<notin> {K_STATIC_ANALYSIS, K_SOURCE_CODE, K_REPRODUCTION}
             then [''observed_target''] else []);
          e1 = e\<lparr>ev_metadata := dict_drop dropped (ev_metadata e)\<rparr>
      in case ev_server e of
           None \<Rightarrow> evidence_init e1
         | Some (uid, sig) \<Rightarrow> server_observation key (e1\<lparr>ev_server := None\<rparr>) uid sig)"

definition restore_server_observation :: "string \<Rightarrow> string \<Rightarrow> evidence \<Rightarrow> evidence result" where
  "restore_server_observation key obj e =
     (let uid = meta_or_empty (ev_metadata e) ''server_observation_id'';
          sig = meta_or_empty (ev_metadata e) ''observation_signature''
      in if uid = [] \<or> sig = [] then without_trust_markers key e
         else case server_observation key
                     (e\<lparr>ev_provenance := None, ev_id := obj, ev_server := None\<rparr>) uid sig of
           Inl (ValueError m) \<Rightarrow> without_trust_markers key e
         | Inl exc \<Rightarrow> Inl exc
         | Inr restored \<Rightarrow>
             if \<not> is_trusted_observation key restored then without_trust_markers key e else Inr restored)"

section \<open>Signatures\<close>

lemma sign_cong:
  assumes "ev_kind a = ev_kind b" "ev_source a = ev_source b" "ev_summary a = ev_summary b"
    "ev_details a = ev_details b" "ev_artifact a = ev_artifact b"
    and "\<forall>k\<in>set signed_meta. map_of m k = map_of n k"
  shows "sign key a m uid = sign key b n uid"
proof -
  have body: "map (\<lambda>k. (k, canon (map_of m k))) signed_meta = map (\<lambda>k. (k, canon (map_of n k))) signed_meta"
    using assms(6) by (intro map_cong) auto
  show ?thesis unfolding sign_def sign_text_def sign_body_def assms(1-5) body by (rule refl)
qed

lemma signature_not_signed:
  "''observation_signature'' \<notin> set signed_meta" "''server_observation_id'' \<notin> set signed_meta"
  "''attribution'' \<notin> set signed_meta"
  by code_simp+

lemma ascii_sign [simp]: "ascii (sign key e m uid)"
  by (simp add: sign_def)

lemma sign_nonempty [simp]: "sign key e m uid \<noteq> []"
proof -
  have "length (sign key e m uid) = 64" by (simp add: sign_def)
  then show ?thesis by auto
qed

lemma evidence_init_Inr:
  "evidence_init e = Inr e1 \<longleftrightarrow>
     py_strip (ev_summary e) \<noteq> [] \<and> py_strip (ev_source e) \<noteq> [] \<and>
     (ev_provenance e = None \<or> ev_provenance e = Some (kind_provenance (ev_kind e))) \<and>
     e1 = e\<lparr>ev_provenance := Some (kind_provenance (ev_kind e))\<rparr>"
  by (auto simp: evidence_init_def Let_def)

text \<open>What a constructed observation looks like.\<close>

definition stamped :: "evidence \<Rightarrow> string \<Rightarrow> string \<Rightarrow> evidence" where
  "stamped e uid sig =
     e\<lparr>ev_provenance := Some (kind_provenance (ev_kind e)),
       ev_metadata := dict_set ''server_observation_id'' (MText uid)
         (dict_set ''observation_signature'' (MText sig) (ev_metadata e)),
       ev_server := Some (uid, sig)\<rparr>"

lemma sign_stamped [simp]:
  "sign key (stamped e uid sig) (ev_metadata (stamped e uid sig)) uid' = sign key e (ev_metadata e) uid'"
  by (rule sign_cong) (auto simp: stamped_def signature_not_signed)

lemma server_observation_Inr:
  assumes "server_observation key e uid sig = Inr r"
  shows "uid \<noteq> [] \<and> r = stamped e uid (sign key e (ev_metadata e) uid) \<and>
    or_text sig (meta_or_empty (ev_metadata e) ''observation_signature'') = sign key e (ev_metadata e) uid"
proof -
  from assms obtain e1 where e1: "evidence_init e = Inr e1"
    by (auto simp: server_observation_def)
  then have e1_def: "e1 = e\<lparr>ev_provenance := Some (kind_provenance (ev_kind e))\<rparr>"
    by (simp add: evidence_init_Inr)
  have s: "sign key e1 m u = sign key e m u" for m u
    by (rule sign_cong) (simp_all add: e1_def)
  show ?thesis using assms e1 s unfolding server_observation_def
    by (auto simp: e1_def Let_def same_digest_def stamped_def split: if_splits)
qed

lemma trusted_stamped: "uid \<noteq> [] \<Longrightarrow> is_trusted_observation key (stamped e uid (sign key e (ev_metadata e) uid))"
proof -
  let ?s = "sign key e (ev_metadata e) uid"
  assume "uid \<noteq> []"
  moreover have "meta_or_empty (ev_metadata (stamped e uid ?s)) ''observation_signature'' = ?s"
    by (simp add: stamped_def meta_or_empty_def)
  moreover have "ev_server (stamped e uid ?s) = Some (uid, ?s)" by (simp add: stamped_def)
  ultimately show ?thesis by (simp add: is_trusted_observation_def)
qed

lemma constructed_is_trusted: "server_observation key e uid sig = Inr r \<Longrightarrow> is_trusted_observation key r"
  using server_observation_Inr [of key e uid sig r] trusted_stamped by blast

lemma server_observation_ok:
  assumes "evidence_init e = Inr e1" "uid \<noteq> []" "sig = sign key e (ev_metadata e) uid"
  shows "server_observation key e uid sig = Inr (stamped e uid sig)"
proof -
  from assms(1) have e1_def: "e1 = e\<lparr>ev_provenance := Some (kind_provenance (ev_kind e))\<rparr>"
    by (simp add: evidence_init_Inr)
  have s: "sign key e1 m u = sign key e m u" for m u
    by (rule sign_cong) (simp_all add: e1_def)
  from assms show ?thesis
    by (simp add: server_observation_def or_text_def s same_digest_def stamped_def Let_def)
      (simp add: e1_def)
qed

lemma meta_text_stamped:
  "k \<noteq> ''server_observation_id'' \<Longrightarrow> k \<noteq> ''observation_signature'' \<Longrightarrow>
   meta_text (stamped e uid sig) k = meta_text e k"
  by (simp add: stamped_def meta_text_def)

text \<open>The fields that the issuing call binds.\<close>

lemma issue_metadata_fields:
  fixes md ex tg fid fkey pj uid defines "m \<equiv> issue_metadata md ex tg fid fkey pj uid"
  shows "map_of m ''execution_id'' = Some (MText ex)" "map_of m ''observed_target'' = Some (MText tg)"
    "map_of m ''finding_id'' = Some (MText fid)" "map_of m ''finding_key'' = Some (MText fkey)"
    "map_of m ''project_id'' = Some (MText pj)" "map_of m ''server_observation_id'' = Some (MText uid)"
  by (simp_all add: m_def issue_metadata_def)

lemma issued_shape:
  assumes "issue_server_observation key e ex tg fid fkey pj uid obj = Inr r"
  shows "\<exists>s e'. uid \<noteq> [] \<and> r = stamped e' uid s \<and> s = sign key e' (ev_metadata e') uid \<and>
    ev_kind e' = ev_kind e \<and> ev_details e' = ev_details e \<and> ev_source e' = ev_source e \<and>
    ev_metadata e' = dict_set ''observation_signature'' (MText s) (issue_metadata (ev_metadata e) ex tg fid fkey pj uid) \<and>
    evidence_init e' = Inr (e'\<lparr>ev_provenance := Some (kind_provenance (ev_kind e'))\<rparr>) \<and> ev_server e' = None \<and> ev_provenance e' = None"
proof -
  let ?m = "issue_metadata (ev_metadata e) ex tg fid fkey pj uid"
  let ?s = "sign key e ?m uid"
  let ?e = "e\<lparr>ev_metadata := dict_set ''observation_signature'' (MText ?s) ?m,
                ev_provenance := None, ev_id := obj, ev_server := None\<rparr>"
  have o: "server_observation key ?e uid ?s = Inr r"
    using assms by (auto simp: issue_server_observation_def Let_def split: if_splits)
  have "sign key ?e (ev_metadata ?e) uid = ?s"
    by (rule sign_cong) (auto simp: signature_not_signed)
  moreover have "\<exists>e1. evidence_init ?e = Inr e1" using o by (auto simp: server_observation_def)
  ultimately show ?thesis
    using server_observation_Inr [OF o] by (intro exI [of _ ?s] exI [of _ ?e]) (auto simp: evidence_init_Inr)
qed


lemma untrusted_plain: "ev_server e = None \<Longrightarrow> \<not> is_trusted_observation key e"
  by (simp add: is_trusted_observation_def)

text \<open>
  A digest of a text that determines what is shown of a value: equal digests mean equal views, or
  a collision of the two texts. (The signature and the identity of a target are both of this form.)
\<close>

locale text_digest =
  fixes digest :: "string \<Rightarrow> string" and text_of :: "'a \<Rightarrow> string" and view :: "'a \<Rightarrow> 'v"
    and formed :: "'a \<Rightarrow> bool"
  assumes text_view: "formed a \<Longrightarrow> formed b \<Longrightarrow> text_of a = text_of b \<Longrightarrow> view a = view b"
begin

lemma equal_digests:
  assumes "formed a" "formed b" "digest (text_of a) = digest (text_of b)"
  shows "view a = view b \<or> collides digest (text_of a) (text_of b)"
  using assms text_view [of a b] by (auto simp: collides_def)

end

text \<open>What a signature covers.\<close>

definition signed_view :: "evidence \<Rightarrow> (string, string) dict" where
  "signed_view e =
     sign_body e (ev_metadata e) (case ev_server e of None \<Rightarrow> [] | Some (uid, s) \<Rightarrow> uid)"

definition signed_ascii :: "evidence \<Rightarrow> bool" where
  "signed_ascii e \<longleftrightarrow> list_all ascii (map snd (signed_view e))"

definition signed_text :: "evidence \<Rightarrow> string" where
  "signed_text e = json_object (signed_view e)"

lemma signed_view_keys: "map fst (signed_view e) =
    [''artifact'', ''details'', ''id'', ''kind'', ''source'', ''summary''] @ signed_meta"
  by (simp add: signed_view_def sign_body_def comp_def)

interpretation signing: text_digest "\<lambda>t. hexdigest (hmac_sha256 key t)" signed_text signed_view signed_ascii
  for key
proof unfold_locales
  fix a b assume "signed_ascii a" "signed_ascii b" "signed_text a = signed_text b"
  moreover have "distinct (map fst (signed_view a))"
    unfolding signed_view_keys by code_simp
  ultimately show "signed_view a = signed_view b"
    by (intro json_object_inj) (simp_all add: signed_view_keys signed_ascii_def signed_text_def)
qed

lemma trusted_signature:
  assumes "is_trusted_observation key e"
  shows "\<exists>uid. ev_server e = Some (uid, hexdigest (hmac_sha256 key (signed_text e)))"
  using assms
  by (auto simp: is_trusted_observation_def signed_text_def signed_view_def sign_def sign_text_def Let_def
      split: option.splits prod.splits if_splits)

section \<open>Properties\<close>

lemma issued_binding:
  assumes "issue_server_observation key e execution target finding fkey project uid obj = Inr r"
  shows "is_trusted_observation key r \<and> ev_kind r = ev_kind e \<and>
    meta_text r ''execution_id'' = execution \<and> meta_text r ''observed_target'' = target \<and>
    meta_text r ''finding_id'' = finding \<and> meta_text r ''finding_key'' = fkey \<and>
    meta_text r ''project_id'' = project"
proof -
  from issued_shape [OF assms] obtain s e' where s: "uid \<noteq> []" "r = stamped e' uid s"
    "s = sign key e' (ev_metadata e') uid" "ev_kind e' = ev_kind e"
    "ev_metadata e' = dict_set ''observation_signature'' (MText s)
       (issue_metadata (ev_metadata e) execution target finding fkey project uid)" by blast
  have "is_trusted_observation key r" unfolding s(2) s(3) by (rule trusted_stamped [OF s(1)])
  moreover have "ev_kind r = ev_kind e" by (simp add: s(2) stamped_def s(4))
  moreover have "map_of (ev_metadata r) k =
      map_of (issue_metadata (ev_metadata e) execution target finding fkey project uid) k"
    if "k \<noteq> ''observation_signature''" "k \<noteq> ''server_observation_id''" for k
    using that by (simp add: s(2) stamped_def s(5))
  ultimately show ?thesis by (simp add: meta_text_def issue_metadata_fields)
qed

text \<open>C33. An observation the server issues is trusted, and its binding (execution, target, finding and
  project) is the server's, whatever the metadata of the evidence said.\<close>

theorem issued_observations_bound:
  assumes "issue_server_observation key e execution target finding fkey project uid obj = Inr r"
  shows "is_trusted_observation key r \<and> ev_kind r = ev_kind e \<and>
    meta_text r ''execution_id'' = execution \<and> meta_text r ''observed_target'' = target \<and>
    meta_text r ''finding_id'' = finding \<and> meta_text r ''finding_key'' = fkey \<and>
    meta_text r ''project_id'' = project"
  by (rule issued_binding [OF assms])

lemma issue_succeeds:
  assumes "py_strip execution \<noteq> []" "py_strip target \<noteq> []" "py_strip finding \<noteq> []" "uid \<noteq> []"
    and "py_strip (ev_summary e) \<noteq> []" "py_strip (ev_source e) \<noteq> []"
  shows "\<exists>r. issue_server_observation key e execution target finding fkey project uid obj = Inr r"
proof -
  define m where "m = issue_metadata (ev_metadata e) execution target finding fkey project uid"
  define s where "s = sign key e m uid"
  define e' where "e' = e\<lparr>ev_metadata := dict_set ''observation_signature'' (MText s) m,
    ev_provenance := None, ev_id := obj, ev_server := None\<rparr>"
  have "evidence_init e' = Inr (e'\<lparr>ev_provenance := Some (kind_provenance (ev_kind e'))\<rparr>)"
    using assms by (simp add: evidence_init_Inr e'_def)
  moreover have "s = sign key e' (ev_metadata e') uid"
    unfolding s_def by (rule sign_cong) (auto simp: e'_def signature_not_signed)
  ultimately have "server_observation key e' uid s = Inr (stamped e' uid s)"
    by (rule server_observation_ok [OF _ assms(4)])
  then show ?thesis using assms
    by (simp add: issue_server_observation_def Let_def e'_def s_def m_def)
qed

definition sample_evidence :: evidence where
  "sample_evidence =
     \<lparr>ev_kind = K_HTTP_RESPONSE, ev_source = ''http'', ev_summary = ''reflected'', ev_details = ''body'',
      ev_artifact = None, ev_metadata = [(''url'', MText ''/x''), (''finding_id'', MText ''forged'')],
      ev_provenance = None, ev_collected_at = 0, ev_id = ''e1'', ev_server = None\<rparr>"

lemma sample_issued:
  "\<exists>r. issue_server_observation ''k'' sample_evidence ''ex'' ''target'' ''f1'' [] ''p'' ''u1'' ''o1'' = Inr r"
  by (rule issue_succeeds) code_simp+

theorem issued_observations_bound_witness:
  "\<exists>r. issue_server_observation ''k'' sample_evidence ''ex'' ''target'' ''f1'' [] ''p'' ''u1'' ''o1'' = Inr r \<and>
       is_trusted_observation ''k'' r \<and> meta_text r ''finding_id'' = ''f1''"
  using sample_issued issued_observations_bound by blast

text \<open>Storing an issued observation and restoring it gives the same trusted observation, under its
  new object identifier.\<close>

theorem observations_restore:
  assumes "issue_server_observation key e execution target finding fkey project uid obj = Inr r"
  shows "restore_server_observation key obj' (r\<lparr>ev_server := None\<rparr>) = Inr (r\<lparr>ev_id := obj'\<rparr>)"
proof -
  from issued_shape [OF assms] obtain s e' where s: "uid \<noteq> []" "r = stamped e' uid s"
    "s = sign key e' (ev_metadata e') uid" "ev_server e' = None" "ev_provenance e' = None"
    "evidence_init e' = Inr (e'\<lparr>ev_provenance := Some (kind_provenance (ev_kind e'))\<rparr>)" by blast
  define p where "p = r\<lparr>ev_provenance := None, ev_id := obj', ev_server := None\<rparr>"
  have sp: "s \<noteq> []" using s(3) by simp
  have uid: "meta_or_empty (ev_metadata r) ''server_observation_id'' = uid"
    and sg: "meta_or_empty (ev_metadata r) ''observation_signature'' = s"
    using s(1) sp by (simp_all add: s(2) stamped_def meta_or_empty_def)
  have "sign key p (ev_metadata p) uid = sign key r (ev_metadata r) uid"
    by (rule sign_cong) (simp_all add: p_def)
  also have "\<dots> = s" unfolding s(2) by (simp add: s(3) [symmetric])
  finally have sig: "s = sign key p (ev_metadata p) uid" by simp
  have "\<exists>e1. evidence_init p = Inr e1"
    using s(6) by (auto simp: evidence_init_Inr p_def s(2) stamped_def)
  then obtain e1 where "evidence_init p = Inr e1" by blast
  from server_observation_ok [OF this s(1) sig] have so: "server_observation key p uid s = Inr (stamped p uid s)" .
  have same: "stamped p uid s = r\<lparr>ev_id := obj'\<rparr>"
    by (simp add: p_def s(2) stamped_def dict_set_same)
  have "is_trusted_observation key (stamped p uid s)" using constructed_is_trusted [OF so] .
  then show ?thesis using uid sg s(1) sp so same
    by (simp add: restore_server_observation_def p_def)
qed

theorem observations_restore_witness:
  "\<exists>r. restore_server_observation ''k'' ''o2'' (r\<lparr>ev_server := None\<rparr>) = Inr (r\<lparr>ev_id := ''o2''\<rparr>) \<and>
       meta_or_empty (ev_metadata r) ''server_observation_id'' = ''u1''"
proof -
  obtain r where r: "issue_server_observation ''k'' sample_evidence ''ex'' ''target'' ''f1'' [] ''p'' ''u1'' ''o1'' = Inr r"
    using sample_issued by blast
  from issued_shape [OF r] have "meta_or_empty (ev_metadata r) ''server_observation_id'' = ''u1''"
    by (auto simp: stamped_def meta_or_empty_def)
  with observations_restore [OF r, of "''o2''"] show ?thesis by blast
qed

text \<open>Restoring never creates trust: what comes back is either a validly signed observation or a
  plain record, and a plain record is not trusted.\<close>

theorem restore_is_safe:
  assumes "restore_server_observation key obj e = Inr r" and "ev_server e = None"
  shows "is_trusted_observation key r \<or> (ev_server r = None \<and> \<not> is_trusted_observation key r)"
proof -
  have plain: "without_trust_markers key e = Inr r \<Longrightarrow> ev_server r = None"
    using assms(2) by (auto simp: without_trust_markers_def Let_def evidence_init_Inr)
  then have "is_trusted_observation key r \<or> ev_server r = None"
    using assms(1)
    by (auto simp: restore_server_observation_def Let_def split: if_splits sum.splits error.splits)
  then show ?thesis using untrusted_plain by blast
qed

theorem restore_is_safe_witness:
  "\<not> is_trusted_observation ''k'' (sample_evidence\<lparr>ev_provenance := Some P_HTTP_OBSERVATION,
      ev_metadata := [(''url'', MText ''/x''), (''finding_id'', MText ''forged'')]\<rparr>)"
proof -
  have "restore_server_observation ''k'' ''o'' sample_evidence = Inr (sample_evidence
      \<lparr>ev_provenance := Some P_HTTP_OBSERVATION,
       ev_metadata := [(''url'', MText ''/x''), (''finding_id'', MText ''forged'')]\<rparr>)"
    by code_simp
  moreover have "ev_server sample_evidence = None" by (simp add: sample_evidence_def)
  ultimately have "is_trusted_observation ''k'' (sample_evidence\<lparr>ev_provenance := Some P_HTTP_OBSERVATION,
      ev_metadata := [(''url'', MText ''/x''), (''finding_id'', MText ''forged'')]\<rparr>) \<or> ?thesis"
    using restore_is_safe by blast
  then show ?thesis by (simp add: is_trusted_observation_def sample_evidence_def)
qed

text \<open>A signature pins down what it signs: two trusted observations with the same signature agree
  on their kind, source, summary, details, artifact and every signed metadata field, unless HMAC-SHA256
  collides on the two signed texts. (The signed fields are ASCII text.)\<close>

theorem signature_determines_observation:
  assumes "is_trusted_observation key a" "is_trusted_observation key b"
    and "map_option snd (ev_server a) = map_option snd (ev_server b)"
    and "signed_ascii a" "signed_ascii b"
  shows "signed_view a = signed_view b \<or>
    collides (\<lambda>t. hexdigest (hmac_sha256 key t)) (signed_text a) (signed_text b)"
  using signing.equal_digests [of a b key] trusted_signature [of key a] trusted_signature [of key b] assms
  by auto

theorem signature_determines_observation_witness:
  "\<exists>a b. is_trusted_observation ''k'' a \<and> is_trusted_observation ''k'' b \<and> a \<noteq> b \<and>
     (signed_view a = signed_view b \<or>
      collides (\<lambda>t. hexdigest (hmac_sha256 ''k'' t)) (signed_text a) (signed_text b))"
proof -
  define a where "a = stamped sample_evidence ''u'' (sign ''k'' sample_evidence (ev_metadata sample_evidence) ''u'')"
  define b where "b = a\<lparr>ev_id := ''e2''\<rparr>"
  have ta: "is_trusted_observation ''k'' a" unfolding a_def by (rule trusted_stamped) simp
  have sb: "sign ''k'' b (ev_metadata b) u = sign ''k'' a (ev_metadata a) u" for u
    by (rule sign_cong) (simp_all add: b_def)
  then have tb: "is_trusted_observation ''k'' b"
    using ta by (auto simp: is_trusted_observation_def b_def Let_def split: option.splits if_splits)
  have "ev_id a \<noteq> ev_id b" by (simp add: a_def b_def stamped_def sample_evidence_def)
  then have ne: "a \<noteq> b" by auto
  have view: "signed_view a = sign_body sample_evidence (ev_metadata a) ''u''" "signed_view b = signed_view a"
    by (simp_all add: signed_view_def a_def b_def stamped_def sign_body_def)
  have "ev_metadata a = dict_set ''server_observation_id'' (MText ''u'')
      (dict_set ''observation_signature''
        (MText (sign ''k'' sample_evidence (ev_metadata sample_evidence) ''u'')) (ev_metadata sample_evidence))"
    by (simp add: a_def stamped_def)
  then have m: "map (\<lambda>k. canon (map_of (ev_metadata a) k)) signed_meta
      = map (\<lambda>k. canon (map_of (ev_metadata sample_evidence) k)) signed_meta"
    by (auto simp: signature_not_signed)
  have "list_all ascii (map (\<lambda>k. canon (map_of (ev_metadata sample_evidence) k)) signed_meta)"
    "ascii (evidence_kind_value (ev_kind sample_evidence))" "ascii (py_strip (ev_source sample_evidence))"
    "ascii (squash_ws (ev_summary sample_evidence))" "ascii ''u''"
    "ascii (slashes (case ev_artifact sample_evidence of None \<Rightarrow> [] | Some a \<Rightarrow> a))"
    by code_simp+
  then have "signed_ascii a" unfolding signed_ascii_def view sign_body_def
    by (simp add: m comp_def sha256_hex_def)
  then have "signed_ascii b" by (simp add: signed_ascii_def view)
  have "map_option snd (ev_server a) = map_option snd (ev_server b)" by (simp add: b_def)
  from signature_determines_observation [OF ta tb this \<open>signed_ascii a\<close> \<open>signed_ascii b\<close>] ta tb ne
  show ?thesis by blast
qed

end
