(* ===== verification/Findings.thy ===== *)
theory Findings
  imports Evidence
begin

text \<open>
  \<open>domain/findings.py\<close>, with the rules of \<open>domain/lifecycle_policy.py\<close> and the target identity of
  \<open>domain/target_identity.py\<close>: the states of a security finding and what it takes to move between
  them. A finding is immutable; every transition builds a new one, which its constructor checks.
\<close>

section \<open>Findings\<close>

datatype finding_status = POTENTIAL | CORROBORATED | REPRODUCED | VERIFIED | HUMAN_ACCEPTED | REJECTED

datatype review_state = UNREVIEWED | IN_REVIEW | ACCEPTED | DISMISSED

datatype evidence_tier =
    TIER_STATIC_INDICATOR | TIER_AI_HYPOTHESIS | TIER_CORROBORATED | TIER_REPRODUCED | TIER_VERIFIED

fun status_value :: "finding_status \<Rightarrow> string" where
  "status_value POTENTIAL = ''potential''"
| "status_value CORROBORATED = ''corroborated''"
| "status_value REPRODUCED = ''reproduced''"
| "status_value VERIFIED = ''verified''"
| "status_value HUMAN_ACCEPTED = ''human_accepted''"
| "status_value REJECTED = ''rejected''"

definition terminal_block :: "finding_status list" where "terminal_block = [REJECTED]"
definition verified_statuses :: "finding_status list" where
  "verified_statuses = [VERIFIED, HUMAN_ACCEPTED]"

record source_location =
  file_path :: string
  loc_line :: "int option"
  loc_end_line :: "int option"
  loc_column :: "int option"
  loc_function :: "string option"

record finding =
  title :: string
  status :: finding_status
  description :: string
  vulnerability_class :: "string option"
  f_target :: "string option"
  endpoint :: "string option"
  source_location :: "source_location option"
  hypothesis :: "string option"
  f_evidence :: evidence_bundle
  f_reproduction :: "string option"
  observed_behavior :: "string option"
  expected_behavior :: "string option"
  impact :: "string option"
  f_confidence :: string
  reproducibility :: "string option"
  f_tools :: "string list"
  ai_analysis :: "string option"
  human_review_state :: review_state
  evidence_tier :: evidence_tier
  rule_ids :: "string list"
  f_analyzer :: "string option"
  observation_refs :: "string list"
  finding_key :: string
  f_project_id :: string
  flow_summary :: string
  flow_source :: string
  flow_sink :: string
  field_path :: string
  files_crossed :: string
  analysis_incomplete :: string
  parser_completeness :: string
  evidence_summary :: string
  related_group :: string
  asset :: "string option"
  report_title :: "string option"
  report_description :: "string option"
  created_at :: instant
  f_id :: string

section \<open>The identity of a target\<close>

definition norm_text :: "string option \<Rightarrow> string" where
  "norm_text v = squash_ws (case v of None \<Rightarrow> [] | Some s \<Rightarrow> s)"

text \<open>\<open>_norm(meta.get(k))\<close>: a value that counts as false is empty.\<close>

definition norm_value :: "meta_value option \<Rightarrow> string" where
  "norm_value v = squash_ws (case v of None \<Rightarrow> [] | Some x \<Rightarrow> if meta_true x then meta_str x else [])"

text \<open>The loop over the static evidence: the first value that is not empty.\<close>

fun first_static :: "string \<Rightarrow> evidence list \<Rightarrow> string" where
  "first_static k [] = []"
| "first_static k (e # es) =
     (if ev_kind e \<noteq> K_STATIC_ANALYSIS then first_static k es
      else or_text (norm_value (map_of (ev_metadata e) k)) (first_static k es))"

definition location_path :: "finding \<Rightarrow> string" where
  "location_path f =
     (case source_location f of
        None \<Rightarrow> []
      | Some l \<Rightarrow> if file_path l = [] then []
                 else lstrip_by (\<lambda>c. c \<in> set ''./'') (slashes (file_path l)))"

definition identity_parts :: "finding \<Rightarrow> string option \<Rightarrow> string list" where
  "identity_parts f project =
     (let items = f_evidence f in
      [squash_ws (case project of Some p \<Rightarrow> p | None \<Rightarrow> f_project_id f), location_path f,
       norm_text (vulnerability_class f), squash_ws (flow_sink f), squash_ws (flow_source f),
       squash_ws (field_path f), first_static ''scope_id'' items, first_static ''argument_index'' items,
       first_static ''sink_occurrence'' items, first_static ''sink_id'' items,
       first_static ''call_identity'' items])"

definition semantic_target_identity :: "finding \<Rightarrow> string option \<Rightarrow> string" where
  "semantic_target_identity f project =
     take 32 (sha256_hex (json_dumps (JList (map JStr (identity_parts f project)))))"

section \<open>Lifecycle rules\<close>

definition independent_kinds :: "evidence_kind list" where
  "independent_kinds = [K_HTTP_RESPONSE, K_BROWSER, K_SCANNER, K_API_TEST, K_REPLAY, K_FUZZING, K_PROXY]"

definition corroborating_kinds :: "evidence_kind list" where
  "corroborating_kinds = [K_STATIC_ANALYSIS, K_SOURCE_CODE]"

definition research_kinds :: "evidence_kind list" where
  "research_kinds = independent_kinds @ [K_HTTP_REQUEST]"

definition failed_outcomes :: "string list" where
  "failed_outcomes = [''failed'', ''not_reproduced'', ''blocked'', ''inconclusive'', ''intermittent'',
     ''error'', ''no_evidence'', ''environment_error'', ''timeout'']"

definition positive_outcomes :: "string list" where
  "positive_outcomes = [''reproduced'', ''consistently_reproduced'', ''success'', ''exploited'']"

definition positive_reproduction :: "evidence \<Rightarrow> bool" where
  "positive_reproduction e =
     (if ev_kind e \<noteq> K_REPRODUCTION then False
      else if ev_provenance e \<noteq> Some P_REPRODUCTION then False
      else if evidence_contradicts e then False
      else let outcome = py_lower (meta_text e ''outcome'');
               reproduced = py_lower (meta_text e ''reproduced'')
           in if outcome \<in> set failed_outcomes \<or> reproduced \<in> set [''0'', ''false'', ''no''] then False
              else if outcome \<in> set positive_outcomes then True
              else reproduced \<in> set [''1'', ''true'', ''yes''] \<and> outcome \<in> set ([] # positive_outcomes))"

definition reproduction_for_target :: "evidence \<Rightarrow> string \<Rightarrow> bool" where
  "reproduction_for_target e target =
     (if target = [] \<or> \<not> positive_reproduction e then False
      else meta_text e ''observed_target'' = target)"

text \<open>What an observation must be bound to: target, finding, finding key and project.\<close>

record binding =
  b_target :: string
  b_finding :: string
  b_key :: string
  b_project :: string

definition bound_to_finding :: "evidence \<Rightarrow> binding \<Rightarrow> bool" where
  "bound_to_finding e b =
     (if b_target b = [] \<or> b_finding b = [] then False
      else if meta_text e ''observed_target'' \<noteq> b_target b then False
      else if meta_text e ''finding_id'' \<noteq> b_finding b then False
      else if meta_text e ''finding_key'' \<noteq> b_key b then False
      else meta_text e ''project_id'' = b_project b)"

definition independent_verification_items ::
    "string \<Rightarrow> evidence list \<Rightarrow> binding \<Rightarrow> evidence list" where
  "independent_verification_items key items b =
     (let reproductions = filter positive_reproduction items;
          ids = map observation_identity reproductions;
          executions = filter (\<lambda>x. x \<noteq> []) (map (\<lambda>e. meta_text e ''execution_id'') reproductions)
      in filter (\<lambda>e.
           if evidence_contradicts e \<or> \<not> is_trusted_observation key e then False
           else if ev_kind e \<notin> set independent_kinds then False
           else if \<not> bound_to_finding e b then False
           else if observation_identity e \<in> set ids then False
           else let x = meta_text e ''execution_id'' in
             if x \<noteq> [] \<and> x \<in> set executions then False else True) items)"

definition static_matches_target :: "evidence \<Rightarrow> string \<Rightarrow> bool" where
  "static_matches_target e target =
     (let bound = meta_text e ''observed_target'' in
      if bound = [] then True else target \<noteq> [] \<and> bound = target)"

text \<open>One pass over the items: the identities seen and whether research supports the target.\<close>

fun corroboration :: "string \<Rightarrow> binding \<Rightarrow> evidence list \<Rightarrow> string list set \<Rightarrow> bool \<Rightarrow> string list set \<times> bool" where
  "corroboration key b [] seen research = (seen, research)"
| "corroboration key b (e # es) seen research =
     (if ev_kind e = K_AI_ANALYSIS \<or> evidence_contradicts e then corroboration key b es seen research
      else if ev_kind e \<in> set corroborating_kinds then
        (if static_matches_target e (b_target b)
         then corroboration key b es (insert (observation_identity e) seen) research
         else corroboration key b es seen research)
      else if ev_kind e \<in> set research_kinds \<and> is_trusted_observation key e \<and> bound_to_finding e b
      then corroboration key b es seen True
      else corroboration key b es seen research)"

definition can_corroborate :: "string \<Rightarrow> evidence list \<Rightarrow> binding \<Rightarrow> bool" where
  "can_corroborate key items b =
     (case corroboration key b items {} False of (seen, research) \<Rightarrow> 2 \<le> card seen \<or> research)"

section \<open>Transitions\<close>

definition verification_binding :: "finding \<Rightarrow> binding" where
  "verification_binding f =
     \<lparr>b_target = semantic_target_identity f None, b_finding = f_id f, b_key = finding_key f,
      b_project = f_project_id f\<rparr>"

definition trusted_for :: "string \<Rightarrow> finding \<Rightarrow> evidence list" where
  "trusted_for key f = independent_verification_items key (f_evidence f) (verification_binding f)"

definition has_target_reproduction :: "finding \<Rightarrow> bool" where
  "has_target_reproduction f =
     (let target = semantic_target_identity f None in
      list_ex (\<lambda>e. reproduction_for_target e target) (f_evidence f))"

text \<open>\<open>SecurityFinding.__post_init__\<close>, which every construction and every \<open>replace\<close> runs.\<close>

definition finding_init :: "string \<Rightarrow> finding \<Rightarrow> finding result" where
  "finding_init key f =
     (if py_strip (title f) = [] then Inl (ValueError ''Finding title must be non-empty'')
      else if status f = REPRODUCED \<and> \<not> has_target_reproduction f then
        Inl (ValueError ''A reproduced finding requires a successful reproduction of this semantic target.'')
      else if status f = VERIFIED \<and> trusted_for key f = [] then
        Inl (ValueError (''Verification requires an independent observation. '' @
          ''The reproduction record alone cannot verify a finding.''))
      else if status f = HUMAN_ACCEPTED \<and> \<not> (has_target_reproduction f \<or> trusted_for key f \<noteq> []) then
        Inl (ValueError (''Human acceptance requires a successful reproduction '' @
          ''or an independent verification observation.''))
      else Inr f)"

definition is_verified :: "finding \<Rightarrow> bool" where
  "is_verified f \<longleftrightarrow> status f \<in> set verified_statuses"

definition merged_evidence :: "finding \<Rightarrow> evidence list option \<Rightarrow> evidence_bundle" where
  "merged_evidence f extra = (case extra of None \<Rightarrow> f_evidence f | Some es \<Rightarrow> bundle_extend (f_evidence f) es)"

definition verify :: "string \<Rightarrow> finding \<Rightarrow> evidence list option \<Rightarrow> finding result" where
  "verify key f extra =
     (if status f \<in> set terminal_block then Inl (ValueError ''Rejected findings cannot be verified'')
      else if status f = HUMAN_ACCEPTED then
        Inl (ValueError ''Human-accepted findings are already verified'')
      else let merged = merged_evidence f extra in
        if independent_verification_items key merged (verification_binding f) = [] then
          Inl (ValueError (''Verification requires an independent observation. '' @
            ''The reproduction record alone cannot verify a finding. '' @
            ''A duplicate of that record is the same observation.''))
        else finding_init key
          (f\<lparr>status := VERIFIED, f_evidence := merged, evidence_tier := TIER_VERIFIED\<rparr>))"

definition corroborate :: "string \<Rightarrow> finding \<Rightarrow> finding result" where
  "corroborate key f =
     (if status f \<in> set terminal_block then Inl (ValueError ''Rejected findings cannot be corroborated'')
      else if status f \<in> set verified_statuses \<or> status f = REPRODUCED then
        Inl (ValueError ''Finding is already beyond corroboration'')
      else if \<not> can_corroborate key (f_evidence f) (verification_binding f) then
        Inl (ValueError (''Corroboration requires two independent non-AI observations. '' @
          ''One static record, a duplicate of that record, or AI text is not enough.''))
      else finding_init key (f\<lparr>status := CORROBORATED, evidence_tier := TIER_CORROBORATED\<rparr>))"

text \<open>
  Stamping a reproduction builds a new record of the same class. The identifiers that \<open>replace\<close> keeps
  are the record's own.
\<close>

definition stamp_one :: "string \<Rightarrow> string \<Rightarrow> evidence \<Rightarrow> evidence result" where
  "stamp_one key target e =
     (if positive_reproduction e \<and> target \<noteq> []
         \<and> meta_or_empty (ev_metadata e) ''observed_target'' = []
      then let e1 = e\<lparr>ev_metadata := dict_set ''observed_target'' (MText target) (ev_metadata e)\<rparr> in
        (case ev_server e of None \<Rightarrow> evidence_init e1
         | Some (uid, sig) \<Rightarrow> server_observation key (e1\<lparr>ev_server := None\<rparr>) uid sig)
      else Inr e)"

fun stamp_reproductions :: "string \<Rightarrow> string \<Rightarrow> evidence list \<Rightarrow> evidence list result" where
  "stamp_reproductions key target [] = Inr []"
| "stamp_reproductions key target (e # es) =
     then_do (stamp_one key target e) (\<lambda>e1.
       then_do (stamp_reproductions key target es) (\<lambda>es1. Inr (e1 # es1)))"

definition reproduce :: "string \<Rightarrow> finding \<Rightarrow> evidence list option \<Rightarrow> finding result" where
  "reproduce key f extra =
     (if status f \<in> set terminal_block then Inl (ValueError ''Rejected findings cannot be reproduced'')
      else if status f \<in> set verified_statuses then
        Inl (ValueError ''Verified findings are already beyond reproduction'')
      else let target = semantic_target_identity f None in
        then_do (stamp_reproductions key target (merged_evidence f extra)) (\<lambda>merged.
          if \<not> list_ex (\<lambda>e. reproduction_for_target e target) merged then
            Inl (ValueError (''Reproduction requires a successful reproduction of this semantic target. '' @
              ''A historical reproduction, a failed attempt, or an unknown outcome is not enough.''))
          else finding_init key
            (f\<lparr>status := REPRODUCED, f_evidence := merged, evidence_tier := TIER_REPRODUCED\<rparr>)))"

definition human_accept :: "string \<Rightarrow> finding \<Rightarrow> finding result" where
  "human_accept key f =
     (if status f \<in> set terminal_block then Inl (ValueError ''Rejected findings cannot be accepted'')
      else if status f \<notin> {REPRODUCED, VERIFIED, HUMAN_ACCEPTED} then
        Inl (ValueError (''Human acceptance requires a reproduced or independently verified finding. '' @
          ''AI hypotheses and static corroboration are not sufficient.''))
      else if \<not> (has_target_reproduction f \<or> trusted_for key f \<noteq> []) then
        Inl (ValueError (''Human acceptance requires a successful reproduction '' @
          ''or an independent verification observation.''))
      else finding_init key (f\<lparr>status := HUMAN_ACCEPTED, human_review_state := ACCEPTED,
                               evidence_tier := TIER_VERIFIED\<rparr>))"

definition reject :: "string \<Rightarrow> finding \<Rightarrow> evidence list option \<Rightarrow> finding result" where
  "reject key f extra =
     (let more = (case extra of None \<Rightarrow> [] | Some es \<Rightarrow> es);
          merged = (if more \<noteq> [] then bundle_extend (f_evidence f) more else f_evidence f)
      in finding_init key (f\<lparr>status := REJECTED, f_evidence := merged\<rparr>))"

definition with_review :: "string \<Rightarrow> finding \<Rightarrow> review_state \<Rightarrow> finding result" where
  "with_review key f st = finding_init key (f\<lparr>human_review_state := st\<rparr>)"

section \<open>Constructors\<close>

text \<open>
  The keyword arguments of a constructor are a finding of which the constructor sets the title, the
  status and the evidence.
\<close>

definition as_bundle :: "evidence list option \<Rightarrow> evidence_bundle" where
  "as_bundle es = (case es of None \<Rightarrow> [] | Some xs \<Rightarrow> xs)"

definition potential ::
    "string \<Rightarrow> string \<Rightarrow> string option \<Rightarrow> evidence list option \<Rightarrow> finding \<Rightarrow> finding result" where
  "potential key name hyp es kwargs =
     finding_init key (kwargs\<lparr>title := name, status := POTENTIAL, hypothesis := hyp,
                              f_evidence := as_bundle es\<rparr>)"

text \<open>A tier among the keyword arguments is \<open>Some\<close>; without one a hypothesis has the AI's.\<close>

definition from_hypothesis ::
    "string \<Rightarrow> string \<Rightarrow> string \<Rightarrow> evidence list option \<Rightarrow> string option \<Rightarrow> evidence_tier option
     \<Rightarrow> finding \<Rightarrow> finding result" where
  "from_hypothesis key name hyp es analysis tier kwargs =
     potential key name (Some hyp) es
       (kwargs\<lparr>evidence_tier := (case tier of None \<Rightarrow> TIER_AI_HYPOTHESIS | Some t \<Rightarrow> t),
               ai_analysis := Some (case analysis of None \<Rightarrow> hyp | Some a \<Rightarrow> or_text a hyp)\<rparr>)"

text \<open>\<open>s.replace(w, "")\<close>, and \<open>UUID(text)\<close>: 32 hexadecimal digits, written canonically.\<close>

function drop_text :: "string \<Rightarrow> string \<Rightarrow> string" where
  "drop_text w [] = []"
| "drop_text w (c # s) =
     (if w \<noteq> [] \<and> prefix w (c # s) then drop_text w (drop (length w) (c # s)) else c # drop_text w s)"
  by pat_completeness auto
termination
  by (relation "measure (\<lambda>(w, s). length s)") auto

definition parse_uuid :: "string \<Rightarrow> string option" where
  "parse_uuid s =
     (let s1 = drop_text ''uuid:'' (drop_text ''urn:'' s);
          s2 = rstrip_by (\<lambda>c. c \<in> set ''{}'') (lstrip_by (\<lambda>c. c \<in> set ''{}'') s1);
          h = py_lower (filter (\<lambda>c. c \<noteq> CHR ''-'') s2)
      in if length h = 32 \<and> list_all is_hex h then
           Some (take 8 h @ ''-'' @ take 4 (drop 8 h) @ ''-'' @ take 4 (drop 12 h) @ ''-'' @
                 take 4 (drop 16 h) @ ''-'' @ drop 20 h)
         else None)"

definition adopted_finding_id :: "string \<Rightarrow> evidence_bundle \<Rightarrow> string option" where
  "adopted_finding_id key items =
     (case first_occurrences (filter (\<lambda>v. v \<noteq> [])
             (map (\<lambda>e. meta_or_empty (ev_metadata e) ''finding_id'')
               (filter (is_trusted_observation key) items))) of
        [v] \<Rightarrow> parse_uuid v
      | _ \<Rightarrow> None)"

text \<open>
  \<open>verified\<close>: an identifier and a tier among the keyword arguments are \<open>Some\<close>; a new identifier is
  the argument \<open>uid\<close> for the probe and \<open>uid2\<close> for the finding itself.
\<close>

definition verified ::
    "string \<Rightarrow> string \<Rightarrow> evidence_bundle \<Rightarrow> string option \<Rightarrow> evidence_tier option \<Rightarrow> finding
     \<Rightarrow> string \<Rightarrow> string \<Rightarrow> finding result" where
  "verified key name items fid tier kwargs uid uid2 =
     (let fid1 = (case fid of Some i \<Rightarrow> Some i | None \<Rightarrow> adopted_finding_id key items);
          mk = (\<lambda>fresh. kwargs\<lparr>f_id := (case fid1 of Some i \<Rightarrow> i | None \<Rightarrow> fresh)\<rparr>)
      in then_do (potential key name (hypothesis kwargs) (Some items)
                    ((mk uid)\<lparr>evidence_tier := (case tier of None \<Rightarrow> TIER_STATIC_INDICATOR | Some t \<Rightarrow> t)\<rparr>))
           (\<lambda>probe.
             if independent_verification_items key items (verification_binding probe) = [] then
               Inl (ValueError (''Verification requires a server-issued independent observation '' @
                 ''for this semantic target.''))
             else finding_init key
               ((mk uid2)\<lparr>title := name, status := VERIFIED, f_evidence := items,
                         evidence_tier := (case tier of None \<Rightarrow> TIER_VERIFIED | Some t \<Rightarrow> t)\<rparr>)))"

definition rejected :: "string \<Rightarrow> string \<Rightarrow> evidence list option \<Rightarrow> finding \<Rightarrow> finding result" where
  "rejected key name es kwargs =
     finding_init key (kwargs\<lparr>title := name, status := REJECTED, f_evidence := as_bundle es\<rparr>)"

definition has_positive_reproduction :: "evidence_bundle \<Rightarrow> bool" where
  "has_positive_reproduction items = list_ex positive_reproduction items"

definition require_verifying_evidence :: "evidence_bundle \<Rightarrow> unit result" where
  "require_verifying_evidence items =
     (if items = [] then
        Inl (ValueError (''A verified finding requires evidence. '' @
          ''AI hypotheses must remain potential until independently confirmed.''))
      else if verifying_items items = [] then
        Inl (ValueError (''Verification requires independent observational or executable evidence '' @
          ''(provenance: api_test, browser_observation, execution, fuzzing_result, http_observation, '' @
          ''log, reproduction, scanner_observation, scanner_result, screenshot). '' @
          ''AI-generated hypotheses, static hints, and source excerpts cannot verify a finding.''))
      else Inr ())"

section \<open>The lifecycle as a machine\<close>

text \<open>A transition that raises leaves the finding as it is.\<close>

datatype finding_op =
    Verify "evidence list option"
  | Corroborate
  | Reproduce "evidence list option"
  | Accept
  | Reject "evidence list option"
  | Review review_state

fun attempt :: "string \<Rightarrow> finding \<Rightarrow> finding_op \<Rightarrow> finding result" where
  "attempt key f (Verify es) = verify key f es"
| "attempt key f Corroborate = corroborate key f"
| "attempt key f (Reproduce es) = reproduce key f es"
| "attempt key f Accept = human_accept key f"
| "attempt key f (Reject es) = reject key f es"
| "attempt key f (Review st) = with_review key f st"

definition finding_step :: "string \<Rightarrow> finding \<Rightarrow> finding_op \<Rightarrow> finding" where
  "finding_step key f x = (case attempt key f x of Inl _ \<Rightarrow> f | Inr g \<Rightarrow> g)"

definition finding_ok :: "string \<Rightarrow> finding \<Rightarrow> bool" where
  "finding_ok key f \<longleftrightarrow> finding_init key f = Inr f"

lemma finding_init_Inr: "finding_init key f = Inr g \<Longrightarrow> g = f \<and> finding_ok key f"
  by (auto simp: finding_init_def finding_ok_def split: if_splits)

lemma finding_ok_iff:
  "finding_ok key f \<longleftrightarrow>
     py_strip (title f) \<noteq> [] \<and> (status f = REPRODUCED \<longrightarrow> has_target_reproduction f) \<and>
     (status f = VERIFIED \<longrightarrow> trusted_for key f \<noteq> []) \<and>
     (status f = HUMAN_ACCEPTED \<longrightarrow> has_target_reproduction f \<or> trusted_for key f \<noteq> [])"
  by (auto simp: finding_ok_def finding_init_def)

text \<open>Every transition that succeeds ends in the constructor's check.\<close>

lemma attempt_init:
  assumes "attempt key f x = Inr g"
  shows "finding_init key g = Inr g"
  using assms
  by (cases x)
    (auto simp: verify_def corroborate_def reproduce_def human_accept_def reject_def with_review_def Let_def
      finding_ok_def dest!: finding_init_Inr split: if_splits)

lemma finding_step_ok: "finding_ok key f \<Longrightarrow> finding_ok key (finding_step key f x)"
  using attempt_init [of key f x] by (auto simp: finding_step_def finding_ok_def split: sum.splits)

interpretation lifecycle: machine "finding_ok key" "finding_step key" "finding_ok key" for key
  by unfold_locales (auto simp: finding_step_ok)

text \<open>A rejected finding stays rejected.\<close>

lemma rejected_stays: "status f = REJECTED \<Longrightarrow> status (finding_step key f x) = REJECTED"
  by (cases x)
    (auto simp: finding_step_def verify_def corroborate_def reproduce_def human_accept_def reject_def
      with_review_def terminal_block_def Let_def split: sum.splits dest!: finding_init_Inr)

interpretation rejection: machine "\<lambda>f. status f = REJECTED" "finding_step key" "\<lambda>f. status f = REJECTED"
  for key by unfold_locales (auto simp: rejected_stays)

section \<open>What supports a finding\<close>

text \<open>A signed observation of an observational kind that is bound to the finding.\<close>

definition supports :: "string \<Rightarrow> finding \<Rightarrow> evidence \<Rightarrow> bool" where
  "supports key f e \<longleftrightarrow>
     e \<in> set (f_evidence f) \<and> is_trusted_observation key e \<and> ev_kind e \<in> set independent_kinds \<and>
     \<not> evidence_contradicts e \<and> bound_to_finding e (verification_binding f)"

definition reproduces :: "finding \<Rightarrow> evidence \<Rightarrow> bool" where
  "reproduces f e \<longleftrightarrow>
     e \<in> set (f_evidence f) \<and> reproduction_for_target e (semantic_target_identity f None)"

lemma trusted_for_supports: "trusted_for key f \<noteq> [] \<Longrightarrow> \<exists>e. supports key f e"
  by (auto simp: trusted_for_def independent_verification_items_def supports_def Let_def
      filter_empty_conv split: if_splits)

lemma reproduction_supports: "has_target_reproduction f \<Longrightarrow> \<exists>e. reproduces f e"
  by (auto simp: has_target_reproduction_def reproduces_def Let_def list_ex_iff)

text \<open>Evidence that proves nothing: not signed by the server and not a successful reproduction.\<close>

definition unproven :: "string \<Rightarrow> evidence \<Rightarrow> bool" where
  "unproven key e \<longleftrightarrow> \<not> is_trusted_observation key e \<and> \<not> positive_reproduction e"

fun brings :: "finding_op \<Rightarrow> evidence list" where
  "brings (Verify es) = as_bundle es"
| "brings (Reproduce es) = as_bundle es"
| "brings (Reject es) = as_bundle es"
| "brings Corroborate = []"
| "brings Accept = []"
| "brings (Review st) = []"

definition unproven_finding :: "string \<Rightarrow> finding \<Rightarrow> bool" where
  "unproven_finding key f \<longleftrightarrow>
     list_all (unproven key) (f_evidence f) \<and> status f \<in> {POTENTIAL, CORROBORATED, REJECTED}"

lemma unproven_nothing:
  "list_all (unproven key) es \<Longrightarrow> independent_verification_items key es b = []"
  "list_all (unproven key) es \<Longrightarrow> \<not> list_ex (\<lambda>e. reproduction_for_target e t) es"
  by (auto simp: independent_verification_items_def unproven_def reproduction_for_target_def Let_def
      filter_empty_conv list_all_iff list_ex_iff)

lemma stamp_unproven: "list_all (unproven key) es \<Longrightarrow> stamp_reproductions key' t es = Inr es"
  by (induction es) (auto simp: stamp_one_def unproven_def)

lemma unproven_step:
  assumes "unproven_finding key f" "list_all (unproven key) (brings x)"
  shows "unproven_finding key (finding_step key f x)"
proof -
  have m: "list_all (unproven key) (merged_evidence f es)" if "list_all (unproven key) (as_bundle es)" for es
    using assms(1) that by (cases es) (auto simp: merged_evidence_def bundle_extend_def as_bundle_def unproven_finding_def)
  show ?thesis
  proof (cases x)
    case (Verify es)
    then show ?thesis using assms m [of es]
      by (auto simp: finding_step_def verify_def unproven_nothing Let_def unproven_finding_def)
  next
    case (Reproduce es)
    then show ?thesis using assms m [of es]
      by (auto simp: finding_step_def reproduce_def unproven_nothing Let_def stamp_unproven unproven_finding_def)
  next
    case (Reject es)
    then show ?thesis using assms
      by (cases es) (auto simp: finding_step_def reject_def unproven_finding_def Let_def as_bundle_def bundle_extend_def
          split: sum.splits dest!: finding_init_Inr)
  qed (use assms in \<open>auto simp: finding_step_def corroborate_def human_accept_def with_review_def
        unproven_finding_def split: sum.splits dest!: finding_init_Inr\<close>)
qed

interpretation speculation: guarded_machine "unproven_finding key" "finding_step key"
  "\<lambda>f x. list_all (unproven key) (brings x)" "unproven_finding key" for key
  by unfold_locales (auto simp: unproven_step)

lemma unproven_run: "\<forall>x\<in>set xs. list_all (unproven key) (brings x) \<Longrightarrow> speculation.guarded_run key f xs"
  by (induction xs arbitrary: f) auto


section \<open>Properties\<close>

definition sample_finding :: finding where
  "sample_finding =
     \<lparr>title = ''SQL injection'', status = POTENTIAL, description = [], vulnerability_class = None,
      f_target = None, endpoint = None, source_location = None, hypothesis = None, f_evidence = [],
      f_reproduction = None, observed_behavior = None, expected_behavior = None, impact = None,
      f_confidence = ''low'', reproducibility = None, f_tools = [], ai_analysis = None,
      human_review_state = UNREVIEWED, evidence_tier = TIER_STATIC_INDICATOR, rule_ids = [],
      f_analyzer = None, observation_refs = [], finding_key = [], f_project_id = [], flow_summary = [],
      flow_source = [], flow_sink = [], field_path = [], files_crossed = [], analysis_incomplete = [],
      parser_completeness = [], evidence_summary = [], related_group = [], asset = None,
      report_title = None, report_description = None, created_at = 0, f_id = ''f1''\<rparr>"

definition sample_reproduction :: evidence where
  "sample_reproduction = sample_evidence
     \<lparr>ev_kind := K_REPRODUCTION, ev_metadata := [(''reproduced'', MBool True)],
      ev_provenance := Some P_REPRODUCTION\<rparr>"

lemma identity_nonempty [simp]: "semantic_target_identity f p \<noteq> []"
proof -
  have "length (semantic_target_identity f p) = 32"
    by (simp add: semantic_target_identity_def sha256_hex_def)
  then show ?thesis by auto
qed

lemma sample_reproduced:
  "status (finding_step ''k'' sample_finding (Reproduce (Some [sample_reproduction]))) = REPRODUCED"
proof -
  let ?t = "semantic_target_identity sample_finding None"
  have title: "py_strip (title sample_finding) \<noteq> []" by code_simp
  have pos: "positive_reproduction sample_reproduction" by code_simp
  have bare: "meta_or_empty (ev_metadata sample_reproduction) ''observed_target'' = []" by code_simp
  let ?e = "sample_reproduction\<lparr>ev_metadata := dict_set ''observed_target'' (MText ?t) (ev_metadata sample_reproduction)\<rparr>"
  have fields: "ev_kind sample_reproduction = K_REPRODUCTION" "ev_server sample_reproduction = None"
    "ev_provenance sample_reproduction = Some P_REPRODUCTION"
    "py_strip (ev_summary sample_reproduction) \<noteq> []" "py_strip (ev_source sample_reproduction) \<noteq> []"
    by code_simp+
  have stamped: "stamp_reproductions ''k'' ?t [sample_reproduction] = Inr [?e]"
    using pos bare fields by (simp add: stamp_one_def evidence_init_Inr)
  have meta: "k \<noteq> ''observed_target'' \<Longrightarrow> meta_text ?e k = meta_text sample_reproduction k" for k
    by (simp add: meta_text_def)
  have "positive_reproduction ?e = positive_reproduction sample_reproduction"
    by (simp add: positive_reproduction_def evidence_contradicts_def meta cong: if_cong)
  with pos have "positive_reproduction ?e" by simp
  then have r: "reproduction_for_target ?e ?t"
    by (simp add: reproduction_for_target_def meta_text_def)
  let ?g = "sample_finding\<lparr>status := REPRODUCED, f_evidence := [?e], evidence_tier := TIER_REPRODUCED\<rparr>"
  have "identity_parts ?g None = identity_parts sample_finding None"
    using fields by (simp add: identity_parts_def location_path_def sample_finding_def)
  then have "semantic_target_identity ?g None = ?t" by (simp add: semantic_target_identity_def)
  then have "has_target_reproduction ?g" using r by (simp add: has_target_reproduction_def Let_def)
  then have "finding_init ''k'' ?g = Inr ?g" using title by (simp add: finding_init_def)
  moreover have "status sample_finding = POTENTIAL" "f_evidence sample_finding = []"
    by (simp_all add: sample_finding_def)
  ultimately have "reproduce ''k'' sample_finding (Some [sample_reproduction]) = Inr ?g"
    using stamped r by (simp add: reproduce_def terminal_block_def verified_statuses_def Let_def
        merged_evidence_def bundle_extend_def)
  then show ?thesis by (simp add: finding_step_def)
qed

text \<open>C31. Whatever is attempted on a well-formed finding, in any order: when it ends verified, it holds
  an independent observation with a valid server signature that is bound to this very finding; when
  reproduced, a successful reproduction of its target; when accepted by a human, one of the two.\<close>

theorem findings_are_supported:
  assumes "finding_ok key f" and "g = run_ops (finding_step key) f ops"
  shows "(status g = VERIFIED \<longrightarrow> (\<exists>e. supports key g e)) \<and>
         (status g = REPRODUCED \<longrightarrow> (\<exists>e. reproduces g e)) \<and>
         (status g = HUMAN_ACCEPTED \<longrightarrow> (\<exists>e. supports key g e \<or> reproduces g e))"
  using lifecycle.run_always [OF assms(1), of ops] trusted_for_supports [of key g] reproduction_supports [of g]
  unfolding assms(2) [symmetric] finding_ok_iff by blast

theorem findings_are_supported_witness:
  "\<exists>e. reproduces (run_ops (finding_step ''k'') sample_finding [Reproduce (Some [sample_reproduction])]) e"
proof -
  have "finding_ok ''k'' sample_finding"
    unfolding finding_ok_iff by (simp add: sample_finding_def) code_simp
  from findings_are_supported [OF this refl, of "[Reproduce (Some [sample_reproduction])]"]
  show ?thesis using sample_reproduced by simp
qed

text \<open>Rejection is final: no sequence of transitions leads out of it.\<close>

theorem rejection_is_final:
  "status f = REJECTED \<Longrightarrow> status (run_ops (finding_step key) f ops) = REJECTED"
  by (rule rejection.run_always)

theorem rejection_is_final_witness:
  "status (run_ops (finding_step ''k'') (sample_finding\<lparr>status := REJECTED\<rparr>) [Corroborate, Accept]) = REJECTED"
  by (rule rejection_is_final) simp

text \<open>An AI hypothesis never verifies itself: as long as no transition brings a signed observation
  or a successful reproduction, the finding is never reproduced, verified or accepted.\<close>

theorem speculation_never_verifies:
  assumes "unproven_finding key f" and "\<forall>x\<in>set ops. list_all (unproven key) (brings x)"
  shows "status (run_ops (finding_step key) f ops) \<in> {POTENTIAL, CORROBORATED, REJECTED}"
  using speculation.run_keeps [OF assms(1) unproven_run [OF assms(2)]]
  by (simp add: unproven_finding_def)

theorem speculation_never_verifies_witness:
  "status (run_ops (finding_step ''k'') sample_finding
     [Verify (Some [sample_evidence]), Reproduce (Some [sample_evidence]), Accept])
     \<in> {POTENTIAL, CORROBORATED, REJECTED}"
proof (rule speculation_never_verifies)
  have "unproven ''k'' sample_evidence"
    by (simp add: unproven_def positive_reproduction_def is_trusted_observation_def sample_evidence_def)
  then show "\<forall>x\<in>set [Verify (Some [sample_evidence]), Reproduce (Some [sample_evidence]), Accept].
      list_all (unproven ''k'') (brings x)"
    by (simp add: as_bundle_def)
qed (simp add: unproven_finding_def sample_finding_def)

end
