(* ===== verification/Tools.thy ===== *)
theory Tools
  imports Safety
begin

text \<open>
  \<open>security_testing/failures.py\<close>, the states a tool's execution can end in, and
  \<open>security_testing/scanner_policy.py\<close>, the envelope handed to an external scanner.
\<close>

section \<open>Execution states\<close>

datatype tool_state =
    NOT_REQUESTED | AUTHORIZED | PLANNED | WAITING_FOR_APPROVAL | RUNNING | COMPLETED
  | RESULTS_AVAILABLE | RESULTS_INGESTED | TOOL_UNAVAILABLE | TIMEOUT | NETWORK_FAILURE
  | INVALID_SCOPE | SAFETY_BLOCKED | EXECUTION_ERROR | FAILED | AUTHENTICATION_FAILURE
  | TS_RATE_LIMITED | MALFORMED_INPUT | TS_DENIED | DRY_RUN | APPROVAL_REQUIRED | TS_OK

definition execution_success_states :: "tool_state list" where
  "execution_success_states = [TS_OK, COMPLETED, RESULTS_AVAILABLE, RESULTS_INGESTED]"

definition result_available_states :: "tool_state list" where
  "result_available_states = [RESULTS_AVAILABLE, RESULTS_INGESTED, COMPLETED, TS_OK]"

definition planning_states :: "tool_state list" where
  "planning_states = [NOT_REQUESTED, PLANNED, DRY_RUN, WAITING_FOR_APPROVAL]"

definition authorization_states :: "tool_state list" where
  "authorization_states =
     [AUTHORIZED, TS_DENIED, INVALID_SCOPE, SAFETY_BLOCKED, APPROVAL_REQUIRED, WAITING_FOR_APPROVAL]"

definition terminal_failure_states :: "tool_state list" where
  "terminal_failure_states =
     [TOOL_UNAVAILABLE, TIMEOUT, NETWORK_FAILURE, EXECUTION_ERROR, FAILED, AUTHENTICATION_FAILURE,
      TS_RATE_LIMITED, MALFORMED_INPUT, TS_DENIED, INVALID_SCOPE, SAFETY_BLOCKED]"

record tool_result =
  tr_tool :: string
  tr_state :: tool_state
  tr_detail :: string
  tr_evidence_ids :: "string list"
  tr_metadata :: "(string, string) dict"

definition make_result :: "string \<Rightarrow> tool_state \<Rightarrow> string \<Rightarrow> tool_result" where
  "make_result tool st detail =
     \<lparr>tr_tool = tool, tr_state = st, tr_detail = detail, tr_evidence_ids = [], tr_metadata = []\<rparr>"

definition is_finding :: "tool_result \<Rightarrow> bool" where "is_finding r = False"

definition execution_success :: "tool_result \<Rightarrow> bool" where
  "execution_success r \<longleftrightarrow> tr_state r \<in> set execution_success_states"

definition result_available :: "tool_result \<Rightarrow> bool" where
  "result_available r \<longleftrightarrow> tr_state r \<in> set result_available_states"

definition planning_state :: "tool_result \<Rightarrow> bool" where
  "planning_state r \<longleftrightarrow> tr_state r \<in> set planning_states"

definition authorization_state :: "tool_result \<Rightarrow> bool" where
  "authorization_state r \<longleftrightarrow> tr_state r \<in> set authorization_states"

definition terminal_failure :: "tool_result \<Rightarrow> bool" where
  "terminal_failure r \<longleftrightarrow> tr_state r \<in> set terminal_failure_states"

definition result_ok :: "tool_result \<Rightarrow> bool" where "result_ok r = execution_success r"

section \<open>The scanner's envelope\<close>

record scanner_policy =
  sp_max_targets :: int
  sp_max_runtime :: rat
  sp_requests_per_second :: rat
  sp_concurrency :: int
  sp_allowed_templates :: "string list"
  sp_denied_templates :: "string list"
  sp_allowed_tags :: "string list"
  sp_denied_tags :: "string list"
  sp_allowed_methods :: "string list"
  sp_allow_destructive :: bool

definition default_scanner_policy :: scanner_policy where
  "default_scanner_policy =
     \<lparr>sp_max_targets = 5, sp_max_runtime = 300, sp_requests_per_second = 1, sp_concurrency = 1,
      sp_allowed_templates = [], sp_denied_templates = [], sp_allowed_tags = [],
      sp_denied_tags = [''dos'', ''intrusive'', ''takeover''],
      sp_allowed_methods = [''GET'', ''HEAD'', ''OPTIONS''], sp_allow_destructive = False\<rparr>"

definition scanner_tighten :: "safety_limits \<Rightarrow> scanner_policy \<Rightarrow> scanner_policy" where
  "scanner_tighten l p =
     (let kept = filter (\<lambda>m. py_upper m \<in> set (map py_upper (allowed_http_methods l)))
                   (sp_allowed_methods p);
          methods = (if kept = [] then allowed_http_methods l else kept)
      in p\<lparr>sp_max_targets := min (sp_max_targets p) (max_targets l),
           sp_max_runtime := min (sp_max_runtime p) (max_scan_duration_seconds l),
           sp_requests_per_second := min (sp_requests_per_second p) (requests_per_second l),
           sp_concurrency := min (sp_concurrency p) (max_concurrent l),
           sp_allowed_methods := methods,
           sp_allow_destructive := sp_allow_destructive p \<and> allow_destructive l\<rparr>)"

text \<open>The states of a successful execution are apart from those of planning, of authorization and
  of failure.\<close>

lemma success_is_not_failure:
  "execution_success r \<Longrightarrow>
   result_available r \<and> \<not> planning_state r \<and> \<not> authorization_state r \<and> \<not> terminal_failure r"
  by (auto simp: execution_success_def result_available_def planning_state_def
      authorization_state_def terminal_failure_def execution_success_states_def
      result_available_states_def planning_states_def authorization_states_def
      terminal_failure_states_def)

text \<open>What an envelope lets a scanner do, within the limits of the controller.\<close>

definition within_limits :: "safety_limits \<Rightarrow> scanner_policy \<Rightarrow> bool" where
  "within_limits l p \<longleftrightarrow>
     sp_max_targets p \<le> max_targets l \<and> sp_max_runtime p \<le> max_scan_duration_seconds l \<and>
     sp_requests_per_second p \<le> requests_per_second l \<and> sp_concurrency p \<le> max_concurrent l \<and>
     py_upper ` set (sp_allowed_methods p) \<subseteq> py_upper ` set (allowed_http_methods l) \<and>
     (sp_allow_destructive p \<longrightarrow> allow_destructive l)"

lemma tighten_within: "within_limits l (scanner_tighten l p)"
  by (auto simp: within_limits_def scanner_tighten_def Let_def)

text \<open>Tightening again changes nothing, and an envelope within the limits stays as it is.\<close>

lemma tighten_fixed:
  assumes "within_limits l p" "sp_allowed_methods p \<noteq> []"
  shows "scanner_tighten l p = p"
proof -
  have "filter (\<lambda>m. py_upper m \<in> set (map py_upper (allowed_http_methods l))) (sp_allowed_methods p)
      = sp_allowed_methods p"
    using assms(1) by (intro filter_True) (auto simp: within_limits_def)
  then show ?thesis using assms
    by (cases p) (auto simp: scanner_tighten_def Let_def within_limits_def)
qed

text \<open>The envelope of an external scanner is never looser than the limits of the controller, in
  targets, runtime, rate, concurrency, methods and destructiveness, and an envelope that is
  already within them is handed on unchanged.\<close>

theorem scanner_envelope_tightened:
  "within_limits l (scanner_tighten l p) \<and>
   (sp_allowed_methods p \<noteq> [] \<longrightarrow> within_limits l p \<longrightarrow> scanner_tighten l p = p)"
  using tighten_within tighten_fixed by blast

theorem scanner_envelope_tightened_witness:
  "scanner_tighten conservative_limits default_scanner_policy = default_scanner_policy"
proof -
  have "py_upper ''GET'' = ''GET''" "py_upper ''HEAD'' = ''HEAD''" "py_upper ''OPTIONS'' = ''OPTIONS''"
    by code_simp+
  then have "within_limits conservative_limits default_scanner_policy"
    by (simp add: within_limits_def conservative_limits_def default_scanner_policy_def)
  moreover have "sp_allowed_methods default_scanner_policy \<noteq> []"
    by (simp add: default_scanner_policy_def)
  ultimately show ?thesis
    using scanner_envelope_tightened [of conservative_limits default_scanner_policy] by blast
qed

end
