(* ===== verification/Engine.thy ===== *)
theory Engine
  imports Approvals Tools Dns AuditLog Findings
begin

text \<open>
  \<open>security_testing/engine.py\<close>: the engine that composes the scope guard, the resolved address
  policy, the safety controller, the rate limiter, the approvals and the audit log into the one
  decision every active operation needs.
\<close>

section \<open>Sessions\<close>

datatype testing_mode = LIVE | LAB

fun mode_value :: "testing_mode \<Rightarrow> string" where
  "mode_value LIVE = ''live''"
| "mode_value LAB = ''lab''"

record test_session =
  ss_project :: string
  ss_mode :: testing_mode
  ss_scope :: program_scope
  ss_limits :: safety_limits
  ss_dry_run :: bool
  ss_active :: bool
  ss_fuzzing :: bool
  ss_id :: string

record engine =
  en_session :: test_session
  en_guard :: program_scope
  en_safety :: safety
  en_rate_limits :: safety_limits
  en_stamps :: "rat list"
  en_scanner :: scanner_policy
  en_dns :: dns_policy
  en_approvals :: gate
  en_audit :: audit_log
  en_evidence :: evidence_bundle
  en_findings :: "finding list"

definition as_lab_scope :: "program_scope \<Rightarrow> program_scope" where
  "as_lab_scope s =
     s\<lparr>s_program_name := name_or (s_program_name s) (Some ''local-lab''), lab_mode := True\<rparr>"

definition new_engine :: "test_session \<Rightarrow> engine result" where
  "new_engine ss0 =
     (let ss = (if ss_mode ss0 = LAB \<and> \<not> lab_mode (ss_scope ss0)
                then ss0\<lparr>ss_scope := as_lab_scope (ss_scope ss0)\<rparr> else ss0) in
      if ss_mode ss = LIVE \<and> lab_mode (ss_scope ss)
      then Inl (RestrictedActivityError ''out_of_scope'')
      else Inr \<lparr>en_session = ss, en_guard = ss_scope ss,
                en_safety = new_safety (Some (ss_limits ss)) (ss_dry_run ss),
                en_rate_limits = ss_limits ss, en_stamps = [],
                en_scanner = scanner_tighten (ss_limits ss) default_scanner_policy,
                en_dns = (if ss_mode ss = LAB then lab_policy else live_policy),
                en_approvals = [], en_audit = audit_open [], en_evidence = [], en_findings = []\<rparr>)"

definition engine_lab ::
    "string \<Rightarrow> string list \<Rightarrow> bool \<Rightarrow> bool \<Rightarrow> safety_limits option \<Rightarrow> string \<Rightarrow> engine result" where
  "engine_lab project hosts active dry l uid =
     new_engine
       \<lparr>ss_project = project, ss_mode = LAB,
        ss_scope = from_hosts hosts [] [] active (Some ''local-lab'') [] True,
        ss_limits = (case l of None \<Rightarrow> lab_limits | Some x \<Rightarrow> x), ss_dry_run = dry,
        ss_active = active, ss_fuzzing = False, ss_id = uid\<rparr>"

definition engine_from_constraint ::
    "scope_constraint \<Rightarrow> string \<Rightarrow> testing_mode \<Rightarrow> bool \<Rightarrow> safety_limits option \<Rightarrow> string
     \<Rightarrow> engine result" where
  "engine_from_constraint c project mode dry l uid =
     new_engine
       \<lparr>ss_project = project, ss_mode = mode, ss_scope = guard_from_constraint c,
        ss_limits = (case l of None \<Rightarrow> conservative_limits | Some x \<Rightarrow> x), ss_dry_run = dry,
        ss_active = c_allow_active c, ss_fuzzing = False, ss_id = uid\<rparr>"

section \<open>The audit trail of the engine\<close>

text \<open>A new identifier and a reading of the clock, for one entry of the log.\<close>

type_synonym stamp = "string \<times> instant"

text \<open>A call of \<open>audit.record\<close> that leaves its optional fields out.\<close>

definition plain_call :: "engine \<Rightarrow> string \<Rightarrow> string \<Rightarrow> string \<Rightarrow> string \<Rightarrow> string \<Rightarrow> audit_call" where
  "plain_call e target decided tool action res =
     \<lparr>c_project = ss_project (en_session e), c_target = target, c_scope_decision = decided,
      c_tool = tool, c_action = action, c_request_id = [], c_rate_limit = [], c_result = res,
      c_evidence_id = [], c_human_approval = []\<rparr>"

definition engine_audit :: "audit_call \<Rightarrow> stamp \<Rightarrow> engine \<Rightarrow> engine" where
  "engine_audit c st e = e\<lparr>en_audit := audit_record c (fst st) (snd st) (en_audit e)\<rparr>"

definition log_decision :: "authorization_decision \<Rightarrow> stamp \<Rightarrow> engine \<Rightarrow> engine" where
  "log_decision d st e =
     engine_audit
       ((plain_call e (target_original d) (reason d) (d_tool d) ''authorize''
           (if allowed d then ''allowed'' else ''denied''))
         \<lparr>c_rate_limit := (case d_rate_limit d of None \<Rightarrow> [] | Some t \<Rightarrow> t),
          c_human_approval := approval_state d\<rparr>) st e"

section \<open>Approvals\<close>

definition apply_active_testing :: "string \<Rightarrow> stamp \<Rightarrow> engine \<Rightarrow> engine" where
  "apply_active_testing operator st e =
     (let scope = (ss_scope (en_session e))\<lparr>s_allow_active := True\<rparr>;
          e1 = e\<lparr>en_session := (en_session e)\<lparr>ss_active := True, ss_scope := scope\<rparr>,
                 en_guard := scope\<rparr>
      in engine_audit ((plain_call e1 ''*'' ''active testing enabled'' ''safety''
           ''enable_active_testing'' ''granted'')\<lparr>c_human_approval := operator\<rparr>) st e1)"

text \<open>The record of a grant has an identifier and a time of its own, \<open>rec\<close>.\<close>

definition enable_active_testing ::
    "string \<Rightarrow> string \<Rightarrow> stamp \<Rightarrow> stamp \<Rightarrow> engine \<Rightarrow> unit result \<times> engine" where
  "enable_active_testing operator note rec st e =
     (case grant ENABLE_ACTIVE_TESTING operator note None (fst rec) (snd rec) (en_approvals e) of
        Inl exc \<Rightarrow> (Inl exc, e)
      | Inr (r, g) \<Rightarrow> (Inr (), apply_active_testing operator st (e\<lparr>en_approvals := g\<rparr>)))"

definition engine_grant ::
    "approval_kind \<Rightarrow> string \<Rightarrow> string \<Rightarrow> stamp \<Rightarrow> stamp \<Rightarrow> engine \<Rightarrow> unit result \<times> engine" where
  "engine_grant kind operator note rec st e =
     (if kind = SUBMIT_HACKERONE_REPORT \<and> is_ai_operator operator
      then (Inl (RestrictedActivityError ''hackerone_submission''), e)
      else case grant kind operator note None (fst rec) (snd rec) (en_approvals e) of
        Inl exc \<Rightarrow> (Inl exc, e)
      | Inr (r, g) \<Rightarrow>
          (let e1 = e\<lparr>en_approvals := g\<rparr>;
               e2 = (if kind = ENABLE_ACTIVE_TESTING then apply_active_testing operator st e1 else e1);
               e3 = (if kind = ENABLE_FUZZING
                     then e2\<lparr>en_session := (en_session e2)\<lparr>ss_fuzzing := True\<rparr>\<rparr> else e2)
           in (Inr (), e3)))"

section \<open>The decision\<close>

record auth_request =
  q_target :: string
  q_method :: string
  q_tool :: string
  q_active :: bool
  q_payload :: int
  q_destructive :: bool
  q_live_scan :: bool
  q_poc :: bool
  q_high_risk :: bool

text \<open>
  What one call reads from its surroundings: the wall clock for each approval it asks for and for
  the safety controller, the monotonic clock of the limiter, the resolver, and the stamp of the
  entry it logs.
\<close>

record readings =
  k_live_scan :: instant
  k_poc :: instant
  k_high_risk :: instant
  k_active :: instant
  k_fuzzing :: instant
  k_begin :: instant
  k_elapsed :: instant
  k_log :: instant
  k_granted :: instant
  k_mono :: rat
  k_resolver :: "string \<Rightarrow> string list"
  k_stamp :: stamp

definition dos_tools :: "string list" where "dos_tools = [''dos'', ''flood'', ''stress'']"

text \<open>The exceptions of \<open>authorize\<close>, raised before anything is decided.\<close>

definition authorize_error :: "engine \<Rightarrow> auth_request \<Rightarrow> readings \<Rightarrow> error option" where
  "authorize_error e q k =
     (let live = ss_mode (en_session e) = LIVE; g = en_approvals e in
      if (q_destructive q \<or> q_high_risk q) \<and> q_tool q \<in> set dos_tools
        then (case forbid (Inl DENIAL_OF_SERVICE) of Inl exc \<Rightarrow> Some exc | Inr _ \<Rightarrow> None)
      else if q_live_scan q \<and> live \<and> \<not> is_granted g (k_live_scan k) START_LIVE_SCAN
        then Some (ApprovalRequiredError (kind_value START_LIVE_SCAN))
      else if q_poc q \<and> \<not> is_granted g (k_poc k) SEND_POC_REQUEST
        then Some (ApprovalRequiredError (kind_value SEND_POC_REQUEST))
      else if q_high_risk q \<and> \<not> is_granted g (k_high_risk k) HIGH_RISK_SCANNER
        then Some (ApprovalRequiredError (kind_value HIGH_RISK_SCANNER))
      else None)"

definition consult_guard :: "engine \<Rightarrow> auth_request \<Rightarrow> authorization_decision" where
  "consult_guard e q =
     authorize (en_guard e) (q_target q) (q_method q) (q_tool q) (q_active q) (dry_run (en_safety e))"

text \<open>A denial that the engine itself words.\<close>

definition engine_denial ::
    "engine \<Rightarrow> auth_request \<Rightarrow> string \<Rightarrow> scope_rule option \<Rightarrow> string option \<Rightarrow> authorization_decision"
  where
  "engine_denial e q why rule program =
     scope_decision False why (q_target q) (py_upper (q_method q)) (q_tool q) rule program
       (dry_run (en_safety e))"

definition needs_approval :: "authorization_decision \<Rightarrow> authorization_decision" where
  "needs_approval d = d\<lparr>approval_required := True, approval_state := ''missing''\<rparr>"

text \<open>The denials for a missing approval: of active testing on live targets, and of fuzzing.\<close>

definition approval_denial ::
    "engine \<Rightarrow> auth_request \<Rightarrow> readings \<Rightarrow> authorization_decision option" where
  "approval_denial e q k =
     (let sd = consult_guard e q; g = en_approvals e in
      if q_active q \<and> ss_mode (en_session e) = LIVE \<and> \<not> is_granted g (k_active k) ENABLE_ACTIVE_TESTING
      then if \<not> allowed sd then Some sd
           else Some (needs_approval (engine_denial e q
             ''NO ACTIVE-TESTING PERMISSION = DENY (human approval required)''
             (matched_rule sd) (d_program sd)))
      else if q_tool q = ''fuzzer''
              \<and> \<not> (ss_fuzzing (en_session e) \<or> is_granted g (k_fuzzing k) ENABLE_FUZZING) \<and> q_active q
      then Some (needs_approval (engine_denial e q
             ''Fuzzing requires explicit human approval'' None None))
      else None)"

definition live_addresses :: "engine \<Rightarrow> auth_request \<Rightarrow> readings \<Rightarrow> address_decision" where
  "live_addresses e q k =
     dns_authorize (en_dns e) (k_resolver k) (q_target q) False (s_lab_hosts (ss_scope (en_session e)))"

text \<open>The final decision of a request that scope and addresses allow.\<close>

definition allowance ::
    "engine \<Rightarrow> auth_request \<Rightarrow> readings \<Rightarrow> authorization_decision \<Rightarrow> safety_decision \<Rightarrow> rate_decision
     \<Rightarrow> authorization_decision" where
  "allowance e q k sd safe rate =
     (scope_decision True (if sd_dry_run safe then sd_reason safe else reason sd) (q_target q)
        (py_upper (q_method q)) (q_tool q) (matched_rule sd) (d_program sd) (sd_dry_run safe))
       \<lparr>approval_state :=
          (if is_granted (en_approvals e) (k_granted k) ENABLE_ACTIVE_TESTING
           then ''granted'' else ''not_required''),
        d_rate_limit := Some (rd_reason rate)\<rparr>"

definition conclude ::
    "authorization_decision \<Rightarrow> readings \<Rightarrow> engine \<Rightarrow> authorization_decision result \<times> engine" where
  "conclude d k e = (Inr d, log_decision d (k_stamp k) e)"

text \<open>The safety controller and the limiter, in that order; both keep what they learned.\<close>

definition authorize_sending ::
    "auth_request \<Rightarrow> readings \<Rightarrow> authorization_decision \<Rightarrow> engine
     \<Rightarrow> authorization_decision result \<times> engine" where
  "authorize_sending q k sd e =
     (case check_request (q_target q) (q_method q) (q_tool q) (q_payload q) (q_destructive q)
             (Some sd) (k_begin k) (k_elapsed k) (k_log k) (en_safety e) of
        (safe, controller) \<Rightarrow>
          (let e1 = e\<lparr>en_safety := controller\<rparr> in
           if \<not> sd_allowed safe then
             conclude (engine_denial e1 q (sd_reason safe) (matched_rule sd) (d_program sd)) k e1
           else case rate_check (en_rate_limits e1) (k_mono k) (en_stamps e1) of
             (rate_result, stamps) \<Rightarrow>
               (let e2 = e1\<lparr>en_stamps := stamps\<rparr> in
                case rate_result of
                  Inl exc \<Rightarrow> (Inl exc, e2)
                | Inr rate \<Rightarrow>
                    if \<not> rd_allowed rate \<and> \<not> dry_run (en_safety e2) then
                      conclude ((scope_decision False (rd_reason rate) (q_target q)
                          (py_upper (q_method q)) (q_tool q) (matched_rule sd) (d_program sd) False)
                            \<lparr>d_rate_limit := Some (rd_reason rate)\<rparr>) k e2
                    else conclude (allowance e2 q k sd safe rate) k e2)))"

definition authorize_request ::
    "auth_request \<Rightarrow> readings \<Rightarrow> engine \<Rightarrow> authorization_decision result \<times> engine" where
  "authorize_request q k e =
     (case authorize_error e q k of
        Some exc \<Rightarrow> (Inl exc, e)
      | None \<Rightarrow> (case approval_denial e q k of
          Some d \<Rightarrow> conclude d k e
        | None \<Rightarrow>
            (let sd = consult_guard e q in
             if \<not> allowed sd then conclude sd k e
             else let dns = live_addresses e q k in
               if ss_mode (en_session e) = LIVE \<and> \<not> ad_allowed dns then
                 conclude (engine_denial e q (ad_reason dns) (matched_rule sd) (d_program sd)) k e
               else authorize_sending q k sd e)))"

definition require_allowed :: "authorization_decision \<Rightarrow> unit result" where
  "require_allowed d = (if \<not> allowed d then Inl (AuthorizationDeniedError (reason d)) else Inr ())"

section \<open>Evidence and the snapshot\<close>

definition add_evidence :: "evidence list \<Rightarrow> engine \<Rightarrow> engine" where
  "add_evidence items e = e\<lparr>en_evidence := bundle_extend (en_evidence e) items\<rparr>"

record engine_view =
  v_project_id :: string
  v_mode :: string
  v_program :: "string option"
  v_lab_mode :: bool
  v_active_testing :: bool
  v_fuzzing_enabled :: bool
  v_dry_run :: bool
  v_request_limit :: int
  v_requests_used :: int
  v_rate_limit_rps :: rat
  v_approvals :: "(string, string) dict"
  v_audit_entries :: nat
  v_finding_counts :: "(string, nat) dict"

text \<open>The counts are keyed by a set of status values; the model lists them in order of occurrence.\<close>

definition engine_snapshot :: "(approval_kind \<Rightarrow> instant) \<Rightarrow> engine \<Rightarrow> engine_view" where
  "engine_snapshot clock e =
     (let ss = en_session e; values = map (\<lambda>f. status_value (status f)) (en_findings e) in
      \<lparr>v_project_id = ss_project ss, v_mode = mode_value (ss_mode ss),
       v_program = s_program_name (ss_scope ss), v_lab_mode = lab_mode (ss_scope ss),
       v_active_testing = ss_active ss, v_fuzzing_enabled = ss_fuzzing ss,
       v_dry_run = dry_run (en_safety e), v_request_limit = max_requests (limits (en_safety e)),
       v_requests_used = request_count (en_safety e),
       v_rate_limit_rps = requests_per_second (limits (en_safety e)),
       v_approvals = snapshot (en_approvals e) clock,
       v_audit_entries = length (entries (en_audit e)),
       v_finding_counts = map (\<lambda>v. (v, count_list values v)) (first_occurrences values)\<rparr>)"

section \<open>What the engine permits\<close>

definition rate_permits :: "engine \<Rightarrow> readings \<Rightarrow> bool" where
  "rate_permits e k \<longleftrightarrow>
     (case fst (rate_check (en_rate_limits e) (k_mono k) (en_stamps e)) of
        Inl exc \<Rightarrow> False | Inr rate \<Rightarrow> rd_allowed rate \<or> dry_run (en_safety e))"

definition approvals_permit :: "engine \<Rightarrow> auth_request \<Rightarrow> readings \<Rightarrow> bool" where
  "approvals_permit e q k \<longleftrightarrow>
     (let granted = is_granted (en_approvals e); live = ss_mode (en_session e) = LIVE in
      \<not> ((q_destructive q \<or> q_high_risk q) \<and> q_tool q \<in> set dos_tools) \<and>
      (q_live_scan q \<and> live \<longrightarrow> granted (k_live_scan k) START_LIVE_SCAN) \<and>
      (q_poc q \<longrightarrow> granted (k_poc k) SEND_POC_REQUEST) \<and>
      (q_high_risk q \<longrightarrow> granted (k_high_risk k) HIGH_RISK_SCANNER) \<and>
      (q_active q \<and> live \<longrightarrow> granted (k_active k) ENABLE_ACTIVE_TESTING) \<and>
      (q_active q \<and> q_tool q = ''fuzzer'' \<longrightarrow>
         ss_fuzzing (en_session e) \<or> granted (k_fuzzing k) ENABLE_FUZZING))"

definition engine_permits :: "engine \<Rightarrow> auth_request \<Rightarrow> readings \<Rightarrow> bool" where
  "engine_permits e q k \<longleftrightarrow>
     approvals_permit e q k \<and> allowed (consult_guard e q) \<and>
     (ss_mode (en_session e) = LIVE \<longrightarrow> ad_allowed (live_addresses e q k)) \<and>
     safety_permits (begin_scan (k_begin k) (en_safety e)) (q_target q) (py_upper (q_method q))
       (q_payload q) (q_destructive q) (Some (consult_guard e q)) (k_elapsed k) \<and>
     rate_permits e k"

definition engine_allows :: "auth_request \<Rightarrow> readings \<Rightarrow> engine \<Rightarrow> bool" where
  "engine_allows q k e \<longleftrightarrow>
     (case fst (authorize_request q k e) of Inl exc \<Rightarrow> False | Inr d \<Rightarrow> allowed d)"

lemma conclude_fst [simp]: "fst (conclude d k e) = Inr d"
  by (simp add: conclude_def)

lemma engine_denial_denied [simp]: "\<not> allowed (engine_denial e q why rule program)"
  by (simp add: engine_denial_def)

lemma needs_approval_allowed [simp]: "allowed (needs_approval d) = allowed d"
  by (simp add: needs_approval_def)

lemma allowance_allowed [simp]: "allowed (allowance e q k sd safe rate)"
  by (simp add: allowance_def)

lemma authorize_sending_allows:
  "(case fst (authorize_sending q k sd e) of Inl exc \<Rightarrow> False | Inr d \<Rightarrow> allowed d) \<longleftrightarrow>
   safety_permits (begin_scan (k_begin k) (en_safety e)) (q_target q) (py_upper (q_method q))
       (q_payload q) (q_destructive q) (Some sd) (k_elapsed k) \<and> rate_permits e k"
proof -
  obtain safe s' where c: "check_request (q_target q) (q_method q) (q_tool q) (q_payload q)
      (q_destructive q) (Some sd) (k_begin k) (k_elapsed k) (k_log k) (en_safety e) = (safe, s')"
    by fastforce
  obtain r stamps where r: "rate_check (en_rate_limits e) (k_mono k) (en_stamps e) = (r, stamps)"
    by fastforce
  have "dry_run s' = dry_run (en_safety e)" using check_request_frame [OF c] by simp
  moreover have "sd_allowed safe \<longleftrightarrow> safety_permits (begin_scan (k_begin k) (en_safety e)) (q_target q)
      (py_upper (q_method q)) (q_payload q) (q_destructive q) (Some sd) (k_elapsed k)"
    using check_request_allowed [OF c] by (simp add: safety_refusal_None)
  ultimately show ?thesis
    by (auto simp: authorize_sending_def c r rate_permits_def Let_def split: sum.splits)
qed

lemma approvals_permit_iff:
  "approvals_permit e q k \<longleftrightarrow> authorize_error e q k = None \<and>
     (\<forall>d. approval_denial e q k = Some d \<longrightarrow> allowed d)"
  by (auto simp: approvals_permit_def authorize_error_def approval_denial_def forbid_def Let_def)

lemma approval_denial_denies: "approval_denial e q k = Some d \<Longrightarrow> \<not> allowed d"
  by (auto simp: approval_denial_def Let_def split: if_splits)

lemma engine_allows_iff:
  "engine_allows q k e \<longleftrightarrow> engine_permits e q k"
proof (cases "approvals_permit e q k")
  case False
  then show ?thesis using approval_denial_denies [of e q k]
    by (auto simp: approvals_permit_iff engine_allows_def engine_permits_def authorize_request_def
        split: option.splits)
next
  case True
  then have "approval_denial e q k = None" "authorize_error e q k = None"
    using approval_denial_denies [of e q k] by (auto simp: approvals_permit_iff)
  with True show ?thesis
    using authorize_sending_allows [of q k "consult_guard e q" e]
    by (simp add: engine_allows_def engine_permits_def authorize_request_def Let_def)
qed

text \<open>C5. The engine allows a request exactly when every safeguard does: no denial-of-service tool, every
  approval that the request asks for is in force, the scope guard allows the target, its addresses
  satisfy the live policy, and the safety controller and the rate limiter let it through.\<close>

theorem engine_decides: "engine_allows q k e \<longleftrightarrow> engine_permits e q k"
  by (rule engine_allows_iff)

section \<open>What a decision leaves alone\<close>

lemma engine_audit_simps [simp]:
  "en_session (engine_audit c st e) = en_session e" "en_guard (engine_audit c st e) = en_guard e"
  "en_safety (engine_audit c st e) = en_safety e" "en_stamps (engine_audit c st e) = en_stamps e"
  "en_rate_limits (engine_audit c st e) = en_rate_limits e"
  "en_scanner (engine_audit c st e) = en_scanner e" "en_dns (engine_audit c st e) = en_dns e"
  "en_approvals (engine_audit c st e) = en_approvals e"
  "en_audit (engine_audit c st e) = audit_record c (fst st) (snd st) (en_audit e)"
  by (simp_all add: engine_audit_def)

text \<open>The parts of an engine that no request changes, and the counters of its controller.\<close>

definition same_setup :: "engine \<Rightarrow> engine \<Rightarrow> bool" where
  "same_setup a b \<longleftrightarrow>
     en_session a = en_session b \<and> en_guard a = en_guard b \<and> en_rate_limits a = en_rate_limits b \<and>
     en_scanner a = en_scanner b \<and> en_dns a = en_dns b \<and> en_approvals a = en_approvals b \<and>
     limits (en_safety a) = limits (en_safety b) \<and> dry_run (en_safety a) = dry_run (en_safety b)"

definition same_counters :: "engine \<Rightarrow> engine \<Rightarrow> bool" where
  "same_counters a b \<longleftrightarrow>
     requests (en_safety a) = requests (en_safety b) \<and> in_flight (en_safety a) = in_flight (en_safety b) \<and>
     seen_targets (en_safety a) = seen_targets (en_safety b)"

lemma same_setup_refl [simp]: "same_setup e e" by (simp add: same_setup_def)

lemma same_counters_refl [simp]: "same_counters e e" by (simp add: same_counters_def)

lemma same_setup_trans: "same_setup a b \<Longrightarrow> same_setup b c \<Longrightarrow> same_setup a c"
  by (simp add: same_setup_def)

lemma log_decision_same [simp]:
  "same_setup (log_decision d st e) e' \<longleftrightarrow> same_setup e e'"
  "same_counters (log_decision d st e) e' \<longleftrightarrow> same_counters e e'"
  by (simp_all add: log_decision_def same_setup_def same_counters_def)

lemma authorize_sending_same:
  assumes "authorize_sending q k sd e = (r, e')"
  shows "same_setup e' e \<and> same_counters e' e"
proof -
  obtain safe s' where c: "check_request (q_target q) (q_method q) (q_tool q) (q_payload q)
      (q_destructive q) (Some sd) (k_begin k) (k_elapsed k) (k_log k) (en_safety e) = (safe, s')"
    by fastforce
  note frame = check_request_frame [OF c]
  have "same_setup (e\<lparr>en_safety := s'\<rparr>) e" "same_setup (e\<lparr>en_safety := s', en_stamps := x\<rparr>) e"
    "same_counters (e\<lparr>en_safety := s'\<rparr>) e" "same_counters (e\<lparr>en_safety := s', en_stamps := x\<rparr>) e" for x
    using frame by (simp_all add: same_setup_def same_counters_def)
  with assms show ?thesis
    by (auto simp: authorize_sending_def c conclude_def Let_def split: prod.splits sum.splits if_splits)
qed

lemma authorize_request_same:
  assumes "authorize_request q k e = (r, e')"
  shows "same_setup e' e \<and> same_counters e' e"
  using assms authorize_sending_same
  by (auto simp: authorize_request_def conclude_def Let_def
      split: option.splits if_splits)

text \<open>Every decision is logged, once; an exception is not.\<close>

lemma authorize_sending_logs:
  "authorize_sending q k sd e = (Inr d, e') \<Longrightarrow> en_audit e' = en_audit (log_decision d (k_stamp k) e)"
  by (auto simp: authorize_sending_def conclude_def log_decision_def plain_call_def Let_def
      split: prod.splits sum.splits if_splits)

lemma authorize_sending_raises: "authorize_sending q k sd e = (Inl exc, e') \<Longrightarrow> en_audit e' = en_audit e"
  by (auto simp: authorize_sending_def conclude_def Let_def split: prod.splits sum.splits if_splits)

lemma authorize_logs:
  "authorize_request q k e = (Inr d, e') \<Longrightarrow> en_audit e' = en_audit (log_decision d (k_stamp k) e)"
  using authorize_sending_logs
  by (auto simp: authorize_request_def conclude_def Let_def split: option.splits if_splits)

lemma authorize_raises: "authorize_request q k e = (Inl exc, e') \<Longrightarrow> en_audit e' = en_audit e"
  by (auto simp: authorize_request_def conclude_def Let_def dest: authorize_sending_raises
      split: option.splits if_splits)

definition new_entries :: "engine \<Rightarrow> engine \<Rightarrow> audit_event list" where
  "new_entries e e' = drop (length (entries (en_audit e))) (entries (en_audit e'))"

text \<open>Every decision of the engine, to allow or to deny, adds exactly one entry to the audit log, with
  the project, the tool, the outcome and the state of the approval; a call that raises adds none.\<close>

theorem every_decision_is_logged:
  "case authorize_request q k e of
     (Inl exc, e') \<Rightarrow> en_audit e' = en_audit e
   | (Inr d, e') \<Rightarrow>
       map (\<lambda>x. (e_project x, e_tool x, e_action x, e_result x, e_human_approval x)) (new_entries e e')
         = [(ss_project (en_session e), d_tool d, ''authorize'',
             if allowed d then ''allowed'' else ''denied'', approval_state d)] \<and>
       take (length (entries (en_audit e))) (entries (en_audit e')) = entries (en_audit e)"
proof -
  have t: "redact_text ''authorize'' = ''authorize''" "redact_text ''allowed'' = ''allowed''"
    "redact_text ''denied'' = ''denied''" by code_simp+
  show ?thesis
  proof (cases "authorize_request q k e")
    case (Pair r e')
    show ?thesis
    proof (cases r)
      case (Inl exc) with Pair authorize_raises show ?thesis by simp
    next
      case (Inr d)
      with Pair have "en_audit e' = en_audit (log_decision d (k_stamp k) e)"
        using authorize_logs by blast
      with Pair Inr show ?thesis
        by (simp add: new_entries_def log_decision_def plain_call_def audit_record_def Let_def t)
    qed
  qed
qed

end
