(* ===== verification/HttpClient.thy ===== *)
theory HttpClient
  imports Engine
begin

text \<open>
  \<open>security_testing/http_client.py\<close>: the only sender of HTTP requests. The HTTP library is an
  argument, a function from what is sent to the reply; what it was asked to send, in order, is
  part of the result of a request.
\<close>

section \<open>Messages\<close>

datatype payload = No_Payload | Text_Payload string | Bytes_Payload string

fun payload_text :: "payload \<Rightarrow> string" where
  "payload_text No_Payload = []"
| "payload_text (Text_Payload s) = s"
| "payload_text (Bytes_Payload s) = s"

text \<open>A response as the library presents it; a header that is read by name is a field.\<close>

record http_response =
  rs_status :: int
  rs_url :: string
  rs_headers :: "http_header list"
  rs_location :: "string option"
  rs_content_type :: "string option"
  rs_content :: string
  rs_elapsed_seconds :: rat

text \<open>What is handed to the library: \<open>o_target\<close> is the URL that was authorized, \<open>o_url\<close> the one
  that is connected to.\<close>

record http_send =
  o_method :: string
  o_target :: string
  o_url :: string
  o_headers :: "(string, string) dict"
  o_body :: payload
  o_timeout :: rat

datatype net_reply =
    Reply http_response | Net_Timeout string | Net_Error string | Net_Raise error

definition sensitive_headers :: "string list" where
  "sensitive_headers = [''authorization'', ''proxy-authorization'', ''cookie'', ''set-cookie'',
     ''x-api-key'', ''x-auth-token'', ''x-access-token'']"

section \<open>Redirects\<close>

definition is_redirect :: "http_response \<Rightarrow> bool" where
  "is_redirect r \<longleftrightarrow> rs_status r \<in> {301, 302, 303, 307, 308}"

definition scheme_of :: "string \<Rightarrow> string" where
  "scheme_of url = (if startswith url ''http://'' then ''http'' else ''https'')"

definition origin :: "string \<Rightarrow> (string \<times> string \<times> nat) result" where
  "origin url =
     then_do (urlparse [] url) (\<lambda>u.
       let scheme = py_lower (or_text (pu_scheme u) ''https'');
           host = py_rstrip_char CHR ''.'' (py_lower (url_hostname u))
       in then_do (url_port u) (\<lambda>p.
            Inr (scheme, host,
                 case p of Some n \<Rightarrow> n | None \<Rightarrow> if scheme = ''http'' then 80 else 443)))"

definition same_origin :: "string \<Rightarrow> string \<Rightarrow> bool result" where
  "same_origin left right =
     then_do (origin left) (\<lambda>a. then_do (origin right) (\<lambda>b. Inr (a = b)))"

definition headers_for_redirect ::
    "string \<Rightarrow> string \<Rightarrow> (string, string) dict \<Rightarrow> (string, string) dict result" where
  "headers_for_redirect current nxt headers =
     then_do (same_origin current nxt) (\<lambda>same.
       Inr (if same then headers
            else filter (\<lambda>(k, v). py_lower k \<notin> set sensitive_headers) headers))"

definition redirect_method_and_body :: "int \<Rightarrow> string \<Rightarrow> payload \<Rightarrow> string \<times> payload" where
  "redirect_method_and_body st meth body =
     (if st \<in> {307, 308} then (meth, body) else (''GET'', No_Payload))"

definition normalize_redirect :: "string \<Rightarrow> string \<Rightarrow> string result" where
  "normalize_redirect current location =
     then_do (urljoin current (py_strip location)) (\<lambda>joined.
       case normalize joined None None (scheme_of current) of
         Inr t \<Rightarrow> Inr (t_url t)
       | Inl exc \<Rightarrow> Inl (AuthorizationDeniedError (''Malformed redirect target '' @
           redact_text location @ '' ('' @ error_text exc @ '')'')))"

section \<open>Pinning the connection\<close>

text \<open>\<open>outgoing.setdefault(k, v)\<close>.\<close>

definition dict_setdefault :: "'k \<Rightarrow> 'v \<Rightarrow> ('k, 'v) dict \<Rightarrow> ('k, 'v) dict" where
  "dict_setdefault k v d = (case map_of d k of None \<Rightarrow> d @ [(k, v)] | Some w \<Rightarrow> d)"

definition with_port :: "string \<Rightarrow> nat option \<Rightarrow> string" where
  "with_port host p = (case p of None \<Rightarrow> host | Some n \<Rightarrow> host @ '':'' @ show_nat n)"

text \<open>
  The addresses that are authorized once more and then confirmed come from two more look-ups, each
  with a resolver of its own.
\<close>

definition pin_connection ::
    "engine \<Rightarrow> (string \<Rightarrow> string list) \<Rightarrow> (string \<Rightarrow> string list) \<Rightarrow> string \<Rightarrow> (string, string) dict
     \<Rightarrow> (string \<times> (string, string) dict) result" where
  "pin_connection e look confirm url headers =
     (if ss_mode (en_session e) \<noteq> LIVE then Inr (url, headers)
      else then_do (urlparse [] url) (\<lambda>u.
        let host = url_hostname u in
        if host = [] \<or> try_ip host \<noteq> None then Inr (url, headers)
        else let d = dns_authorize (en_dns e) look url False (s_lab_hosts (ss_scope (en_session e))) in
          if \<not> ad_allowed d then Inl (AuthorizationDeniedError (ad_reason d))
          else let overlap = filter (\<lambda>a. a \<in> set (addresses d)) (confirm host) in
            if addresses d \<noteq> [] \<and> overlap = [] then
              Inl (AuthorizationDeniedError
                ''DNS rebinding detected: resolved addresses changed after authorization'')
            else let pin = (case overlap of a # as \<Rightarrow> a
                            | [] \<Rightarrow> (case addresses d of a # as \<Rightarrow> a | [] \<Rightarrow> [])) in
              if pin = [] then
                Inl (AuthorizationDeniedError ''Live connection refused: no pinned address'')
              else if py_lower (or_text (pu_scheme u) ''https'') = ''https'' then Inr (url, headers)
              else then_do (url_port u) (\<lambda>p.
                Inr (urlunparse (u\<lparr>pu_netloc := with_port pin p\<rparr>),
                     dict_setdefault ''Host'' (with_port host p) headers))))"

section \<open>One hop\<close>

text \<open>What stays the same in a request, what changes from hop to hop, and what a hop reads from
  its surroundings.\<close>

record client_call =
  cl_tool :: string
  cl_timeout :: rat
  cl_destructive :: bool
  cl_active :: bool
  cl_follow :: bool

record hop_state =
  hp_current :: string
  hp_method :: string
  hp_headers :: "(string, string) dict"
  hp_payload :: payload
  hp_remaining :: int
  hp_seen :: "string set"
  hp_hops :: nat

record hop_env =
  he_auth :: readings
  he_stamp :: stamp
  he_now :: rat
  he_later :: rat
  he_look :: "string \<Rightarrow> string list"
  he_confirm :: "string \<Rightarrow> string list"
  he_net :: "http_send \<Rightarrow> net_reply"

datatype hop_start =
    Hop_Raise error
  | Hop_Dry tool_result
  | Hop_Send string http_send

definition hop_request :: "client_call \<Rightarrow> hop_state \<Rightarrow> auth_request" where
  "hop_request c st =
     \<lparr>q_target = hp_current st, q_method = hp_method st,
      q_tool = (if hp_hops st = 0 then cl_tool c else cl_tool c @ ''_redirect''),
      q_active = cl_active c, q_payload = int (length (payload_text (hp_payload st))),
      q_destructive = cl_destructive c, q_live_scan = False, q_poc = False, q_high_risk = False\<rparr>"

text \<open>
  From the authorization to the moment the request is handed over. No other task runs in between,
  since nothing is awaited.
\<close>

definition start_hop :: "client_call \<Rightarrow> hop_state \<Rightarrow> hop_env \<Rightarrow> engine \<Rightarrow> hop_start \<times> engine" where
  "start_hop c st env e =
     (case authorize_request (hop_request c st) (he_auth env) e of
        (Inl exc, e1) \<Rightarrow> (Hop_Raise exc, e1)
      | (Inr d, e1) \<Rightarrow>
          if \<not> allowed d then
            (Hop_Raise (AuthorizationDeniedError (reason d)),
             engine_audit ((plain_call e1 (hp_current st) (reason d) (cl_tool c)
                 (if hp_hops st = 0 then hp_method st @ '' denied'' else ''redirect denied'') ''denied'')
                   \<lparr>c_human_approval := approval_state d\<rparr>) (he_stamp env) e1)
          else if dry_run (en_safety e1) \<or> d_dry_run d then
            (Hop_Dry (make_result (cl_tool c) DRY_RUN
               (''Would send '' @ hp_method st @ '' '' @ hp_current st)),
             engine_audit (plain_call e1 (hp_current st) (reason d) (cl_tool c)
               (hp_method st @ '' dry-run'') ''dry_run'') (he_stamp env) e1)
          else (case rate_require (en_rate_limits e1) (he_now env) (he_later env) (en_stamps e1) of
            (Inl exc, stamps) \<Rightarrow>
              (Hop_Raise exc,
               (case exc of
                  SafetyLimitExceededError m \<Rightarrow>
                    engine_audit ((plain_call e1 (hp_current st) (reason d) (cl_tool c)
                      (hp_method st @ '' rate-limited'') ''rate_limited'')\<lparr>c_rate_limit := m\<rparr>)
                      (he_stamp env) (e1\<lparr>en_stamps := stamps\<rparr>)
                | _ \<Rightarrow> e1\<lparr>en_stamps := stamps\<rparr>))
          | (Inr u, stamps) \<Rightarrow>
              (let e2 = e1\<lparr>en_stamps := stamps\<rparr> in
               case pin_connection e2 (he_look env) (he_confirm env) (hp_current st) (hp_headers st) of
                 Inl exc \<Rightarrow> (Hop_Raise exc, e2)
               | Inr (url, headers) \<Rightarrow>
                   (Hop_Send (reason d)
                      \<lparr>o_method = hp_method st, o_target = hp_current st, o_url = url,
                       o_headers = headers,
                       o_body = (if payload_text (hp_payload st) = [] then No_Payload
                                 else hp_payload st),
                       o_timeout = cl_timeout c\<rparr>,
                    e2\<lparr>en_safety := acquire (hp_current st) (en_safety e2)\<rparr>))))"

text \<open>When the library has answered, or raised, the request is released.\<close>

definition end_hop :: "engine \<Rightarrow> engine" where
  "end_hop e = e\<lparr>en_safety := release (en_safety e)\<rparr>"

text \<open>What follows a reply: an error, a result that ends the request, the response to report, or
  another hop.\<close>

datatype hop_next =
    Next_Raise error
  | Next_Result tool_result
  | Next_Final http_response
  | Next_Hop hop_state

definition after_reply :: "client_call \<Rightarrow> hop_state \<Rightarrow> net_reply \<Rightarrow> hop_next" where
  "after_reply c st reply =
     (case reply of
        Net_Timeout m \<Rightarrow> Next_Result (make_result (cl_tool c) TIMEOUT m)
      | Net_Error m \<Rightarrow> Next_Result (make_result (cl_tool c) NETWORK_FAILURE m)
      | Net_Raise exc \<Rightarrow> Next_Raise exc
      | Reply r \<Rightarrow>
          (let location = (case rs_location r of None \<Rightarrow> [] | Some l \<Rightarrow> l) in
           if \<not> is_redirect r \<or> location = [] then Next_Final r
           else case normalize_redirect (hp_current st) location of
             Inl exc \<Rightarrow> Next_Raise exc
           | Inr nxt \<Rightarrow>
               if nxt \<in> hp_seen st \<or> hp_current st \<in> hp_seen st then
                 Next_Result (make_result (cl_tool c) EXECUTION_ERROR
                   (''Redirect loop involving '' @ hp_current st))
               else if hp_remaining st \<le> 0 then
                 (if cl_follow c then
                    Next_Result (make_result (cl_tool c) EXECUTION_ERROR ''Maximum redirects exceeded'')
                  else Next_Final r)
               else (case redirect_method_and_body (rs_status r) (hp_method st) (hp_payload st) of
                 (meth, body) \<Rightarrow>
                   (case headers_for_redirect (hp_current st) nxt (hp_headers st) of
                      Inl exc \<Rightarrow> Next_Raise exc
                    | Inr headers \<Rightarrow>
                        Next_Hop \<lparr>hp_current = nxt, hp_method = meth, hp_headers = headers,
                          hp_payload = body, hp_remaining = hp_remaining st - 1,
                          hp_seen = insert (hp_current st) (hp_seen st),
                          hp_hops = hp_hops st + 1\<rparr>))))"

section \<open>The whole request\<close>

datatype hops_result =
    Hops_Raise error
  | Hops_Result tool_result
  | Hops_Final string http_response

lemma after_reply_less: "after_reply c st reply = Next_Hop st' \<Longrightarrow> nat (hp_remaining st') < nat (hp_remaining st)"
  by (auto simp: after_reply_def Let_def split: net_reply.splits if_splits sum.splits prod.splits)

text \<open>The loop, each hop with its own surroundings, and everything that was sent, in order.\<close>

function run_hops ::
    "client_call \<Rightarrow> (nat \<Rightarrow> hop_env) \<Rightarrow> hop_state \<Rightarrow> engine \<Rightarrow> hops_result \<times> engine \<times> http_send list"
  where
  "run_hops c env st e =
     (case start_hop c st (env (hp_hops st)) e of
        (Hop_Raise exc, e1) \<Rightarrow> (Hops_Raise exc, e1, [])
      | (Hop_Dry r, e1) \<Rightarrow> (Hops_Result r, e1, [])
      | (Hop_Send why send, e1) \<Rightarrow>
          (let e2 = end_hop e1 in
           case after_reply c st (he_net (env (hp_hops st)) send) of
             Next_Raise exc \<Rightarrow> (Hops_Raise exc, e2, [send])
           | Next_Result r \<Rightarrow> (Hops_Result r, e2, [send])
           | Next_Final r \<Rightarrow> (Hops_Final why r, e2, [send])
           | Next_Hop st' \<Rightarrow>
               (case run_hops c env st' e2 of (res, e3, sends) \<Rightarrow> (res, e3, send # sends))))"
  by pat_completeness auto

termination
  by (relation "measure (\<lambda>(c, env, st, e). nat (hp_remaining st))") (auto dest: after_reply_less)

declare run_hops.simps [simp del]

text \<open>\<open>xs[:n]\<close>.\<close>

definition slice_to :: "int \<Rightarrow> 'a list \<Rightarrow> 'a list" where
  "slice_to n xs = (if 0 \<le> n then take (nat n) xs else take (length xs - nat (- n)) xs)"

record http_call =
  hc_method :: string
  hc_url :: string
  hc_headers :: "(string, string) dict option"
  hc_content :: "payload"
  hc_timeout :: "rat option"
  hc_destructive :: bool
  hc_active :: bool
  hc_follow :: bool

text \<open>The content is \<open>b""\<close> when none is given.\<close>

definition given_payload :: "http_call \<Rightarrow> payload" where
  "given_payload h = (if hc_content h = No_Payload then Bytes_Payload [] else hc_content h)"

definition given_headers :: "http_call \<Rightarrow> (string, string) dict" where
  "given_headers h = (case hc_headers h of None \<Rightarrow> [] | Some d \<Rightarrow> d)"

definition report_exchange ::
    "http_call \<Rightarrow> string \<Rightarrow> safety_limits \<Rightarrow> string \<Rightarrow> http_response \<Rightarrow> http_exchange" where
  "report_exchange h tool l why r =
     \<lparr>x_method = py_upper (hc_method h), x_url = rs_url r, request_id = [], x_timestamp = None,
      x_scheme = None, x_host = None, x_port = None, x_path = None,
      request_headers = given_headers h,
      request_body = (case given_payload h of
          Bytes_Payload b \<Rightarrow> Some (utf8_replace b)
        | p \<Rightarrow> none_if_empty (payload_text p)),
      request_body_meta = None, x_query = None, cookies = [],
      response_status = Some (rs_status r), response_headers = rs_headers r,
      response_body = Some (utf8_replace (slice_to (max_response_bytes l) (rs_content r))),
      response_body_meta = Some \<lparr>content_type = rs_content_type r,
        byte_length = length (rs_content r),
        truncated = max_response_bytes l < int (length (rs_content r)), bm_sha256 = None\<rparr>,
      elapsed_ms = (if rs_elapsed_seconds r = 0 then None else Some (rs_elapsed_seconds r * 1000)),
      source_tool = Some tool, x_scope_decision = Some why, x_metadata = []\<rparr>"

datatype http_outcome = Exchange http_exchange | Tool_Outcome tool_result

text \<open>The exchange and its redacted copy are new objects (\<open>made\<close>, \<open>copied\<close>); the call ends with an
  entry of the log.\<close>

definition initial_hop :: "http_call \<Rightarrow> engine \<Rightarrow> hop_state" where
  "initial_hop h e =
     \<lparr>hp_current = hc_url h, hp_method = py_upper (hc_method h), hp_headers = given_headers h,
      hp_payload = given_payload h,
      hp_remaining = (if hc_follow h then max_redirects (limits (en_safety e)) else 0),
      hp_seen = {}, hp_hops = 0\<rparr>"

definition client_call_of :: "string \<Rightarrow> http_call \<Rightarrow> engine \<Rightarrow> client_call" where
  "client_call_of tool h e =
     \<lparr>cl_tool = tool,
      cl_timeout = (case hc_timeout h of None \<Rightarrow> timeout_seconds (limits (en_safety e)) | Some t \<Rightarrow> t),
      cl_destructive = hc_destructive h, cl_active = hc_active h, cl_follow = hc_follow h\<rparr>"

definition http_request ::
    "string \<Rightarrow> http_call \<Rightarrow> (nat \<Rightarrow> hop_env) \<Rightarrow> stamp \<Rightarrow> stamp \<Rightarrow> stamp \<Rightarrow> engine
     \<Rightarrow> http_outcome result \<times> engine \<times> http_send list" where
  "http_request tool h env made copied st e =
     (case run_hops (client_call_of tool h e) env (initial_hop h e) e of
        (Hops_Raise exc, e1, sends) \<Rightarrow> (Inl exc, e1, sends)
      | (Hops_Result r, e1, sends) \<Rightarrow> (Inr (Tool_Outcome r), e1, sends)
      | (Hops_Final why r, e1, sends) \<Rightarrow>
          (case then_do (exchange_init (fst made) (snd made)
                   (report_exchange h tool (limits (en_safety e)) why r))
                 (redact_exchange (fst copied) (snd copied)) of
             Inl exc \<Rightarrow> (Inl exc, e1, sends)
           | Inr x \<Rightarrow>
               (Inr (Exchange x),
                engine_audit ((plain_call e1 (hc_url h) why tool
                    (py_upper (hc_method h) @ '' '' @ hc_url h)
                    (''status='' @ (case response_status x of None \<Rightarrow> ''None'' | Some n \<Rightarrow> show_int n)))
                      \<lparr>c_request_id := request_id x\<rparr>) st e1, sends)))"

section \<open>Hops\<close>

lemma start_hop_send:
  assumes "start_hop c st env e = (Hop_Send why s, e1)"
  shows "engine_allows (hop_request c st) (he_auth env) e" "\<not> dry_run (en_safety e)"
    "o_target s = hp_current st" "o_method s = hp_method st" "same_setup e1 e"
    "requests (en_safety e1) = requests (en_safety e) + 1"
    "in_flight (en_safety e1) = in_flight (en_safety e) + 1"
    "\<exists>e2. same_setup e2 e \<and> pin_connection e2 (he_look env) (he_confirm env) (hp_current st) (hp_headers st)
        = Inr (o_url s, o_headers s)"
proof -
  obtain r e2 where a: "authorize_request (hop_request c st) (he_auth env) e = (r, e2)" by fastforce
  note same = authorize_request_same [OF a]
  obtain rr stamps where rq: "rate_require (en_rate_limits e2) (he_now env) (he_later env) (en_stamps e2)
      = (rr, stamps)" by fastforce
  from assms a rq obtain d where d: "r = Inr d" "allowed d" "\<not> dry_run (en_safety e2)"
    and pin: "pin_connection (e2\<lparr>en_stamps := stamps\<rparr>) (he_look env) (he_confirm env) (hp_current st)
       (hp_headers st) = Inr (o_url s, o_headers s)"
    and o: "o_target s = hp_current st" "o_method s = hp_method st"
    and e1: "e1 = e2\<lparr>en_stamps := stamps, en_safety := acquire (hp_current st) (en_safety e2)\<rparr>"
    by (auto simp: start_hop_def Let_def split: sum.splits if_splits prod.splits error.splits)
  show "engine_allows (hop_request c st) (he_auth env) e" using d a by (simp add: engine_allows_def)
  show "\<not> dry_run (en_safety e)" using d same by (simp add: same_setup_def)
  show "o_target s = hp_current st" "o_method s = hp_method st" by (rule o)+
  show "same_setup e1 e" "requests (en_safety e1) = requests (en_safety e) + 1"
    "in_flight (en_safety e1) = in_flight (en_safety e) + 1"
    using same by (simp_all add: e1 same_setup_def same_counters_def acquire_def)
  have "same_setup (e2\<lparr>en_stamps := stamps\<rparr>) e" using same by (simp add: same_setup_def)
  with pin show "\<exists>e2. same_setup e2 e \<and> pin_connection e2 (he_look env) (he_confirm env)
      (hp_current st) (hp_headers st) = Inr (o_url s, o_headers s)" by blast
qed

lemma start_hop_other:
  assumes "start_hop c st env e = (h, e1)" and "\<And>why s. h \<noteq> Hop_Send why s"
  shows "same_setup e1 e \<and> same_counters e1 e"
proof -
  obtain r e2 where a: "authorize_request (hop_request c st) (he_auth env) e = (r, e2)" by fastforce
  note same = authorize_request_same [OF a]
  have s: "same_setup (engine_audit ca sta (e2\<lparr>en_stamps := x\<rparr>)) e"
    "same_setup (engine_audit ca sta e2) e" "same_setup (e2\<lparr>en_stamps := x\<rparr>) e"
    "same_counters (engine_audit ca sta (e2\<lparr>en_stamps := x\<rparr>)) e"
    "same_counters (engine_audit ca sta e2) e" "same_counters (e2\<lparr>en_stamps := x\<rparr>) e" for x ca sta
    using same by (simp_all add: same_setup_def same_counters_def)
  show ?thesis using assms same
    by (auto simp: start_hop_def a s Let_def split: sum.splits if_splits prod.splits error.splits)
qed

section \<open>Everything that is sent was authorized\<close>

text \<open>A request that the scope guard, and on a live engine the address policy and the approval of
  active testing, allowed at the hop that sent it.\<close>

definition send_allowed :: "engine \<Rightarrow> client_call \<Rightarrow> hop_env \<Rightarrow> http_send \<Rightarrow> bool" where
  "send_allowed e c env s \<longleftrightarrow>
     \<not> dry_run (en_safety e) \<and>
     (\<exists>tool\<in>{cl_tool c, cl_tool c @ ''_redirect''}.
        allowed (authorize (en_guard e) (o_target s) (o_method s) tool (cl_active c) False)) \<and>
     (ss_mode (en_session e) = LIVE \<longrightarrow>
        ad_allowed (dns_authorize (en_dns e) (k_resolver (he_auth env)) (o_target s) False
          (s_lab_hosts (ss_scope (en_session e)))) \<and>
        (cl_active c \<longrightarrow> is_granted (en_approvals e) (k_active (he_auth env)) ENABLE_ACTIVE_TESTING))"

definition sends_allowed :: "engine \<Rightarrow> client_call \<Rightarrow> (nat \<Rightarrow> hop_env) \<Rightarrow> nat \<Rightarrow> http_send list \<Rightarrow> bool" where
  "sends_allowed e c env n sends = list_all (\<lambda>(i, s). send_allowed e c (env i) s) (enumerate n sends)"

lemma send_allowed_same: "same_setup a b \<Longrightarrow> send_allowed a c env s = send_allowed b c env s"
  by (simp add: send_allowed_def same_setup_def)

lemma sends_allowed_same: "same_setup a b \<Longrightarrow> sends_allowed a c env n ss = sends_allowed b c env n ss"
  by (simp add: sends_allowed_def send_allowed_same)

lemma sends_allowed_Cons [simp]:
  "sends_allowed e c env n (s # ss) \<longleftrightarrow> send_allowed e c (env n) s \<and> sends_allowed e c env (Suc n) ss"
  "sends_allowed e c env n []"
  by (simp_all add: sends_allowed_def)

lemma start_hop_allowed:
  assumes "start_hop c st env e = (Hop_Send why s, e1)"
  shows "send_allowed e c env s"
proof -
  have "engine_permits e (hop_request c st) (he_auth env)"
    using start_hop_send(1) [OF assms] by (simp add: engine_allows_iff)
  then show ?thesis using start_hop_send(2-4) [OF assms]
    by (cases "hp_hops st = 0") (auto simp: engine_permits_def approvals_permit_def send_allowed_def hop_request_def
        consult_guard_def live_addresses_def Let_def)
qed

lemma end_hop_same [simp]: "same_setup (end_hop e) e' \<longleftrightarrow> same_setup e e'"
  by (simp add: end_hop_def release_def same_setup_def)

text \<open>The cases of the loop.\<close>

lemma run_hops_cases:
  assumes "run_hops c env st e = (res, e', sends)"
  obtains (none) h where "start_hop c st (env (hp_hops st)) e = (h, e')" "\<And>why s. h \<noteq> Hop_Send why s"
      "sends = []"
  | (last) why s e1 where "start_hop c st (env (hp_hops st)) e = (Hop_Send why s, e1)"
      "e' = end_hop e1" "sends = [s]"
  | (more) why s e1 st' rest where "start_hop c st (env (hp_hops st)) e = (Hop_Send why s, e1)"
      "after_reply c st (he_net (env (hp_hops st)) s) = Next_Hop st'"
      "run_hops c env st' (end_hop e1) = (res, e', rest)" "sends = s # rest"
proof -
  obtain h e1 where h: "start_hop c st (env (hp_hops st)) e = (h, e1)" by fastforce
  show ?thesis
  proof (cases h)
    case (Hop_Send why s)
    obtain n where n: "after_reply c st (he_net (env (hp_hops st)) s) = n" by simp
    show ?thesis
    proof (cases n)
      case (Next_Hop st')
      obtain r e3 rest where r: "run_hops c env st' (end_hop e1) = (r, e3, rest)"
        by (metis prod_cases3)
      show ?thesis using assms more [of why s e1 st' rest] h Hop_Send n Next_Hop r
        by (subst (asm) run_hops.simps) (simp add: Let_def)
    qed (use assms last [of why s e1] h Hop_Send n in \<open>(subst (asm) run_hops.simps, simp add: Let_def)+\<close>)
  qed (use assms none [of h] h in \<open>(subst (asm) run_hops.simps, simp)+\<close>)
qed

lemma next_hop:
  assumes "after_reply c st reply = Next_Hop st'"
  shows "hp_hops st' = hp_hops st + 1" "hp_remaining st' = hp_remaining st - 1" "0 < hp_remaining st"
    "headers_for_redirect (hp_current st) (hp_current st') (hp_headers st) = Inr (hp_headers st')"
  using assms by (auto simp: after_reply_def Let_def split: net_reply.splits if_splits sum.splits prod.splits)

lemma run_hops_allowed:
  "run_hops c env st e = (res, e', sends) \<Longrightarrow> sends_allowed e c env (hp_hops st) sends \<and> same_setup e' e"
proof (induction c env st e arbitrary: res e' sends rule: run_hops.induct)
  case (1 c env st e)
  from "1.prems" show ?case
  proof (cases rule: run_hops_cases)
    case none
    then show ?thesis using start_hop_other by fastforce
  next
    case last
    then show ?thesis using start_hop_allowed start_hop_send(5) by fastforce
  next
    case (more why s e1 st' rest)
    have "same_setup (end_hop e1) e" using start_hop_send(5) [OF more(1)] by simp
    moreover have "sends_allowed (end_hop e1) c env (hp_hops st') rest \<and> same_setup e' (end_hop e1)"
      by (rule "1.IH" [OF more(1) [symmetric] refl refl]) (use more in simp_all)
    ultimately show ?thesis using more start_hop_allowed [OF more(1)] next_hop(1) [OF more(2)]
        sends_allowed_same same_setup_trans by (metis Suc_eq_plus1 sends_allowed_Cons(1))
  qed
qed

lemma engine_audit_same [simp]:
  "same_setup (engine_audit c st e) e' \<longleftrightarrow> same_setup e e'"
  "same_counters (engine_audit c st e) e' \<longleftrightarrow> same_counters e e'"
  by (simp_all add: same_setup_def same_counters_def)

text \<open>What a request sent, in order, and the engine it leaves behind.\<close>

definition requests_sent ::
    "string \<Rightarrow> http_call \<Rightarrow> (nat \<Rightarrow> hop_env) \<Rightarrow> stamp \<Rightarrow> stamp \<Rightarrow> stamp \<Rightarrow> engine \<Rightarrow> http_send list" where
  "requests_sent tool h env made copied st e = snd (snd (http_request tool h env made copied st e))"

definition engine_after ::
    "string \<Rightarrow> http_call \<Rightarrow> (nat \<Rightarrow> hop_env) \<Rightarrow> stamp \<Rightarrow> stamp \<Rightarrow> stamp \<Rightarrow> engine \<Rightarrow> engine" where
  "engine_after tool h env made copied st e = fst (snd (http_request tool h env made copied st e))"

lemma http_request_hops:
  obtains res1 e1 where "run_hops (client_call_of tool h e) env (initial_hop h e) e
      = (res1, e1, requests_sent tool h env made copied st e)"
    "same_setup (engine_after tool h env made copied st e) e1"
    "same_counters (engine_after tool h env made copied st e) e1"
proof -
  obtain res1 e1 s1 where r: "run_hops (client_call_of tool h e) env (initial_hop h e) e = (res1, e1, s1)"
    by (metis prod_cases3)
  then have "requests_sent tool h env made copied st e = s1 \<and>
      same_setup (engine_after tool h env made copied st e) e1 \<and>
      same_counters (engine_after tool h env made copied st e) e1"
    by (auto simp: http_request_def requests_sent_def engine_after_def split: hops_result.splits sum.splits)
  with r that show ?thesis by blast
qed

text \<open>C1. Nothing is sent that was not authorized, redirects included: the scope guard allowed the
  method and the URL of every request handed to the network at the hop that sent it; on a live
  engine the resolved addresses satisfied the live policy and, for an active request, a human had
  approved active testing; a dry-run engine sends nothing.\<close>

theorem every_send_is_authorized:
  "sends_allowed e (client_call_of tool h e) env 0 (requests_sent tool h env made copied st e)"
proof -
  obtain res1 e1 where "run_hops (client_call_of tool h e) env (initial_hop h e) e
      = (res1, e1, requests_sent tool h env made copied st e)" using http_request_hops by blast
  from run_hops_allowed [OF this] show ?thesis by (simp add: initial_hop_def)
qed

section \<open>How much is sent, and what is left behind\<close>

lemma run_hops_counts:
  "run_hops c env st e = (res, e', sends) \<Longrightarrow> 0 \<le> in_flight (en_safety e) \<Longrightarrow>
   in_flight (en_safety e') = in_flight (en_safety e) \<and>
   requests (en_safety e') = requests (en_safety e) + int (length sends) \<and>
   length sends \<le> Suc (nat (hp_remaining st))"
proof (induction c env st e arbitrary: res e' sends rule: run_hops.induct)
  case (1 c env st e)
  have ended: "in_flight (en_safety (end_hop e1)) = in_flight (en_safety e) \<and>
      requests (en_safety (end_hop e1)) = requests (en_safety e) + 1"
    if "start_hop c st (env (hp_hops st)) e = (Hop_Send why s, e1)" for why s e1
    using start_hop_send(6,7) [OF that] "1.prems"(2) by (simp add: end_hop_def release_def)
  from "1.prems"(1) show ?case
  proof (cases rule: run_hops_cases)
    case none
    then show ?thesis using start_hop_other by (fastforce simp: same_counters_def)
  next
    case last
    then show ?thesis using ended by simp
  next
    case (more why s e1 st' rest)
    have "in_flight (en_safety e') = in_flight (en_safety (end_hop e1)) \<and>
        requests (en_safety e') = requests (en_safety (end_hop e1)) + int (length rest) \<and>
        length rest \<le> Suc (nat (hp_remaining st'))"
      by (rule "1.IH" [OF more(1) [symmetric] refl refl]) (use more ended "1.prems"(2) in simp_all)
    moreover have "Suc (nat (hp_remaining st')) = nat (hp_remaining st)"
      using next_hop(2,3) [OF more(2)] by simp
    ultimately show ?thesis using more ended [OF more(1)] by simp
  qed
qed

text \<open>A request sends at most one message more than the redirects it may follow, counts each of them
  once, and leaves no slot of the controller occupied, whatever the network answers and however
  it ends.\<close>

theorem request_is_bounded:
  assumes "0 \<le> in_flight (en_safety e)"
  shows "length (requests_sent tool h env made copied st e)
      \<le> Suc (if hc_follow h then nat (max_redirects (limits (en_safety e))) else 0) \<and>
    requests (en_safety (engine_after tool h env made copied st e))
      = requests (en_safety e) + int (length (requests_sent tool h env made copied st e)) \<and>
    in_flight (en_safety (engine_after tool h env made copied st e)) = in_flight (en_safety e)"
proof -
  obtain res1 e1 where r: "run_hops (client_call_of tool h e) env (initial_hop h e) e
      = (res1, e1, requests_sent tool h env made copied st e)"
    and "same_counters (engine_after tool h env made copied st e) e1" using http_request_hops by blast
  with run_hops_counts [OF r assms] show ?thesis
    by (simp add: same_counters_def initial_hop_def split: if_splits)
qed

definition sample_engine :: engine where
  "sample_engine =
     \<lparr>en_session = \<lparr>ss_project = ''p'', ss_mode = LIVE, ss_scope = closed_scope,
        ss_limits = conservative_limits, ss_dry_run = False, ss_active = False, ss_fuzzing = False,
        ss_id = ''s''\<rparr>,
      en_guard = closed_scope, en_safety = new_safety (Some conservative_limits) False,
      en_rate_limits = conservative_limits, en_stamps = [],
      en_scanner = scanner_tighten conservative_limits default_scanner_policy, en_dns = live_policy,
      en_approvals = [], en_audit = audit_open [], en_evidence = [], en_findings = []\<rparr>"

definition sample_readings :: readings where
  "sample_readings =
     \<lparr>k_live_scan = 0, k_poc = 0, k_high_risk = 0, k_active = 0, k_fuzzing = 0, k_begin = 0,
      k_elapsed = 0, k_log = 0, k_granted = 0, k_mono = 0, k_resolver = (\<lambda>h. []),
      k_stamp = (''a'', 0)\<rparr>"

definition sample_env :: "nat \<Rightarrow> hop_env" where
  "sample_env n =
     \<lparr>he_auth = sample_readings, he_stamp = (''b'', 0), he_now = of_nat n, he_later = of_nat n,
      he_look = (\<lambda>h. []), he_confirm = (\<lambda>h. []), he_net = (\<lambda>s. Net_Timeout ''timed out'')\<rparr>"

definition sample_http :: http_call where
  "sample_http =
     \<lparr>hc_method = ''GET'', hc_url = ''https://example.com/'', hc_headers = None,
      hc_content = No_Payload, hc_timeout = None, hc_destructive = False, hc_active = False,
      hc_follow = True\<rparr>"

theorem request_is_bounded_witness:
  "in_flight (en_safety (engine_after ''poc'' sample_http sample_env (''m'', 0) (''c'', 0) (''d'', 0)
      sample_engine)) = 0 \<and>
   length (requests_sent ''poc'' sample_http sample_env (''m'', 0) (''c'', 0) (''d'', 0) sample_engine) \<le> 4"
  using request_is_bounded [of sample_engine "''poc''" sample_http sample_env "(''m'', 0)" "(''c'', 0)" "(''d'', 0)"]
  by (simp add: sample_engine_def sample_http_def new_safety_def conservative_limits_def)

section \<open>Secrets stay with their origin\<close>

definition secret_names :: "(string, string) dict \<Rightarrow> string list" where
  "secret_names headers = filter (\<lambda>k. py_lower k \<in> set sensitive_headers) (map fst headers)"

text \<open>A message that carries a sensitive header goes to the origin of the given URL.\<close>

definition keeps_secrets :: "string \<Rightarrow> http_send \<Rightarrow> bool" where
  "keeps_secrets url s \<longleftrightarrow> secret_names (o_headers s) = [] \<or> origin (o_target s) = origin url"

lemma pin_secrets:
  assumes "pin_connection e look confirm url headers = Inr (url', headers')"
  shows "secret_names headers' = secret_names headers"
proof -
  have "py_lower ''Host'' \<notin> set sensitive_headers" by code_simp
  then have "secret_names (dict_setdefault ''Host'' v d) = secret_names d" for v d
    by (simp add: secret_names_def dict_setdefault_def split: option.splits)
  with assms show ?thesis
    by (auto simp: pin_connection_def Let_def split: if_splits list.splits)
qed

lemma redirect_secrets:
  assumes "headers_for_redirect a b headers = Inr headers'"
  shows "secret_names headers' = [] \<or> (origin b = origin a \<and> headers' = headers)"
  using assms by (auto simp: headers_for_redirect_def same_origin_def secret_names_def filter_empty_conv
      split: if_splits)

lemma redirect_keeps_none:
  "headers_for_redirect a b headers = Inr headers' \<Longrightarrow> secret_names headers = [] \<Longrightarrow> secret_names headers' = []"
  by (auto simp: headers_for_redirect_def secret_names_def filter_empty_conv split: if_splits)

lemma run_hops_secrets:
  "run_hops c env st e = (res, e', sends) \<Longrightarrow>
   secret_names (hp_headers st) = [] \<or> origin (hp_current st) = origin url \<Longrightarrow>
   list_all (keeps_secrets url) sends"
proof (induction c env st e arbitrary: res e' sends rule: run_hops.induct)
  case (1 c env st e)
  have first: "keeps_secrets url s"
    if "start_hop c st (env (hp_hops st)) e = (Hop_Send why s, e1)" for why s e1
    using start_hop_send(3,8) [OF that] "1.prems"(2) pin_secrets by (fastforce simp: keeps_secrets_def)
  from "1.prems"(1) show ?case
  proof (cases rule: run_hops_cases)
    case (more why s e1 st' rest)
    have "secret_names (hp_headers st') = [] \<or> origin (hp_current st') = origin url"
      using redirect_secrets [OF next_hop(4) [OF more(2)]] redirect_keeps_none [OF next_hop(4) [OF more(2)]]
        "1.prems"(2) by auto
    then have "list_all (keeps_secrets url) rest"
      by (intro "1.IH" [OF more(1) [symmetric] refl refl]) (use more in simp_all)
    with more first show ?thesis by simp
  qed (use first in simp_all)
qed

text \<open>C37. Credentials do not leave their origin: every message that carries an Authorization, Cookie or
  other sensitive header goes to the scheme, host and port of the URL the caller gave, through any
  chain of redirects, also one that comes back after leaving.\<close>

theorem secrets_stay_with_origin:
  "list_all (keeps_secrets (hc_url h)) (requests_sent tool h env made copied st e)"
proof -
  obtain res1 e1 where "run_hops (client_call_of tool h e) env (initial_hop h e) e
      = (res1, e1, requests_sent tool h env made copied st e)" using http_request_hops by blast
  from run_hops_secrets [OF this] show ?thesis by (simp add: initial_hop_def)
qed

section \<open>Pinned addresses\<close>

text \<open>On a live engine a plain HTTP request to a host name is connected to an address, not to the
  name: the address was allowed by the policy just before, is a public one, and a second look-up of
  the same name still returned it.\<close>

theorem pinned_to_public_address:
  assumes "ss_mode (en_session e) = LIVE" "en_dns e = live_policy"
    and "urlparse [] url = Inr u" "url_hostname u \<noteq> []" "try_ip (url_hostname u) = None"
    and "py_lower (or_text (pu_scheme u) ''https'') \<noteq> ''https''"
    and "pin_connection e look confirm url headers = Inr (url', headers')"
  shows "\<exists>a p. url_port u = Inr p \<and> url' = urlunparse (u\<lparr>pu_netloc := with_port a p\<rparr>) \<and>
           public_address a \<and> a \<in> set (confirm (url_hostname u))"
proof -
  define d where "d = dns_authorize (en_dns e) look url False (s_lab_hosts (ss_scope (en_session e)))"
  define overlap where "overlap = filter (\<lambda>a. a \<in> set (addresses d)) (confirm (url_hostname u))"
  define pin where "pin = (case overlap of a # as \<Rightarrow> a
    | [] \<Rightarrow> (case addresses d of a # as \<Rightarrow> a | [] \<Rightarrow> []))"
  have "pin_connection e look confirm url headers =
     (if \<not> ad_allowed d then Inl (AuthorizationDeniedError (ad_reason d))
      else if addresses d \<noteq> [] \<and> overlap = [] then Inl (AuthorizationDeniedError
        ''DNS rebinding detected: resolved addresses changed after authorization'')
      else if pin = [] then
        Inl (AuthorizationDeniedError ''Live connection refused: no pinned address'')
      else then_do (url_port u) (\<lambda>p. Inr (urlunparse (u\<lparr>pu_netloc := with_port pin p\<rparr>),
        dict_setdefault ''Host'' (with_port (url_hostname u) p) headers)))"
    unfolding pin_connection_def Let_def d_def overlap_def pin_def using assms(1,3-6) by simp
  with assms(7) obtain p where ok: "ad_allowed d" "\<not> (addresses d \<noteq> [] \<and> overlap = [])"
    and p: "url_port u = Inr p" "url' = urlunparse (u\<lparr>pu_netloc := with_port pin p\<rparr>)"
    by (auto split: if_splits)
  have as: "addresses d \<noteq> [] \<and> list_all (address_ok live_policy) (addresses d)"
    using dns_allowed_addresses ok(1) assms(2) unfolding d_def by metis
  with ok have "pin \<in> set overlap" by (cases overlap) (auto simp: pin_def)
  with as p show ?thesis using live_address_public by (auto simp: overlap_def list_all_iff)
qed

definition pinned_sample :: "(string \<times> (string, string) dict) result" where
  "pinned_sample = pin_connection sample_engine (\<lambda>h. [''8.8.8.8'']) (\<lambda>h. [''8.8.4.4'', ''8.8.8.8''])
     ''http://dns.example:8080/q'' []"

theorem pinned_to_public_address_witness:
  "pinned_sample = Inr (''http://8.8.8.8:8080/q'', [(''Host'', ''dns.example:8080'')]) \<and>
   public_address ''8.8.8.8''"
proof -
  let ?u = "\<lparr>pu_scheme = ''http'', pu_netloc = ''dns.example:8080'', pu_path = ''/q'', pu_params = [],
    pu_query = [], pu_fragment = []\<rparr>"
  have pin: "pin_connection sample_engine (\<lambda>h. [''8.8.8.8'']) (\<lambda>h. [''8.8.8.8''])
     ''http://dns.example:8080/q'' [] = Inr (''http://8.8.8.8:8080/q'', [(''Host'', ''dns.example:8080'')])"
    by code_simp
  have "ss_mode (en_session sample_engine) = LIVE" "en_dns sample_engine = live_policy"
    by (simp_all add: sample_engine_def)
  moreover have "urlparse [] ''http://dns.example:8080/q'' = Inr ?u" "url_hostname ?u \<noteq> []"
    "try_ip (url_hostname ?u) = None" "py_lower (or_text (pu_scheme ?u) ''https'') \<noteq> ''https''"
    by code_simp+
  ultimately have "\<exists>a p. url_port ?u = Inr p \<and>
      ''http://8.8.8.8:8080/q'' = urlunparse (?u\<lparr>pu_netloc := with_port a p\<rparr>) \<and>
      public_address a \<and> a \<in> set [''8.8.8.8'']"
    using pinned_to_public_address [OF _ _ _ _ _ _ pin] by auto
  moreover have "pinned_sample = Inr (''http://8.8.8.8:8080/q'', [(''Host'', ''dns.example:8080'')])"
    by code_simp
  ultimately show ?thesis by auto
qed


section \<open>An IPv6 address in the place of the host\<close>

text \<open>Addresses of 128 bits are evaluated by rewriting with numerals.\<close>

definition sample_v6 :: "128 word" where "sample_v6 = 0x26064700000000000000000000001111"

lemma v6_mask_numeral: "v6_mask p = (- 1) XOR mask (128 - p)"
proof -
  have "drop_bit p (- 1 :: 128 word) = mask (128 - p)"
    by (rule bit_word_eqI) (auto simp: bit_simps)
  then show ?thesis by (simp add: v6_mask_def)
qed

lemma replicate_unfold: "replicate (numeral k) x = x # replicate (pred_numeral k) x"
  by (simp add: numeral_eq_Suc)

lemmas v6_eval = ip_in.simps v6_mask_numeral mask_eq_exp_minus_1 n6_def replicate_unfold sample_v6_def

lemma sample_v6_parsed: "ip_address ''2606:4700::1111'' = Some (V6 sample_v6 None)" by code_simp

lemma sample_v6_blocks:
  "map ip_network (blocked_networks live_policy) =
     [Some (N4 0xA9FEA9FE 32), Some (N4 0x0A000000 8), Some (N4 0xAC100000 12),
      Some (N4 0xC0A80000 16), Some (N4 0x7F000000 8), Some (N4 0 8),
      Some (N6 0xFC000000000000000000000000000000 7 None), Some (N6 1 128 None)]"
  by code_simp

lemma sample_v6_public: "public_ip (V6 sample_v6 None)"
  by (simp add: public_ip_def is_reserved.simps v6_reserved_networks_def is_private.simps
      v6_private_networks_def v4_mapped_def is_loopback.simps is_link_local.simps
      is_multicast.simps is_unspecified.simps v6_eval)

lemma sample_v6_ok: "address_refusal live_policy ''2606:4700::1111'' = None"
proof -
  have "blocked_by live_policy (V6 sample_v6 None) (blocked_networks live_policy) = None"
    using sample_v6_blocks by (simp add: live_policy_def v6_eval)
  moreover have "ip_show (V6 sample_v6 None) \<noteq> metadata_ip" by code_simp
  ultimately show ?thesis using sample_v6_public by (simp add: address_refusal_def sample_v6_parsed public_ip_def)
qed

lemma sample_v6_dns:
  "dns_authorize live_policy (\<lambda>h. [''2606:4700::1111'']) ''http://dns.example/q'' False hosts =
     dns_decision True ''Resolved addresses permitted'' ''dns.example'' [''2606:4700::1111''] []"
proof -
  obtain t where "normalize ''http://dns.example/q'' None None ''https'' = Inr t"
    "or_text (hostname t) (case t_ip t of None \<Rightarrow> [] | Some i \<Rightarrow> i) = ''dns.example''"
  proof
    let ?t = "(bare_target ''http://dns.example/q'' None None AT_URL)\<lparr>t_scheme := ''http'',
      hostname := ''dns.example'', port := Some 80, t_path := ''/q'', t_url := ''http://dns.example/q''\<rparr>"
    show "normalize ''http://dns.example/q'' None None ''https'' = Inr ?t" by code_simp
  qed (simp add: or_text_def)
  moreover have "try_ip ''dns.example'' = None" by code_simp
  ultimately show ?thesis
    by (simp add: dns_authorize_def Let_def judge_addresses_def refused_addresses_def sample_v6_ok)
qed

text \<open>A pinned IPv6 address is put into the URL without brackets: the host of the URL that is
  connected to is then only the first group of the address, and its port cannot be read.\<close>

theorem ipv6_pin_gap:
  "(case pin_connection sample_engine (\<lambda>h. [''2606:4700::1111'']) (\<lambda>h. [''2606:4700::1111''])
            ''http://dns.example/q'' [] of
      Inl exc \<Rightarrow> False
    | Inr (url, headers) \<Rightarrow> url = ''http://2606:4700::1111/q'' \<and>
        (case urlparse [] url of
           Inl exc \<Rightarrow> False
         | Inr u \<Rightarrow> url_hostname u = ''2606'' \<and> \<not> is_ok (url_port u)))"
proof -
  let ?u = "\<lparr>pu_scheme = ''http'', pu_netloc = ''dns.example'', pu_path = ''/q'', pu_params = [],
    pu_query = [], pu_fragment = []\<rparr>"
  let ?v = "?u\<lparr>pu_netloc := ''2606:4700::1111''\<rparr>"
  have "urlparse [] ''http://dns.example/q'' = Inr ?u" "url_hostname ?u = ''dns.example''"
    "try_ip ''dns.example'' = None" "py_lower (or_text ''http'' ''https'') = ''http''"
    "url_port ?u = Inr None" "urlunparse ?v = ''http://2606:4700::1111/q''"
    "urlparse [] ''http://2606:4700::1111/q'' = Inr ?v" "url_hostname ?v = ''2606''"
    "\<not> is_ok (url_port ?v)" by code_simp+
  moreover have "ss_mode (en_session sample_engine) = LIVE" "en_dns sample_engine = live_policy"
    by (simp_all add: sample_engine_def)
  ultimately show ?thesis
    by (simp add: pin_connection_def Let_def sample_v6_dns dns_decision_def with_port_def)
qed

end
