(* ===== verification/EngineRuns.thy ===== *)
theory EngineRuns
  imports HttpClient
begin

text \<open>
  One engine in use: the operations that concurrent tasks interleave on it, the invariant they keep,
  and what that means for every decision in every run.
\<close>

section \<open>Interleaved use of one engine\<close>

text \<open>
  The operations on one engine, as concurrent tasks interleave them: a request is authorized and
  counted in one step and ends in another, and between the two any other operation may run.
\<close>

datatype engine_op =
    Op_Authorize auth_request readings
  | Op_Grant approval_kind string string stamp stamp
  | Op_Enable string string stamp stamp
  | Op_Start client_call hop_state hop_env
  | Op_End
  | Op_Report audit_call stamp
  | Op_Evidence "evidence list"

fun engine_step :: "engine \<Rightarrow> engine_op \<Rightarrow> engine" where
  "engine_step e (Op_Authorize q k) = snd (authorize_request q k e)"
| "engine_step e (Op_Grant kind operator note r st) = snd (engine_grant kind operator note r st e)"
| "engine_step e (Op_Enable operator note r st) = snd (enable_active_testing operator note r st e)"
| "engine_step e (Op_Start c st env) = snd (start_hop c st env e)"
| "engine_step e Op_End = end_hop e"
| "engine_step e (Op_Report c st) = engine_audit c st e"
| "engine_step e (Op_Evidence items) = add_evidence items e"

text \<open>An approval that a human gave and that is in force for good.\<close>

definition human_approved :: "engine \<Rightarrow> approval_kind \<Rightarrow> bool" where
  "human_approved e kind \<longleftrightarrow>
     (\<exists>r. get_record (en_approvals e) kind = Some r \<and> a_state r = GRANTED \<and>
          \<not> is_ai_operator (a_operator r))"

definition human_ledger :: "gate \<Rightarrow> bool" where
  "human_ledger g \<longleftrightarrow> list_all (\<lambda>(k, r). a_kind r = k \<and> a_state r = GRANTED \<and> \<not> is_ai_operator (a_operator r)) g"

text \<open>What holds of an engine at any time, for the session it was made for.\<close>

definition engine_ok :: "test_session \<Rightarrow> engine \<Rightarrow> bool" where
  "engine_ok ss e \<longleftrightarrow>
     ss_mode (en_session e) = ss_mode ss \<and>
     (ss_scope (en_session e) = ss_scope ss \<or>
      ss_scope (en_session e) = (ss_scope ss)\<lparr>s_allow_active := True\<rparr> \<and> human_approved e ENABLE_ACTIVE_TESTING) \<and>
     (ss_fuzzing (en_session e) \<longrightarrow> ss_fuzzing ss \<or> human_approved e ENABLE_FUZZING) \<and>
     en_guard e = ss_scope (en_session e) \<and>
     en_dns e = (if ss_mode ss = LAB then lab_policy else live_policy) \<and>
     human_ledger (en_approvals e) \<and> audit_ok (en_audit e) \<and>
     safety_ok (ss_limits ss) (en_safety e) \<and> dry_run (en_safety e) = ss_dry_run ss \<and>
     en_rate_limits e = ss_limits ss \<and> within_limits (ss_limits ss) (en_scanner e)"

lemma audit_ok_record: "audit_ok lg \<Longrightarrow> audit_ok (audit_record c uid now lg)"
  using audit_step_ok [of lg "(c, uid, now)"] by simp

lemma engine_audit_ok [intro]: "engine_ok ss e \<Longrightarrow> engine_ok ss (engine_audit c st e)"
  by (auto simp: engine_ok_def human_approved_def intro: audit_ok_record)

lemma map_of_human: "human_ledger g \<Longrightarrow> map_of g k = Some r \<Longrightarrow> \<not> is_ai_operator (a_operator r)"
  by (induction g) (auto simp: human_ledger_def split: if_splits)

lemma human_ledger_set:
  "human_ledger g \<Longrightarrow> a_kind r = k \<and> a_state r = GRANTED \<and> \<not> is_ai_operator (a_operator r) \<Longrightarrow>
   human_ledger (dict_set k r g)"
  by (induction k r g rule: dict_set.induct) (auto simp: human_ledger_def)

lemma grant_human:
  assumes "grant kind operator note None uid now g = Inr (r, g')" "human_ledger g"
  shows "human_ledger g' \<and> g' = dict_set kind r g \<and> a_state r = GRANTED \<and> \<not> is_ai_operator (a_operator r)"
  using assms by (auto simp: grant_def Let_def human_ledger_set split: if_splits)

text \<open>The safety controller of an engine passes through a checked and counted request unharmed.\<close>

lemma conclude_audit:
  "conclude d k e = (r, e') \<Longrightarrow> audit_ok (en_audit e) \<Longrightarrow> audit_ok (en_audit e')"
  by (auto simp: conclude_def log_decision_def audit_ok_record)

lemma authorize_audit:
  "authorize_request q k e = (r, e') \<Longrightarrow> audit_ok (en_audit e) \<Longrightarrow> audit_ok (en_audit e')"
  using authorize_logs [of q k e _ e'] authorize_raises [of q k e _ e']
  by (cases r) (auto simp: log_decision_def audit_ok_record)

lemma authorize_ok:
  assumes "authorize_request q k e = (r, e')" "engine_ok ss e"
  shows "engine_ok ss e'"
  using authorize_request_same [OF assms(1)] authorize_audit [OF assms(1)] assms(2)
  by (auto simp: engine_ok_def same_setup_def same_counters_def human_approved_def safety_ok_def)

lemma start_hop_audit:
  "start_hop c st env e = (h, e') \<Longrightarrow> audit_ok (en_audit e) \<Longrightarrow> audit_ok (en_audit e')"
  by (auto simp: start_hop_def Let_def audit_ok_record dest: authorize_audit
      split: prod.splits sum.splits if_splits error.splits)

lemma start_hop_safety:
  assumes "start_hop c st env e = (Hop_Send why s, e1)" "safety_ok l (en_safety e)"
  shows "safety_ok l (en_safety e1)"
proof -
  obtain r e2 where a: "authorize_request (hop_request c st) (he_auth env) e = (r, e2)" by fastforce
  have p: "safety_permits (begin_scan (k_begin (he_auth env)) (en_safety e)) (hp_current st)
      (py_upper (hp_method st)) (int (length (payload_text (hp_payload st)))) (cl_destructive c)
      (Some (consult_guard e (hop_request c st))) (k_elapsed (he_auth env))"
    using start_hop_send(1) [OF assms(1)]
    by (simp add: engine_allows_iff engine_permits_def hop_request_def)
  have "en_safety e1 = acquire (hp_current st) (en_safety e2)"
    using assms(1) a by (auto simp: start_hop_def Let_def split: sum.splits if_splits prod.splits error.splits)
  with authorize_request_same [OF a] assms(2) p show ?thesis
    by (simp add: safety_ok_def safety_permits_def same_setup_def same_counters_def acquire_def)
qed

lemma start_hop_ok:
  assumes s: "start_hop c st env e = (h, e1)" and ok: "engine_ok ss e"
  shows "engine_ok ss e1"
proof (cases "\<exists>why m. h = Hop_Send why m")
  case True
  then obtain why m where h: "start_hop c st env e = (Hop_Send why m, e1)" using s by blast
  show ?thesis using start_hop_send(5) [OF h] start_hop_safety [OF h] start_hop_audit [OF s] ok
    by (auto simp: engine_ok_def same_setup_def human_approved_def)
next
  case False
  with start_hop_other [OF s] start_hop_audit [OF s] ok show ?thesis
    by (auto simp: engine_ok_def same_setup_def same_counters_def human_approved_def safety_ok_def)
qed

lemma apply_active_ok:
  assumes "engine_ok ss e" "human_approved e ENABLE_ACTIVE_TESTING"
  shows "engine_ok ss (apply_active_testing operator st e)"
  using assms by (auto simp: apply_active_testing_def Let_def engine_ok_def human_approved_def audit_ok_record)

lemma ledger_ok:
  assumes "engine_ok ss e" "grant kind operator note None uid now (en_approvals e) = Inr (r, g)"
  shows "engine_ok ss (e\<lparr>en_approvals := g\<rparr>)" "human_approved (e\<lparr>en_approvals := g\<rparr>) kind"
  using grant_human [OF assms(2)] assms(1)
  by (auto simp: engine_ok_def human_approved_def get_record_def)

lemma fuzzing_ok:
  "engine_ok ss e \<Longrightarrow> human_approved e ENABLE_FUZZING \<Longrightarrow>
   engine_ok ss (e\<lparr>en_session := (en_session e)\<lparr>ss_fuzzing := True\<rparr>\<rparr>)"
  by (simp add: engine_ok_def human_approved_def)

lemma engine_grant_ok:
  assumes "engine_ok ss e"
  shows "engine_ok ss (snd (engine_grant kind operator note r st e))"
proof (cases "grant kind operator note None (fst r) (snd r) (en_approvals e)")
  case (Inr p)
  then obtain x g where g: "grant kind operator note None (fst r) (snd r) (en_approvals e) = Inr (x, g)"
    by (cases p) auto
  define e1 where "e1 = e\<lparr>en_approvals := g\<rparr>"
  have "engine_ok ss e1" "human_approved e1 kind"
    using ledger_ok [OF assms g] by (simp_all add: e1_def)
  moreover have es: "en_session e = en_session e1" by (simp add: e1_def)
  ultimately show ?thesis using assms g apply_active_ok fuzzing_ok [of ss e1]
    by (cases kind) (simp_all add: engine_grant_def Let_def e1_def [symmetric] es)
qed (use assms in \<open>simp add: engine_grant_def\<close>)

lemma enable_active_ok:
  assumes "engine_ok ss e"
  shows "engine_ok ss (snd (enable_active_testing operator note r st e))"
  using assms ledger_ok [OF assms] apply_active_ok
  by (auto simp: enable_active_testing_def split: sum.splits)

lemma engine_step_ok: "engine_ok ss e \<Longrightarrow> engine_ok ss (engine_step e x)"
proof (cases x)
  case Op_End
  then show "engine_ok ss e \<Longrightarrow> ?thesis"
    by (auto simp: end_hop_def release_def engine_ok_def human_approved_def safety_ok_def)
next
  case (Op_Evidence items)
  then show "engine_ok ss e \<Longrightarrow> ?thesis"
    by (simp add: add_evidence_def engine_ok_def human_approved_def)
qed (auto simp: engine_grant_ok enable_active_ok intro: authorize_ok start_hop_ok prod.collapse [symmetric])

lemma new_safety_dry [simp]: "dry_run (new_safety l dry) = dry"
  by (simp add: new_safety_def)

lemma new_engine_ok:
  assumes "new_engine ss = Inr e"
  shows "engine_ok (en_session e) e \<and>
    (lab_mode (ss_scope (en_session e)) \<longleftrightarrow> ss_mode (en_session e) = LAB)"
proof -
  have "audit_ok (audit_open [])" using audit_runs.init_inv by simp
  then show ?thesis using assms
    by (cases "ss_mode ss") (auto simp: new_engine_def Let_def engine_ok_def human_ledger_def new_safety_ok
        tighten_within as_lab_scope_def split: if_splits)
qed

interpretation engine_runs: machine "\<lambda>e. e = e0 \<and> (\<exists>ss. new_engine ss = Inr e0)" engine_step
  "engine_ok (en_session e0)" for e0
  by unfold_locales (auto simp: new_engine_ok engine_step_ok)

section \<open>Properties of every run\<close>

text \<open>The permission of active testing does not show in what governs or excludes a target.\<close>

lemma rules_without_permission [simp]:
  "no_exclusion (s\<lparr>s_allow_active := b\<rparr>) t = no_exclusion s t"
  "governs (s\<lparr>s_allow_active := b\<rparr>) t r = governs s t r"
  "method_allowed (s\<lparr>s_allow_active := b\<rparr>) m x = method_allowed s m x"
  by (simp_all add: no_exclusion_def governs_def method_allowed_def Let_def cong: option.case_cong if_cong)

text \<open>C3. A live engine never leaves its scope, in whatever order and interleaving it is used: what it
  allows is a target that no exclusion of the original scope covers and that an include rule
  governs, whose resolved addresses are all public; and an active request needs a record by which
  a human, not an AI, approved active testing.\<close>

theorem live_engine_stays_in_scope:
  assumes "new_engine ss = Inr e0" "ss_mode ss = LIVE" "e = run_ops engine_step e0 ops"
    and "engine_allows q k e"
  shows "(\<exists>t r. guard_normalize (q_target q) = Inr t \<and> no_exclusion (ss_scope ss) t \<and>
             governs (ss_scope ss) t r \<and> method_allowed (ss_scope ss) (py_upper (q_method q)) (Some r)) \<and>
         list_all public_address (addresses (live_addresses e q k)) \<and>
         addresses (live_addresses e q k) \<noteq> [] \<and>
         (q_active q \<longrightarrow> human_approved e ENABLE_ACTIVE_TESTING)"
proof -
  have ok: "engine_ok (en_session e0) e"
    using engine_runs.run_always [of e0 e0 ops] assms(1,3) by auto
  have s0: "en_session e0 = ss" "\<not> lab_mode (ss_scope ss)"
    using assms(1,2) by (auto simp: new_engine_def Let_def split: if_splits)
  have p: "engine_permits e q k" using assms(4) by (simp add: engine_allows_iff)
  have guard: "en_guard e = ss_scope ss \<or> en_guard e = (ss_scope ss)\<lparr>s_allow_active := True\<rparr>"
    and mode: "ss_mode (en_session e) = LIVE" and dns: "en_dns e = live_policy"
    and ledger: "human_ledger (en_approvals e)"
    using ok assms(2) by (auto simp: engine_ok_def s0)
  have "\<not> lab_mode (en_guard e)" using guard s0 by auto
  with p obtain t r where t: "guard_normalize (q_target q) = Inr t"
    "live_permits (en_guard e) t (q_method q) (q_tool q) (q_active q) r"
    by (auto simp: engine_permits_def consult_guard_def authorize_def authorize_live_allowed split: sum.splits)
  then have "no_exclusion (ss_scope ss) t \<and> governs (ss_scope ss) t r \<and>
      method_allowed (ss_scope ss) (py_upper (q_method q)) (Some r)"
    using guard by (elim disjE) (simp_all add: live_permits_def)
  moreover have "addresses (live_addresses e q k) \<noteq> [] \<and>
      list_all (address_ok live_policy) (addresses (live_addresses e q k))"
    using dns_allowed_addresses [of live_policy] p mode dns by (simp add: engine_permits_def live_addresses_def)
  moreover have "human_approved e ENABLE_ACTIVE_TESTING" if "q_active q"
    using p mode that map_of_human [OF ledger]
    by (auto simp: engine_permits_def approvals_permit_def Let_def granted_record human_approved_def get_record_def)
  ultimately show ?thesis using t list_all_imp live_address_public by blast
qed

text \<open>A laboratory engine stays in the laboratory: whatever happened before, it only allows targets
  on a loopback address or on one of the hosts its session lists.\<close>

theorem lab_engine_stays_in_lab:
  assumes "new_engine ss = Inr e0" "ss_mode ss = LAB" "e = run_ops engine_step e0 ops"
    and "engine_allows q k e"
  shows "\<exists>t. guard_normalize (q_target q) = Inr t \<and>
             is_loopback_or_lab_host (hostname t) (s_lab_hosts (ss_scope ss))"
proof -
  have ok: "engine_ok (en_session e0) e"
    using engine_runs.run_always [of e0 e0 ops] assms(1,3) by auto
  have s0: "lab_mode (ss_scope (en_session e0))" "s_lab_hosts (ss_scope (en_session e0)) = s_lab_hosts (ss_scope ss)"
    using assms(1,2) by (auto simp: new_engine_def Let_def as_lab_scope_def split: if_splits)
  then have "lab_mode (en_guard e)" "s_lab_hosts (en_guard e) = s_lab_hosts (ss_scope ss)"
    using ok by (auto simp: engine_ok_def)
  moreover have "allowed (consult_guard e q)"
    using assms(4) by (simp add: engine_allows_iff engine_permits_def)
  ultimately show ?thesis
    by (auto simp: consult_guard_def authorize_def authorize_lab_allowed lab_permits_def split: sum.splits)
qed

text \<open>In every run of an engine the audit log verifies, the numbers of requests, of requests in
  flight and of distinct targets respect the limits of the session, and the right to test actively
  is the session's own or was approved by a human.\<close>

theorem engine_invariant:
  assumes "new_engine ss = Inr e0" "e = run_ops engine_step e0 ops"
  shows "verify_chain (en_audit e) \<and> safety_ok (ss_limits ss) (en_safety e) \<and>
         (s_allow_active (ss_scope (en_session e)) \<longrightarrow>
            s_allow_active (ss_scope ss) \<or> human_approved e ENABLE_ACTIVE_TESTING)"
proof -
  have "engine_ok (en_session e0) e"
    using engine_runs.run_always [of e0 e0 ops] assms by auto
  moreover have "ss_limits (en_session e0) = ss_limits ss"
    "s_allow_active (ss_scope (en_session e0)) = s_allow_active (ss_scope ss)"
    using assms(1) by (auto simp: new_engine_def Let_def as_lab_scope_def split: if_splits)
  ultimately show ?thesis by (auto simp: engine_ok_def audit_ok_def)
qed

section \<open>Sample runs\<close>

lemma permits_audit [simp]: "engine_permits (engine_audit c st e) q k = engine_permits e q k"
  by (simp add: engine_permits_def approvals_permit_def consult_guard_def live_addresses_def
      rate_permits_def Let_def cong: sum.case_cong)

definition live_session :: test_session where
  "live_session =
     \<lparr>ss_project = ''p'', ss_mode = LIVE, ss_scope = sample_scope, ss_limits = conservative_limits,
      ss_dry_run = False, ss_active = False, ss_fuzzing = False, ss_id = ''s''\<rparr>"

definition lab_session :: test_session where
  "lab_session =
     \<lparr>ss_project = ''lab'', ss_mode = LAB, ss_scope = closed_scope, ss_limits = lab_limits,
      ss_dry_run = False, ss_active = False, ss_fuzzing = False, ss_id = ''s''\<rparr>"

definition made :: "test_session \<Rightarrow> engine" where
  "made ss = (case new_engine ss of Inr e \<Rightarrow> e | Inl exc \<Rightarrow> sample_engine)"

lemma made_sessions:
  "new_engine live_session = Inr (made live_session)" "new_engine lab_session = Inr (made lab_session)"
  by (simp_all add: made_def new_engine_def live_session_def lab_session_def sample_scope_def closed_scope_def)

definition human_grant :: engine_op where
  "human_grant = Op_Grant ENABLE_ACTIVE_TESTING ''alice'' [] (''r'', 5) (''l'', 6)"

definition live_request :: auth_request where
  "live_request =
     \<lparr>q_target = ''https://api.example.com/v1'', q_method = ''get'', q_tool = ''nuclei'', q_active = True,
      q_payload = 0, q_destructive = False, q_live_scan = False, q_poc = False, q_high_risk = False\<rparr>"

definition public_readings :: readings where
  "public_readings = sample_readings\<lparr>k_active := 7, k_resolver := (\<lambda>h. [''8.8.8.8''])\<rparr>"

text \<open>The engine after the grant, but for its log.\<close>

definition granted_engine :: engine where
  "granted_engine =
     (let scope = (ss_scope live_session)\<lparr>s_allow_active := True\<rparr> in
      (made live_session)
        \<lparr>en_approvals := [(ENABLE_ACTIVE_TESTING, \<lparr>a_kind = ENABLE_ACTIVE_TESTING, a_state = GRANTED,
           a_operator = ''alice'', a_note = [], a_id = ''r'', granted_at = 5, expires_at = None\<rparr>)],
         en_session := live_session\<lparr>ss_active := True, ss_scope := scope\<rparr>, en_guard := scope\<rparr>)"

lemma run_granted:
  "\<exists>c st. run_ops engine_step (made live_session) [human_grant] = engine_audit c st granted_engine"
proof -
  have "\<not> is_ai_operator ''alice''" by code_simp
  then show ?thesis
    by (auto simp: human_grant_def engine_grant_def grant_def apply_active_testing_def granted_engine_def
        made_def new_engine_def live_session_def sample_scope_def closed_scope_def Let_def)
qed

lemma granted_allows: "engine_allows live_request public_readings (run_ops engine_step (made live_session) [human_grant])"
proof -
  have "engine_permits granted_engine live_request public_readings" by code_simp
  then show ?thesis using run_granted by (auto simp: engine_allows_iff)
qed

theorem live_engine_stays_in_scope_witness:
  "human_approved (run_ops engine_step (made live_session) [human_grant]) ENABLE_ACTIVE_TESTING \<and>
   (\<exists>t r. guard_normalize ''https://api.example.com/v1'' = Inr t \<and> no_exclusion sample_scope t \<and>
      governs sample_scope t r)"
proof -
  have "ss_mode live_session = LIVE" by (simp add: live_session_def)
  from live_engine_stays_in_scope [OF made_sessions(1) this refl granted_allows]
  show ?thesis by (auto simp: live_request_def live_session_def)
qed

theorem lab_engine_stays_in_lab_witness:
  "\<exists>t. guard_normalize ''http://localhost:8000/x'' = Inr t \<and>
       is_loopback_or_lab_host (hostname t) (s_lab_hosts closed_scope)"
proof -
  let ?q = "live_request\<lparr>q_target := ''http://localhost:8000/x'', q_active := False\<rparr>"
  have "ss_mode lab_session = LAB" by (simp add: lab_session_def)
  moreover have "engine_allows ?q public_readings (run_ops engine_step (made lab_session) [Op_End])"
    unfolding engine_allows_iff by code_simp
  ultimately show ?thesis using lab_engine_stays_in_lab [OF made_sessions(2) _ refl]
    by (fastforce simp: live_request_def lab_session_def)
qed

theorem engine_invariant_witness:
  "verify_chain (en_audit (run_ops engine_step (made live_session) [human_grant])) \<and>
   human_approved (run_ops engine_step (made live_session) [human_grant]) ENABLE_ACTIVE_TESTING"
proof -
  have "\<not> s_allow_active (ss_scope live_session)"
    by (simp add: live_session_def sample_scope_def closed_scope_def)
  moreover have "s_allow_active (ss_scope (en_session (run_ops engine_step (made live_session) [human_grant])))"
    using run_granted by (auto simp: granted_engine_def Let_def)
  ultimately show ?thesis using engine_invariant [OF made_sessions(1) refl, of "[human_grant]"] by blast
qed

end
