(* ===== verification/H1Program.thy ===== *)
theory H1Program
  imports Scope Sha256 Clock
begin

text \<open>
  The HackerOne program data and the decisions taken on it: \<open>adapters/hackerone/models.py\<close>,
  \<open>remote_state.py\<close>, \<open>hashes.py\<close>, \<open>scope_hash.py\<close>, \<open>freshness.py\<close>, \<open>weakness.py\<close> and
  \<open>evaluator.py\<close>. The untouched API payload that a record keeps for reference (\<open>original\<close>) is left
  out; nothing reads it.
\<close>

section \<open>JSON values of the API\<close>

definition json_opt :: "string option \<Rightarrow> json" where
  "json_opt v = (case v of None \<Rightarrow> JNull | Some s \<Rightarrow> JStr s)"

definition json_int_opt :: "int option \<Rightarrow> json" where
  "json_int_opt v = (case v of None \<Rightarrow> JNull | Some i \<Rightarrow> JInt i)"

definition text_or_empty :: "string option \<Rightarrow> string" where
  "text_or_empty v = (case v of None \<Rightarrow> [] | Some s \<Rightarrow> s)"

fun json_true :: "json \<Rightarrow> bool" where
  "json_true (JStr s) = (s \<noteq> [])"
| "json_true (JInt i) = (i \<noteq> 0)"
| "json_true (JNum n) = list_ex (\<lambda>c. c \<in> set ''123456789in'') (takeWhile (\<lambda>c. c \<notin> set ''eE'') n)"
| "json_true (JBool b) = b"
| "json_true JNull = False"
| "json_true (JList xs) = (xs \<noteq> [])"
| "json_true (JObj ps) = (ps \<noteq> [])"

text \<open>\<open>repr(v)\<close>, and \<open>str(v)\<close>; texts inside a list or an object have no quotes and no escapes.\<close>

fun json_repr :: "json \<Rightarrow> string" where
  "json_repr (JStr s) = [CHR 0x27] @ s @ [CHR 0x27]"
| "json_repr (JInt i) = show_int i"
| "json_repr (JNum n) = n"
| "json_repr (JBool b) = (if b then ''True'' else ''False'')"
| "json_repr JNull = ''None''"
| "json_repr (JList xs) = ''['' @ py_join '', '' (map json_repr xs) @ '']''"
| "json_repr (JObj ps) =
     ''{'' @ py_join '', '' (map (\<lambda>(k, v). [CHR 0x27] @ k @ [CHR 0x27] @ '': '' @ json_repr v) ps) @ ''}''"

definition json_str :: "json \<Rightarrow> string" where
  "json_str v = (case v of JStr s \<Rightarrow> s | _ \<Rightarrow> json_repr v)"

text \<open>\<open>str(v or "")\<close>.\<close>

definition json_text :: "json \<Rightarrow> string" where
  "json_text v = (if json_true v then json_str v else [])"

definition json_get :: "(string \<times> json) list \<Rightarrow> string \<Rightarrow> json" where
  "json_get ps k = (case map_of ps k of None \<Rightarrow> JNull | Some v \<Rightarrow> v)"

text \<open>\<open>attributes(node)\<close> and \<open>node_id(node)\<close>.\<close>

definition node_attributes :: "json \<Rightarrow> (string \<times> json) list" where
  "node_attributes node =
     (case node of JObj ps \<Rightarrow> (case json_get ps ''attributes'' of JObj as \<Rightarrow> as | _ \<Rightarrow> []) | _ \<Rightarrow> [])"

definition node_id :: "json \<Rightarrow> string" where
  "node_id node = (case node of JObj ps \<Rightarrow> json_text (json_get ps ''id'') | _ \<Rightarrow> [])"

text \<open>The identifier argument of \<open>parse_hackerone_id\<close>: absent, a number or a text.\<close>

type_synonym id_arg = "(int + string) option"

definition positive_id :: "int \<Rightarrow> int option" where
  "positive_id i = (if 0 < i then Some i else None)"

definition parse_hackerone_id :: "id_arg \<Rightarrow> int option" where
  "parse_hackerone_id v =
     (case v of
        None \<Rightarrow> None
      | Some (Inl i) \<Rightarrow> positive_id i
      | Some (Inr s) \<Rightarrow>
          (let t = py_strip s in
           if s = [] \<or> t = [] \<or> \<not> all_digits t then None else positive_id (int (nat_of_text t))))"

section \<open>Remote states\<close>

datatype remote_state =
    RS_UNKNOWN | RS_NEW | RS_PENDING | RS_TRIAGED | RS_RESOLVED | RS_CLOSED | RS_DUPLICATE
  | RS_INFORMATIVE | RS_NOT_APPLICABLE | RS_SPAM | RS_RETESTING | RS_NEEDS_MORE_INFO | RS_NOT_FETCHED

fun remote_value :: "remote_state \<Rightarrow> string" where
  "remote_value RS_UNKNOWN = ''unknown''"
| "remote_value RS_NEW = ''new''"
| "remote_value RS_PENDING = ''pending''"
| "remote_value RS_TRIAGED = ''triaged''"
| "remote_value RS_RESOLVED = ''resolved''"
| "remote_value RS_CLOSED = ''closed''"
| "remote_value RS_DUPLICATE = ''duplicate''"
| "remote_value RS_INFORMATIVE = ''informative''"
| "remote_value RS_NOT_APPLICABLE = ''not_applicable''"
| "remote_value RS_SPAM = ''spam''"
| "remote_value RS_RETESTING = ''retesting''"
| "remote_value RS_NEEDS_MORE_INFO = ''needs-more-info''"
| "remote_value RS_NOT_FETCHED = ''not_fetched''"

definition known_states :: "(string, remote_state) dict" where
  "known_states =
     [(''new'', RS_NEW), (''pending'', RS_PENDING), (''pending-triage'', RS_PENDING),
      (''triaged'', RS_TRIAGED), (''resolved'', RS_RESOLVED), (''closed'', RS_CLOSED),
      (''duplicate'', RS_DUPLICATE), (''informative'', RS_INFORMATIVE),
      (''not-applicable'', RS_NOT_APPLICABLE), (''spam'', RS_SPAM), (''retesting'', RS_RETESTING),
      (''needs-more-info'', RS_NEEDS_MORE_INFO)]"

definition map_remote_state :: "json \<Rightarrow> remote_state \<times> string" where
  "map_remote_state raw =
     (let text = py_strip (json_text raw) in
      if text = [] then (RS_NOT_FETCHED, [])
      else case map_of known_states (py_replace_char CHR ''_'' CHR ''-'' (py_lower text)) of
        None \<Rightarrow> (RS_UNKNOWN, text)
      | Some st \<Rightarrow> (st, text))"

section \<open>Programs\<close>

datatype sync_status = NEVER | SYNC_OK | SYNC_ERROR | INCOMPLETE

fun sync_value :: "sync_status \<Rightarrow> string" where
  "sync_value NEVER = ''never''"
| "sync_value SYNC_OK = ''ok''"
| "sync_value SYNC_ERROR = ''error''"
| "sync_value INCOMPLETE = ''incomplete''"

fun scope_mode_value :: "scope_mode \<Rightarrow> string" where
  "scope_mode_value CLOSED = ''closed''"
| "scope_mode_value OPEN = ''open''"

definition hackerone_asset_map :: "(string, asset_type) dict" where
  "hackerone_asset_map =
     [(''domain'', AT_DOMAIN), (''url'', AT_URL), (''wildcard'', AT_WILDCARD), (''ip_address'', AT_IP),
      (''ip'', AT_IP), (''cidr'', AT_CIDR), (''source_code'', AT_SOURCE_CODE),
      (''executable'', AT_EXECUTABLE), (''android_app'', AT_ANDROID_APP), (''ios_app'', AT_IOS_APP),
      (''hardware'', AT_HARDWARE), (''other'', AT_OTHER_ASSET), (''ai_model'', AT_AI_MODEL),
      (''other_asset'', AT_OTHER_ASSET)]"

definition asset_aliases :: "(string, asset_type) dict" where
  "asset_aliases =
     [(''hardware_iot'', AT_HARDWARE), (''hardware/iot'', AT_HARDWARE), (''wildcard'', AT_WILDCARD),
      (''ai_model'', AT_AI_MODEL), (''ai-model'', AT_AI_MODEL)]"

definition snake :: "string \<Rightarrow> string" where
  "snake s = py_replace_char CHR ''-'' CHR ''_'' (py_replace_char CHR '' '' CHR ''_'' (py_lower (py_strip s)))"

definition asset_type_from_hackerone :: "string \<Rightarrow> asset_type" where
  "asset_type_from_hackerone raw =
     (case map_of asset_aliases (snake raw) of
        Some t \<Rightarrow> t
      | None \<Rightarrow> dict_get hackerone_asset_map (snake raw) AT_UNSUPPORTED)"

record structured_scope =
  sc_id :: string
  sc_asset_type_raw :: string
  sc_asset_type :: asset_type
  sc_identifier :: string
  sc_instruction :: string
  sc_bounty :: bool
  sc_submission :: bool
  sc_reference :: "string option"

definition numeric_id :: "structured_scope \<Rightarrow> int option" where
  "numeric_id r = parse_hackerone_id (Some (Inr (sc_id r)))"

record scope_exclusion =
  xr_id :: string
  xr_category :: string
  xr_details :: string
  xr_created_at :: "string option"
  xr_updated_at :: "string option"

record weakness =
  w_id :: int
  w_name :: string
  w_description :: string
  w_external_id :: string

record h1_program =
  pg_handle :: string
  pg_name :: string
  pg_program_id :: "string option"
  pg_url :: "string option"
  pg_fetched_at :: "instant option"
  pg_sync_status :: sync_status
  pg_error :: "string option"
  pg_scope_mode :: scope_mode
  pg_offers_bounties :: "bool option"
  pg_requires_severity :: "bool option"
  pg_instructions :: string
  pg_scopes :: "structured_scope list"
  pg_exclusions :: "scope_exclusion list"
  pg_weaknesses :: "weakness list"
  pg_open_scope_policy :: string
  pg_open_scope_acknowledged :: bool
  pg_active_testing_approved :: bool
  pg_scope_version :: int
  pg_scope_sync_complete :: bool
  pg_scope_count :: int
  pg_last_scope_id :: "string option"
  pg_continuation_state :: "string option"
  pg_scope_content_hash :: string
  pg_weaknesses_synced_at :: "instant option"
  pg_scope_pages_fetched :: int

definition json_time :: "instant option \<Rightarrow> json" where
  "json_time t = (case t of None \<Rightarrow> JNull | Some i \<Rightarrow> JStr (isoformat i))"

definition json_bool_opt :: "bool option \<Rightarrow> json" where
  "json_bool_opt b = (case b of None \<Rightarrow> JNull | Some x \<Rightarrow> JBool x)"

definition program_snapshot :: "h1_program \<Rightarrow> json" where
  "program_snapshot p = JObj
     [(''handle'', JStr (pg_handle p)), (''id'', json_opt (pg_program_id p)), (''name'', JStr (pg_name p)),
      (''program_url'', json_opt (pg_url p)), (''fetched_at'', json_time (pg_fetched_at p)),
      (''sync_status'', JStr (sync_value (pg_sync_status p))), (''error'', json_opt (pg_error p)),
      (''scope_mode'', JStr (scope_mode_value (pg_scope_mode p))),
      (''offers_bounties'', json_bool_opt (pg_offers_bounties p)),
      (''requires_severity'', json_bool_opt (pg_requires_severity p)),
      (''scope_count'', JInt (int (length (pg_scopes p)))),
      (''exclusion_count'', JInt (int (length (pg_exclusions p)))),
      (''weakness_count'', JInt (int (length (pg_weaknesses p)))),
      (''scope_version'', JInt (pg_scope_version p)),
      (''scope_sync_complete'', JBool (pg_scope_sync_complete p)),
      (''last_scope_id'', json_opt (pg_last_scope_id p)),
      (''active_testing_approved'', JBool (pg_active_testing_approved p)),
      (''open_scope_acknowledged'', JBool (pg_open_scope_acknowledged p)),
      (''scope_content_hash'', JStr (pg_scope_content_hash p)),
      (''weaknesses_synced_at'', json_time (pg_weaknesses_synced_at p)),
      (''scope_pages_fetched'', JInt (pg_scope_pages_fetched p))]"

record scope_snapshot =
  sn_handle :: string
  sn_version :: int
  sn_scope_id :: "int option"
  sn_identifier :: string
  sn_submission :: bool
  sn_bounty :: bool
  sn_in_scope :: bool
  sn_instructions :: string
  sn_hash :: string

definition scope_snapshot_dict :: "scope_snapshot \<Rightarrow> (string \<times> json) list" where
  "scope_snapshot_dict s =
     [(''program_handle'', JStr (sn_handle s)), (''scope_version'', JInt (sn_version s)),
      (''structured_scope_id'', json_int_opt (sn_scope_id s)),
      (''asset_identifier'', JStr (sn_identifier s)),
      (''eligible_for_submission'', JBool (sn_submission s)),
      (''eligible_for_bounty'', JBool (sn_bounty s)), (''in_scope'', JBool (sn_in_scope s)),
      (''matched_instructions'', JStr (sn_instructions s))]"

section \<open>Hashes\<close>

definition canonical_json :: "json \<Rightarrow> string" where
  "canonical_json v = json_dumps v"

definition hash_value :: "json \<Rightarrow> string" where
  "hash_value v = (case v of JStr s \<Rightarrow> sha256_hex s | _ \<Rightarrow> sha256_hex (canonical_json v))"

definition program_scope_content_hash ::
    "string \<Rightarrow> string \<Rightarrow> string \<Rightarrow> bool \<Rightarrow> bool option \<Rightarrow> json list \<Rightarrow> json list \<Rightarrow> json list \<Rightarrow> string"
  where
  "program_scope_content_hash handle mode instr active severity scopes excl weak =
     hash_value (JObj
       [(''handle'', JStr handle), (''scope_mode'', JStr mode), (''instructions'', JStr instr),
        (''active_testing_approved'', JBool active), (''requires_severity'', json_bool_opt severity),
        (''scopes'', JList scopes), (''exclusions'', JList excl), (''weaknesses'', JList weak)])"

definition report_content_json ::
    "string \<Rightarrow> string \<Rightarrow> string \<Rightarrow> string option \<Rightarrow> int option \<Rightarrow> int option \<Rightarrow> string option \<Rightarrow> string
     \<Rightarrow> string option \<Rightarrow> string option \<Rightarrow> json" where
  "report_content_json name info imp severity weak scope target handle verification repro = JObj
     [(''title'', JStr name), (''vulnerability_information'', JStr info), (''impact'', JStr imp),
      (''severity'', json_opt severity), (''weakness_id'', json_int_opt weak),
      (''structured_scope_id'', json_int_opt scope), (''target'', json_opt target),
      (''program_handle'', JStr handle),
      (''finding_verification'', JStr (text_or_empty verification)),
      (''reproduction'', JStr (text_or_empty repro))]"

definition evidence_hash_json :: "string list \<Rightarrow> (string \<times> json) list \<Rightarrow> json" where
  "evidence_hash_json refs extra = JObj
     ((''references'', JList (map JStr refs)) # (if extra = [] then [] else [(''extra'', JObj extra)]))"

text \<open>A stable sort by a key: \<open>sorted(rows, key=...)\<close> on pairs of texts, or on numbers.\<close>

definition text_pair_le :: "string \<times> string \<Rightarrow> string \<times> string \<Rightarrow> bool" where
  "text_pair_le a b \<longleftrightarrow> (if fst a = fst b then text_le (snd a) (snd b) else text_le (fst a) (fst b))"

fun insert_by :: "('a \<Rightarrow> 'a \<Rightarrow> bool) \<Rightarrow> 'a \<Rightarrow> 'a list \<Rightarrow> 'a list" where
  "insert_by le x [] = [x]"
| "insert_by le x (y # ys) = (if le x y then x # y # ys else y # insert_by le x ys)"

definition sorted_by :: "('a \<Rightarrow> 'a \<Rightarrow> bool) \<Rightarrow> 'a list \<Rightarrow> 'a list" where
  "sorted_by le xs = foldr (insert_by le) xs []"

definition hash_program_scope :: "h1_program \<Rightarrow> string" where
  "hash_program_scope p =
     (let scopes = map (\<lambda>r. JObj
            [(''id'', JStr (sc_id r)), (''asset_type'', JStr (asset_value (sc_asset_type r))),
             (''asset_type_raw'', JStr (sc_asset_type_raw r)),
             (''asset_identifier'', JStr (sc_identifier r)), (''instruction'', JStr (sc_instruction r)),
             (''eligible_for_submission'', JBool (sc_submission r)),
             (''eligible_for_bounty'', JBool (sc_bounty r))])
          (sorted_by (\<lambda>a b. text_pair_le (sc_id a, sc_identifier a) (sc_id b, sc_identifier b)) (pg_scopes p));
          excl = map (\<lambda>r. JObj [(''id'', JStr (xr_id r)), (''category'', JStr (xr_category r)),
             (''details'', JStr (xr_details r))])
          (sorted_by (\<lambda>a b. text_pair_le (xr_id a, xr_category a) (xr_id b, xr_category b)) (pg_exclusions p));
          weak = map (\<lambda>r. JObj [(''id'', JInt (w_id r)), (''name'', JStr (w_name r)),
             (''external_id'', JStr (w_external_id r))])
          (sorted_by (\<lambda>a b. w_id a \<le> w_id b) (pg_weaknesses p))
      in program_scope_content_hash (pg_handle p) (scope_mode_value (pg_scope_mode p)) (pg_instructions p)
           (pg_active_testing_approved p) (pg_requires_severity p) scopes excl weak)"

section \<open>Freshness\<close>

text \<open>The two settings that count: the maximal ages in hours, of the scope and of the weaknesses.\<close>

record freshness_settings =
  max_program_age :: int
  max_weakness_age :: int

definition hours :: "int \<Rightarrow> int" where "hours n = n * 3600000000"

definition program_is_fresh :: "freshness_settings \<Rightarrow> instant \<Rightarrow> h1_program \<Rightarrow> bool \<times> string" where
  "program_is_fresh cfg clock p =
     (if pg_sync_status p \<noteq> SYNC_OK then
        (False, ''Program sync status is '' @ sync_value (pg_sync_status p))
      else if \<not> pg_scope_sync_complete p then (False, ''Structured scope snapshot is incomplete'')
      else if pg_scopes p = [] then (False, ''Program has no structured scope'')
      else case pg_fetched_at p of
        None \<Rightarrow> (False, ''Program has never been synchronized'')
      | Some fetched \<Rightarrow>
          if hours (max 1 (max_program_age cfg)) < clock - fetched then
            (False, ''Program scope snapshot is stale; re-sync before live submission'')
          else if hours (max 1 (max_weakness_age cfg))
              < clock - (case pg_weaknesses_synced_at p of None \<Rightarrow> fetched | Some t \<Rightarrow> t) then
            (False, ''Program weakness list is stale; re-sync before live submission'')
          else if pg_requires_severity p = None then
            (False, ''Required program configuration is unknown'')
          else (True, ''Program data is current''))"

definition require_fresh_program :: "freshness_settings \<Rightarrow> instant \<Rightarrow> h1_program \<Rightarrow> unit result" where
  "require_fresh_program cfg clock p =
     (case program_is_fresh cfg clock p of
        (ok, why) \<Rightarrow> if \<not> ok then Inl (HackerOneError why ''stale_program'') else Inr ())"

end
