(* ===== verification/H1Evaluator.thy ===== *)
theory H1Evaluator
  imports H1Program
begin

text \<open>
  The two decisions the HackerOne adapter takes without asking anyone:
  \<open>adapters/hackerone/weakness.py\<close>, which weakness of a program a class of findings stands for, and
  \<open>adapters/hackerone/evaluator.py\<close>, whether a target is listed and a report is eligible.
\<close>

section \<open>Weaknesses\<close>

definition weakness_map :: "(string, string list) dict" where
  "weakness_map =
     [(''xss'', [''cwe-79'']), (''cross_site_scripting'', [''cwe-79'']),
      (''sql_injection'', [''cwe-89'']), (''sqli'', [''cwe-89'']), (''ssrf'', [''cwe-918'']),
      (''csrf'', [''cwe-352'']), (''open_redirect'', [''cwe-601'']),
      (''path_traversal'', [''cwe-22'']), (''command_injection'', [''cwe-77'', ''cwe-78'']),
      (''insecure_direct_object_reference'', [''cwe-639'', ''cwe-284'']),
      (''idor'', [''cwe-639'', ''cwe-284'']),
      (''broken_access_control'', [''cwe-284'', ''cwe-285'', ''cwe-639'']),
      (''authentication'', [''cwe-287'']), (''sensitive_data_exposure'', [''cwe-200'']),
      (''insecure_deserialization'', [''cwe-502'']), (''xxe'', [''cwe-611'']),
      (''misconfiguration'', [''cwe-16''])]"

record weakness_mapping =
  wm_class :: string
  wm_candidates :: "string list"
  wm_human :: bool

definition cwe_selected :: "weakness_mapping \<Rightarrow> string option" where
  "cwe_selected m =
     (if wm_human m \<or> length (wm_candidates m) \<noteq> 1 then None else Some (wm_candidates m ! 0))"

record program_weakness_mapping =
  pw_class :: string
  pw_candidates :: "string list"
  pw_matched :: "weakness list"
  pw_selected :: "int option"
  pw_human :: bool
  pw_reason :: string

definition normalize_class :: "string option \<Rightarrow> string" where
  "normalize_class c = snake (text_or_empty c)"

text \<open>\<open>text.replace("cwe", "cwe-", 1)\<close> is applied to texts that start with \<open>cwe\<close> only.\<close>

definition normalize_cwe :: "string \<Rightarrow> string" where
  "normalize_cwe v =
     (let t = py_replace_char CHR ''_'' CHR ''-'' (py_lower (py_strip v)) in
      if startswith t ''cwe'' \<and> \<not> startswith t ''cwe-'' then ''cwe-'' @ drop 3 t else t)"

definition map_weakness :: "string option \<Rightarrow> weakness_mapping" where
  "map_weakness c =
     (let key = normalize_class c; cands = dict_get weakness_map key [] in
      if cands = [] then \<lparr>wm_class = key, wm_candidates = [], wm_human = True\<rparr>
      else if 1 < length cands then \<lparr>wm_class = key, wm_candidates = cands, wm_human = True\<rparr>
      else \<lparr>wm_class = key, wm_candidates = cands, wm_human = False\<rparr>)"

definition match_program_weaknesses :: "string list \<Rightarrow> weakness list \<Rightarrow> weakness list" where
  "match_program_weaknesses cwes ws =
     filter (\<lambda>r. normalize_cwe (w_external_id r) \<in> normalize_cwe ` set cwes) ws"

text \<open>\<open>requested_id is not None and str(requested_id).strip() != ""\<close>.\<close>

definition id_given :: "id_arg \<Rightarrow> bool" where
  "id_given v = (case v of None \<Rightarrow> False | Some (Inl i) \<Rightarrow> True | Some (Inr s) \<Rightarrow> py_strip s \<noteq> [])"

definition map_program_weakness :: "string option \<Rightarrow> h1_program \<Rightarrow> id_arg \<Rightarrow> program_weakness_mapping" where
  "map_program_weakness c p requested =
     (let cwe = map_weakness c;
          matched = match_program_weaknesses (wm_candidates cwe) (pg_weaknesses p);
          answer = (\<lambda>ms sel human why.
            \<lparr>pw_class = wm_class cwe, pw_candidates = wm_candidates cwe, pw_matched = ms,
             pw_selected = sel, pw_human = human, pw_reason = why\<rparr>)
      in if id_given requested then
           (case parse_hackerone_id requested of
              None \<Rightarrow> answer matched None True
                ''weakness_id must be a numeric HackerOne id, not a CWE string''
            | Some i \<Rightarrow>
                (case List.find (\<lambda>r. w_id r = i) (pg_weaknesses p) of
                   None \<Rightarrow> answer matched None True
                     ''Requested weakness_id is not in the synchronized program weakness list''
                 | Some r \<Rightarrow> answer (if matched = [] then [r] else matched) (Some (w_id r)) False
                     ''Human-selected program weakness''))
         else if pg_weaknesses p = [] then
           answer [] None True ''Program weaknesses have not been synchronized''
         else if wm_candidates cwe = [] then
           answer [] None True ''No CWE mapping; a human must select a program weakness''
         else if matched = [] then
           answer [] None True ''Program does not contain the expected weakness''
         else let unique = first_occurrences (map w_id matched) in
           if length unique \<noteq> 1 \<or> wm_human cwe then
             answer matched None True ''Multiple matching program weaknesses require human selection''
           else answer matched (Some (unique ! 0)) False ''Unique CWE to program weakness mapping'')"

section \<open>Decisions\<close>

record target_scope_decision =
  td_in_scope :: bool
  td_reason :: string
  td_scope_id :: "string option"
  td_asset_type :: "string option"
  td_identifier :: "string option"
  td_submission :: bool
  td_bounty :: bool
  td_instructions :: string

record report_eligibility =
  re_submission :: bool
  re_bounty :: bool
  re_reason :: string
  re_categories :: "string list"
  re_exclusions :: "string list"

record h1_decision =
  hd_allowed :: bool
  hd_reason :: string
  hd_scope_id :: "string option"
  hd_asset_type :: "string option"
  hd_identifier :: "string option"
  hd_submission :: bool
  hd_bounty :: bool
  hd_in_scope :: bool
  hd_instructions :: string
  hd_considered :: "string list"
  hd_target :: "target_scope_decision option"
  hd_report :: "report_eligibility option"

definition no_decision :: "bool \<Rightarrow> string \<Rightarrow> h1_decision" where
  "no_decision ok why =
     \<lparr>hd_allowed = ok, hd_reason = why, hd_scope_id = None, hd_asset_type = None,
      hd_identifier = None, hd_submission = False, hd_bounty = False, hd_in_scope = False,
      hd_instructions = [], hd_considered = [], hd_target = None, hd_report = None\<rparr>"

text \<open>\<open>s.isdigit()\<close> of a text that is not empty.\<close>

definition decision_snapshot :: "h1_decision \<Rightarrow> h1_program \<Rightarrow> scope_snapshot" where
  "decision_snapshot d p =
     (let numeric = (case hd_scope_id d of
                       None \<Rightarrow> None
                     | Some s \<Rightarrow> if all_digits s then Some (int (nat_of_text s)) else None);
          plain = \<lparr>sn_handle = pg_handle p, sn_version = pg_scope_version p, sn_scope_id = numeric,
            sn_identifier = text_or_empty (hd_identifier d), sn_submission = hd_submission d,
            sn_bounty = hd_bounty d, sn_in_scope = hd_in_scope d,
            sn_instructions = hd_instructions d, sn_hash = []\<rparr>
      in plain\<lparr>sn_hash := hash_value (JObj (scope_snapshot_dict plain))\<rparr>)"

definition try_network_target :: "string \<Rightarrow> normalized_target option" where
  "try_network_target t = (case guard_normalize t of Inl _ \<Rightarrow> None | Inr n \<Rightarrow> Some n)"

text \<open>\<open>a and b and a != b\<close> for ports: a port that is absent or zero counts as false.\<close>

definition ports_differ :: "nat option \<Rightarrow> nat option \<Rightarrow> bool" where
  "ports_differ a b =
     (case (a, b) of (Some x, Some y) \<Rightarrow> x \<noteq> 0 \<and> y \<noteq> 0 \<and> x \<noteq> y | _ \<Rightarrow> False)"

definition network_match :: "structured_scope \<Rightarrow> normalized_target \<Rightarrow> bool" where
  "network_match r target =
     (let ident = py_strip (sc_identifier r) in
      if sc_asset_type r = AT_CIDR then hostname_matches (host_or_ip target) [ident]
      else if sc_asset_type r = AT_IP then hostname_matches (host_or_ip target) [ident]
      else if sc_asset_type r = AT_URL \<or> startswith ident ''http://'' \<or> startswith ident ''https://''
      then (case guard_normalize ident of
              Inl _ \<Rightarrow> False
            | Inr wanted \<Rightarrow>
                if hostname target \<noteq> hostname wanted then False
                else if t_scheme wanted \<noteq> [] \<and> t_scheme target \<noteq> [] \<and> t_scheme wanted \<noteq> t_scheme target
                then False
                else if ports_differ (port wanted) (port target) then False
                else if t_path wanted \<notin> {[], ''/''} \<and> \<not> path_matches (t_path target) (t_path wanted)
                then False
                else True)
      else hostname_matches (hostname target) [ident])"

fun match_structured :: "structured_scope list \<Rightarrow> string \<Rightarrow> normalized_target option \<Rightarrow> structured_scope option"
  where
  "match_structured [] target network = None"
| "match_structured (r # rs) target network =
     (if sc_asset_type r \<notin> set network_asset_types then
        (if py_strip target = py_strip (sc_identifier r) then Some r
         else match_structured rs target network)
      else case network of
        None \<Rightarrow> match_structured rs target network
      | Some n \<Rightarrow> if network_match r n then Some r else match_structured rs target network)"

definition open_scope_reason :: string where
  "open_scope_reason =
     ''Open-scope program: unknown assets are not automatically authorized. '' @
     ''An operator must approve an explicit active-testing policy before '' @
     ''BugForge may test assets that are not listed in structured scope.''"

definition not_eligible :: string where
  "not_eligible = ''Asset is in structured scope but not eligible for submission''"

definition evaluate_target :: "h1_program \<Rightarrow> string \<Rightarrow> target_scope_decision" where
  "evaluate_target p target =
     (case match_structured (pg_scopes p) target (try_network_target target) of
        None \<Rightarrow>
          \<lparr>td_in_scope = False,
           td_reason = (if pg_scope_mode p = OPEN then open_scope_reason
                        else ''Closed-scope program: unknown asset is denied''),
           td_scope_id = None, td_asset_type = None, td_identifier = None, td_submission = False,
           td_bounty = False, td_instructions = []\<rparr>
      | Some r \<Rightarrow>
          \<lparr>td_in_scope = True,
           td_reason = (if sc_submission r then ''In structured scope'' else not_eligible),
           td_scope_id = Some (sc_id r), td_asset_type = Some (asset_value (sc_asset_type r)),
           td_identifier = Some (sc_identifier r), td_submission = sc_submission r,
           td_bounty = sc_bounty r, td_instructions = sc_instruction r\<rparr>)"

text \<open>The category texts compare with spaces for the separators.\<close>

definition spaced :: "string \<Rightarrow> string" where
  "spaced s = py_replace_char CHR ''-'' CHR '' '' (py_replace_char CHR ''_'' CHR '' '' (py_lower (py_strip s)))"

definition category_aliases :: "(string, string list) dict" where
  "category_aliases =
     [(''sql injection'', [''sqli'', ''sql'', ''injection'']), (''cross site scripting'', [''xss'']),
      (''denial of service'', [''dos'', ''ddos''])]"

definition category_hit :: "string \<Rightarrow> scope_exclusion \<Rightarrow> bool" where
  "category_hit key x =
     (let category = spaced (xr_category x); extra = dict_get category_aliases category [] in
      if category = [] then False
      else if category = key \<or> py_contains category key \<or> py_contains key category then True
      else (\<exists>t\<in>set (py_split_ws key). t \<in> set extra) \<or> key \<in> set extra)"

definition matching_exclusion_categories :: "scope_exclusion list \<Rightarrow> string option \<Rightarrow> scope_exclusion list"
  where
  "matching_exclusion_categories xs c =
     (case c of None \<Rightarrow> [] | Some v \<Rightarrow> if v = [] then [] else filter (category_hit (spaced v)) xs)"

definition evaluate_report_eligibility ::
    "h1_program \<Rightarrow> target_scope_decision \<Rightarrow> string option \<Rightarrow> report_eligibility" where
  "evaluate_report_eligibility p t c =
     (if \<not> td_in_scope t then
        \<lparr>re_submission = False, re_bounty = False, re_reason = td_reason t, re_categories = [],
         re_exclusions = []\<rparr>
      else let submission = td_submission t; bounty = (td_bounty t \<and> submission);
               matched = matching_exclusion_categories (pg_exclusions p) c in
        if matched \<noteq> [] then
          \<lparr>re_submission = submission, re_bounty = False,
           re_reason = (if submission
             then ''In scope and eligible for submission but not bounty eligible '' @
               ''due to program scope exclusion categories: '' @ py_join '', '' (map xr_category matched)
             else not_eligible),
           re_categories = map xr_category matched,
           re_exclusions = map (\<lambda>x. or_text (xr_id x) (xr_category x)) matched\<rparr>
        else if \<not> submission then
          \<lparr>re_submission = False, re_bounty = False, re_reason = not_eligible, re_categories = [],
           re_exclusions = []\<rparr>
        else if \<not> bounty then
          \<lparr>re_submission = True, re_bounty = False,
           re_reason = ''In scope and eligible for submission but not bounty eligible'',
           re_categories = [], re_exclusions = []\<rparr>
        else
          \<lparr>re_submission = True, re_bounty = True,
           re_reason = ''In structured scope and eligible for submission and bounty'',
           re_categories = [], re_exclusions = []\<rparr>)"

definition evaluate_asset :: "h1_program \<Rightarrow> string \<Rightarrow> string option \<Rightarrow> h1_decision" where
  "evaluate_asset p target c =
     (let t = evaluate_target p target; r = evaluate_report_eligibility p t c in
      \<lparr>hd_allowed = (td_in_scope t \<and> re_submission r),
       hd_reason = (if td_in_scope t \<and> \<not> re_submission r then re_reason r
         else if td_in_scope t \<and> \<not> re_bounty r then
           (if re_reason r \<noteq> [] then td_reason t @ ''; '' @ re_reason r else td_reason t)
         else td_reason t),
       hd_scope_id = td_scope_id t, hd_asset_type = td_asset_type t, hd_identifier = td_identifier t,
       hd_submission = re_submission r, hd_bounty = re_bounty r, hd_in_scope = td_in_scope t,
       hd_instructions = td_instructions t, hd_considered = re_exclusions r,
       hd_target = Some t, hd_report = Some r\<rparr>)"

section \<open>What the decisions mean\<close>

text \<open>A row lists a target; the row that counts is the first that does.\<close>

definition lists_target :: "structured_scope \<Rightarrow> string \<Rightarrow> bool" where
  "lists_target r target \<longleftrightarrow>
     (if sc_asset_type r \<in> set network_asset_types
      then \<exists>n. guard_normalize target = Inr n \<and> network_match r n
      else py_strip target = py_strip (sc_identifier r))"

definition listed_by :: "h1_program \<Rightarrow> string \<Rightarrow> structured_scope \<Rightarrow> bool" where
  "listed_by p target r \<longleftrightarrow>
     (\<exists>before after. pg_scopes p = before @ r # after \<and> lists_target r target \<and>
        (\<forall>q\<in>set before. \<not> lists_target q target))"

lemma match_structured_find:
  "match_structured rs target (try_network_target target) = List.find (\<lambda>r. lists_target r target) rs"
  by (induction rs) (auto simp: lists_target_def try_network_target_def split: sum.splits)

lemma match_listed:
  "match_structured (pg_scopes p) target (try_network_target target) = Some r \<longleftrightarrow> listed_by p target r"
  by (simp add: match_structured_find find_Some_split listed_by_def)

lemma evaluate_target_listed:
  "td_in_scope (evaluate_target p t) \<longleftrightarrow> (\<exists>r. listed_by p t r)"
  by (auto simp: evaluate_target_def match_listed [symmetric] split: option.splits)

lemma eligible_listed:
  "re_submission (evaluate_report_eligibility p (evaluate_target p t) c)
     \<longleftrightarrow> (\<exists>r. listed_by p t r \<and> sc_submission r)"
  by (auto simp: evaluate_report_eligibility_def evaluate_target_def match_listed [symmetric] Let_def
      split: option.splits)

lemma bounty_listed:
  "re_bounty (evaluate_report_eligibility p (evaluate_target p t) c)
     \<longleftrightarrow> (\<exists>r. listed_by p t r \<and> sc_submission r \<and> sc_bounty r)
         \<and> matching_exclusion_categories (pg_exclusions p) c = []"
  by (auto simp: evaluate_report_eligibility_def evaluate_target_def match_listed [symmetric] Let_def
      split: option.splits)

lemma evaluate_asset_simps [simp]:
  "hd_in_scope (evaluate_asset p t c) = td_in_scope (evaluate_target p t)"
  "hd_submission (evaluate_asset p t c) = re_submission (evaluate_report_eligibility p (evaluate_target p t) c)"
  "hd_bounty (evaluate_asset p t c) = re_bounty (evaluate_report_eligibility p (evaluate_target p t) c)"
  "hd_scope_id (evaluate_asset p t c) = td_scope_id (evaluate_target p t)"
  "hd_allowed (evaluate_asset p t c)
     = (td_in_scope (evaluate_target p t) \<and> re_submission (evaluate_report_eligibility p (evaluate_target p t) c))"
  by (simp_all add: evaluate_asset_def Let_def)

lemma first_occurrences_set: "set (first_occurrences xs) = set xs"
  by (induction xs rule: first_occurrences.induct) auto

text \<open>C40. The evaluator allows a report about a target exactly when the first row of the program's
  structured scope that lists the target is eligible for submission, and calls it eligible for a
  bounty exactly when that row also offers one and no excluded category matches the class of the
  finding. The category exclusions therefore never decide where testing is allowed.\<close>

theorem evaluator_decides:
  "hd_allowed (evaluate_asset p t c) = (\<exists>r. listed_by p t r \<and> sc_submission r) \<and>
   hd_bounty (evaluate_asset p t c)
     = ((\<exists>r. listed_by p t r \<and> sc_submission r \<and> sc_bounty r)
        \<and> matching_exclusion_categories (pg_exclusions p) c = [])"
  using evaluate_target_listed [of p t] by (auto simp: eligible_listed bounty_listed)

text \<open>A weakness that is selected for a report is one of the synchronized weaknesses of the
  program. Unless a person asked for it by number, the class of the finding stands for one CWE and
  the selected weakness is the only one of the program with it.\<close>

theorem selected_weakness_is_known:
  assumes "pw_selected (map_program_weakness c p requested) = Some i"
  shows "i \<in> w_id ` set (pg_weaknesses p) \<and>
    (if id_given requested then parse_hackerone_id requested = Some i
     else \<exists>cwe. dict_get weakness_map (normalize_class c) [] = [cwe] \<and>
       w_id ` {r \<in> set (pg_weaknesses p). normalize_cwe (w_external_id r) = normalize_cwe cwe} = {i})"
proof (cases "id_given requested")
  case True
  with assms show ?thesis
    by (auto simp: map_program_weakness_def Let_def dest!: find_Some_prop split: option.splits)
next
  case False
  let ?cands = "dict_get weakness_map (normalize_class c) []"
  let ?ms = "match_program_weaknesses ?cands (pg_weaknesses p)"
  have one: "?cands \<noteq> [] \<and> length ?cands \<le> 1 \<and> length (first_occurrences (map w_id ?ms)) = 1
      \<and> i = first_occurrences (map w_id ?ms) ! 0"
    using assms False
    by (auto simp: map_program_weakness_def map_weakness_def Let_def split: if_splits)
  then obtain cwe where cwe: "?cands = [cwe]" by (cases ?cands) (auto simp: le_Suc_eq)
  have "first_occurrences (map w_id ?ms) = [i]" using one by (auto simp: length_Suc_conv)
  then have "w_id ` set ?ms = {i}" using first_occurrences_set [of "map w_id ?ms"] by simp
  moreover have "set ?ms = {r \<in> set (pg_weaknesses p). normalize_cwe (w_external_id r) = normalize_cwe cwe}"
    by (auto simp: match_program_weaknesses_def cwe)
  ultimately show ?thesis using False cwe by auto
qed

definition sample_program :: h1_program where
  "sample_program =
     \<lparr>pg_handle = ''acme'', pg_name = ''Acme'', pg_program_id = None, pg_url = None,
      pg_fetched_at = Some 0, pg_sync_status = SYNC_OK, pg_error = None, pg_scope_mode = CLOSED,
      pg_offers_bounties = None, pg_requires_severity = Some False, pg_instructions = [],
      pg_scopes = [\<lparr>sc_id = ''7'', sc_asset_type_raw = ''OTHER'', sc_asset_type = AT_OTHER_ASSET,
        sc_identifier = ''firmware'', sc_instruction = [], sc_bounty = True, sc_submission = True,
        sc_reference = None\<rparr>],
      pg_exclusions = [],
      pg_weaknesses = [\<lparr>w_id = 3, w_name = ''XSS'', w_description = [], w_external_id = ''CWE_79''\<rparr>],
      pg_open_scope_policy = [], pg_open_scope_acknowledged = False,
      pg_active_testing_approved = False, pg_scope_version = 1, pg_scope_sync_complete = True,
      pg_scope_count = 1, pg_last_scope_id = None, pg_continuation_state = None,
      pg_scope_content_hash = [], pg_weaknesses_synced_at = Some 0, pg_scope_pages_fetched = 1\<rparr>"

theorem selected_weakness_is_known_witness:
  "3 \<in> w_id ` set (pg_weaknesses sample_program)"
proof -
  have "pw_selected (map_program_weakness (Some ''XSS'') sample_program None) = Some 3" by code_simp
  from selected_weakness_is_known [OF this] show ?thesis by (rule conjunct1)
qed

end
