(* ===== verification/Json.thy ===== *)
theory Json
  imports Sha256 Secrets
begin

text \<open>
  JSON as the standard library writes and reads it: \<open>json.dumps\<close> with its default separators and
  the keys in their order, and \<open>json.loads\<close>. A number with a fraction or an exponent, and
  \<open>NaN\<close> and the infinities, are kept as their literals.
\<close>

section \<open>Writing\<close>

fun json_plain :: "json \<Rightarrow> string" where
  "json_plain (JStr s) = json_string s"
| "json_plain (JInt i) = show_int i"
| "json_plain (JNum n) = n"
| "json_plain (JBool b) = (if b then ''true'' else ''false'')"
| "json_plain JNull = ''null''"
| "json_plain (JList xs) = ''['' @ py_join '', '' (map json_plain xs) @ '']''"
| "json_plain (JObj ps) =
     ''{'' @ py_join '', '' (map (\<lambda>(k, v). json_string k @ '': '' @ json_plain v) ps) @ ''}''"

section \<open>Reading\<close>

definition is_json_ws :: "char \<Rightarrow> bool" where
  "is_json_ws c \<longleftrightarrow> c \<in> {CHR '' '', CHR 0x09, CHR 0x0A, CHR 0x0D}"

definition skip_ws :: "string \<Rightarrow> string" where
  "skip_ws s = dropWhile is_json_ws s"

text \<open>The UTF-8 bytes of a code point.\<close>

definition utf8_bytes :: "nat \<Rightarrow> string" where
  "utf8_bytes n =
     (if n < 128 then [char_of n]
      else if n < 2048 then [char_of (192 + n div 64), char_of (128 + n mod 64)]
      else if n < 65536 then
        [char_of (224 + n div 4096), char_of (128 + n div 64 mod 64), char_of (128 + n mod 64)]
      else [char_of (240 + n div 262144), char_of (128 + n div 4096 mod 64),
            char_of (128 + n div 64 mod 64), char_of (128 + n mod 64)])"

definition simple_escapes :: "(char, char) dict" where
  "simple_escapes =
     [(CHR 0x22, CHR 0x22), (CHR 0x5C, CHR 0x5C), (CHR ''/'', CHR ''/''), (CHR ''b'', CHR 0x08),
      (CHR ''f'', CHR 0x0C), (CHR ''n'', CHR 0x0A), (CHR ''r'', CHR 0x0D), (CHR ''t'', CHR 0x09)]"

definition four_hex :: "string \<Rightarrow> nat option" where
  "four_hex s = (if 4 \<le> length s \<and> list_all is_hex (take 4 s) then Some (hex_read 0 (take 4 s)) else None)"

text \<open>
  What follows \<open>\u\<close>: the code point and the rest. A high surrogate is joined with a low one that
  follows as another escape.
\<close>

definition read_u :: "string \<Rightarrow> (nat \<times> string) option" where
  "read_u s =
     (case four_hex s of
        None \<Rightarrow> None
      | Some n \<Rightarrow>
          (let t = drop 4 s in
           if 55296 \<le> n \<and> n < 56320 \<and> prefix [CHR 0x5C, CHR ''u''] t then
             (case four_hex (drop 2 t) of
                None \<Rightarrow> None
              | Some m \<Rightarrow> if 56320 \<le> m \<and> m < 57344
                  then Some (65536 + (n - 55296) * 1024 + (m - 56320), drop 6 t) else Some (n, t))
           else Some (n, t)))"

text \<open>The rest of a string after its opening quote. The fuel is the length of the text.\<close>

fun read_string :: "nat \<Rightarrow> string \<Rightarrow> (string \<times> string) option" where
  "read_string 0 s = None"
| "read_string (Suc k) s =
     (case s of
        [] \<Rightarrow> None
      | c # s1 \<Rightarrow>
          if c = CHR 0x22 then Some ([], s1)
          else if of_char c < (32 :: nat) then None
          else if c = CHR 0x5C then
            (case s1 of
               [] \<Rightarrow> None
             | e # t \<Rightarrow>
                 if e = CHR ''u'' then
                   (case read_u t of
                      None \<Rightarrow> None
                    | Some (n, t') \<Rightarrow> map_option (\<lambda>(v, r). (utf8_bytes n @ v, r)) (read_string k t'))
                 else (case map_of simple_escapes e of
                      None \<Rightarrow> None
                    | Some d \<Rightarrow> map_option (\<lambda>(v, r). (d # v, r)) (read_string k t)))
          else map_option (\<lambda>(v, r). (c # v, r)) (read_string k s1))"

definition digits_of :: "string \<Rightarrow> string" where
  "digits_of s = takeWhile is_digit s"

text \<open>An integer part, then a fraction and an exponent if they are well formed.\<close>

definition read_number :: "string \<Rightarrow> (json \<times> string) option" where
  "read_number s =
     (let sign = (if prefix ''-'' s then ''-'' else []); s1 = drop (length sign) s;
          whole = (if prefix ''0'' s1 then ''0'' else digits_of s1); s2 = drop (length whole) s1;
          frac = (if prefix ''.'' s2 \<and> digits_of (tl s2) \<noteq> [] then ''.'' @ digits_of (tl s2) else []);
          s3 = drop (length frac) s2;
          e = (if s3 \<noteq> [] \<and> hd s3 \<in> set ''eE'' then [hd s3] else []); s4 = drop (length e) s3;
          es = (if e \<noteq> [] \<and> s4 \<noteq> [] \<and> hd s4 \<in> set ''+-'' then [hd s4] else []);
          ds = (if e = [] then [] else digits_of (drop (length es) s4));
          expo = (if ds = [] then [] else e @ es @ ds)
      in if whole = [] then None
         else if frac = [] \<and> expo = [] then
           Some (JInt ((if sign = [] then 1 else -1) * int (nat_of_text whole)), s3)
         else Some (JNum (sign @ whole @ frac @ expo), drop (length expo) s3))"

definition json_literals :: "(string \<times> json) list" where
  "json_literals =
     [(''null'', JNull), (''true'', JBool True), (''false'', JBool False), (''NaN'', JNum ''nan''),
      (''Infinity'', JNum ''inf''), (''-Infinity'', JNum ''-inf'')]"

definition read_literal :: "string \<Rightarrow> (json \<times> string) option" where
  "read_literal s =
     (case List.find (\<lambda>(w, v). prefix w s) json_literals of
        None \<Rightarrow> read_number s | Some (w, v) \<Rightarrow> Some (v, drop (length w) s))"

text \<open>
  A value, the rest of an array and the rest of an object. Every call is for a shorter text or
  follows one that was, so twice the length of the text is enough fuel.
\<close>

fun read_value :: "nat \<Rightarrow> string \<Rightarrow> (json \<times> string) option"
  and read_items :: "nat \<Rightarrow> string \<Rightarrow> (json list \<times> string) option"
  and read_fields :: "nat \<Rightarrow> (string \<times> json) list \<Rightarrow> string \<Rightarrow> ((string \<times> json) list \<times> string) option"
  where
  "read_value 0 s = None"
| "read_value (Suc k) s =
     (case s of
        [] \<Rightarrow> None
      | c # t \<Rightarrow>
          if c = CHR 0x22 then map_option (\<lambda>(v, r). (JStr v, r)) (read_string (Suc (length t)) t)
          else if c = CHR ''['' then
            (let u = skip_ws t in
             if prefix '']'' u then Some (JList [], tl u)
             else map_option (\<lambda>(vs, r). (JList vs, r)) (read_items k u))
          else if c = CHR ''{'' then
            (let u = skip_ws t in
             if prefix ''}'' u then Some (JObj [], tl u)
             else map_option (\<lambda>(ps, r). (JObj ps, r)) (read_fields k [] u))
          else read_literal s)"
| "read_items 0 s = None"
| "read_items (Suc k) s =
     (case read_value k s of
        None \<Rightarrow> None
      | Some (v, r) \<Rightarrow>
          (case skip_ws r of
             [] \<Rightarrow> None
           | c # t \<Rightarrow> if c = CHR '']'' then Some ([v], t)
               else if c = CHR '','' then map_option (\<lambda>(vs, r'). (v # vs, r')) (read_items k (skip_ws t))
               else None))"
| "read_fields 0 ps s = None"
| "read_fields (Suc k) ps s =
     (case s of
        [] \<Rightarrow> None
      | q # s1 \<Rightarrow>
          if q \<noteq> CHR 0x22 then None
          else case read_string (Suc (length s1)) s1 of
            None \<Rightarrow> None
          | Some (name, s2) \<Rightarrow>
              (case skip_ws s2 of
                 [] \<Rightarrow> None
               | d # s3 \<Rightarrow>
                   if d \<noteq> CHR '':'' then None
                   else case read_value k (skip_ws s3) of
                     None \<Rightarrow> None
                   | Some (v, r) \<Rightarrow>
                       (case skip_ws r of
                          [] \<Rightarrow> None
                        | c # t \<Rightarrow>
                            if c = CHR ''}'' then Some (dict_set name v ps, t)
                            else if c = CHR '','' then read_fields k (dict_set name v ps) (skip_ws t)
                            else None)))"

definition json_loads :: "string \<Rightarrow> json result" where
  "json_loads s =
     (case read_value (2 * length s + 2) (skip_ws s) of
        None \<Rightarrow> Inl (ValueError ''Invalid JSON'')
      | Some (v, r) \<Rightarrow> if skip_ws r = [] then Inr v else Inl (ValueError ''Extra data''))"

end
