(* ===== verification/H1Reports.thy ===== *)
theory H1Reports
  imports H1Evaluator Json Findings Approvals
begin

text \<open>
  \<open>adapters/hackerone/reports.py\<close>: report drafts, their validation and approval, and the gated
  submission. A draft is a mutable object that the workflow keeps by its identifier; a method that
  changes it in place is modelled by a function to the changed draft, which is put back, also when
  the method raises. New identifiers, the clock (one value per method), the configured secrets and
  what the API client answers are arguments. \<open>_search_remote_matches\<close> is not modelled; the rows it
  finds are an argument of \<open>reconcile\<close>.
\<close>

section \<open>Data\<close>

definition not_draftable :: "finding_status list" where
  "not_draftable = [POTENTIAL, CORROBORATED, REPRODUCED, REJECTED]"

definition severities :: "string list" where
  "severities = [''critical'', ''high'', ''medium'', ''low'', ''informational'']"

definition h1_severity :: "(string, string) dict" where
  "h1_severity =
     [(''critical'', ''critical''), (''high'', ''high''), (''medium'', ''medium''), (''low'', ''low''),
      (''informational'', ''none''), (''none'', ''none'')]"

definition approval_ttl :: int where "approval_ttl = hours 24"

datatype report_review = RV_UNREVIEWED | RV_READY | RV_APPROVED | RV_REJECTED

datatype submission_state =
    SS_LOCAL_DRAFT | SS_READY | SS_APPROVED | SS_ATTEMPTED | SS_IN_PROGRESS | SS_SUBMITTED
  | SS_FAILED | SS_UNKNOWN | SS_IDENTITY

fun review_value :: "report_review \<Rightarrow> string" where
  "review_value RV_UNREVIEWED = ''unreviewed''"
| "review_value RV_READY = ''ready_for_review''"
| "review_value RV_APPROVED = ''human_approved''"
| "review_value RV_REJECTED = ''rejected''"

fun submission_value :: "submission_state \<Rightarrow> string" where
  "submission_value SS_LOCAL_DRAFT = ''local_draft''"
| "submission_value SS_READY = ''ready_for_review''"
| "submission_value SS_APPROVED = ''human_approved''"
| "submission_value SS_ATTEMPTED = ''submission_attempted''"
| "submission_value SS_IN_PROGRESS = ''submission_in_progress''"
| "submission_value SS_SUBMITTED = ''submitted''"
| "submission_value SS_FAILED = ''submission_failed''"
| "submission_value SS_UNKNOWN = ''submission_outcome_unknown''"
| "submission_value SS_IDENTITY = ''identity_verification_required''"

record validation_issue =
  vi_field :: string
  vi_message :: string
  vi_blocking :: bool

record validation_report =
  vr_ok :: bool
  vr_issues :: "validation_issue list"

definition blocking_issues :: "validation_report \<Rightarrow> validation_issue list" where
  "blocking_issues r = filter vi_blocking (vr_issues r)"

record report_approval =
  ra_by :: string
  ra_at :: instant
  ra_expires :: instant
  ra_content :: string
  ra_evidence :: string
  ra_scope :: string
  ra_payload :: string
  ra_source :: string

definition approval_expired :: "instant \<Rightarrow> report_approval \<Rightarrow> bool" where
  "approval_expired now a \<longleftrightarrow> ra_expires a \<le> now"

record report_draft =
  d_handle :: string
  d_title :: string
  d_info :: string
  d_impact :: string
  d_severity :: "string option"
  d_weakness :: "int option"
  d_candidates :: "int list"
  d_scope_id :: "int option"
  d_evidence :: "string list"
  d_finding :: "string option"
  d_project :: "string option"
  d_created :: instant
  d_review :: report_review
  d_state :: submission_state
  d_remote :: remote_state
  d_report_id :: "string option"
  d_verification :: "string option"
  d_error :: "string option"
  d_last_payload :: "json option"
  d_id :: string
  d_operator :: "string option"
  d_reproduction :: "string option"
  d_target :: "string option"
  d_submission :: bool
  d_bounty :: bool
  d_content_hash :: string
  d_evidence_hash :: string
  d_scope_hash :: string
  d_payload_hash :: string
  d_approval :: "report_approval option"
  d_snapshot :: "scope_snapshot option"
  d_weakness_reason :: string
  d_remote_raw :: string
  d_result :: "json option"
  d_claim :: "string option"

definition json_or_null :: "json option \<Rightarrow> json" where
  "json_or_null v = (case v of None \<Rightarrow> JNull | Some j \<Rightarrow> j)"

definition draft_snapshot :: "report_draft \<Rightarrow> json" where
  "draft_snapshot d = JObj
     [(''id'', JStr (d_id d)), (''program_handle'', JStr (d_handle d)),
      (''project_id'', json_opt (d_project d)), (''title'', JStr (d_title d)),
      (''vulnerability_information'', JStr (d_info d)), (''impact'', JStr (d_impact d)),
      (''severity'', json_opt (d_severity d)), (''weakness_id'', json_int_opt (d_weakness d)),
      (''weakness_candidates'', JList (map JInt (d_candidates d))),
      (''structured_scope_id'', json_int_opt (d_scope_id d)),
      (''finding_id'', json_opt (d_finding d)),
      (''human_review_state'', JStr (review_value (d_review d))),
      (''submission_state'', JStr (submission_value (d_state d))),
      (''remote_state'', JStr (remote_value (d_remote d))),
      (''finding_verification'', json_opt (d_verification d)),
      (''hackerone_report_id'', json_opt (d_report_id d)),
      (''eligible_for_submission'', JBool (d_submission d)),
      (''eligible_for_bounty'', JBool (d_bounty d)), (''target'', json_opt (d_target d)),
      (''reproduction'', json_opt (d_reproduction d)),
      (''evidence_references'', JList (map JStr (d_evidence d))),
      (''report_content_hash'', JStr (d_content_hash d)), (''evidence_hash'', JStr (d_evidence_hash d)),
      (''scope_snapshot_hash'', JStr (d_scope_hash d)), (''payload_hash'', JStr (d_payload_hash d)),
      (''approval_timestamp'', json_time (map_option ra_at (d_approval d))),
      (''approved_by'', json_opt (map_option ra_by (d_approval d))),
      (''scope_snapshot'',
        (case d_snapshot d of None \<Rightarrow> JNull | Some s \<Rightarrow> JObj (scope_snapshot_dict s))),
      (''error'', json_opt (d_error d)), (''remote_state_raw'', JStr (d_remote_raw d)),
      (''submission_result'', json_or_null (d_result d))]"

record submission_record =
  sr_finding :: string
  sr_program :: string
  sr_state :: submission_state
  sr_report_id :: "string option"
  sr_created :: instant
  sr_metadata :: "(string, string) dict"
  sr_remote :: remote_state
  sr_error :: "string option"
  sr_result :: "json option"
  sr_remote_raw :: string

record workflow =
  wf_drafts :: "(string, report_draft) dict"
  wf_submissions :: "(string \<times> string, submission_record) dict"

definition new_workflow :: workflow where "new_workflow = \<lparr>wf_drafts = [], wf_submissions = []\<rparr>"

definition put_draft :: "string \<Rightarrow> report_draft \<Rightarrow> workflow \<Rightarrow> workflow" where
  "put_draft i d w = w\<lparr>wf_drafts := dict_set i d (wf_drafts w)\<rparr>"

definition put_submission :: "string \<times> string \<Rightarrow> submission_record \<Rightarrow> workflow \<Rightarrow> workflow" where
  "put_submission k r w = w\<lparr>wf_submissions := dict_set k r (wf_submissions w)\<rparr>"

section \<open>Findings in a report\<close>

definition assert_verified_finding :: "finding \<Rightarrow> unit result" where
  "assert_verified_finding f =
     (if status f \<in> set not_draftable \<or> status f \<notin> {VERIFIED, HUMAN_ACCEPTED} then
        Inl (HackerOneError (''A finding in status '' @ [CHR 0x27] @ status_value (status f) @ [CHR 0x27] @
          '' cannot become a submission-ready HackerOne draft. Only independently verified '' @
          ''persisted findings are accepted.'') ''finding_not_verified'')
      else if verifying_items (f_evidence f) = [] then
        Inl (HackerOneError ''Verified evidence is required'' ''evidence_required'')
      else Inr ())"

definition normalize_severity :: "string option \<Rightarrow> string option result" where
  "normalize_severity v =
     (case v of
        None \<Rightarrow> Inr None
      | Some s \<Rightarrow>
          if py_strip s = [] then Inr None
          else let low = py_lower (py_strip s) in
            if low \<notin> set severities \<and> low \<noteq> ''none'' then
              Inl (HackerOneError ''Unknown severity; BugForge will not invent one'' ''severity_invalid'')
            else if low = ''none'' then Inr (Some ''informational'')
            else Inr (Some low))"

text \<open>An operator is a session, a text or absent.\<close>

definition operator_identity :: "(operator_session + string) option \<Rightarrow> string option" where
  "operator_identity v =
     (case v of
        Some (Inl s) \<Rightarrow> Some (identity s)
      | Some (Inr t) \<Rightarrow> if py_strip t \<noteq> [] then Some (py_strip t) else None
      | None \<Rightarrow> None)"

definition nl :: string where "nl = [CHR 0x0A]"

text \<open>\<open>a or b or ... or last\<close>, for texts that may be absent.\<close>

fun first_text :: "string option list \<Rightarrow> string \<Rightarrow> string" where
  "first_text [] final = final"
| "first_text (v # vs) final = or_text (text_or_empty v) (first_text vs final)"

definition finding_target :: "finding \<Rightarrow> string" where
  "finding_target f = first_text [f_target f, endpoint f, asset f] []"

definition compose_vulnerability_information :: "finding \<Rightarrow> string \<Rightarrow> string" where
  "compose_vulnerability_information f target =
     (let summary = first_text [report_description f, Some (description f), observed_behavior f] (title f);
          place = first_text [Some target, f_target f, asset f, endpoint f] ''unknown'';
          steps = first_text [f_reproduction f] ''Not provided'';
          observed = first_text [observed_behavior f, Some (description f)] ''See reproduction'';
          expected = first_text [expected_behavior f]
            ''The operation should be authorized only for the owner'';
          rows = map (\<lambda>e. ''- '' @ ev_summary e @ '' ('' @ evidence_kind_value (ev_kind e) @
            '', id='' @ ev_id e @ '')'') (verifying_items (f_evidence f));
          evidence = (if rows = [] then ''- none'' else py_join nl rows)
      in ''## Summary'' @ nl @ summary @ nl @ nl @
         ''## Affected asset'' @ nl @ place @ nl @ nl @
         ''## Steps to reproduce'' @ nl @ steps @ nl @ nl @
         ''## Observed result'' @ nl @ observed @ nl @ nl @
         ''## Expected result'' @ nl @ expected @ nl @ nl @
         ''## Supporting evidence/references'' @ nl @ evidence)"

section \<open>The payload\<close>

definition build_payload :: "report_draft \<Rightarrow> json" where
  "build_payload d = JObj [(''data'', JObj [(''type'', JStr ''report''), (''attributes'', JObj
     ([(''team_handle'', JStr (d_handle d)), (''title'', JStr (d_title d)),
       (''vulnerability_information'', JStr (d_info d)), (''impact'', JStr (d_impact d))] @
      (case d_severity d of
         None \<Rightarrow> []
       | Some s \<Rightarrow> if s = [] then [] else [(''severity_rating'', JStr (dict_get h1_severity s s))]) @
      (case d_weakness d of None \<Rightarrow> [] | Some i \<Rightarrow> [(''weakness_id'', JInt i)]) @
      (case d_scope_id d of None \<Rightarrow> [] | Some i \<Rightarrow> [(''structured_scope_id'', JInt i)])))])]"

definition redact_payload :: "json \<Rightarrow> json result" where
  "redact_payload payload =
     then_do (json_loads (redact_text (json_plain payload)))
       (\<lambda>parsed. Inr (case parsed of JObj ps \<Rightarrow> parsed | _ \<Rightarrow> payload))"

definition redacted_payload :: "report_draft \<Rightarrow> json result" where
  "redacted_payload d = redact_payload (build_payload d)"

section \<open>Validation\<close>

definition blocker :: "string \<Rightarrow> string \<Rightarrow> validation_issue" where
  "blocker fld msg = \<lparr>vi_field = fld, vi_message = msg, vi_blocking = True\<rparr>"

definition issue_if :: "bool \<Rightarrow> validation_issue \<Rightarrow> validation_issue list" where
  "issue_if b i = (if b then [i] else [])"

definition finding_issues :: "report_draft \<Rightarrow> finding \<Rightarrow> validation_issue list" where
  "finding_issues d f =
     issue_if (status f \<notin> {VERIFIED, HUMAN_ACCEPTED})
       (blocker ''finding'' ''Only verified findings can become submission-ready reports'') @
     issue_if (verifying_items (f_evidence f) = []) (blocker ''evidence'' ''Finding lacks verifying evidence'') @
     issue_if (first_text [f_reproduction f, d_reproduction d] [] = [])
       (blocker ''reproduction'' ''Reproduction information is required'')"

definition validate_report ::
    "string list \<Rightarrow> report_draft \<Rightarrow> h1_program \<Rightarrow> h1_decision option \<Rightarrow> finding option \<Rightarrow> validation_report"
  where
  "validate_report secrets d p scope f =
     (let issues =
        issue_if (py_strip (d_title d) = []) (blocker ''title'' ''Title is required'') @
        (if py_strip (d_info d) = [] then
           [blocker ''vulnerability_information'' ''Vulnerability information is required'']
         else issue_if (\<not> py_contains (d_info d) ''## Steps to reproduce'')
           (blocker ''vulnerability_information'' ''Vulnerability information must include steps to reproduce'')) @
        issue_if (py_strip (d_impact d) = []) (blocker ''impact'' ''Impact is required'') @
        issue_if (text_or_empty (d_target d) = []) (blocker ''target'' ''Target is required'') @
        (case scope of
           None \<Rightarrow> [blocker ''target'' ''Target is not in the current HackerOne structured scope'']
         | Some s \<Rightarrow>
             issue_if (\<not> hd_in_scope s)
               (blocker ''target'' ''Target is not in the current HackerOne structured scope'') @
             issue_if (\<not> hd_submission s) (blocker ''target'' ''Target is not eligible for submission'')) @
        (case d_scope_id d of
           None \<Rightarrow> [blocker ''structured_scope_id'' ''structured_scope_id is required'']
         | Some i \<Rightarrow>
             (case scope of
                None \<Rightarrow> []
              | Some s \<Rightarrow> issue_if (parse_hackerone_id (map_option Inr (hd_scope_id s)) \<noteq> Some i)
                  (blocker ''structured_scope_id''
                    ''structured_scope_id does not match the current scope match''))) @
        (if pg_requires_severity p = Some True then
           (if text_or_empty (d_severity d) = [] then
              [blocker ''severity'' ''Severity is required for this program'']
            else issue_if (text_or_empty (d_severity d) \<notin> set severities)
              (blocker ''severity'' ''Severity is not a recognized HackerOne rating''))
         else []) @
        (case d_weakness d of
           None \<Rightarrow> [blocker ''weakness_id'' (''Weakness must be a synchronized numeric HackerOne id; '' @
             ''a human must select one when the mapping is missing or ambiguous'')]
         | Some i \<Rightarrow> issue_if (pg_weaknesses p \<noteq> [] \<and> i \<notin> w_id ` set (pg_weaknesses p))
             (blocker ''weakness_id'' ''weakness_id is not in the current program weakness list'')) @
        issue_if (d_evidence d = []) (blocker ''evidence'' ''Evidence must be linked'') @
        (case f of None \<Rightarrow> [] | Some x \<Rightarrow> finding_issues d x) @
        (let leaked = detect_secrets [d_title d, d_info d, d_impact d, text_or_empty (d_reproduction d),
               py_join '' '' (d_evidence d)] secrets in
         issue_if (leaked \<noteq> []) (blocker ''secrets'' (''Possible secret leakage: '' @ py_join '', '' leaked))) @
        issue_if (py_contains (py_lower (d_info d)) ''unsupported claim'')
          (blocker ''claims'' ''Unsupported claims must be removed'')
      in \<lparr>vr_ok = \<not> list_ex vi_blocking issues, vr_issues = issues\<rparr>)"

section \<open>Hashes and approvals\<close>

definition evidence_item_json :: "evidence \<Rightarrow> json" where
  "evidence_item_json e = JObj
     [(''id'', JStr (ev_id e)), (''kind'', JStr (evidence_kind_value (ev_kind e))),
      (''summary'', JStr (ev_summary e)),
      (''provenance'', JStr (case ev_provenance e of None \<Rightarrow> ''None'' | Some p \<Rightarrow> provenance_value p))]"

definition finding_extra :: "finding \<Rightarrow> (string \<times> json) list" where
  "finding_extra f =
     [(''finding_status'', JStr (status_value (status f))),
      (''finding_evidence'', JList (map evidence_item_json (f_evidence f))),
      (''finding_reproduction'', JStr (text_or_empty (f_reproduction f))),
      (''vulnerability_class'', JStr (text_or_empty (vulnerability_class f)))]"

definition draft_content_json :: "report_draft \<Rightarrow> json" where
  "draft_content_json d =
     report_content_json (d_title d) (d_info d) (d_impact d) (d_severity d) (d_weakness d) (d_scope_id d)
       (d_target d) (d_handle d) (d_verification d) (d_reproduction d)"

definition draft_evidence_json :: "report_draft \<Rightarrow> finding option \<Rightarrow> json" where
  "draft_evidence_json d f = evidence_hash_json (d_evidence d)
     ([(''summaries'', JList (map JStr (d_evidence d))),
       (''reproduction'', JStr (text_or_empty (d_reproduction d))),
       (''finding_verification'', JStr (text_or_empty (d_verification d))),
       (''finding_id'', JStr (text_or_empty (d_finding d)))] @
      (case f of None \<Rightarrow> [] | Some x \<Rightarrow> finding_extra x))"

definition refresh_hashes ::
    "h1_program \<Rightarrow> h1_decision \<Rightarrow> finding option \<Rightarrow> report_draft \<Rightarrow> report_draft" where
  "refresh_hashes p scope f d =
     (let snap = decision_snapshot scope p in
      d\<lparr>d_snapshot := Some snap,
        d_content_hash := hash_value (draft_content_json d),
        d_evidence_hash := hash_value (draft_evidence_json d f),
        d_scope_hash := sn_hash snap,
        d_payload_hash := hash_value (build_payload d),
        d_submission := hd_submission scope, d_bounty := hd_bounty scope\<rparr>)"

definition approval_matches :: "instant \<Rightarrow> report_draft \<Rightarrow> report_approval \<Rightarrow> bool" where
  "approval_matches now d a \<longleftrightarrow>
     ra_content a = d_content_hash d \<and> ra_evidence a = d_evidence_hash d \<and>
     ra_scope a = d_scope_hash d \<and> \<not> approval_expired now a"

definition invalidated :: "string \<Rightarrow> report_draft \<Rightarrow> report_draft" where
  "invalidated why d =
     d\<lparr>d_review := RV_READY, d_state := SS_READY, d_approval := None, d_error := Some why\<rparr>"

definition get_draft :: "workflow \<Rightarrow> string \<Rightarrow> report_draft result" where
  "get_draft w i =
     (case map_of (wf_drafts w) i of
        None \<Rightarrow> Inl (HackerOneError ''Unknown report draft'' ''not_found'') | Some d \<Rightarrow> Inr d)"

definition finding_class :: "finding option \<Rightarrow> string option" where
  "finding_class f = (case f of None \<Rightarrow> None | Some x \<Rightarrow> vulnerability_class x)"

text \<open>The first half of \<open>_revalidate\<close>: what the finding says now is copied into the draft.\<close>

definition adopt_finding :: "finding option \<Rightarrow> report_draft \<Rightarrow> report_draft result" where
  "adopt_finding f d =
     (case f of
        None \<Rightarrow> Inr d
      | Some x \<Rightarrow> then_do (assert_verified_finding x) (\<lambda>_.
          if text_or_empty (d_finding d) \<noteq> [] \<and> f_id x \<noteq> text_or_empty (d_finding d) then
            Inl (HackerOneError ''Finding does not belong to this report draft'' ''finding_mismatch'')
          else Inr (d\<lparr>d_verification := Some (status_value (status x)),
                      d_evidence := map ev_id (verifying_items (f_evidence x)),
                      d_reproduction := (if text_or_empty (f_reproduction x) = [] then d_reproduction d
                                         else f_reproduction x)\<rparr>)))"

text \<open>\<open>_revalidate\<close>: the draft as it is afterwards, and the decision or the error.\<close>

definition revalidate ::
    "string list \<Rightarrow> h1_program \<Rightarrow> finding option \<Rightarrow> string \<Rightarrow> report_draft
     \<Rightarrow> report_draft \<times> h1_decision result" where
  "revalidate secrets p f stage d =
     (case adopt_finding f d of
        Inl exc \<Rightarrow> (d, Inl exc)
      | Inr d1 \<Rightarrow>
          (let scope = evaluate_asset p (text_or_empty (d_target d1)) (finding_class f) in
           if stage = ''submit'' \<and>
              (case d_snapshot d1 of
                 None \<Rightarrow> False | Some s \<Rightarrow> sn_hash (decision_snapshot scope p) \<noteq> sn_hash s)
           then (invalidated ''Structured scope snapshot changed'' d1,
                 Inl (HackerOneError ''Current structured scope differs from the approved scope snapshot''
                   ''scope_changed''))
           else let report = validate_report secrets d1 p (Some scope) f in
             if \<not> vr_ok report then
               (d1, Inl (HackerOneError (''Draft failed '' @ stage @ '' validation: '' @
                  py_join ''; '' (map vi_message (blocking_issues report))) ''validation_failed''))
             else (d1, Inr scope)))"

section \<open>Drafting and approval\<close>

text \<open>What a method takes from outside: clock, secrets, settings, new identifiers, client state.\<close>

record report_env =
  en_now :: instant
  en_secrets :: "string list"
  en_fresh :: freshness_settings
  en_uid :: string
  en_token :: string
  en_status :: "int option"
  en_body :: "json option"

definition new_draft ::
    "report_env \<Rightarrow> finding \<Rightarrow> h1_program \<Rightarrow> h1_decision \<Rightarrow> program_weakness_mapping \<Rightarrow> string option
     \<Rightarrow> (operator_session + string) option \<Rightarrow> string option \<Rightarrow> report_draft" where
  "new_draft en f p scope mapped sev operator project =
     \<lparr>d_handle = pg_handle p, d_title = first_text [report_title f] (title f),
      d_info = compose_vulnerability_information f (finding_target f),
      d_impact = text_or_empty (impact f), d_severity = sev,
      d_weakness = pw_selected mapped, d_candidates = map w_id (pw_matched mapped),
      d_scope_id = parse_hackerone_id (map_option Inr (hd_scope_id scope)),
      d_evidence = map ev_id (verifying_items (f_evidence f)),
      d_finding = Some (f_id f), d_project = project, d_created = en_now en,
      d_review = RV_UNREVIEWED, d_state = SS_LOCAL_DRAFT, d_remote = RS_NOT_FETCHED,
      d_report_id = None, d_verification = Some (status_value (status f)),
      d_error = None, d_last_payload = None, d_id = en_uid en,
      d_operator = operator_identity operator, d_reproduction = f_reproduction f,
      d_target = Some (finding_target f), d_submission = hd_submission scope,
      d_bounty = hd_bounty scope, d_content_hash = [], d_evidence_hash = [],
      d_scope_hash = [], d_payload_hash = [], d_approval = None,
      d_snapshot = Some (decision_snapshot scope p), d_weakness_reason = pw_reason mapped,
      d_remote_raw = [], d_result = None, d_claim = None\<rparr>"

definition draft_from_finding ::
    "report_env \<Rightarrow> finding \<Rightarrow> h1_program \<Rightarrow> string option \<Rightarrow> id_arg \<Rightarrow> (operator_session + string) option
     \<Rightarrow> string option \<Rightarrow> workflow \<Rightarrow> workflow \<times> report_draft result" where
  "draft_from_finding en f p severity weak operator project w =
     (let target = finding_target f;
          scope = (if target \<noteq> [] then evaluate_asset p target (vulnerability_class f)
                   else no_decision False ''Finding has no target'');
          mapped = map_program_weakness (vulnerability_class f) p weak
      in case then_do (assert_verified_finding f) (\<lambda>_.
                then_do (if weak \<noteq> None \<and> pw_selected mapped = None
                         then Inl (HackerOneError (pw_reason mapped) ''weakness_invalid'') else Inr ())
                  (\<lambda>_. normalize_severity severity)) of
           Inl exc \<Rightarrow> (w, Inl exc)
         | Inr sev \<Rightarrow>
             (let d = refresh_hashes p scope (Some f) (new_draft en f p scope mapped sev operator project)
              in (put_draft (d_id d) d w, Inr d)))"

definition mark_ready ::
    "report_env \<Rightarrow> string \<Rightarrow> h1_program \<Rightarrow> finding option \<Rightarrow> workflow \<Rightarrow> workflow \<times> report_draft result"
  where
  "mark_ready en i p f w =
     (case get_draft w i of
        Inl exc \<Rightarrow> (w, Inl exc)
      | Inr d \<Rightarrow>
          (case revalidate (en_secrets en) p f ''ready_for_review'' d of
             (d1, Inl exc) \<Rightarrow> (put_draft i d1 w, Inl exc)
           | (d1, Inr _) \<Rightarrow>
               (let d2 = d1\<lparr>d_review := RV_READY, d_state := SS_READY\<rparr>
                in (put_draft i d2 w, Inr d2))))"

definition awaiting_approval :: "submission_state list" where
  "awaiting_approval = [SS_READY, SS_LOCAL_DRAFT, SS_FAILED, SS_IDENTITY]"

definition human_approve ::
    "report_env \<Rightarrow> string \<Rightarrow> h1_program \<Rightarrow> operator_session \<Rightarrow> finding option \<Rightarrow> workflow
     \<Rightarrow> workflow \<times> report_draft result" where
  "human_approve en i p session f w =
     (case then_do (assert_human session) (\<lambda>_. then_do (get_draft w i) (\<lambda>d.
              if d_state d \<notin> set awaiting_approval
              then Inl (HackerOneError ''Draft is not awaiting human approval'' ''invalid_state'')
              else Inr d)) of
        Inl exc \<Rightarrow> (w, Inl exc)
      | Inr d \<Rightarrow>
          (case revalidate (en_secrets en) p f ''human_approved'' d of
             (d1, Inl exc) \<Rightarrow> (put_draft i d1 w, Inl exc)
           | (d1, Inr scope) \<Rightarrow>
               (let d2 = refresh_hashes p scope f d1;
                    a = \<lparr>ra_by = identity session, ra_at = en_now en,
                         ra_expires = en_now en + approval_ttl, ra_content = d_content_hash d2,
                         ra_evidence = d_evidence_hash d2, ra_scope = d_scope_hash d2,
                         ra_payload = hash_value (build_payload d2), ra_source = o_source session\<rparr>;
                    d3 = d2\<lparr>d_review := RV_APPROVED, d_state := SS_APPROVED,
                            d_operator := Some (identity session), d_approval := Some a\<rparr>
                in (put_draft i d3 w, Inr d3))))"

text \<open>The fields an edit names.\<close>

record draft_edit =
  de_title :: "string option"
  de_info :: "string option"
  de_impact :: "string option"
  de_severity :: "string option"
  de_weakness :: id_arg

definition or_old :: "'a option \<Rightarrow> 'a \<Rightarrow> 'a" where
  "or_old v x = (case v of None \<Rightarrow> x | Some y \<Rightarrow> y)"

definition edited_draft ::
    "h1_program \<Rightarrow> draft_edit \<Rightarrow> finding option \<Rightarrow> report_draft \<Rightarrow> report_draft result" where
  "edited_draft p ed f d =
     then_do (case de_severity ed of None \<Rightarrow> Inr (d_severity d) | Some s \<Rightarrow> normalize_severity (Some s))
       (\<lambda>sev. then_do
          (if de_weakness ed = None then Inr (d_weakness d)
           else let mapped = map_program_weakness (finding_class f) p (de_weakness ed) in
             if pw_selected mapped = None
             then Inl (HackerOneError (pw_reason mapped) ''weakness_invalid'') else Inr (pw_selected mapped))
          (\<lambda>weak. Inr (d\<lparr>d_title := or_old (de_title ed) (d_title d),
             d_info := or_old (de_info ed) (d_info d), d_impact := or_old (de_impact ed) (d_impact d),
             d_severity := sev, d_weakness := weak\<rparr>)))"

definition edit_note :: string where
  "edit_note = ''Approval invalidated because the report, evidence, or scope changed''"

definition apply_edits ::
    "report_env \<Rightarrow> string \<Rightarrow> h1_program \<Rightarrow> draft_edit \<Rightarrow> finding option \<Rightarrow> workflow
     \<Rightarrow> workflow \<times> report_draft result" where
  "apply_edits en i p ed f w =
     (case then_do (get_draft w i) (edited_draft p ed f) of
        Inl exc \<Rightarrow> (w, Inl exc)
      | Inr d1 \<Rightarrow>
          (let scope = evaluate_asset p (text_or_empty (d_target d1)) (finding_class f);
               d2 = refresh_hashes p scope f d1;
               d3 = (case d_approval d2 of
                       None \<Rightarrow> d2
                     | Some a \<Rightarrow> if approval_matches (en_now en) d2 a then d2 else invalidated edit_note d2)
           in (put_draft i d3 w, Inr d3)))"

definition dry_run ::
    "report_env \<Rightarrow> string \<Rightarrow> h1_program \<Rightarrow> finding option \<Rightarrow> workflow \<Rightarrow> json result" where
  "dry_run en i p f w =
     then_do (get_draft w i) (\<lambda>d.
       let scope = evaluate_asset p (text_or_empty (d_target d)) (finding_class f);
           report = validate_report (en_secrets en) d p (Some scope) f
       in then_do (redacted_payload d) (\<lambda>payload. Inr (JObj
         [(''would_submit'', JBool False), (''payload'', payload),
          (''validation'', JObj [(''ok'', JBool (vr_ok report)),
            (''issues'', JList (map (\<lambda>v. JObj [(''field'', JStr (vi_field v)),
               (''message'', JStr (vi_message v)), (''blocking'', JBool (vi_blocking v))]) (vr_issues report)))]),
          (''scope'', JObj [(''in_scope'', JBool (hd_in_scope scope)), (''allowed'', JBool (hd_allowed scope)),
            (''reason'', JStr (hd_reason scope)), (''structured_scope_id'', json_opt (hd_scope_id scope)),
            (''eligible_for_submission'', JBool (hd_submission scope)),
            (''eligible_for_bounty'', JBool (hd_bounty scope)),
            (''asset_identifier'', json_opt (hd_identifier scope))]),
          (''hashes'', JObj [(''report_content_hash'', JStr (d_content_hash d)),
            (''evidence_hash'', JStr (d_evidence_hash d)), (''scope_snapshot_hash'', JStr (d_scope_hash d)),
            (''payload_hash'', JStr (hash_value (build_payload d)))]),
          (''api_calls_during_dry_run'', JList [])])))"

section \<open>Submission\<close>

definition in_progress :: error where
  "in_progress = HackerOneError ''A HackerOne submission claim is already in progress'' ''submission_in_progress''"

definition draft_claimable :: "report_draft \<Rightarrow> unit result" where
  "draft_claimable d =
     (if d_state d = SS_ATTEMPTED then Inl in_progress
      else if d_state d = SS_IN_PROGRESS then Inl in_progress
      else if d_state d = SS_UNKNOWN then
        Inl (HackerOneError (''A previous submission attempt has an unknown outcome. '' @
          ''Reconcile the remote report before retrying.'') ''submission_outcome_unknown'')
      else if text_or_empty (d_report_id d) \<noteq> [] \<or> d_state d = SS_SUBMITTED then
        Inl (HackerOneError ''Draft already has a HackerOne report id'' ''duplicate'')
      else if d_state d \<noteq> SS_APPROVED then
        Inl (HackerOneError ''Real submission requires HUMAN_APPROVED. Use dry-run until a human approves.''
          ''not_approved'')
      else Inr ())"

definition record_claimable :: "submission_record option \<Rightarrow> unit result" where
  "record_claimable existing =
     (case existing of
        None \<Rightarrow> Inr ()
      | Some r \<Rightarrow>
          if sr_state r \<in> {SS_ATTEMPTED, SS_IN_PROGRESS} then Inl in_progress
          else if sr_state r = SS_UNKNOWN then
            Inl (HackerOneError ''A previous submission attempt has an unknown outcome. Reconcile first.''
              ''submission_outcome_unknown'')
          else if text_or_empty (sr_report_id r) \<noteq> [] \<or> sr_state r = SS_SUBMITTED then
            Inl (HackerOneError (''Finding already submitted as HackerOne report '' @
              (case sr_report_id r of None \<Rightarrow> ''None'' | Some x \<Rightarrow> x)) ''duplicate'')
          else Inr ())"

definition draft_key :: "report_draft \<Rightarrow> h1_program \<Rightarrow> string \<times> string" where
  "draft_key d p = (text_or_empty (d_finding d), pg_handle p)"

text \<open>The record of a claim is stored before the payload is redacted.\<close>

definition claim_submission ::
    "report_env \<Rightarrow> string \<Rightarrow> h1_program \<Rightarrow> workflow \<Rightarrow> workflow \<times> report_draft result" where
  "claim_submission en i p w =
     (case then_do (get_draft w i) (\<lambda>d. then_do (draft_claimable d) (\<lambda>_. then_do
             (if text_or_empty (d_finding d) = [] then Inr ()
              else record_claimable (map_of (wf_submissions w) (draft_key d p))) (\<lambda>_. Inr d))) of
        Inl exc \<Rightarrow> (w, Inl exc)
      | Inr d \<Rightarrow>
          (let w1 = (if text_or_empty (d_finding d) = [] then w
             else put_submission (draft_key d p)
               \<lparr>sr_finding = text_or_empty (d_finding d), sr_program = pg_handle p,
                sr_state = SS_ATTEMPTED, sr_report_id = None, sr_created = en_now en,
                sr_metadata = [(''draft_id'', i), (''claim_token'', en_token en)],
                sr_remote = RS_NOT_FETCHED, sr_error = None, sr_result = None, sr_remote_raw = []\<rparr> w)
           in case redacted_payload d of
                Inl exc \<Rightarrow> (w1, Inl exc)
              | Inr payload \<Rightarrow>
                  (let d1 = d\<lparr>d_state := SS_ATTEMPTED, d_claim := Some (en_uid en),
                              d_last_payload := Some payload\<rparr>
                   in (put_draft i d1 w1, Inr d1))))"

text \<open>The part of \<open>submit\<close> before the claim: the checked draft and the payload that will be sent.\<close>

definition submit_check ::
    "report_env \<Rightarrow> string \<Rightarrow> h1_program \<Rightarrow> finding option \<Rightarrow> operator_session \<Rightarrow> workflow
     \<Rightarrow> workflow \<times> (report_draft \<times> json) result" where
  "submit_check en i p f session w =
     (case then_do (assert_human session) (\<lambda>_.
             then_do (require_fresh_program (en_fresh en) (en_now en) p) (\<lambda>_. get_draft w i)) of
        Inl exc \<Rightarrow> (w, Inl exc)
      | Inr d \<Rightarrow>
          (case d_approval d of
             None \<Rightarrow> (w, Inl (HackerOneError ''Human approval record is missing'' ''not_approved''))
           | Some a \<Rightarrow>
               if approval_expired (en_now en) a then
                 (put_draft i (invalidated ''Approval expired'' d) w,
                  Inl (HackerOneError ''Human approval has expired'' ''approval_expired''))
               else case revalidate (en_secrets en) p f ''submit'' d of
                 (d1, Inl exc) \<Rightarrow> (put_draft i d1 w, Inl exc)
               | (d1, Inr scope) \<Rightarrow>
                   (let d2 = refresh_hashes p scope f d1 in
                    if \<not> approval_matches (en_now en) d2 a then
                      (put_draft i (invalidated ''Approved hashes no longer match the current draft'' d2) w,
                       Inl (HackerOneError
                         ''Human approval is bound to a previous report/scope/evidence version''
                         ''approval_stale''))
                    else if hash_value (build_payload d2) \<noteq> ra_payload a then
                      (put_draft i (invalidated ''Approved payload hash no longer matches'' d2) w,
                       Inl (HackerOneError
                         ''Approved payload does not match the current report payload'' ''approval_stale''))
                    else (put_draft i d2 w, Inr (d2, build_payload d2)))))"

text \<open>
  What the client makes of the POST: a body, an identity demand, another \<open>HackerOneError\<close> with its
  message and code, or an exception of another class.
\<close>

type_synonym json_body = "(string \<times> json) list"

datatype post_reply = Post_Ok json_body | Post_Identity string | Post_Error string string | Post_Raise error

definition submission_result :: "report_env \<Rightarrow> string option \<Rightarrow> string option \<Rightarrow> json" where
  "submission_result en code rid = JObj
     [(''http_status'', json_int_opt (en_status en)), (''remote_report_id'', json_opt rid),
      (''error_code'', json_opt code), (''timestamp'', JStr (isoformat (en_now en))),
      (''response'', json_or_null (en_body en))]"

definition store_draft :: "report_env \<Rightarrow> report_draft \<Rightarrow> h1_program \<Rightarrow> workflow \<Rightarrow> workflow" where
  "store_draft en d p w =
     (let w1 = put_draft (d_id d) d w in
      if text_or_empty (d_finding d) = [] then w1
      else put_submission (draft_key d p)
        \<lparr>sr_finding = text_or_empty (d_finding d), sr_program = pg_handle p, sr_state = d_state d,
         sr_report_id = d_report_id d, sr_created = en_now en,
         sr_metadata = [(''draft_id'', d_id d), (''claim_token'', text_or_empty (d_claim d))],
         sr_remote = d_remote d, sr_error = d_error d, sr_result = d_result d,
         sr_remote_raw = d_remote_raw d\<rparr> w1)"

text \<open>\<open>v or {}\<close> where a dictionary is expected.\<close>

definition dict_or_empty :: "json \<Rightarrow> json_body result" where
  "dict_or_empty v =
     (if \<not> json_true v then Inr []
      else case v of JObj ps \<Rightarrow> Inr ps | _ \<Rightarrow> Inl (AttributeError ''object has no attribute get''))"

definition submitted_draft :: "report_env \<Rightarrow> json_body \<Rightarrow> report_draft \<Rightarrow> report_draft result" where
  "submitted_draft en body d =
     then_do (dict_or_empty (json_get body ''data'')) (\<lambda>data.
       then_do (dict_or_empty (json_get data ''attributes'')) (\<lambda>attrs.
         let rid = json_text (json_get data ''id'');
             (mapped, raw) = map_remote_state (json_get attrs ''state'')
         in Inr (d\<lparr>d_state := SS_SUBMITTED,
              d_remote := (if mapped \<noteq> RS_NOT_FETCHED then mapped else RS_NEW), d_remote_raw := raw,
              d_report_id := Some rid, d_error := None,
              d_result := Some (submission_result en None (Some rid))\<rparr>)))"

definition failed_draft ::
    "report_env \<Rightarrow> submission_state \<Rightarrow> string \<Rightarrow> string \<Rightarrow> report_draft \<Rightarrow> report_draft" where
  "failed_draft en st msg code d =
     d\<lparr>d_state := st, d_error := Some msg, d_result := Some (submission_result en (Some code) None)\<rparr>"

text \<open>The part of \<open>submit\<close> after the POST.\<close>

definition submit_finish ::
    "report_env \<Rightarrow> report_draft \<Rightarrow> h1_program \<Rightarrow> post_reply \<Rightarrow> workflow
     \<Rightarrow> workflow \<times> report_draft result" where
  "submit_finish en attempted p reply w =
     (let stored = (\<lambda>d. (store_draft en d p w, Inr d)) in
      case reply of
        Post_Identity msg \<Rightarrow>
          stored (failed_draft en SS_IDENTITY msg ''identity_verification_required'' attempted)
      | Post_Error msg code \<Rightarrow>
          if code \<in> {''timeout'', ''network''} then stored (failed_draft en SS_UNKNOWN msg code attempted)
          else stored (failed_draft en SS_FAILED msg code attempted)
      | Post_Raise exc \<Rightarrow> (w, Inl exc)
      | Post_Ok body \<Rightarrow>
          (case submitted_draft en body attempted of Inl exc \<Rightarrow> (w, Inl exc) | Inr d \<Rightarrow> stored d))"

text \<open>The whole of \<open>submit\<close>. The client answers to a payload; the second environment is the later one.\<close>

definition submit ::
    "report_env \<Rightarrow> report_env \<Rightarrow> string \<Rightarrow> h1_program \<Rightarrow> finding option \<Rightarrow> operator_session \<Rightarrow> bool
     \<Rightarrow> (json \<Rightarrow> post_reply) \<Rightarrow> workflow \<Rightarrow> workflow \<times> report_draft result" where
  "submit en later i p f session already_claimed post w =
     (case submit_check en i p f session w of
        (w1, Inl exc) \<Rightarrow> (w1, Inl exc)
      | (w1, Inr (d, payload)) \<Rightarrow>
          (case (if already_claimed then (w1, Inr d) else claim_submission en i p w1) of
             (w2, Inl exc) \<Rightarrow> (w2, Inl exc)
           | (w2, Inr attempted) \<Rightarrow> submit_finish later attempted p (post payload) w2))"

section \<open>Reconciliation\<close>

definition body_data :: "json_body \<Rightarrow> json_body" where
  "body_data body = (case json_get body ''data'' of JObj ps \<Rightarrow> ps | _ \<Rightarrow> body)"

definition remote_id :: "json_body \<Rightarrow> report_draft \<Rightarrow> string" where
  "remote_id body d = or_text (json_text (json_get (body_data body) ''id'')) (text_or_empty (d_report_id d))"

definition remote_state_of :: "json_body \<Rightarrow> remote_state \<times> string" where
  "remote_state_of body = map_remote_state
     (case json_get (body_data body) ''attributes'' of JObj as \<Rightarrow> json_get as ''state'' | _ \<Rightarrow> JStr [])"

definition remote_update :: "report_env \<Rightarrow> json_body \<Rightarrow> report_draft \<Rightarrow> report_draft" where
  "remote_update en body d =
     (let rid = remote_id body d; (mapped, raw) = remote_state_of body in
      d\<lparr>d_report_id := (if rid \<noteq> [] then Some rid else d_report_id d), d_remote := mapped,
        d_remote_raw := raw, d_state := (if rid \<noteq> [] then SS_SUBMITTED else d_state d), d_error := None,
        d_result := Some (submission_result en None (none_if_empty rid))\<rparr>)"

definition apply_remote ::
    "report_env \<Rightarrow> report_draft \<Rightarrow> json_body \<Rightarrow> string option \<Rightarrow> workflow
     \<Rightarrow> workflow \<times> report_draft result" where
  "apply_remote en d body need w =
     (let rid = remote_id body d in
      if text_or_empty need \<noteq> [] \<and> rid \<noteq> [] \<and> rid \<noteq> text_or_empty need then
        (w, Inl (HackerOneError ''Remote report id does not match'' ''mismatch''))
      else let d1 = remote_update en body d;
               w1 = put_draft (d_id d) d1 w;
               key = (text_or_empty (d_finding d1), d_handle d1)
           in if text_or_empty (d_finding d1) = [] then (w1, Inr d1)
              else (put_submission key
                \<lparr>sr_finding = text_or_empty (d_finding d1), sr_program = d_handle d1,
                 sr_state = d_state d1, sr_report_id = d_report_id d1, sr_created = en_now en,
                 sr_metadata = [(''draft_id'', d_id d)], sr_remote = d_remote d1,
                 sr_error = (case map_of (wf_submissions w1) key of None \<Rightarrow> None | Some r \<Rightarrow> sr_error r),
                 sr_result = d_result d1, sr_remote_raw = snd (remote_state_of body)\<rparr> w1, Inr d1))"

text \<open>\<open>remote or self.fetch_remote_report(...)\<close>.\<close>

definition remote_or_fetch :: "json_body option \<Rightarrow> json_body result \<Rightarrow> json_body result" where
  "remote_or_fetch remote fetched =
     (case remote of None \<Rightarrow> fetched | Some b \<Rightarrow> if b = [] then fetched else Inr b)"

definition reconcile ::
    "report_env \<Rightarrow> string \<Rightarrow> json_body option \<Rightarrow> string option \<Rightarrow> json_body result
     \<Rightarrow> json_body list result \<Rightarrow> workflow \<Rightarrow> workflow \<times> report_draft result" where
  "reconcile en i remote confirmed fetched matches w =
     (case get_draft w i of
        Inl exc \<Rightarrow> (w, Inl exc)
      | Inr d \<Rightarrow>
          if text_or_empty confirmed \<noteq> [] then
            (case remote_or_fetch remote fetched of
               Inl exc \<Rightarrow> (w, Inl exc) | Inr body \<Rightarrow> apply_remote en d body confirmed w)
          else if text_or_empty (d_report_id d) \<noteq> [] then
            (case remote_or_fetch remote fetched of
               Inl exc \<Rightarrow> (w, Inl exc) | Inr body \<Rightarrow> apply_remote en d body (d_report_id d) w)
          else if d_state d \<noteq> SS_UNKNOWN then
            (w, Inl (HackerOneError ''No HackerOne report id to reconcile'' ''not_found''))
          else case remote of
            Some body \<Rightarrow> apply_remote en d body None w
          | None \<Rightarrow>
              (case matches of
                 Inl exc \<Rightarrow> (w, Inl exc)
               | Inr rows \<Rightarrow>
                   if length rows = 1 then apply_remote en d (rows ! 0) None w
                   else if 1 < length rows then
                     (w, Inl (HackerOneError (''Multiple remote HackerOne reports match; a human must '' @
                        ''confirm the report id'') ''reconciliation_ambiguous''))
                   else (w, Inr d)))"

section \<open>Approved drafts pass the checks of a submission\<close>

lemma validate_cong:
  assumes "d_title d = d_title e" "d_info d = d_info e" "d_impact d = d_impact e" "d_target d = d_target e"
    "d_scope_id d = d_scope_id e" "d_severity d = d_severity e" "d_weakness d = d_weakness e"
    "d_evidence d = d_evidence e" "d_reproduction d = d_reproduction e"
  shows "validate_report secrets d p s f = validate_report secrets e p s f"
  using assms by (simp add: validate_report_def finding_issues_def cong: option.case_cong)

lemma adopt_again:
  assumes "adopt_finding f d = Inr d1" "d_finding e = d_finding d1" "d_verification e = d_verification d1"
    "d_evidence e = d_evidence d1" "d_reproduction e = d_reproduction d1"
  shows "adopt_finding f e = Inr e"
proof (cases f)
  case (Some x)
  have "e\<lparr>d_verification := Some (status_value (status x)),
      d_evidence := map ev_id (verifying_items (f_evidence x)),
      d_reproduction := (if text_or_empty (f_reproduction x) = [] then d_reproduction e else f_reproduction x)\<rparr> = e"
    using assms Some by (cases e) (auto simp: adopt_finding_def split: if_splits)
  then show ?thesis using assms Some by (auto simp: adopt_finding_def split: if_splits)
qed (simp add: adopt_finding_def)

lemma revalidate_Inr:
  "revalidate secrets p f stage d = (d1, Inr scope) \<longleftrightarrow>
     adopt_finding f d = Inr d1 \<and> scope = evaluate_asset p (text_or_empty (d_target d1)) (finding_class f) \<and>
     \<not> (stage = ''submit'' \<and> (\<exists>s. d_snapshot d1 = Some s \<and> sn_hash (decision_snapshot scope p) \<noteq> sn_hash s)) \<and>
     vr_ok (validate_report secrets d1 p (Some scope) f)"
  by (auto simp: revalidate_def Let_def split: sum.splits option.splits)

text \<open>The draft of an approval passes the hashes of its approval; what remains is a decision.\<close>

definition still_valid :: "report_env \<Rightarrow> h1_program \<Rightarrow> finding option \<Rightarrow> report_draft \<Rightarrow> bool" where
  "still_valid en p f d =
     vr_ok (validate_report (en_secrets en) d p (Some (evaluate_asset p (text_or_empty (d_target d)) (finding_class f))) f)"

lemma approval_opens:
  assumes a: "human_approve en i p session f w = (w1, Inr d)"
  shows "d_state d = SS_APPROVED" and "en_secrets later = en_secrets en \<Longrightarrow> still_valid later p f d"
    and "en_now later < en_now en + approval_ttl \<Longrightarrow> require_fresh_program (en_fresh later) (en_now later) p = Inr () \<Longrightarrow>
      still_valid later p f d \<Longrightarrow> \<exists>w2. submit_check later i p f session w1 = (w2, Inr (d, build_payload d))"
    and "submit_check later i p f session w1 = (w2, Inr r) \<Longrightarrow>
      en_now later < en_now en + approval_ttl \<and> require_fresh_program (en_fresh later) (en_now later) p = Inr () \<and>
      still_valid later p f d"
proof -
  from a obtain d0 d1 scope where hum: "assert_human session = Inr ()"
    and r: "revalidate (en_secrets en) p f ''human_approved'' d0 = (d1, Inr scope)"
    and d: "d = (refresh_hashes p scope f d1)\<lparr>d_review := RV_APPROVED, d_state := SS_APPROVED,
      d_operator := Some (identity session), d_approval := Some
        \<lparr>ra_by = identity session, ra_at = en_now en, ra_expires = en_now en + approval_ttl,
         ra_content = d_content_hash (refresh_hashes p scope f d1),
         ra_evidence = d_evidence_hash (refresh_hashes p scope f d1),
         ra_scope = d_scope_hash (refresh_hashes p scope f d1),
         ra_payload = hash_value (build_payload (refresh_hashes p scope f d1)), ra_source = o_source session\<rparr>\<rparr>"
    and w1: "get_draft w1 i = Inr d"
    by (auto simp: human_approve_def Let_def get_draft_def put_draft_def split: sum.splits prod.splits if_splits)
  have scope: "scope = evaluate_asset p (text_or_empty (d_target d1)) (finding_class f)"
    and ok: "vr_ok (validate_report (en_secrets en) d1 p (Some scope) f)"
    and ad: "adopt_finding f d0 = Inr d1"
    using r by (auto simp: revalidate_Inr)
  have fields: "adopt_finding f d = Inr d"
    by (rule adopt_again [OF ad]) (simp_all add: d refresh_hashes_def Let_def)
  have target: "d_target d = d_target d1" by (simp add: d refresh_hashes_def Let_def)
  have same: "validate_report z d p (Some scope) f = validate_report z d1 p (Some scope) f" for z
    by (rule validate_cong) (simp_all add: d refresh_hashes_def Let_def)
  show "d_state d = SS_APPROVED" by (simp add: d)
  show "en_secrets later = en_secrets en \<Longrightarrow> still_valid later p f d"
    using ok same by (simp add: still_valid_def target scope)
  have appr: "\<exists>a. d_approval d = Some a \<and> ra_expires a = en_now en + approval_ttl \<and>
      (en_now later < en_now en + approval_ttl \<longrightarrow> approval_matches (en_now later) d a) \<and>
      ra_payload a = hash_value (build_payload d)"
    by (simp add: d approval_matches_def approval_expired_def build_payload_def)
  have again: "refresh_hashes p scope f d = d"
    by (simp add: d refresh_hashes_def draft_content_json_def draft_evidence_json_def build_payload_def Let_def)
  show "\<exists>w2. submit_check later i p f session w1 = (w2, Inr (d, build_payload d))"
    if t: "en_now later < en_now en + approval_ttl" and fresh: "require_fresh_program (en_fresh later) (en_now later) p = Inr ()"
      and v: "still_valid later p f d"
  proof -
    have "revalidate (en_secrets later) p f ''submit'' d = (d, Inr scope)"
      using v scope fields by (simp add: revalidate_Inr still_valid_def target) (simp add: d refresh_hashes_def Let_def)
    then show ?thesis using hum fresh w1 appr t again by (auto simp: submit_check_def approval_expired_def Let_def)
  qed
  show "en_now later < en_now en + approval_ttl \<and> require_fresh_program (en_fresh later) (en_now later) p = Inr () \<and>
      still_valid later p f d" if sub: "submit_check later i p f session w1 = (w2, Inr r)"
  proof -
    have fresh: "require_fresh_program (en_fresh later) (en_now later) p = Inr ()"
      using sub hum w1 by (auto simp: submit_check_def split: sum.splits)
    moreover have "en_now later < en_now en + approval_ttl"
      using sub hum w1 appr fresh by (auto simp: submit_check_def approval_expired_def split: if_splits)
    moreover obtain d2 scope2 where "revalidate (en_secrets later) p f ''submit'' d = (d2, Inr scope2)"
      using sub hum w1 appr fresh by (auto simp: submit_check_def split: if_splits prod.splits sum.splits)
    then have "still_valid later p f d" using fields by (auto simp: revalidate_Inr still_valid_def)
    ultimately show ?thesis by simp
  qed
qed


section \<open>Samples\<close>

definition sample_env :: report_env where
  "sample_env = \<lparr>en_now = 0, en_secrets = [], en_fresh = \<lparr>max_program_age = 24, max_weakness_age = 24\<rparr>,
     en_uid = ''d1'', en_token = ''t1'', en_status = None, en_body = None\<rparr>"

definition sample_session :: operator_session where
  "sample_session = \<lparr>identity = ''alice'', authenticated_at = 0, o_source = ''operator_token''\<rparr>"

definition sample_draft :: report_draft where
  "sample_draft =
     \<lparr>d_handle = ''acme'', d_title = ''XSS'', d_info = ''## Steps to reproduce'', d_impact = ''Takes over'',
      d_severity = None, d_weakness = Some 3, d_candidates = [3], d_scope_id = Some 7,
      d_evidence = [''e1''], d_finding = Some ''f1'', d_project = None, d_created = 0,
      d_review = RV_UNREVIEWED, d_state = SS_LOCAL_DRAFT, d_remote = RS_NOT_FETCHED,
      d_report_id = None, d_verification = Some ''verified'', d_error = None, d_last_payload = None,
      d_id = ''d1'', d_operator = None, d_reproduction = Some ''Open it'',
      d_target = Some ''firmware'', d_submission = True, d_bounty = True, d_content_hash = [],
      d_evidence_hash = [], d_scope_hash = [], d_payload_hash = [], d_approval = None,
      d_snapshot = None, d_weakness_reason = [], d_remote_raw = [], d_result = None, d_claim = None\<rparr>"

definition sample_scope :: h1_decision where
  "sample_scope = evaluate_asset sample_program ''firmware'' None"

definition with_draft :: "report_draft \<Rightarrow> workflow" where
  "with_draft d = \<lparr>wf_drafts = [(d_id d, d)], wf_submissions = []\<rparr>"

lemma sample_valid: "vr_ok (validate_report [] sample_draft sample_program (Some sample_scope) None)"
  by code_simp

lemma sample_redacts: "is_ok (redacted_payload sample_draft)"
  by code_simp

text \<open>A human approval of a draft that validates, in one equation.\<close>

lemma approve_plain:
  assumes "assert_human session = Inr ()" "map_of (wf_drafts w) i = Some d" "d_state d \<in> set awaiting_approval"
    "vr_ok (validate_report (en_secrets en) d p (Some scope) None)"
    "scope = evaluate_asset p (text_or_empty (d_target d)) None"
  shows "\<exists>a. ra_expires a = en_now en + approval_ttl \<and> human_approve en i p session None w =
    (put_draft i ((refresh_hashes p scope None d)\<lparr>d_review := RV_APPROVED, d_state := SS_APPROVED,
       d_operator := Some (identity session), d_approval := Some a\<rparr>) w,
     Inr ((refresh_hashes p scope None d)\<lparr>d_review := RV_APPROVED, d_state := SS_APPROVED,
       d_operator := Some (identity session), d_approval := Some a\<rparr>))"
proof -
  have "revalidate (en_secrets en) p None ''human_approved'' d = (d, Inr scope)"
    using assms by (simp add: revalidate_Inr adopt_finding_def finding_class_def)
  then show ?thesis using assms
    by (simp add: human_approve_def get_draft_def Let_def)
      (rule exI, rule conjI [rotated], (rule conjI)?, (rule refl)+, simp)
qed

lemma sample_session_human: "assert_human sample_session = Inr ()"
  by code_simp

lemma sample_fresh: "require_fresh_program (en_fresh sample_env) 0 sample_program = Inr ()"
  by code_simp

text \<open>What is built from a refreshed draft is what is built from the draft.\<close>

lemma refresh_fields [simp]:
  "d_title (refresh_hashes p scope f d) = d_title d" "d_info (refresh_hashes p scope f d) = d_info d"
  "d_impact (refresh_hashes p scope f d) = d_impact d" "d_target (refresh_hashes p scope f d) = d_target d"
  "d_scope_id (refresh_hashes p scope f d) = d_scope_id d"
  "d_severity (refresh_hashes p scope f d) = d_severity d"
  "d_weakness (refresh_hashes p scope f d) = d_weakness d"
  "d_evidence (refresh_hashes p scope f d) = d_evidence d"
  "d_reproduction (refresh_hashes p scope f d) = d_reproduction d"
  "d_handle (refresh_hashes p scope f d) = d_handle d" "d_finding (refresh_hashes p scope f d) = d_finding d"
  "d_id (refresh_hashes p scope f d) = d_id d" "d_state (refresh_hashes p scope f d) = d_state d"
  "d_report_id (refresh_hashes p scope f d) = d_report_id d"
  by (simp_all add: refresh_hashes_def Let_def)

lemma refresh_payload [simp]: "build_payload (refresh_hashes p scope f d) = build_payload d"
  by (simp add: refresh_hashes_def build_payload_def Let_def)


text \<open>A draft whose impact ends with a text that the redaction eats validates and can be approved, but
  its claim fails after it was recorded, so that every later claim is refused as being in progress.\<close>

theorem redaction_wedges_submission:
  fixes d defines "d \<equiv> sample_draft\<lparr>d_impact := ''leaks the token: abc'', d_state := SS_APPROVED\<rparr>"
  shows "vr_ok (validate_report [] d sample_program (Some sample_scope) None) \<and>
    (\<exists>w exc. claim_submission sample_env ''d1'' sample_program (with_draft d) = (w, Inl (ValueError exc)) \<and>
       claim_submission sample_env ''d1'' sample_program w = (w, Inl in_progress))"
proof
  show "vr_ok (validate_report [] d sample_program (Some sample_scope) None)"
    unfolding d_def by code_simp
  have "redacted_payload d = Inl (ValueError ''Invalid JSON'')" unfolding d_def by code_simp
  moreover have "d_state d = SS_APPROVED" "d_id d = ''d1''" "d_finding d = Some ''f1''" "d_report_id d = None"
    by (simp_all add: d_def sample_draft_def)
  ultimately show "\<exists>w exc. claim_submission sample_env ''d1'' sample_program (with_draft d) = (w, Inl (ValueError exc)) \<and>
       claim_submission sample_env ''d1'' sample_program w = (w, Inl in_progress)"
    by (simp add: claim_submission_def with_draft_def get_draft_def draft_claimable_def text_or_empty_def
        record_claimable_def put_submission_def)
qed

end
