(* ===== verification/H1Runs.thy ===== *)
theory H1Runs
  imports H1Reports
begin

text \<open>
  Interleaved runs of the report workflow of \<open>adapters/hackerone/reports.py\<close>. Callers draft, edit,
  approve, reconcile and submit in any order. A submission is three steps of its caller, so that
  other callers can act in between: the checks, the claim together with the start of the POST, and
  the end of the POST. The posts that were made and the payloads people approved are recorded.
\<close>

section \<open>The machine\<close>

text \<open>
  What became of a POST: its caller is still waiting, HackerOne accepted it, nobody knows, or the
  program takes the answer for a refusal.
\<close>

datatype outcome = In_flight nat | Accepted | Outcome_unknown | Refused

record report_post =
  po_finding :: string
  po_team :: string
  po_payload :: json
  po_approval :: report_approval
  po_checked :: instant
  po_outcome :: outcome

datatype phase =
    Idle
  | Checked string h1_program report_draft json instant
  | Posting report_draft h1_program

record report_system =
  rs_wf :: workflow
  rs_callers :: "nat \<Rightarrow> phase"
  rs_posts :: "report_post list"
  rs_approved :: "(report_approval \<times> json) list"

definition new_reports :: report_system where
  "new_reports = \<lparr>rs_wf = new_workflow, rs_callers = (\<lambda>_. Idle), rs_posts = [], rs_approved = []\<rparr>"

datatype report_op =
    Op_Draft report_env finding h1_program "string option" id_arg "(operator_session + string) option"
      "string option"
  | Op_Ready report_env string h1_program "finding option"
  | Op_Approve report_env string h1_program operator_session "finding option"
  | Op_Edit report_env string h1_program draft_edit "finding option"
  | Op_Check nat report_env string h1_program "finding option" operator_session
  | Op_Claim nat report_env
  | Op_Finish nat report_env post_reply
  | Op_Reconcile report_env string "json_body option" "string option" "json_body result"
      "json_body list result"

definition reply_outcome :: "post_reply \<Rightarrow> outcome" where
  "reply_outcome reply =
     (case reply of
        Post_Ok body \<Rightarrow> Accepted
      | Post_Identity m \<Rightarrow> Refused
      | Post_Error m code \<Rightarrow> if code \<in> {''timeout'', ''network''} then Outcome_unknown else Refused
      | Post_Raise exc \<Rightarrow> Outcome_unknown)"

definition settle :: "nat \<Rightarrow> outcome \<Rightarrow> report_post \<Rightarrow> report_post" where
  "settle t out q = (if po_outcome q = In_flight t then q\<lparr>po_outcome := out\<rparr> else q)"

definition live_post :: "report_post \<Rightarrow> bool" where
  "live_post q \<longleftrightarrow> po_outcome q \<noteq> Refused"

definition post_of :: "nat \<Rightarrow> report_draft \<Rightarrow> json \<Rightarrow> instant \<Rightarrow> report_post" where
  "post_of t d payload now =
     \<lparr>po_finding = text_or_empty (d_finding d), po_team = d_handle d, po_payload = payload,
      po_approval = the (d_approval d), po_checked = now, po_outcome = In_flight t\<rparr>"

text \<open>The step of an operation; a caller that is in another phase does nothing.\<close>

fun report_step :: "report_system \<Rightarrow> report_op \<Rightarrow> report_system" where
  "report_step s (Op_Draft en f p sev weak who project) =
     s\<lparr>rs_wf := fst (draft_from_finding en f p sev weak who project (rs_wf s))\<rparr>"
| "report_step s (Op_Ready en i p f) = s\<lparr>rs_wf := fst (mark_ready en i p f (rs_wf s))\<rparr>"
| "report_step s (Op_Approve en i p session f) =
     (case human_approve en i p session f (rs_wf s) of
        (w, Inl exc) \<Rightarrow> s\<lparr>rs_wf := w\<rparr>
      | (w, Inr d) \<Rightarrow> s\<lparr>rs_wf := w,
          rs_approved := (the (d_approval d), build_payload d) # rs_approved s\<rparr>)"
| "report_step s (Op_Edit en i p ed f) = s\<lparr>rs_wf := fst (apply_edits en i p ed f (rs_wf s))\<rparr>"
| "report_step s (Op_Check t en i p f session) =
     (if rs_callers s t \<noteq> Idle then s
      else case submit_check en i p f session (rs_wf s) of
        (w, Inl exc) \<Rightarrow> s\<lparr>rs_wf := w\<rparr>
      | (w, Inr (d, payload)) \<Rightarrow>
          s\<lparr>rs_wf := w, rs_callers := (rs_callers s)(t := Checked i p d payload (en_now en))\<rparr>)"
| "report_step s (Op_Claim t en) =
     (case rs_callers s t of
        Checked i p d payload now \<Rightarrow>
          (case claim_submission en i p (rs_wf s) of
             (w, Inl exc) \<Rightarrow> s\<lparr>rs_wf := w, rs_callers := (rs_callers s)(t := Idle)\<rparr>
           | (w, Inr d1) \<Rightarrow>
               s\<lparr>rs_wf := w, rs_callers := (rs_callers s)(t := Posting d1 p),
                 rs_posts := post_of t d payload now # rs_posts s\<rparr>)
      | _ \<Rightarrow> s)"
| "report_step s (Op_Finish t en reply) =
     (case rs_callers s t of
        Posting d p \<Rightarrow>
          s\<lparr>rs_wf := fst (submit_finish en d p reply (rs_wf s)),
            rs_callers := (rs_callers s)(t := Idle),
            rs_posts := map (settle t (reply_outcome reply)) (rs_posts s)\<rparr>
      | _ \<Rightarrow> s)"
| "report_step s (Op_Reconcile en i remote confirmed fetched matches) =
     s\<lparr>rs_wf := fst (reconcile en i remote confirmed fetched matches (rs_wf s))\<rparr>"

section \<open>What the callers keep to\<close>

definition has_id :: "json_body \<Rightarrow> bool" where
  "has_id body \<longleftrightarrow> json_text (json_get (body_data body) ''id'') \<noteq> []"

definition ids_present :: "json_body option \<Rightarrow> json_body result \<Rightarrow> json_body list result \<Rightarrow> bool" where
  "ids_present remote fetched matches \<longleftrightarrow>
     (case remote of None \<Rightarrow> True | Some b \<Rightarrow> has_id b) \<and>
     (case fetched of Inl exc \<Rightarrow> True | Inr b \<Rightarrow> has_id b) \<and>
     (case matches of Inl exc \<Rightarrow> True | Inr rows \<Rightarrow> list_all has_id rows)"

text \<open>
  A new draft has a new identifier and its finding has one, a draft is submitted to the program it
  is for, and a report that HackerOne describes has an identifier.
\<close>

fun report_guard :: "report_system \<Rightarrow> report_op \<Rightarrow> bool" where
  "report_guard s (Op_Draft en f p sev weak who project)
     = (f_id f \<noteq> [] \<and> map_of (wf_drafts (rs_wf s)) (en_uid en) = None)"
| "report_guard s (Op_Check t en i p f session)
     = (case map_of (wf_drafts (rs_wf s)) i of None \<Rightarrow> True | Some d \<Rightarrow> d_handle d = pg_handle p)"
| "report_guard s (Op_Reconcile en i remote confirmed fetched matches) = ids_present remote fetched matches"
| "report_guard s x = True"

fun careful_run :: "report_system \<Rightarrow> report_op list \<Rightarrow> bool" where
  "careful_run s [] = True"
| "careful_run s (x # xs) = (report_guard s x \<and> careful_run (report_step s x) xs)"

section \<open>The invariant\<close>

definition human_approval :: "report_approval \<Rightarrow> bool" where
  "human_approval a \<longleftrightarrow>
     py_strip (ra_by a) \<noteq> [] \<and> \<not> is_ai_operator (ra_by a) \<and>
     ra_source a \<in> set [''operator_token'', ''local_session'']"

definition approved :: "(report_approval \<times> json) list \<Rightarrow> report_approval \<Rightarrow> bool" where
  "approved lg a \<longleftrightarrow>
     human_approval a \<and> (\<exists>d. (a, build_payload d) \<in> set lg \<and> ra_payload a = hash_value (build_payload d))"

definition entry_ok :: "(report_approval \<times> json) list \<Rightarrow> string \<Rightarrow> report_draft \<Rightarrow> bool" where
  "entry_ok lg i d \<longleftrightarrow>
     d_id d = i \<and> text_or_empty (d_finding d) \<noteq> [] \<and> (\<forall>a. d_approval d = Some a \<longrightarrow> approved lg a)"

definition drafts_ok :: "(report_approval \<times> json) list \<Rightarrow> workflow \<Rightarrow> bool" where
  "drafts_ok lg w \<longleftrightarrow> (\<forall>i d. map_of (wf_drafts w) i = Some d \<longrightarrow> entry_ok lg i d)"

definition same_draft :: "report_draft \<Rightarrow> report_draft \<Rightarrow> bool" where
  "same_draft d d' \<longleftrightarrow> d_id d' = d_id d \<and> d_finding d' = d_finding d \<and> d_handle d' = d_handle d"

definition kept :: "report_draft \<Rightarrow> report_draft \<Rightarrow> bool" where
  "kept d d' \<longleftrightarrow> same_draft d d' \<and> (d_approval d' = None \<or> d_approval d' = d_approval d)"

text \<open>No draft goes away or becomes the draft of another finding or program.\<close>

definition drafts_stay :: "workflow \<Rightarrow> workflow \<Rightarrow> bool" where
  "drafts_stay w w' \<longleftrightarrow>
     (\<forall>i d. map_of (wf_drafts w) i = Some d \<longrightarrow>
        (\<exists>d'. map_of (wf_drafts w') i = Some d' \<and> same_draft d d'))"

definition post_key :: "report_post \<Rightarrow> string \<times> string" where
  "post_key q = (po_finding q, po_team q)"

definition live_posts :: "report_system \<Rightarrow> string \<times> string \<Rightarrow> report_post list" where
  "live_posts s k = filter (\<lambda>q. live_post q \<and> post_key q = k) (rs_posts s)"

definition phase_ok :: "report_system \<Rightarrow> phase \<Rightarrow> bool" where
  "phase_ok s ph \<longleftrightarrow>
     (case ph of
        Idle \<Rightarrow> True
      | Checked i p d payload now \<Rightarrow>
          entry_ok (rs_approved s) i d \<and> d_handle d = pg_handle p \<and> payload = build_payload d \<and>
          (\<exists>a. d_approval d = Some a \<and> ra_payload a = hash_value payload \<and> now < ra_expires a) \<and>
          (\<exists>d'. map_of (wf_drafts (rs_wf s)) i = Some d' \<and> same_draft d d')
      | Posting d p \<Rightarrow>
          entry_ok (rs_approved s) (d_id d) d \<and> d_handle d = pg_handle p \<and>
          (\<exists>d'. map_of (wf_drafts (rs_wf s)) (d_id d) = Some d' \<and> same_draft d d'))"

definition callers_ok :: "report_system \<Rightarrow> bool" where
  "callers_ok s \<longleftrightarrow> (\<forall>t. phase_ok s (rs_callers s t))"

definition flights_ok :: "report_system \<Rightarrow> bool" where
  "flights_ok s \<longleftrightarrow>
     (\<forall>q\<in>set (rs_posts s). \<forall>t. po_outcome q = In_flight t \<longrightarrow>
        (\<exists>d p. rs_callers s t = Posting d p \<and> post_key q = draft_key d p)) \<and>
     (\<forall>t d p. rs_callers s t = Posting d p \<longrightarrow>
        (\<exists>q\<in>set (rs_posts s). po_outcome q = In_flight t))"

definition claims_ok :: "report_system \<Rightarrow> bool" where
  "claims_ok s \<longleftrightarrow>
     (\<forall>k. length (live_posts s k) \<le> 1 \<and>
        (live_posts s k \<noteq> [] \<longrightarrow> \<not> is_ok (record_claimable (map_of (wf_submissions (rs_wf s)) k))))"

definition post_ok :: "(report_approval \<times> json) list \<Rightarrow> report_post \<Rightarrow> bool" where
  "post_ok lg q \<longleftrightarrow>
     approved lg (po_approval q) \<and> ra_payload (po_approval q) = hash_value (po_payload q) \<and>
     po_checked q < ra_expires (po_approval q) \<and>
     (\<exists>d. po_payload q = build_payload d \<and> d_handle d = po_team q)"

definition reports_ok :: "report_system \<Rightarrow> bool" where
  "reports_ok s \<longleftrightarrow>
     drafts_ok (rs_approved s) (rs_wf s) \<and> callers_ok s \<and> flights_ok s \<and> claims_ok s \<and>
     list_all (post_ok (rs_approved s)) (rs_posts s)"

section \<open>What the operations leave alone\<close>

lemma same_draft_refl [simp]: "same_draft d d"
  by (simp add: same_draft_def)

lemma same_draft_trans: "same_draft a b \<Longrightarrow> same_draft b c \<Longrightarrow> same_draft a c"
  by (simp add: same_draft_def)

lemma kept_refl [simp]: "kept d d"
  by (simp add: kept_def)

lemma kept_trans: "kept a b \<Longrightarrow> kept b c \<Longrightarrow> kept a c"
  by (auto simp: kept_def same_draft_def)

lemma kept_same: "kept a b \<Longrightarrow> same_draft a b"
  by (simp add: kept_def)

lemma kept_entry: "kept d d' \<Longrightarrow> entry_ok lg i d \<Longrightarrow> entry_ok lg i d'"
  by (auto simp: kept_def same_draft_def entry_ok_def)

lemma approved_more: "approved lg a \<Longrightarrow> set lg \<subseteq> set lg' \<Longrightarrow> approved lg' a"
  by (auto simp: approved_def)

lemma entry_more: "entry_ok lg i d \<Longrightarrow> set lg \<subseteq> set lg' \<Longrightarrow> entry_ok lg' i d"
  by (auto simp: entry_ok_def intro: approved_more)

lemma drafts_more: "drafts_ok lg w \<Longrightarrow> set lg \<subseteq> set lg' \<Longrightarrow> drafts_ok lg' w"
  by (auto simp: drafts_ok_def intro: entry_more)

lemma stay_refl [simp]: "drafts_stay w w"
  by (auto simp: drafts_stay_def)

lemma put_draft_simps [simp]:
  "map_of (wf_drafts (put_draft i d w)) = (map_of (wf_drafts w))(i \<mapsto> d)"
  "wf_submissions (put_draft i d w) = wf_submissions w"
  "wf_drafts (put_submission k r w) = wf_drafts w"
  "map_of (wf_submissions (put_submission k r w)) = (map_of (wf_submissions w))(k \<mapsto> r)"
  by (simp_all add: put_draft_def put_submission_def)

lemma put_stay: "map_of (wf_drafts w) i = Some d \<Longrightarrow> same_draft d d' \<Longrightarrow> drafts_stay w (put_draft i d' w)"
  by (auto simp: drafts_stay_def)

lemma put_ok: "drafts_ok lg w \<Longrightarrow> entry_ok lg i d \<Longrightarrow> drafts_ok lg (put_draft i d w)"
  by (auto simp: drafts_ok_def)

lemma drafts_only: "wf_drafts w' = wf_drafts w \<Longrightarrow> drafts_ok lg w' = drafts_ok lg w \<and> drafts_stay u w' = drafts_stay u w"
  by (simp add: drafts_ok_def drafts_stay_def)

lemma get_draft_Inr: "get_draft w i = Inr d \<longleftrightarrow> map_of (wf_drafts w) i = Some d"
  by (simp add: get_draft_def split: option.splits)

text \<open>The changes of a draft.\<close>

lemma invalidated_kept [simp]: "kept d (invalidated why d)"
  by (simp add: invalidated_def kept_def same_draft_def)

lemma refresh_kept [simp]: "kept d (refresh_hashes p scope f d)" "d_approval (refresh_hashes p scope f d) = d_approval d"
  by (simp_all add: refresh_hashes_def kept_def same_draft_def Let_def)

lemma kept_invalidated [intro]: "kept d d1 \<Longrightarrow> kept d (invalidated why d1)"
  by (rule kept_trans [OF _ invalidated_kept])

lemma kept_refresh [intro]: "kept d d1 \<Longrightarrow> kept d (refresh_hashes p scope f d1)"
  by (rule kept_trans [OF _ refresh_kept(1)])

lemma adopt_kept: "adopt_finding f d = Inr d1 \<Longrightarrow> kept d d1 \<and> d_approval d1 = d_approval d"
  by (auto simp: adopt_finding_def kept_def same_draft_def split: option.splits if_splits)

lemma revalidate_kept: "revalidate secrets p f stage d = (d1, r) \<Longrightarrow> kept d d1"
  by (auto simp: revalidate_def Let_def dest!: adopt_kept split: sum.splits if_splits
      intro: kept_trans)

lemma revalidate_approval: "revalidate secrets p f stage d = (d1, Inr scope) \<Longrightarrow> d_approval d1 = d_approval d"
  by (auto simp: revalidate_def Let_def dest!: adopt_kept split: sum.splits if_splits)

lemma edited_kept: "edited_draft p ed f d = Inr d1 \<Longrightarrow> kept d d1"
  by (auto simp: edited_draft_def kept_def same_draft_def Let_def split: option.splits if_splits)

lemma finished_same:
  "same_draft d (failed_draft en st msg code d)" "d_approval (failed_draft en st msg code d) = d_approval d"
  "d_state (failed_draft en st msg code d) = st"
  "submitted_draft en body d = Inr d1 \<Longrightarrow>
     same_draft d d1 \<and> d_approval d1 = d_approval d \<and> d_state d1 = SS_SUBMITTED"
  by (auto simp: failed_draft_def submitted_draft_def same_draft_def Let_def split_beta)

text \<open>A draft that is replaced by what it was kept as.\<close>

lemma kept_put:
  assumes "map_of (wf_drafts w) i = Some d" "kept d d'" "drafts_ok lg w"
  shows "drafts_ok lg (put_draft i d' w) \<and> drafts_stay w (put_draft i d' w)"
  using assms by (auto simp: drafts_ok_def intro!: put_ok put_stay kept_same intro: kept_entry)

definition only_drafts :: "(report_approval \<times> json) list \<Rightarrow> workflow \<Rightarrow> workflow \<Rightarrow> bool" where
  "only_drafts lg w w' \<longleftrightarrow>
     drafts_ok lg w' \<and> drafts_stay w w' \<and> wf_submissions w' = wf_submissions w"

lemma only_refl: "drafts_ok lg w \<Longrightarrow> only_drafts lg w w"
  by (simp add: only_drafts_def)

lemma only_put:
  "map_of (wf_drafts w) i = Some d \<Longrightarrow> kept d d' \<Longrightarrow> drafts_ok lg w \<Longrightarrow> only_drafts lg w (put_draft i d' w)"
  using kept_put [of w i d d' lg] by (simp add: only_drafts_def)

lemma mark_ready_only: "drafts_ok lg w \<Longrightarrow> only_drafts lg w (fst (mark_ready en i p f w))"
  by (auto simp: mark_ready_def Let_def get_draft_Inr kept_def same_draft_def intro: only_refl
      split: sum.splits prod.splits dest!: revalidate_kept intro!: only_put)

lemma apply_edits_only: "drafts_ok lg w \<Longrightarrow> only_drafts lg w (fst (apply_edits en i p ed f w))"
proof (cases "then_do (get_draft w i) (edited_draft p ed f)")
  case (Inr d1)
  assume ok: "drafts_ok lg w"
  from Inr obtain d where d: "map_of (wf_drafts w) i = Some d" "edited_draft p ed f d = Inr d1"
    by (auto simp: get_draft_Inr)
  then have "kept d d1" by (simp add: edited_kept)
  then show ?thesis using d ok Inr
    by (auto simp: apply_edits_def Let_def simp del: then_do_Inr split: option.splits intro!: only_put)
qed (simp add: apply_edits_def only_refl)

lemma submit_check_only: "drafts_ok lg w \<Longrightarrow> only_drafts lg w (fst (submit_check en i p f session w))"
  by (auto simp: submit_check_def Let_def get_draft_Inr intro: only_refl
      split: sum.splits prod.splits option.splits if_splits dest!: revalidate_kept intro!: only_put)

section \<open>Drafting, approving and checking\<close>

lemma drafted:
  "fst (draft_from_finding en f p sev weak who project w) = w \<or>
   (\<exists>d. fst (draft_from_finding en f p sev weak who project w) = put_draft (en_uid en) d w \<and>
      d_id d = en_uid en \<and> d_finding d = Some (f_id f) \<and> d_approval d = None)"
  by (auto simp: draft_from_finding_def new_draft_def Let_def refresh_hashes_def split: sum.splits)

lemma fresh_draft:
  assumes "drafts_ok lg w" "map_of (wf_drafts w) (en_uid en) = None" "f_id f \<noteq> []"
  shows "only_drafts lg w (fst (draft_from_finding en f p sev weak who project w))"
  using drafted [of en f p sev weak who project w] assms
  by (auto simp: only_refl only_drafts_def drafts_stay_def entry_ok_def text_or_empty_def intro!: put_ok)

lemma human_session: "assert_human session = Inr () \<Longrightarrow> human_approval
    \<lparr>ra_by = identity session, ra_at = t1, ra_expires = t2, ra_content = c, ra_evidence = ev,
     ra_scope = sc, ra_payload = pl, ra_source = o_source session\<rparr>"
  by (auto simp: assert_human_def human_approval_def split: if_splits)

lemma approve_fails:
  assumes "drafts_ok lg w" "human_approve en i p session f w = (w', Inl exc)"
  shows "only_drafts lg w w'"
  using assms
  by (auto simp: human_approve_def Let_def get_draft_Inr intro: only_refl
      split: sum.splits prod.splits if_splits dest!: revalidate_kept intro!: only_put)

lemma approve_succeeds:
  assumes ok: "drafts_ok lg w" and h: "human_approve en i p session f w = (w', Inr d)"
  shows "only_drafts ((the (d_approval d), build_payload d) # lg) w w'"
proof -
  let ?lg = "(the (d_approval d), build_payload d) # lg"
  from h obtain d0 d1 scope where d0: "map_of (wf_drafts w) i = Some d0" and hum: "assert_human session = Inr ()"
    and r: "revalidate (en_secrets en) p f ''human_approved'' d0 = (d1, Inr scope)"
    and w': "w' = put_draft i d w" and appr: "d_approval d = Some
        \<lparr>ra_by = identity session, ra_at = en_now en, ra_expires = en_now en + approval_ttl,
         ra_content = d_content_hash (refresh_hashes p scope f d1),
         ra_evidence = d_evidence_hash (refresh_hashes p scope f d1),
         ra_scope = d_scope_hash (refresh_hashes p scope f d1),
         ra_payload = hash_value (build_payload (refresh_hashes p scope f d1)), ra_source = o_source session\<rparr>"
    and same: "same_draft (refresh_hashes p scope f d1) d"
    and pl: "build_payload d = build_payload (refresh_hashes p scope f d1)"
    by (auto simp: human_approve_def Let_def get_draft_Inr same_draft_def build_payload_def
        split: sum.splits prod.splits if_splits)
  have "same_draft d0 d" using r same same_draft_trans kept_same revalidate_kept refresh_kept(1) by blast
  moreover have "approved ?lg (the (d_approval d))"
    using human_session [OF hum] pl by (auto simp: approved_def appr)
  moreover have "entry_ok lg i d0" using ok d0 by (auto simp: drafts_ok_def)
  ultimately have "entry_ok ?lg i d" using appr by (auto simp: entry_ok_def same_draft_def)
  moreover have "drafts_ok ?lg w" using ok by (rule drafts_more) auto
  ultimately show ?thesis
    using \<open>same_draft d0 d\<close> d0 by (simp add: only_drafts_def w' put_ok put_stay)
qed

lemma submit_check_Inr:
  assumes "submit_check en i p f session w = (w', Inr (d, payload))"
  shows "map_of (wf_drafts w') i = Some d \<and> payload = build_payload d \<and>
    (\<exists>a. d_approval d = Some a \<and> ra_payload a = hash_value payload \<and> en_now en < ra_expires a)"
  using assms
  by (auto simp: submit_check_def Let_def approval_expired_def dest!: revalidate_approval
      split: sum.splits prod.splits option.splits if_splits)

section \<open>Claims\<close>

definition blocked :: "workflow \<Rightarrow> string \<times> string \<Rightarrow> bool" where
  "blocked w k \<longleftrightarrow> \<not> is_ok (record_claimable (map_of (wf_submissions w) k))"

lemma blocked_put [simp]:
  "blocked (put_draft i d w) k = blocked w k"
  "blocked (put_submission k' r w) k
     = (if k = k' then \<not> is_ok (record_claimable (Some r)) else blocked w k)"
  by (simp_all add: blocked_def)

lemma only_blocked: "only_drafts lg w w' \<Longrightarrow> blocked w' = blocked w"
  by (simp add: only_drafts_def blocked_def fun_eq_iff)

lemma claimable_states:
  "\<not> is_ok (record_claimable (Some r)) \<longleftrightarrow>
     sr_state r \<in> {SS_ATTEMPTED, SS_IN_PROGRESS, SS_UNKNOWN, SS_SUBMITTED}
     \<or> text_or_empty (sr_report_id r) \<noteq> []"
  by (cases "sr_state r") (auto simp: record_claimable_def)

lemma claimable_not_blocked: "record_claimable (map_of (wf_submissions w) k) = Inr u \<Longrightarrow> \<not> blocked w k"
  by (simp add: blocked_def)

lemma claim_fails:
  assumes "claim_submission en i p w = (w', Inl exc)"
  shows "wf_drafts w' = wf_drafts w \<and> (\<forall>k. blocked w k \<longrightarrow> blocked w' k)"
  using assms
  by (auto simp: claim_submission_def Let_def claimable_states split: sum.splits if_splits)

lemma claim_succeeds:
  assumes "claim_submission en i p w = (w', Inr d1)"
  shows "\<exists>d. map_of (wf_drafts w) i = Some d \<and> kept d d1 \<and> d_approval d1 = d_approval d \<and>
    map_of (wf_drafts w') i = Some d1 \<and> (\<forall>j. j \<noteq> i \<longrightarrow> map_of (wf_drafts w') j = map_of (wf_drafts w) j) \<and>
    (text_or_empty (d_finding d) \<noteq> [] \<longrightarrow>
       \<not> blocked w (draft_key d p) \<and> (\<forall>k. blocked w' k = (k = draft_key d p \<or> blocked w k)))"
  using assms
  by (auto simp: claim_submission_def Let_def get_draft_Inr kept_def same_draft_def
      claimable_states dest!: claimable_not_blocked split: sum.splits if_splits)

section \<open>The end of a POST, and reconciliation\<close>

lemma store_draft_simps [simp]:
  "map_of (wf_drafts (store_draft en d p w)) = (map_of (wf_drafts w))(d_id d \<mapsto> d)"
  "text_or_empty (d_finding d) \<noteq> [] \<Longrightarrow> blocked (store_draft en d p w) k
     = (if k = draft_key d p then d_state d \<in> {SS_ATTEMPTED, SS_IN_PROGRESS, SS_UNKNOWN, SS_SUBMITTED}
          \<or> text_or_empty (d_report_id d) \<noteq> []
        else blocked w k)"
  by (auto simp: store_draft_def Let_def claimable_states)

lemma same_key: "same_draft d d' \<Longrightarrow> draft_key d' p = draft_key d p"
  by (simp add: same_draft_def draft_key_def)

text \<open>A finished POST stores the draft its caller had, changed, or nothing at all.\<close>

lemma finish_cases:
  "fst (submit_finish en d p reply w) = w \<and> reply_outcome reply \<noteq> Refused \<or>
   (\<exists>d'. fst (submit_finish en d p reply w) = store_draft en d' p w \<and> same_draft d d' \<and>
      d_approval d' = d_approval d \<and>
      (reply_outcome reply \<noteq> Refused \<longrightarrow> d_state d' \<in> {SS_UNKNOWN, SS_SUBMITTED}))"
proof (cases reply)
  case (Post_Ok body)
  then show ?thesis
    by (cases "submitted_draft en body d")
      (auto simp: submit_finish_def reply_outcome_def Let_def dest!: finished_same(4))
qed (auto simp: submit_finish_def reply_outcome_def Let_def finished_same)

lemma finish_blocked:
  assumes f: "text_or_empty (d_finding d) \<noteq> []" and b: "blocked w (draft_key d p)" "blocked w k"
    and k: "reply_outcome reply \<noteq> Refused \<or> k \<noteq> draft_key d p"
  shows "blocked (fst (submit_finish en d p reply w)) k"
proof -
  consider (same) "fst (submit_finish en d p reply w) = w"
    | (stored) d' where "fst (submit_finish en d p reply w) = store_draft en d' p w" "same_draft d d'"
        "reply_outcome reply \<noteq> Refused \<longrightarrow> d_state d' \<in> {SS_UNKNOWN, SS_SUBMITTED}"
    using finish_cases [of en d p reply w] by blast
  then show ?thesis
  proof cases
    case stored
    then have "text_or_empty (d_finding d') \<noteq> []" "draft_key d' p = draft_key d p"
      using f by (simp_all add: same_key) (simp add: same_draft_def)
    then show ?thesis using stored b k by auto
  qed (use b in simp)
qed

lemma finish_drafts:
  assumes ok: "drafts_ok lg w" and d: "entry_ok lg (d_id d) d"
    and there: "map_of (wf_drafts w) (d_id d) = Some d0" "same_draft d d0"
  shows "drafts_ok lg (fst (submit_finish en d p reply w)) \<and> drafts_stay w (fst (submit_finish en d p reply w))"
  using finish_cases [of en d p reply w]
proof (elim disjE exE conjE)
  fix d' assume d': "fst (submit_finish en d p reply w) = store_draft en d' p w" "same_draft d d'"
    "d_approval d' = d_approval d"
  then have "entry_ok lg (d_id d') d'" "d_id d' = d_id d" "same_draft d0 d'"
    using d there by (auto simp: entry_ok_def same_draft_def)
  then show ?thesis using d'(1) ok there by (auto simp: drafts_ok_def drafts_stay_def)
qed (use ok in auto)

lemma remote_update_kept: "kept d (remote_update en body d)"
  by (simp add: remote_update_def kept_def same_draft_def Let_def split_beta)

lemma apply_remote_cases:
  "fst (apply_remote en d body need w) = w \<or>
   wf_drafts (fst (apply_remote en d body need w)) = wf_drafts (put_draft (d_id d) (remote_update en body d) w)"
  by (auto simp: apply_remote_def Let_def put_submission_def)

lemma apply_remote_blocked:
  "has_id body \<Longrightarrow> blocked w k \<Longrightarrow> blocked (fst (apply_remote en d body need w)) k"
  by (auto simp: apply_remote_def remote_update_def Let_def split_beta claimable_states remote_id_def
      has_id_def or_text_def)

text \<open>What a reconciliation keeps: the drafts are in order, none goes away, no key is released.\<close>

definition reconciled :: "(report_approval \<times> json) list \<Rightarrow> workflow \<Rightarrow> workflow \<Rightarrow> bool" where
  "reconciled lg w w' \<longleftrightarrow>
     drafts_ok lg w' \<and> drafts_stay w w' \<and> (\<forall>k. blocked w k \<longrightarrow> blocked w' k)"

lemma apply_remote_ok:
  assumes ok: "drafts_ok lg w" and d: "map_of (wf_drafts w) i = Some d" and b: "has_id body"
  shows "reconciled lg w (fst (apply_remote en d body need w))"
proof -
  have id: "d_id d = i" using ok d by (auto simp: drafts_ok_def entry_ok_def)
  show ?thesis
    using apply_remote_cases [of en d body need w] apply_remote_blocked [OF b] ok
      kept_put [OF d remote_update_kept ok] drafts_only [of _ "put_draft i (remote_update en body d) w"]
    unfolding reconciled_def id by fastforce
qed

lemma reconcile_ok:
  assumes ok: "drafts_ok lg w" and g: "ids_present remote fetched matches"
  shows "reconciled lg w (fst (reconcile en i remote confirmed fetched matches w))"
proof -
  have "reconciled lg w w" using ok by (simp add: reconciled_def)
  then show ?thesis using g apply_remote_ok [OF ok]
    by (auto simp: reconcile_def get_draft_Inr remote_or_fetch_def ids_present_def list_all_length Let_def
        split: sum.splits option.splits if_splits)
qed

section \<open>Every step keeps the invariant\<close>

lemma phase_more:
  assumes "phase_ok s ph" "drafts_stay (rs_wf s) w" "set (rs_approved s) \<subseteq> set lg"
  shows "phase_ok (s\<lparr>rs_wf := w, rs_approved := lg\<rparr>) ph"
  using assms unfolding phase_ok_def drafts_stay_def
  by (cases ph) (auto intro: entry_more dest: same_draft_trans, (meson same_draft_trans)+)

lemma post_more: "post_ok lg q \<Longrightarrow> set lg \<subseteq> set lg' \<Longrightarrow> post_ok lg' q"
  by (auto simp: post_ok_def intro: approved_more)

lemma claims_ok_blocked:
  "claims_ok s \<longleftrightarrow> (\<forall>k. length (live_posts s k) \<le> 1 \<and> (live_posts s k \<noteq> [] \<longrightarrow> blocked (rs_wf s) k))"
  by (simp add: claims_ok_def blocked_def)

text \<open>A step that only changes the workflow, and perhaps adds an approval.\<close>

lemma workflow_step:
  assumes ok: "reports_ok s" and d: "drafts_ok lg w" "drafts_stay (rs_wf s) w"
    and b: "\<And>k. blocked (rs_wf s) k \<Longrightarrow> blocked w k" and lg: "set (rs_approved s) \<subseteq> set lg"
  shows "reports_ok (s\<lparr>rs_wf := w, rs_approved := lg\<rparr>)"
proof -
  have "callers_ok (s\<lparr>rs_wf := w, rs_approved := lg\<rparr>)"
    using ok d lg by (auto simp: reports_ok_def callers_ok_def intro: phase_more)
  moreover have "claims_ok (s\<lparr>rs_wf := w, rs_approved := lg\<rparr>)"
    using ok b by (auto simp: reports_ok_def claims_ok_blocked live_posts_def)
  moreover have "list_all (post_ok lg) (rs_posts s)"
    using ok lg by (auto simp: reports_ok_def list_all_iff intro: post_more)
  ultimately show ?thesis using ok d by (simp add: reports_ok_def flights_ok_def)
qed

lemma only_step:
  assumes ok: "reports_ok s" and w: "only_drafts lg (rs_wf s) w" and lg: "set (rs_approved s) \<subseteq> set lg"
  shows "reports_ok (s\<lparr>rs_wf := w, rs_approved := lg\<rparr>)"
  using workflow_step [OF ok _ _ _ lg] w only_blocked [OF w] by (auto simp: only_drafts_def)

lemma only_step': "reports_ok s \<Longrightarrow> only_drafts (rs_approved s) (rs_wf s) w \<Longrightarrow> reports_ok (s\<lparr>rs_wf := w\<rparr>)"
  using only_step [of s "rs_approved s" w] by simp

lemma drafts_of: "reports_ok s \<Longrightarrow> drafts_ok (rs_approved s) (rs_wf s)"
  by (simp add: reports_ok_def)

text \<open>A caller that is not posting changes its phase.\<close>

lemma caller_step:
  assumes ok: "reports_ok s" and t: "\<And>d p. rs_callers s t \<noteq> Posting d p" and ph: "phase_ok s ph"
    and ph': "\<And>d p. ph \<noteq> Posting d p"
  shows "reports_ok (s\<lparr>rs_callers := (rs_callers s)(t := ph)\<rparr>)"
proof -
  let ?s = "s\<lparr>rs_callers := (rs_callers s)(t := ph)\<rparr>"
  have phases: "phase_ok ?s x = phase_ok s x" for x by (cases x) (simp_all add: phase_ok_def)
  have "callers_ok ?s" using ok ph by (simp add: reports_ok_def callers_ok_def phases)
  moreover have "flights_ok ?s" using ok t ph' unfolding reports_ok_def flights_ok_def by (simp, metis)
  ultimately show ?thesis using ok by (simp add: reports_ok_def claims_ok_def live_posts_def)
qed

lemma check_step:
  assumes ok: "reports_ok s" and g: "report_guard s (Op_Check t en i p f session)"
  shows "reports_ok (report_step s (Op_Check t en i p f session))"
proof (cases "rs_callers s t = Idle")
  case True
  obtain w r where c: "submit_check en i p f session (rs_wf s) = (w, r)" by (cases "submit_check en i p f session (rs_wf s)")
  have w: "only_drafts (rs_approved s) (rs_wf s) w"
    using submit_check_only [OF drafts_of [OF ok], of en i p f session] c by simp
  then have s1: "reports_ok (s\<lparr>rs_wf := w\<rparr>)" by (rule only_step' [OF ok])
  show ?thesis
  proof (cases r)
    case (Inl exc) then show ?thesis using s1 c True by simp
  next
    case (Inr dp)
    obtain d payload where dp: "dp = (d, payload)" by (cases dp)
    have d: "map_of (wf_drafts w) i = Some d" "payload = build_payload d"
      "\<exists>a. d_approval d = Some a \<and> ra_payload a = hash_value payload \<and> en_now en < ra_expires a"
      using submit_check_Inr c Inr dp by auto
    have "map_of (wf_drafts (rs_wf s)) i \<noteq> None"
      using c Inr by (auto simp: submit_check_def get_draft_Inr split: sum.splits)
    then obtain d0 where d0: "map_of (wf_drafts (rs_wf s)) i = Some d0" by auto
    then have "same_draft d0 d" using w d unfolding only_drafts_def drafts_stay_def by (metis option.inject)
    then have "d_handle d = pg_handle p" using g d0 by (simp add: same_draft_def)
    moreover have "entry_ok (rs_approved s) i d" using w d by (auto simp: only_drafts_def drafts_ok_def)
    ultimately have "phase_ok (s\<lparr>rs_wf := w\<rparr>) (Checked i p d payload (en_now en))"
      using d by (simp add: phase_ok_def)
    then show ?thesis using caller_step [OF s1] c Inr dp True by simp
  qed
qed (use ok in simp)

lemma live_settled:
  "out \<noteq> Refused \<Longrightarrow> live_posts (s\<lparr>rs_posts := map (settle t out) (rs_posts s)\<rparr>) k
     = map (settle t out) (live_posts s k)"
  "live_posts (s\<lparr>rs_posts := map (settle t Refused) (rs_posts s)\<rparr>) k
     = filter (\<lambda>q. po_outcome q \<noteq> In_flight t) (live_posts s k)"
proof -
  have key: "post_key (settle t o' q) = post_key q" for o' q by (simp add: settle_def post_key_def)
  show "out \<noteq> Refused \<Longrightarrow> live_posts (s\<lparr>rs_posts := map (settle t out) (rs_posts s)\<rparr>) k
     = map (settle t out) (live_posts s k)"
    by (simp add: live_posts_def filter_map o_def key) (auto simp: live_post_def settle_def intro!: arg_cong [where f = "map _"] filter_cong)
  have "map (settle t Refused) (filter (\<lambda>q. live_post (settle t Refused q) \<and> post_key q = k) xs)
      = filter (\<lambda>q. po_outcome q \<noteq> In_flight t) (filter (\<lambda>q. live_post q \<and> post_key q = k) xs)" for xs
    by (induction xs) (auto simp: live_post_def settle_def)
  then show "live_posts (s\<lparr>rs_posts := map (settle t Refused) (rs_posts s)\<rparr>) k
     = filter (\<lambda>q. po_outcome q \<noteq> In_flight t) (live_posts s k)"
    by (simp add: live_posts_def filter_map o_def key)
qed

lemma post_settled: "post_ok lg q \<Longrightarrow> post_ok lg (settle t out q)"
  by (simp add: post_ok_def settle_def)

lemma claim_step:
  assumes ok: "reports_ok s"
  shows "reports_ok (report_step s (Op_Claim t en))"
proof (cases "rs_callers s t")
  case (Checked i p d payload now)
  obtain w r where c: "claim_submission en i p (rs_wf s) = (w, r)" by (cases "claim_submission en i p (rs_wf s)")
  have ph: "phase_ok s (Checked i p d payload now)"
    using ok Checked by (auto simp: reports_ok_def callers_ok_def dest: spec [of _ t])
  show ?thesis
  proof (cases r)
    case (Inl exc)
    have "reports_ok (s\<lparr>rs_wf := w, rs_approved := rs_approved s\<rparr>)"
      using claim_fails c Inl drafts_only [of w "rs_wf s"] drafts_of [OF ok]
      by (intro workflow_step [OF ok]) auto
    then have "reports_ok (s\<lparr>rs_wf := w\<rparr>)" by simp
    from caller_step [OF this, of t Idle] show ?thesis using Checked c Inl by (simp add: phase_ok_def)
  next
    case (Inr d1)
    obtain d0 where d0: "map_of (wf_drafts (rs_wf s)) i = Some d0" "kept d0 d1"
      and w: "map_of (wf_drafts w) i = Some d1"
        "\<And>j. j \<noteq> i \<Longrightarrow> map_of (wf_drafts w) j = map_of (wf_drafts (rs_wf s)) j"
      and keys: "text_or_empty (d_finding d0) \<noteq> [] \<longrightarrow> \<not> blocked (rs_wf s) (draft_key d0 p) \<and>
        (\<forall>k. blocked w k = (k = draft_key d0 p \<or> blocked (rs_wf s) k))"
      using claim_succeeds [of en i p "rs_wf s" w d1] c Inr by auto
    have same: "same_draft d d0" using ph d0 by (simp add: phase_ok_def)
    have ok0: "entry_ok (rs_approved s) i d0" using drafts_of [OF ok] d0 by (simp add: drafts_ok_def)
    have ok1: "entry_ok (rs_approved s) i d1" by (rule kept_entry [OF d0(2) ok0])
    have fresh: "\<not> blocked (rs_wf s) (draft_key d0 p)"
      and blocked: "blocked w k = (k = draft_key d0 p \<or> blocked (rs_wf s) k)" for k
      using keys ok0 unfolding entry_ok_def by blast+
    have dr: "drafts_ok (rs_approved s) w" unfolding drafts_ok_def
    proof (intro allI impI)
      fix j x assume "map_of (wf_drafts w) j = Some x"
      then show "entry_ok (rs_approved s) j x"
        using w ok1 drafts_of [OF ok] by (cases "j = i") (auto simp: drafts_ok_def)
    qed
    have st: "drafts_stay (rs_wf s) w" unfolding drafts_stay_def
    proof (intro allI impI)
      fix j x assume "map_of (wf_drafts (rs_wf s)) j = Some x"
      then show "\<exists>d'. map_of (wf_drafts w) j = Some d' \<and> same_draft x d'"
        using w d0 by (cases "j = i") (auto dest: kept_same)
    qed
    let ?q = "post_of t d payload now"
    let ?s = "s\<lparr>rs_wf := w, rs_callers := (rs_callers s)(t := Posting d1 p), rs_posts := ?q # rs_posts s\<rparr>"
    have s1: "reports_ok (s\<lparr>rs_wf := w, rs_approved := rs_approved s\<rparr>)"
      using blocked by (intro workflow_step [OF ok dr st]) auto
    have key: "post_key ?q = draft_key d0 p" "draft_key d1 p = draft_key d0 p"
      using ph same d0(2) by (auto simp: post_key_def post_of_def draft_key_def phase_ok_def same_draft_def kept_def)
    have phases: "phase_ok ?s x = phase_ok (s\<lparr>rs_wf := w, rs_approved := rs_approved s\<rparr>) x" for x
      by (cases x) (simp_all add: phase_ok_def)
    have "d_id d1 = i" using ok1 by (simp add: entry_ok_def)
    then have "phase_ok ?s (Posting d1 p)"
      using ok1 w(1) ph same d0(2) by (auto simp: phase_ok_def same_draft_def kept_def)
    then have "callers_ok ?s" using s1 by (simp add: reports_ok_def callers_ok_def phases)
    moreover have "flights_ok ?s"
      using ok Checked key unfolding reports_ok_def flights_ok_def
      by (fastforce simp: post_of_def)
    moreover have "claims_ok ?s"
    proof -
      have none: "live_posts s (draft_key d0 p) = []" using ok fresh unfolding reports_ok_def claims_ok_blocked by blast
      have "live_posts ?s k = (if k = draft_key d0 p then [?q] else live_posts s k)" for k
        using key none by (auto simp: live_posts_def live_post_def post_of_def)
      then show ?thesis using ok blocked unfolding reports_ok_def claims_ok_blocked by simp
    qed
    moreover have "post_ok (rs_approved s) ?q"
      using ph by (auto simp: phase_ok_def post_ok_def post_of_def entry_ok_def)
    ultimately show ?thesis using ok dr Checked c Inr by (simp add: reports_ok_def)
  qed
qed (use ok in auto)

lemma finish_step:
  assumes ok: "reports_ok s"
  shows "reports_ok (report_step s (Op_Finish t en reply))"
proof (cases "rs_callers s t")
  case (Posting d p)
  let ?out = "reply_outcome reply" and ?w = "fst (submit_finish en d p reply (rs_wf s))"
  let ?s = "s\<lparr>rs_wf := ?w, rs_callers := (rs_callers s)(t := Idle), rs_posts := map (settle t ?out) (rs_posts s)\<rparr>"
  have ph: "phase_ok s (Posting d p)"
    using ok Posting by (auto simp: reports_ok_def callers_ok_def dest: spec [of _ t])
  then obtain d0 where d0: "map_of (wf_drafts (rs_wf s)) (d_id d) = Some d0" "same_draft d d0"
    and e: "entry_ok (rs_approved s) (d_id d) d" by (auto simp: phase_ok_def)
  have fin: "text_or_empty (d_finding d) \<noteq> []" using e by (simp add: entry_ok_def)
  obtain q where q: "q \<in> set (rs_posts s)" "po_outcome q = In_flight t" "post_key q = draft_key d p"
    using ok Posting unfolding reports_ok_def flights_ok_def by (metis phase.inject(2))
  then have mine: "q \<in> set (live_posts s (draft_key d p))" by (simp add: live_posts_def live_post_def)
  have one: "length (live_posts s k) \<le> 1" "live_posts s k \<noteq> [] \<Longrightarrow> blocked (rs_wf s) k" for k
    using ok unfolding reports_ok_def claims_ok_blocked by blast+
  have live1: "live_posts s (draft_key d p) = [q]"
    using mine one(1) [of "draft_key d p"] by (cases "live_posts s (draft_key d p)") auto
  have dr: "drafts_ok (rs_approved s) ?w" "drafts_stay (rs_wf s) ?w"
    using finish_drafts [OF drafts_of [OF ok] e d0] by auto
  have posts: "live_posts ?s k = live_posts (s\<lparr>rs_posts := map (settle t ?out) (rs_posts s)\<rparr>) k" for k
    by (simp add: live_posts_def)
  have "callers_ok ?s"
  proof -
    have "phase_ok ?s x = phase_ok (s\<lparr>rs_wf := ?w, rs_approved := rs_approved s\<rparr>) x" for x
      by (cases x) (simp_all add: phase_ok_def)
    then show ?thesis using ok phase_more [OF _ dr(2) subset_refl]
      by (auto simp: reports_ok_def callers_ok_def phase_ok_def [of _ Idle])
  qed
  moreover have "flights_ok ?s"
    unfolding flights_ok_def
  proof (intro conjI ballI allI impI)
    fix r u assume r: "r \<in> set (rs_posts ?s)" "po_outcome r = In_flight u"
    then obtain r0 where r0: "r0 \<in> set (rs_posts s)" "r = settle t ?out r0" by auto
    have "?out \<noteq> In_flight u" by (simp add: reply_outcome_def split: post_reply.splits)
    then have "po_outcome r0 = In_flight u" "u \<noteq> t" "post_key r = post_key r0"
      using r r0 by (auto simp: settle_def post_key_def split: if_splits)
    then show "\<exists>d p. rs_callers ?s u = Posting d p \<and> post_key r = draft_key d p"
      using ok r0 by (auto simp: reports_ok_def flights_ok_def)
  next
    fix u d' p' assume "rs_callers ?s u = Posting d' p'"
    then have u: "rs_callers s u = Posting d' p'" "u \<noteq> t" by (auto split: if_splits)
    then obtain r where "r \<in> set (rs_posts s)" "po_outcome r = In_flight u"
      using ok unfolding reports_ok_def flights_ok_def by blast
    then show "\<exists>q\<in>set (rs_posts ?s). po_outcome q = In_flight u"
      using u(2) by (auto intro!: bexI [of _ r] simp: settle_def)
  qed
  moreover have "claims_ok ?s" unfolding claims_ok_blocked
  proof (intro allI conjI impI)
    fix k
    show "length (live_posts ?s k) \<le> 1"
      using one(1) [of k] live_settled(1) [where out = ?out and s = s and t = t and k = k] live_settled(2) [where s = s and t = t and k = k] unfolding posts
      by (cases "?out = Refused") (auto intro: le_trans [OF length_filter_le])
    assume "live_posts ?s k \<noteq> []"
    then have live: "live_posts s k \<noteq> []" and "?out \<noteq> Refused \<or> k \<noteq> draft_key d p"
      using live_settled(1) [where out = ?out and s = s and t = t and k = k] live_settled(2) [where s = s and t = t and k = k] live1 q(2) unfolding posts by (cases "?out = Refused"; auto)+
    then show "blocked (rs_wf ?s) k"
      using finish_blocked [OF fin, of "rs_wf s" p k reply en] one(2) live1 by auto
  qed
  moreover have "list_all (post_ok (rs_approved ?s)) (rs_posts ?s)"
    using ok by (auto simp: reports_ok_def list_all_iff intro: post_settled)
  ultimately show ?thesis using dr(1) Posting by (simp add: reports_ok_def)
qed (use ok in auto)

lemma report_step_ok:
  assumes ok: "reports_ok s" and g: "report_guard s x"
  shows "reports_ok (report_step s x)"
proof (cases x)
  case (Op_Draft en f p sev weak who project)
  then show ?thesis using g fresh_draft [OF drafts_of [OF ok]] by (simp add: only_step' [OF ok])
next
  case (Op_Ready en i p f)
  then show ?thesis using mark_ready_only [OF drafts_of [OF ok]] by (simp add: only_step' [OF ok])
next
  case (Op_Approve en i p session f)
  obtain w r where h: "human_approve en i p session f (rs_wf s) = (w, r)"
    by (cases "human_approve en i p session f (rs_wf s)")
  show ?thesis
  proof (cases r)
    case (Inl exc)
    then show ?thesis using approve_fails [OF drafts_of [OF ok]] h Op_Approve by (simp add: only_step' [OF ok])
  next
    case (Inr d)
    have "set (rs_approved s) \<subseteq> set ((the (d_approval d), build_payload d) # rs_approved s)" by auto
    from only_step [OF ok approve_succeeds [OF drafts_of [OF ok]] this] Inr h Op_Approve
    show ?thesis by simp
  qed
next
  case (Op_Edit en i p ed f)
  then show ?thesis using apply_edits_only [OF drafts_of [OF ok]] by (simp add: only_step' [OF ok])
next
  case (Op_Check t en i p f session)
  then show ?thesis using check_step [OF ok] g by simp
next
  case (Op_Claim t en)
  then show ?thesis using claim_step [OF ok] by simp
next
  case (Op_Finish t en reply)
  then show ?thesis using finish_step [OF ok] by simp
next
  case (Op_Reconcile en i remote confirmed fetched matches)
  then show ?thesis
    using g reconcile_ok [OF drafts_of [OF ok], of remote fetched matches en i confirmed]
      workflow_step [OF ok, of "rs_approved s"]
    by (auto simp: reconciled_def)
qed

lemma new_reports_ok: "reports_ok new_reports"
  by (simp add: reports_ok_def new_reports_def drafts_ok_def new_workflow_def callers_ok_def phase_ok_def
      flights_ok_def claims_ok_def live_posts_def)

interpretation reporting: guarded_machine "\<lambda>s. s = new_reports" report_step report_guard reports_ok
  by unfold_locales (auto intro: new_reports_ok report_step_ok)

lemma careful_guarded: "careful_run s xs = reporting.guarded_run s xs"
  by (induction xs arbitrary: s) auto

lemma careful_run_ok: "careful_run new_reports xs \<Longrightarrow> reports_ok (run_ops report_step new_reports xs)"
  by (rule reporting.run_invariant) (simp_all add: careful_guarded)

section \<open>Properties\<close>

lemma hash_payload: "hash_value (build_payload d) = sha256_hex (canonical_json (build_payload d))"
  by (simp add: hash_value_def build_payload_def)


text \<open>In runs whose callers keep to \<open>report_guard\<close>, which the code does not enforce, at most one POST of a
  report about a finding to a team is ever on its way, accepted or of unknown outcome.\<close>

theorem at_most_one_live_post:
  assumes "careful_run new_reports xs"
  shows "length (live_posts (run_ops report_step new_reports xs) (finding_id, team)) \<le> 1"
  using careful_run_ok [OF assms] by (simp add: reports_ok_def claims_ok_def)

section \<open>Claims exclude each other\<close>

text \<open>
  The operations of the machine, and \<open>submit\<close> with \<open>already_claimed\<close>: a caller whose checks passed posts
  without a claim.
\<close>

datatype submission_op = By_op report_op | Post_claimed nat

fun submission_step :: "report_system \<Rightarrow> submission_op \<Rightarrow> report_system" where
  "submission_step s (By_op x) = report_step s x"
| "submission_step s (Post_claimed t) =
     (case rs_callers s t of
        Checked i p d payload now \<Rightarrow>
          s\<lparr>rs_callers := (rs_callers s)(t := Posting d p), rs_posts := post_of t d payload now # rs_posts s\<rparr>
      | _ \<Rightarrow> s)"

text \<open>What stores a new outcome under a key: the end of a POST for it, and a reconciliation of its draft.\<close>

fun ends_claim :: "report_system \<Rightarrow> string \<times> string \<Rightarrow> submission_op \<Rightarrow> bool" where
  "ends_claim s k (By_op (Op_Finish t en reply)) =
     (case rs_callers s t of Posting d p \<Rightarrow> draft_key d p = k | _ \<Rightarrow> False)"
| "ends_claim s k (By_op (Op_Reconcile en i remote confirmed fetched matches)) =
     (case map_of (wf_drafts (rs_wf s)) i of None \<Rightarrow> False | Some d \<Rightarrow> (text_or_empty (d_finding d), d_handle d) = k)"
| "ends_claim s k x = False"

fun pending :: "report_system \<Rightarrow> string \<times> string \<Rightarrow> submission_op list \<Rightarrow> bool" where
  "pending s k [] = True"
| "pending s k (x # xs) = (\<not> ends_claim s k x \<and> pending (submission_step s x) k xs)"

lemma drafting_submissions:
  "wf_submissions (fst (draft_from_finding en f p sev weak who project w)) = wf_submissions w"
  "wf_submissions (fst (mark_ready en i p fo w)) = wf_submissions w"
  "wf_submissions (fst (human_approve en i p session fo w)) = wf_submissions w"
  "wf_submissions (fst (apply_edits en i p ed fo w)) = wf_submissions w"
  "wf_submissions (fst (submit_check en i p fo session w)) = wf_submissions w"
  using drafted [of en f p sev weak who project w]
  by (auto simp: mark_ready_def human_approve_def apply_edits_def submit_check_def Let_def
      split: sum.splits prod.splits option.splits)

lemma same_blocked: "wf_submissions w' = wf_submissions w \<Longrightarrow> blocked w' = blocked w"
  by (simp add: blocked_def fun_eq_iff)

lemma claim_keeps_blocked: "blocked w k \<Longrightarrow> blocked (fst (claim_submission en i p w)) k"
  by (auto simp: claim_submission_def Let_def claimable_states split: sum.splits)

lemma store_elsewhere: "draft_key d p \<noteq> k \<Longrightarrow> blocked (store_draft en d p w) k = blocked w k"
  by (auto simp: store_draft_def Let_def)

lemma finish_elsewhere:
  "draft_key d p \<noteq> k \<Longrightarrow> blocked (fst (submit_finish en d p reply w)) k = blocked w k"
  using finish_cases [of en d p reply w] by (auto simp: store_elsewhere dest: same_key [where p = p])

lemma apply_remote_elsewhere:
  "(text_or_empty (d_finding d), d_handle d) \<noteq> k \<Longrightarrow> blocked (fst (apply_remote en d body need w)) k = blocked w k"
  using remote_update_kept [of d en body]
  by (auto simp: apply_remote_def Let_def kept_def same_draft_def)

lemma reconcile_elsewhere:
  assumes "case map_of (wf_drafts w) i of None \<Rightarrow> True | Some d \<Rightarrow> (text_or_empty (d_finding d), d_handle d) \<noteq> k"
  shows "blocked (fst (reconcile en i remote confirmed fetched matches w)) k = blocked w k"
  using assms
  by (auto simp: reconcile_def get_draft_Inr apply_remote_elsewhere Let_def split: sum.splits option.splits)

lemma pending_step:
  assumes "blocked (rs_wf s) k" and "\<not> ends_claim s k x"
  shows "blocked (rs_wf (submission_step s x)) k"
proof (cases x)
  case (Post_claimed t)
  then show ?thesis using assms by (simp split: phase.split)
next
  case (By_op y)
  show ?thesis
  proof (cases y)
    case (Op_Approve en i p session f)
    show ?thesis
    proof (cases "human_approve en i p session f (rs_wf s)")
      case (Pair w r)
      have "blocked w = blocked (rs_wf s)" using drafting_submissions(3) [of en i p session f "rs_wf s"] Pair by (intro same_blocked) simp
      then show ?thesis using assms By_op Op_Approve Pair by (cases r) simp_all
    qed
  next
    case (Op_Check t en i p f session)
    show ?thesis
    proof (cases "submit_check en i p f session (rs_wf s)")
      case (Pair w r)
      have "blocked w = blocked (rs_wf s)" using drafting_submissions(5) [of en i p f session "rs_wf s"] Pair by (intro same_blocked) simp
      then show ?thesis using assms By_op Op_Check Pair by (cases r) (auto split: prod.split)
    qed
  next
    case (Op_Claim t en)
    have c: "blocked w k" if "claim_submission en i p (rs_wf s) = (w, r)" for i p w r
      using claim_keeps_blocked [OF assms(1), of en i p] that by simp
    show ?thesis using assms By_op Op_Claim c by (auto split: phase.split prod.split sum.split)
  next
    case (Op_Finish t en reply)
    then show ?thesis using assms By_op by (auto simp: finish_elsewhere split: phase.splits)
  next
    case (Op_Reconcile en i remote confirmed fetched matches)
    have "case map_of (wf_drafts (rs_wf s)) i of None \<Rightarrow> True | Some d \<Rightarrow> (text_or_empty (d_finding d), d_handle d) \<noteq> k"
      using assms By_op Op_Reconcile by (auto split: option.splits)
    from reconcile_elsewhere [OF this] show ?thesis using assms By_op Op_Reconcile by simp
  qed (use assms By_op in \<open>simp_all add: same_blocked [OF drafting_submissions(1)] same_blocked [OF drafting_submissions(2)]
      same_blocked [OF drafting_submissions(4)]\<close>)
qed

lemma pending_run: "blocked (rs_wf s) k \<Longrightarrow> pending s k xs \<Longrightarrow> blocked (rs_wf (run_ops submission_step s xs)) k"
  by (induction xs arbitrary: s) (auto intro: pending_step)

text \<open>C2. A claim of a finding for a program excludes every other one: from the moment a caller has claimed
  it, and whatever callers do meanwhile, with or without claims of their own, no draft of the finding
  can be claimed for that program until a POST for this finding and program ends or a draft of it is
  reconciled.\<close>

theorem claims_exclude_each_other:
  assumes "claim_submission en i p (rs_wf s) = (w, Inr d)" and "text_or_empty (d_finding d) \<noteq> []"
    and "pending (s\<lparr>rs_wf := w\<rparr>) (draft_key d p) ops"
    and "map_of (wf_drafts (rs_wf (run_ops submission_step (s\<lparr>rs_wf := w\<rparr>) ops))) j = Some d2"
    and "draft_key d2 p2 = draft_key d p"
  shows "\<not> is_ok (snd (claim_submission en2 j p2 (rs_wf (run_ops submission_step (s\<lparr>rs_wf := w\<rparr>) ops))))"
proof -
  let ?w = "rs_wf (run_ops submission_step (s\<lparr>rs_wf := w\<rparr>) ops)"
  obtain d0 where d0: "kept d0 d" "text_or_empty (d_finding d0) \<noteq> [] \<Longrightarrow> blocked w (draft_key d0 p)"
    using claim_succeeds [OF assms(1)] by blast
  have "draft_key d p = draft_key d0 p" "d_finding d = d_finding d0"
    using d0(1) same_key [of d0 d p] by (simp_all add: kept_def) (simp add: same_draft_def)
  with d0(2) assms(2) have "blocked (rs_wf (s\<lparr>rs_wf := w\<rparr>)) (draft_key d p)" by simp
  from pending_run [OF this assms(3)] have "blocked ?w (draft_key d2 p2)" by (simp add: assms(5))
  moreover have "text_or_empty (d_finding d2) \<noteq> []" using assms(2,5) by (simp add: draft_key_def)
  ultimately show ?thesis using assms(4)
    by (auto simp: claim_submission_def get_draft_def blocked_def is_ok_iff Let_def split: sum.splits)
qed


section \<open>A run that posts a report\<close>

definition sample_report_finding :: finding where
  "sample_report_finding = sample_finding
     \<lparr>title := ''XSS'', status := VERIFIED, vulnerability_class := Some ''XSS'', f_target := Some ''firmware'',
      f_evidence := [sample_evidence\<lparr>ev_provenance := Some P_HTTP_OBSERVATION\<rparr>],
      f_reproduction := Some ''Open it'', impact := Some ''Takes over''\<rparr>"

definition sample_edit :: draft_edit where
  "sample_edit = \<lparr>de_title = None, de_info = Some ''## Steps to reproduce'', de_impact = None,
     de_severity = None, de_weakness = None\<rparr>"

definition later_env :: report_env where "later_env = sample_env\<lparr>en_now := 5\<rparr>"

definition sample_run :: "report_op list" where
  "sample_run =
     [Op_Draft sample_env sample_report_finding sample_program None None None None,
      Op_Edit sample_env ''d1'' sample_program sample_edit None,
      Op_Approve sample_env ''d1'' sample_program sample_session None,
      Op_Check 0 later_env ''d1'' sample_program None sample_session,
      Op_Claim 0 later_env]"

definition first_draft :: report_draft where
  "first_draft = (let scope = evaluate_asset sample_program ''firmware'' (Some ''XSS'') in
     refresh_hashes sample_program scope (Some sample_report_finding)
       (new_draft sample_env sample_report_finding sample_program scope
          (map_program_weakness (Some ''XSS'') sample_program None) None None None))"

lemma first_drafted:
  "draft_from_finding sample_env sample_report_finding sample_program None None None None new_workflow
     = (put_draft ''d1'' first_draft new_workflow, Inr first_draft)"
proof -
  have "assert_verified_finding sample_report_finding = Inr ()" by code_simp
  moreover have "finding_target sample_report_finding = ''firmware''"
      "vulnerability_class sample_report_finding = Some ''XSS''" by code_simp+
  moreover have "normalize_severity None = Inr None" by code_simp
  moreover have "d_id first_draft = ''d1''" by (simp add: first_draft_def Let_def new_draft_def sample_env_def)
  ultimately show ?thesis by (simp add: draft_from_finding_def first_draft_def Let_def)
qed

definition second_draft :: report_draft where
  "second_draft = refresh_hashes sample_program sample_scope None
     (first_draft\<lparr>d_info := ''## Steps to reproduce''\<rparr>)"

lemma first_fields:
  "d_title first_draft = ''XSS''" "d_impact first_draft = ''Takes over''" "d_target first_draft = Some ''firmware''"
  "d_scope_id first_draft = Some 7" "d_severity first_draft = None" "d_weakness first_draft = Some 3"
  "d_evidence first_draft = [''e1'']" "d_reproduction first_draft = Some ''Open it''"
  "d_handle first_draft = ''acme''" "d_finding first_draft = Some ''f1''" "d_state first_draft = SS_LOCAL_DRAFT"
  "d_report_id first_draft = None" "d_id first_draft = ''d1''" "d_approval first_draft = None"
  by (simp_all only: first_draft_def Let_def refresh_fields refresh_kept new_draft_def report_draft.simps) code_simp+

lemma second_edited:
  assumes "map_of (wf_drafts w) ''d1'' = Some first_draft"
  shows "fst (apply_edits sample_env ''d1'' sample_program sample_edit None w) = put_draft ''d1'' second_draft w"
proof -
  have "edited_draft sample_program sample_edit None first_draft = Inr (first_draft\<lparr>d_info := ''## Steps to reproduce''\<rparr>)"
    by (cases first_draft) (simp add: edited_draft_def sample_edit_def or_old_def)
  then show ?thesis using assms
    by (simp add: apply_edits_def get_draft_def Let_def first_fields second_draft_def sample_scope_def
        finding_class_def text_or_empty_def)
qed

lemma second_valid: "vr_ok (validate_report [] second_draft sample_program (Some sample_scope) None)"
proof -
  have "validate_report [] second_draft sample_program (Some sample_scope) None
      = validate_report [] sample_draft sample_program (Some sample_scope) None"
    by (rule validate_cong) (simp_all add: second_draft_def first_fields sample_draft_def)
  then show ?thesis using sample_valid by simp
qed

lemma second_redacts:
  assumes "build_payload d = build_payload second_draft"
  shows "\<exists>payload. redacted_payload d = Inr payload"
proof -
  have "build_payload second_draft = build_payload sample_draft"
    by (simp add: second_draft_def first_fields sample_draft_def build_payload_def)
  then show ?thesis using sample_redacts assms by (simp add: redacted_payload_def is_ok_iff)
qed

lemma submit_check_submissions: "wf_submissions (fst (submit_check en i p f session w)) = wf_submissions w"
  by (simp add: submit_check_def Let_def split: sum.splits prod.splits option.splits)

lemma claim_first:
  assumes "map_of (wf_drafts w) i = Some d" "wf_submissions w = []" "d_state d = SS_APPROVED"
    "d_report_id d = None" "redacted_payload d = Inr payload"
  shows "\<exists>w' d'. claim_submission en i p w = (w', Inr d')"
  using assms by (simp add: claim_submission_def get_draft_def draft_claimable_def record_claimable_def
      text_or_empty_def Let_def)

definition checked_reports :: report_system where
  "checked_reports = run_ops report_step new_reports (take 4 sample_run)"

lemma sample_run_posts:
  "careful_run new_reports sample_run \<and>
   (\<exists>w d. claim_submission later_env ''d1'' sample_program (rs_wf checked_reports) = (w, Inr d) \<and>
      text_or_empty (d_finding d) = ''f1'') \<and>
   (\<exists>q. rs_posts (run_ops report_step new_reports sample_run) = [q] \<and> po_outcome q = In_flight 0 \<and>
      post_key q = (''f1'', ''acme''))"
proof -
  let ?s1 = "report_step new_reports (Op_Draft sample_env sample_report_finding sample_program None None None None)"
  let ?s2 = "report_step ?s1 (Op_Edit sample_env ''d1'' sample_program sample_edit None)"
  let ?s3 = "report_step ?s2 (Op_Approve sample_env ''d1'' sample_program sample_session None)"
  let ?s4 = "report_step ?s3 (Op_Check 0 later_env ''d1'' sample_program None sample_session)"
  let ?w2 = "put_draft ''d1'' second_draft (put_draft ''d1'' first_draft new_workflow)"
  have s2: "?s2 = new_reports\<lparr>rs_wf := ?w2\<rparr>"
    using first_drafted second_edited [of "put_draft ''d1'' first_draft new_workflow"]
    by (simp add: new_reports_def)
  have there: "map_of (wf_drafts ?w2) ''d1'' = Some second_draft" by simp
  obtain a d where a: "ra_expires a = 0 + approval_ttl"
    and d: "d = (refresh_hashes sample_program sample_scope None second_draft)\<lparr>d_review := RV_APPROVED,
       d_state := SS_APPROVED, d_operator := Some (identity sample_session), d_approval := Some a\<rparr>"
    and h: "human_approve sample_env ''d1'' sample_program sample_session None ?w2
       = (put_draft ''d1'' d ?w2, Inr d)"
    using approve_plain [OF sample_session_human there, of sample_env sample_program sample_scope] second_valid
    by (auto simp: second_draft_def first_fields awaiting_approval_def sample_env_def sample_scope_def text_or_empty_def)
  have pl: "build_payload d = build_payload second_draft" by (simp add: d build_payload_def)
  have fields: "d_finding d = Some ''f1''" "d_handle d = ''acme''" "d_report_id d = None" "d_state d = SS_APPROVED"
    by (simp_all add: d second_draft_def first_fields)
  have s3: "?s3 = new_reports\<lparr>rs_wf := put_draft ''d1'' d ?w2, rs_approved := [(a, build_payload d)]\<rparr>"
    unfolding s2 using h by (simp add: new_reports_def) (simp add: d)
  have "require_fresh_program (en_fresh later_env) (en_now later_env) sample_program = Inr ()"
    by code_simp
  then obtain w where w: "submit_check later_env ''d1'' sample_program None sample_session (put_draft ''d1'' d ?w2)
      = (w, Inr (d, build_payload d))"
    using approval_opens(2,3) [OF h, of later_env]
    by (auto simp: later_env_def sample_env_def approval_ttl_def hours_def)
  have s4: "?s4 = new_reports\<lparr>rs_wf := w, rs_approved := [(a, build_payload d)],
      rs_callers := (\<lambda>_. Idle)(0 := Checked ''d1'' sample_program d (build_payload d) 5)\<rparr>"
    unfolding s3 using w by (simp add: new_reports_def later_env_def)
  have handle: "pg_handle sample_program = ''acme''" by (simp add: sample_program_def)
  have subs: "wf_submissions w = []"
    using submit_check_submissions [of later_env "''d1''" sample_program None sample_session "put_draft ''d1'' d ?w2"] w
    by (simp add: new_workflow_def)
  have at: "map_of (wf_drafts w) ''d1'' = Some d" using submit_check_Inr [OF w] by simp
  obtain payload where "redacted_payload d = Inr payload" using second_redacts [OF pl] by auto
  then obtain w5 d5 where c: "claim_submission later_env ''d1'' sample_program w = (w5, Inr d5)"
    using claim_first [OF at subs fields(4,3)] by blast
  have f5: "text_or_empty (d_finding d5) = ''f1''"
    using claim_succeeds [OF c] at fields(1) by (auto simp: kept_def same_draft_def text_or_empty_def)
  have "checked_reports = ?s4"
    by (simp add: checked_reports_def sample_run_def del: report_step.simps)
  from arg_cong [OF this, of rs_wf] have "rs_wf checked_reports = w" unfolding s4 by simp
  with c f5 have claim: "\<exists>w d. claim_submission later_env ''d1'' sample_program (rs_wf checked_reports) = (w, Inr d) \<and>
      text_or_empty (d_finding d) = ''f1''" by auto
  have "run_ops report_step new_reports sample_run = report_step ?s4 (Op_Claim 0 later_env)"
    by (simp add: sample_run_def del: report_step.simps)
  then have "rs_posts (run_ops report_step new_reports sample_run) = [post_of 0 d (build_payload d) 5]"
    unfolding s4 using c by (simp add: new_reports_def)
  then have "\<exists>q. rs_posts (run_ops report_step new_reports sample_run) = [q] \<and> po_outcome q = In_flight 0 \<and>
      post_key q = (''f1'', ''acme'')"
    by (simp add: post_of_def post_key_def fields text_or_empty_def)
  moreover have "map_of (wf_drafts (rs_wf ?s3)) ''d1'' = Some d" by (simp only: s3) (simp add: new_reports_def)
  then have "careful_run new_reports sample_run"
    unfolding sample_run_def using fields handle
    by (simp del: report_step.simps add: sample_report_finding_def sample_finding_def)
      (simp add: new_reports_def new_workflow_def)
  ultimately show ?thesis using claim by blast
qed

theorem at_most_one_live_post_witness:
  "length (live_posts (run_ops report_step new_reports sample_run) (''f1'', ''acme'')) \<le> 1 \<and>
   live_posts (run_ops report_step new_reports sample_run) (''f1'', ''acme'') \<noteq> []"
  using at_most_one_live_post sample_run_posts by (auto simp: live_posts_def live_post_def)

theorem claims_exclude_each_other_witness:
  "\<exists>w d. claim_submission later_env ''d1'' sample_program (rs_wf checked_reports) = (w, Inr d) \<and>
     \<not> is_ok (snd (claim_submission later_env ''d1'' sample_program
       (rs_wf (run_ops submission_step (checked_reports\<lparr>rs_wf := w\<rparr>) [Post_claimed 0]))))"
proof -
  obtain w d where c: "claim_submission later_env ''d1'' sample_program (rs_wf checked_reports) = (w, Inr d)"
      "text_or_empty (d_finding d) = ''f1''"
    using sample_run_posts by blast
  have "rs_wf (run_ops submission_step (checked_reports\<lparr>rs_wf := w\<rparr>) [Post_claimed 0]) = w"
    by (simp split: phase.split)
  then have "map_of (wf_drafts (rs_wf (run_ops submission_step (checked_reports\<lparr>rs_wf := w\<rparr>) [Post_claimed 0]))) ''d1'' = Some d"
    using claim_succeeds [OF c(1)] by auto
  from claims_exclude_each_other [OF c(1) _ _ this refl, of later_env] c show ?thesis by auto
qed


end
