(* ===== verification/H1Intents.thy ===== *)
theory H1Intents
  imports H1Reports
begin

text \<open>
  \<open>adapters/hackerone/intents.py\<close>: local and remote report intents, and the review of attachments.
  The calls of the API client are recorded as the client does (\<open>calls\<close>); what it answers is an
  argument, a body or an exception. File names are ASCII. \<open>_store_bytes\<close>, which writes the file, is
  an argument too: the path it returns or the error it raises.
\<close>

section \<open>Data\<close>

datatype intent_status =
    IS_LOCAL_DRAFT | IS_READY | IS_APPROVED | IS_REMOTE_CREATED | IS_REMOTE_READY | IS_SUBMITTED | IS_FAILED

fun intent_value :: "intent_status \<Rightarrow> string" where
  "intent_value IS_LOCAL_DRAFT = ''local_draft''"
| "intent_value IS_READY = ''ready_for_review''"
| "intent_value IS_APPROVED = ''human_approved''"
| "intent_value IS_REMOTE_CREATED = ''remote_intent_created''"
| "intent_value IS_REMOTE_READY = ''remote_ready_to_submit''"
| "intent_value IS_SUBMITTED = ''submitted''"
| "intent_value IS_FAILED = ''failed''"

datatype attachment_status =
    AS_RECEIVED | AS_REVIEWED | AS_AUTHORIZED | AS_UPLOADING | AS_UPLOADED | AS_REJECTED | AS_FAILED

fun attachment_value :: "attachment_status \<Rightarrow> string" where
  "attachment_value AS_RECEIVED = ''received''"
| "attachment_value AS_REVIEWED = ''reviewed''"
| "attachment_value AS_AUTHORIZED = ''upload_authorized''"
| "attachment_value AS_UPLOADING = ''uploading''"
| "attachment_value AS_UPLOADED = ''uploaded''"
| "attachment_value AS_REJECTED = ''rejected''"
| "attachment_value AS_FAILED = ''upload_failed''"

record report_intent =
  ri_id :: string
  ri_project :: string
  ri_finding :: "string option"
  ri_draft :: string
  ri_handle :: string
  ri_title :: string
  ri_info :: string
  ri_impact :: string
  ri_severity :: "string option"
  ri_local :: intent_status
  ri_review :: intent_status
  ri_remote_id :: "string option"
  ri_remote :: remote_state
  ri_remote_raw :: string
  ri_error :: "string option"
  ri_last_payload :: "json option"
  ri_created :: instant
  ri_updated :: instant

definition intent_snapshot :: "report_intent \<Rightarrow> json" where
  "intent_snapshot x = JObj
     [(''id'', JStr (ri_id x)), (''project_id'', JStr (ri_project x)),
      (''finding_id'', json_opt (ri_finding x)), (''draft_id'', JStr (ri_draft x)),
      (''program_handle'', JStr (ri_handle x)), (''title'', JStr (ri_title x)),
      (''vulnerability_information'', JStr (ri_info x)), (''impact'', JStr (ri_impact x)),
      (''severity'', json_opt (ri_severity x)), (''local_status'', JStr (intent_value (ri_local x))),
      (''human_review_state'', JStr (intent_value (ri_review x))),
      (''remote_intent_id'', json_opt (ri_remote_id x)),
      (''remote_state'', JStr (remote_value (ri_remote x))),
      (''remote_state_raw'', JStr (ri_remote_raw x)), (''error'', json_opt (ri_error x)),
      (''assistant_output_is_evidence'', JBool False),
      (''created_at'', JStr (isoformat (ri_created x))), (''updated_at'', JStr (isoformat (ri_updated x)))]"

record attachment =
  at_id :: string
  at_intent :: string
  at_project :: string
  at_finding :: string
  at_draft :: string
  at_filename :: string
  at_path :: string
  at_sha256 :: string
  at_size :: nat
  at_type :: string
  at_review :: attachment_status
  at_remote_id :: "string option"
  at_upload :: attachment_status
  at_error :: "string option"
  at_reviewed_by :: "string option"
  at_authorized_by :: "string option"
  at_created :: instant

definition attachment_snapshot :: "attachment \<Rightarrow> json" where
  "attachment_snapshot x = JObj
     [(''id'', JStr (at_id x)), (''intent_id'', JStr (at_intent x)), (''project_id'', JStr (at_project x)),
      (''finding_id'', JStr (at_finding x)), (''draft_id'', JStr (at_draft x)),
      (''filename'', JStr (at_filename x)), (''sha256'', JStr (at_sha256 x)),
      (''size'', JInt (int (at_size x))), (''detected_content_type'', JStr (at_type x)),
      (''review_state'', JStr (attachment_value (at_review x))),
      (''reviewed'', JBool (at_review x \<in> {AS_REVIEWED, AS_AUTHORIZED, AS_UPLOADING, AS_UPLOADED})),
      (''authorized_for_upload'', JBool (at_review x \<in> {AS_AUTHORIZED, AS_UPLOADING, AS_UPLOADED})),
      (''uploaded'', JBool (at_review x = AS_UPLOADED)),
      (''remote_attachment_id'', json_opt (at_remote_id x)),
      (''upload_state'', JStr (attachment_value (at_upload x))), (''error'', json_opt (at_error x)),
      (''reviewed_by'', json_opt (at_reviewed_by x)), (''authorized_by'', json_opt (at_authorized_by x))]"

record intents =
  in_reports :: workflow
  in_intents :: "(string, report_intent) dict"
  in_attachments :: "(string, attachment list) dict"
  in_calls :: "(string \<times> string) list"

definition new_intents :: "workflow \<Rightarrow> intents" where
  "new_intents w = \<lparr>in_reports = w, in_intents = [], in_attachments = [], in_calls = []\<rparr>"

definition put_intent :: "report_intent \<Rightarrow> string \<Rightarrow> intents \<Rightarrow> intents" where
  "put_intent x i s = s\<lparr>in_intents := dict_set i x (in_intents s)\<rparr>"

definition api_call :: "string \<Rightarrow> string \<Rightarrow> intents \<Rightarrow> intents" where
  "api_call meth path s = s\<lparr>in_calls := in_calls s @ [(meth, path)]\<rparr>"

definition intent_record :: "intents \<Rightarrow> string \<Rightarrow> report_intent result" where
  "intent_record s i =
     (case map_of (in_intents s) i of
        None \<Rightarrow> Inl (HackerOneError ''Unknown report intent'' ''not_found'') | Some x \<Rightarrow> Inr x)"

definition owned :: "intents \<Rightarrow> string \<Rightarrow> string \<Rightarrow> report_intent result" where
  "owned s i project =
     then_do (intent_record s i) (\<lambda>x.
       if ri_project x \<noteq> project
       then Inl (HackerOneError ''Report intent does not belong to this project'' ''forbidden'')
       else Inr x)"

definition get_intent :: "intents \<Rightarrow> string \<Rightarrow> json result" where
  "get_intent s i = then_do (intent_record s i) (\<lambda>x. Inr (intent_snapshot x))"

text \<open>\<open>except HackerOneError\<close>.\<close>

fun hackerone_error :: "error \<Rightarrow> bool" where
  "hackerone_error (HackerOneError m code) = True"
| "hackerone_error exc = False"

text \<open>A method that changes one intent it owns, once its own checks have passed.\<close>

definition with_owned ::
    "unit result \<Rightarrow> string \<Rightarrow> string \<Rightarrow> intents \<Rightarrow> (report_intent \<Rightarrow> intents \<times> 'a result)
     \<Rightarrow> intents \<times> 'a result" where
  "with_owned before i project s act =
     (case then_do before (\<lambda>_. owned s i project) of Inl exc \<Rightarrow> (s, Inl exc) | Inr x \<Rightarrow> act x)"

definition save_intent :: "report_intent \<Rightarrow> string \<Rightarrow> intents \<Rightarrow> intents \<times> json result" where
  "save_intent x i s = (put_intent x i s, Inr (intent_snapshot x))"

section \<open>Intents\<close>

definition create_from_draft ::
    "string \<Rightarrow> instant \<Rightarrow> report_draft \<Rightarrow> string \<Rightarrow> intents \<Rightarrow> intents \<times> json result" where
  "create_from_draft uid now d project s =
     (if text_or_empty (d_project d) \<noteq> [] \<and> text_or_empty (d_project d) \<noteq> project then
        (s, Inl (HackerOneError ''Report intent does not belong to this project'' ''forbidden''))
      else save_intent
        \<lparr>ri_id = uid, ri_project = project, ri_finding = d_finding d, ri_draft = d_id d,
         ri_handle = d_handle d, ri_title = d_title d, ri_info = d_info d, ri_impact = d_impact d,
         ri_severity = d_severity d, ri_local = IS_LOCAL_DRAFT, ri_review = IS_LOCAL_DRAFT,
         ri_remote_id = None, ri_remote = RS_NOT_FETCHED, ri_remote_raw = [], ri_error = None,
         ri_last_payload = None, ri_created = now, ri_updated = now\<rparr> uid s)"

definition intent_ready :: "instant \<Rightarrow> string \<Rightarrow> string \<Rightarrow> intents \<Rightarrow> intents \<times> json result" where
  "intent_ready now i project s =
     with_owned (Inr ()) i project s (\<lambda>x.
       save_intent (x\<lparr>ri_local := IS_READY, ri_review := IS_READY, ri_updated := now\<rparr>) i s)"

definition intent_approve ::
    "instant \<Rightarrow> string \<Rightarrow> operator_session \<Rightarrow> string \<Rightarrow> intents \<Rightarrow> intents \<times> json result" where
  "intent_approve now i session project s =
     with_owned (assert_human session) i project s (\<lambda>x.
       if ri_local x \<notin> {IS_READY, IS_LOCAL_DRAFT, IS_FAILED} then
         (s, Inl (HackerOneError ''Intent is not awaiting human approval'' ''invalid_state''))
       else save_intent
         (x\<lparr>ri_local := IS_APPROVED, ri_review := IS_APPROVED, ri_updated := now, ri_error := None\<rparr>) i s)"

text \<open>A patch: whether a raw payload was given, and the three fields it may set.\<close>

record intent_patch =
  ip_raw :: bool
  ip_title :: "string option"
  ip_impact :: "string option"
  ip_severity :: "string option"

definition patch_intent :: "instant \<Rightarrow> string \<Rightarrow> intent_patch \<Rightarrow> string \<Rightarrow> intents \<Rightarrow> intents \<times> json result"
  where
  "patch_intent now i pt project s =
     with_owned (Inr ()) i project s (\<lambda>x.
       if ip_raw pt then
         (s, Inl (HackerOneError ''Raw HackerOne intent payloads cannot bypass BugForge finding evidence''
            ''raw_payload_forbidden''))
       else let changed = (ip_title pt \<noteq> None \<or> ip_impact pt \<noteq> None \<or> ip_severity pt \<noteq> None);
                x1 = x\<lparr>ri_title := or_old (ip_title pt) (ri_title x),
                       ri_impact := or_old (ip_impact pt) (ri_impact x),
                       ri_severity := (if ip_severity pt = None then ri_severity x else ip_severity pt)\<rparr>;
                x2 = (if ri_review x = IS_APPROVED \<and> changed
                      then x1\<lparr>ri_local := IS_READY, ri_review := IS_READY,
                              ri_error := Some ''Approval invalidated because the intent changed''\<rparr>
                      else x1)
            in save_intent (x2\<lparr>ri_updated := now\<rparr>) i s)"

definition intent_payload :: "report_draft \<Rightarrow> h1_program \<Rightarrow> json" where
  "intent_payload d p = JObj [(''data'', JObj [(''type'', JStr ''report-intent''), (''attributes'', JObj
     ([(''team_handle'', JStr (pg_handle p)), (''title'', JStr (d_title d)),
       (''vulnerability_information'', JStr (d_info d)), (''impact'', JStr (d_impact d))] @
      (case d_severity d of None \<Rightarrow> [] | Some v \<Rightarrow> if v = [] then [] else [(''severity_rating'', JStr v)]) @
      (case d_weakness d of None \<Rightarrow> [] | Some k \<Rightarrow> [(''weakness_id'', JInt k)]) @
      (case d_scope_id d of None \<Rightarrow> [] | Some k \<Rightarrow> [(''structured_scope_id'', JInt k)])))])]"

definition intent_remote_state :: "json_body \<Rightarrow> remote_state \<times> string" where
  "intent_remote_state body =
     (let attrs = node_attributes (JObj (body_data body)) in
      map_remote_state (if json_true (json_get attrs ''state'') then json_get attrs ''state''
                        else json_get attrs ''substate''))"

text \<open>The redaction of the payload that is kept runs after the remote intent was created.\<close>

definition create_remote ::
    "instant \<Rightarrow> string \<Rightarrow> h1_program \<Rightarrow> operator_session \<Rightarrow> string \<Rightarrow> json_body result \<Rightarrow> intents
     \<Rightarrow> intents \<times> json result" where
  "create_remote now i p session project reply s =
     with_owned (assert_human session) i project s (\<lambda>x.
       if ri_local x \<noteq> IS_APPROVED then
         (s, Inl (HackerOneError ''Remote HackerOne intents require HUMAN_APPROVED'' ''not_approved''))
       else case get_draft (in_reports s) (ri_draft x) of
         Inl exc \<Rightarrow> (s, Inl exc)
       | Inr d \<Rightarrow>
           (let s1 = api_call ''POST'' ''hackers/report_intents'' s in
            case reply of
              Inl exc \<Rightarrow>
                if hackerone_error exc
                then save_intent (x\<lparr>ri_local := IS_FAILED, ri_error := Some (error_text exc),
                                    ri_updated := now\<rparr>) i s1
                else (s1, Inl exc)
            | Inr body \<Rightarrow>
                (case redact_payload (intent_payload d p) of
                   Inl exc \<Rightarrow> (s1, Inl exc)
                 | Inr kept_payload \<Rightarrow> save_intent
                     (x\<lparr>ri_local := IS_REMOTE_CREATED, ri_review := IS_APPROVED,
                        ri_remote_id := none_if_empty (node_id (JObj (body_data body))),
                        ri_remote := fst (intent_remote_state body),
                        ri_remote_raw := snd (intent_remote_state body),
                        ri_last_payload := Some kept_payload, ri_error := None,
                        ri_updated := now\<rparr>) i s1)))"

definition refresh_remote ::
    "instant \<Rightarrow> string \<Rightarrow> string \<Rightarrow> json_body result \<Rightarrow> intents \<Rightarrow> intents \<times> json result" where
  "refresh_remote now i project reply s =
     with_owned (Inr ()) i project s (\<lambda>x.
       if text_or_empty (ri_remote_id x) = [] then
         (s, Inl (HackerOneError ''No remote HackerOne intent id'' ''not_found''))
       else let s1 = api_call ''GET'' (''hackers/report_intents/'' @ text_or_empty (ri_remote_id x)) s in
         case reply of
           Inl exc \<Rightarrow> (s1, Inl exc)
         | Inr body \<Rightarrow>
             (case intent_remote_state body of
                (mapped, raw) \<Rightarrow> save_intent
                  (x\<lparr>ri_remote := mapped, ri_remote_raw := or_text raw (ri_remote_raw x),
                     ri_local := (if mapped \<noteq> RS_UNKNOWN \<and> raw \<in> {''ready-to-submit'', ''ready_to_submit''}
                                  then IS_REMOTE_READY else ri_local x),
                     ri_updated := now\<rparr>) i s1))"

text \<open>
  \<open>ReportIntentWorkflow.submit\<close>. The remote intent, if there is one, is submitted first; then the
  report itself goes through the report workflow.
\<close>

definition intent_submittable :: "report_intent \<Rightarrow> bool" where
  "intent_submittable x \<longleftrightarrow> ri_local x \<in> {IS_APPROVED, IS_REMOTE_CREATED, IS_REMOTE_READY}"

definition submit_remote_intent ::
    "instant \<Rightarrow> string \<Rightarrow> report_intent \<Rightarrow> json_body result \<Rightarrow> intents \<Rightarrow> intents \<times> unit result" where
  "submit_remote_intent now i x reply s =
     (if text_or_empty (ri_remote_id x) = [] then (s, Inr ())
      else let s1 = api_call ''POST'' (''hackers/report_intents/'' @ text_or_empty (ri_remote_id x) @ ''/submit'') s in
        case reply of
          Inr body \<Rightarrow> (put_intent (x\<lparr>ri_local := IS_SUBMITTED, ri_updated := now, ri_error := None\<rparr>) i s1, Inr ())
        | Inl exc \<Rightarrow>
            if hackerone_error exc
            then (put_intent (x\<lparr>ri_local := IS_FAILED, ri_error := Some (error_text exc)\<rparr>) i s1, Inl exc)
            else (s1, Inl exc))"

text \<open>The report part of a submission, with the call it makes when it gets that far.\<close>

definition submit_report ::
    "report_env \<Rightarrow> report_env \<Rightarrow> string \<Rightarrow> h1_program \<Rightarrow> finding option \<Rightarrow> operator_session
     \<Rightarrow> (json \<Rightarrow> post_reply) \<Rightarrow> intents \<Rightarrow> intents \<times> report_draft result" where
  "submit_report en later d p f session post s =
     (case submit_check en d p f session (in_reports s) of
        (w1, Inl exc) \<Rightarrow> (s\<lparr>in_reports := w1\<rparr>, Inl exc)
      | (w1, Inr (checked, payload)) \<Rightarrow>
          (case claim_submission en d p w1 of
             (w2, Inl exc) \<Rightarrow> (s\<lparr>in_reports := w2\<rparr>, Inl exc)
           | (w2, Inr attempted) \<Rightarrow>
               (case submit_finish later attempted p (post payload) w2 of
                  (w3, r) \<Rightarrow> (api_call ''POST'' ''hackers/reports'' (s\<lparr>in_reports := w3\<rparr>), r))))"

definition submit_intent ::
    "report_env \<Rightarrow> report_env \<Rightarrow> string \<Rightarrow> h1_program \<Rightarrow> operator_session \<Rightarrow> finding option \<Rightarrow> string
     \<Rightarrow> json_body result \<Rightarrow> (json \<Rightarrow> post_reply) \<Rightarrow> intents \<Rightarrow> intents \<times> report_draft result" where
  "submit_intent en later i p session f project reply post s =
     with_owned (Inr ()) i project s (\<lambda>x.
       if \<not> intent_submittable x then
         (s, Inl (HackerOneError ''Intent submission requires human approval'' ''not_approved''))
       else case submit_remote_intent (en_now en) i x reply s of
         (s1, Inl exc) \<Rightarrow> (s1, Inl exc)
       | (s1, Inr u) \<Rightarrow>
           (case submit_report en later (ri_draft x) p f session post s1 of
              (s2, Inl exc) \<Rightarrow> (s2, Inl exc)
            | (s2, Inr d) \<Rightarrow>
                (if d_state d = SS_SUBMITTED then
                   (case intent_record s2 i of
                      Inl exc \<Rightarrow> (s2, Inl exc)
                    | Inr y \<Rightarrow> (put_intent (y\<lparr>ri_local := IS_SUBMITTED, ri_updated := en_now later\<rparr>) i s2, Inr d))
                 else (s2, Inr d))))"

section \<open>Content of attachments\<close>

definition text_types :: "string list" where
  "text_types = [''text/plain'', ''text/html'', ''text/csv'', ''text/xml'', ''application/json'',
     ''application/xml'', ''application/javascript'', ''application/x-www-form-urlencoded'']"

definition secret_markers :: "string list" where
  "secret_markers = [''-----BEGIN '', ''AKIA'', ''ghp_'', ''github_pat_'', ''xoxb-'', ''xoxp-'',
     ''hackerone_api_token'', ''BUGFORGE_OPERATOR_TOKEN'']"

definition max_name :: nat where "max_name = 180"

definition file_char :: "char \<Rightarrow> bool" where
  "file_char c \<longleftrightarrow> is_alpha c \<or> is_digit c \<or> c \<in> set ''.-_''"

definition safe_filename :: "string \<Rightarrow> string result" where
  "safe_filename nm =
     (let base = last (py_split CHR ''/'' (py_replace_char CHR 0x5C CHR ''/'' nm));
          cleaned = filter file_char base
      in if cleaned = [] \<or> cleaned \<in> {''.'', ''..''} then
           Inl (HackerOneError ''Unsafe attachment filename'' ''unsafe_path'')
         else Inr (take max_name cleaned))"

text \<open>\<open>Path(name).suffix\<close> of a name without slashes.\<close>

definition path_suffix :: "string \<Rightarrow> string" where
  "path_suffix nm =
     (case py_rpartition CHR ''.'' nm of
        (a, found, b) \<Rightarrow> if found \<and> a \<noteq> [] \<and> b \<noteq> [] then CHR ''.'' # b else [])"

text \<open>\<open>data.decode("utf-8")\<close> succeeds.\<close>

function utf8_valid :: "string \<Rightarrow> bool" where
  "utf8_valid [] = True"
| "utf8_valid (c # cs) =
     (if of_char c < (128 :: nat) then utf8_valid cs
      else case utf8_lead (of_char c) of
        None \<Rightarrow> False
      | Some (k, lo, hi) \<Rightarrow> utf8_follow k lo hi cs = k \<and> utf8_valid (drop k cs))"
  by pat_completeness auto
termination
  by (relation "measure length") auto

text \<open>More than 0.85 of the sample is printable.\<close>

definition printable :: "char \<Rightarrow> bool" where
  "printable c \<longleftrightarrow> (32 \<le> (of_char c :: nat) \<and> of_char c < (127 :: nat)) \<or> of_char c \<in> {9, 10, 13 :: nat}"

definition looks_text :: "string \<Rightarrow> bool" where
  "looks_text content =
     (let sample = take 4096 content in
      CHR 0x00 \<notin> set sample \<and> utf8_valid sample \<and>
      85 * max (length sample) 1 < 100 * length (filter printable sample))"

definition suffix_types :: "(string, string) dict" where
  "suffix_types = [(''.xml'', ''application/xml''), (''.html'', ''text/html''), (''.htm'', ''text/html''),
     (''.csv'', ''text/csv''), (''.txt'', ''text/plain''), (''.log'', ''text/plain''), (''.md'', ''text/plain'')]"

definition sniff_content_type :: "string \<Rightarrow> string \<Rightarrow> string" where
  "sniff_content_type content nm =
     (if startswith content ''%PDF'' then ''application/pdf''
      else if startswith content [CHR 0x89, CHR ''P'', CHR ''N'', CHR ''G'', CHR 0x0D, CHR 0x0A, CHR 0x1A, CHR 0x0A]
      then ''image/png''
      else if startswith content [CHR 0xFF, CHR 0xD8, CHR 0xFF] then ''image/jpeg''
      else if startswith content ''GIF87a'' \<or> startswith content ''GIF89a'' then ''image/gif''
      else let ext = py_lower (path_suffix nm) in
        if looks_text content then
          (if ext = ''.json'' then ''application/json'' else dict_get suffix_types ext ''text/plain'')
        else ''application/octet-stream'')"

definition scan_attachment :: "string list \<Rightarrow> string \<Rightarrow> string \<Rightarrow> string \<Rightarrow> string list" where
  "scan_attachment configured content nm ctype =
     first_occurrences
       (map py_strip (filter (\<lambda>m. py_contains (py_lower content) (py_lower m)) secret_markers) @
        (if startswith ctype ''text/'' \<or> ctype \<in> set text_types
         then detect_secrets [nm, utf8_replace content] configured else []))"

section \<open>Attachments\<close>

definition list_attachments :: "intents \<Rightarrow> string \<Rightarrow> string option \<Rightarrow> json list result" where
  "list_attachments s i project =
     then_do (case project of None \<Rightarrow> intent_record s i | Some pr \<Rightarrow> owned s i pr)
       (\<lambda>_. Inr (map attachment_snapshot (dict_get (in_attachments s) i [])))"

definition put_attachments :: "string \<Rightarrow> attachment list \<Rightarrow> intents \<Rightarrow> intents" where
  "put_attachments i xs s = s\<lparr>in_attachments := dict_set i xs (in_attachments s)\<rparr>"

text \<open>What an upload takes from outside: the size limit, the configured secrets, where it is stored.\<close>

definition add_attachment ::
    "string \<Rightarrow> instant \<Rightarrow> nat \<Rightarrow> string list \<Rightarrow> (string \<Rightarrow> string \<Rightarrow> string result) \<Rightarrow> string \<Rightarrow> string
     \<Rightarrow> string \<Rightarrow> operator_session \<Rightarrow> string \<Rightarrow> intents \<Rightarrow> intents \<times> json result" where
  "add_attachment uid now max_bytes configured store i filename content session project s =
     with_owned (assert_human session) i project s (\<lambda>x.
       case then_do (safe_filename filename) (\<lambda>nm.
              if max_bytes < length content then
                Inl (HackerOneError ''Attachment exceeds size limit'' ''too_large'')
              else if content = [] then Inl (HackerOneError ''Attachment is empty'' ''empty_attachment'')
              else let detected = sniff_content_type content nm;
                       leaked = scan_attachment configured content nm detected
                in if leaked \<noteq> [] then
                     Inl (HackerOneError (''Attachment rejected: possible secret leakage ('' @
                       py_join '', '' leaked @ '')'') ''secret_detected'')
                   else then_do (store (sha256_hex content) nm) (\<lambda>path. Inr
                     \<lparr>at_id = uid, at_intent = ri_id x, at_project = project,
                      at_finding = text_or_empty (ri_finding x), at_draft = ri_draft x,
                      at_filename = nm, at_path = path, at_sha256 = sha256_hex content,
                      at_size = length content, at_type = detected, at_review = AS_RECEIVED,
                      at_remote_id = None, at_upload = AS_RECEIVED, at_error = None,
                      at_reviewed_by = None, at_authorized_by = None, at_created = now\<rparr>)) of
         Inl exc \<Rightarrow> (s, Inl exc)
       | Inr item \<Rightarrow>
           (put_attachments i (dict_get (in_attachments s) i [] @ [item]) s, Inr (attachment_snapshot item)))"

text \<open>\<open>_attachment\<close>: the first attachment with the identifier, if it belongs to the project.\<close>

definition find_attachment :: "intents \<Rightarrow> string \<Rightarrow> string \<Rightarrow> string \<Rightarrow> attachment result" where
  "find_attachment s i aid project =
     then_do (owned s i project) (\<lambda>_.
       case List.find (\<lambda>a. at_id a = aid) (dict_get (in_attachments s) i []) of
         None \<Rightarrow> Inl (HackerOneError ''Unknown attachment'' ''not_found'')
       | Some a \<Rightarrow> if at_project a \<noteq> project
           then Inl (HackerOneError ''Attachment does not belong to this project'' ''forbidden'') else Inr a)"

fun set_first :: "string \<Rightarrow> attachment \<Rightarrow> attachment list \<Rightarrow> attachment list" where
  "set_first aid x [] = []"
| "set_first aid x (a # as) = (if at_id a = aid then x # as else a # set_first aid x as)"

text \<open>The item is changed in place.\<close>

definition set_attachment :: "string \<Rightarrow> string \<Rightarrow> attachment \<Rightarrow> intents \<Rightarrow> intents" where
  "set_attachment i aid x s = put_attachments i (set_first aid x (dict_get (in_attachments s) i [])) s"

definition review_attachment ::
    "string \<Rightarrow> string \<Rightarrow> operator_session \<Rightarrow> string \<Rightarrow> bool \<Rightarrow> intents \<Rightarrow> intents \<times> json result" where
  "review_attachment i aid session project refuse s =
     (case then_do (assert_human session) (\<lambda>_. find_attachment s i aid project) of
        Inl exc \<Rightarrow> (s, Inl exc)
      | Inr a \<Rightarrow>
          if at_review a \<noteq> AS_RECEIVED then
            (s, Inl (HackerOneError ''Attachment is not awaiting review'' ''invalid_state''))
          else let st = (if refuse then AS_REJECTED else AS_REVIEWED);
                   a1 = a\<lparr>at_review := st, at_upload := st, at_reviewed_by := Some (identity session)\<rparr>
            in (set_attachment i aid a1 s, Inr (attachment_snapshot a1)))"

definition authorize_upload ::
    "string \<Rightarrow> string \<Rightarrow> operator_session \<Rightarrow> string \<Rightarrow> intents \<Rightarrow> intents \<times> json result" where
  "authorize_upload i aid session project s =
     (case then_do (assert_human session) (\<lambda>_. find_attachment s i aid project) of
        Inl exc \<Rightarrow> (s, Inl exc)
      | Inr a \<Rightarrow>
          if at_review a \<noteq> AS_REVIEWED then
            (s, Inl (HackerOneError ''Attachment has not been reviewed'' ''not_reviewed''))
          else let a1 = a\<lparr>at_review := AS_AUTHORIZED, at_upload := AS_AUTHORIZED,
                          at_authorized_by := Some (identity session)\<rparr>
            in (set_attachment i aid a1 s, Inr (attachment_snapshot a1)))"

definition upload_attachment ::
    "string \<Rightarrow> string \<Rightarrow> operator_session \<Rightarrow> string \<Rightarrow> json_body result \<Rightarrow> intents \<Rightarrow> intents \<times> json result"
  where
  "upload_attachment i aid session project reply s =
     (case then_do (assert_human session) (\<lambda>_. then_do (owned s i project) (\<lambda>x.
             then_do (find_attachment s i aid project) (\<lambda>a. Inr (x, a)))) of
        Inl exc \<Rightarrow> (s, Inl exc)
      | Inr (x, a) \<Rightarrow>
          if at_review a \<noteq> AS_AUTHORIZED then
            (s, Inl (HackerOneError ''Attachment upload requires explicit human authorization'' ''not_authorized''))
          else if text_or_empty (ri_remote_id x) = [] then
            (s, Inl (HackerOneError ''Create the remote HackerOne intent before uploading attachments''
               ''no_remote_intent''))
          else let a1 = a\<lparr>at_review := AS_UPLOADING, at_upload := AS_UPLOADING\<rparr>;
                   s1 = set_attachment i aid a1 (api_call ''POST''
                     (''hackers/report_intents/'' @ text_or_empty (ri_remote_id x) @ ''/attachments'') s)
            in case reply of
                 Inl exc \<Rightarrow>
                   if hackerone_error exc then
                     (let a2 = a1\<lparr>at_review := AS_FAILED, at_upload := AS_FAILED,
                                  at_error := Some (error_text exc)\<rparr>
                      in (set_attachment i aid a2 s1, Inr (attachment_snapshot a2)))
                   else (s1, Inl exc)
               | Inr body \<Rightarrow>
                   (let a2 = a1\<lparr>at_remote_id := none_if_empty (node_id (JObj (body_data body))),
                                at_review := AS_UPLOADED, at_upload := AS_UPLOADED, at_error := None\<rparr>
                    in (set_attachment i aid a2 s1, Inr (attachment_snapshot a2))))"

text \<open>
  The loop of \<open>delete_attachment\<close>: the items that stay and the calls for those that were uploaded.
  The client answers each call; the first exception ends the loop and nothing is stored.
\<close>

fun delete_loop ::
    "string option \<Rightarrow> string \<Rightarrow> (string \<Rightarrow> error option) \<Rightarrow> attachment list
     \<Rightarrow> string list \<times> attachment list result" where
  "delete_loop remote aid answer [] = ([], Inr [])"
| "delete_loop remote aid answer (a # as) =
     (if at_id a \<noteq> aid then
        (case delete_loop remote aid answer as of (calls, r) \<Rightarrow> (calls, then_do r (\<lambda>xs. Inr (a # xs))))
      else if text_or_empty (at_remote_id a) \<noteq> [] \<and> text_or_empty remote \<noteq> [] then
        (let rid = text_or_empty (at_remote_id a) in
         case answer rid of
           Some exc \<Rightarrow> ([rid], Inl exc)
         | None \<Rightarrow> (case delete_loop remote aid answer as of (calls, r) \<Rightarrow> (rid # calls, r)))
      else delete_loop remote aid answer as)"

definition delete_attachment ::
    "string \<Rightarrow> string \<Rightarrow> string \<Rightarrow> (string \<Rightarrow> error option) \<Rightarrow> intents \<Rightarrow> intents \<times> unit result" where
  "delete_attachment i aid project answer s =
     with_owned (Inr ()) i project s (\<lambda>x.
       case delete_loop (ri_remote_id x) aid answer (dict_get (in_attachments s) i []) of
         (calls, r) \<Rightarrow>
           (let s1 = fold (\<lambda>rid. api_call ''DELETE'' (''hackers/report_intents/'' @
                  text_or_empty (ri_remote_id x) @ ''/attachments/'' @ rid)) calls s
            in case r of Inl exc \<Rightarrow> (s1, Inl exc) | Inr xs \<Rightarrow> (put_attachments i xs s1, Inr ())))"

section \<open>Runs\<close>

datatype intent_op =
    I_Create string instant report_draft string
  | I_Ready instant string string
  | I_Approve instant string operator_session string
  | I_Patch instant string intent_patch string
  | I_Remote instant string h1_program operator_session string "json_body result"
  | I_Refresh instant string string "json_body result"
  | I_Submit report_env report_env string h1_program operator_session "finding option" string
      "json_body result" "json \<Rightarrow> post_reply"
  | I_Add string instant nat "string list" "string \<Rightarrow> string \<Rightarrow> string result" string string string
      operator_session string
  | I_Review string string operator_session string bool
  | I_Authorize string string operator_session string
  | I_Upload string string operator_session string "json_body result"
  | I_Delete string string string "string \<Rightarrow> error option"
  | I_Reports workflow

text \<open>The last operation stands for whatever the report workflow does meanwhile.\<close>

fun intent_step :: "intents \<Rightarrow> intent_op \<Rightarrow> intents" where
  "intent_step s (I_Create uid now d project) = fst (create_from_draft uid now d project s)"
| "intent_step s (I_Ready now i project) = fst (intent_ready now i project s)"
| "intent_step s (I_Approve now i session project) = fst (intent_approve now i session project s)"
| "intent_step s (I_Patch now i pt project) = fst (patch_intent now i pt project s)"
| "intent_step s (I_Remote now i p session project reply) = fst (create_remote now i p session project reply s)"
| "intent_step s (I_Refresh now i project reply) = fst (refresh_remote now i project reply s)"
| "intent_step s (I_Submit en later i p session f project reply post)
     = fst (submit_intent en later i p session f project reply post s)"
| "intent_step s (I_Add uid now limit configured store i filename content session project)
     = fst (add_attachment uid now limit configured store i filename content session project s)"
| "intent_step s (I_Review i aid session project refuse) = fst (review_attachment i aid session project refuse s)"
| "intent_step s (I_Authorize i aid session project) = fst (authorize_upload i aid session project s)"
| "intent_step s (I_Upload i aid session project reply) = fst (upload_attachment i aid session project reply s)"
| "intent_step s (I_Delete i aid project answer) = fst (delete_attachment i aid project answer s)"
| "intent_step s (I_Reports w) = s\<lparr>in_reports := w\<rparr>"

section \<open>The invariants\<close>

text \<open>A name that is one plain component of a path.\<close>

definition plain_name :: "string \<Rightarrow> bool" where
  "plain_name nm \<longleftrightarrow>
     nm \<noteq> [] \<and> nm \<notin> {''.'', ''..''} \<and> list_all file_char nm \<and> length nm \<le> max_name"

definition by_human :: "string option \<Rightarrow> bool" where
  "by_human who \<longleftrightarrow> (\<exists>w. who = Some w \<and> py_strip w \<noteq> [] \<and> \<not> is_ai_operator w)"

definition attachment_ok :: "attachment \<Rightarrow> bool" where
  "attachment_ok a \<longleftrightarrow>
     plain_name (at_filename a) \<and>
     (at_review a \<noteq> AS_RECEIVED \<longrightarrow> by_human (at_reviewed_by a)) \<and>
     (at_review a \<in> {AS_AUTHORIZED, AS_UPLOADING, AS_UPLOADED, AS_FAILED} \<longrightarrow> by_human (at_authorized_by a)) \<and>
     (at_remote_id a \<noteq> None \<longrightarrow> at_review a = AS_UPLOADED)"

definition intents_ok :: "intents \<Rightarrow> bool" where
  "intents_ok s \<longleftrightarrow>
     (\<forall>i. list_all attachment_ok (dict_get (in_attachments s) i [])) \<and>
     (\<forall>i x. map_of (in_intents s) i = Some x \<longrightarrow> ri_local x \<noteq> IS_REMOTE_READY)"

lemma put_simps [simp]:
  "in_attachments (put_intent x i s) = in_attachments s"
  "in_attachments (api_call m p s) = in_attachments s"
  "in_intents (api_call m p s) = in_intents s"
  "map_of (in_intents (put_intent x i s)) = (map_of (in_intents s))(i \<mapsto> x)"
  "in_intents (put_attachments i xs s) = in_intents s"
  "in_intents (set_attachment i aid a s) = in_intents s"
  "in_attachments (put_attachments i xs s) = dict_set i xs (in_attachments s)"
  "fst (save_intent x i s) = put_intent x i s"
  by (simp_all add: put_intent_def api_call_def put_attachments_def set_attachment_def save_intent_def)

lemma intents_ok_simps [simp]:
  "intents_ok (api_call m p s) = intents_ok s"
  "intents_ok (s\<lparr>in_reports := w\<rparr>) = intents_ok s"
  by (simp_all add: intents_ok_def)

lemma put_intent_ok: "intents_ok s \<Longrightarrow> ri_local x \<noteq> IS_REMOTE_READY \<Longrightarrow> intents_ok (put_intent x i s)"
  by (simp add: intents_ok_def)

lemma put_attachments_ok: "intents_ok s \<Longrightarrow> list_all attachment_ok xs \<Longrightarrow> intents_ok (put_attachments i xs s)"
  by (simp add: intents_ok_def)

lemma set_first_ok: "list_all attachment_ok xs \<Longrightarrow> attachment_ok a \<Longrightarrow> list_all attachment_ok (set_first aid a xs)"
  by (induction xs) auto

lemma set_attachment_ok: "intents_ok s \<Longrightarrow> attachment_ok a \<Longrightarrow> intents_ok (set_attachment i aid a s)"
  unfolding set_attachment_def by (rule put_attachments_ok) (auto simp: intents_ok_def intro!: set_first_ok)

lemma owned_ok: "intents_ok s \<Longrightarrow> owned s i project = Inr x \<Longrightarrow> ri_local x \<noteq> IS_REMOTE_READY"
  by (auto simp: owned_def intent_record_def intents_ok_def split: option.splits if_splits)

lemma found_ok: "intents_ok s \<Longrightarrow> find_attachment s i aid project = Inr a \<Longrightarrow> attachment_ok a"
  by (auto simp: find_attachment_def intents_ok_def list_all_iff dest!: find_Some_prop
      split: option.splits if_splits)

lemma session_human: "assert_human session = Inr () \<Longrightarrow> by_human (Some (identity session))"
  by (auto simp: assert_human_def by_human_def split: if_splits)

lemma with_owned_ok:
  assumes "intents_ok s" "\<And>x. owned s i project = Inr x \<Longrightarrow> ri_local x \<noteq> IS_REMOTE_READY \<Longrightarrow> intents_ok (fst (act x))"
  shows "intents_ok (fst (with_owned before i project s act))"
  using assms by (auto simp: with_owned_def dest: owned_ok split: sum.splits)

text \<open>A state that HackerOne words as ready to submit is none of the states the program knows.\<close>

lemma ready_unknown: "map_remote_state v = (m, raw) \<Longrightarrow> raw \<in> {''ready-to-submit'', ''ready_to_submit''} \<Longrightarrow> m = RS_UNKNOWN"
proof -
  have "map_of known_states (py_replace_char CHR ''_'' CHR ''-'' (py_lower raw)) = None"
    if "raw \<in> {''ready-to-submit'', ''ready_to_submit''}" for raw
    using that by (elim insertE emptyE; simp) code_simp+
  then show "map_remote_state v = (m, raw) \<Longrightarrow> raw \<in> {''ready-to-submit'', ''ready_to_submit''} \<Longrightarrow> m = RS_UNKNOWN"
    by (auto simp: map_remote_state_def Let_def split: if_splits option.splits)
qed

lemma intents_keep:
  assumes ok: "intents_ok s"
  shows "intents_ok (fst (create_from_draft uid now d project s))"
    "intents_ok (fst (intent_ready now i project s))"
    "intents_ok (fst (intent_approve now i session project s))"
    "intents_ok (fst (patch_intent now i pt project s))"
    "intents_ok (fst (create_remote now i p session project reply s))"
    "intents_ok (fst (refresh_remote now i project reply s))"
proof -
  show "intents_ok (fst (create_from_draft uid now d project s))"
    using ok by (auto simp: create_from_draft_def intro: put_intent_ok)
  show "intents_ok (fst (intent_ready now i project s))"
    unfolding intent_ready_def by (rule with_owned_ok [OF ok]) (simp add: put_intent_ok ok)
  show "intents_ok (fst (intent_approve now i session project s))"
    unfolding intent_approve_def by (rule with_owned_ok [OF ok]) (simp add: put_intent_ok ok)
  show "intents_ok (fst (patch_intent now i pt project s))"
    unfolding patch_intent_def by (rule with_owned_ok [OF ok]) (simp add: put_intent_ok ok Let_def)
  show "intents_ok (fst (create_remote now i p session project reply s))"
    unfolding create_remote_def
    by (rule with_owned_ok [OF ok]) (auto simp: ok Let_def intro!: put_intent_ok split: sum.splits)
  show "intents_ok (fst (refresh_remote now i project reply s))"
    unfolding refresh_remote_def
    by (rule with_owned_ok [OF ok])
      (auto simp: ok Let_def intent_remote_state_def dest: ready_unknown intro!: put_intent_ok split: sum.splits prod.splits)
qed

lemma submit_remote_keeps:
  "submit_remote_intent now i x reply s = (s', r) \<Longrightarrow> intents_ok s \<Longrightarrow> intents_ok s'"
  by (auto simp: submit_remote_intent_def Let_def intro: put_intent_ok split: sum.splits if_splits)

lemma submit_report_keeps:
  "submit_report en later d p f session post s = (s', r) \<Longrightarrow> intents_ok s \<Longrightarrow> intents_ok s'"
  by (auto simp: submit_report_def split: sum.splits prod.splits)

lemma submit_keeps:
  assumes ok: "intents_ok s"
  shows "intents_ok (fst (submit_intent en later i p session f project reply post s))"
  unfolding submit_intent_def
  by (rule with_owned_ok [OF ok])
    (auto simp: ok dest!: submit_remote_keeps submit_report_keeps intro!: put_intent_ok
      split: sum.splits prod.splits)

lemma plain_last: "safe_filename nm = Inr t \<Longrightarrow> plain_name t"
proof -
  let ?c = "filter file_char (last (py_split CHR ''/'' (py_replace_char CHR 0x5C CHR ''/'' nm)))"
  assume "safe_filename nm = Inr t"
  then have t: "t = take max_name ?c" "?c \<noteq> []" "?c \<notin> {''.'', ''..''}"
    by (auto simp: safe_filename_def Let_def split: if_splits)
  have short: "take max_name ?c = ?c" if "length (take max_name ?c) \<le> 2"
    using that by (simp add: max_name_def)
  have "take max_name ?c \<notin> {''.'', ''..''}"
  proof
    assume d: "take max_name ?c \<in> {''.'', ''..''}"
    have "x \<in> {''.'', ''..''} \<Longrightarrow> length x \<le> 2" for x :: string by auto
    from short [OF this [OF d]] d t(3) show False by (simp only:)
  qed
  moreover have "list_all file_char (take max_name ?c)" by (auto simp: list_all_iff dest: in_set_takeD)
  ultimately show ?thesis using t by (auto simp: plain_name_def max_name_def)
qed

lemma attachments_keep:
  assumes ok: "intents_ok s"
  shows "intents_ok (fst (add_attachment uid now limit configured store i filename content session project s))"
    "intents_ok (fst (review_attachment i aid session project refuse s))"
    "intents_ok (fst (authorize_upload i aid session project s))"
    "intents_ok (fst (upload_attachment i aid session project reply s))"
    "intents_ok (fst (delete_attachment i aid project answer s))"
proof -
  have all: "list_all attachment_ok (dict_get (in_attachments s) i [])" using ok by (simp add: intents_ok_def)
  show "intents_ok (fst (add_attachment uid now limit configured store i filename content session project s))"
    unfolding add_attachment_def
    by (rule with_owned_ok [OF ok])
      (auto simp: ok all Let_def attachment_ok_def dest: plain_last intro!: put_attachments_ok split: sum.splits if_splits)
  show "intents_ok (fst (review_attachment i aid session project refuse s))"
    using ok by (auto simp: review_attachment_def Let_def attachment_ok_def intro!: set_attachment_ok
        dest!: found_ok [OF ok] session_human split: sum.splits)
  show "intents_ok (fst (authorize_upload i aid session project s))"
    using ok by (auto simp: authorize_upload_def Let_def attachment_ok_def intro!: set_attachment_ok
        dest!: found_ok [OF ok] session_human split: sum.splits)
  show "intents_ok (fst (upload_attachment i aid session project reply s))"
    using ok by (auto simp: upload_attachment_def Let_def attachment_ok_def intro!: set_attachment_ok
        dest!: found_ok [OF ok] split: sum.splits)
  have loop: "list_all attachment_ok xs \<Longrightarrow> delete_loop r aid answer xs = (c, Inr ys) \<Longrightarrow> list_all attachment_ok ys"
    for r xs c ys
    by (induction xs arbitrary: c ys) (auto simp: Let_def split: if_splits prod.splits option.splits)
  have calls: "intents_ok (fold (\<lambda>rid. api_call m (f rid)) cs s)" for m f cs
    using ok by (induction cs arbitrary: s) simp_all
  show "intents_ok (fst (delete_attachment i aid project answer s))"
    unfolding delete_attachment_def
    by (rule with_owned_ok [OF ok])
      (auto simp: Let_def calls intro!: put_attachments_ok dest: loop [OF all] split: prod.splits sum.splits)
qed

interpretation intake: machine "\<lambda>s. \<exists>w. s = new_intents w" intent_step intents_ok
proof
  show "intents_ok s" if "\<exists>w. s = new_intents w" for s
    using that by (auto simp: intents_ok_def new_intents_def)
  show "intents_ok (intent_step s x)" if "intents_ok s" for s x
    using that by (cases x) (simp_all add: intents_keep submit_keeps attachments_keep)
qed
section \<open>Properties\<close>

text \<open>C39. In every run of the intent workflow an attachment that was uploaded, is on its way or failed
  to upload was first reviewed by a person and then authorized for upload by a person, neither of
  them the AI, and its file name is one plain component of a path. Only an uploaded attachment has a
  remote identifier.\<close>

theorem uploads_are_authorized:
  assumes "a \<in> set (dict_get (in_attachments (run_ops intent_step (new_intents w) xs)) i [])"
  shows "(at_review a \<in> {AS_AUTHORIZED, AS_UPLOADING, AS_UPLOADED, AS_FAILED} \<longrightarrow>
       by_human (at_reviewed_by a) \<and> by_human (at_authorized_by a)) \<and>
     (at_remote_id a \<noteq> None \<longrightarrow> at_review a = AS_UPLOADED) \<and>
     plain_name (at_filename a) \<and> CHR ''/'' \<notin> set (at_filename a) \<and> CHR 0x5C \<notin> set (at_filename a)"
proof -
  have "attachment_ok a"
    using intake.run_always [of "new_intents w" xs] assms by (auto simp: intents_ok_def list_all_iff)
  moreover have "\<not> file_char CHR ''/''" "\<not> file_char CHR 0x5C" by code_simp+
  ultimately show ?thesis by (auto simp: attachment_ok_def plain_name_def list_all_iff)
qed

text \<open>A remote intent is never seen as ready to submit: the states that say so are none of the known
  ones, so they are read as unknown, and for an unknown state the status is not changed.\<close>

theorem remote_intent_never_ready:
  assumes "map_of (in_intents (run_ops intent_step (new_intents w) xs)) i = Some x"
  shows "ri_local x \<noteq> IS_REMOTE_READY"
  using intake.run_always [of "new_intents w" xs] assms by (auto simp: intents_ok_def)

text \<open>Submitting an intent with a remote counterpart sends the remote submission before any check of
  the session, of the program or of the report: here for a session of the AI.\<close>

theorem remote_submission_unchecked:
  fixes x defines "x \<equiv> \<lparr>ri_id = ''i1'', ri_project = ''p'', ri_finding = None, ri_draft = ''d1'', ri_handle = ''acme'',
     ri_title = [], ri_info = [], ri_impact = [], ri_severity = None, ri_local = IS_REMOTE_CREATED,
     ri_review = IS_APPROVED, ri_remote_id = Some ''9'', ri_remote = RS_NEW, ri_remote_raw = [],
     ri_error = None, ri_last_payload = None, ri_created = 0, ri_updated = 0\<rparr>"
  shows "\<exists>s. submit_intent sample_env sample_env ''i1'' sample_program
      \<lparr>identity = ''ai'', authenticated_at = 0, o_source = ''operator_token''\<rparr> None ''p'' (Inr []) post
      (put_intent x ''i1'' (new_intents new_workflow))
    = (s, Inl (RestrictedActivityError ''hackerone_submission'')) \<and>
    in_calls s = [(''POST'', ''hackers/report_intents/9/submit'')]"
proof -
  have ai: "assert_human \<lparr>identity = ''ai'', authenticated_at = 0, o_source = ''operator_token''\<rparr>
      = Inl (RestrictedActivityError ''hackerone_submission'')" by code_simp
  show ?thesis
    by (simp add: submit_intent_def with_owned_def owned_def intent_record_def put_intent_def new_intents_def x_def
        intent_submittable_def submit_remote_intent_def text_or_empty_def api_call_def Let_def
        submit_report_def submit_check_def ai)
qed

text \<open>A text file whose 4096th byte is in the middle of a character is taken for binary, whatever
  follows, and is not scanned for secrets as text.\<close>

theorem cut_character_is_binary:
  "sniff_content_type (replicate 4095 CHR ''a'' @ [CHR 0xC3, CHR 0xA9] @ rest) ''notes.txt'' = ''application/octet-stream'' \<and>
   scan_attachment configured content ''notes.txt'' ''application/octet-stream''
     = first_occurrences (map py_strip (filter (\<lambda>m. py_contains (py_lower content) (py_lower m)) secret_markers))"
proof
  have bad: "\<not> utf8_valid (replicate n CHR ''a'' @ [CHR 0xC3])" for n
    by (induction n) (simp_all add: utf8_lead_def)
  have "4095 = Suc 4094" by simp
  then have "take 4096 (replicate 4095 CHR ''a'' @ [CHR 0xC3, CHR 0xA9] @ rest) = replicate 4095 CHR ''a'' @ [CHR 0xC3]"
    by simp
  then have "\<not> looks_text (replicate 4095 CHR ''a'' @ [CHR 0xC3, CHR 0xA9] @ rest)"
    unfolding looks_text_def Let_def using bad [of 4095] by simp
  moreover obtain u where "replicate 4095 CHR ''a'' @ [CHR 0xC3, CHR 0xA9] @ rest = CHR ''a'' # u"
    by (metis \<open>4095 = Suc 4094\<close> append_Cons replicate_Suc)
  ultimately show "sniff_content_type (replicate 4095 CHR ''a'' @ [CHR 0xC3, CHR 0xA9] @ rest) ''notes.txt''
      = ''application/octet-stream''"
    by (simp add: sniff_content_type_def startswith_def)
qed (simp add: scan_attachment_def startswith_def text_types_def)

lemma owned_put [simp]: "owned (put_attachments j xs s) i project = owned s i project"
  by (simp add: owned_def intent_record_def put_attachments_def)

definition sample_intent_run :: "intent_op list" where
  "sample_intent_run =
     [I_Create ''i1'' 0 sample_draft ''p'',
      I_Add ''a1'' 0 100 [] (\<lambda>digest nm. Inr nm) ''i1'' ''C:/tmp/shot.txt'' ''hello'' sample_session ''p'',
      I_Review ''i1'' ''a1'' sample_session ''p'' False,
      I_Authorize ''i1'' ''a1'' sample_session ''p'']"

lemma sample_intent_steps:
  defines "s1 \<equiv> intent_step (new_intents new_workflow) (hd sample_intent_run)"
  shows "\<exists>a s3. at_review a = AS_AUTHORIZED \<and> in_intents s3 = in_intents s1 \<and>
    run_ops intent_step (new_intents new_workflow) sample_intent_run = put_attachments ''i1'' [a] s3"
proof -
  have content: "safe_filename ''C:/tmp/shot.txt'' = Inr ''shot.txt''" "sniff_content_type ''hello'' ''shot.txt'' = ''text/plain''"
    "scan_attachment [] ''hello'' ''shot.txt'' ''text/plain'' = []"
    by code_simp+
  obtain x where x: "owned s1 ''i1'' ''p'' = Inr x"
    by (simp add: s1_def sample_intent_run_def create_from_draft_def sample_draft_def text_or_empty_def owned_def
        intent_record_def)
  have none: "in_attachments s1 = []"
    by (simp add: s1_def sample_intent_run_def create_from_draft_def sample_draft_def text_or_empty_def new_intents_def)
  obtain a where a: "intent_step s1 (I_Add ''a1'' 0 100 [] (\<lambda>digest nm. Inr nm) ''i1'' ''C:/tmp/shot.txt'' ''hello'' sample_session ''p'')
      = put_attachments ''i1'' [a] s1" "at_id a = ''a1''" "at_project a = ''p''" "at_review a = AS_RECEIVED"
    using none by (simp add: add_attachment_def with_owned_def sample_session_human x content Let_def)
  let ?s2 = "put_attachments ''i1'' [a] s1"
  let ?b = "a\<lparr>at_review := AS_REVIEWED, at_upload := AS_REVIEWED, at_reviewed_by := Some (identity sample_session)\<rparr>"
  let ?s3 = "put_attachments ''i1'' [?b] ?s2"
  have b: "intent_step ?s2 (I_Review ''i1'' ''a1'' sample_session ''p'' False) = ?s3"
    using a by (simp add: review_attachment_def sample_session_human find_attachment_def x Let_def set_attachment_def)
  let ?c = "?b\<lparr>at_review := AS_AUTHORIZED, at_upload := AS_AUTHORIZED, at_authorized_by := Some (identity sample_session)\<rparr>"
  have c: "intent_step ?s3 (I_Authorize ''i1'' ''a1'' sample_session ''p'') = put_attachments ''i1'' [?c] ?s3"
    using a by (simp add: authorize_upload_def sample_session_human find_attachment_def x Let_def set_attachment_def)
  have "run_ops intent_step (new_intents new_workflow) sample_intent_run = put_attachments ''i1'' [?c] ?s3"
    using a(1) b c by (simp add: sample_intent_run_def s1_def del: intent_step.simps)
  moreover have "in_intents ?s3 = in_intents s1" "at_review ?c = AS_AUTHORIZED" by simp_all
  ultimately show ?thesis by blast
qed

theorem uploads_are_authorized_witness:
  "\<exists>a. a \<in> set (dict_get (in_attachments (run_ops intent_step (new_intents new_workflow) sample_intent_run)) ''i1'' []) \<and>
     at_review a = AS_AUTHORIZED \<and> by_human (at_authorized_by a) \<and> plain_name (at_filename a)"
proof -
  obtain a s3 where a: "at_review a = AS_AUTHORIZED"
    "run_ops intent_step (new_intents new_workflow) sample_intent_run = put_attachments ''i1'' [a] s3"
    using sample_intent_steps by blast
  then have "a \<in> set (dict_get (in_attachments (run_ops intent_step (new_intents new_workflow) sample_intent_run)) ''i1'' [])"
    by simp
  with uploads_are_authorized [OF this] a(1) show ?thesis by blast
qed
end
