(* ===== verification/PyVal.thy ===== *)
theory PyVal
  imports Safety Sha256 "HOL-Library.Multiset"
begin

text \<open>
  Python values of unknown type: the dictionaries the agent passes around (tool arguments, budget and
  privilege payloads), with \<open>bool\<close>, \<open>int\<close>, \<open>float\<close> and \<open>str\<close> of them. A \<open>float\<close> is a rational; the
  values infinity and NaN are not rendered, a text that names one is not a number here.
\<close>

datatype pyval =
    PNone
  | PBool bool
  | PInt int
  | PFloat rat
  | PStr string
  | PList "pyval list"
  | PDict "(string \<times> pyval) list"

type_synonym pydict = "(string, pyval) dict"

fun py_true :: "pyval \<Rightarrow> bool" where
  "py_true PNone = False"
| "py_true (PBool b) = b"
| "py_true (PInt i) = (i \<noteq> 0)"
| "py_true (PFloat x) = (x \<noteq> 0)"
| "py_true (PStr s) = (s \<noteq> [])"
| "py_true (PList xs) = (xs \<noteq> [])"
| "py_true (PDict d) = (d \<noteq> [])"

text \<open>\<open>d.get(k)\<close> and \<open>v or w\<close>.\<close>

definition py_get :: "pydict \<Rightarrow> string \<Rightarrow> pyval" where
  "py_get d k = dict_get d k PNone"

definition py_or :: "pyval \<Rightarrow> pyval \<Rightarrow> pyval" where
  "py_or v w = (if py_true v then v else w)"

section \<open>Numbers in text\<close>

text \<open>Digits with single underscores between them, as \<open>int\<close> and \<open>float\<close> accept them.\<close>

definition digit_group :: "string \<Rightarrow> string option" where
  "digit_group s =
     (let parts = py_split CHR ''_'' s in
      if list_all (\<lambda>p. p \<noteq> [] \<and> list_all is_digit p) parts then Some (concat parts) else None)"

definition split_sign :: "string \<Rightarrow> int \<times> string" where
  "split_sign s =
     (case s of [] \<Rightarrow> (1, [])
      | c # t \<Rightarrow> if c = CHR ''-'' then (-1, t) else if c = CHR ''+'' then (1, t) else (1, s))"

definition int_of_text :: "string \<Rightarrow> int option" where
  "int_of_text s =
     (let (sg, t) = split_sign (py_strip s) in
      map_option (\<lambda>ds. sg * int (nat_of_text ds)) (digit_group t))"

text \<open>The mantissa of a number: digits before and after the point, at least one of them present.\<close>

definition mantissa :: "string \<Rightarrow> rat option" where
  "mantissa s =
     (let (a, dot, b) = py_partition CHR ''.'' s;
          part = (\<lambda>t. if t = [] then Some [] else digit_group t) in
      if a = [] \<and> b = [] then None
      else case (part a, part b) of
        (Some x, Some y) \<Rightarrow> Some (of_int (int (nat_of_text (x @ y))) / 10 ^ length y)
      | _ \<Rightarrow> None)"

definition scale10 :: "int \<Rightarrow> rat" where
  "scale10 e = (if 0 \<le> e then 10 ^ nat e else 1 / 10 ^ nat (- e))"

definition float_of_text :: "string \<Rightarrow> rat option" where
  "float_of_text s =
     (let (sg, t) = split_sign (py_strip s);
          (m, e, x) = py_partition CHR ''e'' (py_replace_char CHR ''E'' CHR ''e'' t);
          ex = (let (esg, et) = split_sign x in map_option (\<lambda>ds. esg * int (nat_of_text ds)) (digit_group et)) in
      case mantissa m of
        None \<Rightarrow> None
      | Some q \<Rightarrow> if \<not> e then Some (of_int sg * q)
                  else map_option (\<lambda>k. of_int sg * q * scale10 k) ex)"

section \<open>Conversions\<close>

fun py_int_of :: "pyval \<Rightarrow> int result" where
  "py_int_of (PBool b) = Inr (if b then 1 else 0)"
| "py_int_of (PInt i) = Inr i"
| "py_int_of (PFloat x) = Inr (py_int x)"
| "py_int_of (PStr s) = (case int_of_text s of None \<Rightarrow> Inl (ValueError ''invalid literal for int() with base 10'')
     | Some i \<Rightarrow> Inr i)"
| "py_int_of v = Inl (TypeError ''int() argument must be a string, a bytes-like object or a real number'')"

fun py_float_of :: "pyval \<Rightarrow> rat result" where
  "py_float_of (PBool b) = Inr (if b then 1 else 0)"
| "py_float_of (PInt i) = Inr (of_int i)"
| "py_float_of (PFloat x) = Inr x"
| "py_float_of (PStr s) = (case float_of_text s of None \<Rightarrow> Inl (ValueError ''could not convert string to float'')
     | Some x \<Rightarrow> Inr x)"
| "py_float_of v = Inl (TypeError ''float() argument must be a string or a real number'')"

text \<open>\<open>str(v)\<close>; texts inside a list or a dictionary are quoted, without escapes.\<close>

fun py_repr :: "pyval \<Rightarrow> string" where
  "py_repr PNone = ''None''"
| "py_repr (PBool b) = (if b then ''True'' else ''False'')"
| "py_repr (PInt i) = show_int i"
| "py_repr (PFloat x) = show_float x"
| "py_repr (PStr s) = [CHR 0x27] @ s @ [CHR 0x27]"
| "py_repr (PList xs) = ''['' @ py_join '', '' (map py_repr xs) @ '']''"
| "py_repr (PDict d) =
     ''{'' @ py_join '', '' (map (\<lambda>(k, v). [CHR 0x27] @ k @ [CHR 0x27] @ '': '' @ py_repr v) d) @ ''}''"

definition py_str_of :: "pyval \<Rightarrow> string" where
  "py_str_of v = (case v of PStr s \<Rightarrow> s | _ \<Rightarrow> py_repr v)"

text \<open>\<open>str(v or "")\<close>.\<close>

definition py_text :: "pyval \<Rightarrow> string" where
  "py_text v = (if py_true v then py_str_of v else [])"

lemma py_text_PStr [simp]: "py_text (PStr s) = s"
  by (simp add: py_text_def py_str_of_def)

lemma py_text_PNone [simp]: "py_text PNone = []"
  by (simp add: py_text_def)

section \<open>Iteration, slices and order\<close>

text \<open>\<open>for x in v\<close>: the elements of a list, the keys of a dictionary, the characters of a text.\<close>

fun py_iter :: "pyval \<Rightarrow> pyval list result" where
  "py_iter (PList xs) = Inr xs"
| "py_iter (PDict d) = Inr (map (\<lambda>(k, v). PStr k) d)"
| "py_iter (PStr s) = Inr (map (\<lambda>c. PStr [c]) s)"
| "py_iter v = Inl (TypeError ''object is not iterable'')"

text \<open>\<open>dict(v)\<close> of a value that should be a dictionary.\<close>

fun py_dict_of :: "pyval \<Rightarrow> pydict result" where
  "py_dict_of (PDict d) = Inr d"
| "py_dict_of (PList xs) = (if xs = [] then Inr [] else Inl (ValueError ''dictionary update sequence''))"
| "py_dict_of (PStr s) = (if s = [] then Inr [] else Inl (ValueError ''dictionary update sequence''))"
| "py_dict_of v = Inl (TypeError ''object is not iterable'')"

text \<open>\<open>s[:n]\<close>: the first \<open>n\<close> characters, which are the bytes that do not continue a character.\<close>

fun py_take :: "nat \<Rightarrow> string \<Rightarrow> string" where
  "py_take n [] = []"
| "py_take n (c # s) =
     (if of_char c div 64 = (2 :: nat) then c # py_take n s
      else case n of 0 \<Rightarrow> [] | Suc k \<Rightarrow> c # py_take k s)"

text \<open>Sorting by a text, stable.\<close>

fun insert_text :: "('a \<Rightarrow> string) \<Rightarrow> 'a \<Rightarrow> 'a list \<Rightarrow> 'a list" where
  "insert_text f x [] = [x]"
| "insert_text f x (y # ys) = (if text_le (f x) (f y) then x # y # ys else y # insert_text f x ys)"

definition sort_texts :: "('a \<Rightarrow> string) \<Rightarrow> 'a list \<Rightarrow> 'a list" where
  "sort_texts f xs = foldr (insert_text f) xs []"

lemma mset_insert_text: "mset (insert_text f x xs) = add_mset x (mset xs)"
  by (induction xs) auto

lemma mset_sort_texts [simp]: "mset (sort_texts f xs) = mset xs"
  by (induction xs) (simp_all add: sort_texts_def mset_insert_text)

lemma set_sort_texts [simp]: "set (sort_texts f xs) = set xs"
  using mset_sort_texts [of f xs] by (metis set_mset_mset)

text \<open>The order of texts is total, antisymmetric and transitive.\<close>

lemma less_char: "c \<noteq> d \<Longrightarrow> (of_char c :: nat) < of_char d \<or> (of_char d :: nat) < of_char c"
  by (metis char_of_char linorder_neqE_nat)

lemma text_le_total: "text_le s t \<or> text_le t s"
proof (induction s t rule: text_le.induct)
  case (3 c s d t)
  then show ?case using less_char [of c d] by auto
qed simp_all

lemma text_le_antisym: "text_le s t \<Longrightarrow> text_le t s \<Longrightarrow> s = t"
proof (induction s t rule: text_le.induct)
  case (1 t)
  then show ?case by (cases t) auto
qed (auto split: if_splits)

lemma text_le_trans: "text_le s t \<Longrightarrow> text_le t u \<Longrightarrow> text_le s u"
proof (induction s t arbitrary: u rule: text_le.induct)
  case (3 c s d t)
  then show ?case by (cases u) (auto split: if_splits)
qed simp_all

section \<open>Reading time stamps\<close>

text \<open>
  \<open>datetime.fromisoformat\<close> for the extended format: a date, and after any one character a time of
  day with minutes, seconds and a fraction as far as they are present, and an offset. The compact
  and the week formats, which the program never writes, are not read. A time without an offset
  is taken as UTC.
\<close>

definition days_of_civil :: "int \<Rightarrow> int \<Rightarrow> int \<Rightarrow> int" where
  "days_of_civil y m d =
     (let y1 = (if m \<le> 2 then y - 1 else y); era = y1 div 400; yoe = y1 mod 400;
          doy = (153 * (if 2 < m then m - 3 else m + 9) + 2) div 5 + d - 1;
          doe = yoe * 365 + yoe div 4 - yoe div 100 + doy
      in era * 146097 + doe - 719468)"

definition leap_year :: "int \<Rightarrow> bool" where
  "leap_year y \<longleftrightarrow> y mod 4 = 0 \<and> (y mod 100 \<noteq> 0 \<or> y mod 400 = 0)"

definition month_days :: "int \<Rightarrow> int \<Rightarrow> int" where
  "month_days y m =
     (if m = 2 then (if leap_year y then 29 else 28) else if m \<in> {4, 6, 9, 11} then 30 else 31)"

definition read_digits :: "nat \<Rightarrow> string \<Rightarrow> (int \<times> string) option" where
  "read_digits n s =
     (if length (take n s) = n \<and> list_all is_digit (take n s)
      then Some (int (nat_of_text (take n s)), drop n s) else None)"

definition read_char :: "char \<Rightarrow> string \<Rightarrow> string option" where
  "read_char c s = (case s of [] \<Rightarrow> None | d # t \<Rightarrow> if d = c then Some t else None)"

definition read_date :: "string \<Rightarrow> (int \<times> string) option" where
  "read_date s =
     Option.bind (read_digits 4 s) (\<lambda>(y, s1). Option.bind (read_char CHR ''-'' s1) (\<lambda>s2.
       Option.bind (read_digits 2 s2) (\<lambda>(m, s3). Option.bind (read_char CHR ''-'' s3) (\<lambda>s4.
         Option.bind (read_digits 2 s4) (\<lambda>(d, s5).
           if 1 \<le> y \<and> 1 \<le> m \<and> m \<le> 12 \<and> 1 \<le> d \<and> d \<le> month_days y m
           then Some (days_of_civil y m d, s5) else None)))))"

text \<open>A fraction, of which six digits count.\<close>

definition read_fraction :: "string \<Rightarrow> (int \<times> string) option" where
  "read_fraction s =
     (case s of [] \<Rightarrow> Some (0, [])
      | c # t \<Rightarrow> if c \<notin> {CHR ''.'', CHR '',''} then Some (0, s)
          else let ds = takeWhile is_digit t in
            if ds = [] then None
            else Some (int (nat_of_text (take 6 (ds @ ''00000''))), dropWhile is_digit t))"

text \<open>A time of day or an offset, in microseconds, and what follows.\<close>

definition read_clock :: "string \<Rightarrow> (int \<times> string) option" where
  "read_clock s =
     Option.bind (read_digits 2 s) (\<lambda>(h, s1). if 23 < h then None else
       case read_char CHR '':'' s1 of None \<Rightarrow> Some (h * 3600000000, s1)
       | Some s2 \<Rightarrow> Option.bind (read_digits 2 s2) (\<lambda>(m, s3). if 59 < m then None else
           case read_char CHR '':'' s3 of None \<Rightarrow> Some ((h * 60 + m) * 60000000, s3)
           | Some s4 \<Rightarrow> Option.bind (read_digits 2 s4) (\<lambda>(sec, s5). if 59 < sec then None else
               Option.bind (read_fraction s5) (\<lambda>(f, s6).
                 Some (((h * 60 + m) * 60 + sec) * 1000000 + f, s6)))))"

definition read_offset :: "string \<Rightarrow> int option" where
  "read_offset s =
     (if s = [] \<or> s = ''Z'' then Some 0
      else let (sg, t) = split_sign s in
        if t = s then None
        else case read_clock t of Some (u, []) \<Rightarrow> Some (sg * u) | _ \<Rightarrow> None)"

definition fromisoformat :: "string \<Rightarrow> instant option" where
  "fromisoformat s =
     Option.bind (read_date s) (\<lambda>(d, s1). case s1 of [] \<Rightarrow> Some (d * 86400000000)
       | c # s2 \<Rightarrow> Option.bind (read_clock s2) (\<lambda>(u, s3).
           map_option (\<lambda>off. d * 86400000000 + u - off) (read_offset s3)))"

end
