(* ===== verification/EvidenceGraph.thy ===== *)
theory EvidenceGraph
  imports PyVal Secrets
begin

text \<open>
  \<open>security_agent/evidence_graph.py\<close>: the graph of what a research session did and saw. An operation
  that raises returns the graph it leaves behind: \<open>add\<close> stores a node before it links it. A new
  identifier and the clock are arguments.
\<close>

section \<open>Nodes and edges\<close>

definition allowed_relations :: "string list" where
  "allowed_relations =
     [''supports'', ''contradicted_by'', ''executes'', ''observes'', ''produced'', ''responds_to'',
      ''validates'', ''derived_from'', ''same_issue_as'', ''identity_diff'', ''follows'', ''motivates'',
      ''produces'']"

text \<open>\<open>GraphIntegrityError\<close> is a \<open>RestrictedActivityError\<close>.\<close>

definition graph_error :: "string \<Rightarrow> error" where
  "graph_error m = RestrictedActivityError m"

record evidence_node =
  nd_id :: string
  nd_kind :: string
  nd_provenance :: string
  nd_summary :: string
  nd_source :: string
  nd_extra :: pydict
  nd_session :: string
  nd_project :: string
  nd_created :: instant

definition node_snapshot :: "evidence_node \<Rightarrow> pydict" where
  "node_snapshot n =
     [(''id'', PStr (nd_id n)), (''kind'', PStr (nd_kind n)), (''provenance'', PStr (nd_provenance n)),
      (''summary'', PStr (nd_summary n)), (''source'', PStr (nd_source n)), (''extra'', PDict (nd_extra n)),
      (''session_id'', PStr (nd_session n)), (''project_id'', PStr (nd_project n)),
      (''created_at'', PStr (isoformat (nd_created n)))]"

type_synonym edge = "string \<times> string \<times> string"

record evidence_graph =
  gr_nodes :: "(string, evidence_node) dict"
  gr_edges :: "edge list"
  gr_session :: string
  gr_project :: string

definition empty_graph :: "string \<Rightarrow> string \<Rightarrow> evidence_graph" where
  "empty_graph session project =
     \<lparr>gr_nodes = [], gr_edges = [], gr_session = session, gr_project = project\<rparr>"

definition dropped_keys :: "string list" where
  "dropped_keys = [''authorization'', ''cookie'', ''token'', ''secret'', ''password'']"

text \<open>\<open>_sanitize_extra\<close>: secrets are dropped by key and redacted in texts, and texts are cut.\<close>

function sanitize_value :: "pyval \<Rightarrow> pyval" and sanitize_extra :: "pydict \<Rightarrow> pydict" where
  "sanitize_value (PStr s) = PStr (py_take 2000 (redact_text s))"
| "sanitize_value (PInt i) = PInt i"
| "sanitize_value (PFloat x) = PFloat x"
| "sanitize_value (PBool b) = PBool b"
| "sanitize_value PNone = PNone"
| "sanitize_value (PList xs) = PList (map (\<lambda>v. PStr (py_take 500 (redact_text (py_str_of v)))) (take 40 xs))"
| "sanitize_value (PDict d) = PDict (sanitize_extra d)"
| "sanitize_extra [] = []"
| "sanitize_extra ((k, v) # d) =
     (if py_lower k \<in> set dropped_keys then sanitize_extra d
      else (k, sanitize_value v) # sanitize_extra d)"
  by pat_completeness auto
termination
  by (relation "measure (case_sum size (size_list (size_prod (\<lambda>_. 0) size)))") auto

definition link :: "string \<Rightarrow> string \<Rightarrow> string \<Rightarrow> evidence_graph \<Rightarrow> unit result \<times> evidence_graph" where
  "link src dst rel g =
     (if rel \<notin> set allowed_relations then (Inl (graph_error (''unknown_relation:'' @ rel)), g)
      else if src = dst then (Inl (graph_error ''self_edge_forbidden''), g)
      else if map_of (gr_nodes g) src = None \<or> map_of (gr_nodes g) dst = None then
        (Inl (graph_error ''invalid_node_reference''), g)
      else if (src, dst, rel) \<in> set (gr_edges g) then (Inl (graph_error ''duplicate_edge''), g)
      else (Inr (), g\<lparr>gr_edges := gr_edges g @ [(src, dst, rel)]\<rparr>))"

text \<open>What a caller of \<open>add\<close> gives; a missing parent is \<open>None\<close>.\<close>

record node_args =
  na_kind :: string
  na_provenance :: string
  na_summary :: string
  na_source :: string
  na_extra :: pydict
  na_parent :: "string option"
  na_relation :: string
  na_id :: "string option"
  na_created :: "instant option"

definition plain_node :: "string \<Rightarrow> string \<Rightarrow> string \<Rightarrow> string \<Rightarrow> node_args" where
  "plain_node kind prov summary source =
     \<lparr>na_kind = kind, na_provenance = prov, na_summary = summary, na_source = source, na_extra = [],
      na_parent = None, na_relation = ''supports'', na_id = None, na_created = None\<rparr>"

definition present :: "string option \<Rightarrow> bool" where
  "present s \<longleftrightarrow> (case s of None \<Rightarrow> False | Some t \<Rightarrow> t \<noteq> [])"

definition new_node :: "string \<Rightarrow> instant \<Rightarrow> node_args \<Rightarrow> evidence_graph \<Rightarrow> evidence_node" where
  "new_node ident now a g =
     \<lparr>nd_id = ident, nd_kind = na_kind a, nd_provenance = na_provenance a,
      nd_summary = py_take 4000 (redact_text (na_summary a)), nd_source = na_source a,
      nd_extra = sanitize_extra (na_extra a), nd_session = gr_session g, nd_project = gr_project g,
      nd_created = (case na_created a of None \<Rightarrow> now | Some t \<Rightarrow> t)\<rparr>"

definition add_node ::
    "string \<Rightarrow> instant \<Rightarrow> node_args \<Rightarrow> evidence_graph \<Rightarrow> evidence_node result \<times> evidence_graph" where
  "add_node uid now a g =
     (let ident = (if present (na_id a) then the (na_id a) else uid) in
      if map_of (gr_nodes g) ident \<noteq> None then (Inl (graph_error (''duplicate_node:'' @ ident)), g)
      else if na_relation a \<notin> set allowed_relations then
        (Inl (graph_error (''unknown_relation:'' @ na_relation a)), g)
      else let n = new_node ident now a g; g1 = g\<lparr>gr_nodes := dict_set ident n (gr_nodes g)\<rparr> in
        if \<not> present (na_parent a) then (Inr n, g1)
        else case link (the (na_parent a)) ident (na_relation a) g1 of
          (r, g2) \<Rightarrow> (then_do r (\<lambda>_. Inr n), g2))"

section \<open>Looking at the graph\<close>

definition get_node ::
    "string \<Rightarrow> string option \<Rightarrow> string option \<Rightarrow> evidence_graph \<Rightarrow> evidence_node option" where
  "get_node ident session project g =
     (case map_of (gr_nodes g) ident of
        None \<Rightarrow> None
      | Some n \<Rightarrow>
          if present session \<and> nd_session n \<noteq> [] \<and> nd_session n \<noteq> the session then None
          else if present project \<and> nd_project n \<noteq> [] \<and> nd_project n \<noteq> the project then None
          else Some n)"

definition nodes_of :: "evidence_graph \<Rightarrow> string list \<Rightarrow> evidence_node list" where
  "nodes_of g = List.map_filter (map_of (gr_nodes g))"

definition children :: "evidence_graph \<Rightarrow> string \<Rightarrow> evidence_node list" where
  "children g ident =
     nodes_of g (map (\<lambda>(s, d, r). d) (filter (\<lambda>(s, d, r). s = ident) (gr_edges g)))"

definition parents :: "evidence_graph \<Rightarrow> string \<Rightarrow> evidence_node list" where
  "parents g ident =
     nodes_of g (map (\<lambda>(s, d, r). s) (filter (\<lambda>(s, d, r). d = ident) (gr_edges g)))"

definition edge_dict :: "edge \<Rightarrow> pyval" where
  "edge_dict e = (case e of (s, d, r) \<Rightarrow>
     PDict [(''from'', PStr s), (''to'', PStr d), (''relation'', PStr r)])"

definition inspect_node :: "string \<Rightarrow> string \<Rightarrow> string \<Rightarrow> evidence_graph \<Rightarrow> pydict option" where
  "inspect_node ident session project g =
     map_option (\<lambda>n.
       [(''id'', PStr (nd_id n)), (''kind'', PStr (nd_kind n)), (''provenance'', PStr (nd_provenance n)),
        (''summary'', PStr (nd_summary n)), (''source'', PStr (nd_source n)), (''extra'', PDict (nd_extra n)),
        (''created_at'', PStr (isoformat (nd_created n))), (''session_id'', PStr (nd_session n)),
        (''project_id'', PStr (nd_project n)),
        (''parents'', PList (map (PDict \<circ> node_snapshot) (parents g (nd_id n)))),
        (''children'', PList (map (PDict \<circ> node_snapshot) (children g (nd_id n)))),
        (''relations'', PList (map edge_dict
           (filter (\<lambda>(s, d, r). s = nd_id n \<or> d = nd_id n) (gr_edges g))))])
       (get_node ident (Some session) (Some project) g)"

text \<open>
  \<open>why\<close>: breadth first along the edges backwards. A round goes through the current identifiers; it
  keeps what was seen, the nodes found so far, and the identifiers of the next round.
\<close>

definition sources_of :: "edge list \<Rightarrow> string \<Rightarrow> string list" where
  "sources_of es ident = map (\<lambda>(s, d, r). s) (filter (\<lambda>(s, d, r). d = ident \<and> s \<noteq> ident) es)"

type_synonym search = "string list \<times> evidence_node list \<times> string list"

fun why_visit :: "evidence_graph \<Rightarrow> string \<Rightarrow> search \<Rightarrow> search" where
  "why_visit g ident (seen, chain, nxt) =
     (if ident \<in> set seen then (seen, chain, nxt)
      else case map_of (gr_nodes g) ident of
        None \<Rightarrow> (seen @ [ident], chain, nxt)
      | Some n \<Rightarrow> (seen @ [ident], chain @ [n], nxt @ sources_of (gr_edges g) ident))"

definition why_round :: "evidence_graph \<Rightarrow> string list \<Rightarrow> string list \<Rightarrow> evidence_node list \<Rightarrow> search" where
  "why_round g current seen chain = fold (why_visit g) current (seen, chain, [])"

definition edge_sources :: "evidence_graph \<Rightarrow> string set" where
  "edge_sources g = (\<lambda>(s, d, r). s) ` set (gr_edges g)"

lemma sources_in: "set (sources_of (gr_edges g) ident) \<subseteq> edge_sources g"
  by (force simp: sources_of_def edge_sources_def)

lemma round_seen:
  assumes "fold (why_visit g) current (seen, chain, nxt) = (seen', chain', nxt')"
  shows "set seen' = set seen \<union> set current"
    and "set nxt' \<subseteq> set nxt \<union> edge_sources g"
    and "set current \<subseteq> set seen \<Longrightarrow> nxt' = nxt"
  using assms
proof (induction current arbitrary: seen chain nxt)
  case (Cons x xs)
  {
    case 1
    then show ?case using Cons.IH(1) by (auto split: if_splits option.splits)
  next
    case 2
    then show ?case using Cons.IH(2) sources_in [of g x] by (fastforce split: if_splits option.splits)
  next
    case 3
    then show ?case using Cons.IH(3) by (auto split: if_splits)
  }
qed auto

text \<open>The identifiers that can still be new; a round makes them fewer, or is the last one.\<close>

definition unseen :: "evidence_graph \<Rightarrow> string list \<Rightarrow> string list \<Rightarrow> nat" where
  "unseen g current seen = card ((set current \<union> edge_sources g) - set seen)"

lemma why_measure:
  assumes "current \<noteq> []" and "why_round g current seen chain = (seen', chain', nxt)"
  shows "2 * unseen g nxt seen' + (if nxt = [] then 0 else 1) < 2 * unseen g current seen + 1"
proof -
  note r = round_seen [OF assms(2) [unfolded why_round_def]]
  have fin: "finite ((set current \<union> edge_sources g) - set seen)" by (simp add: edge_sources_def)
  show ?thesis
  proof (cases "set current \<subseteq> set seen")
    case True
    then have "nxt = []" "set seen' = set seen" using r by auto
    moreover have "card (edge_sources g - set seen) \<le> card ((set current \<union> edge_sources g) - set seen)"
      by (intro card_mono [OF fin]) auto
    ultimately show ?thesis unfolding unseen_def by simp
  next
    case False
    then have "unseen g nxt seen' < unseen g current seen"
      unfolding unseen_def using r by (intro psubset_card_mono [OF fin]) auto
    then show ?thesis by (cases "nxt = []") auto
  qed
qed

function why_from :: "evidence_graph \<Rightarrow> string list \<Rightarrow> string list \<Rightarrow> evidence_node list \<Rightarrow> evidence_node list" where
  "why_from g current seen chain =
     (if current = [] then chain
      else case why_round g current seen chain of (seen', chain', nxt) \<Rightarrow> why_from g nxt seen' chain')"
  by pat_completeness auto
termination
  by (relation "measure (\<lambda>(g, current, seen, chain). 2 * unseen g current seen + (if current = [] then 0 else 1))")
    (auto dest: why_measure [OF _ sym])

declare why_from.simps [simp del]

definition why :: "evidence_graph \<Rightarrow> string \<Rightarrow> evidence_node list" where
  "why g ident = why_from g [ident] [] []"

definition why_dict :: "evidence_node \<Rightarrow> pydict" where
  "why_dict n =
     [(''id'', PStr (nd_id n)), (''kind'', PStr (nd_kind n)), (''provenance'', PStr (nd_provenance n)),
      (''summary'', PStr (nd_summary n)), (''source'', PStr (nd_source n))]"

text \<open>The latest nodes first; nodes of one instant keep their order.\<close>

definition relevant :: "nat \<Rightarrow> string list \<Rightarrow> evidence_graph \<Rightarrow> evidence_node list" where
  "relevant limit kinds g =
     take limit (sort_key (\<lambda>n. - nd_created n)
       (filter (\<lambda>n. kinds = [] \<or> nd_kind n \<in> set kinds) (map snd (gr_nodes g))))"

section \<open>Snapshots\<close>

text \<open>\<open>sorted\<close> on triples: by the last component first, each sort stable.\<close>

definition sort_edges :: "edge list \<Rightarrow> edge list" where
  "sort_edges es =
     sort_texts fst (sort_texts (\<lambda>(s, d, r). d) (sort_texts (\<lambda>(s, d, r). r) es))"

definition graph_snapshot :: "evidence_graph \<Rightarrow> pydict" where
  "graph_snapshot g =
     [(''nodes'', PList (map (PDict \<circ> node_snapshot) (sort_texts nd_id (map snd (gr_nodes g))))),
      (''edges'', PList (map edge_dict (sort_edges (gr_edges g))))]"

definition read_created :: "pydict \<Rightarrow> instant option" where
  "read_created raw = (case py_get raw ''created_at'' of PStr s \<Rightarrow> fromisoformat s | _ \<Rightarrow> None)"

definition loaded_args :: "pydict \<Rightarrow> string \<Rightarrow> pydict \<Rightarrow> node_args" where
  "loaded_args d ident extra =
     \<lparr>na_kind = py_str_of (py_or (py_get d ''kind'') (PStr ''observation'')),
      na_provenance = py_text (py_get d ''provenance''), na_summary = py_text (py_get d ''summary''),
      na_source = py_text (py_get d ''source''), na_extra = extra, na_parent = None,
      na_relation = ''supports'', na_id = Some ident, na_created = read_created d\<rparr>"

definition load_node ::
    "string \<Rightarrow> string \<Rightarrow> instant \<Rightarrow> pyval \<Rightarrow> evidence_graph \<Rightarrow> evidence_graph result" where
  "load_node session project now raw g =
     (case raw of
        PDict d \<Rightarrow>
          (let ident = py_text (py_get d ''id'') in
           if ident = [] then Inl (graph_error ''missing_node_id'')
           else then_do (py_dict_of (py_or (py_get d ''extra'') (PDict []))) (\<lambda>extra.
             case add_node [] now (loaded_args d ident extra) g of
               (r, g1) \<Rightarrow> then_do r (\<lambda>n. Inr (g1\<lparr>gr_nodes := dict_set ident
                 (n\<lparr>nd_session := py_str_of (py_or (py_get d ''session_id'') (PStr session)),
                    nd_project := py_str_of (py_or (py_get d ''project_id'') (PStr project))\<rparr>) (gr_nodes g1)\<rparr>))))
      | _ \<Rightarrow> Inl (graph_error ''malformed_node''))"

definition load_edge :: "pyval \<Rightarrow> evidence_graph \<Rightarrow> evidence_graph result" where
  "load_edge raw g =
     (case raw of
        PDict d \<Rightarrow>
          (case link (py_text (py_or (py_get d ''from'') (py_get d ''source'')))
                     (py_text (py_or (py_get d ''to'') (py_get d ''destination'')))
                     (py_str_of (py_or (py_get d ''relation'') (PStr ''supports''))) g of
             (r, g1) \<Rightarrow> then_do r (\<lambda>_. Inr g1))
      | _ \<Rightarrow> Inl (graph_error ''malformed_edge''))"

fun load_all :: "('a \<Rightarrow> evidence_graph \<Rightarrow> evidence_graph result) \<Rightarrow> 'a list \<Rightarrow> evidence_graph \<Rightarrow> evidence_graph result"
  where
  "load_all f [] g = Inr g"
| "load_all f (x # xs) g = then_do (f x g) (load_all f xs)"

definition items_of :: "pydict \<Rightarrow> string \<Rightarrow> pyval list result" where
  "items_of d k = py_iter (py_or (py_get d k) (PList []))"

text \<open>Each node without a readable time gets the instant \<open>now\<close>; the code reads the clock for each.\<close>

definition from_snapshot ::
    "pydict option \<Rightarrow> string \<Rightarrow> string \<Rightarrow> instant \<Rightarrow> evidence_graph result" where
  "from_snapshot payload session project now =
     (let d = (case payload of None \<Rightarrow> [] | Some p \<Rightarrow> p) in
      then_do (items_of d ''nodes'') (\<lambda>ns.
        then_do (load_all (load_node session project now) ns (empty_graph session project)) (\<lambda>g.
          then_do (items_of d ''edges'') (\<lambda>es. load_all load_edge es g))))"

section \<open>Integrity\<close>

definition edge_ok :: "evidence_graph \<Rightarrow> edge \<Rightarrow> bool" where
  "edge_ok g e \<longleftrightarrow> (case e of (s, d, r) \<Rightarrow>
     s \<noteq> d \<and> r \<in> set allowed_relations \<and> map_of (gr_nodes g) s \<noteq> None \<and> map_of (gr_nodes g) d \<noteq> None)"

definition graph_ok :: "evidence_graph \<Rightarrow> bool" where
  "graph_ok g \<longleftrightarrow>
     distinct (dict_keys (gr_nodes g)) \<and> distinct (gr_edges g) \<and>
     (\<forall>k n. map_of (gr_nodes g) k = Some n \<longrightarrow> nd_id n = k) \<and> (\<forall>e\<in>set (gr_edges g). edge_ok g e)"

lemma empty_graph_ok: "graph_ok (empty_graph session project)"
  by (simp add: graph_ok_def empty_graph_def dict_keys_def)

lemma link_ok: "graph_ok g \<Longrightarrow> graph_ok (snd (link src dst rel g))"
  by (auto simp: link_def graph_ok_def edge_ok_def)

lemma put_node_ok:
  assumes "graph_ok g" and "nd_id n = k"
  shows "graph_ok (g\<lparr>gr_nodes := dict_set k n (gr_nodes g)\<rparr>)"
proof -
  have "edge_ok (g\<lparr>gr_nodes := dict_set k n (gr_nodes g)\<rparr>) e" if "edge_ok g e" for e
    using that by (auto simp: edge_ok_def)
  then show ?thesis
    using assms by (simp add: graph_ok_def dict_keys_def distinct_dict_set)
qed

lemma add_node_ok: "graph_ok g \<Longrightarrow> graph_ok (snd (add_node uid now a g))"
  using link_ok [OF put_node_ok]
  by (simp add: add_node_def Let_def put_node_ok new_node_def case_prod_beta)

text \<open>A graph that was read is sound, whatever was in the payload.\<close>

lemma load_all_ok:
  assumes "\<And>x g g'. graph_ok g \<Longrightarrow> f x g = Inr g' \<Longrightarrow> graph_ok g'"
  shows "graph_ok g \<Longrightarrow> load_all f xs g = Inr g' \<Longrightarrow> graph_ok g'"
  using assms by (induction f xs g rule: load_all.induct) auto

lemma load_edge_ok: "graph_ok g \<Longrightarrow> load_edge raw g = Inr g' \<Longrightarrow> graph_ok g'"
  by (cases raw) (auto simp: load_edge_def case_prod_beta link_ok)

lemma add_node_id:
  assumes "fst (add_node uid now a g) = Inr n" and "na_id a = Some (c # cs)"
  shows "nd_id n = c # cs"
  using assms by (auto simp: add_node_def Let_def present_def new_node_def case_prod_beta split: if_splits)

lemma load_node_ok:
  assumes "graph_ok g" and "load_node session project now raw g = Inr g'"
  shows "graph_ok g'"
proof (cases raw)
  case (PDict d)
  show ?thesis
  proof (cases "py_text (py_get d ''id'')")
    case (Cons c cs)
    let ?add = "\<lambda>x. add_node [] now (loaded_args d (c # cs) x) g"
    from Cons assms(2) PDict obtain x n s p where
      n: "fst (?add x) = Inr n" and
      g: "g' = (snd (?add x))\<lparr>gr_nodes :=
         dict_set (c # cs) (n\<lparr>nd_session := s, nd_project := p\<rparr>) (gr_nodes (snd (?add x)))\<rparr>"
      by (auto simp: load_node_def case_prod_beta Let_def)
    have "nd_id n = c # cs" using add_node_id [OF n] by (simp add: loaded_args_def)
    then show ?thesis unfolding g using add_node_ok [OF assms(1)] by (intro put_node_ok) simp_all
  qed (use assms PDict in \<open>simp add: load_node_def\<close>)
qed (use assms in \<open>simp_all add: load_node_def\<close>)

lemma from_snapshot_ok:
  assumes "from_snapshot payload session project now = Inr g"
  shows "graph_ok g"
proof -
  from assms obtain ns es g1 where
    1: "load_all (load_node session project now) ns (empty_graph session project) = Inr g1" and
    2: "load_all load_edge es g1 = Inr g"
    by (auto simp: from_snapshot_def Let_def)
  have "graph_ok g1" by (rule load_all_ok [OF load_node_ok empty_graph_ok 1])
  from load_all_ok [OF load_edge_ok this 2] show ?thesis .
qed

section \<open>Explanations\<close>

text \<open>Which identifiers lead to which: the edges without those from an identifier to itself.\<close>

definition leads :: "evidence_graph \<Rightarrow> (string \<times> string) set" where
  "leads g = {(s, d). \<exists>r. (s, d, r) \<in> set (gr_edges g)}"

definition found_ids :: "evidence_graph \<Rightarrow> string list \<Rightarrow> evidence_node list \<Rightarrow> bool" where
  "found_ids g seen chain \<longleftrightarrow> distinct seen \<and> chain = nodes_of g seen"


lemma nodes_of_simps [simp]:
  "nodes_of g [] = []"
  "nodes_of g (x # xs) = (case map_of (gr_nodes g) x of None \<Rightarrow> nodes_of g xs | Some n \<Rightarrow> n # nodes_of g xs)"
  by (simp_all add: nodes_of_def map_filter_simps split: option.split)

lemma nodes_of_append [simp]: "nodes_of g (xs @ ys) = nodes_of g xs @ nodes_of g ys"
  by (induction xs) (simp_all split: option.split)

lemma sources_leads: "s \<in> set (sources_of (gr_edges g) x) \<longleftrightarrow> (s, x) \<in> leads g \<and> s \<noteq> x"
  by (force simp: sources_of_def leads_def)

lemma leads_present: "graph_ok g \<Longrightarrow> (x, y) \<in> leads g \<Longrightarrow> map_of (gr_nodes g) x \<noteq> None \<and> map_of (gr_nodes g) y \<noteq> None"
  by (fastforce simp: graph_ok_def edge_ok_def leads_def)

text \<open>
  What holds between two visits, with \<open>todo\<close> left in this round: the sources of every node seen are
  seen, next or left, and all that was met leads to the start. A node that is absent has no edges.
\<close>

definition visit_ok :: "evidence_graph \<Rightarrow> string \<Rightarrow> string list \<Rightarrow> search \<Rightarrow> bool" where
  "visit_ok g start todo st \<longleftrightarrow> (case st of (seen, chain, nxt) \<Rightarrow>
     found_ids g seen chain \<and>
     (\<forall>x\<in>set seen \<union> set nxt \<union> set todo. (x, start) \<in> (leads g)\<^sup>*) \<and>
     (\<forall>x\<in>set seen. \<forall>y. (y, x) \<in> leads g \<longrightarrow> y \<in> set seen \<union> set nxt \<union> set todo))"

lemma visit_step:
  assumes "graph_ok g" and "visit_ok g start (x # todo) st"
  shows "visit_ok g start todo (why_visit g x st)"
proof -
  obtain seen chain nxt where st: "st = (seen, chain, nxt)" by (cases st)
  show ?thesis
  proof (cases "x \<in> set seen")
    case True
    with assms(2) show ?thesis by (auto simp: st visit_ok_def)
  next
    case False
    show ?thesis
    proof (cases "map_of (gr_nodes g) x")
      case None
      then have "(y, x) \<notin> leads g" for y using leads_present [OF assms(1)] by blast
      with None False assms(2) show ?thesis
        by (auto simp: st visit_ok_def found_ids_def)
    next
      case (Some n)
      have "(s, start) \<in> (leads g)\<^sup>*" if "(s, x) \<in> leads g" for s
        using that assms(2) by (auto simp: st visit_ok_def intro: converse_rtrancl_into_rtrancl)
      with Some False assms(2) show ?thesis
        by (auto simp: st visit_ok_def found_ids_def sources_leads)
    qed
  qed
qed

lemma visits: "graph_ok g \<Longrightarrow> visit_ok g start todo st \<Longrightarrow> visit_ok g start [] (fold (why_visit g) todo st)"
  by (induction todo arbitrary: st) (auto simp: visit_step)

lemma why_from_ok:
  assumes "graph_ok g" and "visit_ok g start current (seen, chain, [])"
  shows "\<exists>seen'. visit_ok g start [] (seen', why_from g current seen chain, []) \<and> set seen \<union> set current \<subseteq> set seen'"
  using assms
proof (induction g current seen chain rule: why_from.induct)
  case (1 g current seen chain)
  show ?case
  proof (cases "current = []")
    case True
    with 1 show ?thesis by (auto simp: why_from.simps)
  next
    case False
    obtain seen' chain' nxt where r: "why_round g current seen chain = (seen', chain', nxt)"
      by (cases "why_round g current seen chain") auto
    have "visit_ok g start [] (seen', chain', nxt)"
      using visits [OF 1(2,3)] r by (simp add: why_round_def)
    then have "visit_ok g start nxt (seen', chain', [])" by (simp add: visit_ok_def)
    from 1(1) [OF False r [symmetric] refl 1(2) this] obtain s where
      s: "visit_ok g start [] (s, why_from g nxt seen' chain', [])" "set seen' \<union> set nxt \<subseteq> set s" by blast
    moreover have "why_from g current seen chain = why_from g nxt seen' chain'"
      by (subst why_from.simps) (simp add: False r)
    moreover have "set seen' = set seen \<union> set current"
      using round_seen(1) [OF r [unfolded why_round_def]] .
    ultimately show ?thesis by (intro exI [of _ s]) auto
  qed
qed

lemma nodes_of_ids:
  assumes "graph_ok g"
  shows "n \<in> set (nodes_of g xs) \<longleftrightarrow> nd_id n \<in> set xs \<and> map_of (gr_nodes g) (nd_id n) = Some n"
    and "distinct xs \<Longrightarrow> distinct (map nd_id (nodes_of g xs))"
proof -
  have id: "map_of (gr_nodes g) k = Some n \<Longrightarrow> nd_id n = k" for k n using assms by (simp add: graph_ok_def)
  show mem: "n \<in> set (nodes_of g xs) \<longleftrightarrow> nd_id n \<in> set xs \<and> map_of (gr_nodes g) (nd_id n) = Some n" for n
    by (induction xs) (auto split: option.split dest: id)
  show "distinct xs \<Longrightarrow> distinct (map nd_id (nodes_of g xs))"
  proof (induction xs)
    case (Cons x xs)
    have "x \<notin> set (map nd_id (nodes_of g xs))" using Cons.prems by (induction xs) (auto split: option.splits dest: id)
    with Cons show ?case by (auto split: option.split dest: id)
  qed simp
qed

section \<open>Runs\<close>

datatype graph_op =
    Add_Node string instant node_args
  | Link string string string

fun graph_step :: "evidence_graph \<Rightarrow> graph_op \<Rightarrow> evidence_graph" where
  "graph_step g (Add_Node uid now a) = snd (add_node uid now a g)"
| "graph_step g (Link s d r) = snd (link s d r g)"

definition fresh_or_loaded :: "evidence_graph \<Rightarrow> bool" where
  "fresh_or_loaded g \<longleftrightarrow> (\<exists>session project. g = empty_graph session project \<or>
     (\<exists>payload now. from_snapshot payload session project now = Inr g))"

interpretation growing: machine fresh_or_loaded graph_step graph_ok
proof
  show "graph_ok g" if "fresh_or_loaded g" for g
    using that from_snapshot_ok empty_graph_ok unfolding fresh_or_loaded_def by blast
  show "graph_ok (graph_step g x)" if "graph_ok g" for g x
    using that by (cases x) (simp_all add: add_node_ok link_ok)
qed

section \<open>Properties\<close>

text \<open>C26. In every graph that a session builds, from nothing or from any stored snapshot that is
  accepted, an edge joins two different nodes of the graph with a known relation, no edge occurs twice,
  and every node is stored under its own identifier, also after operations that failed.\<close>

theorem graphs_are_sound:
  assumes "fresh_or_loaded g0" and "g = run_ops graph_step g0 ops"
  shows "(\<forall>(s, d, r) \<in> set (gr_edges g). s \<noteq> d \<and> r \<in> set allowed_relations \<and>
      map_of (gr_nodes g) s \<noteq> None \<and> map_of (gr_nodes g) d \<noteq> None) \<and>
    distinct (gr_edges g) \<and> distinct (dict_keys (gr_nodes g)) \<and>
    (\<forall>k n. map_of (gr_nodes g) k = Some n \<longrightarrow> nd_id n = k)"
  using growing.run_always [OF assms(1), of ops] assms(2) by (auto simp: graph_ok_def edge_ok_def)

text \<open>The explanation of a node names, each once, exactly the nodes from which it can be reached
  along edges, and it ends on graphs with cycles too.\<close>

theorem why_explains:
  assumes "fresh_or_loaded g0" and "g = run_ops graph_step g0 ops" and "map_of (gr_nodes g) ident \<noteq> None"
  shows "nd_id ` set (why g ident) = {x. (x, ident) \<in> (leads g)\<^sup>*} \<and> distinct (map nd_id (why g ident)) \<and>
    (\<forall>n \<in> set (why g ident). map_of (gr_nodes g) (nd_id n) = Some n)"
proof -
  have ok: "graph_ok g" using growing.run_always [OF assms(1), of ops] assms(2) by simp
  have "visit_ok g ident [ident] ([], [], [])" by (simp add: visit_ok_def found_ids_def)
  from why_from_ok [OF ok this] obtain seen where
    seen: "visit_ok g ident [] (seen, why g ident, [])" "ident \<in> set seen" by (auto simp: why_def)
  have closed: "x \<in> set seen" if "(x, ident) \<in> (leads g)\<^sup>*" for x
    using that by (induction rule: converse_rtrancl_induct) (use seen in \<open>auto simp: visit_ok_def\<close>)
  have all: "set seen = {x. (x, ident) \<in> (leads g)\<^sup>*}"
  proof (intro equalityI subsetI CollectI)
    show "(x, ident) \<in> (leads g)\<^sup>*" if "x \<in> set seen" for x using seen(1) that by (simp add: visit_ok_def)
  qed (use closed in simp)
  have "map_of (gr_nodes g) x \<noteq> None" if "x \<in> set seen" for x
    using that unfolding all mem_Collect_eq
    by (cases rule: converse_rtranclE) (use assms(3) leads_present [OF ok] in blast)+
  then have "nd_id ` set (nodes_of g seen) = set seen"
    using nodes_of_ids(1) [OF ok] ok by (force simp: graph_ok_def image_iff)
  then show ?thesis
    using all seen(1) nodes_of_ids [OF ok] by (simp add: visit_ok_def found_ids_def)
qed

definition sample_growth :: "graph_op list" where
  "sample_growth =
     [Add_Node ''a'' 5 (plain_node ''hypothesis'' ''ai_hypothesis'' ''guess'' ''planner''),
      Add_Node ''b'' 6 (plain_node ''response'' ''execution'' ''status 200'' ''http''),
      Add_Node ''c'' 7 (plain_node ''log'' ''execution'' ''line'' ''log''),
      Link ''b'' ''a'' ''supports'', Link ''a'' ''b'' ''follows'', Link ''a'' ''a'' ''supports'',
      Link ''a'' ''b'' ''follows'', Link ''a'' ''x'' ''supports'', Link ''a'' ''c'' ''sees'']"

definition sample_graph :: evidence_graph where
  "sample_graph = run_ops graph_step (empty_graph ''s'' ''p'') sample_growth"

lemma sample_start: "fresh_or_loaded (empty_graph ''s'' ''p'')"
  unfolding fresh_or_loaded_def by blast

theorem graphs_are_sound_witness:
  "gr_edges sample_graph = [(''b'', ''a'', ''supports''), (''a'', ''b'', ''follows'')] \<and>
   distinct (dict_keys (gr_nodes sample_graph))"
proof -
  have "gr_edges sample_graph = [(''b'', ''a'', ''supports''), (''a'', ''b'', ''follows'')]" by code_simp
  with graphs_are_sound [OF sample_start sample_graph_def] show ?thesis by blast
qed

theorem why_explains_witness:
  "map nd_id (why sample_graph ''a'') = [''a'', ''b''] \<and> (''c'', ''a'') \<notin> (leads sample_graph)\<^sup>*"
proof -
  have ids: "map nd_id (why sample_graph ''a'') = [''a'', ''b'']" by code_simp
  have "map_option nd_kind (map_of (gr_nodes sample_graph) ''a'') = Some ''hypothesis''" by code_simp
  then have "map_of (gr_nodes sample_graph) ''a'' \<noteq> None" by auto
  from why_explains [OF sample_start sample_graph_def this]
  have "nd_id ` set (why sample_graph ''a'') = {x. (x, ''a'') \<in> (leads sample_graph)\<^sup>*}" by blast
  then have "(''c'', ''a'') \<in> (leads sample_graph)\<^sup>* \<longleftrightarrow> ''c'' \<in> set (map nd_id (why sample_graph ''a''))"
    unfolding set_map by blast
  then show ?thesis unfolding ids by simp
qed

end
