(* ===== verification/Research.thy ===== *)
theory Research
  imports EvidenceGraph Findings Url "HOL-Library.List_Lexorder"
begin

text \<open>
  The records of a research session and how evidence moves them: hypotheses and plans
  (\<open>security_agent/schemas.py\<close>), their correlation with the evidence graph and their ranking
  (\<open>correlation.py\<close>), the score of a finding (\<open>confidence.py\<close>), the order of rules and the planning
  score (\<open>prioritize.py\<close>) and the leads (\<open>leads.py\<close>) without the database behind them.
\<close>

section \<open>Hypotheses and plans\<close>

datatype hypothesis_status =
    HS_OPEN | HS_SUPPORTED | HS_WEAKENED | HS_DISPROVED | HS_REQUIRES_REPRODUCTION | HS_VERIFIED
  | HS_REJECTED | HS_INCONCLUSIVE

fun hypothesis_status_value :: "hypothesis_status \<Rightarrow> string" where
  "hypothesis_status_value HS_OPEN = ''open''"
| "hypothesis_status_value HS_SUPPORTED = ''supported''"
| "hypothesis_status_value HS_WEAKENED = ''weakened''"
| "hypothesis_status_value HS_DISPROVED = ''disproved''"
| "hypothesis_status_value HS_REQUIRES_REPRODUCTION = ''requires_reproduction''"
| "hypothesis_status_value HS_VERIFIED = ''verified''"
| "hypothesis_status_value HS_REJECTED = ''rejected''"
| "hypothesis_status_value HS_INCONCLUSIVE = ''inconclusive''"

record hypothesis =
  hy_title :: string
  hy_class :: string
  hy_target :: string
  hy_reason :: string
  hy_confidence :: string
  hy_severity :: string
  hy_impact :: string
  hy_supporting :: "string list"
  hy_contradicting :: "string list"
  hy_next :: string
  hy_status :: hypothesis_status
  hy_reproducibility :: string
  hy_strength :: int
  hy_id :: string

definition plain_hypothesis :: "string \<Rightarrow> string \<Rightarrow> string \<Rightarrow> string \<Rightarrow> string \<Rightarrow> hypothesis" where
  "plain_hypothesis name cls target ground uid =
     \<lparr>hy_title = name, hy_class = cls, hy_target = target, hy_reason = ground, hy_confidence = ''low'',
      hy_severity = ''medium'', hy_impact = [], hy_supporting = [], hy_contradicting = [], hy_next = [],
      hy_status = HS_OPEN, hy_reproducibility = ''unknown'', hy_strength = 0, hy_id = uid\<rparr>"

definition text_list :: "string list \<Rightarrow> pyval" where
  "text_list xs = PList (map PStr xs)"

definition hypothesis_snapshot :: "hypothesis \<Rightarrow> pydict" where
  "hypothesis_snapshot h =
     [(''id'', PStr (hy_id h)), (''title'', PStr (hy_title h)),
      (''vulnerability_class'', PStr (hy_class h)), (''target'', PStr (hy_target h)),
      (''reason'', PStr (hy_reason h)), (''confidence'', PStr (hy_confidence h)),
      (''severity'', PStr (hy_severity h)), (''impact'', PStr (hy_impact h)),
      (''supporting_evidence_ids'', text_list (hy_supporting h)),
      (''contradicting_evidence_ids'', text_list (hy_contradicting h)),
      (''suggested_next_action'', PStr (hy_next h)),
      (''status'', PStr (hypothesis_status_value (hy_status h))),
      (''reproducibility'', PStr (hy_reproducibility h)), (''evidence_strength'', PInt (hy_strength h))]"

record plan_step =
  ps_order :: int
  ps_action :: string
  ps_tool :: pyval
  ps_target :: string
  ps_note :: string

record research_plan =
  rp_steps :: "plan_step list"
  rp_current :: int

definition plan_snapshot :: "research_plan \<Rightarrow> pydict" where
  "plan_snapshot p =
     [(''current'', PInt (rp_current p)),
      (''steps'', PList (map (\<lambda>s. PDict
         [(''order'', PInt (ps_order s)), (''action'', PStr (ps_action s)), (''tool'', ps_tool s),
          (''target'', PStr (ps_target s)), (''note'', PStr (ps_note s))]) (rp_steps p)))]"

section \<open>Correlation\<close>

definition independent_sources :: "string list" where
  "independent_sources = map provenance_value
     [P_STATIC_ANALYSIS, P_HTTP_OBSERVATION, P_BROWSER_OBSERVATION, P_SCANNER_RESULT,
      P_SCANNER_OBSERVATION, P_SOURCE_OBSERVATION, P_REPRODUCTION, P_API_TEST, P_FUZZING_RESULT,
      P_EXECUTION]"

text \<open>The sets of the code are lists of distinct texts.\<close>

definition independent_provenances :: "evidence_graph \<Rightarrow> hypothesis \<Rightarrow> string list" where
  "independent_provenances g h = first_occurrences
     (filter (\<lambda>p. p \<in> set independent_sources \<or> p \<in> set (map provenance_value verification_provenance))
       (map nd_provenance (nodes_of g (hy_supporting h))))"

definition correlate_hypothesis :: "evidence_graph \<Rightarrow> hypothesis \<Rightarrow> hypothesis" where
  "correlate_hypothesis g h =
     (let supporting = independent_provenances g h;
          contradicting = first_occurrences (map nd_provenance (nodes_of g (hy_contradicting h)));
          h1 = h\<lparr>hy_strength := int (length supporting)\<rparr>
      in if contradicting \<noteq> [] \<and> supporting \<noteq> [] then h1\<lparr>hy_status := HS_WEAKENED\<rparr>
         else if contradicting \<noteq> [] \<and> supporting = [] then h1\<lparr>hy_status := HS_DISPROVED\<rparr>
         else if 2 \<le> length supporting then h1\<lparr>hy_status := HS_REQUIRES_REPRODUCTION\<rparr>
         else if length supporting = 1 then h1\<lparr>hy_status := HS_SUPPORTED\<rparr>
         else h1)"

definition correlate_all :: "evidence_graph \<Rightarrow> hypothesis list \<Rightarrow> hypothesis list" where
  "correlate_all g hs = map (correlate_hypothesis g) hs"

section \<open>Ranking\<close>

definition severity_rank :: "(string, int) dict" where
  "severity_rank = [(''critical'', 4), (''high'', 3), (''medium'', 2), (''low'', 1), (''info'', 0)]"

definition confidence_rank :: "(string, int) dict" where
  "confidence_rank = [(''high'', 3), (''medium'', 2), (''low'', 1)]"

definition repro_rank :: "(string, int) dict" where
  "repro_rank =
     [(''reproduced'', 3), (''requires_reproduction'', 1), (''unknown'', 0), (''not_reproduced'', 0)]"

definition weighted :: "int \<Rightarrow> int \<Rightarrow> int \<Rightarrow> int \<Rightarrow> int \<Rightarrow> int" where
  "weighted severity support repro effect confidence =
     8 * severity + 5 * support + 4 * repro + 2 * effect + confidence"

text \<open>\<open>evidence_strength or len(supporting_evidence_ids)\<close>.\<close>

definition strength_of :: "hypothesis \<Rightarrow> int" where
  "strength_of h = (if hy_strength h \<noteq> 0 then hy_strength h else int (length (hy_supporting h)))"

definition repro_score :: "hypothesis \<Rightarrow> int" where
  "repro_score h =
     (let r = dict_get repro_rank (py_lower (hy_reproducibility h)) 0;
          r1 = (if hy_status h = HS_REQUIRES_REPRODUCTION then max r 1 else r)
      in if hy_status h = HS_SUPPORTED then max r1 0 else r1)"

definition hypothesis_score :: "hypothesis \<Rightarrow> int list" where
  "hypothesis_score h =
     (let severity = dict_get severity_rank (py_lower (hy_severity h)) 0;
          support = strength_of h;
          repro = repro_score h;
          confidence = dict_get confidence_rank (py_lower (hy_confidence h)) 0;
          effect = (if py_strip (hy_impact h) \<noteq> [] then 1 else 0)
      in [weighted severity support repro effect confidence, severity, support, repro, confidence])"

text \<open>\<open>sorted(hypotheses, key=score, reverse=True)\<close>: descending, and stable.\<close>

definition rank_hypotheses :: "hypothesis list \<Rightarrow> hypothesis list" where
  "rank_hypotheses hs = sort_key (\<lambda>h. map uminus (hypothesis_score h)) hs"

record finding_score =
  fs_confidence :: string
  fs_severity :: string
  fs_impact :: string
  fs_strength :: int
  fs_reproducibility :: string
  fs_total :: int
  fs_explanation :: "string list"

definition finding_score_snapshot :: "finding_score \<Rightarrow> pydict" where
  "finding_score_snapshot s =
     [(''confidence'', PStr (fs_confidence s)), (''severity'', PStr (fs_severity s)),
      (''impact'', PStr (fs_impact s)), (''evidence_strength'', PInt (fs_strength s)),
      (''reproducibility'', PStr (fs_reproducibility s)), (''total'', PInt (fs_total s)),
      (''explanation'', text_list (fs_explanation s))]"

definition opt_text :: "string option \<Rightarrow> string" where
  "opt_text t = (case t of None \<Rightarrow> [] | Some s \<Rightarrow> s)"

definition of_finding :: "(finding \<Rightarrow> string) \<Rightarrow> finding option \<Rightarrow> string" where
  "of_finding f x = (case x of None \<Rightarrow> [] | Some y \<Rightarrow> f y)"

definition of_hypothesis :: "(hypothesis \<Rightarrow> 'a) \<Rightarrow> 'a \<Rightarrow> hypothesis option \<Rightarrow> 'a" where
  "of_hypothesis f d x = (case x of None \<Rightarrow> d | Some y \<Rightarrow> f y)"

definition score_finding :: "finding option \<Rightarrow> hypothesis option \<Rightarrow> finding_score" where
  "score_finding fo ho =
     (let confidence = or_text (of_finding f_confidence fo) (of_hypothesis hy_confidence ''low'' ho);
          own = of_finding (\<lambda>f. case impact f of None \<Rightarrow> [] | Some i \<Rightarrow>
                  if map_of severity_rank i \<noteq> None then i else []) fo;
          severity = or_text (or_text own (of_hypothesis hy_severity ''medium'' ho)) ''medium'';
          effect = or_text (of_finding (opt_text \<circ> impact) fo) (of_hypothesis hy_impact [] ho);
          support = (case ho of Some h \<Rightarrow> strength_of h
                     | None \<Rightarrow> (case fo of None \<Rightarrow> 0 | Some f \<Rightarrow> int (length (f_evidence f))));
          repro = or_text (of_finding (opt_text \<circ> reproducibility) fo)
                    (of_hypothesis hy_reproducibility ''unknown'' ho);
          conf_n = dict_get confidence_rank (py_lower confidence) 1;
          sev_n = dict_get severity_rank (py_lower severity) 2;
          repro_n = dict_get repro_rank (py_lower repro) 0;
          shown = py_strip effect \<noteq> [];
          impact_n = (if shown then 1 else 0)
      in \<lparr>fs_confidence = confidence, fs_severity = severity, fs_impact = effect, fs_strength = support,
          fs_reproducibility = or_text repro ''unknown'',
          fs_total = weighted sev_n support repro_n impact_n conf_n,
          fs_explanation =
            [''severity='' @ severity @ '' contributes '' @ show_int (8 * sev_n),
             ''evidence_strength='' @ show_int support @ '' contributes '' @ show_int (5 * support),
             ''reproducibility='' @ repro @ '' contributes '' @ show_int (4 * repro_n),
             ''impact_present='' @ py_repr (PBool shown) @ '' contributes '' @ show_int (2 * impact_n),
             ''confidence='' @ confidence @ '' contributes '' @ show_int conf_n,
             ''AI suggestions never override this score'']\<rparr>)"

definition rule_weights :: "(string, int) dict" where
  "rule_weights =
     [(''sol.sibling_auth'', 8), (''sol.accounting_desync'', 8), (''sol.storage_collision'', 7),
      (''sol.erc4626_inflation'', 7), (''sol.flash_spot'', 6), (''sol.reentrancy'', 6),
      (''sol.boundary'', 4)]"

definition priority_score :: "string \<Rightarrow> int" where
  "priority_score rule = dict_get rule_weights rule 1"

text \<open>Different rules have different keys, so the order of the set does not matter.\<close>

definition prioritize_rules :: "string list \<Rightarrow> string list" where
  "prioritize_rules rules =
     sort_key (\<lambda>r. - priority_score r) (sort_texts id (first_occurrences rules))"

definition impact_weights :: "(string, int) dict" where
  "impact_weights = [(''low'', 1), (''medium'', 2), (''high'', 4)]"

definition evidence_weights :: "(string, int) dict" where
  "evidence_weights = [(''none'', 0), (''static'', 1), (''reproduced'', 2), (''verified'', 3)]"

definition score_lead ::
    "string \<Rightarrow> string \<Rightarrow> string \<Rightarrow> bool \<Rightarrow> bool \<Rightarrow> int \<Rightarrow> bool \<Rightarrow> bool \<Rightarrow> int" where
  "score_lead rule effect support reproducible whole chain_step duplicate available =
     priority_score rule + dict_get impact_weights effect 2 + dict_get evidence_weights support 0
       + (if reproducible then 2 else 0) - (if whole then 0 else 3)
       + (if chain_step \<noteq> 0 then min chain_step 3 else 0)
       - (if duplicate then 5 else 0) - (if available then 0 else 2)"

section \<open>Identities of findings\<close>

definition finding_fingerprint ::
    "string \<Rightarrow> string \<Rightarrow> string \<Rightarrow> string \<Rightarrow> string list \<Rightarrow> string result" where
  "finding_fingerprint cls target place loc keys =
     then_do (urlparse [] target) (\<lambda>u.
       (let host = py_rstrip_char CHR ''.'' (py_lower (url_hostname u));
            resource = or_text place (host @ or_text (pu_path u) ''/'')
        in Inr (sha256_hex (py_join ''|''
             [py_lower (py_strip cls), host, py_lower (py_strip resource), py_lower (py_strip loc),
              py_join '','' (sort_texts id keys)]))))"

definition stable_finding_identity ::
    "string \<Rightarrow> string \<Rightarrow> string \<Rightarrow> string \<Rightarrow> string \<Rightarrow> string result" where
  "stable_finding_identity cls target place loc resource =
     finding_fingerprint cls target (or_text place resource) loc []"

definition row_identity :: "pydict \<Rightarrow> string result" where
  "row_identity d =
     stable_finding_identity (py_text (py_get d ''vulnerability_class'')) (py_text (py_get d ''target''))
       (py_text (py_get d ''endpoint'')) (py_text (py_get d ''source_location'')) (py_text (py_get d ''asset''))"

definition same_given :: "string \<Rightarrow> pydict \<Rightarrow> pydict \<Rightarrow> bool" where
  "same_given k l r \<longleftrightarrow> py_text (py_get l k) \<noteq> [] \<and> py_str_of (py_get l k) = py_text (py_get r k)"

definition place_of :: "pydict \<Rightarrow> string" where
  "place_of d = py_str_of (py_or (py_get d ''endpoint'') (py_get d ''target''))"

definition merge_reasons :: "pydict \<Rightarrow> pydict \<Rightarrow> string list" where
  "merge_reasons l r =
     (if py_lower (py_text (py_get l ''vulnerability_class'')) = py_lower (py_text (py_get r ''vulnerability_class''))
      then [''same_vulnerability_class''] else []) @
     (if place_of l = place_of r then [''same_endpoint''] else []) @
     (if same_given ''source_location'' l r then [''same_source_location''] else []) @
     (if same_given ''asset'' l r then [''same_hackerone_asset''] else [])"

record merge_proposal =
  mp_same :: bool
  mp_left :: string
  mp_right :: string
  mp_reasons :: "string list"
  mp_merged :: bool

definition propose_merge :: "pydict \<Rightarrow> pydict \<Rightarrow> merge_proposal result" where
  "propose_merge l r =
     then_do (row_identity l) (\<lambda>lid. then_do (row_identity r) (\<lambda>rid.
       Inr \<lparr>mp_same = lid = rid, mp_left = lid, mp_right = rid, mp_reasons = merge_reasons l r,
            mp_merged = False\<rparr>))"

fun match_rows :: "(pydict \<times> pydict) list \<Rightarrow> merge_proposal list result" where
  "match_rows [] = Inr []"
| "match_rows ((l, r) # ps) =
     then_do (propose_merge l r) (\<lambda>p. then_do (match_rows ps) (\<lambda>out.
       Inr (if mp_same p \<or> mp_reasons p \<noteq> [] then p # out else out)))"

definition cross_session_matches :: "pydict list \<Rightarrow> pydict list \<Rightarrow> merge_proposal list result" where
  "cross_session_matches current previous = match_rows (List.product current previous)"

section \<open>Leads\<close>

definition lead_statuses :: "string list" where
  "lead_statuses =
     [''NEW'', ''ACTIVE'', ''BLOCKED'', ''KILLED'', ''PROMOTED'', ''REPRODUCED'', ''VERIFIED'', ''REPORTED'']"

record lead =
  ld_id :: string
  ld_project :: string
  ld_session :: string
  ld_target :: string
  ld_hypothesis :: string
  ld_status :: string
  ld_priority :: string
  ld_next :: string
  ld_kill_reason :: string
  ld_evidence :: "string list"
  ld_observations :: "string list"
  ld_related :: "string list"
  ld_chains :: "string list"
  ld_hypotheses :: "string list"
  ld_findings :: "string list"
  ld_semantic :: "string list"
  ld_updated :: string

definition lead_snapshot :: "lead \<Rightarrow> pydict" where
  "lead_snapshot l =
     [(''id'', PStr (ld_id l)), (''project_id'', PStr (ld_project l)), (''session_id'', PStr (ld_session l)),
      (''target'', PStr (ld_target l)), (''hypothesis'', PStr (ld_hypothesis l)),
      (''status'', PStr (ld_status l)), (''priority'', PStr (ld_priority l)),
      (''next_action'', PStr (ld_next l)), (''kill_reason'', PStr (ld_kill_reason l)),
      (''evidence_ids'', text_list (ld_evidence l)), (''observation_ids'', text_list (ld_observations l)),
      (''related_ids'', text_list (ld_related l)), (''chain_ids'', text_list (ld_chains l)),
      (''hypothesis_ids'', text_list (ld_hypotheses l)), (''finding_ids'', text_list (ld_findings l)),
      (''semantic_node_ids'', text_list (ld_semantic l)), (''updated_at'', PStr (ld_updated l))]"

text \<open>\<open>ResearchLead.__post_init__\<close>.\<close>

definition lead_init :: "instant \<Rightarrow> lead \<Rightarrow> lead result" where
  "lead_init now l =
     (if ld_status l \<notin> set lead_statuses then Inl (ValueError (''unknown lead status '' @ ld_status l))
      else Inr (if ld_updated l = [] then l\<lparr>ld_updated := isoformat now\<rparr> else l))"

definition validate_lead :: "lead \<Rightarrow> unit result" where
  "validate_lead l =
     (if ld_status l = ''KILLED'' \<and> py_strip (ld_kill_reason l) = [] then
        Inl (ValueError ''a killed lead requires a kill reason'')
      else if ld_status l = ''VERIFIED'' \<and> ld_evidence l = [] then
        Inl (ValueError ''a lead cannot be verified without evidence ids'')
      else Inr ())"

text \<open>A store is the dictionary of its items; the lead that is stored is stamped also for its owner.\<close>

type_synonym lead_store = "(string, lead) dict"

definition upsert_lead :: "instant \<Rightarrow> lead \<Rightarrow> lead_store \<Rightarrow> (lead \<times> lead_store) result" where
  "upsert_lead now l store =
     then_do (validate_lead l) (\<lambda>_.
       (let l1 = l\<lparr>ld_updated := isoformat now\<rparr> in Inr (l1, dict_set (ld_id l1) l1 store)))"

definition get_lead :: "lead_store \<Rightarrow> string \<Rightarrow> lead option" where
  "get_lead store ident = map_of store ident"

definition project_leads :: "lead_store \<Rightarrow> string \<Rightarrow> lead list" where
  "project_leads store project = filter (\<lambda>l. ld_project l = project) (map snd store)"

definition text_less :: "string \<Rightarrow> string \<Rightarrow> bool" where
  "text_less a b \<longleftrightarrow> text_le a b \<and> a \<noteq> b"

definition stale_leads :: "lead_store \<Rightarrow> string \<Rightarrow> string \<Rightarrow> lead list" where
  "stale_leads store project before =
     filter (\<lambda>l. ld_status l \<in> {''NEW'', ''ACTIVE'', ''BLOCKED''} \<and> text_less (ld_updated l) before)
       (project_leads store project)"

definition new_lead :: "instant \<Rightarrow> string \<Rightarrow> string \<Rightarrow> string \<Rightarrow> string \<Rightarrow> string \<Rightarrow> string \<Rightarrow> lead" where
  "new_lead now uid project sess target hyp priority =
     \<lparr>ld_id = uid, ld_project = project, ld_session = sess, ld_target = target, ld_hypothesis = hyp,
      ld_status = ''NEW'', ld_priority = priority, ld_next = [], ld_kill_reason = [], ld_evidence = [],
      ld_observations = [], ld_related = [], ld_chains = [], ld_hypotheses = [], ld_findings = [],
      ld_semantic = [], ld_updated = isoformat now\<rparr>"

fun backfill :: "string list \<Rightarrow> string list \<Rightarrow> string list \<Rightarrow> string list" where
  "backfill [] occupied hyps = hyps"
| "backfill (x # xs) occupied hyps =
     (if x = [] \<or> x \<in> set occupied \<or> x \<in> set hyps then backfill xs occupied hyps
      else backfill xs (x # occupied) (hyps @ [x]))"

definition backfill_relationships :: "lead \<Rightarrow> string list" where
  "backfill_relationships l =
     backfill (ld_related l)
       (ld_evidence l @ ld_observations l @ ld_chains l @ ld_findings l @ ld_semantic l) (ld_hypotheses l)"

definition closed_leads :: "string list" where "closed_leads = [''KILLED'', ''REPORTED'']"

definition open_leads :: "string list" where
  "open_leads = [''NEW'', ''ACTIVE'', ''BLOCKED'', ''PROMOTED'', ''REPRODUCED'']"

fun update_first :: "('a \<Rightarrow> bool) \<Rightarrow> 'a \<Rightarrow> 'a list \<Rightarrow> 'a list" where
  "update_first p y [] = []"
| "update_first p y (x # xs) = (if p x then y # xs else x # update_first p y xs)"

definition tracks :: "string \<Rightarrow> lead \<Rightarrow> bool" where
  "tracks ident l \<longleftrightarrow> ident \<noteq> [] \<and> ident \<in> set (ld_hypotheses l)"

definition activate_lead :: "hypothesis \<Rightarrow> lead \<Rightarrow> lead" where
  "activate_lead h l =
     l\<lparr>ld_status := ''ACTIVE'', ld_next := or_text (hy_next h) (ld_next l),
       ld_evidence := hy_supporting h,
       ld_hypotheses := first_occurrences (ld_hypotheses l @ [hy_id h])\<rparr>"

text \<open>
  The lead of a hypothesis and the leads of the session. An active lead passes \<open>_validate\<close>, so
  nothing is raised at the end.
\<close>

definition lead_for_hypothesis ::
    "instant \<Rightarrow> string \<Rightarrow> string \<Rightarrow> string \<Rightarrow> string \<Rightarrow> hypothesis \<Rightarrow> lead list \<Rightarrow> lead \<times> lead list" where
  "lead_for_hypothesis now uid project sess target h ls =
     (case List.find (tracks (hy_id h)) ls of
        Some l \<Rightarrow>
          if ld_status l \<in> set closed_leads then (l, ls)
          else let l1 = activate_lead h l in (l1, update_first (tracks (hy_id h)) l1 ls)
      | None \<Rightarrow>
          let l = (new_lead now uid project sess (or_text (hy_target h) target) (hy_title h)
                    (or_text (hy_severity h) ''medium''))\<lparr>ld_hypotheses := [hy_id h]\<rparr>;
              l1 = activate_lead h l
          in (l1, ls @ [l1]))"

text \<open>The stamp of a lead as the planner reads it; \<open>fromisoformat\<close> raises on other texts.\<close>

definition lead_payload :: "lead \<Rightarrow> pydict" where
  "lead_payload l = lead_snapshot l @
     [(''score'', PInt (score_lead [] (if ld_priority l \<in> {''low'', ''medium'', ''high''} then ld_priority l else ''medium'')
        (if ld_evidence l \<noteq> [] then ''static'' else ''none'') False True 0 False True))]"

definition unresolved :: "lead \<Rightarrow> bool" where
  "unresolved l \<longleftrightarrow> ld_status l \<notin> set closed_leads \<and> ld_status l \<noteq> ''VERIFIED'' \<and> ld_status l \<in> set open_leads"

definition is_stale :: "instant option \<Rightarrow> lead \<Rightarrow> bool result" where
  "is_stale before l =
     (case before of
        None \<Rightarrow> Inr False
      | Some t \<Rightarrow>
          if ld_status l \<notin> {''NEW'', ''ACTIVE'', ''BLOCKED''} then Inr False
          else if ld_updated l = [] then Inr False
          else case fromisoformat (ld_updated l) of
            None \<Rightarrow> Inl (ValueError ''Invalid isoformat string'') | Some u \<Rightarrow> Inr (u < t))"

fun stale_payloads :: "instant option \<Rightarrow> lead list \<Rightarrow> pydict list result" where
  "stale_payloads before [] = Inr []"
| "stale_payloads before (l # ls) =
     then_do (is_stale before l) (\<lambda>old. then_do (stale_payloads before ls) (\<lambda>out.
       Inr (if old then lead_payload l # out else out)))"

definition payload_score :: "pydict \<Rightarrow> int" where
  "payload_score d = (case py_get d ''score'' of PInt i \<Rightarrow> i | _ \<Rightarrow> 0)"

definition planner_leads :: "lead list \<Rightarrow> instant option \<Rightarrow> (pydict list \<times> pydict list) result" where
  "planner_leads ls before =
     (let work = filter unresolved ls in
      then_do (stale_payloads before work) (\<lambda>stale.
        Inr (sort_key (\<lambda>d. - payload_score d) (sort_texts (\<lambda>d. py_str_of (py_get d ''id'')) (map lead_payload work)),
             stale)))"

section \<open>What correlation promises\<close>

definition independent_source :: "string \<Rightarrow> bool" where
  "independent_source p \<longleftrightarrow>
     p \<in> set independent_sources \<or> p \<in> set (map provenance_value verification_provenance)"

definition cited :: "evidence_graph \<Rightarrow> string list \<Rightarrow> string set" where
  "cited g ids = {nd_provenance n | n i. i \<in> set ids \<and> map_of (gr_nodes g) i = Some n}"

text \<open>The verdict over sets of provenances.\<close>

definition verdict :: "string set \<Rightarrow> string set \<Rightarrow> hypothesis_status \<Rightarrow> hypothesis_status" where
  "verdict ours against old =
     (if against \<noteq> {} then (if ours \<noteq> {} then HS_WEAKENED else HS_DISPROVED)
      else if 2 \<le> card ours then HS_REQUIRES_REPRODUCTION
      else if ours \<noteq> {} then HS_SUPPORTED else old)"

lemma set_nodes_of: "set (nodes_of g ids) = {n. \<exists>i \<in> set ids. map_of (gr_nodes g) i = Some n}"
  unfolding nodes_of_def by (induction ids) (auto simp: List.map_filter_simps split: option.splits)

lemma set_first_occurrences [simp]: "set (first_occurrences xs) = set xs"
  by (induction xs rule: first_occurrences.induct) auto

lemma distinct_first_occurrences [simp]: "distinct (first_occurrences xs)"
  by (induction xs rule: first_occurrences.induct) auto

lemma first_occurrences_Nil [simp]: "first_occurrences xs = [] \<longleftrightarrow> xs = []"
  by (cases xs) auto

lemma cited_nodes: "nd_provenance ` set (nodes_of g ids) = cited g ids"
  by (auto simp: cited_def set_nodes_of)

lemma set_independent_provenances:
  "set (independent_provenances g h) = {p \<in> cited g (hy_supporting h). independent_source p}"
  unfolding independent_provenances_def set_first_occurrences set_filter
  by (simp add: independent_source_def flip: cited_nodes)

lemma length_independent_provenances:
  "length (independent_provenances g h) = card {p \<in> cited g (hy_supporting h). independent_source p}"
  unfolding set_independent_provenances [symmetric] independent_provenances_def
  by (rule distinct_card [OF distinct_first_occurrences, symmetric])

text \<open>Correlation decides by the sets of provenances of the cited nodes: the strength is the number of
  different independent sources among the supporting nodes, and the status follows from that number
  and from whether a contradicting node exists. Further nodes of one source, nodes of the AI and
  identifiers of no node change nothing, and correlation never verifies.
\<close>

theorem correlation_counts_sources:
  "correlate_hypothesis g h =
     (let ours = {p \<in> cited g (hy_supporting h). independent_source p}; against = cited g (hy_contradicting h)
      in h\<lparr>hy_strength := int (card ours), hy_status := verdict ours against (hy_status h)\<rparr>)"
proof -
  let ?S = "{p \<in> cited g (hy_supporting h). independent_source p}"
  have ours: "independent_provenances g h = [] \<longleftrightarrow> ?S = {}"
    unfolding set_independent_provenances [symmetric] by simp
  have against: "first_occurrences (map nd_provenance (nodes_of g (hy_contradicting h))) = []
      \<longleftrightarrow> cited g (hy_contradicting h) = {}"
    unfolding cited_nodes [symmetric] by simp
  have one: "finite ?S" unfolding set_independent_provenances [symmetric] by simp
  have two: "card ?S = 1 \<longleftrightarrow> \<not> 2 \<le> card ?S \<and> ?S \<noteq> {}"
    using one card_0_eq [of ?S] by linarith
  show ?thesis
    unfolding correlate_hypothesis_def Let_def ours against length_independent_provenances two verdict_def
    by (simp only: if_distrib [of "\<lambda>s. _\<lparr>hy_status := s\<rparr>"]) auto
qed

section \<open>Leads\<close>

lemma update_first_keeps: "x \<in> set xs \<Longrightarrow> \<not> p x \<Longrightarrow> x \<in> set (update_first p y xs)"
  by (induction xs) auto

lemma update_first_new: "List.find p xs \<noteq> None \<Longrightarrow> y \<in> set (update_first p y xs)"
  by (induction xs) (auto split: if_splits)

text \<open>A closed lead stays as it is; a hypothesis with an identifier has a lead afterwards, which is open and valid.\<close>

lemma lead_for_hypothesis_keeps:
  assumes "lead_for_hypothesis now uid project sess target h ls = (l, ls1)"
  shows "c \<in> set ls \<Longrightarrow> ld_status c \<in> set closed_leads \<Longrightarrow> c \<in> set ls1" and "l \<in> set ls1"
    and "hy_id h \<in> set (ld_hypotheses l)"
    and "ld_status l \<in> set closed_leads \<and> ls1 = ls \<or> ld_status l = ''ACTIVE'' \<and> validate_lead l = Inr ()"
proof -
  let ?p = "tracks (hy_id h)"
  have active: "ld_status (activate_lead h k) = ''ACTIVE'' \<and> validate_lead (activate_lead h k) = Inr ()
      \<and> hy_id h \<in> set (ld_hypotheses (activate_lead h k))" for k
    by (simp add: activate_lead_def validate_lead_def)
  consider (closed) "List.find ?p ls = Some l" "ld_status l \<in> set closed_leads" "ls1 = ls"
    | (moved) k where "List.find ?p ls = Some k" "ld_status k \<notin> set closed_leads" "l = activate_lead h k"
        "ls1 = update_first ?p l ls"
    | (fresh) k where "List.find ?p ls = None" "l = activate_lead h k" "ls1 = ls @ [l]"
    using assms by (auto simp: lead_for_hypothesis_def Let_def split: option.splits if_splits)
  note cases = this
  show "c \<in> set ls1" if c: "c \<in> set ls" "ld_status c \<in> set closed_leads"
  proof (cases rule: cases)
    case moved
    show ?thesis unfolding moved(4) using moved(1,2) c by (induction ls) (auto split: if_splits)
  qed (use c in auto)
  show "l \<in> set ls1"
  proof (cases rule: cases)
    case closed
    then show ?thesis using find_Some_prop by fastforce
  next
    case moved
    then show ?thesis by (auto intro: update_first_new)
  qed simp
  show "hy_id h \<in> set (ld_hypotheses l)"
    by (cases rule: cases) (use active in \<open>auto dest!: find_Some_prop simp: tracks_def\<close>)
  show "ld_status l \<in> set closed_leads \<and> ls1 = ls \<or> ld_status l = ''ACTIVE'' \<and> validate_lead l = Inr ()"
    by (cases rule: cases) (use active in auto)
qed

text \<open>Every related identifier of an older lead is kept, and no identifier is entered twice.\<close>

lemma backfill_complete:
  "set hyps \<subseteq> set (backfill xs occ hyps)" and "x \<in> set xs \<Longrightarrow> x \<noteq> [] \<Longrightarrow> x \<in> set occ \<union> set (backfill xs occ hyps)"
    and "distinct hyps \<Longrightarrow> distinct (backfill xs occ hyps)"
proof -
  show sub: "set hyps \<subseteq> set (backfill xs occ hyps)" for xs hyps occ
    by (induction xs occ hyps rule: backfill.induct) auto
  show "x \<in> set xs \<Longrightarrow> x \<noteq> [] \<Longrightarrow> x \<in> set occ \<union> set (backfill xs occ hyps)"
  proof (induction xs occ hyps rule: backfill.induct)
    case (2 y xs occ hyps)
    show ?case
    proof (cases "y = [] \<or> y \<in> set occ \<or> y \<in> set hyps")
      case True
      then show ?thesis using 2 sub [of hyps xs occ] by auto
    next
      case False
      then show ?thesis using 2 sub [of "hyps @ [y]" xs "y # occ"] by auto
    qed
  qed simp
  show "distinct hyps \<Longrightarrow> distinct (backfill xs occ hyps)"
    by (induction xs occ hyps rule: backfill.induct) auto
qed

section \<open>What ranking promises\<close>

lemma ranked_permutation: "mset (rank_hypotheses hs) = mset hs"
  by (simp add: rank_hypotheses_def)

text \<open>A hypothesis is never ranked after one with a lower total.\<close>

lemma ranked_by_total: "sorted_wrt (\<lambda>a b. hd (hypothesis_score b) \<le> hd (hypothesis_score a)) (rank_hypotheses hs)"
proof -
  have le: "hd ys \<le> hd xs" if "map uminus xs \<le> map uminus ys" "xs \<noteq> []" "ys \<noteq> []" for xs ys :: "int list"
    using that by (cases xs; cases ys) auto
  have "sorted (map (\<lambda>h. map uminus (hypothesis_score h)) (rank_hypotheses hs))"
    by (simp add: rank_hypotheses_def)
  then have "sorted_wrt (\<lambda>a b. map uminus (hypothesis_score a) \<le> map uminus (hypothesis_score b)) (rank_hypotheses hs)"
    by (simp add: sorted_map)
  then show ?thesis
    by (rule sorted_wrt_mono_rel [rotated]) (auto intro!: le simp: hypothesis_score_def Let_def)
qed

end
