(* ===== verification/Promotion.thy ===== *)
theory Promotion
  imports Research
begin

text \<open>
  \<open>security_agent/promotion.py\<close>, with \<open>issue_for_finding\<close> of \<open>domain/trusted_evidence.py\<close>: how a
  hypothesis and the nodes it cites become a finding, and how the outcome of a reproduction moves both.
\<close>

section \<open>Evidence from the graph\<close>

text \<open>The server key, the clock, and the identifiers of what one call creates.\<close>

record promotion_env =
  pe_key :: string
  pe_now :: instant
  pe_finding :: string
  pe_items :: "nat \<Rightarrow> string"
  pe_observations :: "nat \<Rightarrow> string"
  pe_objects :: "nat \<Rightarrow> string"

definition issue_for_finding ::
    "string \<Rightarrow> finding \<Rightarrow> evidence \<Rightarrow> string \<Rightarrow> string \<Rightarrow> string \<Rightarrow> evidence result" where
  "issue_for_finding key f e execution uid obj =
     issue_server_observation key e execution (semantic_target_identity f None) (f_id f) (finding_key f)
       (f_project_id f) uid obj"

definition node_kinds :: "(string, evidence_kind) dict" where
  "node_kinds =
     [(''source'', K_SOURCE_CODE), (''request'', K_HTTP_REQUEST), (''response'', K_HTTP_RESPONSE),
      (''scanner_result'', K_SCANNER), (''browser_observation'', K_BROWSER),
      (''reproduction'', K_REPRODUCTION), (''observation'', K_LOG)]"

definition evidence_kinds :: "evidence_kind list" where
  "evidence_kinds =
     [K_AI_ANALYSIS, K_STATIC_ANALYSIS, K_SOURCE_CODE, K_GENERATED_TEST, K_BROWSER, K_PROXY, K_SCANNER,
      K_SCANNER_PLAN, K_TOOL_STATUS, K_FUZZING, K_API_TEST, K_REPRODUCTION, K_SCREENSHOT, K_LOG,
      K_HTTP_REQUEST, K_HTTP_RESPONSE, K_TEST_FAILURE, K_REPLAY, K_ECONOMIC_OBSERVATION,
      K_PROTOCOL_OBSERVATION, K_RUNTIME_OBSERVATION]"

definition kind_from_node :: "string \<Rightarrow> evidence_kind" where
  "kind_from_node k =
     (case map_of node_kinds k of
        Some e \<Rightarrow> e
      | None \<Rightarrow> (case List.find (\<lambda>e. evidence_kind_value e = k) evidence_kinds of None \<Rightarrow> K_LOG | Some e \<Rightarrow> e))"

fun each_result :: "('a \<Rightarrow> 'b result) \<Rightarrow> 'a list \<Rightarrow> 'b list result" where
  "each_result f [] = Inr []"
| "each_result f (x # xs) = then_do (f x) (\<lambda>y. then_do (each_result f xs) (\<lambda>ys. Inr (y # ys)))"

definition node_evidence :: "promotion_env \<Rightarrow> nat \<times> evidence_node \<Rightarrow> evidence result" where
  "node_evidence v x = (case x of (i, n) \<Rightarrow> evidence_init
     \<lparr>ev_kind = kind_from_node (nd_kind n), ev_source = or_text (nd_source n) ''research-agent'',
      ev_summary = or_text (nd_summary n) ''research observation'', ev_details = [], ev_artifact = None,
      ev_metadata = [], ev_provenance = None, ev_collected_at = pe_now v, ev_id = pe_items v i,
      ev_server = None\<rparr>)"

definition unusable :: "string list" where "unusable = [''replay'', ''ai_hypothesis'']"

definition evidence_from_graph :: "promotion_env \<Rightarrow> evidence_graph \<Rightarrow> hypothesis \<Rightarrow> evidence list result" where
  "evidence_from_graph v g h =
     each_result (node_evidence v)
       (enumerate 0 (filter (\<lambda>n. nd_provenance n \<notin> set unusable) (nodes_of g (hy_supporting h))))"

definition stamp_item :: "promotion_env \<Rightarrow> finding \<Rightarrow> nat \<times> evidence \<Rightarrow> evidence result" where
  "stamp_item v f x = (case x of (i, e) \<Rightarrow>
     if ev_kind e \<notin> set research_kinds then Inr e
     else issue_for_finding (pe_key v) f e
            (''research-'' @ evidence_kind_value (ev_kind e) @ ''-'' @ ev_summary e)
            (pe_observations v i) (pe_objects v i))"

definition stamp_research :: "promotion_env \<Rightarrow> finding \<Rightarrow> evidence list \<Rightarrow> evidence list result" where
  "stamp_research v f es = each_result (stamp_item v f) (enumerate 0 es)"

section \<open>Promotion\<close>

text \<open>A finding of which a constructor gives the rest: the defaults of the fields.\<close>

definition blank_finding :: "instant \<Rightarrow> string \<Rightarrow> finding" where
  "blank_finding now uid =
     \<lparr>title = [], status = POTENTIAL, description = [], vulnerability_class = None,
      f_target = None, endpoint = None, source_location = None, hypothesis = None, f_evidence = [],
      f_reproduction = None, observed_behavior = None, expected_behavior = None, impact = None,
      f_confidence = ''low'', reproducibility = None, f_tools = [], ai_analysis = None,
      human_review_state = UNREVIEWED, evidence_tier = TIER_STATIC_INDICATOR, rule_ids = [],
      f_analyzer = None, observation_refs = [], finding_key = [], f_project_id = [], flow_summary = [],
      flow_source = [], flow_sink = [], field_path = [], files_crossed = [], analysis_incomplete = [],
      parser_completeness = [], evidence_summary = [], related_group = [], asset = None,
      report_title = None, report_description = None, created_at = now, f_id = uid\<rparr>"

definition first_finding :: "promotion_env \<Rightarrow> hypothesis \<Rightarrow> finding result" where
  "first_finding v h =
     from_hypothesis (pe_key v) (hy_title h) (hy_reason h) None None None
       ((blank_finding (pe_now v) (pe_finding v))
         \<lparr>vulnerability_class := Some (hy_class h), f_target := Some (hy_target h),
          f_confidence := hy_confidence h, impact := (if hy_impact h = [] then None else Some (hy_impact h))\<rparr>)"

definition hypothesis_fingerprint :: "hypothesis \<Rightarrow> string result" where
  "hypothesis_fingerprint h = finding_fingerprint (hy_class h) (hy_target h) (hy_target h) [] []"

definition fingerprint_of :: "finding \<Rightarrow> string result" where
  "fingerprint_of f =
     finding_fingerprint (opt_text (vulnerability_class f)) (opt_text (f_target f))
       (or_text (opt_text (endpoint f)) (opt_text (f_target f))) [] []"

fun first_with :: "('a \<Rightarrow> string result) \<Rightarrow> string \<Rightarrow> 'a list \<Rightarrow> 'a option result" where
  "first_with f fp [] = Inr None"
| "first_with f fp (x # xs) = then_do (f x) (\<lambda>o1. if o1 = fp then Inr (Some x) else first_with f fp xs)"

definition existing_finding :: "hypothesis \<Rightarrow> finding list \<Rightarrow> finding option result" where
  "existing_finding h fs = then_do (hypothesis_fingerprint h) (\<lambda>fp. first_with fingerprint_of fp fs)"

definition replace_finding :: "finding \<Rightarrow> finding list \<Rightarrow> finding list" where
  "replace_finding f fs = map (\<lambda>x. if f_id x \<noteq> f_id f then x else f) fs"

definition in_project :: "string \<Rightarrow> string \<Rightarrow> finding \<Rightarrow> finding result" where
  "in_project key project f =
     (if project \<noteq> [] \<and> f_project_id f \<noteq> project then finding_init key (f\<lparr>f_project_id := project\<rparr>) else Inr f)"

definition with_evidence :: "promotion_env \<Rightarrow> finding \<Rightarrow> evidence list \<Rightarrow> finding result" where
  "with_evidence v f es =
     (if es = [] then Inr f
      else then_do (stamp_research v f es) (\<lambda>st.
        finding_init (pe_key v) (f\<lparr>f_evidence := bundle_extend (f_evidence f) st\<rparr>)))"

definition corroborable :: "string \<Rightarrow> finding \<Rightarrow> bool" where
  "corroborable key f \<longleftrightarrow>
     can_corroborate key (f_evidence f) (verification_binding f) \<and> status_value (status f) = ''potential''"

definition try_corroborate :: "string \<Rightarrow> hypothesis \<Rightarrow> finding \<Rightarrow> (finding \<times> hypothesis) result" where
  "try_corroborate key h f =
     (if corroborable key f then
        then_do (corroborate key f) (\<lambda>f1.
          Inr (f1, if hy_status h = HS_OPEN then h\<lparr>hy_status := HS_SUPPORTED\<rparr> else h))
      else if hy_status h = HS_REQUIRES_REPRODUCTION \<and> corroborable key f then
        then_do (corroborate key f) (\<lambda>f1. Inr (f1, h))
      else Inr (f, h))"

text \<open>The finding, the hypothesis, and the findings of the session. What raises has changed nothing.\<close>

definition promote ::
    "promotion_env \<Rightarrow> string \<Rightarrow> evidence_graph \<Rightarrow> hypothesis \<Rightarrow> finding list
     \<Rightarrow> (finding \<times> hypothesis \<times> finding list) result" where
  "promote v project g h fs =
     then_do (existing_finding h fs) (\<lambda>old.
     then_do (evidence_from_graph v g h) (\<lambda>es.
     then_do (case old of None \<Rightarrow> first_finding v h | Some f \<Rightarrow> Inr f) (\<lambda>f0.
     then_do (in_project (pe_key v) project f0) (\<lambda>f1.
     then_do (with_evidence v f1 es) (\<lambda>f2.
     then_do (try_corroborate (pe_key v) h f2) (\<lambda>(f3, h1).
       Inr (f3, h1, if old = None then fs @ [f3] else replace_finding f3 fs)))))))"

datatype reproduction_outcome =
    RO_REPRODUCED | RO_NOT_REPRODUCED | RO_INCONCLUSIVE | RO_ENVIRONMENT_ERROR | RO_BLOCKED

fun outcome_value :: "reproduction_outcome \<Rightarrow> string" where
  "outcome_value RO_REPRODUCED = ''reproduced''"
| "outcome_value RO_NOT_REPRODUCED = ''not_reproduced''"
| "outcome_value RO_INCONCLUSIVE = ''inconclusive''"
| "outcome_value RO_ENVIRONMENT_ERROR = ''environment_error''"
| "outcome_value RO_BLOCKED = ''blocked''"

text \<open>A reproduction that raises leaves what the promotion did.\<close>

definition apply_reproduction ::
    "promotion_env \<Rightarrow> string \<Rightarrow> evidence_graph \<Rightarrow> reproduction_outcome \<Rightarrow> evidence list
     \<Rightarrow> hypothesis \<times> finding list \<Rightarrow> finding result \<times> (hypothesis \<times> finding list)" where
  "apply_reproduction v project g outcome es s =
     (case s of (h, fs) \<Rightarrow>
      case promote v project g h fs of
        Inl e \<Rightarrow> (Inl e, (h, fs))
      | Inr (f, h1, fs1) \<Rightarrow>
          (case outcome of
             RO_REPRODUCED \<Rightarrow>
               (let positive = filter positive_reproduction es in
                if positive = [] then (Inr f, (h1\<lparr>hy_status := HS_REQUIRES_REPRODUCTION\<rparr>, fs1))
                else case reproduce (pe_key v) f (Some positive) of
                  Inl e \<Rightarrow> (Inl e, (h1, fs1))
                | Inr f1 \<Rightarrow> (Inr f1, (h1\<lparr>hy_status := HS_SUPPORTED, hy_reproducibility := ''reproduced''\<rparr>,
                                    replace_finding f1 fs1)))
           | RO_NOT_REPRODUCED \<Rightarrow>
               (Inr f, (h1\<lparr>hy_status := HS_WEAKENED, hy_reproducibility := ''not_reproduced''\<rparr>, fs1))
           | RO_BLOCKED \<Rightarrow> (Inr f, (h1\<lparr>hy_reproducibility := ''blocked''\<rparr>, fs1))
           | _ \<Rightarrow> (Inr f, (h1\<lparr>hy_reproducibility := ''inconclusive''\<rparr>, fs1))))"

definition require_not_verify :: "string \<Rightarrow> unit result" where
  "require_not_verify kind =
     (if kind \<in> {''verify_finding'', ''mark_verified''} then Inl (RestrictedActivityError ''verify_finding'')
      else Inr ())"

section \<open>What promotion leaves alone\<close>

definition all_ok :: "string \<Rightarrow> finding list \<Rightarrow> bool" where
  "all_ok key fs \<longleftrightarrow> (\<forall>f \<in> set fs. finding_ok key f)"

definition verified_ids :: "finding list \<Rightarrow> string set" where
  "verified_ids fs = {f_id f | f. f \<in> set fs \<and> is_verified f}"

text \<open>A change keeps the identifier and does not verify.\<close>

definition harmless :: "string \<Rightarrow> finding \<Rightarrow> finding \<Rightarrow> bool" where
  "harmless key f g \<longleftrightarrow> f_id g = f_id f \<and> (is_verified g \<longrightarrow> is_verified f) \<and> (finding_ok key f \<longrightarrow> finding_ok key g)"

named_theorems harmless_steps

lemma harmless_refl [harmless_steps]: "harmless key f f"
  by (simp add: harmless_def)

lemma harmless_trans: "harmless key f g \<Longrightarrow> harmless key g k \<Longrightarrow> harmless key f k"
  by (auto simp: harmless_def)

lemma in_project_harmless [harmless_steps]: "in_project key p f = Inr g \<Longrightarrow> harmless key f g"
  by (auto simp: in_project_def harmless_def is_verified_def split: if_splits dest!: finding_init_Inr)

lemma with_evidence_harmless [harmless_steps]: "with_evidence v f es = Inr g \<Longrightarrow> harmless (pe_key v) f g"
  by (auto simp: with_evidence_def harmless_def is_verified_def split: if_splits dest!: finding_init_Inr)

lemma corroborate_harmless: "corroborate key f = Inr g \<Longrightarrow> harmless key f g"
  by (auto simp: corroborate_def harmless_def is_verified_def verified_statuses_def split: if_splits
      dest!: finding_init_Inr)

lemma try_corroborate_harmless [harmless_steps]: "try_corroborate key h f = Inr (g, h1) \<Longrightarrow> harmless key f g"
  by (auto simp: try_corroborate_def harmless_refl corroborate_harmless split: if_splits)

lemma reproduce_harmless [harmless_steps]: "reproduce key f es = Inr g \<Longrightarrow> harmless key f g"
  by (auto simp: reproduce_def harmless_def is_verified_def verified_statuses_def Let_def split: if_splits
      dest!: finding_init_Inr)

lemma kept_ids:
  "harmless key f g \<Longrightarrow> f \<in> set fs \<Longrightarrow> verified_ids (replace_finding g fs) \<subseteq> verified_ids fs"
  by (auto simp: verified_ids_def replace_finding_def harmless_def split: if_splits) 

lemma kept_ok: "harmless key f g \<Longrightarrow> finding_ok key f \<Longrightarrow> all_ok key fs \<Longrightarrow> all_ok key (replace_finding g fs)"
  by (auto simp: all_ok_def replace_finding_def harmless_def)

lemma first_with_in: "first_with f fp xs = Inr (Some x) \<Longrightarrow> x \<in> set xs"
  by (induction xs) (auto split: if_splits)

lemma existing_finding_in: "existing_finding h fs = Inr (Some f) \<Longrightarrow> f \<in> set fs"
  by (auto simp: existing_finding_def dest: first_with_in)

lemma first_finding_ok: "first_finding v h = Inr f \<Longrightarrow> finding_ok (pe_key v) f \<and> \<not> is_verified f \<and> f_id f = pe_finding v"
  by (auto simp: first_finding_def from_hypothesis_def potential_def is_verified_def verified_statuses_def
      blank_finding_def dest!: finding_init_Inr)

definition harmless_list :: "string \<Rightarrow> finding list \<Rightarrow> finding list \<Rightarrow> bool" where
  "harmless_list key fs fs1 \<longleftrightarrow> (all_ok key fs \<longrightarrow> all_ok key fs1) \<and> verified_ids fs1 \<subseteq> verified_ids fs"

lemma harmless_replace: "harmless key f g \<Longrightarrow> f \<in> set fs \<Longrightarrow> harmless_list key fs (replace_finding g fs)"
  unfolding harmless_list_def using kept_ids [of key f g fs] kept_ok [of key f g fs] by (auto simp: all_ok_def)

lemma harmless_list_trans: "harmless_list key a b \<Longrightarrow> harmless_list key b c \<Longrightarrow> harmless_list key a c"
  by (auto simp: harmless_list_def)

lemma promote_steps:
  assumes "promote v project g h fs = Inr (f, h1, fs1)"
  obtains old f0 where "existing_finding h fs = Inr old" "harmless (pe_key v) f0 f"
    "(case old of None \<Rightarrow> first_finding v h | Some x \<Rightarrow> Inr x) = Inr f0"
    "fs1 = (if old = None then fs @ [f] else replace_finding f fs)"
    "hy_status h1 = HS_VERIFIED \<longrightarrow> hy_status h = HS_VERIFIED"
proof -
  from assms obtain old es f0 f1 f2 where o: "existing_finding h fs = Inr old"
    and f0: "(case old of None \<Rightarrow> first_finding v h | Some x \<Rightarrow> Inr x) = Inr f0"
    and s: "in_project (pe_key v) project f0 = Inr f1" "with_evidence v f1 es = Inr f2"
      "try_corroborate (pe_key v) h f2 = Inr (f, h1)"
    and l: "fs1 = (if old = None then fs @ [f] else replace_finding f fs)"
    by (auto simp: promote_def)
  have "harmless (pe_key v) f0 f" using s by (meson harmless_trans harmless_steps)
  moreover have "hy_status h1 = HS_VERIFIED \<longrightarrow> hy_status h = HS_VERIFIED"
    using s(3) by (auto simp: try_corroborate_def split: if_splits)
  ultimately show ?thesis using that o f0 l by blast
qed

lemma promote_keeps:
  assumes "promote v project g h fs = Inr (f, h1, fs1)"
  shows "harmless_list (pe_key v) fs fs1" and "f \<in> set fs1"
    and "hy_status h1 = HS_VERIFIED \<Longrightarrow> hy_status h = HS_VERIFIED"
proof -
  from assms obtain old f0 where o: "existing_finding h fs = Inr old"
    and m: "harmless (pe_key v) f0 f" and f0: "(case old of None \<Rightarrow> first_finding v h | Some x \<Rightarrow> Inr x) = Inr f0"
    and l: "fs1 = (if old = None then fs @ [f] else replace_finding f fs)"
    and h: "hy_status h1 = HS_VERIFIED \<longrightarrow> hy_status h = HS_VERIFIED" by (rule promote_steps)
  show "hy_status h1 = HS_VERIFIED \<Longrightarrow> hy_status h = HS_VERIFIED" using h by blast
  have "harmless_list (pe_key v) fs fs1 \<and> f \<in> set fs1"
  proof (cases old)
    case None
    then have "finding_ok (pe_key v) f0 \<and> \<not> is_verified f0" using f0 first_finding_ok by auto
    then have "finding_ok (pe_key v) f \<and> \<not> is_verified f" using m by (auto simp: harmless_def)
    then show ?thesis using None l by (auto simp: harmless_list_def all_ok_def verified_ids_def)
  next
    case (Some x)
    then have x: "x \<in> set fs" "f0 = x" using o f0 existing_finding_in by auto
    then have "f \<in> set (replace_finding f fs)" using m by (force simp: replace_finding_def harmless_def)
    then show ?thesis using Some l x m harmless_replace by auto
  qed
  then show "harmless_list (pe_key v) fs fs1" "f \<in> set fs1" by auto
qed

lemma reproduction_keeps:
  assumes "apply_reproduction v project g outcome es (h, fs) = (r, (h1, fs1))"
  shows "harmless_list (pe_key v) fs fs1" and "hy_status h1 = HS_VERIFIED \<Longrightarrow> hy_status h = HS_VERIFIED"
proof -
  have refl: "harmless_list key xs xs" for key xs by (simp add: harmless_list_def)
  have "harmless_list (pe_key v) fs fs1 \<and> (hy_status h1 = HS_VERIFIED \<longrightarrow> hy_status h = HS_VERIFIED)"
  proof (cases "promote v project g h fs")
    case (Inr x)
    then obtain f h0 fs0 where p: "promote v project g h fs = Inr (f, h0, fs0)" by (cases x) auto
    note k = promote_keeps [OF p]
    show ?thesis
    proof (cases "outcome = RO_REPRODUCED \<and> filter positive_reproduction es \<noteq> []")
      case True
      show ?thesis
      proof (cases "reproduce (pe_key v) f (Some (filter positive_reproduction es))")
        case (Inr f1)
        then have "fs1 = replace_finding f1 fs0" "hy_status h1 = HS_SUPPORTED"
          using assms p True by (auto simp: apply_reproduction_def Let_def)
        then show ?thesis
          using harmless_replace [OF reproduce_harmless [OF Inr] k(2)] harmless_list_trans [OF k(1)] by simp
      qed (use assms p True k in \<open>auto simp: apply_reproduction_def Let_def\<close>)
    next
      case False
      then have "fs1 = fs0 \<and> (hy_status h1 = HS_VERIFIED \<longrightarrow> hy_status h0 = HS_VERIFIED)"
        using assms p by (cases outcome) (auto simp: apply_reproduction_def Let_def)
      then show ?thesis using k by auto
    qed
  qed (use assms refl in \<open>auto simp: apply_reproduction_def\<close>)
  then show "harmless_list (pe_key v) fs fs1" "hy_status h1 = HS_VERIFIED \<Longrightarrow> hy_status h = HS_VERIFIED" by auto
qed

section \<open>Runs\<close>

text \<open>Whatever hypotheses and outcomes the agent brings, on the findings of a session.\<close>

datatype promotion_op =
    Promote promotion_env string evidence_graph hypothesis
  | Reproduction promotion_env string evidence_graph reproduction_outcome "evidence list" hypothesis

fun promotion_step :: "finding list \<Rightarrow> promotion_op \<Rightarrow> finding list" where
  "promotion_step fs (Promote v project g h) =
     (case promote v project g h fs of Inl e \<Rightarrow> fs | Inr (f, h1, fs1) \<Rightarrow> fs1)"
| "promotion_step fs (Reproduction v project g outcome es h) =
     snd (snd (apply_reproduction v project g outcome es (h, fs)))"

fun op_key :: "promotion_op \<Rightarrow> string" where
  "op_key (Promote v project g h) = pe_key v"
| "op_key (Reproduction v project g outcome es h) = pe_key v"

lemma promotion_step_keeps: "harmless_list (op_key x) fs (promotion_step fs x)"
proof (cases x)
  case (Promote v project g h)
  then show ?thesis
    by (auto simp: harmless_list_def [of _ fs fs] dest: promote_keeps(1) split: sum.split)
next
  case (Reproduction v project g outcome es h)
  obtain r h1 fs1 where "apply_reproduction v project g outcome es (h, fs) = (r, (h1, fs1))"
    by (metis prod.collapse)
  with Reproduction show ?thesis using reproduction_keeps(1) by auto
qed

interpretation research: guarded_machine "\<lambda>fs. all_ok key fs \<and> verified_ids fs \<subseteq> ids" promotion_step
  "\<lambda>fs x. op_key x = key" "\<lambda>fs. all_ok key fs \<and> verified_ids fs \<subseteq> ids" for key ids
proof unfold_locales
  fix fs x assume "all_ok key fs \<and> verified_ids fs \<subseteq> ids" and "op_key x = key"
  then show "all_ok key (promotion_step fs x) \<and> verified_ids (promotion_step fs x) \<subseteq> ids"
    using promotion_step_keeps [of x fs] by (auto simp: harmless_list_def)
qed

lemma research_run: "(\<And>x. x \<in> set ops \<Longrightarrow> op_key x = key) \<Longrightarrow> research.guarded_run key fs ops"
  by (induction ops arbitrary: fs) auto

text \<open>C20. Research never verifies: whatever hypotheses are promoted and whatever outcomes of reproductions
  are applied, in any order, the findings stay supported by what their status claims, and only
  findings that were verified before are verified afterwards.
\<close>

theorem research_never_verifies:
  assumes "all_ok key fs" and "\<And>x. x \<in> set ops \<Longrightarrow> op_key x = key"
  shows "all_ok key (run_ops promotion_step fs ops)
    \<and> verified_ids (run_ops promotion_step fs ops) \<subseteq> verified_ids fs"
  using research.run_invariant [OF _ research_run [OF assms(2)]] assms(1) by blast

definition sample_node :: evidence_node where
  "sample_node =
     \<lparr>nd_id = ''n1'', nd_kind = ''response'', nd_provenance = ''http_observation'',
      nd_summary = ''GET https://a.example.com/status -> 200'', nd_source = ''http_request'', nd_extra = [],
      nd_session = [], nd_project = [], nd_created = 0\<rparr>"

definition sample_promotion :: promotion_env where
  "sample_promotion =
     \<lparr>pe_key = ''k'', pe_now = 0, pe_finding = ''f1'', pe_items = (\<lambda>i. show_nat i),
      pe_observations = (\<lambda>i. CHR ''o'' # show_nat i), pe_objects = (\<lambda>i. CHR ''b'' # show_nat i)\<rparr>"

definition sample_claim :: hypothesis where
  "sample_claim = (plain_hypothesis ''Takeover'' ''account_takeover'' ''https://b.example.com/login'' ''guess'' ''h1'')
     \<lparr>hy_supporting := [''n1'']\<rparr>"

definition one_node :: evidence_graph where
  "one_node = (empty_graph [] [])\<lparr>gr_nodes := [(''n1'', sample_node)]\<rparr>"

definition sample_research :: "promotion_op list" where
  "sample_research =
     [Promote sample_promotion ''p'' one_node sample_claim,
      Reproduction sample_promotion ''p'' one_node RO_REPRODUCED [] sample_claim]"

lemma sample_research_key: "x \<in> set sample_research \<Longrightarrow> op_key x = ''k''"
  by (auto simp: sample_research_def sample_promotion_def)

theorem research_never_verifies_witness:
  "all_ok ''k'' [sample_finding] \<and>
   verified_ids (run_ops promotion_step [sample_finding] sample_research) = {}"
proof -
  have ok: "all_ok ''k'' [sample_finding]"
    unfolding all_ok_def finding_ok_iff by (simp add: sample_finding_def) code_simp
  have "verified_ids [sample_finding] = {}"
    by (simp add: verified_ids_def is_verified_def sample_finding_def verified_statuses_def)
  then show ?thesis using ok research_never_verifies [OF ok sample_research_key] by simp
qed

section \<open>What a cited response is worth\<close>

lemma first_static_skips: "ev_kind e \<noteq> K_STATIC_ANALYSIS \<Longrightarrow> first_static k (e # es) = first_static k es"
  by simp

lemma identity_skips:
  assumes "ev_kind e \<noteq> K_STATIC_ANALYSIS" and "f_evidence f = []"
  shows "semantic_target_identity (f\<lparr>f_evidence := [e]\<rparr>) None = semantic_target_identity f None"
  using assms by (simp add: semantic_target_identity_def identity_parts_def location_path_def)

lemma identity_status [simp]:
  "semantic_target_identity (f\<lparr>status := st, evidence_tier := t\<rparr>) None = semantic_target_identity f None"
  "semantic_target_identity (f\<lparr>status := st, f_evidence := es, evidence_tier := t\<rparr>) None
     = semantic_target_identity (f\<lparr>f_evidence := es\<rparr>) None"
  by (simp_all add: semantic_target_identity_def identity_parts_def location_path_def)

text \<open>An observation issued for a finding without evidence supports the finding that has only it.\<close>

lemma issued_supports:
  assumes "issue_for_finding key f e execution uid obj = Inr r" and "f_evidence f = []" and "ev_metadata e = []"
    and "ev_kind e = K_HTTP_RESPONSE" and "status f = POTENTIAL" and "py_strip (title f) \<noteq> []"
  shows "corroborable key (f\<lparr>f_evidence := [r]\<rparr>)"
    and "corroborate key (f\<lparr>f_evidence := [r]\<rparr>) = Inr g \<Longrightarrow> \<exists>k. verify key g None = Inr k \<and> status k = VERIFIED"
proof -
  let ?f = "f\<lparr>f_evidence := [r]\<rparr>"
  note iss = assms(1) [unfolded issue_for_finding_def]
  note b = issued_binding [OF iss]
  have id: "f_id f \<noteq> []" using iss by (auto simp: issue_server_observation_def py_strip_def lstrip_by_def rstrip_by_def split: if_splits)
  have t: "semantic_target_identity ?f None = semantic_target_identity f None"
    by (rule identity_skips) (use b assms in auto)
  have kind: "ev_kind r = K_HTTP_RESPONSE" using b assms by simp
  have bound: "bound_to_finding r (verification_binding ?f)"
    using b id t by (simp add: bound_to_finding_def verification_binding_def)
  have con: "\<not> evidence_contradicts r"
  proof -
    obtain s e' where "r = stamped e' uid s" and m: "ev_metadata e' = dict_set ''observation_signature'' (MText s)
        (issue_metadata (ev_metadata e) execution (semantic_target_identity f None) (f_id f) (finding_key f)
          (f_project_id f) uid)" using issued_shape [OF iss] by blast
    then have "meta_text r ''contradicts'' = []" "meta_text r ''reached'' = []"
      using assms(3) by (simp_all add: meta_text_def stamped_def issue_metadata_def dict_drop_def)
    then show ?thesis by (simp add: evidence_contradicts_def py_lower_def)
  qed
  have items: "independent_verification_items key [r] (verification_binding ?f) = [r]"
    using b con kind bound
    by (simp add: independent_verification_items_def positive_reproduction_def independent_kinds_def)
  show "corroborable key ?f"
    using b con kind bound assms(5)
    by (simp add: corroborable_def can_corroborate_def corroborating_kinds_def research_kinds_def independent_kinds_def)
  show "\<exists>k. verify key g None = Inr k \<and> status k = VERIFIED" if "corroborate key ?f = Inr g"
  proof -
    have g: "g = ?f\<lparr>status := CORROBORATED, evidence_tier := TIER_CORROBORATED\<rparr>"
      using that by (auto simp: corroborate_def split: if_splits dest!: finding_init_Inr)
    have vb: "verification_binding (g\<lparr>status := VERIFIED, f_evidence := [r], evidence_tier := TIER_VERIFIED\<rparr>)
        = verification_binding ?f" "verification_binding g = verification_binding ?f"
      by (simp_all add: verification_binding_def g)
    show ?thesis
      using items assms(6) vb
      by (simp add: verify_def merged_evidence_def g finding_init_def trusted_for_def terminal_block_def)
  qed
qed


lemma strip_nonempty: "c \<in> set s \<Longrightarrow> \<not> is_ws c \<Longrightarrow> py_strip s \<noteq> []"
  by (auto simp: py_strip_def lstrip_by_def rstrip_by_def dropWhile_eq_Nil_conv dest: set_dropWhileD)
     (metis dropWhile_eq_Nil_conv in_set_conv_decomp set_takeWhileD takeWhile_dropWhile_id Un_iff set_append)

lemma hex_not_ws: "c \<in> set hex_chars \<Longrightarrow> \<not> is_ws c"
  by (auto simp: hex_chars_def is_ws_def ws_chars_def)


lemma set_hexdigest: "set (hexdigest s) \<subseteq> set hex_chars"
proof -
  have "hex_chars ! (of_char c div 16) \<in> set hex_chars \<and> hex_chars ! (of_char c mod 16) \<in> set hex_chars" for c :: char
  proof -
    have "length hex_chars = 16" by (simp add: hex_chars_def)
    moreover have "of_char c < (256 :: nat)" by simp
    ultimately show ?thesis by (simp add: less_mult_imp_div_less)
  qed
  then show ?thesis by (auto simp: hexdigest_def hex_byte_def)
qed

lemma identity_not_blank: "py_strip (semantic_target_identity f p) \<noteq> []"
proof -
  obtain c cs where c: "semantic_target_identity f p = c # cs"
    using identity_nonempty [of f p] by (cases "semantic_target_identity f p") auto
  then have "c \<in> set (semantic_target_identity f p)" by simp
  then have "c \<in> set hex_chars"
    using set_hexdigest by (auto simp: semantic_target_identity_def sha256_hex_def dest!: in_set_takeD)
  then show ?thesis using c hex_not_ws strip_nonempty [of c] by auto
qed

text \<open>
  The hypothesis claims the takeover of an account at one host and cites the response of another, from
  a status page. It becomes a corroborated finding that \<open>verify\<close> accepts.
\<close>

lemma unrelated_response_verifies:
  "\<exists>f h1 fs g. promote sample_promotion [] one_node sample_claim [] = Inr (f, h1, fs) \<and>
     status f = CORROBORATED \<and> verify ''k'' f None = Inr g \<and> status g = VERIFIED"
proof -
  let ?v = sample_promotion and ?h = sample_claim
  have fp: "is_ok (urlparse [] (hy_target ?h))" by code_simp
  then obtain fp where fp: "hypothesis_fingerprint ?h = Inr fp"
    by (cases "urlparse [] (hy_target ?h)")
      (auto simp: hypothesis_fingerprint_def finding_fingerprint_def Let_def)
  define e where "e = \<lparr>ev_kind = K_HTTP_RESPONSE, ev_source = ''http_request'',
      ev_summary = ''GET https://a.example.com/status -> 200'', ev_details = [], ev_artifact = None,
      ev_metadata = [], ev_provenance = Some P_HTTP_OBSERVATION, ev_collected_at = 0, ev_id = show_nat 0,
      ev_server = None\<rparr>"
  have es: "evidence_from_graph ?v one_node ?h = Inr [e]" unfolding e_def by code_simp
  define f0 where "f0 = (blank_finding 0 ''f1'')\<lparr>vulnerability_class := Some (hy_class ?h), f_target := Some (hy_target ?h),
      title := hy_title ?h, hypothesis := Some (hy_reason ?h), evidence_tier := TIER_AI_HYPOTHESIS,
      ai_analysis := Some (hy_reason ?h)\<rparr>"
  have first: "first_finding ?v ?h = Inr f0" unfolding f0_def by code_simp
  have plain: "f_evidence f0 = []" "status f0 = POTENTIAL" "py_strip (title f0) \<noteq> []" "f_id f0 = ''f1''"
    unfolding f0_def by code_simp+
  have "\<exists>r. issue_for_finding ''k'' f0 e (''research-http_response-'' @ ev_summary e) (CHR ''o'' # show_nat 0) (CHR ''b'' # show_nat 0) = Inr r"
    unfolding issue_for_finding_def
  proof (rule issue_succeeds)
    show "py_strip (semantic_target_identity f0 None) \<noteq> []" by (rule identity_not_blank)
  qed (simp_all add: e_def plain; code_simp)+
  then obtain r where r: "issue_for_finding ''k'' f0 e (''research-http_response-'' @ ev_summary e)
      (CHR ''o'' # show_nat 0) (CHR ''b'' # show_nat 0) = Inr r" by blast
  have ek: "ev_kind e = K_HTTP_RESPONSE" "ev_metadata e = []" by (simp_all add: e_def)
  note c = issued_supports [OF r plain(1) ek(2,1) plain(2,3)]
  let ?f = "f0\<lparr>f_evidence := [r]\<rparr>"
  have st: "stamp_research ?v f0 [e] = Inr [r]"
    using r ek by (simp add: stamp_research_def stamp_item_def research_kinds_def independent_kinds_def sample_promotion_def)
  have init: "finding_init ''k'' ?f = Inr ?f" using plain by (simp add: finding_init_def)
  obtain g where g: "corroborate ''k'' ?f = Inr g" "status g = CORROBORATED"
    using c(1) plain by (auto simp: corroborable_def corroborate_def finding_init_def terminal_block_def verified_statuses_def)
  obtain k where k: "verify ''k'' g None = Inr k" "status k = VERIFIED" using c(2) [OF g(1)] by blast
  have "pe_key ?v = ''k''" by (simp add: sample_promotion_def)
  then have "\<exists>h1. promote ?v [] one_node ?h [] = Inr (g, h1, [g])"
    using fp es first st init plain c(1) g
    by (simp add: promote_def existing_finding_def in_project_def with_evidence_def bundle_extend_def try_corroborate_def)
  then show ?thesis using g k by blast
qed

end
