(* ===== verification/Reproduction.thy ===== *)
theory Reproduction
  imports Promotion EngineRuns Injection
begin

text \<open>
  \<open>security_agent/oracles.py\<close> and \<open>reproduction.py\<close>: the oracles of a reproduction and the engine
  that carries out a reproduction plan through the gated HTTP client.
\<close>

section \<open>Equality of Python values\<close>

text \<open>\<open>a == b\<close>: numbers by value, dictionaries without order.\<close>

fun py_number :: "pyval \<Rightarrow> rat option" where
  "py_number (PBool b) = Some (if b then 1 else 0)"
| "py_number (PInt i) = Some (of_int i)"
| "py_number (PFloat x) = Some x"
| "py_number v = None"

function py_eq :: "pyval \<Rightarrow> pyval \<Rightarrow> bool" and py_eq_list :: "pyval list \<Rightarrow> pyval list \<Rightarrow> bool"
  and py_eq_items :: "pydict \<Rightarrow> pydict \<Rightarrow> bool" where
  "py_eq (PList xs) v = (case v of PList ys \<Rightarrow> py_eq_list xs ys | _ \<Rightarrow> False)"
| "py_eq (PDict d) v = (case v of PDict e \<Rightarrow> length d = length e \<and> py_eq_items d e | _ \<Rightarrow> False)"
| "py_eq (PStr s) v = (v = PStr s)"
| "py_eq PNone v = (v = PNone)"
| "py_eq (PBool b) v = (py_number v = py_number (PBool b))"
| "py_eq (PInt i) v = (py_number v = py_number (PInt i))"
| "py_eq (PFloat x) v = (py_number v = py_number (PFloat x))"
| "py_eq_list [] ys = (ys = [])"
| "py_eq_list (x # xs) ys = (case ys of [] \<Rightarrow> False | y # ys1 \<Rightarrow> py_eq x y \<and> py_eq_list xs ys1)"
| "py_eq_items [] e = True"
| "py_eq_items ((k, v) # d) e =
     ((case map_of e k of None \<Rightarrow> False | Some w \<Rightarrow> py_eq v w) \<and> py_eq_items d e)"
  by pat_completeness auto
termination
  by (relation "measure (\<lambda>x. case x of Inl (v, w) \<Rightarrow> size v | Inr (Inl (xs, ys)) \<Rightarrow> size_list size xs
      | Inr (Inr (d, e)) \<Rightarrow> size_list (size_prod (\<lambda>_. 0) size) d)") auto

section \<open>Oracles\<close>

datatype oracle_type =
    OR_EXACT_RESPONSE | OR_RESPONSE_FIELD | OR_RESOURCE_IDENTITY | OR_AUTHORIZATION_DIFFERENCE
  | OR_STATE_TRANSITION | OR_INVARIANT_VIOLATION | OR_SENSITIVE_DATA_EXPOSURE
  | OR_SOURCE_RUNTIME_CONSISTENCY

definition oracles :: "(string, oracle_type) dict" where
  "oracles =
     [(''exact_response'', OR_EXACT_RESPONSE), (''response_field'', OR_RESPONSE_FIELD),
      (''resource_identity'', OR_RESOURCE_IDENTITY), (''authorization_difference'', OR_AUTHORIZATION_DIFFERENCE),
      (''state_transition'', OR_STATE_TRANSITION), (''invariant_violation'', OR_INVARIANT_VIOLATION),
      (''sensitive_data_exposure'', OR_SENSITIVE_DATA_EXPOSURE),
      (''source_runtime_consistency'', OR_SOURCE_RUNTIME_CONSISTENCY)]"

definition artifact_hash :: "string \<Rightarrow> string" where
  "artifact_hash payload = sha256_hex payload"

text \<open>\<open>str(a) in str(b)\<close>.\<close>

definition text_in :: "pyval \<Rightarrow> pyval \<Rightarrow> bool" where
  "text_in a b \<longleftrightarrow> py_contains (py_str_of b) (py_str_of a)"

text \<open>\<open>next(iter(expected))\<close> of an empty dictionary raises.\<close>

definition evaluate_oracle :: "oracle_type \<Rightarrow> pyval \<Rightarrow> pyval \<Rightarrow> bool result" where
  "evaluate_oracle orc expected actual =
     (case orc of
        OR_EXACT_RESPONSE \<Rightarrow> Inr (py_eq expected actual)
      | OR_RESPONSE_FIELD \<Rightarrow>
          (case (actual, expected) of
             (PDict a, PDict []) \<Rightarrow> Inl (RuntimeError ''StopIteration'')
           | (PDict a, PDict ((k, v) # d)) \<Rightarrow> Inr (py_eq (py_get a k) (py_get ((k, v) # d) k))
           | _ \<Rightarrow> Inr (text_in expected actual))
      | OR_RESOURCE_IDENTITY \<Rightarrow> Inr (py_str_of expected = py_str_of actual)
      | OR_AUTHORIZATION_DIFFERENCE \<Rightarrow> Inr (\<not> py_eq expected actual)
      | OR_STATE_TRANSITION \<Rightarrow> Inr (py_str_of expected = py_str_of actual)
      | OR_INVARIANT_VIOLATION \<Rightarrow>
          Inr (if expected = PBool True then \<not> py_true actual else \<not> py_eq actual expected)
      | OR_SENSITIVE_DATA_EXPOSURE \<Rightarrow> Inr (py_str_of expected \<noteq> [] \<and> text_in expected actual)
      | OR_SOURCE_RUNTIME_CONSISTENCY \<Rightarrow> Inr (text_in expected actual))"

section \<open>Plans\<close>

record repro_action =
  rn_method :: string
  rn_url :: string
  rn_content :: "string option"
  rn_status :: "int option"
  rn_contains :: "string option"
  rn_headers :: "(string, string) dict"

record repro_plan =
  pl_preconditions :: "string list"
  pl_setup :: string
  pl_actions :: "repro_action list"
  pl_expected :: string
  pl_actual :: string
  pl_collect :: "string list"
  pl_cleanup :: string
  pl_status :: string
  pl_outcome :: reproduction_outcome
  pl_count :: int
  pl_runs :: "string list"
  pl_identity :: string
  pl_oracle :: string
  pl_request_hashes :: "string list"
  pl_response_hashes :: "string list"
  pl_cleanup_result :: string
  pl_id :: string

definition empty_plan :: "string \<Rightarrow> repro_plan" where
  "empty_plan uid =
     \<lparr>pl_preconditions = [], pl_setup = [], pl_actions = [], pl_expected = [], pl_actual = [],
      pl_collect = [], pl_cleanup = [], pl_status = ''planned'', pl_outcome = RO_INCONCLUSIVE, pl_count = 1,
      pl_runs = [], pl_identity = [], pl_oracle = [], pl_request_hashes = [], pl_response_hashes = [],
      pl_cleanup_result = [], pl_id = uid\<rparr>"

definition opt_val :: "string option \<Rightarrow> pyval" where
  "opt_val t = (case t of None \<Rightarrow> PNone | Some s \<Rightarrow> PStr s)"

definition opt_int :: "int option \<Rightarrow> pyval" where
  "opt_int n = (case n of None \<Rightarrow> PNone | Some i \<Rightarrow> PInt i)"

definition repro_snapshot :: "repro_plan \<Rightarrow> pydict" where
  "repro_snapshot p =
     [(''id'', PStr (pl_id p)), (''preconditions'', text_list (pl_preconditions p)),
      (''setup'', PStr (pl_setup p)), (''identity_context'', PStr (pl_identity p)),
      (''actions'', PList (map (\<lambda>a. PDict
         [(''method'', PStr (rn_method a)), (''url'', PStr (rn_url a)),
          (''expected_status'', opt_int (rn_status a)),
          (''expected_body_contains'', opt_val (rn_contains a))]) (pl_actions p))),
      (''expected_result'', PStr (pl_expected p)), (''actual_result'', PStr (pl_actual p)),
      (''evidence_to_collect'', text_list (pl_collect p)), (''cleanup'', PStr (pl_cleanup p)),
      (''cleanup_result'', PStr (pl_cleanup_result p)), (''status'', PStr (pl_status p)),
      (''outcome'', PStr (outcome_value (pl_outcome p))), (''oracle_type'', PStr (pl_oracle p)),
      (''reproducibility_count'', PInt (pl_count p)), (''runs'', text_list (pl_runs p)),
      (''request_hashes'', text_list (pl_request_hashes p)),
      (''response_hashes'', text_list (pl_response_hashes p))]"

definition has_oracle :: "repro_plan \<Rightarrow> bool" where
  "has_oracle p \<longleftrightarrow>
     (if py_strip (pl_oracle p) \<noteq> [] then True
      else if py_strip (pl_expected p) \<noteq> [] then True
      else list_ex (\<lambda>a. opt_text (rn_contains a) \<noteq> [] \<or> rn_status a \<noteq> None \<and> pl_expected p \<noteq> []) (pl_actions p))"

definition expected_body :: "repro_plan \<Rightarrow> repro_action \<Rightarrow> string" where
  "expected_body p a = or_text (opt_text (rn_contains a)) (pl_expected p)"

definition status_verdict :: "repro_action \<Rightarrow> int option \<Rightarrow> bool option" where
  "status_verdict a st = (if rn_status a \<noteq> None then (if st = rn_status a then None else Some False) else None)"

definition oracle_match :: "repro_plan \<Rightarrow> repro_action \<Rightarrow> int option \<Rightarrow> string \<Rightarrow> bool option result" where
  "oracle_match p a st body =
     (let expected = expected_body p a in
      case map_of oracles (pl_oracle p) of
        Some orc \<Rightarrow>
          then_do (if orc = OR_AUTHORIZATION_DIFFERENCE then evaluate_oracle orc (opt_int (rn_status a)) (opt_int st)
                   else evaluate_oracle orc (PStr expected) (PStr body)) (\<lambda>hit. Inr (Some hit))
      | None \<Rightarrow>
          if expected \<noteq> [] then
            (if rn_status a \<noteq> None \<and> st \<noteq> rn_status a then Inr (Some False)
             else Inr (Some (py_contains (py_lower body) (py_lower expected))))
          else Inr (status_verdict a st))"

section \<open>One run\<close>

text \<open>What one HTTP request of a run reads: its hops and its stamps.\<close>

record http_env =
  hv_hops :: "nat \<Rightarrow> hop_env"
  hv_made :: stamp
  hv_copied :: stamp
  hv_stamp :: stamp

definition action_call :: "repro_action \<Rightarrow> http_call" where
  "action_call a =
     \<lparr>hc_method = rn_method a, hc_url = rn_url a,
      hc_headers = (if rn_headers a = [] then None else Some (rn_headers a)),
      hc_content = (case rn_content a of None \<Rightarrow> No_Payload | Some s \<Rightarrow> Text_Payload s), hc_timeout = None,
      hc_destructive = False, hc_active = True, hc_follow = False\<rparr>"

record run_state =
  rt_engine :: engine
  rt_plan :: repro_plan
  rt_results :: "string list"
  rt_matched :: nat
  rt_observed :: nat

text \<open>A loop that ends early has the outcome of the run; otherwise it goes on to its end.\<close>

datatype run_end = Run_Raise error | Run_Return reproduction_outcome string | Run_Through

definition observe_exchange :: "repro_action \<Rightarrow> http_exchange \<Rightarrow> run_state \<Rightarrow> bool option result \<times> run_state" where
  "observe_exchange a x s =
     (let st = response_status x;
          body = py_take 2000 (redact_text (opt_text (response_body x)));
          shown = (case st of None \<Rightarrow> ''None'' | Some n \<Rightarrow> show_int n);
          p = (rt_plan s)
            \<lparr>pl_request_hashes := pl_request_hashes (rt_plan s) @
               [artifact_hash (rn_method a @ '' '' @ rn_url a @ '' '' @ opt_text (rn_content a))],
             pl_response_hashes := pl_response_hashes (rt_plan s) @ [artifact_hash (shown @ '':'' @ body)]\<rparr>
      in (oracle_match p a st body,
          s\<lparr>rt_plan := p, rt_observed := Suc (rt_observed s),
            rt_results := rt_results s @ [rn_method a @ '' '' @ rn_url a @ '' -> '' @ shown]\<rparr>))"

definition joined_results :: "run_state \<Rightarrow> string" where
  "joined_results s = py_join ''; '' (rt_results s)"

definition state_text :: "tool_state \<Rightarrow> string" where
  "state_text st =
     (case st of
        NOT_REQUESTED \<Rightarrow> ''not_requested'' | Tools.AUTHORIZED \<Rightarrow> ''authorized'' | PLANNED \<Rightarrow> ''planned''
      | WAITING_FOR_APPROVAL \<Rightarrow> ''waiting_for_approval'' | RUNNING \<Rightarrow> ''running'' | COMPLETED \<Rightarrow> ''completed''
      | RESULTS_AVAILABLE \<Rightarrow> ''results_available'' | RESULTS_INGESTED \<Rightarrow> ''results_ingested''
      | TOOL_UNAVAILABLE \<Rightarrow> ''tool_unavailable'' | TIMEOUT \<Rightarrow> ''timeout'' | NETWORK_FAILURE \<Rightarrow> ''network_failure''
      | INVALID_SCOPE \<Rightarrow> ''invalid_scope'' | SAFETY_BLOCKED \<Rightarrow> ''safety_blocked''
      | EXECUTION_ERROR \<Rightarrow> ''execution_error'' | FAILED \<Rightarrow> ''failed''
      | AUTHENTICATION_FAILURE \<Rightarrow> ''authentication_failure'' | TS_RATE_LIMITED \<Rightarrow> ''rate_limited''
      | MALFORMED_INPUT \<Rightarrow> ''malformed_input'' | TS_DENIED \<Rightarrow> ''denied'' | DRY_RUN \<Rightarrow> ''dry_run''
      | APPROVAL_REQUIRED \<Rightarrow> ''approval_required'' | TS_OK \<Rightarrow> ''ok'')"

text \<open>One turn of the loop over the actions; \<open>Run_Through\<close> goes on to the next.\<close>

definition after_exchange :: "repro_action \<Rightarrow> http_exchange \<Rightarrow> run_state \<Rightarrow> run_end \<times> run_state" where
  "after_exchange a x s =
     (case observe_exchange a x s of
        (Inl exc, s1) \<Rightarrow> (Run_Raise exc, s1)
      | (Inr verd, s1) \<Rightarrow>
          if verd = Some False then (Run_Return RO_NOT_REPRODUCED (joined_results s1), s1)
          else if verd = Some True then (Run_Through, s1\<lparr>rt_matched := Suc (rt_matched s1)\<rparr>)
          else (Run_Through, s1))"

definition after_result :: "tool_result \<Rightarrow> run_state \<Rightarrow> run_end \<times> run_state" where
  "after_result r s =
     (if tr_state r = TIMEOUT then (Run_Return RO_ENVIRONMENT_ERROR (or_text (tr_detail r) ''timeout''), s)
      else if tr_state r = DRY_RUN then (Run_Return RO_INCONCLUSIVE ''dry-run; not executed'', s)
      else (Run_Through, s\<lparr>rt_results := rt_results s @ [state_text (tr_state r)]\<rparr>))"

definition after_raise :: "error \<Rightarrow> run_state \<Rightarrow> run_end \<times> run_state" where
  "after_raise exc s =
     (case exc of
        AuthorizationDeniedError m \<Rightarrow> (Run_Return RO_BLOCKED ''blocked by ScopeGuard/SafetyController'', s)
      | _ \<Rightarrow> (Run_Raise exc, s))"

definition run_action :: "http_env \<Rightarrow> repro_action \<Rightarrow> run_state \<Rightarrow> run_end \<times> run_state" where
  "run_action v a s =
     (if py_upper (rn_method a) \<in> {''DELETE'', ''PUT'', ''PATCH''}
         \<and> \<not> lab_mode (ss_scope (en_session (rt_engine s)))
      then (Run_Raise (RestrictedActivityError ''destructive_reproduction''), s)
      else case http_request ''reproduce'' (action_call a) (hv_hops v) (hv_made v) (hv_copied v) (hv_stamp v)
                  (rt_engine s) of
        (out, e, sends) \<Rightarrow>
          (let s1 = s\<lparr>rt_engine := e\<rparr> in
           case out of
             Inl exc \<Rightarrow> after_raise exc s1
           | Inr (Tool_Outcome r) \<Rightarrow> after_result r s1
           | Inr (Exchange x) \<Rightarrow> after_exchange a x s1))"

fun run_actions :: "(nat \<Rightarrow> http_env) \<Rightarrow> nat \<Rightarrow> repro_action list \<Rightarrow> run_state \<Rightarrow> run_end \<times> run_state" where
  "run_actions env i [] s = (Run_Through, s)"
| "run_actions env i (a # as) s =
     (case run_action (env i) a s of
        (Run_Through, s1) \<Rightarrow> run_actions env (Suc i) as s1
      | (Run_Raise exc, s1) \<Rightarrow> (Run_Raise exc, s1)
      | (Run_Return outcome t, s1) \<Rightarrow> (Run_Return outcome t, s1))"

definition through_outcome :: "run_state \<Rightarrow> reproduction_outcome" where
  "through_outcome s =
     (if \<not> has_oracle (rt_plan s) then RO_INCONCLUSIVE
      else if 0 < rt_matched s \<and> rt_matched s = rt_observed s then RO_REPRODUCED
      else if rt_observed s = 0 then RO_ENVIRONMENT_ERROR
      else RO_INCONCLUSIVE)"

text \<open>The outcome and its text, the plan with its hashes and the engine.\<close>

definition run_once ::
    "(nat \<Rightarrow> http_env) \<Rightarrow> repro_plan \<Rightarrow> engine
     \<Rightarrow> (reproduction_outcome \<times> string) result \<times> repro_plan \<times> engine" where
  "run_once env p e =
     (case run_actions env 0 (pl_actions p)
             \<lparr>rt_engine = e, rt_plan = p, rt_results = [], rt_matched = 0, rt_observed = 0\<rparr> of
        (Run_Raise exc, s) \<Rightarrow> (Inl exc, rt_plan s, rt_engine s)
      | (Run_Return outcome actual, s) \<Rightarrow> (Inr (outcome, actual), rt_plan s, rt_engine s)
      | (Run_Through, s) \<Rightarrow>
          (Inr (through_outcome s,
                wrap_untrusted ''reproduction'' (or_text (joined_results s) ''no actions'')),
           rt_plan s, rt_engine s))"

section \<open>Repetitions\<close>

text \<open>The outcomes and texts of the repetitions until one raises.\<close>

fun run_repeats ::
    "(nat \<Rightarrow> nat \<Rightarrow> http_env) \<Rightarrow> nat \<Rightarrow> nat \<Rightarrow> repro_plan \<Rightarrow> engine
     \<Rightarrow> error option \<times> (reproduction_outcome \<times> string) list \<times> repro_plan \<times> engine" where
  "run_repeats env k 0 p e = (None, [], p, e)"
| "run_repeats env k (Suc n) p e =
     (case run_once (env k) p e of
        (Inl exc, p1, e1) \<Rightarrow> (Some exc, [], p1, e1)
      | (Inr r, p1, e1) \<Rightarrow>
          (case run_repeats env (Suc k) n p1 e1 of (exc, rs, p2, e2) \<Rightarrow> (exc, r # rs, p2, e2)))"

definition run_note :: "reproduction_outcome \<times> string \<Rightarrow> string" where
  "run_note r = outcome_value (fst r) @ '':'' @ snd r"

definition count_of :: "reproduction_outcome \<Rightarrow> (reproduction_outcome \<times> string) list \<Rightarrow> nat" where
  "count_of outcome rs = length (filter (\<lambda>r. fst r = outcome) rs)"

definition set_outcome :: "reproduction_outcome \<Rightarrow> repro_plan \<Rightarrow> repro_plan" where
  "set_outcome outcome p = p\<lparr>pl_outcome := outcome, pl_status := outcome_value outcome\<rparr>"

definition overall :: "repro_plan \<Rightarrow> nat \<Rightarrow> (reproduction_outcome \<times> string) list \<Rightarrow> reproduction_outcome" where
  "overall p repeats rs =
     (let successes = count_of RO_REPRODUCED rs in
      if count_of RO_BLOCKED rs \<noteq> 0 \<and> successes = 0 then RO_BLOCKED
      else if count_of RO_ENVIRONMENT_ERROR rs \<noteq> 0 \<and> successes = 0 then RO_ENVIRONMENT_ERROR
      else if successes = repeats \<and> has_oracle p then RO_REPRODUCED
      else if count_of RO_NOT_REPRODUCED rs \<noteq> 0 \<and> successes = 0 then RO_NOT_REPRODUCED
      else RO_INCONCLUSIVE)"

definition repeats_of :: "repro_plan \<Rightarrow> nat" where
  "repeats_of p = nat (max 1 (pl_count p))"

text \<open>An exception other than a restriction leaves the plan as it is by then.\<close>

definition execute_plan ::
    "(nat \<Rightarrow> nat \<Rightarrow> http_env) \<Rightarrow> repro_plan \<Rightarrow> engine \<Rightarrow> unit result \<times> repro_plan \<times> engine" where
  "execute_plan env p0 e =
     (if pl_actions p0 = [] then (Inr (), (set_outcome RO_INCONCLUSIVE p0)\<lparr>pl_actual := ''no actions''\<rparr>, e)
      else let p = (if has_oracle p0 then p0 else set_outcome RO_INCONCLUSIVE p0) in
        case run_repeats env 0 (repeats_of p) p e of
          (Some (RestrictedActivityError m), rs, p1, e1) \<Rightarrow>
            (let t = error_text (RestrictedActivityError m) in
             (Inr (), (set_outcome RO_BLOCKED p1)\<lparr>pl_actual := t, pl_runs := map run_note rs @ [t]\<rparr>, e1))
        | (Some exc, rs, p1, e1) \<Rightarrow> (Inl exc, p1, e1)
        | (None, rs, p1, e1) \<Rightarrow>
            (Inr (), set_outcome (overall p1 (repeats_of p) rs)
               (p1\<lparr>pl_runs := map run_note rs, pl_actual := snd (List.last ((RO_INCONCLUSIVE, []) # rs))\<rparr>), e1))"

section \<open>What a reproduced plan shows\<close>

text \<open>An exchange of a run: its action, status and redacted body, and the hash the plan keeps of it.\<close>

type_synonym observed = "repro_action \<times> int option \<times> string"

definition response_hash :: "observed \<Rightarrow> string" where
  "response_hash x = (case x of (a, st, body) \<Rightarrow>
     artifact_hash ((case st of None \<Rightarrow> ''None'' | Some n \<Rightarrow> show_int n) @ '':'' @ body))"

definition hits :: "repro_plan \<Rightarrow> observed \<Rightarrow> bool" where
  "hits p x \<longleftrightarrow> (case x of (a, st, body) \<Rightarrow> a \<in> set (pl_actions p) \<and> oracle_match p a st body = Inr (Some True))"

text \<open>Two plans that test the same.\<close>

definition same_plan :: "repro_plan \<Rightarrow> repro_plan \<Rightarrow> bool" where
  "same_plan p q \<longleftrightarrow>
     pl_actions q = pl_actions p \<and> pl_expected q = pl_expected p \<and> pl_oracle q = pl_oracle p"

lemma same_plan_refl [simp]: "same_plan p p"
  by (simp add: same_plan_def)

lemma same_plan_trans: "same_plan p q \<Longrightarrow> same_plan q r \<Longrightarrow> same_plan p r"
  by (simp add: same_plan_def)

lemma same_plan_has_oracle: "same_plan p q \<Longrightarrow> has_oracle q = has_oracle p"
  by (simp add: same_plan_def has_oracle_def)

lemma same_plan_match: "same_plan p q \<Longrightarrow> oracle_match q a st body = oracle_match p a st body"
  by (simp add: same_plan_def oracle_match_def expected_body_def)


lemma same_plan_hits: "same_plan p q \<Longrightarrow> hits q x = hits p x"
  by (cases x) (simp add: hits_def same_plan_match, simp add: same_plan_def)

text \<open>What a run adds: the exchanges it observed, of which it counts those that hit.\<close>

definition run_adds :: "repro_action list \<Rightarrow> run_state \<Rightarrow> run_state \<Rightarrow> observed list \<Rightarrow> bool" where
  "run_adds as s s1 xs \<longleftrightarrow>
     same_plan (rt_plan s) (rt_plan s1) \<and> fst ` set xs \<subseteq> set as \<and>
     pl_response_hashes (rt_plan s1) = pl_response_hashes (rt_plan s) @ map response_hash xs \<and>
     rt_observed s1 = rt_observed s + length xs \<and>
     rt_matched s1 = rt_matched s
       + length (filter (\<lambda>(a, st, b). oracle_match (rt_plan s) a st b = Inr (Some True)) xs)"

lemma observe_exchange_adds:
  assumes "observe_exchange a x s = (r, s1)"
  shows "\<exists>o1. fst o1 = a \<and> r = oracle_match (rt_plan s) a (fst (snd o1)) (snd (snd o1)) \<and>
    same_plan (rt_plan s) (rt_plan s1) \<and> rt_observed s1 = Suc (rt_observed s) \<and> rt_matched s1 = rt_matched s \<and>
    pl_response_hashes (rt_plan s1) = pl_response_hashes (rt_plan s) @ [response_hash o1]"
proof -
  let ?o = "(a, response_status x, py_take 2000 (redact_text (opt_text (response_body x))))"
  have "same_plan (rt_plan s) (rt_plan s1)" using assms by (auto simp: observe_exchange_def Let_def same_plan_def)
  moreover have "r = oracle_match (rt_plan s1) a (fst (snd ?o)) (snd (snd ?o))"
    "rt_observed s1 = Suc (rt_observed s)" "rt_matched s1 = rt_matched s"
    "pl_response_hashes (rt_plan s1) = pl_response_hashes (rt_plan s) @ [response_hash ?o]"
    using assms by (auto simp: observe_exchange_def Let_def response_hash_def)
  ultimately show ?thesis using same_plan_match by (intro exI [of _ ?o]) auto
qed

lemma run_adds_skip: "run_adds as (s\<lparr>rt_engine := e, rt_results := rs\<rparr>) s1 xs \<Longrightarrow> run_adds (a # as) s s1 xs"
  by (auto simp: run_adds_def)

lemma run_adds_more:
  assumes "run_adds as s2 s1 xs" and "fst o1 = a" and "same_plan (rt_plan s) (rt_plan s2)"
    and "pl_response_hashes (rt_plan s2) = pl_response_hashes (rt_plan s) @ [response_hash o1]"
    and "rt_observed s2 = Suc (rt_observed s)"
    and "rt_matched s2 = rt_matched s
      + (if oracle_match (rt_plan s) a (fst (snd o1)) (snd (snd o1)) = Inr (Some True) then 1 else 0)"
  shows "run_adds (a # as) s s1 (o1 # xs)"
proof -
  have "oracle_match (rt_plan s2) b st body = oracle_match (rt_plan s) b st body" for b st body
    by (rule same_plan_match [OF assms(3)])
  then show ?thesis using assms same_plan_trans [OF assms(3)]
    by (cases o1) (auto simp: run_adds_def)
qed

lemma after_exchange_adds:
  assumes "after_exchange a x (s\<lparr>rt_engine := e\<rparr>) = (Run_Through, s2)" and "run_adds as s2 s1 xs"
  shows "\<exists>o1. run_adds (a # as) s s1 (o1 # xs)"
proof -
  obtain verd s3 where x: "observe_exchange a x (s\<lparr>rt_engine := e\<rparr>) = (Inr verd, s3)"
    and s2: "s2 = (if verd = Some True then s3\<lparr>rt_matched := Suc (rt_matched s3)\<rparr> else s3)"
    using assms(1) by (auto simp: after_exchange_def split: prod.splits sum.splits if_splits)
  obtain o1 where o1: "fst o1 = a" "oracle_match (rt_plan s) a (fst (snd o1)) (snd (snd o1)) = Inr verd"
      "same_plan (rt_plan s) (rt_plan s3)" "rt_observed s3 = Suc (rt_observed s)" "rt_matched s3 = rt_matched s"
      "pl_response_hashes (rt_plan s3) = pl_response_hashes (rt_plan s) @ [response_hash o1]"
    using observe_exchange_adds [OF x] by auto
  have "run_adds (a # as) s s1 (o1 # xs)" by (rule run_adds_more [OF assms(2)]) (use o1 in \<open>simp_all add: s2\<close>)
  then show ?thesis by blast
qed

lemma run_action_adds:
  assumes "run_action v a s = (Run_Through, s2)" and "run_adds as s2 s1 xs"
  shows "\<exists>ys. run_adds (a # as) s s1 ys"
proof -
  obtain out e sends where h: "http_request ''reproduce'' (action_call a) (hv_hops v) (hv_made v) (hv_copied v)
      (hv_stamp v) (rt_engine s) = (out, e, sends)" by (metis prod_cases3)
  from assms(1) h consider (skip) r where "after_result r (s\<lparr>rt_engine := e\<rparr>) = (Run_Through, s2)"
    | (exchange) x where "after_exchange a x (s\<lparr>rt_engine := e\<rparr>) = (Run_Through, s2)"
    by (auto simp: run_action_def Let_def after_raise_def split: if_splits sum.splits http_outcome.splits error.splits)
  then show ?thesis
  proof cases
    case skip
    then have "s2 = s\<lparr>rt_engine := e, rt_results := rt_results s @ [state_text (tr_state r)]\<rparr>"
      by (auto simp: after_result_def split: if_splits)
    then show ?thesis using assms(2) run_adds_skip by blast
  qed (use after_exchange_adds assms(2) in blast)
qed

lemma run_actions_adds:
  "run_actions env i as s = (Run_Through, s1) \<Longrightarrow> \<exists>xs. run_adds as s s1 xs"
proof (induction as arbitrary: i s)
  case Nil
  then show ?case by (intro exI [of _ "[]"]) (simp add: run_adds_def)
next
  case (Cons a as)
  then obtain s2 where "run_action (env i) a s = (Run_Through, s2)" "run_actions env (Suc i) as s2 = (Run_Through, s1)"
    by (auto split: prod.splits run_end.splits)
  then show ?case using Cons.IH run_action_adds by blast
qed

text \<open>No run ends early as reproduced.\<close>

lemma run_action_early: "run_action v a s = (Run_Return outcome t, s1) \<Longrightarrow> outcome \<noteq> RO_REPRODUCED"
  by (auto simp: run_action_def Let_def after_raise_def after_result_def after_exchange_def
      split: if_splits prod.splits sum.splits http_outcome.splits error.splits)

lemma early_not_reproduced: "run_actions env i as s = (Run_Return outcome t, s1) \<Longrightarrow> outcome \<noteq> RO_REPRODUCED"
  by (induction as arbitrary: i s) (auto dest: run_action_early split: prod.splits run_end.splits)

definition all_hit :: "repro_plan \<Rightarrow> observed list \<Rightarrow> bool" where
  "all_hit p xs \<longleftrightarrow> xs \<noteq> [] \<and> list_all (hits p) xs"

lemma same_plan_all_hit: "same_plan p q \<Longrightarrow> all_hit q = all_hit p"
proof -
  assume "same_plan p q"
  then have "hits q = hits p" by (intro ext) (rule same_plan_hits)
  then show ?thesis unfolding all_hit_def [abs_def] by simp
qed

lemma filter_all: "length (filter q xs) = length xs \<Longrightarrow> list_all q xs"
  by (metis filter_id_conv length_filter_less less_irrefl list_all_iff)

lemma run_once_reproduced:
  assumes "run_once env p e = (Inr (RO_REPRODUCED, t), p1, e1)"
  shows "has_oracle p \<and> same_plan p p1 \<and>
    (\<exists>xs. all_hit p xs \<and> pl_response_hashes p1 = pl_response_hashes p @ map response_hash xs)"
proof -
  let ?s = "\<lparr>rt_engine = e, rt_plan = p, rt_results = [], rt_matched = 0, rt_observed = 0\<rparr>"
  from assms obtain s1 where r: "run_actions env 0 (pl_actions p) ?s = (Run_Through, s1)"
    and t: "through_outcome s1 = RO_REPRODUCED" "p1 = rt_plan s1"
    by (auto simp: run_once_def early_not_reproduced split: prod.splits run_end.splits)
  obtain xs where xs: "run_adds (pl_actions p) ?s s1 xs" using run_actions_adds [OF r] by blast
  then have s: "same_plan p p1" by (simp add: run_adds_def t(2))
  have c: "has_oracle p1" "0 < rt_matched s1" "rt_matched s1 = rt_observed s1"
    using t by (auto simp: through_outcome_def split: if_splits)
  then have "list_all (\<lambda>(a, st, b). oracle_match p a st b = Inr (Some True)) xs"
    using xs by (intro filter_all) (simp add: run_adds_def)
  then have "list_all (hits p) xs" using xs by (auto simp: list_all_iff hits_def run_adds_def)
  moreover have "xs \<noteq> []" using c xs by (auto simp: run_adds_def)
  ultimately have "all_hit p xs" by (simp add: all_hit_def)
  then show ?thesis using c(1) s xs same_plan_has_oracle t(2) by (auto simp: run_adds_def)
qed

lemma run_repeats_reproduced:
  "run_repeats env k n p e = (None, rs, p1, e1) \<Longrightarrow> count_of RO_REPRODUCED rs = n \<Longrightarrow>
   length rs = n \<and> (\<exists>xss. length xss = n \<and> list_all (all_hit p) xss \<and> (0 < n \<longrightarrow> has_oracle p) \<and>
     same_plan p p1 \<and> pl_response_hashes p1 = pl_response_hashes p @ map response_hash (concat xss))"
proof (induction n arbitrary: k p e rs)
  case 0
  then show ?case by (auto intro: exI [of _ "[]"])
next
  case (Suc n)
  obtain r p2 e2 rs1 where r: "run_once (env k) p e = (Inr r, p2, e2)"
    and m: "run_repeats env (Suc k) n p2 e2 = (None, rs1, p1, e1)" and rs: "rs = r # rs1"
    using Suc.prems(1) by (auto split: prod.splits sum.splits)
  have len: "length rs1 = n" using m
    by (induction n arbitrary: k p2 e2 rs1) (auto split: prod.splits sum.splits)
  have "count_of RO_REPRODUCED rs1 \<le> n" using len by (auto simp: count_of_def intro: order_trans [OF length_filter_le])
  then have f: "fst r = RO_REPRODUCED" and c: "count_of RO_REPRODUCED rs1 = n"
    using Suc.prems(2) rs by (auto simp: count_of_def split: if_splits)
  have r1: "run_once (env k) p e = (Inr (RO_REPRODUCED, snd r), p2, e2)" using r f by (cases r) simp
  obtain xs where x: "has_oracle p" "same_plan p p2" "all_hit p xs"
      "pl_response_hashes p2 = pl_response_hashes p @ map response_hash xs"
    using run_once_reproduced [OF r1] by blast
  have hit: "all_hit p2 = all_hit p" by (rule same_plan_all_hit [OF x(2)])
  obtain xss where y: "length xss = n" "list_all (all_hit p2) xss" "same_plan p2 p1"
      "pl_response_hashes p1 = pl_response_hashes p2 @ map response_hash (concat xss)"
    using Suc.IH [OF m c] by blast
  show ?case
    by (intro conjI exI [of _ "xs # xss"]) (use x y hit len rs same_plan_trans in auto)
qed

text \<open>C21. A plan that ends as reproduced has earned it: it has an oracle, and each of its repetitions
  observed at least one exchange of its actions and matched the oracle on every exchange it observed.
  The hashes kept in the plan are those of exactly these exchanges, in order.
\<close>

theorem reproduction_is_earned:
  assumes "execute_plan env p e = (Inr (), p1, e1)" and "pl_outcome p1 = RO_REPRODUCED"
    and "pl_response_hashes p = []"
  shows "has_oracle p \<and> (\<exists>xss. length xss = repeats_of p \<and> list_all (all_hit p) xss \<and>
    pl_response_hashes p1 = map response_hash (concat xss))"
proof -
  have n: "0 < repeats_of p" by (simp add: repeats_of_def)
  let ?p = "if has_oracle p then p else set_outcome RO_INCONCLUSIVE p"
  have s: "same_plan p ?p" "pl_response_hashes ?p = []" "repeats_of ?p = repeats_of p"
    using assms(3) by (simp_all add: same_plan_def set_outcome_def repeats_of_def)
  obtain rs p2 where r: "run_repeats env 0 (repeats_of p) ?p e = (None, rs, p2, e1)"
    and o: "overall p2 (repeats_of p) rs = RO_REPRODUCED" and h: "pl_response_hashes p1 = pl_response_hashes p2"
    using assms s(3) by (auto simp: execute_plan_def Let_def set_outcome_def
        split: if_splits prod.splits option.splits error.splits)
  have "count_of RO_REPRODUCED rs = repeats_of p" using o by (auto simp: overall_def Let_def split: if_splits)
  from run_repeats_reproduced [OF r this] obtain xss where "length xss = repeats_of p" "list_all (all_hit ?p) xss"
      "has_oracle ?p" "pl_response_hashes p2 = map response_hash (concat xss)" using n s(2) by auto
  moreover have "all_hit ?p = all_hit p" by (rule same_plan_all_hit [OF s(1)])
  moreover have "has_oracle ?p = has_oracle p" by (rule same_plan_has_oracle [OF s(1)])
  ultimately show ?thesis using h by auto
qed

text \<open>
  An oracle without an expectation: a plan that names the oracle of a response field and expects
  nothing matches any response.
\<close>

lemma empty_expectation_matches:
  "oracle_match ((empty_plan uid)\<lparr>pl_oracle := ''response_field''\<rparr>)
     \<lparr>rn_method = ''GET'', rn_url = url, rn_content = None, rn_status = None, rn_contains = None, rn_headers = []\<rparr>
     st body = Inr (Some True)"
proof -
  have "map_of oracles ''response_field'' = Some OR_RESPONSE_FIELD" by code_simp
  moreover have "py_contains body []" by (simp add: py_contains.simps [of body])
  ultimately show ?thesis
    by (simp add: oracle_match_def empty_plan_def expected_body_def or_text_def opt_text_def evaluate_oracle_def
        text_in_def py_str_of_def)
qed

section \<open>A reproduction in the laboratory\<close>

definition sample_url :: string where "sample_url = ''http://localhost:8000/x''"

definition sample_reply :: http_response where
  "sample_reply =
     \<lparr>rs_status = 200, rs_url = sample_url, rs_headers = [], rs_location = None, rs_content_type = None,
      rs_content = ''root'', rs_elapsed_seconds = 0\<rparr>"

definition lab_env :: http_env where
  "lab_env =
     \<lparr>hv_hops = (\<lambda>n. \<lparr>he_auth = public_readings, he_stamp = (''b'', 0), he_now = 0, he_later = 0,
        he_look = (\<lambda>h. []), he_confirm = (\<lambda>h. []), he_net = (\<lambda>s. Reply sample_reply)\<rparr>),
      hv_made = (''m'', 0), hv_copied = (''c'', 0), hv_stamp = (''s'', 0)\<rparr>"

definition sample_step :: repro_action where
  "sample_step =
     \<lparr>rn_method = ''GET'', rn_url = sample_url, rn_content = None, rn_status = None,
      rn_contains = Some ''ROOT'', rn_headers = []\<rparr>"

definition sample_plan :: repro_plan where
  "sample_plan = (empty_plan ''p1'')\<lparr>pl_actions := [sample_step]\<rparr>"

definition open_lab :: engine where
  "open_lab = made (lab_session\<lparr>ss_scope := closed_scope\<lparr>s_allow_active := True\<rparr>, ss_active := True\<rparr>)"

abbreviation lab_hop :: hop_state where
  "lab_hop \<equiv> initial_hop (action_call sample_step) (open_lab)"

abbreviation lab_call :: client_call where
  "lab_call \<equiv> client_call_of ''reproduce'' (action_call sample_step) (open_lab)"

abbreviation lab_question :: auth_request where
  "lab_question \<equiv> hop_request lab_call lab_hop"

lemma lab_authorized:
  obtains d e where "authorize_request lab_question public_readings (open_lab) = (Inr d, e)"
    "allowed d" "\<not> d_dry_run d" "en_stamps e = []" "same_setup e (open_lab)"
proof -
  let ?e = "open_lab"
  define sd where "sd = consult_guard ?e lab_question"
  have c: "authorize_error ?e lab_question public_readings = None"
    "approval_denial ?e lab_question public_readings = None" "ss_mode (en_session ?e) \<noteq> LIVE" by code_simp+
  have sd: "allowed sd" unfolding sd_def by code_simp
  obtain safe ctl where s: "check_request (q_target lab_question) (q_method lab_question) (q_tool lab_question)
      (q_payload lab_question) (q_destructive lab_question) (Some sd) (k_begin public_readings)
      (k_elapsed public_readings) (k_log public_readings) (en_safety ?e) = (safe, ctl)" by fastforce
  have "(case check_request (q_target lab_question) (q_method lab_question) (q_tool lab_question)
      (q_payload lab_question) (q_destructive lab_question) (Some (consult_guard open_lab lab_question))
      (k_begin public_readings) (k_elapsed public_readings) (k_log public_readings) (en_safety open_lab) of
        (safe, ctl) \<Rightarrow> sd_allowed safe \<and> \<not> sd_dry_run safe)"
    by code_simp
  with s have safe: "sd_allowed safe" "\<not> sd_dry_run safe" by (simp_all flip: sd_def)
  have r: "rate_check (en_rate_limits ?e) (k_mono public_readings) (en_stamps ?e) = (Inr rate_ok, [])" by code_simp
  have ok: "rd_allowed rate_ok" by code_simp
  obtain d e where a: "authorize_request lab_question public_readings ?e = (Inr d, e)"
    and d: "allowed d" "\<not> d_dry_run d" "en_stamps e = []"
    using c sd s safe r ok
    by (auto simp: authorize_request_def Let_def sd_def [symmetric] authorize_sending_def conclude_def
        log_decision_def allowance_def scope_decision_def engine_audit_def)
  show ?thesis by (rule that [OF a d]) (use authorize_request_same [OF a] in simp)
qed


lemma lab_exchanged:
  obtains x e sends where "http_request ''reproduce'' (action_call sample_step) (hv_hops lab_env) (hv_made lab_env)
      (hv_copied lab_env) (hv_stamp lab_env) open_lab = (Inr (Exchange x), e, sends)"
    "response_status x = Some 200" "response_body x = Some ''root''"
proof -
  let ?env = "hv_hops lab_env 0"
  obtain d e where a: "authorize_request lab_question public_readings open_lab = (Inr d, e)"
    and d: "allowed d" "\<not> d_dry_run d" "en_stamps e = []" and s: "same_setup e open_lab" by (rule lab_authorized)
  have mode: "ss_mode (en_session open_lab) \<noteq> LIVE" "\<not> dry_run (en_safety open_lab)" by code_simp+
  then have e: "ss_mode (en_session e) \<noteq> LIVE" "\<not> dry_run (en_safety e)" using s by (simp_all add: same_setup_def)
  have "rate_require (en_rate_limits open_lab) 0 0 [] = (Inr (), [0])" by code_simp
  then have r: "rate_require (en_rate_limits e) 0 0 [] = (Inr (), [0])" using s by (simp add: same_setup_def)
  obtain send e1 where h: "start_hop lab_call lab_hop ?env open_lab = (Hop_Send (reason d) send, e1)"
    using a d e r
    by (simp add: start_hop_def lab_env_def pin_connection_def Let_def)
  have n: "after_reply lab_call lab_hop (Reply sample_reply) = Next_Final sample_reply" by code_simp
  have hops: "hp_hops lab_hop = 0" by (simp add: initial_hop_def)
  have run: "run_hops lab_call (hv_hops lab_env) lab_hop open_lab = (Hops_Final (reason d) sample_reply, end_hop e1, [send])"
    using h n hops by (subst run_hops.simps) (simp add: Let_def lab_env_def)
  define why where "why = reason d"
  define t where "t = then_do (exchange_init ''m'' 0 (report_exchange (action_call sample_step) ''reproduce''
        (limits (en_safety open_lab)) why sample_reply)) (redact_exchange ''c'' 0)"
  have "(case t of Inl exc \<Rightarrow> False
      | Inr x \<Rightarrow> response_status x = Some 200 \<and> response_body x = Some ''root'')"
    unfolding t_def by code_simp
  then obtain x where x: "t = Inr x" "response_status x = Some 200" "response_body x = Some ''root''"
    by (auto split: sum.splits)
  show ?thesis
    by (rule that [OF _ x(2,3)])
      (use run x(1) in \<open>simp add: http_request_def lab_env_def t_def [symmetric] flip: why_def\<close>)
qed

lemma lab_reproduced:
  "\<exists>p e. execute_plan (\<lambda>k i. lab_env) sample_plan open_lab = (Inr (), p, e) \<and> pl_outcome p = RO_REPRODUCED"
proof -
  obtain x e sends where x: "http_request ''reproduce'' (action_call sample_step) (hv_hops lab_env) (hv_made lab_env)
      (hv_copied lab_env) (hv_stamp lab_env) open_lab = (Inr (Exchange x), e, sends)"
    "response_status x = Some 200" "response_body x = Some ''root''" by (rule lab_exchanged)
  have m: "oracle_match q sample_step (Some 200) (py_take 2000 (redact_text ''root'')) = Inr (Some True)"
    if "pl_oracle q = []" for q
  proof -
    have "py_contains (py_lower (py_take 2000 (redact_text ''root''))) (py_lower ''ROOT'')"
      "map_of oracles [] = None" by code_simp+
    then show ?thesis using that by (simp add: oracle_match_def expected_body_def sample_step_def or_text_def opt_text_def)
  qed
  have safe: "py_upper (rn_method sample_step) \<notin> {''DELETE'', ''PUT'', ''PATCH''}" by code_simp
  have plan: "pl_actions sample_plan = [sample_step]" "has_oracle sample_plan" "repeats_of sample_plan = 1"
      "pl_oracle sample_plan = []"
    by (simp_all add: sample_plan_def empty_plan_def has_oracle_def py_strip_def lstrip_by_def rstrip_by_def
        sample_step_def opt_text_def repeats_of_def)
  let ?s = "\<lparr>rt_engine = open_lab, rt_plan = sample_plan, rt_results = [], rt_matched = 0, rt_observed = 0\<rparr>"
  obtain s1 where s1: "run_action lab_env sample_step ?s = (Run_Through, s1)"
      "rt_matched s1 = 1" "rt_observed s1 = 1" "same_plan sample_plan (rt_plan s1)"
    using x m safe plan(4)
    by (simp add: run_action_def Let_def after_exchange_def observe_exchange_def opt_text_def same_plan_def)
  have once: "run_once (\<lambda>i. lab_env) sample_plan open_lab = (Inr (RO_REPRODUCED,
      wrap_untrusted ''reproduction'' (or_text (joined_results s1) ''no actions'')), rt_plan s1, rt_engine s1)"
    using s1 plan same_plan_has_oracle [OF s1(4)] by (simp add: run_once_def through_outcome_def)
  then show ?thesis
    using plan same_plan_has_oracle [OF s1(4)]
    by (simp add: execute_plan_def overall_def count_of_def set_outcome_def)
qed

theorem reproduction_is_earned_witness:
  "has_oracle sample_plan \<and> (\<exists>xss. length xss = 1 \<and> list_all (all_hit sample_plan) xss)"
proof -
  obtain p e where p: "execute_plan (\<lambda>k i. lab_env) sample_plan open_lab = (Inr (), p, e)"
      "pl_outcome p = RO_REPRODUCED" using lab_reproduced by blast
  have h: "pl_response_hashes sample_plan = []" "repeats_of sample_plan = 1"
    by (simp_all add: sample_plan_def empty_plan_def repeats_of_def)
  show ?thesis using reproduction_is_earned [OF p h(1)] h(2) by auto
qed

end
