(* ===== verification/Budget.thy ===== *)
theory Budget
  imports PyVal Approvals
begin

text \<open>
  \<open>security_agent/budget.py\<close> and \<open>cost.py\<close>: the budgets of a research session and the estimates of
  what a tool call costs. The settings are an argument; a failing operation returns the budget it
  leaves behind, since \<open>consume\<close> counts before it compares.
\<close>

section \<open>The budget of a session\<close>

record session_budget =
  b_max_tool_calls :: int
  b_max_requests :: int
  b_max_browser_actions :: int
  b_max_fuzz_requests :: int
  b_max_iterations :: int
  b_max_tokens :: int
  b_max_scan_seconds :: rat
  b_max_identical_calls :: int
  b_identical_call_window_seconds :: rat
  b_max_exploratory_tests :: int
  b_max_exploratory_iterations :: int
  b_max_exploratory_seconds :: rat
  b_tool_calls :: int
  b_requests :: int
  b_browser_actions :: int
  b_fuzz_requests :: int
  b_iterations :: int
  b_tokens :: int
  b_scan_seconds :: rat
  b_exploratory_tests :: int
  b_exploratory_iterations :: int
  b_exploratory_seconds :: rat
  b_extra_granted_by :: "string option"
  b_planned_requests :: int
  b_reserved_requests :: int
  b_planned_fuzz_requests :: int
  b_reserved_fuzz_requests :: int
  b_planned_browser_actions :: int
  b_reserved_browser_actions :: int
  b_planned_tool_calls :: int
  b_reserved_tool_calls :: int
  b_planned_exploratory_tests :: int
  b_reserved_exploratory_tests :: int
  b_planned_exploratory_iterations :: int
  b_reserved_exploratory_iterations :: int
  b_planned_exploratory_seconds :: rat
  b_reserved_exploratory_seconds :: rat

definition default_budget :: session_budget where
  "default_budget =
     \<lparr>b_max_tool_calls = 40, b_max_requests = 50, b_max_browser_actions = 20,
             b_max_fuzz_requests = 20, b_max_iterations = 20, b_max_tokens = 200000,
             b_max_scan_seconds = 300, b_max_identical_calls = 2,
             b_identical_call_window_seconds = 120, b_max_exploratory_tests = 4,
             b_max_exploratory_iterations = 3, b_max_exploratory_seconds = 60, b_tool_calls = 0,
             b_requests = 0, b_browser_actions = 0, b_fuzz_requests = 0, b_iterations = 0,
             b_tokens = 0, b_scan_seconds = 0, b_exploratory_tests = 0,
             b_exploratory_iterations = 0, b_exploratory_seconds = 0, b_extra_granted_by = None,
             b_planned_requests = 0, b_reserved_requests = 0, b_planned_fuzz_requests = 0,
             b_reserved_fuzz_requests = 0, b_planned_browser_actions = 0,
             b_reserved_browser_actions = 0, b_planned_tool_calls = 0, b_reserved_tool_calls = 0,
             b_planned_exploratory_tests = 0, b_reserved_exploratory_tests = 0,
             b_planned_exploratory_iterations = 0, b_reserved_exploratory_iterations = 0,
             b_planned_exploratory_seconds = 0, b_reserved_exploratory_seconds = 0\<rparr>"

definition bucket_of :: "string \<Rightarrow> string" where
  "bucket_of unit =
     (if unit \<in> {''requests'', ''request''} then ''requests''
      else if unit \<in> {''fuzz_requests'', ''fuzz''} then ''fuzz_requests''
      else if unit \<in> {''browser_actions'', ''browser''} then ''browser_actions''
      else if unit \<in> {''exploratory_tests'', ''exploratory''} then ''exploratory_tests''
      else if unit = ''exploratory_iterations'' then ''exploratory_iterations''
      else if unit = ''exploratory_seconds'' then ''exploratory_seconds''
      else ''tool_calls'')"

text \<open>\<open>plan\<close> adds an estimate, \<open>reserve\<close> replaces the last one; neither consumes.\<close>

definition plan_units :: "string \<Rightarrow> rat \<Rightarrow> session_budget \<Rightarrow> session_budget" where
  "plan_units unit amount b =
     (let bucket = bucket_of unit in
      if bucket = ''requests'' then b\<lparr>b_planned_requests := b_planned_requests b + max 0 (py_int amount)\<rparr>
      else if bucket = ''fuzz_requests'' then b\<lparr>b_planned_fuzz_requests := b_planned_fuzz_requests b + max 0 (py_int amount)\<rparr>
      else if bucket = ''browser_actions'' then b\<lparr>b_planned_browser_actions := b_planned_browser_actions b + max 0 (py_int amount)\<rparr>
      else if bucket = ''exploratory_tests'' then b\<lparr>b_planned_exploratory_tests := b_planned_exploratory_tests b + max 0 (py_int amount)\<rparr>
      else if bucket = ''exploratory_iterations'' then b\<lparr>b_planned_exploratory_iterations := b_planned_exploratory_iterations b + max 0 (py_int amount)\<rparr>
      else if bucket = ''exploratory_seconds'' then b\<lparr>b_planned_exploratory_seconds := b_planned_exploratory_seconds b + max 0 amount\<rparr>
      else b\<lparr>b_planned_tool_calls := b_planned_tool_calls b + max 0 (py_int amount)\<rparr>)"

definition reserve_units :: "string \<Rightarrow> rat \<Rightarrow> session_budget \<Rightarrow> session_budget" where
  "reserve_units unit amount b =
     (let bucket = bucket_of unit in
      if bucket = ''requests'' then b\<lparr>b_reserved_requests := max 0 (py_int amount)\<rparr>
      else if bucket = ''fuzz_requests'' then b\<lparr>b_reserved_fuzz_requests := max 0 (py_int amount)\<rparr>
      else if bucket = ''browser_actions'' then b\<lparr>b_reserved_browser_actions := max 0 (py_int amount)\<rparr>
      else if bucket = ''exploratory_tests'' then b\<lparr>b_reserved_exploratory_tests := max 0 (py_int amount)\<rparr>
      else if bucket = ''exploratory_iterations'' then b\<lparr>b_reserved_exploratory_iterations := max 0 (py_int amount)\<rparr>
      else if bucket = ''exploratory_seconds'' then b\<lparr>b_reserved_exploratory_seconds := max 0 amount\<rparr>
      else b\<lparr>b_reserved_tool_calls := max 0 (py_int amount)\<rparr>)"

section \<open>Consumption\<close>

text \<open>Count first, then compare with the cap.\<close>

definition capped :: "bool \<Rightarrow> string \<Rightarrow> session_budget \<Rightarrow> unit result \<times> session_budget" where
  "capped exceeded why b = ((if exceeded then Inl (SafetyLimitExceededError why) else Inr ()), b)"

definition consume_exploratory :: "int \<Rightarrow> session_budget \<Rightarrow> unit result \<times> session_budget" where
  "consume_exploratory amount b =
     (if b_max_exploratory_seconds b \<le> b_exploratory_seconds b then
        (Inl (SafetyLimitExceededError ''exploratory time budget exhausted''), b)
      else let b1 = b\<lparr>b_exploratory_tests := b_exploratory_tests b + amount,
                     b_exploratory_iterations := b_exploratory_iterations b + amount\<rparr> in
        if b_max_exploratory_tests b1 < b_exploratory_tests b1 then
          (Inl (SafetyLimitExceededError ''exploratory test budget exhausted''), b1)
        else capped (b_max_exploratory_iterations b1 < b_exploratory_iterations b1)
               ''exploratory iteration budget exhausted'' b1)"

definition consume :: "string \<Rightarrow> int \<Rightarrow> session_budget \<Rightarrow> unit result \<times> session_budget" where
  "consume kind amount b =
     (if kind = ''tool'' then
        (let b1 = b\<lparr>b_tool_calls := b_tool_calls b + amount\<rparr>
         in capped (b_max_tool_calls b1 < b_tool_calls b1) ''tool call budget exhausted'' b1)
      else if kind = ''request'' then
        (let b1 = b\<lparr>b_requests := b_requests b + amount\<rparr>
         in capped (b_max_requests b1 < b_requests b1) ''request budget exhausted'' b1)
      else if kind = ''browser'' then
        (let b1 = b\<lparr>b_browser_actions := b_browser_actions b + amount\<rparr>
         in capped (b_max_browser_actions b1 < b_browser_actions b1) ''browser action budget exhausted'' b1)
      else if kind = ''fuzz'' then
        (let b1 = b\<lparr>b_fuzz_requests := b_fuzz_requests b + amount\<rparr>
         in capped (b_max_fuzz_requests b1 < b_fuzz_requests b1) ''fuzz request budget exhausted'' b1)
      else if kind = ''iteration'' then
        (let b1 = b\<lparr>b_iterations := b_iterations b + amount\<rparr>
         in capped (b_max_iterations b1 < b_iterations b1) ''reasoning iteration budget exhausted'' b1)
      else if kind = ''token'' then
        (let b1 = b\<lparr>b_tokens := b_tokens b + amount\<rparr>
         in capped (b_max_tokens b1 < b_tokens b1) ''token budget exhausted'' b1)
      else if kind = ''scan'' then
        (let b1 = b\<lparr>b_scan_seconds := b_scan_seconds b + of_int amount\<rparr>
         in capped (b_max_scan_seconds b1 < b_scan_seconds b1) ''scan duration budget exhausted'' b1)
      else if kind = ''exploratory'' then consume_exploratory amount b
      else (Inr (), b))"

definition consume_scan :: "rat \<Rightarrow> session_budget \<Rightarrow> unit result \<times> session_budget" where
  "consume_scan secs b =
     (let b1 = b\<lparr>b_scan_seconds := b_scan_seconds b + max 0 secs\<rparr>
      in capped (b_max_scan_seconds b1 < b_scan_seconds b1) ''scan duration budget exhausted'' b1)"

definition note_exploratory_seconds :: "rat \<Rightarrow> session_budget \<Rightarrow> unit result \<times> session_budget" where
  "note_exploratory_seconds secs b =
     (let b1 = b\<lparr>b_exploratory_seconds := b_exploratory_seconds b + max 0 secs\<rparr>
      in capped (b_max_exploratory_seconds b1 < b_exploratory_seconds b1)
           ''exploratory time budget exhausted'' b1)"

section \<open>Moving and raising caps\<close>

text \<open>The categories of \<open>reallocate\<close>: the cap and the use that its table names, and how to set the cap.\<close>

definition movable :: "string list" where
  "movable = [''tool'', ''request'', ''browser'', ''fuzz'', ''iteration'']"

definition movable_cap :: "string \<Rightarrow> session_budget \<Rightarrow> int" where
  "movable_cap k b =
     (if k = ''tool'' then b_max_tool_calls b else if k = ''request'' then b_max_requests b
      else if k = ''browser'' then b_max_browser_actions b
      else if k = ''fuzz'' then b_max_fuzz_requests b else b_max_iterations b)"

definition movable_used :: "string \<Rightarrow> session_budget \<Rightarrow> int" where
  "movable_used k b =
     (if k = ''tool'' then b_tool_calls b else if k = ''request'' then b_requests b
      else if k = ''browser'' then b_browser_actions b
      else if k = ''fuzz'' then b_fuzz_requests b else b_iterations b)"

definition set_cap :: "string \<Rightarrow> int \<Rightarrow> session_budget \<Rightarrow> session_budget" where
  "set_cap k v b =
     (if k = ''tool'' then b\<lparr>b_max_tool_calls := v\<rparr> else if k = ''request'' then b\<lparr>b_max_requests := v\<rparr>
      else if k = ''browser'' then b\<lparr>b_max_browser_actions := v\<rparr>
      else if k = ''fuzz'' then b\<lparr>b_max_fuzz_requests := v\<rparr> else b\<lparr>b_max_iterations := v\<rparr>)"

definition reallocate ::
    "string \<Rightarrow> string \<Rightarrow> int \<Rightarrow> session_budget \<Rightarrow> unit result \<times> session_budget" where
  "reallocate src dst amount b =
     (if amount \<le> 0 then (Inl (SafetyLimitExceededError ''reallocate amount must be positive''), b)
      else if src \<notin> set movable \<or> dst \<notin> set movable \<or> src = dst then
        (Inl (SafetyLimitExceededError ''invalid budget reallocation''), b)
      else if movable_cap src b - movable_used src b < amount then
        (Inl (SafetyLimitExceededError ''cannot reallocate more than remaining source budget''), b)
      else let b1 = set_cap src (movable_cap src b - amount) b
        in (Inr (), set_cap dst (movable_cap dst b1 + amount) b1))"

definition grant_more :: "string \<Rightarrow> int \<Rightarrow> session_budget \<Rightarrow> unit result \<times> session_budget" where
  "grant_more operator extra b =
     (if is_ai_operator operator then
        (Inl (RestrictedActivityError ''The AI cannot grant itself additional budget''), b)
      else (Inr (), b\<lparr>b_max_tool_calls := b_max_tool_calls b + max 0 extra,
                    b_extra_granted_by := Some operator\<rparr>))"

section \<open>Snapshots\<close>

definition remaining :: "session_budget \<Rightarrow> pydict" where
  "remaining b =
     [(''tool_calls'', PInt (b_max_tool_calls b - b_tool_calls b)),
      (''requests'', PInt (b_max_requests b - b_requests b)),
      (''browser_actions'', PInt (b_max_browser_actions b - b_browser_actions b)),
      (''fuzz_requests'', PInt (b_max_fuzz_requests b - b_fuzz_requests b)),
      (''iterations'', PInt (b_max_iterations b - b_iterations b)),
      (''tokens'', PInt (b_max_tokens b - b_tokens b)),
      (''scan_seconds'', PFloat (b_max_scan_seconds b - b_scan_seconds b)),
      (''exploratory_tests'', PInt (b_max_exploratory_tests b - b_exploratory_tests b)),
      (''exploratory_iterations'', PInt (b_max_exploratory_iterations b - b_exploratory_iterations b)),
      (''exploratory_seconds'', PFloat (b_max_exploratory_seconds b - b_exploratory_seconds b))]"

text \<open>\<open>float(value) <= 0\<close> for one of the remaining amounts.\<close>

fun spent :: "pyval \<Rightarrow> bool" where
  "spent (PInt i) = (i \<le> 0)"
| "spent (PFloat x) = (x \<le> 0)"
| "spent v = False"

definition exhausted :: "session_budget \<Rightarrow> bool" where
  "exhausted b = list_ex (\<lambda>(k, v). spent v) (remaining b)"

definition budget_max :: "session_budget \<Rightarrow> pydict" where
  "budget_max b =
     [(''tool_calls'', PInt (b_max_tool_calls b)), (''requests'', PInt (b_max_requests b)),
      (''browser_actions'', PInt (b_max_browser_actions b)),
      (''fuzz_requests'', PInt (b_max_fuzz_requests b)),
      (''iterations'', PInt (b_max_iterations b)), (''tokens'', PInt (b_max_tokens b)),
      (''scan_seconds'', PFloat (b_max_scan_seconds b)),
      (''identical_calls'', PInt (b_max_identical_calls b)),
      (''exploratory_tests'', PInt (b_max_exploratory_tests b)),
      (''exploratory_iterations'', PInt (b_max_exploratory_iterations b)),
      (''exploratory_seconds'', PFloat (b_max_exploratory_seconds b))]"

definition budget_used :: "session_budget \<Rightarrow> pydict" where
  "budget_used b =
     [(''tool_calls'', PInt (b_tool_calls b)), (''requests'', PInt (b_requests b)),
      (''browser_actions'', PInt (b_browser_actions b)),
      (''fuzz_requests'', PInt (b_fuzz_requests b)), (''iterations'', PInt (b_iterations b)),
      (''tokens'', PInt (b_tokens b)), (''scan_seconds'', PFloat (b_scan_seconds b)),
      (''exploratory_tests'', PInt (b_exploratory_tests b)),
      (''exploratory_iterations'', PInt (b_exploratory_iterations b)),
      (''exploratory_seconds'', PFloat (b_exploratory_seconds b))]"

definition budget_planned :: "session_budget \<Rightarrow> pydict" where
  "budget_planned b =
     [(''requests'', PInt (b_planned_requests b)),
      (''fuzz_requests'', PInt (b_planned_fuzz_requests b)),
      (''browser_actions'', PInt (b_planned_browser_actions b)),
      (''tool_calls'', PInt (b_planned_tool_calls b)),
      (''exploratory_tests'', PInt (b_planned_exploratory_tests b)),
      (''exploratory_iterations'', PInt (b_planned_exploratory_iterations b)),
      (''exploratory_seconds'', PFloat (b_planned_exploratory_seconds b))]"

definition budget_reserved :: "session_budget \<Rightarrow> pydict" where
  "budget_reserved b =
     [(''requests'', PInt (b_reserved_requests b)),
      (''fuzz_requests'', PInt (b_reserved_fuzz_requests b)),
      (''browser_actions'', PInt (b_reserved_browser_actions b)),
      (''tool_calls'', PInt (b_reserved_tool_calls b)),
      (''exploratory_tests'', PInt (b_reserved_exploratory_tests b)),
      (''exploratory_iterations'', PInt (b_reserved_exploratory_iterations b)),
      (''exploratory_seconds'', PFloat (b_reserved_exploratory_seconds b))]"

definition budget_snapshot :: "session_budget \<Rightarrow> pydict" where
  "budget_snapshot b =
     [(''max'', PDict (budget_max b)), (''used'', PDict (budget_used b)),
      (''remaining'', PDict (remaining b)),
      (''extra_granted_by'', (case b_extra_granted_by b of None \<Rightarrow> PNone | Some o1 \<Rightarrow> PStr o1)),
      (''planned'', PDict (budget_planned b)), (''reserved'', PDict (budget_reserved b)),
      (''consumed'', PDict (budget_used b))]"

text \<open>
  \<open>restore\<close> assigns one field after the other, so a value that does not convert leaves the fields
  before it assigned. A missing maximum keeps its value, a missing use becomes zero.
\<close>

type_synonym field_setter = "pyval \<Rightarrow> session_budget \<Rightarrow> session_budget result"

definition set_int :: "(int \<Rightarrow> session_budget \<Rightarrow> session_budget) \<Rightarrow> field_setter" where
  "set_int f v b = (case py_int_of v of Inl e \<Rightarrow> Inl e | Inr i \<Rightarrow> Inr (f i b))"

definition set_float :: "(rat \<Rightarrow> session_budget \<Rightarrow> session_budget) \<Rightarrow> field_setter" where
  "set_float f v b = (case py_float_of v of Inl e \<Rightarrow> Inl e | Inr x \<Rightarrow> Inr (f x b))"

definition max_fields :: "(string \<times> field_setter) list" where
  "max_fields =
    [(''tool_calls'', set_int (\<lambda>v. b_max_tool_calls_update (\<lambda>_. v))),
     (''requests'', set_int (\<lambda>v. b_max_requests_update (\<lambda>_. v))),
     (''browser_actions'', set_int (\<lambda>v. b_max_browser_actions_update (\<lambda>_. v))),
     (''fuzz_requests'', set_int (\<lambda>v. b_max_fuzz_requests_update (\<lambda>_. v))),
     (''iterations'', set_int (\<lambda>v. b_max_iterations_update (\<lambda>_. v))),
     (''tokens'', set_int (\<lambda>v. b_max_tokens_update (\<lambda>_. v))),
     (''scan_seconds'', set_float (\<lambda>v. b_max_scan_seconds_update (\<lambda>_. v))),
     (''identical_calls'', set_int (\<lambda>v. b_max_identical_calls_update (\<lambda>_. v))),
     (''exploratory_tests'', set_int (\<lambda>v. b_max_exploratory_tests_update (\<lambda>_. v))),
     (''exploratory_iterations'', set_int (\<lambda>v. b_max_exploratory_iterations_update (\<lambda>_. v))),
     (''exploratory_seconds'', set_float (\<lambda>v. b_max_exploratory_seconds_update (\<lambda>_. v)))]"

definition used_fields :: "(string \<times> field_setter) list" where
  "used_fields =
    [(''tool_calls'', set_int (\<lambda>v. b_tool_calls_update (\<lambda>_. v))),
     (''requests'', set_int (\<lambda>v. b_requests_update (\<lambda>_. v))),
     (''browser_actions'', set_int (\<lambda>v. b_browser_actions_update (\<lambda>_. v))),
     (''fuzz_requests'', set_int (\<lambda>v. b_fuzz_requests_update (\<lambda>_. v))),
     (''iterations'', set_int (\<lambda>v. b_iterations_update (\<lambda>_. v))),
     (''tokens'', set_int (\<lambda>v. b_tokens_update (\<lambda>_. v))),
     (''scan_seconds'', set_float (\<lambda>v. b_scan_seconds_update (\<lambda>_. v))),
     (''exploratory_tests'', set_int (\<lambda>v. b_exploratory_tests_update (\<lambda>_. v))),
     (''exploratory_iterations'', set_int (\<lambda>v. b_exploratory_iterations_update (\<lambda>_. v))),
     (''exploratory_seconds'', set_float (\<lambda>v. b_exploratory_seconds_update (\<lambda>_. v)))]"

fun restore_fields ::
    "pyval option \<Rightarrow> pydict \<Rightarrow> (string \<times> field_setter) list \<Rightarrow> session_budget \<Rightarrow> unit result \<times> session_budget"
  where
  "restore_fields missing d [] b = (Inr (), b)"
| "restore_fields missing d ((k, f) # fs) b =
     (case (case map_of d k of None \<Rightarrow> missing | Some v \<Rightarrow> Some v) of
        None \<Rightarrow> restore_fields missing d fs b
      | Some v \<Rightarrow> (case f v b of Inl e \<Rightarrow> (Inl e, b) | Inr b1 \<Rightarrow> restore_fields missing d fs b1))"

definition part_or_whole :: "pydict \<Rightarrow> string \<Rightarrow> pydict" where
  "part_or_whole payload k = (case py_get payload k of PDict d \<Rightarrow> d | _ \<Rightarrow> payload)"

definition budget_restore ::
    "pydict option \<Rightarrow> session_budget \<Rightarrow> unit result \<times> session_budget" where
  "budget_restore payload b =
     (case payload of
        None \<Rightarrow> (Inr (), b)
      | Some d \<Rightarrow>
          if d = [] then (Inr (), b)
          else case restore_fields None (part_or_whole d ''max'') max_fields b of
            (Inl e, b1) \<Rightarrow> (Inl e, b1)
          | (Inr _, b1) \<Rightarrow> restore_fields (Some (PInt 0)) (part_or_whole d ''used'') used_fields b1)"

section \<open>Cost estimates\<close>

record cost_estimate =
  ce_units :: int
  ce_unit :: string
  ce_requests :: int
  ce_is_estimate :: bool
  ce_explanation :: string

definition cost :: "int \<Rightarrow> string \<Rightarrow> int \<Rightarrow> string \<Rightarrow> cost_estimate" where
  "cost n unit reqs why =
     \<lparr>ce_units = n, ce_unit = unit, ce_requests = reqs, ce_is_estimate = True, ce_explanation = why\<rparr>"

definition cost_snapshot :: "cost_estimate \<Rightarrow> pydict" where
  "cost_snapshot c =
     [(''estimated_units'', PInt (ce_units c)), (''unit'', PStr (ce_unit c)),
      (''estimated_requests'', PInt (ce_requests c)), (''is_estimate'', PBool (ce_is_estimate c)),
      (''explanation'', PStr (ce_explanation c))]"

text \<open>\<open>max(1, int(args.get(k) or d))\<close>.\<close>

definition at_least_one :: "pydict \<Rightarrow> string \<Rightarrow> int \<Rightarrow> int result" where
  "at_least_one args k d =
     (case py_int_of (py_or (py_get args k) (PInt d)) of Inl e \<Rightarrow> Inl e | Inr n \<Rightarrow> Inr (max 1 n))"

definition action_count :: "pydict \<Rightarrow> int" where
  "action_count args =
     (case py_get args ''actions'' of PList xs \<Rightarrow> max 1 (int (length xs)) | _ \<Rightarrow> 1)"

definition estimate_operation_cost ::
    "string \<Rightarrow> pydict \<Rightarrow> string option \<Rightarrow> int option \<Rightarrow> cost_estimate result" where
  "estimate_operation_cost tool args spec left =
     (let kind = (case spec of None \<Rightarrow> ''tool'' | Some k \<Rightarrow> k) in
      if tool = ''http_request'' \<or> (kind = ''request'' \<and> tool \<notin> {''api_test'', ''reproduce''}) then
        Inr (cost 1 ''requests'' 1 ''One HTTP request through GatedHttpClient.'')
      else if tool = ''fuzz'' \<or> kind = ''fuzz'' then
        (case at_least_one args ''count'' 1 of Inl e \<Rightarrow> Inl e
         | Inr n \<Rightarrow> Inr (cost n ''fuzz_requests'' n
             (''Fuzz count='' @ show_int n @ ''; each mutation is one request-equivalent.'')))
      else if tool = ''api_test'' then
        (if dict_get args ''execute'' (PBool True) = PBool False then
           Inr (cost 0 ''requests'' 0 ''Plan-only API import; no requests until execute=true.'')
         else case at_least_one args ''max_tests'' 8 of Inl e \<Rightarrow> Inl e
         | Inr n \<Rightarrow> Inr (cost n ''requests'' n
             (''API test envelope of '' @ show_int n @ '' candidate requests.'')))
      else if tool = ''reproduce'' then
        (case at_least_one args ''reproducibility_count'' 1 of Inl e \<Rightarrow> Inl e
         | Inr n \<Rightarrow> let c = action_count args; total = c * n in
             Inr (cost total ''requests'' total
               (''Reproduction plan: '' @ show_int c @ '' action(s) '' @ [CHR 0xC3, CHR 0x97] @ '' '' @
                show_int n @ '' run(s).'')))
      else if tool \<in> {''zap_scan'', ''nuclei_scan''} then
        (let envelope = max 1 (case left of None \<Rightarrow> 20 | Some n \<Rightarrow> n) in
         Inr (cost 1 ''tool_calls'' envelope
           (''Scanner envelope ~'' @ show_int envelope @ '' requests (estimate for review). '' @
            ''Session budget consumes one tool call plus scan duration after execution, '' @
            ''not the full envelope up front.'')))
      else if tool = ''exploratory_test'' \<or> kind = ''exploratory'' then
        Inr (cost 1 ''exploratory_tests'' 0 ''One temporary generated test. Network stays disabled.'')
      else if tool = ''browser_navigate'' \<or> kind = ''browser'' then
        Inr (cost 1 ''browser_actions''
          (1 + (if py_true (dict_get args ''capture_screenshot'' (PBool True)) then 1 else 0)
             + (if py_true (dict_get args ''capture_console'' (PBool True)) then 1 else 0))
          ''One browser navigation plus estimated network captures.'')
      else Inr (cost 1 ''tool_calls'' 0 ''Passive/local tool; no network request budget.''))"

definition consume_kinds :: "(string, string) dict" where
  "consume_kinds =
     [(''requests'', ''request''), (''fuzz_requests'', ''fuzz''), (''browser_actions'', ''browser''),
      (''tool_calls'', ''tool''), (''scan_seconds'', ''scan''), (''exploratory_tests'', ''exploratory'')]"

definition consume_units_for :: "cost_estimate \<Rightarrow> string \<times> int" where
  "consume_units_for c = (dict_get consume_kinds (ce_unit c) ''tool'', ce_units c)"

section \<open>Accounting\<close>

text \<open>
  The categories of a budget, for statements about all of them: the cap, the use, and the kind that
  \<open>consume\<close> charges to it.
\<close>

datatype budget_category =
    BC_Tool | BC_Request | BC_Browser | BC_Fuzz | BC_Iteration | BC_Token | BC_Scan
  | BC_Test | BC_Test_Iteration | BC_Test_Seconds

fun cap_of :: "budget_category \<Rightarrow> session_budget \<Rightarrow> rat" where
  "cap_of BC_Tool b = of_int (b_max_tool_calls b)"
| "cap_of BC_Request b = of_int (b_max_requests b)"
| "cap_of BC_Browser b = of_int (b_max_browser_actions b)"
| "cap_of BC_Fuzz b = of_int (b_max_fuzz_requests b)"
| "cap_of BC_Iteration b = of_int (b_max_iterations b)"
| "cap_of BC_Token b = of_int (b_max_tokens b)"
| "cap_of BC_Scan b = b_max_scan_seconds b"
| "cap_of BC_Test b = of_int (b_max_exploratory_tests b)"
| "cap_of BC_Test_Iteration b = of_int (b_max_exploratory_iterations b)"
| "cap_of BC_Test_Seconds b = b_max_exploratory_seconds b"

fun used_of :: "budget_category \<Rightarrow> session_budget \<Rightarrow> rat" where
  "used_of BC_Tool b = of_int (b_tool_calls b)"
| "used_of BC_Request b = of_int (b_requests b)"
| "used_of BC_Browser b = of_int (b_browser_actions b)"
| "used_of BC_Fuzz b = of_int (b_fuzz_requests b)"
| "used_of BC_Iteration b = of_int (b_iterations b)"
| "used_of BC_Token b = of_int (b_tokens b)"
| "used_of BC_Scan b = b_scan_seconds b"
| "used_of BC_Test b = of_int (b_exploratory_tests b)"
| "used_of BC_Test_Iteration b = of_int (b_exploratory_iterations b)"
| "used_of BC_Test_Seconds b = b_exploratory_seconds b"

fun consume_kind :: "budget_category \<Rightarrow> string" where
  "consume_kind BC_Tool = ''tool''"
| "consume_kind BC_Request = ''request''"
| "consume_kind BC_Browser = ''browser''"
| "consume_kind BC_Fuzz = ''fuzz''"
| "consume_kind BC_Iteration = ''iteration''"
| "consume_kind BC_Token = ''token''"
| "consume_kind BC_Scan = ''scan''"
| "consume_kind BC_Test = ''exploratory''"
| "consume_kind BC_Test_Iteration = ''exploratory''"
| "consume_kind BC_Test_Seconds = []"

definition movable_total :: "session_budget \<Rightarrow> int" where
  "movable_total b = sum_list (map (\<lambda>k. movable_cap k b) movable)"

datatype budget_op =
    Consume string int
  | Consume_Scan rat
  | Note_Seconds rat
  | Reallocate string string int
  | Grant_More string int
  | Plan_Units string rat
  | Reserve_Units string rat

fun apply_op :: "budget_op \<Rightarrow> session_budget \<Rightarrow> unit result \<times> session_budget" where
  "apply_op (Consume k n) b = consume k n b"
| "apply_op (Consume_Scan x) b = consume_scan x b"
| "apply_op (Note_Seconds x) b = note_exploratory_seconds x b"
| "apply_op (Reallocate k l n) b = reallocate k l n b"
| "apply_op (Grant_More who n) b = grant_more who n b"
| "apply_op (Plan_Units u x) b = (Inr (), plan_units u x b)"
| "apply_op (Reserve_Units u x) b = (Inr (), reserve_units u x b)"

text \<open>What an accepted operation charges to a category, and by how much it raises the caps.\<close>

fun charged :: "budget_op \<Rightarrow> budget_category \<Rightarrow> rat" where
  "charged (Consume k n) c = (if k \<noteq> [] \<and> k = consume_kind c then of_int n else 0)"
| "charged (Consume_Scan x) c = (if c = BC_Scan then max 0 x else 0)"
| "charged (Note_Seconds x) c = (if c = BC_Test_Seconds then max 0 x else 0)"
| "charged op c = 0"

fun raised :: "budget_op \<Rightarrow> (string \<times> int) list" where
  "raised (Grant_More who n) = [(who, max 0 n)]"
| "raised op = []"

text \<open>
  A run keeps, beside the budget, what was accepted in each category and the grants that were
  accepted, each with the operator who made it. Amounts consumed are not negative.
\<close>

type_synonym account = "session_budget \<times> (budget_category \<Rightarrow> rat) \<times> (string \<times> int) list"

fun budget_step :: "account \<Rightarrow> budget_op \<Rightarrow> account" where
  "budget_step (b, a, h) op =
     (case apply_op op b of
        (Inl e, b1) \<Rightarrow> (b1, a, h)
      | (Inr _, b1) \<Rightarrow> (b1, (\<lambda>c. a c + charged op c), h @ raised op))"

fun amount_ok :: "budget_op \<Rightarrow> bool" where
  "amount_ok (Consume k n) = (0 \<le> n)"
| "amount_ok op = True"

definition account_ok :: "session_budget \<Rightarrow> account \<Rightarrow> bool" where
  "account_ok b0 s = (case s of (b, a, h) \<Rightarrow>
     (\<forall>c. a c \<le> used_of c b \<and> (a c = 0 \<or> a c \<le> cap_of c b)) \<and>
     movable_total b = movable_total b0 + sum_list (map snd h) \<and>
     (\<forall>c. consume_kind c \<notin> set movable \<longrightarrow> cap_of c b = cap_of c b0) \<and>
     (\<forall>(who, n) \<in> set h. \<not> is_ai_operator who))"

definition new_account :: "session_budget \<Rightarrow> account" where
  "new_account b = (b, (\<lambda>c. 0), [])"

lemma movable_total_sum:
  "movable_total b = b_max_tool_calls b + (b_max_requests b + (b_max_browser_actions b +
     (b_max_fuzz_requests b + b_max_iterations b)))"
  by (simp add: movable_total_def movable_def movable_cap_def)

lemma movable_kind [simp]: "consume_kind c \<in> set movable \<longleftrightarrow> c \<in> {BC_Tool, BC_Request, BC_Browser, BC_Fuzz, BC_Iteration}"
  by (cases c) (simp_all add: movable_def)

text \<open>Which kinds \<open>consume\<close> knows; any other is accepted and charges nothing.\<close>

lemma consume_kinds_cases:
  obtains "k = ''tool''" | "k = ''request''" | "k = ''browser''" | "k = ''fuzz''" | "k = ''iteration''"
  | "k = ''token''" | "k = ''scan''" | "k = ''exploratory''"
  | (other) "\<And>n b. consume k n b = (Inr (), b)" "\<And>c. consume_kind c = k \<Longrightarrow> c = BC_Test_Seconds"
proof (cases "k \<in> {''tool'', ''request'', ''browser'', ''fuzz'', ''iteration'', ''token'', ''scan'', ''exploratory''}")
  case True
  then show ?thesis by (elim insertE emptyE) (erule that)+
next
  case False
  then have "consume k n b = (Inr (), b)" for n b by (simp add: consume_def)
  moreover have "c = BC_Test_Seconds" if "consume_kind c = k" for c using False that by (cases c) auto
  ultimately show ?thesis by (rule other)
qed

lemma consume_known:
  "consume ''tool'' n b = (let b1 = b\<lparr>b_tool_calls := b_tool_calls b + n\<rparr>
     in capped (b_max_tool_calls b1 < b_tool_calls b1) ''tool call budget exhausted'' b1)"
  "consume ''request'' n b = (let b1 = b\<lparr>b_requests := b_requests b + n\<rparr>
     in capped (b_max_requests b1 < b_requests b1) ''request budget exhausted'' b1)"
  "consume ''browser'' n b = (let b1 = b\<lparr>b_browser_actions := b_browser_actions b + n\<rparr>
     in capped (b_max_browser_actions b1 < b_browser_actions b1) ''browser action budget exhausted'' b1)"
  "consume ''fuzz'' n b = (let b1 = b\<lparr>b_fuzz_requests := b_fuzz_requests b + n\<rparr>
     in capped (b_max_fuzz_requests b1 < b_fuzz_requests b1) ''fuzz request budget exhausted'' b1)"
  "consume ''iteration'' n b = (let b1 = b\<lparr>b_iterations := b_iterations b + n\<rparr>
     in capped (b_max_iterations b1 < b_iterations b1) ''reasoning iteration budget exhausted'' b1)"
  "consume ''token'' n b = (let b1 = b\<lparr>b_tokens := b_tokens b + n\<rparr>
     in capped (b_max_tokens b1 < b_tokens b1) ''token budget exhausted'' b1)"
  "consume ''scan'' n b = (let b1 = b\<lparr>b_scan_seconds := b_scan_seconds b + of_int n\<rparr>
     in capped (b_max_scan_seconds b1 < b_scan_seconds b1) ''scan duration budget exhausted'' b1)"
  "consume ''exploratory'' n b = consume_exploratory n b"
  by (simp_all add: consume_def)


lemmas consume_defs = consume_known consume_exploratory_def consume_scan_def note_exploratory_seconds_def capped_def


lemma consume_caps: "cap_of c (snd (consume k n b)) = cap_of c b"
  by (cases k rule: consume_kinds_cases; cases c) (simp_all add: consume_defs Let_def)

lemma consume_more: "0 \<le> n \<Longrightarrow> used_of c b \<le> used_of c (snd (consume k n b))"
  by (cases k rule: consume_kinds_cases; cases c) (simp_all add: consume_defs Let_def)

lemma consume_else: "consume_kind c \<noteq> k \<or> k = [] \<Longrightarrow> used_of c (snd (consume k n b)) = used_of c b"
  by (cases k rule: consume_kinds_cases; cases c) (simp_all add: consume_defs Let_def)

lemma consume_charge:
  assumes "is_ok (fst (consume k n b))" and "consume_kind c = k" and "k \<noteq> []"
  shows "used_of c (snd (consume k n b)) = used_of c b + of_int n \<and> used_of c (snd (consume k n b)) \<le> cap_of c b"
  using assms(1,3) unfolding assms(2) [symmetric]
  by (cases c) (simp_all add: consume_defs Let_def split: if_splits)

lemma consume_total: "movable_total (snd (consume k n b)) = movable_total b"
  by (cases k rule: consume_kinds_cases) (simp_all add: consume_defs Let_def movable_total_sum)


lemma seconds_effect:
  "cap_of c (snd (consume_scan x b)) = cap_of c b"
  "cap_of c (snd (note_exploratory_seconds x b)) = cap_of c b"
  "used_of c (snd (consume_scan x b)) = used_of c b + charged (Consume_Scan x) c"
  "used_of c (snd (note_exploratory_seconds x b)) = used_of c b + charged (Note_Seconds x) c"
  "is_ok (fst (consume_scan x b)) \<Longrightarrow> charged (Consume_Scan x) c \<noteq> 0 \<Longrightarrow> used_of c (snd (consume_scan x b)) \<le> cap_of c b"
  "is_ok (fst (note_exploratory_seconds x b)) \<Longrightarrow> charged (Note_Seconds x) c \<noteq> 0 \<Longrightarrow>
     used_of c (snd (note_exploratory_seconds x b)) \<le> cap_of c b"
  "movable_total (snd (consume_scan x b)) = movable_total b"
  "movable_total (snd (note_exploratory_seconds x b)) = movable_total b"
         apply (cases c; simp add: consume_defs Let_def)
        apply (cases c; simp add: consume_defs Let_def)
       apply (cases c; simp add: consume_defs Let_def)
      apply (cases c; simp add: consume_defs Let_def)
     apply (cases c; simp add: consume_defs Let_def split: if_splits)
    apply (cases c; simp add: consume_defs Let_def split: if_splits)
   apply (simp_all add: consume_defs Let_def movable_total_sum)
  done

lemma planning_effect:
  "cap_of c (plan_units u x b) = cap_of c b" "used_of c (plan_units u x b) = used_of c b"
  "cap_of c (reserve_units u x b) = cap_of c b" "used_of c (reserve_units u x b) = used_of c b"
  "movable_total (plan_units u x b) = movable_total b" "movable_total (reserve_units u x b) = movable_total b"
  by (cases c; simp add: plan_units_def reserve_units_def Let_def movable_total_sum)+

lemma set_cap_used [simp]: "used_of c (set_cap k v b) = used_of c b"
  by (cases c) (simp_all add: set_cap_def)

lemma set_cap_other: "consume_kind c \<notin> set movable \<Longrightarrow> cap_of c (set_cap k v b) = cap_of c b"
  by (cases c) (simp_all add: set_cap_def movable_def)

lemma set_cap_movable:
  "k \<in> set movable \<Longrightarrow> l \<in> set movable \<Longrightarrow> movable_cap l (set_cap k v b) = (if k = l then v else movable_cap l b)"
  by (auto simp: movable_def movable_cap_def set_cap_def)

lemma movable_category:
  assumes "consume_kind c \<in> set movable"
  shows "cap_of c b = of_int (movable_cap (consume_kind c) b)" "used_of c b = of_int (movable_used (consume_kind c) b)"
  using assms by (cases c; simp add: movable_def movable_cap_def movable_used_def)+

lemma reallocate_cases:
  obtains (refused) e where "reallocate k l n b = (Inl e, b)"
  | (moved) "reallocate k l n b = (Inr (), set_cap l (movable_cap l b + n) (set_cap k (movable_cap k b - n) b))"
      "k \<in> set movable" "l \<in> set movable" "k \<noteq> l" "movable_used k b \<le> movable_cap k b - n" "0 < n"
proof (cases "\<exists>e. reallocate k l n b = (Inl e, b)")
  case False
  then have "k \<in> set movable" "l \<in> set movable" "k \<noteq> l" "0 < n" "movable_used k b \<le> movable_cap k b - n"
    by (auto simp: reallocate_def Let_def split: if_splits)
  with moved show ?thesis by (simp add: reallocate_def set_cap_movable)
qed (use refused in blast)

lemma reallocate_used: "used_of c (snd (reallocate k l n b)) = used_of c b"
  by (cases k l n b rule: reallocate_cases) simp_all

lemma reallocate_other: "consume_kind c \<notin> set movable \<Longrightarrow> cap_of c (snd (reallocate k l n b)) = cap_of c b"
  by (cases k l n b rule: reallocate_cases) (simp_all add: set_cap_other)

lemma reallocate_cap:
  "cap_of c b \<le> cap_of c (snd (reallocate k l n b)) \<or> used_of c b \<le> cap_of c (snd (reallocate k l n b))"
proof (cases k l n b rule: reallocate_cases)
  case moved
  then show ?thesis
    by (cases "consume_kind c \<in> set movable") (auto simp: set_cap_other set_cap_movable movable_category)
qed simp

lemma set_cap_total: "k \<in> set movable \<Longrightarrow> movable_total (set_cap k v b) = movable_total b - movable_cap k b + v"
  unfolding movable_def set_simps
  by (elim insertE emptyE) (simp_all add: movable_total_sum set_cap_def movable_cap_def)

lemma reallocate_total: "movable_total (snd (reallocate k l n b)) = movable_total b"
  by (cases k l n b rule: reallocate_cases) (simp_all add: set_cap_total set_cap_movable)

lemma grant_effect:
  "used_of c (snd (grant_more who n b)) = used_of c b"
  "cap_of c b \<le> cap_of c (snd (grant_more who n b))"
  "c \<noteq> BC_Tool \<Longrightarrow> cap_of c (snd (grant_more who n b)) = cap_of c b"
  "movable_total (snd (grant_more who n b)) =
     movable_total b + (if is_ok (fst (grant_more who n b)) then max 0 n else 0)"
  "is_ok (fst (grant_more who n b)) \<Longrightarrow> \<not> is_ai_operator who"
  by ((cases c)?; simp add: grant_more_def movable_total_sum split: if_splits)+

lemma op_caps:
  "cap_of c b \<le> cap_of c (snd (apply_op op b)) \<or> used_of c (snd (apply_op op b)) \<le> cap_of c (snd (apply_op op b))"
  using reallocate_cap [of c b] grant_effect(2) [of c b]
  by (cases op) (simp_all add: consume_caps seconds_effect planning_effect reallocate_used)

lemma op_fixed: "consume_kind c \<notin> set movable \<Longrightarrow> cap_of c (snd (apply_op op b)) = cap_of c b"
  by (cases op; cases "c = BC_Tool")
    (simp_all add: consume_caps seconds_effect planning_effect reallocate_other grant_effect movable_def)

lemma op_more: "amount_ok op \<Longrightarrow> used_of c b \<le> used_of c (snd (apply_op op b))"
  by (cases op) (simp_all add: consume_more seconds_effect planning_effect reallocate_used grant_effect)

lemma op_charge:
  assumes "is_ok (fst (apply_op op b))"
  shows "used_of c (snd (apply_op op b)) = used_of c b + charged op c"
  using assms consume_charge [of _ _ b c] consume_else [of c _ _ b]
  by (cases op) (auto simp: seconds_effect planning_effect reallocate_used grant_effect)

lemma op_capped:
  assumes "is_ok (fst (apply_op op b))" and "charged op c \<noteq> 0"
  shows "used_of c (snd (apply_op op b)) \<le> cap_of c (snd (apply_op op b))"
proof (cases op)
  case (Consume k n)
  with assms show ?thesis using consume_charge [of k n b c] by (simp add: consume_caps split: if_splits)
qed (use assms seconds_effect(5) [of _ b c] seconds_effect(6) [of _ b c] in \<open>simp_all add: seconds_effect(1,2)\<close>)

lemma op_total:
  "movable_total (snd (apply_op op b)) =
     movable_total b + (if is_ok (fst (apply_op op b)) then sum_list (map snd (raised op)) else 0)"
  by (cases op) (simp_all add: consume_total seconds_effect planning_effect reallocate_total grant_effect)

lemma op_raised: "is_ok (fst (apply_op op b)) \<Longrightarrow> (who, n) \<in> set (raised op) \<Longrightarrow> \<not> is_ai_operator who"
  using grant_effect(5) by (cases op) auto

lemma account_keeps:
  assumes "account_ok b0 s" and "amount_ok op"
  shows "account_ok b0 (budget_step s op)"
proof -
  obtain b a h where s: "s = (b, a, h)" by (cases s)
  obtain r b1 where r: "apply_op op b = (r, b1)" by fastforce
  note e = op_caps [of _ b op] op_fixed [of _ op b] op_more [OF assms(2), of _ b] op_charge [of op b]
    op_capped [of op b] op_total [of op b] op_raised [of op b]
  note e = e [unfolded r fst_conv snd_conv]
  have c: "a c \<le> used_of c b" "a c = 0 \<or> a c \<le> cap_of c b" for c
    using assms(1) by (auto simp: s account_ok_def)
  have *: "x \<le> used_of c b1 \<and> (x = 0 \<or> x \<le> cap_of c b1)"
    if "x = a c \<or> is_ok r \<and> x = a c + charged op c" for x c
    using that e(1,3) [of c] e(4,5) [of c] c [of c] by (cases "charged op c = 0") auto
  show ?thesis
    using assms(1) e(2,6,7) * by (cases r) (auto simp: s r account_ok_def)
qed

interpretation spending: guarded_machine "\<lambda>s. s = new_account b0 \<and> (\<forall>c. 0 \<le> used_of c b0)" budget_step
    "\<lambda>s. amount_ok" "account_ok b0" for b0
proof
  show "account_ok b0 s" if "s = new_account b0 \<and> (\<forall>c. 0 \<le> used_of c b0)" for s
    using that by (auto simp: account_ok_def new_account_def)
  show "account_ok b0 (budget_step s op)" if "account_ok b0 s" "amount_ok op" for s op
    using that by (rule account_keeps)
qed

lemma amounts_guard: "spending.guarded_run s ops \<longleftrightarrow> list_all amount_ok ops"
  by (induction ops arbitrary: s) auto

section \<open>Properties\<close>

text \<open>C18. In every run of a session that starts with an unused budget, however operations succeed and
  fail, what was accepted in a category never exceeds its cap; the caps that can be moved add up to
  what they were at the start and what was granted since, all grants are by operators that are not the
  AI, and no operation changes the other caps.\<close>

theorem spending_is_capped:
  assumes "\<forall>c. 0 \<le> used_of c b0" and "list_all amount_ok ops"
    and "run_ops budget_step (new_account b0) ops = (b, a, h)"
  shows "(\<forall>c. a c = 0 \<or> a c \<le> cap_of c b) \<and>
    movable_total b = movable_total b0 + sum_list (map snd h) \<and>
    (\<forall>c. consume_kind c \<notin> set movable \<longrightarrow> cap_of c b = cap_of c b0) \<and>
    (\<forall>(who, n) \<in> set h. \<not> is_ai_operator who)"
proof -
  have "account_ok b0 (run_ops budget_step (new_account b0) ops)"
    using assms(1,2) by (intro spending.run_invariant) (simp_all add: amounts_guard)
  then show ?thesis by (simp only: account_ok_def assms(3) prod.case) blast
qed

definition sample_spending :: "budget_op list" where
  "sample_spending =
     [Consume ''request'' 30, Consume ''request'' 30, Reallocate ''tool'' ''request'' 15,
      Grant_More ''ai'' 100, Grant_More ''alice'' 5, Consume ''tool'' 30, Note_Seconds 61]"

theorem spending_is_capped_witness:
  "case run_ops budget_step (new_account default_budget) sample_spending of (b, a, h) \<Rightarrow>
     a BC_Request = 30 \<and> a BC_Tool = 30 \<and> h = [(''alice'', 5)] \<and> cap_of BC_Tool b = 30 \<and>
     b_requests b = 60 \<and> movable_total b = 155"
proof -
  have run: "case run_ops budget_step (new_account default_budget) sample_spending of (b, a, h) \<Rightarrow>
     a BC_Request = 30 \<and> a BC_Tool = 30 \<and> h = [(''alice'', 5)] \<and> cap_of BC_Tool b = 30 \<and> b_requests b = 60"
    by code_simp
  obtain b a h where eq: "run_ops budget_step (new_account default_budget) sample_spending = (b, a, h)"
    by (cases "run_ops budget_step (new_account default_budget) sample_spending") auto
  have start: "\<forall>c. 0 \<le> used_of c default_budget"
  proof
    show "0 \<le> used_of c default_budget" for c by (cases c) (simp_all add: default_budget_def)
  qed
  have "list_all amount_ok sample_spending" by code_simp
  from spending_is_capped [OF start this eq] run show ?thesis
    by (simp add: eq) (simp add: movable_total_sum default_budget_def)
qed

text \<open>Restoring a snapshot into any budget gives back every cap and every use, so the same amounts
  remain; what was planned, what was reserved and who granted more is not restored.\<close>

theorem budget_round_trip:
  "case budget_restore (Some (budget_snapshot b)) b0 of (r, b1) \<Rightarrow> r = Inr () \<and>
     budget_max b1 = budget_max b \<and> budget_used b1 = budget_used b \<and> remaining b1 = remaining b \<and>
     exhausted b1 = exhausted b \<and> budget_planned b1 = budget_planned b0 \<and>
     budget_reserved b1 = budget_reserved b0 \<and> b_extra_granted_by b1 = b_extra_granted_by b0"
proof -
  have parts: "part_or_whole (budget_snapshot b) ''max'' = budget_max b"
    "part_or_whole (budget_snapshot b) ''used'' = budget_used b" "budget_snapshot b \<noteq> []"
    by (simp_all add: budget_snapshot_def part_or_whole_def py_get_def dict_get_def)
  let ?m = "snd (restore_fields None (budget_max b) max_fields b0)"
  have 1: "fst (restore_fields None (budget_max b) max_fields b0) = Inr ()"
    "budget_max ?m = budget_max b" "budget_planned ?m = budget_planned b0"
    "budget_reserved ?m = budget_reserved b0" "b_extra_granted_by ?m = b_extra_granted_by b0"
    by (simp_all add: budget_max_def max_fields_def set_int_def set_float_def budget_planned_def budget_reserved_def)
  have 2: "fst (restore_fields (Some (PInt 0)) (budget_used b) used_fields x) = Inr ()"
    "budget_used (snd (restore_fields (Some (PInt 0)) (budget_used b) used_fields x)) = budget_used b"
    "budget_max (snd (restore_fields (Some (PInt 0)) (budget_used b) used_fields x)) = budget_max x"
    "budget_planned (snd (restore_fields (Some (PInt 0)) (budget_used b) used_fields x)) = budget_planned x"
    "budget_reserved (snd (restore_fields (Some (PInt 0)) (budget_used b) used_fields x)) = budget_reserved x"
    "b_extra_granted_by (snd (restore_fields (Some (PInt 0)) (budget_used b) used_fields x)) = b_extra_granted_by x"
    for x
    by (simp_all add: budget_used_def used_fields_def set_int_def set_float_def budget_max_def
        budget_planned_def budget_reserved_def)
  have eq: "budget_restore (Some (budget_snapshot b)) b0 = restore_fields (Some (PInt 0)) (budget_used b) used_fields ?m"
    using 1(1) by (cases "restore_fields None (budget_max b) max_fields b0") (simp add: budget_restore_def parts)
  have same: "budget_max x = budget_max b \<Longrightarrow> budget_used x = budget_used b \<Longrightarrow> remaining x = remaining b" for x
    by (simp add: budget_max_def budget_used_def remaining_def)
  obtain r b1 where r: "restore_fields (Some (PInt 0)) (budget_used b) used_fields ?m = (r, b1)" by fastforce
  note fields = 2 [of ?m, unfolded r fst_conv snd_conv]
  moreover have "remaining b1 = remaining b" using fields 1 by (intro same) simp_all
  ultimately show ?thesis unfolding eq r prod.case using 1 by (simp add: exhausted_def)
qed

text \<open>What every estimate satisfies, for the branches one by one.\<close>

definition good_cost :: "string \<Rightarrow> pydict \<Rightarrow> cost_estimate result \<Rightarrow> bool" where
  "good_cost tool args r \<longleftrightarrow> (case r of Inl e \<Rightarrow> True | Inr c \<Rightarrow>
     0 \<le> ce_units c \<and> 0 \<le> ce_requests c \<and>
     (ce_units c = 0 \<longrightarrow> tool = ''api_test'' \<and> dict_get args ''execute'' (PBool True) = PBool False) \<and>
     ce_unit c \<in> {''requests'', ''fuzz_requests'', ''tool_calls'', ''exploratory_tests'', ''browser_actions''})"

lemma good_if: "(x \<Longrightarrow> good_cost t a r) \<Longrightarrow> (\<not> x \<Longrightarrow> good_cost t a s) \<Longrightarrow> good_cost t a (if x then r else s)"
  by simp

lemma good_count:
  assumes "\<And>n. 1 \<le> n \<Longrightarrow> good_cost t a (f n)"
  shows "good_cost t a (case at_least_one args k d of Inl e \<Rightarrow> Inl e | Inr n \<Rightarrow> f n)"
proof (cases "at_least_one args k d")
  case (Inr n)
  then have "1 \<le> n" by (auto simp: at_least_one_def split: sum.splits)
  with assms Inr show ?thesis by simp
qed (simp add: good_cost_def)

lemma good_positive:
  "1 \<le> n \<Longrightarrow> 0 \<le> q \<Longrightarrow>
     u \<in> {''requests'', ''fuzz_requests'', ''tool_calls'', ''exploratory_tests'', ''browser_actions''} \<Longrightarrow>
     good_cost t a (Inr (cost n u q why))"
  by (simp add: good_cost_def cost_def)

lemma action_count_positive: "1 \<le> action_count args"
  by (simp add: action_count_def split: pyval.split)

lemma product_positive: "1 \<le> n \<Longrightarrow> 1 \<le> action_count args * n"
  using mult_mono [of 1 "action_count args" 1 n] action_count_positive [of args] by simp

lemma estimates_good: "good_cost tool args (estimate_operation_cost tool args spec left)"
  unfolding estimate_operation_cost_def Let_def
  apply (intro good_if good_count)
          apply (simp_all add: good_positive product_positive order_trans [OF _ product_positive, of 0])
  apply (simp add: good_cost_def cost_def)
  done

text \<open>Whatever tool is estimated, the estimate is not negative, it is only zero for an import that
  is not executed, and the budget it is planned, reserved and consumed from is the same.\<close>

theorem estimates_are_consumed:
  assumes "estimate_operation_cost tool args spec left = Inr c"
  shows "0 \<le> ce_units c \<and> (ce_units c = 0 \<longrightarrow> tool = ''api_test'' \<and> dict_get args ''execute'' (PBool True) = PBool False) \<and>
    0 \<le> ce_requests c \<and> bucket_of (ce_unit c) = bucket_of (fst (consume_units_for c)) \<and>
    snd (consume_units_for c) = ce_units c"
proof -
  have "good_cost tool args (Inr c)"
    using estimates_good [of tool args spec left] by (simp only: assms)
  then have c: "0 \<le> ce_units c" "0 \<le> ce_requests c"
    "ce_units c = 0 \<longrightarrow> tool = ''api_test'' \<and> dict_get args ''execute'' (PBool True) = PBool False"
    "ce_unit c \<in> {''requests'', ''fuzz_requests'', ''tool_calls'', ''exploratory_tests'', ''browser_actions''}"
    unfolding good_cost_def by simp_all
  have "bucket_of (ce_unit c) = bucket_of (fst (consume_units_for c))"
    using c(4)
    by (elim insertE emptyE) (simp_all add: consume_units_for_def consume_kinds_def dict_get_def bucket_of_def)
  then show ?thesis using c(1-3) by (simp add: consume_units_for_def)
qed

theorem estimates_are_consumed_witness:
  "map_option (\<lambda>c. (consume_units_for c, bucket_of (ce_unit c)))
     (case estimate_operation_cost ''reproduce''
        [(''actions'', PList [PNone, PNone]), (''reproducibility_count'', PStr ''3'')] (Some ''request'') None
      of Inl e \<Rightarrow> None | Inr c \<Rightarrow> Some c) = Some ((''request'', 6), bucket_of ''request'')"
proof -
  let ?r = "estimate_operation_cost ''reproduce''
        [(''actions'', PList [PNone, PNone]), (''reproducibility_count'', PStr ''3'')] (Some ''request'') None"
  have 1: "is_ok ?r" and 2: "case ?r of Inl e \<Rightarrow> False | Inr c \<Rightarrow> consume_units_for c = (''request'', 6)"
    by code_simp+
  from 1 obtain c where c: "?r = Inr c" by (auto simp: is_ok_iff)
  with estimates_are_consumed [OF c] 2 show ?thesis by simp
qed

end
