(* ===== verification/AgentTools.thy ===== *)
theory AgentTools
  imports PyVal Approvals
begin

text \<open>
  \<open>security_agent/tools.py\<close>, with the tool enumerations of \<open>states.py\<close>: the registry of the tools that a
  language model may ask for. The models of the arguments are checked by pydantic, a third-party
  library: \<open>check\<close> is its validation of the arguments of a tool, \<open>None\<close> for a validation error, and
  \<open>schema_of\<close> its rendering of a model. An executor is a function that also changes a world of type
  \<open>'w\<close>, whatever it closes over.
\<close>

section \<open>Specifications\<close>

datatype research_mode = RM_LAB | RM_LIVE

fun research_mode_value :: "research_mode \<Rightarrow> string" where
  "research_mode_value RM_LAB = ''lab''"
| "research_mode_value RM_LIVE = ''live_hackerone''"

datatype tool_capability = TC_UNAVAILABLE | TC_PLANNING_ONLY | TC_EXECUTABLE | TC_RESULTS_INGESTIBLE

fun capability_value :: "tool_capability \<Rightarrow> string" where
  "capability_value TC_UNAVAILABLE = ''unavailable''"
| "capability_value TC_PLANNING_ONLY = ''planning_only''"
| "capability_value TC_EXECUTABLE = ''executable''"
| "capability_value TC_RESULTS_INGESTIBLE = ''results_ingestible''"

datatype tool_risk = TR_PASSIVE | TR_LOW_RISK_ACTIVE | TR_ACTIVE | TR_HIGH_RISK

fun risk_value :: "tool_risk \<Rightarrow> string" where
  "risk_value TR_PASSIVE = ''passive''"
| "risk_value TR_LOW_RISK_ACTIVE = ''low_risk_active''"
| "risk_value TR_ACTIVE = ''active''"
| "risk_value TR_HIGH_RISK = ''high_risk''"

record tool_spec =
  ts_name :: string
  ts_description :: string
  ts_budget_kind :: string
  ts_disabled :: bool
  ts_capability :: tool_capability
  ts_risk :: tool_risk
  ts_active :: bool
  ts_human :: bool
  ts_approval :: "string option"
  ts_network :: bool
  ts_destructive :: bool
  ts_modes :: "research_mode list"

definition risk_label :: "tool_spec option \<Rightarrow> string" where
  "risk_label spec = risk_value (case spec of None \<Rightarrow> TR_PASSIVE | Some s \<Rightarrow> ts_risk s)"

definition opt_pyval :: "string option \<Rightarrow> pyval" where
  "opt_pyval v = (case v of None \<Rightarrow> PNone | Some s \<Rightarrow> PStr s)"

definition for_llm :: "(string \<Rightarrow> pyval) \<Rightarrow> tool_spec \<Rightarrow> pydict" where
  "for_llm schema_of s =
     [(''name'', PStr (ts_name s)), (''description'', PStr (ts_description s)),
      (''parameters'', schema_of (ts_name s)), (''risk_level'', PStr (risk_value (ts_risk s))),
      (''allowed_modes'', PList (map (PStr \<circ> research_mode_value) (ts_modes s))),
      (''network_access'', PBool (ts_network s)), (''requires_active_testing'', PBool (ts_active s)),
      (''requires_human_approval'', PBool (ts_human s)), (''approval_kind'', opt_pyval (ts_approval s)),
      (''capability'', PStr (capability_value (ts_capability s))),
      (''destructive_capability'', PBool (ts_destructive s))]"

definition any_mode :: "research_mode list" where "any_mode = [RM_LAB, RM_LIVE]"

text \<open>
  One row of \<open>_TOOL_META\<close>: description, budget, capability, risk, active testing, human approval,
  kind of approval, network access and modes; no row sets the destructive flag.
\<close>

definition tool_meta ::
    "string \<Rightarrow> string \<Rightarrow> string \<Rightarrow> tool_capability \<Rightarrow> tool_risk \<Rightarrow> bool \<Rightarrow> bool \<Rightarrow> string option \<Rightarrow> bool
     \<Rightarrow> research_mode list \<Rightarrow> tool_spec" where
  "tool_meta nm desc kind capability risk active human approval network modes =
     \<lparr>ts_name = nm, ts_description = desc, ts_budget_kind = kind, ts_disabled = False,
      ts_capability = capability, ts_risk = risk, ts_active = active, ts_human = human,
      ts_approval = approval, ts_network = network, ts_destructive = False, ts_modes = modes\<rparr>"

text \<open>The specifications of \<open>default_registry\<close>, in the order of \<open>TOOL_ARG_MODELS\<close>.\<close>

definition default_specs :: "tool_spec list" where
  "default_specs =
    [tool_meta ''http_request''
       (''Send one HTTP request through GatedHttpClient after ScopeGuard.'')
       ''request'' TC_EXECUTABLE TR_LOW_RISK_ACTIVE True False
       (Some ''send_poc_request'') True any_mode,
     tool_meta ''browser_navigate''
       (''Navigate with PlaywrightBrowserAdapter. Captures URL, title, network, console.'')
       ''browser'' TC_EXECUTABLE TR_ACTIVE True False
       None True any_mode,
     tool_meta ''source_inspect''
       (''Read a repo-relative source file excerpt. Untrusted data; secrets redacted.'')
       ''tool'' TC_EXECUTABLE TR_PASSIVE False False
       None False any_mode,
     tool_meta ''evidence_inspect''
       (''Load a persisted evidence-graph node for the current session.'')
       ''tool'' TC_EXECUTABLE TR_PASSIVE False False
       None False any_mode,
     tool_meta ''zap_scan''
       (''Run OWASP ZAP through ZapAdapter and ingest alerts. Authorization is not a '' @
        ''result.'')
       ''tool'' TC_RESULTS_INGESTIBLE TR_HIGH_RISK True True
       (Some ''start_live_scan'') True any_mode,
     tool_meta ''nuclei_scan''
       (''Run Nuclei with the approved template policy and ingest JSONL results.'')
       ''tool'' TC_RESULTS_INGESTIBLE TR_ACTIVE True True
       (Some ''start_live_scan'') True any_mode,
     tool_meta ''fuzz''
       (''Mutate query/JSON/path/header inputs via FuzzingEngine. Interesting diffs only.'')
       ''fuzz'' TC_EXECUTABLE TR_ACTIVE True True
       (Some ''enable_fuzzing'') True any_mode,
     tool_meta ''reproduce''
       (''Execute a ReproductionPlan with a verification oracle. Status codes alone are '' @
        ''inconclusive.'')
       ''request'' TC_EXECUTABLE TR_ACTIVE True True
       (Some ''send_poc_request'') True any_mode,
     tool_meta ''proxy_evidence''
       (''Load a captured HTTP exchange belonging to this research session.'')
       ''tool'' TC_EXECUTABLE TR_PASSIVE False False
       None False any_mode,
     tool_meta ''api_test''
       (''Import OpenAPI/Postman/Insomnia/HAR specs and run controlled candidate '' @
        ''requests.'')
       ''request'' TC_EXECUTABLE TR_LOW_RISK_ACTIVE True False
       (Some ''send_poc_request'') True any_mode,
     tool_meta ''exploratory_test''
       (''Run one temporary generated test in Docker with network disabled. The model '' @
        ''supplies the test, not the command. A result is not verification.'')
       ''exploratory'' TC_EXECUTABLE TR_LOW_RISK_ACTIVE False False
       None False [RM_LAB]]"

section \<open>The registry\<close>

record permit =
  pm_tool :: string
  pm_session :: string
  pm_mode :: research_mode
  pm_nonce :: string

type_synonym 'w executor = "pydict \<Rightarrow> 'w \<Rightarrow> pydict result \<times> 'w"

record 'w registry =
  rg_specs :: "(string, tool_spec) dict"
  rg_executors :: "(string, 'w executor) dict"
  rg_disabled :: "string set"
  rg_permits :: "(string, permit) dict"

definition empty_registry :: "'w registry" where
  "empty_registry = \<lparr>rg_specs = [], rg_executors = [], rg_disabled = {}, rg_permits = []\<rparr>"

definition bind_executor :: "string \<Rightarrow> 'w executor \<Rightarrow> 'w registry \<Rightarrow> 'w registry" where
  "bind_executor nm f r = r\<lparr>rg_executors := dict_set nm f (rg_executors r)\<rparr>"

definition register :: "tool_spec \<Rightarrow> 'w executor \<Rightarrow> 'w registry \<Rightarrow> 'w registry" where
  "register s f r = bind_executor (ts_name s) f (r\<lparr>rg_specs := dict_set (ts_name s) s (rg_specs r)\<rparr>)"

definition unknown_tool :: "string \<Rightarrow> error" where
  "unknown_tool nm = RestrictedActivityError (''unknown_tool:'' @ nm)"

definition replace_executor :: "string \<Rightarrow> 'w executor \<Rightarrow> 'w registry \<Rightarrow> 'w registry result" where
  "replace_executor nm f r =
     (if map_of (rg_specs r) nm = None \<and> nm \<notin> set (dict_keys (rg_executors r)) then Inl (unknown_tool nm)
      else Inr (bind_executor nm f r))"

definition executor_for :: "'w registry \<Rightarrow> string \<Rightarrow> 'w executor result" where
  "executor_for r nm =
     (case map_of (rg_executors r) nm of None \<Rightarrow> Inl (unknown_tool nm) | Some f \<Rightarrow> Inr f)"

definition restore_executors :: "(string, 'w executor) dict \<Rightarrow> 'w registry \<Rightarrow> 'w registry" where
  "restore_executors fs r = r\<lparr>rg_executors := fs\<rparr>"

definition spec_of :: "'w registry \<Rightarrow> string \<Rightarrow> tool_spec result" where
  "spec_of r nm = (case map_of (rg_specs r) nm of None \<Rightarrow> Inl (unknown_tool nm) | Some s \<Rightarrow> Inr s)"

definition replace_spec :: "tool_spec \<Rightarrow> 'w registry \<Rightarrow> 'w registry result" where
  "replace_spec s r =
     then_do (spec_of r (ts_name s)) (\<lambda>_. Inr (r\<lparr>rg_specs := dict_set (ts_name s) s (rg_specs r)\<rparr>))"

definition disable_tool :: "string \<Rightarrow> 'w registry \<Rightarrow> 'w registry" where
  "disable_tool nm r = r\<lparr>rg_disabled := insert nm (rg_disabled r)\<rparr>"

definition enable_tool :: "string \<Rightarrow> 'w registry \<Rightarrow> 'w registry" where
  "enable_tool nm r = r\<lparr>rg_disabled := rg_disabled r - {nm}\<rparr>"

definition known_tools :: "'w registry \<Rightarrow> string list" where
  "known_tools r = dict_keys (rg_specs r)"

definition is_disabled :: "'w registry \<Rightarrow> string \<Rightarrow> bool" where
  "is_disabled r nm \<longleftrightarrow>
     nm \<in> rg_disabled r \<or> (case map_of (rg_specs r) nm of None \<Rightarrow> False | Some s \<Rightarrow> ts_disabled s)"

definition is_available :: "'w registry \<Rightarrow> string \<Rightarrow> bool" where
  "is_available r nm \<longleftrightarrow>
     (case map_of (rg_specs r) nm of None \<Rightarrow> False | Some s \<Rightarrow> ts_capability s \<noteq> TC_UNAVAILABLE)"

definition restore_disabled :: "string list \<Rightarrow> 'w registry \<Rightarrow> 'w registry" where
  "restore_disabled names r = r\<lparr>rg_disabled := set (filter (\<lambda>n. map_of (rg_specs r) n \<noteq> None) names)\<rparr>"

definition llm_tools :: "(string \<Rightarrow> pyval) \<Rightarrow> 'w registry \<Rightarrow> pydict list" where
  "llm_tools schema_of r =
     map (for_llm schema_of) (filter (\<lambda>s. ts_name s \<notin> rg_disabled r) (map snd (rg_specs r)))"

definition catalog :: "(string \<Rightarrow> pyval) \<Rightarrow> 'w registry \<Rightarrow> pydict list" where
  "catalog schema_of r =
     map (\<lambda>s. let off = ts_name s \<in> rg_disabled r \<or> ts_disabled s in
         for_llm schema_of s @
         [(''disabled'', PBool off),
          (''availability'', PStr (if ts_capability s = TC_UNAVAILABLE then ''unavailable'' else ''available'')),
          (''enablement'', PStr (if off then ''disabled'' else ''enabled''))])
       (map snd (rg_specs r))"

record tool_request =
  tq_tool :: string
  tq_arguments :: pydict
  tq_reason :: string

text \<open>\<open>check tool arguments\<close> is the validated content, as \<open>model_dump\<close> gives it.\<close>

type_synonym arg_check = "string \<Rightarrow> pydict \<Rightarrow> pydict option"

definition validate_request :: "arg_check \<Rightarrow> tool_request \<Rightarrow> 'w registry \<Rightarrow> pydict result" where
  "validate_request check q r =
     then_do (spec_of r (tq_tool q)) (\<lambda>s.
       if tq_tool q \<in> rg_disabled r \<or> ts_disabled s then
         Inl (RestrictedActivityError (''disabled_tool:'' @ tq_tool q))
       else case check (tq_tool q) (tq_arguments q) of
         None \<Rightarrow> Inl (RestrictedActivityError (''invalid_tool_arguments:'' @ tq_tool q))
       | Some d \<Rightarrow> Inr d)"

definition validate_capability :: "string \<Rightarrow> research_mode \<Rightarrow> 'w registry \<Rightarrow> tool_spec result" where
  "validate_capability nm mode r =
     then_do (spec_of r nm) (\<lambda>s.
       if ts_capability s = TC_UNAVAILABLE then Inl (RestrictedActivityError (''tool_unavailable:'' @ nm))
       else if mode \<notin> set (ts_modes s) then
         Inl (RestrictedActivityError (''tool_mode_denied:'' @ nm @ '':'' @ research_mode_value mode))
       else Inr s)"

definition issue_permit ::
    "string \<Rightarrow> string \<Rightarrow> research_mode \<Rightarrow> string \<Rightarrow> 'w registry \<Rightarrow> (permit \<times> 'w registry) result" where
  "issue_permit nm session mode nonce r =
     then_do (validate_capability nm mode r) (\<lambda>s.
       if ts_capability s = TC_PLANNING_ONLY then Inl (RestrictedActivityError (''planning_only:'' @ nm))
       else let p = \<lparr>pm_tool = nm, pm_session = session, pm_mode = mode, pm_nonce = nonce\<rparr>
         in Inr (p, r\<lparr>rg_permits := dict_set nonce p (rg_permits r)\<rparr>))"

text \<open>A permit is spent by any attempt to use it, also one that fails.\<close>

definition spent_permit :: "error" where
  "spent_permit = RestrictedActivityError ''invalid_or_spent_execution_permit''"

text \<open>What is run: an executor with validated arguments, or nothing.\<close>

definition admit_execution ::
    "arg_check \<Rightarrow> tool_request \<Rightarrow> permit option \<Rightarrow> 'w registry \<Rightarrow> ('w executor \<times> pydict) result \<times> 'w registry"
  where
  "admit_execution check q p r =
     (case p of
        None \<Rightarrow> (Inl (RestrictedActivityError ''direct_tool_execution_denied''), r)
      | Some pm \<Rightarrow>
          (let stored = map_of (rg_permits r) (pm_nonce pm);
               r1 = r\<lparr>rg_permits := dict_drop [pm_nonce pm] (rg_permits r)\<rparr>
           in if stored \<noteq> Some pm \<or> pm_tool pm \<noteq> tq_tool q then (Inl spent_permit, r1)
              else (then_do (validate_request check q r1) (\<lambda>d.
                      then_do (executor_for r1 (tq_tool q)) (\<lambda>f. Inr (f, d))), r1)))"

definition execute_tool ::
    "arg_check \<Rightarrow> tool_request \<Rightarrow> permit option \<Rightarrow> 'w registry \<times> 'w \<Rightarrow> pydict result \<times> ('w registry \<times> 'w)" where
  "execute_tool check q p s =
     (case s of (r, w) \<Rightarrow> (case admit_execution check q p r of
        (Inl e, r1) \<Rightarrow> (Inl e, (r1, w))
      | (Inr (f, d), r1) \<Rightarrow> (case f d w of (out, w1) \<Rightarrow> (out, (r1, w1)))))"

definition unavailable :: "string \<Rightarrow> 'w executor" where
  "unavailable nm d w = (Inl (SafetyLimitExceededError (''tool '' @ nm @ '' has no executor bound'')), w)"

definition default_registry :: "'w registry" where
  "default_registry = fold (\<lambda>s. register s (unavailable (ts_name s))) default_specs empty_registry"

definition with_capability :: "tool_spec \<Rightarrow> tool_capability \<Rightarrow> tool_spec" where
  "with_capability s c = s\<lparr>ts_capability := c\<rparr>"

section \<open>Permits\<close>

lemma validate_capability_Inr:
  "validate_capability nm mode r = Inr s \<longleftrightarrow>
     map_of (rg_specs r) nm = Some s \<and> ts_capability s \<noteq> TC_UNAVAILABLE \<and> mode \<in> set (ts_modes s)"
  by (auto simp: validate_capability_def spec_of_def split: option.splits)

lemma validate_request_Inr:
  "validate_request check q r = Inr d \<longleftrightarrow>
     (\<exists>s. map_of (rg_specs r) (tq_tool q) = Some s) \<and> \<not> is_disabled r (tq_tool q) \<and>
     check (tq_tool q) (tq_arguments q) = Some d"
  by (auto simp: validate_request_def spec_of_def is_disabled_def split: option.splits)

lemma admit_Inr:
  assumes "admit_execution check q p r = (Inr (f, d), r1)"
  shows "p \<noteq> None" and "map_of (rg_permits r) (pm_nonce (the p)) = p" and "pm_tool (the p) = tq_tool q"
    and "\<not> is_disabled r (tq_tool q)" and "check (tq_tool q) (tq_arguments q) = Some d"
    and "map_of (rg_executors r) (tq_tool q) = Some f" and "map_of (rg_permits r1) (pm_nonce (the p)) = None"
  using assms
  by (auto simp: admit_execution_def Let_def validate_request_Inr executor_for_def is_disabled_def
      split: option.splits if_splits)

text \<open>
  Runs of a registry, with the permits that were issued and the executions they admitted. A nonce is
  128 random bits: an issue with a nonce that was used before is not considered.
\<close>

datatype 'w registry_op =
    Issue_Permit string string research_mode string
  | Execute_Tool tool_request "permit option"
  | Register_Tool tool_spec "'w executor"
  | Bind_Executor string "'w executor"
  | Replace_Spec tool_spec
  | Disable_Tool string
  | Enable_Tool string
  | Restore_Disabled "string list"

type_synonym 'w permit_log = "'w registry \<times> permit list \<times> (permit \<times> tool_request) list"

fun registry_step :: "arg_check \<Rightarrow> 'w permit_log \<Rightarrow> 'w registry_op \<Rightarrow> 'w permit_log" where
  "registry_step check (r, issued, runs) (Issue_Permit nm session mode nonce) =
     (case issue_permit nm session mode nonce r of
        Inl e \<Rightarrow> (r, issued, runs) | Inr (p, r1) \<Rightarrow> (r1, issued @ [p], runs))"
| "registry_step check (r, issued, runs) (Execute_Tool q p) =
     (case admit_execution check q p r of
        (Inl e, r1) \<Rightarrow> (r1, issued, runs) | (Inr _, r1) \<Rightarrow> (r1, issued, runs @ [(the p, q)]))"
| "registry_step check (r, issued, runs) (Register_Tool s f) = (register s f r, issued, runs)"
| "registry_step check (r, issued, runs) (Bind_Executor nm f) = (bind_executor nm f r, issued, runs)"
| "registry_step check (r, issued, runs) (Replace_Spec s) =
     ((case replace_spec s r of Inl e \<Rightarrow> r | Inr r1 \<Rightarrow> r1), issued, runs)"
| "registry_step check (r, issued, runs) (Disable_Tool nm) = (disable_tool nm r, issued, runs)"
| "registry_step check (r, issued, runs) (Enable_Tool nm) = (enable_tool nm r, issued, runs)"
| "registry_step check (r, issued, runs) (Restore_Disabled names) = (restore_disabled names r, issued, runs)"

fun new_nonce :: "'w permit_log \<Rightarrow> 'w registry_op \<Rightarrow> bool" where
  "new_nonce (r, issued, runs) (Issue_Permit nm session mode nonce) = (nonce \<notin> pm_nonce ` set issued)"
| "new_nonce s op = True"

definition nonces :: "(permit \<times> tool_request) list \<Rightarrow> string list" where
  "nonces runs = map (pm_nonce \<circ> fst) runs"

definition open_permit :: "permit list \<Rightarrow> (permit \<times> tool_request) list \<Rightarrow> string \<Rightarrow> permit \<Rightarrow> bool" where
  "open_permit issued runs k p \<longleftrightarrow> pm_nonce p = k \<and> p \<in> set issued \<and> k \<notin> set (nonces runs)"

definition used_permit :: "permit list \<Rightarrow> permit \<times> tool_request \<Rightarrow> bool" where
  "used_permit issued x \<longleftrightarrow> fst x \<in> set issued \<and> pm_tool (fst x) = tq_tool (snd x)"

definition permits_ok :: "'w permit_log \<Rightarrow> bool" where
  "permits_ok s \<longleftrightarrow> (case s of (r, issued, runs) \<Rightarrow>
     (\<forall>k p. map_of (rg_permits r) k = Some p \<longrightarrow> open_permit issued runs k p) \<and>
     distinct (nonces runs) \<and> (\<forall>x \<in> set runs. used_permit issued x))"

lemma issue_permit_Inr:
  "issue_permit nm session mode nonce r = Inr (p, r1) \<Longrightarrow>
     pm_nonce p = nonce \<and> pm_tool p = nm \<and> rg_permits r1 = dict_set nonce p (rg_permits r)"
  by (auto simp: issue_permit_def Let_def split: if_splits)

lemma admit_permits: "rg_permits (snd (admit_execution check q p r)) =
    (case p of None \<Rightarrow> rg_permits r | Some pm \<Rightarrow> dict_drop [pm_nonce pm] (rg_permits r))"
  by (simp add: admit_execution_def Let_def split: option.split)

lemma registry_permits [simp]:
  "rg_permits (register s f r) = rg_permits r" "rg_permits (bind_executor nm f r) = rg_permits r"
  "rg_permits (disable_tool nm r) = rg_permits r" "rg_permits (enable_tool nm r) = rg_permits r"
  "rg_permits (restore_disabled names r) = rg_permits r"
  by (simp_all add: register_def bind_executor_def disable_tool_def enable_tool_def restore_disabled_def)

lemma replace_spec_permits: "replace_spec s r = Inr r1 \<Longrightarrow> rg_permits r1 = rg_permits r"
  by (auto simp: replace_spec_def)

lemma permits_only: "permits_ok (r, issued, runs) \<Longrightarrow> rg_permits r1 = rg_permits r \<Longrightarrow> permits_ok (r1, issued, runs)"
  by (simp add: permits_ok_def)

lemma issue_keeps:
  assumes "permits_ok (r, issued, runs)" and "nonce \<notin> pm_nonce ` set issued"
    and "issue_permit nm session mode nonce r = Inr (p, r1)"
  shows "permits_ok (r1, issued @ [p], runs)"
proof -
  note p = issue_permit_Inr [OF assms(3)]
  have runs: "used_permit issued x" if "x \<in> set runs" for x using assms(1) that by (simp add: permits_ok_def)
  then have "nonce \<notin> set (nonces runs)" using assms(2) by (auto simp: nonces_def used_permit_def)
  then show ?thesis
    using assms(1) runs p by (auto simp: permits_ok_def open_permit_def used_permit_def)
qed

lemma execute_keeps:
  assumes "permits_ok (r, issued, runs)" and "admit_execution check q p r = (out, r1)"
  shows "permits_ok (r1, issued, (case out of Inl e \<Rightarrow> runs | Inr _ \<Rightarrow> runs @ [(the p, q)]))"
proof (cases p)
  case None
  then show ?thesis using assms by (auto simp: admit_execution_def)
next
  case (Some pm)
  then have r1: "rg_permits r1 = dict_drop [pm_nonce pm] (rg_permits r)"
    using admit_permits [of check q p r] assms(2) by simp
  then have left: "permits_ok (r1, issued, runs)"
    using assms(1) by (auto simp: permits_ok_def split: if_splits)
  show ?thesis
  proof (cases out)
    case (Inr fd)
    obtain f d where "fd = (f, d)" by (cases fd)
    with Inr assms(2) have a: "map_of (rg_permits r) (pm_nonce pm) = Some pm" "pm_tool pm = tq_tool q"
      using admit_Inr(2,3) [of check q p r f d r1] Some by simp_all
    then have o: "open_permit issued runs (pm_nonce pm) pm" using assms(1) by (simp add: permits_ok_def)
    have "open_permit issued (runs @ [(pm, q)]) k x" if "map_of (rg_permits r1) k = Some x" for k x
    proof -
      have "open_permit issued runs k x" using left that by (simp add: permits_ok_def)
      moreover have "k \<noteq> pm_nonce pm" using that by (auto simp: r1)
      ultimately show ?thesis by (simp add: open_permit_def nonces_def)
    qed
    moreover have "distinct (nonces (runs @ [(pm, q)]))"
      using left o by (simp add: permits_ok_def open_permit_def nonces_def)
    moreover have "used_permit issued x" if "x \<in> set (runs @ [(pm, q)])" for x
    proof (cases "x = (pm, q)")
      case False
      with that left show ?thesis by (simp add: permits_ok_def)
    qed (use o a(2) in \<open>simp add: used_permit_def open_permit_def\<close>)
    ultimately show ?thesis by (simp add: permits_ok_def Inr Some)
  qed (use left in simp)
qed

interpretation permits: guarded_machine "\<lambda>s. s = (r, [], []) \<and> rg_permits r = []" "registry_step check"
    new_nonce permits_ok for r check
proof
  show "permits_ok s" if "s = (r, [], []) \<and> rg_permits r = []" for s
    using that by (simp add: permits_ok_def nonces_def)
  show "permits_ok (registry_step check s x)" if "permits_ok s" "new_nonce s x" for s x
  proof (cases s)
    case (fields r issued runs)
    show ?thesis
    proof (cases x)
      case (Execute_Tool q p)
      obtain out r1 where a: "admit_execution check q p r = (out, r1)" by fastforce
      from execute_keeps [OF that(1) [unfolded fields] this] show ?thesis
        by (cases out) (simp_all add: fields Execute_Tool a)
    qed (use that fields in \<open>auto simp: issue_keeps dest: replace_spec_permits intro: permits_only split: sum.split\<close>)
  qed
qed

fun fresh_nonces :: "'w registry_op list \<Rightarrow> string list" where
  "fresh_nonces [] = []"
| "fresh_nonces (Issue_Permit nm session mode nonce # ops) = nonce # fresh_nonces ops"
| "fresh_nonces (_ # ops) = fresh_nonces ops"

lemma fresh_guard:
  "distinct (fresh_nonces ops) \<Longrightarrow> set (fresh_nonces ops) \<inter> pm_nonce ` set issued = {} \<Longrightarrow>
     permits.guarded_run check (r, issued, runs) ops"
proof (induction ops arbitrary: r issued runs)
  case (Cons x ops)
  show ?case
  proof (cases x)
    case (Issue_Permit nm session mode nonce)
    with Cons show ?thesis
      by (cases "issue_permit nm session mode nonce r") (auto simp: issue_permit_Inr)
  next
    case (Execute_Tool q p)
    with Cons show ?thesis by (cases "admit_execution check q p r"; cases "fst (admit_execution check q p r)") auto
  qed (use Cons in auto)
qed simp

section \<open>Properties\<close>

text \<open>C19. However permits are issued, tools are registered, disabled and enabled, and executions are
  asked for, every execution that is admitted has a permit that was issued for its tool, and no permit
  admits two.\<close>

theorem permits_are_single_use:
  assumes "distinct (fresh_nonces ops)" and "rg_permits r = []"
    and "run_ops (registry_step check) (r, [], []) ops = (r1, issued, runs)"
  shows "distinct (map (pm_nonce \<circ> fst) runs) \<and> (\<forall>(p, q) \<in> set runs. p \<in> set issued \<and> pm_tool p = tq_tool q)"
proof -
  have "permits_ok (r1, issued, runs)"
    using permits.run_invariant [of "(r, [], [])" r check ops] fresh_guard [of ops "[]" check r "[]"] assms by simp
  then show ?thesis by (auto simp: permits_ok_def nonces_def used_permit_def)
qed

definition sample_request :: "string \<Rightarrow> tool_request" where
  "sample_request nm = \<lparr>tq_tool = nm, tq_arguments = [], tq_reason = []\<rparr>"

definition sample_permits :: "unit registry_op list" where
  "sample_permits =
     (let p = \<lparr>pm_tool = ''source_inspect'', pm_session = ''s'', pm_mode = RM_LIVE, pm_nonce = ''n1''\<rparr> in
     [Issue_Permit ''source_inspect'' ''s'' RM_LIVE ''n1'', Issue_Permit ''exploratory_test'' ''s'' RM_LIVE ''n2'',
      Execute_Tool (sample_request ''http_request'') (Some (p\<lparr>pm_nonce := ''n0''\<rparr>)),
      Execute_Tool (sample_request ''source_inspect'') (Some p),
      Execute_Tool (sample_request ''source_inspect'') (Some p),
      Execute_Tool (sample_request ''source_inspect'') None])"

theorem permits_are_single_use_witness:
  "case run_ops (registry_step (\<lambda>t d. Some d)) (default_registry, [], []) sample_permits of (r1, issued, runs) \<Rightarrow>
     map (tq_tool \<circ> snd) runs = [''source_inspect''] \<and> distinct (map (pm_nonce \<circ> fst) runs)"
proof -
  have one: "case run_ops (registry_step (\<lambda>t d. Some d)) (default_registry, [], []) sample_permits of (r1, issued, runs) \<Rightarrow>
     map (tq_tool \<circ> snd) runs = [''source_inspect'']" by code_simp
  obtain r1 issued runs where
    run: "run_ops (registry_step (\<lambda>t d. Some d)) (default_registry, [], []) sample_permits = (r1, issued, runs)"
    by (cases "run_ops (registry_step (\<lambda>t d. Some d)) (default_registry, [], []) sample_permits") auto
  have "distinct (fresh_nonces sample_permits)" by code_simp
  moreover have "rg_permits (default_registry :: unit registry) = []" by code_simp
  ultimately show ?thesis using permits_are_single_use [OF _ _ run] one by (simp add: run)
qed

end
