(* ===== verification/Agent.thy ===== *)
theory Agent
  imports Reproduction Budget AgentTools Json
begin

text \<open>
  \<open>security_agent/agent.py\<close>: how a tool that a model or an operator asks for is executed. A request
  passes the duplicate check, the registry, the authorization of the engine and the budgets before
  its executor is called with a permit; what it returns becomes an observation. The events of the
  timeline and the records of calls are kept without their time stamps and identifiers; nothing
  reads those.
\<close>

section \<open>Sessions\<close>

datatype research_state =
    S_CREATED | S_RECON | S_ANALYZING | S_HYPOTHESIS_CREATED | S_PLAN_READY | S_WAITING_FOR_APPROVAL
  | S_EXECUTING | S_OBSERVING | S_CORRELATING | S_REPRODUCING | S_VERIFIED | S_REJECTED | S_PAUSED
  | S_FAILED | S_COMPLETED | S_COMPLETED_SUCCESS | S_COMPLETED_NO_FINDINGS | S_MAX_ITERATIONS
  | S_BUDGET_EXHAUSTED | S_USER_STOPPED | S_USER_PAUSED | S_INCONCLUSIVE

fun research_state_value :: "research_state \<Rightarrow> string" where
  "research_state_value S_CREATED = ''created''"
| "research_state_value S_RECON = ''recon''"
| "research_state_value S_ANALYZING = ''analyzing''"
| "research_state_value S_HYPOTHESIS_CREATED = ''hypothesis_created''"
| "research_state_value S_PLAN_READY = ''plan_ready''"
| "research_state_value S_WAITING_FOR_APPROVAL = ''waiting_for_approval''"
| "research_state_value S_EXECUTING = ''executing''"
| "research_state_value S_OBSERVING = ''observing''"
| "research_state_value S_CORRELATING = ''correlating''"
| "research_state_value S_REPRODUCING = ''reproducing''"
| "research_state_value S_VERIFIED = ''verified''"
| "research_state_value S_REJECTED = ''rejected''"
| "research_state_value S_PAUSED = ''paused''"
| "research_state_value S_FAILED = ''failed''"
| "research_state_value S_COMPLETED = ''completed''"
| "research_state_value S_COMPLETED_SUCCESS = ''completed_success''"
| "research_state_value S_COMPLETED_NO_FINDINGS = ''completed_no_findings''"
| "research_state_value S_MAX_ITERATIONS = ''max_iterations''"
| "research_state_value S_BUDGET_EXHAUSTED = ''budget_exhausted''"
| "research_state_value S_USER_STOPPED = ''user_stopped''"
| "research_state_value S_USER_PAUSED = ''user_paused''"
| "research_state_value S_INCONCLUSIVE = ''inconclusive''"

datatype termination_reason =
    TR_COMPLETED_SUCCESS | TR_COMPLETED_NO_FINDINGS | TR_MAX_ITERATIONS | TR_BUDGET_EXHAUSTED
  | TR_USER_STOPPED | TR_USER_PAUSED | TR_FAILED | TR_INCONCLUSIVE

definition terminal_states :: "research_state list" where
  "terminal_states = [S_COMPLETED, S_COMPLETED_SUCCESS, S_COMPLETED_NO_FINDINGS, S_MAX_ITERATIONS,
     S_BUDGET_EXHAUSTED, S_USER_STOPPED, S_FAILED, S_REJECTED, S_VERIFIED, S_INCONCLUSIVE]"

definition resume_blocked_states :: "research_state list" where
  "resume_blocked_states = [S_USER_STOPPED, S_FAILED, S_COMPLETED, S_COMPLETED_SUCCESS,
     S_COMPLETED_NO_FINDINGS, S_VERIFIED, S_REJECTED]"

text \<open>Qualities of a result are kept as the texts the results carry.\<close>

definition retryable_quality :: "string list" where
  "retryable_quality = [''failed'', ''timeout'', ''blocked'', ''unavailable'']"

record timeline_event =
  te_type :: string
  te_decision :: string
  te_tool :: string
  te_target :: string
  te_authorization :: string
  te_result :: string
  te_evidence :: string
  te_finding :: string
  te_strategy :: string
  te_state :: string

record fingerprint_record =
  fr_fingerprint :: string
  fr_at :: instant
  fr_quality :: string

record call_record =
  cr_tool :: string
  cr_arguments :: pydict
  cr_reason :: string
  cr_authorization :: string
  cr_execution :: string
  cr_quality :: string
  cr_summary :: string
  cr_evidence :: "string list"

record session =
  se_id :: string
  se_project :: string
  se_target :: string
  se_mode :: research_mode
  se_program :: string
  se_state :: research_state
  se_budget :: session_budget
  se_timeline :: "timeline_event list"
  se_tool_history :: "string list"
  se_fingerprints :: "string list"
  se_records :: "fingerprint_record list"
  se_calls :: "call_record list"
  se_disabled :: "string set"
  se_paused :: bool
  se_stopped :: bool
  se_error :: "string option"
  se_reason :: "termination_reason option"
  se_next :: "pydict option"
  se_replay :: bool
  se_strategy :: string
  se_cursor :: bool
  se_hypotheses :: "hypothesis list"
  se_plan :: "research_plan option"
  se_findings :: "finding list"
  se_leads :: "lead list"

text \<open>What executors work on, \<open>ToolContext\<close>; the runners and binaries of external tools are left out.\<close>

record tool_context =
  tc_engine :: engine
  tc_graph :: evidence_graph
  tc_exchanges :: "(string, pydict) dict"
  tc_cancelled :: bool
  tc_hypotheses :: "(string, string) dict"

record agent =
  ag_session :: session
  ag_tools :: "tool_context registry"
  ag_engine :: engine
  ag_graph :: evidence_graph
  ag_exchanges :: "(string, pydict) dict"

definition cancelled :: "session \<Rightarrow> bool" where
  "cancelled s \<longleftrightarrow> se_stopped s \<or> se_paused s"

definition tool_context_of :: "agent \<Rightarrow> tool_context" where
  "tool_context_of a =
     \<lparr>tc_engine = ag_engine a, tc_graph = ag_graph a, tc_exchanges = ag_exchanges a,
      tc_cancelled = cancelled (ag_session a), tc_hypotheses = fold (\<lambda>h. dict_set (hy_id h) (hy_target h)) (se_hypotheses (ag_session a)) []\<rparr>"

definition on_session :: "(session \<Rightarrow> session) \<Rightarrow> agent \<Rightarrow> agent" where
  "on_session f a = a\<lparr>ag_session := f (ag_session a)\<rparr>"

definition event :: "string \<Rightarrow> timeline_event" where
  "event kind = \<lparr>te_type = kind, te_decision = [], te_tool = [], te_target = [], te_authorization = [],
     te_result = [], te_evidence = [], te_finding = [], te_strategy = [], te_state = []\<rparr>"

definition log_event :: "timeline_event \<Rightarrow> session \<Rightarrow> session" where
  "log_event e s = s\<lparr>se_timeline := se_timeline s @
     [e\<lparr>te_strategy := se_strategy s, te_state := research_state_value (se_state s)\<rparr>]\<rparr>"

definition timeline :: "timeline_event \<Rightarrow> agent \<Rightarrow> agent" where
  "timeline e = on_session (log_event e)"

definition set_state :: "research_state \<Rightarrow> agent \<Rightarrow> agent" where
  "set_state st = on_session (\<lambda>s. s\<lparr>se_state := st\<rparr>)"

section \<open>Flows\<close>

text \<open>
  A method raises, returns early, or goes on with a value; what it did to the agent stays in all
  three cases.
\<close>

datatype 'a flow = Raised error | Returned pydict | Going 'a

type_synonym 'a act = "agent \<Rightarrow> 'a flow \<times> agent"

definition act_then :: "'a act \<Rightarrow> ('a \<Rightarrow> 'b act) \<Rightarrow> 'b act" where
  "act_then m f a = (case m a of
     (Raised e, a1) \<Rightarrow> (Raised e, a1) | (Returned d, a1) \<Rightarrow> (Returned d, a1) | (Going x, a1) \<Rightarrow> f x a1)"

definition lift_result :: "'a result \<Rightarrow> 'a flow" where
  "lift_result r = (case r of Inl e \<Rightarrow> Raised e | Inr x \<Rightarrow> Going x)"

lemma act_then_Going:
  "act_then m f a = (Going y, a2) \<longleftrightarrow> (\<exists>x a1. m a = (Going x, a1) \<and> f x a1 = (Going y, a2))"
  by (auto simp: act_then_def split: prod.splits flow.splits)

section \<open>Arguments as text\<close>

text \<open>\<open>json.dumps(v, default=str)\<close>, and with sorted keys.\<close>

function json_of :: "pyval \<Rightarrow> json" and json_pairs :: "pydict \<Rightarrow> (string \<times> json) list" where
  "json_of PNone = JNull"
| "json_of (PBool b) = JBool b"
| "json_of (PInt i) = JInt i"
| "json_of (PFloat x) = JNum (show_float x)"
| "json_of (PStr s) = JStr s"
| "json_of (PList xs) = JList (map json_of xs)"
| "json_of (PDict d) = JObj (json_pairs d)"
| "json_pairs [] = []"
| "json_pairs ((k, v) # d) = (k, json_of v) # json_pairs d"
  by pat_completeness auto
termination
  by (relation "measure (case_sum size (size_list (size_prod (\<lambda>_. 0) size)))")
    (auto simp: size_list_estimation' less_Suc_eq_le)

function sorted_json :: "json \<Rightarrow> json" where
  "sorted_json (JList xs) = JList (map sorted_json xs)"
| "sorted_json (JObj ps) = JObj (sort_pairs (map (\<lambda>p. (fst p, sorted_json (snd p))) ps))"
| "sorted_json (JStr s) = JStr s"
| "sorted_json (JInt i) = JInt i"
| "sorted_json (JNum n) = JNum n"
| "sorted_json (JBool b) = JBool b"
| "sorted_json JNull = JNull"
  by pat_completeness auto
termination
  by (relation "measure size") (auto simp: size_list_estimation' less_Suc_eq_le intro!: size_list_estimation')

definition call_fingerprint :: "tool_request \<Rightarrow> string" where
  "call_fingerprint q =
     tq_tool q @ '':'' @ json_plain (sorted_json (JObj (json_pairs (tq_arguments q))))"

section \<open>Duplicates\<close>

definition window_of :: "session_budget \<Rightarrow> int" where
  "window_of b = seconds (b_identical_call_window_seconds b)"

definition recent_successes :: "string \<Rightarrow> instant \<Rightarrow> session \<Rightarrow> fingerprint_record list" where
  "recent_successes fp now s =
     filter (\<lambda>r. fr_fingerprint r = fp \<and> now - fr_at r \<le> window_of (se_budget s) \<and>
               fr_quality r \<notin> set retryable_quality) (se_records s)"

definition check_duplicate :: "string \<Rightarrow> instant \<Rightarrow> session \<Rightarrow> session result" where
  "check_duplicate fp now s =
     (if b_max_identical_calls (se_budget s) \<le> int (length (recent_successes fp now s)) then
        Inl (RestrictedActivityError ''repeated_identical_tool_call'')
      else Inr (s\<lparr>se_fingerprints := se_fingerprints s @ [fp]\<rparr>))"

definition remember_fingerprint :: "string \<Rightarrow> string \<Rightarrow> instant \<Rightarrow> agent \<Rightarrow> agent" where
  "remember_fingerprint fp quality now =
     on_session (\<lambda>s. s\<lparr>se_records := se_records s @
       [\<lparr>fr_fingerprint = fp, fr_at = now, fr_quality = quality\<rparr>]\<rparr>)"

section \<open>Authorization of a tool\<close>

datatype tool_authorization = TA_AUTHORIZED | TA_BLOCKED | TA_APPROVAL_REQUIRED

text \<open>\<open>ApprovalKind(text)\<close>.\<close>

definition approval_kind_of :: "string \<Rightarrow> approval_kind result" where
  "approval_kind_of t =
     (case List.find (\<lambda>k. kind_value k = t) Enum.enum of
        None \<Rightarrow> Inl (ValueError (t @ '' is not a valid ApprovalKind'')) | Some k \<Rightarrow> Inr k)"

text \<open>
  What the authorization reads from its surroundings: the clock for the three approvals it asks for
  itself, and what the engine reads.
\<close>

record tool_readings =
  tr_kind :: instant
  tr_high_risk :: instant
  tr_fuzzing :: instant
  tr_engine :: readings

definition live_mode :: "agent \<Rightarrow> bool" where
  "live_mode a \<longleftrightarrow> se_mode (ag_session a) = RM_LIVE"

text \<open>Live sessions need a scope, active testing where the tool needs it, and the program they were opened for.\<close>

definition live_block :: "tool_spec \<Rightarrow> agent \<Rightarrow> bool" where
  "live_block spec a \<longleftrightarrow>
     (let ss = en_session (ag_engine a); program = se_program (ag_session a) in
      live_mode a \<and>
      (s_includes (ss_scope ss) = [] \<or> ts_active spec \<and> \<not> ss_active ss \<or>
       program \<noteq> [] \<and> s_program_name (ss_scope ss) \<notin> {Some program, None}))"

definition approval_text :: "tool_spec \<Rightarrow> string" where
  "approval_text spec = (case ts_approval spec of None \<Rightarrow> [] | Some t \<Rightarrow> t)"

definition approval_missing :: "string \<Rightarrow> tool_spec \<Rightarrow> tool_readings \<Rightarrow> agent \<Rightarrow> bool result" where
  "approval_missing tool spec k a =
     (let g = en_approvals (ag_engine a); kind_text = approval_text spec in
      if ts_human spec \<and> kind_text \<noteq> [] \<and> (live_mode a \<or> ts_risk spec \<in> {TR_ACTIVE, TR_HIGH_RISK}) then
        then_do (approval_kind_of kind_text) (\<lambda>kind. Inr
          (live_mode a \<and> \<not> is_granted g (tr_kind k) kind \<or>
           ts_risk spec = TR_HIGH_RISK \<and> \<not> is_granted g (tr_high_risk k) HIGH_RISK_SCANNER \<and> live_mode a \<or>
           tool = ''fuzz'' \<and> \<not> ss_fuzzing (en_session (ag_engine a)) \<and>
             \<not> is_granted g (tr_fuzzing k) ENABLE_FUZZING))
      else Inr False)"

definition byte_count :: "pyval \<Rightarrow> int" where
  "byte_count v = (case v of PStr s \<Rightarrow> int (length s) | _ \<Rightarrow> 0)"

definition tool_auth_request :: "string \<Rightarrow> string \<Rightarrow> tool_spec \<Rightarrow> pydict \<Rightarrow> agent \<Rightarrow> auth_request" where
  "tool_auth_request target tool spec args a =
     \<lparr>q_target = target, q_method = py_str_of (py_or (py_get args ''method'') (PStr ''GET'')), q_tool = tool,
      q_active = ts_active spec, q_payload = byte_count (py_get args ''content''), q_destructive = False,
      q_live_scan = tool \<in> {''zap_scan'', ''nuclei_scan''},
      q_poc = (tool = ''reproduce'' \<or> tool = ''http_request'' \<and> py_true (dict_get args ''active'' (PBool True)) \<and>
                 ts_approval spec = Some ''send_poc_request'') \<and> live_mode a,
      q_high_risk = ts_risk spec = TR_HIGH_RISK \<and> live_mode a\<rparr>"

definition authorize_target ::
    "string \<Rightarrow> string \<Rightarrow> tool_spec \<Rightarrow> pydict \<Rightarrow> tool_readings \<Rightarrow> tool_authorization act" where
  "authorize_target target tool spec args k a =
     (if live_block spec a then (Going TA_BLOCKED, a)
      else case approval_missing tool spec k a of
        Inl e \<Rightarrow> (Raised e, a)
      | Inr missing \<Rightarrow>
          if missing then (Going TA_APPROVAL_REQUIRED, a)
          else case authorize_request (tool_auth_request target tool spec args a) (tr_engine k) (ag_engine a) of
            (Inl e, en) \<Rightarrow> (Raised e, a\<lparr>ag_engine := en\<rparr>)
          | (Inr d, en) \<Rightarrow>
              (Going (if allowed d then TA_AUTHORIZED else if approval_required d then TA_APPROVAL_REQUIRED else TA_BLOCKED),
               a\<lparr>ag_engine := en\<rparr>))"

section \<open>Executing a tool\<close>

text \<open>The identifiers and the clock readings of one execution.\<close>

record tool_env =
  tv_check :: arg_check
  tv_readings :: tool_readings
  tv_duplicate :: instant
  tv_remember :: instant
  tv_request_id :: string
  tv_request_at :: instant
  tv_exec_id :: string
  tv_exec_at :: instant
  tv_nonce :: string
  tv_observation_id :: string
  tv_observation_at :: instant

definition tool_event :: "string \<Rightarrow> string \<Rightarrow> string \<Rightarrow> timeline_event" where
  "tool_event kind tool target = (event kind)\<lparr>te_tool := tool, te_target := target\<rparr>"

definition add_to_graph :: "string \<Rightarrow> instant \<Rightarrow> node_args \<Rightarrow> evidence_node act" where
  "add_to_graph uid now na a = (case add_node uid now na (ag_graph a) of (r, g) \<Rightarrow>
     (lift_result r, a\<lparr>ag_graph := g\<rparr>))"

text \<open>What is known of a request after its arguments were validated.\<close>

record prepared =
  pr_fingerprint :: string
  pr_arguments :: pydict
  pr_spec :: tool_spec
  pr_target :: string
  pr_node :: evidence_node

definition call_target :: "pydict \<Rightarrow> session \<Rightarrow> string" where
  "call_target d s = py_str_of (py_or (py_or (py_get d ''url'') (py_get d ''target'')) (PStr (se_target s)))"

definition request_args :: "tool_request \<Rightarrow> string \<Rightarrow> string \<Rightarrow> node_args" where
  "request_args q ground target =
     (plain_node ''tool_request'' ''tool_request'' (tq_tool q @ '' '' @ target) (tq_tool q))
       \<lparr>na_extra := [(''reason'', PStr ground)]\<rparr>"

definition prepare_tool :: "tool_env \<Rightarrow> tool_request \<Rightarrow> string \<Rightarrow> prepared act" where
  "prepare_tool v q ground a =
     (let fp = call_fingerprint q; tool = tq_tool q in
      case (if tool = ''exploratory_test'' then Inr (ag_session a)
            else check_duplicate fp (tv_duplicate v) (ag_session a)) of
        Inl e \<Rightarrow> (Raised e, a)
      | Inr s \<Rightarrow>
          (let a1 = a\<lparr>ag_session := s\<rparr> in
           if tool \<in> se_disabled s then (Raised (RestrictedActivityError (''disabled_tool:'' @ tool)), a1)
           else case then_do (validate_request (tv_check v) q (ag_tools a1)) (\<lambda>d.
               then_do (spec_of (ag_tools a1) tool) (\<lambda>spec. Inr (d, spec))) of
             Inl e \<Rightarrow> (Raised e, a1)
           | Inr (d, spec) \<Rightarrow>
               (let target = call_target d s;
                    a2 = timeline ((tool_event ''tool_request'' tool target)\<lparr>te_decision := ground\<rparr>) a1
                in act_then (add_to_graph (tv_request_id v) (tv_request_at v)
                     (request_args q ground target))
                   (\<lambda>node a3. (Going \<lparr>pr_fingerprint = fp, pr_arguments = d, pr_spec = spec, pr_target = target,
                      pr_node = node\<rparr>, a3)) a2)))"

definition blocked_payload :: "string \<Rightarrow> string \<Rightarrow> string \<Rightarrow> pydict" where
  "blocked_payload auth quality ground =
     [(''authorization'', PStr auth), (''quality'', PStr quality), (''reason'', PStr ground),
      (''executed'', PBool False)]"

text \<open>A tool that is unavailable or only plans is answered without asking the engine.\<close>

definition capable_tool :: "tool_env \<Rightarrow> tool_request \<Rightarrow> prepared \<Rightarrow> unit act" where
  "capable_tool v q p a =
     (let tool = tq_tool q; remember = (\<lambda>ql. remember_fingerprint (pr_fingerprint p) ql (tv_remember v)) in
      case validate_capability tool (se_mode (ag_session a)) (ag_tools a) of
        Inl exc \<Rightarrow>
          if ts_capability (pr_spec p) \<noteq> TC_UNAVAILABLE then (Raised exc, a)
          else (Returned [(''quality'', PStr ''unavailable''), (''reason'', PStr (error_text exc)),
                          (''executed'', PBool False)],
                timeline ((tool_event ''authorization'' tool (pr_target p))\<lparr>te_authorization := ''blocked'',
                  te_result := ''unavailable'', te_evidence := nd_id (pr_node p)\<rparr>) (remember ''unavailable'' a))
      | Inr s \<Rightarrow>
          if ts_capability (pr_spec p) = TC_PLANNING_ONLY then
            (Returned [(''quality'', PStr ''no_result''), (''capability'', PStr ''planning_only''),
                       (''executed'', PBool False), (''reason'', PStr ''planning_only'')],
             remember ''no_result'' a)
          else (Going (), a))"

definition clear_tool :: "tool_env \<Rightarrow> tool_request \<Rightarrow> string \<Rightarrow> prepared \<Rightarrow> unit act" where
  "clear_tool v q ground p = act_then
     (authorize_target (pr_target p) (tq_tool q) (pr_spec p) (pr_arguments p) (tv_readings v))
     (\<lambda>auth a. case auth of
        TA_BLOCKED \<Rightarrow>
          (Returned (blocked_payload ''BLOCKED'' ''blocked'' ''ScopeGuard denied the target''),
           remember_fingerprint (pr_fingerprint p) ''blocked'' (tv_remember v)
             (timeline ((tool_event ''authorization'' (tq_tool q) (pr_target p))\<lparr>te_decision := ground,
                te_authorization := ''blocked'', te_result := ''BLOCKED''\<rparr>) a))
      | TA_APPROVAL_REQUIRED \<Rightarrow>
          (Returned (blocked_payload ''APPROVAL_REQUIRED'' ''approval_required''
             (or_text (approval_text (pr_spec p)) ''human approval required'')),
           remember_fingerprint (pr_fingerprint p) ''approval_required'' (tv_remember v)
             (timeline ((tool_event ''authorization'' (tq_tool q) (pr_target p))
                \<lparr>te_authorization := ''approval_required'', te_result := ''APPROVAL_REQUIRED''\<rparr>)
               (set_state S_WAITING_FOR_APPROVAL a)))
      | TA_AUTHORIZED \<Rightarrow> (Going (), a))"

definition exhaust_budget :: "agent \<Rightarrow> agent" where
  "exhaust_budget =
     on_session (\<lambda>s. s\<lparr>se_state := S_BUDGET_EXHAUSTED, se_reason := Some TR_BUDGET_EXHAUSTED\<rparr>)"

definition left_requests :: "session_budget \<Rightarrow> int" where
  "left_requests b = b_max_requests b - b_requests b"

definition put_budget :: "session_budget \<Rightarrow> agent \<Rightarrow> agent" where
  "put_budget b = on_session (\<lambda>s. s\<lparr>se_budget := b\<rparr>)"

text \<open>One tool call, and the units of the estimate in their own budget.\<close>

definition charge_estimate :: "cost_estimate \<Rightarrow> session_budget \<Rightarrow> unit result \<times> session_budget" where
  "charge_estimate c b =
     (case consume ''tool'' 1 b of
        (Inl e, b1) \<Rightarrow> (Inl e, b1)
      | (Inr _, b1) \<Rightarrow> (case consume_units_for c of (kind, amount) \<Rightarrow>
          if kind \<noteq> ''tool'' \<and> amount \<noteq> 0 then consume kind amount b1 else (Inr (), b1)))"

definition charge_tool :: "tool_request \<Rightarrow> prepared \<Rightarrow> cost_estimate act" where
  "charge_tool q p a =
     (let b = se_budget (ag_session a) in
      case estimate_operation_cost (tq_tool q) (pr_arguments p) (Some (ts_budget_kind (pr_spec p)))
             (Some (left_requests b)) of
        Inl e \<Rightarrow> (Raised e, a)
      | Inr c \<Rightarrow> (case charge_estimate c b of
          (Inr _, b1) \<Rightarrow> (Going c, put_budget b1 a)
        | (Inl e, b1) \<Rightarrow> (Raised e,
            timeline ((event ''tool'')\<lparr>te_tool := tq_tool q, te_authorization := ''blocked'',
              te_result := error_text e\<rparr>) (exhaust_budget (put_budget b1 a)))))"

definition next_action_of :: "tool_request \<Rightarrow> string \<Rightarrow> prepared \<Rightarrow> cost_estimate \<Rightarrow> pydict" where
  "next_action_of q ground p c =
     [(''tool'', PStr (tq_tool q)), (''target'', PStr (pr_target p)), (''reason'', PStr ground),
      (''expected_evidence'', PStr (ts_description (pr_spec p))),
      (''estimated_requests'', PInt (ce_requests c)), (''estimated_units'', PInt (ce_units c)),
      (''estimate_unit'', PStr (ce_unit c)), (''is_estimate'', PBool True),
      (''risk_level'', PStr (risk_value (ts_risk (pr_spec p)))),
      (''approval_required'', PBool (ts_human (pr_spec p)))]"

definition start_execution :: "tool_env \<Rightarrow> tool_request \<Rightarrow> string \<Rightarrow> prepared \<Rightarrow> cost_estimate \<Rightarrow> evidence_node act" where
  "start_execution v q ground p c a =
     (let a1 = timeline ((tool_event ''execution_start'' (tq_tool q) (pr_target p))
             \<lparr>te_authorization := ''authorized''\<rparr>)
           (on_session (\<lambda>s. s\<lparr>se_state := S_EXECUTING, se_next := Some (next_action_of q ground p c)\<rparr>) a)
      in add_to_graph (tv_exec_id v) (tv_exec_at v)
           ((plain_node ''tool_execution'' ''execution'' (''execute '' @ tq_tool q) (tq_tool q))
             \<lparr>na_parent := Some (nd_id (pr_node p)), na_relation := ''executes''\<rparr>) a1)"

text \<open>The permit is issued and spent at once: what is left is the call of the executor.\<close>

definition admit_tool :: "tool_env \<Rightarrow> tool_request \<Rightarrow> (tool_context executor \<times> pydict) act" where
  "admit_tool v q a =
     (let s = ag_session a in
      case issue_permit (tq_tool q) (se_id s) (se_mode s) (tv_nonce v) (ag_tools a) of
        Inl e \<Rightarrow> (Raised e, a)
      | Inr (pm, r1) \<Rightarrow> (case admit_execution (tv_check v) q (Some pm) r1 of
          (out, r2) \<Rightarrow> (lift_result out, a\<lparr>ag_tools := r2\<rparr>)))"

text \<open>Everything before the executor is called.\<close>

record admitted =
  ad_prepared :: prepared
  ad_cost :: cost_estimate
  ad_node :: evidence_node
  ad_executor :: "tool_context executor"
  ad_arguments :: pydict

definition admit_call :: "tool_env \<Rightarrow> tool_request \<Rightarrow> string \<Rightarrow> admitted act" where
  "admit_call v q ground =
     act_then (prepare_tool v q ground) (\<lambda>p.
       act_then (capable_tool v q p) (\<lambda>_.
         act_then (clear_tool v q ground p) (\<lambda>_.
           act_then (charge_tool q p) (\<lambda>c.
             act_then (start_execution v q ground p c) (\<lambda>node.
               act_then (admit_tool v q) (\<lambda>(f, d) a.
                 (Going \<lparr>ad_prepared = p, ad_cost = c, ad_node = node, ad_executor = f,
                         ad_arguments = d\<rparr>, a)))))))"

section \<open>After the executor\<close>

definition call_executor :: "admitted \<Rightarrow> agent \<Rightarrow> pydict result \<times> agent" where
  "call_executor ad a =
     (case ad_executor ad (ad_arguments ad) (tool_context_of a) of (out, w) \<Rightarrow>
        (out, a\<lparr>ag_engine := tc_engine w, ag_graph := tc_graph w, ag_exchanges := tc_exchanges w\<rparr>))"

text \<open>Denials and missing approvals are answers; other exceptions of an executor pass through.\<close>

definition executor_failure :: "tool_env \<Rightarrow> tool_request \<Rightarrow> prepared \<Rightarrow> error \<Rightarrow> pydict act" where
  "executor_failure v q p exc a =
     (case exc of
        AuthorizationDeniedError m \<Rightarrow>
          (Returned (blocked_payload ''BLOCKED'' ''blocked'' (error_text exc)),
           remember_fingerprint (pr_fingerprint p) ''blocked'' (tv_remember v)
             (timeline ((tool_event ''execution_result'' (tq_tool q) (pr_target p))
                \<lparr>te_authorization := ''blocked'', te_result := error_text exc\<rparr>) a))
      | ApprovalRequiredError m \<Rightarrow>
          (Returned (blocked_payload ''APPROVAL_REQUIRED'' ''approval_required'' (error_text exc)),
           remember_fingerprint (pr_fingerprint p) ''approval_required'' (tv_remember v)
             (set_state S_WAITING_FOR_APPROVAL a))
      | _ \<Rightarrow> (Raised exc, a))"

definition ok_or_exhausted :: "unit result \<times> session_budget \<Rightarrow> unit act" where
  "ok_or_exhausted r a =
     (case r of
        (Inr u, b) \<Rightarrow> (Going (), put_budget b a)
      | (Inl (SafetyLimitExceededError m), b) \<Rightarrow> (Going (), exhaust_budget (put_budget b a))
      | (Inl exc, b) \<Rightarrow> (Raised exc, put_budget b a))"

definition charge_scan :: "pydict \<Rightarrow> unit act" where
  "charge_scan r a =
     (let x = py_get r ''scan_seconds'' in
      if \<not> py_true x then (Going (), a)
      else case py_float_of x of
        Inl e \<Rightarrow> (Raised e, a)
      | Inr n \<Rightarrow> ok_or_exhausted (consume_scan n (se_budget (ag_session a))) a)"

definition charge_exploration :: "string \<Rightarrow> pydict \<Rightarrow> unit act" where
  "charge_exploration tool r a =
     (let x = py_get r ''duration_seconds'' in
      if \<not> (py_true x \<and> tool = ''exploratory_test'') then (Going (), a)
      else case py_float_of x of
        Inl e \<Rightarrow> (Raised e, a)
      | Inr n \<Rightarrow> ok_or_exhausted (note_exploratory_seconds n (se_budget (ag_session a))) a)"

text \<open>\<open>value in graph.nodes\<close>: what cannot be hashed raises.\<close>

definition in_graph :: "evidence_graph \<Rightarrow> pyval \<Rightarrow> bool result" where
  "in_graph g v =
     (case v of
        PStr s \<Rightarrow> Inr (map_of (gr_nodes g) s \<noteq> None)
      | PList xs \<Rightarrow> Inl (TypeError ''unhashable type: list'')
      | PDict d \<Rightarrow> Inl (TypeError ''unhashable type: dict'')
      | _ \<Rightarrow> Inr False)"

definition link_produced :: "string \<Rightarrow> pyval \<Rightarrow> unit act" where
  "link_produced node v a =
     (case in_graph (ag_graph a) v of
        Inl e \<Rightarrow> (Raised e, a)
      | Inr known \<Rightarrow>
          if known \<and> (node, py_str_of v, ''produced'') \<notin> set (gr_edges (ag_graph a)) then
            (case link node (py_str_of v) ''produced'' (ag_graph a) of (r, g) \<Rightarrow> (lift_result r, a\<lparr>ag_graph := g\<rparr>))
          else (Going (), a))"

fun link_each :: "string \<Rightarrow> pyval list \<Rightarrow> unit act" where
  "link_each node [] a = (Going (), a)"
| "link_each node (v # vs) a = act_then (link_produced node v) (\<lambda>_. link_each node vs) a"

text \<open>The loop over \<open>result.get("evidence_ids") or []\<close>, and the single \<open>evidence_id\<close>.\<close>

definition link_evidence :: "string \<Rightarrow> pydict \<Rightarrow> unit act" where
  "link_evidence node r =
     act_then (\<lambda>a. (lift_result (py_iter (py_or (py_get r ''evidence_ids'') (PList []))), a)) (\<lambda>ids.
       act_then (link_each node ids) (\<lambda>_.
         if py_true (py_get r ''evidence_id'') then link_produced node (py_get r ''evidence_id'')
         else (\<lambda>a. (Going (), a))))"

definition observable :: "string \<Rightarrow> pydict \<Rightarrow> bool" where
  "observable quality r \<longleftrightarrow>
     quality \<notin> {''blocked'', ''unavailable'', ''approval_required''} \<and>
     dict_get r ''executed'' (PBool True) \<noteq> PBool False"

definition result_summary :: "string \<Rightarrow> pydict \<Rightarrow> string" where
  "result_summary tool r =
     (let text = take 500 (json_plain (JObj (json_pairs r))) in
      if contains_injection_attempt text then untrusted_observation tool text else text)"

definition observe_result :: "tool_env \<Rightarrow> tool_request \<Rightarrow> admitted \<Rightarrow> string \<Rightarrow> pydict \<Rightarrow> evidence_node option act" where
  "observe_result v q ad quality r a =
     (if \<not> observable quality r then (Going None, a)
      else act_then (add_to_graph (tv_observation_id v) (tv_observation_at v)
             ((plain_node ''observation'' (if se_replay (ag_session a) then ''replay'' else ''execution'')
                 (redact_text (result_summary (tq_tool q) r)) (tq_tool q))
               \<lparr>na_parent := Some (nd_id (ad_node ad)), na_relation := ''observes''\<rparr>))
           (\<lambda>node. act_then (link_evidence (nd_id (ad_node ad)) r) (\<lambda>_ a1. (Going (Some node), a1))) a)"

text \<open>\<open>str(x) for x in result.get("evidence_ids") or ([evidence_id] if evidence_id else [])\<close>.\<close>

definition recorded_ids :: "pydict \<Rightarrow> string \<Rightarrow> string list result" where
  "recorded_ids r ident =
     then_do (py_iter (py_or (py_get r ''evidence_ids'') (PList (if ident \<noteq> [] then [PStr ident] else []))))
       (\<lambda>xs. Inr (map py_str_of xs))"

definition record_call :: "tool_env \<Rightarrow> tool_request \<Rightarrow> string \<Rightarrow> prepared \<Rightarrow> pydict \<Rightarrow> string \<Rightarrow> string \<Rightarrow> unit act" where
  "record_call v q ground p r quality ident a =
     (let text = result_summary (tq_tool q) r;
          a1 = timeline ((event ''evidence_created'')\<lparr>te_tool := tq_tool q, te_evidence := ident, te_result := quality\<rparr>)
            (timeline ((tool_event ''execution_result'' (tq_tool q) (pr_target p))
               \<lparr>te_decision := ground, te_authorization := ''authorized'', te_result := py_take 200 text,
                 te_evidence := ident\<rparr>) (set_state S_OBSERVING a));
          a2 = on_session (\<lambda>s. s\<lparr>se_tool_history := se_tool_history s @ [tq_tool q]\<rparr>)
            (remember_fingerprint (pr_fingerprint p) quality (tv_remember v) a1)
      in case recorded_ids r ident of
        Inl e \<Rightarrow> (Raised e, a2)
      | Inr ids \<Rightarrow> (Going (), on_session (\<lambda>s. s\<lparr>se_calls := se_calls s @
          [\<lparr>cr_tool = tq_tool q, cr_arguments = pr_arguments p, cr_reason = ground, cr_authorization = ''AUTHORIZED'',
            cr_execution = py_str_of (py_or (py_get r ''state'') (PStr ''completed'')), cr_quality = quality,
            cr_summary = text, cr_evidence = ids\<rparr>]\<rparr>) a2))"

definition finish_call :: "tool_env \<Rightarrow> tool_request \<Rightarrow> string \<Rightarrow> admitted \<Rightarrow> pydict \<Rightarrow> pydict act" where
  "finish_call v q ground ad r =
     act_then (charge_scan r) (\<lambda>_. act_then (charge_exploration (tq_tool q) r) (\<lambda>_.
       (let quality = py_str_of (py_or (py_get r ''quality'') (PStr ''success'')) in
        act_then (observe_result v q ad quality r) (\<lambda>obs.
          (let ident = (case obs of Some n \<Rightarrow> nd_id n
                        | None \<Rightarrow> py_str_of (py_or (py_get r ''evidence_id'') (PStr (nd_id (ad_node ad))))) in
           act_then (record_call v q ground (ad_prepared ad) r quality ident) (\<lambda>_ a.
             (Returned [(''authorization'', PStr ''AUTHORIZED''), (''result'', PDict r),
                        (''evidence_id'', PStr ident), (''quality'', PStr quality)], a)))))))"

text \<open>\<open>_execute_tool\<close>: the answer, or the exception that is raised.\<close>

definition execute_agent_tool :: "tool_env \<Rightarrow> tool_request \<Rightarrow> string \<Rightarrow> agent \<Rightarrow> pydict result \<times> agent" where
  "execute_agent_tool v q ground a =
     (case act_then (admit_call v q ground) (\<lambda>ad a1.
             case call_executor ad a1 of
               (Inl exc, a2) \<Rightarrow> executor_failure v q (ad_prepared ad) exc a2
             | (Inr r, a2) \<Rightarrow> finish_call v q ground ad r a2) a of
        (Raised e, a3) \<Rightarrow> (Inl e, a3) | (Returned d, a3) \<Rightarrow> (Inr d, a3) | (Going d, a3) \<Rightarrow> (Inr d, a3))"

definition request_tool :: "tool_env \<Rightarrow> tool_request \<Rightarrow> agent \<Rightarrow> pydict result \<times> agent" where
  "request_tool v q = execute_agent_tool v q (tq_reason q)"

section \<open>What is admitted\<close>

lemmas flow_splits = flow.splits prod.splits sum.splits option.splits if_splits

text \<open>The steps before the authorization keep the engine and the tools; they may only refuse.\<close>

lemma add_to_graph_Going:
  "add_to_graph uid now na a = (Going n, a1) \<Longrightarrow> \<exists>g. add_node uid now na (ag_graph a) = (Inr n, g) \<and> a1 = a\<lparr>ag_graph := g\<rparr>"
  by (auto simp: add_to_graph_def lift_result_def split: flow_splits)

lemma timeline_fields [simp]:
  "ag_engine (timeline e a) = ag_engine a" "ag_tools (timeline e a) = ag_tools a"
  "ag_graph (timeline e a) = ag_graph a" "se_mode (ag_session (timeline e a)) = se_mode (ag_session a)"
  "se_disabled (ag_session (timeline e a)) = se_disabled (ag_session a)"
  "se_budget (ag_session (timeline e a)) = se_budget (ag_session a)"
  "se_program (ag_session (timeline e a)) = se_program (ag_session a)"
  "se_id (ag_session (timeline e a)) = se_id (ag_session a)"
  by (simp_all add: timeline_def on_session_def log_event_def)

lemma prepare_tool_Going:
  assumes "prepare_tool v q ground a = (Going p, a1)"
  shows "tq_tool q \<notin> se_disabled (ag_session a)" and "\<not> is_disabled (ag_tools a) (tq_tool q)"
    and "map_of (rg_specs (ag_tools a)) (tq_tool q) = Some (pr_spec p)"
    and "tv_check v (tq_tool q) (tq_arguments q) = Some (pr_arguments p)"
    and "ag_engine a1 = ag_engine a" and "ag_tools a1 = ag_tools a"
    and "se_mode (ag_session a1) = se_mode (ag_session a)"
    and "se_program (ag_session a1) = se_program (ag_session a)"
    and "se_budget (ag_session a1) = se_budget (ag_session a)"
    and "se_id (ag_session a1) = se_id (ag_session a)"
  using assms
  by (auto simp: prepare_tool_def Let_def act_then_Going validate_request_Inr spec_of_def check_duplicate_def
      split: sum.splits if_splits option.splits dest!: add_to_graph_Going)

lemma capable_tool_Going:
  assumes "capable_tool v q p a = (Going u, a1)"
  shows "a1 = a" and "ts_capability (pr_spec p) \<noteq> TC_PLANNING_ONLY"
    and "\<exists>s. map_of (rg_specs (ag_tools a)) (tq_tool q) = Some s \<and> ts_capability s \<noteq> TC_UNAVAILABLE
      \<and> se_mode (ag_session a) \<in> set (ts_modes s)"
  using assms by (auto simp: capable_tool_def Let_def validate_capability_Inr split: sum.splits if_splits)

lemma authorize_target_Going:
  assumes "authorize_target target tool spec args k a = (Going TA_AUTHORIZED, a1)"
  shows "\<not> live_block spec a" and "approval_missing tool spec k a = Inr False"
    and "engine_allows (tool_auth_request target tool spec args a) (tr_engine k) (ag_engine a)"
    and "ag_session a1 = ag_session a" and "ag_tools a1 = ag_tools a" and "ag_graph a1 = ag_graph a"
    and "same_setup (ag_engine a1) (ag_engine a)"
proof -
  from assms obtain d en where d: "authorize_request (tool_auth_request target tool spec args a) (tr_engine k) (ag_engine a)
      = (Inr d, en)" "allowed d" "a1 = a\<lparr>ag_engine := en\<rparr>" "\<not> live_block spec a" "approval_missing tool spec k a = Inr False"
    by (auto simp: authorize_target_def split: if_splits sum.splits prod.splits bool.splits)
  then show "\<not> live_block spec a" "approval_missing tool spec k a = Inr False"
      "engine_allows (tool_auth_request target tool spec args a) (tr_engine k) (ag_engine a)"
      "ag_session a1 = ag_session a" "ag_tools a1 = ag_tools a" "ag_graph a1 = ag_graph a"
      "same_setup (ag_engine a1) (ag_engine a)"
    using authorize_request_same [OF d(1)] by (auto simp: engine_allows_def)
qed

text \<open>What must hold of a request for its executor to be called, in terms of the agent before the call.\<close>

definition human_cleared :: "tool_spec \<Rightarrow> tool_readings \<Rightarrow> agent \<Rightarrow> bool" where
  "human_cleared s k a \<longleftrightarrow>
     (ts_human s \<and> approval_text s \<noteq> [] \<longrightarrow>
       (\<exists>kind. kind_value kind = approval_text s \<and> is_granted (en_approvals (ag_engine a)) (tr_kind k) kind))"

definition live_cleared :: "tool_spec \<Rightarrow> tool_readings \<Rightarrow> agent \<Rightarrow> bool" where
  "live_cleared s k a \<longleftrightarrow>
     (let ss = en_session (ag_engine a); program = se_program (ag_session a) in
      s_includes (ss_scope ss) \<noteq> [] \<and> (ts_active s \<longrightarrow> ss_active ss) \<and>
      (program = [] \<or> s_program_name (ss_scope ss) \<in> {Some program, None}) \<and> human_cleared s k a)"

definition tool_cleared :: "tool_env \<Rightarrow> tool_request \<Rightarrow> agent \<Rightarrow> tool_spec \<Rightarrow> pydict \<Rightarrow> bool" where
  "tool_cleared v q a s d \<longleftrightarrow>
     map_of (rg_specs (ag_tools a)) (tq_tool q) = Some s \<and>
     tv_check v (tq_tool q) (tq_arguments q) = Some d \<and>
     tq_tool q \<notin> se_disabled (ag_session a) \<and> \<not> is_disabled (ag_tools a) (tq_tool q) \<and>
     ts_capability s \<notin> {TC_UNAVAILABLE, TC_PLANNING_ONLY} \<and>
     se_mode (ag_session a) \<in> set (ts_modes s) \<and>
     (live_mode a \<longrightarrow> live_cleared s (tv_readings v) a) \<and>
     engine_permits (ag_engine a) (tool_auth_request (call_target d (ag_session a)) (tq_tool q) s d a)
       (tr_engine (tv_readings v))"

lemma approval_missing_live:
  assumes "approval_missing tool s k a = Inr False" and "live_mode a"
  shows "human_cleared s k a"
proof -
  have "kind_value kind = t" if "approval_kind_of t = Inr kind" for t kind
    using that by (auto simp: approval_kind_of_def dest!: find_Some_prop split: option.splits)
  then show ?thesis using assms by (auto simp: human_cleared_def approval_missing_def Let_def split: if_splits)
qed

lemma live_block_cleared:
  "\<not> live_block s a \<Longrightarrow> approval_missing tool s k a = Inr False \<Longrightarrow> live_mode a \<Longrightarrow> live_cleared s k a"
  using approval_missing_live [of tool s k a] by (auto simp: live_block_def live_cleared_def Let_def)

text \<open>The questions of the authorization read only these parts of an agent.\<close>

definition same_question :: "agent \<Rightarrow> agent \<Rightarrow> bool" where
  "same_question a b \<longleftrightarrow> ag_engine a = ag_engine b \<and> se_mode (ag_session a) = se_mode (ag_session b) \<and>
     se_program (ag_session a) = se_program (ag_session b)"

lemma same_question_cong:
  assumes "same_question a b"
  shows "live_block s a = live_block s b" "approval_missing tool s k a = approval_missing tool s k b"
    "tool_auth_request target tool s d a = tool_auth_request target tool s d b" "live_mode a = live_mode b"
    "live_cleared s k a = live_cleared s k b"
  using assms
  by (simp_all add: same_question_def live_block_def approval_missing_def tool_auth_request_def live_mode_def
      live_cleared_def human_cleared_def cong: if_cong)

lemma charge_tool_Going:
  assumes "charge_tool q p a = (Going c, a1)"
  shows "ag_engine a1 = ag_engine a" "ag_tools a1 = ag_tools a" "ag_graph a1 = ag_graph a"
    "se_id (ag_session a1) = se_id (ag_session a)" "se_mode (ag_session a1) = se_mode (ag_session a)"
    "\<exists>b. charge_estimate c (se_budget (ag_session a)) = (Inr (), b) \<and> se_budget (ag_session a1) = b"
  using assms by (auto simp: charge_tool_def Let_def put_budget_def on_session_def split: sum.splits prod.splits)

lemma start_execution_Going:
  assumes "start_execution v q ground p c a = (Going n, a1)"
  shows "ag_engine a1 = ag_engine a" "ag_tools a1 = ag_tools a"
    "se_id (ag_session a1) = se_id (ag_session a)" "se_mode (ag_session a1) = se_mode (ag_session a)"
    "se_budget (ag_session a1) = se_budget (ag_session a)"
  using assms by (auto simp: start_execution_def Let_def on_session_def dest!: add_to_graph_Going)

lemma admit_tool_Going:
  assumes "admit_tool v q a = (Going (f, d), a1)"
  shows "map_of (rg_executors (ag_tools a)) (tq_tool q) = Some f" "tv_check v (tq_tool q) (tq_arguments q) = Some d"
    "ag_engine a1 = ag_engine a" "ag_session a1 = ag_session a" "ag_graph a1 = ag_graph a"
proof -
  obtain pm r1 r2 where p: "issue_permit (tq_tool q) (se_id (ag_session a)) (se_mode (ag_session a)) (tv_nonce v) (ag_tools a) = Inr (pm, r1)"
    and x: "admit_execution (tv_check v) q (Some pm) r1 = (Inr (f, d), r2)" and a1: "a1 = a\<lparr>ag_tools := r2\<rparr>"
    using assms by (auto simp: admit_tool_def Let_def lift_result_def split: sum.splits prod.splits)
  have "rg_executors r1 = rg_executors (ag_tools a)" using p by (auto simp: issue_permit_def Let_def split: if_splits)
  then show "map_of (rg_executors (ag_tools a)) (tq_tool q) = Some f" "tv_check v (tq_tool q) (tq_arguments q) = Some d"
    "ag_engine a1 = ag_engine a" "ag_session a1 = ag_session a" "ag_graph a1 = ag_graph a"
    using admit_Inr(5,6) [OF x] by (simp_all add: a1)
qed

text \<open>The steps of an admitted call.\<close>

lemma admit_call_steps:
  assumes "admit_call v q ground a = (Going ad, a')"
  obtains p a1 a3 a4 c n a5 f d where "prepare_tool v q ground a = (Going p, a1)"
    "capable_tool v q p a1 = (Going (), a1)"
    "authorize_target (pr_target p) (tq_tool q) (pr_spec p) (pr_arguments p) (tv_readings v) a1 = (Going TA_AUTHORIZED, a3)"
    "charge_tool q p a3 = (Going c, a4)" "start_execution v q ground p c a4 = (Going n, a5)"
    "admit_tool v q a5 = (Going (f, d), a')"
    "ad = \<lparr>ad_prepared = p, ad_cost = c, ad_node = n, ad_executor = f, ad_arguments = d\<rparr>"
proof -
  from assms obtain p a1 u a2 w a3 c a4 n a5 f d where s: "prepare_tool v q ground a = (Going p, a1)"
    "capable_tool v q p a1 = (Going u, a2)" "clear_tool v q ground p a2 = (Going w, a3)"
    "charge_tool q p a3 = (Going c, a4)" "start_execution v q ground p c a4 = (Going n, a5)"
    "admit_tool v q a5 = (Going (f, d), a')"
    "ad = \<lparr>ad_prepared = p, ad_cost = c, ad_node = n, ad_executor = f, ad_arguments = d\<rparr>"
    by (auto simp: admit_call_def act_then_Going)
  have "a2 = a1" using capable_tool_Going(1) [OF s(2)] .
  moreover have "authorize_target (pr_target p) (tq_tool q) (pr_spec p) (pr_arguments p) (tv_readings v) a2 = (Going TA_AUTHORIZED, a3)"
  proof -
    obtain auth b where b: "authorize_target (pr_target p) (tq_tool q) (pr_spec p) (pr_arguments p) (tv_readings v) a2 = (Going auth, b)"
      using s(3) by (auto simp: clear_tool_def act_then_Going)
    with s(3) show ?thesis by (cases auth) (simp_all add: clear_tool_def act_then_def)
  qed
  ultimately show ?thesis using that s by auto
qed

text \<open>What is called is the registered executor with the validated arguments, and only when the request is cleared.\<close>

lemma executions_are_cleared:
  assumes "admit_call v q ground a = (Going ad, a')"
  shows "\<exists>s. tool_cleared v q a s (ad_arguments ad) \<and>
    map_of (rg_executors (ag_tools a)) (tq_tool q) = Some (ad_executor ad)"
proof -
  obtain p a1 a3 a4 c n a5 f d where st: "prepare_tool v q ground a = (Going p, a1)"
    "capable_tool v q p a1 = (Going (), a1)"
    "authorize_target (pr_target p) (tq_tool q) (pr_spec p) (pr_arguments p) (tv_readings v) a1 = (Going TA_AUTHORIZED, a3)"
    "charge_tool q p a3 = (Going c, a4)" "start_execution v q ground p c a4 = (Going n, a5)"
    "admit_tool v q a5 = (Going (f, d), a')"
    "ad = \<lparr>ad_prepared = p, ad_cost = c, ad_node = n, ad_executor = f, ad_arguments = d\<rparr>"
    using assms by (rule admit_call_steps)
  note P = prepare_tool_Going [OF st(1)] and A = authorize_target_Going [OF st(3)]
  have q: "same_question a1 a" using P by (simp add: same_question_def)
  have d: "pr_arguments p = d" using P(4) admit_tool_Going(2) [OF st(6)] by simp
  have "map_of (rg_executors (ag_tools a)) (tq_tool q) = Some f"
    using admit_tool_Going(1) [OF st(6)] start_execution_Going(2) [OF st(5)] charge_tool_Going(2) [OF st(4)] A(5) P(6)
    by simp
  moreover have "pr_target p = call_target d (ag_session a)"
    using st(1) d by (auto simp: prepare_tool_def Let_def act_then_Going call_target_def check_duplicate_def
        split: sum.splits if_splits)
  ultimately show ?thesis
    using P A q d same_question_cong [OF q] capable_tool_Going(2,3) [OF st(2)] live_block_cleared [of "pr_spec p" a]
    by (intro exI [of _ "pr_spec p"]) (auto simp: tool_cleared_def st(7) engine_allows_iff)
qed

section \<open>What a call leaves behind\<close>

text \<open>A relation between the agent before and after an action, whatever its outcome.\<close>

definition leaves :: "(agent \<Rightarrow> agent \<Rightarrow> bool) \<Rightarrow> (agent \<Rightarrow> 'b \<times> agent) \<Rightarrow> bool" where
  "leaves R m \<longleftrightarrow> (\<forall>a. R a (snd (m a)))"

lemma leavesD: "leaves R m \<Longrightarrow> m a = (r, b) \<Longrightarrow> R a b"
  unfolding leaves_def by (metis snd_conv)

lemma leaves_then:
  assumes "transp R" and "leaves R m" and "\<And>x. leaves R (f x)"
  shows "leaves R (act_then m f)"
  unfolding leaves_def
proof
  fix a
  obtain r b where m: "m a = (r, b)" by fastforce
  have R: "R a b" by (rule leavesD [OF assms(2) m])
  moreover have "R b (snd (f x b))" for x using assms(3) [of x] by (simp add: leaves_def)
  ultimately show "R a (snd (act_then m f a))"
    using transpD [OF assms(1) R] by (cases r) (simp_all add: act_then_def m)
qed

text \<open>Nothing that counts as a result was recorded.\<close>

definition unrecorded :: "agent \<Rightarrow> agent \<Rightarrow> bool" where
  "unrecorded a b \<longleftrightarrow>
     se_calls (ag_session b) = se_calls (ag_session a) \<and>
     se_tool_history (ag_session b) = se_tool_history (ag_session a) \<and>
     se_hypotheses (ag_session b) = se_hypotheses (ag_session a) \<and>
     se_findings (ag_session b) = se_findings (ag_session a) \<and>
     se_leads (ag_session b) = se_leads (ag_session a) \<and> ag_exchanges b = ag_exchanges a \<and>
     (\<forall>i n. map_of (gr_nodes (ag_graph b)) i = Some n \<and> nd_kind n = ''observation'' \<longrightarrow>
        map_of (gr_nodes (ag_graph a)) i = Some n)"

lemma unrecorded_trans: "transp unrecorded"
  by (rule transpI) (simp add: unrecorded_def)

lemma unrecorded_refl [simp]: "unrecorded a a"
  by (simp add: unrecorded_def)

lemma unrecorded_updates [simp]:
  "unrecorded a (timeline e b) = unrecorded a b" "unrecorded a (set_state st b) = unrecorded a b"
  "unrecorded a (remember_fingerprint fp ql t b) = unrecorded a b"
  "unrecorded a (put_budget bd b) = unrecorded a b" "unrecorded a (exhaust_budget b) = unrecorded a b"
  "unrecorded a (b\<lparr>ag_engine := en\<rparr>) = unrecorded a b" "unrecorded a (b\<lparr>ag_tools := tr\<rparr>) = unrecorded a b"
  by (simp_all add: unrecorded_def timeline_def on_session_def log_event_def set_state_def remember_fingerprint_def
      put_budget_def exhaust_budget_def)

lemma link_nodes: "link s d r g = (x, g1) \<Longrightarrow> gr_nodes g1 = gr_nodes g"
  by (auto simp: link_def split: if_splits)

lemma add_node_nodes:
  assumes "add_node uid now na g = (r, g1)" and "map_of (gr_nodes g1) i = Some n"
  shows "map_of (gr_nodes g) i = Some n \<or> nd_kind n = na_kind na"
  using assms by (auto simp: add_node_def Let_def new_node_def split: if_splits prod.splits dest!: link_nodes)

lemma add_to_graph_unrecorded: "na_kind na \<noteq> ''observation'' \<Longrightarrow> leaves unrecorded (add_to_graph uid now na)"
  by (auto simp: leaves_def add_to_graph_def unrecorded_def split: prod.split dest!: add_node_nodes)

lemma prepare_unrecorded: "leaves unrecorded (prepare_tool v q ground)"
proof -
  have g: "unrecorded a (snd (act_then (add_to_graph uid now na) (\<lambda>x c. (Going (f x), c)) b)) = unrecorded a b"
    if "na_kind na \<noteq> ''observation''" "unrecorded a b" for a b uid now na and f :: "evidence_node \<Rightarrow> prepared"
  proof -
    have "leaves unrecorded (act_then (add_to_graph uid now na) (\<lambda>x c. (Going (f x), c)))"
      by (rule leaves_then [OF unrecorded_trans add_to_graph_unrecorded [OF that(1)]]) (simp add: leaves_def)
    then show ?thesis using that(2) transpD [OF unrecorded_trans] by (auto simp: leaves_def)
  qed
  have s: "unrecorded a (a\<lparr>ag_session := s\<rparr>)"
    if "(if tq_tool q = ''exploratory_test'' then Inr (ag_session a) else check_duplicate fp t (ag_session a)) = Inr s" for a s fp t
    using that by (auto simp: check_duplicate_def unrecorded_def split: if_splits)
  show ?thesis
    unfolding leaves_def
  proof
    fix a
    show "unrecorded a (snd (prepare_tool v q ground a))"
      unfolding prepare_tool_def Let_def
      by (auto simp: g s request_args_def plain_node_def split: sum.split)
  qed
qed

lemma capable_unrecorded: "leaves unrecorded (capable_tool v q p)"
  by (auto simp: leaves_def capable_tool_def Let_def split: sum.split)

lemma authorize_unrecorded: "leaves unrecorded (authorize_target target tool spec args k)"
  by (auto simp: leaves_def authorize_target_def split: sum.split prod.split)

lemma clear_unrecorded: "leaves unrecorded (clear_tool v q ground p)"
  unfolding clear_tool_def
  by (rule leaves_then [OF unrecorded_trans authorize_unrecorded])
    (auto simp: leaves_def split: tool_authorization.split)

lemma charge_unrecorded: "leaves unrecorded (charge_tool q p)"
  by (auto simp: leaves_def charge_tool_def Let_def split: sum.split prod.split)

lemma start_unrecorded: "leaves unrecorded (start_execution v q ground p c)"
  unfolding leaves_def
proof
  fix a
  let ?b = "timeline ((tool_event ''execution_start'' (tq_tool q) (pr_target p))\<lparr>te_authorization := ''authorized''\<rparr>)
    (on_session (\<lambda>s. s\<lparr>se_state := S_EXECUTING, se_next := Some (next_action_of q ground p c)\<rparr>) a)"
  let ?n = "(plain_node ''tool_execution'' ''execution'' (''execute '' @ tq_tool q) (tq_tool q))
    \<lparr>na_parent := Some (nd_id (pr_node p)), na_relation := ''executes''\<rparr>"
  have "leaves unrecorded (add_to_graph (tv_exec_id v) (tv_exec_at v) ?n)"
    by (rule add_to_graph_unrecorded) (simp add: plain_node_def)
  then have "unrecorded ?b (snd (add_to_graph (tv_exec_id v) (tv_exec_at v) ?n ?b))" by (simp add: leaves_def)
  moreover have "unrecorded a (on_session (\<lambda>s. s\<lparr>se_state := S_EXECUTING, se_next := x\<rparr>) a)" for x
    by (simp add: unrecorded_def on_session_def)
  then have "unrecorded a ?b" by (simp only: unrecorded_updates)
  ultimately show "unrecorded a (snd (start_execution v q ground p c a))"
    unfolding start_execution_def Let_def by (rule transpD [OF unrecorded_trans, rotated])
qed

lemma admit_unrecorded: "leaves unrecorded (admit_tool v q)"
  by (auto simp: leaves_def admit_tool_def Let_def split: sum.split prod.split)

lemma admit_call_unrecorded: "leaves unrecorded (admit_call v q ground)"
  unfolding admit_call_def
  by (intro leaves_then [OF unrecorded_trans] prepare_unrecorded capable_unrecorded clear_unrecorded
      charge_unrecorded start_unrecorded admit_unrecorded)
    (auto simp: leaves_def)


section \<open>Refused calls\<close>

definition admitted_call :: "tool_env \<Rightarrow> tool_request \<Rightarrow> string \<Rightarrow> agent \<Rightarrow> bool" where
  "admitted_call v q ground a \<longleftrightarrow> (case fst (admit_call v q ground a) of Going ad \<Rightarrow> True | _ \<Rightarrow> False)"

text \<open>An answer that says that nothing was executed.\<close>

definition not_executed :: "pydict result \<Rightarrow> bool" where
  "not_executed r \<longleftrightarrow> (case r of Inl e \<Rightarrow> True | Inr d \<Rightarrow> py_get d ''executed'' = PBool False)"

lemma blocked_not_executed: "py_get (blocked_payload x y z) ''executed'' = PBool False"
  by (simp add: blocked_payload_def py_get_def dict_get_def)

definition answers :: "(pydict \<Rightarrow> bool) \<Rightarrow> 'a act \<Rightarrow> bool" where
  "answers P m \<longleftrightarrow> (\<forall>a d. fst (m a) = Returned d \<longrightarrow> P d)"

lemma answers_then: "answers P m \<Longrightarrow> (\<And>x. answers P (f x)) \<Longrightarrow> answers P (act_then m f)"
  by (simp add: answers_def act_then_def split: prod.split flow.split) (metis fst_conv)

lemma lift_result_answers [simp]: "lift_result r \<noteq> Returned d"
  by (simp add: lift_result_def split: sum.split)

lemma going_answers [simp]: "answers P (\<lambda>a. (Going (f a), g a))"
  by (simp add: answers_def)

lemma add_to_graph_answers: "answers P (add_to_graph uid now na)"
  by (simp add: answers_def add_to_graph_def split: prod.split)

lemma prepare_answers: "answers P (prepare_tool v q ground)"
proof -
  have "answers P (act_then (add_to_graph uid now na) (\<lambda>x c. (Going (f x), c)))"
    for uid now na and f :: "evidence_node \<Rightarrow> prepared"
    by (rule answers_then [OF add_to_graph_answers]) simp
  then show ?thesis
    by (simp add: answers_def prepare_tool_def Let_def split: sum.split prod.split)
qed

definition says_no :: "pydict \<Rightarrow> bool" where "says_no d \<longleftrightarrow> py_get d ''executed'' = PBool False"

lemma capable_answers: "answers says_no (capable_tool v q p)"
  by (simp add: answers_def says_no_def capable_tool_def Let_def py_get_def dict_get_def split: sum.split)

lemma authorize_answers: "answers P (authorize_target t tool s ar k)"
  by (simp add: answers_def authorize_target_def split: sum.split prod.split)

lemma clear_answers: "answers says_no (clear_tool v q ground p)"
  unfolding clear_tool_def
  by (rule answers_then [OF authorize_answers])
    (simp add: answers_def says_no_def blocked_not_executed split: tool_authorization.split)

lemma charge_answers: "answers P (charge_tool q p)"
  by (simp add: answers_def charge_tool_def Let_def split: sum.split prod.split)

lemma start_answers: "answers P (start_execution v q ground p c)"
  by (simp add: answers_def start_execution_def Let_def add_to_graph_def split: prod.split)

lemma admit_answers: "answers P (admit_tool v q)"
  by (simp add: answers_def admit_tool_def Let_def split: sum.split prod.split)

lemma admit_call_answers: "answers says_no (admit_call v q ground)"
  unfolding admit_call_def
  by (intro answers_then prepare_answers capable_answers clear_answers charge_answers start_answers admit_answers)
    (simp add: answers_def split: prod.split)

text \<open>C22. A call that is not admitted calls no executor and leaves nothing that counts as a result: the
  calls, the tool history, the exchanges, hypotheses, findings and leads stay as they are and no
  observation enters the graph; the caller gets an exception or an answer that says it was not executed.
\<close>

theorem refused_calls_leave_nothing:
  assumes "\<not> admitted_call v q ground a"
  shows "unrecorded a (snd (execute_agent_tool v q ground a)) \<and> not_executed (fst (execute_agent_tool v q ground a))"
proof -
  obtain r b where r: "admit_call v q ground a = (r, b)" by fastforce
  have u: "unrecorded a b" by (rule leavesD [OF admit_call_unrecorded r])
  show ?thesis
  proof (cases r)
    case (Returned d)
    then have "fst (admit_call v q ground a) = Returned d" by (simp add: r)
    then have "says_no d" using admit_call_answers by (auto simp: answers_def)
    then show ?thesis using u r Returned by (simp add: execute_agent_tool_def act_then_def not_executed_def says_no_def)
  qed (use assms u r in \<open>auto simp: admitted_call_def execute_agent_tool_def act_then_def not_executed_def\<close>)
qed

section \<open>Admission as one condition\<close>

text \<open>The identifiers of the nodes a call creates are new in the graph.\<close>

definition fresh_ids :: "tool_env \<Rightarrow> agent \<Rightarrow> bool" where
  "fresh_ids v a \<longleftrightarrow>
     map_of (gr_nodes (ag_graph a)) (tv_request_id v) = None \<and> map_of (gr_nodes (ag_graph a)) (tv_exec_id v) = None \<and>
     tv_request_id v \<noteq> tv_exec_id v \<and>
     (tv_request_id v = [] \<or> (tv_request_id v, tv_exec_id v, ''executes'') \<notin> set (gr_edges (ag_graph a)))"

lemma relation_names: "''supports'' \<in> set allowed_relations" "''executes'' \<in> set allowed_relations"
  by (simp_all add: allowed_relations_def)

lemma add_plain_node:
  assumes "na_relation na = ''supports''" and "na_parent na = None" and "na_id na = None"
  shows "fst (add_node uid now na g) = Inr n \<longleftrightarrow> map_of (gr_nodes g) uid = None \<and> n = new_node uid now na g"
    and "map_of (gr_nodes g) uid = None \<Longrightarrow>
      snd (add_node uid now na g) = g\<lparr>gr_nodes := dict_set uid (new_node uid now na g) (gr_nodes g)\<rparr>"
  using assms by (auto simp: add_node_def present_def relation_names Let_def)

lemma add_child_node:
  assumes "na_relation na = ''executes''" and "na_parent na = Some par" and "na_id na = None"
    and "map_of (gr_nodes g) par \<noteq> None" and "par \<noteq> uid"
  shows "is_ok (fst (add_node uid now na g)) \<longleftrightarrow>
    map_of (gr_nodes g) uid = None \<and> (par = [] \<or> (par, uid, ''executes'') \<notin> set (gr_edges g))"
proof -
  have none: "\<not> present None" by (simp add: present_def)
  have par: "present (Some par) \<longleftrightarrow> par \<noteq> []" by (simp add: present_def)
  show ?thesis using assms relation_names
    by (auto simp: add_node_def none par Let_def link_def)
qed

definition not_repeated :: "tool_env \<Rightarrow> tool_request \<Rightarrow> session \<Rightarrow> bool" where
  "not_repeated v q s \<longleftrightarrow>
     tq_tool q = ''exploratory_test'' \<or>
     int (length (recent_successes (call_fingerprint q) (tv_duplicate v) s)) < b_max_identical_calls (se_budget s)"

definition affordable :: "tool_request \<Rightarrow> tool_spec \<Rightarrow> pydict \<Rightarrow> session_budget \<Rightarrow> bool" where
  "affordable q s d b \<longleftrightarrow>
     (case estimate_operation_cost (tq_tool q) d (Some (ts_budget_kind s)) (Some (left_requests b)) of
        Inl e \<Rightarrow> False | Inr c \<Rightarrow> is_ok (fst (charge_estimate c b)))"

lemma check_duplicate_iff:
  "check_duplicate fp t s = Inr s1 \<longleftrightarrow>
     int (length (recent_successes fp t s)) < b_max_identical_calls (se_budget s) \<and>
     s1 = s\<lparr>se_fingerprints := se_fingerprints s @ [fp]\<rparr>"
  by (auto simp: check_duplicate_def)

lemma request_args_fields [simp]:
  "na_relation (request_args q ground t) = ''supports''" "na_parent (request_args q ground t) = None"
  "na_id (request_args q ground t) = None"
  by (simp_all add: request_args_def plain_node_def)

text \<open>The agent after the duplicate check.\<close>

definition asked :: "tool_env \<Rightarrow> tool_request \<Rightarrow> string \<Rightarrow> pydict \<Rightarrow> agent \<Rightarrow> agent" where
  "asked v q ground d a =
     (let s = (if tq_tool q = ''exploratory_test'' then ag_session a
               else (ag_session a)\<lparr>se_fingerprints := se_fingerprints (ag_session a) @ [call_fingerprint q]\<rparr>)
      in timeline ((tool_event ''tool_request'' (tq_tool q) (call_target d s))\<lparr>te_decision := ground\<rparr>)
           (a\<lparr>ag_session := s\<rparr>))"

lemma asked_fields [simp]:
  "ag_engine (asked v q ground d a) = ag_engine a" "ag_tools (asked v q ground d a) = ag_tools a"
  "ag_graph (asked v q ground d a) = ag_graph a" "se_mode (ag_session (asked v q ground d a)) = se_mode (ag_session a)"
  "se_program (ag_session (asked v q ground d a)) = se_program (ag_session a)"
  "se_budget (ag_session (asked v q ground d a)) = se_budget (ag_session a)"
  "se_id (ag_session (asked v q ground d a)) = se_id (ag_session a)"
  by (simp_all add: asked_def Let_def)

definition asking :: "tool_env \<Rightarrow> tool_request \<Rightarrow> agent \<Rightarrow> tool_spec \<Rightarrow> pydict \<Rightarrow> bool" where
  "asking v q a s d \<longleftrightarrow>
     not_repeated v q (ag_session a) \<and> tq_tool q \<notin> se_disabled (ag_session a) \<and>
     map_of (rg_specs (ag_tools a)) (tq_tool q) = Some s \<and> \<not> is_disabled (ag_tools a) (tq_tool q) \<and>
     tv_check v (tq_tool q) (tq_arguments q) = Some d"

lemma prepare_tool_asking:
  assumes "asking v q a s d"
  shows "prepare_tool v q ground a =
    (case add_node (tv_request_id v) (tv_request_at v) (request_args q ground (call_target d (ag_session a))) (ag_graph a) of
       (Inl e, g) \<Rightarrow> (Raised e, (asked v q ground d a)\<lparr>ag_graph := g\<rparr>)
     | (Inr n, g) \<Rightarrow> (Going \<lparr>pr_fingerprint = call_fingerprint q, pr_arguments = d, pr_spec = s,
         pr_target = call_target d (ag_session a), pr_node = n\<rparr>, (asked v q ground d a)\<lparr>ag_graph := g\<rparr>))"
proof -
  define s0 where "s0 = (if tq_tool q = ''exploratory_test'' then ag_session a
    else (ag_session a)\<lparr>se_fingerprints := se_fingerprints (ag_session a) @ [call_fingerprint q]\<rparr>)"
  have dup: "(if tq_tool q = ''exploratory_test'' then Inr (ag_session a)
      else check_duplicate (call_fingerprint q) (tv_duplicate v) (ag_session a)) = Inr s0"
    using assms by (auto simp: asking_def not_repeated_def check_duplicate_iff s0_def)
  have val: "validate_request (tv_check v) q (ag_tools a) = Inr d" "spec_of (ag_tools a) (tq_tool q) = Inr s"
    using assms by (auto simp: asking_def validate_request_Inr spec_of_def)
  have s0: "tq_tool q \<notin> se_disabled s0" "call_target d s0 = call_target d (ag_session a)"
    using assms by (auto simp: asking_def call_target_def s0_def)
  have ask: "asked v q ground d a =
      timeline ((tool_event ''tool_request'' (tq_tool q) (call_target d s0))\<lparr>te_decision := ground\<rparr>) (a\<lparr>ag_session := s0\<rparr>)"
    by (simp add: asked_def s0_def Let_def)
  show ?thesis
    unfolding prepare_tool_def Let_def dup ask
    using val s0
    by (simp add: act_then_def add_to_graph_def lift_result_def split: prod.split sum.split)
qed

lemma prepare_tool_needs_asking:
  assumes "prepare_tool v q ground a = (Going p, a1)"
  shows "asking v q a (pr_spec p) (pr_arguments p)"
proof -
  have "not_repeated v q (ag_session a)"
    using assms by (auto simp: prepare_tool_def Let_def not_repeated_def check_duplicate_iff split: sum.splits if_splits)
  then show ?thesis using prepare_tool_Going(1-4) [OF assms] by (simp add: asking_def)
qed

lemma prepare_tool_iff:
  "prepare_tool v q ground a = (Going p, a1) \<longleftrightarrow>
     (\<exists>s d. asking v q a s d \<and> map_of (gr_nodes (ag_graph a)) (tv_request_id v) = None \<and>
       (let n = new_node (tv_request_id v) (tv_request_at v) (request_args q ground (call_target d (ag_session a))) (ag_graph a)
        in p = \<lparr>pr_fingerprint = call_fingerprint q, pr_arguments = d, pr_spec = s,
             pr_target = call_target d (ag_session a), pr_node = n\<rparr> \<and>
           a1 = (asked v q ground d a)\<lparr>ag_graph := (ag_graph a)\<lparr>gr_nodes :=
             dict_set (tv_request_id v) n (gr_nodes (ag_graph a))\<rparr>\<rparr>))"
  (is "?l = ?r")
proof
  assume l: ?l
  have ask: "asking v q a (pr_spec p) (pr_arguments p)" by (rule prepare_tool_needs_asking [OF l])
  obtain r g where g: "add_node (tv_request_id v) (tv_request_at v)
      (request_args q ground (call_target (pr_arguments p) (ag_session a))) (ag_graph a) = (r, g)" by fastforce
  have "\<exists>n. r = Inr n" using l g prepare_tool_asking [OF ask, of ground] by (cases r) auto
  then obtain n where n: "r = Inr n" by blast
  note plain = add_plain_node [where uid = "tv_request_id v" and now = "tv_request_at v"
        and na = "request_args q ground (call_target (pr_arguments p) (ag_session a))" and g = "ag_graph a"]
  have free: "map_of (gr_nodes (ag_graph a)) (tv_request_id v) = None"
    and new: "n = new_node (tv_request_id v) (tv_request_at v)
      (request_args q ground (call_target (pr_arguments p) (ag_session a))) (ag_graph a)"
    using plain(1) [of n] g n by simp_all
  have "g = (ag_graph a)\<lparr>gr_nodes := dict_set (tv_request_id v) n (gr_nodes (ag_graph a))\<rparr>"
    using plain(2) g free new by simp
  moreover have "Going p = Going \<lparr>pr_fingerprint = call_fingerprint q, pr_arguments = pr_arguments p, pr_spec = pr_spec p,
         pr_target = call_target (pr_arguments p) (ag_session a), pr_node = n\<rparr>"
    "a1 = (asked v q ground (pr_arguments p) a)\<lparr>ag_graph := g\<rparr>"
    using l g n prepare_tool_asking [OF ask, of ground] by simp_all
  ultimately show ?r using ask free new
    by (intro exI [of _ "pr_spec p"] exI [of _ "pr_arguments p"]) (simp add: Let_def)
next
  assume ?r
  then obtain s d where ask: "asking v q a s d" and free: "map_of (gr_nodes (ag_graph a)) (tv_request_id v) = None"
    and p: "p = \<lparr>pr_fingerprint = call_fingerprint q, pr_arguments = d, pr_spec = s, pr_target = call_target d (ag_session a),
        pr_node = new_node (tv_request_id v) (tv_request_at v) (request_args q ground (call_target d (ag_session a))) (ag_graph a)\<rparr>"
      "a1 = (asked v q ground d a)\<lparr>ag_graph := (ag_graph a)\<lparr>gr_nodes := dict_set (tv_request_id v)
        (new_node (tv_request_id v) (tv_request_at v) (request_args q ground (call_target d (ag_session a))) (ag_graph a))
        (gr_nodes (ag_graph a))\<rparr>\<rparr>"
    by (auto simp: Let_def)
  obtain r g where g: "add_node (tv_request_id v) (tv_request_at v)
      (request_args q ground (call_target d (ag_session a))) (ag_graph a) = (r, g)" by fastforce
  have r: "r = Inr (new_node (tv_request_id v) (tv_request_at v) (request_args q ground (call_target d (ag_session a))) (ag_graph a))"
    using add_plain_node(1) [where uid = "tv_request_id v" and now = "tv_request_at v"
        and na = "request_args q ground (call_target d (ag_session a))" and g = "ag_graph a"] free g by simp
  have "g = (ag_graph a)\<lparr>gr_nodes := dict_set (tv_request_id v)
        (new_node (tv_request_id v) (tv_request_at v) (request_args q ground (call_target d (ag_session a))) (ag_graph a))
        (gr_nodes (ag_graph a))\<rparr>"
    using add_plain_node(2) [where uid = "tv_request_id v" and now = "tv_request_at v"
        and na = "request_args q ground (call_target d (ag_session a))" and g = "ag_graph a"] free g by simp
  then show ?l using prepare_tool_asking [OF ask, of ground] g r p by simp
qed

lemma capable_tool_ok:
  assumes "map_of (rg_specs (ag_tools a)) (tq_tool q) = Some (pr_spec p)"
    and "ts_capability (pr_spec p) \<notin> {TC_UNAVAILABLE, TC_PLANNING_ONLY}"
    and "se_mode (ag_session a) \<in> set (ts_modes (pr_spec p))"
  shows "capable_tool v q p a = (Going (), a)"
  using assms by (simp add: capable_tool_def Let_def validate_capability_def spec_of_def)

lemma clear_tool_ok:
  assumes "\<not> live_block (pr_spec p) a" and "approval_missing (tq_tool q) (pr_spec p) (tv_readings v) a = Inr False"
    and "engine_permits (ag_engine a) (tool_auth_request (pr_target p) (tq_tool q) (pr_spec p) (pr_arguments p) a)
      (tr_engine (tv_readings v))"
  obtains en where "clear_tool v q ground p a = (Going (), a\<lparr>ag_engine := en\<rparr>)"
proof -
  obtain r en where r: "authorize_request (tool_auth_request (pr_target p) (tq_tool q) (pr_spec p) (pr_arguments p) a)
      (tr_engine (tv_readings v)) (ag_engine a) = (r, en)" by fastforce
  have "engine_allows (tool_auth_request (pr_target p) (tq_tool q) (pr_spec p) (pr_arguments p) a)
      (tr_engine (tv_readings v)) (ag_engine a)" using assms(3) by (simp add: engine_allows_iff)
  then obtain d where d: "r = Inr d" "allowed d" using r by (auto simp: engine_allows_def split: sum.splits)
  have "clear_tool v q ground p a = (Going (), a\<lparr>ag_engine := en\<rparr>)"
    using assms(1,2) r d by (simp add: clear_tool_def act_then_def authorize_target_def)
  then show ?thesis by (rule that)
qed

lemma charge_tool_iff:
  "(\<exists>c b. charge_tool q p a = (Going c, b)) \<longleftrightarrow> affordable q (pr_spec p) (pr_arguments p) (se_budget (ag_session a))"
  by (auto simp: charge_tool_def affordable_def Let_def split: sum.split prod.split)

lemma start_execution_iff:
  assumes "nd_id (pr_node p) = tv_request_id v" and "map_of (gr_nodes (ag_graph a)) (tv_request_id v) \<noteq> None"
    and "tv_request_id v \<noteq> tv_exec_id v"
  shows "(\<exists>n b. start_execution v q ground p c a = (Going n, b)) \<longleftrightarrow>
    map_of (gr_nodes (ag_graph a)) (tv_exec_id v) = None \<and>
    (tv_request_id v = [] \<or> (tv_request_id v, tv_exec_id v, ''executes'') \<notin> set (gr_edges (ag_graph a)))"
proof -
  let ?na = "(plain_node ''tool_execution'' ''execution'' (''execute '' @ tq_tool q) (tq_tool q))
     \<lparr>na_parent := Some (nd_id (pr_node p)), na_relation := ''executes''\<rparr>"
  have na: "na_relation ?na = ''executes''" "na_parent ?na = Some (tv_request_id v)" "na_id ?na = None"
    using assms(1) by (simp_all add: plain_node_def)
  have "(\<exists>n b. start_execution v q ground p c a = (Going n, b)) \<longleftrightarrow>
      is_ok (fst (add_node (tv_exec_id v) (tv_exec_at v) ?na (ag_graph a)))"
    unfolding start_execution_def Let_def add_to_graph_def
    by (simp add: on_session_def lift_result_def split: prod.split sum.split)
  also have "\<dots> \<longleftrightarrow> map_of (gr_nodes (ag_graph a)) (tv_exec_id v) = None \<and>
    (tv_request_id v = [] \<or> (tv_request_id v, tv_exec_id v, ''executes'') \<notin> set (gr_edges (ag_graph a)))"
    by (rule add_child_node [OF na assms(2,3)])
  finally show ?thesis .
qed

lemma admit_tool_ok:
  assumes "map_of (rg_specs (ag_tools a)) (tq_tool q) = Some s" and "\<not> is_disabled (ag_tools a) (tq_tool q)"
    and "tv_check v (tq_tool q) (tq_arguments q) = Some d" and "ts_capability s \<notin> {TC_UNAVAILABLE, TC_PLANNING_ONLY}"
    and "se_mode (ag_session a) \<in> set (ts_modes s)" and "map_of (rg_executors (ag_tools a)) (tq_tool q) = Some f"
  shows "\<exists>b. admit_tool v q a = (Going (f, d), b)"
proof -
  let ?pm = "\<lparr>pm_tool = tq_tool q, pm_session = se_id (ag_session a), pm_mode = se_mode (ag_session a), pm_nonce = tv_nonce v\<rparr>"
  let ?r1 = "(ag_tools a)\<lparr>rg_permits := dict_set (tv_nonce v) ?pm (rg_permits (ag_tools a))\<rparr>"
  have p: "issue_permit (tq_tool q) (se_id (ag_session a)) (se_mode (ag_session a)) (tv_nonce v) (ag_tools a) = Inr (?pm, ?r1)"
    using assms by (auto simp: issue_permit_def validate_capability_def spec_of_def Let_def)
  have "validate_request (tv_check v) q (?r1\<lparr>rg_permits := x\<rparr>) = Inr d" for x
    using assms by (auto simp: validate_request_Inr is_disabled_def)
  then have "fst (admit_execution (tv_check v) q (Some ?pm) ?r1) = Inr (f, d)"
    using assms(6) by (simp add: admit_execution_def executor_for_def Let_def)
  then obtain r2 where "admit_execution (tv_check v) q (Some ?pm) ?r1 = (Inr (f, d), r2)" by (metis prod.collapse)
  then show ?thesis using p by (simp add: admit_tool_def Let_def lift_result_def)
qed

text \<open>Everything an admitted call satisfies, in terms of the agent before it.\<close>

definition admissible :: "tool_env \<Rightarrow> tool_request \<Rightarrow> agent \<Rightarrow> bool" where
  "admissible v q a \<longleftrightarrow>
     (\<exists>s d. asking v q a s d \<and> ts_capability s \<notin> {TC_UNAVAILABLE, TC_PLANNING_ONLY} \<and>
       se_mode (ag_session a) \<in> set (ts_modes s) \<and>
       \<not> live_block s a \<and> approval_missing (tq_tool q) s (tv_readings v) a = Inr False \<and>
       engine_permits (ag_engine a) (tool_auth_request (call_target d (ag_session a)) (tq_tool q) s d a)
         (tr_engine (tv_readings v)) \<and>
       affordable q s d (se_budget (ag_session a)) \<and> map_of (rg_executors (ag_tools a)) (tq_tool q) \<noteq> None) \<and>
     fresh_ids v a"


lemma admitted_call_iff: "admitted_call v q ground a \<longleftrightarrow> (\<exists>ad b. admit_call v q ground a = (Going ad, b))"
  by (auto simp: admitted_call_def split: flow.splits) (metis prod.collapse)

lemma admitted_is_admissible:
  assumes "admit_call v q ground a = (Going ad, a')"
  shows "admissible v q a"
proof -
  obtain p a1 a3 a4 c n a5 f d where st: "prepare_tool v q ground a = (Going p, a1)"
    "capable_tool v q p a1 = (Going (), a1)"
    "authorize_target (pr_target p) (tq_tool q) (pr_spec p) (pr_arguments p) (tv_readings v) a1 = (Going TA_AUTHORIZED, a3)"
    "charge_tool q p a3 = (Going c, a4)" "start_execution v q ground p c a4 = (Going n, a5)"
    "admit_tool v q a5 = (Going (f, d), a')"
    using assms by (rule admit_call_steps)
  note P = prepare_tool_Going [OF st(1)] and A = authorize_target_Going [OF st(3)]
  obtain n1 where p: "asking v q a (pr_spec p) (pr_arguments p)" "pr_target p = call_target (pr_arguments p) (ag_session a)"
      "map_of (gr_nodes (ag_graph a)) (tv_request_id v) = None" "nd_id (pr_node p) = tv_request_id v"
      "gr_nodes (ag_graph a1) = dict_set (tv_request_id v) n1 (gr_nodes (ag_graph a))"
      "gr_edges (ag_graph a1) = gr_edges (ag_graph a)"
    using st(1) by (auto simp: prepare_tool_iff Let_def new_node_def)
  have q: "same_question a1 a" using P by (simp add: same_question_def)
  have g4: "ag_graph a4 = ag_graph a1" using charge_tool_Going(3) [OF st(4)] A(6) by simp
  have ne: "tv_request_id v \<noteq> tv_exec_id v"
  proof
    assume e: "tv_request_id v = tv_exec_id v"
    then have "map_of (gr_nodes (ag_graph a4)) (tv_exec_id v) \<noteq> None" using g4 p(5) by simp
    then have "\<not> (\<exists>n b. start_execution v q ground p c a4 = (Going n, b))"
      by (auto simp: start_execution_def Let_def add_to_graph_def add_node_def present_def plain_node_def on_session_def
          lift_result_def)
    then show False using st(5) by blast
  qed
  have "fresh_ids v a"
    using start_execution_iff [where p = p and v = v and a = a4 and q = q and ground = ground and c = c]
      p g4 ne st(5) by (auto simp: fresh_ids_def)
  moreover have "affordable q (pr_spec p) (pr_arguments p) (se_budget (ag_session a))"
    using charge_tool_iff [of q p a3] st(4) A(4) P(9) by auto
  moreover have "map_of (rg_executors (ag_tools a)) (tq_tool q) \<noteq> None"
    using admit_tool_Going(1) [OF st(6)] start_execution_Going(2) [OF st(5)] charge_tool_Going(2) [OF st(4)] A(5) P(6)
    by simp
  ultimately show ?thesis
    unfolding admissible_def
    using p(1,2) P A q same_question_cong [OF q] capable_tool_Going(2,3) [OF st(2)]
    by (intro conjI exI [of _ "pr_spec p"] exI [of _ "pr_arguments p"]) (auto simp: engine_allows_iff)
qed

lemma admissible_is_admitted:
  assumes "admissible v q a"
  shows "admitted_call v q ground a"
proof -
  obtain s d f where ask: "asking v q a s d" and cap: "ts_capability s \<notin> {TC_UNAVAILABLE, TC_PLANNING_ONLY}"
      "se_mode (ag_session a) \<in> set (ts_modes s)"
    and ok: "\<not> live_block s a" "approval_missing (tq_tool q) s (tv_readings v) a = Inr False"
      "engine_permits (ag_engine a) (tool_auth_request (call_target d (ag_session a)) (tq_tool q) s d a)
         (tr_engine (tv_readings v))"
    and pay: "affordable q s d (se_budget (ag_session a))"
    and f: "map_of (rg_executors (ag_tools a)) (tq_tool q) = Some f" and new: "fresh_ids v a"
    using assms by (auto simp: admissible_def)
  define n where "n = new_node (tv_request_id v) (tv_request_at v) (request_args q ground (call_target d (ag_session a))) (ag_graph a)"
  define p where "p = \<lparr>pr_fingerprint = call_fingerprint q, pr_arguments = d, pr_spec = s,
     pr_target = call_target d (ag_session a), pr_node = n\<rparr>"
  define a1 where "a1 = (asked v q ground d a)\<lparr>ag_graph := (ag_graph a)\<lparr>gr_nodes :=
     dict_set (tv_request_id v) n (gr_nodes (ag_graph a))\<rparr>\<rparr>"
  have prep: "prepare_tool v q ground a = (Going p, a1)"
    unfolding prepare_tool_iff Let_def using ask new
    by (intro exI [of _ s] exI [of _ d]) (simp add: p_def a1_def n_def fresh_ids_def)
  have a1: "ag_engine a1 = ag_engine a" "ag_tools a1 = ag_tools a" "se_mode (ag_session a1) = se_mode (ag_session a)"
      "se_program (ag_session a1) = se_program (ag_session a)" "se_budget (ag_session a1) = se_budget (ag_session a)"
    by (simp_all add: a1_def)
  have ps: "pr_spec p = s" "pr_arguments p = d" "pr_target p = call_target d (ag_session a)" "nd_id (pr_node p) = tv_request_id v"
    by (simp_all add: p_def n_def new_node_def)
  have q: "same_question a1 a" using a1 by (simp add: same_question_def)
  have spec: "map_of (rg_specs (ag_tools a)) (tq_tool q) = Some s" "\<not> is_disabled (ag_tools a) (tq_tool q)"
      "tv_check v (tq_tool q) (tq_arguments q) = Some d" using ask by (simp_all add: asking_def)
  have capable: "capable_tool v q p a1 = (Going (), a1)"
    by (rule capable_tool_ok) (use a1 ps spec cap in simp_all)
  obtain en where clear: "clear_tool v q ground p a1 = (Going (), a1\<lparr>ag_engine := en\<rparr>)"
    by (rule clear_tool_ok [of p a1 q v]) (use ok ps a1 same_question_cong [OF q] in simp_all)
  obtain c a4 where charge: "charge_tool q p (a1\<lparr>ag_engine := en\<rparr>) = (Going c, a4)"
    using charge_tool_iff [of q p "a1\<lparr>ag_engine := en\<rparr>"] pay ps a1 by auto
  have a4: "ag_graph a4 = ag_graph a1" "ag_tools a4 = ag_tools a1" "se_mode (ag_session a4) = se_mode (ag_session a1)"
    using charge_tool_Going [OF charge] by simp_all
  obtain m a5 where start: "start_execution v q ground p c a4 = (Going m, a5)"
    using start_execution_iff [where p = p and v = v and a = a4 and q = q and ground = ground and c = c]
      ps(4) new a4 by (auto simp: fresh_ids_def a1_def)
  obtain b where admit: "admit_tool v q a5 = (Going (f, d), b)"
    using admit_tool_ok [of a5 q s v d f] start_execution_Going [OF start] a4 a1 spec cap f by auto
  have "\<exists>ad b. admit_call v q ground a = (Going ad, b)"
    using prep capable clear charge start admit by (simp add: admit_call_def act_then_def)
  then show ?thesis by (simp add: admitted_call_iff)
qed

text \<open>C17. A tool is run exactly when its request is admissible: it is no repetition within the window, the tool
  is registered, enabled, not disabled for the session and executable in its mode, its arguments are
  valid, a live session has its scope, permissions and human approvals, the engine permits the request,
  and the budgets can pay for it.
\<close>

theorem admission_decides: "admitted_call v q ground a \<longleftrightarrow> admissible v q a"
  using admissible_is_admitted admitted_is_admissible by (auto simp: admitted_call_iff)

section \<open>A laboratory agent\<close>

definition sample_session :: session where
  "sample_session =
     \<lparr>se_id = ''s1'', se_project = ''p'', se_target = ''http://localhost:8000/x'', se_mode = RM_LAB, se_program = [],
      se_state = S_CREATED, se_budget = default_budget, se_timeline = [], se_tool_history = [], se_fingerprints = [],
      se_records = [], se_calls = [], se_disabled = {}, se_paused = False, se_stopped = False, se_error = None,
      se_reason = None, se_next = None, se_replay = False, se_strategy = [], se_cursor = False, se_hypotheses = [],
      se_plan = None, se_findings = [], se_leads = []\<rparr>"

text \<open>It has one tool bound, which no specification enables.\<close>

definition sample_agent :: agent where
  "sample_agent =
     \<lparr>ag_session = sample_session, ag_tools = bind_executor ''curl'' (unavailable ''curl'') empty_registry,
      ag_engine = open_lab, ag_graph = empty_graph ''s1'' ''p'', ag_exchanges = []\<rparr>"

definition sample_tool_env :: tool_env where
  "sample_tool_env =
     \<lparr>tv_check = (\<lambda>t d. Some d), tv_readings = \<lparr>tr_kind = 0, tr_high_risk = 0, tr_fuzzing = 0, tr_engine = public_readings\<rparr>,
      tv_duplicate = 0, tv_remember = 0, tv_request_id = ''n1'', tv_request_at = 0, tv_exec_id = ''n2'', tv_exec_at = 0,
      tv_nonce = ''x'', tv_observation_id = ''n3'', tv_observation_at = 0\<rparr>"

definition sample_tool_request :: tool_request where
  "sample_tool_request = \<lparr>tq_tool = ''curl'', tq_arguments = [], tq_reason = []\<rparr>"

lemma sample_not_admitted: "\<not> admitted_call sample_tool_env sample_tool_request [] sample_agent"
proof
  assume "admitted_call sample_tool_env sample_tool_request [] sample_agent"
  then obtain ad b where "admit_call sample_tool_env sample_tool_request [] sample_agent = (Going ad, b)"
    by (auto simp: admitted_call_iff)
  then obtain p a1 where "prepare_tool sample_tool_env sample_tool_request [] sample_agent = (Going p, a1)"
    by (rule admit_call_steps)
  from prepare_tool_Going(3) [OF this] show False
    by (simp add: sample_agent_def bind_executor_def empty_registry_def)
qed

theorem refused_calls_leave_nothing_witness:
  "unrecorded sample_agent (snd (execute_agent_tool sample_tool_env sample_tool_request [] sample_agent)) \<and>
   not_executed (fst (execute_agent_tool sample_tool_env sample_tool_request [] sample_agent))"
  by (rule refused_calls_leave_nothing [OF sample_not_admitted])

end
