(* ===== verification/AgentControl.thy ===== *)
theory AgentControl
  imports Agent
begin

text \<open>
  The rest of \<open>security_agent/agent.py\<close> with the planner output of \<open>schemas.py\<close>: what an operator can do
  to a session, how a planner's output becomes a decision and is applied, and the bounded loop of a
  run. What the language model or the external controller answers is a parameter.
\<close>

section \<open>The operator\<close>

definition human_override :: "string \<Rightarrow> agent \<Rightarrow> agent" where
  "human_override decision = timeline ((event ''human_override'')\<lparr>te_decision := decision\<rparr>)"

definition pause_agent :: "string \<Rightarrow> agent \<Rightarrow> agent" where
  "pause_agent ground a =
     human_override (''PAUSE:'' @ ground) (timeline ((event ''pause'')\<lparr>te_decision := ''PAUSE:'' @ ground\<rparr>)
       (on_session (\<lambda>s. s\<lparr>se_paused := True, se_state := S_USER_PAUSED, se_reason := Some TR_USER_PAUSED\<rparr>) a))"

text \<open>The exploratory engine of the session is released as well; it is not part of this state.\<close>

definition stop_agent :: "string \<Rightarrow> agent \<Rightarrow> agent" where
  "stop_agent ground a =
     human_override (''STOP:'' @ ground) (timeline ((event ''stop'')\<lparr>te_decision := ''STOP:'' @ ground\<rparr>)
       (on_session (\<lambda>s. s\<lparr>se_stopped := True, se_state := S_USER_STOPPED, se_reason := Some TR_USER_STOPPED\<rparr>) a))"

definition reject_action :: "string \<Rightarrow> agent \<Rightarrow> agent" where
  "reject_action ground = human_override (''REJECT_ACTION:'' @ ground)"

definition disable_agent_tool :: "string \<Rightarrow> agent \<Rightarrow> agent" where
  "disable_agent_tool nm a =
     human_override (''DISABLE_TOOL:'' @ nm)
       (on_session (\<lambda>s. s\<lparr>se_disabled := insert nm (se_disabled s)\<rparr>) (a\<lparr>ag_tools := disable_tool nm (ag_tools a)\<rparr>))"

text \<open>A rejected finding is built anew from the evidence and the description of the old one.\<close>

definition rejected_copy :: "string \<Rightarrow> instant \<Rightarrow> finding \<Rightarrow> finding result" where
  "rejected_copy key now f =
     rejected key (title f) (Some (f_evidence f))
       ((blank_finding now (f_id f))\<lparr>vulnerability_class := vulnerability_class f, f_target := f_target f,
          hypothesis := hypothesis f\<rparr>)"

definition reject_finding :: "string \<Rightarrow> instant \<Rightarrow> string \<Rightarrow> agent \<Rightarrow> unit result \<times> agent" where
  "reject_finding key now ident a =
     (case each_result (\<lambda>f. if f_id f = ident then rejected_copy key now f else Inr f) (se_findings (ag_session a)) of
        Inl e \<Rightarrow> (Inl e, a)
      | Inr fs \<Rightarrow> (Inr (), timeline ((event ''human_override'')
            \<lparr>te_decision := ''REJECT_FINDING:'' @ ident, te_finding := ident\<rparr>)
          (on_session (\<lambda>s. s\<lparr>se_findings := fs\<rparr>) a)))"

definition approval_event :: "string \<Rightarrow> agent \<Rightarrow> agent" where
  "approval_event decision = timeline ((event ''approval'')\<lparr>te_decision := decision\<rparr>)"

definition change_limits :: "string \<Rightarrow> int \<Rightarrow> agent \<Rightarrow> unit result \<times> agent" where
  "change_limits operator extra a =
     (case grant_more operator extra (se_budget (ag_session a)) of
        (Inl e, b) \<Rightarrow> (Inl e, put_budget b a)
      | (Inr u, b) \<Rightarrow> (Inr (), human_override (''CHANGE_LIMITS:'' @ operator)
          (approval_event (''CHANGE_LIMITS:'' @ operator) (put_budget b a))))"

definition with_engine :: "unit result \<times> engine \<Rightarrow> string \<Rightarrow> agent \<Rightarrow> unit result \<times> agent" where
  "with_engine r decision a =
     (case r of (Inl e, en) \<Rightarrow> (Inl e, a\<lparr>ag_engine := en\<rparr>)
      | (Inr u, en) \<Rightarrow> (Inr (), approval_event decision (a\<lparr>ag_engine := en\<rparr>)))"

definition agent_active_testing :: "string \<Rightarrow> string \<Rightarrow> stamp \<Rightarrow> stamp \<Rightarrow> agent \<Rightarrow> unit result \<times> agent" where
  "agent_active_testing operator note rec st a =
     (if is_ai_operator operator then (Inl (RestrictedActivityError ''The AI cannot enable active testing''), a)
      else with_engine (enable_active_testing operator note rec st (ag_engine a))
             (''ENABLE_ACTIVE_TESTING:'' @ operator) a)"

definition grant_tool_approval ::
    "approval_kind \<Rightarrow> string \<Rightarrow> string \<Rightarrow> stamp \<Rightarrow> stamp \<Rightarrow> agent \<Rightarrow> unit result \<times> agent" where
  "grant_tool_approval kind operator note rec st a =
     (if is_ai_operator operator then (Inl (RestrictedActivityError ''The AI cannot grant tool approvals''), a)
      else with_engine (engine_grant kind operator note rec st (ag_engine a))
             (kind_value kind @ '':'' @ operator) a)"

definition resume_agent :: "string \<Rightarrow> agent \<Rightarrow> unit result \<times> agent" where
  "resume_agent operator a =
     (if is_ai_operator operator then
        (Inl (RestrictedActivityError ''The AI cannot resume a research session''), a)
      else if se_state (ag_session a) \<in> set resume_blocked_states \<or> se_stopped (ag_session a) then
        (Inl (RestrictedActivityError ''session_resume_requires_operator_reopen''), a)
      else (Inr (), timeline ((event ''session_state'')\<lparr>te_decision := ''RESUME:'' @ operator\<rparr>)
        (on_session (\<lambda>s. s\<lparr>se_paused := False, se_reason := None, se_state := S_ANALYZING\<rparr>) a)))"

section \<open>The end of a run\<close>

definition shown_verified :: "finding \<Rightarrow> bool" where
  "shown_verified f \<longleftrightarrow>
     is_verified f \<and> verifying_items (f_evidence f) \<noteq> [] \<and>
     \<not> list_ex (\<lambda>e. ev_provenance e = Some P_REPLAY) (f_evidence f)"

definition end_with :: "termination_reason \<Rightarrow> research_state \<Rightarrow> session \<Rightarrow> session" where
  "end_with r st s = s\<lparr>se_reason := Some r, se_state := st\<rparr>"

definition finalize_session :: "int \<Rightarrow> int \<Rightarrow> session \<Rightarrow> session" where
  "finalize_session steps limit s =
     (if se_reason s \<noteq> None then s
      else if se_stopped s then end_with TR_USER_STOPPED S_USER_STOPPED s
      else if se_paused s then end_with TR_USER_PAUSED S_USER_PAUSED s
      else if se_state s = S_FAILED then s\<lparr>se_reason := Some TR_FAILED\<rparr>
      else if b_max_iterations (se_budget s) \<le> b_iterations (se_budget s) \<or> limit \<le> steps then
        end_with TR_MAX_ITERATIONS S_MAX_ITERATIONS s
      else if list_ex shown_verified (se_findings s) then end_with TR_COMPLETED_SUCCESS S_COMPLETED_SUCCESS s
      else if se_findings s \<noteq> [] \<or> se_hypotheses s \<noteq> [] then end_with TR_INCONCLUSIVE S_INCONCLUSIVE s
      else end_with TR_COMPLETED_NO_FINDINGS S_COMPLETED_NO_FINDINGS s)"

definition finalize_run :: "int \<Rightarrow> int \<Rightarrow> agent \<Rightarrow> agent" where
  "finalize_run steps limit = on_session (finalize_session steps limit)"

section \<open>Planner output\<close>

record planner_output =
  po_kind :: string
  po_tool :: "string option"
  po_arguments :: pydict
  po_reason :: string
  po_title :: "string option"
  po_class :: "string option"
  po_target :: "string option"
  po_confidence :: "string option"
  po_severity :: "string option"
  po_impact :: "string option"
  po_hypothesis :: "string option"
  po_status :: "string option"
  po_evidence :: "string list"
  po_steps :: "pydict list"
  po_note :: string

definition allowed_planner_kinds :: "string list" where
  "allowed_planner_kinds =
     [''analyze'', ''hypothesis'', ''plan'', ''tool'', ''reproduce'', ''complete'', ''update_hypothesis'',
      ''draft_report'', ''paused'', ''stopped'']"

definition forbidden_planner_kinds :: "string list" where
  "forbidden_planner_kinds =
     [''mark_verified'', ''verify_finding'', ''approve_report'', ''submit_hackerone'', ''grant_budget'',
      ''enable_tool'', ''change_scope'', ''declare_in_scope'', ''enable_active_testing'', ''grant_approval'']"

definition forbidden_ai_actions :: "string list" where
  "forbidden_ai_actions = forbidden_planner_kinds @ [''increase_budget'', ''submit_report'']"

definition confidence_values :: "string list" where
  "confidence_values = [''low'', ''medium'', ''high'']"

definition clean_text :: "string \<Rightarrow> string" where
  "clean_text t = py_lower (py_strip t)"

definition kind_allowed :: "string \<Rightarrow> string result" where
  "kind_allowed t =
     (let k = clean_text t in
      if k = [] then Inl (ValueError ''kind is required'')
      else if k \<in> set forbidden_planner_kinds then Inl (ValueError (''forbidden_kind:'' @ k))
      else if k \<notin> set allowed_planner_kinds then Inl (ValueError (''unknown_kind:'' @ k))
      else Inr k)"

definition confidence_allowed :: "string option \<Rightarrow> string option result" where
  "confidence_allowed t =
     (if opt_text t = [] then Inr None
      else let c = clean_text (opt_text t) in
        if c \<notin> set confidence_values then Inl (ValueError ''confidence must be low, medium, or high'')
        else Inr (Some c))"

definition status_not_verified :: "string option \<Rightarrow> string option result" where
  "status_not_verified t =
     (if opt_text t = [] then Inr None
      else let c = clean_text (opt_text t) in
        if c = ''verified'' then Inl (ValueError ''AI cannot set VERIFIED'') else Inr (Some c))"

definition consistent_output :: "planner_output \<Rightarrow> unit result" where
  "consistent_output o1 =
     (if po_kind o1 = ''tool'' \<and> opt_text (po_tool o1) = [] then
        Inl (ValueError ''tool kind requires a tool name'')
      else if po_kind o1 = ''hypothesis'' \<and> opt_text (po_title o1) = [] \<and> opt_text (po_class o1) = [] then
        Inl (ValueError ''hypothesis requires title or vulnerability_class'')
      else if po_kind o1 = ''update_hypothesis'' \<and> opt_text (po_hypothesis o1) = [] then
        Inl (ValueError ''update_hypothesis requires hypothesis_id'')
      else Inr ())"

text \<open>The validators, on fields that already have their types; the first error stands for all.\<close>

definition check_planner :: "planner_output \<Rightarrow> planner_output result" where
  "check_planner o1 =
     then_do (kind_allowed (po_kind o1)) (\<lambda>k.
     then_do (confidence_allowed (po_confidence o1)) (\<lambda>c.
     then_do (status_not_verified (po_status o1)) (\<lambda>st.
       (let o2 = o1\<lparr>po_kind := k, po_confidence := c, po_status := st\<rparr>
        in then_do (consistent_output o2) (\<lambda>_. Inr o2)))))"

section \<open>Decisions\<close>

record decision =
  dc_kind :: string
  dc_tool :: "tool_request option"
  dc_hypothesis :: "hypothesis option"
  dc_plan :: "research_plan option"
  dc_note :: string
  dc_thinking :: string

definition plain_decision :: "string \<Rightarrow> decision" where
  "plain_decision kind =
     \<lparr>dc_kind = kind, dc_tool = None, dc_hypothesis = None, dc_plan = None, dc_note = [], dc_thinking = []\<rparr>"

definition needs_evidence :: "hypothesis_status list" where
  "needs_evidence = [HS_SUPPORTED, HS_WEAKENED, HS_DISPROVED, HS_REQUIRES_REPRODUCTION, HS_REJECTED]"

definition with_ids :: "string list \<Rightarrow> string list \<Rightarrow> string list" where
  "with_ids old new = (if new = [] then old else first_occurrences (old @ new))"

definition put_hypothesis :: "hypothesis \<Rightarrow> agent \<Rightarrow> agent" where
  "put_hypothesis h =
     on_session (\<lambda>s. s\<lparr>se_hypotheses := update_first (\<lambda>x. hy_id x = hy_id h) h (se_hypotheses s)\<rparr>)"

definition update_hypothesis ::
    "string \<Rightarrow> hypothesis_status \<Rightarrow> string list \<Rightarrow> string list \<Rightarrow> agent \<Rightarrow> hypothesis result \<times> agent" where
  "update_hypothesis ident st support against a =
     (if st = HS_VERIFIED then (Inl (RestrictedActivityError ''verify_finding''), a)
      else case List.find (\<lambda>h. hy_id h = ident) (se_hypotheses (ag_session a)) of
        None \<Rightarrow> (Inl (RestrictedActivityError ''unknown_hypothesis''), a)
      | Some h \<Rightarrow>
          if st \<in> set needs_evidence \<and> support = [] \<and> against = [] then
            (Inl (RestrictedActivityError ''hypothesis_status_requires_evidence''), a)
          else let h1 = h\<lparr>hy_status := st, hy_supporting := with_ids (hy_supporting h) support,
                        hy_contradicting := with_ids (hy_contradicting h) against\<rparr>
            in (Inr h1, timeline ((event ''hypothesis_update'')
                  \<lparr>te_decision := ident @ '':'' @ hypothesis_status_value st\<rparr>) (put_hypothesis h1 a)))"

definition status_of_text :: "string \<Rightarrow> hypothesis_status result" where
  "status_of_text t =
     (case List.find (\<lambda>st. hypothesis_status_value st = t)
             [HS_OPEN, HS_SUPPORTED, HS_WEAKENED, HS_DISPROVED, HS_REQUIRES_REPRODUCTION, HS_VERIFIED,
              HS_REJECTED, HS_INCONCLUSIVE] of
        None \<Rightarrow> Inl (ValueError (t @ '' is not a valid HypothesisStatus'')) | Some st \<Rightarrow> Inr st)"

definition planned_step :: "nat \<times> pydict \<Rightarrow> plan_step result" where
  "planned_step x =
     (case x of (i, d) \<Rightarrow>
      then_do (py_int_of (py_or (py_get d ''order'') (PInt (int i)))) (\<lambda>n.
        Inr \<lparr>ps_order = n, ps_action = strip_instruction_attempts (py_text (py_get d ''action'')),
             ps_tool = py_get d ''tool'', ps_target = py_text (py_get d ''target''),
             ps_note = strip_instruction_attempts (py_text (py_get d ''note''))\<rparr>))"

definition proposed :: "string \<Rightarrow> string \<Rightarrow> planner_output \<Rightarrow> string \<Rightarrow> hypothesis" where
  "proposed uid ground o1 target =
     (plain_hypothesis (strip_instruction_attempts (or_text (opt_text (po_title o1)) ''Untitled hypothesis''))
        (strip_instruction_attempts (or_text (opt_text (po_class o1)) ''unknown''))
        (or_text (opt_text (po_target o1)) target) ground uid)
     \<lparr>hy_confidence := or_text (opt_text (po_confidence o1)) ''low'',
      hy_severity := or_text (opt_text (po_severity o1)) ''medium'',
      hy_impact := strip_instruction_attempts (opt_text (po_impact o1))\<rparr>"

text \<open>A hypothesis gets the identifier \<open>uid\<close>.\<close>

definition decision_from_planner :: "string \<Rightarrow> planner_output \<Rightarrow> string \<Rightarrow> agent \<Rightarrow> decision result \<times> agent" where
  "decision_from_planner uid o1 thinking a =
     (let ground = strip_instruction_attempts (or_text (po_reason o1) (po_note o1));
          d0 = (plain_decision (po_kind o1))\<lparr>dc_thinking := thinking\<rparr> in
      if po_kind o1 \<in> set forbidden_ai_actions then (Inl (RestrictedActivityError (po_kind o1)), a)
      else if po_kind o1 = ''tool'' \<and> opt_text (po_tool o1) \<noteq> [] then
        (let nm = py_strip (opt_text (po_tool o1)) in
         if nm = [] then (Inl (ValueError ''tool is required''), a)
         else (Inr (d0\<lparr>dc_note := ground,
           dc_tool := Some \<lparr>tq_tool = nm, tq_arguments = po_arguments o1, tq_reason = ground\<rparr>\<rparr>), a))
      else if po_kind o1 = ''hypothesis'' then
        (Inr (d0\<lparr>dc_hypothesis := Some (proposed uid ground o1 (se_target (ag_session a)))\<rparr>), a)
      else if po_kind o1 = ''update_hypothesis'' \<and> opt_text (po_hypothesis o1) \<noteq> [] then
        (case status_of_text (or_text (opt_text (po_status o1)) ''open'') of
           Inl e \<Rightarrow> (Inl e, a)
         | Inr st \<Rightarrow>
             (case update_hypothesis (opt_text (po_hypothesis o1)) st (po_evidence o1) [] a of
                (Inl e, a1) \<Rightarrow> (Inl e, a1)
              | (Inr h, a1) \<Rightarrow>
                  (let h1 = (if ground \<noteq> [] then h\<lparr>hy_reason := ground\<rparr> else h)
                   in (Inr (d0\<lparr>dc_hypothesis := Some h1\<rparr>), put_hypothesis h1 a1))))
      else if po_kind o1 = ''plan'' then
        (case each_result planned_step (enumerate 0 (po_steps o1)) of
           Inl e \<Rightarrow> (Inl e, a)
         | Inr steps \<Rightarrow> (Inr (d0\<lparr>dc_plan := Some \<lparr>rp_steps = steps, rp_current = 0\<rparr>\<rparr>), a))
      else (Inr (d0\<lparr>dc_note := ground\<rparr>), a))"

section \<open>Recording a hypothesis\<close>

record record_env =
  re_now :: instant
  re_lead :: string
  re_node_at :: instant

definition hypothesis_node :: "hypothesis \<Rightarrow> node_args" where
  "hypothesis_node h =
     (plain_node ''hypothesis'' ''ai_hypothesis'' (hy_title h) ''planner'')
       \<lparr>na_id := Some (hy_id h), na_extra := [(''hypothesis_id'', PStr (hy_id h))]\<rparr>"

fun link_cited :: "string \<Rightarrow> string \<Rightarrow> string list \<Rightarrow> unit act" where
  "link_cited node rel [] a = (Going (), a)"
| "link_cited node rel (i # is) a =
     (if map_of (gr_nodes (ag_graph a)) i \<noteq> None \<and> i \<noteq> node then
        (case link node i rel (ag_graph a) of
           (Inl e, g) \<Rightarrow> (Raised e, a\<lparr>ag_graph := g\<rparr>)
         | (Inr u, g) \<Rightarrow> link_cited node rel is (a\<lparr>ag_graph := g\<rparr>))
      else link_cited node rel is a)"

text \<open>The node of a hypothesis: the one with its identifier, or a new one.\<close>

definition node_for :: "record_env \<Rightarrow> string \<Rightarrow> hypothesis \<Rightarrow> string act" where
  "node_for v uid h a =
     (case map_of (gr_nodes (ag_graph a)) (hy_id h) of
        Some n \<Rightarrow> (Going (nd_id n), a)
      | None \<Rightarrow> act_then (add_to_graph uid (re_node_at v) (hypothesis_node h)) (\<lambda>n b. (Going (nd_id n), b)) a)"

definition enter_hypothesis :: "record_env \<Rightarrow> hypothesis \<Rightarrow> agent \<Rightarrow> agent" where
  "enter_hypothesis v h a =
     on_session (\<lambda>s. s\<lparr>se_hypotheses := se_hypotheses s @ [h],
       se_leads := snd (lead_for_hypothesis (re_now v) (re_lead v) (se_project s) (se_id s) (se_target s) h
         (se_leads s))\<rparr>) a"

definition record_new :: "record_env \<Rightarrow> string \<Rightarrow> hypothesis \<Rightarrow> unit act" where
  "record_new v uid h =
     act_then (node_for v uid h) (\<lambda>node a.
       act_then (link_cited node ''supports'' (hy_supporting h)) (\<lambda>_.
         link_cited node ''contradicted_by'' (hy_contradicting h)) (enter_hypothesis v h a))"

definition hypothesis_recorded :: "hypothesis \<Rightarrow> agent \<Rightarrow> agent" where
  "hypothesis_recorded h a =
     timeline ((event ''hypothesis'')\<lparr>te_decision := hy_title h\<rparr>) (set_state S_HYPOTHESIS_CREATED a)"

definition merged_hypothesis :: "hypothesis \<Rightarrow> hypothesis \<Rightarrow> hypothesis" where
  "merged_hypothesis old h = old\<lparr>hy_reason := or_text (hy_reason h) (hy_reason old), hy_confidence := hy_confidence h\<rparr>"

definition record_hypothesis :: "record_env \<Rightarrow> string \<Rightarrow> bool \<Rightarrow> hypothesis \<Rightarrow> unit act" where
  "record_hypothesis v uid updating h a =
     (if hy_status h = HS_VERIFIED then (Raised (RestrictedActivityError ''verify_finding''), a)
      else if updating then (Going (), hypothesis_recorded h a)
      else case then_do (hypothesis_fingerprint h) (\<lambda>fp. first_with hypothesis_fingerprint fp (se_hypotheses (ag_session a))) of
        Inl e \<Rightarrow> (Raised e, a)
      | Inr (Some old) \<Rightarrow>
          (Going (), set_state S_HYPOTHESIS_CREATED
             (timeline ((event ''hypothesis_update'')\<lparr>te_decision := ''dedup:'' @ hy_id old\<rparr>)
               (put_hypothesis (merged_hypothesis old h) a)))
      | Inr None \<Rightarrow> act_then (record_new v uid h) (\<lambda>_ b. (Going (), hypothesis_recorded h b)) a)"

section \<open>Applying a decision\<close>

record step_env =
  sv_tool :: tool_env
  sv_record :: record_env
  sv_node :: string

definition run_tool :: "tool_env \<Rightarrow> tool_request \<Rightarrow> string \<Rightarrow> unit act" where
  "run_tool v q ground a =
     (case execute_agent_tool v q ground a of (Inl e, b) \<Rightarrow> (Raised e, b) | (Inr d, b) \<Rightarrow> (Going (), b))"

definition noted_thinking :: "decision \<Rightarrow> agent \<Rightarrow> agent" where
  "noted_thinking d a =
     (if dc_thinking d \<noteq> [] then timeline ((event ''thinking'')\<lparr>te_decision := ''thinking discarded as non-evidence''\<rparr>) a
      else a)"

definition steps_text :: "research_plan \<Rightarrow> string" where
  "steps_text p = show_nat (length (rp_steps p)) @ '' steps''"

definition apply_plan :: "research_plan \<Rightarrow> agent \<Rightarrow> agent" where
  "apply_plan p a =
     timeline ((event ''model_decision'')\<lparr>te_decision := ''plan''\<rparr>)
       (timeline ((event ''plan'')\<lparr>te_decision := steps_text p\<rparr>)
         (set_state S_PLAN_READY (on_session (\<lambda>s. s\<lparr>se_plan := Some p\<rparr>) a)))"

definition apply_decision :: "step_env \<Rightarrow> decision \<Rightarrow> unit act" where
  "apply_decision v d a0 =
     (let a = noted_thinking d a0; s = ag_session a; kind = dc_kind d in
      if kind \<in> set forbidden_ai_actions then
        (Raised (RestrictedActivityError kind),
         timeline ((event ''blocked'')\<lparr>te_decision := kind, te_authorization := ''blocked''\<rparr>) a)
      else if kind = ''hypothesis'' \<and> dc_hypothesis d \<noteq> None then
        record_hypothesis (sv_record v) (sv_node v) False (the (dc_hypothesis d)) a
      else if kind = ''update_hypothesis'' \<and> dc_hypothesis d \<noteq> None then
        record_hypothesis (sv_record v) (sv_node v) True (the (dc_hypothesis d)) a
      else if kind = ''plan'' \<and> dc_plan d \<noteq> None then (Going (), apply_plan (the (dc_plan d)) a)
      else if kind = ''tool'' \<and> dc_tool d \<noteq> None then run_tool (sv_tool v) (the (dc_tool d)) (dc_note d) a
      else if kind = ''reproduce'' then
        (Going (), timeline ((event ''reproduction'')\<lparr>te_decision := or_text (dc_note d) ''reproduce''\<rparr>)
           (set_state S_REPRODUCING a))
      else if kind = ''complete'' then
        (Going (), finalize_run (b_iterations (se_budget s)) (b_max_iterations (se_budget s)) a)
      else (Going (), timeline ((event ''model_decision'')\<lparr>te_decision := or_text kind ''analyze''\<rparr>)
        (set_state S_ANALYZING a)))"

section \<open>The loop\<close>

text \<open>A planner looks at the agent and answers with a decision, or raises.\<close>

type_synonym planner = "agent \<Rightarrow> decision result \<times> agent"

definition refuse_cursor :: "unit act" where
  "refuse_cursor a =
     (if \<not> se_cursor (ag_session a) then (Going (), a)
      else (Raised (RestrictedActivityError ''cursor_mode_refuses_internal_planner''),
        timeline ((event ''blocked'')\<lparr>te_decision := ''cursor_mode_refuses_internal_planner'',
          te_authorization := ''blocked''\<rparr>) a))"

definition iteration_exhausted :: "error \<Rightarrow> agent \<Rightarrow> agent" where
  "iteration_exhausted e a =
     timeline ((event ''session_state'')\<lparr>te_decision := ''BUDGET_EXHAUSTED'', te_result := error_text e\<rparr>)
       (on_session (\<lambda>s. s\<lparr>se_error := Some (error_text e)\<rparr>) (exhaust_budget a))"

text \<open>What \<open>_step_locked\<close> and \<open>apply_external_decision\<close> share: the session is asked, an iteration is paid.\<close>

definition paid_step :: "(agent \<Rightarrow> string flow \<times> agent) \<Rightarrow> string act" where
  "paid_step m a =
     (if se_stopped (ag_session a) then (Going ''stopped'', a)
      else if se_paused (ag_session a) then (Going ''paused'', a)
      else case consume ''iteration'' 1 (se_budget (ag_session a)) of
        (Inl e, b) \<Rightarrow> (Going ''budget_exhausted'', iteration_exhausted e (put_budget b a))
      | (Inr u, b) \<Rightarrow> m (put_budget b a))"

definition decided :: "step_env \<Rightarrow> decision \<Rightarrow> string act" where
  "decided v d = act_then (apply_decision v d) (\<lambda>_ a. (Going (dc_kind d), a))"

definition agent_step :: "step_env \<Rightarrow> planner \<Rightarrow> string act" where
  "agent_step v plan =
     act_then refuse_cursor (\<lambda>_. paid_step (\<lambda>a. case plan a of
        (Inl e, b) \<Rightarrow> (Raised e, b) | (Inr d, b) \<Rightarrow> decided v d b))"

text \<open>An external controller's payload; \<open>None\<close> is one that has not the fields or types of the schema.\<close>

definition external_decision :: "string \<Rightarrow> planner_output \<Rightarrow> agent \<Rightarrow> decision result \<times> agent" where
  "external_decision uid o1 a =
     (if po_kind o1 = ''reproduce'' then
        (let note = strip_instruction_attempts (or_text (po_reason o1) (po_note o1))
         in (Inr ((plain_decision ''tool'')\<lparr>dc_note := note,
              dc_tool := Some \<lparr>tq_tool = ''reproduce'', tq_arguments = po_arguments o1, tq_reason = note\<rparr>\<rparr>), a))
      else decision_from_planner uid o1 [] a)"

definition rejected_output :: "error \<Rightarrow> agent \<Rightarrow> string flow \<times> agent" where
  "rejected_output e a =
     (Raised (RestrictedActivityError ''rejected_external_decision''),
      timeline ((event ''external_decision'')\<lparr>te_decision := ''rejected_malformed:'' @ error_text e\<rparr>) a)"

definition apply_external_decision :: "step_env \<Rightarrow> string \<Rightarrow> planner_output result \<Rightarrow> string act" where
  "apply_external_decision v uid raw a =
     (if \<not> se_cursor (ag_session a) then
        (Raised (RestrictedActivityError ''external_decision_requires_cursor_controller''), a)
      else paid_step (\<lambda>b. case then_do raw check_planner of
          Inl e \<Rightarrow> rejected_output e b
        | Inr o1 \<Rightarrow>
            (let b1 = timeline ((event ''external_decision'')\<lparr>te_decision := po_kind o1, te_result := ''cursor_external''\<rparr>) b
             in case external_decision uid o1 b1 of
                  (Inl (ValueError m), b2) \<Rightarrow> rejected_output (ValueError m) b2
                | (Inl e, b2) \<Rightarrow> (Raised e, b2)
                | (Inr d, b2) \<Rightarrow> decided v d b2)) a)"

text \<open>The loop of a run: each step with its own surroundings and planner; \<open>k\<close> steps are left.\<close>

fun run_steps :: "(nat \<Rightarrow> step_env) \<Rightarrow> (nat \<Rightarrow> planner) \<Rightarrow> nat \<Rightarrow> nat \<Rightarrow> nat act" where
  "run_steps v plan 0 i a = (Going i, a)"
| "run_steps v plan (Suc k) i a =
     (if se_stopped (ag_session a) \<or> se_paused (ag_session a) then (Going i, a)
      else if se_state (ag_session a) \<in> set terminal_states then (Going i, a)
      else case agent_step (v i) (plan i) a of
        (Raised e, b) \<Rightarrow> (Raised e, b)
      | (Returned d, b) \<Rightarrow> (Returned d, b)
      | (Going kind, b) \<Rightarrow> run_steps v plan k (Suc i) b)"

definition run_limit :: "int option \<Rightarrow> agent \<Rightarrow> int" where
  "run_limit given a = (case given of Some n \<Rightarrow> n | None \<Rightarrow> b_max_iterations (se_budget (ag_session a)))"

definition agent_run :: "(nat \<Rightarrow> step_env) \<Rightarrow> (nat \<Rightarrow> planner) \<Rightarrow> int option \<Rightarrow> unit act" where
  "agent_run v plan given a =
     (let limit = run_limit given a in
      act_then (run_steps v plan (nat limit) 0) (\<lambda>i b. (Going (), finalize_run (int i) limit b)) a)"

section \<open>Reports\<close>

text \<open>\<open>draft_report\<close>: what supports a hypothesis, with where it comes from.\<close>

definition draft_report :: "hypothesis \<Rightarrow> agent \<Rightarrow> pydict" where
  "draft_report h a =
     [(''title'', PStr (hy_title h)), (''vulnerability_class'', PStr (hy_class h)),
      (''target'', PStr (hy_target h)),
      (''impact'', PStr ''Impact is described from corroborated evidence only.''),
      (''evidence'', PList (map (PDict \<circ> why_dict) (concat (map (why (ag_graph a)) (hy_supporting h))))),
      (''not_verified'', PBool True), (''cannot_approve'', PBool True), (''cannot_submit'', PBool True),
      (''thinking_excluded'', PBool True)]"

definition correlate_session :: "agent \<Rightarrow> agent" where
  "correlate_session a =
     (let hs = correlate_all (ag_graph a) (se_hypotheses (ag_session a)) in
      fold (\<lambda>h. timeline ((event ''hypothesis_update'')
          \<lparr>te_decision := hy_id h @ '':'' @ hypothesis_status_value (hy_status h)\<rparr>)) hs
        (on_session (\<lambda>s. s\<lparr>se_state := S_CORRELATING, se_hypotheses := hs\<rparr>) a))"

definition promote_in_session :: "promotion_env \<Rightarrow> hypothesis \<Rightarrow> agent \<Rightarrow> finding result \<times> agent" where
  "promote_in_session v h a =
     (case promote v (se_project (ag_session a)) (ag_graph a) h (se_findings (ag_session a)) of
        Inl e \<Rightarrow> (Inl e, a)
      | Inr (f, h1, fs) \<Rightarrow> (Inr f, timeline ((event ''verification'')
            \<lparr>te_decision := ''promoted_potential'', te_finding := f_id f\<rparr>)
          (put_hypothesis h1 (on_session (\<lambda>s. s\<lparr>se_findings := fs\<rparr>) a))))"

definition record_reproduction ::
    "promotion_env \<Rightarrow> hypothesis \<Rightarrow> reproduction_outcome \<Rightarrow> evidence list \<Rightarrow> agent \<Rightarrow> finding result \<times> agent" where
  "record_reproduction v h outcome es a =
     (case apply_reproduction v (se_project (ag_session a)) (ag_graph a) outcome es (h, se_findings (ag_session a)) of
        (r, (h1, fs)) \<Rightarrow>
          (let a1 = put_hypothesis h1 (on_session (\<lambda>s. s\<lparr>se_findings := fs\<rparr>) a) in
           case r of
             Inl e \<Rightarrow> (Inl e, a1)
           | Inr f \<Rightarrow> (Inr f, timeline ((event ''reproduction'')
               \<lparr>te_decision := outcome_value outcome, te_finding := f_id f\<rparr>) a1)))"

section \<open>The model as a planner\<close>

text \<open>
  What a provider answers: the tokens it used, its thinking, its tool calls and its content as parsed
  JSON with the fields of the schema (\<open>Inl\<close> when it is not that).
\<close>

record completion =
  co_tokens :: int
  co_thinking :: string
  co_calls :: "pydict list"
  co_content :: "planner_output result"

definition bare_output :: "string \<Rightarrow> planner_output" where
  "bare_output kind = \<lparr>po_kind = kind, po_tool = None, po_arguments = [], po_reason = [], po_title = None,
     po_class = None, po_target = None, po_confidence = None, po_severity = None, po_impact = None,
     po_hypothesis = None, po_status = None, po_evidence = [], po_steps = [], po_note = []\<rparr>"

definition called_tool :: "pydict \<Rightarrow> planner_output result" where
  "called_tool d =
     then_do (py_dict_of (py_or (py_or (py_get d ''arguments'') (py_get d ''args'')) (PDict []))) (\<lambda>args.
       Inr ((bare_output ''tool'')\<lparr>
         po_tool := Some (py_str_of (py_or (py_or (py_get d ''tool'') (py_get d ''name'')) (PStr []))),
         po_arguments := args, po_reason := py_str_of (py_or (py_get d ''reason'') (PStr []))\<rparr>))"

definition answered_output :: "completion \<Rightarrow> planner_output result" where
  "answered_output c =
     then_do (case co_calls c of [] \<Rightarrow> co_content c | d # _ \<Rightarrow> called_tool d) check_planner"

definition token_exhausted :: "error \<Rightarrow> agent \<Rightarrow> decision result \<times> agent" where
  "token_exhausted e a = (Inr ((plain_decision ''budget_exhausted'')\<lparr>dc_note := error_text e\<rparr>), exhaust_budget a)"

text \<open>\<open>_llm_planner\<close>; what \<open>complete\<close> raises passes through.\<close>

definition llm_planner :: "string \<Rightarrow> (agent \<Rightarrow> completion result) \<Rightarrow> planner" where
  "llm_planner uid complete1 a =
     (case complete1 a of
        Inl e \<Rightarrow> (Inl e, a)
      | Inr c \<Rightarrow> (case (if co_tokens c \<noteq> 0 then consume ''token'' (co_tokens c) (se_budget (ag_session a))
                     else (Inr (), se_budget (ag_session a))) of
          (Inl (SafetyLimitExceededError m), b) \<Rightarrow> token_exhausted (SafetyLimitExceededError m) (put_budget b a)
        | (Inl e, b) \<Rightarrow> (Inl e, put_budget b a)
        | (Inr u, b) \<Rightarrow>
            (let a1 = put_budget b a;
                 a2 = (if co_thinking c = [] then a1
                       else timeline ((event ''thinking'')\<lparr>te_decision := ''model thinking ignored as evidence''\<rparr>) a1)
             in case answered_output c of
                Inl (ValueError m) \<Rightarrow>
                  (Inr ((plain_decision ''analyze'')\<lparr>dc_note := ''unparseable model output'', dc_thinking := co_thinking c\<rparr>),
                   timeline ((event ''model_decision'')\<lparr>te_decision := ''rejected_malformed:'' @ m\<rparr>) a2)
              | Inl e \<Rightarrow> (Inl e, a2)
              | Inr o1 \<Rightarrow>
                  if po_kind o1 \<in> set forbidden_ai_actions then (Inl (RestrictedActivityError (po_kind o1)), a2)
                  else decision_from_planner uid o1 (co_thinking c)
                    (timeline ((event ''model_decision'')\<lparr>te_decision := po_kind o1\<rparr>) a2))))"

end
