(* ===== verification/Privilege.thy ===== *)
theory Privilege
  imports AgentControl H1Program
begin

text \<open>
  \<open>security_agent/privilege.py\<close> and \<open>checkpoints.py\<close>: what a session may do is written into a
  snapshot, and a session that is resumed gets no more of it than what the current scope and the
  approvals that are still valid allow.
\<close>

section \<open>Snapshots\<close>

record privilege_snapshot =
  pv_mode :: string
  pv_program :: string
  pv_scope_hash :: string
  pv_includes :: "string list"
  pv_excludes :: "string list"
  pv_active :: bool
  pv_fuzzing :: bool
  pv_dry :: bool
  pv_tools :: pydict
  pv_limits :: pydict
  pv_approvals :: pydict
  pv_captured :: string

definition text_values :: "string list \<Rightarrow> pyval" where
  "text_values xs = PList (map PStr xs)"

definition privilege_dict :: "privilege_snapshot \<Rightarrow> pydict" where
  "privilege_dict p =
     [(''mode'', PStr (pv_mode p)), (''program_handle'', PStr (pv_program p)),
      (''scope_hash'', PStr (pv_scope_hash p)), (''scope_includes'', text_values (pv_includes p)),
      (''scope_excludes'', text_values (pv_excludes p)), (''active_testing'', PBool (pv_active p)),
      (''fuzzing'', PBool (pv_fuzzing p)), (''dry_run'', PBool (pv_dry p)),
      (''tool_enablement'', PDict (pv_tools p)), (''safety_limits'', PDict (pv_limits p)),
      (''approvals'', PDict (pv_approvals p)), (''captured_at'', PStr (pv_captured p))]"

definition text_items :: "pydict \<Rightarrow> string \<Rightarrow> string list result" where
  "text_items d k = then_do (py_iter (py_or (py_get d k) (PList []))) (\<lambda>xs. Inr (map py_str_of xs))"

definition dict_item :: "pydict \<Rightarrow> string \<Rightarrow> pydict result" where
  "dict_item d k = py_dict_of (py_or (py_get d k) (PDict []))"

definition privilege_from_dict :: "pydict \<Rightarrow> privilege_snapshot option result" where
  "privilege_from_dict d =
     (if d = [] then Inr None
      else then_do (text_items d ''scope_includes'') (\<lambda>includes.
        then_do (text_items d ''scope_excludes'') (\<lambda>excludes.
        then_do (dict_item d ''tool_enablement'') (\<lambda>tools.
        then_do (dict_item d ''safety_limits'') (\<lambda>lim.
        then_do (dict_item d ''approvals'') (\<lambda>approvals.
          Inr (Some \<lparr>pv_mode = py_text (py_get d ''mode''), pv_program = py_text (py_get d ''program_handle''),
            pv_scope_hash = py_text (py_get d ''scope_hash''), pv_includes = includes, pv_excludes = excludes,
            pv_active = py_true (py_get d ''active_testing''), pv_fuzzing = py_true (py_get d ''fuzzing''),
            pv_dry = py_true (dict_get d ''dry_run'' (PBool True)), pv_tools = tools, pv_limits = lim,
            pv_approvals = approvals, pv_captured = py_text (py_get d ''captured_at'')\<rparr>)))))))"

section \<open>The fingerprint of a scope\<close>

fun eligibility_value :: "eligibility \<Rightarrow> string" where
  "eligibility_value ELIGIBLE = ''eligible''"
| "eligibility_value INELIGIBLE = ''ineligible''"
| "eligibility_value ELIGIBILITY_UNKNOWN = ''unknown''"

fun restriction_value :: "testing_restriction \<Rightarrow> string" where
  "restriction_value NO_RESTRICTION = ''none''"
| "restriction_value NO_AUTOMATED_SCANNING = ''no_automated_scanning''"
| "restriction_value NO_DESTRUCTIVE = ''no_destructive''"
| "restriction_value PASSIVE_ONLY = ''passive_only''"
| "restriction_value RATE_LIMITED = ''rate_limited''"

definition json_texts :: "string list \<Rightarrow> json" where
  "json_texts xs = JList (map JStr (sort_texts (\<lambda>x. x) xs))"

definition rule_fingerprint :: "scope_rule \<Rightarrow> json" where
  "rule_fingerprint r = JObj
     [(''identifier'', JStr (r_identifier r)), (''asset_type'', JStr (asset_value (r_asset_type r))),
      (''structured_scope_id'', JStr (text_or_empty (structured_scope_id r))),
      (''eligible_for_submission'', JBool (eligible_for_submission r)),
      (''eligible_for_bounty'', JBool (eligible_for_bounty r)),
      (''eligibility'', JStr (eligibility_value (eligible r))),
      (''allowed_methods'', json_texts (map py_upper (r_allowed_methods r))),
      (''allow_active_testing'', JBool (r_allow_active r)),
      (''restriction'', JStr (restriction_value (restriction r))), (''path_prefix'', JStr (path_prefix r)),
      (''instructions'', JStr (r_instructions r)), (''is_exclusion'', JBool (is_exclusion r)),
      (''max_severity'', JStr (text_or_empty (max_severity r))),
      (''program_id'', JStr (text_or_empty (r_program_id r))),
      (''reference'', JStr (text_or_empty (r_reference r))), (''exclusions'', json_texts (exclusions r))]"

text \<open>By identifier, then structured scope, then type: three stable sorts.\<close>

definition sorted_rules :: "scope_rule list \<Rightarrow> scope_rule list" where
  "sorted_rules rs =
     sort_texts r_identifier (sort_texts (\<lambda>r. text_or_empty (structured_scope_id r))
       (sort_texts (\<lambda>r. asset_value (r_asset_type r)) rs))"

definition scope_json :: "program_scope \<Rightarrow> json" where
  "scope_json s = JObj
     [(''program_id'', JStr (text_or_empty (s_program_id s))),
      (''program_name'', JStr (text_or_empty (s_program_name s))),
      (''scope_mode'', JStr (scope_mode_value (s_mode s))),
      (''includes'', JList (map rule_fingerprint (sorted_rules (s_includes s)))),
      (''excludes'', JList (map rule_fingerprint (sorted_rules (s_excludes s)))),
      (''allowed_http_methods'', json_texts (map py_upper (s_allowed_methods s))),
      (''allow_active_testing'', JBool (s_allow_active s)),
      (''testing_restrictions'', json_texts (map restriction_value (testing_restrictions s))),
      (''instructions'', JStr (s_instructions s)),
      (''open_scope_acknowledged'', JBool (open_scope_acknowledged s)),
      (''open_scope_policy'', JStr (open_scope_policy s)), (''lab_mode'', JBool (lab_mode s)),
      (''lab_hosts'', json_texts (s_lab_hosts s)),
      (''network_policy'', JStr (if lab_mode s then ''lab'' else ''live''))]"

definition scope_fingerprint :: "program_scope \<Rightarrow> string" where
  "scope_fingerprint s = sha256_hex (json_dumps (scope_json s))"

definition approval_hash :: "string \<Rightarrow> string \<Rightarrow> string \<Rightarrow> string" where
  "approval_hash kind operator scope_hash = sha256_hex (kind @ '':'' @ operator @ '':'' @ scope_hash)"

section \<open>Capturing\<close>

definition captured_approval :: "engine \<Rightarrow> approval_kind \<Rightarrow> pydict" where
  "captured_approval e kind =
     (let scope_hash = scope_fingerprint (ss_scope (en_session e)) in
      case get_record (en_approvals e) kind of
        None \<Rightarrow> [(''state'', PStr (state_value MISSING))]
      | Some r \<Rightarrow>
          [(''state'', PStr (state_value (a_state r))), (''kind'', PStr (kind_value kind)),
           (''operator'', PStr (a_operator r)), (''note'', PStr (a_note r)),
           (''granted_at'', PStr (isoformat (granted_at r))),
           (''expires_at'', opt_pyval (map_option isoformat (expires_at r))), (''id'', PStr (a_id r)),
           (''scope_hash'', PStr scope_hash),
           (''approval_hash'', PStr (approval_hash (kind_value kind) (a_operator r) scope_hash))])"

definition captured_limits :: "safety_limits \<Rightarrow> pydict" where
  "captured_limits l =
     [(''max_requests'', PInt (max_requests l)), (''requests_per_second'', PFloat (requests_per_second l)),
      (''max_scan_duration_seconds'', PFloat (max_scan_duration_seconds l)),
      (''timeout_seconds'', PFloat (timeout_seconds l)), (''max_payload_count'', PInt (max_payload_count l)),
      (''max_payload_bytes'', PInt (max_payload_bytes l))]"

text \<open>Disabled tools in the order of the set, which is an argument.\<close>

definition capture_privileges ::
    "engine \<Rightarrow> research_mode \<Rightarrow> string \<Rightarrow> string list \<Rightarrow> instant \<Rightarrow> privilege_snapshot" where
  "capture_privileges e mode program disabled now =
     (let scope = ss_scope (en_session e) in
      \<lparr>pv_mode = research_mode_value mode, pv_program = program, pv_scope_hash = scope_fingerprint scope,
       pv_includes = map r_identifier (s_includes scope), pv_excludes = map r_identifier (s_excludes scope),
       pv_active = ss_active (en_session e), pv_fuzzing = ss_fuzzing (en_session e), pv_dry = dry_run (en_safety e),
       pv_tools = map (\<lambda>nm. (nm, PBool False)) disabled, pv_limits = captured_limits (limits (en_safety e)),
       pv_approvals = map (\<lambda>k. (kind_value k, PDict (captured_approval e k))) Enum.enum,
       pv_captured = isoformat now\<rparr>)"

section \<open>A HackerOne program as a scope\<close>

definition program_rule :: "structured_scope \<Rightarrow> scope_rule" where
  "program_rule r =
     (default_rule (py_strip (sc_identifier r)))
       \<lparr>r_asset_type := (if sc_asset_type r = AT_OTHER then AT_UNSUPPORTED else sc_asset_type r),
        eligible := (if sc_submission r then ELIGIBLE else INELIGIBLE), r_instructions := sc_instruction r,
        r_allow_active := False, structured_scope_id := Some (sc_id r), eligible_for_submission := sc_submission r,
        eligible_for_bounty := sc_bounty r, r_reference := sc_reference r\<rparr>"

definition program_scope_of :: "h1_program \<Rightarrow> program_scope" where
  "program_scope_of p =
     closed_scope\<lparr>s_program_id := Some (or_text (text_or_empty (pg_program_id p)) (pg_handle p)),
       s_program_name := Some (pg_handle p),
       s_includes := map program_rule (filter (\<lambda>r. py_strip (sc_identifier r) \<noteq> []) (pg_scopes p)),
       s_excludes := [], s_instructions := pg_instructions p, s_allow_active := False, lab_mode := False,
       s_mode := pg_scope_mode p, open_scope_acknowledged := pg_open_scope_acknowledged p,
       open_scope_policy := pg_open_scope_policy p\<rparr>"

section \<open>Approvals that are still valid\<close>

definition past :: "string \<Rightarrow> int \<Rightarrow> instant \<Rightarrow> bool" where
  "past stamp_text extra now =
     (case fromisoformat stamp_text of None \<Rightarrow> True | Some t \<Rightarrow> t + extra \<le> now)"

definition text_of :: "pyval \<Rightarrow> string option" where
  "text_of v = (case v of PStr s \<Rightarrow> if s \<noteq> [] then Some s else None | _ \<Rightarrow> None)"

definition outdated :: "pydict \<Rightarrow> int \<Rightarrow> instant \<Rightarrow> bool" where
  "outdated d ttl now =
     (case text_of (py_get d ''expires_at'') of
        Some t \<Rightarrow> past t 0 now
      | None \<Rightarrow>
          (case text_of (py_get d ''granted_at'') of
             Some t \<Rightarrow> 0 < ttl \<and> past t (hours ttl) now
           | None \<Rightarrow> False))"

definition approval_still_valid :: "pydict \<Rightarrow> int \<Rightarrow> string \<Rightarrow> string \<Rightarrow> string \<Rightarrow> instant \<Rightarrow> bool" where
  "approval_still_valid d ttl scope_hash program stored_program now =
     (let stored_scope = py_text (py_get d ''scope_hash''); stored = py_text (py_get d ''approval_hash'');
          expected = approval_hash (py_text (py_get d ''kind'')) (py_text (py_get d ''operator'')) scope_hash in
      if py_text (py_get d ''state'') \<noteq> state_value GRANTED then False
      else if program \<noteq> [] \<and> stored_program \<noteq> [] \<and> program \<noteq> stored_program then False
      else if scope_hash \<noteq> [] \<and> stored_scope \<noteq> [] \<and> stored_scope \<noteq> scope_hash then False
      else if stored \<noteq> [] \<and> scope_hash \<noteq> [] \<and> py_true (py_get d ''kind'') \<and> stored \<noteq> expected then False
      else \<not> outdated d ttl now)"

text \<open>The setting and the clocks: one reading for each approval, one for each of the two permissions.\<close>

record restore_env =
  rv_ttl :: int
  rv_clock :: "string \<Rightarrow> instant"
  rv_active :: instant
  rv_fuzzing :: instant
  rv_captured :: instant

definition missing_approval :: "string \<Rightarrow> pyval" where
  "missing_approval ground = PDict [(''state'', PStr (state_value MISSING)), (''reason'', PStr ground)]"

text \<open>The loops over the approvals: entries that are no dictionaries are dropped.\<close>

definition kept_approvals :: "(string \<Rightarrow> pydict \<Rightarrow> bool) \<Rightarrow> string \<Rightarrow> pydict \<Rightarrow> pydict" where
  "kept_approvals valid ground approvals =
     fold (\<lambda>(k, v) acc. case v of
        PDict d \<Rightarrow> dict_set k (if valid k d then PDict d else missing_approval ground) acc
      | _ \<Rightarrow> acc) approvals []"

text \<open>\<open>persisted.approvals.get(kind) or {}\<close>, which has to be a dictionary.\<close>

definition stored_approval :: "privilege_snapshot \<Rightarrow> approval_kind \<Rightarrow> pydict result" where
  "stored_approval p kind =
     (case py_or (py_get (pv_approvals p) (kind_value kind)) (PDict []) of
        PDict d \<Rightarrow> Inr d
      | _ \<Rightarrow> Inl (AttributeError ''object has no attribute get''))"

text \<open>\<open>a and b and valid(...)\<close>: the approval is looked at only when the rest holds.\<close>

definition permission_kept ::
    "bool \<Rightarrow> privilege_snapshot \<Rightarrow> approval_kind \<Rightarrow> (pydict \<Rightarrow> bool) \<Rightarrow> bool result" where
  "permission_kept wanted p kind valid =
     (if wanted then then_do (stored_approval p kind) (\<lambda>d. Inr (valid d)) else Inr False)"

definition scope_downgraded :: "privilege_snapshot \<Rightarrow> program_scope \<Rightarrow> bool" where
  "scope_downgraded p scope \<longleftrightarrow>
     scope_fingerprint scope \<noteq> pv_scope_hash p \<or> set (map r_identifier (s_includes scope)) \<noteq> set (pv_includes p)"

definition intersect_privileges ::
    "restore_env \<Rightarrow> privilege_snapshot \<Rightarrow> program_scope \<Rightarrow> string \<Rightarrow> privilege_snapshot result" where
  "intersect_privileges v p scope program =
     (let current = scope_fingerprint scope; down = scope_downgraded p scope;
          valid = (\<lambda>d now. approval_still_valid d (rv_ttl v) current program (pv_program p) now) in
      then_do (permission_kept (pv_active p \<and> \<not> down) p ENABLE_ACTIVE_TESTING (\<lambda>d. valid d (rv_active v))) (\<lambda>active.
      then_do (permission_kept (pv_fuzzing p \<and> \<not> down) p ENABLE_FUZZING (\<lambda>d. valid d (rv_fuzzing v))) (\<lambda>fuzzing.
        Inr (p\<lparr>pv_program := program, pv_scope_hash := current,
          pv_includes := (if down then sort_texts (\<lambda>x. x) (first_occurrences (map r_identifier (s_includes scope)))
                          else pv_includes p),
          pv_excludes := map r_identifier (s_excludes scope), pv_active := active \<and> program = pv_program p,
          pv_fuzzing := fuzzing, pv_dry := down \<or> pv_dry p,
          pv_approvals := kept_approvals (\<lambda>k d. valid d (rv_clock v k) \<and> \<not> down) ''stale_or_invalidated'' (pv_approvals p),
          pv_captured := isoformat (rv_captured v)\<rparr>))))"

definition expire_stale_privileges :: "restore_env \<Rightarrow> privilege_snapshot \<Rightarrow> privilege_snapshot result" where
  "expire_stale_privileges v p =
     then_do (permission_kept (pv_active p) p ENABLE_ACTIVE_TESTING
       (\<lambda>d. approval_still_valid d (rv_ttl v) [] [] [] (rv_active v))) (\<lambda>active.
     then_do (permission_kept (pv_fuzzing p) p ENABLE_FUZZING
       (\<lambda>d. approval_still_valid d (rv_ttl v) [] [] [] (rv_fuzzing v))) (\<lambda>fuzzing.
       Inr (p\<lparr>pv_active := active, pv_fuzzing := fuzzing,
         pv_approvals := kept_approvals (\<lambda>k d. approval_still_valid d (rv_ttl v) (pv_scope_hash p) [] [] (rv_clock v k))
           ''expired'' (pv_approvals p),
         pv_captured := isoformat (rv_captured v)\<rparr>)))"

section \<open>Applying a snapshot\<close>

text \<open>The stamps are those that \<open>isoformat\<close> wrote, with their offset.\<close>

definition read_stamp :: "pyval \<Rightarrow> instant option" where
  "read_stamp v = Option.bind (text_of v) fromisoformat"

definition restored_record :: "approval_kind \<Rightarrow> pydict \<Rightarrow> instant \<Rightarrow> approval_record" where
  "restored_record kind d now =
     \<lparr>a_kind = kind, a_state = GRANTED, a_operator = py_str_of (py_or (py_get d ''operator'') (PStr ''restored'')),
      a_note = py_str_of (py_or (py_get d ''note'') (PStr ''restored'')), a_id = py_text (py_get d ''id''),
      granted_at = (case read_stamp (py_get d ''granted_at'') of None \<Rightarrow> now | Some t \<Rightarrow> t),
      expires_at = read_stamp (py_get d ''expires_at'')\<rparr>"

text \<open>The loop of \<open>_restore_approvals\<close>: unknown kinds and what is not granted are skipped.\<close>

fun restore_each :: "(string \<Rightarrow> instant) \<Rightarrow> pydict \<Rightarrow> gate \<Rightarrow> unit result \<times> gate" where
  "restore_each clock [] g = (Inr (), g)"
| "restore_each clock ((k, v) # rest) g =
     (case approval_kind_of k of
        Inl e \<Rightarrow> restore_each clock rest g
      | Inr kind \<Rightarrow>
          (case v of
             PDict d \<Rightarrow>
               if py_text (py_get d ''state'') \<noteq> state_value GRANTED then restore_each clock rest g
               else restore_each clock rest (load_record (restored_record kind d (clock k)) g)
           | _ \<Rightarrow> (Inl (AttributeError ''object has no attribute get''), g)))"

definition restore_approvals :: "(string \<Rightarrow> instant) \<Rightarrow> pydict \<Rightarrow> gate \<Rightarrow> unit result \<times> gate" where
  "restore_approvals clock approvals g = restore_each clock approvals (clear_records g)"

text \<open>The limits of a snapshot, and the defaults of the class for the others.\<close>

definition restored_limits :: "pydict \<Rightarrow> safety_limits \<Rightarrow> safety_limits result" where
  "restored_limits d l =
     then_do (py_int_of (dict_get d ''max_requests'' (PInt (max_requests l)))) (\<lambda>a.
     then_do (py_float_of (dict_get d ''requests_per_second'' (PFloat (requests_per_second l)))) (\<lambda>b.
     then_do (py_float_of (dict_get d ''timeout_seconds'' (PFloat (timeout_seconds l)))) (\<lambda>c.
     then_do (py_float_of (dict_get d ''max_scan_duration_seconds'' (PFloat (max_scan_duration_seconds l)))) (\<lambda>m.
     then_do (py_int_of (dict_get d ''max_payload_count'' (PInt (max_payload_count l)))) (\<lambda>n.
     then_do (py_int_of (dict_get d ''max_payload_bytes'' (PInt (max_payload_bytes l)))) (\<lambda>z.
       Inr (conservative_limits\<lparr>max_requests := a, requests_per_second := b, timeout_seconds := c,
         max_scan_duration_seconds := m, max_payload_count := n, max_payload_bytes := z,
         allowed_http_methods := allowed_http_methods l\<rparr>)))))))"

definition permissions_applied :: "privilege_snapshot \<Rightarrow> engine \<Rightarrow> engine" where
  "permissions_applied p e =
     (let ss = (en_session e)\<lparr>ss_active := pv_active p, ss_fuzzing := pv_fuzzing p, ss_dry_run := pv_dry p\<rparr>;
          e1 = e\<lparr>en_session := ss, en_safety := (en_safety e)\<lparr>dry_run := pv_dry p\<rparr>\<rparr>;
          scope = (ss_scope ss)\<lparr>s_allow_active := True\<rparr>
      in if pv_active p then e1\<lparr>en_session := ss\<lparr>ss_scope := scope\<rparr>, en_guard := scope\<rparr> else e1)"

definition apply_privileges :: "restore_env \<Rightarrow> privilege_snapshot \<Rightarrow> engine \<Rightarrow> unit result \<times> engine" where
  "apply_privileges v p e =
     (let e1 = permissions_applied p e in
      case restore_approvals (rv_clock v) (pv_approvals p) (en_approvals e1) of
        (Inl exc, g) \<Rightarrow> (Inl exc, e1\<lparr>en_approvals := g\<rparr>)
      | (Inr u, g) \<Rightarrow>
          (let e2 = e1\<lparr>en_approvals := g\<rparr> in
           if pv_limits p = [] then (Inr (), e2)
           else case restored_limits (pv_limits p) (limits (en_safety e2)) of
             Inl exc \<Rightarrow> (Inl exc, e2)
           | Inr l \<Rightarrow> (Inr (), e2\<lparr>en_safety := (en_safety e2)\<lparr>limits := l\<rparr>\<rparr>)))"

section \<open>Checkpoints\<close>

record checkpoint =
  ck_id :: string
  ck_label :: string
  ck_snapshot :: pydict

text \<open>
  The snapshots of the session and the model and the tool history are arguments; nothing here reads
  them again.
\<close>

definition capture_checkpoint ::
    "string \<Rightarrow> string \<Rightarrow> pydict \<Rightarrow> pydict \<Rightarrow> pyval \<Rightarrow> string list \<Rightarrow> instant \<Rightarrow> agent \<Rightarrow> checkpoint" where
  "capture_checkpoint uid label session_dict model_dict history disabled now a =
     (let s = ag_session a in
      \<lparr>ck_id = uid, ck_label = or_text label (research_state_value (se_state s)),
       ck_snapshot =
         [(''session'', PDict session_dict), (''model'', PDict model_dict),
          (''privilege'', PDict (privilege_dict
             (capture_privileges (ag_engine a) (se_mode s) (se_program s) disabled now))),
          (''budget'', PDict (budget_snapshot (se_budget s))),
          (''hypotheses'', PList (map (PDict \<circ> hypothesis_snapshot) (se_hypotheses s))),
          (''graph'', PDict (graph_snapshot (ag_graph a))), (''tool_history'', history),
          (''plan'', (case se_plan s of None \<Rightarrow> PNone | Some p \<Rightarrow> PDict (plan_snapshot p))),
          (''findings'', PList (map (\<lambda>f. PDict [(''id'', PStr (f_id f)),
             (''status'', PStr (status_value (status f))), (''title'', PStr (title f))]) (se_findings s))),
          (''project_id'', PStr (se_project s)), (''target'', PStr (se_target s)),
          (''disabled_tools'', text_values (sort_texts (\<lambda>x. x) disabled))]\<rparr>)"

definition weaker_int :: "pydict \<Rightarrow> string \<Rightarrow> int \<Rightarrow> pyval" where
  "weaker_int d k current =
     PInt (min (case py_int_of (dict_get d k (PInt current)) of Inl e \<Rightarrow> current | Inr n \<Rightarrow> n) current)"

definition weaker_float :: "pydict \<Rightarrow> string \<Rightarrow> rat \<Rightarrow> pyval" where
  "weaker_float d k current =
     PFloat (min (case py_float_of (dict_get d k (PFloat current)) of Inl e \<Rightarrow> current | Inr n \<Rightarrow> n) current)"

definition weaker_limits :: "pydict \<Rightarrow> safety_limits \<Rightarrow> pydict" where
  "weaker_limits d l =
     [(''max_requests'', weaker_int d ''max_requests'' (max_requests l)),
      (''requests_per_second'', weaker_float d ''requests_per_second'' (requests_per_second l)),
      (''timeout_seconds'', weaker_float d ''timeout_seconds'' (timeout_seconds l)),
      (''max_scan_duration_seconds'', weaker_float d ''max_scan_duration_seconds'' (max_scan_duration_seconds l)),
      (''max_payload_count'', weaker_int d ''max_payload_count'' (max_payload_count l)),
      (''max_payload_bytes'', weaker_int d ''max_payload_bytes'' (max_payload_bytes l))]"

definition stored_privileges :: "checkpoint \<Rightarrow> privilege_snapshot option result" where
  "stored_privileges c =
     (case py_or (py_get (ck_snapshot c) ''privilege'') (PDict []) of
        PDict d \<Rightarrow> privilege_from_dict d
      | _ \<Rightarrow> Inl (AttributeError ''object has no attribute get''))"

definition disabled_in :: "pydict \<Rightarrow> string list" where
  "disabled_in d = map fst (filter (\<lambda>(k, v). v = PBool False) d)"

definition checkpoint_refusal :: "checkpoint \<Rightarrow> privilege_snapshot option \<Rightarrow> agent \<Rightarrow> error option" where
  "checkpoint_refusal c stored a =
     (let s = ag_session a; project = py_text (py_get (ck_snapshot c) ''project_id'') in
      if project \<noteq> [] \<and> project \<noteq> se_project s then Some (RestrictedActivityError ''checkpoint_project_mismatch'')
      else if se_mode s \<noteq> RM_LIVE then None
      else if se_program s = [] then Some (RestrictedActivityError ''checkpoint_program_missing'')
      else if (case stored of None \<Rightarrow> False | Some p \<Rightarrow> pv_program p \<noteq> [] \<and> pv_program p \<noteq> se_program s) then
        Some (RestrictedActivityError ''checkpoint_program_changed'')
      else if s_includes (ss_scope (en_session (ag_engine a))) = [] then
        Some (RestrictedActivityError ''checkpoint_current_scope_missing'')
      else None)"

text \<open>What a checkpoint gives back: the stored privileges cut down, or the current ones.\<close>

definition current_privileges ::
    "restore_env \<Rightarrow> string list \<Rightarrow> privilege_snapshot option \<Rightarrow> agent \<Rightarrow> privilege_snapshot result" where
  "current_privileges v disabled stored a =
     (case stored of
        Some p \<Rightarrow> intersect_privileges v p (ss_scope (en_session (ag_engine a))) (se_program (ag_session a))
      | None \<Rightarrow> Inr (capture_privileges (ag_engine a) (se_mode (ag_session a)) (se_program (ag_session a)) disabled
                  (rv_captured v)))"

definition active_not_granted :: "privilege_snapshot \<Rightarrow> agent \<Rightarrow> bool result" where
  "active_not_granted p a =
     (let ss = en_session (ag_engine a) in
      if ss_mode ss = LIVE \<and> ss_active ss then
        then_do (stored_approval p ENABLE_ACTIVE_TESTING) (\<lambda>d. Inr (py_text (py_get d ''state'') \<noteq> state_value GRANTED))
      else Inr False)"

definition verify_live :: "restore_env \<Rightarrow> string list \<Rightarrow> checkpoint \<Rightarrow> agent \<Rightarrow> privilege_snapshot result" where
  "verify_live v disabled c a =
     then_do (stored_privileges c) (\<lambda>stored.
       case checkpoint_refusal c stored a of
         Some e \<Rightarrow> Inl e
       | None \<Rightarrow>
           then_do (current_privileges v disabled stored a) (\<lambda>p.
             (let p1 = p\<lparr>pv_tools := map (\<lambda>nm. (nm, PBool False))
                           (sort_texts (\<lambda>x. x) (first_occurrences (disabled @ disabled_in (pv_tools p)))),
                         pv_limits := weaker_limits (pv_limits p) (limits (en_safety (ag_engine a)))\<rparr>
              in then_do (active_not_granted p1 a) (\<lambda>bad.
                if bad then Inl (RestrictedActivityError ''checkpoint_active_testing_not_granted'') else Inr p1))))"

definition resume_checkpoint ::
    "restore_env \<Rightarrow> string list \<Rightarrow> checkpoint \<Rightarrow> agent \<Rightarrow> privilege_snapshot result \<times> agent" where
  "resume_checkpoint v disabled c a =
     (case verify_live v disabled c a of
        Inl e \<Rightarrow> (Inl e, a)
      | Inr p \<Rightarrow> (case apply_privileges v p (ag_engine a) of
          (Inl e, en) \<Rightarrow> (Inl e, a\<lparr>ag_engine := en\<rparr>)
        | (Inr u, en) \<Rightarrow> (Inr p, on_session (\<lambda>s. s\<lparr>se_disabled := se_disabled s \<union> set (disabled_in (pv_tools p))\<rparr>)
            (a\<lparr>ag_engine := en\<rparr>))))"

section \<open>The order of the rules\<close>

text \<open>By the text first, then as before.\<close>

definition text_first :: "('a \<Rightarrow> string) \<Rightarrow> ('a \<Rightarrow> 'a \<Rightarrow> bool) \<Rightarrow> 'a \<Rightarrow> 'a \<Rightarrow> bool" where
  "text_first f P x y \<longleftrightarrow> text_le (f x) (f y) \<and> (f x = f y \<longrightarrow> P x y)"

lemma set_insert_text: "set (insert_text f x ys) = insert x (set ys)"
  by (induction ys) auto

lemma insert_text_sorted:
  "sorted_wrt (text_first f P) ys \<Longrightarrow> \<forall>y\<in>set ys. P x y \<Longrightarrow> sorted_wrt (text_first f P) (insert_text f x ys)"
proof (induction ys)
  case (Cons y ys)
  show ?case
  proof (cases "text_le (f x) (f y)")
    case True
    then show ?thesis using Cons.prems by (auto simp: text_first_def intro: text_le_trans)
  next
    case False
    then have "text_le (f y) (f x)" "f x \<noteq> f y" using text_le_total [of "f x" "f y"] by auto
    then show ?thesis using Cons False by (auto simp: set_insert_text text_first_def)
  qed
qed simp

lemma sort_texts_sorted: "sorted_wrt P xs \<Longrightarrow> sorted_wrt (text_first f P) (sort_texts f xs)"
proof (induction xs)
  case (Cons x xs)
  then have "sorted_wrt (text_first f P) (insert_text f x (sort_texts f xs))" by (intro insert_text_sorted) auto
  then show ?case by (simp add: sort_texts_def)
qed (simp add: sort_texts_def)

lemma sorted_wrt_unique:
  "sorted_wrt R xs \<Longrightarrow> sorted_wrt R ys \<Longrightarrow> mset xs = mset ys \<Longrightarrow>
     \<forall>x\<in>set xs. \<forall>y\<in>set xs. R x y \<longrightarrow> R y x \<longrightarrow> x = y \<Longrightarrow> xs = ys"
proof (induction xs arbitrary: ys)
  case (Cons x xs)
  obtain y zs where ys: "ys = y # zs" using Cons.prems(3) by (cases ys) auto
  have same: "set (x # xs) = set (y # zs)" using Cons.prems(3) ys by (metis set_mset_mset)
  have "x = y"
  proof (rule ccontr)
    assume "x \<noteq> y"
    then have "y \<in> set xs" "x \<in> set zs" using same by auto
    then show False using Cons.prems(1,2,4) ys \<open>x \<noteq> y\<close> by auto
  qed
  then show ?case using Cons ys by auto
qed simp

lemma sort_texts_order:
  assumes "mset xs = mset ys" shows "sort_texts (\<lambda>x. x) xs = sort_texts (\<lambda>x. x) ys"
proof (rule sorted_wrt_unique)
  have "sorted_wrt (text_first (\<lambda>x. x) (\<lambda>_ _. True)) (sort_texts (\<lambda>x. x) zs)" for zs
    by (rule sort_texts_sorted) (simp add: sorted_wrt_true)
  then show "sorted_wrt (text_first (\<lambda>x. x) (\<lambda>_ _. True)) (sort_texts (\<lambda>x. x) xs)"
    "sorted_wrt (text_first (\<lambda>x. x) (\<lambda>_ _. True)) (sort_texts (\<lambda>x. x) ys)" by this+
qed (auto simp: assms text_first_def intro: text_le_antisym)

lemma json_texts_order: "mset xs = mset ys \<Longrightarrow> json_texts xs = json_texts ys"
  by (drule sort_texts_order) (simp add: json_texts_def)

definition rule_key :: "scope_rule \<Rightarrow> string \<times> string \<times> string" where
  "rule_key r = (r_identifier r, text_or_empty (structured_scope_id r), asset_value (r_asset_type r))"

abbreviation rule_order :: "scope_rule \<Rightarrow> scope_rule \<Rightarrow> bool" where
  "rule_order \<equiv> text_first r_identifier (text_first (\<lambda>r. text_or_empty (structured_scope_id r))
     (text_first (\<lambda>r. asset_value (r_asset_type r)) (\<lambda>_ _. True)))"

lemma sorted_rules_sorted: "sorted_wrt rule_order (sorted_rules rs)"
proof -
  have "sorted_wrt (\<lambda>_ _. True) rs" by (simp add: sorted_wrt_true)
  from sort_texts_sorted [OF sort_texts_sorted [OF sort_texts_sorted [OF this]]]
  show ?thesis by (simp only: sorted_rules_def)
qed

lemma text_first_both: "text_first f P x y \<Longrightarrow> text_first f P y x \<Longrightarrow> f x = f y \<and> P x y \<and> P y x"
  using text_le_antisym [of "f x" "f y"] by (simp add: text_first_def)

lemma rule_order_key: "rule_order r q \<Longrightarrow> rule_order q r \<Longrightarrow> rule_key r = rule_key q"
  unfolding rule_key_def by (drule (1) text_first_both, elim conjE, drule (1) text_first_both, elim conjE,
    drule (1) text_first_both, simp)

lemma sorted_rules_order:
  assumes "mset rs = mset qs" and "inj_on rule_key (set rs)"
  shows "sorted_rules rs = sorted_rules qs"
proof (rule sorted_wrt_unique [OF sorted_rules_sorted sorted_rules_sorted])
  show "mset (sorted_rules rs) = mset (sorted_rules qs)" by (simp add: sorted_rules_def assms(1))
  show "\<forall>x\<in>set (sorted_rules rs). \<forall>y\<in>set (sorted_rules rs). rule_order x y \<longrightarrow> rule_order y x \<longrightarrow> x = y"
    using assms(2) rule_order_key by (auto simp: sorted_rules_def dest: inj_onD)
qed

text \<open>The fingerprint of a scope does not depend on the order in which its rules, methods, laboratory
  hosts and restrictions are listed, provided no two rules agree in identifier, structured scope and
  type.\<close>

theorem fingerprint_ignores_order:
  assumes "mset (s_includes t) = mset (s_includes s)" and "inj_on rule_key (set (s_includes s))"
    and "mset (s_excludes t) = mset (s_excludes s)" and "inj_on rule_key (set (s_excludes s))"
    and "mset (s_allowed_methods t) = mset (s_allowed_methods s)" and "mset (s_lab_hosts t) = mset (s_lab_hosts s)"
    and "mset (testing_restrictions t) = mset (testing_restrictions s)"
    and "t\<lparr>s_includes := [], s_excludes := [], s_allowed_methods := [], s_lab_hosts := [], testing_restrictions := []\<rparr> =
         s\<lparr>s_includes := [], s_excludes := [], s_allowed_methods := [], s_lab_hosts := [], testing_restrictions := []\<rparr>"
  shows "scope_fingerprint t = scope_fingerprint s"
proof -
  have "sorted_rules (s_includes t) = sorted_rules (s_includes s)" "sorted_rules (s_excludes t) = sorted_rules (s_excludes s)"
    using sorted_rules_order assms(1-4) by metis+
  moreover have "json_texts (map py_upper (s_allowed_methods t)) = json_texts (map py_upper (s_allowed_methods s))"
    "json_texts (s_lab_hosts t) = json_texts (s_lab_hosts s)"
    "json_texts (map restriction_value (testing_restrictions t)) = json_texts (map restriction_value (testing_restrictions s))"
    by (rule json_texts_order, simp add: assms(5-7))+
  moreover have "s_program_id t = s_program_id s" "s_program_name t = s_program_name s" "s_mode t = s_mode s"
    "s_allow_active t = s_allow_active s" "s_instructions t = s_instructions s" "lab_mode t = lab_mode s"
    "open_scope_acknowledged t = open_scope_acknowledged s" "open_scope_policy t = open_scope_policy s"
    using assms(8) by (cases s; cases t; simp)+
  ultimately show ?thesis by (simp add: scope_fingerprint_def scope_json_def)
qed

theorem fingerprint_ignores_order_witness:
  "scope_fingerprint (closed_scope\<lparr>s_includes := [default_rule ''b'', default_rule ''a'']\<rparr>) =
   scope_fingerprint (closed_scope\<lparr>s_includes := [default_rule ''a'', default_rule ''b'']\<rparr>)"
  by (rule fingerprint_ignores_order) (simp_all add: rule_key_def default_rule_def closed_scope_def)

text \<open>
  The proviso is needed, although the function promises that the order cannot change the digest: two rules
  with one identifier that differ in what they allow stay in their order.
\<close>

lemma equal_keys_keep_order:
  defines "one \<equiv> default_rule ''a''" and "two \<equiv> (default_rule ''a'')\<lparr>r_allow_active := \<not> r_allow_active (default_rule ''a'')\<rparr>"
  shows "scope_json (closed_scope\<lparr>s_includes := [one, two]\<rparr>) \<noteq> scope_json (closed_scope\<lparr>s_includes := [two, one]\<rparr>)"
  by (simp add: scope_json_def sorted_rules_def sort_texts_def rule_fingerprint_def one_def two_def)

section \<open>Resuming from stored privileges\<close>

definition stored_grant ::
    "restore_env \<Rightarrow> privilege_snapshot \<Rightarrow> program_scope \<Rightarrow> string \<Rightarrow> approval_kind \<Rightarrow> instant \<Rightarrow> bool" where
  "stored_grant v p scope program kind now \<longleftrightarrow>
     \<not> scope_downgraded p scope \<and>
     (\<exists>d. (kind_value kind, PDict d) \<in> set (pv_approvals p) \<and>
        approval_still_valid d (rv_ttl v) (scope_fingerprint scope) program (pv_program p) now)"

lemma set_dict_set: "set (dict_set k v d) \<subseteq> insert (k, v) (set d)"
  by (induction k v d rule: dict_set.induct) auto

lemma kept_approvals_step:
  "(k, v) \<in> set (fold (\<lambda>(k, v) acc. case v of
        PDict d \<Rightarrow> dict_set k (if valid k d then PDict d else missing_approval ground) acc
      | _ \<Rightarrow> acc) ap acc) \<Longrightarrow>
   (k, v) \<in> set acc \<or> v = missing_approval ground \<or> (k, v) \<in> set ap \<and> (\<exists>d. v = PDict d \<and> valid k d)"
proof (induction ap arbitrary: acc)
  case (Cons x ap)
  obtain k1 v1 where x: "x = (k1, v1)" by fastforce
  show ?case
  proof (cases v1)
    case (PDict d)
    then show ?thesis
      using Cons.IH [of "dict_set k1 (if valid k1 d then PDict d else missing_approval ground) acc"] Cons.prems x
        set_dict_set [of k1 "if valid k1 d then PDict d else missing_approval ground" acc]
      by (auto split: if_splits)
  qed (use Cons x in auto)
qed simp

lemma kept_approvals_granted:
  assumes "(k, PDict d) \<in> set (kept_approvals valid ground ap)" and "py_text (py_get d ''state'') = state_value GRANTED"
  shows "(k, PDict d) \<in> set ap \<and> valid k d"
proof -
  have "PDict d \<noteq> missing_approval ground"
    using assms(2) by (auto simp: missing_approval_def py_get_def dict_get_def)
  then show ?thesis using kept_approvals_step [of k "PDict d" valid ground ap "[]"] assms(1)
    by (auto simp: kept_approvals_def)
qed

lemma kind_of_text: "approval_kind_of t = Inr kind \<Longrightarrow> kind_value kind = t"
  by (auto simp: approval_kind_of_def dest!: find_Some_prop split: option.splits)

lemma restored_from:
  assumes "restore_each clock ap g = (r, g')" and "map_of g' kind = Some x"
  shows "map_of g kind = Some x \<or>
    (\<exists>d. (kind_value kind, PDict d) \<in> set ap \<and> py_text (py_get d ''state'') = state_value GRANTED)"
  using assms
proof (induction clock ap g rule: restore_each.induct)
  case (2 clock k v rest g)
  show ?case
  proof (cases "approval_kind_of k")
    case (Inl e)
    then show ?thesis using 2 by fastforce
  next
    case (Inr k1)
    then show ?thesis
    proof (cases v)
      case (PDict d)
      show ?thesis
      proof (cases "py_text (py_get d ''state'') = state_value GRANTED")
        case True
        have "map_of (load_record (restored_record k1 d (clock k)) g) kind = Some x \<or>
            (\<exists>d. (kind_value kind, PDict d) \<in> set rest \<and> py_text (py_get d ''state'') = state_value GRANTED)"
          using 2(3) [OF Inr PDict] 2(4,5) Inr PDict True by simp
        then show ?thesis
          using kind_of_text [OF Inr] True PDict
          by (auto simp: load_record_def restored_record_def split: if_splits)
      next
        case False
        then show ?thesis using 2(2) [OF Inr PDict] 2(4,5) Inr PDict by auto
      qed
    qed (use 2 Inr in auto)
  qed
qed simp

text \<open>A limit is within a stored one when the stored value can be read and is no smaller, or cannot be read.\<close>

definition int_within :: "pydict \<Rightarrow> string \<Rightarrow> int \<Rightarrow> bool" where
  "int_within d k x = (case py_int_of (py_get d k) of Inl e \<Rightarrow> True | Inr n \<Rightarrow> x \<le> n)"

definition float_within :: "pydict \<Rightarrow> string \<Rightarrow> rat \<Rightarrow> bool" where
  "float_within d k x = (case py_float_of (py_get d k) of Inl e \<Rightarrow> True | Inr n \<Rightarrow> x \<le> n)"

text \<open>The six limits of \<open>m\<close> that a snapshot carries are at most those of \<open>l\<close>, and at most the stored ones.\<close>

definition limits_below :: "safety_limits \<Rightarrow> safety_limits \<Rightarrow> bool" where
  "limits_below m l \<longleftrightarrow>
     max_requests m \<le> max_requests l \<and> requests_per_second m \<le> requests_per_second l \<and>
     timeout_seconds m \<le> timeout_seconds l \<and> max_scan_duration_seconds m \<le> max_scan_duration_seconds l \<and>
     max_payload_count m \<le> max_payload_count l \<and> max_payload_bytes m \<le> max_payload_bytes l"

definition limits_as_stored :: "pydict \<Rightarrow> safety_limits \<Rightarrow> bool" where
  "limits_as_stored d m \<longleftrightarrow>
     int_within d ''max_requests'' (max_requests m) \<and> float_within d ''requests_per_second'' (requests_per_second m) \<and>
     float_within d ''timeout_seconds'' (timeout_seconds m) \<and>
     float_within d ''max_scan_duration_seconds'' (max_scan_duration_seconds m) \<and>
     int_within d ''max_payload_count'' (max_payload_count m) \<and> int_within d ''max_payload_bytes'' (max_payload_bytes m)"

text \<open>The limits a snapshot does not carry: the defaults of the class, and the methods of \<open>l\<close>.\<close>

definition other_limits_reset :: "safety_limits \<Rightarrow> safety_limits \<Rightarrow> bool" where
  "other_limits_reset m l \<longleftrightarrow>
     max_concurrent m = max_concurrent conservative_limits \<and> max_targets m = max_targets conservative_limits \<and>
     max_response_bytes m = max_response_bytes conservative_limits \<and> max_redirects m = max_redirects conservative_limits \<and>
     \<not> allow_destructive m \<and> allowed_http_methods m = allowed_http_methods l"

lemmas limits_compare = limits_below_def limits_as_stored_def other_limits_reset_def

lemma py_of_None [simp]: "\<exists>e. py_int_of PNone = Inl e" "\<exists>e. py_float_of PNone = Inl e"
  by simp_all

lemma weaker_within:
  "int_within d k (min (case py_int_of (dict_get d k (PInt x)) of Inl e \<Rightarrow> x | Inr n \<Rightarrow> n) x)"
  "float_within d k (min (case py_float_of (dict_get d k (PFloat y)) of Inl e \<Rightarrow> y | Inr n \<Rightarrow> n) y)"
  by (cases "map_of d k"; auto simp: int_within_def float_within_def py_get_def dict_get_def split: sum.split)+

lemma weaker_limits_within:
  "\<exists>m. restored_limits (weaker_limits d l) l = Inr m \<and> limits_below m l \<and> limits_as_stored d m \<and> other_limits_reset m l"
  using weaker_within
  by (simp add: restored_limits_def weaker_limits_def weaker_int_def weaker_float_def dict_get_def [of "_ # _"]
    limits_compare conservative_limits_def)

lemma stored_approval_in:
  assumes "stored_approval p kind = Inr d" and "py_text (py_get d ''state'') = state_value GRANTED"
  shows "(kind_value kind, PDict d) \<in> set (pv_approvals p)"
proof -
  have "d \<noteq> []" using assms(2) by (auto simp: py_get_def dict_get_def)
  then have "py_get (pv_approvals p) (kind_value kind) = PDict d"
    using assms(1) by (auto simp: stored_approval_def py_or_def split: pyval.splits if_splits)
  then show ?thesis by (auto simp: py_get_def dict_get_def dest: map_of_SomeD split: option.splits)
qed

lemma valid_is_granted:
  "approval_still_valid d ttl h program stored now \<Longrightarrow> py_text (py_get d ''state'') = state_value GRANTED"
  by (simp add: approval_still_valid_def Let_def split: if_splits)

lemma permission_kept_stands:
  assumes "permission_kept (b \<and> \<not> scope_downgraded p scope) p kind
      (\<lambda>d. approval_still_valid d (rv_ttl v) (scope_fingerprint scope) program (pv_program p) now) = Inr True"
  shows "b \<and> stored_grant v p scope program kind now"
proof -
  from assms obtain d where d: "stored_approval p kind = Inr d" "b" "\<not> scope_downgraded p scope"
    "approval_still_valid d (rv_ttl v) (scope_fingerprint scope) program (pv_program p) now"
    by (auto simp: permission_kept_def split: if_splits)
  then show ?thesis using stored_approval_in [OF d(1) valid_is_granted [OF d(4)]] by (auto simp: stored_grant_def)
qed

lemma intersect_grants:
  assumes "intersect_privileges v p scope program = Inr q"
  shows "pv_active q \<Longrightarrow> pv_active p \<and> pv_program p = program \<and> stored_grant v p scope program ENABLE_ACTIVE_TESTING (rv_active v)"
    and "pv_fuzzing q \<Longrightarrow> pv_fuzzing p \<and> stored_grant v p scope program ENABLE_FUZZING (rv_fuzzing v)"
    and "(kind_value kind, PDict d) \<in> set (pv_approvals q) \<Longrightarrow> py_text (py_get d ''state'') = state_value GRANTED \<Longrightarrow>
      stored_grant v p scope program kind (rv_clock v (kind_value kind))"
    and "pv_dry q \<longleftrightarrow> pv_dry p \<or> scope_downgraded p scope" and "pv_tools q = pv_tools p" and "pv_limits q = pv_limits p"
proof -
  from assms obtain active fuzzing where
    active: "permission_kept (pv_active p \<and> \<not> scope_downgraded p scope) p ENABLE_ACTIVE_TESTING
      (\<lambda>d. approval_still_valid d (rv_ttl v) (scope_fingerprint scope) program (pv_program p) (rv_active v)) = Inr active" and
    fuzz: "permission_kept (pv_fuzzing p \<and> \<not> scope_downgraded p scope) p ENABLE_FUZZING
      (\<lambda>d. approval_still_valid d (rv_ttl v) (scope_fingerprint scope) program (pv_program p) (rv_fuzzing v)) = Inr fuzzing" and
    q: "pv_active q = (active \<and> program = pv_program p)" "pv_fuzzing q = fuzzing"
      "pv_dry q = (scope_downgraded p scope \<or> pv_dry p)" "pv_tools q = pv_tools p" "pv_limits q = pv_limits p"
      "pv_approvals q = kept_approvals (\<lambda>k d. approval_still_valid d (rv_ttl v) (scope_fingerprint scope) program
         (pv_program p) (rv_clock v k) \<and> \<not> scope_downgraded p scope) ''stale_or_invalidated'' (pv_approvals p)"
    by (auto simp: intersect_privileges_def Let_def then_do_Inr)
  show "pv_active p \<and> pv_program p = program \<and> stored_grant v p scope program ENABLE_ACTIVE_TESTING (rv_active v)" if "pv_active q"
    using permission_kept_stands [of "pv_active p" p scope ENABLE_ACTIVE_TESTING v program "rv_active v"] active that q(1) by auto
  show "pv_fuzzing p \<and> stored_grant v p scope program ENABLE_FUZZING (rv_fuzzing v)" if "pv_fuzzing q"
    using permission_kept_stands [of "pv_fuzzing p" p scope ENABLE_FUZZING v program "rv_fuzzing v"] fuzz that q(2) by auto
  show "stored_grant v p scope program kind (rv_clock v (kind_value kind))"
    if "(kind_value kind, PDict d) \<in> set (pv_approvals q)" "py_text (py_get d ''state'') = state_value GRANTED"
    using kept_approvals_granted that unfolding q(6) stored_grant_def by blast
  show "pv_dry q \<longleftrightarrow> pv_dry p \<or> scope_downgraded p scope" "pv_tools q = pv_tools p" "pv_limits q = pv_limits p"
    using q by auto
qed

lemma permissions_applied_fields [simp]:
  "ss_active (en_session (permissions_applied p e)) = pv_active p"
  "ss_fuzzing (en_session (permissions_applied p e)) = pv_fuzzing p"
  "dry_run (en_safety (permissions_applied p e)) = pv_dry p"
  "limits (en_safety (permissions_applied p e)) = limits (en_safety e)"
  "s_includes (ss_scope (en_session (permissions_applied p e))) = s_includes (ss_scope (en_session e))"
  "s_excludes (ss_scope (en_session (permissions_applied p e))) = s_excludes (ss_scope (en_session e))"
  by (simp_all add: permissions_applied_def Let_def)

lemma first_occurrences_in: "x \<in> set (first_occurrences xs) \<longleftrightarrow> x \<in> set xs"
  by (simp add: set_first_occurrences)

text \<open>C27. A session that is resumed from stored privileges is bounded by what was stored. Active testing and
  fuzzing are on only when they were stored, for the scope as it is now and under a stored approval that
  is still valid for this scope and program; every approval in force is such a stored approval; the
  scope's rules stay; disabled tools stay disabled, and the session sends nothing exactly when that was
  stored or the scope is not the stored one. Each of the six limits that a snapshot carries is at most
  the current one and at most the stored one. The other limits are not restored: they become the
  defaults of the class, which may be wider than those of a laboratory session, with the methods that
  were allowed before.\<close>

theorem resumed_within_stored:
  assumes "resume_checkpoint v disabled c a = (Inr q, b)" and "stored_privileges c = Inr (Some p)"
  defines "old \<equiv> ag_engine a" and "new \<equiv> ag_engine b"
  defines "stands \<equiv> stored_grant v p (ss_scope (en_session old)) (se_program (ag_session a))"
  shows "(ss_active (en_session new) \<longrightarrow> pv_active p \<and> stands ENABLE_ACTIVE_TESTING (rv_active v)) \<and>
    (ss_fuzzing (en_session new) \<longrightarrow> pv_fuzzing p \<and> stands ENABLE_FUZZING (rv_fuzzing v)) \<and>
    (\<forall>kind now. is_granted (en_approvals new) now kind \<longrightarrow> stands kind (rv_clock v (kind_value kind))) \<and>
    s_includes (ss_scope (en_session new)) = s_includes (ss_scope (en_session old)) \<and>
    s_excludes (ss_scope (en_session new)) = s_excludes (ss_scope (en_session old)) \<and>
    limits_below (limits (en_safety new)) (limits (en_safety old)) \<and>
    limits_as_stored (pv_limits p) (limits (en_safety new)) \<and>
    other_limits_reset (limits (en_safety new)) (limits (en_safety old)) \<and>
    se_disabled (ag_session a) \<union> set (disabled_in (pv_tools p)) \<subseteq> se_disabled (ag_session b) \<and>
    (dry_run (en_safety new) \<longleftrightarrow> pv_dry p \<or> scope_downgraded p (ss_scope (en_session old)))"
proof -
  from assms(1) obtain en where v: "verify_live v disabled c a = Inr q"
    and en: "apply_privileges v q (ag_engine a) = (Inr (), en)"
    and b: "b = on_session (\<lambda>s. s\<lparr>se_disabled := se_disabled s \<union> set (disabled_in (pv_tools q))\<rparr>) (a\<lparr>ag_engine := en\<rparr>)"
    by (auto simp: resume_checkpoint_def split: sum.splits prod.splits)
  from v assms(2) obtain p1 where i: "intersect_privileges v p (ss_scope (en_session old)) (se_program (ag_session a)) = Inr p1"
    and q: "q = p1\<lparr>pv_tools := map (\<lambda>nm. (nm, PBool False)) (sort_texts (\<lambda>x. x) (first_occurrences (disabled @ disabled_in (pv_tools p1)))),
      pv_limits := weaker_limits (pv_limits p1) (limits (en_safety old))\<rparr>"
    by (auto simp: verify_live_def current_privileges_def then_do_Inr Let_def old_def split: option.splits if_splits)
  obtain g where g: "restore_approvals (rv_clock v) (pv_approvals q) (en_approvals (permissions_applied q old)) = (Inr (), g)"
    using en by (auto simp: apply_privileges_def Let_def old_def split: prod.splits sum.splits)
  obtain l where l: "restored_limits (pv_limits q) (limits (en_safety old)) = Inr l"
    and within: "limits_below l (limits (en_safety old))" "limits_as_stored (pv_limits p) l"
      "other_limits_reset l (limits (en_safety old))"
    using weaker_limits_within [of "pv_limits p1" "limits (en_safety old)"] q intersect_grants(6) [OF i] by auto
  have ne: "pv_limits q \<noteq> []" by (simp add: q weaker_limits_def)
  let ?e = "(permissions_applied q old)\<lparr>en_approvals := g\<rparr>"
  have new: "new = ?e\<lparr>en_safety := (en_safety ?e)\<lparr>limits := l\<rparr>\<rparr>"
    using en g l ne b by (simp add: apply_privileges_def Let_def old_def new_def on_session_def)
  note grants = intersect_grants [OF i, folded stands_def]
  have "stands kind (rv_clock v (kind_value kind))" if granted: "is_granted (en_approvals new) now kind" for kind now
  proof -
    obtain r where "map_of g kind = Some r" using granted by (auto simp: new granted_record)
    then obtain d where "(kind_value kind, PDict d) \<in> set (pv_approvals p1)" "py_text (py_get d ''state'') = state_value GRANTED"
      using restored_from [OF g [unfolded restore_approvals_def]] by (auto simp: clear_records_def q)
    then show ?thesis by (rule grants(3))
  qed
  moreover have "set (disabled_in (pv_tools p)) \<subseteq> set (disabled_in (pv_tools q))"
    using grants(5) by (auto simp: q disabled_in_def first_occurrences_in image_iff)
  ultimately show ?thesis
    using grants(1,2,4) within b by (auto simp: new q on_session_def)
qed

text \<open>
  The limits that a snapshot does not carry are reset to the defaults of the class: a laboratory
  session may contact twice as many targets after it was resumed.
\<close>

lemma restoring_limits_widens:
  "restored_limits (captured_limits lab_limits) lab_limits = Inr l \<Longrightarrow>
     max_targets lab_limits < max_targets l \<and> max_response_bytes lab_limits < max_response_bytes l"
  by (auto simp: restored_limits_def captured_limits_def dict_get_def conservative_limits_def lab_limits_def)


definition narrowed_snapshot :: privilege_snapshot where
  "narrowed_snapshot =
     \<lparr>pv_mode = ''lab'', pv_program = [], pv_scope_hash = [], pv_includes = [''example.com''], pv_excludes = [],
      pv_active = True, pv_fuzzing = True, pv_dry = False, pv_tools = [(''ffuf'', PBool False)], pv_limits = [],
      pv_approvals = [], pv_captured = []\<rparr>"

definition narrowed_checkpoint :: checkpoint where
  "narrowed_checkpoint =
     \<lparr>ck_id = ''c1'', ck_label = [], ck_snapshot = [(''privilege'', PDict (privilege_dict narrowed_snapshot))]\<rparr>"

definition still_clock :: restore_env where
  "still_clock = \<lparr>rv_ttl = 24, rv_clock = (\<lambda>k. 0), rv_active = 0, rv_fuzzing = 0, rv_captured = 0\<rparr>"

lemma narrowed_stored: "stored_privileges narrowed_checkpoint = Inr (Some narrowed_snapshot)"
  by (simp add: stored_privileges_def narrowed_checkpoint_def narrowed_snapshot_def privilege_dict_def privilege_from_dict_def
    text_items_def dict_item_def text_values_def py_get_def dict_get_def py_or_def py_str_of_def)

text \<open>A stored snapshot without an address in its scope, resumed in a session whose scope is empty.\<close>

abbreviation resumed_scope :: program_scope where
  "resumed_scope \<equiv> ss_scope (en_session (ag_engine sample_agent))"

lemma resumed_engine:
  "s_includes resumed_scope = []"
  "ss_mode (en_session (ag_engine sample_agent)) = LAB"
  by (simp_all add: sample_agent_def open_lab_def made_def new_engine_def lab_session_def closed_scope_def as_lab_scope_def)

lemma narrowed: "scope_downgraded narrowed_snapshot resumed_scope"
  using resumed_engine(1) by (simp add: scope_downgraded_def narrowed_snapshot_def)

lemma narrowed_cut:
  "\<exists>p1. intersect_privileges still_clock narrowed_snapshot resumed_scope [] = Inr p1 \<and>
     pv_approvals p1 = []"
proof -
  have "pv_approvals narrowed_snapshot = []" by (simp add: narrowed_snapshot_def)
  then show ?thesis using narrowed
    by (simp add: intersect_privileges_def permission_kept_def kept_approvals_def Let_def)
qed

lemma narrowed_resumes: "\<exists>q b. resume_checkpoint still_clock [] narrowed_checkpoint sample_agent = (Inr q, b)"
proof -
  have "checkpoint_refusal narrowed_checkpoint s sample_agent = None" "se_program (ag_session sample_agent) = []" for s
    by (simp_all add: checkpoint_refusal_def narrowed_checkpoint_def sample_agent_def sample_session_def py_get_def
      dict_get_def Let_def)
  then obtain p1 where verified: "verify_live still_clock [] narrowed_checkpoint sample_agent = Inr p1"
    "pv_approvals p1 = []" "\<exists>d. pv_limits p1 = weaker_limits d (limits (en_safety (ag_engine sample_agent)))"
    using narrowed_cut narrowed_stored
    by (fastforce simp: verify_live_def current_privileges_def resumed_engine active_not_granted_def Let_def)
  then obtain d where "pv_limits p1 = weaker_limits d (limits (en_safety (ag_engine sample_agent)))" by blast
  then obtain l where "restored_limits (pv_limits p1) (limits (en_safety (ag_engine sample_agent))) = Inr l"
    using weaker_limits_within [of d "limits (en_safety (ag_engine sample_agent))"] by auto
  then show ?thesis using verified(1,2)
    by (simp add: resume_checkpoint_def apply_privileges_def restore_approvals_def Let_def split: prod.split)
qed

theorem resumed_within_stored_witness:
  "\<exists>q b. resume_checkpoint still_clock [] narrowed_checkpoint sample_agent = (Inr q, b) \<and>
     \<not> ss_fuzzing (en_session (ag_engine b)) \<and> dry_run (en_safety (ag_engine b)) \<and> ''ffuf'' \<in> se_disabled (ag_session b)"
proof -
  obtain q b where run: "resume_checkpoint still_clock [] narrowed_checkpoint sample_agent = (Inr q, b)"
    using narrowed_resumes by blast
  have "\<not> stored_grant still_clock narrowed_snapshot resumed_scope pr k n" for pr k n
    using narrowed by (simp add: stored_grant_def)
  moreover have "disabled_in (pv_tools narrowed_snapshot) = [''ffuf'']"
    by (simp add: narrowed_snapshot_def disabled_in_def)
  ultimately show ?thesis
    using resumed_within_stored [OF run narrowed_stored] narrowed run by auto
qed

end
