(* ===== verification/Projects.thy ===== *)
theory Projects
  imports PyVal
begin

text \<open>
  The life of a research project, \<open>security_agent/project.py\<close>, and the notes a project keeps about an
  application: API workflows (\<open>state_machine.py\<close>), attack paths (\<open>attack_path.py\<close>), execution paths
  (\<open>path_correlation.py\<close>) and business logic (\<open>business_logic.py\<close>).
\<close>

section \<open>Projects\<close>

datatype project_state =
    PJ_CREATE | PJ_CONFIGURE | PJ_SCOPE_SYNCED | PJ_READY | PJ_RESEARCHING | PJ_PAUSED | PJ_FINDINGS | PJ_REVIEW
  | PJ_HANDOFF | PJ_COMPLETE

fun project_state_value :: "project_state \<Rightarrow> string" where
  "project_state_value PJ_CREATE = ''create''"
| "project_state_value PJ_CONFIGURE = ''configure''"
| "project_state_value PJ_SCOPE_SYNCED = ''scope_synced''"
| "project_state_value PJ_READY = ''ready''"
| "project_state_value PJ_RESEARCHING = ''researching''"
| "project_state_value PJ_PAUSED = ''paused''"
| "project_state_value PJ_FINDINGS = ''findings''"
| "project_state_value PJ_REVIEW = ''review''"
| "project_state_value PJ_HANDOFF = ''handoff''"
| "project_state_value PJ_COMPLETE = ''complete''"

definition project_states :: "project_state list" where
  "project_states =
     [PJ_CREATE, PJ_CONFIGURE, PJ_SCOPE_SYNCED, PJ_READY, PJ_RESEARCHING, PJ_PAUSED, PJ_FINDINGS, PJ_REVIEW, PJ_HANDOFF,
      PJ_COMPLETE]"

fun next_states :: "project_state \<Rightarrow> project_state list" where
  "next_states PJ_CREATE = [PJ_CONFIGURE]"
| "next_states PJ_CONFIGURE = [PJ_SCOPE_SYNCED, PJ_READY]"
| "next_states PJ_SCOPE_SYNCED = [PJ_READY]"
| "next_states PJ_READY = [PJ_RESEARCHING, PJ_PAUSED]"
| "next_states PJ_RESEARCHING = [PJ_PAUSED, PJ_FINDINGS, PJ_REVIEW, PJ_COMPLETE]"
| "next_states PJ_PAUSED = [PJ_RESEARCHING, PJ_COMPLETE]"
| "next_states PJ_FINDINGS = [PJ_REVIEW, PJ_RESEARCHING]"
| "next_states PJ_REVIEW = [PJ_HANDOFF, PJ_COMPLETE, PJ_FINDINGS]"
| "next_states PJ_HANDOFF = [PJ_COMPLETE, PJ_REVIEW]"
| "next_states PJ_COMPLETE = []"

record research_project =
  pj_name :: string
  pj_project :: string
  pj_target :: string
  pj_mode :: string
  pj_program :: string
  pj_session :: string
  pj_strategy :: string
  pj_operator :: string
  pj_state :: project_state
  pj_id :: string
  pj_created :: instant
  pj_updated :: instant

definition new_project :: "string \<Rightarrow> string \<Rightarrow> string \<Rightarrow> string \<Rightarrow> instant \<Rightarrow> research_project" where
  "new_project name project target uid now =
     \<lparr>pj_name = name, pj_project = project, pj_target = target, pj_mode = ''lab'', pj_program = [], pj_session = [],
      pj_strategy = ''passive_recon'', pj_operator = [], pj_state = PJ_CREATE, pj_id = uid, pj_created = now, pj_updated = now\<rparr>"

definition move_project :: "project_state \<Rightarrow> instant \<Rightarrow> research_project \<Rightarrow> unit result \<times> research_project" where
  "move_project dest now p =
     (if dest \<notin> set (next_states (pj_state p)) then
        (Inl (RestrictedActivityError (''invalid_project_transition:'' @ project_state_value (pj_state p) @ ''->'' @
           project_state_value dest)), p)
      else (Inr (), p\<lparr>pj_state := dest, pj_updated := now\<rparr>))"

definition project_snapshot :: "research_project \<Rightarrow> pydict" where
  "project_snapshot p =
     [(''id'', PStr (pj_id p)), (''name'', PStr (pj_name p)), (''project_id'', PStr (pj_project p)),
      (''session_id'', PStr (pj_session p)), (''target'', PStr (pj_target p)), (''mode'', PStr (pj_mode p)),
      (''program_handle'', PStr (pj_program p)), (''strategy'', PStr (pj_strategy p)),
      (''state'', PStr (project_state_value (pj_state p))), (''operator_identity'', PStr (pj_operator p)),
      (''created_at'', PStr (isoformat (pj_created p))), (''updated_at'', PStr (isoformat (pj_updated p)))]"

text \<open>A row of the database; its text columns may be null.\<close>

record project_row =
  pr_key :: string
  pr_name :: "string option"
  pr_project :: "string option"
  pr_target :: "string option"
  pr_mode :: "string option"
  pr_program :: "string option"
  pr_session :: "string option"
  pr_strategy :: "string option"
  pr_operator :: "string option"
  pr_state :: "string option"
  pr_created :: instant
  pr_updated :: instant

definition text_or :: "string option \<Rightarrow> string \<Rightarrow> string" where
  "text_or t d = (case t of None \<Rightarrow> d | Some s \<Rightarrow> if s = [] then d else s)"

definition project_from_row :: "project_row \<Rightarrow> research_project" where
  "project_from_row r =
     \<lparr>pj_name = text_or (pr_name r) [], pj_project = text_or (pr_project r) [], pj_target = text_or (pr_target r) [],
      pj_mode = text_or (pr_mode r) ''lab'', pj_program = text_or (pr_program r) [], pj_session = text_or (pr_session r) [],
      pj_strategy = text_or (pr_strategy r) ''passive_recon'', pj_operator = text_or (pr_operator r) [],
      pj_state = (case List.find (\<lambda>s. project_state_value s = text_or (pr_state r) ''create'') project_states of
                    None \<Rightarrow> PJ_CREATE | Some s \<Rightarrow> s),
      pj_id = pr_key r, pj_created = pr_created r, pj_updated = pr_updated r\<rparr>"

section \<open>Workflows, attack paths, execution paths\<close>

record workflow_transition =
  wt_source :: string
  wt_destination :: string
  wt_method :: string
  wt_url :: string
  wt_status :: "int option"
  wt_legal :: bool
  wt_evidence :: string

record api_machine =
  am_states :: "(string \<times> string) list"
  am_transitions :: "workflow_transition list"

definition add_state :: "string \<Rightarrow> string \<Rightarrow> api_machine \<Rightarrow> api_machine" where
  "add_state name ident m = m\<lparr>am_states := am_states m @ [(name, ident)]\<rparr>"

definition add_transition :: "workflow_transition \<Rightarrow> api_machine \<Rightarrow> api_machine" where
  "add_transition t m = m\<lparr>am_transitions := am_transitions m @ [t]\<rparr>"

definition suspicious :: "api_machine \<Rightarrow> workflow_transition list" where
  "suspicious m = filter (\<lambda>t. \<not> wt_legal t) (am_transitions m)"

definition transition_dict :: "workflow_transition \<Rightarrow> pydict" where
  "transition_dict t =
     [(''from'', PStr (wt_source t)), (''to'', PStr (wt_destination t)), (''method'', PStr (wt_method t)),
      (''url'', PStr (wt_url t)), (''status'', (case wt_status t of None \<Rightarrow> PNone | Some i \<Rightarrow> PInt i)),
      (''legal'', PBool (wt_legal t)), (''evidence_id'', PStr (wt_evidence t))]"

definition machine_snapshot :: "api_machine \<Rightarrow> pydict" where
  "machine_snapshot m =
     [(''states'', PList (map (PStr \<circ> fst) (am_states m))),
      (''transitions'', PList (map (PDict \<circ> transition_dict) (am_transitions m)))]"

record flow_node =
  fn_kind :: string
  fn_name :: string
  fn_detail :: string

record attack_graph =
  at_nodes :: "flow_node list"
  at_edges :: "(nat \<times> nat) list"

text \<open>The loop of \<open>add_path\<close>, with the index and the length the list had before.\<close>

fun add_names :: "nat \<Rightarrow> nat \<Rightarrow> string list \<Rightarrow> string list \<Rightarrow> attack_graph \<Rightarrow> attack_graph" where
  "add_names start i kinds [] g = g"
| "add_names start i kinds (name # names) g =
     add_names start (Suc i) kinds names
       (g\<lparr>at_nodes := at_nodes g @ [\<lparr>fn_kind = (if i < length kinds then kinds ! i else ''step''), fn_name = name, fn_detail = []\<rparr>],
          at_edges := (if i = 0 then at_edges g else at_edges g @ [(start + i - 1, start + i)])\<rparr>)"

definition add_path :: "string list \<Rightarrow> string list option \<Rightarrow> attack_graph \<Rightarrow> attack_graph" where
  "add_path names kinds g =
     add_names (length (at_nodes g)) 0 (case kinds of None \<Rightarrow> [] | Some ks \<Rightarrow> ks) names g"

definition attack_snapshot :: "attack_graph \<Rightarrow> pydict" where
  "attack_snapshot g =
     [(''nodes'', PList (map (\<lambda>n. PDict [(''kind'', PStr (fn_kind n)), (''name'', PStr (fn_name n)),
         (''detail'', PStr (fn_detail n))]) (at_nodes g))),
      (''edges'', PList (map (\<lambda>(s, d). PDict [(''from'', PInt (int s)), (''to'', PInt (int d))]) (at_edges g))),
      (''not_an_exploit'', PBool True)]"

record execution_path =
  xp_action :: string
  xp_request :: string
  xp_endpoint :: string
  xp_symbol :: string
  xp_path :: string
  xp_evidence :: "string list"

definition path_snapshot :: "execution_path \<Rightarrow> pydict" where
  "path_snapshot x =
     [(''ui_action'', PStr (xp_action x)), (''request_id'', PStr (xp_request x)), (''endpoint'', PStr (xp_endpoint x)),
      (''source_symbol'', PStr (xp_symbol x)), (''source_path'', PStr (xp_path x)),
      (''evidence_ids'', PList (map PStr (xp_evidence x)))]"

definition correlate_client_server ::
    "string \<Rightarrow> pydict option \<Rightarrow> string \<Rightarrow> string \<Rightarrow> string \<Rightarrow> string list \<Rightarrow> execution_path" where
  "correlate_client_server action request spec symbol path ids =
     (let d = (case request of None \<Rightarrow> [] | Some d \<Rightarrow> d) in
      \<lparr>xp_action = action, xp_request = py_text (py_or (py_get d ''id'') (py_get d ''exchange_id'')),
       xp_endpoint = or_text spec (py_text (py_get d ''url'')), xp_symbol = symbol, xp_path = path, xp_evidence = ids\<rparr>)"

definition correlate_source_runtime :: "string \<Rightarrow> string \<Rightarrow> string \<Rightarrow> pydict option \<Rightarrow> string list \<Rightarrow> execution_path" where
  "correlate_source_runtime symbol path target exchange ids = correlate_client_server [] exchange target symbol path ids"

datatype business_indicator =
    SEQUENCE_DEPENDENCE | INCONSISTENT_STATE | REPLAY_BEHAVIOR | PRIVILEGE_TRANSITION | DUPLICATE_OPERATION
  | MISSING_PREREQUISITE | STATE_INCONSISTENCY

fun indicator_value :: "business_indicator \<Rightarrow> string" where
  "indicator_value SEQUENCE_DEPENDENCE = ''sequence_dependence''"
| "indicator_value INCONSISTENT_STATE = ''inconsistent_state_transition''"
| "indicator_value REPLAY_BEHAVIOR = ''replay_behavior''"
| "indicator_value PRIVILEGE_TRANSITION = ''unexpected_privilege_transition''"
| "indicator_value DUPLICATE_OPERATION = ''duplicate_operation''"
| "indicator_value MISSING_PREREQUISITE = ''missing_prerequisite''"
| "indicator_value STATE_INCONSISTENCY = ''state_inconsistency''"

record business_hypothesis =
  bh_indicator :: business_indicator
  bh_expectation :: string
  bh_observation :: string
  bh_evidence :: "string list"
  bh_vulnerability :: bool

definition business_snapshot :: "business_hypothesis \<Rightarrow> pydict" where
  "business_snapshot h =
     [(''indicator'', PStr (indicator_value (bh_indicator h))), (''expectation'', PStr (bh_expectation h)),
      (''observation'', PStr (bh_observation h)), (''evidence_ids'', PList (map PStr (bh_evidence h))),
      (''is_vulnerability'', PBool False)]"

definition hypothesize :: "business_indicator \<Rightarrow> string \<Rightarrow> string \<Rightarrow> string list \<Rightarrow> business_hypothesis result" where
  "hypothesize i expectation observation ids =
     (if py_strip expectation = [] then Inl (ValueError ''A defined security expectation is required'')
      else Inr \<lparr>bh_indicator = i, bh_expectation = expectation, bh_observation = observation, bh_evidence = ids,
                bh_vulnerability = False\<rparr>)"

section \<open>Runs of a project\<close>

text \<open>The states a project was in, the last first.\<close>

fun project_step :: "research_project \<times> project_state list \<Rightarrow> project_state \<times> instant \<Rightarrow> research_project \<times> project_state list" where
  "project_step (p, seen) (dest, now) =
     (let q = snd (move_project dest now p) in (q, if pj_state q = pj_state p then seen else pj_state q # seen))"

text \<open>What a project went through to be in a state.\<close>

fun gone_through :: "project_state \<Rightarrow> project_state list" where
  "gone_through PJ_CREATE = []"
| "gone_through PJ_CONFIGURE = [PJ_CREATE]"
| "gone_through PJ_SCOPE_SYNCED = [PJ_CONFIGURE, PJ_CREATE]"
| "gone_through PJ_READY = [PJ_CONFIGURE, PJ_CREATE]"
| "gone_through PJ_RESEARCHING = [PJ_READY, PJ_CONFIGURE, PJ_CREATE]"
| "gone_through PJ_PAUSED = [PJ_READY, PJ_CONFIGURE, PJ_CREATE]"
| "gone_through PJ_FINDINGS = [PJ_RESEARCHING, PJ_READY, PJ_CONFIGURE, PJ_CREATE]"
| "gone_through PJ_REVIEW = [PJ_RESEARCHING, PJ_READY, PJ_CONFIGURE, PJ_CREATE]"
| "gone_through PJ_HANDOFF = [PJ_REVIEW, PJ_RESEARCHING, PJ_READY, PJ_CONFIGURE, PJ_CREATE]"
| "gone_through PJ_COMPLETE = [PJ_READY, PJ_CONFIGURE, PJ_CREATE]"

definition project_ok :: "research_project \<times> project_state list \<Rightarrow> bool" where
  "project_ok x \<longleftrightarrow> insert (pj_state (fst x)) (set (gone_through (pj_state (fst x)))) \<subseteq> set (snd x) \<and>
     (\<forall>s\<in>set (snd x). set (gone_through s) \<subseteq> set (snd x))"

lemma next_gone_through: "t \<in> set (next_states s) \<Longrightarrow> set (gone_through t) \<subseteq> insert s (set (gone_through s))"
  by (cases s) auto

lemma project_step_ok: "project_ok x \<Longrightarrow> project_ok (project_step x op)"
proof (cases x; cases op)
  fix p seen dest now
  assume "project_ok x" and x: "x = (p, seen)" and op: "op = (dest, now)"
  then have ok: "pj_state p \<in> set seen" "set (gone_through (pj_state p)) \<subseteq> set seen"
    "\<forall>s\<in>set seen. set (gone_through s) \<subseteq> set seen"
    by (auto simp: project_ok_def)
  show "project_ok (project_step x op)"
  proof (cases "dest \<in> set (next_states (pj_state p))")
    case True
    then show ?thesis using ok next_gone_through [OF True] x op
      by (fastforce simp: project_ok_def move_project_def Let_def)
  next
    case False
    then show ?thesis using ok x op by (auto simp: project_ok_def move_project_def Let_def)
  qed
qed

interpretation living: machine "\<lambda>x. pj_state (fst x) = PJ_CREATE \<and> snd x = [PJ_CREATE]" project_step project_ok
proof unfold_locales
  show "project_ok x \<Longrightarrow> True \<Longrightarrow> project_ok (project_step x op)" for x op by (rule project_step_ok)
qed (auto simp: project_ok_def)

text \<open>However transitions are attempted, a project that is handed off was reviewed, researched, ready
  and configured before, a project under research was ready, and a complete project stays complete.\<close>

theorem projects_go_through:
  assumes "pj_state p = PJ_CREATE"
  shows "set (gone_through (pj_state (fst (run_ops project_step (p, [PJ_CREATE]) ops))))
           \<subseteq> set (snd (run_ops project_step (p, [PJ_CREATE]) ops)) \<and>
         (pj_state (fst (run_ops project_step (p, [PJ_CREATE]) ops)) = PJ_COMPLETE \<longrightarrow>
            fst (run_ops project_step (run_ops project_step (p, [PJ_CREATE]) ops) later) =
            fst (run_ops project_step (p, [PJ_CREATE]) ops))"
proof -
  have stays: "pj_state (fst y) = PJ_COMPLETE \<Longrightarrow> fst (run_ops project_step y later) = fst y" for y
  proof (induction later arbitrary: y)
    case (Cons op later)
    have "fst (project_step y op) = fst y"
      using Cons.prems by (cases y; cases op) (simp add: move_project_def Let_def)
    then show ?case using Cons by simp
  qed simp
  have "project_ok (run_ops project_step (p, [PJ_CREATE]) ops)"
    using living.run_always [of "(p, [PJ_CREATE])" ops] assms by simp
  then show ?thesis using stays by (simp add: project_ok_def)
qed

theorem projects_go_through_witness:
  "PJ_REVIEW \<in> set (snd (run_ops project_step (new_project ''n'' ''p'' ''t'' ''i'' 0, [PJ_CREATE])
     [(PJ_CONFIGURE, 1), (PJ_READY, 2), (PJ_HANDOFF, 3), (PJ_RESEARCHING, 4), (PJ_REVIEW, 5), (PJ_HANDOFF, 6)]))"
proof -
  let ?ops = "[(PJ_CONFIGURE, 1), (PJ_READY, 2), (PJ_HANDOFF, 3), (PJ_RESEARCHING, 4), (PJ_REVIEW, 5), (PJ_HANDOFF, 6)]"
  let ?p = "new_project ''n'' ''p'' ''t'' ''i'' 0"
  have "pj_state (fst (run_ops project_step (?p, [PJ_CREATE]) ?ops)) = PJ_HANDOFF"
    by (simp add: new_project_def move_project_def Let_def)
  then show ?thesis using projects_go_through [of ?p ?ops "[]"] by (simp add: new_project_def)
qed

section \<open>Attack paths\<close>

definition attack_ok :: "attack_graph \<Rightarrow> bool" where
  "attack_ok g \<longleftrightarrow> list_all (\<lambda>(s, d). d = Suc s \<and> d < length (at_nodes g)) (at_edges g)"

lemma add_names_ok:
  "attack_ok g \<Longrightarrow> length (at_nodes g) = start + i \<Longrightarrow> attack_ok (add_names start i kinds names g)"
proof (induction start i kinds names g rule: add_names.induct)
  case (2 start i kinds name names g)
  show ?case
    by (subst add_names.simps, rule 2(1))
       (use 2(2,3) in \<open>auto simp: attack_ok_def list_all_iff less_Suc_eq\<close>)
qed simp

lemma add_path_ok: "attack_ok g \<Longrightarrow> attack_ok (add_path names kinds g)"
  by (simp add: add_path_def add_names_ok)

end
