(* ===== verification/Identities.thy ===== *)
theory Identities
  imports Memory Json
begin

text \<open>
  \<open>security_agent/identities.py\<close>: research identities whose credentials live in the store of secrets, and
  the comparison of what two of them receive, \<open>authorization_diff.py\<close>.
\<close>

section \<open>Identities\<close>

record research_identity =
  id_label :: string
  id_id :: string
  id_credential :: string
  id_browser :: string
  id_http :: string
  id_namespace :: string
  id_auth_state :: string
  id_provenance :: string
  id_header_names :: "string list"
  id_header_refs :: "(string, string) dict"
  id_cookie_names :: "string list"
  id_cookie_ref :: string
  id_storage_keys :: "string list"
  id_storage_ref :: string
  id_cookies :: "(string, string) dict"
  id_storage :: "(string, string) dict"
  id_headers :: "(string, string) dict"

definition new_identity :: "string \<Rightarrow> string \<Rightarrow> research_identity" where
  "new_identity label uid =
     \<lparr>id_label = label, id_id = uid, id_credential = [], id_browser = [], id_http = [], id_namespace = [],
      id_auth_state = ''unauthenticated'', id_provenance = ''none'', id_header_names = [], id_header_refs = [],
      id_cookie_names = [], id_cookie_ref = [], id_storage_keys = [], id_storage_ref = [], id_cookies = [],
      id_storage = [], id_headers = []\<rparr>"

definition sorted_texts :: "string list \<Rightarrow> string list" where
  "sorted_texts xs = sort_texts (\<lambda>x. x) (first_occurrences xs)"

definition operator_provided :: "research_identity \<Rightarrow> research_identity" where
  "operator_provided i =
     i\<lparr>id_auth_state := ''authenticated'',
       id_provenance := (if id_provenance i = ''none'' then ''operator_provided'' else id_provenance i)\<rparr>"

text \<open>\<open>__post_init__\<close>.\<close>

definition identity_init :: "research_identity \<Rightarrow> research_identity" where
  "identity_init i =
     (let j = i\<lparr>id_browser := or_text (id_browser i) (''browser:'' @ id_id i),
                id_http := or_text (id_http i) (''http:'' @ id_id i),
                id_namespace := or_text (id_namespace i) (''storage:'' @ id_id i),
                id_cookie_names := (if id_cookies i \<noteq> [] \<and> id_cookie_names i = [] then sorted_texts (map fst (id_cookies i))
                                    else id_cookie_names i),
                id_header_names := (if id_headers i \<noteq> [] \<and> id_header_names i = [] then sorted_texts (map fst (id_headers i))
                                    else id_header_names i),
                id_storage_keys := (if id_storage i \<noteq> [] \<and> id_storage_keys i = [] then sorted_texts (map fst (id_storage i))
                                    else id_storage_keys i)\<rparr>
      in if (id_cookies i \<noteq> [] \<or> id_headers i \<noteq> []) \<and> id_auth_state i = ''unauthenticated'' then operator_provided j else j)"

definition isolation_tuple :: "research_identity \<Rightarrow> string list" where
  "isolation_tuple i =
     [id_id i, or_text (id_credential i) (''cred:'' @ id_id i), id_browser i, id_http i, id_namespace i]"

definition text_dict :: "(string, string) dict \<Rightarrow> pyval" where
  "text_dict d = PDict (map (\<lambda>(k, v). (k, PStr v)) d)"

text \<open>The new references are an argument: one for the cookies, one for the storage, one for each header.\<close>

record ref_env =
  rf_cookies :: string
  rf_storage :: string
  rf_headers :: "string \<Rightarrow> string"

fun ingest_headers ::
    "ref_env \<Rightarrow> (string, string) dict \<Rightarrow> (string, string) dict \<Rightarrow> pyval secret_store \<Rightarrow> (string, string) dict \<times> pyval secret_store" where
  "ingest_headers v [] refs st = (refs, st)"
| "ingest_headers v ((name, value) # hs) refs st =
     (if is_secret_header name \<or> value \<noteq> [] then
        (let (ref, st1) = put_secret (rf_headers v name) (PStr value) st
         in ingest_headers v hs (dict_set name ref refs) st1)
      else ingest_headers v hs refs st)"

definition ingest_cookies :: "ref_env \<Rightarrow> research_identity \<Rightarrow> pyval secret_store \<Rightarrow> research_identity \<times> pyval secret_store" where
  "ingest_cookies v i st =
     (if id_cookies i = [] then (i, st)
      else let (ref, st1) = put_secret (rf_cookies v) (text_dict (id_cookies i)) st in
        (i\<lparr>id_cookie_ref := ref, id_cookie_names := sorted_texts (map fst (id_cookies i)),
           id_credential := or_text (id_credential i) ref\<rparr>, st1))"

definition ingest_storage :: "ref_env \<Rightarrow> research_identity \<Rightarrow> pyval secret_store \<Rightarrow> research_identity \<times> pyval secret_store" where
  "ingest_storage v i st =
     (if id_storage i = [] then (i, st)
      else let (ref, st1) = put_secret (rf_storage v) (text_dict (id_storage i)) st in
        (i\<lparr>id_storage_ref := ref, id_storage_keys := sorted_texts (map fst (id_storage i))\<rparr>, st1))"

definition ingest_secrets :: "ref_env \<Rightarrow> research_identity \<Rightarrow> pyval secret_store \<Rightarrow> research_identity \<times> pyval secret_store" where
  "ingest_secrets v i0 st0 =
     (let (i1, st1) = ingest_cookies v i0 st0; (i2, st2) = ingest_storage v i1 st1;
          (refs, st3) = ingest_headers v (id_headers i2) (id_header_refs i2) st2;
          i3 = i2\<lparr>id_header_refs := refs,
                  id_header_names := sorted_texts (id_header_names i2 @ map fst (id_headers i2))\<rparr>
      in (if id_headers i3 \<noteq> [] \<or> id_cookies i3 \<noteq> [] then operator_provided i3 else i3, st3))"

definition unavailable_credentials :: "'a result" where
  "unavailable_credentials = Inl (RestrictedActivityError ''identity_credentials_unavailable'')"

fun restore_named :: "(string, string) dict \<Rightarrow> pyval secret_store \<Rightarrow> string list \<Rightarrow> (string, string) dict \<Rightarrow> (string, string) dict result" where
  "restore_named refs st [] acc = Inr acc"
| "restore_named refs st (name # names) acc =
     (if dict_get refs name [] = [] then
        (if is_secret_header name then unavailable_credentials else restore_named refs st names acc)
      else case get_secret (dict_get refs name []) st of
        None \<Rightarrow> unavailable_credentials
      | Some v \<Rightarrow> if v = PNone then unavailable_credentials
                   else restore_named refs st names (dict_set name (py_str_of v) acc))"

definition restore_headers :: "pyval secret_store option \<Rightarrow> research_identity \<Rightarrow> (string, string) dict result" where
  "restore_headers st i =
     (if id_headers i \<noteq> [] then Inr (id_headers i)
      else case st of
        None \<Rightarrow> if list_ex is_secret_header (id_header_names i) \<or> id_header_refs i \<noteq> [] then unavailable_credentials
                 else Inr []
      | Some s \<Rightarrow> restore_named (id_header_refs i) s (id_header_names i) [])"

definition restore_cookies :: "pyval secret_store option \<Rightarrow> research_identity \<Rightarrow> (string, string) dict result" where
  "restore_cookies st i =
     (if id_cookies i \<noteq> [] then Inr (id_cookies i)
      else if id_cookie_ref i = [] \<and> id_cookie_names i = [] then Inr []
      else case st of
        None \<Rightarrow> unavailable_credentials
      | Some s \<Rightarrow>
          if \<not> secret_available (id_cookie_ref i) s then unavailable_credentials
          else (case get_secret (id_cookie_ref i) s of
                  Some (PDict d) \<Rightarrow> Inr (map (\<lambda>(k, v). (k, py_str_of v)) d)
                | _ \<Rightarrow> Inr []))"

definition credential_availability :: "pyval secret_store option \<Rightarrow> research_identity \<Rightarrow> string" where
  "credential_availability st i =
     (if id_headers i \<noteq> [] \<or> id_cookies i \<noteq> [] then ''in_memory''
      else case st of
        None \<Rightarrow> ''unavailable''
      | Some s \<Rightarrow>
          (let needed = filter (\<lambda>r. r \<noteq> []) [id_cookie_ref i, id_storage_ref i] @ map snd (id_header_refs i) in
           if needed = [] then ''none''
           else if list_all (\<lambda>r. secret_available r s) needed then ''secret_store'' else ''unavailable''))"

definition identity_snapshot :: "research_identity \<Rightarrow> pydict" where
  "identity_snapshot i =
     [(''id'', PStr (id_id i)), (''label'', PStr (id_label i)), (''credential_ref'', PStr (id_credential i)),
      (''browser_context_id'', PStr (id_browser i)), (''http_session_id'', PStr (id_http i)),
      (''storage_namespace'', PStr (id_namespace i)), (''authentication_state'', PStr (id_auth_state i)),
      (''credential_provenance'', PStr (id_provenance i)), (''header_names'', PList (map PStr (id_header_names i))),
      (''header_secret_refs'', text_dict (id_header_refs i)), (''cookie_names'', PList (map PStr (id_cookie_names i))),
      (''cookie_secret_ref'', PStr (id_cookie_ref i)), (''storage_keys'', PList (map PStr (id_storage_keys i))),
      (''storage_secret_ref'', PStr (id_storage_ref i)),
      (''credential_availability'', PStr (credential_availability None i))]"

record identity_pair =
  ip_a :: research_identity
  ip_b :: research_identity
  ip_history :: "pydict list"

definition isolated :: "identity_pair \<Rightarrow> bool" where
  "isolated p = (isolation_tuple (ip_a p) \<noteq> isolation_tuple (ip_b p))"

definition pair_snapshot :: "identity_pair \<Rightarrow> pydict" where
  "pair_snapshot p =
     [(''a'', PDict (identity_snapshot (ip_a p))), (''b'', PDict (identity_snapshot (ip_b p))),
      (''isolated'', PBool (isolated p)), (''comparison_history'', PList (map PDict (ip_history p)))]"

section \<open>Normal forms of responses\<close>

datatype authorization_oracle =
    OWNER_ONLY | ROLE_REQUIRED | TENANT_ISOLATION | AUTHENTICATED_USER_ONLY | PUBLIC_RESOURCE | CUSTOM_EXPECTATION

fun oracle_value :: "authorization_oracle \<Rightarrow> string" where
  "oracle_value OWNER_ONLY = ''owner_only''"
| "oracle_value ROLE_REQUIRED = ''role_required''"
| "oracle_value TENANT_ISOLATION = ''tenant_isolation''"
| "oracle_value AUTHENTICATED_USER_ONLY = ''authenticated_user_only''"
| "oracle_value PUBLIC_RESOURCE = ''public_resource''"
| "oracle_value CUSTOM_EXPECTATION = ''custom_expectation''"

definition oracles :: "authorization_oracle list" where
  "oracles = [OWNER_ONLY, ROLE_REQUIRED, TENANT_ISOLATION, AUTHENTICATED_USER_ONLY, PUBLIC_RESOURCE, CUSTOM_EXPECTATION]"

definition dynamic_fragments :: "string list" where
  "dynamic_fragments =
     [''timestamp'', ''created_at'', ''updated_at'', ''date'', ''time'', ''request_id'', ''requestid'', ''trace_id'',
      ''traceid'', ''span_id'', ''correlation'', ''csrf'', ''nonce'', ''uuid'', ''rand'', ''random'', ''token'']"

definition sensitive_fields :: "string list" where
  "sensitive_fields =
     [''password'', ''secret'', ''token'', ''ssn'', ''email'', ''credit_card'', ''authorization'', ''api_key'', ''session'']"

fun times :: "nat \<Rightarrow> string \<Rightarrow> rx" where
  "times n cs = seqs (replicate n (Cls True cs))"

definition offset_rx :: rx where
  "offset_rx = Alt (Lit ''Z'') (seqs [Cls True ''+-'', times 2 digit_chars, Lit '':'', times 2 digit_chars])"

definition iso_rx :: rx where
  "iso_rx = seqs
     [times 4 digit_chars, Lit ''-'', times 2 digit_chars, Lit ''-'', times 2 digit_chars, Lit ''T'', times 2 digit_chars,
      Lit '':'', times 2 digit_chars, Lit '':'', times 2 digit_chars, Maybe (Seq (Lit ''.'') (Many 1 True digit_chars)),
      Maybe offset_rx]"

definition word_class :: string where "word_class = alnum @ ''_''"

definition uuid_rx :: rx where
  "uuid_rx = seqs
     [Not_before word_class, times 8 hex_class, Lit ''-'', times 4 hex_class, Lit ''-'', times 4 hex_class, Lit ''-'',
      times 4 hex_class, Lit ''-'', times 12 hex_class, Not_after word_class]"

definition plain_text :: "string \<Rightarrow> string" where
  "plain_text s = rx_sub uuid_rx ''<id>'' None (rx_sub iso_rx ''<ts>'' None s)"

definition is_dynamic_key :: "string \<Rightarrow> bool" where
  "is_dynamic_key k = list_ex (py_contains (py_replace_char CHR ''-'' CHR ''_'' (py_lower k))) dynamic_fragments"

fun strip_dynamic :: "pyval \<Rightarrow> pyval" where
  "strip_dynamic (PDict d) = PDict (map (\<lambda>(k, v). (k, strip_dynamic v)) (filter (\<lambda>(k, v). \<not> is_dynamic_key k) d))"
| "strip_dynamic (PList xs) = PList (map strip_dynamic xs)"
| "strip_dynamic (PStr s) = PStr (plain_text s)"
| "strip_dynamic v = v"

fun pyval_of_json :: "json \<Rightarrow> pyval" where
  "pyval_of_json (JStr s) = PStr s"
| "pyval_of_json (JInt i) = PInt i"
| "pyval_of_json (JNum n) = (case float_of_text n of None \<Rightarrow> PStr n | Some x \<Rightarrow> PFloat x)"
| "pyval_of_json (JBool b) = PBool b"
| "pyval_of_json JNull = PNone"
| "pyval_of_json (JList xs) = PList (map pyval_of_json xs)"
| "pyval_of_json (JObj ps) = PDict (map (\<lambda>(k, v). (k, pyval_of_json v)) ps)"

text \<open>\<open>(exchange.get("response") or {}).get(k)\<close>.\<close>

definition response_item :: "pydict \<Rightarrow> string \<Rightarrow> pyval result" where
  "response_item x k =
     (case py_or (py_get x ''response'') (PDict []) of
        PDict d \<Rightarrow> Inr (py_get d k)
      | _ \<Rightarrow> Inl (AttributeError ''object has no attribute get''))"

definition exchange_status :: "pydict \<Rightarrow> int option result" where
  "exchange_status x =
     then_do (if py_true (py_get x ''status'') then Inr (py_get x ''status'') else response_item x ''status'') (\<lambda>raw.
       Inr (if raw = PNone then None else case py_int_of raw of Inl e \<Rightarrow> None | Inr i \<Rightarrow> Some i))"

definition parsed_body :: "string \<Rightarrow> pyval" where
  "parsed_body t = (case json_loads t of Inl e \<Rightarrow> PStr (plain_text t) | Inr j \<Rightarrow> strip_dynamic (pyval_of_json j))"

definition normalized_body :: "pydict \<Rightarrow> pyval result" where
  "normalized_body x =
     then_do (response_item x ''body'') (\<lambda>b.
       (let raw = (if b = PNone then py_get x ''body'' else b) in
        Inr (case raw of PDict d \<Rightarrow> strip_dynamic raw | PList xs \<Rightarrow> strip_dynamic raw | _ \<Rightarrow> parsed_body (py_text raw))))"

text \<open>\<open>_structure\<close>: the keys, sorted, and the names of the types.\<close>

fun shape :: "pyval \<Rightarrow> pyval" where
  "shape (PDict d) = PDict (sort_texts fst (map (\<lambda>(k, v). (k, shape v)) d))"
| "shape (PList xs) = PList (case map shape xs of [] \<Rightarrow> [] | x # _ \<Rightarrow> [x])"
| "shape PNone = PStr ''NoneType''"
| "shape (PBool b) = PStr ''bool''"
| "shape (PInt i) = PStr ''int''"
| "shape (PFloat x) = PStr ''float''"
| "shape (PStr s) = PStr ''str''"

definition body_field :: "pyval \<Rightarrow> string \<Rightarrow> pyval" where
  "body_field v name = (case v of PDict d \<Rightarrow> py_get d name | _ \<Rightarrow> PNone)"

definition vacant :: "pyval \<Rightarrow> bool" where
  "vacant v = (v \<in> set [PNone, PStr [], PList [], PDict []])"

fun sensitive_keys :: "pyval \<Rightarrow> string list" where
  "sensitive_keys (PDict d) = concat (map (\<lambda>(k, v).
     (if list_ex (py_contains (py_lower k)) sensitive_fields \<and> \<not> vacant v then [k] else []) @ sensitive_keys v) d)"
| "sensitive_keys (PList xs) = concat (map sensitive_keys xs)"
| "sensitive_keys v = []"

definition sensitive_exposure :: "pyval \<Rightarrow> pyval \<Rightarrow> authorization_oracle \<Rightarrow> string" where
  "sensitive_exposure a b orc =
     (let only = (\<lambda>x y. sorted_texts (filter (\<lambda>k. k \<notin> set (sensitive_keys y)) (sensitive_keys x))) in
      if orc = PUBLIC_RESOURCE then []
      else if only b a \<noteq> [] then ''sensitive fields exposed to identity B: '' @ py_join '', '' (only b a)
      else if only a b \<noteq> [] then ''sensitive fields exposed to identity A: '' @ py_join '', '' (only a b)
      else [])"

definition permission_difference :: "int option \<Rightarrow> int option \<Rightarrow> authorization_oracle \<Rightarrow> string" where
  "permission_difference sa sb orc =
     (case (sa, sb) of
        (Some a, Some b) \<Rightarrow>
          if a = b then []
          else if a \<in> set [200, 201, 204] \<and> b \<in> set [401, 403, 404] then
            (if orc = PUBLIC_RESOURCE then ''identity B was denied a resource marked public''
             else ''identity A allowed, identity B denied'')
          else if a \<in> set [401, 403, 404] \<and> b \<in> set [200, 201, 204] then ''identity B allowed, identity A denied''
          else []
      | _ \<Rightarrow> [])"

fun default_rule_text :: "authorization_oracle \<Rightarrow> string" where
  "default_rule_text OWNER_ONLY = ''Only the resource owner may read or mutate the object.''"
| "default_rule_text ROLE_REQUIRED = ''The requested role is required for this operation.''"
| "default_rule_text TENANT_ISOLATION = ''Tenant A data must be invisible to tenant B.''"
| "default_rule_text AUTHENTICATED_USER_ONLY = ''Anonymous callers must not receive the resource.''"
| "default_rule_text PUBLIC_RESOURCE =
     ''The resource is expected to be public; differences are not authorization bugs.''"
| "default_rule_text CUSTOM_EXPECTATION = []"

text \<open>\<open>_oracle\<close> of a text, a member or nothing; every other case is a custom expectation.\<close>

datatype oracle_choice = Chosen authorization_oracle | Named string | Not_chosen

definition oracle_named :: "string \<Rightarrow> authorization_oracle" where
  "oracle_named t = (case List.find (\<lambda>x. oracle_value x = t) oracles of None \<Rightarrow> CUSTOM_EXPECTATION | Some x \<Rightarrow> x)"

definition oracle_of :: "oracle_choice \<Rightarrow> authorization_oracle" where
  "oracle_of ch =
     (case ch of Chosen x \<Rightarrow> x
      | Named t \<Rightarrow> if py_strip t = [] then CUSTOM_EXPECTATION else oracle_named (py_strip t)
      | Not_chosen \<Rightarrow> CUSTOM_EXPECTATION)"

section \<open>Comparing\<close>

record authorization_hypothesis =
  ah_title :: string
  ah_target :: string
  ah_difference :: string
  ah_status_a :: "int option"
  ah_status_b :: "int option"
  ah_evidence :: "string list"
  ah_expectation :: string
  ah_vulnerability :: bool
  ah_oracle :: string
  ah_status :: string
  ah_structure :: string
  ah_resource :: string
  ah_ownership :: string
  ah_sensitive :: string
  ah_permission :: string
  ah_rule :: string
  ah_actual :: string
  ah_meaningful :: bool

definition opt_int :: "int option \<Rightarrow> pyval" where
  "opt_int x = (case x of None \<Rightarrow> PNone | Some i \<Rightarrow> PInt i)"

definition hypothesis_dict :: "authorization_hypothesis \<Rightarrow> pydict" where
  "hypothesis_dict h =
     [(''title'', PStr (ah_title h)), (''target'', PStr (ah_target h)), (''difference'', PStr (ah_difference h)),
      (''status_a'', opt_int (ah_status_a h)), (''status_b'', opt_int (ah_status_b h)),
      (''evidence_ids'', PList (map PStr (ah_evidence h))), (''security_expectation'', PStr (ah_expectation h)),
      (''is_vulnerability'', PBool False), (''oracle'', PStr (ah_oracle h)), (''status_difference'', PStr (ah_status h)),
      (''response_structure_difference'', PStr (ah_structure h)), (''resource_identity_difference'', PStr (ah_resource h)),
      (''ownership_difference'', PStr (ah_ownership h)), (''sensitive_field_exposure'', PStr (ah_sensitive h)),
      (''permission_difference'', PStr (ah_permission h)), (''expected_authorization_rule'', PStr (ah_rule h)),
      (''actual_authorization_result'', PStr (ah_actual h)), (''meaningful_security_hypothesis'', PBool (ah_meaningful h))]"

definition show_status :: "int option \<Rightarrow> string" where
  "show_status x = (case x of None \<Rightarrow> ''None'' | Some i \<Rightarrow> show_int i)"

definition owner_text :: "pydict \<Rightarrow> string \<Rightarrow> pyval \<Rightarrow> string \<Rightarrow> string" where
  "owner_text x key body name = py_text (py_or (py_get x key) (body_field body name))"

definition both_differ :: "string \<Rightarrow> string \<Rightarrow> string \<Rightarrow> string" where
  "both_differ what a b = (if a \<noteq> [] \<and> b \<noteq> [] \<and> a \<noteq> b then what @ a @ '' vs '' @ b else [])"

definition hypothesis_from ::
    "pydict \<Rightarrow> pydict \<Rightarrow> string \<Rightarrow> string list \<Rightarrow> authorization_oracle \<Rightarrow> int option \<Rightarrow> int option \<Rightarrow> pyval \<Rightarrow> pyval
     \<Rightarrow> authorization_hypothesis" where
  "hypothesis_from xa xb expectation ids orc sa sb ba bb =
     (let st = (if sa \<noteq> sb then ''status '' @ show_status sa @ '' vs '' @ show_status sb else []);
          sd = (if shape ba \<noteq> shape bb then ''response structure differs after normalizing dynamic fields'' else []);
          rd = both_differ ''resource identity '' (owner_text xa ''resource_id'' ba ''id'') (owner_text xb ''resource_id'' bb ''id'');
          od = both_differ ''owner '' (owner_text xa ''owner'' ba ''owner'') (owner_text xb ''owner'' bb ''owner'');
          se = sensitive_exposure ba bb orc; pd = permission_difference sa sb orc;
          differences = filter (\<lambda>t. t \<noteq> []) [st, sd, rd, od, se, pd];
          rule = or_text (py_strip expectation) (default_rule_text orc);
          actual = or_text (py_join ''; '' differences) ''no meaningful difference after normalization''
      in \<lparr>ah_title = ''authorization differential'', ah_target = py_text (py_or (py_get xa ''url'') (py_get xb ''url'')),
          ah_difference = actual, ah_status_a = sa, ah_status_b = sb, ah_evidence = ids, ah_expectation = rule,
          ah_vulnerability = False, ah_oracle = oracle_value orc, ah_status = st, ah_structure = sd, ah_resource = rd,
          ah_ownership = od, ah_sensitive = se, ah_permission = pd, ah_rule = rule, ah_actual = actual,
          ah_meaningful = (rule \<noteq> [] \<and> differences \<noteq> [])\<rparr>)"

definition compare_authorization ::
    "pydict \<Rightarrow> pydict \<Rightarrow> string \<Rightarrow> string list \<Rightarrow> oracle_choice \<Rightarrow> authorization_hypothesis result" where
  "compare_authorization xa xb expectation ids choice =
     then_do (exchange_status xa) (\<lambda>sa. then_do (exchange_status xb) (\<lambda>sb.
     then_do (normalized_body xa) (\<lambda>ba. then_do (normalized_body xb) (\<lambda>bb.
       Inr (hypothesis_from xa xb expectation ids (oracle_of choice) sa sb ba bb)))))"

section \<open>Asking as two identities\<close>

definition cookie_header :: "(string, string) dict \<Rightarrow> (string, string) dict" where
  "cookie_header cs =
     (if cs = [] then [] else [(''Cookie'', py_join ''; '' (map (\<lambda>(k, v). k @ ''='' @ v) cs))])"

definition identity_headers :: "pyval secret_store option \<Rightarrow> research_identity \<Rightarrow> (string, string) dict result" where
  "identity_headers st i =
     then_do (restore_headers st i) (\<lambda>hs. then_do (restore_cookies st i) (\<lambda>cs.
       Inr (fold (\<lambda>(k, v). dict_set k v) (cookie_header cs) hs)))"

definition identity_call :: "string \<Rightarrow> string \<Rightarrow> (string, string) dict \<Rightarrow> http_call" where
  "identity_call meth url hs =
     \<lparr>hc_method = meth, hc_url = url, hc_headers = Some hs, hc_content = No_Payload, hc_timeout = None,
      hc_destructive = False, hc_active = True, hc_follow = False\<rparr>"

text \<open>\<open>_as_exchange\<close>; the text of a tool result is what \<open>str\<close> makes of it, an argument.\<close>

definition as_exchange :: "(tool_result \<Rightarrow> string) \<Rightarrow> http_outcome \<Rightarrow> pydict" where
  "as_exchange show_result out =
     (case out of
        Exchange x \<Rightarrow>
          [(''url'', PStr (x_url x)), (''status'', opt_int (response_status x)),
           (''response'', PDict [(''status'', opt_int (response_status x)), (''body'', opt_pyval (response_body x))])]
      | Tool_Outcome r \<Rightarrow>
          [(''status'', PStr (state_text (tr_state r))), (''response'', PDict [(''body'', PStr (show_result r))])])"

record compare_env =
  ce_a :: http_env
  ce_b :: http_env
  ce_show :: "tool_result \<Rightarrow> string"

text \<open>The store that \<open>secrets_for\<close> finds is an argument, if a session is named.\<close>

definition compare_identities ::
    "compare_env \<Rightarrow> identity_pair \<Rightarrow> string \<Rightarrow> string \<Rightarrow> string \<Rightarrow> string \<Rightarrow> pyval secret_store option \<Rightarrow> engine
     \<Rightarrow> authorization_hypothesis result \<times> identity_pair \<times> engine \<times> http_send list" where
  "compare_identities v p meth url expectation orc st e =
     (if py_upper meth \<in> set [''DELETE'', ''PUT'', ''PATCH''] \<and> \<not> lab_mode (ss_scope (en_session e)) then
        (Inl (RestrictedActivityError ''destructive_identity_compare''), p, e, [])
      else case then_do (identity_headers st (ip_a p)) (\<lambda>ha. then_do (identity_headers st (ip_b p)) (\<lambda>hb. Inr (ha, hb))) of
        Inl exc \<Rightarrow> (Inl exc, p, e, [])
      | Inr (ha, hb) \<Rightarrow>
          (case http_request ''identity_a'' (identity_call meth url ha) (hv_hops (ce_a v)) (hv_made (ce_a v)) (hv_copied (ce_a v))
                  (hv_stamp (ce_a v)) e of
             (Inl exc, e1, s1) \<Rightarrow> (Inl exc, p, e1, s1)
           | (Inr xa, e1, s1) \<Rightarrow>
               (case http_request ''identity_b'' (identity_call meth url hb) (hv_hops (ce_b v)) (hv_made (ce_b v))
                       (hv_copied (ce_b v)) (hv_stamp (ce_b v)) e1 of
                  (Inl exc, e2, s2) \<Rightarrow> (Inl exc, p, e2, s1 @ s2)
                | (Inr xb, e2, s2) \<Rightarrow>
                    (case compare_authorization (as_exchange (ce_show v) xa) (as_exchange (ce_show v) xb) expectation []
                            (Chosen (if orc = [] then CUSTOM_EXPECTATION else oracle_named orc)) of
                       Inl exc \<Rightarrow> (Inl exc, p, e2, s1 @ s2)
                     | Inr h \<Rightarrow> (Inr h, p\<lparr>ip_history := ip_history p @ [hypothesis_dict h]\<rparr>, e2, s1 @ s2)))))"

section \<open>Credentials come back\<close>

definition kept_header :: "string \<times> string \<Rightarrow> bool" where
  "kept_header h = (is_secret_header (fst h) \<or> snd h \<noteq> [])"

lemma ingest_headers_stores:
  assumes "ingest_headers v hs refs st = (refs', st')" and "distinct (map fst hs)"
    and "inj_on (rf_headers v) (set (map fst hs))"
  shows "(\<forall>n. map_of refs' n =
           (case map_of (filter kept_header hs) n of None \<Rightarrow> map_of refs n | Some x \<Rightarrow> Some (rf_headers v n))) \<and>
         (\<forall>n x. map_of (filter kept_header hs) n = Some x \<longrightarrow> map_of st' (rf_headers v n) = Some (PStr x)) \<and>
         (\<forall>r. r \<notin> rf_headers v ` set (map fst hs) \<longrightarrow> map_of st' r = map_of st r)"
  using assms
proof (induction hs arbitrary: refs st)
  case (Cons h hs)
  obtain name val where h: "h = (name, val)" by (cases h)
  have name: "map_of (filter kept_header hs) name = None" "rf_headers v name \<notin> rf_headers v ` set (map fst hs)"
    "inj_on (rf_headers v) (set (map fst hs))" "distinct (map fst hs)"
    using Cons.prems(2,3) h by (auto simp: map_of_eq_None_iff inj_on_def)
  show ?case
  proof (cases "kept_header h")
    case True
    then have "ingest_headers v hs (dict_set name (rf_headers v name) refs) (dict_set (rf_headers v name) (PStr val) st) = (refs', st')"
      using Cons.prems(1) h by (auto simp: kept_header_def put_secret_def)
    from Cons.IH [OF this name(4,3)] show ?thesis
      using name(1,2) True h by (auto split: option.splits)
  next
    case False
    then have "ingest_headers v hs refs st = (refs', st')" using Cons.prems(1) h by (auto simp: kept_header_def)
    from Cons.IH [OF this name(4,3)] show ?thesis using False h by auto
  qed
qed simp

lemma restore_named_finds:
  assumes "\<forall>n\<in>set names. (case want n of
      None \<Rightarrow> dict_get refs n [] = [] \<and> \<not> is_secret_header n
    | Some x \<Rightarrow> dict_get refs n [] \<noteq> [] \<and> map_of st (dict_get refs n []) = Some (PStr x))"
  shows "\<exists>out. restore_named refs st names acc = Inr out \<and>
    (\<forall>n. map_of out n = (if n \<in> set names \<and> want n \<noteq> None then want n else map_of acc n))"
  using assms
proof (induction names arbitrary: acc)
  case (Cons m names)
  show ?case
  proof (cases "want m")
    case None
    then show ?thesis using Cons.IH [of acc] Cons.prems by auto
  next
    case (Some x)
    then have "restore_named refs st (m # names) acc = restore_named refs st names (dict_set m x acc)"
      using Cons.prems by (auto simp: get_secret_def py_str_of_def)
    then show ?thesis using Cons.IH [of "dict_set m x acc"] Cons.prems Some by auto
  qed
qed simp

text \<open>An identity as the database gives it back: the credentials themselves are gone.\<close>

definition reloaded :: "research_identity \<Rightarrow> research_identity" where
  "reloaded i = i\<lparr>id_headers := [], id_cookies := [], id_storage := []\<rparr>"

definition fresh_refs :: "ref_env \<Rightarrow> research_identity \<Rightarrow> bool" where
  "fresh_refs v i \<longleftrightarrow> inj_on (rf_headers v) (set (map fst (id_headers i))) \<and> rf_cookies v \<noteq> [] \<and>
     rf_cookies v \<noteq> rf_storage v \<and> [] \<notin> rf_headers v ` set (map fst (id_headers i)) \<and>
     rf_cookies v \<notin> rf_headers v ` set (map fst (id_headers i))"

text \<open>C30. Credentials that an identity moved into the store come back: after the identity was reloaded without
  them, its cookies and every header with a value or a secret name are restored as they were.\<close>

theorem credentials_return:
  assumes "ingest_secrets v i st = (j, st')" and "fresh_refs v i" and "distinct (map fst (id_headers i))"
    and "id_header_refs i = []" and "set (id_header_names i) \<subseteq> set (map fst (id_headers i))" and "id_cookies i \<noteq> []"
  shows "(\<exists>hs. restore_headers (Some st') (reloaded j) = Inr hs \<and> map_of hs = map_of (filter kept_header (id_headers i))) \<and>
         restore_cookies (Some st') (reloaded j) = Inr (id_cookies i)"
proof -
  obtain i1 st1 where c: "ingest_cookies v i st = (i1, st1)" by fastforce
  obtain i2 st2 where s: "ingest_storage v i1 st1 = (i2, st2)" by fastforce
  have same: "id_headers i2 = id_headers i" "id_cookies i2 = id_cookies i" "id_header_refs i2 = []"
    "id_header_names i2 = id_header_names i" "id_cookie_ref i2 = rf_cookies v"
    using c s assms(4,6) by (auto simp: ingest_cookies_def ingest_storage_def put_secret_def split: if_splits)
  have cookie: "map_of st2 (rf_cookies v) = Some (text_dict (id_cookies i))"
    using c s assms(2,6) by (auto simp: ingest_cookies_def ingest_storage_def put_secret_def fresh_refs_def split: if_splits)
  obtain refs where h: "ingest_headers v (id_headers i) [] st2 = (refs, st')"
    and j: "id_header_refs j = refs" "id_header_names j = sorted_texts (id_header_names i @ map fst (id_headers i))"
      "id_cookie_ref j = rf_cookies v"
    using assms(1) c s same by (auto simp: ingest_secrets_def operator_provided_def Let_def split: prod.splits if_splits)
  have inj: "inj_on (rf_headers v) (set (map fst (id_headers i)))" using assms(2) by (simp add: fresh_refs_def)
  note stored = ingest_headers_stores [OF h assms(3) inj]
  let ?want = "map_of (filter kept_header (id_headers i))"
  have names: "set (id_header_names j) = set (map fst (id_headers i))"
    using assms(5) by (auto simp: j sorted_texts_def set_first_occurrences)
  have each: "case ?want n of None \<Rightarrow> dict_get refs n [] = [] \<and> \<not> is_secret_header n
    | Some x \<Rightarrow> dict_get refs n [] \<noteq> [] \<and> map_of st' (dict_get refs n []) = Some (PStr x)"
    if n: "n \<in> set (map fst (id_headers i))" for n
  proof (cases "?want n")
    case None
    then have "\<not> is_secret_header n" using n by (auto simp: map_of_eq_None_iff kept_header_def image_iff)
    moreover have "map_of refs n = None" using stored None by simp
    ultimately show ?thesis using None by (simp add: dict_get_def)
  next
    case (Some x)
    then have "map_of refs n = Some (rf_headers v n)" using stored by simp
    then have "dict_get refs n [] = rf_headers v n" by (simp add: dict_get_def)
    moreover have "rf_headers v n \<noteq> []" using assms(2) n by (auto simp: fresh_refs_def image_iff)
    ultimately show ?thesis using Some stored by simp
  qed
  obtain hs where hs: "restore_named refs st' (id_header_names j) [] = Inr hs"
    "\<forall>n. map_of hs n = (if n \<in> set (id_header_names j) \<and> ?want n \<noteq> None then ?want n else None)"
    using restore_named_finds [where names = "id_header_names j" and want = ?want and refs = refs and st = st' and acc = "[]"]
      each names by auto
  have "map_of hs n = ?want n" for n
    using hs(2) names by (cases "?want n") (auto dest!: map_of_SomeD intro: rev_image_eqI)
  then have "map_of hs = ?want" by (rule ext)
  then have "restore_headers (Some st') (reloaded j) = Inr hs \<and> map_of hs = ?want"
    using hs(1) by (simp add: restore_headers_def reloaded_def j(1))
  moreover have "map_of st' (rf_cookies v) = Some (text_dict (id_cookies i))"
    using stored cookie assms(2) by (simp add: fresh_refs_def)
  then have "restore_cookies (Some st') (reloaded j) = Inr (id_cookies i)"
    using assms(2) by (simp add: restore_cookies_def reloaded_def j(3) secret_available_def get_secret_def text_dict_def
      fresh_refs_def py_str_of_def comp_def case_prod_unfold)
  ultimately show ?thesis by blast
qed

definition sample_identity :: research_identity where
  "sample_identity = (new_identity ''A'' ''i'')\<lparr>id_headers := [(''Authorization'', ''t''), (''X-Empty'', [])], id_cookies := [(''c'', ''d'')]\<rparr>"

definition sample_refs :: ref_env where
  "sample_refs = \<lparr>rf_cookies = ''cookie'', rf_storage = ''storage'', rf_headers = (\<lambda>n. ''h:'' @ n)\<rparr>"

theorem credentials_return_witness:
  "restore_cookies (Some (snd (ingest_secrets sample_refs sample_identity [])))
     (reloaded (fst (ingest_secrets sample_refs sample_identity []))) = Inr [(''c'', ''d'')]"
proof -
  obtain j st' where run: "ingest_secrets sample_refs sample_identity [] = (j, st')" by fastforce
  have "fresh_refs sample_refs sample_identity"
    by (auto simp: fresh_refs_def sample_refs_def sample_identity_def inj_on_def)
  moreover have "distinct (map fst (id_headers sample_identity))" "id_header_refs sample_identity = []"
    "set (id_header_names sample_identity) \<subseteq> set (map fst (id_headers sample_identity))"
    "id_cookies sample_identity = [(''c'', ''d'')]"
    by (simp_all add: sample_identity_def new_identity_def)
  ultimately show ?thesis using credentials_return [OF run] run by simp
qed

section \<open>What a comparison says\<close>

lemma exposure_symmetric: "sensitive_exposure a b orc = [] \<longleftrightarrow> sensitive_exposure b a orc = []"
  by (auto simp: sensitive_exposure_def Let_def)

lemma permission_symmetric: "permission_difference sa sb orc = [] \<longleftrightarrow> permission_difference sb sa orc = []"
  by (auto simp: permission_difference_def split: option.splits)

lemma both_differ_symmetric: "both_differ what a b = [] \<Longrightarrow> both_differ what b a = []"
  by (auto simp: both_differ_def split: if_splits)

lemma meaningful_hypothesis:
  "ah_meaningful (hypothesis_from xa xb ex ids orc sa sb ba bb) \<longleftrightarrow>
     or_text (py_strip ex) (default_rule_text orc) \<noteq> [] \<and>
     (sa \<noteq> sb \<or> shape ba \<noteq> shape bb \<or>
      both_differ ''resource identity '' (owner_text xa ''resource_id'' ba ''id'') (owner_text xb ''resource_id'' bb ''id'') \<noteq> [] \<or>
      both_differ ''owner '' (owner_text xa ''owner'' ba ''owner'') (owner_text xb ''owner'' bb ''owner'') \<noteq> [] \<or>
      sensitive_exposure ba bb orc \<noteq> [] \<or> permission_difference sa sb orc \<noteq> [])"
  by (auto simp: hypothesis_from_def Let_def)

text \<open>A comparison of two identities does not depend on which of them is called A, never claims a
  vulnerability, and finds nothing when status, normal form of the body, resource and owner agree.\<close>

theorem comparison_is_symmetric:
  assumes "compare_authorization xa xb ex ids ch = Inr h"
  shows "(\<exists>g. compare_authorization xb xa ex ids ch = Inr g \<and> ah_meaningful g = ah_meaningful h) \<and>
    \<not> ah_vulnerability h \<and>
    (exchange_status xa = exchange_status xb \<and> normalized_body xa = normalized_body xb \<and>
     py_get xa ''resource_id'' = py_get xb ''resource_id'' \<and> py_get xa ''owner'' = py_get xb ''owner'' \<longrightarrow> \<not> ah_meaningful h)"
proof -
  from assms obtain sa sb ba bb where read: "exchange_status xa = Inr sa" "exchange_status xb = Inr sb"
    "normalized_body xa = Inr ba" "normalized_body xb = Inr bb" and
    h: "h = hypothesis_from xa xb ex ids (oracle_of ch) sa sb ba bb"
    by (auto simp: compare_authorization_def)
  have "ah_meaningful (hypothesis_from xb xa ex ids (oracle_of ch) sb sa bb ba) = ah_meaningful h"
    unfolding h meaningful_hypothesis
    using exposure_symmetric [of ba bb] permission_symmetric [of sa sb] both_differ_symmetric by metis
  moreover have "\<not> ah_vulnerability h" by (simp add: h hypothesis_from_def Let_def)
  moreover have "\<not> ah_meaningful h" if "sa = sb" "ba = bb" "py_get xa ''resource_id'' = py_get xb ''resource_id''"
    "py_get xa ''owner'' = py_get xb ''owner''"
    unfolding h meaningful_hypothesis using that
    by (simp add: both_differ_def owner_text_def sensitive_exposure_def permission_difference_def Let_def sorted_texts_def
      sort_texts_def split: option.split)
  ultimately show ?thesis using read by (simp add: compare_authorization_def)
qed

theorem comparison_is_symmetric_witness:
  "\<exists>h. compare_authorization [(''status'', PInt 200), (''response'', PDict [(''body'', PList [])])]
     [(''status'', PInt 403), (''response'', PDict [(''body'', PList [])])] ''owner only'' [] Not_chosen = Inr h \<and>
     \<not> ah_vulnerability h"
proof -
  obtain h where "compare_authorization [(''status'', PInt 200), (''response'', PDict [(''body'', PList [])])]
     [(''status'', PInt 403), (''response'', PDict [(''body'', PList [])])] ''owner only'' [] Not_chosen = Inr h"
    by (simp add: compare_authorization_def exchange_status_def normalized_body_def response_item_def py_get_def dict_get_def py_or_def)
  then show ?thesis using comparison_is_symmetric by blast
qed

text \<open>
  No name with \<open>token\<close> survives the normal form, so that a token in a response is never among the
  sensitive fields that are reported.
\<close>

lemma token_keys_are_dropped: "k \<in> set (sensitive_keys (strip_dynamic v)) \<Longrightarrow> \<not> is_dynamic_key k"
proof (induction v rule: strip_dynamic.induct)
  case (1 d)
  then show ?case by (fastforce split: if_splits)
qed auto

lemma exposed_token_unseen:
  "sensitive_exposure (strip_dynamic (PDict [])) (strip_dynamic (PDict [(''access_token'', PStr ''x'')])) OWNER_ONLY = [] \<and>
   list_ex (py_contains ''access_token'') sensitive_fields"
  by code_simp

text \<open>Without the credentials of one identity, and for a changing method outside the laboratory, nothing is sent.\<close>

lemma comparison_refused:
  "identity_headers st (ip_a p) = Inl exc \<or> identity_headers st (ip_b p) = Inl exc \<or>
   py_upper meth \<in> set [''DELETE'', ''PUT'', ''PATCH''] \<and> \<not> lab_mode (ss_scope (en_session e)) \<Longrightarrow>
   \<exists>exc. compare_identities v p meth url ex orc st e = (Inl exc, p, e, [])"
  by (cases "identity_headers st (ip_a p)") (auto simp: compare_identities_def)

end
