(* ===== verification/Executors.thy ===== *)
theory Executors
  imports Agent
begin

text \<open>
  The executors of \<open>security_agent/executors.py\<close>, which do the work of the registered tools, and
  \<open>_evidence\<close> of \<open>security_testing/exploratory.py\<close>. What they call outside the agent is an argument:
  files, the browser, the scanners, the fuzzer, the API tests and the sandbox of generated tests. The
  arguments of a tool are validated by its pydantic model before, so that a text is a text or missing.
\<close>

section \<open>What executors read\<close>

text \<open>The part of a \<open>ToolContext\<close> that does not change, and the two settings that are read.\<close>

record tool_setting =
  xs_session :: string
  xs_project :: string
  xs_mode :: research_mode
  xs_max_lines :: int
  xs_excerpt :: nat

text \<open>The identifiers and clocks of one call: the nodes in their order, the request, the repetitions.\<close>

record tool_reads =
  xr_uid :: "nat \<Rightarrow> string"
  xr_now :: "nat \<Rightarrow> instant"
  xr_http :: http_env
  xr_runs :: "nat \<Rightarrow> nat \<Rightarrow> http_env"
  xr_plan :: string
  xr_elapsed :: rat
  xr_cancelled :: bool

type_synonym 'a tool_act = "tool_context \<Rightarrow> 'a result \<times> tool_context"

definition tool_then :: "'a tool_act \<Rightarrow> ('a \<Rightarrow> 'b tool_act) \<Rightarrow> 'b tool_act" where
  "tool_then m f w = (case m w of (Inl exc, w1) \<Rightarrow> (Inl exc, w1) | (Inr x, w1) \<Rightarrow> f x w1)"

definition gives :: "'a \<Rightarrow> 'a tool_act" where
  "gives x w = (Inr x, w)"

definition put_node :: "string \<Rightarrow> instant \<Rightarrow> node_args \<Rightarrow> evidence_node tool_act" where
  "put_node uid now a w = (case add_node uid now a (tc_graph w) of (r, g) \<Rightarrow> (r, w\<lparr>tc_graph := g\<rparr>))"

definition put_link :: "string \<Rightarrow> string \<Rightarrow> string \<Rightarrow> unit tool_act" where
  "put_link src dst rel w = (case link src dst rel (tc_graph w) of (r, g) \<Rightarrow> (r, w\<lparr>tc_graph := g\<rparr>))"

text \<open>A loop that adds a node for each item and collects the identifiers.\<close>

fun put_nodes :: "tool_reads \<Rightarrow> nat \<Rightarrow> node_args list \<Rightarrow> string list tool_act" where
  "put_nodes v i [] w = (Inr [], w)"
| "put_nodes v i (a # as) w =
     tool_then (put_node (xr_uid v i) (xr_now v i) a) (\<lambda>n.
     tool_then (put_nodes v (Suc i) as) (\<lambda>ids. gives (nd_id n # ids))) w"

text \<open>A part outside the agent that works on the engine.\<close>

definition with_engine :: "(engine \<Rightarrow> 'a result \<times> engine) \<Rightarrow> 'a tool_act" where
  "with_engine f w = (case f (tc_engine w) of (r, e) \<Rightarrow> (r, w\<lparr>tc_engine := e\<rparr>))"

definition keep_exchange :: "http_exchange \<Rightarrow> pydict \<Rightarrow> unit tool_act" where
  "keep_exchange x d w = (Inr (), w\<lparr>tc_exchanges := dict_set (request_id x) d (tc_exchanges w)\<rparr>)"

section \<open>Results\<close>

definition with_quality :: "string \<Rightarrow> pydict \<Rightarrow> pydict" where
  "with_quality q extra = (''quality'', PStr q) # extra"

definition cancelled_result :: pydict where
  "cancelled_result = with_quality ''blocked'' [(''reason'', PStr ''cancelled'')]"

definition quality_from_state :: "tool_state \<Rightarrow> string" where
  "quality_from_state st =
     (case st of
        RESULTS_AVAILABLE \<Rightarrow> ''results_available'' | RESULTS_INGESTED \<Rightarrow> ''results_available''
      | TS_OK \<Rightarrow> ''success'' | COMPLETED \<Rightarrow> ''success'' | TOOL_UNAVAILABLE \<Rightarrow> ''unavailable'' | TIMEOUT \<Rightarrow> ''timeout''
      | FAILED \<Rightarrow> ''failed'' | EXECUTION_ERROR \<Rightarrow> ''failed''
      | SAFETY_BLOCKED \<Rightarrow> ''blocked'' | INVALID_SCOPE \<Rightarrow> ''blocked'' | TS_DENIED \<Rightarrow> ''blocked''
      | APPROVAL_REQUIRED \<Rightarrow> ''approval_required''
      | DRY_RUN \<Rightarrow> ''no_result'' | PLANNED \<Rightarrow> ''no_result'' | Tools.AUTHORIZED \<Rightarrow> ''no_result''
      | _ \<Rightarrow> ''failed'')"

definition from_tool_result :: "string \<Rightarrow> tool_result \<Rightarrow> pydict" where
  "from_tool_result tool r =
     [(''quality'', PStr (quality_from_state (tr_state r))), (''tool'', PStr tool),
      (''state'', PStr (state_text (tr_state r))), (''detail'', PStr (tr_detail r)),
      (''executed'', PBool (tr_state r \<in> {RESULTS_AVAILABLE, RESULTS_INGESTED, COMPLETED, TS_OK})),
      (''is_finding'', PBool False)]"

definition status_shown :: "int option \<Rightarrow> string" where
  "status_shown n = (case n of None \<Rightarrow> ''None'' | Some i \<Rightarrow> show_int i)"

definition shown_body :: "string option \<Rightarrow> string" where
  "shown_body b = py_take 1000 (redact_text (opt_text b))"

definition kept_headers :: "http_header list \<Rightarrow> pydict" where
  "kept_headers hs =
     fold (\<lambda>(n, v). dict_set n (PStr (redact_text v)))
       (filter (\<lambda>(n, v). py_lower n \<notin> {''authorization'', ''cookie''}) hs) []"

definition exchange_snapshot :: "http_exchange \<Rightarrow> pydict" where
  "exchange_snapshot x =
     [(''id'', PStr (request_id x)), (''method'', PStr (x_method x)), (''url'', PStr (redact_text (x_url x))),
      (''status'', opt_int (response_status x)), (''scope'', opt_val (x_scope_decision x)),
      (''tool'', opt_val (source_tool x)), (''source'', opt_val (source_tool x)),
      (''request'', PDict [(''method'', PStr (x_method x)), (''url'', PStr (redact_text (x_url x))),
         (''headers'', PDict (kept_headers (request_headers x))), (''body'', PStr (shown_body (request_body x)))]),
      (''response'', PDict [(''status'', opt_int (response_status x)),
         (''body'', PStr (untrusted_observation ''http-response'' (shown_body (response_body x))))])]"

definition node_of :: "string \<Rightarrow> string \<Rightarrow> string \<Rightarrow> string \<Rightarrow> pydict \<Rightarrow> node_args" where
  "node_of kind prov summary source extra = (plain_node kind prov summary source)\<lparr>na_extra := extra\<rparr>"

section \<open>Arguments\<close>

definition given_text :: "pydict \<Rightarrow> string \<Rightarrow> string option" where
  "given_text d k = (case py_get d k of PStr s \<Rightarrow> Some s | _ \<Rightarrow> None)"

definition given_int :: "pydict \<Rightarrow> string \<Rightarrow> int option" where
  "given_int d k = (case py_get d k of PInt n \<Rightarrow> Some n | _ \<Rightarrow> None)"

definition given_pairs :: "pydict \<Rightarrow> string \<Rightarrow> (string, string) dict" where
  "given_pairs d k = (case py_get d k of PDict h \<Rightarrow> map (\<lambda>(n, v). (n, py_str_of v)) h | _ \<Rightarrow> [])"

definition given_list :: "pydict \<Rightarrow> string \<Rightarrow> pyval list" where
  "given_list d k = (case py_get d k of PList xs \<Rightarrow> xs | _ \<Rightarrow> [])"

text \<open>\<open>str(arguments.get(k) or t)\<close>.\<close>

definition text_or :: "pydict \<Rightarrow> string \<Rightarrow> string \<Rightarrow> string" where
  "text_or d k t = py_str_of (py_or (py_get d k) (PStr t))"

definition int_or :: "pydict \<Rightarrow> string \<Rightarrow> int \<Rightarrow> int" where
  "int_or d k n = (case given_int d k of None \<Rightarrow> n | Some i \<Rightarrow> if i = 0 then n else i)"

section \<open>HTTP requests\<close>

definition agent_call :: "pydict \<Rightarrow> http_call" where
  "agent_call d =
     \<lparr>hc_method = text_or d ''method'' ''GET'', hc_url = py_str_of (py_get d ''url''),
      hc_headers = (if given_pairs d ''headers'' = [] then None else Some (given_pairs d ''headers'')),
      hc_content = (case given_text d ''content'' of None \<Rightarrow> No_Payload | Some s \<Rightarrow> Text_Payload s), hc_timeout = None,
      hc_destructive = False, hc_active = py_true (dict_get d ''active'' (PBool True)), hc_follow = False\<rparr>"

definition observed_exchange :: "tool_reads \<Rightarrow> http_exchange \<Rightarrow> pydict tool_act" where
  "observed_exchange v x =
     tool_then (keep_exchange x (exchange_snapshot x)) (\<lambda>_.
     tool_then (put_node (xr_uid v 0) (xr_now v 0)
       (node_of ''request'' ''http_observation'' (x_method x @ '' '' @ x_url x) ''http_request''
         [(''exchange_id'', PStr (request_id x)), (''status'', opt_int (response_status x))])) (\<lambda>n.
     tool_then (put_node (xr_uid v 1) (xr_now v 1)
       ((node_of ''response'' ''http_observation'' (''status='' @ status_shown (response_status x)) ''http_request''
         [(''exchange_id'', PStr (request_id x))])\<lparr>na_parent := Some (nd_id n), na_relation := ''responds_to''\<rparr>)) (\<lambda>_.
       gives [(''quality'', PStr ''success''), (''status'', opt_int (response_status x)),
         (''body'', PStr (wrap_untrusted ''http-response'' (shown_body (response_body x)))), (''url'', PStr (x_url x)),
         (''exchange_id'', PStr (request_id x)), (''scope'', opt_val (x_scope_decision x)),
         (''evidence_ids'', PList [PStr (nd_id n)])])))"

definition http_tool :: "tool_reads \<Rightarrow> tool_context executor" where
  "http_tool v d w =
     (if tc_cancelled w then (Inr cancelled_result, w)
      else tool_then (with_engine (\<lambda>e.
          case http_request ''agent_http'' (agent_call d) (hv_hops (xr_http v)) (hv_made (xr_http v)) (hv_copied (xr_http v))
              (hv_stamp (xr_http v)) e of
            (out, e1, sends) \<Rightarrow> (out, e1)))
        (\<lambda>out. case out of
            Tool_Outcome r \<Rightarrow> gives (from_tool_result ''http_request'' r)
          | Exchange x \<Rightarrow> observed_exchange v x) w)"

section \<open>Evidence and sources\<close>

text \<open>The last parent that is a tool execution.\<close>

definition execution_among :: "pyval \<Rightarrow> pyval" where
  "execution_among ps =
     (case ps of
        PList xs \<Rightarrow> fold (\<lambda>p acc. case p of
            PDict d \<Rightarrow> if py_get d ''kind'' = PStr ''tool_execution'' then p else acc
          | _ \<Rightarrow> acc) xs PNone
      | _ \<Rightarrow> PNone)"

definition evidence_tool :: "tool_setting \<Rightarrow> tool_context executor" where
  "evidence_tool s d w =
     (let ident = text_or d ''evidence_id'' [] in
      case inspect_node ident (xs_session s) (xs_project s) (tc_graph w) of
        None \<Rightarrow> (Inr [(''quality'', PStr ''no_result''), (''evidence_id'', PStr ident),
                  (''reason'', PStr ''unknown evidence for this session'')], w)
      | Some n \<Rightarrow>
          (Inr [(''quality'', PStr ''success''), (''evidence_id'', PStr ident),
             (''metadata'', PDict (map (\<lambda>k. (k, py_get n k)) [''kind'', ''provenance'', ''source'', ''created_at''])),
             (''provenance'', py_get n ''provenance''), (''parents'', py_get n ''parents''),
             (''children'', py_get n ''children''),
             (''content'', PStr (untrusted_observation ''evidence'' (py_text (py_get n ''summary'')))),
             (''linked_tool_execution'', execution_among (py_get n ''parents'')),
             (''extra'', py_or (py_get n ''extra'') (PDict []))], w))"

definition proxy_tool :: "tool_reads \<Rightarrow> tool_context executor" where
  "proxy_tool v d w =
     (let ident = text_or d ''exchange_id'' [] in
      case map_of (tc_exchanges w) ident of
        None \<Rightarrow> (Inr [(''quality'', PStr ''no_result''), (''exchange_id'', PStr ident),
                  (''reason'', PStr ''unknown exchange for this session'')], w)
      | Some x \<Rightarrow>
          tool_then (put_node (xr_uid v 0) (xr_now v 0)
            (node_of ''request'' ''http_observation''
              (''proxy '' @ py_str_of (py_get x ''method'') @ '' '' @ py_str_of (py_get x ''url'')) ''proxy_evidence''
              [(''exchange_id'', PStr ident)])) (\<lambda>n.
            gives [(''quality'', PStr ''success''), (''exchange_id'', PStr ident), (''request'', py_get x ''request''),
              (''response'', py_get x ''response''), (''scope'', py_get x ''scope''), (''tool'', py_get x ''tool''),
              (''source'', py_get x ''source''), (''evidence_id'', PStr (nd_id n))]) w)"

text \<open>The lines from \<open>first\<close> to \<open>last\<close>, counted from one.\<close>

definition line_range :: "int \<Rightarrow> int \<Rightarrow> string list \<Rightarrow> string list" where
  "line_range i j xs = take (nat j - nat (i - 1)) (drop (nat (i - 1)) xs)"

text \<open>\<open>files\<close> is what a relative path leads to: refused, no file, or a text.\<close>

definition source_tool_run ::
    "tool_setting \<Rightarrow> (string \<Rightarrow> string option result) \<Rightarrow> tool_reads \<Rightarrow> tool_context executor" where
  "source_tool_run s files v d w =
     (let rel = py_strip (text_or d ''path'' []) in
      if rel = [] then (Inr (with_quality ''failed'' [(''reason'', PStr ''path required'')]), w)
      else case files rel of
        Inl (ValueError m) \<Rightarrow> (Inr (with_quality ''blocked'' [(''reason'', PStr m)]), w)
      | Inl exc \<Rightarrow> (Inl exc, w)
      | Inr None \<Rightarrow> (Inr [(''quality'', PStr ''no_result''), (''path'', PStr rel), (''reason'', PStr ''file not found''),
                       (''untrusted'', PBool True)], w)
      | Inr (Some content) \<Rightarrow>
          (let ls = splitlines content; n = int (length ls); from = int_or d ''start_line'' 1;
               upto = int_or d ''end_line'' (min n (from + xs_max_lines s - 1));
               i = max 1 from; j = min n (max i upto);
               query = py_strip (text_or d ''query'' []);
               picked = (if query = [] then line_range i j ls
                         else filter (\<lambda>l. py_contains (py_lower l) (py_lower query)) (line_range i j ls));
               excerpt = py_take (xs_excerpt s) (redact_text (py_join nl picked))
           in tool_then (put_node (xr_uid v 0) (xr_now v 0)
                (node_of ''source'' ''source_observation'' (rel @ '':'' @ show_int i @ ''-'' @ show_int j) ''source_inspect''
                  [(''path'', PStr rel), (''start_line'', PInt i), (''end_line'', PInt j), (''query'', PStr query)])) (\<lambda>nd.
                gives [(''quality'', PStr (if excerpt = [] then ''no_result'' else ''success'')), (''path'', PStr rel),
                  (''start_line'', PInt i), (''end_line'', PInt j),
                  (''excerpt'', PStr (untrusted_observation ''source'' excerpt)), (''untrusted'', PBool True),
                  (''query_echoed'', PBool False), (''evidence_id'', PStr (nd_id nd))]) w))"

section \<open>Reproduction\<close>

definition given_action :: "pydict \<Rightarrow> repro_action" where
  "given_action d =
     \<lparr>rn_method = text_or d ''method'' ''GET'', rn_url = text_or d ''url'' [], rn_content = given_text d ''content'',
      rn_status = given_int d ''expected_status'', rn_contains = given_text d ''expected_body_contains'',
      rn_headers = given_pairs d ''headers''\<rparr>"

definition single_action :: "pydict \<Rightarrow> repro_action" where
  "single_action d =
     \<lparr>rn_method = text_or d ''method'' ''GET'', rn_url = py_str_of (py_get d ''url''), rn_content = None,
      rn_status = given_int d ''expected_status'',
      rn_contains = none_if_empty (or_text (text_or d ''expected_body_contains'' []) (text_or d ''expected_result'' [])),
      rn_headers = []\<rparr>"

definition given_actions :: "pydict \<Rightarrow> repro_action list" where
  "given_actions d =
     (let actions = List.map_filter (\<lambda>r. case r of PDict x \<Rightarrow> Some (given_action x) | _ \<Rightarrow> None) (given_list d ''actions'')
      in if actions = [] \<and> py_true (py_get d ''url'') then [single_action d] else actions)"

definition given_plan :: "string \<Rightarrow> pydict \<Rightarrow> repro_plan" where
  "given_plan uid d =
     (empty_plan (or_text (text_or d ''plan_id'' []) uid))
       \<lparr>pl_preconditions := map py_str_of (given_list d ''preconditions''), pl_setup := text_or d ''setup'' [],
        pl_actions := given_actions d, pl_expected := text_or d ''expected_result'' [],
        pl_cleanup := text_or d ''cleanup'' [], pl_count := int_or d ''reproducibility_count'' 1\<rparr>"

definition reproduction_quality :: "reproduction_outcome \<Rightarrow> string" where
  "reproduction_quality r =
     (case r of RO_REPRODUCED \<Rightarrow> ''success'' | RO_NOT_REPRODUCED \<Rightarrow> ''no_result'' | RO_BLOCKED \<Rightarrow> ''blocked''
      | RO_ENVIRONMENT_ERROR \<Rightarrow> ''failed'' | RO_INCONCLUSIVE \<Rightarrow> ''partial'')"

definition reproduce_tool :: "tool_reads \<Rightarrow> tool_context executor" where
  "reproduce_tool v d w =
     (if tc_cancelled w then (Inr cancelled_result, w)
      else tool_then (with_engine (\<lambda>e.
          case execute_plan (xr_runs v) (given_plan (xr_plan v) d) e of (r, p, e1) \<Rightarrow> (then_do r (\<lambda>_. Inr p), e1)))
        (\<lambda>p. tool_then (put_node (xr_uid v 0) (xr_now v 0)
          (node_of ''reproduction'' ''reproduction'' (py_take 500 (outcome_value (pl_outcome p) @ '': '' @ pl_actual p)) ''reproduce''
            [(''outcome'', PStr (outcome_value (pl_outcome p))), (''plan_id'', PStr (pl_id p))])) (\<lambda>n.
          gives (repro_snapshot p @ [(''quality'', PStr (reproduction_quality (pl_outcome p))),
            (''evidence_id'', PStr (nd_id n)), (''status_alone_is_not_success'', PBool True)]))) w)"

section \<open>Scanners\<close>

record scanner_item =
  si_kind :: string
  si_summary :: string

text \<open>An adapter: how it reads alerts, and a scan, with the result it leaves behind.\<close>

record scanner_adapter =
  xa_ingest :: "string \<Rightarrow> scanner_item list result"
  xa_scan :: "string \<Rightarrow> engine \<Rightarrow> (scanner_item list result \<times> tool_result option) \<times> engine"

definition scanner_node :: "string \<Rightarrow> rat \<Rightarrow> scanner_item \<Rightarrow> node_args" where
  "scanner_node source elapsed item =
     (if si_kind item \<in> {''scanner_plan'', ''tool_status''} then
        node_of ''tool_execution'' (if si_kind item = ''tool_status'' then ''tool_status'' else ''scanner_plan'')
          (si_summary item) source [(''elapsed'', PFloat elapsed), (''is_finding'', PBool False)]
      else node_of ''scanner_result'' ''scanner_result'' (si_summary item) source [(''elapsed'', PFloat elapsed)])"

definition ingest_scanner_evidence :: "tool_reads \<Rightarrow> string \<Rightarrow> rat \<Rightarrow> scanner_item list \<Rightarrow> string list tool_act" where
  "ingest_scanner_evidence v source elapsed items = put_nodes v 0 (map (scanner_node source elapsed) items)"

definition id_list :: "string list \<Rightarrow> pyval" where
  "id_list ids = PList (map PStr ids)"

definition ingest_only :: "tool_reads \<Rightarrow> string \<Rightarrow> scanner_adapter \<Rightarrow> string \<Rightarrow> pydict tool_act" where
  "ingest_only v source x alerts w =
     (case xa_ingest x alerts of
        Inl exc \<Rightarrow> (Inl exc, w)
      | Inr items \<Rightarrow> tool_then (ingest_scanner_evidence v source 0 items) (\<lambda>ids.
          gives [(''quality'', PStr ''results_available''), (''executed'', PBool False),
            (''ingested'', PInt (int (length items))), (''evidence_ids'', id_list ids)]) w)"

text \<open>A scan; a denial is an answer. The end of the answer differs between the two scanners.\<close>

definition scan_state :: "tool_result option \<Rightarrow> tool_state" where
  "scan_state r = (case r of None \<Rightarrow> FAILED | Some t \<Rightarrow> tr_state t)"

definition scan_result :: "bool \<Rightarrow> string \<Rightarrow> nat \<Rightarrow> tool_result option \<Rightarrow> string list \<Rightarrow> rat \<Rightarrow> pydict" where
  "scan_result executed counted n r ids elapsed =
     [(''quality'', PStr (quality_from_state (scan_state r))), (''executed'', PBool executed),
      (''state'', PStr (state_text (scan_state r))),
      (''detail'', PStr (case r of None \<Rightarrow> [] | Some t \<Rightarrow> tr_detail t)), (counted, PInt (int n)),
      (''evidence_ids'', id_list ids), (''scan_seconds'', PFloat elapsed)]"

definition scan_with ::
    "tool_reads \<Rightarrow> string \<Rightarrow> scanner_adapter \<Rightarrow> (scanner_item list \<Rightarrow> tool_result option \<Rightarrow> string list \<Rightarrow> pydict)
     \<Rightarrow> string \<Rightarrow> pydict tool_act" where
  "scan_with v source x answer target w =
     tool_then (with_engine (\<lambda>e. case xa_scan x target e of ((r, t), e1) \<Rightarrow> (Inr (r, t), e1)))
       (\<lambda>(r, t). case r of
          Inl (AuthorizationDeniedError m) \<Rightarrow>
            gives (with_quality ''blocked'' [(''reason'', PStr m), (''executed'', PBool False)])
        | Inl exc \<Rightarrow> (\<lambda>w. (Inl exc, w))
        | Inr items \<Rightarrow> tool_then (ingest_scanner_evidence v source (xr_elapsed v) items) (\<lambda>ids. gives (answer items t ids))) w"

definition wants_ingest :: "pydict \<Rightarrow> bool" where
  "wants_ingest d \<longleftrightarrow> py_true (py_get d ''ingest_only'') \<and> py_true (py_get d ''alerts_json'')"

definition zap_tool :: "scanner_adapter \<Rightarrow> tool_reads \<Rightarrow> tool_context executor" where
  "zap_tool x v d w =
     (if tc_cancelled w then (Inr cancelled_result, w)
      else if wants_ingest d then ingest_only v ''zap'' x (py_str_of (py_get d ''alerts_json'')) w
      else scan_with v ''zap'' x (\<lambda>items t ids. scan_result
          (t \<noteq> None \<and> scan_state t \<notin> {TOOL_UNAVAILABLE, PLANNED, Tools.AUTHORIZED, DRY_RUN}) ''alerts''
          (length (filter (\<lambda>i. si_kind i = ''scanner'' \<and> si_summary i \<noteq> []) items)) t ids (xr_elapsed v))
        (text_or d ''target'' []) w)"

text \<open>The default policy allows no template by name, so that naming one is refused.\<close>

definition allowed_templates :: "string list" where "allowed_templates = []"

definition nuclei_tool :: "scanner_adapter \<Rightarrow> tool_reads \<Rightarrow> tool_context executor" where
  "nuclei_tool x v d w =
     (let template = py_strip (text_or d ''template'' []) in
      if tc_cancelled w then (Inr cancelled_result, w)
      else if template \<noteq> [] \<and> (allowed_templates = [] \<or> py_lower template \<notin> set (map py_lower allowed_templates)) then
        (Inr (with_quality ''blocked'' [(''reason'', PStr ''template not permitted by NucleiTemplatePolicy''),
           (''template'', PStr template)]), w)
      else if wants_ingest d then ingest_only v ''nuclei'' x (py_str_of (py_get d ''alerts_json'')) w
      else scan_with v ''nuclei'' x (\<lambda>items t ids. scan_result
          (t \<noteq> None \<and> scan_state t \<in> {RESULTS_AVAILABLE, RESULTS_INGESTED}) ''results''
          (length (filter (\<lambda>i. si_kind i = ''scanner'') items)) t ids (xr_elapsed v))
        (text_or d ''target'' []) w)"

lemma named_template_refused:
  assumes "\<not> tc_cancelled w" and "py_strip (text_or d ''template'' []) \<noteq> []"
  shows "nuclei_tool x v d w = (Inr (with_quality ''blocked''
    [(''reason'', PStr ''template not permitted by NucleiTemplatePolicy''), (''template'', PStr (py_strip (text_or d ''template'' [])))]), w)"
  using assms by (simp add: nuclei_tool_def allowed_templates_def)

section \<open>Fuzzing\<close>

record fuzz_limits =
  fz_requests :: int
  fz_rate :: rat
  fz_concurrency :: int
  fz_timeout :: rat
  fz_payloads :: int
  fz_body :: int

record fuzz_seed =
  fs_method :: string
  fs_url :: string
  fs_headers :: "(string, string) dict"
  fs_body :: "string option"
  fs_kinds :: "string list"

definition mutation_kinds :: "string list" where
  "mutation_kinds = [''query'', ''path'', ''json'', ''malformed_json'', ''form'', ''header'', ''api'']"

definition given_kinds :: "pydict \<Rightarrow> string list" where
  "given_kinds d =
     map (\<lambda>v. if py_str_of v \<in> set mutation_kinds then py_str_of v else ''query'')
       (if given_list d ''kinds'' = [] then [PStr ''query''] else given_list d ''kinds'')"

definition float_or :: "pydict \<Rightarrow> string \<Rightarrow> rat \<Rightarrow> rat result" where
  "float_or d k x = py_float_of (py_or (py_get d k) (PFloat x))"

definition asked_limits :: "pydict \<Rightarrow> safety_limits \<Rightarrow> fuzz_limits result" where
  "asked_limits d l =
     then_do (float_or d ''requests_per_second'' (requests_per_second l)) (\<lambda>rate.
     then_do (float_or d ''timeout_seconds'' (timeout_seconds l)) (\<lambda>wait.
       Inr \<lparr>fz_requests = int_or d ''count'' 3, fz_rate = rate, fz_concurrency = int_or d ''concurrency'' 1, fz_timeout = wait,
            fz_payloads = int_or d ''count'' 3, fz_body = int_or d ''max_payload_size'' (max_payload_bytes l)\<rparr>))"

definition intersect_fuzz :: "safety_limits \<Rightarrow> fuzz_limits \<Rightarrow> fuzz_limits" where
  "intersect_fuzz l f =
     \<lparr>fz_requests = min (fz_requests f) (max_requests l), fz_rate = min (fz_rate f) (requests_per_second l),
      fz_concurrency = min (fz_concurrency f) (max_concurrent l), fz_timeout = min (fz_timeout f) (timeout_seconds l),
      fz_payloads = min (fz_payloads f) (max_payload_count l), fz_body = min (fz_body f) (max_payload_bytes l)\<rparr>"

definition given_seed :: "pydict \<Rightarrow> fuzz_seed" where
  "given_seed d =
     \<lparr>fs_method = text_or d ''method'' ''GET'', fs_url = py_str_of (py_get d ''url''), fs_headers = given_pairs d ''headers'',
      fs_body = given_text d ''content'', fs_kinds = given_kinds d\<rparr>"

text \<open>The fuzzer is given its limits and the seed; it returns a result, or the summaries of its evidence.\<close>

type_synonym fuzzer = "fuzz_limits \<Rightarrow> fuzz_seed \<Rightarrow> engine \<Rightarrow> (tool_result + string list) result \<times> engine"

definition fuzz_tool :: "fuzzer \<Rightarrow> tool_reads \<Rightarrow> tool_context executor" where
  "fuzz_tool run v d w =
     (if tc_cancelled w then (Inr cancelled_result, w)
      else case asked_limits d (limits (en_safety (tc_engine w))) of
        Inl exc \<Rightarrow> (Inl exc, w)
      | Inr wanted \<Rightarrow>
          (let l = intersect_fuzz (limits (en_safety (tc_engine w))) wanted in
           tool_then (with_engine (\<lambda>e. case run l (given_seed d) e of (r, e1) \<Rightarrow> (Inr r, e1)))
             (\<lambda>r. case r of
                Inl (AuthorizationDeniedError m) \<Rightarrow> gives (with_quality ''blocked'' [(''reason'', PStr m)])
              | Inl exc \<Rightarrow> (\<lambda>w. (Inl exc, w))
              | Inr (Inl t) \<Rightarrow> gives (from_tool_result ''fuzz'' t)
              | Inr (Inr items) \<Rightarrow>
                  (let kept = filter (\<lambda>s. \<not> py_contains s ''Baseline'' \<and> \<not> startswith s ''Stopped'') items in
                   tool_then (put_nodes v 0 (map (\<lambda>s. node_of ''observation'' ''fuzzing_result'' s ''fuzz'' []) kept)) (\<lambda>ids.
                     gives [(''quality'', PStr (if items = [] then ''no_result'' else ''success'')),
                       (''interesting'', PInt (int (length kept))), (''total_evidence'', PInt (int (length items))),
                       (''not_all_vulnerabilities'', PBool True), (''evidence_ids'', id_list ids),
                       (''limits'', PDict [(''request_limit'', PInt (fz_requests l)), (''payload_count'', PInt (fz_payloads l)),
                          (''rps'', PFloat (fz_rate l))])]))) w))"

section \<open>API tests\<close>

record api_endpoint =
  ep_method :: string
  ep_path :: string
  ep_summary :: pyval

record api_spec =
  as_title :: pyval
  as_format :: pyval
  as_base :: string
  as_endpoints :: "api_endpoint list"

record api_test =
  at_title :: string
  at_method :: string
  at_url :: string

text \<open>Reading a specification from a path of the repository, the tests made from it, and running them.\<close>

record api_runner =
  ar_import :: "string \<Rightarrow> string option \<Rightarrow> api_spec option result"
  ar_generate :: "api_spec \<Rightarrow> string \<Rightarrow> api_test list"
  ar_execute :: "api_test list \<Rightarrow> bool \<Rightarrow> engine \<Rightarrow> (tool_result + string list) result \<times> engine"

definition api_plan :: "api_spec \<Rightarrow> api_test list \<Rightarrow> pydict" where
  "api_plan spec tests =
     [(''quality'', PStr ''success''), (''executed'', PBool False), (''capability'', PStr ''planning_only''),
      (''spec'', as_title spec), (''format'', as_format spec),
      (''endpoints'', PList (map (\<lambda>e. PDict [(''method'', PStr (ep_method e)), (''path'', PStr (ep_path e)),
         (''summary'', ep_summary e)]) (take 40 (as_endpoints spec)))),
      (''candidates'', PList (map (\<lambda>t. PDict [(''title'', PStr (at_title t)), (''method'', PStr (at_method t)),
         (''url'', PStr (at_url t))]) tests))]"

definition api_tests_run :: "tool_setting \<Rightarrow> api_runner \<Rightarrow> tool_reads \<Rightarrow> api_spec \<Rightarrow> string \<Rightarrow> api_test list \<Rightarrow> pydict tool_act" where
  "api_tests_run s x v spec path tests =
     tool_then (with_engine (ar_execute x tests (xs_mode s = RM_LIVE))) (\<lambda>r. case r of
        Inl t \<Rightarrow> gives (from_tool_result ''api_test'' t)
      | Inr items \<Rightarrow>
          tool_then (put_nodes v 0 (map (\<lambda>t. node_of ''observation'' ''api_test'' t ''api_test'' []) items)) (\<lambda>ids.
            gives [(''quality'', PStr (if items = [] then ''no_result'' else ''success'')), (''executed'', PBool True),
              (''spec'', as_title spec), (''format'', as_format spec), (''tests'', PInt (int (length tests))),
              (''evidence_ids'', id_list ids), (''used_spec_path'', PStr path)]))"

definition api_tool :: "tool_setting \<Rightarrow> api_runner \<Rightarrow> tool_reads \<Rightarrow> tool_context executor" where
  "api_tool s x v d w =
     (let path = text_or d ''spec_path'' [] in
      if tc_cancelled w then (Inr cancelled_result, w)
      else if path = [] then
        (Inr (with_quality ''failed'' [(''reason'', PStr ''spec_path is required for api_test'')]), w)
      else case ar_import x path (given_text d ''spec_format'') of
        Inl (ValueError m) \<Rightarrow> (Inr (with_quality ''blocked'' [(''reason'', PStr m)]), w)
      | Inl exc \<Rightarrow> (Inl exc, w)
      | Inr None \<Rightarrow> (Inr (with_quality ''no_result'' [(''reason'', PStr ''spec not found''), (''path'', PStr path)]), w)
      | Inr (Some spec) \<Rightarrow>
          (let tests = slice_to (int_or d ''max_tests'' 8) (ar_generate x spec (text_or d ''url'' (as_base spec))) in
           if \<not> py_true (dict_get d ''execute'' (PBool True)) then (Inr (api_plan spec tests), w)
           else api_tests_run s x v spec path tests w))"

section \<open>The browser\<close>

record browser_page =
  bp_url :: string
  bp_title :: "string option"
  bp_screenshot :: "string option"
  bp_console :: "string list"

record browser =
  br_available :: bool
  br_navigate :: "string \<Rightarrow> engine \<Rightarrow> unit result \<times> engine"
  br_capture :: "engine \<Rightarrow> http_exchange list result \<times> engine"
  br_snapshot :: "engine \<Rightarrow> browser_page result \<times> engine"

definition no_browser :: "string \<Rightarrow> engine \<Rightarrow> pydict" where
  "no_browser url e =
     (if dry_run (en_safety e) then
        [(''quality'', PStr ''no_result''), (''capability'', PStr ''planning_only''), (''url'', PStr url),
         (''executed'', PBool False), (''reason'', PStr ''Playwright unavailable; dry-run planning only'')]
      else
        [(''quality'', PStr ''unavailable''), (''capability'', PStr ''unavailable''), (''executed'', PBool False),
         (''reason'', PStr ''Playwright is not installed; browser navigation was not executed'')])"

definition network_entry :: "http_exchange \<Rightarrow> pyval" where
  "network_entry x = PDict [(''method'', PStr (x_method x)), (''url'', PStr (redact_text (x_url x))),
     (''status'', opt_int (response_status x)), (''exchange_id'', PStr (request_id x))]"

definition keep_exchanges :: "http_exchange list \<Rightarrow> unit tool_act" where
  "keep_exchanges xs w =
     (Inr (), w\<lparr>tc_exchanges := fold (\<lambda>x. dict_set (request_id x) (exchange_snapshot x)) xs (tc_exchanges w)\<rparr>)"

definition visited_page :: "tool_reads \<Rightarrow> pydict \<Rightarrow> string \<Rightarrow> http_exchange list \<Rightarrow> browser_page \<Rightarrow> pydict tool_act" where
  "visited_page v d url xs p =
     (let u = redact_text (or_text (bp_url p) url); t = redact_text (opt_text (bp_title p)); shot = opt_val (bp_screenshot p);
          net = map network_entry (take 40 xs) in
      tool_then (keep_exchanges xs) (\<lambda>_.
      tool_then (put_node (xr_uid v 0) (xr_now v 0)
        (node_of ''browser_observation'' ''browser_observation'' (''navigated '' @ u @ '' title='' @ t) ''browser_navigate''
          [(''url'', PStr u), (''title'', PStr t), (''screenshot'', shot), (''network_count'', PInt (int (length net))),
           (''console_count'', PInt (int (length (bp_console p))))])) (\<lambda>n.
        gives [(''quality'', PStr ''success''), (''executed'', PBool True), (''url'', PStr u), (''title'', PStr t),
          (''network'', PList net),
          (''console'', PList (if py_true (dict_get d ''capture_console'' (PBool True))
             then map (PStr \<circ> untrusted_observation ''browser-console'') (take 30 (bp_console p)) else [])),
          (''screenshot'', if py_true (dict_get d ''capture_screenshot'' (PBool True)) then shot else PNone),
          (''evidence_id'', PStr (nd_id n))])))"

definition browser_tool :: "browser \<Rightarrow> tool_reads \<Rightarrow> tool_context executor" where
  "browser_tool x v d w =
     (let url = py_str_of (py_get d ''url'') in
      if tc_cancelled w then (Inr cancelled_result, w)
      else if \<not> br_available x then (Inr (no_browser url (tc_engine w)), w)
      else tool_then (with_engine (br_navigate x url)) (\<lambda>_.
        if xr_cancelled v then gives (with_quality ''partial'' [(''reason'', PStr ''cancelled after navigation'')])
        else tool_then (with_engine (br_capture x)) (\<lambda>xs.
             tool_then (with_engine (br_snapshot x)) (\<lambda>p. visited_page v d url xs p))) w)"

section \<open>Generated tests\<close>

text \<open>An attempt in the sandbox: what is made public of it, and what its evidence needs, if it ran.\<close>

record attempt_evidence =
  ae_hypothesis :: string
  ae_rationale :: string
  ae_source_extra :: pydict
  ae_output :: string
  ae_extra :: pydict
  ae_meaningful :: bool

record exploratory_attempt =
  ea_public :: "string list \<Rightarrow> pydict"
  ea_duration :: rat
  ea_classification :: string
  ea_executed :: bool
  ea_evidence :: "attempt_evidence option"

text \<open>\<open>_evidence\<close>: the hypothesis if it is unknown, the test, and the attempt with its verdict.\<close>

definition hypothesis_noted :: "tool_reads \<Rightarrow> string \<Rightarrow> unit tool_act" where
  "hypothesis_noted v h w =
     (if map_of (gr_nodes (tc_graph w)) h \<noteq> None then (Inr (), w)
      else tool_then (put_node (xr_uid v 2) (xr_now v 2)
        ((node_of ''hypothesis'' ''ai_hypothesis'' h ''exploratory_test''
          [(''hypothesis_id'', PStr h), (''verified'', PBool False)])\<lparr>na_id := Some h\<rparr>)) (\<lambda>_. gives ()) w)"

definition verdict_link :: "exploratory_attempt \<Rightarrow> attempt_evidence \<Rightarrow> string \<Rightarrow> unit tool_act" where
  "verdict_link t e node =
     (if ae_meaningful e then put_link node (ae_hypothesis e) ''supports''
      else if ea_classification t = ''PASSED'' then put_link node (ae_hypothesis e) ''contradicted_by''
      else gives ())"

definition attempt_recorded :: "tool_reads \<Rightarrow> exploratory_attempt \<Rightarrow> attempt_evidence \<Rightarrow> string list tool_act" where
  "attempt_recorded v t e =
     tool_then (hypothesis_noted v (ae_hypothesis e)) (\<lambda>_.
     tool_then (put_node (xr_uid v 0) (xr_now v 0)
       (node_of ''exploratory_test'' ''generated_test'' (py_take 500 (wrap_untrusted ''generated-test'' (ae_rationale e)))
         ''exploratory_test'' (ae_source_extra e))) (\<lambda>src.
     tool_then (put_link (ae_hypothesis e) (nd_id src) ''motivates'') (\<lambda>_.
     tool_then (put_node (xr_uid v 1) (xr_now v 1)
       ((node_of ''exploratory_attempt'' ''sandbox_execution''
         (py_take 500 (redact_text (or_text (ae_output e) (ea_classification t)))) ''exploratory_test'' (ae_extra e))
           \<lparr>na_parent := Some (nd_id src), na_relation := ''executes''\<rparr>)) (\<lambda>run.
     tool_then (verdict_link t e (nd_id run)) (\<lambda>_. gives [nd_id src, nd_id run])))))"

definition exploratory_quality :: "string \<Rightarrow> string" where
  "exploratory_quality c =
     (if c \<in> {''BLOCKED'', ''UNSUPPORTED''} then ''blocked'' else if c = ''UNAVAILABLE'' then ''unavailable''
      else if c = ''TIMEOUT'' then ''timeout'' else if c \<in> {''ERROR'', ''INVALID''} then ''failed'' else ''success'')"

definition dict_update :: "pydict \<Rightarrow> pydict \<Rightarrow> pydict" where
  "dict_update xs d = fold (\<lambda>(k, v). dict_set k v) xs d"

definition exploratory_tool ::
    "(pydict \<Rightarrow> tool_context \<Rightarrow> exploratory_attempt result) \<Rightarrow> tool_reads \<Rightarrow> tool_context executor" where
  "exploratory_tool sandbox v d w =
     (case sandbox d w of
        Inl exc \<Rightarrow> (Inl exc, w)
      | Inr t \<Rightarrow>
          tool_then (case ea_evidence t of None \<Rightarrow> gives [] | Some e \<Rightarrow> attempt_recorded v t e) (\<lambda>ids.
            gives (dict_update
              [(''duration_seconds'', PFloat (ea_duration t)), (''quality'', PStr (exploratory_quality (ea_classification t))),
               (''executed'', PBool (ea_executed t)), (''verified'', PBool False), (''llm_invoked'', PBool False)]
              (ea_public t ids))) w)"

section \<open>Binding the tools\<close>

text \<open>Everything outside the agent that the executors use.\<close>

record tool_outside =
  ou_browser :: browser
  ou_files :: "string \<Rightarrow> string option result"
  ou_zap :: scanner_adapter
  ou_zap_present :: bool
  ou_nuclei :: scanner_adapter
  ou_nuclei_present :: bool
  ou_fuzzer :: fuzzer
  ou_api :: api_runner
  ou_sandbox :: "pydict \<Rightarrow> tool_context \<Rightarrow> exploratory_attempt result"

text \<open>What a call reads may depend on its arguments and on everything the executors see.\<close>

type_synonym tool_oracle = "pydict \<Rightarrow> tool_context \<Rightarrow> tool_reads"

definition engine_executors ::
    "tool_setting \<Rightarrow> tool_outside \<Rightarrow> tool_oracle \<Rightarrow> (string \<times> tool_context executor) list" where
  "engine_executors s x rd =
     [(''http_request'', \<lambda>d w. http_tool (rd d w) d w),
      (''browser_navigate'', \<lambda>d w. browser_tool (ou_browser x) (rd d w) d w),
      (''source_inspect'', \<lambda>d w. source_tool_run s (ou_files x) (rd d w) d w),
      (''evidence_inspect'', evidence_tool s),
      (''zap_scan'', \<lambda>d w. zap_tool (ou_zap x) (rd d w) d w),
      (''nuclei_scan'', \<lambda>d w. nuclei_tool (ou_nuclei x) (rd d w) d w),
      (''fuzz'', \<lambda>d w. fuzz_tool (ou_fuzzer x) (rd d w) d w),
      (''reproduce'', \<lambda>d w. reproduce_tool (rd d w) d w),
      (''proxy_evidence'', \<lambda>d w. proxy_tool (rd d w) d w),
      (''api_test'', \<lambda>d w. api_tool s (ou_api x) (rd d w) d w),
      (''exploratory_test'', \<lambda>d w. exploratory_tool (ou_sandbox x) (rd d w) d w)]"

definition set_capability :: "string \<Rightarrow> tool_capability \<Rightarrow> 'w registry \<Rightarrow> 'w registry result" where
  "set_capability nm c r = then_do (spec_of r nm) (\<lambda>s. replace_spec (with_capability s c) r)"

definition apply_availability :: "tool_outside \<Rightarrow> 'w registry \<Rightarrow> 'w registry result" where
  "apply_availability x r =
     then_do (set_capability ''browser_navigate''
       (if br_available (ou_browser x) then TC_EXECUTABLE else TC_UNAVAILABLE) r) (\<lambda>r1.
     then_do (set_capability ''zap_scan'' (if ou_zap_present x then TC_EXECUTABLE else TC_RESULTS_INGESTIBLE) r1) (\<lambda>r2.
       set_capability ''nuclei_scan'' (if ou_nuclei_present x then TC_EXECUTABLE else TC_RESULTS_INGESTIBLE) r2))"

definition bind_engine_tools ::
    "tool_setting \<Rightarrow> tool_outside \<Rightarrow> tool_oracle \<Rightarrow> tool_context registry \<Rightarrow> tool_context registry result" where
  "bind_engine_tools s x rd r =
     apply_availability x (fold (\<lambda>(n, f). bind_executor n f) (engine_executors s x rd) r)"

section \<open>What executors can change\<close>

text \<open>A call into a part outside the agent that was given the engine.\<close>

inductive adapter_call :: "tool_outside \<Rightarrow> engine \<Rightarrow> engine \<Rightarrow> bool" for x where
  navigating: "adapter_call x e (snd (br_navigate (ou_browser x) url e))"
| capturing: "adapter_call x e (snd (br_capture (ou_browser x) e))"
| snapping: "adapter_call x e (snd (br_snapshot (ou_browser x) e))"
| zapping: "adapter_call x e (snd (xa_scan (ou_zap x) target e))"
| scanning: "adapter_call x e (snd (xa_scan (ou_nuclei x) target e))"
| fuzzing: "adapter_call x e (snd (ou_fuzzer x l seed e))"
| testing: "adapter_call x e (snd (ar_execute (ou_api x) tests human e))"

lemma http_request_same: "http_request tool h env mk cp st e = (r, e1, sends) \<Longrightarrow> same_setup e1 e"
proof -
  assume r: "http_request tool h env mk cp st e = (r, e1, sends)"
  obtain res e2 where h: "run_hops (client_call_of tool h e) env (initial_hop h e) e
      = (res, e2, requests_sent tool h env mk cp st e)"
    and e: "same_setup (engine_after tool h env mk cp st e) e2"
    by (rule http_request_hops)
  have "same_setup e2 e" using run_hops_allowed [OF h] by simp
  with e have "same_setup (engine_after tool h env mk cp st e) e" by (rule same_setup_trans)
  then show ?thesis by (simp add: engine_after_def r)
qed

lemma run_action_same: "same_setup (rt_engine (snd (run_action v a s))) (rt_engine s)"
proof (cases "http_request ''reproduce'' (action_call a) (hv_hops v) (hv_made v) (hv_copied v) (hv_stamp v) (rt_engine s)")
  case (fields out e sends)
  have "rt_engine (snd (after_raise exc s1)) = rt_engine s1" "rt_engine (snd (after_result r s1)) = rt_engine s1"
    "rt_engine (snd (after_exchange a x s1)) = rt_engine s1" for exc r x s1
    by (auto simp: after_raise_def after_result_def after_exchange_def observe_exchange_def Let_def
        split: error.split sum.split)
  then show ?thesis using http_request_same [OF fields] fields
    by (auto simp: run_action_def Let_def split: sum.split http_outcome.split)
qed

lemma run_actions_same: "same_setup (rt_engine (snd (run_actions env i as s))) (rt_engine s)"
proof (induction as arbitrary: i s)
  case (Cons a as)
  obtain r s1 where r: "run_action (env i) a s = (r, s1)" by fastforce
  have one: "same_setup (rt_engine s1) (rt_engine s)" using run_action_same [of "env i" a s] r by simp
  show ?case
  proof (cases r)
    case Run_Through
    show ?thesis using same_setup_trans [OF Cons.IH [of "Suc i" s1] one] r Run_Through by simp
  qed (use r one in simp_all)
qed simp

lemma run_once_same: "same_setup (snd (snd (run_once env p e))) e"
proof -
  let ?s = "\<lparr>rt_engine = e, rt_plan = p, rt_results = [], rt_matched = 0, rt_observed = 0\<rparr>"
  obtain r s1 where r: "run_actions env 0 (pl_actions p) ?s = (r, s1)" by fastforce
  have "same_setup (rt_engine s1) e" using run_actions_same [of env 0 "pl_actions p" ?s] r by simp
  then show ?thesis using r by (cases r) (simp_all add: run_once_def)
qed

lemma run_repeats_same: "same_setup (snd (snd (snd (run_repeats env k n p e)))) e"
proof (induction n arbitrary: k p e)
  case (Suc n)
  obtain r p1 e1 where r: "run_once (env k) p e = (r, p1, e1)" by (metis prod_cases3)
  obtain exc rs p2 e2 where q: "run_repeats env (Suc k) n p1 e1 = (exc, rs, p2, e2)" by (metis prod_cases4)
  have "same_setup e1 e" "same_setup e2 e1" using run_once_same [of "env k" p e] r Suc.IH [of "Suc k" p1 e1] q by simp_all
  then show ?case using r q same_setup_trans by (cases r) auto
qed simp

lemma execute_plan_same: "same_setup (snd (snd (execute_plan env p e))) e"
proof -
  have "same_setup e2 e" if "run_repeats env 0 n q e = (exc, rs, p2, e2)" for n q exc rs p2 e2
    using run_repeats_same [of env 0 n q e] that by simp
  then show ?thesis by (auto simp: execute_plan_def Let_def split: prod.split option.split error.split)
qed

text \<open>
  An effect of executors: new nodes and edges of the graph, exchanges that are kept, and steps \<open>Q\<close> of
  the engine, among them those that leave its set-up alone and the calls into the adapters.
\<close>

locale tool_effect =
  fixes R :: "tool_context \<Rightarrow> tool_context \<Rightarrow> bool" and Q :: "engine \<Rightarrow> engine \<Rightarrow> bool" and x :: tool_outside
  assumes R_refl: "R w w" and R_trans: "R u v \<Longrightarrow> R v w \<Longrightarrow> R u w"
    and noded: "R w (w\<lparr>tc_graph := snd (add_node uid now a (tc_graph w))\<rparr>)"
    and linked: "R w (w\<lparr>tc_graph := snd (link src dst rel (tc_graph w))\<rparr>)"
    and kept: "R w (w\<lparr>tc_exchanges := xs\<rparr>)"
    and moved: "Q (tc_engine w) e \<Longrightarrow> R w (w\<lparr>tc_engine := e\<rparr>)"
    and own: "same_setup e' e \<Longrightarrow> Q e e'"
    and adapter: "adapter_call x e e' \<Longrightarrow> Q e e'"
begin

definition acts :: "'a tool_act \<Rightarrow> bool" where
  "acts m \<longleftrightarrow> (\<forall>w. R w (snd (m w)))"

lemma acts_gives: "acts (gives y)" "acts (\<lambda>w. (r, w))"
  by (simp_all add: acts_def gives_def R_refl)

lemma acts_then: "acts m \<Longrightarrow> (\<And>y. acts (f y)) \<Longrightarrow> acts (tool_then m f)"
  unfolding acts_def
proof
  fix w
  assume m: "\<forall>w. R w (snd (m w))" and f: "\<And>y. \<forall>w. R w (snd (f y w))"
  obtain r u where "m w = (r, u)" by fastforce
  then show "R w (snd (tool_then m f w))"
    using m f R_trans by (cases r) (auto simp: tool_then_def, (metis snd_conv)+)
qed

lemma acts_put: "acts (put_node uid now a)" "acts (put_link src dst rel)" "acts (keep_exchange e d)" "acts (keep_exchanges es)"
proof -
  show "acts (put_node uid now a)"
    using noded [of _ uid now a] by (simp add: acts_def put_node_def case_prod_beta)
  show "acts (put_link src dst rel)"
    using linked [of _ src dst rel] by (simp add: acts_def put_link_def case_prod_beta)
qed (simp_all add: acts_def keep_exchange_def keep_exchanges_def kept)

lemma acts_nodes: "acts (put_nodes v i as)"
proof (induction as arbitrary: i)
  case Nil
  show ?case by (simp add: acts_def R_refl)
next
  case (Cons a as)
  have "acts (tool_then (put_node (xr_uid v i) (xr_now v i) a) (\<lambda>n.
      tool_then (put_nodes v (Suc i) as) (\<lambda>ids. gives (nd_id n # ids))))"
    by (intro acts_then acts_put acts_gives Cons.IH)
  then show ?case by (simp add: acts_def)
qed

lemma acts_engine: "(\<And>e. Q e (snd (f e))) \<Longrightarrow> acts (with_engine f)"
  by (simp add: acts_def with_engine_def case_prod_beta moved)

lemma acts_if: "acts m \<Longrightarrow> acts n \<Longrightarrow> acts (\<lambda>w. if b w then m w else n w)"
  by (simp add: acts_def)

lemma acts_alone: "acts (\<lambda>w. (r w, w))"
  by (simp add: acts_def R_refl)

lemmas acting = acts_then acts_gives acts_put acts_nodes acts_engine

lemma acts_http: "acts (http_tool v d)"
proof -
  have "acts (observed_exchange v y)" for y
    unfolding observed_exchange_def by (intro acting)
  then have "acts (tool_then (with_engine (\<lambda>e. case http_request ''agent_http'' (agent_call d) (hv_hops (xr_http v))
      (hv_made (xr_http v)) (hv_copied (xr_http v)) (hv_stamp (xr_http v)) e of (out, e1, sends) \<Rightarrow> (out, e1)))
      (\<lambda>out. case out of Tool_Outcome r \<Rightarrow> gives (from_tool_result ''http_request'' r) | Exchange y \<Rightarrow> observed_exchange v y))"
    by (intro acting) (auto simp: own http_request_same acting split: prod.split http_outcome.split)
  then show ?thesis by (simp add: acts_def http_tool_def R_refl)
qed

lemma acts_reproduce: "acts (reproduce_tool v d)"
proof -
  have "Q e (snd (case execute_plan runs p e of (r, q, e1) \<Rightarrow> (then_do r (\<lambda>_. Inr q), e1)))" for runs p e
    using execute_plan_same [of runs p e] by (auto intro: own split: prod.split)
  then have "acts (tool_then (with_engine (\<lambda>e. case execute_plan runs p e of (r, q, e1) \<Rightarrow> (then_do r (\<lambda>_. Inr q), e1)))
      (\<lambda>q. tool_then (put_node u n (f q)) (\<lambda>y. gives (g q y))))" for runs p u n f and g :: "repro_plan \<Rightarrow> evidence_node \<Rightarrow> pydict"
    by (intro acting)
  then show ?thesis by (simp add: acts_def reproduce_tool_def R_refl)
qed

lemma acts_files: "acts (evidence_tool s d)" "acts (proxy_tool v d)" "acts (source_tool_run s files v d)"
proof -
  show "acts (evidence_tool s d)"
    by (auto simp: acts_def evidence_tool_def Let_def R_refl split: option.split)
  have "acts (tool_then (put_node u n a) (\<lambda>y. gives (f y)))" for u n a and f :: "evidence_node \<Rightarrow> pydict"
    by (intro acting)
  then show "acts (proxy_tool v d)" "acts (source_tool_run s files v d)"
    by (auto simp: acts_def proxy_tool_def source_tool_run_def Let_def R_refl split: option.split sum.split error.split)
qed

lemma acts_ingest: "acts (ingest_only v source y alerts)"
proof -
  have "acts (tool_then (ingest_scanner_evidence v source 0 items) (\<lambda>ids. gives (f ids)))" for items and f :: "string list \<Rightarrow> pydict"
    unfolding ingest_scanner_evidence_def by (intro acting)
  then show ?thesis by (auto simp: acts_def ingest_only_def R_refl split: sum.split)
qed

lemma acts_scan:
  assumes "\<And>e. adapter_call x e (snd (xa_scan y target e))"
  shows "acts (scan_with v source y answer target)"
proof -
  have "Q e (snd (case xa_scan y target e of ((r, t), e1) \<Rightarrow> (Inr (r, t), e1)))" for e
    using adapter [OF assms, of e] by (simp add: case_prod_beta)
  moreover have "acts (case r of
        Inl (AuthorizationDeniedError m) \<Rightarrow> gives (with_quality ''blocked'' [(''reason'', PStr m), (''executed'', PBool False)])
      | Inl exc \<Rightarrow> (\<lambda>w. (Inl exc, w))
      | Inr items \<Rightarrow> tool_then (ingest_scanner_evidence v source (xr_elapsed v) items) (\<lambda>ids. gives (answer items t ids)))" for r t
    unfolding ingest_scanner_evidence_def by (auto intro!: acting split: sum.split error.split)
  ultimately have "acts (tool_then (with_engine (\<lambda>e. case xa_scan y target e of ((r, t), e1) \<Rightarrow> (Inr (r, t), e1)))
      (\<lambda>(r, t). case r of
        Inl (AuthorizationDeniedError m) \<Rightarrow> gives (with_quality ''blocked'' [(''reason'', PStr m), (''executed'', PBool False)])
      | Inl exc \<Rightarrow> (\<lambda>w. (Inl exc, w))
      | Inr items \<Rightarrow> tool_then (ingest_scanner_evidence v source (xr_elapsed v) items) (\<lambda>ids. gives (answer items t ids))))"
    by (intro acts_then acts_engine) (simp_all add: case_prod_beta)
  then show ?thesis by (simp add: acts_def scan_with_def)
qed

lemma acts_scanners: "acts (zap_tool (ou_zap x) v d)" "acts (nuclei_tool (ou_nuclei x) v d)"
  using acts_ingest [of v _ _ "py_str_of (py_get d ''alerts_json'')"] acts_scan [OF zapping] acts_scan [OF scanning]
  by (simp_all add: acts_def zap_tool_def nuclei_tool_def Let_def R_refl)

lemma acts_fuzz: "acts (fuzz_tool (ou_fuzzer x) v d)"
proof -
  have "Q e (snd (case ou_fuzzer x l seed e of (r, e1) \<Rightarrow> (Inr r, e1)))" for l seed e
    using adapter [OF fuzzing, of e l seed] by (simp add: case_prod_beta)
  then have "acts (tool_then (with_engine (\<lambda>e. case ou_fuzzer x l seed e of (r, e1) \<Rightarrow> (Inr r, e1))) (\<lambda>r. case r of
      Inl (AuthorizationDeniedError m) \<Rightarrow> gives (f m) | Inl exc \<Rightarrow> (\<lambda>w. (Inl exc, w)) | Inr (Inl t) \<Rightarrow> gives (g t)
    | Inr (Inr items) \<Rightarrow> tool_then (put_nodes v 0 (ns items)) (\<lambda>ids. gives (h items ids))))"
    for l seed and f g ns and h :: "string list \<Rightarrow> string list \<Rightarrow> pydict"
    by (auto intro!: acting split: sum.split error.split)
  then show ?thesis by (auto simp: acts_def fuzz_tool_def Let_def R_refl split: sum.split)
qed

lemma acts_api: "acts (api_tool s (ou_api x) v d)"
proof -
  have "acts (api_tests_run s (ou_api x) v spec path tests)" for spec path tests
    unfolding api_tests_run_def by (auto intro!: acting adapter testing split: sum.split)
  then show ?thesis
    by (auto simp: acts_def api_tool_def Let_def R_refl split: sum.split option.split error.split)
qed

lemma acts_browser: "acts (browser_tool (ou_browser x) v d)"
proof -
  have "acts (visited_page v d url xs p)" for url xs p
    unfolding visited_page_def Let_def by (intro acting)
  then have "acts (tool_then (with_engine (br_navigate (ou_browser x) url)) (\<lambda>_.
        if xr_cancelled v then gives r
        else tool_then (with_engine (br_capture (ou_browser x))) (\<lambda>xs.
             tool_then (with_engine (br_snapshot (ou_browser x))) (\<lambda>p. visited_page v d url xs p))))" for url r
    by (auto intro!: acting adapter navigating capturing snapping)
  then show ?thesis by (cases "xr_cancelled v") (simp_all add: acts_def browser_tool_def Let_def R_refl)
qed

lemma acts_exploratory: "acts (exploratory_tool sandbox v d)"
proof -
  have "acts (tool_then (put_node u n a) (\<lambda>_. gives ()))" for u n a
    by (intro acting)
  then have "acts (hypothesis_noted v h)" for h
    by (simp add: acts_def hypothesis_noted_def R_refl)
  moreover have "acts (verdict_link t e node)" for t e node
    by (simp add: verdict_link_def acting)
  ultimately have "acts (attempt_recorded v t e)" for t e
    unfolding attempt_recorded_def by (intro acting)
  then have "acts (tool_then (case ea_evidence t of None \<Rightarrow> gives [] | Some e \<Rightarrow> attempt_recorded v t e)
      (\<lambda>ids. gives (f ids)))" for t and f :: "string list \<Rightarrow> pydict"
    by (intro acting) (auto intro: acting split: option.split)
  then show ?thesis by (auto simp: acts_def exploratory_tool_def R_refl split: sum.split)
qed

lemma executors_act:
  assumes "(n, f) \<in> set (engine_executors s x rd)" shows "R w (snd (f d w))"
  using assms acts_http acts_browser acts_files acts_scanners acts_fuzz acts_reproduce acts_api acts_exploratory
  by (auto simp: engine_executors_def acts_def)

end

text \<open>Executors write the graph only by adding nodes and links.\<close>

interpretation graph_writes: tool_effect "\<lambda>w u. \<exists>ops. tc_graph u = run_ops graph_step (tc_graph w) ops" "\<lambda>_ _. True" x for x
proof
  show "\<exists>ops. tc_graph w = run_ops graph_step (tc_graph w) ops" for w
    by (rule exI [where x = "[]"]) simp
  show "\<exists>ops. tc_graph w = run_ops graph_step (tc_graph u) ops"
    if "\<exists>ops. tc_graph v = run_ops graph_step (tc_graph u) ops" "\<exists>ops. tc_graph w = run_ops graph_step (tc_graph v) ops" for u v w
    using that by (metis run_ops_append)
  show "\<exists>ops. tc_graph (w\<lparr>tc_graph := snd (add_node uid now a (tc_graph w))\<rparr>) = run_ops graph_step (tc_graph w) ops" for w uid now a
    by (rule exI [where x = "[Add_Node uid now a]"]) simp
  show "\<exists>ops. tc_graph (w\<lparr>tc_graph := snd (link src dst rel (tc_graph w))\<rparr>) = run_ops graph_step (tc_graph w) ops" for w src dst rel
    by (rule exI [where x = "[Link src dst rel]"]) simp
  show "\<exists>ops. tc_graph (w\<lparr>tc_exchanges := xs\<rparr>) = run_ops graph_step (tc_graph w) ops" for w xs
    by (rule exI [where x = "[]"]) simp
  show "\<exists>ops. tc_graph (w\<lparr>tc_engine := e\<rparr>) = run_ops graph_step (tc_graph w) ops" for w e
    by (rule exI [where x = "[]"]) simp
qed simp_all

definition writes_graph :: "tool_context executor \<Rightarrow> bool" where
  "writes_graph f \<longleftrightarrow> (\<forall>d w. \<exists>ops. tc_graph (snd (f d w)) = run_ops graph_step (tc_graph w) ops)"

text \<open>The set-up of the engine changes only inside the adapters.\<close>

definition engine_move :: "tool_outside \<Rightarrow> engine \<Rightarrow> engine \<Rightarrow> bool" where
  "engine_move x e e' \<longleftrightarrow> same_setup e' e \<or> adapter_call x e e'"

definition engine_path :: "tool_outside \<Rightarrow> engine \<Rightarrow> engine \<Rightarrow> bool" where
  "engine_path x = (engine_move x)\<^sup>*\<^sup>*"

lemma engine_path_step: "engine_move x e e' \<Longrightarrow> engine_path x e e'"
  by (simp add: engine_path_def)

lemma engine_path_own: "same_setup e' e \<Longrightarrow> engine_path x e e'"
  by (simp add: engine_path_step engine_move_def)

lemma engine_path_refl [simp]: "engine_path x e e"
  by (simp add: engine_path_def)

lemma engine_path_trans: "engine_path x a b \<Longrightarrow> engine_path x b c \<Longrightarrow> engine_path x a c"
  unfolding engine_path_def by (rule rtranclp_trans)

lemma engine_path_setup:
  assumes "engine_path x e e'" and "\<And>e e'. adapter_call x e e' \<Longrightarrow> same_setup e' e" shows "same_setup e' e"
  using assms(1) unfolding engine_path_def
proof induction
  case (step y z)
  then have "same_setup z y" using assms(2) by (auto simp: engine_move_def)
  then show ?case using step.IH by (rule same_setup_trans)
qed simp

interpretation engine_paths: tool_effect "\<lambda>w u. engine_path x (tc_engine w) (tc_engine u)" "engine_move x" x for x
  by unfold_locales (auto simp: engine_move_def intro: engine_path_trans engine_path_step)

definition keeps_path :: "tool_outside \<Rightarrow> tool_context executor \<Rightarrow> bool" where
  "keeps_path x f \<longleftrightarrow> (\<forall>d w. engine_path x (tc_engine w) (tc_engine (snd (f d w))))"

text \<open>An agent whose tools are those that \<open>bind_engine_tools\<close> binds, or are not bound.\<close>

definition engine_tools :: "tool_setting \<Rightarrow> tool_outside \<Rightarrow> tool_oracle \<Rightarrow> tool_context registry \<Rightarrow> bool" where
  "engine_tools s x rd r \<longleftrightarrow>
     list_all (\<lambda>(n, f). (n, f) \<in> set (engine_executors s x rd) \<or> f = unavailable n) (rg_executors r)"

lemma unavailable_world [simp]: "snd (unavailable n d w) = w"
  by (simp add: unavailable_def)

lemma engine_tools_act:
  assumes "engine_tools s x rd r" and "(n, f) \<in> set (rg_executors r)" shows "writes_graph f" and "keeps_path x f"
proof -
  have f: "(n, f) \<in> set (engine_executors s x rd) \<or> f = unavailable n"
    using assms by (auto simp: engine_tools_def list_all_iff)
  have "\<exists>ops. tc_graph w = run_ops graph_step (tc_graph w) ops" for w
    by (rule exI [where x = "[]"]) simp
  then show "writes_graph f" using f graph_writes.executors_act by (auto simp: writes_graph_def)
  show "keeps_path x f" using f engine_paths.executors_act by (auto simp: keeps_path_def)
qed

text \<open>Binding leaves no other executor.\<close>

lemma set_dict_set_subset: "set (dict_set k v d) \<subseteq> insert (k, v) (set d)"
  by (induction k v d rule: dict_set.induct) auto

lemma fold_bind_executors:
  "set (rg_executors (fold (\<lambda>(n, f). bind_executor n f) fs r)) \<subseteq> set fs \<union> set (rg_executors r)"
proof (induction fs arbitrary: r)
  case (Cons y fs)
  obtain n f where y: "y = (n, f)" by fastforce
  show ?case using Cons.IH [of "bind_executor n f r"] set_dict_set_subset [of n f "rg_executors r"]
    by (auto simp: y bind_executor_def)
qed simp

lemma fold_register_executors:
  "set (rg_executors (fold (\<lambda>s. register s (unavailable (ts_name s))) ss r)) \<subseteq>
     (\<lambda>s. (ts_name s, unavailable (ts_name s))) ` set ss \<union> set (rg_executors r)"
proof (induction ss arbitrary: r)
  case (Cons s ss)
  show ?case using Cons.IH [of "register s (unavailable (ts_name s)) r"]
      set_dict_set_subset [of "ts_name s" "unavailable (ts_name s)" "rg_executors r"]
    by (auto simp: register_def bind_executor_def)
qed simp

lemma set_capability_executors: "set_capability nm c r = Inr r1 \<Longrightarrow> rg_executors r1 = rg_executors r"
  by (auto simp: set_capability_def replace_spec_def)

lemma bound_tools:
  assumes "bind_engine_tools s x rd default_registry = Inr r" shows "engine_tools s x rd r"
proof -
  have "rg_executors r = rg_executors (fold (\<lambda>(n, f). bind_executor n f) (engine_executors s x rd) default_registry)"
    using assms unfolding bind_engine_tools_def apply_availability_def by (auto dest!: set_capability_executors)
  then show ?thesis
    using fold_bind_executors [of "engine_executors s x rd" default_registry]
      fold_register_executors [of default_specs empty_registry]
    by (fastforce simp: engine_tools_def list_all_iff default_registry_def empty_registry_def)
qed

end
