(* ===== verification/AgentEffects.thy ===== *)
theory AgentEffects
  imports AgentControl Executors
begin

text \<open>
  What the research agent can change while a model or an external controller drives it. Every
  primitive of the agent is an effect of the locale \<open>agent_effect\<close>, and so are steps and runs; the
  locale is interpreted three times, on the agent's authority, its well-formedness and its iterations.
\<close>

section \<open>Effects\<close>

text \<open>
  A session moves on: what it is, its budget, its findings and what the operator decided stay, and
  no hypothesis becomes verified.
\<close>

definition unverified :: "session \<Rightarrow> bool" where
  "unverified s \<longleftrightarrow> list_all (\<lambda>h. hy_status h \<noteq> HS_VERIFIED) (se_hypotheses s)"

definition same_charter :: "session \<Rightarrow> session \<Rightarrow> bool" where
  "same_charter s t \<longleftrightarrow>
     se_id t = se_id s \<and> se_project t = se_project s \<and> se_target t = se_target s \<and> se_mode t = se_mode s \<and>
     se_program t = se_program s \<and> se_disabled t = se_disabled s \<and> se_paused t = se_paused s \<and>
     se_stopped t = se_stopped s \<and> se_cursor t = se_cursor s \<and> se_findings t = se_findings s"

definition progress :: "session \<Rightarrow> session \<Rightarrow> bool" where
  "progress s t \<longleftrightarrow> same_charter s t \<and> se_budget t = se_budget s \<and> (unverified s \<longrightarrow> unverified t)"

definition registered :: "(tool_context executor \<Rightarrow> bool) \<Rightarrow> agent \<Rightarrow> bool" where
  "registered K a \<longleftrightarrow> list_all (K \<circ> snd) (rg_executors (ag_tools a))"

definition carried :: "(tool_context executor \<Rightarrow> bool) \<Rightarrow> (agent \<Rightarrow> agent \<Rightarrow> bool) \<Rightarrow> agent \<Rightarrow> agent \<Rightarrow> bool" where
  "carried K R a b \<longleftrightarrow> (registered K a \<longrightarrow> registered K b \<and> R a b)"

lemma carried_trans: "transp R \<Longrightarrow> transp (carried K R)"
  by (rule transpI) (auto simp: carried_def dest: transpD)

lemma registered_executor: "registered K a \<Longrightarrow> map_of (rg_executors (ag_tools a)) t = Some f \<Longrightarrow> K f"
  by (fastforce simp: registered_def list_all_iff dest: map_of_SomeD)

lemma admitted_executor:
  assumes "admit_call v q ground a = (Going ad, b)"
  shows "map_of (rg_executors (ag_tools a)) (tq_tool q) = Some (ad_executor ad)"
proof -
  obtain p a1 a3 a4 c n a5 f d where st: "prepare_tool v q ground a = (Going p, a1)"
    "authorize_target (pr_target p) (tq_tool q) (pr_spec p) (pr_arguments p) (tv_readings v) a1 = (Going TA_AUTHORIZED, a3)"
    "charge_tool q p a3 = (Going c, a4)" "start_execution v q ground p c a4 = (Going n, a5)"
    "admit_tool v q a5 = (Going (f, d), b)"
    "ad = \<lparr>ad_prepared = p, ad_cost = c, ad_node = n, ad_executor = f, ad_arguments = d\<rparr>"
    using assms by (rule admit_call_steps)
  show ?thesis
    using admit_tool_Going(1) [OF st(5)] start_execution_Going(2) [OF st(4)] charge_tool_Going(2) [OF st(3)]
      authorize_target_Going(5) [OF st(2)] prepare_tool_Going(6) [OF st(1)] by (simp add: st(6))
qed

lemma estimated_kind: "fst (consume_units_for c) \<noteq> ''iteration''"
  by (auto simp: consume_units_for_def consume_kinds_def Let_def dict_get_def split: option.split if_splits)

lemma update_first_all: "list_all p xs \<Longrightarrow> p y \<Longrightarrow> list_all p (update_first q y xs)"
  by (induction xs) auto

text \<open>
  An effect of agents that every primitive has: entries in the session, nodes and edges of the
  graph, charges of the budget, questions to the engine, permits, and the executors that are in \<open>K\<close>.
\<close>

locale agent_effect =
  fixes R :: "agent \<Rightarrow> agent \<Rightarrow> bool" and K :: "tool_context executor \<Rightarrow> bool"
  assumes R_trans: "transp R"
    and moved: "progress (ag_session a) (f (ag_session a)) \<Longrightarrow> R a (on_session f a)"
    and added: "R a (a\<lparr>ag_graph := snd (add_node u t n (ag_graph a))\<rparr>)"
    and linked: "R a (a\<lparr>ag_graph := snd (link x y r (ag_graph a))\<rparr>)"
    and charged: "(k = ''iteration'' \<Longrightarrow> m = 1) \<Longrightarrow> R a (put_budget (snd (consume k m (se_budget (ag_session a)))) a)"
    and scanned: "R a (put_budget (snd (consume_scan z (se_budget (ag_session a)))) a)"
    and explored: "R a (put_budget (snd (note_exploratory_seconds z (se_budget (ag_session a)))) a)"
    and questioned: "R a (a\<lparr>ag_engine := snd (authorize_request q w (ag_engine a))\<rparr>)"
    and permitted: "R a (a\<lparr>ag_tools := (ag_tools a)\<lparr>rg_permits := p\<rparr>\<rparr>)"
    and called: "K (ad_executor ad) \<Longrightarrow> R a (snd (call_executor ad a))"
begin

lemma keep: "R a b \<Longrightarrow> rg_executors (ag_tools b) = rg_executors (ag_tools a) \<Longrightarrow> carried K R a b"
  by (simp add: carried_def registered_def)

lemma keep_then: "carried K R a b \<Longrightarrow> R b c \<Longrightarrow> rg_executors (ag_tools c) = rg_executors (ag_tools b) \<Longrightarrow> carried K R a c"
  using transpD [OF carried_trans [OF R_trans]] keep by blast

lemma keep_moved: "carried K R a b \<Longrightarrow> progress (ag_session b) (f (ag_session b)) \<Longrightarrow> carried K R a (on_session f b)"
  by (erule keep_then [OF _ moved]) (simp_all add: on_session_def)

lemma keep_refl: "carried K R a a"
proof -
  have "R a (on_session (\<lambda>s. s) a)" by (rule moved) (simp add: progress_def same_charter_def)
  then show ?thesis by (intro keep) (simp_all add: on_session_def)
qed

lemma keep_timeline: "carried K R a b \<Longrightarrow> carried K R a (timeline e b)"
  unfolding timeline_def by (erule keep_moved) (simp add: progress_def same_charter_def log_event_def unverified_def)

lemma keep_state: "carried K R a b \<Longrightarrow> carried K R a (set_state st b)"
  unfolding set_state_def by (erule keep_moved) (simp add: progress_def same_charter_def unverified_def)

lemma keep_remember: "carried K R a b \<Longrightarrow> carried K R a (remember_fingerprint fp ql now b)"
  unfolding remember_fingerprint_def by (erule keep_moved) (simp add: progress_def same_charter_def unverified_def)

lemma keep_exhausted: "carried K R a b \<Longrightarrow> carried K R a (exhaust_budget b)"
  unfolding exhaust_budget_def by (erule keep_moved) (simp add: progress_def same_charter_def unverified_def)

lemmas keep_notes = keep_timeline keep_state keep_remember keep_exhausted keep_refl

lemma keep_charged:
  "carried K R a b \<Longrightarrow> consume k m (se_budget (ag_session b)) = (r, c) \<Longrightarrow> (k = ''iteration'' \<Longrightarrow> m = 1) \<Longrightarrow>
     carried K R a (put_budget c b)"
  using keep_then [OF _ charged [of k m b], of a] by (simp add: put_budget_def on_session_def)

lemma keep_question:
  "carried K R a b \<Longrightarrow> authorize_request q w (ag_engine b) = (r, en) \<Longrightarrow> carried K R a (b\<lparr>ag_engine := en\<rparr>)"
  using keep_then [OF _ questioned [of b q w], of a] by simp

lemma keep_linked: "carried K R a b \<Longrightarrow> link x y l (ag_graph b) = (r, g) \<Longrightarrow> carried K R a (b\<lparr>ag_graph := g\<rparr>)"
  using keep_then [OF _ linked [of b x y l], of a] by simp

lemma keeps_then:
  "leaves (carried K R) m \<Longrightarrow> (\<And>x. leaves (carried K R) (f x)) \<Longrightarrow> leaves (carried K R) (act_then m f)"
  by (rule leaves_then [OF carried_trans [OF R_trans]])

lemma keeps_after: "leaves (carried K R) m \<Longrightarrow> carried K R a b \<Longrightarrow> carried K R a (snd (m b))"
  using transpD [OF carried_trans [OF R_trans]] by (simp add: leaves_def)

lemma keeps_raise: "leaves (carried K R) (\<lambda>a. (r, a))"
  by (simp add: leaves_def keep_refl)

lemma keeps_add: "leaves (carried K R) (add_to_graph uid now na)"
proof -
  have "carried K R a (a\<lparr>ag_graph := g\<rparr>)" if "add_node uid now na (ag_graph a) = (r, g)" for a r g
    using keep [OF added [of a uid now na]] that by simp
  then show ?thesis by (simp add: leaves_def add_to_graph_def split: prod.split)
qed

lemma keeps_prepare: "leaves (carried K R) (prepare_tool v q ground)"
proof -
  have s: "carried K R a (a\<lparr>ag_session := s\<rparr>)"
    if "(if tq_tool q = ''exploratory_test'' then Inr (ag_session a) else check_duplicate fp t (ag_session a)) = Inr s" for a s fp t
  proof -
    have "progress (ag_session a) s"
      using that by (auto simp: check_duplicate_def progress_def same_charter_def unverified_def split: if_splits)
    then have "carried K R a (on_session (\<lambda>_. s) a)" by (intro keep_moved [OF keep_refl]) simp
    then show ?thesis by (simp add: on_session_def)
  qed
  have g: "carried K R a (snd (act_then (add_to_graph uid now na) (\<lambda>x c. (Going (f x), c)) b))" if "carried K R a b"
    for a b uid now na and f :: "evidence_node \<Rightarrow> prepared"
    by (rule keeps_after [OF keeps_then [OF keeps_add] that]) (rule keeps_raise)
  show ?thesis
    unfolding leaves_def
  proof
    fix a
    show "carried K R a (snd (prepare_tool v q ground a))"
      unfolding prepare_tool_def Let_def
      by (auto simp: keep_refl s intro!: g keep_timeline split: sum.split)
  qed
qed

lemma keeps_capable: "leaves (carried K R) (capable_tool v q p)"
  by (auto simp: leaves_def capable_tool_def Let_def intro!: keep_notes split: sum.split)

lemma keeps_authorize: "leaves (carried K R) (authorize_target target tool spec args k)"
  by (auto simp: leaves_def authorize_target_def keep_refl intro: keep_question [OF keep_refl] split: sum.split prod.split)

lemma keeps_clear: "leaves (carried K R) (clear_tool v q ground p)"
  unfolding clear_tool_def
  by (rule keeps_then [OF keeps_authorize]) (auto simp: leaves_def intro!: keep_notes split: tool_authorization.split)

lemma keeps_charge: "leaves (carried K R) (charge_tool q p)"
proof -
  have c: "carried K R a (put_budget b a)" if "charge_estimate c (se_budget (ag_session a)) = (r, b)" for a b c r
  proof -
    obtain r1 b1 where 1: "consume ''tool'' 1 (se_budget (ag_session a)) = (r1, b1)" by fastforce
    have k1: "carried K R a (put_budget b1 a)" by (rule keep_charged [OF keep_refl 1]) simp
    have "put_budget b a = put_budget b (put_budget b1 a)" by (simp add: put_budget_def on_session_def)
    moreover have "b = b1 \<or> (\<exists>k m r. consume k m (se_budget (ag_session (put_budget b1 a))) = (r, b) \<and> k \<noteq> ''iteration'')"
      using that 1 estimated_kind [of c]
      by (auto simp: charge_estimate_def put_budget_def on_session_def split: sum.splits prod.splits if_splits)
    ultimately show ?thesis using k1 keep_charged [OF k1] by metis
  qed
  show ?thesis
    by (auto simp: leaves_def charge_tool_def Let_def intro!: keep_notes intro: c split: sum.split prod.split)
qed

lemma keeps_start: "leaves (carried K R) (start_execution v q ground p c)"
  unfolding leaves_def start_execution_def Let_def
  by (auto intro!: keeps_after [OF keeps_add] keep_timeline keep_moved keep_refl
      simp: progress_def same_charter_def unverified_def)

lemma keeps_admit: "leaves (carried K R) (admit_tool v q)"
proof -
  have p: "carried K R a (a\<lparr>ag_tools := t\<rparr>)"
    if "issue_permit nm se md no (ag_tools a) = Inr (pm, r1)" "admit_execution ck q (Some pm) r1 = (out, t)"
    for a t nm se md no pm r1 ck out
  proof -
    have "t = (ag_tools a)\<lparr>rg_permits := rg_permits t\<rparr>"
      using that by (auto simp: issue_permit_def admit_execution_def Let_def split: if_splits)
    moreover have "rg_executors t = rg_executors (ag_tools a)"
      using that by (auto simp: issue_permit_def admit_execution_def Let_def split: if_splits)
    ultimately show ?thesis using keep [OF permitted [of a "rg_permits t"]] by simp
  qed
  show ?thesis
    by (auto simp: leaves_def admit_tool_def Let_def keep_refl p split: sum.split prod.split)
qed

lemma keeps_admit_call: "leaves (carried K R) (admit_call v q ground)"
  unfolding admit_call_def
  by (intro keeps_then keeps_prepare keeps_capable keeps_clear keeps_charge keeps_start keeps_admit)
    (auto simp: leaves_def keep_refl)

lemma keeps_failure: "leaves (carried K R) (executor_failure v q p exc)"
  by (cases exc) (auto simp: leaves_def executor_failure_def intro!: keep_notes)

lemma keeps_exhausted:
  "carried K R a (put_budget b a) \<Longrightarrow> carried K R a (snd (ok_or_exhausted (r, b) a))"
  by (auto simp: ok_or_exhausted_def intro!: keep_exhausted split: sum.split error.split)

lemma keeps_scan: "leaves (carried K R) (charge_scan r)"
proof -
  have "carried K R a (snd (ok_or_exhausted (consume_scan z (se_budget (ag_session a))) a))" for a z
    using keep [OF scanned [of a z]]
    by (cases "consume_scan z (se_budget (ag_session a))") (auto intro!: keeps_exhausted simp: put_budget_def on_session_def)
  then show ?thesis by (auto simp: leaves_def charge_scan_def Let_def keep_refl split: sum.split)
qed

lemma keeps_exploration: "leaves (carried K R) (charge_exploration tool r)"
proof -
  have "carried K R a (snd (ok_or_exhausted (note_exploratory_seconds z (se_budget (ag_session a))) a))" for a z
    using keep [OF explored [of a z]]
    by (cases "note_exploratory_seconds z (se_budget (ag_session a))")
      (auto intro!: keeps_exhausted simp: put_budget_def on_session_def)
  then show ?thesis by (auto simp: leaves_def charge_exploration_def Let_def keep_refl split: sum.split)
qed

lemma keeps_produced: "leaves (carried K R) (link_produced node x)"
  by (auto simp: leaves_def link_produced_def keep_refl intro: keep_linked [OF keep_refl] split: sum.split prod.split)

lemma keeps_each: "leaves (carried K R) (link_each node xs)"
  by (induction xs) (simp_all add: leaves_def keep_refl, metis keeps_produced keeps_then leaves_def)

lemma keeps_evidence: "leaves (carried K R) (link_evidence node r)"
  unfolding link_evidence_def
  by (intro keeps_then keeps_raise keeps_each) (simp add: keeps_produced keeps_raise)

lemma keeps_observe: "leaves (carried K R) (observe_result v q ad quality r)"
proof -
  have s: "leaves (carried K R) (act_then (add_to_graph uid now na)
      (\<lambda>node. act_then (link_evidence i r) (\<lambda>_ a1. (Going (Some node), a1))))" for uid now na i
    by (intro keeps_then keeps_add keeps_evidence keeps_raise)
  then show ?thesis by (simp add: leaves_def observe_result_def keep_refl)
qed

lemma keeps_record: "leaves (carried K R) (record_call v q ground p r quality ident)"
  unfolding leaves_def record_call_def Let_def
  by (auto intro!: keep_notes keep_moved simp: progress_def same_charter_def unverified_def split: sum.split)

lemma keeps_finish: "leaves (carried K R) (finish_call v q ground ad r)"
  unfolding finish_call_def Let_def
  by (intro keeps_then keeps_scan keeps_exploration keeps_observe keeps_record keeps_raise)

lemma keeps_tool: "carried K R a (snd (execute_agent_tool v q ground a))"
proof -
  obtain r b where r: "admit_call v q ground a = (r, b)" by fastforce
  have k: "carried K R a b" by (rule leavesD [OF keeps_admit_call r])
  show ?thesis
  proof (cases r)
    case (Going ad)
    obtain out c where c: "call_executor ad b = (out, c)" by fastforce
    have "carried K R a c"
      unfolding carried_def
    proof
      assume reg: "registered K a"
      have "map_of (rg_executors (ag_tools a)) (tq_tool q) = Some (ad_executor ad)"
        using admitted_executor r Going by simp
      then have "K (ad_executor ad)" by (rule registered_executor [OF reg])
      then have "R b c" using called [of ad b] c by simp
      moreover have "ag_tools c = ag_tools b" using c by (auto simp: call_executor_def split: prod.splits)
      ultimately show "registered K c \<and> R a c"
        using k reg transpD [OF R_trans] by (auto simp: carried_def registered_def)
    qed
    then have "carried K R a (snd (executor_failure v q p e c))" "carried K R a (snd (finish_call v q ground ad d c))" for p e d
      using keeps_after [OF keeps_failure] keeps_after [OF keeps_finish] by blast+
    then show ?thesis using r c Going
      by (auto simp: execute_agent_tool_def act_then_def split: sum.splits flow.splits prod.splits) (metis snd_conv)+
  qed (use r k in \<open>simp_all add: execute_agent_tool_def act_then_def\<close>)
qed

lemma keep_put_hypothesis:
  assumes "carried K R a b" and "unverified (ag_session b) \<Longrightarrow> hy_status h \<noteq> HS_VERIFIED"
  shows "carried K R a (put_hypothesis h b)"
  unfolding put_hypothesis_def
  by (rule keep_moved [OF assms(1)])
    (use assms(2) in \<open>auto simp: progress_def same_charter_def unverified_def update_first_all\<close>)

lemma keeps_cited: "leaves (carried K R) (link_cited node rel is)"
proof -
  have "carried K R a (snd (link_cited node rel is b))" if "carried K R a b" for a b
    using that by (induction "is" arbitrary: b) (auto intro: keep_linked split: sum.split prod.split)
  then show ?thesis by (simp add: leaves_def keep_refl)
qed

lemma keeps_node: "leaves (carried K R) (node_for v uid h)"
proof -
  have "leaves (carried K R) (act_then (add_to_graph uid t n) (\<lambda>n b. (Going (nd_id n), b)))" for t n
    by (intro keeps_then keeps_add keeps_raise)
  then show ?thesis by (simp add: leaves_def node_for_def keep_refl split: option.split)
qed

lemma keeps_new:
  assumes h: "hy_status h \<noteq> HS_VERIFIED"
  shows "leaves (carried K R) (record_new v uid h)"
proof -
  have e: "carried K R a (enter_hypothesis v h a)" for a
    unfolding enter_hypothesis_def
    by (rule keep_moved [OF keep_refl]) (use h in \<open>simp add: progress_def same_charter_def unverified_def\<close>)
  have "leaves (carried K R) (act_then (link_cited node r is) (\<lambda>_. link_cited node r' is'))" for node r r' "is" is'
    by (intro keeps_then keeps_cited)
  then have "leaves (carried K R) (\<lambda>a. act_then (link_cited node r is) (\<lambda>_. link_cited node r' is') (enter_hypothesis v h a))"
    for node r r' "is" is'
    unfolding leaves_def using keeps_after e by (metis leaves_def)
  then show ?thesis unfolding record_new_def by (intro keeps_then keeps_node)
qed

lemma keep_recorded: "carried K R a b \<Longrightarrow> carried K R a (hypothesis_recorded h b)"
  unfolding hypothesis_recorded_def by (intro keep_timeline keep_state)

lemma keeps_hypothesis: "leaves (carried K R) (record_hypothesis v uid updating h)"
  unfolding leaves_def
proof
  fix a
  show "carried K R a (snd (record_hypothesis v uid updating h a))"
  proof (cases "hy_status h = HS_VERIFIED")
    case True
    then show ?thesis by (simp add: record_hypothesis_def keep_refl)
  next
    case False
    have m: "carried K R a (put_hypothesis (merged_hypothesis old h) a)"
      if "then_do (hypothesis_fingerprint h) (\<lambda>fp. first_with hypothesis_fingerprint fp (se_hypotheses (ag_session a))) = Inr (Some old)"
      for old
    proof (rule keep_put_hypothesis [OF keep_refl])
      have "old \<in> set (se_hypotheses (ag_session a))" using that by (auto dest: first_with_in)
      moreover assume "unverified (ag_session a)"
      ultimately show "hy_status (merged_hypothesis old h) \<noteq> HS_VERIFIED"
        by (simp add: merged_hypothesis_def unverified_def list_all_iff)
    qed
    have n: "carried K R a (snd (act_then (record_new v uid h) (\<lambda>_ b. (Going (), hypothesis_recorded h b)) a))"
    proof -
      have "leaves (carried K R) (act_then (record_new v uid h) (\<lambda>_ b. (Going (), hypothesis_recorded h b)))"
        by (intro keeps_then keeps_new False) (simp add: leaves_def keep_recorded keep_refl)
      then show ?thesis by (simp add: leaves_def)
    qed
    show ?thesis
      unfolding record_hypothesis_def
      using False n by (auto intro!: keep_notes keep_recorded m split: sum.split option.split)
  qed
qed

lemma keep_finalized: "carried K R a b \<Longrightarrow> carried K R a (finalize_run n limit b)"
  unfolding finalize_run_def
  by (erule keep_moved) (simp add: finalize_session_def end_with_def progress_def same_charter_def unverified_def)

lemma keep_thinking: "carried K R a b \<Longrightarrow> carried K R a (noted_thinking d b)"
  by (simp add: noted_thinking_def keep_timeline)

lemma keep_plan: "carried K R a b \<Longrightarrow> carried K R a (apply_plan p b)"
  unfolding apply_plan_def
  by (intro keep_timeline keep_state keep_moved) (simp_all add: progress_def same_charter_def unverified_def)

lemma keeps_run_tool: "leaves (carried K R) (run_tool v q ground)"
  unfolding leaves_def run_tool_def using keeps_tool by (auto split: sum.split prod.split) (metis snd_conv)+

lemma keeps_decision: "leaves (carried K R) (apply_decision v d)"
  unfolding leaves_def
proof
  fix a
  let ?b = "noted_thinking d a"
  have b: "carried K R a ?b" by (rule keep_thinking [OF keep_refl])
  show "carried K R a (snd (apply_decision v d a))"
    unfolding apply_decision_def Let_def
    using keeps_after [OF keeps_hypothesis b] keeps_after [OF keeps_run_tool b] keep_plan [OF b] keep_finalized [OF b]
      keep_timeline [OF b] keep_timeline [OF keep_state [OF b]]
    by simp
qed

lemma keeps_decided: "leaves (carried K R) (decided v d)"
  unfolding decided_def by (intro keeps_then keeps_decision keeps_raise)

lemma keep_iterations: "carried K R a b \<Longrightarrow> carried K R a (iteration_exhausted e b)"
  unfolding iteration_exhausted_def
  by (intro keep_timeline keep_moved keep_exhausted) (simp_all add: progress_def same_charter_def unverified_def)

lemma keeps_paid: "leaves (carried K R) m \<Longrightarrow> leaves (carried K R) (paid_step m)"
  unfolding leaves_def paid_step_def
  by (auto simp: keep_refl intro!: keep_iterations intro: keep_charged [OF keep_refl]
      split: sum.split prod.split dest: keeps_after [unfolded leaves_def])

lemma keeps_step: "leaves (carried K R) plan \<Longrightarrow> leaves (carried K R) (agent_step v plan)"
proof -
  assume p: "leaves (carried K R) plan"
  have "leaves (carried K R) (\<lambda>a. case plan a of (Inl e, b) \<Rightarrow> (Raised e, b) | (Inr d, b) \<Rightarrow> decided v d b)"
    unfolding leaves_def
  proof
    fix a
    obtain r b where r: "plan a = (r, b)" by fastforce
    have "carried K R a b" by (rule leavesD [OF p r])
    then show "carried K R a (snd (case plan a of (Inl e, b) \<Rightarrow> (Raised e, b) | (Inr d, b) \<Rightarrow> decided v d b))"
      using r keeps_after [OF keeps_decided] by (cases r) simp_all
  qed
  moreover have "leaves (carried K R) refuse_cursor"
    by (auto simp: leaves_def refuse_cursor_def intro!: keep_notes)
  ultimately show ?thesis unfolding agent_step_def by (intro keeps_then keeps_paid)
qed

lemma keeps_run_steps: "(\<And>i. leaves (carried K R) (plan i)) \<Longrightarrow> carried K R a0 a \<Longrightarrow> carried K R a0 (snd (run_steps v plan k i a))"
proof (induction k arbitrary: i a)
  case (Suc k)
  obtain r b where r: "agent_step (v i) (plan i) a = (r, b)" by fastforce
  have "carried K R a0 b" using keeps_after [OF keeps_step [OF Suc.prems(1)] Suc.prems(2)] r by (metis snd_conv)
  then show ?case using r Suc by (auto split: flow.split)
qed simp

lemma keeps_run:
  assumes "\<And>i. leaves (carried K R) (plan i)"
  shows "leaves (carried K R) (agent_run v plan given)"
  unfolding leaves_def
proof
  fix a
  let ?limit = "run_limit given a"
  obtain r b where r: "run_steps v plan (nat ?limit) 0 a = (r, b)" by fastforce
  have "carried K R a b" using keeps_run_steps [where plan = plan and v = v and k = "nat ?limit" and i = 0 and a = a, OF assms keep_refl] r by simp
  then show "carried K R a (snd (agent_run v plan given a))"
    by (cases r) (simp_all add: agent_run_def Let_def act_then_def r keep_finalized)
qed

lemma keeps_update:
  "update_hypothesis ident st support against a = (r, b) \<Longrightarrow> carried K R c a \<Longrightarrow> carried K R c b"
  by (auto simp: update_hypothesis_def Let_def intro!: keep_timeline keep_put_hypothesis split: if_splits option.splits)

lemma updated_status: "update_hypothesis ident st support against a = (Inr h, b) \<Longrightarrow> hy_status h \<noteq> HS_VERIFIED"
  by (auto simp: update_hypothesis_def Let_def split: if_splits option.splits)

lemma keeps_from_planner: "leaves (carried K R) (decision_from_planner uid o1 thinking)"
  unfolding leaves_def decision_from_planner_def Let_def
  by (auto simp: keep_refl updated_status intro!: keep_put_hypothesis intro: keeps_update [OF _ keep_refl]
      split: sum.split prod.split)

lemma keeps_llm: "leaves (carried K R) (llm_planner uid complete1)"
proof -
  have b: "carried K R a (put_budget b a)"
    if "(if n \<noteq> 0 then consume ''token'' n (se_budget (ag_session a)) else (Inr (), se_budget (ag_session a))) = (r, b)"
    for a n r b
  proof (cases "n = 0")
    case True
    with that have "put_budget b a = a" by (simp add: put_budget_def on_session_def)
    then show ?thesis by (simp add: keep_refl)
  next
    case False
    from False that have "consume ''token'' n (se_budget (ag_session a)) = (r, b)" by simp
    then show ?thesis by (rule keep_charged [OF keep_refl]) simp
  qed
  have d: "carried K R a (snd (decision_from_planner uid o1 th c))" if "carried K R a c" for a o1 th c
    using keeps_after [OF keeps_from_planner that] .
  have t: "carried K R a (snd (token_exhausted e c))" if "carried K R a c" for a e c
    using that by (simp add: token_exhausted_def keep_exhausted)
  show ?thesis
    unfolding leaves_def
  proof
    fix a
    show "carried K R a (snd (llm_planner uid complete1 a))"
    proof (cases "complete1 a")
      case (Inr c)
      obtain r b2 where r: "(if co_tokens c \<noteq> 0 then consume ''token'' (co_tokens c) (se_budget (ag_session a))
          else (Inr (), se_budget (ag_session a))) = (r, b2)" by fastforce
      note k = b [OF r]
      show ?thesis
      proof (cases r)
        case (Inl e)
        then show ?thesis using k t [OF k]
          by (simp add: llm_planner_def \<open>complete1 a = Inr c\<close> r split: error.split)
      next
        case (Inr u)
        define a2 where "a2 = (if co_thinking c = [] then put_budget b2 a
          else timeline ((event ''thinking'')\<lparr>te_decision := ''model thinking ignored as evidence''\<rparr>) (put_budget b2 a))"
        have k2: "carried K R a a2" using k by (simp add: a2_def keep_timeline)
        have "llm_planner uid complete1 a = (case answered_output c of
            Inl (ValueError m) \<Rightarrow>
              (Inr ((plain_decision ''analyze'')\<lparr>dc_note := ''unparseable model output'', dc_thinking := co_thinking c\<rparr>),
               timeline ((event ''model_decision'')\<lparr>te_decision := ''rejected_malformed:'' @ m\<rparr>) a2)
          | Inl e \<Rightarrow> (Inl e, a2)
          | Inr o1 \<Rightarrow>
              if po_kind o1 \<in> set forbidden_ai_actions then (Inl (RestrictedActivityError (po_kind o1)), a2)
              else decision_from_planner uid o1 (co_thinking c)
                (timeline ((event ''model_decision'')\<lparr>te_decision := po_kind o1\<rparr>) a2))"
          by (simp only: llm_planner_def \<open>complete1 a = Inr c\<close> r Inr Let_def a2_def sum.case prod.case)
        then show ?thesis
          using k2 keep_timeline [OF k2] d [OF keep_timeline [OF k2]] by (simp split: sum.split error.split)
      qed
    qed (simp add: llm_planner_def keep_refl)
  qed
qed

lemma keeps_external: "leaves (carried K R) (external_decision uid o1)"
  using keeps_from_planner by (simp add: leaves_def external_decision_def keep_refl Let_def)

lemma keep_rejected: "carried K R a b \<Longrightarrow> carried K R a (snd (rejected_output e b))"
  by (simp add: rejected_output_def keep_timeline)

lemma keeps_applied: "leaves (carried K R) (apply_external_decision v uid raw)"
proof -
  have "leaves (carried K R) (\<lambda>b. case then_do raw check_planner of
          Inl e \<Rightarrow> rejected_output e b
        | Inr o1 \<Rightarrow>
            (let b1 = timeline ((event ''external_decision'')\<lparr>te_decision := po_kind o1, te_result := ''cursor_external''\<rparr>) b
             in case external_decision uid o1 b1 of
                  (Inl (ValueError m), b2) \<Rightarrow> rejected_output (ValueError m) b2
                | (Inl e, b2) \<Rightarrow> (Raised e, b2)
                | (Inr d, b2) \<Rightarrow> decided v d b2))"
    (is "leaves _ ?m")
    unfolding leaves_def
  proof
    fix a
    have x: "carried K R a b2" if "external_decision uid o1 (timeline e a) = (r, b2)" for o1 e r b2
      using keeps_after [OF keeps_external keep_timeline [OF keep_refl]] that by (metis snd_conv)
    show "carried K R a (snd (?m a))"
      unfolding Let_def
      by (auto intro!: keep_rejected keep_refl keeps_after [OF keeps_decided] intro: x
          split: sum.split prod.split error.split)
  qed
  from keeps_paid [OF this] show ?thesis
    by (simp add: leaves_def apply_external_decision_def keep_refl)
qed


end


section \<open>The planner has no authority\<close>

text \<open>
  What an operator gave an agent: its charter, the caps of its budget and its tools stay; its engine
  moves only by steps that leave the set-up alone and by calls into the adapters \<open>x\<close>.
\<close>

definition same_authority :: "tool_outside \<Rightarrow> agent \<Rightarrow> agent \<Rightarrow> bool" where
  "same_authority x a b \<longleftrightarrow>
     same_charter (ag_session a) (ag_session b) \<and>
     (\<forall>c. cap_of c (se_budget (ag_session b)) = cap_of c (se_budget (ag_session a))) \<and>
     rg_specs (ag_tools b) = rg_specs (ag_tools a) \<and> rg_executors (ag_tools b) = rg_executors (ag_tools a) \<and>
     rg_disabled (ag_tools b) = rg_disabled (ag_tools a) \<and> engine_path x (ag_engine a) (ag_engine b)"

lemma same_authority_trans: "transp (same_authority x)"
  by (rule transpI) (auto simp: same_authority_def same_charter_def intro: engine_path_trans)

lemma put_budget_authority:
  "(\<And>c. cap_of c b = cap_of c (se_budget (ag_session a))) \<Longrightarrow> same_authority x a (put_budget b a)"
  by (simp add: same_authority_def put_budget_def on_session_def same_charter_def)

lemma call_executor_parts:
  assumes "call_executor ad a = (out, b)"
  shows "ag_session b = ag_session a" "ag_tools b = ag_tools a"
    "\<exists>w. ad_executor ad (ad_arguments ad) (tool_context_of a) = (out, w) \<and> ag_engine b = tc_engine w \<and> ag_graph b = tc_graph w"
  using assms by (auto simp: call_executor_def split: prod.splits)

interpretation authority: agent_effect "same_authority x" "keeps_path x" for x
proof
  show "transp (same_authority x)" by (rule same_authority_trans)
  show "same_authority x a (on_session f a)" if "progress (ag_session a) (f (ag_session a))" for a f
    using that by (simp add: same_authority_def progress_def on_session_def)
  show "same_authority x a (a\<lparr>ag_graph := g\<rparr>)" for a g by (simp add: same_authority_def same_charter_def)
  show "same_authority x a (a\<lparr>ag_graph := g\<rparr>)" for a g by (simp add: same_authority_def same_charter_def)
  show "same_authority x a (put_budget (snd (consume k m (se_budget (ag_session a)))) a)" for a k m
    by (rule put_budget_authority) (rule consume_caps)
  show "same_authority x a (put_budget (snd (consume_scan z (se_budget (ag_session a)))) a)" for a z
    by (rule put_budget_authority) (rule seconds_effect)
  show "same_authority x a (put_budget (snd (note_exploratory_seconds z (se_budget (ag_session a)))) a)" for a z
    by (rule put_budget_authority) (rule seconds_effect)
  show "same_authority x a (a\<lparr>ag_engine := snd (authorize_request q w (ag_engine a))\<rparr>)" for a q w
  proof -
    obtain r e where "authorize_request q w (ag_engine a) = (r, e)" by fastforce
    then show ?thesis using authorize_request_same [of q w "ag_engine a" r e] engine_path_own [of e "ag_engine a" x]
      by (simp add: same_authority_def same_charter_def)
  qed
  show "same_authority x a (a\<lparr>ag_tools := (ag_tools a)\<lparr>rg_permits := p\<rparr>\<rparr>)" for a p
    by (simp add: same_authority_def same_charter_def)
  show "same_authority x a (snd (call_executor ad a))" if k: "keeps_path x (ad_executor ad)" for ad a
  proof -
    obtain out b where b: "call_executor ad a = (out, b)" by fastforce
    note parts = call_executor_parts [OF b]
    obtain w where w: "ad_executor ad (ad_arguments ad) (tool_context_of a) = (out, w)" "ag_engine b = tc_engine w"
      using parts(3) by blast
    have "engine_path x (tc_engine (tool_context_of a)) (tc_engine w)" using k w(1) unfolding keeps_path_def by (metis snd_conv)
    then show ?thesis using b parts(1,2) w(2) by (simp add: same_authority_def same_charter_def tool_context_of_def)
  qed
qed

lemma tools_registered:
  assumes "engine_tools s x rd (ag_tools a)" shows "registered writes_graph a" and "registered (keeps_path x) a"
  using engine_tools_act [OF assms] by (auto simp: registered_def list_all_iff)

text \<open>C16. For an agent with the tools that \<open>bind_engine_tools\<close> binds: whatever a model answers in the
  steps of a run, and whatever an external controller sends, the agent's mode, program, target, pause
  and stop, disabled tools, findings, budget caps and registered tools are what they were; the scope,
  permissions, approvals and limits of its engine change, if at all, inside a call into one of the
  adapters that are given the engine (browser, scanners, fuzzer, API tests), so that they stay when the
  adapters leave them alone.
\<close>

theorem planner_has_no_authority:
  assumes "engine_tools s x rd (ag_tools a)"
    and "b \<in> {snd (agent_run v (\<lambda>i. llm_planner (uid i) (answer i)) given a), snd (apply_external_decision w ident raw a)}"
  shows "same_authority x a b \<and>
    ((\<forall>e e'. adapter_call x e e' \<longrightarrow> same_setup e' e) \<longrightarrow> same_setup (ag_engine b) (ag_engine a))"
proof
  show moved: "same_authority x a b"
    using assms(2) tools_registered(2) [OF assms(1)] authority.keeps_applied [where x = x and v = w and uid = ident and raw = raw]
      authority.keeps_run [where x = x, OF authority.keeps_llm, where v = v and given = given]
    by (auto simp: leaves_def carried_def)
  show "(\<forall>e e'. adapter_call x e e' \<longrightarrow> same_setup e' e) \<longrightarrow> same_setup (ag_engine b) (ag_engine a)"
    using moved engine_path_setup by (auto simp: same_authority_def)
qed

section \<open>Well-formed agents\<close>

definition agent_ok :: "agent \<Rightarrow> bool" where
  "agent_ok a \<longleftrightarrow> graph_ok (ag_graph a) \<and> unverified (ag_session a)"

definition stays_ok :: "agent \<Rightarrow> agent \<Rightarrow> bool" where
  "stays_ok a b \<longleftrightarrow> (agent_ok a \<longrightarrow> agent_ok b)"

interpretation wellformed: agent_effect stays_ok writes_graph
proof
  show "transp stays_ok" by (rule transpI) (simp add: stays_ok_def)
  show "stays_ok a (on_session f a)" if "progress (ag_session a) (f (ag_session a))" for a f
    using that by (simp add: stays_ok_def agent_ok_def progress_def on_session_def)
  show "stays_ok a (a\<lparr>ag_graph := snd (add_node u t n (ag_graph a))\<rparr>)" for a u t n
    by (simp add: stays_ok_def agent_ok_def add_node_ok)
  show "stays_ok a (a\<lparr>ag_graph := snd (link x y r (ag_graph a))\<rparr>)" for a x y r
    by (simp add: stays_ok_def agent_ok_def link_ok)
  show "stays_ok a (put_budget b a)" for a b
    by (simp add: stays_ok_def agent_ok_def put_budget_def on_session_def unverified_def)
  show "stays_ok a (put_budget b a)" for a b
    by (simp add: stays_ok_def agent_ok_def put_budget_def on_session_def unverified_def)
  show "stays_ok a (put_budget b a)" for a b
    by (simp add: stays_ok_def agent_ok_def put_budget_def on_session_def unverified_def)
  show "stays_ok a (a\<lparr>ag_engine := en\<rparr>)" for a en by (simp add: stays_ok_def agent_ok_def)
  show "stays_ok a (a\<lparr>ag_tools := r\<rparr>)" for a r by (simp add: stays_ok_def agent_ok_def)
  show "stays_ok a (snd (call_executor ad a))" if k: "writes_graph (ad_executor ad)" for ad a
  proof -
    obtain out b where b: "call_executor ad a = (out, b)" by fastforce
    note parts = call_executor_parts [OF b]
    obtain w where w: "ad_executor ad (ad_arguments ad) (tool_context_of a) = (out, w)" "ag_graph b = tc_graph w"
      using parts(3) by blast
    obtain ops where "tc_graph w = run_ops graph_step (ag_graph a) ops"
      using k w(1) unfolding writes_graph_def by (metis snd_conv tool_context.select_convs(2) tool_context_of_def)
    then have "graph_ok (ag_graph a) \<longrightarrow> graph_ok (tc_graph w)"
      using growing.run_keeps [OF _ growing.always_guarded] by simp
    then show ?thesis using b parts(1) w(2) by (simp add: stays_ok_def agent_ok_def)
  qed
qed

text \<open>C23. An agent with the tools that \<open>bind_engine_tools\<close> binds stays well formed through every step of a
  run and every external decision, whatever the tools do: its evidence graph is sound and none of its
  hypotheses is verified. What the adapters behind the tools return is arbitrary.
\<close>

theorem agents_stay_well_formed:
  assumes "engine_tools s x rd (ag_tools a)" and "agent_ok a"
  shows "agent_ok (snd (agent_run v (\<lambda>i. llm_planner (uid i) (answer i)) given a)) \<and>
    agent_ok (snd (apply_external_decision w ident raw a))"
  using tools_registered(1) [OF assms(1)] assms(2) wellformed.keeps_run [OF wellformed.keeps_llm, of v uid answer given]
    wellformed.keeps_applied [of w ident raw]
  by (simp add: leaves_def carried_def stays_ok_def)

section \<open>Runs end\<close>

definition iterations_grow :: "agent \<Rightarrow> agent \<Rightarrow> bool" where
  "iterations_grow a b \<longleftrightarrow>
     b_max_iterations (se_budget (ag_session b)) = b_max_iterations (se_budget (ag_session a)) \<and>
     b_iterations (se_budget (ag_session a)) \<le> b_iterations (se_budget (ag_session b))"

lemma put_budget_iterations:
  "cap_of BC_Iteration b = cap_of BC_Iteration (se_budget (ag_session a)) \<Longrightarrow>
   used_of BC_Iteration (se_budget (ag_session a)) \<le> used_of BC_Iteration b \<Longrightarrow> iterations_grow a (put_budget b a)"
  by (simp add: iterations_grow_def put_budget_def on_session_def)

interpretation counting: agent_effect iterations_grow "\<lambda>_. True"
proof
  show "transp iterations_grow" by (rule transpI) (simp add: iterations_grow_def)
  show "iterations_grow a (on_session f a)" if "progress (ag_session a) (f (ag_session a))" for a f
    using that by (simp add: iterations_grow_def progress_def on_session_def)
  show "iterations_grow a (put_budget (snd (consume k m (se_budget (ag_session a)))) a)"
    if "k = ''iteration'' \<Longrightarrow> m = 1" for a k m
  proof (rule put_budget_iterations [OF consume_caps])
    show "used_of BC_Iteration (se_budget (ag_session a)) \<le> used_of BC_Iteration (snd (consume k m (se_budget (ag_session a))))"
      using that consume_else [of BC_Iteration k m "se_budget (ag_session a)"]
        consume_more [of m BC_Iteration "se_budget (ag_session a)" k] by (cases "k = ''iteration''") simp_all
  qed
  show "iterations_grow a (put_budget (snd (consume_scan z (se_budget (ag_session a)))) a)" for a z
    by (rule put_budget_iterations) (simp_all add: seconds_effect del: cap_of.simps used_of.simps)
  show "iterations_grow a (put_budget (snd (note_exploratory_seconds z (se_budget (ag_session a)))) a)" for a z
    by (rule put_budget_iterations) (simp_all add: seconds_effect del: cap_of.simps used_of.simps)
  show "iterations_grow a (snd (call_executor ad a))" for ad a
    by (cases "call_executor ad a") (simp add: call_executor_parts iterations_grow_def)
qed (simp_all add: iterations_grow_def)

lemma counted: "carried (\<lambda>_. True) iterations_grow a b \<longleftrightarrow> iterations_grow a b"
  by (simp add: carried_def registered_def list_all_iff)

lemma counted_after: "leaves (carried (\<lambda>_. True) iterations_grow) m \<Longrightarrow> m a = (r, b) \<Longrightarrow> iterations_grow a b"
  by (drule leavesD) (simp_all add: counted)

text \<open>A step is paid for; without a budget the session is exhausted.\<close>

lemma step_is_paid:
  assumes step: "agent_step v plan a = (Going kind, b)" and plan: "leaves (carried (\<lambda>_. True) iterations_grow) plan"
    and run: "\<not> (se_stopped (ag_session a) \<or> se_paused (ag_session a))"
  shows "b_iterations (se_budget (ag_session a)) + 1 \<le> b_iterations (se_budget (ag_session b)) \<and>
    b_max_iterations (se_budget (ag_session b)) = b_max_iterations (se_budget (ag_session a)) \<and>
    (b_max_iterations (se_budget (ag_session a)) \<le> b_iterations (se_budget (ag_session a)) \<longrightarrow>
       se_state (ag_session b) = S_BUDGET_EXHAUSTED)"
proof -
  let ?bg = "se_budget (ag_session a)"
  obtain r c where c: "consume ''iteration'' 1 ?bg = (r, c)" by fastforce
  have paid: "b_iterations c = b_iterations ?bg + 1 \<and> b_max_iterations c = b_max_iterations ?bg \<and>
      (is_ok r \<longleftrightarrow> b_iterations ?bg + 1 \<le> b_max_iterations ?bg)"
    using c by (auto simp: consume_def Let_def capped_def split: if_splits)
  have cursor: "refuse_cursor a = (Going (), a)"
    using step by (auto simp: agent_step_def act_then_def refuse_cursor_def split: if_splits)
  show ?thesis
  proof (cases r)
    case (Inl e)
    then have "b = iteration_exhausted e (put_budget c a)"
      using step run c by (simp add: agent_step_def act_then_def cursor paid_step_def)
    then show ?thesis using paid
      by (simp add: iteration_exhausted_def timeline_def on_session_def log_event_def exhaust_budget_def put_budget_def)
  next
    case (Inr u)
    then have m: "(case plan (put_budget c a) of (Inl e, b) \<Rightarrow> (Raised e, b) | (Inr d, b) \<Rightarrow> decided v d b) = (Going kind, b)"
      using step run c by (simp add: agent_step_def act_then_def cursor paid_step_def)
    then obtain d b1 where p: "plan (put_budget c a) = (Inr d, b1)" and d: "decided v d b1 = (Going kind, b)"
      by (auto split: prod.splits sum.splits)
    have "iterations_grow (put_budget c a) b1" "iterations_grow b1 b"
      using counted_after [OF plan p] counted_after [OF counting.keeps_decided d] by blast+
    then show ?thesis using paid Inr by (auto simp: iterations_grow_def put_budget_def on_session_def)
  qed
qed

text \<open>The agents that the planner is asked about in a run, with the numbers of their steps.\<close>

definition step_asks :: "agent \<Rightarrow> agent option" where
  "step_asks a =
     (if se_cursor (ag_session a) \<or> se_stopped (ag_session a) \<or> se_paused (ag_session a) then None
      else case consume ''iteration'' 1 (se_budget (ag_session a)) of
        (Inl e, b) \<Rightarrow> None | (Inr u, b) \<Rightarrow> Some (put_budget b a))"

fun planner_calls :: "(nat \<Rightarrow> step_env) \<Rightarrow> (nat \<Rightarrow> planner) \<Rightarrow> nat \<Rightarrow> nat \<Rightarrow> agent \<Rightarrow> (nat \<times> agent) list" where
  "planner_calls v plan 0 i a = []"
| "planner_calls v plan (Suc k) i a =
     (if se_stopped (ag_session a) \<or> se_paused (ag_session a) \<or> se_state (ag_session a) \<in> set terminal_states then []
      else (case step_asks a of None \<Rightarrow> [] | Some b \<Rightarrow> [(i, b)]) @
        (case agent_step (v i) (plan i) a of (Going kind, b) \<Rightarrow> planner_calls v plan k (Suc i) b | _ \<Rightarrow> []))"

text \<open>They are all: a step depends on the planner only there, and so does a run.\<close>

lemma step_asks_only:
  assumes "\<And>b. step_asks a = Some b \<Longrightarrow> plan b = plan' b" shows "agent_step v plan a = agent_step v plan' a"
  using assms by (auto simp: agent_step_def act_then_def refuse_cursor_def paid_step_def step_asks_def split: sum.splits prod.splits)

lemma run_asks_only:
  assumes "\<And>j b. (j, b) \<in> set (planner_calls v plan k i a) \<Longrightarrow> plan j b = plan' j b"
  shows "run_steps v plan k i a = run_steps v plan' k i a"
  using assms
proof (induction k arbitrary: i a)
  case (Suc k)
  show ?case
  proof (cases "se_stopped (ag_session a) \<or> se_paused (ag_session a) \<or> se_state (ag_session a) \<in> set terminal_states")
    case False
    have step: "agent_step (v i) (plan i) a = agent_step (v i) (plan' i) a"
      by (rule step_asks_only) (use Suc.prems False in auto)
    obtain r b where r: "agent_step (v i) (plan i) a = (r, b)" by fastforce
    have "run_steps v plan k (Suc i) b = run_steps v plan' k (Suc i) b" if "r = Going kind" for kind
      by (rule Suc.IH) (use Suc.prems False r that in auto)
    then show ?thesis using False r step by (auto split: flow.split)
  qed auto
qed simp

text \<open>Each question is paid for, also in a step that raises.\<close>

lemma step_asks_paid:
  assumes "step_asks a = Some b"
  shows "b_iterations (se_budget (ag_session a)) < b_max_iterations (se_budget (ag_session a))"
  using assms by (auto simp: step_asks_def consume_def Let_def capped_def split: if_splits)

lemma planner_calls_bounded:
  assumes "\<And>i. leaves (carried (\<lambda>_. True) iterations_grow) (plan i)"
  shows "length (planner_calls v plan k i a) \<le> k \<and>
    int (length (planner_calls v plan k i a)) \<le>
      max 0 (b_max_iterations (se_budget (ag_session a)) - b_iterations (se_budget (ag_session a)))"
proof (induction k arbitrary: i a)
  case (Suc k)
  show ?case
  proof (cases "se_stopped (ag_session a) \<or> se_paused (ag_session a) \<or> se_state (ag_session a) \<in> set terminal_states")
    case False
    let ?left = "b_max_iterations (se_budget (ag_session a)) - b_iterations (se_budget (ag_session a))"
    let ?one = "case step_asks a of None \<Rightarrow> [] | Some b \<Rightarrow> [(i, b)]"
    have one: "length ?one \<le> 1 \<and> int (length ?one) \<le> max 0 ?left"
      using step_asks_paid [of a] by (auto split: option.split)
    obtain r b where r: "agent_step (v i) (plan i) a = (r, b)" by fastforce
    show ?thesis
    proof (cases r)
      case (Going kind)
      note paid = step_is_paid [OF r [unfolded Going] assms(1)]
      have "b_max_iterations (se_budget (ag_session b)) - b_iterations (se_budget (ag_session b)) \<le> ?left - 1"
        using paid False by simp
      moreover have "?one = []" if "?left \<le> 0" using one that by simp
      ultimately show ?thesis using Suc.IH [of "Suc i" b] one False r Going
        by (cases "?left \<le> 0") (auto simp: max_def split: if_splits)
    qed (use False r one in auto)
  qed auto
qed simp

lemma run_raises_in_step:
  "run_steps v plan k i a = (Raised e, b) \<Longrightarrow> \<exists>j c. agent_step (v j) (plan j) c = (Raised e, b)"
proof (induction k arbitrary: i a)
  case (Suc k)
  then show ?case by (auto split: if_splits flow.splits prod.splits)
qed simp

lemma run_returns_in_step:
  "run_steps v plan k i a = (Returned d, b) \<Longrightarrow> \<exists>j c. agent_step (v j) (plan j) c = (Returned d, b)"
proof (induction k arbitrary: i a)
  case (Suc k)
  then show ?case by (auto split: if_splits flow.splits prod.splits)
qed simp

text \<open>C24. A run ends: it asks the planner at most as often as its limit says and at most as often as there
  are iterations left in the budget, whether or not it raises. A run that ends normally leaves the
  session with a reason for its end. A run that raises ends inside the step that raised, as that step
  left the agent: it is not finalized, and the session may be left without a reason.
\<close>

theorem runs_end_with_reason:
  fixes v :: "nat \<Rightarrow> step_env" and uid :: "nat \<Rightarrow> string" and answer :: "nat \<Rightarrow> agent \<Rightarrow> completion result"
    and given :: "int option" and a :: agent
  defines "plan \<equiv> \<lambda>i. llm_planner (uid i) (answer i)" and "budget \<equiv> se_budget (ag_session a)"
  defines "questions \<equiv> length (planner_calls v plan (nat (run_limit given a)) 0 a)"
  shows "questions \<le> nat (run_limit given a) \<and> int questions \<le> max 0 (b_max_iterations budget - b_iterations budget) \<and>
    (case agent_run v plan given a of
       (Going u, b) \<Rightarrow> se_reason (ag_session b) \<noteq> None
     | (Raised e, b) \<Rightarrow> (\<exists>i c. agent_step (v i) (plan i) c = (Raised e, b))
     | (Returned d, b) \<Rightarrow> (\<exists>i c. agent_step (v i) (plan i) c = (Returned d, b)))"
proof -
  have "leaves (carried (\<lambda>_. True) iterations_grow) (plan i)" for i
    unfolding plan_def by (rule counting.keeps_llm)
  moreover have "case agent_run v plan given a of
       (Going u, b) \<Rightarrow> se_reason (ag_session b) \<noteq> None
     | (Raised e, b) \<Rightarrow> (\<exists>i c. agent_step (v i) (plan i) c = (Raised e, b))
     | (Returned d, b) \<Rightarrow> (\<exists>i c. agent_step (v i) (plan i) c = (Returned d, b))"
  proof (cases "run_steps v plan (nat (run_limit given a)) 0 a")
    case (Pair r b)
    have "\<exists>j c. agent_step (v j) (plan j) c = (Raised e, b)" if "r = Raised e" for e
      using run_raises_in_step Pair that by blast
    moreover have "\<exists>j c. agent_step (v j) (plan j) c = (Returned d, b)" if "r = Returned d" for d
      using run_returns_in_step Pair that by blast
    ultimately show ?thesis using Pair
      by (cases r) (simp_all add: agent_run_def Let_def act_then_def finalize_run_def finalize_session_def on_session_def
          end_with_def)
  qed
  ultimately show ?thesis using planner_calls_bounded unfolding questions_def budget_def by blast
qed

text \<open>
  When the tokens of an answer exhaust the budget, the step still goes on to analyze: the session keeps
  its reason but not its state, and the loop does not end there.
\<close>

lemma exhausted_tokens_are_overwritten:
  assumes "answer a = Inr c" and "co_tokens c \<noteq> 0" and "b_max_tokens (se_budget (ag_session a)) < b_tokens (se_budget (ag_session a)) + co_tokens c"
  shows "\<exists>d b. llm_planner uid answer a = (Inr d, b) \<and> se_state (ag_session b) = S_BUDGET_EXHAUSTED \<and>
    se_state (ag_session (snd (apply_decision v d b))) = S_ANALYZING \<and>
    se_reason (ag_session (snd (apply_decision v d b))) = Some TR_BUDGET_EXHAUSTED"
proof -
  have "fst (consume ''token'' (co_tokens c) (se_budget (ag_session a))) = Inl (SafetyLimitExceededError ''token budget exhausted'')"
    using assms(3) by (simp add: consume_def Let_def capped_def)
  then obtain b where b: "consume ''token'' (co_tokens c) (se_budget (ag_session a)) = (Inl (SafetyLimitExceededError ''token budget exhausted''), b)"
    by (metis prod.collapse)
  show ?thesis
    using assms(1,2) b
    by (simp add: llm_planner_def token_exhausted_def plain_decision_def apply_decision_def noted_thinking_def
        forbidden_ai_actions_def forbidden_planner_kinds_def Let_def timeline_def log_event_def set_state_def on_session_def
        exhaust_budget_def put_budget_def)
qed

text \<open>A refused call that waits for a human counts as a repetition of the call.\<close>

lemma approval_counts_as_repetition:
  assumes "b_max_identical_calls (se_budget s) \<le> int (length (filter (\<lambda>r. fr_fingerprint r = fp \<and>
    t - fr_at r \<le> window_of (se_budget s) \<and> fr_quality r = ''approval_required'') (se_records s)))"
  shows "check_duplicate fp t s = Inl (RestrictedActivityError ''repeated_identical_tool_call'')"
proof -
  have "length (filter (\<lambda>r. fr_fingerprint r = fp \<and> t - fr_at r \<le> window_of (se_budget s) \<and>
      fr_quality r = ''approval_required'') rs) \<le> length (filter (\<lambda>r. fr_fingerprint r = fp \<and>
      t - fr_at r \<le> window_of (se_budget s) \<and> fr_quality r \<notin> set retryable_quality) rs)" for rs
    by (induction rs) (auto simp: retryable_quality_def)
  from of_nat_mono [OF this, of "se_records s", where 'a = int] show ?thesis
    using assms by (simp add: check_duplicate_def recent_successes_def)
qed

section \<open>A sample run\<close>

definition sample_step_env :: "nat \<Rightarrow> step_env" where
  "sample_step_env i = \<lparr>sv_tool = sample_tool_env, sv_record = \<lparr>re_now = 0, re_lead = ''l'', re_node_at = 0\<rparr>, sv_node = ''n''\<rparr>"

definition sample_answer :: "agent \<Rightarrow> completion result" where
  "sample_answer a = Inr \<lparr>co_tokens = 5, co_thinking = [], co_calls = [[(''tool'', PStr ''evidence_inspect'')]],
     co_content = Inr (bare_output ''analyze'')\<rparr>"

text \<open>An agent with the tools bound, without a browser or scanners; the adapters do nothing.\<close>

definition idle_scanner :: scanner_adapter where
  "idle_scanner = \<lparr>xa_ingest = (\<lambda>t. Inr []), xa_scan = (\<lambda>t e. ((Inr [], None), e))\<rparr>"

definition idle_outside :: tool_outside where
  "idle_outside =
     \<lparr>ou_browser = \<lparr>br_available = False, br_navigate = (\<lambda>u e. (Inr (), e)), br_capture = (\<lambda>e. (Inr [], e)),
        br_snapshot = (\<lambda>e. (Inr \<lparr>bp_url = [], bp_title = None, bp_screenshot = None, bp_console = []\<rparr>, e))\<rparr>,
      ou_files = (\<lambda>p. Inr None), ou_zap = idle_scanner, ou_zap_present = False, ou_nuclei = idle_scanner,
      ou_nuclei_present = False, ou_fuzzer = (\<lambda>l q e. (Inr (Inr []), e)),
      ou_api = \<lparr>ar_import = (\<lambda>p f. Inr None), ar_generate = (\<lambda>p b. []), ar_execute = (\<lambda>t h e. (Inr (Inr []), e))\<rparr>,
      ou_sandbox = (\<lambda>d w. Inl (ValueError ''no sandbox''))\<rparr>"

definition sample_setting :: tool_setting where
  "sample_setting = \<lparr>xs_session = ''s1'', xs_project = ''p'', xs_mode = RM_LAB, xs_max_lines = 200, xs_excerpt = 32768\<rparr>"

definition sample_reads :: tool_reads where
  "sample_reads = \<lparr>xr_uid = (\<lambda>i. replicate (Suc i) CHR ''n''), xr_now = (\<lambda>i. 0), xr_http = lab_env, xr_runs = (\<lambda>i j. lab_env),
     xr_plan = ''plan'', xr_elapsed = 0, xr_cancelled = False\<rparr>"

definition tooled_agent :: agent where
  "tooled_agent = sample_agent\<lparr>ag_tools :=
     (case bind_engine_tools sample_setting idle_outside (\<lambda>d w. sample_reads) default_registry of Inr r \<Rightarrow> r | Inl e \<Rightarrow> empty_registry)\<rparr>"

lemma tooled_agent_tools: "engine_tools sample_setting idle_outside (\<lambda>d w. sample_reads) (ag_tools tooled_agent)"
  using bound_tools [of sample_setting idle_outside "\<lambda>d w. sample_reads"]
  by (auto simp: tooled_agent_def engine_tools_def empty_registry_def split: sum.split)

lemma tooled_agent_ok: "agent_ok tooled_agent"
  by (simp add: agent_ok_def tooled_agent_def sample_agent_def sample_session_def empty_graph_ok unverified_def)

lemma idle_adapters: "adapter_call idle_outside e e' \<Longrightarrow> same_setup e' e"
  by (auto elim: adapter_call.cases simp: idle_outside_def idle_scanner_def)

theorem planner_has_no_authority_witness:
  "same_setup (ag_engine (snd (agent_run sample_step_env (\<lambda>i. llm_planner ''h'' sample_answer) None tooled_agent)))
     (ag_engine tooled_agent)"
  using planner_has_no_authority [OF tooled_agent_tools insertI1, where uid = "\<lambda>i. ''h''" and answer = "\<lambda>i. sample_answer"]
    idle_adapters by blast

theorem agents_stay_well_formed_witness:
  "agent_ok (snd (agent_run sample_step_env (\<lambda>i. llm_planner ''h'' sample_answer) None tooled_agent)) \<and>
   agent_ok (snd (apply_external_decision (sample_step_env 0) ''h'' (Inr (bare_output ''complete'')) tooled_agent))"
  by (rule agents_stay_well_formed [OF tooled_agent_tools tooled_agent_ok])

end
