(* ===== verification/Replay.thy ===== *)
theory Replay
  imports AgentEffects
begin

text \<open>
  \<open>security_agent/replay.py\<close>: a session is played again with the recorded results of its tools. The loop of
  \<open>play\<close> goes on until its planner was asked for every recorded event; it may not end, so it is a
  partial function.
\<close>

section \<open>Replays\<close>

record replay_event =
  rp_tool :: string
  rp_arguments :: pydict
  rp_result :: pydict

record session_replay =
  sp_events :: "replay_event list"
  sp_live :: bool
  sp_cursor :: nat

definition record_event :: "string \<Rightarrow> pydict \<Rightarrow> pydict \<Rightarrow> session_replay \<Rightarrow> session_replay" where
  "record_event tool args res s =
     s\<lparr>sp_events := sp_events s @ [\<lparr>rp_tool = tool, rp_arguments = args, rp_result = res\<rparr>]\<rparr>"

text \<open>\<open>_canned\<close>: the recorded result, marked; the world is not touched.\<close>

definition canned :: "pydict \<Rightarrow> tool_context executor" where
  "canned res d w = (Inr (dict_set ''live_network'' (PBool False) (dict_set ''provenance'' (PStr ''replay'') res)), w)"

definition replay_planner :: "replay_event list \<Rightarrow> nat \<Rightarrow> planner" where
  "replay_planner es cursor a =
     (if length es \<le> cursor then (Inr (plain_decision ''complete''), a)
      else (Inr ((plain_decision ''tool'')
              \<lparr>dc_tool := Some \<lparr>tq_tool = rp_tool (es ! cursor), tq_arguments = rp_arguments (es ! cursor),
                 tq_reason = ''replay''\<rparr>, dc_note := ''replay''\<rparr>), a))"

text \<open>Whether a step gets as far as its planner.\<close>

definition asks_planner :: "agent \<Rightarrow> bool" where
  "asks_planner a \<longleftrightarrow> \<not> se_cursor (ag_session a) \<and> \<not> se_stopped (ag_session a) \<and> \<not> se_paused (ag_session a) \<and>
     is_ok (fst (consume ''iteration'' 1 (se_budget (ag_session a))))"

definition moved_cursor :: "replay_event list \<Rightarrow> nat \<Rightarrow> agent \<Rightarrow> nat" where
  "moved_cursor es cursor a = (if asks_planner a \<and> cursor < length es then Suc cursor else cursor)"

partial_function (option) play_loop ::
    "(nat \<Rightarrow> step_env) \<Rightarrow> replay_event list \<Rightarrow> nat \<Rightarrow> nat \<Rightarrow> string list \<Rightarrow> agent \<Rightarrow> (string list result \<times> nat \<times> agent) option"
  where
  "play_loop v es i cursor kinds a =
     (if length es \<le> cursor then Some (Inr kinds, cursor, a)
      else case agent_step (v i) (replay_planner es cursor) a of
        (Raised e, b) \<Rightarrow> Some (Inl e, moved_cursor es cursor a, b)
      | (Returned d, b) \<Rightarrow> play_loop v es (Suc i) (moved_cursor es cursor a) kinds b
      | (Going k, b) \<Rightarrow> play_loop v es (Suc i) (moved_cursor es cursor a) (kinds @ [k]) b)"

fun can_tools :: "replay_event list \<Rightarrow> tool_context registry \<Rightarrow> unit result \<times> tool_context registry" where
  "can_tools [] r = (Inr (), r)"
| "can_tools (ev # evs) r =
     (case replace_executor (rp_tool ev) (canned (rp_result ev)) r of
        Inl e \<Rightarrow> (Inl e, r) | Inr r1 \<Rightarrow> can_tools evs r1)"

definition set_replay :: "bool \<Rightarrow> agent \<Rightarrow> agent" where
  "set_replay b = on_session (\<lambda>s. s\<lparr>se_replay := b\<rparr>)"

text \<open>The clause \<open>finally\<close>.\<close>

definition back_to_live :: "agent \<Rightarrow> agent \<Rightarrow> agent" where
  "back_to_live before a =
     set_replay (se_replay (ag_session before)) (a\<lparr>ag_tools := restore_executors (rg_executors (ag_tools before)) (ag_tools a)\<rparr>)"

definition play :: "(nat \<Rightarrow> step_env) \<Rightarrow> session_replay \<Rightarrow> agent \<Rightarrow> (string list result \<times> session_replay \<times> agent) option" where
  "play v s a =
     (if sp_live s then Some (Inl (RestrictedActivityError ''replay_default_is_offline''), s, a)
      else let a1 = set_replay True a in
        (case can_tools (sp_events s) (ag_tools a1) of
           (Inl e, r) \<Rightarrow> Some (Inl e, s, back_to_live a (a1\<lparr>ag_tools := r\<rparr>))
         | (Inr u, r) \<Rightarrow>
             map_option (\<lambda>(out, cursor, b). (out, s\<lparr>sp_cursor := cursor\<rparr>, back_to_live a b))
               (play_loop v (sp_events s) 0 (sp_cursor s) [] (a1\<lparr>ag_tools := r\<rparr>))))"

section \<open>What a step leaves of a session\<close>

definition goes_on :: "agent \<Rightarrow> agent \<Rightarrow> bool" where
  "goes_on a b \<longleftrightarrow> same_charter (ag_session a) (ag_session b) \<and> iterations_grow a b"

lemma same_charter_trans: "transp same_charter"
  by (rule transpI) (simp add: same_charter_def)

lemma goes_on_budget: "iterations_grow a (put_budget b a) \<Longrightarrow> goes_on a (put_budget b a)"
  by (simp add: goes_on_def same_charter_def put_budget_def on_session_def)

lemma goes_on_session: "ag_session b = ag_session a \<Longrightarrow> goes_on a b"
  by (simp add: goes_on_def same_charter_def iterations_grow_def)

interpretation going: agent_effect goes_on "\<lambda>_. True"
proof
  show "transp goes_on"
    by (rule transpI) (auto simp: goes_on_def dest: transpD [OF same_charter_trans] transpD [OF counting.R_trans])
  show "goes_on a (on_session f a)" if "progress (ag_session a) (f (ag_session a))" for a f
    using that counting.moved [of a f] by (simp add: goes_on_def progress_def on_session_def)
  show "goes_on a (put_budget (snd (consume k m (se_budget (ag_session a)))) a)" if "k = ''iteration'' \<Longrightarrow> m = 1" for a k m
    by (rule goes_on_budget [OF counting.charged]) (rule that)
  show "goes_on a (put_budget (snd (consume_scan z (se_budget (ag_session a)))) a)" for a z
    by (rule goes_on_budget [OF counting.scanned])
  show "goes_on a (put_budget (snd (note_exploratory_seconds z (se_budget (ag_session a)))) a)" for a z
    by (rule goes_on_budget [OF counting.explored])
  show "goes_on a (snd (call_executor ad a))" for a ad
    by (rule goes_on_session) (simp add: call_executor_def split: prod.split)
qed (rule goes_on_session; simp)+

lemma step_goes_on:
  assumes "agent_step v (replay_planner es c) a = (r, b)"
  shows "same_charter (ag_session a) (ag_session b) \<and> iterations_grow a b"
proof -
  have "leaves (carried (\<lambda>_. True) goes_on) (replay_planner es c)"
    using going.keep_refl by (simp add: leaves_def replay_planner_def)
  from leavesD [OF going.keeps_step [OF this] assms] show ?thesis
    by (simp add: carried_def registered_def goes_on_def list_all_iff)
qed

section \<open>When a replay returns\<close>

lemma iteration_left:
  "is_ok (fst (consume ''iteration'' 1 b)) \<longleftrightarrow> b_iterations b + 1 \<le> b_max_iterations b"
  by (auto simp: consume_def capped_def Let_def)

lemma idle_step:
  assumes "\<not> asks_planner a" and "\<not> se_cursor (ag_session a)"
  obtains k b where "agent_step v (replay_planner es c) a = (Going k, b)" "\<not> asks_planner b" "\<not> se_cursor (ag_session b)"
proof -
  have "\<exists>k b. agent_step v (replay_planner es c) a = (Going k, b)"
    using assms by (auto simp: agent_step_def act_then_def refuse_cursor_def paid_step_def asks_planner_def
      split: sum.split prod.split)
  then obtain k b where b: "agent_step v (replay_planner es c) a = (Going k, b)" by blast
  have "\<not> asks_planner b \<and> \<not> se_cursor (ag_session b)"
    using step_goes_on [OF b] assms by (auto simp: asks_planner_def iteration_left same_charter_def iterations_grow_def)
  then show thesis using that [OF b] by blast
qed

lemma idle_replay_hangs:
  "play_loop v es i c ks a = Some y \<Longrightarrow> \<not> asks_planner a \<Longrightarrow> \<not> se_cursor (ag_session a) \<Longrightarrow> length es \<le> c"
proof (induction v es i c ks a y rule: play_loop.raw_induct [rotated, consumes 1])
  case (1 loop v es i c ks a y)
  show ?case
  proof (rule ccontr)
    assume left: "\<not> length es \<le> c"
    obtain k b where b: "agent_step (v i) (replay_planner es c) a = (Going k, b)" "\<not> asks_planner b" "\<not> se_cursor (ag_session b)"
      using idle_step [OF 1(3,4)] .
    have "loop v es (Suc i) c (ks @ [k]) b = Some y" using 1(2,3) left b(1) by (simp add: moved_cursor_def)
    from 1(1) [OF this b(2,3)] left show False by simp
  qed
qed

text \<open>Within \<open>k\<close> steps the replay comes to a step that does not ask its planner.\<close>

fun stuck :: "(nat \<Rightarrow> step_env) \<Rightarrow> replay_event list \<Rightarrow> nat \<Rightarrow> nat \<Rightarrow> nat \<Rightarrow> agent \<Rightarrow> bool" where
  "stuck v es 0 i c a = False"
| "stuck v es (Suc k) i c a =
     (c < length es \<and>
      (\<not> asks_planner a \<or>
       (case agent_step (v i) (replay_planner es c) a of
          (Raised e, b) \<Rightarrow> False | (Returned d, b) \<Rightarrow> stuck v es k (Suc i) (Suc c) b
        | (Going x, b) \<Rightarrow> stuck v es k (Suc i) (Suc c) b)))"

lemma stuck_hangs:
  "stuck v es k i c a \<Longrightarrow> \<not> se_cursor (ag_session a) \<Longrightarrow> play_loop v es i c ks a = None"
proof (induction k arbitrary: i c a ks)
  case (Suc k)
  show ?case
  proof (cases "asks_planner a")
    case False
    then show ?thesis using idle_replay_hangs [of v es i c ks a] Suc.prems by (cases "play_loop v es i c ks a") auto
  next
    case True
    obtain r b where b: "agent_step (v i) (replay_planner es c) a = (r, b)" by fastforce
    have "\<not> se_cursor (ag_session b)" using step_goes_on [OF b] Suc.prems(2) by (simp add: same_charter_def)
    then show ?thesis using Suc b True by (subst play_loop.simps) (auto simp: moved_cursor_def split: flow.splits)
  qed
qed simp

lemma unstuck_returns:
  "\<not> stuck v es k i c a \<Longrightarrow> length es - c \<le> k \<Longrightarrow> \<exists>y. play_loop v es i c ks a = Some y"
proof (induction k arbitrary: i c a ks)
  case 0
  then show ?case by (subst play_loop.simps) simp
next
  case (Suc k)
  show ?case
  proof (cases "length es \<le> c")
    case False
    then have "asks_planner a" using Suc.prems(1) by simp
    then show ?thesis using Suc False by (subst play_loop.simps) (auto simp: moved_cursor_def split: flow.splits)
  qed (subst play_loop.simps, simp)
qed

lemma loop_ends:
  "play_loop v es i c ks a = Some y \<Longrightarrow> is_ok (fst y) \<longrightarrow> length es \<le> fst (snd y)"
proof (induction v es i c ks a y rule: play_loop.raw_induct [rotated, consumes 1])
  case (1 loop v es i c ks a y)
  then show ?case by (auto split: if_splits prod.splits flow.splits)
qed

text \<open>C28. A replay is offline and leaves the registry and the replay mark of the session as they were; it returns
  exactly when no step it comes to is refused before its planner is asked: a session that is stopped, paused
  or out of iterations is replayed without end.\<close>

theorem replay_returns:
  assumes "\<not> sp_live s" and "\<not> se_cursor (ag_session a)" and "can_tools (sp_events s) (ag_tools a) = (Inr (), r)"
  shows "(play v s a = None \<longleftrightarrow>
            stuck v (sp_events s) (length (sp_events s) - sp_cursor s) 0 (sp_cursor s) ((set_replay True a)\<lparr>ag_tools := r\<rparr>)) \<and>
         (\<forall>out t b. play v s a = Some (out, t, b) \<longrightarrow>
            rg_executors (ag_tools b) = rg_executors (ag_tools a) \<and> se_replay (ag_session b) = se_replay (ag_session a) \<and>
            (is_ok out \<longrightarrow> length (sp_events s) \<le> sp_cursor t))"
proof -
  let ?a = "(set_replay True a)\<lparr>ag_tools := r\<rparr>"
  have play: "play v s a = map_option (\<lambda>(out, c, b). (out, s\<lparr>sp_cursor := c\<rparr>, back_to_live a b))
      (play_loop v (sp_events s) 0 (sp_cursor s) [] ?a)"
    using assms(1,3) by (simp add: play_def set_replay_def on_session_def)
  let ?loop = "play_loop v (sp_events s) 0 (sp_cursor s) [] ?a"
  let ?stuck = "stuck v (sp_events s) (length (sp_events s) - sp_cursor s) 0 (sp_cursor s) ?a"
  have free: "\<not> se_cursor (ag_session ?a)" using assms(2) by (simp add: set_replay_def on_session_def)
  have "?loop = None" if ?stuck using that free by (rule stuck_hangs)
  moreover have "?loop \<noteq> None" if "\<not> ?stuck" using unstuck_returns [OF that] by blast
  ultimately have "play v s a = None \<longleftrightarrow> ?stuck" unfolding play option.map_disc_iff by blast
  then show ?thesis
    using loop_ends by (fastforce simp: play back_to_live_def set_replay_def on_session_def restore_executors_def)
qed

definition stopped_agent :: agent where
  "stopped_agent = sample_agent\<lparr>ag_session := sample_session\<lparr>se_stopped := True\<rparr>\<rparr>"

definition one_event :: session_replay where
  "one_event = \<lparr>sp_events = [\<lparr>rp_tool = ''curl'', rp_arguments = [], rp_result = []\<rparr>], sp_live = False, sp_cursor = 0\<rparr>"

theorem replay_returns_witness: "play sample_step_env one_event stopped_agent = None"
proof -
  have "\<not> sp_live one_event" "\<not> se_cursor (ag_session stopped_agent)" "length (sp_events one_event) - sp_cursor one_event = Suc 0"
    by (simp_all add: one_event_def stopped_agent_def sample_session_def)
  moreover obtain r where r: "can_tools (sp_events one_event) (ag_tools stopped_agent) = (Inr (), r)"
    by (simp add: one_event_def stopped_agent_def sample_agent_def replace_executor_def bind_executor_def empty_registry_def
      dict_keys_def)
  moreover have "stuck sample_step_env (sp_events one_event) (Suc 0) 0 (sp_cursor one_event) ((set_replay True stopped_agent)\<lparr>ag_tools := r\<rparr>)"
    by (simp add: one_event_def asks_planner_def set_replay_def on_session_def stopped_agent_def)
  ultimately show ?thesis using replay_returns [of one_event stopped_agent r sample_step_env] by simp
qed

end
