(* ===== verification/Discovery.thy ===== *)
theory Discovery
  imports PyVal Evidence Json
begin

text \<open>
  \<open>discovery/capabilities.py\<close>, \<open>corpus.py\<close>, \<open>results.py\<close>, \<open>engine.py\<close> and \<open>correlation.py\<close>:
  what discovery engines can do, the corpus of seeds they share, the results they
  report, the contract of an engine and how observations of several engines are related. An engine
  is a record of its facts and methods over a world \<open>'w\<close>, which stands for the tools it runs;
  a method that raises answers \<open>None\<close>. The opaque evidence objects of a result are left out.
\<close>

section \<open>Capabilities\<close>

datatype engine_capability =
    C_PLANNING_ONLY | C_STATIC_ANALYSIS | C_FUZZING | C_SYMBOLIC_EXECUTION | C_PROPERTY_TESTING
  | C_INVARIANT_TESTING | C_COVERAGE_FEEDBACK | C_SANITIZER_AWARE | C_RESULTS_INGESTION | C_BUILD
  | C_TEST_EXECUTION | C_ECONOMIC_SIMULATION | C_CROSS_CONTRACT_ANALYSIS | C_RUNTIME_VALIDATION
  | C_FORK_VALIDATION | C_DIFFERENTIAL_VALIDATION | C_BOUNTY_CONTEXT_ANALYSIS
  | C_CALLER_CONTEXT_ANALYSIS | C_ORACLE_QUALITY_ANALYSIS | C_PROOF_BINDING_ANALYSIS
  | C_ACCOUNT_ABSTRACTION_ANALYSIS | C_ACCOUNTING_ANALYSIS | C_COMPILER_ADVISORY_ANALYSIS
  | C_COMPILER_DIFFERENTIAL_VALIDATION | C_VFCS_GENERATION

fun capability_value :: "engine_capability \<Rightarrow> string" where
  "capability_value C_PLANNING_ONLY = ''planning_only''"
| "capability_value C_STATIC_ANALYSIS = ''static_analysis''"
| "capability_value C_FUZZING = ''fuzzing''"
| "capability_value C_SYMBOLIC_EXECUTION = ''symbolic_execution''"
| "capability_value C_PROPERTY_TESTING = ''property_testing''"
| "capability_value C_INVARIANT_TESTING = ''invariant_testing''"
| "capability_value C_COVERAGE_FEEDBACK = ''coverage_feedback''"
| "capability_value C_SANITIZER_AWARE = ''sanitizer_aware''"
| "capability_value C_RESULTS_INGESTION = ''results_ingestion''"
| "capability_value C_BUILD = ''build''"
| "capability_value C_TEST_EXECUTION = ''test_execution''"
| "capability_value C_ECONOMIC_SIMULATION = ''economic_simulation''"
| "capability_value C_CROSS_CONTRACT_ANALYSIS = ''cross_contract_analysis''"
| "capability_value C_RUNTIME_VALIDATION = ''runtime_validation''"
| "capability_value C_FORK_VALIDATION = ''fork_validation''"
| "capability_value C_DIFFERENTIAL_VALIDATION = ''differential_validation''"
| "capability_value C_BOUNTY_CONTEXT_ANALYSIS = ''bounty_context_analysis''"
| "capability_value C_CALLER_CONTEXT_ANALYSIS = ''caller_context_analysis''"
| "capability_value C_ORACLE_QUALITY_ANALYSIS = ''oracle_quality_analysis''"
| "capability_value C_PROOF_BINDING_ANALYSIS = ''proof_binding_analysis''"
| "capability_value C_ACCOUNT_ABSTRACTION_ANALYSIS = ''account_abstraction_analysis''"
| "capability_value C_ACCOUNTING_ANALYSIS = ''accounting_analysis''"
| "capability_value C_COMPILER_ADVISORY_ANALYSIS = ''compiler_advisory_analysis''"
| "capability_value C_COMPILER_DIFFERENTIAL_VALIDATION = ''compiler_differential_validation''"
| "capability_value C_VFCS_GENERATION = ''vfcs_generation''"

definition capability_order :: "engine_capability list" where
  "capability_order =
     [C_STATIC_ANALYSIS, C_CROSS_CONTRACT_ANALYSIS, C_ECONOMIC_SIMULATION, C_RUNTIME_VALIDATION, C_FORK_VALIDATION,
      C_DIFFERENTIAL_VALIDATION, C_BOUNTY_CONTEXT_ANALYSIS, C_CALLER_CONTEXT_ANALYSIS, C_ORACLE_QUALITY_ANALYSIS,
      C_PROOF_BINDING_ANALYSIS, C_ACCOUNT_ABSTRACTION_ANALYSIS, C_ACCOUNTING_ANALYSIS, C_COMPILER_ADVISORY_ANALYSIS,
      C_COMPILER_DIFFERENTIAL_VALIDATION, C_VFCS_GENERATION, C_FUZZING, C_SYMBOLIC_EXECUTION, C_TEST_EXECUTION,
      C_PROPERTY_TESTING, C_INVARIANT_TESTING, C_COVERAGE_FEEDBACK, C_BUILD, C_SANITIZER_AWARE, C_RESULTS_INGESTION,
      C_PLANNING_ONLY]"

text \<open>\<open>EngineCapability(name)\<close>; \<open>None\<close> is the \<open>ValueError\<close>.\<close>

definition capability_of :: "string \<Rightarrow> engine_capability option" where
  "capability_of s = List.find (\<lambda>c. capability_value c = s) capability_order"

datatype result_status =
    R_PLANNED | R_UNAVAILABLE | R_NOT_IMPLEMENTED | R_EXECUTED | R_INGESTED | R_INTERESTING | R_FAILED
  | R_TIMEOUT | R_TOOL_FAILURE | R_UNSUPPORTED

fun result_status_value :: "result_status \<Rightarrow> string" where
  "result_status_value R_PLANNED = ''planned''"
| "result_status_value R_UNAVAILABLE = ''unavailable''"
| "result_status_value R_NOT_IMPLEMENTED = ''not_implemented''"
| "result_status_value R_EXECUTED = ''executed''"
| "result_status_value R_INGESTED = ''ingested''"
| "result_status_value R_INTERESTING = ''interesting''"
| "result_status_value R_FAILED = ''failed''"
| "result_status_value R_TIMEOUT = ''timeout''"
| "result_status_value R_TOOL_FAILURE = ''tool_failure''"
| "result_status_value R_UNSUPPORTED = ''unsupported''"

lemma capability_listed: "c \<in> set capability_order"
  by (cases c) (simp_all add: capability_order_def)

lemma capability_values_differ: "distinct (map capability_value capability_order)"
  by (simp add: capability_order_def)

lemma capability_value_inj [simp]: "capability_value c = capability_value d \<longleftrightarrow> c = d"
  using capability_values_differ capability_listed [of c] capability_listed [of d]
  by (auto simp: distinct_map inj_on_def)

lemma capability_of_value [simp]: "capability_of (capability_value c) = Some c"
proof -
  have "capability_of (capability_value c) \<noteq> None"
    using capability_listed [of c] by (auto simp: capability_of_def find_None_iff)
  then obtain d where d: "capability_of (capability_value c) = Some d" by blast
  then show ?thesis using find_Some_prop by (fastforce simp: capability_of_def)
qed

lemma capability_of_Some: "capability_of s = Some c \<longleftrightarrow> s = capability_value c"
  using find_Some_prop [of "\<lambda>c. capability_value c = s" capability_order c]
  by (auto simp: capability_of_def [symmetric])

section \<open>The corpus\<close>

datatype seed_source =
    S_INITIAL | S_STATIC_FINDING | S_SYMBOLIC_EXECUTION | S_LLM | S_COVERAGE | S_CRASH | S_INTERESTING
  | S_MINIMIZED | S_STATE_TRANSITION | S_ITYFUZZ | S_OPERATOR

fun seed_source_value :: "seed_source \<Rightarrow> string" where
  "seed_source_value S_INITIAL = ''initial''"
| "seed_source_value S_STATIC_FINDING = ''static_finding''"
| "seed_source_value S_SYMBOLIC_EXECUTION = ''symbolic_execution''"
| "seed_source_value S_LLM = ''llm''"
| "seed_source_value S_COVERAGE = ''coverage''"
| "seed_source_value S_CRASH = ''crash''"
| "seed_source_value S_INTERESTING = ''interesting''"
| "seed_source_value S_MINIMIZED = ''minimized''"
| "seed_source_value S_STATE_TRANSITION = ''state_transition''"
| "seed_source_value S_ITYFUZZ = ''ityfuzz''"
| "seed_source_value S_OPERATOR = ''operator''"

definition seed_sources :: "seed_source list" where
  "seed_sources =
     [S_INITIAL, S_STATIC_FINDING, S_SYMBOLIC_EXECUTION, S_LLM, S_COVERAGE, S_CRASH, S_INTERESTING, S_MINIMIZED,
      S_STATE_TRANSITION, S_ITYFUZZ, S_OPERATOR]"

definition seed_source_of :: "string \<Rightarrow> seed_source option" where
  "seed_source_of s = List.find (\<lambda>x. seed_source_value x = s) seed_sources"

lemma seed_source_of_value [simp]: "seed_source_of (seed_source_value x) = Some x"
  by (cases x) (simp_all add: seed_source_of_def seed_sources_def)

record seed =
  seed_id :: string
  seed_source :: seed_source
  seed_reason :: string
  seed_sha :: string
  seed_preview :: string
  seed_language :: string
  seed_target :: string
  seed_project :: string
  seed_snapshot :: string
  seed_compiler :: string
  seed_engine :: string
  seed_version :: string
  seed_campaign :: string

type_synonym corpus = "seed list"

definition seed_dict :: "seed \<Rightarrow> (string, string) dict" where
  "seed_dict s =
     [(''seed_id'', seed_id s), (''source'', seed_source_value (seed_source s)), (''reason'', seed_reason s),
      (''content_sha256'', seed_sha s), (''preview'', seed_preview s), (''language'', seed_language s),
      (''target'', seed_target s), (''project'', seed_project s), (''source_snapshot'', seed_snapshot s),
      (''compiler_configuration'', seed_compiler s), (''engine'', seed_engine s), (''engine_version'', seed_version s),
      (''campaign'', seed_campaign s)]"

text \<open>What makes two seeds the same: content, source and binding.\<close>

definition same_seed :: "seed \<Rightarrow> seed \<Rightarrow> bool" where
  "same_seed s t \<longleftrightarrow>
     seed_sha s = seed_sha t \<and> seed_source s = seed_source t \<and> seed_target s = seed_target t \<and>
     seed_project s = seed_project t \<and> seed_snapshot s = seed_snapshot t \<and> seed_compiler s = seed_compiler t \<and>
     seed_engine s = seed_engine t \<and> seed_version s = seed_version t \<and> seed_campaign s = seed_campaign t"

definition pad3 :: "nat \<Rightarrow> string" where
  "pad3 n = replicate (3 - length (show_nat n)) CHR ''0'' @ show_nat n"

text \<open>
  \<open>add\<close>: \<open>s\<close> holds the keyword arguments, its digest and preview are computed from the content.
\<close>

definition corpus_add :: "string \<Rightarrow> seed \<Rightarrow> corpus \<Rightarrow> seed \<times> corpus" where
  "corpus_add content s c =
     (let d = sha256_hex content in
      case List.find (same_seed (s\<lparr>seed_sha := d\<rparr>)) c of
        Some old \<Rightarrow> (old, c)
      | None \<Rightarrow>
          let new = s\<lparr>seed_id := or_text (seed_id s) (''seed_'' @ pad3 (length c + 1)), seed_sha := d,
                seed_reason := py_take 240 (redact_text (seed_reason s)), seed_preview := py_take 180 (redact_text content)\<rparr>
          in (new, c @ [new]))"

definition by_source :: "seed_source \<Rightarrow> corpus \<Rightarrow> corpus" where
  "by_source x c = filter (\<lambda>s. seed_source s = x) c"

definition for_binding ::
    "string \<Rightarrow> string \<Rightarrow> string \<Rightarrow> string \<Rightarrow> string \<Rightarrow> string \<Rightarrow> corpus \<Rightarrow> corpus" where
  "for_binding project target snapshot compiler engine version c =
     sort_texts (\<lambda>s. seed_source_value (seed_source s)) (sort_texts seed_id (sort_texts seed_sha
       (filter (\<lambda>s. seed_project s = project \<and> seed_target s = target \<and> seed_snapshot s = snapshot \<and>
          seed_compiler s = compiler \<and> seed_engine s = engine \<and> seed_version s = version) c)))"

definition corpus_snapshot :: "corpus \<Rightarrow> (string \<times> (string, string) dict list) list" where
  "corpus_snapshot c = [(''seeds'', map seed_dict c)]"

text \<open>\<open>from_snapshot\<close>; \<open>None\<close> is the exception of a missing key or an unknown source.\<close>

definition seed_of_dict :: "(string, string) dict \<Rightarrow> seed option" where
  "seed_of_dict d =
     (case (map_of d ''seed_id'', Option.bind (map_of d ''source'') seed_source_of, map_of d ''content_sha256'') of
        (Some i, Some x, Some h) \<Rightarrow> Some
          \<lparr>seed_id = i, seed_source = x, seed_reason = dict_get d ''reason'' [], seed_sha = h,
           seed_preview = dict_get d ''preview'' [], seed_language = dict_get d ''language'' [],
           seed_target = dict_get d ''target'' [], seed_project = dict_get d ''project'' [],
           seed_snapshot = dict_get d ''source_snapshot'' [],
           seed_compiler = dict_get d ''compiler_configuration'' [], seed_engine = dict_get d ''engine'' [],
           seed_version = dict_get d ''engine_version'' [], seed_campaign = dict_get d ''campaign'' []\<rparr>
      | _ \<Rightarrow> None)"

fun seeds_of_dicts :: "(string, string) dict list \<Rightarrow> corpus option" where
  "seeds_of_dicts [] = Some []"
| "seeds_of_dicts (d # ds) =
     (case (seed_of_dict d, seeds_of_dicts ds) of (Some s, Some c) \<Rightarrow> Some (s # c) | _ \<Rightarrow> None)"

definition corpus_from_snapshot :: "(string \<times> (string, string) dict list) list \<Rightarrow> corpus option" where
  "corpus_from_snapshot payload = seeds_of_dicts (dict_get payload ''seeds'' [])"

lemma seed_of_seed_dict [simp]: "seed_of_dict (seed_dict s) = Some s"
  by (cases s) (simp add: seed_of_dict_def seed_dict_def dict_get_def)

lemma corpus_round_trip: "corpus_from_snapshot (corpus_snapshot c) = Some c"
proof -
  have "seeds_of_dicts (map seed_dict c) = Some c" by (induction c) simp_all
  then show ?thesis by (simp add: corpus_from_snapshot_def corpus_snapshot_def dict_get_def)
qed

text \<open>Adding keeps what is there, and what it returns is in the corpus.\<close>

lemma corpus_add_keeps: "\<exists>new. snd (corpus_add content s c) = c @ new"
  by (auto simp: corpus_add_def Let_def split: option.splits)

lemma corpus_add_member: "fst (corpus_add content s c) \<in> set (snd (corpus_add content s c))"
  using find_Some_prop by (fastforce simp: corpus_add_def Let_def split: option.splits)

lemma same_seed_sym: "same_seed s t \<longleftrightarrow> same_seed t s"
  by (auto simp: same_seed_def)

lemma corpus_added_same: "same_seed (s\<lparr>seed_sha := sha256_hex content\<rparr>) (fst (corpus_add content s c))"
  using find_Some_prop [of "same_seed (s\<lparr>seed_sha := sha256_hex content\<rparr>)" c]
  by (auto simp: corpus_add_def Let_def same_seed_def split: option.splits)

lemma corpus_add_again: "snd (corpus_add content s (snd (corpus_add content s c))) = snd (corpus_add content s c)"
proof -
  let ?c = "snd (corpus_add content s c)"
  have "List.find (same_seed (s\<lparr>seed_sha := sha256_hex content\<rparr>)) ?c \<noteq> None"
    using corpus_add_member corpus_added_same unfolding find_None_iff by blast
  then show ?thesis by (auto simp: corpus_add_def [of content s ?c] Let_def)
qed

section \<open>Results\<close>

record dynamic_finding =
  dyn_detector :: string
  dyn_title :: string
  dyn_severity :: string
  dyn_confidence :: string
  dyn_contract :: string
  dyn_function :: string
  dyn_file :: string
  dyn_line :: int
  dyn_description :: string
  dyn_status :: string

record dynamic_result =
  res_engine :: string
  res_language :: string
  res_target :: string
  res_status :: result_status
  res_executed :: bool
  res_version :: string
  res_campaign :: string
  res_seed :: string
  res_coverage :: "(string, string) dict"
  res_exit_code :: "int option"
  res_crash :: string
  res_assertion :: string
  res_sanitizer :: string
  res_stdout :: string
  res_stderr :: string
  res_minimized :: string
  res_reproduction :: string
  res_source_file :: string
  res_function :: string
  res_contract :: string
  res_provenance :: string
  res_timestamp :: string
  res_explanation :: string
  res_oracle :: string
  res_findings :: "dynamic_finding list"
  res_metadata :: "(string, string) dict"

definition plain_result :: "string \<Rightarrow> string \<Rightarrow> string \<Rightarrow> dynamic_result" where
  "plain_result engine language target =
     \<lparr>res_engine = engine, res_language = language, res_target = target, res_status = R_PLANNED, res_executed = False,
      res_version = [], res_campaign = [], res_seed = [], res_coverage = [], res_exit_code = None, res_crash = [],
      res_assertion = [], res_sanitizer = [], res_stdout = [], res_stderr = [], res_minimized = [],
      res_reproduction = [], res_source_file = [], res_function = [], res_contract = [], res_provenance = [],
      res_timestamp = [], res_explanation = [], res_oracle = [], res_findings = [], res_metadata = []\<rparr>"

text \<open>\<open>__post_init__\<close>: what a tool printed is redacted; the clock is an argument.\<close>

definition result_init :: "string \<Rightarrow> dynamic_result \<Rightarrow> dynamic_result" where
  "result_init now r =
     r\<lparr>res_stdout := redact_text (res_stdout r), res_stderr := redact_text (res_stderr r),
       res_crash := redact_text (res_crash r), res_minimized := redact_text (res_minimized r),
       res_timestamp := or_text (res_timestamp r) now\<rparr>"

definition coverage_available :: "(string, string) dict \<Rightarrow> bool" where
  "coverage_available c \<longleftrightarrow>
     map_of c ''coverage_available'' = Some ''true'' \<or> map_of c ''percent'' \<noteq> None \<or> map_of c ''coverage_percent'' \<noteq> None"

definition dynamic_kind :: "dynamic_result \<Rightarrow> evidence_kind" where
  "dynamic_kind r =
     (let class = map_of (res_metadata r) ''evidence_class''; found = res_oracle r;
          symbolic = (found \<in> {''symbolic'', ''counterexample''} \<or> map_of (res_metadata r) ''seed_source'' = Some ''symbolic'')
      in
      if class = Some ''tool_status'' then K_TOOL_STATUS
      else if symbolic \<and> (res_minimized r \<noteq> [] \<or> res_assertion r \<noteq> []) then K_FUZZING
      else if res_crash r \<noteq> [] \<or> found = ''crash'' then K_TEST_FAILURE
      else if res_sanitizer r \<noteq> [] \<or> found = ''sanitizer'' then K_FUZZING
      else if res_assertion r \<noteq> [] \<or> found \<in> {''assertion'', ''property'', ''invariant''} then K_TEST_FAILURE
      else if class = Some ''fuzzing'' \<and> res_status r = R_INTERESTING \<and> res_findings r \<noteq> [] then K_FUZZING
      else if found = ''economic'' \<or> class = Some ''economic'' then K_ECONOMIC_OBSERVATION
      else if found = ''protocol'' \<or> class = Some ''protocol'' then K_PROTOCOL_OBSERVATION
      else if found \<in> {''runtime'', ''differential''} \<or> class \<in> {Some ''runtime'', Some ''differential''} then K_RUNTIME_OBSERVATION
      else if res_executed r \<and> res_status r = R_INGESTED then (if res_findings r \<noteq> [] then K_SCANNER else K_FUZZING)
      else if res_executed r \<and> coverage_available (res_coverage r) then K_FUZZING
      else if res_executed r then K_LOG
      else K_TOOL_STATUS)"

definition py_bool :: "bool \<Rightarrow> string" where
  "py_bool b = (if b then ''True'' else ''False'')"

definition json_bool :: "bool \<Rightarrow> string" where
  "json_bool b = (if b then ''true'' else ''false'')"

definition dict_update :: "('k, 'v) dict \<Rightarrow> ('k, 'v) dict \<Rightarrow> ('k, 'v) dict" where
  "dict_update d e = fold (\<lambda>(k, v). dict_set k v) e d"

definition evidence_metadata :: "dynamic_result \<Rightarrow> (string, string) dict" where
  "evidence_metadata r =
     dict_set ''verified'' ''false'' (dict_update (dict_update
       [(''engine'', res_engine r), (''engine_version'', res_version r), (''language'', res_language r),
        (''target'', res_target r), (''campaign_id'', res_campaign r), (''seed_id'', res_seed r),
        (''status'', result_status_value (res_status r)), (''executed'', json_bool (res_executed r)),
        (''contract'', res_contract r), (''function'', res_function r), (''provenance'', res_provenance r),
        (''timestamp'', res_timestamp r), (''oracle'', res_explanation r), (''oracle_kind'', res_oracle r),
        (''economic_bound'', dict_get (res_metadata r) ''bound'' ''false''),
        (''observation_class'', dict_get (res_metadata r) ''observation_class'' []), (''crash'', res_crash r),
        (''assertion'', res_assertion r), (''sanitizer'', res_sanitizer r)]
       (res_coverage r)) (res_metadata r))"

text \<open>\<open>to_evidence\<close>; the clock and the new identifier are arguments.\<close>

definition to_evidence :: "instant \<Rightarrow> string \<Rightarrow> dynamic_result \<Rightarrow> evidence result" where
  "to_evidence now uid r =
     (let base = res_engine r @ '' '' @ result_status_value (res_status r) @ '' executed='' @ py_bool (res_executed r);
          summary = (if res_explanation r = [] then base else base @ '': '' @ res_explanation r) in
      evidence_init
        \<lparr>ev_kind = dynamic_kind r, ev_source = res_engine r, ev_summary = py_take 500 summary,
         ev_details = py_take 2000 (redact_text (or_text (res_stdout r) (res_stderr r))),
         ev_artifact = none_if_empty (res_source_file r),
         ev_metadata = map (\<lambda>(k, v). (k, MText v)) (evidence_metadata r), ev_provenance = None,
         ev_collected_at = now, ev_id = uid, ev_server = None\<rparr>)"

definition unavailable_result :: "string \<Rightarrow> string \<Rightarrow> string \<Rightarrow> string \<Rightarrow> string \<Rightarrow> dynamic_result" where
  "unavailable_result now engine language target cause =
     result_init now ((plain_result engine language target)\<lparr>res_status := R_UNAVAILABLE,
       res_provenance := ''tool_unavailable'', res_explanation := cause, res_stderr := cause\<rparr>)"

definition not_implemented_result :: "string \<Rightarrow> string \<Rightarrow> string \<Rightarrow> string \<Rightarrow> string \<Rightarrow> dynamic_result" where
  "not_implemented_result now engine language target operation =
     result_init now ((plain_result engine language target)\<lparr>res_status := R_NOT_IMPLEMENTED,
       res_provenance := ''capability'', res_explanation := engine @ '' does not implement '' @ operation\<rparr>)"

definition result_as_dict :: "dynamic_result \<Rightarrow> (string, meta_value) dict" where
  "result_as_dict r =
     [(''engine'', MText (res_engine r)), (''engine_version'', MText (res_version r)),
      (''language'', MText (res_language r)), (''target'', MText (res_target r)),
      (''campaign_id'', MText (res_campaign r)), (''status'', MText (result_status_value (res_status r))),
      (''executed'', MBool (res_executed r)), (''verified'', MBool False)]"

text \<open>Whatever the metadata of a tool says, its evidence is marked as not verified.\<close>

lemma evidence_not_verified: "map_of (evidence_metadata r) ''verified'' = Some ''false''"
  by (simp add: evidence_metadata_def)

section \<open>Engines\<close>

record analysis_request =
  ask_root :: string
  ask_language :: string
  ask_target :: string
  ask_files :: "string list"
  ask_contract :: string
  ask_function :: string
  ask_source_file :: string
  ask_difficult :: bool
  ask_framework :: string
  ask_harness :: bool
  ask_campaign :: string
  ask_match_test :: string
  ask_corpus :: "corpus option"
  ask_extra :: "(string, string) dict"

definition ask_flag :: "analysis_request \<Rightarrow> string \<Rightarrow> string" where
  "ask_flag q k = dict_get (ask_extra q) k []"

text \<open>
  A method of an engine is given the clock, the request and the world. \<open>eng_select\<close> is the
  \<open>selected_capability\<close> of the engine, \<open>None\<close> when a duck-typed engine has none or it answers
  something else.
\<close>

type_synonym 'w engine_method = "string \<Rightarrow> analysis_request \<Rightarrow> 'w \<Rightarrow> dynamic_result option \<times> 'w"

record 'w engine =
  eng_id :: string
  eng_name :: string
  eng_languages :: "string list"
  eng_capabilities :: "engine_capability list"
  eng_available :: "'w \<Rightarrow> bool"
  eng_select :: "analysis_request \<Rightarrow> engine_capability option"
  eng_analyze :: "'w engine_method"
  eng_start :: "'w engine_method"

definition has_capability :: "'w engine \<Rightarrow> engine_capability \<Rightarrow> bool" where
  "has_capability e c \<longleftrightarrow> c \<in> set (eng_capabilities e)"

definition engine_guard ::
    "string \<Rightarrow> 'w engine \<Rightarrow> analysis_request \<Rightarrow> engine_capability \<Rightarrow> string \<Rightarrow> 'w \<Rightarrow> dynamic_result option" where
  "engine_guard now e q c operation w =
     (if \<not> has_capability e c then
        Some (not_implemented_result now (eng_id e) (ask_language q) (ask_target q) operation)
      else if \<not> eng_available e w then
        Some (unavailable_result now (eng_id e) (ask_language q) (ask_target q) (eng_name e @ '' is not installed''))
      else if ask_language q \<noteq> [] \<and> eng_languages e \<noteq> [] \<and> ask_language q \<notin> set (eng_languages e) then
        Some (not_implemented_result now (eng_id e) (ask_language q) (ask_target q) (operation @ '' for '' @ ask_language q))
      else None)"

text \<open>A guarded operation of the base class around the hook a subclass gives.\<close>

definition guarded :: "engine_capability \<Rightarrow> string \<Rightarrow> 'w engine \<Rightarrow> 'w engine_method \<Rightarrow> 'w engine_method" where
  "guarded c operation e hook now q w =
     (case engine_guard now e q c operation w of Some r \<Rightarrow> (Some r, w) | None \<Rightarrow> hook now q w)"

definition campaign_capability :: "engine_capability list \<Rightarrow> analysis_request \<Rightarrow> engine_capability" where
  "campaign_capability caps q =
     (let mode = ask_flag q ''mode''; has = (\<lambda>c. c \<in> set caps) in
      if mode = ''build'' \<and> has C_BUILD then C_BUILD
      else if mode = ''invariant'' \<and> has C_INVARIANT_TESTING then C_INVARIANT_TESTING
      else if mode = ''fuzz'' \<and> has C_FUZZING then C_FUZZING
      else if mode = ''coverage'' \<and> has C_COVERAGE_FEEDBACK then C_COVERAGE_FEEDBACK
      else if has C_SYMBOLIC_EXECUTION \<and> (ask_difficult q \<or> mode = ''symbolic'') then C_SYMBOLIC_EXECUTION
      else if has C_TEST_EXECUTION then C_TEST_EXECUTION
      else if has C_PROPERTY_TESTING then C_PROPERTY_TESTING
      else if has C_INVARIANT_TESTING then C_INVARIANT_TESTING
      else if has C_FUZZING then C_FUZZING
      else if has C_SYMBOLIC_EXECUTION then C_SYMBOLIC_EXECUTION
      else if has C_ECONOMIC_SIMULATION then C_ECONOMIC_SIMULATION
      else if has C_CROSS_CONTRACT_ANALYSIS then C_CROSS_CONTRACT_ANALYSIS
      else if mode = ''fork'' \<and> has C_FORK_VALIDATION then C_FORK_VALIDATION
      else if mode \<in> {''differential'', ''replay''} \<and> has C_DIFFERENTIAL_VALIDATION then C_DIFFERENTIAL_VALIDATION
      else if has C_RUNTIME_VALIDATION then C_RUNTIME_VALIDATION
      else C_FUZZING)"

definition first_capability :: "engine_capability list \<Rightarrow> engine_capability" where
  "first_capability caps =
     (case List.find (\<lambda>c. c \<in> set caps) capability_order of Some c \<Rightarrow> c | None \<Rightarrow> C_PLANNING_ONLY)"

definition selected_capability ::
    "(analysis_request \<Rightarrow> engine_capability) \<Rightarrow> engine_capability list \<Rightarrow> analysis_request \<Rightarrow> engine_capability" where
  "selected_capability campaign caps q =
     (if C_STATIC_ANALYSIS \<in> set caps then C_STATIC_ANALYSIS
      else let chosen = campaign q in
        if chosen \<in> set caps then chosen else first_capability caps)"

definition analyze_target :: "'w engine \<Rightarrow> 'w engine_method \<Rightarrow> 'w engine_method" where
  "analyze_target e hook = guarded C_STATIC_ANALYSIS ''analyze_target'' e hook"

definition start_campaign ::
    "(analysis_request \<Rightarrow> engine_capability) \<Rightarrow> 'w engine \<Rightarrow> 'w engine_method \<Rightarrow> 'w engine_method" where
  "start_campaign campaign e hook now q w = guarded (campaign q) ''start_campaign'' e hook now q w"

text \<open>\<open>collect_results\<close>, \<open>minimize\<close> and \<open>export_corpus\<close> differ in their name only.\<close>

definition ingest_operation :: "string \<Rightarrow> 'w engine \<Rightarrow> 'w engine_method \<Rightarrow> 'w engine_method" where
  "ingest_operation operation e hook = guarded C_RESULTS_INGESTION operation e hook"

definition stop_engine :: "'w engine \<Rightarrow> 'w engine_method \<Rightarrow> 'w engine_method" where
  "stop_engine e hook now q w =
     (if \<not> eng_available e w then
        (Some (unavailable_result now (eng_id e) (ask_language q) (ask_target q) (eng_name e @ '' is not installed'')), w)
      else hook now q w)"

text \<open>The hook of the base class.\<close>

definition missing_hook :: "string \<Rightarrow> string \<Rightarrow> 'w engine_method" where
  "missing_hook ident operation now q w =
     (Some (not_implemented_result now ident (ask_language q) (ask_target q) operation), w)"

text \<open>An engine of the base class with its two hooks.\<close>

definition base_engine ::
    "string \<Rightarrow> string \<Rightarrow> string list \<Rightarrow> engine_capability list \<Rightarrow> ('w \<Rightarrow> bool) \<Rightarrow>
     'w engine_method \<Rightarrow> 'w engine_method \<Rightarrow> 'w engine" where
  "base_engine i n ls cs av analyze start =
     (let campaign = campaign_capability cs;
          e = \<lparr>eng_id = i, eng_name = n, eng_languages = ls, eng_capabilities = cs, eng_available = av,
               eng_select = (\<lambda>q. Some (selected_capability campaign cs q)), eng_analyze = analyze, eng_start = start\<rparr>
      in e\<lparr>eng_analyze := analyze_target e analyze, eng_start := start_campaign campaign e start\<rparr>)"

text \<open>What a guard answers did not run, and only an available engine gets to its hook.\<close>

lemma guard_did_not_run:
  "engine_guard now e q c operation w = Some r \<Longrightarrow>
     \<not> res_executed r \<and> res_status r \<in> {R_UNAVAILABLE, R_NOT_IMPLEMENTED} \<and> res_engine r = eng_id e"
  by (auto simp: engine_guard_def unavailable_result_def not_implemented_result_def result_init_def plain_result_def
      split: if_splits)

lemma guard_passes:
  "engine_guard now e q c operation w = None \<longleftrightarrow>
     has_capability e c \<and> eng_available e w \<and>
     (ask_language q = [] \<or> eng_languages e = [] \<or> ask_language q \<in> set (eng_languages e))"
  by (auto simp: engine_guard_def)

lemma first_capability_declared: "caps \<noteq> [] \<Longrightarrow> first_capability caps \<in> set caps"
proof -
  assume "caps \<noteq> []"
  then obtain c where "c \<in> set caps" by (cases caps) auto
  then have "List.find (\<lambda>c. c \<in> set caps) capability_order \<noteq> None"
    using capability_listed [of c] by (auto simp: find_None_iff)
  then show ?thesis using find_Some_prop by (fastforce simp: first_capability_def)
qed

lemma selected_declared: "caps \<noteq> [] \<Longrightarrow> selected_capability campaign caps q \<in> set caps"
  using first_capability_declared by (auto simp: selected_capability_def Let_def)

section \<open>Relating observations\<close>

definition research_prefixes :: "(string, string) dict" where
  "research_prefixes =
     [(''caller_context'', ''caller_context''), (''oracle'', ''oracle_quality''), (''message'', ''message_binding''),
      (''signature'', ''message_binding''), (''aa'', ''account_abstraction''), (''accounting'', ''balance_delta''),
      (''arithmetic'', ''arithmetic''), (''compiler_advisory'', ''compiler_advisory'')]"

definition detector_family :: "string \<Rightarrow> string" where
  "detector_family ident =
     (let t = py_lower ident; (a, dot, b) = py_partition CHR ''.'' t in
      case (if dot then map_of research_prefixes a else None) of
        Some f \<Rightarrow> f
      | None \<Rightarrow>
          if py_contains t ''reentr'' then ''reentrancy''
          else if py_contains t ''tx.origin'' \<or> py_contains t ''auth'' then ''authorization''
          else if py_contains t ''delegate'' \<or> py_contains t ''unchecked_call'' \<or> py_contains t ''low-level''
            then ''external_call''
          else t)"

record related_observation =
  rel_key :: string
  rel_engines :: "string list"
  rel_detectors :: "string list"
  rel_independent :: nat
  rel_verified :: bool
  rel_findings :: "dynamic_finding list"

definition group_key :: "dynamic_result \<Rightarrow> dynamic_finding \<Rightarrow> string" where
  "group_key r f =
     py_join ''|'' (map py_lower
       [or_text (dyn_contract f) (res_contract r), or_text (dyn_function f) (res_function r),
        detector_family (dyn_detector f)])"

text \<open>The observations in the order of the results, each under its key.\<close>

definition keyed_findings :: "dynamic_result list \<Rightarrow> (string \<times> string \<times> dynamic_finding) list" where
  "keyed_findings rs =
     concat (map (\<lambda>r. map (\<lambda>f. (group_key r f, res_engine r, f)) (res_findings r))
       (filter (\<lambda>r. res_executed r \<or> res_provenance r = ''slither_json'') rs))"

text \<open>One observation of each engine and detector.\<close>

fun one_each :: "(string \<times> string) list \<Rightarrow> (string \<times> dynamic_finding) list \<Rightarrow> (string \<times> dynamic_finding) list" where
  "one_each seen [] = []"
| "one_each seen ((e, f) # xs) =
     (if (e, dyn_detector f) \<in> set seen then one_each seen xs
      else (e, f) # one_each ((e, dyn_detector f) # seen) xs)"

definition relate :: "string \<Rightarrow> (string \<times> dynamic_finding) list \<Rightarrow> related_observation" where
  "relate key items =
     (let unique = one_each [] items; engines = first_occurrences (map fst unique) in
      \<lparr>rel_key = key, rel_engines = engines, rel_detectors = map (\<lambda>(e, f). dyn_detector f) unique,
       rel_independent = length engines, rel_verified = False, rel_findings = map snd unique\<rparr>)"

definition correlate_results :: "dynamic_result list \<Rightarrow> related_observation list" where
  "correlate_results rs =
     (let ks = keyed_findings rs in
      map (\<lambda>k. relate k (map snd (filter (\<lambda>(k', x). k' = k) ks))) (first_occurrences (map fst ks)))"

end
