(* ===== verification/Scheduling.thy ===== *)
theory Scheduling
  imports Discovery
begin

text \<open>
  \<open>discovery/scheduler.py\<close>: which engine a round runs, what a result teaches the scheduler, and the
  budget of engines no caller can exceed. The world the engines act on and the clock are threaded
  through; a method that raises stops its caller, which then answers \<open>None\<close> in place of a result.
\<close>

section \<open>Decisions and feedback\<close>

record schedule_decision =
  pick_engine :: string
  pick_action :: string
  pick_reason :: string
  pick_capability :: string
  pick_code :: string

definition skip_engine :: "string \<Rightarrow> string \<Rightarrow> string \<Rightarrow> string \<Rightarrow> schedule_decision" where
  "skip_engine i r c code =
     \<lparr>pick_engine = i, pick_action = ''skip'', pick_reason = r, pick_capability = c, pick_code = code\<rparr>"

record scheduler_feedback =
  fb_stagnating :: bool
  fb_difficult :: bool
  fb_new_coverage :: bool
  fb_crashes :: nat
  fb_assertions :: nat
  fb_rounds :: nat
  fb_transitions :: "string list"
  fb_exercised :: "string list"

definition no_feedback :: scheduler_feedback where
  "no_feedback = \<lparr>fb_stagnating = False, fb_difficult = False, fb_new_coverage = False, fb_crashes = 0,
     fb_assertions = 0, fb_rounds = 0, fb_transitions = [], fb_exercised = []\<rparr>"

record 'w scheduler =
  sch_engines :: "'w engine list"
  sch_max_engines :: int
  sch_max_rounds :: int
  sch_corpus :: corpus
  sch_feedback :: scheduler_feedback
  sch_coverage :: "(string, rat) dict"
  sch_started :: int

definition new_scheduler :: "'w engine list \<Rightarrow> int \<Rightarrow> int \<Rightarrow> 'w scheduler" where
  "new_scheduler es me mr = \<lparr>sch_engines = es, sch_max_engines = me, sch_max_rounds = mr, sch_corpus = [],
     sch_feedback = no_feedback, sch_coverage = [], sch_started = 0\<rparr>"

section \<open>The order of engines\<close>

definition solidity_order :: "string list" where
  "solidity_order =
     [''bugforge-static'', ''slither'', ''foundry'', ''echidna'', ''medusa'', ''ityfuzz'', ''halmos'', ''wake'']"

definition static_engines :: "string list" where
  "static_engines = [''bugforge-static'', ''slither'', ''wake'']"

definition runtime_front :: "string list" where
  "runtime_front = [''ityfuzz'', ''echidna'', ''medusa'', ''foundry'', ''halmos'']"

definition language_order :: "(string, string list) dict" where
  "language_order =
     [(''solidity'', solidity_order), (''c'', [''bugforge-static'', ''native-fuzz'', ''sanitizer'']),
      (''cpp'', [''bugforge-static'', ''native-fuzz'', ''sanitizer'']), (''go'', [''bugforge-static'', ''go-test'']),
      (''rust'', [''bugforge-static'', ''cargo-test'']), (''java'', [''bugforge-static'', ''jazzer'', ''property'']),
      (''python'', [''bugforge-static'', ''property'', ''pytest''])]"

definition requested :: "analysis_request \<Rightarrow> string \<Rightarrow> bool" where
  "requested q k \<longleftrightarrow> ask_flag q k = ''true'' \<or> ask_flag q ''source'' = k"

definition missing_capability :: "analysis_request \<Rightarrow> scheduler_feedback \<Rightarrow> string" where
  "missing_capability q fb =
     (let done = set (fb_exercised fb); stalled = (fb_stagnating fb \<or> fb_difficult fb \<or> ask_difficult q);
          static_known = (ask_flag q ''source'' = ''static_finding'' \<or> ask_campaign q \<noteq> []) in
      if requested q ''economic'' \<and> ''economic_simulation'' \<notin> done then ''economic_simulation''
      else if requested q ''protocol'' \<and> ''cross_contract_analysis'' \<notin> done then ''cross_contract_analysis''
      else if requested q ''runtime'' \<and> ''runtime_validation'' \<notin> done then ''runtime_validation''
      else if requested q ''fork'' \<and> ''fork_validation'' \<notin> done then ''fork_validation''
      else if requested q ''differential'' \<and> ''differential_validation'' \<notin> done then ''differential_validation''
      else if stalled \<and> ''symbolic_execution'' \<notin> done then ''symbolic_execution''
      else if static_known \<and> ''fuzzing'' \<notin> done then ''fuzzing''
      else if ask_flag q ''property'' = ''encoded'' \<and> ''test_execution'' \<notin> done then ''test_execution''
      else if ''static_analysis'' \<notin> done then ''static_analysis''
      else if ''fuzzing'' \<notin> done then ''fuzzing''
      else ''static_analysis'')"

definition specialized_engines :: "(string, string) dict" where
  "specialized_engines =
     [(''economic_simulation'', ''bugforge-economic''), (''cross_contract_analysis'', ''bugforge-protocol''),
      (''runtime_validation'', ''bugforge-runtime''), (''fork_validation'', ''bugforge-runtime''),
      (''differential_validation'', ''bugforge-runtime'')]"

definition engine_order_for :: "analysis_request \<Rightarrow> scheduler_feedback \<Rightarrow> string list" where
  "engine_order_for q fb =
     (let base = dict_get language_order (ask_language q) [''bugforge-static''] in
      if ask_language q \<noteq> ''solidity'' then base
      else
        let needed = missing_capability q fb; special = dict_get specialized_engines needed [] in
        if special \<noteq> [] then special # filter (\<lambda>i. i \<noteq> special) base
        else if needed = ''test_execution'' then ''foundry'' # filter (\<lambda>i. i \<noteq> ''foundry'') base
        else if needed \<notin> {''fuzzing'', ''symbolic_execution''} then base
        else
          let runtime = filter (\<lambda>i. i \<notin> set static_engines) base;
              front = (if needed = ''symbolic_execution'' then ''halmos'' # runtime_front else runtime_front)
          in filter (\<lambda>i. i \<in> set runtime) (first_occurrences (front @ runtime)) @
             filter (\<lambda>i. i \<in> set static_engines) base)"

fun index_of :: "'a \<Rightarrow> 'a list \<Rightarrow> nat" where
  "index_of x [] = 0"
| "index_of x (y # ys) = (if x = y then 0 else Suc (index_of x ys))"

definition engine_rank :: "string \<Rightarrow> string \<Rightarrow> int" where
  "engine_rank i language =
     (let order = dict_get language_order language [] in
      if i \<in> set order then int (index_of i order) else int (length order) + 1)"

text \<open>Every engine of the language keeps its place in the order exactly once.\<close>

lemma engine_order_complete:
  "distinct (engine_order_for q fb) \<and>
   set (dict_get language_order (ask_language q) [''bugforge-static'']) \<subseteq> set (engine_order_for q fb)"
proof (cases "ask_language q = ''solidity''")
  case True
  have base: "dict_get language_order ''solidity'' [''bugforge-static''] = solidity_order"
    by (simp add: dict_get_def language_order_def)
  have special: "dict_get specialized_engines n [] \<in> {[], ''bugforge-economic'', ''bugforge-protocol'', ''bugforge-runtime''}" for n
    by (simp add: dict_get_def specialized_engines_def)
  have tests: "distinct (x # filter (\<lambda>i. i \<noteq> x) solidity_order) \<and>
      set solidity_order \<subseteq> set (x # filter (\<lambda>i. i \<noteq> x) solidity_order)" for x
    by (auto simp: solidity_order_def)
  show ?thesis
    unfolding engine_order_for_def Let_def True base
    using special [of "missing_capability q fb"] tests
    by (auto simp: solidity_order_def runtime_front_def static_engines_def)
next
  case False
  have "distinct (dict_get language_order l [''bugforge-static''])" for l
    by (simp add: dict_get_def language_order_def solidity_order_def)
  with False show ?thesis by (simp add: engine_order_for_def)
qed

section \<open>What a result teaches\<close>

definition coverage_key :: "dynamic_result \<Rightarrow> analysis_request \<Rightarrow> string" where
  "coverage_key r q =
     py_join [CHR 0x0A]
       [or_text (ask_flag q ''project_id'') (ask_root q), ask_flag q ''source_snapshot'',
        ask_flag q ''compiler_configuration'', ask_root q, ask_target q, ask_source_file q, ask_function q,
        ask_contract q, ask_campaign q, res_engine r, ask_flag q ''mode'']"

text \<open>
  \<open>_coverage_increased\<close>: \<open>None\<close> when nothing can be compared, and what was seen so far.
\<close>

definition coverage_increased ::
    "dynamic_result \<Rightarrow> analysis_request \<Rightarrow> (string, rat) dict \<Rightarrow> bool option \<times> (string, rat) dict" where
  "coverage_increased r q seen =
     (let c = res_coverage r; explicit = dict_get c ''new_coverage'' (dict_get c ''new'' []);
          raw = or_text (dict_get c ''coverage_percent'' []) (dict_get c ''percent'' []) in
      if explicit \<in> {''true'', ''false''} then (Some (explicit = ''true''), seen)
      else if raw = [] \<or> map_of c ''coverage_available'' = Some ''false'' then (None, seen)
      else case float_of_text raw of
        None \<Rightarrow> (None, seen)
      | Some current \<Rightarrow>
          (map_option (\<lambda>previous. previous < current) (map_of seen (coverage_key r q)),
           dict_set (coverage_key r q) current seen))"

definition capability_labels :: "string list" where
  "capability_labels =
     [''economic_simulation'', ''cross_contract_analysis'', ''runtime_validation'', ''fork_validation'',
      ''differential_validation'', ''bounty_context_analysis'', ''caller_context_analysis'',
      ''oracle_quality_analysis'', ''proof_binding_analysis'', ''account_abstraction_analysis'',
      ''accounting_analysis'', ''compiler_advisory_analysis'', ''compiler_differential_validation'',
      ''vfcs_generation'', ''static_analysis'', ''fuzzing'', ''symbolic_execution'', ''test_execution'']"

definition capability_label :: "string \<Rightarrow> string" where
  "capability_label i =
     (if i = ''bugforge-economic'' then ''economic_simulation''
      else if i = ''bugforge-protocol'' then ''cross_contract_analysis''
      else if i = ''bugforge-runtime'' then ''runtime_validation''
      else if i \<in> {''ityfuzz'', ''echidna'', ''medusa''} then ''fuzzing''
      else if i = ''halmos'' then ''symbolic_execution''
      else if i = ''foundry'' then ''test_execution''
      else if i \<in> set static_engines then ''static_analysis''
      else [])"

definition exercised_label :: "dynamic_result \<Rightarrow> string" where
  "exercised_label r =
     (if res_status r \<in> {R_INGESTED, R_INTERESTING, R_EXECUTED} \<or>
         res_executed r \<and> res_status r \<in> {R_FAILED, R_TIMEOUT, R_TOOL_FAILURE}
      then let named = dict_get (res_metadata r) ''capability'' [] in
        if named \<in> set capability_labels then named else capability_label (res_engine r)
      else [])"

text \<open>The minimized input of a result as a seed.\<close>

definition seed_of_result :: "dynamic_result \<Rightarrow> analysis_request \<Rightarrow> seed_source \<Rightarrow> string \<Rightarrow> seed" where
  "seed_of_result r q x cause =
     \<lparr>seed_id = [], seed_source = x, seed_reason = cause, seed_sha = [], seed_preview = [],
      seed_language = ask_language q, seed_target = ask_target q, seed_project = ask_root q,
      seed_snapshot = ask_flag q ''source_snapshot'', seed_compiler = ask_flag q ''compiler_configuration'',
      seed_engine = res_engine r, seed_version = res_version r, seed_campaign = ask_campaign q\<rparr>"

definition learn_input :: "dynamic_result \<Rightarrow> analysis_request \<Rightarrow> bool \<Rightarrow> seed_source \<Rightarrow> string \<Rightarrow> corpus \<Rightarrow> corpus" where
  "learn_input r q b x cause c =
     (if b \<and> res_minimized r \<noteq> [] then snd (corpus_add (res_minimized r) (seed_of_result r q x cause) c) else c)"

definition note_feedback :: "dynamic_result \<Rightarrow> bool option \<Rightarrow> scheduler_feedback \<Rightarrow> scheduler_feedback" where
  "note_feedback r increased fb =
     (let label = exercised_label r;
          fb1 = fb\<lparr>fb_rounds := Suc (fb_rounds fb),
            fb_exercised := (if label \<noteq> [] \<and> label \<notin> set (fb_exercised fb) then fb_exercised fb @ [label] else fb_exercised fb)\<rparr>;
          fb2 = (if increased = Some True then fb1\<lparr>fb_new_coverage := True, fb_stagnating := False\<rparr>
            else if increased = Some False \<and> res_executed r then fb1\<lparr>fb_stagnating := True\<rparr> else fb1)
      in fb2\<lparr>fb_crashes := fb_crashes fb2 + (if res_crash r \<noteq> [] then 1 else 0),
             fb_assertions := fb_assertions fb2 + (if res_assertion r \<noteq> [] then 1 else 0)\<rparr>)"

definition note_result :: "dynamic_result \<Rightarrow> analysis_request \<Rightarrow> 'w scheduler \<Rightarrow> 'w scheduler" where
  "note_result r q s =
     (let (increased, seen) = coverage_increased r q (sch_coverage s);
          fb = note_feedback r increased (sch_feedback s);
          c1 = learn_input r q (increased = Some True) S_COVERAGE ''coverage-increasing input'' (sch_corpus s);
          c2 = learn_input r q (res_crash r \<noteq> []) S_CRASH ''crashing input'' c1;
          c3 = learn_input r q (res_engine r = ''ityfuzz'' \<and> map_of (res_metadata r) ''executable_input'' = Some ''verified'')
                 S_ITYFUZZ ''verified executable ityfuzz input'' c2;
          c4 = learn_input r q (map_of (res_metadata r) ''seed_source'' = Some ''symbolic'')
                 S_SYMBOLIC_EXECUTION ''symbolic counterexample'' c3
      in s\<lparr>sch_coverage := seen, sch_corpus := c4,
           sch_feedback := (if sch_max_rounds s \<le> int (fb_rounds fb) \<and> fb_stagnating fb \<and> \<not> fb_new_coverage fb
             then fb\<lparr>fb_difficult := True\<rparr> else fb)\<rparr>)"

section \<open>Preconditions\<close>

definition capability_for :: "'w engine \<Rightarrow> analysis_request \<Rightarrow> engine_capability" where
  "capability_for e q =
     (case eng_select e q of Some c \<Rightarrow> c | None \<Rightarrow> first_capability (eng_capabilities e))"

definition decide_engine :: "'w \<Rightarrow> 'w scheduler \<Rightarrow> 'w engine \<Rightarrow> analysis_request \<Rightarrow> schedule_decision" where
  "decide_engine w s e q =
     (let i = eng_id e in
      if ask_language q \<notin> set (eng_languages e) \<and> eng_languages e \<noteq> [] then
        skip_engine i (''does not support '' @ ask_language q) [] ''language''
      else if i = ''wake'' \<and> ask_flag q ''include_wake'' \<noteq> ''true'' then
        skip_engine i ''Wake stays optional unless this round asks for it'' ''static_analysis'' ''optional''
      else if i \<in> {''echidna'', ''medusa''} \<and> \<not> (ask_function q \<noteq> [] \<or> ask_contract q \<noteq> [] \<or> ask_harness q) then
        skip_engine i ''property and coverage fuzzing wait for a contract or harness target'' ''property_testing'' ''target''
      else if i = ''halmos'' \<and> \<not> (ask_difficult q \<or> fb_difficult (sch_feedback s)) then
        skip_engine i ''symbolic testing waits until a target is hard to reach'' ''symbolic_execution'' ''symbolic_hint''
      else if i = ''foundry'' \<and> ask_framework q \<noteq> ''foundry'' \<and> \<not> ask_harness q then
        skip_engine i ''no Foundry project or harness was detected'' ''test_execution'' ''framework''
      else if \<not> eng_available e w then skip_engine i ''not installed'' [] ''unavailable''
      else \<lparr>pick_engine = i, pick_action = ''run'', pick_reason = ''selected'',
            pick_capability = capability_value (capability_for e q), pick_code = ''selected''\<rparr>)"

text \<open>\<open>by_id\<close> keeps the last engine of a name, \<open>_engine\<close> finds the first.\<close>

definition by_id :: "'w scheduler \<Rightarrow> string \<Rightarrow> 'w engine option" where
  "by_id s i = List.find (\<lambda>e. eng_id e = i) (rev (sch_engines s))"

definition find_engine :: "'w scheduler \<Rightarrow> string \<Rightarrow> 'w engine option" where
  "find_engine s i = List.find (\<lambda>e. eng_id e = i) (sch_engines s)"

definition decide :: "'w \<Rightarrow> 'w scheduler \<Rightarrow> string \<Rightarrow> analysis_request \<Rightarrow> schedule_decision" where
  "decide w s i q =
     (case find_engine s i of
        None \<Rightarrow> skip_engine i ''engine is not registered'' [] ''unregistered''
      | Some e \<Rightarrow> decide_engine w s e q)"

fun select_from :: "'w \<Rightarrow> 'w scheduler \<Rightarrow> analysis_request \<Rightarrow> int \<Rightarrow> string list \<Rightarrow> schedule_decision list" where
  "select_from w s q n [] = []"
| "select_from w s q n (i # is) =
     (case by_id s i of
        None \<Rightarrow> skip_engine i ''engine is not registered'' [] ''unregistered'' # select_from w s q n is
      | Some e \<Rightarrow>
          (let d = decide_engine w s e q in
           if pick_action d = ''run'' then
             if sch_max_engines s \<le> n + sch_started s then
               skip_engine (eng_id e) ''campaign budget exhausted'' (pick_capability d) ''budget'' # select_from w s q n is
             else d # select_from w s q (n + 1) is
           else d # select_from w s q n is))"

definition select_engines :: "'w \<Rightarrow> 'w scheduler \<Rightarrow> analysis_request \<Rightarrow> schedule_decision list" where
  "select_engines w s q = select_from w s q 0 (engine_order_for q (sch_feedback s))"

section \<open>Running engines\<close>

text \<open>A static engine analyzes its target, every other one starts a campaign.\<close>

definition call_engine :: "string \<Rightarrow> 'w engine \<Rightarrow> analysis_request \<Rightarrow> 'w \<Rightarrow> dynamic_result option \<times> 'w" where
  "call_engine now e q w =
     (if has_capability e C_STATIC_ANALYSIS then eng_analyze e now q w else eng_start e now q w)"

text \<open>
  The loop of \<open>run_selected\<close>; \<open>None\<close> is an exception of an engine, which ends it. One reading of
  the clock serves the call.
\<close>

fun run_picks ::
    "string \<Rightarrow> analysis_request \<Rightarrow> schedule_decision list \<Rightarrow> 'w scheduler \<times> 'w \<Rightarrow>
     dynamic_result list option \<times> 'w scheduler \<times> 'w" where
  "run_picks now q [] (s, w) = (Some [], s, w)"
| "run_picks now q (d # ds) (s, w) =
     (if pick_action d \<noteq> ''run'' \<or> sch_max_engines s \<le> sch_started s then run_picks now q ds (s, w)
      else case by_id s (pick_engine d) of
        None \<Rightarrow> (None, s\<lparr>sch_started := sch_started s + 1\<rparr>, w)
      | Some e \<Rightarrow>
          (case call_engine now e q w of
             (None, w') \<Rightarrow> (None, s\<lparr>sch_started := sch_started s + 1\<rparr>, w')
           | (Some r, w') \<Rightarrow>
               (case run_picks now q ds (note_result r q (s\<lparr>sch_started := sch_started s + 1\<rparr>), w') of
                  (rs, s', w'') \<Rightarrow> (map_option (Cons r) rs, s', w''))))"

definition run_selected ::
    "string \<Rightarrow> analysis_request \<Rightarrow> 'w scheduler \<times> 'w \<Rightarrow> dynamic_result list option \<times> 'w scheduler \<times> 'w" where
  "run_selected now q sw = run_picks now q (select_engines (snd sw) (fst sw) q) sw"

definition refused_result :: "string \<Rightarrow> string \<Rightarrow> analysis_request \<Rightarrow> string \<Rightarrow> string \<Rightarrow> dynamic_result" where
  "refused_result now i q provenance explanation =
     result_init now ((plain_result i (ask_language q) (ask_target q))\<lparr>res_status := R_UNSUPPORTED,
       res_provenance := provenance, res_explanation := explanation\<rparr>)"

definition run_engine ::
    "string \<Rightarrow> string \<Rightarrow> analysis_request \<Rightarrow> 'w scheduler \<times> 'w \<Rightarrow> dynamic_result option \<times> 'w scheduler \<times> 'w" where
  "run_engine now i q sw =
     (let (s, w) = sw in
      case find_engine s i of
        None \<Rightarrow> (Some (refused_result now i q ''unregistered'' ''engine is not registered''), s, w)
      | Some e \<Rightarrow>
          if sch_max_engines s \<le> sch_started s then
            (Some (refused_result now i q ''budget_exhausted'' ''campaign budget exhausted''), s, w)
          else case call_engine now e q w of
            (None, w') \<Rightarrow> (None, s, w')
          | (Some r, w') \<Rightarrow>
              (Some r, note_result r q (if res_executed r then s\<lparr>sch_started := sch_started s + 1\<rparr> else s), w'))"

section \<open>Follow-up\<close>

definition followup_pick :: "'w \<Rightarrow> 'w engine \<Rightarrow> string \<Rightarrow> string \<Rightarrow> engine_capability \<Rightarrow> schedule_decision" where
  "followup_pick w e i cause c =
     \<lparr>pick_engine = i, pick_action = (if eng_available e w then ''run'' else ''skip''), pick_reason = cause,
      pick_capability = capability_value c, pick_code = []\<rparr>"

definition halmos_pick :: "'w \<Rightarrow> 'w scheduler \<Rightarrow> analysis_request \<Rightarrow> schedule_decision list" where
  "halmos_pick w s q =
     (let fb = sch_feedback s in
      if fb_difficult fb \<and> \<not> list_ex (\<lambda>t. startswith t ''halmos:run'') (fb_transitions fb) then
        (case by_id s ''halmos'' of
           None \<Rightarrow> []
         | Some e \<Rightarrow>
             (let d = decide_engine w s e q in
              if pick_action d = ''skip'' then
                [followup_pick w e ''halmos'' ''coverage stalled, so symbolic execution is justified'' C_SYMBOLIC_EXECUTION]
              else [d]))
      else [])"

definition with_mode :: "string \<Rightarrow> (string, string) dict \<Rightarrow> (string, string) dict" where
  "with_mode m x = dict_set ''mode'' m x"

definition medusa_request :: "'w scheduler \<Rightarrow> analysis_request \<Rightarrow> analysis_request" where
  "medusa_request s q =
     q\<lparr>ask_harness := True, ask_campaign := [], ask_match_test := [], ask_corpus := Some (sch_corpus s),
       ask_extra := with_mode ''fuzz'' (ask_extra q)\<rparr>"

definition fuzz_pick :: "'w \<Rightarrow> 'w scheduler \<Rightarrow> analysis_request \<Rightarrow> schedule_decision list" where
  "fuzz_pick w s q =
     (if by_source S_SYMBOLIC_EXECUTION (sch_corpus s) \<noteq> [] \<and> by_id s ''foundry'' \<noteq> None then
        [followup_pick w (the (by_id s ''foundry'')) ''foundry'' ''symbolic counterexample becomes a fuzz seed'' C_FUZZING]
      else if fb_stagnating (sch_feedback s) \<and> ask_function q \<noteq> [] \<and> by_id s ''medusa'' \<noteq> None then
        [decide_engine w s (the (by_id s ''medusa'')) (medusa_request s q)]
      else [])"

definition transition_text :: "schedule_decision \<Rightarrow> string" where
  "transition_text d = pick_engine d @ '':'' @ pick_action d @ '':'' @ pick_reason d"

definition plan_followup :: "'w \<Rightarrow> 'w scheduler \<Rightarrow> analysis_request \<Rightarrow> schedule_decision list \<times> 'w scheduler" where
  "plan_followup w s q =
     (let ds = halmos_pick w s q @ fuzz_pick w s q; fb = sch_feedback s in
      (ds, s\<lparr>sch_feedback := fb\<lparr>fb_transitions := fb_transitions fb @ map transition_text ds\<rparr>\<rparr>))"

definition followup_request :: "'w scheduler \<Rightarrow> schedule_decision \<Rightarrow> analysis_request \<Rightarrow> analysis_request" where
  "followup_request s d q =
     q\<lparr>ask_difficult := (pick_engine d = ''halmos'' \<or> ask_difficult q), ask_campaign := [],
       ask_match_test := or_text (ask_match_test q) (ask_function q), ask_corpus := Some (sch_corpus s),
       ask_extra := (if pick_engine d = ''foundry'' \<and> by_source S_SYMBOLIC_EXECUTION (sch_corpus s) \<noteq> [] \<or>
           pick_engine d = ''medusa'' then with_mode ''fuzz'' (ask_extra q) else ask_extra q)\<rparr>"

definition call_followup ::
    "string \<Rightarrow> 'w engine \<Rightarrow> schedule_decision \<Rightarrow> analysis_request \<Rightarrow> 'w \<Rightarrow> dynamic_result option \<times> 'w" where
  "call_followup now e d q w =
     (if has_capability e C_STATIC_ANALYSIS \<and> pick_engine d \<noteq> ''halmos'' then eng_analyze e now q w
      else eng_start e now q w)"

fun run_followups ::
    "string \<Rightarrow> analysis_request \<Rightarrow> schedule_decision list \<Rightarrow> 'w scheduler \<times> 'w \<Rightarrow>
     dynamic_result list option \<times> 'w scheduler \<times> 'w" where
  "run_followups now q [] (s, w) = (Some [], s, w)"
| "run_followups now q (d # ds) (s, w) =
     (if pick_action d \<noteq> ''run'' \<or> sch_max_engines s \<le> sch_started s then run_followups now q ds (s, w)
      else let s1 = s\<lparr>sch_started := sch_started s + 1\<rparr>; q1 = followup_request s1 d q in
        case by_id s (pick_engine d) of
          None \<Rightarrow> (None, s1, w)
        | Some e \<Rightarrow>
            (case call_followup now e d q1 w of
               (None, w') \<Rightarrow> (None, s1, w')
             | (Some r, w') \<Rightarrow>
                 (case run_followups now q ds (note_result r q1 s1, w') of
                    (rs, s', w'') \<Rightarrow> (map_option (Cons r) rs, s', w''))))"

definition run_followup ::
    "string \<Rightarrow> analysis_request \<Rightarrow> 'w scheduler \<times> 'w \<Rightarrow> dynamic_result list option \<times> 'w scheduler \<times> 'w" where
  "run_followup now q sw =
     (let (s, w) = sw; (ds, s') = plan_followup w s q in run_followups now q ds (s', w))"

definition target_from_static ::
    "'w scheduler \<Rightarrow> analysis_request \<Rightarrow> string \<Rightarrow> string \<Rightarrow> string \<Rightarrow> string \<Rightarrow> analysis_request" where
  "target_from_static s q file function contract rule =
     q\<lparr>ask_target := or_text function (or_text contract (or_text (ask_target q) file)),
       ask_contract := or_text contract (ask_contract q), ask_function := or_text function (ask_function q),
       ask_source_file := or_text file (ask_source_file q),
       ask_difficult := (fb_stagnating (sch_feedback s) \<or> fb_difficult (sch_feedback s) \<or> ask_difficult q),
       ask_campaign := or_text (ask_campaign q) rule, ask_corpus := Some (sch_corpus s),
       ask_extra := dict_set ''source'' ''static_finding'' (dict_set ''rule_id'' rule (ask_extra q))\<rparr>"

definition campaign_stopped :: "dynamic_result list \<Rightarrow> nat \<Rightarrow> bool" where
  "campaign_stopped rs limit =
     (let executed = filter res_executed rs in
      limit \<le> length executed \<or> executed \<noteq> [] \<and> res_status (last executed) = R_FAILED)"

section \<open>The budget of engines\<close>

lemma note_result_keeps [simp]:
  "sch_engines (note_result r q s) = sch_engines s" "sch_max_engines (note_result r q s) = sch_max_engines s"
  "sch_started (note_result r q s) = sch_started s" "sch_max_rounds (note_result r q s) = sch_max_rounds s"
  by (auto simp: note_result_def Let_def split: prod.splits)

lemma plan_followup_keeps:
  "plan_followup w s q = (ds, s') \<Longrightarrow>
     sch_engines s' = sch_engines s \<and> sch_max_engines s' = sch_max_engines s \<and> sch_started s' = sch_started s \<and>
     sch_corpus s' = sch_corpus s"
  by (auto simp: plan_followup_def Let_def)

text \<open>The executed results of an operation; those of one that raised are not returned.\<close>

definition ran :: "dynamic_result list option \<Rightarrow> int" where
  "ran rs = (case rs of None \<Rightarrow> 0 | Some xs \<Rightarrow> int (length (filter res_executed xs)))"

text \<open>
  What an operation of the scheduler promises: it keeps the engines and the limit, it never starts
  more than the limit, and it starts at least what executed.
\<close>

definition keeps_budget :: "'w scheduler \<Rightarrow> 'w scheduler \<Rightarrow> int \<Rightarrow> bool" where
  "keeps_budget s s' n \<longleftrightarrow>
     sch_engines s' = sch_engines s \<and> sch_max_engines s' = sch_max_engines s \<and>
     sch_started s + n \<le> sch_started s' \<and> (sch_started s' = sch_started s \<or> sch_started s' \<le> sch_max_engines s)"

lemma run_picks_budget: "run_picks now q ds (s, w) = (rs, s', w') \<Longrightarrow> keeps_budget s s' (ran rs)"
proof (induction ds arbitrary: s w rs s' w')
  case Nil then show ?case by (auto simp: keeps_budget_def ran_def)
next
  case (Cons d ds)
  show ?case
  proof (cases "pick_action d \<noteq> ''run'' \<or> sch_max_engines s \<le> sch_started s")
    case True then show ?thesis using Cons by simp
  next
    case False
    let ?s = "s\<lparr>sch_started := sch_started s + 1\<rparr>"
    show ?thesis
    proof (cases "\<exists>e r v. by_id s (pick_engine d) = Some e \<and> call_engine now e q w = (Some r, v)")
      case True
      then obtain e r v where e: "by_id s (pick_engine d) = Some e" "call_engine now e q w = (Some r, v)" by blast
      obtain rs1 s1 w1 where run: "run_picks now q ds (note_result r q ?s, v) = (rs1, s1, w1)"
        by (cases "run_picks now q ds (note_result r q ?s, v)") auto
      from Cons.IH [OF run] have "keeps_budget (note_result r q ?s) s1 (ran rs1)" .
      with False e run Cons.prems show ?thesis
        by (auto simp: keeps_budget_def ran_def split: option.splits)
    next
      case None: False
      then have "rs = None \<and> s' = ?s" using Cons.prems False by (auto split: option.splits prod.splits)
      with False show ?thesis by (auto simp: keeps_budget_def ran_def)
    qed
  qed
qed

lemma run_followups_budget: "run_followups now q ds (s, w) = (rs, s', w') \<Longrightarrow> keeps_budget s s' (ran rs)"
proof (induction ds arbitrary: s w rs s' w')
  case Nil then show ?case by (auto simp: keeps_budget_def ran_def)
next
  case (Cons d ds)
  show ?case
  proof (cases "pick_action d \<noteq> ''run'' \<or> sch_max_engines s \<le> sch_started s")
    case True then show ?thesis using Cons by simp
  next
    case False
    let ?s = "s\<lparr>sch_started := sch_started s + 1\<rparr>"
    let ?q = "followup_request ?s d q"
    show ?thesis
    proof (cases "\<exists>e r v. by_id s (pick_engine d) = Some e \<and> call_followup now e d ?q w = (Some r, v)")
      case True
      then obtain e r v where e: "by_id s (pick_engine d) = Some e" "call_followup now e d ?q w = (Some r, v)" by blast
      obtain rs1 s1 w1 where run: "run_followups now q ds (note_result r ?q ?s, v) = (rs1, s1, w1)"
        by (cases "run_followups now q ds (note_result r ?q ?s, v)") auto
      from Cons.IH [OF run] have "keeps_budget (note_result r ?q ?s) s1 (ran rs1)" .
      with False e run Cons.prems show ?thesis
        by (auto simp: keeps_budget_def ran_def Let_def split: option.splits)
    next
      case None: False
      then have "rs = None \<and> s' = ?s" using Cons.prems False
        by (auto simp: Let_def split: option.splits prod.splits)
      with False show ?thesis by (auto simp: keeps_budget_def ran_def)
    qed
  qed
qed

text \<open>The operations of a scheduler as labels of steps; the count is of executed results.\<close>

datatype schedule_op =
    RunSelected analysis_request
  | RunEngine string analysis_request
  | RunFollowup analysis_request
  | NoteResult dynamic_result analysis_request

fun schedule_step :: "'w scheduler \<times> 'w \<times> int \<Rightarrow> string \<times> schedule_op \<Rightarrow> 'w scheduler \<times> 'w \<times> int" where
  "schedule_step (s, w, n) (now, RunSelected q) =
     (case run_selected now q (s, w) of (rs, s', w') \<Rightarrow> (s', w', n + ran rs))"
| "schedule_step (s, w, n) (now, RunEngine i q) =
     (case run_engine now i q (s, w) of (r, s', w') \<Rightarrow> (s', w', n + ran (map_option (\<lambda>x. [x]) r)))"
| "schedule_step (s, w, n) (now, RunFollowup q) =
     (case run_followup now q (s, w) of (rs, s', w') \<Rightarrow> (s', w', n + ran rs))"
| "schedule_step (s, w, n) (now, NoteResult r q) = (note_result r q s, w, n)"

lemma run_engine_budget:
  "run_engine now i q (s, w) = (r, s', w') \<Longrightarrow> keeps_budget s s' (ran (map_option (\<lambda>x. [x]) r))"
  by (auto simp: run_engine_def keeps_budget_def ran_def refused_result_def result_init_def plain_result_def
      split: option.splits prod.splits if_splits)

lemma schedule_step_budget:
  "schedule_step (s, w, n) x = (s', w', n') \<Longrightarrow> keeps_budget s s' (n' - n)"
proof (induction "(s, w, n)" x rule: schedule_step.induct)
  case (1 now q)
  then show ?case
    using run_picks_budget [of now q "select_engines w s q" s w]
    by (auto simp: run_selected_def split: prod.splits)
next
  case (2 now i q)
  then show ?case using run_engine_budget [of now i q s w] by (auto split: prod.splits)
next
  case (3 now q)
  obtain ds s1 where p: "plan_followup w s q = (ds, s1)" by (cases "plan_followup w s q") auto
  obtain rs s2 w2 where r: "run_followups now q ds (s1, w) = (rs, s2, w2)"
    by (cases "run_followups now q ds (s1, w)") auto
  from 3 p r have "s' = s2 \<and> n' = n + ran rs" by (simp add: run_followup_def)
  with run_followups_budget [OF r] plan_followup_keeps [OF p] show ?case by (simp add: keeps_budget_def)
next
  case (4 now r q)
  then show ?case by (auto simp: keeps_budget_def)
qed

definition within_budget :: "int \<Rightarrow> 'w scheduler \<times> 'w \<times> int \<Rightarrow> bool" where
  "within_budget m st = (case st of (s, w, n) \<Rightarrow> sch_max_engines s = m \<and> n \<le> sch_started s \<and> sch_started s \<le> m)"

interpretation budgeted: machine "\<lambda>(s, w, n). sch_max_engines s = m \<and> sch_started s = 0 \<and> n = 0 \<and> 0 \<le> m"
    "schedule_step :: 'w scheduler \<times> 'w \<times> int \<Rightarrow> _" "within_budget m" for m
proof unfold_locales
  fix st :: "'w scheduler \<times> 'w \<times> int" and x
  assume inv: "within_budget m st"
  obtain s w n where st: "st = (s, w, n)" by (cases st)
  obtain s' w' n' where st': "schedule_step (s, w, n) x = (s', w', n')" by (cases "schedule_step (s, w, n) x")
  show "within_budget m (schedule_step st x)"
    using inv schedule_step_budget [OF st'] by (auto simp: st st' within_budget_def keeps_budget_def)
qed (auto simp: within_budget_def)

text \<open>C14. Whatever engines do and in whatever order a scheduler is asked to run a selection, one named engine or a follow-up, the results that executed are never more than its limit of engines.\<close>

theorem engines_within_limit:
  assumes "0 \<le> m"
    and "run_ops schedule_step (new_scheduler es m mr, w, 0) ops = (s, w', n)"
  shows "n \<le> sch_started s \<and> sch_started s \<le> m \<and> sch_max_engines s = m"
  using budgeted.run_always [of m "(new_scheduler es m mr, w, 0)" ops] assms
  by (simp add: within_budget_def new_scheduler_def)

definition demo_request :: analysis_request where
  "demo_request = \<lparr>ask_root = ''/r'', ask_language = ''go'', ask_target = ''t'', ask_files = [], ask_contract = [],
     ask_function = [], ask_source_file = [], ask_difficult = False, ask_framework = [], ask_harness = False,
     ask_campaign = [], ask_match_test = [], ask_corpus = None, ask_extra = []\<rparr>"

definition demo_engine :: "unit engine" where
  "demo_engine = base_engine ''go-test'' ''Go'' [''go''] [C_TEST_EXECUTION] (\<lambda>w. True)
     (missing_hook ''go-test'' ''analyze_target'')
     (\<lambda>now q w. (Some ((plain_result ''go-test'' ''go'' ''t'')\<lparr>res_status := R_EXECUTED, res_executed := True\<rparr>), w))"

theorem engines_within_limit_witness:
  "case run_ops schedule_step (new_scheduler [demo_engine] 1 2, (), 0)
      [(''t'', RunEngine ''go-test'' demo_request), (''t'', RunEngine ''go-test'' demo_request)] of
     (s, w, n) \<Rightarrow> n \<le> sch_started s \<and> sch_started s \<le> 1 \<and> sch_max_engines s = 1"
proof -
  obtain s w n where r: "run_ops schedule_step (new_scheduler [demo_engine] 1 2, (), 0)
      [(''t'', RunEngine ''go-test'' demo_request), (''t'', RunEngine ''go-test'' demo_request)] = (s, w, n)"
    by (cases "run_ops schedule_step (new_scheduler [demo_engine] 1 2, (), 0)
      [(''t'', RunEngine ''go-test'' demo_request), (''t'', RunEngine ''go-test'' demo_request)]")
  have "0 \<le> (1 :: int)" by simp
  from engines_within_limit [OF this r] show ?thesis unfolding r by simp
qed

end
