(* ===== verification/OrchModel.thy ===== *)
theory OrchModel
  imports Scheduling
begin

text \<open>
  \<open>discovery/orchestration/model.py\<close>, \<open>codec.py\<close>, \<open>budget.py\<close> and \<open>gate.py\<close>: the typed state of a
  research campaign, its state machine, the budget ledger, canonical digests and the gate that
  admits executions. A digest is the SHA-256 of the canonical JSON text without audit fields.
\<close>

section \<open>Taxonomy\<close>

datatype orch_state =
    O_CREATED | O_BASELINE | O_PLANNING | O_READY | O_BLOCKED | O_EXECUTING | O_OBSERVING |
    O_CORRELATING | O_CONTINUE | O_STOPPING | O_STOPPED | O_COMPLETED | O_INCONCLUSIVE | O_FAILED

fun orch_state_value :: "orch_state \<Rightarrow> string" where
  "orch_state_value O_CREATED = ''created''"
| "orch_state_value O_BASELINE = ''baseline''"
| "orch_state_value O_PLANNING = ''planning''"
| "orch_state_value O_READY = ''ready''"
| "orch_state_value O_BLOCKED = ''blocked''"
| "orch_state_value O_EXECUTING = ''executing''"
| "orch_state_value O_OBSERVING = ''observing''"
| "orch_state_value O_CORRELATING = ''correlating''"
| "orch_state_value O_CONTINUE = ''continue''"
| "orch_state_value O_STOPPING = ''stopping''"
| "orch_state_value O_STOPPED = ''stopped''"
| "orch_state_value O_COMPLETED = ''completed''"
| "orch_state_value O_INCONCLUSIVE = ''inconclusive''"
| "orch_state_value O_FAILED = ''failed''"

datatype stop_reason =
    SR_BUDGET_EXHAUSTED | SR_ROUNDS_EXHAUSTED | SR_EXECUTION_CAP_EXHAUSTED | SR_NO_USEFUL_CAPABILITY
    | SR_ALL_CAPABILITIES_EXERCISED | SR_REDUNDANT_EVIDENCE | SR_PREREQUISITES_UNAVAILABLE |
    SR_SCOPE_BLOCKED | SR_SAFETY_BLOCKED | SR_APPROVAL_REQUIRED | SR_DETERMINISTIC_IDENTITY_MISSING
    | SR_ENVIRONMENT_UNAVAILABLE | SR_UNRESOLVED_UNCERTAINTY | SR_COMPLETED_BOUNDED_RESEARCH |
    SR_OPERATOR_PAUSED | SR_OPERATOR_STOPPED

fun stop_reason_value :: "stop_reason \<Rightarrow> string" where
  "stop_reason_value SR_BUDGET_EXHAUSTED = ''budget_exhausted''"
| "stop_reason_value SR_ROUNDS_EXHAUSTED = ''rounds_exhausted''"
| "stop_reason_value SR_EXECUTION_CAP_EXHAUSTED = ''execution_cap_exhausted''"
| "stop_reason_value SR_NO_USEFUL_CAPABILITY = ''no_useful_capability''"
| "stop_reason_value SR_ALL_CAPABILITIES_EXERCISED = ''all_capabilities_exercised''"
| "stop_reason_value SR_REDUNDANT_EVIDENCE = ''redundant_evidence''"
| "stop_reason_value SR_PREREQUISITES_UNAVAILABLE = ''prerequisites_unavailable''"
| "stop_reason_value SR_SCOPE_BLOCKED = ''scope_blocked''"
| "stop_reason_value SR_SAFETY_BLOCKED = ''safety_blocked''"
| "stop_reason_value SR_APPROVAL_REQUIRED = ''approval_required''"
| "stop_reason_value SR_DETERMINISTIC_IDENTITY_MISSING = ''deterministic_identity_missing''"
| "stop_reason_value SR_ENVIRONMENT_UNAVAILABLE = ''environment_unavailable''"
| "stop_reason_value SR_UNRESOLVED_UNCERTAINTY = ''unresolved_uncertainty''"
| "stop_reason_value SR_COMPLETED_BOUNDED_RESEARCH = ''completed_bounded_research''"
| "stop_reason_value SR_OPERATOR_PAUSED = ''operator_paused''"
| "stop_reason_value SR_OPERATOR_STOPPED = ''operator_stopped''"

datatype need_status =
    N_SATISFIED | N_MISSING | N_PARTIAL | N_BLOCKED | N_UNAVAILABLE | N_REDUNDANT |
    N_HIGH_VALUE_FOLLOWUP | N_LOW_VALUE_FOLLOWUP

fun need_status_value :: "need_status \<Rightarrow> string" where
  "need_status_value N_SATISFIED = ''satisfied''"
| "need_status_value N_MISSING = ''missing''"
| "need_status_value N_PARTIAL = ''partial''"
| "need_status_value N_BLOCKED = ''blocked''"
| "need_status_value N_UNAVAILABLE = ''unavailable''"
| "need_status_value N_REDUNDANT = ''redundant''"
| "need_status_value N_HIGH_VALUE_FOLLOWUP = ''high_value_followup''"
| "need_status_value N_LOW_VALUE_FOLLOWUP = ''low_value_followup''"

datatype evidence_quality =
    Q_UNAVAILABLE | Q_UNSUPPORTED | Q_INCOMPLETE | Q_UNKNOWN | Q_OBSERVATION | Q_CANDIDATE |
    Q_CORROBORATED

fun evidence_quality_value :: "evidence_quality \<Rightarrow> string" where
  "evidence_quality_value Q_UNAVAILABLE = ''unavailable''"
| "evidence_quality_value Q_UNSUPPORTED = ''unsupported''"
| "evidence_quality_value Q_INCOMPLETE = ''incomplete''"
| "evidence_quality_value Q_UNKNOWN = ''unknown''"
| "evidence_quality_value Q_OBSERVATION = ''observation''"
| "evidence_quality_value Q_CANDIDATE = ''candidate''"
| "evidence_quality_value Q_CORROBORATED = ''corroborated''"

datatype execution_phase =
    X_PLANNED | X_STARTED | X_COMPLETED | X_TIMED_OUT | X_FAILED | X_UNAVAILABLE | X_UNSUPPORTED |
    X_BLOCKED | X_UNKNOWN | X_SUPERSEDED

fun execution_phase_value :: "execution_phase \<Rightarrow> string" where
  "execution_phase_value X_PLANNED = ''planned''"
| "execution_phase_value X_STARTED = ''started''"
| "execution_phase_value X_COMPLETED = ''completed''"
| "execution_phase_value X_TIMED_OUT = ''timed_out''"
| "execution_phase_value X_FAILED = ''failed''"
| "execution_phase_value X_UNAVAILABLE = ''unavailable''"
| "execution_phase_value X_UNSUPPORTED = ''unsupported''"
| "execution_phase_value X_BLOCKED = ''blocked''"
| "execution_phase_value X_UNKNOWN = ''unknown''"
| "execution_phase_value X_SUPERSEDED = ''superseded''"

datatype complementarity =
    M_NOVEL | M_CORROBORATIVE | M_DISCRIMINATIVE | M_PREREQUISITE_GENERATING | M_COVERAGE_EXPANDING
    | M_CONTRADICTION_RESOLVING | M_REDUNDANT

fun complementarity_value :: "complementarity \<Rightarrow> string" where
  "complementarity_value M_NOVEL = ''novel''"
| "complementarity_value M_CORROBORATIVE = ''corroborative''"
| "complementarity_value M_DISCRIMINATIVE = ''discriminative''"
| "complementarity_value M_PREREQUISITE_GENERATING = ''prerequisite_generating''"
| "complementarity_value M_COVERAGE_EXPANDING = ''coverage_expanding''"
| "complementarity_value M_CONTRADICTION_RESOLVING = ''contradiction_resolving''"
| "complementarity_value M_REDUNDANT = ''redundant''"

datatype failure_class =
    FC_NONE | FC_INFRASTRUCTURE | FC_TIMEOUT | FC_UNSUPPORTED | FC_UNAVAILABLE | FC_IDENTITY |
    FC_POLICY | FC_TOOL | FC_UNKNOWN_OUTCOME

fun failure_class_value :: "failure_class \<Rightarrow> string" where
  "failure_class_value FC_NONE = ''none''"
| "failure_class_value FC_INFRASTRUCTURE = ''infrastructure''"
| "failure_class_value FC_TIMEOUT = ''timeout''"
| "failure_class_value FC_UNSUPPORTED = ''unsupported''"
| "failure_class_value FC_UNAVAILABLE = ''unavailable''"
| "failure_class_value FC_IDENTITY = ''identity''"
| "failure_class_value FC_POLICY = ''policy''"
| "failure_class_value FC_TOOL = ''tool''"
| "failure_class_value FC_UNKNOWN_OUTCOME = ''unknown_outcome''"

datatype uncertainty =
    U_BASELINE | U_UNEXERCISED | U_REACHABILITY | U_CROSS_CONTRACT | U_ECONOMIC | U_ECONOMIC_RUNTIME
    | U_RUNTIME | U_FORK | U_REPEATABILITY | U_PROPERTY | U_SEED_FOLLOWUP | U_DIVERGENCE |
    U_CONTRADICTION | U_PROGRAM_CONTEXT | U_SEMANTIC_RESEARCH | U_COMPILER

fun uncertainty_value :: "uncertainty \<Rightarrow> string" where
  "uncertainty_value U_BASELINE = ''baseline''"
| "uncertainty_value U_UNEXERCISED = ''unexercised_candidate''"
| "uncertainty_value U_REACHABILITY = ''reachability''"
| "uncertainty_value U_CROSS_CONTRACT = ''cross_contract''"
| "uncertainty_value U_ECONOMIC = ''economic''"
| "uncertainty_value U_ECONOMIC_RUNTIME = ''economic_runtime''"
| "uncertainty_value U_RUNTIME = ''runtime''"
| "uncertainty_value U_FORK = ''fork''"
| "uncertainty_value U_REPEATABILITY = ''repeatability''"
| "uncertainty_value U_PROPERTY = ''property''"
| "uncertainty_value U_SEED_FOLLOWUP = ''seed_followup''"
| "uncertainty_value U_DIVERGENCE = ''divergence''"
| "uncertainty_value U_CONTRADICTION = ''contradiction''"
| "uncertainty_value U_PROGRAM_CONTEXT = ''program_context''"
| "uncertainty_value U_SEMANTIC_RESEARCH = ''semantic_research''"
| "uncertainty_value U_COMPILER = ''compiler''"

datatype resume_status =
    RS_NEW | RS_RESTORED | RS_STALE_IDENTITY | RS_CORRUPT | RS_UNSUPPORTED_VERSION |
    RS_MIGRATION_REQUIRED

fun resume_status_value :: "resume_status \<Rightarrow> string" where
  "resume_status_value RS_NEW = ''new''"
| "resume_status_value RS_RESTORED = ''restored''"
| "resume_status_value RS_STALE_IDENTITY = ''stale_identity''"
| "resume_status_value RS_CORRUPT = ''corrupt''"
| "resume_status_value RS_UNSUPPORTED_VERSION = ''unsupported_version''"
| "resume_status_value RS_MIGRATION_REQUIRED = ''migration_required''"

datatype decision_source =
    DS_PLANNER | DS_EXTERNAL | DS_RETRY | DS_RECOVERY | DS_OPERATOR

fun decision_source_value :: "decision_source \<Rightarrow> string" where
  "decision_source_value DS_PLANNER = ''planner''"
| "decision_source_value DS_EXTERNAL = ''external_suggestion''"
| "decision_source_value DS_RETRY = ''retry''"
| "decision_source_value DS_RECOVERY = ''recovery''"
| "decision_source_value DS_OPERATOR = ''operator''"

text \<open>The exceptions of the orchestration; \<open>OtherError\<close> is any exception that is not one of them.\<close>

datatype orch_error =
    BadDecision string
  | BadTransition string
  | PersistFailed string
  | ResumeFailed resume_status string
  | OtherError error

section \<open>The state machine\<close>

fun orch_next :: "orch_state \<Rightarrow> orch_state list" where
  "orch_next O_CREATED = [O_BASELINE, O_FAILED]"
| "orch_next O_BASELINE = [O_PLANNING, O_FAILED]"
| "orch_next O_PLANNING = [O_READY, O_BLOCKED, O_STOPPING, O_FAILED]"
| "orch_next O_READY = [O_EXECUTING, O_BLOCKED, O_PLANNING, O_FAILED]"
| "orch_next O_BLOCKED = [O_PLANNING, O_STOPPING, O_FAILED]"
| "orch_next O_EXECUTING = [O_OBSERVING, O_FAILED]"
| "orch_next O_OBSERVING = [O_CORRELATING, O_FAILED]"
| "orch_next O_CORRELATING = [O_CONTINUE, O_STOPPING, O_FAILED]"
| "orch_next O_CONTINUE = [O_PLANNING, O_STOPPING, O_FAILED]"
| "orch_next O_STOPPING = [O_STOPPED, O_COMPLETED, O_INCONCLUSIVE, O_FAILED]"
| "orch_next O_STOPPED = [O_PLANNING]"
| "orch_next O_COMPLETED = []"
| "orch_next O_INCONCLUSIVE = []"
| "orch_next O_FAILED = []"

definition orch_terminal :: "orch_state list" where
  "orch_terminal = [O_COMPLETED, O_INCONCLUSIVE, O_FAILED]"

definition orch_transition :: "orch_state \<Rightarrow> orch_state \<Rightarrow> bool \<Rightarrow> orch_error + orch_state" where
  "orch_transition current target explicit =
     (if target \<notin> set (orch_next current) then
        Inl (BadTransition (orch_state_value current @ '' -> '' @ orch_state_value target))
      else if current = O_STOPPED \<and> \<not> explicit then
        Inl (BadTransition ''stopped -> planning needs an explicit resume'')
      else Inr target)"

fun stop_state :: "stop_reason \<Rightarrow> orch_state" where
  "stop_state SR_BUDGET_EXHAUSTED = O_STOPPED"
| "stop_state SR_ROUNDS_EXHAUSTED = O_STOPPED"
| "stop_state SR_EXECUTION_CAP_EXHAUSTED = O_STOPPED"
| "stop_state SR_NO_USEFUL_CAPABILITY = O_COMPLETED"
| "stop_state SR_ALL_CAPABILITIES_EXERCISED = O_COMPLETED"
| "stop_state SR_REDUNDANT_EVIDENCE = O_COMPLETED"
| "stop_state SR_PREREQUISITES_UNAVAILABLE = O_STOPPED"
| "stop_state SR_SCOPE_BLOCKED = O_STOPPED"
| "stop_state SR_SAFETY_BLOCKED = O_STOPPED"
| "stop_state SR_APPROVAL_REQUIRED = O_STOPPED"
| "stop_state SR_DETERMINISTIC_IDENTITY_MISSING = O_INCONCLUSIVE"
| "stop_state SR_ENVIRONMENT_UNAVAILABLE = O_STOPPED"
| "stop_state SR_UNRESOLVED_UNCERTAINTY = O_INCONCLUSIVE"
| "stop_state SR_COMPLETED_BOUNDED_RESEARCH = O_COMPLETED"
| "stop_state SR_OPERATOR_PAUSED = O_STOPPED"
| "stop_state SR_OPERATOR_STOPPED = O_STOPPED"

definition resumable_stops :: "stop_reason list" where
  "resumable_stops =
     [SR_APPROVAL_REQUIRED, SR_ENVIRONMENT_UNAVAILABLE, SR_PREREQUISITES_UNAVAILABLE, SR_OPERATOR_PAUSED]"

definition operator_stops :: "stop_reason list" where
  "operator_stops = [SR_OPERATOR_PAUSED, SR_OPERATOR_STOPPED]"

definition stop_reasons :: "stop_reason list" where
  "stop_reasons =
     [SR_BUDGET_EXHAUSTED, SR_ROUNDS_EXHAUSTED, SR_EXECUTION_CAP_EXHAUSTED, SR_NO_USEFUL_CAPABILITY,
      SR_ALL_CAPABILITIES_EXERCISED, SR_REDUNDANT_EVIDENCE, SR_PREREQUISITES_UNAVAILABLE, SR_SCOPE_BLOCKED,
      SR_SAFETY_BLOCKED, SR_APPROVAL_REQUIRED, SR_DETERMINISTIC_IDENTITY_MISSING, SR_ENVIRONMENT_UNAVAILABLE,
      SR_UNRESOLVED_UNCERTAINTY, SR_COMPLETED_BOUNDED_RESEARCH, SR_OPERATOR_PAUSED, SR_OPERATOR_STOPPED]"

text \<open>\<open>StopReason(text)\<close>; \<open>None\<close> is the \<open>ValueError\<close>.\<close>

definition stop_reason_of :: "string \<Rightarrow> stop_reason option" where
  "stop_reason_of s = List.find (\<lambda>r. stop_reason_value r = s) stop_reasons"

definition actionable_statuses :: "need_status list" where
  "actionable_statuses = [N_MISSING, N_PARTIAL, N_HIGH_VALUE_FOLLOWUP, N_LOW_VALUE_FOLLOWUP]"

definition attempted_phases :: "execution_phase list" where
  "attempted_phases = [X_STARTED, X_COMPLETED, X_TIMED_OUT, X_FAILED, X_UNKNOWN]"

lemma stop_reason_of_value [simp]: "stop_reason_of (stop_reason_value r) = Some r"
  by (cases r) (simp_all add: stop_reason_of_def stop_reasons_def)

text \<open>A terminal state has no way out, a stopped campaign only an explicit one.\<close>

lemma transition_legal: "orch_transition a b explicit = Inr c \<Longrightarrow> c = b \<and> b \<in> set (orch_next a)"
  by (auto simp: orch_transition_def split: if_splits)

lemma terminal_no_way_out: "a \<in> set orch_terminal \<longleftrightarrow> orch_next a = []"
  by (cases a) (simp_all add: orch_terminal_def)

lemma every_stop_is_reachable: "stop_state r \<in> set (orch_next O_STOPPING)"
  by (cases r) simp_all

lemma resumable_stops_stop: "r \<in> set resumable_stops \<Longrightarrow> stop_state r = O_STOPPED"
  by (auto simp: resumable_stops_def)

section \<open>Canonical digests\<close>

definition audit_keys :: "string list" where
  "audit_keys = [''created_at'', ''updated_at'', ''timestamp'']"

fun strip_audit :: "json \<Rightarrow> json" where
  "strip_audit (JObj ps) = JObj (map (\<lambda>(k, v). (k, strip_audit v)) (filter (\<lambda>(k, v). k \<notin> set audit_keys) ps))"
| "strip_audit (JList xs) = JList (map strip_audit xs)"
| "strip_audit v = v"

definition digest :: "nat \<Rightarrow> json \<Rightarrow> string" where
  "digest n v = take n (sha256_hex (json_dumps (strip_audit v)))"

definition texts_json :: "string list \<Rightarrow> json" where
  "texts_json xs = JList (map JStr xs)"

definition text_dict_json :: "(string, string) dict \<Rightarrow> json" where
  "text_dict_json d = JObj (map (\<lambda>(k, v). (k, JStr v)) d)"

definition int_dict_json :: "(string, int) dict \<Rightarrow> json" where
  "int_dict_json d = JObj (map (\<lambda>(k, v). (k, JInt v)) d)"

section \<open>Identity\<close>

record campaign_identity =
  cid_campaign :: string
  cid_project :: string
  cid_snapshot :: string
  cid_compiler :: string
  cid_root :: string
  cid_language :: string
  cid_target :: string
  cid_contract :: string
  cid_function :: string
  cid_source_file :: string
  cid_deployment :: string
  cid_fork :: string
  cid_program :: string

definition identity_fields :: "campaign_identity \<Rightarrow> (string \<times> json) list" where
  "identity_fields i =
     [(''campaign_id'', JStr (cid_campaign i)), (''project'', JStr (cid_project i)),
      (''source_snapshot'', JStr (cid_snapshot i)), (''compiler_configuration'', JStr (cid_compiler i)),
      (''repository_root'', JStr (cid_root i)), (''language'', JStr (cid_language i)), (''target'', JStr (cid_target i)),
      (''contract'', JStr (cid_contract i)), (''function'', JStr (cid_function i)),
      (''source_file'', JStr (cid_source_file i)), (''deployment'', JStr (cid_deployment i)),
      (''fork_reference'', JStr (cid_fork i)), (''program_context'', JStr (cid_program i))]"

definition target_digest :: "campaign_identity \<Rightarrow> string" where
  "target_digest i =
     (let base = identity_fields (i\<lparr>cid_campaign := []\<rparr>) in
      if cid_program i \<noteq> [] then digest 16 (JObj base)
      else digest 16 (JObj (filter (\<lambda>(k, v). k \<noteq> ''program_context'') base)))"

definition identity_key :: "campaign_identity \<Rightarrow> string" where
  "identity_key i =
     (if cid_contract i \<noteq> [] \<and> cid_function i \<noteq> [] then cid_contract i @ ''.'' @ cid_function i else [])"

section \<open>The budget ledger\<close>

definition dimensions :: "string list" where
  "dimensions =
     [''attempts'', ''engines'', ''rounds'', ''executions'', ''runtime_executions'', ''runtime_seconds'', ''fuzz_runs'',
      ''symbolic_runs'', ''test_runs'', ''economic_runs'', ''protocol_runs'']"

type_synonym costs = "(string, int) dict"

definition amount :: "costs \<Rightarrow> string \<Rightarrow> int" where
  "amount d k = dict_get d k 0"

record ledger =
  bl_limits :: costs
  bl_consumed :: costs
  bl_reserved :: costs
  bl_overrun :: bool

definition ledger_remaining :: "ledger \<Rightarrow> string \<Rightarrow> int" where
  "ledger_remaining l k =
     (case map_of (bl_limits l) k of None \<Rightarrow> 0 | Some m \<Rightarrow> m - amount (bl_consumed l) k - amount (bl_reserved l) k)"

definition shortfall :: "ledger \<Rightarrow> costs \<Rightarrow> string" where
  "shortfall l cost =
     (case List.find (\<lambda>k. 0 < amount cost k \<and> ledger_remaining l k < amount cost k) dimensions of
        Some k \<Rightarrow> k
      | None \<Rightarrow>
          (case sort_texts (\<lambda>k. k) (filter (\<lambda>k. k \<notin> set dimensions) (dict_keys cost)) of
             [] \<Rightarrow> []
           | k # ks \<Rightarrow> if 0 < amount cost k then k else []))"

definition add_amounts :: "costs \<Rightarrow> costs \<Rightarrow> costs" where
  "add_amounts cost d = fold (\<lambda>(k, v) d. dict_set k (amount d k + v) d) cost d"

definition reserve :: "costs \<Rightarrow> ledger \<Rightarrow> orch_error + ledger" where
  "reserve cost l =
     (if shortfall l cost \<noteq> [] then Inl (BadDecision (''budget:'' @ shortfall l cost))
      else Inr (l\<lparr>bl_reserved := add_amounts cost (bl_reserved l)\<rparr>))"

definition release :: "costs \<Rightarrow> ledger \<Rightarrow> ledger" where
  "release cost l =
     l\<lparr>bl_reserved := fold (\<lambda>(k, v) d. dict_set k (max 0 (amount d k - v)) d) cost (bl_reserved l)\<rparr>"

definition settle_one :: "costs \<Rightarrow> costs \<Rightarrow> string \<Rightarrow> ledger \<Rightarrow> ledger" where
  "settle_one reserved actual k l =
     (let c = amount (bl_consumed l) k + amount actual k in
      l\<lparr>bl_consumed := dict_set k c (bl_consumed l),
        bl_overrun := (bl_overrun l \<or> amount reserved k < amount actual k \<or> amount (bl_limits l) k < c)\<rparr>)"

definition settled_keys :: "costs \<Rightarrow> costs \<Rightarrow> string list" where
  "settled_keys reserved actual = sort_texts (\<lambda>k. k) (remdups (dict_keys reserved @ dict_keys actual))"

definition settle :: "costs \<Rightarrow> costs \<Rightarrow> ledger \<Rightarrow> ledger" where
  "settle reserved actual l = fold (settle_one reserved actual) (settled_keys reserved actual) (release reserved l)"

definition exhausted :: "ledger \<Rightarrow> string" where
  "exhausted l =
     (case List.find (\<lambda>k. map_of (bl_limits l) k \<noteq> None \<and> ledger_remaining l k \<le> 0)
        [''rounds'', ''executions'', ''engines'', ''attempts''] of Some k \<Rightarrow> k | None \<Rightarrow> [])"

definition merge_restored :: "ledger \<Rightarrow> ledger \<Rightarrow> ledger" where
  "merge_restored saved l =
     l\<lparr>bl_limits := fold (\<lambda>(k, v) d. dict_set k (case map_of d k of None \<Rightarrow> v | Some c \<Rightarrow> min v c) d) (bl_limits saved) (bl_limits l),
       bl_consumed := fold (\<lambda>(k, v) d. dict_set k (max (amount d k) v) d) (bl_consumed saved) (bl_consumed l),
       bl_reserved := [], bl_overrun := (bl_overrun l \<or> bl_overrun saved)\<rparr>"

definition ledger_json :: "ledger \<Rightarrow> json" where
  "ledger_json l =
     JObj [(''limits'', int_dict_json (bl_limits l)), (''consumed'', int_dict_json (bl_consumed l)),
       (''reserved'', int_dict_json (bl_reserved l)), (''overrun'', JBool (bl_overrun l))]"

section \<open>Records of a campaign\<close>

record evidence_item =
  it_id :: string
  it_kind :: string
  it_quality :: evidence_quality
  it_engine :: string
  it_capability :: string
  it_key :: string
  it_execution :: string
  it_polarity :: string
  it_attrs :: "(string, string) dict"

definition item_attr :: "evidence_item \<Rightarrow> string \<Rightarrow> string" where
  "item_attr i k = dict_get (it_attrs i) k []"

definition item_json :: "evidence_item \<Rightarrow> json" where
  "item_json i =
     JObj [(''evidence_id'', JStr (it_id i)), (''kind'', JStr (it_kind i)),
       (''quality'', JStr (evidence_quality_value (it_quality i))), (''engine'', JStr (it_engine i)),
       (''capability'', JStr (it_capability i)), (''identity_key'', JStr (it_key i)),
       (''execution_key'', JStr (it_execution i)), (''polarity'', JStr (it_polarity i)),
       (''attrs'', text_dict_json (it_attrs i))]"

record contradiction =
  ct_id :: string
  ct_kind :: string
  ct_key :: string
  ct_evidence :: "string list"
  ct_engines :: "string list"
  ct_discriminators :: "string list"
  ct_status :: string

definition contradiction_json :: "contradiction \<Rightarrow> json" where
  "contradiction_json c =
     JObj [(''contradiction_id'', JStr (ct_id c)), (''kind'', JStr (ct_kind c)), (''identity_key'', JStr (ct_key c)),
       (''evidence_ids'', texts_json (ct_evidence c)), (''engines'', texts_json (ct_engines c)),
       (''discriminators'', texts_json (ct_discriminators c)), (''status'', JStr (ct_status c))]"

record negative_evidence =
  ng_kind :: string
  ng_capability :: string
  ng_engine :: string
  ng_key :: string
  ng_statement :: string
  ng_proves_safety :: bool

definition negative_json :: "negative_evidence \<Rightarrow> json" where
  "negative_json n =
     JObj [(''kind'', JStr (ng_kind n)), (''capability'', JStr (ng_capability n)), (''engine'', JStr (ng_engine n)),
       (''identity_key'', JStr (ng_key n)), (''statement'', JStr (ng_statement n)),
       (''proves_safety'', JBool (ng_proves_safety n))]"

record evidence_delta =
  dl_evidence :: "string list"
  dl_findings :: "string list"
  dl_paths :: "string list"
  dl_transitions :: "string list"
  dl_sequences :: "string list"
  dl_runtime :: "string list"
  dl_economic :: "string list"
  dl_differential :: "string list"
  dl_seeds :: "string list"
  dl_contradictions :: "string list"
  dl_negative :: "string list"
  dl_coverage :: bool
  dl_added :: "string list"
  dl_removed :: "string list"

definition no_delta :: evidence_delta where
  "no_delta = \<lparr>dl_evidence = [], dl_findings = [], dl_paths = [], dl_transitions = [], dl_sequences = [],
     dl_runtime = [], dl_economic = [], dl_differential = [], dl_seeds = [], dl_contradictions = [],
     dl_negative = [], dl_coverage = False, dl_added = [], dl_removed = []\<rparr>"

definition informative :: "evidence_delta \<Rightarrow> bool" where
  "informative d \<longleftrightarrow>
     dl_findings d \<noteq> [] \<or> dl_paths d \<noteq> [] \<or> dl_transitions d \<noteq> [] \<or> dl_sequences d \<noteq> [] \<or> dl_runtime d \<noteq> [] \<or>
     dl_economic d \<noteq> [] \<or> dl_differential d \<noteq> [] \<or> dl_seeds d \<noteq> [] \<or> dl_contradictions d \<noteq> [] \<or> dl_coverage d"

definition delta_json :: "evidence_delta \<Rightarrow> json" where
  "delta_json d =
     JObj [(''new_evidence_ids'', texts_json (dl_evidence d)), (''new_finding_ids'', texts_json (dl_findings d)),
       (''new_protocol_paths'', texts_json (dl_paths d)), (''new_state_transitions'', texts_json (dl_transitions d)),
       (''new_sequences'', texts_json (dl_sequences d)), (''new_runtime_observations'', texts_json (dl_runtime d)),
       (''new_economic_observations'', texts_json (dl_economic d)),
       (''new_differential_observations'', texts_json (dl_differential d)),
       (''new_corpus_seeds'', texts_json (dl_seeds d)), (''new_contradictions'', texts_json (dl_contradictions d)),
       (''new_negative_evidence'', texts_json (dl_negative d)), (''new_coverage'', JBool (dl_coverage d)),
       (''uncertainty_added'', texts_json (dl_added d)), (''uncertainty_removed'', texts_json (dl_removed d))]"

record execution_record =
  ex_key :: string
  ex_decision :: string
  ex_engine :: string
  ex_capability :: string
  ex_input :: string
  ex_after :: string
  ex_phase :: execution_phase
  ex_status :: string
  ex_executed :: bool
  ex_failure :: failure_class
  ex_consumed :: costs
  ex_evidence :: "string list"
  ex_round :: int
  ex_retries :: int
  ex_retryable :: bool

definition execution_json :: "execution_record \<Rightarrow> json" where
  "execution_json e =
     JObj [(''execution_key'', JStr (ex_key e)), (''decision_id'', JStr (ex_decision e)), (''engine'', JStr (ex_engine e)),
       (''capability'', JStr (ex_capability e)), (''input_digest'', JStr (ex_input e)),
       (''digest_after'', JStr (ex_after e)), (''phase'', JStr (execution_phase_value (ex_phase e))),
       (''status'', JStr (ex_status e)), (''executed'', JBool (ex_executed e)),
       (''failure_class'', JStr (failure_class_value (ex_failure e))), (''consumed'', int_dict_json (ex_consumed e)),
       (''evidence_ids'', texts_json (ex_evidence e)), (''round'', JInt (ex_round e)), (''retries'', JInt (ex_retries e)),
       (''retryable'', JBool (ex_retryable e))]"

record engine_health =
  hl_engine :: string
  hl_failures :: int
  hl_timeouts :: int
  hl_successes :: int
  hl_unavailable :: int

definition health_json :: "engine_health \<Rightarrow> json" where
  "health_json h =
     JObj [(''engine'', JStr (hl_engine h)), (''consecutive_failures'', JInt (hl_failures h)),
       (''timeouts'', JInt (hl_timeouts h)), (''successes'', JInt (hl_successes h)),
       (''unavailable'', JInt (hl_unavailable h))]"

record capability_need =
  need_capability :: string
  need_status :: need_status
  need_weight :: int
  need_reasons :: "string list"
  need_uncertainties :: "string list"

definition need_json :: "capability_need \<Rightarrow> json" where
  "need_json n =
     JObj [(''capability'', JStr (need_capability n)), (''status'', JStr (need_status_value (need_status n))),
       (''weight'', JInt (need_weight n)), (''reasons'', texts_json (need_reasons n)),
       (''uncertainties'', texts_json (need_uncertainties n))]"

record candidate =
  cand_engine :: string
  cand_capability :: string
  cand_eligible :: bool
  cand_rejection :: string
  cand_complement :: complementarity
  cand_score :: int
  cand_components :: costs
  cand_cost :: costs
  cand_key :: string
  cand_input :: string

definition candidate_json :: "candidate \<Rightarrow> json" where
  "candidate_json c =
     JObj [(''engine'', JStr (cand_engine c)), (''capability'', JStr (cand_capability c)),
       (''eligible'', JBool (cand_eligible c)), (''rejection'', JStr (cand_rejection c)),
       (''complementarity'', JStr (complementarity_value (cand_complement c))), (''score'', JInt (cand_score c)),
       (''components'', int_dict_json (cand_components c)), (''estimated_cost'', int_dict_json (cand_cost c)),
       (''execution_key'', JStr (cand_key c)), (''input_digest'', JStr (cand_input c))]"

record decision_record =
  dcr_id :: string
  dcr_campaign :: string
  dcr_sequence :: int
  dcr_round :: int
  dcr_source :: decision_source
  dcr_phase :: execution_phase
  dcr_previous :: string
  dcr_hash_before :: string
  dcr_summary :: costs
  dcr_uncertainties :: "string list"
  dcr_missing :: string
  dcr_needs :: "capability_need list"
  dcr_considered :: "candidate list"
  dcr_capability :: string
  dcr_engine :: string
  dcr_rationale :: string
  dcr_prerequisites :: "string list"
  dcr_budget :: costs
  dcr_reserved :: costs
  dcr_consumed :: costs
  dcr_execution :: string
  dcr_input :: string
  dcr_result :: string
  dcr_delta :: evidence_delta
  dcr_next :: string
  dcr_stop :: string
  dcr_fork :: "(string, string) dict"
  dcr_differential :: "(string, string) dict"
  dcr_identity :: string
  dcr_snapshot :: string
  dcr_compiler :: string
  dcr_version :: string
  dcr_created :: string
  dcr_hash :: string

definition decision_json :: "decision_record \<Rightarrow> json" where
  "decision_json d =
     JObj [(''decision_id'', JStr (dcr_id d)), (''campaign_id'', JStr (dcr_campaign d)),
       (''sequence'', JInt (dcr_sequence d)), (''round'', JInt (dcr_round d)),
       (''source'', JStr (decision_source_value (dcr_source d))), (''phase'', JStr (execution_phase_value (dcr_phase d))),
       (''previous_state'', JStr (dcr_previous d)), (''state_hash_before'', JStr (dcr_hash_before d)),
       (''evidence_summary'', int_dict_json (dcr_summary d)), (''uncertainties'', texts_json (dcr_uncertainties d)),
       (''missing_capability'', JStr (dcr_missing d)), (''needs'', JList (map need_json (dcr_needs d))),
       (''considered'', JList (map candidate_json (dcr_considered d))),
       (''selected_capability'', JStr (dcr_capability d)), (''selected_engine'', JStr (dcr_engine d)),
       (''rationale'', JStr (dcr_rationale d)), (''prerequisites'', texts_json (dcr_prerequisites d)),
       (''budget_before'', int_dict_json (dcr_budget d)), (''reserved_cost'', int_dict_json (dcr_reserved d)),
       (''consumed_cost'', int_dict_json (dcr_consumed d)), (''execution_id'', JStr (dcr_execution d)),
       (''input_digest'', JStr (dcr_input d)), (''result_status'', JStr (dcr_result d)),
       (''evidence_delta'', delta_json (dcr_delta d)), (''next_capability'', JStr (dcr_next d)),
       (''stop_reason'', JStr (dcr_stop d)), (''fork_reference'', text_dict_json (dcr_fork d)),
       (''differential'', text_dict_json (dcr_differential d)), (''identity_digest'', JStr (dcr_identity d)),
       (''source_snapshot'', JStr (dcr_snapshot d)), (''compiler_configuration'', JStr (dcr_compiler d)),
       (''orchestrator_version'', JStr (dcr_version d)), (''created_at'', JStr (dcr_created d)),
       (''record_hash'', JStr (dcr_hash d))]"

definition sealed :: "decision_record \<Rightarrow> decision_record" where
  "sealed d = d\<lparr>dcr_hash := digest 16 (decision_json (d\<lparr>dcr_hash := []\<rparr>))\<rparr>"

lemma sealed_again: "sealed (sealed d) = sealed d"
  by (simp add: sealed_def)

section \<open>The state of a campaign\<close>

definition schema_version :: int where
  "schema_version = 1"

definition orchestrator_version :: string where
  "orchestrator_version = ''phase49.1''"

record research_state =
  rst_identity :: campaign_identity
  rst_schema :: int
  rst_version :: string
  rst_state :: orch_state
  rst_round :: int
  rst_number :: int
  rst_resume :: resume_status
  rst_resumes :: int
  rst_uncertainties :: "string list"
  rst_evidence :: "evidence_item list"
  rst_contradictions :: "contradiction list"
  rst_negatives :: "negative_evidence list"
  rst_executions :: "execution_record list"
  rst_health :: "engine_health list"
  rst_budget :: ledger
  rst_corpus_refs :: "string list"
  rst_sequence_refs :: "string list"
  rst_protocol_refs :: "string list"
  rst_runtime_refs :: "string list"
  rst_economic_refs :: "string list"
  rst_differential_refs :: "string list"
  rst_decisions :: "decision_record list"
  rst_next_capability :: string
  rst_next_engine :: string
  rst_rationale :: string
  rst_stop :: string
  rst_recommend :: bool
  rst_feedback :: "(string, string) dict"
  rst_hash :: string

definition new_state :: "campaign_identity \<Rightarrow> ledger \<Rightarrow> research_state" where
  "new_state i l =
     \<lparr>rst_identity = i, rst_schema = schema_version, rst_version = orchestrator_version, rst_state = O_CREATED,
      rst_round = 0, rst_number = 0, rst_resume = RS_NEW, rst_resumes = 0, rst_uncertainties = [], rst_evidence = [],
      rst_contradictions = [], rst_negatives = [], rst_executions = [], rst_health = [], rst_budget = l,
      rst_corpus_refs = [], rst_sequence_refs = [], rst_protocol_refs = [], rst_runtime_refs = [],
      rst_economic_refs = [], rst_differential_refs = [], rst_decisions = [], rst_next_capability = [],
      rst_next_engine = [], rst_rationale = [], rst_stop = [], rst_recommend = False, rst_feedback = [],
      rst_hash = []\<rparr>"

definition state_json :: "research_state \<Rightarrow> json" where
  "state_json t =
     JObj [(''identity'', JObj (identity_fields (rst_identity t))), (''schema_version'', JInt (rst_schema t)),
       (''orchestrator_version'', JStr (rst_version t)), (''state'', JStr (orch_state_value (rst_state t))),
       (''round'', JInt (rst_round t)), (''decision_number'', JInt (rst_number t)),
       (''resume_status'', JStr (resume_status_value (rst_resume t))), (''resume_count'', JInt (rst_resumes t)),
       (''uncertainties'', texts_json (rst_uncertainties t)), (''evidence'', JList (map item_json (rst_evidence t))),
       (''contradictions'', JList (map contradiction_json (rst_contradictions t))),
       (''negatives'', JList (map negative_json (rst_negatives t))),
       (''executions'', JList (map execution_json (rst_executions t))), (''health'', JList (map health_json (rst_health t))),
       (''budget'', ledger_json (rst_budget t)), (''corpus_refs'', texts_json (rst_corpus_refs t)),
       (''sequence_refs'', texts_json (rst_sequence_refs t)), (''protocol_refs'', texts_json (rst_protocol_refs t)),
       (''runtime_refs'', texts_json (rst_runtime_refs t)), (''economic_refs'', texts_json (rst_economic_refs t)),
       (''differential_refs'', texts_json (rst_differential_refs t)),
       (''decisions'', JList (map decision_json (rst_decisions t))), (''next_capability'', JStr (rst_next_capability t)),
       (''next_engine'', JStr (rst_next_engine t)), (''rationale'', JStr (rst_rationale t)),
       (''stop_reason'', JStr (rst_stop t)), (''recommend_verification_review'', JBool (rst_recommend t)),
       (''feedback'', text_dict_json (rst_feedback t)), (''state_hash'', JStr (rst_hash t))]"

definition hash_now :: "research_state \<Rightarrow> string" where
  "hash_now t = digest 32 (state_json (t\<lparr>rst_hash := []\<rparr>))"

definition seal :: "research_state \<Rightarrow> research_state" where
  "seal t = t\<lparr>rst_hash := hash_now t\<rparr>"

lemma hash_of_sealed: "hash_now (seal t) = rst_hash (seal t)"
  by (simp add: seal_def hash_now_def)

text \<open>What a campaign has done. Only an execution that ran to a usable result counts.\<close>

definition exercised :: "execution_record \<Rightarrow> bool" where
  "exercised e \<longleftrightarrow> ex_executed e \<and> ex_phase e = X_COMPLETED"

definition sorted_set :: "string list \<Rightarrow> string list" where
  "sorted_set xs = sort_texts (\<lambda>k. k) (remdups xs)"

definition attempted_keys :: "research_state \<Rightarrow> string list" where
  "attempted_keys t = map ex_key (filter (\<lambda>e. ex_phase e \<in> set attempted_phases) (rst_executions t))"

definition completed_with :: "research_state \<Rightarrow> string \<Rightarrow> execution_record list" where
  "completed_with t c = filter (\<lambda>e. ex_capability e = c \<and> ex_phase e = X_COMPLETED \<and> ex_executed e) (rst_executions t)"

definition exercised_capabilities :: "research_state \<Rightarrow> string list" where
  "exercised_capabilities t = sorted_set (map ex_capability (filter exercised (rst_executions t)))"

definition exercised_engines :: "research_state \<Rightarrow> string list" where
  "exercised_engines t = sorted_set (map ex_engine (filter exercised (rst_executions t)))"

definition engines_in :: "execution_phase list \<Rightarrow> research_state \<Rightarrow> string list" where
  "engines_in ps t = sorted_set (map ex_engine (filter (\<lambda>e. ex_phase e \<in> set ps) (rst_executions t)))"

definition failed_engines :: "research_state \<Rightarrow> string list" where
  "failed_engines = engines_in [X_FAILED, X_TIMED_OUT, X_UNKNOWN]"

definition unavailable_engines :: "research_state \<Rightarrow> string list" where
  "unavailable_engines = engines_in [X_UNAVAILABLE]"

definition skipped_engines :: "research_state \<Rightarrow> string list" where
  "skipped_engines = engines_in [X_UNSUPPORTED, X_BLOCKED]"

definition successful_engines :: "research_state \<Rightarrow> string list" where
  "successful_engines t =
     sorted_set (map ex_engine (filter (\<lambda>e. ex_phase e = X_COMPLETED \<and> ex_executed e) (rst_executions t)))"

lemma set_sorted_set [simp]: "set (sorted_set xs) = set xs"
  by (simp add: sorted_set_def)

end
