(* ===== verification/OrchBudget.thy ===== *)
theory OrchBudget
  imports OrchModel
begin

text \<open>
  \<open>discovery/orchestration/budget.py\<close> and \<open>gate.py\<close>, and the laws of the ledger: what is reserved and
  settled is accounted exactly, requests and restored ledgers only tighten, and the gate refuses
  whatever it is not sure of. The scan seconds of the settings are an argument.
\<close>

section \<open>Amounts\<close>

lemma amount_set [simp]: "amount (dict_set k v d) k' = (if k' = k then v else amount d k')"
  by (simp add: amount_def)

lemma amount_Cons: "amount ((k, v) # d) k' = (if k' = k then v else amount d k')"
  by (auto simp: amount_def dict_get_def)

lemma amount_Nil [simp]: "amount [] k = 0"
  by (simp add: amount_def)

lemma amount_absent: "k \<notin> set (dict_keys d) \<Longrightarrow> amount d k = 0"
proof -
  assume "k \<notin> set (dict_keys d)"
  then have "map_of d k = None" by (simp add: dict_keys_def map_of_eq_None_iff)
  then show ?thesis by (simp add: amount_def dict_get_def)
qed

definition proper :: "costs \<Rightarrow> bool" where
  "proper d \<longleftrightarrow> distinct (dict_keys d) \<and> (\<forall>(k, v)\<in>set d. 0 \<le> v)"

lemma proper_Cons: "proper ((k, v) # d) \<longleftrightarrow> k \<notin> set (dict_keys d) \<and> 0 \<le> v \<and> proper d"
  by (auto simp: proper_def dict_keys_def)

lemma proper_Nil [simp]: "proper []"
  by (simp add: proper_def dict_keys_def)

lemma proper_nonneg: "proper d \<Longrightarrow> 0 \<le> amount d k"
  by (induction d) (auto simp: proper_Cons amount_Cons)

lemma amount_add: "proper cost \<Longrightarrow> amount (add_amounts cost d) k = amount d k + amount cost k"
proof (induction cost arbitrary: d)
  case Nil then show ?case by (simp add: add_amounts_def)
next
  case (Cons p cost)
  obtain k' v where p: "p = (k', v)" by (cases p)
  from Cons.prems have "proper cost" and "k' \<notin> set (dict_keys cost)" by (auto simp: p proper_Cons)
  then show ?case
    using Cons.IH [of "dict_set k' (amount d k' + v) d"] by (auto simp: add_amounts_def p amount_Cons amount_absent)
qed

lemma amount_released:
  "proper cost \<Longrightarrow> 0 \<le> amount d k \<Longrightarrow>
     amount (fold (\<lambda>(k, v) d. dict_set k (max 0 (amount d k - v)) d) cost d) k = max 0 (amount d k - amount cost k)"
proof (induction cost arbitrary: d)
  case Nil then show ?case by simp
next
  case (Cons p cost)
  obtain k' v where p: "p = (k', v)" by (cases p)
  from Cons.prems have c: "proper cost" "k' \<notin> set (dict_keys cost)" "0 \<le> v" by (auto simp: p proper_Cons)
  then have z: "amount cost k' = 0" by (simp add: amount_absent)
  have "0 \<le> amount (dict_set k' (max 0 (amount d k' - v)) d) k" using Cons.prems(2) by simp
  from Cons.IH [OF c(1) this] z show ?case by (auto simp: p amount_Cons)
qed

section \<open>Reserving and settling\<close>

lemma settled_keys_distinct: "distinct (settled_keys r a)"
  unfolding settled_keys_def by (metis distinct_remdups mset_eq_imp_distinct_iff mset_sort_texts)

lemma settled_keys_set [simp]: "set (settled_keys r a) = set (dict_keys r) \<union> set (dict_keys a)"
  by (simp add: settled_keys_def)

lemma settle_fold:
  "distinct ks \<Longrightarrow>
     amount (bl_consumed (fold (settle_one r a) ks l)) k = amount (bl_consumed l) k + (if k \<in> set ks then amount a k else 0) \<and>
     bl_limits (fold (settle_one r a) ks l) = bl_limits l \<and> bl_reserved (fold (settle_one r a) ks l) = bl_reserved l"
proof (induction ks arbitrary: l)
  case Nil then show ?case by simp
next
  case (Cons x ks)
  from Cons.IH [of "settle_one r a x l"] Cons.prems show ?case by (auto simp: settle_one_def Let_def)
qed

lemma settle_limits [simp]: "bl_limits (settle r a l) = bl_limits l"
  using settle_fold [OF settled_keys_distinct [of r a], of r a "release r l"] by (simp add: settle_def release_def)

lemma settle_consumed [simp]: "amount (bl_consumed (settle r a l)) k = amount (bl_consumed l) k + amount a k"
  using settle_fold [OF settled_keys_distinct [of r a], of r a "release r l" k] amount_absent [of k a]
  by (auto simp: settle_def release_def)

lemma settle_reserved:
  "proper r \<Longrightarrow> 0 \<le> amount (bl_reserved l) k \<Longrightarrow>
     amount (bl_reserved (settle r a l)) k = max 0 (amount (bl_reserved l) k - amount r k)"
  using settle_fold [OF settled_keys_distinct [of r a], of r a "release r l"] amount_released
  by (simp add: settle_def release_def)

lemma shortfall_fits: "shortfall l cost = [] \<Longrightarrow> k \<in> set dimensions \<Longrightarrow> 0 < amount cost k \<Longrightarrow> amount cost k \<le> ledger_remaining l k"
proof -
  assume s: "shortfall l cost = []" and k: "k \<in> set dimensions" "0 < amount cost k"
  have "[] \<notin> set dimensions" by (simp add: dimensions_def)
  with s have "List.find (\<lambda>k. 0 < amount cost k \<and> ledger_remaining l k < amount cost k) dimensions = None"
    using find_Some_prop by (fastforce simp: shortfall_def split: option.splits)
  with k show ?thesis by (auto simp: find_None_iff not_less)
qed

lemma reserve_ok:
  "reserve cost l = Inr l' \<longleftrightarrow> shortfall l cost = [] \<and> l' = l\<lparr>bl_reserved := add_amounts cost (bl_reserved l)\<rparr>"
  by (auto simp: reserve_def)

text \<open>A reservation that is settled has consumed exactly what was used, and holds nothing any more.\<close>

lemma settled_exactly:
  assumes "reserve cost l = Inr l1" and "proper cost" and "0 \<le> amount (bl_reserved l) k"
  shows "amount (bl_consumed (settle cost a l1)) k = amount (bl_consumed l) k + amount a k"
    and "amount (bl_reserved (settle cost a l1)) k = amount (bl_reserved l) k"
    and "map_of (bl_limits l) k \<noteq> None \<Longrightarrow> ledger_remaining (settle cost a l1) k = ledger_remaining l k - amount a k"
proof -
  have l1: "l1 = l\<lparr>bl_reserved := add_amounts cost (bl_reserved l)\<rparr>" using assms(1) by (simp add: reserve_ok)
  have r: "0 \<le> amount (bl_reserved l1) k" using assms proper_nonneg [of cost k] by (simp add: l1 amount_add)
  show c: "amount (bl_consumed (settle cost a l1)) k = amount (bl_consumed l) k + amount a k" by (simp add: l1)
  show d: "amount (bl_reserved (settle cost a l1)) k = amount (bl_reserved l) k"
    using settle_reserved [OF assms(2) r] assms by (simp add: l1 amount_add)
  have m: "bl_limits (settle cost a l1) = bl_limits l" by (simp add: l1)
  show "map_of (bl_limits l) k \<noteq> None \<Longrightarrow> ledger_remaining (settle cost a l1) k = ledger_remaining l k - amount a k"
    using c d m by (auto simp: ledger_remaining_def split: option.splits)
qed

section \<open>Restoring\<close>

lemma merge_consumed:
  "amount d k \<le> amount (fold (\<lambda>(k, v) d. dict_set k (max (amount d k) v) d) ps d) k \<and>
   (\<forall>v. (k, v) \<in> set ps \<longrightarrow> v \<le> amount (fold (\<lambda>(k, v) d. dict_set k (max (amount d k) v) d) ps d) k)"
proof (induction ps arbitrary: d)
  case Nil then show ?case by simp
next
  case (Cons p ps)
  obtain k' v where p: "p = (k', v)" by (cases p)
  let ?d = "dict_set k' (max (amount d k') v) d"
  have "amount d k \<le> amount ?d k" by simp
  moreover have "k = k' \<Longrightarrow> v \<le> amount ?d k" by simp
  ultimately show ?case using Cons.IH [of ?d] by (fastforce simp: p)
qed

definition lower :: "costs \<Rightarrow> string \<Rightarrow> int \<Rightarrow> bool" where
  "lower d k m \<longleftrightarrow> (\<exists>v. map_of d k = Some v \<and> v \<le> m)"

lemma lower_mono: "lower d k m \<Longrightarrow> m \<le> n \<Longrightarrow> lower d k n"
  by (auto simp: lower_def)

lemma merge_limits:
  "(lower d k m \<longrightarrow> lower (fold (\<lambda>(k, v) d. dict_set k (case map_of d k of None \<Rightarrow> v | Some c \<Rightarrow> min v c) d) ps d) k m) \<and>
   (\<forall>v. (k, v) \<in> set ps \<longrightarrow>
      lower (fold (\<lambda>(k, v) d. dict_set k (case map_of d k of None \<Rightarrow> v | Some c \<Rightarrow> min v c) d) ps d) k v)"
proof (induction ps arbitrary: d m)
  case Nil then show ?case by simp
next
  case (Cons p ps)
  obtain k' v where p: "p = (k', v)" by (cases p)
  let ?d = "dict_set k' (case map_of d k' of None \<Rightarrow> v | Some c \<Rightarrow> min v c) d"
  have "lower d k m \<Longrightarrow> lower ?d k m" by (auto simp: lower_def)
  moreover have "k = k' \<Longrightarrow> lower ?d k v" by (auto simp: lower_def split: option.splits)
  ultimately show ?case using Cons.IH [of ?d] by (fastforce simp: p)
qed

text \<open>A restored ledger has no more left in any dimension than either ledger alone.\<close>

lemma merge_never_widens:
  assumes "map_of (bl_limits l) k = Some m"
  shows "map_of (bl_limits (merge_restored saved l)) k \<noteq> None"
    and "ledger_remaining (merge_restored saved l) k \<le> m - amount (bl_consumed l) k"
    and "(k, v) \<in> set (bl_limits saved) \<Longrightarrow> (k, c) \<in> set (bl_consumed saved) \<Longrightarrow>
      ledger_remaining (merge_restored saved l) k \<le> v - c"
proof -
  let ?l = "merge_restored saved l"
  have low: "lower (bl_limits ?l) k m"
    using assms merge_limits [of "bl_limits l" k m "bl_limits saved"] by (auto simp: merge_restored_def lower_def)
  then show "map_of (bl_limits ?l) k \<noteq> None" by (auto simp: lower_def)
  have con: "amount (bl_consumed l) k \<le> amount (bl_consumed ?l) k"
    using merge_consumed [of "bl_consumed l" k "bl_consumed saved"] by (simp add: merge_restored_def)
  have res: "amount (bl_reserved ?l) k = 0" by (simp add: merge_restored_def)
  from low con res show "ledger_remaining ?l k \<le> m - amount (bl_consumed l) k"
    by (auto simp: ledger_remaining_def lower_def)
  show "ledger_remaining ?l k \<le> v - c" if "(k, v) \<in> set (bl_limits saved)" "(k, c) \<in> set (bl_consumed saved)"
  proof -
    have "lower (bl_limits ?l) k v"
      using that(1) merge_limits [of "bl_limits l" k m "bl_limits saved"] by (auto simp: merge_restored_def)
    moreover have "c \<le> amount (bl_consumed ?l) k"
      using that(2) merge_consumed [of "bl_consumed l" k "bl_consumed saved"] by (simp add: merge_restored_def)
    ultimately show ?thesis using res by (auto simp: ledger_remaining_def lower_def)
  qed
qed

text \<open>Of the unknown dimensions of a cost only the first is looked at, so a free one hides the next.\<close>

lemma unknown_dimension_passes:
  "shortfall \<lparr>bl_limits = [], bl_consumed = [], bl_reserved = [], bl_overrun = False\<rparr> [(''a'', 0), (''b'', 5)] = []"
  by (simp add: shortfall_def dimensions_def amount_def dict_get_def dict_keys_def sort_texts_def)

section \<open>New ledgers and costs\<close>

definition max_executions :: int where
  "max_executions = 8"

definition default_run_caps :: costs where
  "default_run_caps =
     [(''fuzz_runs'', 3), (''symbolic_runs'', 2), (''test_runs'', 3), (''economic_runs'', 2), (''protocol_runs'', 2)]"

definition runtime_seconds_per_run :: int where
  "runtime_seconds_per_run = 60"

definition hard_max_rounds :: int where
  "hard_max_rounds = 16"

definition capability_dimension :: "(string, string) dict" where
  "capability_dimension =
     [(''fuzzing'', ''fuzz_runs''), (''symbolic_execution'', ''symbolic_runs''), (''test_execution'', ''test_runs''),
      (''economic_simulation'', ''economic_runs''), (''cross_contract_analysis'', ''protocol_runs'')]"

definition runtime_family :: "string list" where
  "runtime_family = [''runtime_validation'', ''fork_validation'', ''differential_validation'']"

definition cap_limits :: "costs \<Rightarrow> costs \<Rightarrow> costs" where
  "cap_limits caps d =
     fold (\<lambda>(k, v) d. case map_of d k of None \<Rightarrow> d | Some m \<Rightarrow> dict_set k (min m (max 0 v)) d) caps d"

definition new_ledger :: "int \<Rightarrow> 'w scheduler \<Rightarrow> int option \<Rightarrow> costs \<Rightarrow> int option \<Rightarrow> ledger" where
  "new_ledger scan s max_rounds caps secs =
     (let engines = max 0 (sch_max_engines s); base = min (max 0 (sch_max_rounds s)) hard_max_rounds;
          rounds = (case max_rounds of None \<Rightarrow> base | Some n \<Rightarrow> min base (max 0 n));
          ceiling = (case secs of None \<Rightarrow> scan | Some n \<Rightarrow> n);
          limits = [(''engines'', engines), (''rounds'', rounds), (''executions'', engines),
            (''attempts'', max 1 (2 * rounds + 2)), (''runtime_executions'', min max_executions (engines * 2)),
            (''runtime_seconds'', max 0 (min ceiling scan))] @ map (\<lambda>(k, v). (k, min v engines)) default_run_caps
      in \<lparr>bl_limits = cap_limits caps limits, bl_consumed = [], bl_reserved = [], bl_overrun = False\<rparr>)"

definition estimate_cost :: "string \<Rightarrow> int \<Rightarrow> costs" where
  "estimate_cost capability runs =
     [(''attempts'', 1), (''engines'', 1), (''rounds'', 1), (''executions'', 1)] @
     (case map_of capability_dimension capability of None \<Rightarrow> [] | Some d \<Rightarrow> [(d, 1)]) @
     (if capability \<in> set runtime_family
      then [(''runtime_executions'', max 1 runs), (''runtime_seconds'', max 1 runs * runtime_seconds_per_run)] else [])"

definition actual_cost :: "string \<Rightarrow> bool \<Rightarrow> int \<Rightarrow> costs" where
  "actual_cost capability executed runs = (if executed then estimate_cost capability runs else [(''attempts'', 1)])"

lemma estimate_proper [simp]: "proper (estimate_cost c runs)"
  by (auto simp: estimate_cost_def proper_def dict_keys_def capability_dimension_def runtime_family_def
      runtime_seconds_per_run_def split: option.splits if_splits)

lemma estimate_attempts [simp]: "amount (estimate_cost c runs) ''attempts'' = 1"
  by (simp add: estimate_cost_def amount_Cons)

lemma actual_attempts [simp]: "amount (actual_cost c x runs) ''attempts'' = 1"
  by (simp add: actual_cost_def amount_Cons)

lemma actual_proper [simp]: "proper (actual_cost c x runs)"
  by (simp add: actual_cost_def proper_Cons dict_keys_def)

lemma cap_limits_lower: "lower d k m \<Longrightarrow> lower (cap_limits caps d) k m"
proof (induction caps arbitrary: d)
  case Nil then show ?case by (simp add: cap_limits_def)
next
  case (Cons p caps)
  obtain k' v where p: "p = (k', v)" by (cases p)
  let ?d = "case map_of d k' of None \<Rightarrow> d | Some m \<Rightarrow> dict_set k' (min m (max 0 v)) d"
  have "lower ?d k m" using Cons.prems by (auto simp: lower_def split: option.splits)
  from Cons.IH [OF this] show ?case by (simp add: cap_limits_def p)
qed

lemma cap_limits_mono:
  "(\<And>k m. map_of d k = Some m \<Longrightarrow> lower e k m) \<Longrightarrow> map_of d k = Some m \<Longrightarrow> lower (cap_limits caps e) k m"
  by (simp add: cap_limits_lower)

text \<open>Whatever a caller asks for, no limit of the ledger is above the one nobody asked to lower.\<close>

lemma requests_only_tighten:
  assumes "map_of (bl_limits (new_ledger scan s None [] None)) k = Some m"
  shows "lower (bl_limits (new_ledger scan s max_rounds caps secs)) k m"
proof -
  have att: "2 * min b (max 0 a) + 2 \<le> max 1 (2 * b + 2)" for a b :: int by (simp add: min_def max_def)
  have c: "map_of (bl_limits (new_ledger scan s None [] None)) k = Some m \<Longrightarrow>
    lower (bl_limits (new_ledger scan s max_rounds [] secs)) k m"
    using att by (cases max_rounds; cases secs)
      (auto simp: new_ledger_def cap_limits_def Let_def default_run_caps_def lower_def split: if_splits)
  have "bl_limits (new_ledger scan s max_rounds caps secs) = cap_limits caps (bl_limits (new_ledger scan s max_rounds [] secs))"
    by (simp add: new_ledger_def Let_def cap_limits_def)
  with c [OF assms] show ?thesis by (simp add: cap_limits_lower)
qed

lemma attempts_are_limited: "map_of (bl_limits (new_ledger scan s max_rounds caps secs)) ''attempts'' \<noteq> None"
proof -
  obtain m where "map_of (bl_limits (new_ledger scan s None [] None)) ''attempts'' = Some m"
    by (simp add: new_ledger_def Let_def cap_limits_def)
  from requests_only_tighten [OF this, of max_rounds caps secs] show ?thesis by (auto simp: lower_def)
qed

section \<open>The gate\<close>

record gate_verdict =
  gv_allowed :: bool
  gv_stop :: "stop_reason option"
  gv_detail :: string

text \<open>What calling a gate gives: a verdict, something else, or an exception.\<close>

datatype gate_answer = GateVerdict gate_verdict | GateOther | GateRaised

type_synonym gate = "candidate \<Rightarrow> analysis_request \<Rightarrow> research_state \<Rightarrow> gate_answer"

record default_gate =
  dg_scope_allowed :: bool
  dg_approvals :: "string list"
  dg_required :: "string list"
  dg_network :: "string list"

definition standard_gate :: default_gate where
  "standard_gate = \<lparr>dg_scope_allowed = True, dg_approvals = [], dg_required = [''fork_validation''],
     dg_network = [''fork_validation'']\<rparr>"

definition no_network :: "string list" where
  "no_network = [[], ''none'', ''off'', ''disabled'', ''no'']"

definition gate_denial :: "stop_reason \<Rightarrow> string \<Rightarrow> gate_verdict" where
  "gate_denial r d = \<lparr>gv_allowed = False, gv_stop = Some r, gv_detail = d\<rparr>"

definition gate_check :: "default_gate \<Rightarrow> gate" where
  "gate_check g c q t =
     GateVerdict
      (if \<not> dg_scope_allowed g \<or> ask_flag q ''scope'' = ''out_of_scope'' then
         gate_denial SR_SCOPE_BLOCKED ''target is outside the scope''
       else if py_lower (py_strip (ask_flag q ''network'')) \<notin> set no_network \<and> cand_capability c \<notin> set (dg_network g) then
         gate_denial SR_SAFETY_BLOCKED ''network access is only possible for approved fork validation''
       else if cand_capability c \<in> set (dg_required g) \<and> cand_capability c \<notin> set (dg_approvals g) then
         gate_denial SR_APPROVAL_REQUIRED (cand_capability c @ '' needs approval'')
       else \<lparr>gv_allowed = True, gv_stop = None, gv_detail = []\<rparr>)"

definition check_gate :: "gate \<Rightarrow> gate" where
  "check_gate g c q t =
     GateVerdict (case g c q t of
       GateRaised \<Rightarrow> gate_denial SR_SAFETY_BLOCKED ''the gate failed, so it refuses''
     | GateOther \<Rightarrow> gate_denial SR_SAFETY_BLOCKED ''the gate gave no verdict''
     | GateVerdict v \<Rightarrow>
         if \<not> gv_allowed v \<and> gv_stop v = None then gate_denial SR_SAFETY_BLOCKED (or_text (gv_detail v) ''refused'') else v)"

definition gate_allows :: "gate \<Rightarrow> candidate \<Rightarrow> analysis_request \<Rightarrow> research_state \<Rightarrow> bool" where
  "gate_allows g c q t \<longleftrightarrow> (\<exists>v. g c q t = GateVerdict v \<and> gv_allowed v)"

lemma check_gate_allows:
  "check_gate g c q t = GateVerdict v \<Longrightarrow> gv_allowed v \<longleftrightarrow> gate_allows g c q t"
  by (auto simp: check_gate_def gate_allows_def gate_denial_def split: gate_answer.splits if_splits)

end
