(* ===== verification/OrchEvidence.thy ===== *)
theory OrchEvidence
  imports OrchBudget
begin

text \<open>
  \<open>discovery/orchestration/evidence.py\<close>: what a result of an engine says, the typed and bounded
  evidence made of it, corroboration by independent mechanisms, contradictions and the difference a
  round made. Evidence is only ever a candidate or corroborated, never verified.
\<close>

section \<open>Outcome and quality\<close>

definition outcome_of :: "dynamic_result \<Rightarrow> execution_phase \<times> failure_class" where
  "outcome_of r =
     (let u = res_status r in
      if res_provenance r = ''budget_exhausted'' then (X_BLOCKED, FC_POLICY)
      else if u = R_UNAVAILABLE then (X_UNAVAILABLE, FC_UNAVAILABLE)
      else if u \<in> {R_NOT_IMPLEMENTED, R_UNSUPPORTED, R_PLANNED} then (X_UNSUPPORTED, FC_UNSUPPORTED)
      else if u = R_TIMEOUT then (X_TIMED_OUT, FC_TIMEOUT)
      else if u \<in> {R_FAILED, R_TOOL_FAILURE} then
        (if res_executed r \<and> (res_crash r \<noteq> [] \<or> res_assertion r \<noteq> [] \<or> res_findings r \<noteq> []) then (X_COMPLETED, FC_NONE)
         else (X_FAILED, if res_executed r then FC_TOOL else FC_INFRASTRUCTURE))
      else if \<not> res_executed r then (X_UNKNOWN, FC_UNKNOWN_OUTCOME)
      else (X_COMPLETED, FC_NONE))"

definition meta :: "dynamic_result \<Rightarrow> string \<Rightarrow> string" where
  "meta r k = dict_get (res_metadata r) k []"

definition is_positive :: "dynamic_result \<Rightarrow> bool" where
  "is_positive r \<longleftrightarrow>
     res_findings r \<noteq> [] \<or> res_crash r \<noteq> [] \<or> res_assertion r \<noteq> [] \<or> res_sanitizer r \<noteq> [] \<or>
     res_oracle r = ''economic'' \<and> py_lower (dict_get (res_metadata r) ''bound'' (meta r ''economic_bound'')) = ''true''"

definition polarity_of :: "dynamic_result \<Rightarrow> execution_phase \<Rightarrow> string" where
  "polarity_of r phase =
     (if phase \<noteq> X_COMPLETED then []
      else if meta r ''classification'' = ''deterministic divergence'' then ''divergent''
      else if is_positive r then ''positive''
      else if meta r ''transaction_outcome'' = ''reverted'' then ''negative''
      else ''neutral'')"

definition unknown_observations :: "string list" where
  "unknown_observations = [''unknown'', ''incomplete'', ''unavailable'', ''inconclusive'']"

definition quality_of :: "dynamic_result \<Rightarrow> execution_phase \<Rightarrow> evidence_quality" where
  "quality_of r phase =
     (if phase = X_UNAVAILABLE then Q_UNAVAILABLE
      else if phase \<in> {X_UNSUPPORTED, X_BLOCKED} then Q_UNSUPPORTED
      else if phase \<noteq> X_COMPLETED then Q_INCOMPLETE
      else if meta r ''observation_status'' \<in> set unknown_observations \<or> meta r ''document_attributed'' = ''false'' then Q_UNKNOWN
      else if meta r ''transaction_outcome'' = ''unknown'' then Q_UNKNOWN
      else if is_positive r then Q_CANDIDATE
      else Q_OBSERVATION)"

definition identity_matches :: "dynamic_result \<Rightarrow> campaign_identity \<Rightarrow> bool" where
  "identity_matches r i \<longleftrightarrow>
     list_all (\<lambda>(name, expected). expected = [] \<or> meta r name = [] \<or> meta r name = expected)
       [(''source_snapshot'', cid_snapshot i), (''compiler_configuration'', cid_compiler i),
        (''program_context'', cid_program i)]"

definition clip :: "string \<Rightarrow> string" where
  "clip s = py_take 160 s"

definition category_of :: "dynamic_result \<Rightarrow> string \<Rightarrow> string" where
  "category_of r capability =
     (if meta r ''evidence_class'' \<in> {''economic'', ''protocol'', ''runtime'', ''differential''} then meta r ''evidence_class''
      else if capability = ''cross_contract_analysis'' then ''protocol''
      else if capability = ''economic_simulation'' then ''economic''
      else if capability \<in> set runtime_family then (if capability = ''differential_validation'' then ''differential'' else ''runtime'')
      else ''summary'')"

section \<open>Attribution\<close>

text \<open>What follows the first \<open>::\<close>, if there is one.\<close>

fun after_colons :: "string \<Rightarrow> string option" where
  "after_colons (c # d # s) = (if c = CHR '':'' \<and> d = CHR '':'' then Some s else after_colons (d # s))"
| "after_colons s = None"

definition bare_name :: "string \<Rightarrow> string" where
  "bare_name f = fst (py_partition CHR ''('' f)"

definition attribute :: "string \<Rightarrow> string \<Rightarrow> campaign_identity \<Rightarrow> string" where
  "attribute contract function i =
     (let (c, f) = (case after_colons function of
            None \<Rightarrow> (contract, function)
          | Some tail \<Rightarrow> (let (head, dot, rest) = py_partition CHR ''.'' tail in (or_text contract head, rest)));
          tc = cid_contract i; tf = cid_function i in
      if c = [] \<or> f = [] then []
      else if tc \<noteq> [] \<and> tf \<noteq> [] \<and> c = tc \<and> bare_name f = bare_name tf then
        (if CHR ''('' \<in> set tf \<and> f \<noteq> tf then [] else identity_key i)
      else c @ ''.'' @ f)"

section \<open>Items\<close>

definition make_item ::
    "string \<Rightarrow> string \<Rightarrow> string \<Rightarrow> string \<Rightarrow> string \<Rightarrow> evidence_quality \<Rightarrow> string \<Rightarrow> string \<Rightarrow> (string, string) dict \<Rightarrow> evidence_item"
  where
  "make_item execution kind category engine capability quality key polarity attrs =
     \<lparr>it_id = ''ev_'' @ digest 16 (JObj
        [(''kind'', JStr kind), (''category'', JStr category), (''engine'', JStr engine), (''capability'', JStr capability),
         (''identity_key'', JStr key), (''polarity'', JStr polarity), (''attrs'', text_dict_json attrs)]),
      it_kind = kind, it_quality = quality, it_engine = engine, it_capability = capability, it_key = key,
      it_execution = execution, it_polarity = polarity, it_attrs = dict_set ''category'' category attrs\<rparr>"

definition attr_names :: "string list" where
  "attr_names =
     [''classification'', ''observation_status'', ''transaction_outcome'', ''runtime_mode'', ''request_identity'',
      ''deterministic'']"

definition base_attrs :: "dynamic_result \<Rightarrow> bool \<Rightarrow> (string, string) dict" where
  "base_attrs r matched =
     [(''status'', result_status_value (res_status r)), (''executed'', json_bool (res_executed r)), (''verified'', ''false'')] @
     (if matched then [] else [(''identity'', ''mismatch'')]) @
     map (\<lambda>k. (k, clip (meta r k))) (filter (\<lambda>k. meta r k \<noteq> []) attr_names)"

definition path_ids :: "dynamic_result \<Rightarrow> string list" where
  "path_ids r =
     (case json_loads (meta r ''path_ids'') of
        Inr (JList xs) \<Rightarrow> concat (map (\<lambda>x. case x of JStr s \<Rightarrow> [s] | _ \<Rightarrow> []) xs)
      | _ \<Rightarrow> [])"

definition finding_item :: "string \<Rightarrow> string \<Rightarrow> dynamic_result \<Rightarrow> campaign_identity \<Rightarrow> dynamic_finding \<Rightarrow> evidence_item" where
  "finding_item execution capability r i f =
     make_item execution ''finding'' ''finding'' (res_engine r) capability Q_CANDIDATE
       (attribute (dyn_contract f) (dyn_function f) i) ''positive''
       [(''detector'', clip (dyn_detector f)), (''family'', detector_family (dyn_detector f)), (''file'', clip (dyn_file f)),
        (''line'', show_int (dyn_line f)), (''verified'', ''false'')]"

definition observed_items :: "string \<Rightarrow> string \<Rightarrow> dynamic_result \<Rightarrow> campaign_identity \<Rightarrow> evidence_item list" where
  "observed_items execution capability r i =
     (let key = attribute (res_contract r) (res_function r) i;
          item = (\<lambda>k key attrs. make_item execution k k (res_engine r) capability Q_OBSERVATION key ''neutral'' attrs) in
      map (finding_item execution capability r i) (take 24 (res_findings r)) @
      (if meta r ''sequence_id'' = [] then []
       else [item ''sequence'' key [(''sequence_id'', clip (meta r ''sequence_id'')), (''verified'', ''false'')]]) @
      (if meta r ''state_snapshot'' = [] then []
       else [item ''state_transition'' key
          [(''state_snapshot'', clip (meta r ''state_snapshot'')), (''transaction_index'', clip (meta r ''transaction_index'')),
           (''verified'', ''false'')]]) @
      map (\<lambda>p. item ''protocol_path'' [] [(''path_id'', clip p), (''verified'', ''false'')]) (take 16 (path_ids r)))"

text \<open>The first item of each identifier, as \<open>setdefault\<close> keeps it.\<close>

fun unique_items :: "evidence_item list \<Rightarrow> evidence_item list" where
  "unique_items [] = []"
| "unique_items (x # xs) = x # filter (\<lambda>y. it_id y \<noteq> it_id x) (unique_items xs)"

text \<open>
  \<open>items_from_result\<close>. Its error is the one of \<open>to_evidence\<close>, whose kind does not depend on the
  clock and the new identifier.
\<close>

definition items_from_result ::
    "dynamic_result \<Rightarrow> campaign_identity \<Rightarrow> string \<Rightarrow> string \<Rightarrow> execution_phase \<Rightarrow> evidence_item list result" where
  "items_from_result r i capability execution phase =
     (let matched = identity_matches r i;
          quality = (if matched then quality_of r phase else Q_UNKNOWN);
          polarity = (if matched then polarity_of r phase else []) in
      case to_evidence 0 [] r of
        Inl e \<Rightarrow> Inl e
      | Inr ev \<Rightarrow>
          Inr (take 32 (unique_items
            (make_item execution (evidence_kind_value (ev_kind ev)) (category_of r capability) (res_engine r) capability
               quality (attribute (res_contract r) (res_function r) i) polarity (base_attrs r matched) #
             (if phase = X_COMPLETED \<and> matched then observed_items execution capability r i else [])))))"

definition negative_from ::
    "dynamic_result \<Rightarrow> campaign_identity \<Rightarrow> string \<Rightarrow> execution_phase \<Rightarrow> negative_evidence option" where
  "negative_from r i capability phase =
     (if phase \<noteq> X_COMPLETED \<or> is_positive r \<or> \<not> identity_matches r i then None
      else Some \<lparr>ng_kind = ''not_observed'', ng_capability = capability, ng_engine = res_engine r,
             ng_key = attribute (res_contract r) (res_function r) i,
             ng_statement = res_engine r @ '' ran '' @ capability @
               '' within its bounds and reported no candidate; this is not evidence of safety'',
             ng_proves_safety = False\<rparr>)"

section \<open>Corroboration\<close>

definition reset_item :: "evidence_item \<Rightarrow> evidence_item" where
  "reset_item i = (if it_quality i = Q_CORROBORATED then i\<lparr>it_quality := Q_CANDIDATE\<rparr> else i)"

definition counts_for :: "evidence_item \<Rightarrow> bool" where
  "counts_for i \<longleftrightarrow>
     it_quality i = Q_CANDIDATE \<and> it_polarity i = ''positive'' \<and> it_key i \<noteq> [] \<and>
     map_of (it_attrs i) ''identity'' \<noteq> Some ''mismatch''"

definition group_of :: "evidence_item \<Rightarrow> string \<times> string" where
  "group_of i = (it_key i, item_attr i ''family'')"

definition independent :: "evidence_item list \<Rightarrow> string \<times> string \<Rightarrow> bool" where
  "independent items g \<longleftrightarrow>
     (let ms = filter (\<lambda>i. counts_for i \<and> group_of i = g) items in
      2 \<le> length (remdups (map it_engine ms)) \<and> 2 \<le> length (remdups (map it_capability ms)))"

definition promoted :: "evidence_item list \<Rightarrow> string list" where
  "promoted items = map it_id (filter (\<lambda>i. counts_for i \<and> independent items (group_of i)) items)"

definition corroborate :: "evidence_item list \<Rightarrow> evidence_item list" where
  "corroborate items =
     (let base = map reset_item items; ids = promoted base in
      map (\<lambda>i. if it_id i \<in> set ids then i\<lparr>it_quality := Q_CORROBORATED\<rparr> else i) base)"

section \<open>Contradictions\<close>

definition discriminators_order :: "string list" where
  "discriminators_order = [''differential_validation'', ''runtime_validation'', ''fork_validation'']"

definition build_contradiction :: "string \<Rightarrow> string \<Rightarrow> evidence_item list \<Rightarrow> string list \<Rightarrow> contradiction" where
  "build_contradiction kind key members done =
     (let ids = sorted_set (map it_id members);
          ds = filter (\<lambda>d. d \<notin> set (map it_capability members)) discriminators_order in
      \<lparr>ct_id = ''ct_'' @ digest 16 (JList [JStr kind, JStr key, texts_json ids]), ct_kind = kind, ct_key = key,
       ct_evidence = ids, ct_engines = sorted_set (map it_engine members), ct_discriminators = ds,
       ct_status = (if list_ex (\<lambda>d. d \<in> set done) ds then ''unresolved'' else ''open'')\<rparr>)"

definition contradictions_of :: "string \<Rightarrow> evidence_item list \<Rightarrow> string list \<Rightarrow> contradiction list" where
  "contradictions_of key members done =
     (let positives = filter (\<lambda>i. it_polarity i = ''positive'' \<and> item_attr i ''category'' = ''finding'') members;
          negatives = filter (\<lambda>i. it_polarity i = ''negative'' \<and> it_capability i \<in> set runtime_family \<and> it_kind i \<noteq> ''finding'') members;
          divergent = filter (\<lambda>i. it_polarity i = ''divergent'') members;
          modes = map (\<lambda>i. item_attr i ''runtime_mode'') divergent;
          same = filter (\<lambda>i. item_attr i ''classification'' = ''deterministic same result'' \<and>
            item_attr i ''runtime_mode'' \<notin> set modes) members in
      (if positives \<noteq> [] \<and> negatives \<noteq> [] then [build_contradiction ''candidate_not_reproduced'' key (positives @ negatives) done] else []) @
      (if divergent \<noteq> [] \<and> same \<noteq> [] then [build_contradiction ''runtime_divergence'' key (divergent @ same) done] else []))"

definition attributed :: "evidence_item \<Rightarrow> bool" where
  "attributed i \<longleftrightarrow> it_key i \<noteq> [] \<and> map_of (it_attrs i) ''identity'' \<noteq> Some ''mismatch''"

definition detect_contradictions :: "evidence_item list \<Rightarrow> string list \<Rightarrow> contradiction list" where
  "detect_contradictions items done =
     (let own = filter attributed items in
      sort_texts ct_id (concat (map (\<lambda>k. contradictions_of k (filter (\<lambda>i. it_key i = k) own) done)
        (sorted_set (map it_key own)))))"

section \<open>The difference of a round\<close>

definition compute_delta ::
    "evidence_item list \<Rightarrow> evidence_item list \<Rightarrow> string list \<Rightarrow> bool \<Rightarrow> contradiction list \<Rightarrow> contradiction list \<Rightarrow>
     string list \<Rightarrow> string list \<Rightarrow> string list \<Rightarrow> evidence_delta" where
  "compute_delta before after seeds coverage cs_before cs_after negatives unc_before unc_after =
     (let known = map it_id before;
          added = sort_texts it_id (filter (\<lambda>i. it_id i \<notin> set known) after);
          ids = (\<lambda>c. map it_id (filter (\<lambda>i. item_attr i ''category'' = c) added)) in
      \<lparr>dl_evidence = map it_id added, dl_findings = ids ''finding'', dl_paths = ids ''protocol_path'',
       dl_transitions = ids ''state_transition'', dl_sequences = ids ''sequence'', dl_runtime = ids ''runtime'',
       dl_economic = ids ''economic'', dl_differential = ids ''differential'',
       dl_seeds = sort_texts (\<lambda>s. s) seeds,
       dl_contradictions = sort_texts (\<lambda>s. s) (filter (\<lambda>c. c \<notin> set (map ct_id cs_before)) (map ct_id cs_after)),
       dl_negative = sort_texts (\<lambda>s. s) negatives, dl_coverage = coverage,
       dl_added = sorted_set (filter (\<lambda>u. u \<notin> set unc_before) unc_after),
       dl_removed = sorted_set (filter (\<lambda>u. u \<notin> set unc_after) unc_before)\<rparr>)"

section \<open>What corroboration means\<close>

lemma two_different: "2 \<le> length (remdups xs) \<longleftrightarrow> (\<exists>a\<in>set xs. \<exists>b\<in>set xs. a \<noteq> b)"
proof -
  have "length (remdups xs) = card (set xs)" by (simp add: length_remdups_card_conv)
  then show ?thesis using card_le_Suc0_iff_eq [of "set xs"] by (auto simp: numeral_2_eq_2 not_less_eq_eq)
qed

text \<open>Two pairs that differ somewhere in each part include a pair that differs in both.\<close>

lemma differ_in_both:
  assumes "a \<in> S" "b \<in> S" "f a \<noteq> f b" and "c \<in> S" "d \<in> S" "g c \<noteq> g d"
  shows "\<exists>x\<in>S. \<exists>y\<in>S. f x \<noteq> f y \<and> g x \<noteq> g y"
proof (rule ccontr)
  assume no: "\<not> ?thesis"
  then have same: "g x = g y" if "x \<in> S" "y \<in> S" "f x \<noteq> f y" for x y using that by blast
  have ab: "g a = g b" using same assms by blast
  have "g x = g a" if "x \<in> S" for x
  proof (cases "f x = f a")
    case True
    then have "f x \<noteq> f b" using assms by simp
    then show ?thesis using same [OF that assms(2)] ab by simp
  next
    case False then show ?thesis using same [OF that assms(1)] by blast
  qed
  then show False using assms by metis
qed

lemma reset_keeps [simp]:
  "it_id (reset_item i) = it_id i" "it_key (reset_item i) = it_key i" "it_engine (reset_item i) = it_engine i"
  "it_capability (reset_item i) = it_capability i" "it_polarity (reset_item i) = it_polarity i"
  "it_attrs (reset_item i) = it_attrs i" "it_quality (reset_item i) \<noteq> Q_CORROBORATED"
  "group_of (reset_item i) = group_of i"
  by (simp_all add: reset_item_def group_of_def item_attr_def)

text \<open>A candidate in favour: a positive one, attributed to an identity of this campaign.\<close>

definition in_favour :: "evidence_item \<Rightarrow> bool" where
  "in_favour i \<longleftrightarrow>
     it_quality i \<in> {Q_CANDIDATE, Q_CORROBORATED} \<and> it_polarity i = ''positive'' \<and> it_key i \<noteq> [] \<and>
     map_of (it_attrs i) ''identity'' \<noteq> Some ''mismatch''"

lemma counts_reset [simp]: "counts_for (reset_item i) \<longleftrightarrow> in_favour i"
  by (auto simp: counts_for_def in_favour_def reset_item_def)

lemma independent_iff:
  "independent (map reset_item items) g \<longleftrightarrow>
     (\<exists>a\<in>set items. \<exists>b\<in>set items. in_favour a \<and> in_favour b \<and> group_of a = g \<and> group_of b = g \<and>
        it_engine a \<noteq> it_engine b \<and> it_capability a \<noteq> it_capability b)"
proof -
  let ?S = "{i \<in> set items. in_favour i \<and> group_of i = g}"
  have ms: "set (map f (filter (\<lambda>i. counts_for i \<and> group_of i = g) (map reset_item items))) = (f \<circ> reset_item) ` ?S" for f :: "evidence_item \<Rightarrow> string"
    by auto
  have "independent (map reset_item items) g \<longleftrightarrow>
      (\<exists>a\<in>?S. \<exists>b\<in>?S. it_engine a \<noteq> it_engine b) \<and> (\<exists>a\<in>?S. \<exists>b\<in>?S. it_capability a \<noteq> it_capability b)"
    unfolding independent_def Let_def two_different ms by auto
  also have "\<dots> \<longleftrightarrow> (\<exists>a\<in>?S. \<exists>b\<in>?S. it_engine a \<noteq> it_engine b \<and> it_capability a \<noteq> it_capability b)"
    using differ_in_both [of _ ?S _ it_engine _ _ it_capability] by blast
  finally show ?thesis by auto
qed

lemma promoted_iff:
  assumes "distinct (map it_id items)" and "x \<in> set items"
  shows "it_id x \<in> set (promoted (map reset_item items)) \<longleftrightarrow> in_favour x \<and> independent (map reset_item items) (group_of x)"
proof -
  have "y = x" if "y \<in> set items" "it_id y = it_id x" for y
    using assms that by (auto simp: distinct_map inj_on_def)
  then show ?thesis using assms(2) by (auto simp: promoted_def image_iff)
qed

text \<open>C13. An item is corroborated exactly when it is a positive candidate of an identity for which two candidates of the same detector family come from different engines and different capabilities.\<close>

theorem corroboration_decides:
  assumes "distinct (map it_id items)" and "x \<in> set items"
  shows "(\<exists>y\<in>set (corroborate items). it_id y = it_id x \<and> it_quality y = Q_CORROBORATED) \<longleftrightarrow>
    in_favour x \<and>
    (\<exists>a\<in>set items. \<exists>b\<in>set items. in_favour a \<and> in_favour b \<and> group_of a = group_of x \<and> group_of b = group_of x \<and>
       it_engine a \<noteq> it_engine b \<and> it_capability a \<noteq> it_capability b)"
proof -
  let ?P = "set (promoted (map reset_item items))"
  define g where "g i = (if it_id i \<in> ?P then (reset_item i)\<lparr>it_quality := Q_CORROBORATED\<rparr> else reset_item i)" for i
  have g: "it_id (g i) = it_id i" "it_quality (g i) = Q_CORROBORATED \<longleftrightarrow> it_id i \<in> ?P" for i
    by (simp_all add: g_def)
  have "set (corroborate items) = g ` set items" by (simp add: corroborate_def Let_def image_image g_def)
  then have "(\<exists>y\<in>set (corroborate items). it_id y = it_id x \<and> it_quality y = Q_CORROBORATED) \<longleftrightarrow>
      (\<exists>i\<in>set items. it_id i = it_id x \<and> it_id i \<in> ?P)"
    by (simp add: g)
  then have "(\<exists>y\<in>set (corroborate items). it_id y = it_id x \<and> it_quality y = Q_CORROBORATED) \<longleftrightarrow> it_id x \<in> ?P"
    using assms(2) by auto
  then show ?thesis using promoted_iff [OF assms] independent_iff by simp
qed

definition demo_candidate :: "string \<Rightarrow> string \<Rightarrow> string \<Rightarrow> evidence_item" where
  "demo_candidate ident engine capability =
     \<lparr>it_id = ident, it_kind = ''finding'', it_quality = Q_CANDIDATE, it_engine = engine, it_capability = capability,
      it_key = ''Vault.withdraw'', it_execution = ''ex'', it_polarity = ''positive'', it_attrs = [(''family'', ''reentrancy'')]\<rparr>"

theorem corroboration_decides_witness:
  "\<exists>y\<in>set (corroborate [demo_candidate ''a'' ''slither'' ''static_analysis'', demo_candidate ''b'' ''echidna'' ''fuzzing'']).
     it_id y = ''a'' \<and> it_quality y = Q_CORROBORATED"
  using corroboration_decides [of "[demo_candidate ''a'' ''slither'' ''static_analysis'', demo_candidate ''b'' ''echidna'' ''fuzzing'']"
      "demo_candidate ''a'' ''slither'' ''static_analysis''"]
  by (simp add: demo_candidate_def in_favour_def group_of_def item_attr_def)

text \<open>Corroborating again changes nothing: what was promoted before is judged afresh.\<close>

lemma corroborate_again:
  assumes "distinct (map it_id items)"
  shows "corroborate (corroborate items) = corroborate items"
proof -
  have "reset_item (if it_id (reset_item i) \<in> set (promoted (map reset_item items))
        then (reset_item i)\<lparr>it_quality := Q_CORROBORATED\<rparr> else reset_item i) = reset_item i" if i: "i \<in> set items" for i
    using promoted_iff [OF assms i] by (cases i) (auto simp: reset_item_def in_favour_def)
  then have eq: "map reset_item (corroborate items) = map reset_item items"
    by (simp add: corroborate_def Let_def)
  show ?thesis unfolding corroborate_def [of "corroborate items"] eq by (simp add: corroborate_def)
qed

section \<open>No evidence is a verdict\<close>

lemma make_item_attrs: "map_of (it_attrs (make_item e k c n p q y z attrs)) ''verified'' = map_of attrs ''verified''"
  by (simp add: make_item_def)

lemma unique_items_subset: "set (unique_items xs) \<subseteq> set xs"
  by (induction xs) auto

lemma unique_items_distinct: "distinct (map it_id (unique_items xs))"
  by (induction xs) (auto simp: distinct_map_filter)

lemma observed_unverified: "x \<in> set (observed_items e c r i) \<Longrightarrow> map_of (it_attrs x) ''verified'' = Some ''false''"
  by (auto simp: observed_items_def Let_def finding_item_def make_item_attrs split: if_splits)

lemma base_unverified: "map_of (base_attrs r m) ''verified'' = Some ''false''"
  by (simp add: base_attrs_def)

lemma items_bounded:
  assumes "items_from_result r i c e phase = Inr items"
  shows "length items \<le> 32 \<and> distinct (map it_id items) \<and>
    (\<forall>x\<in>set items. map_of (it_attrs x) ''verified'' = Some ''false'')"
proof -
  obtain ev where ev: "to_evidence 0 [] r = Inr ev"
    using assms by (cases "to_evidence 0 [] r") (simp_all add: items_from_result_def)
  let ?m = "identity_matches r i"
  let ?y = "make_item e (evidence_kind_value (ev_kind ev)) (category_of r c) (res_engine r) c
    (if ?m then quality_of r phase else Q_UNKNOWN) (attribute (res_contract r) (res_function r) i)
    (if ?m then polarity_of r phase else []) (base_attrs r ?m)"
  let ?ys = "if phase = X_COMPLETED \<and> ?m then observed_items e c r i else []"
  define y ys where d: "y = ?y" "ys = ?ys"
  from assms ev have items: "items = take 32 (unique_items (y # ys))"
    by (simp add: items_from_result_def Let_def d)
  have y: "map_of (it_attrs y) ''verified'' = Some ''false''" by (simp add: d make_item_attrs base_unverified)
  have ys: "\<forall>x\<in>set ys. map_of (it_attrs x) ''verified'' = Some ''false''" using observed_unverified by (auto simp: d)
  have "distinct (map it_id items)"
    unfolding items take_map [symmetric] by (rule distinct_take [OF unique_items_distinct])
  moreover have "\<forall>x\<in>set items. map_of (it_attrs x) ''verified'' = Some ''false''"
    using y ys unique_items_subset [of "y # ys"] set_take_subset [of 32 "unique_items (y # ys)"] unfolding items by force
  ultimately show ?thesis by (simp add: items)
qed

end
