(* ===== verification/OrchPlan.thy ===== *)
theory OrchPlan
  imports OrchEvidence
begin

text \<open>
  \<open>discovery/orchestration/assess.py\<close> and \<open>planner.py\<close>: which evidence a campaign still lacks, and the
  one engine that is chosen next. Python's sorting by a key is insertion by an order; a mapping of
  needs under construction is a dictionary of entries.
\<close>

section \<open>Sorting by an order\<close>

fun insert_by :: "('a \<Rightarrow> 'a \<Rightarrow> bool) \<Rightarrow> 'a \<Rightarrow> 'a list \<Rightarrow> 'a list" where
  "insert_by le x [] = [x]"
| "insert_by le x (y # ys) = (if le x y then x # y # ys else y # insert_by le x ys)"

definition sort_by :: "('a \<Rightarrow> 'a \<Rightarrow> bool) \<Rightarrow> 'a list \<Rightarrow> 'a list" where
  "sort_by le xs = foldr (insert_by le) xs []"

lemma set_insert_by [simp]: "set (insert_by le x xs) = insert x (set xs)"
  by (induction xs) auto

lemma set_sort_by [simp]: "set (sort_by le xs) = set xs"
  by (induction xs) (simp_all add: sort_by_def)

lemma sort_by_Nil [simp]: "sort_by le xs = [] \<longleftrightarrow> xs = []"
  by (metis set_empty set_sort_by)

section \<open>Needs\<close>

record assess_context =
  ac_language :: string
  ac_extra :: "(string, string) dict"
  ac_difficult :: bool
  ac_harness :: bool
  ac_framework :: string
  ac_targeted :: bool

definition ac_text :: "assess_context \<Rightarrow> string \<Rightarrow> string" where
  "ac_text c k = dict_get (ac_extra c) k []"

definition ac_flag :: "assess_context \<Rightarrow> string \<Rightarrow> bool" where
  "ac_flag c k \<longleftrightarrow> ac_text c k = ''true'' \<or> ac_text c ''source'' = k"

definition stalled :: "research_state \<Rightarrow> bool" where
  "stalled t =
     (case List.find (\<lambda>d. dcr_capability d \<in> {''fuzzing'', ''test_execution''} \<and> dcr_result d \<noteq> [] \<and> dcr_phase d = X_COMPLETED)
        (rev (rst_decisions t)) of
        None \<Rightarrow> False | Some d \<Rightarrow> \<not> informative (dcr_delta d))"

record need_entry =
  ne_weight :: int
  ne_status :: need_status
  ne_reasons :: "string list"
  ne_uncertainties :: "string list"

type_synonym builder = "(string, need_entry) dict"

definition add_need ::
    "string \<Rightarrow> need_status \<Rightarrow> int \<Rightarrow> string \<Rightarrow> uncertainty option \<Rightarrow> builder \<Rightarrow> builder" where
  "add_need c u weight cause unc b =
     (let us = (case unc of None \<Rightarrow> [] | Some x \<Rightarrow> [uncertainty_value x]) in
      dict_set c
        (case map_of b c of
           None \<Rightarrow> \<lparr>ne_weight = weight, ne_status = u, ne_reasons = [cause], ne_uncertainties = us\<rparr>
         | Some e \<Rightarrow>
             (if ne_weight e \<le> weight then e\<lparr>ne_weight := weight, ne_status := u\<rparr> else e)
               \<lparr>ne_reasons := ne_reasons e @ [cause], ne_uncertainties := ne_uncertainties e @ us\<rparr>) b)"

definition need ::
    "string list \<Rightarrow> bool \<Rightarrow> string \<Rightarrow> int \<Rightarrow> uncertainty \<Rightarrow> string \<Rightarrow> builder \<Rightarrow> builder" where
  "need done followup c weight unc cause b =
     (if c \<in> set done \<and> \<not> followup then add_need c N_SATISFIED 0 (c @ '' was exercised'') None b
      else if c \<in> set done then add_need c N_HIGH_VALUE_FOLLOWUP weight cause (Some unc) b
      else add_need c N_MISSING weight cause (Some unc) b)"

definition need_le :: "capability_need \<Rightarrow> capability_need \<Rightarrow> bool" where
  "need_le a b \<longleftrightarrow>
     need_weight b < need_weight a \<or>
     need_weight a = need_weight b \<and> text_le (need_capability a) (need_capability b)"

definition build_needs :: "builder \<Rightarrow> capability_need list" where
  "build_needs b =
     sort_by need_le (map (\<lambda>(c, e).
       \<lparr>need_capability = c, need_status = ne_status e, need_weight = ne_weight e,
        need_reasons = sorted_set (ne_reasons e), need_uncertainties = sorted_set (ne_uncertainties e)\<rparr>) b)"

definition cross_contract_families :: "string list" where
  "cross_contract_families = [''external_call'', ''reentrancy'', ''authorization'', ''caller_context'']"

definition research_families :: "string list" where
  "research_families =
     [''caller_context'', ''oracle_quality'', ''message_binding'', ''account_abstraction'', ''balance_delta'', ''arithmetic'']"

definition bounty_need_list :: "(string \<times> int \<times> uncertainty \<times> string) list" where
  "bounty_need_list =
     [(''bounty_context_analysis'', 95, U_SEMANTIC_RESEARCH, ''program scope and triage priority are missing''),
      (''caller_context_analysis'', 78, U_SEMANTIC_RESEARCH, ''caller-context flows have not been analyzed''),
      (''oracle_quality_analysis'', 62, U_SEMANTIC_RESEARCH, ''oracle source quality has not been analyzed''),
      (''proof_binding_analysis'', 61, U_SEMANTIC_RESEARCH, ''proof and message binding has not been analyzed''),
      (''accounting_analysis'', 59, U_SEMANTIC_RESEARCH, ''token accounting and arithmetic have not been analyzed''),
      (''account_abstraction_analysis'', 40, U_SEMANTIC_RESEARCH, ''account abstraction has not been analyzed''),
      (''compiler_advisory_analysis'', 52, U_COMPILER,
       ''compiler advisories have not been matched against the build configuration''),
      (''compiler_differential_validation'', 44, U_COMPILER, ''pipeline differences have not been compared'')]"

definition meets :: "string list \<Rightarrow> string list \<Rightarrow> bool" where
  "meets xs ys \<longleftrightarrow> list_ex (\<lambda>x. x \<in> set ys) xs"

definition bounty_needs :: "string list \<Rightarrow> evidence_item list \<Rightarrow> string list \<Rightarrow> builder \<Rightarrow> builder" where
  "bounty_needs done candidates families b =
     (let b1 = fold (\<lambda>(c, weight, unc, cause). need done False c weight unc cause) bounty_need_list b in
      if candidates \<noteq> [] \<and> meets families research_families then
        need done False ''vfcs_generation'' 57 U_UNEXERCISED ''research candidates have no call-sequence plan'' b1
      else b1)"

text \<open>The first discriminator of an open contradiction that has not run.\<close>

definition contradiction_need :: "string list \<Rightarrow> contradiction \<Rightarrow> builder \<Rightarrow> builder" where
  "contradiction_need done c b =
     (if ct_status c \<noteq> ''open'' then b
      else case List.find (\<lambda>d. d \<notin> set done) (ct_discriminators c) of
        None \<Rightarrow> b
      | Some d \<Rightarrow> add_need d N_HIGH_VALUE_FOLLOWUP 80
          (''contradiction '' @ ct_id c @ '' needs a discriminating capability'') (Some U_CONTRADICTION) b)"

definition only_if :: "bool \<Rightarrow> ('a \<Rightarrow> 'a) \<Rightarrow> 'a \<Rightarrow> 'a" where
  "only_if c f x = (if c then f x else x)"

definition assess_builder :: "research_state \<Rightarrow> assess_context \<Rightarrow> builder" where
  "assess_builder t c =
     (let done = exercised_capabilities t;
          own = filter (\<lambda>i. map_of (it_attrs i) ''identity'' \<noteq> Some ''mismatch'') (rst_evidence t);
          candidates = filter (\<lambda>i. it_polarity i = ''positive'' \<and> it_quality i \<in> {Q_CANDIDATE, Q_CORROBORATED}) own;
          families = map (\<lambda>i. item_attr i ''family'') candidates;
          b1 = (if ''static_analysis'' \<in> set done then add_need ''static_analysis'' N_SATISFIED 0 ''baseline static evidence exists'' None []
                else add_need ''static_analysis'' N_MISSING 100 ''baseline static evidence is missing'' (Some U_BASELINE) []);
          b2 = only_if (ac_text c ''program_context'' \<noteq> []) (bounty_needs done candidates families) b1;
          b3 = only_if (ac_flag c ''protocol'' \<or> meets families cross_contract_families)
            (need done False ''cross_contract_analysis'' 50 U_CROSS_CONTRACT ''cross-contract flow evidence is missing'') b2;
          b4 = only_if (ac_flag c ''economic'' \<or> ac_text c ''case'' \<noteq> [])
            (need done False ''economic_simulation'' 50 U_ECONOMIC ''no asset-delta evidence exists for the economic candidate'') b3;
          b5 = only_if (candidates \<noteq> [] \<or> ac_targeted c)
            (need done False ''fuzzing'' (if candidates \<noteq> [] then 70 else 55) U_UNEXERCISED
              (if candidates \<noteq> [] then ''a candidate has not been explored statefully''
               else ''the target has not been explored statefully'')) b4;
          b6 = only_if (ac_text c ''property'' = ''encoded'' \<or> ac_harness c)
            (need done False ''test_execution'' 60 U_PROPERTY ''an encoded property can be replayed'') b5;
          b7 = only_if (''fuzzing'' \<in> set done \<and> list_ex (\<lambda>x. startswith x ''symbolic_execution:'') (rst_corpus_refs t))
            (add_need ''fuzzing'' N_HIGH_VALUE_FOLLOWUP 65 ''a symbolic counterexample is a new fuzz seed'' (Some U_SEED_FOLLOWUP)) b6;
          b8 = only_if (ac_difficult c \<or> (''fuzzing'' \<in> set done \<or> ''test_execution'' \<in> set done) \<and> stalled t)
            (need done False ''symbolic_execution'' 60 U_REACHABILITY
              ''reachability stalled, so symbolic execution is the next capability'') b7;
          b9 = only_if (ac_flag c ''runtime'' \<or> ac_text c ''sequence_id'' \<noteq> [])
            (need done False ''runtime_validation'' 55 U_RUNTIME ''runtime evidence is missing'') b8;
          b10 = only_if (list_ex (\<lambda>i. item_attr i ''category'' = ''economic'' \<and> it_quality i \<in> {Q_OBSERVATION, Q_CANDIDATE}) own)
            (need done True ''runtime_validation'' 55 U_ECONOMIC_RUNTIME
              ''an economic observation has not been exercised at runtime'') b9;
          b11 = only_if (ac_flag c ''fork'') (need done False ''fork_validation'' 45 U_FORK ''fork-state evidence is missing'') b10;
          b12 = only_if (ac_flag c ''differential'')
            (need done False ''differential_validation'' 45 U_REPEATABILITY ''differential evidence is missing'') b11;
          b13 = only_if (list_ex (\<lambda>i. it_polarity i = ''divergent'') own)
            (need done False ''fork_validation'' 58 U_DIVERGENCE ''local runs diverged and a pinned fork can discriminate'') b12
      in fold (contradiction_need done) (rst_contradictions t) b13)"

definition assess :: "research_state \<Rightarrow> assess_context \<Rightarrow> capability_need list" where
  "assess t c = build_needs (assess_builder t c)"

definition actionable :: "capability_need list \<Rightarrow> capability_need list" where
  "actionable ns = filter (\<lambda>n. need_status n \<in> set actionable_statuses) ns"

definition uncertainties_of :: "capability_need list \<Rightarrow> string list" where
  "uncertainties_of ns = sorted_set (concat (map need_uncertainties (actionable ns)))"

section \<open>Requests and keys\<close>

definition research_capabilities :: "string list" where
  "research_capabilities =
     [''bounty_context_analysis'', ''caller_context_analysis'', ''oracle_quality_analysis'', ''proof_binding_analysis'',
      ''account_abstraction_analysis'', ''accounting_analysis'', ''compiler_advisory_analysis'',
      ''compiler_differential_validation'', ''vfcs_generation'']"

definition capability_mode :: "(string, string) dict" where
  "capability_mode =
     [(''static_analysis'', []), (''cross_contract_analysis'', []), (''economic_simulation'', []), (''fuzzing'', ''fuzz''),
      (''symbolic_execution'', ''symbolic''), (''test_execution'', ''test''), (''property_testing'', ''invariant''),
      (''invariant_testing'', ''invariant''), (''runtime_validation'', ''local''), (''fork_validation'', ''fork''),
      (''differential_validation'', ''differential'')] @ map (\<lambda>n. (n, n)) research_capabilities"

definition needs_snapshot :: "string list" where
  "needs_snapshot = [''cross_contract_analysis'', ''economic_simulation'', ''compiler_differential_validation''] @ runtime_family"

definition needs_sources :: "string list" where
  "needs_sources = filter (\<lambda>n. n \<noteq> ''bounty_context_analysis'') research_capabilities"

definition needs_target :: "string list" where
  "needs_target = [''fuzzing'', ''symbolic_execution'', ''test_execution'', ''property_testing'', ''invariant_testing'']"

definition depends_on :: "(string, string list) dict" where
  "depends_on =
     [(''fuzzing'', [''finding'']), (''symbolic_execution'', [''finding'']), (''test_execution'', [''finding'']),
      (''runtime_validation'', [''finding'', ''economic'']), (''fork_validation'', [''finding'', ''economic'', ''runtime'']),
      (''differential_validation'', [''finding'', ''economic'', ''runtime'']), (''vfcs_generation'', [''finding'']),
      (''compiler_differential_validation'', [''finding''])]"

definition seeded_capabilities :: "string list" where
  "seeded_capabilities = [''fuzzing'', ''symbolic_execution'', ''test_execution'']"

definition volatile_extra :: "string list" where
  "volatile_extra = [''campaign_id'', ''execution_id'', ''timestamp'']"

definition build_request :: "analysis_request \<Rightarrow> string \<Rightarrow> campaign_identity \<Rightarrow> corpus \<Rightarrow> analysis_request" where
  "build_request q c i corpus =
     (let mode = dict_get capability_mode c [] in
      q\<lparr>ask_campaign := or_text (ask_campaign q) (cid_campaign i),
        ask_difficult := (ask_difficult q \<or> c = ''symbolic_execution''), ask_corpus := Some corpus,
        ask_extra := (if mode \<noteq> [] then dict_set ''mode'' mode (ask_extra q) else dict_drop [''mode''] (ask_extra q))\<rparr>)"

definition input_digest :: "analysis_request \<Rightarrow> string \<Rightarrow> research_state \<Rightarrow> string" where
  "input_digest q c t =
     (let upstream = map it_id (filter (\<lambda>i. item_attr i ''category'' \<in> set (dict_get depends_on c []) \<and>
            map_of (it_attrs i) ''category'' \<noteq> None \<and> it_capability i \<noteq> c) (rst_evidence t));
          seeds = (if c \<in> set seeded_capabilities then rst_corpus_refs t else []) in
      digest 16 (JObj
        [(''capability'', JStr c), (''language'', JStr (ask_language q)), (''target'', JStr (ask_target q)),
         (''contract'', JStr (ask_contract q)), (''function'', JStr (ask_function q)),
         (''source_file'', JStr (ask_source_file q)), (''files'', texts_json (sort_texts (\<lambda>f. f) (ask_files q))),
         (''extra'', text_dict_json (dict_drop volatile_extra (ask_extra q))),
         (''upstream'', texts_json (sort_texts (\<lambda>u. u) upstream)), (''seeds'', texts_json (sort_texts (\<lambda>x. x) seeds))]))"

definition execution_key :: "campaign_identity \<Rightarrow> string \<Rightarrow> string \<Rightarrow> string \<Rightarrow> int \<Rightarrow> string" where
  "execution_key i engine c input retries =
     ''ex_'' @ digest 16 (JList [JStr (target_digest i), JStr engine, JStr c, JStr input, JInt retries])"

definition prerequisite :: "string \<Rightarrow> analysis_request \<Rightarrow> campaign_identity \<Rightarrow> string" where
  "prerequisite c q i =
     (if c \<in> set needs_target \<and> \<not> (ask_contract q \<noteq> [] \<or> ask_function q \<noteq> [] \<or> ask_source_file q \<noteq> [] \<or> ask_harness q) then ''identity:target''
      else if c \<in> set needs_sources \<and> \<not> (ask_files q \<noteq> [] \<or> ask_source_file q \<noteq> []) then ''identity:target''
      else if c \<in> set research_capabilities \<and> ask_flag q ''program_context'' = [] then ''identity:program_context''
      else if c \<in> set needs_snapshot \<and> cid_snapshot i = [] then ''identity:source_snapshot''
      else if c \<in> set needs_snapshot \<and> cid_compiler i = [] then ''identity:compiler_configuration''
      else if c = ''economic_simulation'' \<and> ask_flag q ''case'' = [] then ''prerequisite:economic_case''
      else if c \<in> set runtime_family \<and> identity_key i = [] then ''identity:contract_and_function''
      else if c \<in> set runtime_family \<and> ask_flag q ''sequence_id'' = [] then ''prerequisite:sequence_id''
      else if c = ''fork_validation'' \<and>
          \<not> (ask_flag q ''chain_id'' \<noteq> [] \<and> ask_flag q ''fork_block'' \<noteq> [] \<and> ask_flag q ''state_snapshot'' \<noteq> []) then ''prerequisite:pinned_fork''
      else if c = ''differential_validation'' \<and> ask_flag q ''state_reset'' \<noteq> ''true'' then ''prerequisite:state_reset''
      else [])"

definition runs_of :: "string \<Rightarrow> analysis_request \<Rightarrow> int" where
  "runs_of c q =
     (let default = (if c = ''differential_validation'' then 2 else 1) in
      if c \<notin> set runtime_family then 1
      else case map_of (ask_extra q) ''executions'' of
        None \<Rightarrow> default
      | Some raw \<Rightarrow>
          (case int_of_text raw of None \<Rightarrow> default | Some n \<Rightarrow> max 1 (min n max_executions)))"

definition complement_of :: "string \<Rightarrow> capability_need \<Rightarrow> research_state \<Rightarrow> string \<Rightarrow> complementarity" where
  "complement_of c n t engine =
     (let us = need_uncertainties n; done = completed_with t c in
      if ''contradiction'' \<in> set us then M_CONTRADICTION_RESOLVING
      else if ''seed_followup'' \<in> set us then M_COVERAGE_EXPANDING
      else if meets us [''economic_runtime'', ''divergence'', ''repeatability'', ''fork''] then M_DISCRIMINATIVE
      else if c = ''cross_contract_analysis'' then M_PREREQUISITE_GENERATING
      else if done \<noteq> [] then (if engine \<in> set (map ex_engine done) then M_REDUNDANT else M_CORROBORATIVE)
      else M_NOVEL)"

section \<open>Suggestions\<close>

record suggestion =
  sug_capability :: string
  sug_engine :: string
  sug_reason :: string

definition suggestion_fault :: "string list \<Rightarrow> suggestion \<Rightarrow> string option" where
  "suggestion_fault engines x =
     (case capability_of (sug_capability x) of
        None \<Rightarrow> Some (''unknown_capability:'' @ take 8 (digest 16 (JStr (sug_capability x))))
      | Some c \<Rightarrow>
          if map_of capability_mode (sug_capability x) = None then Some (sug_capability x @ '':not_orchestratable'')
          else if sug_engine x \<noteq> [] \<and> sug_engine x \<notin> set engines then Some (sug_capability x @ '':unregistered_engine'')
          else None)"

definition validate_suggestions :: "suggestion list \<Rightarrow> string list \<Rightarrow> suggestion list \<times> string list" where
  "validate_suggestions xs engines =
     (filter (\<lambda>x. suggestion_fault engines x = None) xs, List.map_filter (suggestion_fault engines) xs)"

section \<open>Candidates\<close>

definition precheck ::
    "'w \<Rightarrow> 'w scheduler \<Rightarrow> 'w engine \<Rightarrow> string \<Rightarrow> analysis_request \<Rightarrow> campaign_identity \<Rightarrow> string" where
  "precheck w s e c q i =
     (if ask_language q \<noteq> [] \<and> eng_languages e \<noteq> [] \<and> ask_language q \<notin> set (eng_languages e) then ''environment:language''
      else if \<not> eng_available e w then ''environment:engine_unavailable''
      else if capability_value (capability_for e q) \<noteq> c then ''prerequisite:capability_not_selectable''
      else if prerequisite c q i \<noteq> [] then prerequisite c q i
      else let d = decide w s (eng_id e) q in
        if pick_action d \<noteq> ''run'' then ''scheduler:'' @ or_text (pick_code d) ''skip'' else [])"

definition health_of :: "research_state \<Rightarrow> string \<Rightarrow> engine_health option" where
  "health_of t i = List.find (\<lambda>h. hl_engine h = i) (rst_health t)"

definition history_rejection :: "research_state \<Rightarrow> string \<Rightarrow> string \<Rightarrow> string" where
  "history_rejection t engine key =
     (let past_phases = map ex_phase (filter (\<lambda>x. ex_key x = key) (rst_executions t)) in
      if (case health_of t engine of None \<Rightarrow> False | Some h \<Rightarrow> 2 \<le> hl_failures h) then ''environment:circuit_open''
      else if X_COMPLETED \<in> set past_phases then ''duplicate:execution_key''
      else if list_ex (\<lambda>p. p \<in> set attempted_phases) past_phases then ''environment:failed_attempt''
      else if list_ex (\<lambda>p. p \<in> {X_UNAVAILABLE, X_UNSUPPORTED, X_BLOCKED}) past_phases then ''duplicate:refused_before''
      else [])"

definition first_rejection ::
    "'w \<Rightarrow> 'w scheduler \<Rightarrow> 'w engine \<Rightarrow> string \<Rightarrow> research_state \<Rightarrow> analysis_request \<Rightarrow> campaign_identity \<Rightarrow> string \<Rightarrow> costs \<Rightarrow> string"
  where
  "first_rejection w s e c t q i key cost =
     (if precheck w s e c q i \<noteq> [] then precheck w s e c q i
      else if history_rejection t (eng_id e) key \<noteq> [] then history_rejection t (eng_id e) key
      else if shortfall (rst_budget t) cost \<noteq> [] then ''budget:'' @ shortfall (rst_budget t) cost
      else [])"

fun complement_weight :: "complementarity \<Rightarrow> int" where
  "complement_weight M_CONTRADICTION_RESOLVING = 30"
| "complement_weight M_DISCRIMINATIVE = 25"
| "complement_weight M_NOVEL = 20"
| "complement_weight M_PREREQUISITE_GENERATING = 18"
| "complement_weight M_COVERAGE_EXPANDING = 15"
| "complement_weight M_CORROBORATIVE = 10"
| "complement_weight M_REDUNDANT = -50"

definition cost_units :: "costs \<Rightarrow> int" where
  "cost_units cost = amount cost ''runtime_seconds'' div 30 + amount cost ''runtime_executions''"

definition superseded_count :: "research_state \<Rightarrow> string \<Rightarrow> string \<Rightarrow> string \<Rightarrow> int" where
  "superseded_count t engine c input =
     int (length (filter (\<lambda>x. ex_phase x = X_SUPERSEDED \<and> ex_engine x = engine \<and> ex_capability x = c \<and> ex_input x = input)
       (rst_executions t)))"

text \<open>The candidate before its checks: key, cost and score.\<close>

definition score_components ::
    "'w engine \<Rightarrow> capability_need \<Rightarrow> research_state \<Rightarrow> string \<Rightarrow> costs \<Rightarrow> complementarity \<Rightarrow> bool \<Rightarrow> costs" where
  "score_components e n t language cost m suggested =
     [(''need'', need_weight n), (''complementarity'', complement_weight m), (''cost'', - cost_units cost),
      (''engine_rank'', - engine_rank (eng_id e) language),
      (''diversity'', if eng_id e \<in> set (exercised_engines t) then 0 else 8),
      (''health'', case health_of t (eng_id e) of None \<Rightarrow> 0 | Some h \<Rightarrow> - (hl_failures h * 5 + hl_timeouts h * 2)),
      (''suggestion'', if suggested then 5 else 0)]"

definition bare_candidate ::
    "'w engine \<Rightarrow> capability_need \<Rightarrow> research_state \<Rightarrow> corpus \<Rightarrow> analysis_request \<Rightarrow> campaign_identity \<Rightarrow> candidate" where
  "bare_candidate e n t corpus q i =
     (let c = need_capability n; built = build_request q c i corpus; input = input_digest built c t in
      \<lparr>cand_engine = eng_id e, cand_capability = c, cand_eligible = False, cand_rejection = [],
       cand_complement = complement_of c n t (eng_id e), cand_score = 0, cand_components = [],
       cand_cost = estimate_cost c (runs_of c built),
       cand_key = execution_key i (eng_id e) c input (superseded_count t (eng_id e) c input), cand_input = input\<rparr>)"

definition scored_candidate ::
    "'w engine \<Rightarrow> capability_need \<Rightarrow> research_state \<Rightarrow> corpus \<Rightarrow> analysis_request \<Rightarrow> campaign_identity \<Rightarrow> bool \<Rightarrow> candidate" where
  "scored_candidate e n t corpus q i suggested =
     (let b = bare_candidate e n t corpus q i;
          parts = score_components e n t (ask_language q) (cand_cost b) (cand_complement b) suggested in
      b\<lparr>cand_eligible := True, cand_score := sum_list (map snd parts), cand_components := parts\<rparr>)"

definition gate_rejection :: "stop_reason option \<Rightarrow> string" where
  "gate_rejection r =
     (if r = Some SR_SCOPE_BLOCKED then ''gate:scope''
      else if r = Some SR_APPROVAL_REQUIRED then ''gate:approval'' else ''gate:safety'')"

definition evaluate ::
    "'w \<Rightarrow> 'w scheduler \<Rightarrow> gate \<Rightarrow> research_state \<Rightarrow> analysis_request \<Rightarrow> campaign_identity \<Rightarrow> capability_need \<Rightarrow> 'w engine \<Rightarrow>
     bool \<Rightarrow> candidate" where
  "evaluate w s g t q i n e suggested =
     (let b = bare_candidate e n t (sch_corpus s) q i; built = build_request q (need_capability n) i (sch_corpus s);
          cause = first_rejection w s e (need_capability n) t built i (cand_key b) (cand_cost b) in
      if cause \<noteq> [] then b\<lparr>cand_rejection := cause\<rparr>
      else let c = scored_candidate e n t (sch_corpus s) q i suggested in
        case check_gate g c built t of
          GateVerdict v \<Rightarrow>
            if gv_allowed v then c else c\<lparr>cand_eligible := False, cand_rejection := gate_rejection (gv_stop v), cand_score := 0\<rparr>
        | _ \<Rightarrow> c\<lparr>cand_eligible := False, cand_rejection := ''gate:safety'', cand_score := 0\<rparr>)"

section \<open>Plans\<close>

record plan =
  plan_selected :: "candidate option"
  plan_considered :: "candidate list"
  plan_needs :: "capability_need list"
  plan_stop :: "stop_reason option"
  plan_rationale :: string
  plan_request :: "analysis_request option"
  plan_rejected :: "string list"
  plan_prerequisites :: "string list"
  plan_gate_detail :: string
  plan_accepted :: "string list"

definition bare_plan :: "capability_need list \<Rightarrow> plan" where
  "bare_plan ns =
     \<lparr>plan_selected = None, plan_considered = [], plan_needs = ns, plan_stop = None, plan_rationale = [],
      plan_request = None, plan_rejected = [], plan_prerequisites = [], plan_gate_detail = [], plan_accepted = []\<rparr>"

definition engines_by_id :: "'w scheduler \<Rightarrow> 'w engine list" where
  "engines_by_id s = List.map_filter (by_id s) (first_occurrences (map eng_id (sch_engines s)))"

definition ranked_engines :: "'w scheduler \<Rightarrow> string \<Rightarrow> 'w engine list" where
  "ranked_engines s language =
     sort_by (\<lambda>a b. engine_rank (eng_id a) language < engine_rank (eng_id b) language \<or>
       engine_rank (eng_id a) language = engine_rank (eng_id b) language \<and> text_le (eng_id a) (eng_id b)) (engines_by_id s)"

definition suggested_need :: "string \<Rightarrow> capability_need" where
  "suggested_need c = \<lparr>need_capability = c, need_status = N_LOW_VALUE_FOLLOWUP, need_weight = 10,
     need_reasons = [''external suggestion''], need_uncertainties = []\<rparr>"

fun add_suggested :: "suggestion list \<Rightarrow> capability_need list \<Rightarrow> capability_need list" where
  "add_suggested [] ns = ns"
| "add_suggested (x # xs) ns =
     (if sug_capability x \<in> set (map need_capability ns) then add_suggested xs ns
      else add_suggested xs (ns @ [suggested_need (sug_capability x)]))"

definition can_do :: "'w engine \<Rightarrow> string \<Rightarrow> bool" where
  "can_do e c \<longleftrightarrow> (case capability_of c of None \<Rightarrow> False | Some x \<Rightarrow> has_capability e x)"

definition is_suggested :: "suggestion list \<Rightarrow> string \<Rightarrow> string \<Rightarrow> bool" where
  "is_suggested xs c engine \<longleftrightarrow> list_ex (\<lambda>x. sug_capability x = c \<and> (sug_engine x = engine \<or> sug_engine x = [])) xs"

definition considered_candidates ::
    "'w \<Rightarrow> 'w scheduler \<Rightarrow> gate \<Rightarrow> research_state \<Rightarrow> analysis_request \<Rightarrow> campaign_identity \<Rightarrow> suggestion list \<Rightarrow>
     capability_need list \<Rightarrow> candidate list" where
  "considered_candidates w s g t q i accepted wanted =
     concat (map (\<lambda>n. map (\<lambda>e. evaluate w s g t q i n e (is_suggested accepted (need_capability n) (eng_id e)))
       (filter (\<lambda>e. can_do e (need_capability n)) (ranked_engines s (ask_language q)))) (sort_by need_le wanted))"

definition merged_needs :: "capability_need list \<Rightarrow> capability_need list \<Rightarrow> capability_need list" where
  "merged_needs ns wanted =
     map snd (fold (\<lambda>n d. if map_of d (need_capability n) = None then dict_set (need_capability n) n d else d) wanted
       (fold (\<lambda>n d. dict_set (need_capability n) n d) ns []))"

definition finalize_need :: "candidate list \<Rightarrow> string list \<Rightarrow> capability_need \<Rightarrow> capability_need" where
  "finalize_need considered supported n =
     (let group = filter (\<lambda>c. cand_capability c = need_capability n) considered in
      if need_status n \<notin> set actionable_statuses \<or> list_ex cand_eligible group then n
      else if need_capability n \<notin> set supported \<or> group = [] then n\<lparr>need_status := N_UNAVAILABLE\<rparr>
      else if list_all (\<lambda>c. startswith (cand_rejection c) ''duplicate:'') group then n\<lparr>need_status := N_REDUNDANT\<rparr>
      else if list_all (\<lambda>c. startswith (cand_rejection c) ''environment:'') group then n\<lparr>need_status := N_UNAVAILABLE\<rparr>
      else n\<lparr>need_status := N_BLOCKED\<rparr>)"

definition finalize_needs ::
    "capability_need list \<Rightarrow> capability_need list \<Rightarrow> candidate list \<Rightarrow> string list \<Rightarrow> capability_need list" where
  "finalize_needs ns wanted considered supported =
     sort_by need_le (map (finalize_need considered supported) (merged_needs ns wanted))"

definition block_precedence :: "(string \<times> stop_reason) list" where
  "block_precedence =
     [(''gate:safety'', SR_SAFETY_BLOCKED), (''gate:scope'', SR_SCOPE_BLOCKED), (''gate:approval'', SR_APPROVAL_REQUIRED),
      (''identity:'', SR_DETERMINISTIC_IDENTITY_MISSING), (''budget:'', SR_BUDGET_EXHAUSTED),
      (''prerequisite:'', SR_PREREQUISITES_UNAVAILABLE), (''scheduler:'', SR_PREREQUISITES_UNAVAILABLE),
      (''environment:'', SR_ENVIRONMENT_UNAVAILABLE)]"

definition stop_reason_for :: "candidate list \<Rightarrow> capability_need list \<Rightarrow> stop_reason \<times> string" where
  "stop_reason_for considered ns =
     (let names = map need_capability (filter (\<lambda>n. need_status n \<in> {N_BLOCKED, N_UNAVAILABLE}) ns);
          relevant = map cand_rejection (filter (\<lambda>c. cand_capability c \<in> set names \<and> \<not> cand_eligible c) considered);
          reasons = map cand_rejection (filter (\<lambda>c. \<not> cand_eligible c) considered) in
      if names \<noteq> [] then
        (case List.find (\<lambda>(p, r). list_ex (\<lambda>x. startswith x p) relevant) block_precedence of
           Some (p, r) \<Rightarrow> (r, ''blocked: '' @ py_repr (PList (map PStr (take 6 (sorted_set relevant)))))
         | None \<Rightarrow> (SR_ENVIRONMENT_UNAVAILABLE, ''no engine supports a needed capability''))
      else if list_ex (\<lambda>n. need_status n = N_REDUNDANT) ns \<or> list_ex (\<lambda>x. startswith x ''duplicate:'') reasons then
        (SR_NO_USEFUL_CAPABILITY, ''remaining capabilities would repeat evidence'')
      else (SR_ALL_CAPABILITIES_EXERCISED, ''no capability need remains''))"

definition rationale_of :: "candidate \<Rightarrow> capability_need list \<Rightarrow> string" where
  "rationale_of c wanted =
     py_take 400 (cand_capability c @ '' via '' @ cand_engine c @ '' ('' @ complementarity_value (cand_complement c) @
       '', score '' @ show_int (cand_score c) @ ''): '' @
       (case List.find (\<lambda>n. need_capability n = cand_capability c) wanted of
          None \<Rightarrow> [] | Some n \<Rightarrow> py_join ''; '' (need_reasons n)))"

definition better_candidate :: "string \<Rightarrow> candidate \<Rightarrow> candidate \<Rightarrow> bool" where
  "better_candidate language a b \<longleftrightarrow>
     (let ra = engine_rank (cand_engine a) language; rb = engine_rank (cand_engine b) language in
      cand_score b < cand_score a \<or> cand_score a = cand_score b \<and>
      (ra < rb \<or> ra = rb \<and>
       (if cand_engine a = cand_engine b then text_le (cand_capability a) (cand_capability b)
        else text_le (cand_engine a) (cand_engine b))))"

definition wanted_needs :: "'w scheduler \<Rightarrow> capability_need list \<Rightarrow> suggestion list \<Rightarrow> capability_need list" where
  "wanted_needs s ns suggestions =
     add_suggested (fst (validate_suggestions suggestions (map eng_id (sch_engines s)))) (actionable ns)"

text \<open>
  \<open>plan\<close>. A need whose capability is no \<open>EngineCapability\<close> raises as soon as there is an engine to ask.
\<close>

definition plan_round ::
    "'w \<Rightarrow> 'w scheduler \<Rightarrow> gate \<Rightarrow> research_state \<Rightarrow> analysis_request \<Rightarrow> campaign_identity \<Rightarrow> capability_need list \<Rightarrow>
     suggestion list \<Rightarrow> plan result" where
  "plan_round w s g t q i ns suggestions =
     (let (accepted, rejected) = validate_suggestions suggestions (map eng_id (sch_engines s));
          wanted = wanted_needs s ns suggestions; engines = engines_by_id s in
      if engines \<noteq> [] \<and> list_ex (\<lambda>n. capability_of (need_capability n) = None) wanted then
        Inl (ValueError ''is not a valid EngineCapability'')
      else
        let considered = considered_candidates w s g t q i accepted wanted;
            supported = map need_capability (filter (\<lambda>n. list_ex (\<lambda>e. can_do e (need_capability n)) engines) wanted);
            final = finalize_needs ns wanted considered supported;
            eligible = filter cand_eligible considered;
            names = sort_texts (\<lambda>x. x) (map (\<lambda>x. sug_capability x @ '':'' @ sug_engine x) accepted);
            base = (bare_plan final)\<lparr>plan_considered := considered, plan_rejected := rejected, plan_accepted := names\<rparr> in
        if eligible \<noteq> [] then
          let best = hd (sort_by (better_candidate (ask_language q)) eligible) in
          Inr (base\<lparr>plan_selected := Some best, plan_rationale := rationale_of best wanted,
            plan_request := Some (build_request q (cand_capability best) i (sch_corpus s))\<rparr>)
        else
          let (stop, detail) = stop_reason_for considered final in
          Inr (base\<lparr>plan_stop := Some stop, plan_rationale := detail,
            plan_prerequisites := sorted_set (filter (\<lambda>r. startswith r ''prerequisite:'' \<or> startswith r ''identity:'')
              (map cand_rejection considered))\<rparr>))"

section \<open>What a plan may select\<close>

text \<open>Every condition on running one engine for one need.\<close>

definition admissible ::
    "'w \<Rightarrow> 'w scheduler \<Rightarrow> gate \<Rightarrow> research_state \<Rightarrow> analysis_request \<Rightarrow> campaign_identity \<Rightarrow> suggestion list \<Rightarrow>
     capability_need \<Rightarrow> 'w engine \<Rightarrow> bool" where
  "admissible w s g t q i accepted n e \<longleftrightarrow>
     (let c = scored_candidate e n t (sch_corpus s) q i (is_suggested accepted (need_capability n) (eng_id e));
          built = build_request q (need_capability n) i (sch_corpus s) in
      e \<in> set (engines_by_id s) \<and> can_do e (need_capability n) \<and>
      (ask_language built = [] \<or> eng_languages e = [] \<or> ask_language built \<in> set (eng_languages e)) \<and>
      eng_available e w \<and> capability_value (capability_for e built) = need_capability n \<and>
      prerequisite (need_capability n) built i = [] \<and> pick_action (decide w s (eng_id e) built) = ''run'' \<and>
      (\<forall>h. health_of t (eng_id e) = Some h \<longrightarrow> hl_failures h < 2) \<and>
      (\<forall>x\<in>set (rst_executions t). ex_key x = cand_key c \<longrightarrow> ex_phase x \<in> {X_PLANNED, X_SUPERSEDED}) \<and>
      shortfall (rst_budget t) (cand_cost c) = [] \<and> gate_allows g c built t)"

lemma precheck_iff:
  "precheck w s e c q i = [] \<longleftrightarrow>
     (ask_language q = [] \<or> eng_languages e = [] \<or> ask_language q \<in> set (eng_languages e)) \<and> eng_available e w \<and>
     capability_value (capability_for e q) = c \<and> prerequisite c q i = [] \<and> pick_action (decide w s (eng_id e) q) = ''run''"
  by (auto simp: precheck_def Let_def)

lemma phases_left:
  "p = X_PLANNED \<or> p = X_SUPERSEDED \<longleftrightarrow>
     p \<noteq> X_COMPLETED \<and> p \<notin> set attempted_phases \<and> p \<notin> {X_UNAVAILABLE, X_UNSUPPORTED, X_BLOCKED}"
  by (cases p) (simp_all add: attempted_phases_def)

lemma history_iff:
  "history_rejection t engine key = [] \<longleftrightarrow>
     (\<forall>h. health_of t engine = Some h \<longrightarrow> hl_failures h < 2) \<and>
     (\<forall>x\<in>set (rst_executions t). ex_key x = key \<longrightarrow> ex_phase x \<in> {X_PLANNED, X_SUPERSEDED})"
proof -
  let ?ps = "map ex_phase (filter (\<lambda>x. ex_key x = key) (rst_executions t))"
  have "(\<forall>x\<in>set (rst_executions t). ex_key x = key \<longrightarrow> ex_phase x \<in> {X_PLANNED, X_SUPERSEDED}) \<longleftrightarrow>
      (\<forall>p\<in>set ?ps. p = X_PLANNED \<or> p = X_SUPERSEDED)" by auto
  also have "\<dots> \<longleftrightarrow> X_COMPLETED \<notin> set ?ps \<and> \<not> list_ex (\<lambda>p. p \<in> set attempted_phases) ?ps \<and>
      \<not> list_ex (\<lambda>p. p \<in> {X_UNAVAILABLE, X_UNSUPPORTED, X_BLOCKED}) ?ps"
    unfolding phases_left list_ex_iff by blast
  finally have "\<dots> \<longleftrightarrow> (\<forall>x\<in>set (rst_executions t). ex_key x = key \<longrightarrow> ex_phase x \<in> {X_PLANNED, X_SUPERSEDED})" by blast
  then show ?thesis by (auto simp: history_rejection_def Let_def not_le split: option.splits)
qed

lemma first_rejection_iff:
  "first_rejection w s e c t q i key cost = [] \<longleftrightarrow>
     precheck w s e c q i = [] \<and> history_rejection t (eng_id e) key = [] \<and> shortfall (rst_budget t) cost = []"
  by (simp add: first_rejection_def)

lemma scored_keeps [simp]:
  "cand_key (scored_candidate e n t corpus q i b) = cand_key (bare_candidate e n t corpus q i)"
  "cand_cost (scored_candidate e n t corpus q i b) = cand_cost (bare_candidate e n t corpus q i)"
  "cand_eligible (scored_candidate e n t corpus q i b)"
  by (simp_all add: scored_candidate_def Let_def)

lemma evaluate_eligible:
  assumes "e \<in> set (engines_by_id s)" and "can_do e (need_capability n)"
  shows "cand_eligible (evaluate w s g t q i n e (is_suggested accepted (need_capability n) (eng_id e))) \<longleftrightarrow>
    admissible w s g t q i accepted n e"
proof -
  let ?c = "scored_candidate e n t (sch_corpus s) q i (is_suggested accepted (need_capability n) (eng_id e))"
  let ?q = "build_request q (need_capability n) i (sch_corpus s)"
  have not: "\<not> cand_eligible (bare_candidate e n t (sch_corpus s) q i)" by (simp add: bare_candidate_def Let_def)
  obtain v where v: "check_gate g ?c ?q t = GateVerdict v" by (simp add: check_gate_def)
  have "cand_eligible (evaluate w s g t q i n e (is_suggested accepted (need_capability n) (eng_id e))) \<longleftrightarrow>
      first_rejection w s e (need_capability n) t ?q i (cand_key ?c) (cand_cost ?c) = [] \<and> gv_allowed v"
    by (simp add: evaluate_def Let_def not v)
  then show ?thesis
    using assms check_gate_allows [OF v] unfolding admissible_def first_rejection_iff precheck_iff history_iff Let_def by auto
qed

lemma evaluate_selected:
  "cand_eligible (evaluate w s g t q i n e b) \<Longrightarrow>
     evaluate w s g t q i n e b = scored_candidate e n t (sch_corpus s) q i b"
  by (auto simp: evaluate_def Let_def bare_candidate_def split: gate_answer.splits if_splits)

lemma ranked_set [simp]: "set (ranked_engines s l) = set (engines_by_id s)"
  by (simp add: ranked_engines_def)

lemma considered_iff:
  "(c \<in> set (considered_candidates w s g t q i accepted wanted) \<and> cand_eligible c) \<longleftrightarrow>
     (\<exists>n\<in>set wanted. \<exists>e. admissible w s g t q i accepted n e \<and>
        c = scored_candidate e n t (sch_corpus s) q i (is_suggested accepted (need_capability n) (eng_id e)))"
  (is "?l \<longleftrightarrow> ?r")
proof
  assume ?l
  then obtain n e where n: "n \<in> set wanted" "e \<in> set (engines_by_id s)" "can_do e (need_capability n)"
    and c: "c = evaluate w s g t q i n e (is_suggested accepted (need_capability n) (eng_id e))" "cand_eligible c"
    by (auto simp: considered_candidates_def)
  with evaluate_eligible [OF n(2,3)] evaluate_selected show ?r by metis
next
  assume ?r
  then obtain n e where n: "n \<in> set wanted" "admissible w s g t q i accepted n e"
    and c: "c = scored_candidate e n t (sch_corpus s) q i (is_suggested accepted (need_capability n) (eng_id e))" by blast
  then have e: "e \<in> set (engines_by_id s)" "can_do e (need_capability n)" by (simp_all add: admissible_def Let_def)
  with n evaluate_eligible [OF e]
  have "cand_eligible (evaluate w s g t q i n e (is_suggested accepted (need_capability n) (eng_id e)))" by simp
  with evaluate_selected [OF this] c
  have "c = evaluate w s g t q i n e (is_suggested accepted (need_capability n) (eng_id e))" "cand_eligible c" by simp_all
  with n(1) e show ?l by (auto simp: considered_candidates_def)
qed

lemma engines_nonempty: "e \<in> set (engines_by_id s) \<Longrightarrow> engines_by_id s \<noteq> []"
  by auto

lemma hd_insert_by: "hd (insert_by le x ys) = (if ys = [] \<or> le x (hd ys) then x else hd ys)"
  by (cases ys) auto

lemma sort_by_best:
  assumes "\<And>a b. le a b \<Longrightarrow> f a \<le> f b" and "\<And>a b. \<not> le a b \<Longrightarrow> f b \<le> f a"
  shows "y \<in> set xs \<Longrightarrow> (f (hd (sort_by le xs)) :: int) \<le> f y"
proof (induction xs arbitrary: y)
  case (Cons x xs)
  have h: "hd (sort_by le (x # xs)) = (if sort_by le xs = [] \<or> le x (hd (sort_by le xs)) then x else hd (sort_by le xs))"
    by (simp add: sort_by_def hd_insert_by)
  show ?case
  proof (cases "y = x")
    case True then show ?thesis using assms(2) by (auto simp: h)
  next
    case False
    with Cons have y: "y \<in> set xs" by simp
    then have "sort_by le xs \<noteq> []" by auto
    with assms(1) [of x "hd (sort_by le xs)"] Cons.IH [OF y] show ?thesis by (auto simp: h)
  qed
qed simp

definition accepted_of :: "'w scheduler \<Rightarrow> suggestion list \<Rightarrow> suggestion list" where
  "accepted_of s suggestions = fst (validate_suggestions suggestions (map eng_id (sch_engines s)))"

text \<open>The candidates a round may choose from: a wanted need and an engine admissible for it.\<close>

definition choices ::
    "'w \<Rightarrow> 'w scheduler \<Rightarrow> gate \<Rightarrow> research_state \<Rightarrow> analysis_request \<Rightarrow> campaign_identity \<Rightarrow> capability_need list \<Rightarrow>
     suggestion list \<Rightarrow> candidate set" where
  "choices w s g t q i ns suggestions =
     {scored_candidate e n t (sch_corpus s) q i (is_suggested (accepted_of s suggestions) (need_capability n) (eng_id e)) | n e.
        n \<in> set (wanted_needs s ns suggestions) \<and> admissible w s g t q i (accepted_of s suggestions) n e}"

lemma plan_selection:
  assumes "plan_round w s g t q i ns suggestions = Inr p"
  shows "(plan_selected p = None \<longleftrightarrow> choices w s g t q i ns suggestions = {}) \<and>
    (\<forall>c. plan_selected p = Some c \<longrightarrow>
       c \<in> choices w s g t q i ns suggestions \<and>
       (\<forall>d\<in>choices w s g t q i ns suggestions. cand_score d \<le> cand_score c) \<and>
       plan_request p = Some (build_request q (cand_capability c) i (sch_corpus s)))"
proof -
  let ?cs = "considered_candidates w s g t q i (accepted_of s suggestions) (wanted_needs s ns suggestions)"
  define es where "es = filter cand_eligible ?cs"
  let ?le = "better_candidate (ask_language q)"
  have el: "set es = choices w s g t q i ns suggestions"
  proof (rule set_eqI)
    fix c show "c \<in> set es \<longleftrightarrow> c \<in> choices w s g t q i ns suggestions"
      using considered_iff [of c w s g t q i "accepted_of s suggestions" "wanted_needs s ns suggestions"]
      by (auto simp: choices_def es_def)
  qed
  have sel: "plan_selected p = (if es = [] then None else Some (hd (sort_by ?le es)))"
    and req: "es \<noteq> [] \<Longrightarrow> plan_request p = Some (build_request q (cand_capability (hd (sort_by ?le es))) i (sch_corpus s))"
    using assms by (auto simp: plan_round_def accepted_of_def Let_def bare_plan_def es_def split: prod.splits if_splits)
  have le: "?le a b \<Longrightarrow> - cand_score a \<le> - cand_score b" "\<not> ?le a b \<Longrightarrow> - cand_score b \<le> - cand_score a" for a b
    by (auto simp: better_candidate_def Let_def)
  have best: "cand_score d \<le> cand_score (hd (sort_by ?le es))" if "d \<in> set es" for d
    using sort_by_best [of ?le "\<lambda>c. - cand_score c", OF le that] by simp
  have hd: "hd (sort_by ?le es) \<in> set es" if "es \<noteq> []"
    using that by (metis hd_in_set set_sort_by sort_by_Nil)
  show ?thesis
  proof (cases "es = []")
    case True then show ?thesis using sel el by auto
  next
    case False then show ?thesis using sel req best hd by (auto simp: el [symmetric])
  qed
qed

text \<open>What is selected has the cost that was estimated and a key of its own.\<close>

lemma selected_cost:
  assumes "plan_round w s g t q i ns suggestions = Inr p" and "plan_selected p = Some c"
  shows "\<exists>x runs. cand_cost c = estimate_cost x runs"
    and "e \<in> set (rst_executions t) \<Longrightarrow> ex_key e = cand_key c \<Longrightarrow> ex_phase e \<in> {X_PLANNED, X_SUPERSEDED}"
    and "shortfall (rst_budget t) (cand_cost c) = []"
proof -
  from plan_selection [OF assms(1)] assms(2) have "c \<in> choices w s g t q i ns suggestions" by blast
  then obtain n x where c: "c = scored_candidate x n t (sch_corpus s) q i
      (is_suggested (accepted_of s suggestions) (need_capability n) (eng_id x))"
    and adm: "admissible w s g t q i (accepted_of s suggestions) n x" by (auto simp: choices_def)
  show "\<exists>x runs. cand_cost c = estimate_cost x runs" by (auto simp: c bare_candidate_def Let_def)
  show "e \<in> set (rst_executions t) \<Longrightarrow> ex_key e = cand_key c \<Longrightarrow> ex_phase e \<in> {X_PLANNED, X_SUPERSEDED}"
    using adm unfolding admissible_def c Let_def by blast
  show "shortfall (rst_budget t) (cand_cost c) = []" using adm unfolding admissible_def c Let_def by blast
qed

end
