(* ===== verification/Orchestrator.thy ===== *)
theory Orchestrator
  imports OrchPlan
begin

text \<open>
  \<open>discovery/orchestration/orchestrator.py\<close> and \<open>report.py\<close>: the bounded campaign that runs one engine a
  round. The orchestrator is a record with its scheduler, its state and the world \<open>'w\<close> the engines, the
  store and the clock live in. A store is its two methods; before it saves it seals the state. The
  loop of \<open>run\<close> is a partial function, which is proved to return.
\<close>

section \<open>The orchestrator\<close>

record 'w store =
  str_save :: "research_state \<Rightarrow> 'w \<Rightarrow> orch_error option \<times> 'w"
  str_load :: "string \<Rightarrow> 'w \<Rightarrow> (orch_error + research_state option) \<times> 'w"

record 'w orchestrator =
  orc_scheduler :: "'w scheduler"
  orc_request :: analysis_request
  orc_identity :: campaign_identity
  orc_store :: "'w store option"
  orc_gate :: gate
  orc_clock :: "'w \<Rightarrow> string"
  orc_scan :: int
  orc_rounds :: "int option"
  orc_caps :: costs
  orc_seconds :: "int option"
  orc_suggestions :: "suggestion list"
  orc_started :: bool
  orc_state :: research_state
  orc_world :: 'w

type_synonym ('w, 'a) orch_act = "'w orchestrator \<Rightarrow> (orch_error + 'a) \<times> 'w orchestrator"

definition orc_then :: "(orch_error + 'a) \<times> 'w orchestrator \<Rightarrow> ('a \<Rightarrow> ('w, 'b) orch_act) \<Rightarrow> (orch_error + 'b) \<times> 'w orchestrator" where
  "orc_then r f = (case r of (Inl e, a) \<Rightarrow> (Inl e, a) | (Inr x, a) \<Rightarrow> f x a)"

definition on_state :: "(research_state \<Rightarrow> research_state) \<Rightarrow> 'w orchestrator \<Rightarrow> 'w orchestrator" where
  "on_state f a = a\<lparr>orc_state := f (orc_state a)\<rparr>"

definition identity_from_request :: "analysis_request \<Rightarrow> string \<Rightarrow> campaign_identity" where
  "identity_from_request q campaign =
     (let base = \<lparr>cid_campaign = [], cid_project = or_text (ask_flag q ''project_id'') (ask_root q),
        cid_snapshot = ask_flag q ''source_snapshot'', cid_compiler = ask_flag q ''compiler_configuration'',
        cid_root = ask_root q, cid_language = ask_language q, cid_target = ask_target q, cid_contract = ask_contract q,
        cid_function = ask_function q, cid_source_file = ask_source_file q,
        cid_deployment = ask_flag q ''deployment_address'', cid_fork = ask_flag q ''fork_reference'',
        cid_program = ask_flag q ''program_context''\<rparr>
      in base\<lparr>cid_campaign := or_text campaign (or_text (ask_campaign q) (''cp_'' @ target_digest base))\<rparr>)"

definition raised_to :: "string \<Rightarrow> int \<Rightarrow> costs \<Rightarrow> costs" where
  "raised_to k n d = dict_set k (max (amount d k) n) d"

definition fresh_ledger :: "'w orchestrator \<Rightarrow> ledger" where
  "fresh_ledger a =
     (let l = new_ledger (orc_scan a) (orc_scheduler a) (orc_rounds a) (orc_caps a) (orc_seconds a);
          n = sch_started (orc_scheduler a) in
      l\<lparr>bl_consumed := raised_to ''executions'' n (raised_to ''engines'' n (bl_consumed l))\<rparr>)"

definition new_orchestrator ::
    "'w scheduler \<Rightarrow> analysis_request \<Rightarrow> campaign_identity option \<Rightarrow> 'w store option \<Rightarrow> gate option \<Rightarrow> ('w \<Rightarrow> string) \<Rightarrow>
     int \<Rightarrow> int option \<Rightarrow> costs \<Rightarrow> int option \<Rightarrow> 'w \<Rightarrow> 'w orchestrator" where
  "new_orchestrator s q i st g clock scan rounds caps secs w =
     (let ident = (case i of None \<Rightarrow> identity_from_request q [] | Some x \<Rightarrow> x);
          a = \<lparr>orc_scheduler = s, orc_request = q, orc_identity = ident, orc_store = st,
            orc_gate = (case g of None \<Rightarrow> gate_check standard_gate | Some x \<Rightarrow> x), orc_clock = clock, orc_scan = scan,
            orc_rounds = rounds, orc_caps = caps, orc_seconds = secs, orc_suggestions = [], orc_started = False,
            orc_state = new_state ident \<lparr>bl_limits = [], bl_consumed = [], bl_reserved = [], bl_overrun = False\<rparr>, orc_world = w\<rparr>
      in a\<lparr>orc_state := new_state ident (fresh_ledger a)\<rparr>)"

definition suggest :: "string \<Rightarrow> string \<Rightarrow> string \<Rightarrow> 'w orchestrator \<Rightarrow> bool \<times> 'w orchestrator" where
  "suggest c engine cause a =
     (if 8 \<le> length (orc_suggestions a) then (False, a)
      else (True, a\<lparr>orc_suggestions := orc_suggestions a @
        [\<lparr>sug_capability = c, sug_engine = engine, sug_reason = py_take 120 cause\<rparr>]\<rparr>))"

section \<open>Moving and saving\<close>

definition move_to :: "orch_state \<Rightarrow> bool \<Rightarrow> ('w, unit) orch_act" where
  "move_to target explicit a =
     (case orch_transition (rst_state (orc_state a)) target explicit of
        Inl e \<Rightarrow> (Inl e, a)
      | Inr x \<Rightarrow> (Inr (), on_state (\<lambda>t. t\<lparr>rst_state := x\<rparr>) a))"

definition save_state :: "('w, unit) orch_act" where
  "save_state a =
     (case orc_store a of
        None \<Rightarrow> (Inr (), a)
      | Some st \<Rightarrow>
          (let b = on_state seal a in
           case str_save st (orc_state b) (orc_world b) of
             (None, w) \<Rightarrow> (Inr (), b\<lparr>orc_world := w\<rparr>)
           | (Some e, w) \<Rightarrow> (Inl e, b\<lparr>orc_world := w\<rparr>)))"

section \<open>Summaries\<close>

definition ledger_left :: "ledger \<Rightarrow> costs" where
  "ledger_left l = map (\<lambda>k. (k, ledger_remaining l k)) (sort_texts (\<lambda>k. k) (dict_keys (bl_limits l)))"

definition first_need :: "capability_need list \<Rightarrow> string" where
  "first_need ns = (case actionable ns of [] \<Rightarrow> [] | n # _ \<Rightarrow> need_capability n)"

definition count_up :: "string \<Rightarrow> costs \<Rightarrow> costs" where
  "count_up k d = dict_set k (amount d k + 1) d"

definition evidence_summary :: "research_state \<Rightarrow> costs" where
  "evidence_summary t =
     sort_pairs (dict_set ''negatives'' (int (length (rst_negatives t)))
       (dict_set ''contradictions'' (int (length (rst_contradictions t)))
         (fold (\<lambda>i d. count_up (evidence_quality_value (it_quality i)) d) (rst_evidence t)
           [(''total'', int (length (rst_evidence t)))])))"

definition recommend_review :: "research_state \<Rightarrow> bool" where
  "recommend_review t =
     (let conflicted = map ct_key (filter (\<lambda>c. ct_status c \<noteq> ''resolved'') (rst_contradictions t)) in
      list_ex (\<lambda>i. it_quality i = Q_CORROBORATED \<and> it_key i \<notin> set conflicted) (rst_evidence t))"

definition noted_health :: "execution_phase \<Rightarrow> engine_health \<Rightarrow> engine_health" where
  "noted_health p h =
     (if p = X_COMPLETED then h\<lparr>hl_successes := hl_successes h + 1, hl_failures := 0\<rparr>
      else if p \<in> {X_FAILED, X_UNKNOWN} then h\<lparr>hl_failures := hl_failures h + 1\<rparr>
      else if p = X_TIMED_OUT then h\<lparr>hl_failures := hl_failures h + 1, hl_timeouts := hl_timeouts h + 1\<rparr>
      else if p = X_UNAVAILABLE then h\<lparr>hl_unavailable := hl_unavailable h + 1\<rparr>
      else h)"

definition update_health :: "engine_health list \<Rightarrow> string \<Rightarrow> execution_phase \<Rightarrow> engine_health list" where
  "update_health hs engine p =
     (let old = (case List.find (\<lambda>h. hl_engine h = engine) hs of Some h \<Rightarrow> h
          | None \<Rightarrow> \<lparr>hl_engine = engine, hl_failures = 0, hl_timeouts = 0, hl_successes = 0, hl_unavailable = 0\<rparr>) in
      sort_texts hl_engine (filter (\<lambda>h. hl_engine h \<noteq> engine) hs @ [noted_health p old]))"

definition corpus_refs :: "'w orchestrator \<Rightarrow> string list" where
  "corpus_refs a =
     sorted_set (map (\<lambda>x. seed_source_value (seed_source x) @ '':'' @ take 16 (seed_sha x))
       (filter (\<lambda>x. seed_snapshot x = cid_snapshot (orc_identity a) \<and> seed_compiler x = cid_compiler (orc_identity a) \<and>
          seed_target x = ask_target (orc_request a)) (sch_corpus (orc_scheduler a))))"

definition context_of :: "'w orchestrator \<Rightarrow> assess_context" where
  "context_of a =
     (let q = orc_request a in
      \<lparr>ac_language = ask_language q, ac_extra = ask_extra q, ac_difficult = ask_difficult q, ac_harness = ask_harness q,
       ac_framework = ask_framework q, ac_targeted = (ask_function q \<noteq> [] \<or> ask_contract q \<noteq> [])\<rparr>)"

definition assess_now :: "'w orchestrator \<Rightarrow> capability_need list" where
  "assess_now a = assess (orc_state a) (context_of a)"

section \<open>Decisions\<close>

definition decision_id :: "'w orchestrator \<Rightarrow> int \<Rightarrow> string" where
  "decision_id a n = ''dc_'' @ digest 16 (JList [JStr (cid_campaign (orc_identity a)), JInt n])"

text \<open>What a decision is made from; the arguments of \<open>_decision\<close>.\<close>

record decision_parts =
  pt_hash :: string
  pt_budget :: costs
  pt_plan :: plan
  pt_needs :: "capability_need list"
  pt_record :: execution_record
  pt_delta :: evidence_delta
  pt_result :: "dynamic_result option"
  pt_request :: analysis_request
  pt_next :: string
  pt_previous :: string
  pt_stop :: string
  pt_source :: decision_source

definition pinned_fork :: "analysis_request \<Rightarrow> bool" where
  "pinned_fork q \<longleftrightarrow> ask_flag q ''chain_id'' \<noteq> [] \<and> ask_flag q ''fork_block'' \<noteq> [] \<and> ask_flag q ''state_snapshot'' \<noteq> []"

definition make_decision :: "'w orchestrator \<Rightarrow> int \<Rightarrow> decision_parts \<Rightarrow> decision_record" where
  "make_decision a n p =
     (let t = orc_state a; c = plan_selected (pt_plan p); e = pt_record p; q = pt_request p;
          rationale = (if plan_rejected (pt_plan p) = [] then plan_rationale (pt_plan p)
            else py_take 400 (plan_rationale (pt_plan p) @ ''; rejected suggestions: '' @ py_join '', '' (plan_rejected (pt_plan p))));
          fork = (if ex_capability e \<in> {''fork_validation'', ''differential_validation''} then
              [(''chain_id'', ask_flag q ''chain_id''), (''block'', ask_flag q ''fork_block''),
               (''state_snapshot'', ask_flag q ''state_snapshot''), (''pinned'', json_bool (pinned_fork q))] else []);
          differential = (if ex_capability e = ''differential_validation'' then
              [(''state_reset'', ask_flag q ''state_reset''),
               (''classification'', case pt_result p of None \<Rightarrow> [] | Some r \<Rightarrow> meta r ''classification'')] else [])
      in sealed
        \<lparr>dcr_id = decision_id a n, dcr_campaign = cid_campaign (orc_identity a), dcr_sequence = n, dcr_round = ex_round e,
         dcr_source = pt_source p, dcr_phase = ex_phase e, dcr_previous = pt_previous p, dcr_hash_before = pt_hash p,
         dcr_summary = evidence_summary t, dcr_uncertainties = rst_uncertainties t, dcr_missing = first_need (pt_needs p),
         dcr_needs = pt_needs p, dcr_considered = plan_considered (pt_plan p),
         dcr_capability = (case c of None \<Rightarrow> [] | Some x \<Rightarrow> cand_capability x),
         dcr_engine = (case c of None \<Rightarrow> [] | Some x \<Rightarrow> cand_engine x), dcr_rationale = rationale,
         dcr_prerequisites = plan_prerequisites (pt_plan p), dcr_budget = pt_budget p,
         dcr_reserved = (case c of None \<Rightarrow> [] | Some x \<Rightarrow> cand_cost x), dcr_consumed = ex_consumed e,
         dcr_execution = ex_key e, dcr_input = ex_input e, dcr_result = ex_status e, dcr_delta = pt_delta p,
         dcr_next = pt_next p, dcr_stop = pt_stop p, dcr_fork = fork, dcr_differential = differential,
         dcr_identity = target_digest (orc_identity a), dcr_snapshot = cid_snapshot (orc_identity a),
         dcr_compiler = cid_compiler (orc_identity a), dcr_version = rst_version t,
         dcr_created = orc_clock a (orc_world a), dcr_hash = []\<rparr>)"

text \<open>A decision gets the next number and is appended.\<close>

definition record_decision :: "decision_parts \<Rightarrow> 'w orchestrator \<Rightarrow> 'w orchestrator" where
  "record_decision p a =
     (let n = rst_number (orc_state a) + 1; b = on_state (\<lambda>t. t\<lparr>rst_number := n\<rparr>) a in
      on_state (\<lambda>t. t\<lparr>rst_decisions := rst_decisions t @ [make_decision b n p]\<rparr>) b)"

section \<open>Stopping\<close>

definition stop_record :: "'w orchestrator \<Rightarrow> stop_reason \<Rightarrow> execution_record" where
  "stop_record a r =
     (let blocked = (stop_state r \<in> {O_STOPPED, O_INCONCLUSIVE}) in
      \<lparr>ex_key = [], ex_decision = decision_id a (rst_number (orc_state a) + 1), ex_engine = [], ex_capability = [],
       ex_input = [], ex_after = [], ex_phase = (if blocked then X_BLOCKED else X_COMPLETED), ex_status = ''stopped'',
       ex_executed = False, ex_failure = (if blocked then FC_POLICY else FC_NONE), ex_consumed = [], ex_evidence = [],
       ex_round = rst_round (orc_state a), ex_retries = 0, ex_retryable = False\<rparr>)"

definition stop_with ::
    "stop_reason \<Rightarrow> capability_need list \<Rightarrow> plan option \<Rightarrow> string \<Rightarrow> ('w, unit) orch_act" where
  "stop_with r ns chosen detail a =
     (let previous = rst_state (orc_state a); hash = hash_now (orc_state a) in
      orc_then (if previous = O_PLANNING \<and> r \<in> set resumable_stops then move_to O_BLOCKED False a else (Inr (), a)) (\<lambda>u a1.
      orc_then (move_to O_STOPPING False a1) (\<lambda>u a2.
        let a3 = on_state (\<lambda>t. t\<lparr>rst_stop := stop_reason_value r,
              rst_rationale := py_take 400 (or_text detail (case chosen of None \<Rightarrow> [] | Some p \<Rightarrow> plan_rationale p)),
              rst_next_capability := first_need ns\<rparr>) a2;
            a4 = record_decision
              \<lparr>pt_hash = hash, pt_budget = ledger_left (rst_budget (orc_state a3)),
               pt_plan = (case chosen of None \<Rightarrow> bare_plan ns | Some p \<Rightarrow> p), pt_needs = ns, pt_record = stop_record a3 r,
               pt_delta = no_delta, pt_result = None, pt_request = orc_request a, pt_next = first_need ns,
               pt_previous = orch_state_value previous, pt_stop = stop_reason_value r,
               pt_source = (if r \<in> set operator_stops then DS_OPERATOR else DS_PLANNER)\<rparr> a3;
            a5 = on_state (\<lambda>t. t\<lparr>rst_recommend := recommend_review t\<rparr>) a4 in
        orc_then (move_to (stop_state r) False a5) (\<lambda>u a6. save_state a6))))"

definition no_need_reason :: "research_state \<Rightarrow> stop_reason" where
  "no_need_reason t =
     (if rst_contradictions t \<noteq> [] then SR_UNRESOLVED_UNCERTAINTY
      else if rst_executions t \<noteq> [] \<and> ledger_remaining (rst_budget t) ''rounds'' \<le> 0 then SR_COMPLETED_BOUNDED_RESEARCH
      else SR_ALL_CAPABILITIES_EXERCISED)"

section \<open>One round\<close>

definition start_record :: "'w orchestrator \<Rightarrow> candidate \<Rightarrow> string \<Rightarrow> execution_record" where
  "start_record a c ident =
     \<lparr>ex_key = cand_key c, ex_decision = ident, ex_engine = cand_engine c, ex_capability = cand_capability c,
      ex_input = cand_input c, ex_after = [], ex_phase = X_STARTED, ex_status = ''started'', ex_executed = False,
      ex_failure = FC_NONE, ex_consumed = cand_cost c, ex_evidence = [], ex_round = rst_round (orc_state a),
      ex_retries = 0, ex_retryable = False\<rparr>"

definition attributable :: "candidate \<Rightarrow> analysis_request \<Rightarrow> campaign_identity \<Rightarrow> dynamic_result \<Rightarrow> bool" where
  "attributable c q i r \<longleftrightarrow>
     res_engine r = cand_engine c \<and> (res_language r = [] \<or> res_language r = ask_language q) \<and>
     (res_campaign r = [] \<or> ask_campaign q = [] \<or> res_campaign r = ask_campaign q) \<and> identity_matches r i"

definition retryable_phases :: "execution_phase list" where
  "retryable_phases = [X_TIMED_OUT, X_FAILED, X_UNKNOWN]"

definition retryable_failures :: "failure_class list" where
  "retryable_failures = [FC_TIMEOUT, FC_INFRASTRUCTURE, FC_UNKNOWN_OUTCOME]"

definition reported_runs :: "string \<Rightarrow> dynamic_result \<Rightarrow> int" where
  "reported_runs c r =
     (if c \<notin> set runtime_family then 1
      else case int_of_text (dict_get (res_metadata r) ''executions'' ''1'') of
        None \<Rightarrow> 1 | Some n \<Rightarrow> max 1 (min n max_executions))"

text \<open>\<open>_observe\<close>; \<open>None\<close> as a result is an engine that raised. Its error is the one of the evidence.\<close>

definition observe ::
    "'w orchestrator \<Rightarrow> candidate \<Rightarrow> analysis_request \<Rightarrow> dynamic_result option \<Rightarrow> string \<Rightarrow>
     (execution_record \<times> evidence_item list \<times> bool) result" where
  "observe a c q result ident =
     (let base = start_record a c ident in
      case result of
        None \<Rightarrow> Inr (base\<lparr>ex_phase := X_UNKNOWN, ex_status := ''unknown'', ex_failure := FC_UNKNOWN_OUTCOME, ex_retryable := True\<rparr>,
          [], False)
      | Some r \<Rightarrow>
          (let own = attributable c q (orc_identity a) r;
               (phase, failure) = (if own then outcome_of r else (X_FAILED, FC_IDENTITY)) in
           case (if own then items_from_result r (orc_identity a) (cand_capability c) (cand_key c) phase else Inr []) of
             Inl e \<Rightarrow> Inl e
           | Inr items \<Rightarrow>
               Inr (base\<lparr>ex_after := (if items = [] then [] else digest 16 (texts_json (sort_texts (\<lambda>k. k) (map it_id items)))),
                   ex_phase := phase, ex_status := result_status_value (res_status r), ex_executed := res_executed r,
                   ex_failure := failure,
                   ex_consumed := actual_cost (cand_capability c) (res_executed r) (reported_runs (cand_capability c) r),
                   ex_evidence := sort_texts (\<lambda>k. k) (map it_id items),
                   ex_retryable := (failure \<in> set retryable_failures \<and> phase \<in> set retryable_phases)\<rparr>,
                 items, own)))"

text \<open>The items of a state and of a round by identifier, the later one of two, sorted.\<close>

definition merged_items :: "evidence_item list \<Rightarrow> evidence_item list \<Rightarrow> evidence_item list" where
  "merged_items old new = sort_texts it_id (map snd (fold (\<lambda>i d. dict_set (it_id i) i d) (old @ new) []))"

definition redundant_rounds :: "research_state \<Rightarrow> bool" where
  "redundant_rounds t =
     (case rev (filter (\<lambda>d. dcr_phase d = X_COMPLETED \<and> dcr_capability d \<noteq> []) (rst_decisions t)) of
        d # e # ds \<Rightarrow> dcr_capability d = dcr_capability e \<and> \<not> informative (dcr_delta d) \<and> \<not> informative (dcr_delta e)
      | _ \<Rightarrow> False)"

definition began :: "candidate \<Rightarrow> string \<Rightarrow> 'w orchestrator \<Rightarrow> 'w orchestrator" where
  "began c ident a =
     (let b = on_state (\<lambda>t. t\<lparr>rst_round := rst_round t + 1\<rparr>) a in
      on_state (\<lambda>t. t\<lparr>rst_executions := rst_executions t @ [start_record b c ident]\<rparr>) b)"

text \<open>The engine runs; an exception of it is no result.\<close>

definition call_scheduler :: "candidate \<Rightarrow> analysis_request \<Rightarrow> 'w orchestrator \<Rightarrow> dynamic_result option \<times> 'w orchestrator" where
  "call_scheduler c q a =
     (case run_engine (orc_clock a (orc_world a)) (cand_engine c) q (orc_scheduler a, orc_world a) of
        (r, s, w) \<Rightarrow> (r, a\<lparr>orc_scheduler := s, orc_world := w\<rparr>))"

definition negatives_of ::
    "'w orchestrator \<Rightarrow> candidate \<Rightarrow> dynamic_result option \<Rightarrow> bool \<Rightarrow> execution_phase \<Rightarrow> negative_evidence list" where
  "negatives_of a c result own phase =
     (case result of
        None \<Rightarrow> []
      | Some r \<Rightarrow>
          if \<not> own then []
          else (case negative_from r (orc_identity a) (cand_capability c) phase of
              None \<Rightarrow> [] | Some n \<Rightarrow> if n \<in> set (rst_negatives (orc_state a)) then [] else [n]))"

definition folded ::
    "candidate \<Rightarrow> dynamic_result option \<Rightarrow> execution_record \<Rightarrow> evidence_item list \<Rightarrow> bool \<Rightarrow> 'w orchestrator \<Rightarrow> 'w orchestrator" where
  "folded c result e items own a =
     (let new = negatives_of a c result own (ex_phase e);
          b = on_state (\<lambda>t.
            let t1 = t\<lparr>rst_executions := filter (\<lambda>x. \<not> (ex_key x = cand_key c \<and> ex_phase x = X_STARTED)) (rst_executions t) @ [e],
                  rst_budget := settle (cand_cost c) (ex_consumed e) (rst_budget t),
                  rst_health := update_health (rst_health t) (cand_engine c) (ex_phase e),
                  rst_evidence := corroborate (merged_items (rst_evidence t) items)\<rparr>
            in t1\<lparr>rst_contradictions := detect_contradictions (rst_evidence t1) (exercised_capabilities t1),
                  rst_negatives := rst_negatives t @ new, rst_corpus_refs := corpus_refs a\<rparr>) a
      in on_state (\<lambda>t. t\<lparr>rst_uncertainties := uncertainties_of (assess_now b)\<rparr>) b)"

definition reported_coverage :: "dynamic_result option \<Rightarrow> bool \<Rightarrow> bool" where
  "reported_coverage result own =
     (case result of None \<Rightarrow> False
      | Some r \<Rightarrow> own \<and> dict_get (res_coverage r) ''new_coverage'' (dict_get (res_coverage r) ''new'' []) = ''true'')"

definition round_delta ::
    "research_state \<Rightarrow> research_state \<Rightarrow> candidate \<Rightarrow> dynamic_result option \<Rightarrow> bool \<Rightarrow> capability_need list \<Rightarrow> evidence_delta" where
  "round_delta before after c result own ns =
     compute_delta (rst_evidence before) (rst_evidence after)
       (filter (\<lambda>x. x \<notin> set (rst_corpus_refs before)) (rst_corpus_refs after)) (reported_coverage result own)
       (rst_contradictions before) (rst_contradictions after)
       (map (\<lambda>n. ng_engine n @ '':'' @ ng_capability n) (drop (length (rst_negatives before)) (rst_negatives after)))
       (uncertainties_of ns) (rst_uncertainties after)"

definition finish_round ::
    "candidate \<Rightarrow> analysis_request \<Rightarrow> plan \<Rightarrow> capability_need list \<Rightarrow> research_state \<Rightarrow> dynamic_result option \<Rightarrow>
     execution_record \<Rightarrow> evidence_item list \<Rightarrow> bool \<Rightarrow> ('w, bool) orch_act" where
  "finish_round c q chosen ns before result e items own a =
     (let b = folded c result e items own a; after = assess_now b;
          delta = round_delta before (orc_state b) c result own ns in
      orc_then (move_to O_CORRELATING False b) (\<lambda>u b1.
        let b2 = on_state (\<lambda>t. t\<lparr>rst_recommend := recommend_review t\<rparr>) b1;
            b3 = record_decision
              \<lparr>pt_hash = hash_now before, pt_budget = ledger_left (rst_budget before), pt_plan = chosen,
               pt_needs = plan_needs chosen, pt_record = e, pt_delta = delta, pt_result = result, pt_request = q,
               pt_next = first_need after, pt_previous = orch_state_value O_PLANNING, pt_stop = [], pt_source = DS_PLANNER\<rparr> b2;
            b4 = on_state (\<lambda>t. t\<lparr>rst_next_capability := first_need after\<rparr>) b3 in
        if redundant_rounds (orc_state b4) then
          orc_then (stop_with SR_REDUNDANT_EVIDENCE after None ''two repeats added nothing'' b4) (\<lambda>u b5. (Inr False, b5))
        else orc_then (move_to O_CONTINUE False b4) (\<lambda>u b5. orc_then (save_state b5) (\<lambda>u b6. (Inr True, b6)))))"

definition run_round ::
    "candidate \<Rightarrow> analysis_request \<Rightarrow> plan \<Rightarrow> capability_need list \<Rightarrow> ('w, bool) orch_act" where
  "run_round c q chosen ns a =
     (let before = orc_state a; ident = decision_id a (rst_number before + 1) in
      orc_then (move_to O_READY False a) (\<lambda>u a1.
        case reserve (cand_cost c) (rst_budget (orc_state a1)) of
          Inl _ \<Rightarrow>
            orc_then (move_to O_PLANNING False a1) (\<lambda>u a2.
              orc_then (stop_with SR_BUDGET_EXHAUSTED ns (Some chosen) ''reservation refused'' a2) (\<lambda>u a3. (Inr False, a3)))
        | Inr l \<Rightarrow>
            orc_then (move_to O_EXECUTING False (on_state (\<lambda>t. t\<lparr>rst_budget := l\<rparr>) a1)) (\<lambda>u a2.
            orc_then (save_state (began c ident a2)) (\<lambda>u a3.
              case call_scheduler c q a3 of
                (result, a4) \<Rightarrow>
                  orc_then (move_to O_OBSERVING False a4) (\<lambda>u a5.
                    case observe a5 c q result ident of
                      Inl e \<Rightarrow> (Inl (OtherError e), a5)
                    | Inr (e, items, own) \<Rightarrow> finish_round c q chosen ns before result e items own a5)))))"

section \<open>Steps\<close>

definition enter_planning :: "('w, unit) orch_act" where
  "enter_planning a =
     (let x = rst_state (orc_state a) in
      if x = O_CREATED then orc_then (move_to O_BASELINE False a) (\<lambda>u b. move_to O_PLANNING False b)
      else if x \<in> {O_CONTINUE, O_BLOCKED} then move_to O_PLANNING False a
      else if x \<noteq> O_PLANNING then (Inl (BadTransition (''cannot step from '' @ orch_state_value x)), a)
      else (Inr (), a))"

definition halted :: "(orch_error + unit) \<times> 'w orchestrator \<Rightarrow> (orch_error + bool) \<times> 'w orchestrator" where
  "halted r = orc_then r (\<lambda>u b. (Inr False, b))"

definition planned_step :: "('w, bool) orch_act" where
  "planned_step a =
     (let ns = assess_now a;
          suggestions = orc_suggestions a;
          b = (on_state (\<lambda>t. t\<lparr>rst_uncertainties := uncertainties_of ns\<rparr>) a)\<lparr>orc_suggestions := []\<rparr>;
          spent = exhausted (rst_budget (orc_state b)) in
      if actionable ns = [] \<and> suggestions = [] then
        halted (stop_with (no_need_reason (orc_state b)) ns None ''no capability need remains'' b)
      else if spent \<noteq> [] then
        halted (stop_with (if spent = ''rounds'' then SR_ROUNDS_EXHAUSTED else SR_EXECUTION_CAP_EXHAUSTED) ns None
          (spent @ '' budget is spent'') b)
      else case plan_round (orc_world b) (orc_scheduler b) (orc_gate b) (orc_state b) (orc_request b) (orc_identity b) ns suggestions of
        Inl e \<Rightarrow> (Inl (OtherError e), b)
      | Inr p \<Rightarrow>
          (case (plan_selected p, plan_request p) of
             (Some c, Some q) \<Rightarrow> run_round c q p ns b
           | _ \<Rightarrow> halted (stop_with (case plan_stop p of None \<Rightarrow> SR_NO_USEFUL_CAPABILITY | Some r \<Rightarrow> r) (plan_needs p) (Some p) [] b)))"

definition raw_step :: "('w, bool) orch_act" where
  "raw_step a = orc_then (enter_planning a) (\<lambda>u b. planned_step b)"

fun orch_error_text :: "orch_error \<Rightarrow> string" where
  "orch_error_text (BadDecision m) = ''InvalidDecisionError: '' @ m"
| "orch_error_text (BadTransition m) = ''IllegalTransitionError: '' @ m"
| "orch_error_text (PersistFailed m) = ''PersistenceError: '' @ m"
| "orch_error_text (ResumeFailed u m) = ''ResumeError: '' @ resume_status_value u @ (if m = [] then [] else '': '' @ m)"
| "orch_error_text (OtherError e) = error_text e"

definition fail_with :: "orch_error \<Rightarrow> ('w, unit) orch_act" where
  "fail_with e a =
     save_state (on_state (\<lambda>t. t\<lparr>rst_rationale := py_take 400 (orch_error_text e),
       rst_state := (if rst_state t \<in> set orch_terminal then rst_state t else O_FAILED)\<rparr>) a)"

definition resting :: "orch_state \<Rightarrow> bool" where
  "resting x \<longleftrightarrow> x \<in> set orch_terminal \<or> x = O_STOPPED"

text \<open>\<open>step\<close> of a started orchestrator.\<close>

definition started_step :: "('w, bool) orch_act" where
  "started_step a =
     (if resting (rst_state (orc_state a)) then (Inr False, a)
      else case raw_step a of
        (Inr x, b) \<Rightarrow> (Inr x, b)
      | (Inl e, b) \<Rightarrow>
          (case e of
             BadDecision m \<Rightarrow> halted (fail_with e b)
           | BadTransition m \<Rightarrow> halted (fail_with e b)
           | _ \<Rightarrow> (Inl e, b)))"

partial_function (option) step_loop :: "'w orchestrator \<Rightarrow> ((orch_error + unit) \<times> 'w orchestrator) option" where
  "step_loop a =
     (case started_step a of
        (Inl e, b) \<Rightarrow> Some (Inl e, b)
      | (Inr x, b) \<Rightarrow> if x then step_loop b else Some (Inr (), b))"

section \<open>Restoring and starting\<close>

definition interrupted :: "execution_record \<Rightarrow> bool" where
  "interrupted e \<longleftrightarrow> ex_phase e \<in> {X_STARTED, X_PLANNED}"

definition recovered_record :: "execution_record \<Rightarrow> execution_record" where
  "recovered_record e =
     (if interrupted e then e\<lparr>ex_phase := X_UNKNOWN, ex_status := ''unknown'', ex_failure := FC_UNKNOWN_OUTCOME,
        ex_retryable := True, ex_executed := False\<rparr> else e)"

definition charge_one :: "string \<times> int \<Rightarrow> ledger \<Rightarrow> ledger" where
  "charge_one kv l =
     (let n = amount (bl_consumed l) (fst kv) + snd kv in
      l\<lparr>bl_consumed := dict_set (fst kv) n (bl_consumed l),
        bl_overrun := (bl_overrun l \<or> amount (bl_limits l) (fst kv) < n)\<rparr>)"

definition charge_interrupted :: "execution_record list \<Rightarrow> ledger \<Rightarrow> ledger" where
  "charge_interrupted es l = fold (\<lambda>e l. fold charge_one (ex_consumed e) l) (filter interrupted es) l"

definition record_recovery :: "execution_record \<Rightarrow> 'w orchestrator \<Rightarrow> 'w orchestrator" where
  "record_recovery e a =
     (let b = on_state (\<lambda>t. t\<lparr>rst_number := rst_number t + 1\<rparr>) a in
      record_decision
        \<lparr>pt_hash = hash_now (orc_state b), pt_budget = ledger_left (rst_budget (orc_state a)), pt_plan = bare_plan [],
         pt_needs = [], pt_record = e, pt_delta = no_delta, pt_result = None, pt_request = orc_request a, pt_next = [],
         pt_previous = orch_state_value (rst_state (orc_state a)), pt_stop = [], pt_source = DS_RECOVERY\<rparr> a)"

fun resume_walk :: "orch_state \<Rightarrow> orch_state list" where
  "resume_walk O_EXECUTING = [O_OBSERVING, O_CORRELATING, O_CONTINUE]"
| "resume_walk O_OBSERVING = [O_CORRELATING, O_CONTINUE]"
| "resume_walk O_CORRELATING = [O_CONTINUE]"
| "resume_walk O_READY = [O_PLANNING]"
| "resume_walk O_BASELINE = [O_PLANNING]"
| "resume_walk x = []"

fun move_along :: "orch_state list \<Rightarrow> ('w, unit) orch_act" where
  "move_along [] a = (Inr (), a)"
| "move_along (x # xs) a = orc_then (move_to x False a) (\<lambda>u b. move_along xs b)"

definition normalize_state :: "('w, unit) orch_act" where
  "normalize_state a =
     orc_then (move_along (resume_walk (rst_state (orc_state a))) a) (\<lambda>u b.
       if rst_state (orc_state b) = O_STOPPING then
         move_to (case stop_reason_of (rst_stop (orc_state b)) of None \<Rightarrow> O_INCONCLUSIVE | Some r \<Rightarrow> stop_state r) False b
       else (Inr (), b))"

definition supersede_unavailable :: "'w orchestrator \<Rightarrow> research_state \<Rightarrow> research_state" where
  "supersede_unavailable a t =
     (let up = map eng_id (filter (\<lambda>e. eng_available e (orc_world a)) (sch_engines (orc_scheduler a))) in
      t\<lparr>rst_executions := map (\<lambda>e. if ex_phase e = X_UNAVAILABLE \<and> ex_engine e \<in> set up
          then e\<lparr>ex_phase := X_SUPERSEDED\<rparr> else e) (rst_executions t)\<rparr>)"

definition maybe_resume :: "bool \<Rightarrow> ('w, unit) orch_act" where
  "maybe_resume explicit a =
     (case stop_reason_of (rst_stop (orc_state a)) of
        None \<Rightarrow> (Inr (), a)
      | Some r \<Rightarrow>
          if \<not> explicit \<or> r \<notin> set resumable_stops then (Inr (), a)
          else orc_then (move_to O_PLANNING True (on_state (supersede_unavailable a) a)) (\<lambda>u b.
            (Inr (), on_state (\<lambda>t. t\<lparr>rst_stop := []\<rparr>) b)))"

definition restored_state :: "research_state \<Rightarrow> ledger \<Rightarrow> research_state" where
  "restored_state saved l =
     saved\<lparr>rst_executions := map recovered_record (rst_executions saved), rst_budget := l, rst_resume := RS_RESTORED,
       rst_resumes := rst_resumes saved + 1, rst_next_engine := [], rst_feedback := []\<rparr>"

definition restore_campaign :: "research_state \<Rightarrow> bool \<Rightarrow> ('w, unit) orch_act" where
  "restore_campaign saved explicit a =
     (if cid_campaign (rst_identity saved) \<noteq> cid_campaign (orc_identity a) \<or>
         target_digest (rst_identity saved) \<noteq> target_digest (orc_identity a)
      then (Inl (ResumeFailed RS_STALE_IDENTITY ''target, snapshot, or compiler changed''), a)
      else
        let l = charge_interrupted (rst_executions saved) (merge_restored (rst_budget saved) (fresh_ledger a));
            b = on_state (\<lambda>t. restored_state saved l) a;
            c = fold record_recovery (map recovered_record (filter interrupted (rst_executions saved))) b in
        orc_then (normalize_state c) (\<lambda>u d.
        orc_then (if rst_state (orc_state d) = O_STOPPED then maybe_resume explicit d else (Inr (), d)) (\<lambda>u e.
          (Inr (), on_state (\<lambda>t. t\<lparr>rst_recommend := recommend_review t\<rparr>) e))))"

definition start_orchestrator :: "bool \<Rightarrow> ('w, unit) orch_act" where
  "start_orchestrator explicit a =
     (let (saved, b) = (case orc_store a of
          None \<Rightarrow> (Inr None, a)
        | Some st \<Rightarrow> (case str_load st (cid_campaign (orc_identity a)) (orc_world a) of (x, w) \<Rightarrow> (x, a\<lparr>orc_world := w\<rparr>))) in
      case saved of
        Inl e \<Rightarrow> (Inl e, b)
      | Inr None \<Rightarrow>
          orc_then (save_state (on_state (\<lambda>t. new_state (orc_identity b) (fresh_ledger b)) b)) (\<lambda>u c.
            (Inr (), c\<lparr>orc_started := True\<rparr>))
      | Inr (Some t) \<Rightarrow>
          orc_then (restore_campaign t explicit b) (\<lambda>u c.
          orc_then (save_state c) (\<lambda>u d. (Inr (), d\<lparr>orc_started := True\<rparr>))))"

definition ensure_started :: "('w, unit) orch_act" where
  "ensure_started a = (if orc_started a then (Inr (), a) else start_orchestrator False a)"

definition orc_step :: "('w, bool) orch_act" where
  "orc_step a = orc_then (ensure_started a) (\<lambda>u b. started_step b)"

definition run_campaign :: "'w orchestrator \<Rightarrow> ((orch_error + unit) \<times> 'w orchestrator) option" where
  "run_campaign a =
     (case ensure_started a of (Inl e, b) \<Rightarrow> Some (Inl e, b) | (Inr u, b) \<Rightarrow> step_loop b)"

section \<open>The operator\<close>

definition retry_allowed :: "execution_record \<Rightarrow> bool" where
  "retry_allowed e \<longleftrightarrow> ex_phase e \<in> set retryable_phases \<and> ex_retryable e \<and> ex_failure e \<in> set retryable_failures"

definition superseded_like :: "research_state \<Rightarrow> execution_record \<Rightarrow> nat" where
  "superseded_like t e =
     length (filter (\<lambda>x. ex_phase x = X_SUPERSEDED \<and> ex_engine x = ex_engine e \<and> ex_capability x = ex_capability e \<and>
       ex_input x = ex_input e) (rst_executions t))"

definition resumable_text :: "string \<Rightarrow> bool" where
  "resumable_text s \<longleftrightarrow> s \<in> set (map stop_reason_value resumable_stops)"

definition grant_retry :: "string \<Rightarrow> ('w, bool) orch_act" where
  "grant_retry key a =
     (let t = orc_state a in
      if rst_state t \<in> set orch_terminal then (Inr False, a)
      else case List.find (\<lambda>e. ex_key e = key) (rst_executions t) of
        None \<Rightarrow> (Inr False, a)
      | Some e \<Rightarrow>
          if \<not> retry_allowed e \<or> 2 \<le> superseded_like t e then (Inr False, a)
          else
            let b = on_state (\<lambda>t. t\<lparr>rst_executions := map (\<lambda>x. if ex_key x = key
                  then x\<lparr>ex_phase := X_SUPERSEDED, ex_retryable := False\<rparr> else x) (rst_executions t)\<rparr>) a in
            orc_then (if rst_state t = O_STOPPED \<and> resumable_text (rst_stop t)
                then orc_then (move_to O_PLANNING True b) (\<lambda>u c. (Inr (), on_state (\<lambda>t. t\<lparr>rst_stop := []\<rparr>) c))
                else (Inr (), b)) (\<lambda>u c.
            orc_then (save_state c) (\<lambda>u d. (Inr True, d))))"

text \<open>What \<open>halt\<close> does before it stops: \<open>False\<close> when the campaign is left as it is.\<close>

definition halt_entry :: "stop_reason \<Rightarrow> ('w, bool) orch_act" where
  "halt_entry r a =
     (let t = orc_state a in
      if rst_state t \<in> set orch_terminal then (Inr False, a)
      else if rst_state t = O_STOPPED then
        (if rst_stop t = stop_reason_value SR_OPERATOR_STOPPED \<or> rst_stop t = stop_reason_value r \<or> \<not> resumable_text (rst_stop t)
         then (Inr False, a)
         else orc_then (move_to O_PLANNING True a) (\<lambda>u b. (Inr True, on_state (\<lambda>t. t\<lparr>rst_stop := []\<rparr>) b)))
      else if rst_state t = O_CREATED then
        orc_then (move_to O_BASELINE False a) (\<lambda>u b. orc_then (move_to O_PLANNING False b) (\<lambda>u c. (Inr True, c)))
      else if rst_state t \<notin> {O_PLANNING, O_CONTINUE, O_BLOCKED} then
        (Inl (BadTransition (''cannot halt from '' @ orch_state_value (rst_state t))), a)
      else (Inr True, a))"

definition halt_campaign :: "stop_reason \<Rightarrow> string \<Rightarrow> ('w, bool) orch_act" where
  "halt_campaign r detail a =
     (if r \<notin> set operator_stops then (Inl (BadDecision (''not an operator stop: '' @ stop_reason_value r)), a)
      else orc_then (ensure_started a) (\<lambda>u b.
        orc_then (halt_entry r b) (\<lambda>go c.
          if \<not> go then (Inr False, c)
          else let d = c\<lparr>orc_suggestions := []\<rparr> in
            orc_then (stop_with r (assess_now d) None (or_text (py_take 400 detail) (stop_reason_value r @ '' by operator'')) d)
              (\<lambda>u e. (Inr True, e)))))"

section \<open>The report\<close>

definition quality_counts :: "research_state \<Rightarrow> costs" where
  "quality_counts t = fold (\<lambda>i d. count_up (evidence_quality_value (it_quality i)) d) (rst_evidence t) []"

definition build_report :: "research_state \<Rightarrow> json" where
  "build_report t =
     JObj [(''campaign_id'', JStr (cid_campaign (rst_identity t))), (''state'', JStr (orch_state_value (rst_state t))),
       (''stop_reason'', JStr (rst_stop t)), (''rounds'', JInt (rst_round t)), (''decisions'', JInt (rst_number t)),
       (''executed_engines'', texts_json (successful_engines t)), (''failed_engines'', texts_json (failed_engines t)),
       (''unavailable_engines'', texts_json (unavailable_engines t)), (''skipped_engines'', texts_json (skipped_engines t)),
       (''exercised_capabilities'', texts_json (exercised_capabilities t)),
       (''evidence_by_quality'', int_dict_json (sort_pairs (quality_counts t))),
       (''candidate_evidence'', JInt (int (length (filter (\<lambda>i. it_quality i \<in> {Q_CANDIDATE, Q_CORROBORATED}) (rst_evidence t))))),
       (''corroborated_evidence'', JInt (amount (quality_counts t) ''corroborated'')),
       (''contradictions'', JList (map (\<lambda>c. JObj [(''id'', JStr (ct_id c)), (''kind'', JStr (ct_kind c)),
          (''identity'', JStr (ct_key c)), (''status'', JStr (ct_status c)),
          (''discriminators'', texts_json (ct_discriminators c))]) (rst_contradictions t))),
       (''negative_evidence'', JList (map (\<lambda>n. JObj [(''capability'', JStr (ng_capability n)), (''engine'', JStr (ng_engine n)),
          (''statement'', JStr (ng_statement n))]) (rst_negatives t))),
       (''uncertainties'', texts_json (rst_uncertainties t)), (''next_capability'', JStr (rst_next_capability t)),
       (''recommend_verification_review'', JBool (rst_recommend t)),
       (''budget'', JObj [(''limits'', int_dict_json (sort_pairs (bl_limits (rst_budget t)))),
          (''consumed'', int_dict_json (sort_pairs (bl_consumed (rst_budget t)))), (''overrun'', JBool (bl_overrun (rst_budget t)))]),
       (''resume_status'', JStr (resume_status_value (rst_resume t))), (''verified'', JBool False),
       (''llm_invoked'', JBool False)]"

end
