(* ===== verification/OrchChoice.thy ===== *)
theory OrchChoice
  imports OrchPlan
begin

text \<open>
  What the planner of a campaign chooses, and that it chooses the same in whatever order the engines of
  a scheduler are registered: sorting by a total order does not depend on the order of a list, and with
  different names a scheduler finds the same engine under each of them.
\<close>

section \<open>What a plan chooses\<close>

text \<open>C11. A plan selects nothing exactly when no wanted need has an admissible engine; what it selects is admissible and scores best, and the request it hands over is the one that was checked.\<close>

theorem plan_decides:
  assumes "plan_round w s g t q i ns suggestions = Inr p"
  shows "(plan_selected p = None \<longleftrightarrow> choices w s g t q i ns suggestions = {}) \<and>
    (\<forall>c. plan_selected p = Some c \<longrightarrow>
       c \<in> choices w s g t q i ns suggestions \<and>
       (\<forall>d\<in>choices w s g t q i ns suggestions. cand_score d \<le> cand_score c) \<and>
       plan_request p = Some (build_request q (cand_capability c) i (sch_corpus s)))"
  by (rule plan_selection [OF assms])

definition other_engine :: "unit engine" where
  "other_engine = base_engine ''slither'' ''Slither'' [] [C_STATIC_ANALYSIS] (\<lambda>w. True)
     (missing_hook ''slither'' ''analyze_target'') (missing_hook ''slither'' ''start_campaign'')"

definition demo_identity :: campaign_identity where
  "demo_identity = \<lparr>cid_campaign = ''c'', cid_project = [], cid_snapshot = [], cid_compiler = [], cid_root = ''/r'',
     cid_language = ''go'', cid_target = ''t'', cid_contract = [], cid_function = [], cid_source_file = [],
     cid_deployment = [], cid_fork = [], cid_program = []\<rparr>"

definition demo_plan :: "unit engine list \<Rightarrow> plan result" where
  "demo_plan es = plan_round () ((new_scheduler [] 2 2)\<lparr>sch_engines := es\<rparr>) (gate_check standard_gate)
     (new_state demo_identity (new_ledger 60 (new_scheduler es 2 2) None [] None)) demo_request demo_identity
     [suggested_need ''static_analysis'', suggested_need ''test_execution''] []"

theorem plan_decides_witness:
  "\<exists>p. demo_plan [demo_engine] = Inr p \<and>
     (plan_selected p = None \<longleftrightarrow>
        choices () ((new_scheduler [] 2 2)\<lparr>sch_engines := [demo_engine]\<rparr>) (gate_check standard_gate)
          (new_state demo_identity (new_ledger 60 (new_scheduler [demo_engine] 2 2) None [] None)) demo_request demo_identity
          [suggested_need ''static_analysis'', suggested_need ''test_execution''] [] = {})"
proof -
  have "capability_of ''static_analysis'' \<noteq> None" "capability_of ''test_execution'' \<noteq> None"
    by (simp_all add: capability_of_def capability_order_def)
  then obtain p where p: "demo_plan [demo_engine] = Inr p"
    by (fastforce simp: demo_plan_def plan_round_def wanted_needs_def validate_suggestions_def actionable_def
        suggested_need_def actionable_statuses_def Let_def split: prod.splits)
  note none = conjunct1 [OF plan_decides [OF p [unfolded demo_plan_def]]]
  show ?thesis by (rule exI [of _ p], rule conjI, rule p, rule none)
qed

section \<open>The order of registration does not matter\<close>

lemma insert_by_swap:
  assumes "\<And>a b c. le a b \<Longrightarrow> le b c \<Longrightarrow> le a c" and "\<And>a b. le a b \<or> le b a" and "\<not> (le x y \<and> le y x)"
  shows "insert_by le x (insert_by le y zs) = insert_by le y (insert_by le x zs)"
proof (induction zs)
  case Nil
  show ?case using assms(2,3) by auto
next
  case (Cons z zs)
  show ?case
  proof (cases "le x z \<longleftrightarrow> le y z")
    case True
    then show ?thesis using Cons assms(2,3) by auto
  next
    case False
    then show ?thesis
    proof (cases "le x z")
      case True
      with False have "\<not> le y z" "le z y" using assms(2) by auto
      then have "\<not> le y x" "le x y" using True assms(1) by blast+
      with True \<open>\<not> le y z\<close> show ?thesis by simp
    next
      case no: False
      with False have "le y z" "le z x" using assms(2) by auto
      then have "\<not> le x y" "le y x" using no assms(1) by blast+
      with no \<open>le y z\<close> show ?thesis by simp
    qed
  qed
qed

lemma sort_by_permuted:
  assumes "\<And>a b c. le a b \<Longrightarrow> le b c \<Longrightarrow> le a c" and "\<And>a b. le a b \<or> le b a"
    and "\<And>a b. a \<in> set xs \<Longrightarrow> b \<in> set xs \<Longrightarrow> le a b \<Longrightarrow> le b a \<Longrightarrow> a = b" and "mset xs = mset ys"
  shows "sort_by le xs = sort_by le ys"
proof -
  have "insert_by le a \<circ> insert_by le b = insert_by le b \<circ> insert_by le a" if "a \<in> set (rev xs)" "b \<in> set (rev xs)" for a b
  proof (cases "a = b")
    case False
    then have "\<not> (le a b \<and> le b a)" using assms(3) that by auto
    have "insert_by le a (insert_by le b zs) = insert_by le b (insert_by le a zs)" for zs
      by (rule insert_by_swap [where le = le]; (erule (1) assms(1) | rule assms(2) | fact))
    then show ?thesis by (simp add: fun_eq_iff)
  qed simp
  then have "fold (insert_by le) (rev xs) = fold (insert_by le) (rev ys)"
    by (rule fold_multiset_equiv) (simp_all add: assms(4))
  then show ?thesis by (simp add: sort_by_def foldr_conv_fold)
qed

lemma first_occurrences_distinct: "distinct xs \<Longrightarrow> first_occurrences xs = xs"
  by (induction xs) simp_all

lemma find_distinct:
  "distinct (map eng_id es) \<Longrightarrow> List.find (\<lambda>e. eng_id e = i) es = Some e \<longleftrightarrow> e \<in> set es \<and> eng_id e = i"
  by (induction es) auto

lemma find_permuted:
  assumes "distinct (map eng_id es)" and "mset es = mset es'"
  shows "List.find (\<lambda>e. eng_id e = i) es = List.find (\<lambda>e. eng_id e = i) es'"
proof -
  have "distinct (map eng_id es')" using assms by (metis mset_eq_imp_distinct_iff mset_map)
  moreover have "set es = set es'" using assms(2) by (rule mset_eq_setD)
  ultimately have "List.find (\<lambda>e. eng_id e = i) es = Some e \<longleftrightarrow> List.find (\<lambda>e. eng_id e = i) es' = Some e" for e
    using assms(1) by (simp add: find_distinct)
  then show ?thesis by (metis option.exhaust)
qed

lemma engines_by_id_distinct:
  assumes "distinct (map eng_id (sch_engines s))"
  shows "engines_by_id s = sch_engines s"
proof -
  have "distinct (map eng_id (rev (sch_engines s)))" using assms by (simp add: rev_map [symmetric])
  from find_distinct [OF this] have "by_id s (eng_id e) = Some e" if "e \<in> set (sch_engines s)" for e
    using that by (simp add: by_id_def)
  then have "List.map_filter (by_id s) (map eng_id es) = es" if "set es \<subseteq> set (sch_engines s)" for es
    using that by (induction es) (auto simp: List.map_filter_simps)
  then show ?thesis by (simp add: engines_by_id_def first_occurrences_distinct assms)
qed

lemma ranked_permuted:
  assumes "distinct (map eng_id es)" and "mset es = mset es'"
  shows "ranked_engines (s\<lparr>sch_engines := es\<rparr>) l = ranked_engines (s\<lparr>sch_engines := es'\<rparr>) l"
proof -
  have d: "distinct (map eng_id es')" using assms by (metis mset_eq_imp_distinct_iff mset_map)
  have inj: "a = b" if "a \<in> set es" "b \<in> set es" "eng_id a = eng_id b" for a b
    using assms(1) that by (auto simp: distinct_map inj_on_def)
  define le where "le a b \<longleftrightarrow> engine_rank (eng_id a) l < engine_rank (eng_id b) l \<or>
    engine_rank (eng_id a) l = engine_rank (eng_id b) l \<and> text_le (eng_id a) (eng_id b)" for a b :: "'a engine"
  have "sort_by le es = sort_by le es'"
  proof (rule sort_by_permuted)
    show "le a b \<Longrightarrow> le b c \<Longrightarrow> le a c" for a b c using text_le_trans by (auto simp: le_def)
    show "le a b \<or> le b a" for a b using text_le_total [of "eng_id a" "eng_id b"] by (auto simp: le_def)
    show "a \<in> set es \<Longrightarrow> b \<in> set es \<Longrightarrow> le a b \<Longrightarrow> le b a \<Longrightarrow> a = b" for a b
      using inj [of a b] text_le_antisym [of "eng_id a" "eng_id b"] by (auto simp: le_def)
  qed (fact assms(2))
  then show ?thesis
    using engines_by_id_distinct [of "s\<lparr>sch_engines := es\<rparr>"] engines_by_id_distinct [of "s\<lparr>sch_engines := es'\<rparr>"] assms d
    by (simp add: ranked_engines_def le_def [abs_def])
qed

text \<open>C12. With engines of different names the plan is the same in whatever order they were registered.\<close>

theorem plan_ignores_engine_order:
  assumes "distinct (map eng_id es)" and "mset es = mset es'"
  shows "plan_round w (s\<lparr>sch_engines := es\<rparr>) g t q i ns suggestions = plan_round w (s\<lparr>sch_engines := es'\<rparr>) g t q i ns suggestions"
proof -
  let ?s = "s\<lparr>sch_engines := es\<rparr>" and ?s' = "s\<lparr>sch_engines := es'\<rparr>"
  have d: "distinct (map eng_id es')" using assms by (metis mset_eq_imp_distinct_iff mset_map)
  have sets: "set es = set es'" using assms(2) by (rule mset_eq_setD)
  have ids: "set (map eng_id es) = set (map eng_id es')" using sets by simp
  have find: "find_engine ?s = find_engine ?s'"
    using find_permuted [OF assms] by (simp add: find_engine_def fun_eq_iff)
  have "decide_engine w ?s e r = decide_engine w ?s' e r" for e r
  proof -
    have "sch_feedback ?s = sch_feedback ?s'" by simp
    then show ?thesis by (simp only: decide_engine_def)
  qed
  then have dec: "decide_engine w ?s = decide_engine w ?s'" by (intro ext)
  have decide: "decide w ?s = decide w ?s'" by (intro ext) (unfold decide_def find dec, rule refl)
  have pre: "precheck w ?s = precheck w ?s'" by (simp add: precheck_def fun_eq_iff decide)
  have corpus: "sch_corpus ?s = sch_corpus ?s'" and engines: "sch_engines ?s = es" "sch_engines ?s' = es'" by simp_all
  have first: "first_rejection w ?s = first_rejection w ?s'"
    by (intro ext) (unfold first_rejection_def pre, rule refl)
  have eval: "evaluate w ?s = evaluate w ?s'"
    by (intro ext) (unfold evaluate_def first corpus, rule refl)
  have fault: "suggestion_fault (map eng_id es) = suggestion_fault (map eng_id es')"
    by (intro ext) (unfold suggestion_fault_def ids, rule refl)
  have valid: "validate_suggestions x (map eng_id es) = validate_suggestions x (map eng_id es')" for x
    by (simp add: validate_suggestions_def fault)
  have can: "list_ex P (engines_by_id ?s) = list_ex P (engines_by_id ?s')" for P
    using engines_by_id_distinct [of ?s] engines_by_id_distinct [of ?s'] assms d sets by (simp add: list_ex_iff)
  have "es = [] \<longleftrightarrow> es' = []" using sets by auto
  then have empty: "engines_by_id ?s = [] \<longleftrightarrow> engines_by_id ?s' = []"
    using engines_by_id_distinct [of ?s] engines_by_id_distinct [of ?s'] assms d by simp
  have cons: "considered_candidates w ?s = considered_candidates w ?s'"
    by (intro ext) (unfold considered_candidates_def eval ranked_permuted [OF assms], rule refl)
  have want: "wanted_needs ?s = wanted_needs ?s'"
    by (intro ext) (unfold wanted_needs_def engines valid, rule refl)
  show ?thesis unfolding plan_round_def Let_def engines valid can empty cons want corpus by (rule refl)
qed

theorem plan_ignores_engine_order_witness: "demo_plan [demo_engine, other_engine] = demo_plan [other_engine, demo_engine]"
proof -
  have same: "new_ledger 60 (new_scheduler [demo_engine, other_engine] 2 2) None [] None =
      new_ledger 60 (new_scheduler [other_engine, demo_engine] 2 2) None [] None"
    by (simp add: new_ledger_def new_scheduler_def)
  show ?thesis unfolding demo_plan_def same
  proof (rule plan_ignores_engine_order)
    show "distinct (map eng_id [demo_engine, other_engine])"
      by (simp add: demo_engine_def other_engine_def base_engine_def Let_def)
  qed simp
qed

end
