(* ===== verification/OrchRuns.thy ===== *)
theory OrchRuns
  imports Orchestrator OrchChoice
begin

text \<open>
  What a campaign does over its whole life: every engine it calls was admitted, the decisions form a
  numbered and sealed log, no execution is attempted twice under one key, the ledger is exact, and
  \<open>run\<close> returns.
\<close>

section \<open>Moves, saves and the log\<close>

lemma orc_then_iff:
  "orc_then r f = (x, b) \<longleftrightarrow>
     (\<exists>e. r = (Inl e, b) \<and> x = Inl e) \<or> (\<exists>y a. r = (Inr y, a) \<and> f y a = (x, b))"
  by (cases r; cases "fst r") (auto simp: orc_then_def)

lemma orc_then_Inr [simp]: "orc_then (Inr x, a) f = f x a"
  by (simp add: orc_then_def)

lemma orc_then_Inl [simp]: "orc_then (Inl e, a) f = (Inl e, a)"
  by (simp add: orc_then_def)

lemma on_state_simps [simp]:
  "orc_state (on_state f a) = f (orc_state a)" "orc_scheduler (on_state f a) = orc_scheduler a"
  "orc_request (on_state f a) = orc_request a" "orc_identity (on_state f a) = orc_identity a"
  "orc_store (on_state f a) = orc_store a" "orc_gate (on_state f a) = orc_gate a" "orc_world (on_state f a) = orc_world a"
  "orc_suggestions (on_state f a) = orc_suggestions a" "orc_started (on_state f a) = orc_started a"
  by (simp_all add: on_state_def)

lemma move_to_legal:
  "x \<in> set (orch_next (rst_state (orc_state a))) \<Longrightarrow> rst_state (orc_state a) \<noteq> O_STOPPED \<or> explicit \<Longrightarrow>
     move_to x explicit a = (Inr (), on_state (\<lambda>t. t\<lparr>rst_state := x\<rparr>) a)"
  by (auto simp: move_to_def orch_transition_def)

text \<open>An error that the store of an orchestrator raises.\<close>

definition store_raises :: "'w orchestrator \<Rightarrow> orch_error \<Rightarrow> bool" where
  "store_raises a e \<longleftrightarrow> (\<exists>st t w. orc_store a = Some st \<and> fst (str_save st t w) = Some e)"

definition same_frame :: "'w orchestrator \<Rightarrow> 'w orchestrator \<Rightarrow> bool" where
  "same_frame a b \<longleftrightarrow> orc_store b = orc_store a \<and> orc_identity b = orc_identity a \<and> orc_request b = orc_request a \<and>
     orc_gate b = orc_gate a \<and> orc_started b = orc_started a"

lemma same_frame_refl [simp]: "same_frame a a"
  by (simp add: same_frame_def)

lemma same_frame_trans: "same_frame a b \<Longrightarrow> same_frame b c \<Longrightarrow> same_frame a c"
  by (simp add: same_frame_def)

lemma same_frame_on_state [simp]: "same_frame a (on_state f b) \<longleftrightarrow> same_frame a b"
  by (simp add: same_frame_def)

lemma store_raises_frame: "same_frame a b \<Longrightarrow> store_raises b e \<longleftrightarrow> store_raises a e"
  by (simp add: same_frame_def store_raises_def)

lemma save_state_effect:
  assumes "save_state a = (r, b)"
  shows "\<exists>h. orc_state b = (orc_state a)\<lparr>rst_hash := h\<rparr>"
    and "orc_scheduler b = orc_scheduler a" and "same_frame a b" and "orc_suggestions b = orc_suggestions a"
    and "r = Inr () \<or> (\<exists>e. r = Inl e \<and> store_raises a e)"
proof -
  have hash: "\<exists>h. t = t\<lparr>rst_hash := h\<rparr>" for t :: research_state by (rule exI [of _ "rst_hash t"]) simp
  show "\<exists>h. orc_state b = (orc_state a)\<lparr>rst_hash := h\<rparr>"
  proof (cases "orc_store a")
    case None then show ?thesis using assms hash by (simp add: save_state_def)
  next
    case (Some st)
    then show ?thesis using assms by (auto simp: save_state_def seal_def Let_def split: option.splits prod.splits)
  qed
  show "orc_scheduler b = orc_scheduler a" "same_frame a b" "orc_suggestions b = orc_suggestions a"
    using assms by (auto simp: save_state_def same_frame_def Let_def split: option.splits prod.splits)
  show "r = Inr () \<or> (\<exists>e. r = Inl e \<and> store_raises a e)"
  proof (cases "orc_store a")
    case None then show ?thesis using assms by (simp add: save_state_def)
  next
    case (Some st)
    obtain x w where s: "str_save st (orc_state (on_state seal a)) (orc_world (on_state seal a)) = (x, w)" by force
    have "store_raises a e" if "x = Some e" for e
      unfolding store_raises_def using Some s that by (metis fst_conv)
    then show ?thesis using assms Some s by (cases x) (auto simp: save_state_def Let_def)
  qed
qed

text \<open>A state and the next decision.\<close>

definition logged :: "research_state \<Rightarrow> research_state \<Rightarrow> bool" where
  "logged t t' \<longleftrightarrow>
     (\<exists>d. rst_decisions t' = rst_decisions t @ [d] \<and> dcr_sequence d = rst_number t + 1 \<and> sealed d = d) \<and>
     rst_number t' = rst_number t + 1"

definition same_work :: "research_state \<Rightarrow> research_state \<Rightarrow> bool" where
  "same_work t t' \<longleftrightarrow> rst_executions t' = rst_executions t \<and> rst_budget t' = rst_budget t \<and> rst_evidence t' = rst_evidence t \<and>
     rst_identity t' = rst_identity t"

lemma make_decision_ok: "dcr_sequence (make_decision a n p) = n" "sealed (make_decision a n p) = make_decision a n p"
  by (simp_all add: make_decision_def Let_def sealed_again) (simp add: sealed_def)

lemma record_decision_effect:
  "logged (orc_state a) (orc_state (record_decision p a))" "same_work (orc_state a) (orc_state (record_decision p a))"
  "rst_state (orc_state (record_decision p a)) = rst_state (orc_state a)" "same_frame a (record_decision p a)"
  "orc_scheduler (record_decision p a) = orc_scheduler a" "orc_suggestions (record_decision p a) = orc_suggestions a"
  by (simp_all add: record_decision_def Let_def logged_def same_work_def make_decision_ok)

lemma logged_cong:
  "rst_decisions t1 = rst_decisions t \<Longrightarrow> rst_number t1 = rst_number t \<Longrightarrow>
   rst_decisions t2 = rst_decisions t' \<Longrightarrow> rst_number t2 = rst_number t' \<Longrightarrow> logged t1 t2 \<longleftrightarrow> logged t t'"
  by (simp add: logged_def)

section \<open>Stopping\<close>

definition can_stop :: "orch_state \<Rightarrow> bool" where
  "can_stop x \<longleftrightarrow> O_STOPPING \<in> set (orch_next x)"

text \<open>A stop from a state that allows it adds its decision and ends in the state of its reason.\<close>

lemma stop_with_effect:
  assumes "stop_with r ns chosen detail a = (res, b)" and "can_stop (rst_state (orc_state a))"
  shows "rst_state (orc_state b) = stop_state r \<and> logged (orc_state a) (orc_state b) \<and> same_work (orc_state a) (orc_state b) \<and>
    same_frame a b \<and> orc_scheduler b = orc_scheduler a \<and>
    (res = Inr () \<or> (\<exists>e. res = Inl e \<and> store_raises a e))"
proof -
  let ?x = "rst_state (orc_state a)"
  obtain a1 where a1: "(if ?x = O_PLANNING \<and> r \<in> set resumable_stops then move_to O_BLOCKED False a else (Inr (), a)) = (Inr (), a1)"
      and w1: "\<exists>x. orc_state a1 = (orc_state a)\<lparr>rst_state := x\<rparr> \<and> can_stop x \<and> x \<noteq> O_STOPPED"
      and f1: "same_frame a a1" "orc_scheduler a1 = orc_scheduler a"
  proof (cases "?x = O_PLANNING \<and> r \<in> set resumable_stops")
    case True
    then have "move_to O_BLOCKED False a = (Inr (), on_state (\<lambda>t. t\<lparr>rst_state := O_BLOCKED\<rparr>) a)"
      by (intro move_to_legal) simp_all
    with True show thesis
      by (intro that [of "on_state (\<lambda>t. t\<lparr>rst_state := O_BLOCKED\<rparr>) a"]) (auto simp: can_stop_def)
  next
    case False
    have self: "orc_state a = (orc_state a)\<lparr>rst_state := ?x\<rparr>" by simp
    have "?x \<noteq> O_STOPPED" using assms(2) by (auto simp: can_stop_def)
    with False self assms(2) show thesis by (intro that) (auto intro!: exI [of _ ?x])
  qed
  from w1 have a2: "move_to O_STOPPING False a1 = (Inr (), on_state (\<lambda>t. t\<lparr>rst_state := O_STOPPING\<rparr>) a1)"
    by (intro move_to_legal) (auto simp: can_stop_def)
  let ?a3 = "on_state (\<lambda>t. t\<lparr>rst_stop := stop_reason_value r,
        rst_rationale := py_take 400 (or_text detail (case chosen of None \<Rightarrow> [] | Some p \<Rightarrow> plan_rationale p)),
        rst_next_capability := first_need ns\<rparr>) (on_state (\<lambda>t. t\<lparr>rst_state := O_STOPPING\<rparr>) a1)"
  obtain p where res: "(res, b) = orc_then (move_to (stop_state r) False
      (on_state (\<lambda>t. t\<lparr>rst_recommend := recommend_review t\<rparr>) (record_decision p ?a3))) (\<lambda>u a6. save_state a6)"
    by (rule that) (rule assms(1) [unfolded stop_with_def Let_def a1 a2 orc_then_Inr, symmetric])
  let ?a5 = "on_state (\<lambda>t. t\<lparr>rst_recommend := recommend_review t\<rparr>) (record_decision p ?a3)"
  have a6: "move_to (stop_state r) False ?a5 = (Inr (), on_state (\<lambda>t. t\<lparr>rst_state := stop_state r\<rparr>) ?a5)"
    using every_stop_is_reachable [of r] by (intro move_to_legal) (simp_all add: record_decision_effect)
  have save: "save_state (on_state (\<lambda>t. t\<lparr>rst_state := stop_state r\<rparr>) ?a5) = (res, b)" using res by (simp add: a6)
  note eff = save_state_effect [OF save]
  obtain h where h: "orc_state b = (orc_state ?a5)\<lparr>rst_state := stop_state r, rst_hash := h\<rparr>" using eff(1) by auto
  have three: "rst_decisions (orc_state ?a3) = rst_decisions (orc_state a)" "rst_number (orc_state ?a3) = rst_number (orc_state a)"
      "same_work (orc_state a) (orc_state ?a3)"
    using w1 by (auto simp: same_work_def)
  have "logged (orc_state a) (orc_state b)"
    using record_decision_effect(1) [where a = ?a3 and p = p] three h by (simp add: logged_def)
  moreover have "same_work (orc_state a) (orc_state b)"
    using record_decision_effect(2) [where a = ?a3 and p = p] three h by (simp add: same_work_def)
  moreover have "same_frame a b" "orc_scheduler b = orc_scheduler a"
    using eff(2,3) f1 record_decision_effect(4) [where a = ?a3 and p = p] record_decision_effect(5) [where a = ?a3 and p = p]
    by (auto simp: same_frame_def)
  moreover have "store_raises ?a5 e = store_raises a e" for e
    using f1 record_decision_effect(4) [where a = ?a3 and p = p] by (intro store_raises_frame) (auto simp: same_frame_def)
  ultimately show ?thesis using eff(5) h by (auto simp: store_raises_def)
qed

section \<open>The log\<close>

definition log_extends :: "research_state \<Rightarrow> research_state \<Rightarrow> bool" where
  "log_extends t t' \<longleftrightarrow>
     (\<exists>ds. rst_decisions t' = rst_decisions t @ ds \<and> rst_number t' = rst_number t + int (length ds) \<and>
        (\<forall>k<length ds. dcr_sequence (ds ! k) = rst_number t + 1 + int k \<and> sealed (ds ! k) = ds ! k))"

lemma log_extends_same: "rst_decisions t' = rst_decisions t \<Longrightarrow> rst_number t' = rst_number t \<Longrightarrow> log_extends t t'"
  by (simp add: log_extends_def)

lemma logged_extends: "logged t t' \<Longrightarrow> log_extends t t'"
  unfolding logged_def log_extends_def by (elim conjE exE, rule_tac x = "[d]" in exI) simp

lemma log_extends_trans:
  assumes "log_extends t u" and "log_extends u v"
  shows "log_extends t v"
proof -
  obtain ds where ds: "rst_decisions u = rst_decisions t @ ds" "rst_number u = rst_number t + int (length ds)"
      "\<forall>k<length ds. dcr_sequence (ds ! k) = rst_number t + 1 + int k \<and> sealed (ds ! k) = ds ! k"
    using assms(1) by (auto simp: log_extends_def)
  obtain es where es: "rst_decisions v = rst_decisions u @ es" "rst_number v = rst_number u + int (length es)"
      "\<forall>k<length es. dcr_sequence (es ! k) = rst_number u + 1 + int k \<and> sealed (es ! k) = es ! k"
    using assms(2) by (auto simp: log_extends_def)
  have "dcr_sequence ((ds @ es) ! k) = rst_number t + 1 + int k \<and> sealed ((ds @ es) ! k) = (ds @ es) ! k"
    if "k < length (ds @ es)" for k
  proof (cases "k < length ds")
    case True then show ?thesis using ds(3) by (simp add: nth_append)
  next
    case False
    then have "k - length ds < length es" "int (k - length ds) = int k - int (length ds)" using that by auto
    with False es(3) ds(2) show ?thesis by (simp add: nth_append)
  qed
  with ds(1,2) es(1,2) show ?thesis unfolding log_extends_def by (intro exI [of _ "ds @ es"]) simp
qed

section \<open>A round\<close>

text \<open>How a call may end: well, with an error of the store, or with one that is no orchestration error.\<close>

definition raised_outside :: "'w orchestrator \<Rightarrow> orch_error \<Rightarrow> bool" where
  "raised_outside a e \<longleftrightarrow> store_raises a e \<or> (\<exists>x. e = OtherError x)"

lemma folded_effect:
  "rst_executions (orc_state (folded c result e items own a)) =
     filter (\<lambda>x. \<not> (ex_key x = cand_key c \<and> ex_phase x = X_STARTED)) (rst_executions (orc_state a)) @ [e]"
  "rst_budget (orc_state (folded c result e items own a)) = settle (cand_cost c) (ex_consumed e) (rst_budget (orc_state a))"
  "rst_state (orc_state (folded c result e items own a)) = rst_state (orc_state a)"
  "rst_decisions (orc_state (folded c result e items own a)) = rst_decisions (orc_state a)"
  "rst_number (orc_state (folded c result e items own a)) = rst_number (orc_state a)"
  "same_frame a (folded c result e items own a)" "orc_scheduler (folded c result e items own a) = orc_scheduler a"
  by (simp_all add: folded_def Let_def)

lemma finish_round_effect:
  assumes run: "finish_round c q p ns before result e items own a = (res, b)" and obs: "rst_state (orc_state a) = O_OBSERVING"
  shows "rst_executions (orc_state b) =
      filter (\<lambda>x. \<not> (ex_key x = cand_key c \<and> ex_phase x = X_STARTED)) (rst_executions (orc_state a)) @ [e] \<and>
    rst_budget (orc_state b) = settle (cand_cost c) (ex_consumed e) (rst_budget (orc_state a)) \<and>
    log_extends (orc_state a) (orc_state b) \<and> same_frame a b \<and> orc_scheduler b = orc_scheduler a \<and>
    (res = Inr True \<and> rst_state (orc_state b) = O_CONTINUE \<or> res = Inr False \<and> rst_state (orc_state b) = O_COMPLETED \<or>
     (\<exists>x. res = Inl x \<and> store_raises a x) \<and> rst_state (orc_state b) \<in> {O_CONTINUE, O_COMPLETED})"
proof -
  let ?f = "folded c result e items own a"
  have m: "move_to O_CORRELATING False ?f = (Inr (), on_state (\<lambda>t. t\<lparr>rst_state := O_CORRELATING\<rparr>) ?f)"
    by (intro move_to_legal) (simp_all add: folded_effect obs)
  let ?g = "\<lambda>t. t\<lparr>rst_recommend := recommend_review t\<rparr>"
  let ?b4 = "\<lambda>parts nn. on_state (\<lambda>t. t\<lparr>rst_next_capability := nn\<rparr>)
        (record_decision parts (on_state ?g (on_state (\<lambda>t. t\<lparr>rst_state := O_CORRELATING\<rparr>) ?f)))"
  obtain parts nn where run': "(if redundant_rounds (orc_state (?b4 parts nn)) then
        orc_then (stop_with SR_REDUNDANT_EVIDENCE (assess_now ?f) None ''two repeats added nothing'' (?b4 parts nn)) (\<lambda>u b5. (Inr False, b5))
      else orc_then (move_to O_CONTINUE False (?b4 parts nn)) (\<lambda>u b5. orc_then (save_state b5) (\<lambda>u b6. (Inr True, b6)))) = (res, b)"
    by (rule that) (rule run [unfolded finish_round_def Let_def m orc_then_Inr])
  define b4 where "b4 = ?b4 parts nn"
  define r where "r = on_state ?g (on_state (\<lambda>t. t\<lparr>rst_state := O_CORRELATING\<rparr>) ?f)"
  define d where "d = record_decision parts r"
  have b4_r: "b4 = on_state (\<lambda>t. t\<lparr>rst_next_capability := nn\<rparr>) d" by (simp only: b4_def r_def d_def)
  have r: "same_work (orc_state ?f) (orc_state r)" "rst_state (orc_state r) = O_CORRELATING"
      "rst_decisions (orc_state r) = rst_decisions (orc_state a)" "rst_number (orc_state r) = rst_number (orc_state a)"
      "same_frame a r" "orc_scheduler r = orc_scheduler a"
    by (simp_all add: r_def same_work_def folded_effect)
  note rec = record_decision_effect [where a = r and p = parts, folded d_def]
  have b4: "rst_executions (orc_state b4) = rst_executions (orc_state ?f)" "rst_budget (orc_state b4) = rst_budget (orc_state ?f)"
      "rst_state (orc_state b4) = O_CORRELATING" "orc_scheduler b4 = orc_scheduler a"
    using rec r by (simp_all add: b4_r same_work_def)
  have "logged (orc_state a) (orc_state b4)" using rec(1) r by (simp add: b4_r logged_def)
  then have log4: "log_extends (orc_state a) (orc_state b4)" by (rule logged_extends)
  have frame4: "same_frame a b4" using rec(4) r(5) by (simp add: b4_r same_frame_def)
  have raises: "store_raises b4 x = store_raises a x" for x using store_raises_frame [OF frame4] .
  show ?thesis
  proof (cases "redundant_rounds (orc_state b4)")
    case True
    then obtain u b5 where stop: "stop_with SR_REDUNDANT_EVIDENCE (assess_now ?f) None ''two repeats added nothing'' b4 = (u, b5)"
        and res: "(res, b) = orc_then (u, b5) (\<lambda>u b5. (Inr False, b5))"
      using run' by (cases "stop_with SR_REDUNDANT_EVIDENCE (assess_now ?f) None ''two repeats added nothing'' b4")
        (simp add: b4_def [symmetric])
    have b: "b = b5" using res by (cases u) simp_all
    have "can_stop (rst_state (orc_state b4))" by (simp add: b4 can_stop_def)
    note eff = stop_with_effect [OF stop this]
    have "log_extends (orc_state a) (orc_state b)"
      using eff log_extends_trans [OF log4 logged_extends] by (simp add: b)
    moreover have "same_frame a b" using eff same_frame_trans [OF frame4] by (simp add: b)
    moreover have "res = Inr False \<or> (\<exists>x. res = Inl x \<and> store_raises a x)"
      using eff res raises by (cases u) auto
    ultimately show ?thesis using eff b4 folded_effect(1,2) [of c result e items own a] by (auto simp: b same_work_def)
  next
    case False
    have m: "move_to O_CONTINUE False b4 = (Inr (), on_state (\<lambda>t. t\<lparr>rst_state := O_CONTINUE\<rparr>) b4)"
      by (intro move_to_legal) (simp_all add: b4)
    let ?b5 = "on_state (\<lambda>t. t\<lparr>rst_state := O_CONTINUE\<rparr>) b4"
    obtain u b6 where save: "save_state ?b5 = (u, b6)" by (cases "save_state ?b5")
    have res: "(res, b) = orc_then (u, b6) (\<lambda>u b6. (Inr True, b6))"
      using run' False by (simp add: b4_def [symmetric] m save)
    then have b: "b = b6" by (cases u) simp_all
    note eff = save_state_effect [OF save]
    obtain h where h: "orc_state b6 = (orc_state b4)\<lparr>rst_state := O_CONTINUE, rst_hash := h\<rparr>" using eff(1) by auto
    have "log_extends (orc_state a) (orc_state b)" using log4 by (simp add: log_extends_def b h)
    moreover have "same_frame a b" using eff(3) frame4 by (simp add: b same_frame_def)
    moreover have "store_raises ?b5 x = store_raises a x" for x using raises by (simp add: store_raises_def)
    then have "res = Inr True \<or> (\<exists>x. res = Inl x \<and> store_raises a x)"
      using eff(5) res by (cases u) auto
    moreover have "orc_scheduler b = orc_scheduler a" using eff(2) b4 by (simp add: b)
    ultimately show ?thesis using b4 folded_effect(1,2) [of c result e items own a] by (auto simp: b h)
  qed
qed

lemma call_scheduler_effect:
  "call_scheduler c q a = (r, b) \<Longrightarrow> orc_state b = orc_state a \<and> same_frame a b \<and>
     (\<exists>now w. orc_scheduler b = fst (snd (run_engine now (cand_engine c) q (orc_scheduler a, w))))"
  by (auto simp: call_scheduler_def same_frame_def split: prod.splits) (metis fst_conv snd_conv)

lemma observe_shape:
  assumes "observe a c q result ident = Inr (e, items, own)"
  shows "ex_key e = cand_key c"
    and "ex_consumed e = cand_cost c \<or> (\<exists>x runs. ex_consumed e = actual_cost (cand_capability c) x runs)"
proof -
  have "ex_key e = cand_key c \<and>
    (ex_consumed e = cand_cost c \<or> (\<exists>x runs. ex_consumed e = actual_cost (cand_capability c) x runs))"
  proof (cases result)
    case None
    then show ?thesis using assms by (auto simp: observe_def Let_def start_record_def)
  next
    case (Some r)
    then have "ex_key e = cand_key c \<and>
        ex_consumed e = actual_cost (cand_capability c) (res_executed r) (reported_runs (cand_capability c) r)"
      using assms by (auto simp: observe_def Let_def start_record_def split: prod.splits sum.splits)
    then show ?thesis by blast
  qed
  then show "ex_key e = cand_key c"
    and "ex_consumed e = cand_cost c \<or> (\<exists>x runs. ex_consumed e = actual_cost (cand_capability c) x runs)" by auto
qed

text \<open>How a round that got its reservation ends.\<close>

text \<open>The scheduler is called at most once, for the engine of the candidate.\<close>

definition called_only :: "candidate \<Rightarrow> 'w scheduler \<Rightarrow> 'w scheduler \<Rightarrow> bool" where
  "called_only c s s' \<longleftrightarrow> s' = s \<or> (\<exists>now q w. s' = fst (snd (run_engine now (cand_engine c) q (s, w))))"

definition round_ended :: "'w orchestrator \<Rightarrow> candidate \<Rightarrow> ledger \<Rightarrow> orch_error + bool \<Rightarrow> 'w orchestrator \<Rightarrow> bool" where
  "round_ended a c l res b \<longleftrightarrow>
     same_frame a b \<and> log_extends (orc_state a) (orc_state b) \<and> called_only c (orc_scheduler a) (orc_scheduler b) \<and>
     (\<exists>e. rst_executions (orc_state b) = rst_executions (orc_state a) @ [e] \<and> ex_key e = cand_key c \<and>
        (rst_budget (orc_state b) = l \<and> (\<exists>x. res = Inl x \<and> raised_outside a x) \<or>
         rst_budget (orc_state b) = settle (cand_cost c) (ex_consumed e) l \<and> proper (ex_consumed e) \<and>
         amount (ex_consumed e) ''attempts'' = 1 \<and>
         (res = Inr True \<and> rst_state (orc_state b) = O_CONTINUE \<or> res = Inr False \<and> rst_state (orc_state b) = O_COMPLETED \<or>
          (\<exists>x. res = Inl x \<and> raised_outside a x))))"

lemma began_effect:
  "rst_executions (orc_state (began c ident a)) = rst_executions (orc_state a) @
     [start_record (on_state (\<lambda>t. t\<lparr>rst_round := rst_round t + 1\<rparr>) a) c ident]"
  "rst_budget (orc_state (began c ident a)) = rst_budget (orc_state a)"
  "rst_state (orc_state (began c ident a)) = rst_state (orc_state a)"
  "rst_decisions (orc_state (began c ident a)) = rst_decisions (orc_state a)"
  "rst_number (orc_state (began c ident a)) = rst_number (orc_state a)" "same_frame a (began c ident a)"
  by (simp_all add: began_def Let_def)

lemma run_round_effect:
  assumes run: "run_round c q p ns a = (res, b)" and plan: "rst_state (orc_state a) = O_PLANNING"
    and ok: "reserve (cand_cost c) (rst_budget (orc_state a)) = Inr l"
    and cost: "\<exists>x runs. cand_cost c = estimate_cost x runs"
    and fresh: "\<And>e. e \<in> set (rst_executions (orc_state a)) \<Longrightarrow> ex_key e = cand_key c \<Longrightarrow> ex_phase e \<noteq> X_STARTED"
  shows "round_ended a c l res b"
proof -
  let ?id = "decision_id a (rst_number (orc_state a) + 1)"
  let ?a1 = "on_state (\<lambda>t. t\<lparr>rst_state := O_READY\<rparr>) a"
  have m1: "move_to O_READY False a = (Inr (), ?a1)" by (intro move_to_legal) (simp_all add: plan)
  have ok1: "reserve (cand_cost c) (rst_budget (orc_state ?a1)) = Inr l" using ok by simp
  let ?a2 = "on_state (\<lambda>t. t\<lparr>rst_state := O_EXECUTING\<rparr>) (on_state (\<lambda>t. t\<lparr>rst_budget := l\<rparr>) ?a1)"
  have m2: "move_to O_EXECUTING False (on_state (\<lambda>t. t\<lparr>rst_budget := l\<rparr>) ?a1) = (Inr (), ?a2)" by (intro move_to_legal) simp_all
  obtain u a3 where save: "save_state (began c ?id ?a2) = (u, a3)" by (cases "save_state (began c ?id ?a2)")
  note eff = save_state_effect [OF save]
  obtain h where h: "orc_state a3 = (orc_state (began c ?id ?a2))\<lparr>rst_hash := h\<rparr>" using eff(1) by auto
  define e0 where "e0 = start_record (on_state (\<lambda>t. t\<lparr>rst_round := rst_round t + 1\<rparr>) ?a2) c ?id"
  have e0: "ex_key e0 = cand_key c" "ex_phase e0 = X_STARTED" by (simp_all add: e0_def start_record_def)
  have a3: "rst_executions (orc_state a3) = rst_executions (orc_state a) @ [e0]" "rst_budget (orc_state a3) = l"
      "rst_state (orc_state a3) = O_EXECUTING" "rst_decisions (orc_state a3) = rst_decisions (orc_state a)"
      "rst_number (orc_state a3) = rst_number (orc_state a)"
    by (simp_all add: h began_effect e0_def)
  have sch3: "orc_scheduler a3 = orc_scheduler a" using eff(2) by (simp add: began_def Let_def)
  have frame3: "same_frame a a3" using eff(3) began_effect(6) [of ?a2 c ?id] by (simp add: same_frame_def)
  show ?thesis
  proof (cases u)
    case (Inl x)
    have "b = a3 \<and> res = Inl x"
      using run unfolding run_round_def Let_def m1 orc_then_Inr ok1 sum.case m2 save Inl orc_then_Inl by simp
    moreover have "raised_outside a x"
      using eff(5) Inl began_effect(6) [of ?a2 c ?id] by (auto simp: raised_outside_def store_raises_def same_frame_def)
    moreover have "log_extends (orc_state a) (orc_state a3)" using a3 by (intro log_extends_same)
    moreover have "called_only c (orc_scheduler a) (orc_scheduler a3)" by (simp add: called_only_def sch3)
    ultimately show ?thesis unfolding round_ended_def using a3 e0 frame3 by blast
  next
    case (Inr v)
    obtain result a4 where call: "call_scheduler c q a3 = (result, a4)" by (cases "call_scheduler c q a3")
    note same4 = conjunct1 [OF call_scheduler_effect [OF call]] conjunct1 [OF conjunct2 [OF call_scheduler_effect [OF call]]]
    have called: "called_only c (orc_scheduler a) (orc_scheduler a4)"
      using call_scheduler_effect [OF call] by (auto simp: called_only_def sch3)
    let ?a5 = "on_state (\<lambda>t. t\<lparr>rst_state := O_OBSERVING\<rparr>) a4"
    have m5: "move_to O_OBSERVING False a4 = (Inr (), ?a5)" by (intro move_to_legal) (simp_all add: same4 a3)
    have frame5: "same_frame a ?a5" using frame3 same4 by (auto intro: same_frame_trans)
    have rest: "(case observe ?a5 c q result ?id of Inl e \<Rightarrow> (Inl (OtherError e), ?a5)
        | Inr (e, items, own) \<Rightarrow> finish_round c q p ns (orc_state a) result e items own ?a5) = (res, b)"
      using run unfolding run_round_def Let_def m1 orc_then_Inr ok1 sum.case m2 save Inr call prod.case m5 .
    show ?thesis
    proof (cases "observe ?a5 c q result ?id")
      case (Inl x)
      then have "res = Inl (OtherError x)" "b = ?a5" using rest by simp_all
      moreover have "log_extends (orc_state a) (orc_state ?a5)" using a3 same4 by (intro log_extends_same) simp_all
      ultimately show ?thesis
        unfolding round_ended_def using a3 e0 frame5 same4 called by (auto simp: raised_outside_def)
    next
      case (Inr t)
      obtain e items own where t: "t = (e, items, own)" by (cases t) auto
      from Inr rest have fin: "finish_round c q p ns (orc_state a) result e items own ?a5 = (res, b)" by (simp add: t)
      note shape = observe_shape [OF Inr [unfolded t]]
      have "filter (\<lambda>x. \<not> (ex_key x = cand_key c \<and> ex_phase x = X_STARTED)) (rst_executions (orc_state ?a5)) =
          rst_executions (orc_state a)"
        using fresh e0 by (auto simp: same4 a3 filter_id_conv)
      with finish_round_effect [OF fin]
      have ended: "rst_executions (orc_state b) = rst_executions (orc_state a) @ [e]"
          "rst_budget (orc_state b) = settle (cand_cost c) (ex_consumed e) l" "log_extends (orc_state ?a5) (orc_state b)"
          "same_frame ?a5 b"
          "res = Inr True \<and> rst_state (orc_state b) = O_CONTINUE \<or> res = Inr False \<and> rst_state (orc_state b) = O_COMPLETED \<or>
           (\<exists>x. res = Inl x \<and> store_raises ?a5 x)"
        by (auto simp: same4 a3)
      have "log_extends (orc_state a) (orc_state ?a5)" using a3 same4 by (intro log_extends_same) simp_all
      then have log: "log_extends (orc_state a) (orc_state b)" using ended(3) by (rule log_extends_trans)
      have cons: "proper (ex_consumed e)" "amount (ex_consumed e) ''attempts'' = 1" using shape(2) cost by auto
      have "orc_scheduler b = orc_scheduler a4" using finish_round_effect [OF fin] by simp
      with called have sched: "called_only c (orc_scheduler a) (orc_scheduler b)" by simp
      have "store_raises ?a5 x = store_raises a x" for x by (rule store_raises_frame [OF frame5])
      then show ?thesis
        unfolding round_ended_def using sched ended shape(1) cons log same_frame_trans [OF frame5 ended(4)]
        by (auto simp: raised_outside_def)
    qed
  qed
qed

section \<open>A step\<close>

definition steppable :: "orch_state \<Rightarrow> bool" where
  "steppable x \<longleftrightarrow> x \<in> {O_CREATED, O_PLANNING, O_CONTINUE, O_BLOCKED}"

definition planning :: "'w orchestrator \<Rightarrow> 'w orchestrator" where
  "planning a = on_state (\<lambda>t. t\<lparr>rst_state := O_PLANNING\<rparr>) a"

definition assessed :: "'w orchestrator \<Rightarrow> research_state" where
  "assessed a = (orc_state (planning a))\<lparr>rst_uncertainties := uncertainties_of (assess_now (planning a))\<rparr>"

text \<open>What the step of an orchestrator may choose to run.\<close>

definition step_choices :: "'w orchestrator \<Rightarrow> candidate set" where
  "step_choices a =
     choices (orc_world a) (orc_scheduler a) (orc_gate a) (assessed a) (orc_request a) (orc_identity a)
       (assess_now (planning a)) (orc_suggestions a)"

lemma enter_planning_ok: "steppable (rst_state (orc_state a)) \<Longrightarrow> enter_planning a = (Inr (), planning a)"
proof -
  assume "steppable (rst_state (orc_state a))"
  then consider "rst_state (orc_state a) = O_CREATED" | "rst_state (orc_state a) = O_CONTINUE"
    | "rst_state (orc_state a) = O_BLOCKED" | "rst_state (orc_state a) = O_PLANNING" by (auto simp: steppable_def)
  then show ?thesis
  proof cases
    case 4
    then have "planning a = a" by (cases a; cases "orc_state a") (simp add: planning_def on_state_def)
    with 4 show ?thesis by (simp add: enter_planning_def)
  qed (simp_all add: enter_planning_def move_to_legal planning_def on_state_def Let_def)
qed

definition nonneg_reserved :: "research_state \<Rightarrow> bool" where
  "nonneg_reserved t \<longleftrightarrow> (\<forall>k. 0 \<le> amount (bl_reserved (rst_budget t)) k)"

definition live :: "execution_record \<Rightarrow> bool" where
  "live e \<longleftrightarrow> ex_phase e \<notin> {X_PLANNED, X_SUPERSEDED}"

definition keys_ok :: "research_state \<Rightarrow> bool" where
  "keys_ok t \<longleftrightarrow> distinct (map ex_key (filter live (rst_executions t)))"

definition spent_more :: "research_state \<Rightarrow> research_state \<Rightarrow> bool" where
  "spent_more t t' \<longleftrightarrow>
     bl_limits (rst_budget t') = bl_limits (rst_budget t) \<and>
     (\<forall>k. amount (bl_consumed (rst_budget t)) k \<le> amount (bl_consumed (rst_budget t')) k)"

definition attempts_left :: "'w orchestrator \<Rightarrow> int" where
  "attempts_left a = ledger_remaining (rst_budget (orc_state a)) ''attempts''"

text \<open>A step that runs no engine leaves work, budget and scheduler alone.\<close>

definition idle_step :: "'w orchestrator \<Rightarrow> orch_error + bool \<Rightarrow> 'w orchestrator \<Rightarrow> bool" where
  "idle_step a res b \<longleftrightarrow>
     rst_executions (orc_state b) = rst_executions (orc_state a) \<and> rst_budget (orc_state b) = rst_budget (orc_state a) \<and>
     orc_scheduler b = orc_scheduler a \<and>
     (res = Inr False \<and> resting (rst_state (orc_state b)) \<or> (\<exists>x. res = Inl x \<and> raised_outside a x))"

definition work_step :: "'w orchestrator \<Rightarrow> orch_error + bool \<Rightarrow> 'w orchestrator \<Rightarrow> bool" where
  "work_step a res b \<longleftrightarrow>
     (\<exists>c\<in>step_choices a. \<exists>l. reserve (cand_cost c) (rst_budget (orc_state a)) = Inr l \<and>
        (\<exists>x runs. cand_cost c = estimate_cost x runs) \<and>
        (\<forall>e\<in>set (rst_executions (orc_state a)). ex_key e = cand_key c \<longrightarrow> \<not> live e) \<and> round_ended a c l res b)"

lemma stop_resting: "resting (stop_state r)"
  by (cases r) (simp_all add: resting_def orch_terminal_def)

lemma halted_stop:
  assumes "halted (stop_with r ns chosen detail a) = (res, b)" and "can_stop (rst_state (orc_state a))"
  shows "idle_step a res b \<and> log_extends (orc_state a) (orc_state b) \<and> same_frame a b"
proof -
  obtain u d where s: "stop_with r ns chosen detail a = (u, d)" by (cases "stop_with r ns chosen detail a")
  note eff = stop_with_effect [OF s assms(2)]
  have res: "orc_then (u, d) (\<lambda>u b. (Inr False, b)) = (res, b)" using assms(1) by (simp add: halted_def s)
  then have b: "b = d" by (cases u) simp_all
  have "res = Inr False \<or> (\<exists>x. res = Inl x \<and> raised_outside a x)"
    using eff res by (cases u) (auto simp: raised_outside_def)
  then show ?thesis using eff stop_resting [of r]
    by (auto simp: b idle_step_def same_work_def intro: logged_extends)
qed

lemma raw_step_effect:
  assumes run: "raw_step a = (res, b)" and st: "steppable (rst_state (orc_state a))"
  shows "(idle_step a res b \<or> work_step a res b) \<and> log_extends (orc_state a) (orc_state b) \<and> same_frame a b"
proof -
  let ?ns = "assess_now (planning a)"
  define d where "d = (on_state (\<lambda>t. t\<lparr>rst_uncertainties := uncertainties_of ?ns\<rparr>) (planning a))\<lparr>orc_suggestions := []\<rparr>"
  have step: "planned_step (planning a) = (res, b)" using run by (simp add: raw_step_def enter_planning_ok [OF st])
  have d: "orc_state d = assessed a" "orc_scheduler d = orc_scheduler a" "same_frame a d" "orc_world d = orc_world a"
      "orc_gate d = orc_gate a" "orc_request d = orc_request a" "orc_identity d = orc_identity a"
    by (simp_all add: d_def assessed_def planning_def on_state_def same_frame_def)
  have t: "rst_state (assessed a) = O_PLANNING" "rst_executions (assessed a) = rst_executions (orc_state a)"
      "rst_budget (assessed a) = rst_budget (orc_state a)" "rst_decisions (assessed a) = rst_decisions (orc_state a)"
      "rst_number (assessed a) = rst_number (orc_state a)"
    by (simp_all add: assessed_def planning_def)
  have stop: "can_stop (rst_state (orc_state d))" by (simp add: d t can_stop_def)
  have raises: "raised_outside d x = raised_outside a x" for x
    using store_raises_frame [OF d(3)] by (simp add: raised_outside_def)
  have log: "log_extends (orc_state d) (orc_state b) \<Longrightarrow> log_extends (orc_state a) (orc_state b)"
    by (simp add: log_extends_def d t)
  have idle: "idle_step d res b \<Longrightarrow> idle_step a res b" by (simp add: idle_step_def d t raises)
  have halt: "(idle_step a res b \<or> work_step a res b) \<and> log_extends (orc_state a) (orc_state b) \<and> same_frame a b"
    if "halted (stop_with r ns chosen detail d) = (res, b)" for r ns chosen detail
    using halted_stop [OF that stop] idle log same_frame_trans [OF d(3)] by blast
  let ?spent = "exhausted (rst_budget (orc_state d))"
  let ?plan = "plan_round (orc_world d) (orc_scheduler d) (orc_gate d) (orc_state d) (orc_request d) (orc_identity d) ?ns
    (orc_suggestions a)"
  have sug: "orc_suggestions (planning a) = orc_suggestions a" by (simp add: planning_def)
  have cases: "(if actionable ?ns = [] \<and> orc_suggestions a = [] then
        halted (stop_with (no_need_reason (orc_state d)) ?ns None ''no capability need remains'' d)
      else if ?spent \<noteq> [] then
        halted (stop_with (if ?spent = ''rounds'' then SR_ROUNDS_EXHAUSTED else SR_EXECUTION_CAP_EXHAUSTED) ?ns None
          (?spent @ '' budget is spent'') d)
      else case ?plan of Inl e \<Rightarrow> (Inl (OtherError e), d)
        | Inr p \<Rightarrow> (case (plan_selected p, plan_request p) of (Some c, Some q) \<Rightarrow> run_round c q p ?ns d
           | _ \<Rightarrow> halted (stop_with (case plan_stop p of None \<Rightarrow> SR_NO_USEFUL_CAPABILITY | Some r \<Rightarrow> r) (plan_needs p) (Some p) [] d)))
      = (res, b)"
    using step unfolding planned_step_def Let_def d_def [symmetric] sug .
  show ?thesis
  proof (cases "(actionable ?ns = [] \<and> orc_suggestions a = []) \<or> ?spent \<noteq> []")
    case True
    then show ?thesis using cases halt by (auto split: if_splits)
  next
    case False
    show ?thesis
    proof (cases ?plan)
      case (Inl e)
      then have "res = Inl (OtherError e)" "b = d" using cases False by auto
      then show ?thesis using d t by (auto simp: idle_step_def raised_outside_def intro: log_extends_same)
    next
      case plan: (Inr p)
      show ?thesis
      proof (cases "plan_selected p = None \<or> plan_request p = None")
        case True
        then show ?thesis using cases False plan halt by (auto split: option.splits if_splits)
      next
        case some: False
        then obtain c q where c: "plan_selected p = Some c" and q: "plan_request p = Some q" by auto
        have run: "run_round c q p ?ns d = (res, b)" using cases False plan c q by (auto split: if_splits)
        have choice: "c \<in> step_choices a"
          using plan_selection [OF plan] c by (simp add: step_choices_def d)
        note sel = selected_cost [OF plan c]
        have fresh: "e \<in> set (rst_executions (orc_state d)) \<Longrightarrow> ex_key e = cand_key c \<Longrightarrow> \<not> live e" for e
          using sel(2) by (auto simp: live_def)
        obtain l where l: "reserve (cand_cost c) (rst_budget (orc_state d)) = Inr l"
          using sel(3) by (auto simp: reserve_ok)
        have "ex_phase e \<noteq> X_STARTED" if "e \<in> set (rst_executions (orc_state d))" "ex_key e = cand_key c" for e
          using fresh [OF that] by (auto simp: live_def)
        then have "round_ended d c l res b"
          using run l sel(1) by (intro run_round_effect) (simp_all add: d t)
        then have ended: "round_ended a c l res b"
          using same_frame_trans [OF d(3)] by (auto simp: round_ended_def raises log d t)
        have "reserve (cand_cost c) (rst_budget (orc_state a)) = Inr l" using l by (simp add: d t)
        moreover have "\<forall>e\<in>set (rst_executions (orc_state a)). ex_key e = cand_key c \<longrightarrow> \<not> live e"
          using fresh by (simp add: d t)
        ultimately have "work_step a res b" using choice sel(1) ended unfolding work_step_def by blast
        then show ?thesis using ended by (simp add: round_ended_def)
      qed
    qed
  qed
qed

section \<open>What every step keeps\<close>

lemma settle_nonneg:
  assumes "reserve cost l = Inr l1" and "proper cost" and "\<And>k. 0 \<le> amount (bl_reserved l) k"
  shows "0 \<le> amount (bl_reserved (settle cost x l1)) k"
  using settled_exactly(2) [OF assms(1,2) assms(3), where ?k = k and ?a = x] assms(3) by simp

lemma reserve_keeps:
  assumes "reserve cost l = Inr l1" and "proper cost" and "\<And>k. 0 \<le> amount (bl_reserved l) k"
  shows "0 \<le> amount (bl_reserved l1) k" and "bl_limits l1 = bl_limits l" and "bl_consumed l1 = bl_consumed l"
  using assms proper_nonneg [of cost k] by (auto simp: reserve_ok amount_add)

definition keeps_course :: "'w orchestrator \<Rightarrow> 'w orchestrator \<Rightarrow> bool" where
  "keeps_course a b \<longleftrightarrow>
     log_extends (orc_state a) (orc_state b) \<and> same_frame a b \<and> (keys_ok (orc_state a) \<longrightarrow> keys_ok (orc_state b)) \<and>
     (nonneg_reserved (orc_state a) \<longrightarrow> nonneg_reserved (orc_state b) \<and> spent_more (orc_state a) (orc_state b))"

lemma keeps_course_refl [simp]: "keeps_course a a"
  by (simp add: keeps_course_def log_extends_same spent_more_def)

lemma spent_more_trans: "spent_more t u \<Longrightarrow> spent_more u v \<Longrightarrow> spent_more t v"
  unfolding spent_more_def by (metis order_trans)

lemma keeps_course_trans: "keeps_course a b \<Longrightarrow> keeps_course b c \<Longrightarrow> keeps_course a c"
  unfolding keeps_course_def using log_extends_trans same_frame_trans spent_more_trans by blast

lemma idle_keeps:
  "idle_step a res b \<Longrightarrow> log_extends (orc_state a) (orc_state b) \<Longrightarrow> same_frame a b \<Longrightarrow> keeps_course a b"
  by (auto simp: idle_step_def keeps_course_def keys_ok_def nonneg_reserved_def spent_more_def)

lemma work_keys:
  assumes "rst_executions (orc_state b) = rst_executions (orc_state a) @ [e]" and "keys_ok (orc_state a)"
    and "\<And>x. x \<in> set (rst_executions (orc_state a)) \<Longrightarrow> ex_key x = ex_key e \<Longrightarrow> \<not> live x"
  shows "keys_ok (orc_state b)"
  using assms by (auto simp: keys_ok_def)

lemma work_needs_attempt: "work_step a res b \<Longrightarrow> 1 \<le> attempts_left a"
proof -
  assume "work_step a res b"
  then obtain c :: candidate and l x runs where l: "reserve (cand_cost c) (rst_budget (orc_state a)) = Inr l"
      and cost: "cand_cost c = estimate_cost x runs"
    unfolding work_step_def by blast
  then show ?thesis
    using shortfall_fits [of "rst_budget (orc_state a)" "cand_cost c" "''attempts''"]
    by (simp add: reserve_ok dimensions_def attempts_left_def)
qed

lemma work_keeps:
  assumes "work_step a res b"
  shows "keeps_course a b" and "res = Inr False \<Longrightarrow> resting (rst_state (orc_state b))"
    and "nonneg_reserved (orc_state a) \<Longrightarrow> res = Inr True \<Longrightarrow>
      1 \<le> attempts_left a \<and> attempts_left b = attempts_left a - 1 \<and> rst_state (orc_state b) = O_CONTINUE"
    and "\<And>x. res = Inl x \<Longrightarrow> raised_outside a x"
proof -
  obtain c l x runs where l: "reserve (cand_cost c) (rst_budget (orc_state a)) = Inr l"
    and cost: "cand_cost c = estimate_cost x runs"
    and fresh: "\<forall>e\<in>set (rst_executions (orc_state a)). ex_key e = cand_key c \<longrightarrow> \<not> live e"
    and ended: "round_ended a c l res b"
    using assms by (auto simp: work_step_def)
  obtain e where e: "rst_executions (orc_state b) = rst_executions (orc_state a) @ [e]" "ex_key e = cand_key c"
    and how: "rst_budget (orc_state b) = l \<and> (\<exists>x. res = Inl x \<and> raised_outside a x) \<or>
         rst_budget (orc_state b) = settle (cand_cost c) (ex_consumed e) l \<and> proper (ex_consumed e) \<and>
         amount (ex_consumed e) ''attempts'' = 1 \<and>
         (res = Inr True \<and> rst_state (orc_state b) = O_CONTINUE \<or> res = Inr False \<and> rst_state (orc_state b) = O_COMPLETED \<or>
          (\<exists>x. res = Inl x \<and> raised_outside a x))"
    using ended by (auto simp: round_ended_def)
  have pcost: "proper (cand_cost c)" by (simp add: cost)
  have dk: "keys_ok (orc_state a) \<Longrightarrow> keys_ok (orc_state b)"
    using work_keys [OF e(1)] e(2) fresh by simp
  have mon: "nonneg_reserved (orc_state b) \<and> spent_more (orc_state a) (orc_state b)" if non: "nonneg_reserved (orc_state a)"
  proof -
    have r: "\<And>k. 0 \<le> amount (bl_reserved (rst_budget (orc_state a))) k" using non by (simp add: nonneg_reserved_def)
    note keep = reserve_keeps [OF l pcost r]
    show ?thesis
    proof (cases "rst_budget (orc_state b) = l")
      case True
      then show ?thesis using keep by (simp add: nonneg_reserved_def spent_more_def)
    next
      case False
      then have b: "rst_budget (orc_state b) = settle (cand_cost c) (ex_consumed e) l" "proper (ex_consumed e)" using how by auto
      then show ?thesis
        using settle_nonneg [OF l pcost r] keep proper_nonneg [OF b(2)] by (simp add: nonneg_reserved_def spent_more_def)
    qed
  qed
  from ended dk mon show "keeps_course a b" by (simp add: keeps_course_def round_ended_def)
  show "res = Inr False \<Longrightarrow> resting (rst_state (orc_state b))" using how by (auto simp: resting_def orch_terminal_def)
  show "\<And>x. res = Inl x \<Longrightarrow> raised_outside a x" using how by auto
  assume non: "nonneg_reserved (orc_state a)" and tr: "res = Inr True"
  from tr have b: "rst_budget (orc_state b) = settle (cand_cost c) (ex_consumed e) l" "amount (ex_consumed e) ''attempts'' = 1"
      "rst_state (orc_state b) = O_CONTINUE"
    using how by auto
  have fits: "1 \<le> ledger_remaining (rst_budget (orc_state a)) ''attempts''"
    using work_needs_attempt [OF assms] by (simp add: attempts_left_def)
  then have "map_of (bl_limits (rst_budget (orc_state a))) ''attempts'' \<noteq> None"
    by (cases "map_of (bl_limits (rst_budget (orc_state a))) ''attempts''") (simp_all add: ledger_remaining_def)
  from settled_exactly(3) [OF l pcost _ this, of "ex_consumed e"] non
  have "ledger_remaining (settle (cand_cost c) (ex_consumed e) l) ''attempts'' =
      ledger_remaining (rst_budget (orc_state a)) ''attempts'' - 1"
    by (simp add: nonneg_reserved_def b)
  with fits b show "1 \<le> attempts_left a \<and> attempts_left b = attempts_left a - 1 \<and> rst_state (orc_state b) = O_CONTINUE"
    by (simp add: attempts_left_def)
qed

lemma fail_with_effect:
  assumes "halted (fail_with e a) = (res, b)"
  shows "keeps_course a b \<and> resting (rst_state (orc_state b)) \<and> (res = Inr False \<or> (\<exists>x. res = Inl x \<and> store_raises a x))"
proof -
  let ?d = "on_state (\<lambda>t. t\<lparr>rst_rationale := py_take 400 (orch_error_text e),
       rst_state := (if rst_state t \<in> set orch_terminal then rst_state t else O_FAILED)\<rparr>) a"
  obtain u d where s: "save_state ?d = (u, d)" by (cases "save_state ?d")
  note eff = save_state_effect [OF s]
  obtain h where h: "orc_state d = (orc_state ?d)\<lparr>rst_hash := h\<rparr>" using eff(1) by auto
  have res: "orc_then (u, d) (\<lambda>u b. (Inr False, b)) = (res, b)" using assms by (simp add: halted_def fail_with_def s)
  then have b: "b = d" by (cases u) simp_all
  have raise: "store_raises ?d x = store_raises a x" for x by (simp add: store_raises_def)
  have "keeps_course a b" using eff(3)
    by (simp add: keeps_course_def b h same_frame_def log_extends_def keys_ok_def nonneg_reserved_def spent_more_def)
  moreover have "resting (rst_state (orc_state b))" by (simp add: b h resting_def orch_terminal_def)
  moreover have "res = Inr False \<or> (\<exists>x. res = Inl x \<and> store_raises a x)" using eff(5) res raise by (cases u) auto
  ultimately show ?thesis by blast
qed

lemma not_steppable:
  "\<not> steppable (rst_state (orc_state a)) \<Longrightarrow> raw_step a = (Inl (BadTransition (''cannot step from '' @ orch_state_value (rst_state (orc_state a)))), a)"
  by (auto simp: raw_step_def enter_planning_def steppable_def Let_def)

text \<open>A step from any state: it keeps the course, it rests or raises or goes on with one attempt less.\<close>

lemma started_step_effect:
  assumes step: "started_step a = (res, b)"
  shows "keeps_course a b" and "res = Inr False \<Longrightarrow> resting (rst_state (orc_state b))"
    and "nonneg_reserved (orc_state a) \<Longrightarrow> res = Inr True \<Longrightarrow>
      1 \<le> attempts_left a \<and> attempts_left b = attempts_left a - 1 \<and> rst_state (orc_state b) = O_CONTINUE"
    and "\<And>x. res = Inl x \<Longrightarrow> raised_outside a x"
proof -
  have "keeps_course a b \<and> (res = Inr False \<longrightarrow> resting (rst_state (orc_state b))) \<and>
    (nonneg_reserved (orc_state a) \<longrightarrow> res = Inr True \<longrightarrow>
      1 \<le> attempts_left a \<and> attempts_left b = attempts_left a - 1 \<and> rst_state (orc_state b) = O_CONTINUE) \<and>
    (\<forall>x. res = Inl x \<longrightarrow> raised_outside a x)"
  proof (cases "resting (rst_state (orc_state a))")
    case True
    then show ?thesis using step by (auto simp: started_step_def)
  next
    case go: False
    obtain r d where raw: "raw_step a = (r, d)" by (cases "raw_step a")
    have main: "keeps_course a d \<and> (r = Inr False \<longrightarrow> resting (rst_state (orc_state d))) \<and>
      (nonneg_reserved (orc_state a) \<longrightarrow> r = Inr True \<longrightarrow>
        1 \<le> attempts_left a \<and> attempts_left d = attempts_left a - 1 \<and> rst_state (orc_state d) = O_CONTINUE)"
    proof (cases "steppable (rst_state (orc_state a))")
      case True
      note eff = raw_step_effect [OF raw True]
      show ?thesis
      proof (cases "idle_step a r d")
        case True
        then show ?thesis using eff idle_keeps [OF True] by (auto simp: idle_step_def)
      next
        case False
        then have w: "work_step a r d" using eff by blast
        show ?thesis using work_keeps(1-3) [OF w] by blast
      qed
    next
      case False
      have "d = a" "r \<noteq> Inr False" "r \<noteq> Inr True" using raw not_steppable [OF False] by auto
      then show ?thesis by simp
    qed
    have out: "(\<exists>m. x = BadTransition m) \<or> raised_outside a x" if "r = Inl x" for x
    proof (cases "steppable (rst_state (orc_state a))")
      case True
      note eff = raw_step_effect [OF raw True]
      then show ?thesis using that work_keeps(4) [of a r d x] by (auto simp: idle_step_def)
    next
      case False
      then show ?thesis using raw not_steppable [OF False] that by auto
    qed
    show ?thesis
    proof (cases "\<exists>e. r = Inl e \<and> ((\<exists>m. e = BadDecision m) \<or> (\<exists>m. e = BadTransition m))")
      case True
      then obtain e where e: "r = Inl e" "halted (fail_with e d) = (res, b)"
        using step go raw by (auto simp: started_step_def)
      note f = fail_with_effect [OF e(2)]
      have "same_frame a d" using main by (simp add: keeps_course_def)
      then have "store_raises d x = store_raises a x" for x by (rule store_raises_frame)
      with f main keeps_course_trans [of a d b] show ?thesis by (auto simp: raised_outside_def)
    next
      case False
      then have "res = r \<and> b = d" using step go raw by (auto simp: started_step_def split: sum.splits orch_error.splits)
      with main out False show ?thesis by auto
    qed
  qed
  then show "keeps_course a b" and "res = Inr False \<Longrightarrow> resting (rst_state (orc_state b))"
    and "nonneg_reserved (orc_state a) \<Longrightarrow> res = Inr True \<Longrightarrow>
      1 \<le> attempts_left a \<and> attempts_left b = attempts_left a - 1 \<and> rst_state (orc_state b) = O_CONTINUE"
    and "\<And>x. res = Inl x \<Longrightarrow> raised_outside a x" by blast+
qed

end
