(* ===== verification/OrchCampaign.thy ===== *)
theory OrchCampaign
  imports OrchRuns
begin

text \<open>
  A campaign from its start on: what \<open>start\<close>, a restored state and the calls of an operator leave
  behind, that \<open>run\<close> returns and how much it executes, and what holds after any sequence of calls.
\<close>

section \<open>Starting\<close>

text \<open>A move only changes the state of the machine.\<close>

definition only_moved :: "'w orchestrator \<Rightarrow> 'w orchestrator \<Rightarrow> bool" where
  "only_moved a b \<longleftrightarrow> (\<exists>x. b = on_state (\<lambda>t. t\<lparr>rst_state := x\<rparr>) a)"

lemma only_moved_refl [simp]: "only_moved a a"
  unfolding only_moved_def by (rule exI [of _ "rst_state (orc_state a)"]) (simp add: on_state_def)

lemma only_moved_trans: "only_moved a b \<Longrightarrow> only_moved b c \<Longrightarrow> only_moved a c"
  by (auto simp: only_moved_def on_state_def)

lemma move_to_moves: "move_to x explicit a = (r, b) \<Longrightarrow> only_moved a b"
  by (auto simp: move_to_def only_moved_def [of a "on_state _ a"] split: sum.splits)

lemma move_along_moves: "move_along xs a = (r, b) \<Longrightarrow> only_moved a b"
proof (induction xs arbitrary: a)
  case (Cons x xs)
  obtain u c where m: "move_to x False a = (u, c)" by (cases "move_to x False a")
  note c = move_to_moves [OF m]
  show ?case
  proof (cases u)
    case (Inl e)
    then show ?thesis using Cons.prems c by (simp add: m)
  next
    case (Inr v)
    then show ?thesis using Cons.prems Cons.IH [of c] only_moved_trans [OF c] by (simp add: m)
  qed
qed simp

lemma normalize_moves: "normalize_state a = (r, b) \<Longrightarrow> only_moved a b"
proof -
  assume run: "normalize_state a = (r, b)"
  obtain u c where m: "move_along (resume_walk (rst_state (orc_state a))) a = (u, c)"
    by (cases "move_along (resume_walk (rst_state (orc_state a))) a")
  note c = move_along_moves [OF m]
  show ?thesis
  proof (cases u)
    case (Inl e)
    then show ?thesis using run c by (simp add: normalize_state_def m)
  next
    case (Inr v)
    then show ?thesis
      using run c only_moved_trans [OF c move_to_moves] by (auto simp: normalize_state_def m split: if_splits)
  qed
qed

text \<open>What a state carries from one step to the next; a start may only supersede executions.\<close>

definition log_ok :: "research_state \<Rightarrow> bool" where
  "log_ok t \<longleftrightarrow> rst_number t = int (length (rst_decisions t)) \<and>
     (\<forall>k<length (rst_decisions t). dcr_sequence (rst_decisions t ! k) = 1 + int k \<and>
        sealed (rst_decisions t ! k) = rst_decisions t ! k)"

lemma log_ok_iff: "log_ok t \<longleftrightarrow> log_extends (t\<lparr>rst_decisions := [], rst_number := 0\<rparr>) t"
  by (auto simp: log_ok_def log_extends_def)

lemma log_ok_extends: "log_ok t \<Longrightarrow> log_extends t u \<Longrightarrow> log_ok u"
  using log_extends_trans [of "t\<lparr>rst_decisions := [], rst_number := 0\<rparr>" t u]
  by (simp add: log_ok_iff) (simp add: log_extends_def)

definition brought :: "research_state \<Rightarrow> research_state \<Rightarrow> bool" where
  "brought t u \<longleftrightarrow> log_extends t u \<and> (keys_ok t \<longrightarrow> keys_ok u) \<and> rst_budget u = rst_budget t \<and>
     length (rst_executions u) = length (rst_executions t)"

lemma brought_refl [simp]: "brought t t"
  by (simp add: brought_def log_extends_same)

lemma brought_trans: "brought t u \<Longrightarrow> brought u v \<Longrightarrow> brought t v"
  unfolding brought_def using log_extends_trans by auto

lemma brought_same:
  "rst_decisions u = rst_decisions t \<Longrightarrow> rst_number u = rst_number t \<Longrightarrow> rst_executions u = rst_executions t \<Longrightarrow>
   rst_budget u = rst_budget t \<Longrightarrow> brought t u"
  by (simp add: brought_def keys_ok_def log_extends_same)

lemma moved_brought: "only_moved a b \<Longrightarrow> brought (orc_state a) (orc_state b)"
  by (auto simp: only_moved_def intro: brought_same)

lemma moved_frame: "only_moved a b \<Longrightarrow> same_frame a b"
  by (auto simp: only_moved_def)

lemma recorded_brought: "brought (orc_state a) (orc_state (record_decision p a))"
  using record_decision_effect(1,2) [where a = a and p = p]
  by (simp add: brought_def keys_ok_def same_work_def logged_extends)

lemma saved_brought: "save_state a = (r, b) \<Longrightarrow> brought (orc_state a) (orc_state b)"
  using save_state_effect(1) by (fastforce intro: brought_same)

text \<open>Marking executions as superseded only takes keys away.\<close>

lemma superseding_keys:
  assumes "keys_ok t" and "rst_executions u = map f (rst_executions t)"
    and "\<And>e. f e = e \<or> ex_phase (f e) = X_SUPERSEDED"
  shows "keys_ok u"
proof -
  have "\<exists>P. map ex_key (filter live (map f es)) = map ex_key (filter (\<lambda>e. live e \<and> P e) es)" for es
  proof (rule exI [of _ "\<lambda>e. f e = e"], induction es)
    case (Cons e es)
    then show ?case using assms(3) [of e] by (cases "f e = e") (auto simp: live_def)
  qed simp
  then obtain P where "map ex_key (filter live (map f (rst_executions t))) =
      map ex_key (filter (\<lambda>e. live e \<and> P e) (rst_executions t))" by blast
  moreover have "distinct (map ex_key (filter (\<lambda>e. live e \<and> P e) es))" if "distinct (map ex_key (filter live es))" for es
    using that by (induction es) (auto split: if_splits)
  ultimately show ?thesis using assms(1,2) by (simp add: keys_ok_def)
qed

lemma superseded_brought:
  assumes "\<And>e. ex_phase (g e) = X_SUPERSEDED"
  shows "brought t (t\<lparr>rst_executions := map (\<lambda>e. if P e then g e else e) (rst_executions t)\<rparr>)"
proof -
  let ?u = "t\<lparr>rst_executions := map (\<lambda>e. if P e then g e else e) (rst_executions t)\<rparr>"
  have "keys_ok t \<Longrightarrow> keys_ok ?u"
    by (rule superseding_keys [where f = "\<lambda>e. if P e then g e else e"]) (simp_all add: assms)
  then show ?thesis by (simp add: brought_def log_extends_same)
qed

section \<open>Restoring\<close>

text \<open>A saved state that was left by a campaign: a sound log and one execution per key.\<close>

definition saved_ok :: "research_state \<Rightarrow> bool" where
  "saved_ok t \<longleftrightarrow> log_ok t \<and> distinct (map ex_key (filter (\<lambda>e. ex_phase e \<noteq> X_SUPERSEDED) (rst_executions t)))"

lemma recovered_key [simp]: "ex_key (recovered_record e) = ex_key e"
  by (simp add: recovered_record_def)

lemma recovered_live: "live (recovered_record e) \<Longrightarrow> ex_phase e \<noteq> X_SUPERSEDED"
  by (auto simp: recovered_record_def live_def interrupted_def split: if_splits)

lemma filtered_distinct:
  assumes "distinct (map f (filter P xs))" and "\<And>x. Q (g x) \<Longrightarrow> P x" and "\<And>x. f (g x) = f x"
  shows "distinct (map f (filter Q (map g xs)))"
  using assms(1) by (induction xs) (auto simp: assms(3) dest: assms(2) split: if_splits)

lemma restored_brings:
  assumes "saved_ok t"
  shows "log_ok (restored_state t l)" and "keys_ok (restored_state t l)"
proof -
  show "log_ok (restored_state t l)" using assms by (simp add: saved_ok_def log_ok_def restored_state_def)
  have "distinct (map ex_key (filter live (map recovered_record (rst_executions t))))"
    using assms by (intro filtered_distinct [where P = "\<lambda>e. ex_phase e \<noteq> X_SUPERSEDED"])
      (simp_all add: saved_ok_def recovered_live)
  then show "keys_ok (restored_state t l)" by (simp add: keys_ok_def restored_state_def)
qed

lemma recovery_brought:
  "brought (orc_state a) (orc_state (fold record_recovery es a)) \<and> same_frame a (fold record_recovery es a)"
proof (induction es arbitrary: a)
  case (Cons e es)
  have "brought (orc_state a) (orc_state (record_recovery e a))" "same_frame a (record_recovery e a)"
    using recorded_brought record_decision_effect(4) by (simp_all add: record_recovery_def Let_def)
  then show ?case using Cons [of "record_recovery e a"] brought_trans same_frame_trans by fastforce
qed simp

lemma resume_brought:
  assumes "maybe_resume explicit a = (r, b)"
  shows "brought (orc_state a) (orc_state b) \<and> same_frame a b"
proof (cases "stop_reason_of (rst_stop (orc_state a)) = None \<or> \<not> explicit \<or>
    the (stop_reason_of (rst_stop (orc_state a))) \<notin> set resumable_stops")
  case True
  then show ?thesis using assms by (auto simp: maybe_resume_def split: option.splits)
next
  case False
  let ?a = "on_state (supersede_unavailable a) a"
  obtain u c where m: "move_to O_PLANNING True ?a = (u, c)" by (cases "move_to O_PLANNING True ?a")
  have "brought (orc_state a) (orc_state ?a)"
    unfolding on_state_simps supersede_unavailable_def Let_def
    by (rule superseded_brought) simp
  then have c: "brought (orc_state a) (orc_state c)" "same_frame a c"
    using brought_trans [OF _ moved_brought [OF move_to_moves [OF m]]] moved_frame [OF move_to_moves [OF m]]
    by (simp_all add: same_frame_def)
  have "brought (orc_state c) ((orc_state c)\<lparr>rst_stop := []\<rparr>)" by (rule brought_same) simp_all
  with c have "brought (orc_state a) ((orc_state c)\<lparr>rst_stop := []\<rparr>)" by (blast intro: brought_trans)
  with c False assms m show ?thesis by (cases u) (auto simp: maybe_resume_def)
qed

text \<open>The ledger a restored campaign works with.\<close>

definition restored_ledger :: "research_state \<Rightarrow> 'w orchestrator \<Rightarrow> ledger" where
  "restored_ledger t a = charge_interrupted (rst_executions t) (merge_restored (rst_budget t) (fresh_ledger a))"

text \<open>What a restore leaves behind, also when it fails: the state it found, or what it brought the saved one to.\<close>

lemma restore_leaves:
  assumes "restore_campaign t explicit a = (r, b)"
  shows "same_frame a b \<and> (r \<noteq> Inr () \<and> b = a \<or> brought (restored_state t (restored_ledger t a)) (orc_state b))"
proof (cases "cid_campaign (rst_identity t) \<noteq> cid_campaign (orc_identity a) \<or>
    target_digest (rst_identity t) \<noteq> target_digest (orc_identity a)")
  case True
  then show ?thesis using assms by (auto simp: restore_campaign_def)
next
  case False
  let ?b = "on_state (\<lambda>x. restored_state t (restored_ledger t a)) a"
  let ?c = "fold record_recovery (map recovered_record (filter interrupted (rst_executions t))) ?b"
  have c: "brought (restored_state t (restored_ledger t a)) (orc_state ?c)" "same_frame a ?c"
    using recovery_brought [of ?b] by (simp_all add: same_frame_def)
  obtain v d where n: "normalize_state ?c = (v, d)" by (cases "normalize_state ?c")
  have d: "brought (orc_state ?c) (orc_state d)" "same_frame ?c d"
    using normalize_moves [OF n] moved_brought moved_frame by auto
  obtain w e where m: "(if rst_state (orc_state d) = O_STOPPED then maybe_resume explicit d else (Inr (), d)) = (w, e)" by force
  have e: "brought (orc_state d) (orc_state e)" "same_frame d e"
    using m resume_brought [of explicit d] by (auto split: if_splits)
  let ?f = "on_state (\<lambda>t. t\<lparr>rst_recommend := recommend_review t\<rparr>) e"
  have f: "brought (orc_state e) (orc_state ?f)" "same_frame e ?f"
    by (simp_all add: brought_same)
  have "b = d \<or> b = e \<or> b = ?f"
    using assms False n m unfolding restore_campaign_def Let_def restored_ledger_def [symmetric]
    by (cases v; cases w) (auto split: if_splits)
  then show ?thesis using c d e f by (meson brought_trans same_frame_trans)
qed

lemma restore_effect:
  assumes "restore_campaign t explicit a = (Inr u, b)"
  shows "brought (restored_state t (restored_ledger t a)) (orc_state b) \<and> same_frame a b"
  using restore_leaves [OF assms] by simp

lemma charge_keeps:
  "bl_limits (charge_interrupted es l) = bl_limits l \<and> bl_reserved (charge_interrupted es l) = bl_reserved l"
proof -
  have one: "bl_limits (fold charge_one cs l) = bl_limits l \<and> bl_reserved (fold charge_one cs l) = bl_reserved l" for cs l
    by (induction cs arbitrary: l) (simp_all add: charge_one_def Let_def)
  have "bl_limits (fold (\<lambda>e l. fold charge_one (ex_consumed e) l) xs l) = bl_limits l \<and>
      bl_reserved (fold (\<lambda>e l. fold charge_one (ex_consumed e) l) xs l) = bl_reserved l" for xs l
    by (induction xs arbitrary: l) (simp_all add: one)
  then show ?thesis by (simp add: charge_interrupted_def)
qed

lemma restored_reserved: "bl_reserved (restored_ledger t a) = []"
  by (simp add: restored_ledger_def charge_keeps merge_restored_def)

section \<open>What a start leaves behind\<close>

lemma fresh_ledger_world [simp]: "fresh_ledger (a\<lparr>orc_world := w\<rparr>) = fresh_ledger a"
  by (simp add: fresh_ledger_def)

lemma restored_ledger_world [simp]: "restored_ledger t (a\<lparr>orc_world := w\<rparr>) = restored_ledger t a"
  by (simp add: restored_ledger_def)

lemma fresh_reserved: "bl_reserved (fresh_ledger a) = []" and fresh_limits:
  "bl_limits (fresh_ledger a) = bl_limits (new_ledger (orc_scan a) (orc_scheduler a) (orc_rounds a) (orc_caps a) (orc_seconds a))"
  by (simp_all add: fresh_ledger_def Let_def new_ledger_def)

text \<open>The state that an orchestrator loads.\<close>

definition loads :: "'w orchestrator \<Rightarrow> research_state \<Rightarrow> bool" where
  "loads a t \<longleftrightarrow> (\<exists>st. orc_store a = Some st \<and> fst (str_load st (cid_campaign (orc_identity a)) (orc_world a)) = Inr (Some t))"

lemma start_fresh:
  assumes "orc_then (save_state (on_state (\<lambda>t. new_state i l) a)) (\<lambda>u c. (Inr (), c\<lparr>orc_started := True\<rparr>)) = (Inr u, b)"
  shows "orc_started b \<and> brought (new_state i l) (orc_state b)"
proof -
  obtain r c where s: "save_state (on_state (\<lambda>t. new_state i l) a) = (r, c)"
    by (cases "save_state (on_state (\<lambda>t. new_state i l) a)")
  have "b = c\<lparr>orc_started := True\<rparr>" using assms by (cases r) (simp_all add: s)
  with saved_brought [OF s] show ?thesis by simp
qed

lemma start_restored:
  assumes "orc_then (restore_campaign t explicit a) (\<lambda>u c. orc_then (save_state c) (\<lambda>u d. (Inr (), d\<lparr>orc_started := True\<rparr>))) =
      (Inr u, b)"
  shows "orc_started b \<and> brought (restored_state t (restored_ledger t a)) (orc_state b)"
proof -
  obtain r c where s: "restore_campaign t explicit a = (r, c)" by (cases "restore_campaign t explicit a")
  then obtain v where r: "r = Inr v" using assms by (cases r) simp_all
  obtain x d where d: "save_state c = (x, d)" by (cases "save_state c")
  have "b = d\<lparr>orc_started := True\<rparr>" using assms by (cases x) (simp_all add: s r d)
  moreover have "brought (restored_state t (restored_ledger t a)) (orc_state c)" using restore_effect [OF s [unfolded r]] by simp
  ultimately show ?thesis using brought_trans saved_brought [OF d] by auto
qed

lemma start_effect:
  assumes "start_orchestrator explicit a = (Inr u, b)"
  shows "orc_started b"
    and "brought (new_state (orc_identity a) (fresh_ledger a)) (orc_state b) \<or>
      (\<exists>t. loads a t \<and> brought (restored_state t (restored_ledger t a)) (orc_state b))"
    and "loads a t \<Longrightarrow> brought (restored_state t (restored_ledger t a)) (orc_state b)"
proof -
  have "orc_started b \<and>
      ((\<forall>t. \<not> loads a t) \<and> brought (new_state (orc_identity a) (fresh_ledger a)) (orc_state b) \<or>
       (\<exists>t. loads a t \<and> (\<forall>t'. loads a t' \<longrightarrow> t' = t) \<and> brought (restored_state t (restored_ledger t a)) (orc_state b)))"
  proof (cases "orc_store a")
    case None
    then show ?thesis using assms start_fresh [of "orc_identity a" "fresh_ledger a" a u b]
      by (simp add: start_orchestrator_def loads_def)
  next
    case (Some st)
    obtain x w where l: "str_load st (cid_campaign (orc_identity a)) (orc_world a) = (x, w)" by force
    let ?a = "a\<lparr>orc_world := w\<rparr>"
    from assms Some l obtain y where x: "x = Inr y" by (cases x) (simp_all add: start_orchestrator_def)
    show ?thesis
    proof (cases y)
      case None
      then show ?thesis using assms Some l x start_fresh [of "orc_identity a" "fresh_ledger a" ?a u b]
        by (simp add: start_orchestrator_def loads_def)
    next
      case (Some t)
      then show ?thesis using assms \<open>orc_store a = Some st\<close> l x start_restored [of t explicit ?a u b]
        by (simp add: start_orchestrator_def loads_def)
    qed
  qed
  then show "orc_started b"
    and "brought (new_state (orc_identity a) (fresh_ledger a)) (orc_state b) \<or>
      (\<exists>t. loads a t \<and> brought (restored_state t (restored_ledger t a)) (orc_state b))"
    and "loads a t \<Longrightarrow> brought (restored_state t (restored_ledger t a)) (orc_state b)" by blast+
qed

lemma start_nonneg:
  assumes "start_orchestrator explicit a = (Inr u, b)"
  shows "nonneg_reserved (orc_state b)"
proof -
  have "bl_reserved (rst_budget (orc_state b)) = []"
    using start_effect(2) [OF assms] by (auto simp: brought_def new_state_def restored_state_def fresh_reserved restored_reserved)
  then show ?thesis by (simp add: nonneg_reserved_def amount_def)
qed

text \<open>A start of a live orchestrator that fails: nothing changed, or the state is new or restored.\<close>

lemma start_leaves:
  assumes "start_orchestrator explicit a = (r, b)"
  shows "(orc_started a \<longrightarrow> orc_started b) \<and>
    (orc_state b = orc_state a \<or> brought (new_state (orc_identity a) (fresh_ledger a)) (orc_state b) \<or>
     (\<exists>t. loads a t \<and> brought (restored_state t (restored_ledger t a)) (orc_state b)))"
proof -
  have new: "orc_started c \<longrightarrow> orc_started b" "brought (new_state i l) (orc_state b)"
    if "orc_then (save_state (on_state (\<lambda>t. new_state i l) c)) (\<lambda>u d. (Inr (), d\<lparr>orc_started := True\<rparr>)) = (r, b)" for c :: "'a orchestrator" and i l
  proof -
    obtain x d where s: "save_state (on_state (\<lambda>t. new_state i l) c) = (x, d)"
      by (cases "save_state (on_state (\<lambda>t. new_state i l) c)")
    have "orc_started d = orc_started c" using save_state_effect(3) [OF s] by (simp add: same_frame_def)
    then show "orc_started c \<longrightarrow> orc_started b" "brought (new_state i l) (orc_state b)"
      using that s saved_brought [OF s] by (cases x; auto)+
  qed
  have old: "(orc_started c \<longrightarrow> orc_started b) \<and> (b = c \<or> brought (restored_state t (restored_ledger t c)) (orc_state b))"
    if "orc_then (restore_campaign t explicit c) (\<lambda>u c. orc_then (save_state c) (\<lambda>u d. (Inr (), d\<lparr>orc_started := True\<rparr>))) = (r, b)"
    for c :: "'a orchestrator" and t
  proof -
    obtain x d where s: "restore_campaign t explicit c = (x, d)" by (cases "restore_campaign t explicit c")
    note left = restore_leaves [OF s]
    show ?thesis
    proof (cases x)
      case (Inl e)
      then show ?thesis using that s left by (auto simp: same_frame_def)
    next
      case (Inr u)
      obtain y f where f: "save_state d = (y, f)" by (cases "save_state d")
      have "orc_started b = (orc_started f \<or> y = Inr ()) \<and> orc_state b = orc_state f"
        using that s f Inr by (cases y) auto
      then show ?thesis using left Inr saved_brought [OF f] save_state_effect(3) [OF f] brought_trans
        by (auto simp: same_frame_def)
    qed
  qed
  show ?thesis
  proof (cases "orc_store a")
    case None
    then show ?thesis using assms new [where c = a] by (auto simp: start_orchestrator_def)
  next
    case (Some st)
    obtain x w where l: "str_load st (cid_campaign (orc_identity a)) (orc_world a) = (x, w)" by force
    let ?a = "a\<lparr>orc_world := w\<rparr>"
    show ?thesis
    proof (cases x)
      case (Inl e)
      then show ?thesis using assms Some l by (auto simp: start_orchestrator_def)
    next
      case (Inr y)
      show ?thesis
      proof (cases y)
        case None
        then show ?thesis using assms Some l Inr new [where c = ?a] by (auto simp: start_orchestrator_def)
      next
        case t: (Some t)
        have "loads a t" using Some l Inr t by (simp add: loads_def)
        then show ?thesis using assms Some l Inr t old [of t ?a] by (auto simp: start_orchestrator_def)
      qed
    qed
  qed
qed

section \<open>Runs\<close>

lemma work_appends: "work_step a res b \<Longrightarrow> length (rst_executions (orc_state b)) = Suc (length (rst_executions (orc_state a)))"
  unfolding work_step_def round_ended_def by auto

lemma step_executes:
  assumes "started_step a = (res, b)" and "nonneg_reserved (orc_state a)"
  shows "length (rst_executions (orc_state b)) = length (rst_executions (orc_state a)) \<or>
    length (rst_executions (orc_state b)) = Suc (length (rst_executions (orc_state a))) \<and> 1 \<le> attempts_left a"
proof -
  have idle: "length (rst_executions (orc_state d)) = length (rst_executions (orc_state c))"
    if "halted (fail_with e c) = (r, d)" for e r and c d :: "'a orchestrator"
  proof -
    obtain u f where s: "fail_with e c = (u, f)" by (cases "fail_with e c")
    then have "d = f" using that by (cases u) (simp_all add: halted_def)
    then show ?thesis using saved_brought [OF s [unfolded fail_with_def]] by (simp add: brought_def)
  qed
  obtain r d where raw: "raw_step a = (r, d)" by (cases "raw_step a")
  have main: "length (rst_executions (orc_state d)) = length (rst_executions (orc_state a)) \<or>
    length (rst_executions (orc_state d)) = Suc (length (rst_executions (orc_state a))) \<and> 1 \<le> attempts_left a"
  proof (cases "steppable (rst_state (orc_state a))")
    case True
    from raw_step_effect [OF raw True] show ?thesis
      using work_needs_attempt [of a r d] work_appends [of a r d] by (auto simp: idle_step_def)
  next
    case False
    then show ?thesis using raw not_steppable [OF False] by simp
  qed
  show ?thesis
  proof (cases "resting (rst_state (orc_state a)) \<or> (\<exists>e. r = Inl e \<and> halted (fail_with e d) = (res, b))")
    case True
    then show ?thesis using assms(1) main idle by (auto simp: started_step_def)
  next
    case False
    then have "b = d" using assms(1) raw by (auto simp: started_step_def split: sum.splits orch_error.splits if_splits)
    with main show ?thesis by simp
  qed
qed

lemma step_loop_runs:
  "nonneg_reserved (orc_state a) \<Longrightarrow> \<exists>r b. step_loop a = Some (r, b) \<and> keeps_course a b \<and>
     (r = Inr () \<longrightarrow> resting (rst_state (orc_state b))) \<and>
     length (rst_executions (orc_state b)) \<le> length (rst_executions (orc_state a)) + nat (attempts_left a)"
proof (induction "nat (attempts_left a)" arbitrary: a rule: less_induct)
  case less
  obtain res b where step: "started_step a = (res, b)" by (cases "started_step a")
  note eff = started_step_effect [OF step] and len = step_executes [OF step less.prems]
  show ?case
  proof (cases "res = Inr True")
    case True
    note go = eff(3) [OF less.prems True]
    have "nat (attempts_left b) < nat (attempts_left a)" "nonneg_reserved (orc_state b)"
      using eff(1) go less.prems by (auto simp: keeps_course_def)
    from less.hyps [OF this] obtain r c where c: "step_loop b = Some (r, c)" "keeps_course b c"
        "r = Inr () \<longrightarrow> resting (rst_state (orc_state c))"
        "length (rst_executions (orc_state c)) \<le> length (rst_executions (orc_state b)) + nat (attempts_left b)" by blast
    have "step_loop a = Some (r, c)" using c(1) by (subst step_loop.simps) (simp add: step True)
    moreover have "length (rst_executions (orc_state c)) \<le> length (rst_executions (orc_state a)) + nat (attempts_left a)"
      using c(4) len go by auto
    ultimately show ?thesis using c(2,3) keeps_course_trans [OF eff(1)] by blast
  next
    case False
    then have "step_loop a = Some (case res of Inl e \<Rightarrow> Inl e | Inr x \<Rightarrow> Inr (), b)"
      by (subst step_loop.simps) (auto simp: step split: sum.splits)
    moreover have "(case res of Inl e \<Rightarrow> Inl e | Inr x \<Rightarrow> Inr ()) = Inr () \<Longrightarrow> resting (rst_state (orc_state b))"
      using eff(2) False by (cases res) auto
    moreover have "length (rst_executions (orc_state b)) \<le> length (rst_executions (orc_state a)) + nat (attempts_left a)"
      using len by auto
    ultimately show ?thesis using eff(1) by blast
  qed
qed

section \<open>The calls of an operator\<close>

lemma brought_keeps:
  "brought (orc_state a) (orc_state b) \<Longrightarrow> same_frame a b \<Longrightarrow> keeps_course a b"
  by (auto simp: brought_def keeps_course_def nonneg_reserved_def spent_more_def)

lemma grant_retry_keeps:
  assumes "grant_retry key a = (r, b)"
  shows "keeps_course a b"
proof (cases "rst_executions (orc_state b) = rst_executions (orc_state a) \<and> b = a")
  case False
  let ?b = "on_state (\<lambda>t. t\<lparr>rst_executions := map (\<lambda>x. if ex_key x = key
        then x\<lparr>ex_phase := X_SUPERSEDED, ex_retryable := False\<rparr> else x) (rst_executions t)\<rparr>) a"
  let ?go = "rst_state (orc_state a) = O_STOPPED \<and> resumable_text (rst_stop (orc_state a))"
  have b: "brought (orc_state a) (orc_state ?b)" unfolding on_state_simps by (rule superseded_brought) simp
  obtain u c where m: "(if ?go then orc_then (move_to O_PLANNING True ?b) (\<lambda>u c. (Inr (), on_state (\<lambda>t. t\<lparr>rst_stop := []\<rparr>) c))
      else (Inr (), ?b)) = (u, c)" by force
  have c: "brought (orc_state ?b) (orc_state c) \<and> same_frame ?b c"
  proof (cases ?go)
    case True
    obtain v d where d: "move_to O_PLANNING True ?b = (v, d)" by (cases "move_to O_PLANNING True ?b")
    note md = move_to_moves [OF d]
    have "brought (orc_state d) ((orc_state d)\<lparr>rst_stop := []\<rparr>)" by (rule brought_same) simp_all
    then have "brought (orc_state ?b) ((orc_state d)\<lparr>rst_stop := []\<rparr>)"
      by (rule brought_trans [OF moved_brought [OF md]])
    with m True d moved_brought [OF md] moved_frame [OF md] show ?thesis by (cases v) auto
  next
    case False
    with m show ?thesis by auto
  qed
  obtain v d where d: "orc_then (u, c) (\<lambda>u c. orc_then (save_state c) (\<lambda>u d. (Inr True, d))) = (v, d)"
    by (cases "orc_then (u, c) (\<lambda>u c. orc_then (save_state c) (\<lambda>u d. (Inr True, d)))")
  have e: "brought (orc_state c) (orc_state d) \<and> same_frame c d"
  proof (cases u)
    case (Inl e) then show ?thesis using d by simp
  next
    case (Inr x)
    obtain y f where s: "save_state c = (y, f)" by (cases "save_state c")
    then have "d = f" using d Inr by (cases y) simp_all
    then show ?thesis using saved_brought [OF s] save_state_effect(3) [OF s] by simp
  qed
  have "b = d"
    using assms False m d by (auto simp: grant_retry_def Let_def split: if_splits option.splits)
  with b c e show ?thesis
    by (intro brought_keeps) (auto intro: brought_trans simp: same_frame_def)
qed simp

lemma halt_entry_effect:
  assumes "halt_entry r a = (x, b)"
  shows "brought (orc_state a) (orc_state b) \<and> same_frame a b \<and> (x = Inr True \<longrightarrow> can_stop (rst_state (orc_state b)))"
proof -
  have moved: "brought (orc_state c) ((orc_state c)\<lparr>rst_state := s, rst_stop := q\<rparr>)" for c :: "'a orchestrator" and s q
    by (rule brought_same) simp_all
  show ?thesis
  proof (cases "rst_state (orc_state a)")
    case O_CREATED
    have m: "move_to O_BASELINE False a = (Inr (), on_state (\<lambda>t. t\<lparr>rst_state := O_BASELINE\<rparr>) a)"
      by (rule move_to_legal) (simp_all add: O_CREATED)
    have "move_to O_PLANNING False (on_state (\<lambda>t. t\<lparr>rst_state := O_BASELINE\<rparr>) a) =
        (Inr (), on_state (\<lambda>t. t\<lparr>rst_state := O_PLANNING\<rparr>) (on_state (\<lambda>t. t\<lparr>rst_state := O_BASELINE\<rparr>) a))"
      by (rule move_to_legal) simp_all
    with m O_CREATED assms have b: "b = on_state (\<lambda>t. t\<lparr>rst_state := O_PLANNING\<rparr>) (on_state (\<lambda>t. t\<lparr>rst_state := O_BASELINE\<rparr>) a)"
      by (simp add: halt_entry_def Let_def orch_terminal_def)
    show ?thesis unfolding b by (simp add: can_stop_def) (rule brought_same, simp_all)
  next
    case O_STOPPED
    have "move_to O_PLANNING True a = (Inr (), on_state (\<lambda>t. t\<lparr>rst_state := O_PLANNING\<rparr>) a)"
      by (rule move_to_legal) (simp_all add: O_STOPPED)
    with O_STOPPED assms show ?thesis
      by (auto simp: halt_entry_def Let_def orch_terminal_def can_stop_def intro: brought_same split: if_splits)
  qed (use assms in \<open>auto simp: halt_entry_def Let_def orch_terminal_def can_stop_def split: if_splits\<close>)
qed

lemma halt_keeps:
  assumes "halt_campaign r detail a = (x, b)" and "orc_started a"
  shows "keeps_course a b"
proof (cases "r \<in> set operator_stops")
  case True
  obtain y c where e: "halt_entry r a = (y, c)" by (cases "halt_entry r a")
  note c = halt_entry_effect [OF e]
  show ?thesis
  proof (cases "y = Inr True")
    case False
    then have "b = c" using assms True e by (cases y) (auto simp: halt_campaign_def ensure_started_def split: if_splits)
    with c show ?thesis by (intro brought_keeps) auto
  next
    case go: True
    define d where "d = c\<lparr>orc_suggestions := []\<rparr>"
    define detail' where "detail' = or_text (py_take 400 detail) (stop_reason_value r @ '' by operator'')"
    obtain z f where s: "stop_with r (assess_now d) None detail' d = (z, f)" by (cases "stop_with r (assess_now d) None detail' d")
    have "can_stop (rst_state (orc_state d))" using c go by (simp add: d_def)
    note eff = stop_with_effect [OF s this]
    have "b = f"
      using assms True e go s by (cases z) (auto simp: halt_campaign_def ensure_started_def Let_def d_def detail'_def)
    moreover have "brought (orc_state d) (orc_state f)"
      using eff by (simp add: brought_def same_work_def keys_ok_def logged_extends)
    ultimately show ?thesis
      using c eff brought_trans by (intro brought_keeps) (auto simp: d_def same_frame_def)
  qed
next
  case False
  then show ?thesis using assms by (simp add: halt_campaign_def)
qed

text \<open>The public calls of an orchestrator; a service starts a live one again to resume it.\<close>

datatype campaign_call =
    CallStart bool
  | CallStep
  | CallRun
  | CallSuggest string string string
  | CallRetry string
  | CallHalt stop_reason string

fun campaign_step :: "'w orchestrator \<Rightarrow> campaign_call \<Rightarrow> 'w orchestrator" where
  "campaign_step a (CallStart explicit) = snd (start_orchestrator explicit a)"
| "campaign_step a CallStep = snd (orc_step a)"
| "campaign_step a CallRun = (case run_campaign a of None \<Rightarrow> a | Some (r, b) \<Rightarrow> b)"
| "campaign_step a (CallSuggest c engine cause) = snd (suggest c engine cause a)"
| "campaign_step a (CallRetry key) = snd (grant_retry key a)"
| "campaign_step a (CallHalt r detail) = snd (halt_campaign r detail a)"

fun is_start :: "campaign_call \<Rightarrow> bool" where
  "is_start (CallStart explicit) = True"
| "is_start x = False"

lemma call_keeps:
  assumes "orc_started a" and "nonneg_reserved (orc_state a)" and "\<not> is_start x"
  shows "keeps_course a (campaign_step a x)"
proof (cases x)
  case (CallStart explicit)
  then show ?thesis using assms(3) by simp
next
  case CallStep
  have "keeps_course a (snd (started_step a))"
    using started_step_effect(1) [of a "fst (started_step a)" "snd (started_step a)"] by simp
  then show ?thesis using assms by (simp add: CallStep orc_step_def ensure_started_def)
next
  case CallRun
  from step_loop_runs [OF assms(2)] show ?thesis using assms by (auto simp: CallRun run_campaign_def ensure_started_def)
next
  case (CallSuggest c engine cause)
  have "brought (orc_state a) (orc_state (snd (suggest c engine cause a)))" by (simp add: suggest_def)
  then show ?thesis by (simp add: CallSuggest, intro brought_keeps) (simp_all add: suggest_def same_frame_def)
next
  case (CallRetry key)
  show ?thesis using grant_retry_keeps [of key a] by (simp add: CallRetry prod_eq_iff)
next
  case (CallHalt r detail)
  show ?thesis using halt_keeps [OF _ assms(1), of r detail] by (simp add: CallHalt prod_eq_iff)
qed

text \<open>The calls between two starts keep what a campaign has kept since the first one left \<open>a\<close>.\<close>

interpretation campaign: guarded_machine "\<lambda>b. b = a \<and> orc_started a \<and> nonneg_reserved (orc_state a)" campaign_step
    "\<lambda>b x. \<not> is_start x" "\<lambda>b. orc_started a \<and> nonneg_reserved (orc_state a) \<and> keeps_course a b" for a :: "'w orchestrator"
proof unfold_locales
  fix b :: "'w orchestrator" and x
  assume inv: "orc_started a \<and> nonneg_reserved (orc_state a) \<and> keeps_course a b" and x: "\<not> is_start x"
  then have "orc_started b" "nonneg_reserved (orc_state b)" by (auto simp: keeps_course_def same_frame_def)
  from call_keeps [OF this x] inv
  show "orc_started a \<and> nonneg_reserved (orc_state a) \<and> keeps_course a (campaign_step b x)"
    by (blast intro: keeps_course_trans)
qed auto

lemma campaign_guarded: "list_all (\<lambda>x. \<not> is_start x) calls \<Longrightarrow> campaign.guarded_run b calls"
  by (induction calls arbitrary: b) auto

text \<open>Any calls, starts included: what the orchestrator loads at a start is a sound saved state.\<close>

definition sound_call :: "'w orchestrator \<Rightarrow> campaign_call \<Rightarrow> bool" where
  "sound_call a x \<longleftrightarrow> (is_start x \<longrightarrow> (\<forall>t. loads a t \<longrightarrow> saved_ok t))"

definition campaign_sound :: "'w orchestrator \<Rightarrow> bool" where
  "campaign_sound a \<longleftrightarrow> orc_started a \<and> nonneg_reserved (orc_state a) \<and> log_ok (orc_state a) \<and> keys_ok (orc_state a)"

lemma new_state_ok: "log_ok (new_state i l)" "keys_ok (new_state i l)"
  by (simp_all add: log_ok_def keys_ok_def new_state_def)

lemma brought_ok: "brought t u \<Longrightarrow> log_ok t \<Longrightarrow> keys_ok t \<Longrightarrow> log_ok u \<and> keys_ok u"
  unfolding brought_def by (blast intro: log_ok_extends)

lemma brought_nonneg: "brought t u \<Longrightarrow> bl_reserved (rst_budget t) = [] \<Longrightarrow> nonneg_reserved u"
  by (simp add: brought_def nonneg_reserved_def amount_def)

lemma start_sound:
  assumes "start_orchestrator explicit a = (r, b)" and "\<And>t. loads a t \<Longrightarrow> saved_ok t"
  shows "orc_state b = orc_state a \<or> nonneg_reserved (orc_state b) \<and> log_ok (orc_state b) \<and> keys_ok (orc_state b)"
proof -
  consider "orc_state b = orc_state a" | "brought (new_state (orc_identity a) (fresh_ledger a)) (orc_state b)"
    | t where "loads a t" "brought (restored_state t (restored_ledger t a)) (orc_state b)"
    using start_leaves [OF assms(1)] by blast
  then show ?thesis
  proof cases
    case 2
    then show ?thesis using brought_ok new_state_ok brought_nonneg [OF 2] by (auto simp: new_state_def fresh_reserved)
  next
    case 3
    then show ?thesis using brought_ok [OF 3(2)] restored_brings [OF assms(2) [OF 3(1)]] brought_nonneg [OF 3(2)]
      by (auto simp: restored_state_def restored_reserved)
  qed simp
qed

interpretation live_campaign: guarded_machine campaign_sound campaign_step sound_call campaign_sound
proof unfold_locales
  fix a :: "'a orchestrator" and x
  assume inv: "campaign_sound a" and x: "sound_call a x"
  show "campaign_sound (campaign_step a x)"
  proof (cases "is_start x")
    case True
    then obtain explicit where e: "x = CallStart explicit" by (cases x) auto
    obtain r b where s: "start_orchestrator explicit a = (r, b)" by (cases "start_orchestrator explicit a")
    have "loads a t \<Longrightarrow> saved_ok t" for t using x True by (simp add: sound_call_def)
    from start_sound [OF s this] start_leaves [OF s] inv show ?thesis by (auto simp: campaign_sound_def e s)
  next
    case False
    have "keeps_course a (campaign_step a x)" using inv False by (intro call_keeps) (simp_all add: campaign_sound_def)
    then show ?thesis using inv log_ok_extends by (auto simp: campaign_sound_def keeps_course_def same_frame_def)
  qed
qed

lemma started_sound:
  assumes "start_orchestrator explicit a = (Inr u, b)" and "\<And>t. loads a t \<Longrightarrow> saved_ok t"
  shows "campaign_sound b"
proof -
  have "log_ok (orc_state b) \<and> keys_ok (orc_state b)"
    using start_effect(2) [OF assms(1)] brought_ok [OF _ new_state_ok] brought_ok [OF _ restored_brings [OF assms(2)]] by blast
  then show ?thesis using start_effect(1) [OF assms(1)] start_nonneg [OF assms(1)] by (simp add: campaign_sound_def)
qed

text \<open>Whether every start among the calls loads a sound state, or none.\<close>

fun sound_loads :: "'w orchestrator \<Rightarrow> campaign_call list \<Rightarrow> bool" where
  "sound_loads a [] = True"
| "sound_loads a (x # xs) = (sound_call a x \<and> sound_loads (campaign_step a x) xs)"

lemma sound_loads_guarded: "sound_loads a calls = live_campaign.guarded_run a calls"
  by (induction calls arbitrary: a) simp_all

lemma sound_without_starts: "list_all (\<lambda>x. \<not> is_start x) calls \<Longrightarrow> sound_loads a calls"
  by (induction calls arbitrary: a) (simp_all add: sound_call_def)

section \<open>What campaigns guarantee\<close>

text \<open>C7. Running a campaign that was not started returns whatever its engines, store and clock do, and when it returns without an error the campaign is stopped or ended.\<close>

theorem run_returns:
  assumes "\<not> orc_started a"
  shows "\<exists>r b. run_campaign a = Some (r, b) \<and> (r = Inr () \<longrightarrow> resting (rst_state (orc_state b)))"
proof -
  obtain r b where s: "start_orchestrator False a = (r, b)" by (cases "start_orchestrator False a")
  show ?thesis
  proof (cases r)
    case (Inl e)
    then show ?thesis using assms s by (simp add: run_campaign_def ensure_started_def)
  next
    case (Inr u)
    from step_loop_runs [OF start_nonneg [OF s [unfolded Inr]]] show ?thesis
      using assms s Inr by (auto simp: run_campaign_def ensure_started_def)
  qed
qed

definition demo_campaign :: "unit store option \<Rightarrow> unit orchestrator" where
  "demo_campaign st = new_orchestrator (new_scheduler [demo_engine] 2 2) demo_request (Some demo_identity) st None
     (\<lambda>w. ''2024-01-01T00:00:00+00:00'') 60 None [] None ()"

lemma demo_campaign_fresh: "\<not> orc_started (demo_campaign st)" "orc_store (demo_campaign st) = st"
    "orc_identity (demo_campaign st) = demo_identity"
  by (simp_all add: demo_campaign_def new_orchestrator_def Let_def)

theorem run_returns_witness:
  "\<exists>r b. run_campaign (demo_campaign None) = Some (r, b) \<and> (r = Inr () \<longrightarrow> resting (rst_state (orc_state b)))"
  by (rule run_returns [OF demo_campaign_fresh(1)])

lemma fresh_attempts: "ledger_remaining (fresh_ledger a) ''attempts'' \<le> 2 * hard_max_rounds + 2"
proof -
  let ?l = "new_ledger (orc_scan a) (orc_scheduler a) (orc_rounds a) (orc_caps a) (orc_seconds a)"
  obtain m where m: "map_of (bl_limits (new_ledger (orc_scan a) (orc_scheduler a) None [] None)) ''attempts'' = Some m"
      "m \<le> 2 * hard_max_rounds + 2"
    by (simp add: new_ledger_def Let_def cap_limits_def hard_max_rounds_def)
  from requests_only_tighten [OF m(1)] m(2) have "lower (bl_limits ?l) ''attempts'' (2 * hard_max_rounds + 2)"
    using lower_mono by blast
  moreover have "amount (bl_consumed (fresh_ledger a)) ''attempts'' = 0" "bl_reserved (fresh_ledger a) = []"
    by (simp_all add: fresh_ledger_def Let_def raised_to_def new_ledger_def amount_def dict_get_def)
  ultimately show ?thesis by (auto simp: ledger_remaining_def fresh_limits lower_def amount_def)
qed

text \<open>A run of a campaign without a saved state attempts at most two engine calls per possible round and two more, however many engines are registered and whatever the request asks for.\<close>

theorem run_is_bounded:
  assumes "\<not> orc_started a" and "orc_store a = None" and "run_campaign a = Some (r, b)"
  shows "int (length (rst_executions (orc_state b))) \<le> 2 * hard_max_rounds + 2"
proof -
  obtain x c where s: "start_orchestrator False a = (x, c)" by (cases "start_orchestrator False a")
  have "x = Inr ()" using s assms(2) by (auto simp: start_orchestrator_def save_state_def)
  note s = s [unfolded this]
  have "brought (new_state (orc_identity a) (fresh_ledger a)) (orc_state c)"
    using start_effect(2) [OF s] assms(2) by (auto simp: loads_def)
  then have c: "rst_budget (orc_state c) = fresh_ledger a" "rst_executions (orc_state c) = []"
    by (simp_all add: brought_def new_state_def)
  from step_loop_runs [OF start_nonneg [OF s]] have "length (rst_executions (orc_state b)) \<le> nat (attempts_left c)"
    using assms s c by (auto simp: run_campaign_def ensure_started_def)
  with fresh_attempts [of a] c show ?thesis by (simp add: attempts_left_def hard_max_rounds_def)
qed

theorem run_is_bounded_witness:
  "\<exists>r b. run_campaign (demo_campaign None) = Some (r, b) \<and> length (rst_executions (orc_state b)) \<le> 34"
proof -
  obtain x c where s: "start_orchestrator False (demo_campaign None) = (x, c)"
    by (cases "start_orchestrator False (demo_campaign None)")
  have x: "x = Inr ()" using s by (auto simp: start_orchestrator_def save_state_def demo_campaign_fresh)
  from step_loop_runs [OF start_nonneg [OF s [unfolded x]]] obtain r b where
      "run_campaign (demo_campaign None) = Some (r, b)"
    using s x by (auto simp: run_campaign_def ensure_started_def demo_campaign_fresh)
  moreover from run_is_bounded [OF demo_campaign_fresh(1,2) this]
  have "length (rst_executions (orc_state b)) \<le> 34" by (simp add: hard_max_rounds_def)
  ultimately show ?thesis by blast
qed

text \<open>C8. From a start on, fresh or from a sound saved state, every sequence of public calls leaves a log whose decisions are numbered without a gap and sealed, and no two executions under one key that are not superseded; a later start among the calls, also one that fails, keeps this when what it loads is a sound saved state too.\<close>

theorem campaigns_stay_sound:
  assumes "\<And>t. loads a t \<Longrightarrow> saved_ok t" and "start_orchestrator explicit a = (Inr u, b)" and "sound_loads b calls"
  shows "log_ok (orc_state (run_ops campaign_step b calls)) \<and> keys_ok (orc_state (run_ops campaign_step b calls))"
proof -
  have "campaign_sound b" by (rule started_sound [OF assms(2)]) (rule assms(1))
  then have "campaign_sound (run_ops campaign_step b calls)"
    using live_campaign.run_keeps assms(3) by (simp add: sound_loads_guarded)
  then show ?thesis by (simp add: campaign_sound_def)
qed

lemma no_store_loads: "orc_store a = None \<Longrightarrow> \<not> loads a t"
  by (simp add: loads_def)

theorem campaigns_stay_sound_witness:
  "\<exists>b. start_orchestrator False (demo_campaign None) = (Inr (), b) \<and>
     log_ok (orc_state (run_ops campaign_step b [CallStart True, CallStep, CallHalt SR_OPERATOR_STOPPED []])) \<and>
     keys_ok (orc_state (run_ops campaign_step b [CallStart True, CallStep, CallHalt SR_OPERATOR_STOPPED []]))"
proof -
  obtain x b where s: "start_orchestrator False (demo_campaign None) = (x, b)"
    by (cases "start_orchestrator False (demo_campaign None)")
  have x: "x = Inr ()" and store: "orc_store b = None"
    using s by (auto simp: start_orchestrator_def save_state_def demo_campaign_fresh)
  have l: "saved_ok t" if "loads (demo_campaign None) t" for t using that by (simp add: loads_def demo_campaign_fresh)
  have "sound_loads b [CallStart True, CallStep, CallHalt SR_OPERATOR_STOPPED []]"
    using no_store_loads [OF store] by (simp add: sound_call_def)
  from campaigns_stay_sound [OF l s [unfolded x] this] show ?thesis using s x by blast
qed

text \<open>C9. Between two starts, whatever sequence of the other public calls is made of a started campaign, its limits stay, no consumption is taken back, and the decisions made before stay as they are at the front of the log. A start begins a ledger and a log anew, or from what was saved.\<close>

theorem calls_only_spend:
  assumes "orc_started a" and "nonneg_reserved (orc_state a)" and "list_all (\<lambda>x. \<not> is_start x) calls"
  shows "spent_more (orc_state a) (orc_state (run_ops campaign_step a calls)) \<and>
    log_extends (orc_state a) (orc_state (run_ops campaign_step a calls))"
  using campaign.run_invariant [OF _ campaign_guarded [OF assms(3)], of a a] assms(1,2) by (simp add: keeps_course_def)

theorem calls_only_spend_witness:
  "\<exists>b. start_orchestrator False (demo_campaign None) = (Inr (), b) \<and>
     spent_more (orc_state b) (orc_state (run_ops campaign_step b [CallRun, CallRetry ''k''])) \<and>
     log_extends (orc_state b) (orc_state (run_ops campaign_step b [CallRun, CallRetry ''k'']))"
proof -
  obtain x b where s: "start_orchestrator False (demo_campaign None) = (x, b)"
    by (cases "start_orchestrator False (demo_campaign None)")
  have x: "x = Inr ()" using s by (auto simp: start_orchestrator_def save_state_def demo_campaign_fresh)
  show ?thesis
    using calls_only_spend [OF start_effect(1) [OF s [unfolded x]] start_nonneg [OF s [unfolded x]], of "[CallRun, CallRetry ''k'']"] s x
    by auto
qed

text \<open>A start of a live campaign without a store takes its consumption back.\<close>

lemma start_without_store_refills:
  assumes "orc_store a = None" shows "\<exists>b. start_orchestrator explicit a = (Inr (), b) \<and>
    rst_budget (orc_state b) = fresh_ledger a \<and> rst_decisions (orc_state b) = []"
  using assms by (simp add: start_orchestrator_def save_state_def new_state_def)

text \<open>C6. A step of a started campaign either calls no engine and spends nothing, or it calls only the engine of a candidate its planner could choose, whose cost the budget allowed and whose key no execution has that is not superseded, and adds one execution under that key.\<close>

theorem steps_call_admitted_engines:
  assumes "orc_started a" and "orc_step a = (r, b)"
  shows "orc_scheduler b = orc_scheduler a \<and> rst_executions (orc_state b) = rst_executions (orc_state a) \<and>
      rst_budget (orc_state b) = rst_budget (orc_state a) \<or>
    (\<exists>c\<in>step_choices a. \<exists>e l. called_only c (orc_scheduler a) (orc_scheduler b) \<and>
      reserve (cand_cost c) (rst_budget (orc_state a)) = Inr l \<and>
      cand_key c \<notin> ex_key ` {x \<in> set (rst_executions (orc_state a)). live x} \<and>
      rst_executions (orc_state b) = rst_executions (orc_state a) @ [e] \<and> ex_key e = cand_key c)"
  (is "?idle b \<or> ?work b")
proof -
  have step: "started_step a = (r, b)" using assms by (simp add: orc_step_def ensure_started_def)
  have failed: "orc_scheduler d = orc_scheduler c \<and> rst_executions (orc_state d) = rst_executions (orc_state c) \<and>
      rst_budget (orc_state d) = rst_budget (orc_state c)"
    if "halted (fail_with e c) = (x, d)" for e x and c d :: "'a orchestrator"
  proof -
    obtain u f where s: "fail_with e c = (u, f)" by (cases "fail_with e c")
    then have "d = f" using that by (cases u) (simp_all add: halted_def)
    then show ?thesis using save_state_effect(1,2) [OF s [unfolded fail_with_def]] by auto
  qed
  obtain x d where raw: "raw_step a = (x, d)" by (cases "raw_step a")
  have main: "?idle d \<or> ?work d"
  proof (cases "steppable (rst_state (orc_state a))")
    case True
    note eff = raw_step_effect [OF raw True]
    show ?thesis
    proof (cases "idle_step a x d")
      case False
      with eff obtain c :: candidate and l where c: "c \<in> step_choices a" "reserve (cand_cost c) (rst_budget (orc_state a)) = Inr l"
          "\<forall>e\<in>set (rst_executions (orc_state a)). ex_key e = cand_key c \<longrightarrow> \<not> live e" "round_ended a c l x d"
        unfolding work_step_def by blast
      then obtain e where "rst_executions (orc_state d) = rst_executions (orc_state a) @ [e]" "ex_key e = cand_key c"
          "called_only c (orc_scheduler a) (orc_scheduler d)"
        unfolding round_ended_def by blast
      with c show ?thesis by (intro disjI2 bexI [of _ c] exI [of _ e] exI [of _ l]) auto
    qed (simp add: idle_step_def)
  next
    case False
    then show ?thesis using raw not_steppable [OF False] by simp
  qed
  show ?thesis
  proof (cases "resting (rst_state (orc_state a)) \<or> (\<exists>e. x = Inl e \<and> halted (fail_with e d) = (r, b))")
    case True
    then show ?thesis using step main failed by (auto simp: started_step_def)
  next
    case False
    then have "b = d" using step raw by (auto simp: started_step_def split: sum.splits orch_error.splits if_splits)
    with main show ?thesis by simp
  qed
qed

definition started_demo :: "unit orchestrator" where
  "started_demo = (demo_campaign None)\<lparr>orc_started := True\<rparr>"

theorem steps_call_admitted_engines_witness:
  "\<exists>r b. orc_step started_demo = (r, b) \<and>
    (orc_scheduler b = orc_scheduler started_demo \<and>
      rst_executions (orc_state b) = rst_executions (orc_state started_demo) \<and>
      rst_budget (orc_state b) = rst_budget (orc_state started_demo) \<or>
    (\<exists>c\<in>step_choices started_demo. \<exists>e l. called_only c (orc_scheduler started_demo) (orc_scheduler b) \<and>
      reserve (cand_cost c) (rst_budget (orc_state started_demo)) = Inr l \<and>
      cand_key c \<notin> ex_key ` {x \<in> set (rst_executions (orc_state started_demo)). live x} \<and>
      rst_executions (orc_state b) = rst_executions (orc_state started_demo) @ [e] \<and> ex_key e = cand_key c))"
proof -
  obtain r b where s: "orc_step started_demo = (r, b)" by (cases "orc_step started_demo")
  have "orc_started started_demo" by (simp add: started_demo_def)
  from steps_call_admitted_engines [OF this s] s show ?thesis by blast
qed

text \<open>What executions that were interrupted had taken of an amount.\<close>

definition interrupted_cost :: "execution_record list \<Rightarrow> string \<Rightarrow> int" where
  "interrupted_cost es k =
     sum_list (map snd (filter (\<lambda>kv. fst kv = k) (concat (map ex_consumed (filter interrupted es)))))"

lemma charge_consumed:
  "amount (bl_consumed (charge_interrupted es l)) k = amount (bl_consumed l) k + interrupted_cost es k"
proof -
  have one: "amount (bl_consumed (fold charge_one cs l)) k =
      amount (bl_consumed l) k + sum_list (map snd (filter (\<lambda>kv. fst kv = k) cs))" for cs l
  proof (induction cs arbitrary: l)
    case (Cons c cs)
    have "amount (bl_consumed (charge_one c l)) k = amount (bl_consumed l) k + (if fst c = k then snd c else 0)"
      by (auto simp: charge_one_def Let_def amount_def dict_get_set)
    then show ?case using Cons.IH [of "charge_one c l"] by simp
  qed simp
  have "amount (bl_consumed (fold (\<lambda>e l. fold charge_one (ex_consumed e) l) xs l)) k =
      amount (bl_consumed l) k + sum_list (map snd (filter (\<lambda>kv. fst kv = k) (concat (map ex_consumed xs))))" for xs l
    by (induction xs arbitrary: l) (simp_all add: one)
  then show ?thesis by (simp add: charge_interrupted_def interrupted_cost_def)
qed

lemma charge_remaining:
  assumes "map_of (bl_limits l) k \<noteq> None"
  shows "ledger_remaining (charge_interrupted es l) k = ledger_remaining l k - interrupted_cost es k"
  using assms by (auto simp: ledger_remaining_def charge_keeps charge_consumed)

text \<open>C10. After a restart, however generous the new configuration is, a limited amount has at most left what the saved limit leaves after the saved consumption and after what every interrupted execution had taken, which is charged; so it has no more left than the saved state had, when the saved reservations are those of the interrupted executions.\<close>

theorem restarts_never_refill:
  assumes "start_orchestrator explicit a = (Inr u, b)" and "loads a t"
    and "(k, v) \<in> set (bl_limits (rst_budget t))" and "(k, n) \<in> set (bl_consumed (rst_budget t))"
    and "map_of (bl_limits (fresh_ledger a)) k \<noteq> None"
  shows "ledger_remaining (rst_budget (orc_state b)) k \<le> v - n - interrupted_cost (rst_executions t) k \<and>
    (amount (bl_reserved (rst_budget t)) k \<le> interrupted_cost (rst_executions t) k \<longrightarrow>
       ledger_remaining (rst_budget (orc_state b)) k \<le> ledger_remaining (rst_budget t) k)"
proof -
  obtain m where m: "map_of (bl_limits (fresh_ledger a)) k = Some m" using assms(5) by auto
  let ?l = "merge_restored (rst_budget t) (fresh_ledger a)" and ?c = "interrupted_cost (rst_executions t) k"
  have "rst_budget (orc_state b) = charge_interrupted (rst_executions t) ?l"
    using start_effect(3) [OF assms(1,2)] by (simp add: brought_def restored_state_def restored_ledger_def)
  then have b: "ledger_remaining (rst_budget (orc_state b)) k = ledger_remaining ?l k - ?c"
    using charge_remaining [OF merge_never_widens(1) [OF m]] by simp
  have bound: "ledger_remaining (rst_budget (orc_state b)) k \<le> v' - n' - ?c"
    if "(k, v') \<in> set (bl_limits (rst_budget t))" "(k, n') \<in> set (bl_consumed (rst_budget t))" for v' n'
    using merge_never_widens(3) [OF m that] b by simp
  obtain v' n' where "map_of (bl_limits (rst_budget t)) k = Some v'" "map_of (bl_consumed (rst_budget t)) k = Some n'"
    using assms(3,4) by (metis domD domIff fst_conv imageI map_of_eq_None_iff option.exhaust)
  moreover from this have "ledger_remaining (rst_budget (orc_state b)) k \<le> v' - n' - ?c" by (intro bound map_of_SomeD)
  ultimately show ?thesis using bound [OF assms(3,4)] by (auto simp: ledger_remaining_def amount_def dict_get_def)
qed

text \<open>A saved state with an execution that was interrupted and holds a reservation.\<close>

definition demo_interrupted :: execution_record where
  "demo_interrupted =
     \<lparr>ex_key = ''x'', ex_decision = [], ex_engine = ''e'', ex_capability = [], ex_input = [], ex_after = [],
      ex_phase = X_STARTED, ex_status = ''started'', ex_executed = False, ex_failure = FC_NONE,
      ex_consumed = [(''engines'', 1)], ex_evidence = [], ex_round = 1, ex_retries = 0, ex_retryable = False\<rparr>"

definition demo_saved :: research_state where
  "demo_saved = (new_state demo_identity
     \<lparr>bl_limits = [(''engines'', 4)], bl_consumed = [(''engines'', 2)], bl_reserved = [(''engines'', 1)], bl_overrun = False\<rparr>)
       \<lparr>rst_executions := [demo_interrupted]\<rparr>"

definition demo_store :: "unit store" where
  "demo_store = \<lparr>str_save = \<lambda>t w. (None, w), str_load = \<lambda>c w. (Inr (Some demo_saved), w)\<rparr>"

lemma demo_cost: "interrupted_cost (rst_executions demo_saved) ''engines'' = 1"
  by (simp add: demo_saved_def new_state_def demo_interrupted_def interrupted_cost_def interrupted_def)

lemma demo_restores: "\<exists>c. restore_campaign demo_saved x (demo_campaign (Some demo_store)) = (Inr (), c) \<and> orc_store c = Some demo_store"
proof -
  have saved: "rst_identity demo_saved = demo_identity" "rst_state demo_saved = O_CREATED"
    by (simp_all add: demo_saved_def new_state_def)
  let ?b = "on_state (\<lambda>x. restored_state demo_saved (restored_ledger demo_saved (demo_campaign (Some demo_store)))) (demo_campaign (Some demo_store))"
  let ?c = "fold record_recovery (map recovered_record (filter interrupted (rst_executions demo_saved))) ?b"
  have "rst_state (orc_state (record_recovery e c)) = rst_state (orc_state c)" for e and c :: "unit orchestrator"
    by (simp add: record_recovery_def record_decision_def Let_def)
  then have "rst_state (orc_state (fold record_recovery es c)) = rst_state (orc_state c)" for es and c :: "unit orchestrator"
    by (induction es arbitrary: c) simp_all
  then have "rst_state (orc_state ?c) = O_CREATED" using saved by (simp add: restored_state_def)
  moreover have "orc_store ?c = Some demo_store"
    using recovery_brought [of ?b] by (simp add: same_frame_def demo_campaign_fresh)
  ultimately show ?thesis
    by (simp add: restore_campaign_def saved demo_campaign_fresh Let_def normalize_state_def restored_ledger_def)
qed

theorem restarts_never_refill_witness:
  "\<exists>b. start_orchestrator True (demo_campaign (Some demo_store)) = (Inr (), b) \<and>
     ledger_remaining (rst_budget (orc_state b)) ''engines'' \<le> 1 \<and>
     ledger_remaining (rst_budget (orc_state b)) ''engines'' \<le> ledger_remaining (rst_budget demo_saved) ''engines''"
proof -
  let ?a = "demo_campaign (Some demo_store)"
  obtain c where c: "restore_campaign demo_saved True ?a = (Inr (), c)" "orc_store c = Some demo_store"
    using demo_restores by blast
  have w: "?a\<lparr>orc_world := w\<rparr> = ?a" for w by simp
  have load: "str_load demo_store i w = (Inr (Some demo_saved), w)" and save: "str_save demo_store t w = (None, w)" for i t w
    by (simp_all add: demo_store_def)
  have "\<exists>d. save_state c = (Inr (), d)" by (simp add: save_state_def c(2) save Let_def)
  then obtain b where b: "start_orchestrator True ?a = (Inr (), b)"
    using c by (auto simp: start_orchestrator_def demo_campaign_fresh load w)
  have l: "loads ?a demo_saved" by (simp add: loads_def demo_campaign_fresh load)
  have k: "(''engines'', 4) \<in> set (bl_limits (rst_budget demo_saved))" "(''engines'', 2) \<in> set (bl_consumed (rst_budget demo_saved))"
    by (simp_all add: demo_saved_def new_state_def)
  have m: "map_of (bl_limits (fresh_ledger ?a)) ''engines'' \<noteq> None"
    by (simp add: fresh_limits new_ledger_def Let_def cap_limits_def demo_campaign_def new_orchestrator_def)
  have "amount (bl_reserved (rst_budget demo_saved)) ''engines'' = 1"
    by (simp add: demo_saved_def new_state_def amount_def dict_get_def)
  then show ?thesis using restarts_never_refill [OF b l k m] b demo_cost by auto
qed

end
