(* ===== verification/Spec2Isabelle.thy ===== *)
theory Spec2Isabelle
  imports Approvals Safety Dns AuditLog Findings Tools Engine HttpClient EngineRuns H1Runs H1Intents Privilege Projects Identities Replay Scheduling OrchCampaign
begin

text \<open>
  BugForge: the safety core of an AI-assisted security testing platform.

  The development models the Python code under \<open>src/backend/app\<close> that decides what the platform
  may send, to whom, with whose permission, and what it may claim afterwards. The paths below are
  relative to \<open>src/backend/app\<close>.

  \<^bold>\<open>Parts and theories.\<close>

  \<^item> \<open>Prelude\<close>, \<open>PyStr\<close>, \<open>Clock\<close>, \<open>IpAddr\<close>, \<open>Url\<close>, \<open>Sha256\<close>, \<open>Json\<close>, \<open>PyVal\<close>: error values for the
    exceptions, insertion ordered dictionaries, the contract of a state machine with an invariant
    (locales \<open>guarded_machine\<close> and \<open>machine\<close>), and what the code uses of the standard library:
    strings, time stamps, \<open>ipaddress\<close>, \<open>urllib.parse\<close>, \<open>hashlib\<close> and \<open>hmac\<close>, \<open>json\<close>, and
    values whose type is only known when the program runs.
  \<^item> \<open>Target\<close> (\<open>security_testing/target.py\<close>, \<open>lab.py\<close>) and \<open>Scope\<close> (\<open>scope_model.py\<close>,
    \<open>scope_guard.py\<close>, \<open>domain/scope.py\<close>): targets in canonical form and the scope guard. The guard
    is proved equal to declarative specifications, live and in the laboratory.
  \<^item> \<open>Approvals\<close> (\<open>approvals.py\<close>, \<open>operator_auth.py\<close>): the ledger of human approvals and operator
    sessions. \<open>Safety\<close> (\<open>safety.py\<close>, \<open>rate_limit.py\<close>): request budgets and the rate limiter.
    \<open>Dns\<close> (\<open>dns.py\<close>): which resolved addresses a policy admits. \<open>Secrets\<close> (\<open>secrets.py\<close>,
    \<open>domain/http.py\<close>): redaction, over a small backtracking matcher for the regular expressions.
    \<open>Tools\<close> (\<open>failures.py\<close>, \<open>scanner_policy.py\<close>): tool results and scanner envelopes.
  \<^item> \<open>AuditLog\<close> (\<open>audit.py\<close>): the hash-chained log.
  \<^item> \<open>Evidence\<close> (\<open>domain/evidence.py\<close>, \<open>trusted_evidence.py\<close>) and \<open>Findings\<close>
    (\<open>domain/findings.py\<close>, \<open>lifecycle_policy.py\<close>, \<open>security.py\<close>): signed observations, and the life
    of a finding, whose invariant says that every claim has the evidence it needs.
  \<^item> \<open>Engine\<close> (\<open>security_testing/engine.py\<close>) composes guard, approvals, addresses, limits and log;
    \<open>HttpClient\<close> (\<open>http_client.py\<close>) is the only way to the network and asks the engine at every hop;
    \<open>EngineRuns\<close> interleaves the operations of one engine.
  \<^item> \<open>H1Program\<close> (\<open>adapters/hackerone/models.py\<close>, \<open>remote_state.py\<close>, \<open>hashes.py\<close>,
    \<open>scope_hash.py\<close>, \<open>freshness.py\<close>), \<open>H1Evaluator\<close> (\<open>weakness.py\<close>, \<open>evaluator.py\<close>), \<open>H1Reports\<close>
    (\<open>reports.py\<close>): HackerOne programs and the report workflow; \<open>H1Runs\<close> interleaves its callers.
    \<open>H1Intents\<close> (\<open>intents.py\<close>): report intents and their attachments, as one machine of operations.
  \<^item> The research agent, \<open>security_agent\<close>. \<open>Budget\<close> (\<open>budget.py\<close>, \<open>cost.py\<close>): what a session may spend.
    \<open>Injection\<close> (\<open>injection.py\<close>, \<open>security_testing/sanitization.py\<close>): text that is not trusted.
    \<open>EvidenceGraph\<close> (\<open>evidence_graph.py\<close>): nodes, relations and why something is believed.
    \<open>AgentTools\<close> (\<open>tools.py\<close>): the registry of tools and permits that are spent once. \<open>Research\<close>
    (\<open>correlation.py\<close>, \<open>confidence.py\<close>, \<open>prioritize.py\<close>, \<open>leads.py\<close>): hypotheses, their strength and
    rank. \<open>Promotion\<close> (\<open>promotion.py\<close>) and \<open>Reproduction\<close> (\<open>oracles.py\<close>, \<open>reproduction.py\<close>): how a
    hypothesis becomes a finding and how a plan is executed through the gated client.
    \<open>Agent\<close> (\<open>agent.py\<close>, \<open>_execute_tool\<close> and \<open>_authorize_target\<close>) executes one tool; \<open>AgentControl\<close> is
    the rest of \<open>agent.py\<close>: the operator, the planner's output and the loop. \<open>Executors\<close> (\<open>executors.py\<close>):
    what the registered tools do with the engine, the graph and the exchanges; what they can change is
    shown once for all of them in the locale \<open>tool_effect\<close>. \<open>AgentEffects\<close> proves what
    all of these steps leave alone, once, in the locale \<open>agent_effect\<close>. \<open>Privilege\<close> (\<open>privilege.py\<close>, \<open>checkpoints.py\<close>): what a
    session may do is stored, and a resumed session gets what of it is still valid; limits that are not
    stored become the defaults. \<open>Memory\<close>
    (\<open>memory.py\<close>, \<open>secrets.py\<close>, \<open>chains.py\<close>), \<open>Projects\<close> (\<open>project.py\<close> and the notes of a project),
    \<open>Identities\<close> (\<open>identities.py\<close>, \<open>authorization_diff.py\<close>): what is remembered of an application, and
    comparing what two identities receive. \<open>Replay\<close> (\<open>replay.py\<close>): the loop that plays a session again,
    a partial function, and when it ends.
  \<^item> Research by engines, \<open>discovery\<close>. \<open>Discovery\<close> (\<open>capabilities.py\<close>, \<open>corpus.py\<close>, \<open>results.py\<close>,
    \<open>engine.py\<close>, \<open>correlation.py\<close>) and \<open>Scheduling\<close> (\<open>scheduler.py\<close>): engines, what they report, and
    the scheduler that calls them. In \<open>orchestration\<close>: \<open>OrchModel\<close> (\<open>model.py\<close>, \<open>codec.py\<close>): the state of a
    campaign, its machine of states and its ledger; \<open>OrchBudget\<close> (\<open>budget.py\<close>, \<open>gate.py\<close>);
    \<open>OrchEvidence\<close> (\<open>evidence.py\<close>): items, corroboration, contradictions; \<open>OrchPlan\<close> (\<open>assess.py\<close>,
    \<open>planner.py\<close>): which capability is needed and which engine is chosen, which \<open>OrchChoice\<close> compares
    with the best of all admissible choices; \<open>Orchestrator\<close> (\<open>orchestrator.py\<close>, \<open>report.py\<close>): rounds,
    stops, restores and the calls of an operator. \<open>OrchRuns\<close> shows what one step does and keeps,
    \<open>OrchCampaign\<close> what a start, a run and any sequence of calls do; a start that finds nothing saved begins
    anew, so that limits and the log are kept between starts only.

  \<^bold>\<open>How the code is rendered.\<close> A dataclass is a record, an enumeration a datatype, a dictionary an
  association list in insertion order. A method that changes an object returns the changed object;
  a \<open>raise\<close> is an \<open>Inl\<close> of the type \<open>error\<close>. Python integers are \<open>int\<close>, floats are rationals, IPv6
  addresses are words of 128 bits and SHA-256 computes on words of 32 bits. Readings of the clock,
  new identifiers, random tokens and the environment are arguments. Code that is not in the
  repository, the resolver, the HTTP library and the HackerOne service, is a function argument.

  \<^bold>\<open>Groups of lemmas.\<close> Each component has an invariant that its operations keep, by an
  interpretation of \<open>guarded_machine\<close> or \<open>machine\<close> on its own operations (\<open>ledger\<close>, \<open>reporting\<close>
  and others); properties of whole runs are instances. Decisions are compared with specifications
  that quantify over rules instead of searching them. Statements about hashes name the texts that
  would have to collide (\<open>collides\<close>); no hash is assumed to be injective.

  \<^bold>\<open>Bounds and fuel.\<close> \<open>percent_decode_bounded\<close> takes the three rounds of the code. The redirect loop
  of \<open>HttpClient\<close> ends because the remaining redirects decrease. The fuel of \<open>Json.read_value\<close> is
  twice the length of the text, which bounds the depth of calls. The steps of a run of the agent are
  bounded by the limit of its loop. The loop of a campaign is a partial function; \<open>run_returns\<close> shows
  that it ends because every step that goes on spends an attempt. The search of \<open>why\<close> ends because the nodes not seen decrease. All
  other recursion is structural or has a measure.

  \<^bold>\<open>Not modelled.\<close> The static analysers and parsers (tree-sitter and Slither are third-party), the
  HTTP API, the database and the workers, the clients of language models and of external tools.
  In \<open>reports.py\<close> the search for remote reports is an argument of \<open>reconcile\<close>: it parses time
  stamps of the service and searches the \<open>repr\<close> of a dictionary. Case mapping, digits and white
  space are those of ASCII.

  Of \<open>security_agent\<close>, what the executors of tools call outside the agent is an argument: the files of
  the repository, the browser, the scanners, the fuzzer, the API tests and the sandbox of generated tests.
  The prompt context, the refresh of privileges before a step and the database of leads are left out. Of
  \<open>discovery\<close>, the single engines, the control plane of \<open>bounty\<close> and the tables a campaign is stored
  in are left out: an engine and a store are records of their methods.

  \<^bold>\<open>Plan.\<close> The HackerOne client and the import of programs; the campaign control of \<open>discovery/bounty\<close>; Keccak of \<open>parsing\<close>.
\<close>

end
